(* ===== verification/Gateway_Prelude.thy ===== *)
theory Gateway_Prelude
  imports Main "HOL-Library.Char_ord" "HOL-Library.List_Lexorder"
begin

text \<open>
  Shared vocabulary of the development: results with an error as a value, loops that stop at
  the first error, indexes built from a list with a duplicate check, the 64-bit signed
  arithmetic of the source (\<open>saturating_add\<close>, \<open>saturating_sub\<close>, and the plain operators with
  their wrap-around), decimal printing, and the joins that build composite keys.

  A Rust \<open>String\<close> is modelled by the list of its UTF-8 bytes (\<open>string\<close>), and the order of
  \<open>String\<close> is the lexicographic order of these bytes, which is the order of
  \<open>HOL-Library.List_Lexorder\<close> over \<open>HOL-Library.Char_ord\<close>. A \<open>DateTime<Utc>\<close> is an integer
  number of nanoseconds since the Unix epoch.
\<close>

named_theorems result_simps \<open>rewriting of results and of loops over results\<close>
named_theorems i64_simps \<open>rewriting of 64-bit signed arithmetic\<close>

type_synonym datetime = int
type_synonym i64 = int

subsection \<open>Results\<close>

text \<open>\<open>Result<T, E>\<close> is the sum \<open>'e + 'a\<close>, with \<open>Inl\<close> for \<open>Err\<close>; \<open>?\<close> is \<open>rbind\<close>.\<close>

fun rbind :: "'e + 'a \<Rightarrow> ('a \<Rightarrow> 'e + 'b) \<Rightarrow> 'e + 'b" where
  "rbind (Inl e) f = Inl e"
| "rbind (Inr a) f = f a"

text \<open>\<open>ok_or\<close>: an option with an error for \<open>None\<close>.\<close>

fun ok_or :: "'e \<Rightarrow> 'a option \<Rightarrow> 'e + 'a" where
  "ok_or e None = Inl e"
| "ok_or e (Some a) = Inr a"

text \<open>\<open>if c { return Err(e) }\<close>: the rest runs only when the guard does not fire.\<close>

definition fail_if :: "bool \<Rightarrow> 'e \<Rightarrow> 'e + unit" where
  "fail_if c e = (if c then Inl e else Inr ())"

text \<open>\<open>for x in xs { f(x)?; } Ok(())\<close>.\<close>

fun try_all :: "('a \<Rightarrow> 'e + unit) \<Rightarrow> 'a list \<Rightarrow> 'e + unit" where
  "try_all f [] = Inr ()"
| "try_all f (x # xs) = rbind (f x) (\<lambda>_. try_all f xs)"

lemma rbind_Inr_iff [result_simps]:
  "rbind m f = Inr b \<longleftrightarrow> (\<exists>a. m = Inr a \<and> f a = Inr b)"
  by (cases m) auto

lemma rbind_Inl_iff [result_simps]:
  "rbind m f = Inl e \<longleftrightarrow> m = Inl e \<or> (\<exists>a. m = Inr a \<and> f a = Inl e)"
  by (cases m) auto

lemma ok_or_Inr_iff [result_simps]: "ok_or e x = Inr a \<longleftrightarrow> x = Some a"
  by (cases x) auto

lemma ok_or_Inl_iff [result_simps]: "ok_or e x = Inl e' \<longleftrightarrow> x = None \<and> e' = e"
  by (cases x) auto

lemma fail_if_Inr_iff [result_simps]: "fail_if c e = Inr u \<longleftrightarrow> \<not> c"
  by (simp add: fail_if_def)

lemma fail_if_Inl_iff [result_simps]: "fail_if c e = Inl e' \<longleftrightarrow> c \<and> e' = e"
  by (auto simp: fail_if_def)

lemma fail_if_bool [simp]: "fail_if True e = Inl e" "fail_if False e = Inr ()"
  by (simp_all add: fail_if_def)

lemma try_all_Inr_iff [result_simps]:
  "try_all f xs = Inr u \<longleftrightarrow> (\<forall>x \<in> set xs. f x = Inr ())"
  by (induction xs) (auto simp: rbind_Inr_iff)

text \<open>The error of a loop is the error of its first failing element.\<close>

lemma try_all_InlD:
  "try_all f xs = Inl e \<Longrightarrow>
     \<exists>ys x zs. xs = ys @ x # zs \<and> (\<forall>y \<in> set ys. f y = Inr ()) \<and> f x = Inl e"
proof (induction xs)
  case Nil
  then show ?case by simp
next
  case (Cons x xs)
  show ?case
  proof (cases "f x")
    case (Inl e')
    with Cons.prems have "e' = e" by simp
    with Inl show ?thesis by (metis append_Nil empty_iff empty_set)
  next
    case (Inr u)
    with Cons.prems have "try_all f xs = Inl e" by simp
    then obtain ys z zs where "xs = ys @ z # zs" "\<forall>y \<in> set ys. f y = Inr ()" "f z = Inl e"
      using Cons.IH by blast
    with Inr have "x # xs = (x # ys) @ z # zs" "\<forall>y \<in> set (x # ys). f y = Inr ()"
      by auto
    with \<open>f z = Inl e\<close> show ?thesis by blast
  qed
qed

subsection \<open>Indexes\<close>

text \<open>
  The \<open>index_*\<close> functions of the catalog insert every element of a slice into a
  \<open>HashMap\<close> under its id, and stop at the first id that is already present.
\<close>

fun index_into :: "('a \<Rightarrow> string) \<Rightarrow> ('a \<Rightarrow> 'e) \<Rightarrow> (string \<rightharpoonup> 'a) \<Rightarrow> 'a list \<Rightarrow> 'e + (string \<rightharpoonup> 'a)" where
  "index_into key dup m [] = Inr m"
| "index_into key dup m (x # xs) =
     (case m (key x) of
        Some _ \<Rightarrow> Inl (dup x)
      | None \<Rightarrow> index_into key dup (m(key x \<mapsto> x)) xs)"

definition index_by :: "('a \<Rightarrow> string) \<Rightarrow> ('a \<Rightarrow> 'e) \<Rightarrow> 'a list \<Rightarrow> 'e + (string \<rightharpoonup> 'a)" where
  "index_by key dup xs = index_into key dup Map.empty xs"

text \<open>The reference: the first element with a given id.\<close>

definition lookup_by :: "('a \<Rightarrow> string) \<Rightarrow> 'a list \<Rightarrow> string \<rightharpoonup> 'a" where
  "lookup_by key xs k = find (\<lambda>x. key x = k) xs"

lemma lookup_by_Nil [simp]: "lookup_by key [] k = None"
  by (simp add: lookup_by_def)

lemma lookup_by_Cons [simp]:
  "lookup_by key (x # xs) k = (if key x = k then Some x else lookup_by key xs k)"
  by (simp add: lookup_by_def)

lemma lookup_by_SomeD: "lookup_by key xs k = Some x \<Longrightarrow> x \<in> set xs \<and> key x = k"
  by (induction xs) (auto split: if_splits)

lemma lookup_by_None_iff: "lookup_by key xs k = None \<longleftrightarrow> k \<notin> key ` set xs"
  by (induction xs) auto

lemma lookup_by_distinct:
  "distinct (map key xs) \<Longrightarrow> x \<in> set xs \<Longrightarrow> lookup_by key xs (key x) = Some x"
  by (induction xs) force+

lemma lookup_by_Some_iff:
  "distinct (map key xs) \<Longrightarrow> lookup_by key xs k = Some x \<longleftrightarrow> x \<in> set xs \<and> key x = k"
  by (metis lookup_by_SomeD lookup_by_distinct)

text \<open>A reference that must resolve: the continuation succeeds on the element with the id.\<close>

lemma lookup_case_Inr_iff:
  assumes "distinct (map key xs)" and "missing \<noteq> Inr u"
  shows "(case lookup_by key xs k of None \<Rightarrow> missing | Some x \<Rightarrow> f x) = Inr u \<longleftrightarrow>
    (\<exists>x \<in> set xs. key x = k \<and> f x = Inr u)"
proof (cases "lookup_by key xs k")
  case None
  then have "k \<notin> key ` set xs" by (simp add: lookup_by_None_iff)
  with None assms show ?thesis by auto
next
  case (Some x)
  with assms have "x' = x" if "x' \<in> set xs" "key x' = k" for x'
    using that lookup_by_distinct by fastforce
  with Some show ?thesis by (auto dest: lookup_by_SomeD)
qed

lemma option_case_Inr_iff:
  "missing \<noteq> Inr u \<Longrightarrow>
     (case x of None \<Rightarrow> missing | Some a \<Rightarrow> f a) = Inr u \<longleftrightarrow> (\<exists>a. x = Some a \<and> f a = Inr u)"
  "(case x of None \<Rightarrow> Inr () | Some a \<Rightarrow> g a) = Inr v \<longleftrightarrow> (\<forall>a. x = Some a \<longrightarrow> g a = Inr v)"
  by (cases x; auto)+

lemma index_into_Inr:
  "index_into key dup m xs = Inr m' \<longleftrightarrow>
     distinct (map key xs) \<and> key ` set xs \<inter> dom m = {} \<and> m' = m ++ lookup_by key xs"
proof (induction xs arbitrary: m)
  case Nil
  have "m ++ lookup_by key [] = m" by (rule ext) (simp add: map_add_def)
  then show ?case by auto
next
  case (Cons x xs)
  show ?case
  proof (cases "m (key x)")
    case (Some y)
    then show ?thesis by (auto simp: dom_def)
  next
    case None
    have upd: "m(key x \<mapsto> x) ++ lookup_by key xs = m ++ lookup_by key (x # xs)"
      if "key x \<notin> key ` set xs"
    proof
      fix k
      have "lookup_by key xs (key x) = None"
        using that by (simp add: lookup_by_None_iff)
      then show "(m(key x \<mapsto> x) ++ lookup_by key xs) k = (m ++ lookup_by key (x # xs)) k"
        by (auto simp: map_add_def split: option.splits)
    qed
    have "index_into key dup m (x # xs) = Inr m' \<longleftrightarrow>
        distinct (map key xs) \<and> key ` set xs \<inter> dom (m(key x \<mapsto> x)) = {} \<and>
        m' = m(key x \<mapsto> x) ++ lookup_by key xs"
      using None Cons.IH [of "m(key x \<mapsto> x)"] by (simp only: index_into.simps option.case)
    also have "\<dots> \<longleftrightarrow> distinct (map key (x # xs)) \<and> key ` set (x # xs) \<inter> dom m = {} \<and>
        m' = m ++ lookup_by key (x # xs)"
      using None upd by auto
    finally show ?thesis .
  qed
qed

lemma index_by_Inr_iff [result_simps]:
  "index_by key dup xs = Inr m \<longleftrightarrow> distinct (map key xs) \<and> m = lookup_by key xs"
  by (simp add: index_by_def index_into_Inr)

lemma index_by_distinct: "distinct (map key xs) \<Longrightarrow> index_by key dup xs = Inr (lookup_by key xs)"
  by (simp add: index_by_Inr_iff)

subsection \<open>64-bit signed arithmetic\<close>

definition i64_min :: i64 where "i64_min = - (2 ^ 63)"
definition i64_max :: i64 where "i64_max = 2 ^ 63 - 1"

definition is_i64 :: "int \<Rightarrow> bool" where
  "is_i64 x \<longleftrightarrow> i64_min \<le> x \<and> x \<le> i64_max"

definition saturating_add :: "i64 \<Rightarrow> i64 \<Rightarrow> i64" where
  "saturating_add a b = max i64_min (min i64_max (a + b))"

definition saturating_sub :: "i64 \<Rightarrow> i64 \<Rightarrow> i64" where
  "saturating_sub a b = max i64_min (min i64_max (a - b))"

definition saturating_mul :: "i64 \<Rightarrow> i64 \<Rightarrow> i64" where
  "saturating_mul a b = max i64_min (min i64_max (a * b))"

text \<open>
  The plain operators of the release profile: two's complement wrap-around. The debug profile
  panics instead, so a model that uses \<open>wrap_i64\<close> agrees with both wherever no wrap happens.
\<close>

definition wrap_i64 :: "int \<Rightarrow> i64" where
  "wrap_i64 x = (x + 2 ^ 63) mod 2 ^ 64 - 2 ^ 63"

lemma wrap_i64_code [code]:
  "wrap_i64 x = (if - 9223372036854775808 \<le> x \<and> x \<le> 9223372036854775807 then x
     else (x + 9223372036854775808) mod 18446744073709551616 - 9223372036854775808)"
  by (simp add: wrap_i64_def)

lemma i64_bounds [i64_simps]: "i64_min = - 9223372036854775808" "i64_max = 9223372036854775807"
  by (simp_all add: i64_min_def i64_max_def)

lemma saturating_add_is_i64: "is_i64 (saturating_add a b)"
  by (simp add: is_i64_def saturating_add_def i64_simps)

lemma saturating_sub_is_i64: "is_i64 (saturating_sub a b)"
  by (simp add: is_i64_def saturating_sub_def i64_simps)

lemma saturating_add_exact: "is_i64 (a + b) \<Longrightarrow> saturating_add a b = a + b"
  by (simp add: is_i64_def saturating_add_def)

lemma saturating_sub_exact: "is_i64 (a - b) \<Longrightarrow> saturating_sub a b = a - b"
  by (simp add: is_i64_def saturating_sub_def)

lemma saturating_add_0: "is_i64 a \<Longrightarrow> saturating_add a 0 = a"
  by (simp add: saturating_add_exact)

lemma saturating_add_mono: "a \<le> a' \<Longrightarrow> b \<le> b' \<Longrightarrow> saturating_add a b \<le> saturating_add a' b'"
  by (auto simp: saturating_add_def)

lemma wrap_i64_is_i64: "is_i64 (wrap_i64 x)"
proof -
  have "0 \<le> (x + 2 ^ 63) mod 2 ^ 64" "(x + 2 ^ 63) mod 2 ^ 64 < 2 ^ 64"
    by (simp_all add: pos_mod_bound)
  then show ?thesis by (simp add: is_i64_def wrap_i64_def i64_simps)
qed

lemma wrap_i64_exact: "is_i64 x \<Longrightarrow> wrap_i64 x = x"
  by (simp add: is_i64_def wrap_i64_def i64_simps)

subsection \<open>Printing and joining\<close>

fun nat_digits :: "nat \<Rightarrow> string" where
  "nat_digits n =
     (if n < 10 then [char_of (48 + n)] else nat_digits (n div 10) @ [char_of (48 + n mod 10)])"

declare nat_digits.simps [simp del]

definition int_to_string :: "int \<Rightarrow> string" where
  "int_to_string i = (if i < 0 then ''-'' @ nat_digits (nat (- i)) else nat_digits (nat i))"

text \<open>\<open>[a, b, \<dots>].join(sep)\<close>.\<close>

fun join_with :: "string \<Rightarrow> string list \<Rightarrow> string" where
  "join_with sep [] = ''''"
| "join_with sep [x] = x"
| "join_with sep (x # y # zs) = x @ sep @ join_with sep (y # zs)"

text \<open>Printing is injective: the decimal value of the digits gives the number back.\<close>

definition digits_value :: "string \<Rightarrow> nat" where
  "digits_value s = foldl (\<lambda>a c. a * 10 + (of_char c - 48)) 0 s"

lemma digits_value_nat_digits: "digits_value (nat_digits n) = n"
proof (induction n rule: nat_digits.induct)
  case (1 n)
  have digit: "of_char (char_of (48 + m :: nat)) = 48 + m" if "m < 10" for m :: nat
    using that by simp
  show ?case
  proof (cases "n < 10")
    case True
    then show ?thesis by (simp add: nat_digits.simps digits_value_def)
  next
    case False
    with 1 have "digits_value (nat_digits (n div 10)) = n div 10" by simp
    with False show ?thesis by (subst nat_digits.simps) (simp add: digits_value_def)
  qed
qed

lemma nat_digits_inject [simp]: "nat_digits m = nat_digits n \<longleftrightarrow> m = n"
  by (metis digits_value_nat_digits)

lemma nat_digits_chars: "c \<in> set (nat_digits n) \<Longrightarrow> 48 \<le> (of_char c :: nat) \<and> (of_char c :: nat) \<le> 57"
proof (induction n rule: nat_digits.induct)
  case (1 n)
  show ?case
  proof (cases "n < 10")
    case True
    with 1(2) show ?thesis by (auto simp: nat_digits.simps)
  next
    case False
    have "n mod 10 < 10" by simp
    with 1 False show ?thesis by (subst (asm) nat_digits.simps) auto
  qed
qed

lemma int_to_string_chars: "c \<in> set (int_to_string i) \<Longrightarrow> c = CHR ''-'' \<or> (48 \<le> (of_char c :: nat) \<and> (of_char c :: nat) \<le> 57)"
  by (auto simp: int_to_string_def dest: nat_digits_chars split: if_splits)

lemma int_to_string_inject [simp]: "int_to_string i = int_to_string j \<longleftrightarrow> i = j"
proof
  have neg: "CHR ''-'' # xs \<noteq> nat_digits n" for xs n
  proof
    assume "CHR ''-'' # xs = nat_digits n"
    then have "CHR ''-'' \<in> set (nat_digits n)" by (metis list.set_intros(1))
    then show False by (auto dest!: nat_digits_chars)
  qed
  assume "int_to_string i = int_to_string j"
  then show "i = j" using neg [symmetric] by (auto simp: int_to_string_def neg split: if_splits)
qed simp

lemma join_with_snoc: "xs \<noteq> [] \<Longrightarrow> join_with sep (xs @ [y]) = join_with sep xs @ sep @ y"
  by (induction sep xs rule: join_with.induct) auto

text \<open>\<open>str::starts_with\<close> and \<open>str::ends_with\<close>.\<close>

definition starts_with :: "string \<Rightarrow> string \<Rightarrow> bool" where
  "starts_with s p \<longleftrightarrow> take (length p) s = p"

definition ends_with :: "string \<Rightarrow> string \<Rightarrow> bool" where
  "ends_with s p \<longleftrightarrow> drop (length s - length p) s = p"

text \<open>A key segment cannot be confused with its neighbours when it does not hold the separator.\<close>

lemma append_sep_eq:
  "c \<notin> set xs \<Longrightarrow> c \<notin> set xs' \<Longrightarrow> xs @ c # ys = xs' @ c # ys' \<longleftrightarrow> xs = xs' \<and> ys = ys'"
proof (induction xs arbitrary: xs')
  case Nil
  then show ?case by (cases xs') auto
next
  case (Cons x xs)
  then show ?case by (cases xs') auto
qed

lemma join_with_inject:
  "length xs = length ys \<Longrightarrow> \<forall>x \<in> set xs. c \<notin> set x \<Longrightarrow> \<forall>y \<in> set ys. c \<notin> set y \<Longrightarrow>
     join_with [c] xs = join_with [c] ys \<Longrightarrow> xs = ys"
proof (induction "[c]" xs arbitrary: ys rule: join_with.induct)
  case 1
  then show ?case by simp
next
  case (2 x)
  then show ?case by (cases ys) auto
next
  case (3 x y zs)
  from "3.prems"(1) obtain x' y' zs' where ys: "ys = x' # y' # zs'"
    by (metis length_0_conv list.exhaust list.inject length_Cons nat.inject nat.simps(3))
  from "3.prems" have "c \<notin> set x" "c \<notin> set x'" by (auto simp: ys)
  with "3.prems"(4) have "x = x'" "join_with [c] (y # zs) = join_with [c] (y' # zs')"
    by (auto simp: ys append_sep_eq)
  moreover from "3.prems" have "y # zs = y' # zs'"
    by (intro "3.hyps") (auto simp: ys \<open>join_with [c] (y # zs) = _\<close>)
  ultimately show ?case by (simp add: ys)
qed

subsection \<open>Options and iterators\<close>

text \<open>\<open>Option::is_none_or\<close> and \<open>Option::is_some_and\<close>.\<close>

definition is_none_or :: "'a option \<Rightarrow> ('a \<Rightarrow> bool) \<Rightarrow> bool" where
  "is_none_or x P = (case x of None \<Rightarrow> True | Some a \<Rightarrow> P a)"

definition is_some_and :: "'a option \<Rightarrow> ('a \<Rightarrow> bool) \<Rightarrow> bool" where
  "is_some_and x P = (case x of None \<Rightarrow> False | Some a \<Rightarrow> P a)"

definition opt_filter :: "('a \<Rightarrow> bool) \<Rightarrow> 'a option \<Rightarrow> 'a option" where
  "opt_filter P x = (case x of None \<Rightarrow> None | Some a \<Rightarrow> if P a then Some a else None)"

definition unwrap_or :: "'a option \<Rightarrow> 'a \<Rightarrow> 'a" where
  "unwrap_or x d = (case x of None \<Rightarrow> d | Some a \<Rightarrow> a)"

lemma option_ops [simp]:
  "is_none_or None P" "is_none_or (Some a) P = P a"
  "\<not> is_some_and None P" "is_some_and (Some a) P = P a"
  "opt_filter P None = None" "opt_filter P (Some a) = (if P a then Some a else None)"
  "unwrap_or None d = d" "unwrap_or (Some a) d = a"
  by (simp_all add: is_none_or_def is_some_and_def opt_filter_def unwrap_or_def)

lemma is_none_or_iff: "is_none_or x P \<longleftrightarrow> (\<forall>a. x = Some a \<longrightarrow> P a)"
  by (cases x) auto

lemma is_some_and_iff: "is_some_and x P \<longleftrightarrow> (\<exists>a. x = Some a \<and> P a)"
  by (cases x) auto

lemma opt_filter_Some_iff: "opt_filter P x = Some a \<longleftrightarrow> x = Some a \<and> P a"
  by (cases x) auto

text \<open>
  The position of the first element with a property, as \<open>Iterator::position\<close> returns it.
\<close>

fun position :: "('a \<Rightarrow> bool) \<Rightarrow> 'a list \<Rightarrow> nat option" where
  "position P [] = None"
| "position P (x # xs) = (if P x then Some 0 else map_option Suc (position P xs))"

lemma position_SomeD: "position P xs = Some i \<Longrightarrow> i < length xs \<and> P (xs ! i) \<and> (\<forall>j < i. \<not> P (xs ! j))"
proof (induction xs arbitrary: i)
  case Nil
  then show ?case by simp
next
  case (Cons x xs)
  show ?case
  proof (cases "P x")
    case True
    with Cons.prems show ?thesis by simp
  next
    case False
    with Cons.prems obtain j where "position P xs = Some j" "i = Suc j" by auto
    with Cons.IH [of j] False show ?thesis by (auto simp: nth_Cons split: nat.splits)
  qed
qed

lemma position_None_iff: "position P xs = None \<longleftrightarrow> (\<forall>x \<in> set xs. \<not> P x)"
  by (induction xs) auto

text \<open>
  A stable sort by a key, as \<open>sort_by\<close> with a total preorder is: \<open>sort_key\<close> of the library.
\<close>

lemma sort_key_first:
  fixes f :: "'a \<Rightarrow> 'b::linorder"
  assumes "sort_key f xs = ys @ x # zs" and "z \<in> set zs"
  shows "f x \<le> f z"
proof -
  have "sorted (map f (sort_key f xs))" by simp
  with assms show ?thesis by (simp add: sorted_append)
qed

end
