(* ===== verification/Gateway_Error.thy ===== *)
theory Gateway_Error
  imports Gateway_Prelude
begin

text \<open>
  The error envelope of the gateway (\<open>crates/starweaver-gateway/src/error.rs\<close>): the error
  type every fallible operation of the model returns, its stable code, its HTTP status and its
  message, and the envelope sent to the client with the retry hint. The protocol families
  (\<open>lib.rs\<close>) that errors and routes name are here too.
\<close>

datatype gateway_error =
    Authentication
  | Authorization string
  | BadRequest string
  | NotFound string
  | NoRoute string
  | BudgetExceeded string
  | QuotaExceeded string
  | RequestTimeout
  | NotReady
  | Upstream string
  | Internal string

type_synonym 'a gateway_result = "gateway_error + 'a"

text \<open>\<open>GatewayError::code\<close>.\<close>

fun error_code :: "gateway_error \<Rightarrow> string" where
  "error_code Authentication = ''gateway.auth.authentication_failed''"
| "error_code (Authorization _) = ''gateway.auth.authorization_denied''"
| "error_code (BadRequest _) = ''gateway.request.invalid''"
| "error_code (NotFound _) = ''gateway.resource.not_found''"
| "error_code (NoRoute _) = ''gateway.route.no_route''"
| "error_code (BudgetExceeded _) = ''gateway.budget.exceeded''"
| "error_code (QuotaExceeded _) = ''gateway.quota.exceeded''"
| "error_code RequestTimeout = ''gateway.request.timeout''"
| "error_code NotReady = ''gateway.runtime.not_ready''"
| "error_code (Upstream _) = ''gateway.upstream.failed''"
| "error_code (Internal _) = ''gateway.internal''"

text \<open>\<open>GatewayError::status\<close>, with the numbers of the \<open>StatusCode\<close> constants.\<close>

fun error_status :: "gateway_error \<Rightarrow> nat" where
  "error_status Authentication = 401"
| "error_status (Authorization _) = 403"
| "error_status (BadRequest _) = 400"
| "error_status (NotFound _) = 404"
| "error_status RequestTimeout = 408"
| "error_status (NoRoute _) = 503"
| "error_status NotReady = 503"
| "error_status (Upstream _) = 502"
| "error_status (BudgetExceeded _) = 429"
| "error_status (QuotaExceeded _) = 429"
| "error_status (Internal _) = 500"

text \<open>The \<open>Display\<close> message of each variant (its \<open>#[error(..)]\<close> attribute).\<close>

fun error_message :: "gateway_error \<Rightarrow> string" where
  "error_message Authentication = ''authentication failed''"
| "error_message (Authorization reason) = ''authorization denied: '' @ reason"
| "error_message (BadRequest message) = ''bad request: '' @ message"
| "error_message (NotFound resource) = ''not found: '' @ resource"
| "error_message (NoRoute reason) = ''no route available: '' @ reason"
| "error_message (BudgetExceeded reason) = ''budget exceeded: '' @ reason"
| "error_message (QuotaExceeded reason) = ''quota exceeded: '' @ reason"
| "error_message RequestTimeout = ''request timed out''"
| "error_message NotReady = ''service not ready''"
| "error_message (Upstream reason) = ''upstream provider failed: '' @ reason"
| "error_message (Internal message) = ''internal error: '' @ message"

record error_body =
  eb_code :: string
  eb_message :: string
  eb_retryable :: bool
  eb_request_id :: "string option"

record error_envelope =
  ee_schema :: string
  ee_error :: error_body

fun error_retryable :: "gateway_error \<Rightarrow> bool" where
  "error_retryable (NoRoute _) = True"
| "error_retryable RequestTimeout = True"
| "error_retryable NotReady = True"
| "error_retryable (Upstream _) = True"
| "error_retryable (QuotaExceeded _) = True"
| "error_retryable (Internal _) = True"
| "error_retryable _ = False"

text \<open>\<open>ErrorEnvelope::from_error\<close> and \<open>IntoResponse\<close>.\<close>

definition from_error :: "gateway_error \<Rightarrow> string option \<Rightarrow> error_envelope" where
  "from_error error request_id =
     \<lparr>ee_schema = ''gateway.error.v1'',
      ee_error = \<lparr>eb_code = error_code error, eb_message = error_message error,
                  eb_retryable = error_retryable error, eb_request_id = request_id\<rparr>\<rparr>"

definition into_response :: "gateway_error \<Rightarrow> nat \<times> error_envelope" where
  "into_response error = (error_status error, from_error error None)"

subsection \<open>Protocol families\<close>

datatype protocol_family =
    OpenAiResponses
  | OpenAiChat
  | AnthropicMessages
  | GeminiGenerateContent
  | BedrockConverse
  | ProviderNative

fun protocol_family_as_str :: "protocol_family \<Rightarrow> string" where
  "protocol_family_as_str OpenAiResponses = ''openai_responses''"
| "protocol_family_as_str OpenAiChat = ''openai_chat''"
| "protocol_family_as_str AnthropicMessages = ''anthropic_messages''"
| "protocol_family_as_str GeminiGenerateContent = ''gemini_generate_content''"
| "protocol_family_as_str BedrockConverse = ''bedrock_converse''"
| "protocol_family_as_str ProviderNative = ''provider_native''"

definition protocol_family_all :: "protocol_family list" where
  "protocol_family_all =
     [OpenAiResponses, OpenAiChat, AnthropicMessages, GeminiGenerateContent, BedrockConverse,
      ProviderNative]"

lemma protocol_family_as_str_inject:
  "protocol_family_as_str a = protocol_family_as_str b \<longleftrightarrow> a = b"
  by (cases a; cases b) simp_all

lemma protocol_family_all_complete: "f \<in> set protocol_family_all"
  by (cases f) (simp_all add: protocol_family_all_def)

subsection \<open>The envelope\<close>

lemma error_status_range: "400 \<le> error_status e \<and> error_status e < 600"
  by (cases e) simp_all

text \<open>A code determines the status and the retry hint: clients may switch on the code alone.\<close>

lemma error_code_determines:
  "error_code e = error_code e' \<Longrightarrow>
     error_status e = error_status e' \<and> error_retryable e = error_retryable e'"
  by (cases e; cases e') simp_all

text \<open>Client faults other than a timeout or an exhausted quota are never reported as retryable.\<close>

lemma retryable_client_errors:
  "error_retryable e \<Longrightarrow> error_status e < 500 \<Longrightarrow> error_status e = 408 \<or> error_status e = 429"
  by (cases e) simp_all

end
