(* ===== verification/Gateway_Domain.thy ===== *)
theory Gateway_Domain
  imports Gateway_Error
begin

text \<open>
  Domain shapes of the gateway (\<open>crates/starweaver-gateway/src/domain.rs\<close>): lifecycle states,
  the authenticated actor and its constructors, API keys, sessions, project memberships and
  provider endpoints. Record fields carry a prefix of their own, since Isabelle's field names
  are global; the part after the prefix is the source's name.
\<close>

subsection \<open>Lifecycle states\<close>

datatype directory_status = DirActive | DirSuspended | DirDisabled | DirDeleted

fun directory_status_as_str :: "directory_status \<Rightarrow> string" where
  "directory_status_as_str DirActive = ''active''"
| "directory_status_as_str DirSuspended = ''suspended''"
| "directory_status_as_str DirDisabled = ''disabled''"
| "directory_status_as_str DirDeleted = ''deleted''"

fun directory_accepts_access :: "directory_status \<Rightarrow> bool" where
  "directory_accepts_access DirActive = True"
| "directory_accepts_access _ = False"

datatype actor_kind =
  UserActor | ServiceAccountActor | ApiKeyActor | InternalServiceActor | SystemActor

fun actor_kind_as_str :: "actor_kind \<Rightarrow> string" where
  "actor_kind_as_str UserActor = ''user''"
| "actor_kind_as_str ServiceAccountActor = ''service_account''"
| "actor_kind_as_str ApiKeyActor = ''api_key''"
| "actor_kind_as_str InternalServiceActor = ''internal_service''"
| "actor_kind_as_str SystemActor = ''system''"

datatype credential_kind =
  ApiKeyCred | SessionCred | ServiceTokenCred | MtlsSubjectCred | InternalServiceCred | SystemCred

datatype api_key_status = KeyActive | KeyDisabled | KeyExpired | KeyRotating | KeyDeleted

fun key_accepts_authentication :: "api_key_status \<Rightarrow> bool" where
  "key_accepts_authentication KeyActive = True"
| "key_accepts_authentication KeyRotating = True"
| "key_accepts_authentication _ = False"

datatype auth_session_status = SessActive | SessRevoked | SessExpired

fun session_accepts_authentication :: "auth_session_status \<Rightarrow> bool" where
  "session_accepts_authentication SessActive = True"
| "session_accepts_authentication _ = False"

datatype membership_status = MemActive | MemSuspended | MemRemoved

fun membership_status_as_str :: "membership_status \<Rightarrow> string" where
  "membership_status_as_str MemActive = ''active''"
| "membership_status_as_str MemSuspended = ''suspended''"
| "membership_status_as_str MemRemoved = ''removed''"

fun membership_accepts_access :: "membership_status \<Rightarrow> bool" where
  "membership_accepts_access MemActive = True"
| "membership_accepts_access _ = False"

datatype invitation_status = InvPending | InvAccepted | InvRevoked | InvExpired

fun invitation_status_as_str :: "invitation_status \<Rightarrow> string" where
  "invitation_status_as_str InvPending = ''pending''"
| "invitation_status_as_str InvAccepted = ''accepted''"
| "invitation_status_as_str InvRevoked = ''revoked''"
| "invitation_status_as_str InvExpired = ''expired''"

definition invitation_accepts_at :: "invitation_status \<Rightarrow> datetime \<Rightarrow> datetime \<Rightarrow> bool" where
  "invitation_accepts_at s expires_at now \<longleftrightarrow> s = InvPending \<and> expires_at > now"

datatype resource_status = ResActive | ResDisabled | ResDraining | ResDegraded | ResDeleted

fun resource_status_as_str :: "resource_status \<Rightarrow> string" where
  "resource_status_as_str ResActive = ''active''"
| "resource_status_as_str ResDisabled = ''disabled''"
| "resource_status_as_str ResDraining = ''draining''"
| "resource_status_as_str ResDegraded = ''degraded''"
| "resource_status_as_str ResDeleted = ''deleted''"

text \<open>\<open>ResourceStatus::is_active\<close> is declared with the catalog in the source.\<close>

fun is_active :: "resource_status \<Rightarrow> bool" where
  "is_active ResActive = True"
| "is_active _ = False"

lemma is_active_iff [simp]: "is_active s \<longleftrightarrow> s = ResActive"
  by (cases s) simp_all

subsection \<open>Actors\<close>

record authenticated_actor =
  actor_id :: string
  actor_kind :: actor_kind
  actor_tenant_id :: string
  actor_organization_id :: "string option"
  actor_project_id :: "string option"
  actor_principal_id :: "string option"
  actor_api_key_id :: "string option"
  actor_credential_kind :: credential_kind
  actor_auth_strength :: nat
  actor_expires_at :: "datetime option"
  actor_allowed_actions :: "string list"
  actor_allowed_resources :: "string list"
  actor_request_id :: string
  actor_trace_id :: string

record actor_scope =
  scope_tenant_id :: string
  scope_organization_id :: "string option"
  scope_project_id :: "string option"

record project_membership =
  pm_project_member_id :: string
  pm_tenant_id :: string
  pm_organization_id :: string
  pm_project_id :: string
  pm_principal_id :: string
  pm_organization_member_id :: "string option"
  pm_status :: membership_status
  pm_resource_version :: i64

definition pm_accepts_access :: "project_membership \<Rightarrow> bool" where
  "pm_accepts_access m = membership_accepts_access (pm_status m)"

definition from_project_membership :: "project_membership \<Rightarrow> actor_scope" where
  "from_project_membership m =
     \<lparr>scope_tenant_id = pm_tenant_id m, scope_organization_id = Some (pm_organization_id m),
      scope_project_id = Some (pm_project_id m)\<rparr>"

record api_key_record =
  key_api_key_id :: string
  key_tenant_id :: string
  key_organization_id :: "string option"
  key_project_id :: "string option"
  key_owner_principal_id :: string
  key_name :: string
  key_key_prefix :: string
  key_secret_hash :: string
  key_hash_version :: nat
  key_status :: api_key_status
  key_allowed_actions :: "string list"
  key_allowed_resources :: "string list"
  key_expires_at :: "datetime option"
  key_last_used_at :: "datetime option"
  key_last_used_request_id :: "string option"
  key_created_by :: string
  key_created_at :: datetime
  key_updated_at :: datetime

definition key_can_authenticate_at :: "api_key_record \<Rightarrow> datetime \<Rightarrow> bool" where
  "key_can_authenticate_at k now \<longleftrightarrow>
     key_accepts_authentication (key_status k) \<and> is_none_or (key_expires_at k) (\<lambda>e. e > now)"

record auth_session_record =
  sess_auth_session_id :: string
  sess_tenant_id :: string
  sess_principal_id :: string
  sess_active_organization_id :: "string option"
  sess_active_project_id :: "string option"
  sess_session_hash :: string
  sess_status :: auth_session_status
  sess_expires_at :: datetime
  sess_created_at :: datetime
  sess_updated_at :: datetime

definition session_can_authenticate_at :: "auth_session_record \<Rightarrow> datetime \<Rightarrow> bool" where
  "session_can_authenticate_at s now \<longleftrightarrow>
     session_accepts_authentication (sess_status s) \<and> sess_expires_at s > now"

definition actor_for_api_key :: "api_key_record \<Rightarrow> string \<Rightarrow> string \<Rightarrow> authenticated_actor" where
  "actor_for_api_key r request_id trace_id =
     \<lparr>actor_id = key_api_key_id r, actor_kind = ApiKeyActor,
      actor_tenant_id = key_tenant_id r,
      actor_organization_id = key_organization_id r,
      actor_project_id = key_project_id r,
      actor_principal_id = Some (key_owner_principal_id r),
      actor_api_key_id = Some (key_api_key_id r),
      actor_credential_kind = ApiKeyCred, actor_auth_strength = 50,
      actor_expires_at = key_expires_at r,
      actor_allowed_actions = key_allowed_actions r,
      actor_allowed_resources = key_allowed_resources r,
      actor_request_id = request_id, actor_trace_id = trace_id\<rparr>"

definition actor_for_user_session ::
  "actor_scope \<Rightarrow> string \<Rightarrow> string \<Rightarrow> string \<Rightarrow> string \<Rightarrow> datetime option \<Rightarrow> authenticated_actor" where
  "actor_for_user_session scope principal_id session_id request_id trace_id expires_at =
     \<lparr>actor_id = session_id, actor_kind = UserActor,
      actor_tenant_id = scope_tenant_id scope,
      actor_organization_id = scope_organization_id scope,
      actor_project_id = scope_project_id scope,
      actor_principal_id = Some principal_id, actor_api_key_id = None,
      actor_credential_kind = SessionCred, actor_auth_strength = 80,
      actor_expires_at = expires_at, actor_allowed_actions = [], actor_allowed_resources = [],
      actor_request_id = request_id, actor_trace_id = trace_id\<rparr>"

definition actor_for_service_account ::
  "actor_scope \<Rightarrow> string \<Rightarrow> string \<Rightarrow> string \<Rightarrow> authenticated_actor" where
  "actor_for_service_account scope service_account_id request_id trace_id =
     \<lparr>actor_id = service_account_id, actor_kind = ServiceAccountActor,
      actor_tenant_id = scope_tenant_id scope,
      actor_organization_id = scope_organization_id scope,
      actor_project_id = scope_project_id scope,
      actor_principal_id = Some service_account_id, actor_api_key_id = None,
      actor_credential_kind = ServiceTokenCred, actor_auth_strength = 70,
      actor_expires_at = None, actor_allowed_actions = [], actor_allowed_resources = [],
      actor_request_id = request_id, actor_trace_id = trace_id\<rparr>"

definition actor_for_internal_service ::
  "string \<Rightarrow> string \<Rightarrow> string \<Rightarrow> string \<Rightarrow> authenticated_actor" where
  "actor_for_internal_service tenant_id service_name request_id trace_id =
     \<lparr>actor_id = service_name, actor_kind = InternalServiceActor,
      actor_tenant_id = tenant_id, actor_organization_id = None, actor_project_id = None,
      actor_principal_id = None, actor_api_key_id = None,
      actor_credential_kind = InternalServiceCred, actor_auth_strength = 90,
      actor_expires_at = None, actor_allowed_actions = [], actor_allowed_resources = [],
      actor_request_id = request_id, actor_trace_id = trace_id\<rparr>"

definition actor_for_system_task ::
  "string \<Rightarrow> string \<Rightarrow> string \<Rightarrow> string \<Rightarrow> authenticated_actor" where
  "actor_for_system_task tenant_id task_id request_id trace_id =
     \<lparr>actor_id = task_id, actor_kind = SystemActor,
      actor_tenant_id = tenant_id, actor_organization_id = None, actor_project_id = None,
      actor_principal_id = None, actor_api_key_id = None,
      actor_credential_kind = SystemCred, actor_auth_strength = 100,
      actor_expires_at = None, actor_allowed_actions = [], actor_allowed_resources = [],
      actor_request_id = request_id, actor_trace_id = trace_id\<rparr>"

subsection \<open>Provider endpoints\<close>

record provider_endpoint =
  pe_provider_endpoint_id :: string
  pe_tenant_id :: string
  pe_name :: string
  pe_provider_kind :: string
  pe_protocol_families :: "protocol_family list"
  pe_upstream_base_url :: string
  pe_status :: resource_status

subsection \<open>Expiry\<close>

text \<open>Expiry is final: a credential that cannot authenticate by its clock never recovers.\<close>

lemma key_expiry_mono:
  "key_can_authenticate_at k now' \<Longrightarrow> now \<le> now' \<Longrightarrow> key_can_authenticate_at k now"
  by (auto simp: key_can_authenticate_at_def is_none_or_iff)

lemma session_expiry_mono:
  "session_can_authenticate_at s now' \<Longrightarrow> now \<le> now' \<Longrightarrow> session_can_authenticate_at s now"
  by (auto simp: session_can_authenticate_at_def)

end
