(* ===== verification/Gateway_Catalog.thy ===== *)
theory Gateway_Catalog
  imports Gateway_Domain
begin

text \<open>
  The runtime catalog (\<open>crates/starweaver-gateway/src/catalog.rs\<close>): its configuration records
  and the validation a snapshot passes before it is published. Validation is modelled with the
  error messages and the order of the source. \<open>catalog_wf\<close> is its declarative reading over the
  lists of the snapshot (unique ids, referential integrity, protocol compatibility), and
  \<open>validate_iff_wf\<close> shows that validation accepts exactly the catalogs that satisfy it.

  \<open>http::Uri\<close> is not part of the repository: the parser is the argument \<open>parse_uri\<close>, which
  returns an error message, or the scheme (if any) and whether there is an authority.
\<close>

subsection \<open>Configuration records\<close>

datatype credential_status =
  CredActive | CredRotating | CredDisabled | CredExpired | CredError | CredDeleted

fun credential_is_usable :: "credential_status \<Rightarrow> bool" where
  "credential_is_usable CredActive = True"
| "credential_is_usable CredRotating = True"
| "credential_is_usable _ = False"

record upstream_credential_config =
  uc_upstream_credential_id :: string
  uc_tenant_id :: string
  uc_provider_endpoint_id :: string
  uc_credential_kind :: string
  uc_secret_ref_id :: string
  uc_status :: credential_status

record model_target_config =
  mt_model_target_id :: string
  mt_tenant_id :: string
  mt_provider_endpoint_id :: string
  mt_upstream_credential_id :: "string option"
  mt_protocol_family :: protocol_family
  mt_upstream_model_id :: string
  mt_pricing_sku_id :: "string option"
  mt_status :: resource_status
  mt_supports_streaming :: bool

record model_alias_config =
  ma_model_alias_id :: string
  ma_tenant_id :: string
  ma_organization_id :: "string option"
  ma_project_id :: "string option"
  ma_alias_name :: string
  ma_protocol_family :: protocol_family
  ma_route_policy_id :: string
  ma_status :: resource_status

record routing_group_config =
  rg_routing_group_id :: string
  rg_tenant_id :: string
  rg_status :: resource_status

record routing_group_target_config =
  gt_routing_group_target_id :: string
  gt_routing_group_id :: string
  gt_model_target_id :: string
  gt_weight :: nat
  gt_priority :: nat
  gt_status :: resource_status

record route_policy_config =
  rp_route_policy_id :: string
  rp_tenant_id :: string
  rp_model_alias_id :: string
  rp_routing_group_id :: string
  rp_status :: resource_status
  rp_sticky_ttl_seconds :: "i64 option"

datatype grant_scope_kind = OrganizationGrant | ProjectGrant

datatype grant_resource_kind =
    ModelAliasNode | RoutePolicyNode | RoutingGroupNode | ModelTargetNode | ProviderEndpointNode
  | PricingSkuNode

datatype grant_effect = Allow | Deny

datatype grant_closure_mode = SelfOnly | IncludeDescendants | DenyDescendants

record provider_grant_config =
  pg_provider_grant_id :: string
  pg_tenant_id :: string
  pg_scope_kind :: "grant_scope_kind option"
  pg_scope_id :: "string option"
  pg_organization_id :: "string option"
  pg_project_id :: "string option"
  pg_principal_id :: "string option"
  pg_resource_kind :: "grant_resource_kind option"
  pg_resource_id :: "string option"
  pg_effect :: grant_effect
  pg_closure_mode :: grant_closure_mode
  pg_provider_endpoint_id :: "string option"
  pg_model_target_id :: "string option"
  pg_status :: resource_status

definition is_spec_shape :: "provider_grant_config \<Rightarrow> bool" where
  "is_spec_shape g \<longleftrightarrow>
     pg_scope_kind g \<noteq> None \<or> pg_scope_id g \<noteq> None \<or> pg_resource_kind g \<noteq> None \<or>
     pg_resource_id g \<noteq> None \<or> pg_effect g \<noteq> Allow \<or> pg_closure_mode g \<noteq> SelfOnly"

record gateway_catalog =
  cat_provider_endpoints :: "provider_endpoint list"
  cat_upstream_credentials :: "upstream_credential_config list"
  cat_model_targets :: "model_target_config list"
  cat_model_aliases :: "model_alias_config list"
  cat_routing_groups :: "routing_group_config list"
  cat_routing_group_targets :: "routing_group_target_config list"
  cat_route_policies :: "route_policy_config list"
  cat_provider_grants :: "provider_grant_config list"

text \<open>What the source keeps of a parsed URI: its scheme and whether it has an authority.\<close>

type_synonym uri_parser = "string \<Rightarrow> string + (string option \<times> bool)"

subsection \<open>Indexes\<close>

definition invalid_catalog :: "string \<Rightarrow> 'a gateway_result" where
  "invalid_catalog message = Inl (BadRequest message)"

definition index_endpoints ::
  "provider_endpoint list \<Rightarrow> (string \<rightharpoonup> provider_endpoint) gateway_result" where
  "index_endpoints = index_by pe_provider_endpoint_id
     (\<lambda>e. BadRequest (''duplicate provider endpoint '' @ pe_provider_endpoint_id e))"

definition index_credentials ::
  "upstream_credential_config list \<Rightarrow> (string \<rightharpoonup> upstream_credential_config) gateway_result" where
  "index_credentials = index_by uc_upstream_credential_id
     (\<lambda>c. BadRequest (''duplicate upstream credential '' @ uc_upstream_credential_id c))"

definition index_targets ::
  "model_target_config list \<Rightarrow> (string \<rightharpoonup> model_target_config) gateway_result" where
  "index_targets = index_by mt_model_target_id
     (\<lambda>t. BadRequest (''duplicate model target '' @ mt_model_target_id t))"

definition index_aliases ::
  "model_alias_config list \<Rightarrow> (string \<rightharpoonup> model_alias_config) gateway_result" where
  "index_aliases = index_by ma_model_alias_id
     (\<lambda>a. BadRequest (''duplicate model alias '' @ ma_model_alias_id a))"

definition index_groups ::
  "routing_group_config list \<Rightarrow> (string \<rightharpoonup> routing_group_config) gateway_result" where
  "index_groups = index_by rg_routing_group_id
     (\<lambda>g. BadRequest (''duplicate routing group '' @ rg_routing_group_id g))"

definition index_policies ::
  "route_policy_config list \<Rightarrow> (string \<rightharpoonup> route_policy_config) gateway_result" where
  "index_policies = index_by rp_route_policy_id
     (\<lambda>p. BadRequest (''duplicate route policy '' @ rp_route_policy_id p))"

fun group_targets_into ::
  "(string \<rightharpoonup> routing_group_target_config list) \<Rightarrow> routing_group_target_config list \<Rightarrow>
   (string \<rightharpoonup> routing_group_target_config list)" where
  "group_targets_into index [] = index"
| "group_targets_into index (gt # gts) =
     group_targets_into
       (index(gt_routing_group_id gt \<mapsto> unwrap_or (index (gt_routing_group_id gt)) [] @ [gt])) gts"

definition group_targets_by_group ::
  "routing_group_target_config list \<Rightarrow> (string \<rightharpoonup> routing_group_target_config list)" where
  "group_targets_by_group gts = group_targets_into Map.empty gts"

subsection \<open>Validation\<close>

definition validate_endpoint :: "uri_parser \<Rightarrow> provider_endpoint \<Rightarrow> unit gateway_result" where
  "validate_endpoint parse_uri endpoint =
     (if pe_protocol_families endpoint = []
      then invalid_catalog (''provider endpoint '' @ pe_provider_endpoint_id endpoint @
             '' has no protocol families'')
      else case parse_uri (pe_upstream_base_url endpoint) of
        Inl error \<Rightarrow> Inl (BadRequest (''provider endpoint '' @ pe_provider_endpoint_id endpoint @
             '' has invalid upstream_base_url: '' @ error))
      | Inr (scheme, has_authority) \<Rightarrow>
          if \<not> (scheme = Some ''http'' \<or> scheme = Some ''https'') \<or> \<not> has_authority
          then invalid_catalog (''provider endpoint '' @ pe_provider_endpoint_id endpoint @
                 '' upstream_base_url must be absolute http or https'')
          else Inr ())"

definition validate_credential_kind ::
  "provider_endpoint \<Rightarrow> upstream_credential_config \<Rightarrow> unit gateway_result" where
  "validate_credential_kind endpoint credential =
     (let cid = uc_upstream_credential_id credential; kind = uc_credential_kind credential in
      if uc_secret_ref_id credential = ''''
      then invalid_catalog (''upstream credential '' @ cid @ '' has empty secret_ref_id'')
      else if kind = ''codex_oauth'' \<and> pe_provider_kind endpoint \<noteq> ''codex''
      then invalid_catalog
             (''upstream credential '' @ cid @ '' uses codex_oauth outside codex provider'')
      else if ends_with kind ''oauth'' \<and> kind \<noteq> ''codex_oauth''
      then invalid_catalog
             (''upstream credential '' @ cid @ '' uses unsupported generic upstream OAuth'')
      else Inr ())"

definition validate_endpoints :: "uri_parser \<Rightarrow> provider_endpoint list \<Rightarrow> unit gateway_result" where
  "validate_endpoints parse_uri endpoints = try_all (validate_endpoint parse_uri) endpoints"

definition validate_credentials ::
  "upstream_credential_config list \<Rightarrow> (string \<rightharpoonup> provider_endpoint) \<Rightarrow> unit gateway_result" where
  "validate_credentials credentials endpoints =
     try_all (\<lambda>credential.
       case endpoints (uc_provider_endpoint_id credential) of
         None \<Rightarrow> invalid_catalog (''upstream credential '' @ uc_upstream_credential_id credential @
           '' references missing provider endpoint '' @ uc_provider_endpoint_id credential)
       | Some endpoint \<Rightarrow> validate_credential_kind endpoint credential) credentials"

definition validate_target_endpoint ::
  "model_target_config \<Rightarrow> provider_endpoint \<Rightarrow> unit gateway_result" where
  "validate_target_endpoint target endpoint =
     (if mt_protocol_family target \<notin> set (pe_protocol_families endpoint)
      then invalid_catalog (''model target '' @ mt_model_target_id target @ '' protocol '' @
             protocol_family_as_str (mt_protocol_family target) @
             '' is not supported by provider endpoint '' @ pe_provider_endpoint_id endpoint)
      else Inr ())"

definition validate_target_credential ::
  "model_target_config \<Rightarrow> (string \<rightharpoonup> upstream_credential_config) \<Rightarrow> unit gateway_result" where
  "validate_target_credential target credentials =
     (case mt_upstream_credential_id target of
        None \<Rightarrow> Inr ()
      | Some credential_id \<Rightarrow>
          case credentials credential_id of
            None \<Rightarrow> invalid_catalog (''model target '' @ mt_model_target_id target @
              '' references missing upstream credential '' @ credential_id)
          | Some credential \<Rightarrow>
              if uc_provider_endpoint_id credential \<noteq> mt_provider_endpoint_id target
              then invalid_catalog (''model target '' @ mt_model_target_id target @
                '' credential '' @ credential_id @ '' belongs to another endpoint'')
              else if \<not> credential_is_usable (uc_status credential)
              then invalid_catalog (''model target '' @ mt_model_target_id target @
                '' references unusable upstream credential '' @ credential_id)
              else Inr ())"

definition validate_targets ::
  "model_target_config list \<Rightarrow> (string \<rightharpoonup> provider_endpoint) \<Rightarrow>
   (string \<rightharpoonup> upstream_credential_config) \<Rightarrow> unit gateway_result" where
  "validate_targets targets endpoints credentials =
     try_all (\<lambda>target.
       case endpoints (mt_provider_endpoint_id target) of
         None \<Rightarrow> invalid_catalog (''model target '' @ mt_model_target_id target @
           '' references missing provider endpoint '' @ mt_provider_endpoint_id target)
       | Some endpoint \<Rightarrow>
           rbind (validate_target_endpoint target endpoint)
             (\<lambda>_. validate_target_credential target credentials)) targets"

definition validate_policies ::
  "route_policy_config list \<Rightarrow> (string \<rightharpoonup> routing_group_config) \<Rightarrow>
   (string \<rightharpoonup> routing_group_target_config list) \<Rightarrow> unit gateway_result" where
  "validate_policies policies groups group_targets =
     try_all (\<lambda>policy.
       if is_some_and (rp_sticky_ttl_seconds policy) (\<lambda>ttl. \<not> (60 \<le> ttl \<and> ttl \<le> 86400))
       then invalid_catalog (''route policy '' @ rp_route_policy_id policy @
              '' sticky_ttl_seconds must be between 60 and 86400'')
       else if groups (rp_routing_group_id policy) = None
       then invalid_catalog (''route policy '' @ rp_route_policy_id policy @
              '' references missing routing group '' @ rp_routing_group_id policy)
       else if group_targets (rp_routing_group_id policy) = None
       then invalid_catalog (''route policy '' @ rp_route_policy_id policy @
              '' references empty routing group '' @ rp_routing_group_id policy)
       else Inr ()) policies"

definition validate_alias_policy ::
  "model_alias_config \<Rightarrow> route_policy_config \<Rightarrow> unit gateway_result" where
  "validate_alias_policy alias policy =
     (if rp_model_alias_id policy \<noteq> ma_model_alias_id alias
      then invalid_catalog (''model alias '' @ ma_model_alias_id alias @ '' route policy '' @
             rp_route_policy_id policy @ '' points at another alias'')
      else Inr ())"

definition validate_alias_targets ::
  "model_alias_config \<Rightarrow> route_policy_config \<Rightarrow> (string \<rightharpoonup> model_target_config) \<Rightarrow>
   (string \<rightharpoonup> routing_group_target_config list) \<Rightarrow> unit gateway_result" where
  "validate_alias_targets alias policy targets group_targets =
     try_all (\<lambda>group_target.
       case targets (gt_model_target_id group_target) of
         None \<Rightarrow> invalid_catalog (''routing group target '' @
           gt_routing_group_target_id group_target @ '' references missing model target '' @
           gt_model_target_id group_target)
       | Some target \<Rightarrow>
           if mt_protocol_family target \<noteq> ma_protocol_family alias
           then invalid_catalog (''model alias '' @ ma_model_alias_id alias @ '' protocol '' @
             protocol_family_as_str (ma_protocol_family alias) @ '' does not match target '' @
             mt_model_target_id target @ '' protocol '' @
             protocol_family_as_str (mt_protocol_family target))
           else Inr ())
       (unwrap_or (group_targets (rp_routing_group_id policy)) [])"

definition validate_aliases ::
  "model_alias_config list \<Rightarrow> (string \<rightharpoonup> route_policy_config) \<Rightarrow> (string \<rightharpoonup> model_target_config) \<Rightarrow>
   (string \<rightharpoonup> routing_group_target_config list) \<Rightarrow> unit gateway_result" where
  "validate_aliases aliases policies targets group_targets =
     try_all (\<lambda>alias.
       case policies (ma_route_policy_id alias) of
         None \<Rightarrow> invalid_catalog (''model alias '' @ ma_model_alias_id alias @
           '' references missing route policy '' @ ma_route_policy_id alias)
       | Some policy \<Rightarrow>
           rbind (validate_alias_policy alias policy)
             (\<lambda>_. validate_alias_targets alias policy targets group_targets)) aliases"

definition validate_provider_grant_closure_mode :: "provider_grant_config \<Rightarrow> unit gateway_result" where
  "validate_provider_grant_closure_mode grant =
     (if pg_effect grant = Allow \<and> pg_closure_mode grant = DenyDescendants
      then invalid_catalog (''provider grant '' @ pg_provider_grant_id grant @
             '' cannot allow with deny_descendants'')
      else if pg_effect grant = Deny \<and> pg_closure_mode grant = IncludeDescendants
      then invalid_catalog (''provider grant '' @ pg_provider_grant_id grant @
             '' cannot deny with include_descendants'')
      else Inr ())"

definition grant_scope_kind_of :: "provider_grant_config \<Rightarrow> grant_scope_kind option" where
  "grant_scope_kind_of grant =
     (case pg_scope_kind grant of
        Some kind \<Rightarrow> Some kind
      | None \<Rightarrow>
          if pg_project_id grant \<noteq> None then Some ProjectGrant
          else if pg_organization_id grant \<noteq> None then Some OrganizationGrant
          else None)"

definition grant_scope_id_of :: "provider_grant_config \<Rightarrow> string option" where
  "grant_scope_id_of grant =
     (case pg_scope_id grant of
        Some scope_id \<Rightarrow> Some scope_id
      | None \<Rightarrow> (case pg_project_id grant of
          Some project_id \<Rightarrow> Some project_id
        | None \<Rightarrow> pg_organization_id grant))"

definition validate_legacy_provider_grant ::
  "provider_grant_config \<Rightarrow> (string \<rightharpoonup> model_target_config) \<Rightarrow> (string \<rightharpoonup> provider_endpoint) \<Rightarrow>
   unit gateway_result" where
  "validate_legacy_provider_grant grant targets endpoints =
     (case pg_provider_endpoint_id grant of
        None \<Rightarrow> invalid_catalog (''provider grant '' @ pg_provider_grant_id grant @
          '' missing provider_endpoint_id'')
      | Some endpoint_id \<Rightarrow>
          if endpoints endpoint_id = None
          then invalid_catalog (''provider grant '' @ pg_provider_grant_id grant @
                 '' references missing provider endpoint '' @ endpoint_id)
          else case pg_model_target_id grant of
            None \<Rightarrow> Inr ()
          | Some target_id \<Rightarrow>
              case targets target_id of
                None \<Rightarrow> invalid_catalog (''provider grant '' @ pg_provider_grant_id grant @
                  '' references missing model target '' @ target_id)
              | Some target \<Rightarrow>
                  if mt_provider_endpoint_id target \<noteq> endpoint_id
                  then invalid_catalog (''provider grant '' @ pg_provider_grant_id grant @
                         '' target '' @ target_id @ '' belongs to another endpoint'')
                  else Inr ())"

text \<open>
  The arms of the closing \<open>match\<close>: the noun of the error when the named node is not in the index
  of its kind. \<open>PricingSku\<close> ids are not looked up.
\<close>

fun grant_resource_missing ::
  "grant_resource_kind \<Rightarrow> string \<Rightarrow> (string \<rightharpoonup> model_alias_config) \<Rightarrow> (string \<rightharpoonup> route_policy_config) \<Rightarrow>
   (string \<rightharpoonup> routing_group_config) \<Rightarrow> (string \<rightharpoonup> model_target_config) \<Rightarrow>
   (string \<rightharpoonup> provider_endpoint) \<Rightarrow> string option" where
  "grant_resource_missing ModelAliasNode i aliases policies groups targets endpoints =
     (if aliases i = None then Some ''model alias'' else None)"
| "grant_resource_missing RoutePolicyNode i aliases policies groups targets endpoints =
     (if policies i = None then Some ''route policy'' else None)"
| "grant_resource_missing RoutingGroupNode i aliases policies groups targets endpoints =
     (if groups i = None then Some ''routing group'' else None)"
| "grant_resource_missing ModelTargetNode i aliases policies groups targets endpoints =
     (if targets i = None then Some ''model target'' else None)"
| "grant_resource_missing ProviderEndpointNode i aliases policies groups targets endpoints =
     (if endpoints i = None then Some ''provider endpoint'' else None)"
| "grant_resource_missing PricingSkuNode i aliases policies groups targets endpoints = None"

definition validate_spec_provider_grant ::
  "provider_grant_config \<Rightarrow> (string \<rightharpoonup> model_alias_config) \<Rightarrow> (string \<rightharpoonup> route_policy_config) \<Rightarrow>
   (string \<rightharpoonup> routing_group_config) \<Rightarrow> (string \<rightharpoonup> model_target_config) \<Rightarrow>
   (string \<rightharpoonup> provider_endpoint) \<Rightarrow> unit gateway_result" where
  "validate_spec_provider_grant grant aliases policies groups targets endpoints =
     (if grant_scope_kind_of grant = None \<or> grant_scope_id_of grant = None
      then invalid_catalog (''provider grant '' @ pg_provider_grant_id grant @
             '' missing scope_kind or scope_id'')
      else case pg_resource_kind grant of
        None \<Rightarrow> invalid_catalog (''provider grant '' @ pg_provider_grant_id grant @
          '' missing resource_kind'')
      | Some kind \<Rightarrow>
          (case pg_resource_id grant of
             None \<Rightarrow> invalid_catalog (''provider grant '' @ pg_provider_grant_id grant @
               '' missing resource_id'')
           | Some resource_id \<Rightarrow>
               rbind (validate_provider_grant_closure_mode grant) (\<lambda>_.
                 case grant_resource_missing kind resource_id aliases policies groups targets
                        endpoints of
                   None \<Rightarrow> Inr ()
                 | Some noun \<Rightarrow> invalid_catalog (''provider grant '' @ pg_provider_grant_id grant @
                     '' references missing '' @ noun @ '' '' @ resource_id))))"

definition validate_provider_grants ::
  "provider_grant_config list \<Rightarrow> (string \<rightharpoonup> model_alias_config) \<Rightarrow> (string \<rightharpoonup> route_policy_config) \<Rightarrow>
   (string \<rightharpoonup> routing_group_config) \<Rightarrow> (string \<rightharpoonup> model_target_config) \<Rightarrow>
   (string \<rightharpoonup> provider_endpoint) \<Rightarrow> unit gateway_result" where
  "validate_provider_grants grants aliases policies groups targets endpoints =
     try_all (\<lambda>grant.
       if is_spec_shape grant
       then validate_spec_provider_grant grant aliases policies groups targets endpoints
       else validate_legacy_provider_grant grant targets endpoints) grants"

text \<open>\<open>GatewayCatalog::validate\<close>.\<close>

definition validate :: "uri_parser \<Rightarrow> gateway_catalog \<Rightarrow> unit gateway_result" where
  "validate parse_uri cat =
     rbind (index_endpoints (cat_provider_endpoints cat)) (\<lambda>endpoints.
     rbind (index_credentials (cat_upstream_credentials cat)) (\<lambda>credentials.
     rbind (index_targets (cat_model_targets cat)) (\<lambda>targets.
     rbind (index_aliases (cat_model_aliases cat)) (\<lambda>aliases.
     rbind (index_groups (cat_routing_groups cat)) (\<lambda>groups.
     let group_targets = group_targets_by_group (cat_routing_group_targets cat) in
     rbind (index_policies (cat_route_policies cat)) (\<lambda>policies.
     rbind (validate_endpoints parse_uri (cat_provider_endpoints cat)) (\<lambda>_.
     rbind (validate_credentials (cat_upstream_credentials cat) endpoints) (\<lambda>_.
     rbind (validate_targets (cat_model_targets cat) endpoints credentials) (\<lambda>_.
     rbind (validate_policies (cat_route_policies cat) groups group_targets) (\<lambda>_.
     rbind (validate_provider_grants (cat_provider_grants cat) aliases policies groups targets
              endpoints) (\<lambda>_.
     validate_aliases (cat_model_aliases cat) policies targets group_targets)))))))))))"

subsection \<open>What validation means\<close>

text \<open>The declarative reading, stated over the elements of the snapshot, not over indexes.\<close>

definition ids_unique :: "gateway_catalog \<Rightarrow> bool" where
  "ids_unique cat \<longleftrightarrow>
     distinct (map pe_provider_endpoint_id (cat_provider_endpoints cat)) \<and>
     distinct (map uc_upstream_credential_id (cat_upstream_credentials cat)) \<and>
     distinct (map mt_model_target_id (cat_model_targets cat)) \<and>
     distinct (map ma_model_alias_id (cat_model_aliases cat)) \<and>
     distinct (map rg_routing_group_id (cat_routing_groups cat)) \<and>
     distinct (map rp_route_policy_id (cat_route_policies cat))"

definition endpoint_wf :: "uri_parser \<Rightarrow> provider_endpoint \<Rightarrow> bool" where
  "endpoint_wf parse_uri e \<longleftrightarrow>
     pe_protocol_families e \<noteq> [] \<and>
     parse_uri (pe_upstream_base_url e) \<in> {Inr (Some ''http'', True), Inr (Some ''https'', True)}"

definition credential_wf :: "gateway_catalog \<Rightarrow> upstream_credential_config \<Rightarrow> bool" where
  "credential_wf cat c \<longleftrightarrow> uc_secret_ref_id c \<noteq> '''' \<and>
     (\<exists>e \<in> set (cat_provider_endpoints cat). pe_provider_endpoint_id e = uc_provider_endpoint_id c \<and>
        (ends_with (uc_credential_kind c) ''oauth'' \<longrightarrow>
           uc_credential_kind c = ''codex_oauth'' \<and> pe_provider_kind e = ''codex''))"

definition target_wf :: "gateway_catalog \<Rightarrow> model_target_config \<Rightarrow> bool" where
  "target_wf cat t \<longleftrightarrow>
     (\<exists>e \<in> set (cat_provider_endpoints cat). pe_provider_endpoint_id e = mt_provider_endpoint_id t \<and>
        mt_protocol_family t \<in> set (pe_protocol_families e)) \<and>
     (\<forall>cid. mt_upstream_credential_id t = Some cid \<longrightarrow>
        (\<exists>c \<in> set (cat_upstream_credentials cat). uc_upstream_credential_id c = cid \<and>
           uc_provider_endpoint_id c = mt_provider_endpoint_id t \<and>
           credential_is_usable (uc_status c)))"

definition policy_wf :: "gateway_catalog \<Rightarrow> route_policy_config \<Rightarrow> bool" where
  "policy_wf cat p \<longleftrightarrow>
     (\<forall>ttl. rp_sticky_ttl_seconds p = Some ttl \<longrightarrow> 60 \<le> ttl \<and> ttl \<le> 86400) \<and>
     rp_routing_group_id p \<in> rg_routing_group_id ` set (cat_routing_groups cat) \<and>
     rp_routing_group_id p \<in> gt_routing_group_id ` set (cat_routing_group_targets cat)"

definition alias_wf :: "gateway_catalog \<Rightarrow> model_alias_config \<Rightarrow> bool" where
  "alias_wf cat a \<longleftrightarrow>
     (\<exists>p \<in> set (cat_route_policies cat).
        rp_route_policy_id p = ma_route_policy_id a \<and> rp_model_alias_id p = ma_model_alias_id a \<and>
        (\<forall>gt \<in> set (cat_routing_group_targets cat).
           gt_routing_group_id gt = rp_routing_group_id p \<longrightarrow>
           (\<exists>t \<in> set (cat_model_targets cat). mt_model_target_id t = gt_model_target_id gt \<and>
              mt_protocol_family t = ma_protocol_family a)))"

fun catalog_ids :: "gateway_catalog \<Rightarrow> grant_resource_kind \<Rightarrow> string set" where
  "catalog_ids cat ModelAliasNode = ma_model_alias_id ` set (cat_model_aliases cat)"
| "catalog_ids cat RoutePolicyNode = rp_route_policy_id ` set (cat_route_policies cat)"
| "catalog_ids cat RoutingGroupNode = rg_routing_group_id ` set (cat_routing_groups cat)"
| "catalog_ids cat ModelTargetNode = mt_model_target_id ` set (cat_model_targets cat)"
| "catalog_ids cat ProviderEndpointNode = pe_provider_endpoint_id ` set (cat_provider_endpoints cat)"
| "catalog_ids cat PricingSkuNode = UNIV"

definition spec_grant_wf :: "gateway_catalog \<Rightarrow> provider_grant_config \<Rightarrow> bool" where
  "spec_grant_wf cat g \<longleftrightarrow>
     grant_scope_kind_of g \<noteq> None \<and> grant_scope_id_of g \<noteq> None \<and>
     (\<exists>kind i. pg_resource_kind g = Some kind \<and> pg_resource_id g = Some i \<and>
        i \<in> catalog_ids cat kind) \<and>
     (pg_effect g, pg_closure_mode g) \<notin> {(Allow, DenyDescendants), (Deny, IncludeDescendants)}"

definition legacy_grant_wf :: "gateway_catalog \<Rightarrow> provider_grant_config \<Rightarrow> bool" where
  "legacy_grant_wf cat g \<longleftrightarrow>
     (\<exists>e \<in> set (cat_provider_endpoints cat). pg_provider_endpoint_id g = Some (pe_provider_endpoint_id e) \<and>
        (\<forall>tid. pg_model_target_id g = Some tid \<longrightarrow>
           (\<exists>t \<in> set (cat_model_targets cat). mt_model_target_id t = tid \<and>
              mt_provider_endpoint_id t = pe_provider_endpoint_id e)))"

definition grant_wf :: "gateway_catalog \<Rightarrow> provider_grant_config \<Rightarrow> bool" where
  "grant_wf cat g = (if is_spec_shape g then spec_grant_wf cat g else legacy_grant_wf cat g)"

definition catalog_wf :: "uri_parser \<Rightarrow> gateway_catalog \<Rightarrow> bool" where
  "catalog_wf parse_uri cat \<longleftrightarrow> ids_unique cat \<and>
     (\<forall>e \<in> set (cat_provider_endpoints cat). endpoint_wf parse_uri e) \<and>
     (\<forall>c \<in> set (cat_upstream_credentials cat). credential_wf cat c) \<and>
     (\<forall>t \<in> set (cat_model_targets cat). target_wf cat t) \<and>
     (\<forall>p \<in> set (cat_route_policies cat). policy_wf cat p) \<and>
     (\<forall>g \<in> set (cat_provider_grants cat). grant_wf cat g) \<and>
     (\<forall>a \<in> set (cat_model_aliases cat). alias_wf cat a)"

lemmas index_defs =
  index_endpoints_def index_credentials_def index_targets_def index_aliases_def index_groups_def
  index_policies_def

lemma invalid_catalog_iff [simp]:
  "invalid_catalog m \<noteq> Inr u" "invalid_catalog m = Inl e \<longleftrightarrow> e = BadRequest m"
  by (auto simp: invalid_catalog_def)

lemma group_targets_into_eq:
  "group_targets_into index gts k =
     (if filter (\<lambda>gt. gt_routing_group_id gt = k) gts = [] then index k
      else Some (unwrap_or (index k) [] @ filter (\<lambda>gt. gt_routing_group_id gt = k) gts))"
  by (induction gts arbitrary: index) auto

lemma group_targets_by_group_eq:
  "group_targets_by_group gts k =
     (let own = filter (\<lambda>gt. gt_routing_group_id gt = k) gts in if own = [] then None else Some own)"
  by (simp add: group_targets_by_group_def group_targets_into_eq Let_def)

lemma group_targets_None_iff:
  "group_targets_by_group gts k = None \<longleftrightarrow> k \<notin> gt_routing_group_id ` set gts"
  by (auto simp: group_targets_by_group_eq Let_def filter_empty_conv)

lemma group_targets_members:
  "set (unwrap_or (group_targets_by_group gts k) []) = {gt \<in> set gts. gt_routing_group_id gt = k}"
  by (auto simp: group_targets_by_group_eq Let_def filter_empty_conv)

lemma validate_endpoint_iff: "validate_endpoint parse_uri e = Inr u \<longleftrightarrow> endpoint_wf parse_uri e"
  by (auto simp: validate_endpoint_def endpoint_wf_def split: sum.splits)

lemma codex_oauth_is_oauth: "ends_with ''codex_oauth'' ''oauth''"
  by (simp add: ends_with_def)

lemma validate_credential_kind_iff:
  "validate_credential_kind e c = Inr u \<longleftrightarrow> uc_secret_ref_id c \<noteq> '''' \<and>
     (ends_with (uc_credential_kind c) ''oauth'' \<longrightarrow>
        uc_credential_kind c = ''codex_oauth'' \<and> pe_provider_kind e = ''codex'')"
  using codex_oauth_is_oauth by (auto simp: validate_credential_kind_def Let_def)

lemma validate_closure_mode_iff:
  "validate_provider_grant_closure_mode g = Inr u \<longleftrightarrow>
     (pg_effect g, pg_closure_mode g) \<notin> {(Allow, DenyDescendants), (Deny, IncludeDescendants)}"
  by (cases "pg_effect g"; cases "pg_closure_mode g")
    (simp_all add: validate_provider_grant_closure_mode_def)

lemma grant_resource_missing_iff:
  "grant_resource_missing kind i (lookup_by ma_model_alias_id (cat_model_aliases cat))
     (lookup_by rp_route_policy_id (cat_route_policies cat))
     (lookup_by rg_routing_group_id (cat_routing_groups cat))
     (lookup_by mt_model_target_id (cat_model_targets cat))
     (lookup_by pe_provider_endpoint_id (cat_provider_endpoints cat)) = None \<longleftrightarrow>
   i \<in> catalog_ids cat kind"
  by (cases kind) (auto simp: lookup_by_None_iff)


text \<open>Each loop of the validation, once the ids it looks up are unique.\<close>

lemma validate_endpoints_iff:
  "validate_endpoints parse_uri es = Inr u \<longleftrightarrow> (\<forall>e \<in> set es. endpoint_wf parse_uri e)"
  by (simp add: validate_endpoints_def result_simps validate_endpoint_iff)

lemma validate_credentials_iff:
  assumes "ids_unique cat"
  shows "validate_credentials (cat_upstream_credentials cat)
           (lookup_by pe_provider_endpoint_id (cat_provider_endpoints cat)) = Inr u \<longleftrightarrow>
         (\<forall>c \<in> set (cat_upstream_credentials cat). credential_wf cat c)"
  using assms
  by (auto simp: validate_credentials_def try_all_Inr_iff ids_unique_def
      lookup_case_Inr_iff validate_credential_kind_iff credential_wf_def)

lemma validate_target_credential_iff:
  assumes "ids_unique cat"
  shows "validate_target_credential t
      (lookup_by uc_upstream_credential_id (cat_upstream_credentials cat)) = Inr u \<longleftrightarrow>
      (\<forall>cid. mt_upstream_credential_id t = Some cid \<longrightarrow>
        (\<exists>c \<in> set (cat_upstream_credentials cat). uc_upstream_credential_id c = cid \<and>
           uc_provider_endpoint_id c = mt_provider_endpoint_id t \<and>
           credential_is_usable (uc_status c)))"
  using assms
  by (auto simp: validate_target_credential_def ids_unique_def
      option_case_Inr_iff lookup_by_Some_iff)

lemma validate_targets_iff:
  assumes "ids_unique cat"
  shows "validate_targets (cat_model_targets cat)
           (lookup_by pe_provider_endpoint_id (cat_provider_endpoints cat))
           (lookup_by uc_upstream_credential_id (cat_upstream_credentials cat)) = Inr u \<longleftrightarrow>
         (\<forall>t \<in> set (cat_model_targets cat). target_wf cat t)"
  using assms
  by (auto simp: validate_targets_def try_all_Inr_iff ids_unique_def
      lookup_case_Inr_iff rbind_Inr_iff validate_target_endpoint_def target_wf_def
      validate_target_credential_iff [OF assms])

lemma validate_policies_iff:
  "validate_policies (cat_route_policies cat)
     (lookup_by rg_routing_group_id (cat_routing_groups cat))
     (group_targets_by_group (cat_routing_group_targets cat)) = Inr u \<longleftrightarrow>
   (\<forall>p \<in> set (cat_route_policies cat). policy_wf cat p)"
proof -
  have "is_some_and x (\<lambda>ttl. 60 \<le> ttl \<longrightarrow> \<not> ttl \<le> 86400) \<longleftrightarrow>
      \<not> (\<forall>ttl. x = Some ttl \<longrightarrow> 60 \<le> ttl \<and> ttl \<le> 86400)" for x :: "i64 option"
    by (cases x) auto
  then have "(if is_some_and (rp_sticky_ttl_seconds p) (\<lambda>ttl. \<not> (60 \<le> ttl \<and> ttl \<le> 86400))
      then invalid_catalog m
      else if lookup_by rg_routing_group_id (cat_routing_groups cat) (rp_routing_group_id p) = None
      then invalid_catalog m'
      else if group_targets_by_group (cat_routing_group_targets cat) (rp_routing_group_id p) = None
      then invalid_catalog m'' else Inr ()) = Inr () \<longleftrightarrow> policy_wf cat p" for p m m' m''
    by (simp add: policy_wf_def lookup_by_None_iff group_targets_None_iff)
  then show ?thesis by (simp only: validate_policies_def try_all_Inr_iff)
qed

lemma validate_spec_grant_iff:
  "validate_spec_provider_grant g (lookup_by ma_model_alias_id (cat_model_aliases cat))
     (lookup_by rp_route_policy_id (cat_route_policies cat))
     (lookup_by rg_routing_group_id (cat_routing_groups cat))
     (lookup_by mt_model_target_id (cat_model_targets cat))
     (lookup_by pe_provider_endpoint_id (cat_provider_endpoints cat)) = Inr u \<longleftrightarrow>
   spec_grant_wf cat g"
proof -
  have "(case x of None \<Rightarrow> Inr () | Some noun \<Rightarrow> invalid_catalog (f noun)) = Inr u \<longleftrightarrow> x = None"
    for x :: "string option" and f
    by (cases x) auto
  then show ?thesis
    by (auto simp: validate_spec_provider_grant_def spec_grant_wf_def rbind_Inr_iff
        validate_closure_mode_iff grant_resource_missing_iff split: option.split)
qed

lemma validate_legacy_grant_iff:
  assumes "ids_unique cat"
  shows "validate_legacy_provider_grant g (lookup_by mt_model_target_id (cat_model_targets cat))
     (lookup_by pe_provider_endpoint_id (cat_provider_endpoints cat)) = Inr u \<longleftrightarrow>
   legacy_grant_wf cat g"
  using assms
  by (auto simp: validate_legacy_provider_grant_def legacy_grant_wf_def
      ids_unique_def option_case_Inr_iff lookup_by_Some_iff lookup_by_None_iff)

lemma validate_provider_grants_iff:
  assumes "ids_unique cat"
  shows "validate_provider_grants (cat_provider_grants cat)
     (lookup_by ma_model_alias_id (cat_model_aliases cat))
     (lookup_by rp_route_policy_id (cat_route_policies cat))
     (lookup_by rg_routing_group_id (cat_routing_groups cat))
     (lookup_by mt_model_target_id (cat_model_targets cat))
     (lookup_by pe_provider_endpoint_id (cat_provider_endpoints cat)) = Inr u \<longleftrightarrow>
   (\<forall>g \<in> set (cat_provider_grants cat). grant_wf cat g)"
  by (auto simp: validate_provider_grants_def result_simps grant_wf_def validate_spec_grant_iff
      validate_legacy_grant_iff [OF assms])

lemma validate_alias_targets_iff:
  assumes "ids_unique cat"
  shows "validate_alias_targets a p (lookup_by mt_model_target_id (cat_model_targets cat))
     (group_targets_by_group (cat_routing_group_targets cat)) = Inr u \<longleftrightarrow>
   (\<forall>gt \<in> set (cat_routing_group_targets cat). gt_routing_group_id gt = rp_routing_group_id p \<longrightarrow>
      (\<exists>t \<in> set (cat_model_targets cat). mt_model_target_id t = gt_model_target_id gt \<and>
         mt_protocol_family t = ma_protocol_family a))"
  using assms
  by (auto simp: validate_alias_targets_def try_all_Inr_iff ids_unique_def
      lookup_case_Inr_iff group_targets_members)

lemma validate_aliases_iff:
  assumes "ids_unique cat"
  shows "validate_aliases (cat_model_aliases cat)
     (lookup_by rp_route_policy_id (cat_route_policies cat))
     (lookup_by mt_model_target_id (cat_model_targets cat))
     (group_targets_by_group (cat_routing_group_targets cat)) = Inr u \<longleftrightarrow>
   (\<forall>a \<in> set (cat_model_aliases cat). alias_wf cat a)"
  using assms
  by (auto simp: validate_aliases_def try_all_Inr_iff ids_unique_def
      lookup_case_Inr_iff rbind_Inr_iff validate_alias_policy_def alias_wf_def
      validate_alias_targets_iff [OF assms])

lemma validate_iff_wf: "validate parse_uri cat = Inr () \<longleftrightarrow> catalog_wf parse_uri cat"
proof (cases "ids_unique cat")
  case True
  then have "index_endpoints (cat_provider_endpoints cat) =
        Inr (lookup_by pe_provider_endpoint_id (cat_provider_endpoints cat))"
      "index_credentials (cat_upstream_credentials cat) =
        Inr (lookup_by uc_upstream_credential_id (cat_upstream_credentials cat))"
      "index_targets (cat_model_targets cat) =
        Inr (lookup_by mt_model_target_id (cat_model_targets cat))"
      "index_aliases (cat_model_aliases cat) =
        Inr (lookup_by ma_model_alias_id (cat_model_aliases cat))"
      "index_groups (cat_routing_groups cat) =
        Inr (lookup_by rg_routing_group_id (cat_routing_groups cat))"
      "index_policies (cat_route_policies cat) =
        Inr (lookup_by rp_route_policy_id (cat_route_policies cat))"
    by (simp_all add: index_defs index_by_distinct ids_unique_def)
  with True show ?thesis
    by (simp add: validate_def catalog_wf_def rbind_Inr_iff Let_def validate_endpoints_iff
        validate_credentials_iff validate_targets_iff validate_policies_iff
        validate_provider_grants_iff validate_aliases_iff)
next
  case False
  then show ?thesis
    by (auto simp: validate_def catalog_wf_def rbind_Inr_iff Let_def index_defs index_by_Inr_iff
        ids_unique_def)
qed

end
