(* ===== verification/Gateway_Grants.thy ===== *)
theory Gateway_Grants
  imports Gateway_Catalog
begin

text \<open>
  Provider grants (\<open>crates/starweaver-gateway/src/catalog.rs\<close>): whether an actor may reach an
  endpoint through a route. A route is a path of five nodes, from the model alias down to the
  provider endpoint. Grants of the closure shape are evaluated per node, at organization scope
  (every node allowed, none denied) and then at project scope (which inherits or narrows). A
  tenant with no such grant falls back to the legacy endpoint grants. \<open>covers\<close> is the
  declarative reading of a closure grant, by the index of a node on its path.
\<close>

subsection \<open>Paths\<close>

record grant_path =
  gp_alias :: model_alias_config
  gp_policy :: route_policy_config
  gp_group :: routing_group_config
  gp_target :: model_target_config
  gp_endpoint :: provider_endpoint

type_synonym path_node = "grant_resource_kind \<times> string"

definition path_nodes :: "grant_path \<Rightarrow> path_node list" where
  "path_nodes path =
     [(ModelAliasNode, ma_model_alias_id (gp_alias path)),
      (RoutePolicyNode, rp_route_policy_id (gp_policy path)),
      (RoutingGroupNode, rg_routing_group_id (gp_group path)),
      (ModelTargetNode, mt_model_target_id (gp_target path)),
      (ProviderEndpointNode, pe_provider_endpoint_id (gp_endpoint path))]"

definition path_position :: "grant_path \<Rightarrow> grant_resource_kind \<Rightarrow> string \<Rightarrow> nat option" where
  "path_position path kind i =
     position (\<lambda>node. fst node = kind \<and> snd node = i) (path_nodes path)"

subsection \<open>Matching a grant\<close>

definition optional_match :: "string option \<Rightarrow> string option \<Rightarrow> bool" where
  "optional_match expected actual = is_none_or expected (\<lambda>e. Some e = actual)"

definition grant_matches_scope ::
  "provider_grant_config \<Rightarrow> authenticated_actor \<Rightarrow> grant_scope_kind \<Rightarrow> string \<Rightarrow> bool" where
  "grant_matches_scope grant actor scope_kind scope_id \<longleftrightarrow>
     pg_tenant_id grant = actor_tenant_id actor \<and>
     is_some_and (grant_scope_kind_of grant) (\<lambda>kind. kind = scope_kind) \<and>
     is_some_and (grant_scope_id_of grant) (\<lambda>i. i = scope_id) \<and>
     optional_match (pg_principal_id grant) (actor_principal_id actor)"

definition grant_is_ancestor_or_self ::
  "grant_path \<Rightarrow> grant_resource_kind \<Rightarrow> string \<Rightarrow> path_node \<Rightarrow> bool" where
  "grant_is_ancestor_or_self path grant_kind grant_resource_id node =
     (case path_position path grant_kind grant_resource_id of
        None \<Rightarrow> False
      | Some grant_position \<Rightarrow>
          (case path_position path (fst node) (snd node) of
             None \<Rightarrow> False
           | Some node_position \<Rightarrow> grant_position \<le> node_position))"

definition grant_applies_to_node ::
  "provider_grant_config \<Rightarrow> grant_path \<Rightarrow> path_node \<Rightarrow> bool" where
  "grant_applies_to_node grant path node =
     (case pg_resource_kind grant of
        None \<Rightarrow> False
      | Some grant_kind \<Rightarrow>
          (case pg_resource_id grant of
             None \<Rightarrow> False
           | Some grant_resource_id \<Rightarrow>
               (case pg_closure_mode grant of
                  SelfOnly \<Rightarrow> fst node = grant_kind \<and> snd node = grant_resource_id
                | IncludeDescendants \<Rightarrow> pg_effect grant = Allow \<and>
                    grant_is_ancestor_or_self path grant_kind grant_resource_id node
                | DenyDescendants \<Rightarrow> pg_effect grant = Deny \<and>
                    grant_is_ancestor_or_self path grant_kind grant_resource_id node)))"

subsection \<open>Evaluation\<close>

definition spec_scope_allows_node ::
  "provider_grant_config list \<Rightarrow> authenticated_actor \<Rightarrow> grant_scope_kind \<Rightarrow> string \<Rightarrow> grant_path \<Rightarrow>
   path_node \<Rightarrow> bool" where
  "spec_scope_allows_node grants actor scope_kind scope_id path node =
     list_ex (\<lambda>grant. is_active (pg_status grant) \<and> pg_effect grant = Allow \<and>
       grant_matches_scope grant actor scope_kind scope_id \<and>
       grant_applies_to_node grant path node) grants"

definition spec_scope_denies_node ::
  "provider_grant_config list \<Rightarrow> authenticated_actor \<Rightarrow> grant_scope_kind \<Rightarrow> string \<Rightarrow> grant_path \<Rightarrow>
   path_node \<Rightarrow> bool" where
  "spec_scope_denies_node grants actor scope_kind scope_id path node =
     list_ex (\<lambda>grant. is_active (pg_status grant) \<and> pg_effect grant = Deny \<and>
       grant_matches_scope grant actor scope_kind scope_id \<and>
       grant_applies_to_node grant path node) grants"

definition project_has_allow_for_kind ::
  "provider_grant_config list \<Rightarrow> authenticated_actor \<Rightarrow> string \<Rightarrow> grant_resource_kind \<Rightarrow> bool" where
  "project_has_allow_for_kind grants actor project_id kind =
     list_ex (\<lambda>grant. is_active (pg_status grant) \<and> pg_effect grant = Allow \<and>
       grant_matches_scope grant actor ProjectGrant project_id \<and>
       pg_resource_kind grant = Some kind) grants"

definition scope_allows_all_path_nodes ::
  "provider_grant_config list \<Rightarrow> authenticated_actor \<Rightarrow> grant_scope_kind \<Rightarrow> string \<Rightarrow> grant_path \<Rightarrow>
   bool" where
  "scope_allows_all_path_nodes grants actor scope_kind scope_id path =
     list_all (\<lambda>node. spec_scope_allows_node grants actor scope_kind scope_id path node \<and>
       \<not> spec_scope_denies_node grants actor scope_kind scope_id path node) (path_nodes path)"

text \<open>The loop over the nodes, with its two early returns.\<close>

fun project_scope_loop ::
  "provider_grant_config list \<Rightarrow> authenticated_actor \<Rightarrow> string \<Rightarrow> grant_path \<Rightarrow> path_node list \<Rightarrow> bool" where
  "project_scope_loop grants actor project_id path [] = True"
| "project_scope_loop grants actor project_id path (node # nodes) =
     (if spec_scope_denies_node grants actor ProjectGrant project_id path node then False
      else if project_has_allow_for_kind grants actor project_id (fst node) \<and>
        \<not> spec_scope_allows_node grants actor ProjectGrant project_id path node then False
      else project_scope_loop grants actor project_id path nodes)"

definition project_scope_inherits_or_narrows ::
  "provider_grant_config list \<Rightarrow> authenticated_actor \<Rightarrow> string \<Rightarrow> grant_path \<Rightarrow> bool" where
  "project_scope_inherits_or_narrows grants actor project_id path =
     project_scope_loop grants actor project_id path (path_nodes path)"

definition spec_provider_grant_allows ::
  "provider_grant_config list \<Rightarrow> authenticated_actor \<Rightarrow> grant_path \<Rightarrow> bool" where
  "spec_provider_grant_allows grants actor path =
     (case actor_organization_id actor of
        None \<Rightarrow> False
      | Some organization_id \<Rightarrow>
          if \<not> scope_allows_all_path_nodes grants actor OrganizationGrant organization_id path
          then False
          else case actor_project_id actor of
            None \<Rightarrow> True
          | Some project_id \<Rightarrow> project_scope_inherits_or_narrows grants actor project_id path)"

definition legacy_provider_grant_allows ::
  "provider_grant_config list \<Rightarrow> authenticated_actor \<Rightarrow> provider_endpoint \<Rightarrow> model_target_config \<Rightarrow>
   bool" where
  "legacy_provider_grant_allows grants actor endpoint target =
     list_ex (\<lambda>grant. is_active (pg_status grant) \<and> pg_tenant_id grant = actor_tenant_id actor \<and>
       optional_match (pg_organization_id grant) (actor_organization_id actor) \<and>
       optional_match (pg_project_id grant) (actor_project_id actor) \<and>
       optional_match (pg_principal_id grant) (actor_principal_id actor) \<and>
       pg_provider_endpoint_id grant = Some (pe_provider_endpoint_id endpoint) \<and>
       is_none_or (pg_model_target_id grant) (\<lambda>i. i = mt_model_target_id target)) grants"

definition has_spec_provider_grants ::
  "provider_grant_config list \<Rightarrow> authenticated_actor \<Rightarrow> bool" where
  "has_spec_provider_grants grants actor =
     list_ex (\<lambda>grant. is_active (pg_status grant) \<and> pg_tenant_id grant = actor_tenant_id actor \<and>
       is_spec_shape grant) grants"

definition provider_grant_allows ::
  "provider_grant_config list \<Rightarrow> authenticated_actor \<Rightarrow> grant_path \<Rightarrow> bool" where
  "provider_grant_allows grants actor path =
     (if \<not> has_spec_provider_grants grants actor
      then legacy_provider_grant_allows grants actor (gp_endpoint path) (gp_target path)
      else spec_provider_grant_allows grants actor path)"

subsection \<open>What a closure grant covers\<close>

text \<open>
  A grant covers the nodes of a path that it names or, in a descending closure mode, the nodes
  at or below the one it names. The modes that validation rejects cover nothing.
\<close>

definition covers :: "provider_grant_config \<Rightarrow> grant_path \<Rightarrow> nat \<Rightarrow> bool" where
  "covers g path i \<longleftrightarrow>
     (\<exists>kind rid j. pg_resource_kind g = Some kind \<and> pg_resource_id g = Some rid \<and>
        j < 5 \<and> path_nodes path ! j = (kind, rid) \<and>
        (if pg_closure_mode g = SelfOnly then i = j
         else (pg_effect g = Allow \<longleftrightarrow> pg_closure_mode g = IncludeDescendants) \<and> j \<le> i))"

lemma length_path_nodes [simp]: "length (path_nodes path) = 5"
  by (simp add: path_nodes_def)

lemma path_nodes_kinds:
  "map fst (path_nodes path) =
     [ModelAliasNode, RoutePolicyNode, RoutingGroupNode, ModelTargetNode, ProviderEndpointNode]"
  by (simp add: path_nodes_def)

text \<open>The kinds on a path differ, so a kind names at most one position.\<close>

lemma path_nodes_nth_inject:
  assumes "i < 5" "j < 5" "fst (path_nodes path ! i) = fst (path_nodes path ! j)"
  shows "i = j"
proof -
  have "distinct (map fst (path_nodes path))" by (simp add: path_nodes_kinds)
  with assms show ?thesis by (auto simp: distinct_conv_nth)
qed

lemma path_position_Some_iff:
  "path_position path kind rid = Some i \<longleftrightarrow> i < 5 \<and> path_nodes path ! i = (kind, rid)"
proof
  assume "path_position path kind rid = Some i"
  then show "i < 5 \<and> path_nodes path ! i = (kind, rid)"
    by (auto simp: path_position_def dest!: position_SomeD intro: prod_eqI)
next
  assume i: "i < 5 \<and> path_nodes path ! i = (kind, rid)"
  then have "(kind, rid) \<in> set (path_nodes path)"
    by (metis length_path_nodes nth_mem)
  then obtain j where j: "path_position path kind rid = Some j"
    by (cases "path_position path kind rid") (auto simp: path_position_def position_None_iff)
  then have "j < 5" "fst (path_nodes path ! j) = kind"
    by (auto simp: path_position_def dest!: position_SomeD)
  with i have "j = i" by (intro path_nodes_nth_inject [where path = path]) auto
  with j show "path_position path kind rid = Some i" by simp
qed

lemma path_position_nth: "i < 5 \<Longrightarrow> path_position path (fst (path_nodes path ! i)) (snd (path_nodes path ! i)) = Some i"
  by (simp add: path_position_Some_iff)

lemma grant_is_ancestor_or_self_iff:
  assumes "i < 5"
  shows "grant_is_ancestor_or_self path kind rid (path_nodes path ! i) \<longleftrightarrow>
    (\<exists>j \<le> i. path_nodes path ! j = (kind, rid))"
proof (cases "path_position path kind rid")
  case None
  then have "\<nexists>j. j < 5 \<and> path_nodes path ! j = (kind, rid)"
    by (metis option.distinct(1) path_position_Some_iff)
  with None assms show ?thesis by (auto simp: grant_is_ancestor_or_self_def)
next
  case (Some k)
  then have k: "k < 5" "path_nodes path ! k = (kind, rid)" by (auto simp: path_position_Some_iff)
  have "j = k" if "j \<le> i" "path_nodes path ! j = (kind, rid)" for j
    using that k assms by (intro path_nodes_nth_inject [where path = path]) auto
  with Some k assms show ?thesis
    by (auto simp: grant_is_ancestor_or_self_def path_position_nth)
qed

lemma grant_applies_to_node_covers:
  assumes "i < 5"
  shows "grant_applies_to_node g path (path_nodes path ! i) \<longleftrightarrow> covers g path i"
proof (cases "pg_closure_mode g = SelfOnly")
  case True
  have "j = i" if "j < 5" "fst (path_nodes path ! j) = fst (path_nodes path ! i)" for j
    using that assms path_nodes_nth_inject by blast
  with True assms show ?thesis
    by (auto simp: grant_applies_to_node_def covers_def prod_eq_iff split: option.split)
next
  case False
  then have "grant_applies_to_node g path (path_nodes path ! i) \<longleftrightarrow>
      (\<exists>kind rid. pg_resource_kind g = Some kind \<and> pg_resource_id g = Some rid \<and>
         (pg_effect g = Allow \<longleftrightarrow> pg_closure_mode g = IncludeDescendants) \<and>
         (\<exists>j \<le> i. path_nodes path ! j = (kind, rid)))"
    by (cases "pg_closure_mode g"; cases "pg_effect g")
      (auto simp: grant_applies_to_node_def grant_is_ancestor_or_self_iff [OF assms]
        split: option.split)
  also have "\<dots> \<longleftrightarrow> covers g path i"
    using False assms by (auto simp: covers_def intro: le_less_trans)
  finally show ?thesis .
qed

text \<open>A grant that covers anything names a resource, so it has the closure shape.\<close>

lemma applies_spec_shape: "grant_applies_to_node g path node \<Longrightarrow> is_spec_shape g"
  by (auto simp: grant_applies_to_node_def is_spec_shape_def split: option.splits)

lemma matches_scope_tenant:
  "grant_matches_scope g actor kind i \<Longrightarrow> pg_tenant_id g = actor_tenant_id actor"
  by (simp add: grant_matches_scope_def)

lemma matches_scope_kind:
  "grant_matches_scope g actor kind i \<Longrightarrow> grant_scope_kind_of g = Some kind"
  by (auto simp: grant_matches_scope_def is_some_and_iff)

lemma project_scope_loop_iff:
  "project_scope_loop grants actor project_id path nodes \<longleftrightarrow>
     (\<forall>node \<in> set nodes. \<not> spec_scope_denies_node grants actor ProjectGrant project_id path node \<and>
        (project_has_allow_for_kind grants actor project_id (fst node) \<longrightarrow>
           spec_scope_allows_node grants actor ProjectGrant project_id path node))"
  by (induction nodes) auto

lemma path_nodes_ex: "(\<exists>node \<in> set (path_nodes path). P node) \<longleftrightarrow> (\<exists>i < 5. P (path_nodes path ! i))"
  by (metis in_set_conv_nth length_path_nodes)

lemma path_nodes_all: "(\<forall>node \<in> set (path_nodes path). P node) \<longleftrightarrow> (\<forall>i < 5. P (path_nodes path ! i))"
  by (metis in_set_conv_nth length_path_nodes)

lemmas scope_node_defs =
  spec_scope_allows_node_def spec_scope_denies_node_def project_has_allow_for_kind_def list_ex_iff

text \<open>The grants of one effect that apply to an actor at one scope.\<close>

definition scope_grants ::
  "provider_grant_config list \<Rightarrow> authenticated_actor \<Rightarrow> grant_effect \<Rightarrow> grant_scope_kind \<Rightarrow> string \<Rightarrow>
   provider_grant_config set" where
  "scope_grants grants actor effect kind scope_id =
     {g \<in> set grants. is_active (pg_status g) \<and> pg_effect g = effect \<and>
        grant_matches_scope g actor kind scope_id}"

lemma spec_scope_node_iff:
  assumes "i < 5"
  shows "spec_scope_allows_node grants actor kind s path (path_nodes path ! i) \<longleftrightarrow>
      (\<exists>g \<in> scope_grants grants actor Allow kind s. covers g path i)"
    and "spec_scope_denies_node grants actor kind s path (path_nodes path ! i) \<longleftrightarrow>
      (\<exists>g \<in> scope_grants grants actor Deny kind s. covers g path i)"
  by (auto simp: scope_node_defs scope_grants_def grant_applies_to_node_covers [OF assms])

text \<open>
  The evaluation of closure grants: the organization allows every node of the path and denies
  none, and a project, if there is one, denies no node and allows every node of a kind that it
  grants at all.
\<close>

lemma spec_allows_iff:
  "spec_provider_grant_allows grants actor path \<longleftrightarrow>
     (\<exists>org. actor_organization_id actor = Some org \<and>
        (\<forall>i < 5. (\<exists>g \<in> scope_grants grants actor Allow OrganizationGrant org. covers g path i) \<and>
                (\<forall>g \<in> scope_grants grants actor Deny OrganizationGrant org. \<not> covers g path i))) \<and>
     (\<forall>proj. actor_project_id actor = Some proj \<longrightarrow>
        (\<forall>i < 5. (\<forall>g \<in> scope_grants grants actor Deny ProjectGrant proj. \<not> covers g path i) \<and>
           ((\<exists>g \<in> scope_grants grants actor Allow ProjectGrant proj.
               pg_resource_kind g = Some (fst (path_nodes path ! i))) \<longrightarrow>
            (\<exists>g \<in> scope_grants grants actor Allow ProjectGrant proj. covers g path i))))"
proof -
  have kind: "project_has_allow_for_kind grants actor proj k \<longleftrightarrow>
      (\<exists>g \<in> scope_grants grants actor Allow ProjectGrant proj. pg_resource_kind g = Some k)" for proj k
    by (auto simp: scope_node_defs scope_grants_def)
  have project: "project_scope_inherits_or_narrows grants actor proj path \<longleftrightarrow>
      (\<forall>i < 5. (\<forall>g \<in> scope_grants grants actor Deny ProjectGrant proj. \<not> covers g path i) \<and>
         ((\<exists>g \<in> scope_grants grants actor Allow ProjectGrant proj.
             pg_resource_kind g = Some (fst (path_nodes path ! i))) \<longrightarrow>
          (\<exists>g \<in> scope_grants grants actor Allow ProjectGrant proj. covers g path i)))" for proj
    unfolding project_scope_inherits_or_narrows_def project_scope_loop_iff path_nodes_all kind
    by (simp add: spec_scope_node_iff)
  have org: "scope_allows_all_path_nodes grants actor OrganizationGrant org path \<longleftrightarrow>
      (\<forall>i < 5. (\<exists>g \<in> scope_grants grants actor Allow OrganizationGrant org. covers g path i) \<and>
              (\<forall>g \<in> scope_grants grants actor Deny OrganizationGrant org. \<not> covers g path i))" for org
    unfolding scope_allows_all_path_nodes_def list_all_iff path_nodes_all
    by (simp add: spec_scope_node_iff)
  show ?thesis
    by (cases "actor_organization_id actor"; cases "actor_project_id actor")
      (simp_all add: spec_provider_grant_allows_def org project)
qed

subsection \<open>Order and locality\<close>

lemma provider_grant_allows_set:
  assumes "set grants = set grants'"
  shows "provider_grant_allows grants actor path = provider_grant_allows grants' actor path"
proof -
  have "scope_grants grants = scope_grants grants'"
    using assms by (simp add: scope_grants_def fun_eq_iff)
  then have "spec_provider_grant_allows grants actor path = spec_provider_grant_allows grants' actor path"
    by (simp only: spec_allows_iff)
  moreover have "list_ex P grants = list_ex P grants'" for P
    using assms by (simp add: list_ex_iff)
  ultimately show ?thesis
    by (simp only: provider_grant_allows_def has_spec_provider_grants_def
        legacy_provider_grant_allows_def)
qed

lemma scope_grants_filter:
  "scope_grants (filter (\<lambda>g. is_active (pg_status g) \<and> pg_tenant_id g = actor_tenant_id actor) grants)
     actor effect kind s = scope_grants grants actor effect kind s"
  by (auto simp: scope_grants_def dest: matches_scope_tenant)

text \<open>Only the active grants of the actor's own tenant matter.\<close>

lemma provider_grant_allows_local:
  "provider_grant_allows
     (filter (\<lambda>g. is_active (pg_status g) \<and> pg_tenant_id g = actor_tenant_id actor) grants) actor path =
   provider_grant_allows grants actor path"
proof -
  let ?own = "filter (\<lambda>g. is_active (pg_status g) \<and> pg_tenant_id g = actor_tenant_id actor) grants"
  have "has_spec_provider_grants ?own actor = has_spec_provider_grants grants actor"
    by (auto simp: has_spec_provider_grants_def list_ex_iff)
  moreover have "legacy_provider_grant_allows ?own actor e t = legacy_provider_grant_allows grants actor e t"
    for e t unfolding legacy_provider_grant_allows_def list_ex_iff by auto
  moreover have "spec_provider_grant_allows ?own actor path = spec_provider_grant_allows grants actor path"
    by (simp only: spec_allows_iff scope_grants_filter)
  ultimately show ?thesis by (simp only: provider_grant_allows_def)
qed

subsection \<open>Grants that only narrow\<close>

lemma scope_grants_Cons:
  "scope_grants (g # grants) actor effect kind s =
     (if is_active (pg_status g) \<and> pg_effect g = effect \<and> grant_matches_scope g actor kind s
      then insert g (scope_grants grants actor effect kind s)
      else scope_grants grants actor effect kind s)"
  by (auto simp: scope_grants_def)

text \<open>
  A tenant without closure grants has none that apply at organization scope, so turning the
  closure evaluation on cannot admit a route there.
\<close>

lemma spec_allows_has_spec:
  assumes "spec_provider_grant_allows grants actor path"
  shows "\<exists>g \<in> set grants. is_active (pg_status g) \<and> pg_tenant_id g = actor_tenant_id actor \<and>
    is_spec_shape g \<and> pg_effect g = Allow"
proof -
  have pos: "(0::nat) < 5" by simp
  from assms obtain org where
    "\<forall>i < 5. \<exists>g \<in> scope_grants grants actor Allow OrganizationGrant org. covers g path i"
    unfolding spec_allows_iff by blast
  with pos obtain g where g: "g \<in> scope_grants grants actor Allow OrganizationGrant org"
      "covers g path 0" by blast
  then have "is_spec_shape g"
    using grant_applies_to_node_covers [OF pos] applies_spec_shape by blast
  with g show ?thesis by (auto simp: scope_grants_def dest: matches_scope_tenant)
qed

text \<open>Adding a denial to the closure grants removes routes, and adds none.\<close>

lemma spec_allows_Deny:
  assumes "pg_effect g = Deny" and "spec_provider_grant_allows (g # grants) actor path"
  shows "spec_provider_grant_allows grants actor path"
proof -
  have allow: "scope_grants (g # grants) actor Allow kind s = scope_grants grants actor Allow kind s"
    for kind s using assms(1) by (simp add: scope_grants_Cons)
  have deny: "scope_grants grants actor Deny kind s \<subseteq> scope_grants (g # grants) actor Deny kind s"
    for kind s by (auto simp: scope_grants_def)
  show ?thesis using assms(2) deny unfolding spec_allows_iff allow by blast
qed

lemma provider_grant_allows_Deny:
  assumes deny: "pg_effect g = Deny" and allowed: "provider_grant_allows (g # grants) actor path"
  shows "provider_grant_allows grants actor path"
proof (cases "has_spec_provider_grants grants actor")
  case True
  then have "has_spec_provider_grants (g # grants) actor"
    by (simp add: has_spec_provider_grants_def)
  with True allowed spec_allows_Deny [OF deny] show ?thesis
    by (simp add: provider_grant_allows_def)
next
  case False
  have "\<not> spec_provider_grant_allows (g # grants) actor path"
  proof
    assume "spec_provider_grant_allows (g # grants) actor path"
    with deny have "spec_provider_grant_allows grants actor path" by (rule spec_allows_Deny)
    with False show False
      by (auto simp: has_spec_provider_grants_def list_ex_iff dest!: spec_allows_has_spec)
  qed
  with allowed have "\<not> has_spec_provider_grants (g # grants) actor"
    by (auto simp: provider_grant_allows_def)
  with deny have "\<not> (is_active (pg_status g) \<and> pg_tenant_id g = actor_tenant_id actor)"
    by (simp add: has_spec_provider_grants_def is_spec_shape_def)
  with allowed \<open>\<not> has_spec_provider_grants (g # grants) actor\<close> False show ?thesis
    by (simp add: provider_grant_allows_def legacy_provider_grant_allows_def) blast
qed

text \<open>A project inherits from its organization or narrows it.\<close>

lemma scope_grants_project_free:
  "scope_grants grants (actor\<lparr>actor_project_id := p\<rparr>) effect kind s =
     scope_grants grants actor effect kind s"
  by (simp add: scope_grants_def grant_matches_scope_def)

lemma spec_allows_project_narrows:
  "spec_provider_grant_allows grants actor path \<Longrightarrow>
     spec_provider_grant_allows grants (actor\<lparr>actor_project_id := None\<rparr>) path"
  by (simp add: spec_allows_iff scope_grants_project_free)

text \<open>One organization grant on the alias, with its descendants, opens the whole route.\<close>

lemma covers_alias_descendants:
  assumes "pg_resource_kind g = Some ModelAliasNode" and "pg_effect g = Allow"
    and "pg_resource_id g = Some (ma_model_alias_id (gp_alias path))"
    and "pg_closure_mode g = IncludeDescendants"
  shows "covers g path i"
  using assms by (auto simp: covers_def path_nodes_def intro: exI [of _ 0])

end
