(* ===== verification/Gateway_Hot_State.thy ===== *)
theory Gateway_Hot_State
  imports Gateway_Error
begin

text \<open>
  Hot routing state (\<open>crates/starweaver-gateway/src/hot_state.rs\<close> and its in-memory
  implementation in \<open>storage.rs\<close>): endpoint health, drain locks and sticky routes, each a record
  with a config version and an expiry that a read filters on. The trait \<open>RouteHotState\<close> is the
  locale \<open>route_hot_state\<close>, an extension of the read-only part \<open>route_hot_reader\<close>; the
  in-memory store interprets the whole contract and the null implementation, which forgets
  writes, the read-only part.
\<close>

subsection \<open>Records\<close>

datatype endpoint_health_state = Unknown | Healthy | Warmup | Degraded | Unhealthy | Blocked

fun health_as_str :: "endpoint_health_state \<Rightarrow> string" where
  "health_as_str Unknown = ''unknown''"
| "health_as_str Healthy = ''healthy''"
| "health_as_str Warmup = ''warmup''"
| "health_as_str Degraded = ''degraded''"
| "health_as_str Unhealthy = ''unhealthy''"
| "health_as_str Blocked = ''blocked''"

record endpoint_health_record =
  eh_tenant_id :: string
  eh_provider_endpoint_id :: string
  eh_config_version :: i64
  eh_state :: endpoint_health_state
  eh_observed_at :: datetime
  eh_expires_at :: datetime

definition health_is_fresh_for :: "endpoint_health_record \<Rightarrow> i64 option \<Rightarrow> datetime \<Rightarrow> bool" where
  "health_is_fresh_for r config_version now \<longleftrightarrow>
     config_version = Some (eh_config_version r) \<and> eh_expires_at r > now"

record endpoint_drain_record =
  edr_tenant_id :: string
  edr_provider_endpoint_id :: string
  edr_config_version :: i64
  edr_reason :: string
  edr_created_at :: datetime
  edr_expires_at :: datetime

definition drain_is_fresh_for :: "endpoint_drain_record \<Rightarrow> i64 option \<Rightarrow> datetime \<Rightarrow> bool" where
  "drain_is_fresh_for r config_version now \<longleftrightarrow>
     config_version = Some (edr_config_version r) \<and> edr_expires_at r > now"

record sticky_route_record =
  sr_tenant_id :: string
  sr_project_id :: "string option"
  sr_model_alias_id :: string
  sr_affinity_hash :: string
  sr_routing_group_id :: string
  sr_model_target_id :: string
  sr_provider_endpoint_id :: string
  sr_config_version :: i64
  sr_created_at :: datetime
  sr_expires_at :: datetime

definition sticky_is_fresh_for :: "sticky_route_record \<Rightarrow> i64 option \<Rightarrow> datetime \<Rightarrow> bool" where
  "sticky_is_fresh_for r config_version now \<longleftrightarrow>
     config_version = Some (sr_config_version r) \<and> sr_expires_at r > now"

subsection \<open>Key shapes of the Redis-compatible backend\<close>

definition endpoint_health_key :: "string \<Rightarrow> string \<Rightarrow> string" where
  "endpoint_health_key tenant_id provider_endpoint_id =
     ''gateway:endpoint_health:'' @ tenant_id @ '':'' @ provider_endpoint_id"

definition endpoint_drain_key :: "string \<Rightarrow> string \<Rightarrow> string" where
  "endpoint_drain_key tenant_id provider_endpoint_id =
     ''gateway:drain:'' @ tenant_id @ '':'' @ provider_endpoint_id"

definition sticky_route_key :: "string \<Rightarrow> string option \<Rightarrow> string \<Rightarrow> string \<Rightarrow> string" where
  "sticky_route_key tenant_id project_id model_alias_id affinity_hash =
     ''gateway:sticky:'' @ tenant_id @ '':'' @ unwrap_or project_id ''_'' @ '':'' @
     model_alias_id @ '':'' @ affinity_hash"

subsection \<open>The in-memory store\<close>

text \<open>The three maps of \<open>InMemoryGatewayStore\<close> that hold hot routing state.\<close>

record hot_store =
  hs_endpoint_health :: "string \<times> string \<rightharpoonup> endpoint_health_record"
  hs_endpoint_drains :: "string \<times> string \<rightharpoonup> endpoint_drain_record"
  hs_sticky_routes :: "string \<times> string option \<times> string \<times> string \<rightharpoonup> sticky_route_record"

definition empty_hot_store :: hot_store where
  "empty_hot_store =
     \<lparr>hs_endpoint_health = Map.empty, hs_endpoint_drains = Map.empty,
      hs_sticky_routes = Map.empty\<rparr>"

definition mem_endpoint_health_state ::
  "hot_store \<Rightarrow> string \<Rightarrow> string \<Rightarrow> i64 option \<Rightarrow> datetime \<Rightarrow> endpoint_health_state" where
  "mem_endpoint_health_state s tenant_id provider_endpoint_id config_version now =
     (case opt_filter (\<lambda>r. health_is_fresh_for r config_version now)
             (hs_endpoint_health s (tenant_id, provider_endpoint_id)) of
        None \<Rightarrow> Unknown
      | Some r \<Rightarrow> eh_state r)"

definition mem_endpoint_is_drained ::
  "hot_store \<Rightarrow> string \<Rightarrow> string \<Rightarrow> i64 option \<Rightarrow> datetime \<Rightarrow> bool" where
  "mem_endpoint_is_drained s tenant_id provider_endpoint_id config_version now =
     is_some_and (hs_endpoint_drains s (tenant_id, provider_endpoint_id))
       (\<lambda>r. drain_is_fresh_for r config_version now)"

definition mem_sticky_route ::
  "hot_store \<Rightarrow> string \<Rightarrow> string option \<Rightarrow> string \<Rightarrow> string \<Rightarrow> i64 option \<Rightarrow> datetime \<Rightarrow>
   sticky_route_record option" where
  "mem_sticky_route s tenant_id project_id model_alias_id affinity_hash config_version now =
     opt_filter (\<lambda>r. sticky_is_fresh_for r config_version now)
       (hs_sticky_routes s (tenant_id, project_id, model_alias_id, affinity_hash))"

definition mem_set_endpoint_health :: "endpoint_health_record \<Rightarrow> hot_store \<Rightarrow> hot_store" where
  "mem_set_endpoint_health r s =
     s\<lparr>hs_endpoint_health :=
         (hs_endpoint_health s)((eh_tenant_id r, eh_provider_endpoint_id r) \<mapsto> r)\<rparr>"

definition mem_set_endpoint_drain :: "endpoint_drain_record \<Rightarrow> hot_store \<Rightarrow> hot_store" where
  "mem_set_endpoint_drain r s =
     s\<lparr>hs_endpoint_drains :=
         (hs_endpoint_drains s)((edr_tenant_id r, edr_provider_endpoint_id r) \<mapsto> r)\<rparr>"

definition mem_set_sticky_route :: "sticky_route_record \<Rightarrow> hot_store \<Rightarrow> hot_store" where
  "mem_set_sticky_route r s =
     s\<lparr>hs_sticky_routes :=
         (hs_sticky_routes s)
           ((sr_tenant_id r, sr_project_id r, sr_model_alias_id r, sr_affinity_hash r) \<mapsto> r)\<rparr>"

subsection \<open>The null implementation\<close>

definition null_endpoint_health_state ::
  "unit \<Rightarrow> string \<Rightarrow> string \<Rightarrow> i64 option \<Rightarrow> datetime \<Rightarrow> endpoint_health_state" where
  "null_endpoint_health_state s tenant_id provider_endpoint_id config_version now = Unknown"

definition null_endpoint_is_drained ::
  "unit \<Rightarrow> string \<Rightarrow> string \<Rightarrow> i64 option \<Rightarrow> datetime \<Rightarrow> bool" where
  "null_endpoint_is_drained s tenant_id provider_endpoint_id config_version now = False"

definition null_sticky_route ::
  "unit \<Rightarrow> string \<Rightarrow> string option \<Rightarrow> string \<Rightarrow> string \<Rightarrow> i64 option \<Rightarrow> datetime \<Rightarrow>
   sticky_route_record option" where
  "null_sticky_route s tenant_id project_id model_alias_id affinity_hash config_version now = None"

subsection \<open>What a route planner reads\<close>

text \<open>The \<open>&dyn RouteHotState\<close> argument of the planner: the three reads of one backend.\<close>

record hot_view =
  hv_health :: "string \<Rightarrow> string \<Rightarrow> i64 option \<Rightarrow> datetime \<Rightarrow> endpoint_health_state"
  hv_drained :: "string \<Rightarrow> string \<Rightarrow> i64 option \<Rightarrow> datetime \<Rightarrow> bool"
  hv_sticky :: "string \<Rightarrow> string option \<Rightarrow> string \<Rightarrow> string \<Rightarrow> i64 option \<Rightarrow> datetime \<Rightarrow>
    sticky_route_record option"

definition mem_view :: "hot_store \<Rightarrow> hot_view" where
  "mem_view s =
     \<lparr>hv_health = mem_endpoint_health_state s, hv_drained = mem_endpoint_is_drained s,
      hv_sticky = mem_sticky_route s\<rparr>"

definition null_view :: hot_view where
  "null_view =
     \<lparr>hv_health = null_endpoint_health_state (), hv_drained = null_endpoint_is_drained (),
      hv_sticky = null_sticky_route ()\<rparr>"

subsection \<open>The contract\<close>

text \<open>
  Reads never see a value of another config version or one past its expiry: without a config
  version there is no hint at all, and hints only disappear as time goes by.
\<close>

locale route_hot_reader =
  fixes health :: "'s \<Rightarrow> string \<Rightarrow> string \<Rightarrow> i64 option \<Rightarrow> datetime \<Rightarrow> endpoint_health_state"
    and drained :: "'s \<Rightarrow> string \<Rightarrow> string \<Rightarrow> i64 option \<Rightarrow> datetime \<Rightarrow> bool"
    and sticky :: "'s \<Rightarrow> string \<Rightarrow> string option \<Rightarrow> string \<Rightarrow> string \<Rightarrow> i64 option \<Rightarrow> datetime \<Rightarrow>
      sticky_route_record option"
  assumes health_no_version: "health s t e None now = Unknown"
    and drained_no_version: "\<not> drained s t e None now"
    and sticky_no_version: "sticky s t p a h None now = None"
    and health_fades:
      "now \<le> now' \<Longrightarrow> health s t e cv now' \<noteq> Unknown \<Longrightarrow> health s t e cv now = health s t e cv now'"
    and drained_fades: "now \<le> now' \<Longrightarrow> drained s t e cv now' \<Longrightarrow> drained s t e cv now"
    and sticky_fresh: "sticky s t p a h cv now = Some r \<Longrightarrow> sticky_is_fresh_for r cv now"

text \<open>
  A backend that keeps writes: the last write of a key is what a read filters, and a write
  touches neither other keys nor the other two kinds of hint.
\<close>

locale route_hot_state = route_hot_reader health drained sticky
  for health :: "'s \<Rightarrow> string \<Rightarrow> string \<Rightarrow> i64 option \<Rightarrow> datetime \<Rightarrow> endpoint_health_state"
    and drained :: "'s \<Rightarrow> string \<Rightarrow> string \<Rightarrow> i64 option \<Rightarrow> datetime \<Rightarrow> bool"
    and sticky :: "'s \<Rightarrow> string \<Rightarrow> string option \<Rightarrow> string \<Rightarrow> string \<Rightarrow> i64 option \<Rightarrow> datetime \<Rightarrow>
      sticky_route_record option" +
  fixes set_health :: "endpoint_health_record \<Rightarrow> 's \<Rightarrow> 's"
    and set_drain :: "endpoint_drain_record \<Rightarrow> 's \<Rightarrow> 's"
    and set_sticky :: "sticky_route_record \<Rightarrow> 's \<Rightarrow> 's"
  assumes health_set_health:
      "health (set_health r s) t e cv now =
         (if t = eh_tenant_id r \<and> e = eh_provider_endpoint_id r
          then if health_is_fresh_for r cv now then eh_state r else Unknown
          else health s t e cv now)"
    and drained_set_drain:
      "drained (set_drain d s) t e cv now =
         (if t = edr_tenant_id d \<and> e = edr_provider_endpoint_id d then drain_is_fresh_for d cv now
          else drained s t e cv now)"
    and sticky_set_sticky:
      "sticky (set_sticky k s) t p a h cv now =
         (if t = sr_tenant_id k \<and> p = sr_project_id k \<and> a = sr_model_alias_id k \<and>
             h = sr_affinity_hash k
          then if sticky_is_fresh_for k cv now then Some k else None
          else sticky s t p a h cv now)"
    and frame_health: "health (set_drain d s) = health s" "health (set_sticky k s) = health s"
    and frame_drained: "drained (set_health r s) = drained s" "drained (set_sticky k s) = drained s"
    and frame_sticky: "sticky (set_health r s) = sticky s" "sticky (set_drain d s) = sticky s"
begin

text \<open>A drain of one endpoint is invisible in every other tenant and for every other endpoint.\<close>

lemma drain_isolated:
  "(t, e) \<noteq> (edr_tenant_id d, edr_provider_endpoint_id d) \<Longrightarrow>
     drained (set_drain d s) t e cv now = drained s t e cv now"
  by (auto simp: drained_set_drain)

text \<open>A drain holds from the write until its expiry, under the version it was written for.\<close>

lemma drain_lifetime:
  "drained (set_drain d s) (edr_tenant_id d) (edr_provider_endpoint_id d) cv now \<longleftrightarrow>
     cv = Some (edr_config_version d) \<and> now < edr_expires_at d"
  by (auto simp: drained_set_drain drain_is_fresh_for_def)

text \<open>The last of two writes to the same sticky key wins.\<close>

lemma sticky_last_write:
  "sr_tenant_id k = sr_tenant_id k' \<Longrightarrow> sr_project_id k = sr_project_id k' \<Longrightarrow>
   sr_model_alias_id k = sr_model_alias_id k' \<Longrightarrow> sr_affinity_hash k = sr_affinity_hash k' \<Longrightarrow>
     sticky (set_sticky k' (set_sticky k s)) = sticky (set_sticky k' s)"
  by (intro ext) (auto simp: sticky_set_sticky)

end

lemmas mem_hot_defs =
  mem_endpoint_health_state_def mem_endpoint_is_drained_def mem_sticky_route_def
  mem_set_endpoint_health_def mem_set_endpoint_drain_def mem_set_sticky_route_def

interpretation null_hot: route_hot_reader
  null_endpoint_health_state null_endpoint_is_drained null_sticky_route
  by unfold_locales
    (simp_all add: null_endpoint_health_state_def null_endpoint_is_drained_def
       null_sticky_route_def)

lemma is_fresh_antimono:
  "now \<le> now' \<Longrightarrow> health_is_fresh_for r cv now' \<Longrightarrow> health_is_fresh_for r cv now"
  "now \<le> now' \<Longrightarrow> drain_is_fresh_for d cv now' \<Longrightarrow> drain_is_fresh_for d cv now"
  by (auto simp: health_is_fresh_for_def drain_is_fresh_for_def)

interpretation mem_hot: route_hot_state
  mem_endpoint_health_state mem_endpoint_is_drained mem_sticky_route
  mem_set_endpoint_health mem_set_endpoint_drain mem_set_sticky_route
proof unfold_locales
  fix s t e now
  show "mem_endpoint_health_state s t e None now = Unknown"
    by (cases "hs_endpoint_health s (t, e)") (simp_all add: mem_hot_defs health_is_fresh_for_def)
  show "\<not> mem_endpoint_is_drained s t e None now"
    by (cases "hs_endpoint_drains s (t, e)") (simp_all add: mem_hot_defs drain_is_fresh_for_def)
next
  fix s t p a h now
  show "mem_sticky_route s t p a h None now = None"
    by (cases "hs_sticky_routes s (t, p, a, h)") (simp_all add: mem_hot_defs sticky_is_fresh_for_def)
next
  fix now now' :: datetime and s t e cv
  assume le: "now \<le> now'"
  show "mem_endpoint_health_state s t e cv now = mem_endpoint_health_state s t e cv now'"
    if "mem_endpoint_health_state s t e cv now' \<noteq> Unknown"
    using that is_fresh_antimono(1) [OF le]
    by (cases "hs_endpoint_health s (t, e)") (auto simp: mem_hot_defs split: if_splits)
  show "mem_endpoint_is_drained s t e cv now" if "mem_endpoint_is_drained s t e cv now'"
    using that is_fresh_antimono(2) [OF le]
    by (cases "hs_endpoint_drains s (t, e)") (auto simp: mem_hot_defs)
next
  fix s t p a h cv now r
  assume "mem_sticky_route s t p a h cv now = Some r"
  then show "sticky_is_fresh_for r cv now" by (simp add: mem_hot_defs opt_filter_Some_iff)
qed (auto simp: mem_hot_defs fun_eq_iff)

subsection \<open>Keys\<close>

text \<open>
  The Redis keys separate tenants and endpoints as long as ids hold no colon. The affinity hash
  (\<open>sha256:..\<close>) is last, so it may hold one.
\<close>

lemma endpoint_health_key_inject:
  assumes "CHR '':'' \<notin> set t" "CHR '':'' \<notin> set t'"
  shows "endpoint_health_key t e = endpoint_health_key t' e' \<longleftrightarrow> t = t' \<and> e = e'"
  using assms by (simp add: endpoint_health_key_def append_sep_eq)

lemma endpoint_drain_key_inject:
  assumes "CHR '':'' \<notin> set t" "CHR '':'' \<notin> set t'"
  shows "endpoint_drain_key t e = endpoint_drain_key t' e' \<longleftrightarrow> t = t' \<and> e = e'"
  using assms by (simp add: endpoint_drain_key_def append_sep_eq)

lemma endpoint_keys_disjoint: "endpoint_health_key t e \<noteq> endpoint_drain_key t' e'"
  by (simp add: endpoint_health_key_def endpoint_drain_key_def)

end
