(* ===== verification/Gateway_Routing.thy ===== *)
theory Gateway_Routing
  imports Gateway_Domain
begin

text \<open>
  Route evidence (\<open>crates/starweaver-gateway/src/routing.rs\<close>): the reasons a candidate is
  filtered for, their counted summary, and the decision and attempt records written for every
  routed request. Ids drawn by \<open>new_prefixed_id\<close> are arguments. A summary count is a \<open>u32\<close> in
  the source and a \<open>nat\<close> here: \<open>summary_total\<close> bounds every count by the number of candidates.
\<close>

subsection \<open>Filter reasons\<close>

datatype route_filter_reason =
    GroupTargetInactive | TargetMissing | TargetInactive | ProtocolMismatch
  | StreamingUnsupported | EndpointMissing | EndpointInactive | EndpointProtocolMismatch
  | EndpointDrained | EndpointUnhealthy | EndpointHealthBlocked | CredentialMissing
  | CredentialUnusable | ProviderGrantDenied

fun filter_reason_as_str :: "route_filter_reason \<Rightarrow> string" where
  "filter_reason_as_str GroupTargetInactive = ''group_target_inactive''"
| "filter_reason_as_str TargetMissing = ''target_missing''"
| "filter_reason_as_str TargetInactive = ''target_inactive''"
| "filter_reason_as_str ProtocolMismatch = ''protocol_mismatch''"
| "filter_reason_as_str StreamingUnsupported = ''streaming_unsupported''"
| "filter_reason_as_str EndpointMissing = ''endpoint_missing''"
| "filter_reason_as_str EndpointInactive = ''endpoint_inactive''"
| "filter_reason_as_str EndpointProtocolMismatch = ''endpoint_protocol_mismatch''"
| "filter_reason_as_str EndpointDrained = ''endpoint_drained''"
| "filter_reason_as_str EndpointUnhealthy = ''endpoint_unhealthy''"
| "filter_reason_as_str EndpointHealthBlocked = ''endpoint_health_blocked''"
| "filter_reason_as_str CredentialMissing = ''credential_missing''"
| "filter_reason_as_str CredentialUnusable = ''credential_unusable''"
| "filter_reason_as_str ProviderGrantDenied = ''provider_grant_denied''"

record route_filter_summary =
  fs_reason :: route_filter_reason
  fs_count :: nat

text \<open>\<open>add_filter_reason\<close>: bump the first entry of the reason, or append a new one.\<close>

fun add_filter_reason ::
  "route_filter_summary list \<Rightarrow> route_filter_reason \<Rightarrow> route_filter_summary list" where
  "add_filter_reason [] reason = [\<lparr>fs_reason = reason, fs_count = 1\<rparr>]"
| "add_filter_reason (entry # summary) reason =
     (if fs_reason entry = reason then entry\<lparr>fs_count := fs_count entry + 1\<rparr> # summary
      else entry # add_filter_reason summary reason)"

subsection \<open>Decisions and attempts\<close>

datatype route_decision_status =
  DecStarted | DecSelected | DecBlocked | DecNoRoute | DecCompleted | DecFailed

fun decision_status_as_str :: "route_decision_status \<Rightarrow> string" where
  "decision_status_as_str DecStarted = ''started''"
| "decision_status_as_str DecSelected = ''selected''"
| "decision_status_as_str DecBlocked = ''blocked''"
| "decision_status_as_str DecNoRoute = ''no_route''"
| "decision_status_as_str DecCompleted = ''completed''"
| "decision_status_as_str DecFailed = ''failed''"

datatype route_attempt_status = AttStarted | AttCompleted | AttFailed | AttClientDisconnected

fun attempt_status_as_str :: "route_attempt_status \<Rightarrow> string" where
  "attempt_status_as_str AttStarted = ''started''"
| "attempt_status_as_str AttCompleted = ''completed''"
| "attempt_status_as_str AttFailed = ''failed''"
| "attempt_status_as_str AttClientDisconnected = ''client_disconnected''"

record route_decision_record =
  rd_route_decision_id :: string
  rd_tenant_id :: string
  rd_organization_id :: "string option"
  rd_project_id :: "string option"
  rd_principal_id :: "string option"
  rd_api_key_id :: "string option"
  rd_actor_id :: string
  rd_actor_kind :: actor_kind
  rd_request_id :: string
  rd_trace_id :: string
  rd_protocol_family :: protocol_family
  rd_config_snapshot_id :: "string option"
  rd_config_version :: "i64 option"
  rd_model_alias_id :: "string option"
  rd_alias_name :: string
  rd_route_policy_id :: "string option"
  rd_routing_group_id :: "string option"
  rd_model_target_id :: "string option"
  rd_provider_endpoint_id :: "string option"
  rd_upstream_credential_id :: "string option"
  rd_filtered_summary :: "route_filter_summary list"
  rd_sticky_hit :: bool
  rd_sticky_miss_reason :: "string option"
  rd_status :: route_decision_status
  rd_reason :: string
  rd_occurred_at :: datetime

record route_decision_request =
  drq_protocol_family :: protocol_family
  drq_alias_name :: string
  drq_config_snapshot_id :: "string option"
  drq_config_version :: "i64 option"

record selected_route_evidence =
  sel_model_alias_id :: string
  sel_route_policy_id :: string
  sel_routing_group_id :: string
  sel_model_target_id :: string
  sel_provider_endpoint_id :: string
  sel_upstream_credential_id :: "string option"
  sel_filtered_summary :: "route_filter_summary list"
  sel_sticky_hit :: bool
  sel_sticky_miss_reason :: "string option"

text \<open>\<open>RouteDecisionRecord::selected\<close>.\<close>

definition decision_selected ::
  "string \<Rightarrow> authenticated_actor \<Rightarrow> route_decision_request \<Rightarrow> selected_route_evidence \<Rightarrow> datetime \<Rightarrow>
   route_decision_record" where
  "decision_selected new_id actor request selected occurred_at =
     \<lparr>rd_route_decision_id = new_id,
      rd_tenant_id = actor_tenant_id actor,
      rd_organization_id = actor_organization_id actor,
      rd_project_id = actor_project_id actor,
      rd_principal_id = actor_principal_id actor,
      rd_api_key_id = actor_api_key_id actor,
      rd_actor_id = actor_id actor,
      rd_actor_kind = actor_kind actor,
      rd_request_id = actor_request_id actor,
      rd_trace_id = actor_trace_id actor,
      rd_protocol_family = drq_protocol_family request,
      rd_config_snapshot_id = drq_config_snapshot_id request,
      rd_config_version = drq_config_version request,
      rd_model_alias_id = Some (sel_model_alias_id selected),
      rd_alias_name = drq_alias_name request,
      rd_route_policy_id = Some (sel_route_policy_id selected),
      rd_routing_group_id = Some (sel_routing_group_id selected),
      rd_model_target_id = Some (sel_model_target_id selected),
      rd_provider_endpoint_id = Some (sel_provider_endpoint_id selected),
      rd_upstream_credential_id = sel_upstream_credential_id selected,
      rd_filtered_summary = sel_filtered_summary selected,
      rd_sticky_hit = sel_sticky_hit selected,
      rd_sticky_miss_reason = sel_sticky_miss_reason selected,
      rd_status = DecSelected,
      rd_reason = ''selected'',
      rd_occurred_at = occurred_at\<rparr>"

text \<open>\<open>RouteDecisionRecord::terminal\<close>.\<close>

definition decision_terminal ::
  "string \<Rightarrow> authenticated_actor \<Rightarrow> route_decision_request \<Rightarrow> route_decision_status \<Rightarrow> string \<Rightarrow>
   route_filter_summary list \<Rightarrow> datetime \<Rightarrow> route_decision_record" where
  "decision_terminal new_id actor request status reason filtered_summary occurred_at =
     \<lparr>rd_route_decision_id = new_id,
      rd_tenant_id = actor_tenant_id actor,
      rd_organization_id = actor_organization_id actor,
      rd_project_id = actor_project_id actor,
      rd_principal_id = actor_principal_id actor,
      rd_api_key_id = actor_api_key_id actor,
      rd_actor_id = actor_id actor,
      rd_actor_kind = actor_kind actor,
      rd_request_id = actor_request_id actor,
      rd_trace_id = actor_trace_id actor,
      rd_protocol_family = drq_protocol_family request,
      rd_config_snapshot_id = drq_config_snapshot_id request,
      rd_config_version = drq_config_version request,
      rd_model_alias_id = None,
      rd_alias_name = drq_alias_name request,
      rd_route_policy_id = None,
      rd_routing_group_id = None,
      rd_model_target_id = None,
      rd_provider_endpoint_id = None,
      rd_upstream_credential_id = None,
      rd_filtered_summary = filtered_summary,
      rd_sticky_hit = False,
      rd_sticky_miss_reason = None,
      rd_status = status,
      rd_reason = reason,
      rd_occurred_at = occurred_at\<rparr>"

record route_attempt_record =
  att_route_attempt_event_id :: string
  att_route_decision_id :: string
  att_attempt_index :: nat
  att_routing_group_id :: string
  att_model_target_id :: string
  att_provider_endpoint_id :: string
  att_status :: route_attempt_status
  att_started_at :: datetime
  att_ended_at :: "datetime option"

definition attempt_completed ::
  "string \<Rightarrow> string \<Rightarrow> selected_route_evidence \<Rightarrow> datetime \<Rightarrow> datetime \<Rightarrow> route_attempt_record" where
  "attempt_completed new_id route_decision_id selected started_at ended_at =
     \<lparr>att_route_attempt_event_id = new_id,
      att_route_decision_id = route_decision_id,
      att_attempt_index = 0,
      att_routing_group_id = sel_routing_group_id selected,
      att_model_target_id = sel_model_target_id selected,
      att_provider_endpoint_id = sel_provider_endpoint_id selected,
      att_status = AttCompleted,
      att_started_at = started_at,
      att_ended_at = Some ended_at\<rparr>"

definition attempt_terminal ::
  "string \<Rightarrow> string \<Rightarrow> nat \<Rightarrow> selected_route_evidence \<Rightarrow> route_attempt_status \<Rightarrow> datetime \<Rightarrow>
   datetime \<Rightarrow> route_attempt_record" where
  "attempt_terminal new_id route_decision_id attempt_index selected status started_at ended_at =
     \<lparr>att_route_attempt_event_id = new_id,
      att_route_decision_id = route_decision_id,
      att_attempt_index = attempt_index,
      att_routing_group_id = sel_routing_group_id selected,
      att_model_target_id = sel_model_target_id selected,
      att_provider_endpoint_id = sel_provider_endpoint_id selected,
      att_status = status,
      att_started_at = started_at,
      att_ended_at = Some ended_at\<rparr>"

definition attempt_failed ::
  "string \<Rightarrow> string \<Rightarrow> nat \<Rightarrow> selected_route_evidence \<Rightarrow> datetime \<Rightarrow> datetime \<Rightarrow>
   route_attempt_record" where
  "attempt_failed new_id route_decision_id attempt_index selected started_at ended_at =
     attempt_terminal new_id route_decision_id attempt_index selected AttFailed started_at ended_at"

definition attempt_client_disconnected ::
  "string \<Rightarrow> string \<Rightarrow> nat \<Rightarrow> selected_route_evidence \<Rightarrow> datetime \<Rightarrow> datetime \<Rightarrow>
   route_attempt_record" where
  "attempt_client_disconnected new_id route_decision_id attempt_index selected started_at ended_at =
     attempt_terminal new_id route_decision_id attempt_index selected AttClientDisconnected
       started_at ended_at"

subsection \<open>Counting\<close>

lemma filter_reason_as_str_inject:
  "filter_reason_as_str a = filter_reason_as_str b \<longleftrightarrow> a = b"
  by (cases a; cases b) simp_all

text \<open>The count a summary records for a reason, and the total of its counts.\<close>

definition summary_count :: "route_filter_summary list \<Rightarrow> route_filter_reason \<Rightarrow> nat" where
  "summary_count summary reason =
     sum_list (map fs_count (filter (\<lambda>e. fs_reason e = reason) summary))"

definition summary_total :: "route_filter_summary list \<Rightarrow> nat" where
  "summary_total summary = sum_list (map fs_count summary)"

text \<open>Well-formed: one entry per reason, no empty entry.\<close>

definition wf_summary :: "route_filter_summary list \<Rightarrow> bool" where
  "wf_summary summary \<longleftrightarrow>
     distinct (map fs_reason summary) \<and> (\<forall>e \<in> set summary. 0 < fs_count e)"

lemma wf_summary_Nil [simp]: "wf_summary []"
  by (simp add: wf_summary_def)

lemma summary_Nil [simp]: "summary_total [] = 0" "summary_count [] r = 0"
  by (simp_all add: summary_total_def summary_count_def)

lemma summary_total_Cons: "summary_total (e # summary) = fs_count e + summary_total summary"
  by (simp add: summary_total_def)

lemma add_filter_reason_reasons:
  "fs_reason ` set (add_filter_reason summary reason) = insert reason (fs_reason ` set summary)"
  by (induction summary) auto

lemma add_filter_reason_wf: "wf_summary summary \<Longrightarrow> wf_summary (add_filter_reason summary reason)"
proof (induction summary)
  case Nil
  then show ?case by (simp add: wf_summary_def)
next
  case (Cons e summary)
  then have "wf_summary summary" by (simp add: wf_summary_def)
  with Cons have IH: "wf_summary (add_filter_reason summary reason)" by blast
  with Cons.prems show ?case
    using add_filter_reason_reasons [of summary reason]
    by (auto simp: wf_summary_def)
qed

lemma add_filter_reason_total [simp]:
  "summary_total (add_filter_reason summary reason) = Suc (summary_total summary)"
  by (induction summary) (auto simp: summary_total_def)

lemma add_filter_reason_count:
  "wf_summary summary \<Longrightarrow> summary_count (add_filter_reason summary reason) r =
     summary_count summary r + (if r = reason then 1 else 0)"
proof (induction summary)
  case Nil
  then show ?case by (simp add: summary_count_def)
next
  case (Cons e summary)
  from Cons.prems have "wf_summary summary" by (simp add: wf_summary_def)
  with Cons.IH show ?case by (auto simp: summary_count_def)
qed

lemma summary_count_le_total: "summary_count summary reason \<le> summary_total summary"
  by (induction summary) (auto simp: summary_count_def summary_total_def)

end
