(* ===== verification/Gateway_Route_Plan.thy ===== *)
theory Gateway_Route_Plan
  imports Gateway_Grants Gateway_Hot_State Gateway_Routing "HOL-Library.Product_Lexorder"
begin

text \<open>
  Route planning (\<open>crates/starweaver-gateway/src/catalog.rs\<close>): alias resolution, the binding of
  an alias to its policy and group, the evaluation of a candidate, the sticky attempt and the
  ordered search for the first eligible candidate. The mutable summary and the
  \<open>provider_grant_denied\<close> flag of the source are threaded through the functions that update
  them. \<open>eligible\<close> is the declarative reading of a candidate that evaluates to a selection.
\<close>

subsection \<open>Requests, selections and plans\<close>

record route_plan_request =
  pr_actor :: authenticated_actor
  pr_protocol_family :: protocol_family
  pr_alias_name :: string
  pr_streaming :: bool
  pr_hot_state :: hot_view
  pr_config_version :: "i64 option"
  pr_now :: datetime
  pr_route_affinity_hash :: "string option"

record route_selection =
  rs_model_alias_id :: string
  rs_alias_name :: string
  rs_route_policy_id :: string
  rs_routing_group_id :: string
  rs_model_target_id :: string
  rs_upstream_model_id :: string
  rs_pricing_sku_id :: "string option"
  rs_provider_endpoint :: provider_endpoint
  rs_upstream_credential_id :: "string option"
  rs_filtered_summary :: "route_filter_summary list"
  rs_sticky_hit :: bool
  rs_sticky_miss_reason :: "string option"
  rs_sticky_ttl_seconds :: "i64 option"

datatype route_plan_outcome =
  PlanSelected route_selection | PlanProviderGrantDenied | PlanNoRoute

record route_plan =
  plan_outcome :: route_plan_outcome
  plan_filtered_summary :: "route_filter_summary list"

record route_candidate_context =
  ctx_actor :: authenticated_actor
  ctx_protocol_family :: protocol_family
  ctx_streaming :: bool
  ctx_alias :: model_alias_config
  ctx_policy :: route_policy_config
  ctx_group :: routing_group_config
  ctx_endpoints :: "string \<rightharpoonup> provider_endpoint"
  ctx_credentials :: "string \<rightharpoonup> upstream_credential_config"
  ctx_targets :: "string \<rightharpoonup> model_target_config"
  ctx_hot_state :: hot_view
  ctx_config_version :: "i64 option"
  ctx_now :: datetime

datatype candidate_evaluation =
  CandSelected model_target_config provider_endpoint | CandFiltered route_filter_reason

datatype sticky_route_selection =
  StickySelected route_selection | StickyMiss "string option" | StickyUnavailable

definition make_route_selection ::
  "route_candidate_context \<Rightarrow> model_target_config \<Rightarrow> provider_endpoint \<Rightarrow> route_filter_summary list \<Rightarrow>
   bool \<Rightarrow> string option \<Rightarrow> route_selection" where
  "make_route_selection ctx target endpoint summary sticky_hit sticky_miss_reason =
     \<lparr>rs_model_alias_id = ma_model_alias_id (ctx_alias ctx),
      rs_alias_name = ma_alias_name (ctx_alias ctx),
      rs_route_policy_id = rp_route_policy_id (ctx_policy ctx),
      rs_routing_group_id = rg_routing_group_id (ctx_group ctx),
      rs_model_target_id = mt_model_target_id target,
      rs_upstream_model_id = mt_upstream_model_id target,
      rs_pricing_sku_id = mt_pricing_sku_id target,
      rs_provider_endpoint = endpoint,
      rs_upstream_credential_id = mt_upstream_credential_id target,
      rs_filtered_summary = summary,
      rs_sticky_hit = sticky_hit,
      rs_sticky_miss_reason = sticky_miss_reason,
      rs_sticky_ttl_seconds = rp_sticky_ttl_seconds (ctx_policy ctx)\<rparr>"

subsection \<open>Alias resolution\<close>

definition alias_scope_score :: "model_alias_config \<Rightarrow> authenticated_actor \<Rightarrow> nat option" where
  "alias_scope_score alias actor =
     (if ma_project_id alias = actor_project_id actor \<and>
         ma_organization_id alias = actor_organization_id actor \<and> ma_project_id alias \<noteq> None
      then Some 3
      else if ma_project_id alias = None \<and>
         ma_organization_id alias = actor_organization_id actor \<and> ma_organization_id alias \<noteq> None
      then Some 2
      else if ma_project_id alias = None \<and> ma_organization_id alias = None then Some 1
      else None)"

definition scoped_aliases ::
  "gateway_catalog \<Rightarrow> authenticated_actor \<Rightarrow> string \<Rightarrow> (nat \<times> model_alias_config) list" where
  "scoped_aliases cat actor alias_name =
     List.map_filter (\<lambda>alias. map_option (\<lambda>score. (score, alias)) (alias_scope_score alias actor))
       (filter (\<lambda>alias. ma_tenant_id alias = actor_tenant_id actor \<and> ma_alias_name alias = alias_name)
         (cat_model_aliases cat))"

definition resolve_alias ::
  "gateway_catalog \<Rightarrow> authenticated_actor \<Rightarrow> string \<Rightarrow> model_alias_config gateway_result" where
  "resolve_alias cat actor alias_name =
     (case sort_key (\<lambda>(score, _). - int score) (scoped_aliases cat actor alias_name) of
        [] \<Rightarrow> Inl (NotFound (''model alias '' @ alias_name))
      | (best_score, best_alias) # rest \<Rightarrow>
          if list_ex (\<lambda>(score, _). score = best_score) rest
          then Inl (BadRequest (''ambiguous model alias '' @ alias_name))
          else Inr best_alias)"

definition resolve_route_binding ::
  "gateway_catalog \<Rightarrow> route_plan_request \<Rightarrow>
   (model_alias_config \<times> route_policy_config \<times> routing_group_config) gateway_result" where
  "resolve_route_binding cat request =
     rbind (resolve_alias cat (pr_actor request) (pr_alias_name request)) (\<lambda>alias.
     rbind (fail_if (ma_protocol_family alias \<noteq> pr_protocol_family request)
       (BadRequest (''protocol_mismatch: alias '' @ ma_alias_name alias @ '' is '' @
          protocol_family_as_str (ma_protocol_family alias) @ '', ingress is '' @
          protocol_family_as_str (pr_protocol_family request)))) (\<lambda>_.
     rbind (fail_if (\<not> is_active (ma_status alias))
       (NotFound (''model alias '' @ pr_alias_name request))) (\<lambda>_.
     rbind (ok_or NotReady
       (find (\<lambda>policy. rp_route_policy_id policy = ma_route_policy_id alias)
          (cat_route_policies cat))) (\<lambda>policy.
     rbind (fail_if (\<not> is_active (rp_status policy)) NotReady) (\<lambda>_.
     rbind (ok_or NotReady
       (find (\<lambda>grp. rg_routing_group_id grp = rp_routing_group_id policy)
          (cat_routing_groups cat))) (\<lambda>grp.
     rbind (fail_if (\<not> is_active (rg_status grp)) NotReady) (\<lambda>_.
     Inr (alias, policy, grp))))))))"

subsection \<open>Candidates\<close>

text \<open>Priority ascending, then weight descending, then target id ascending; a stable sort.\<close>

definition candidate_key :: "routing_group_target_config \<Rightarrow> nat \<times> int \<times> string" where
  "candidate_key gt = (gt_priority gt, - int (gt_weight gt), gt_model_target_id gt)"

definition route_candidates ::
  "gateway_catalog \<Rightarrow> routing_group_config \<Rightarrow> routing_group_target_config list" where
  "route_candidates cat grp =
     sort_key candidate_key
       (filter (\<lambda>gt. gt_routing_group_id gt = rg_routing_group_id grp)
         (cat_routing_group_targets cat))"

definition candidate_path ::
  "route_candidate_context \<Rightarrow> model_target_config \<Rightarrow> provider_endpoint \<Rightarrow> grant_path" where
  "candidate_path ctx target endpoint =
     \<lparr>gp_alias = ctx_alias ctx, gp_policy = ctx_policy ctx, gp_group = ctx_group ctx,
      gp_target = target, gp_endpoint = endpoint\<rparr>"

text \<open>The credential and grant checks that close the evaluation.\<close>

definition evaluate_access ::
  "gateway_catalog \<Rightarrow> route_candidate_context \<Rightarrow> model_target_config \<Rightarrow> provider_endpoint \<Rightarrow>
   candidate_evaluation" where
  "evaluate_access cat ctx target endpoint =
     (let grant = if \<not> provider_grant_allows (cat_provider_grants cat) (ctx_actor ctx)
                        (candidate_path ctx target endpoint)
                  then CandFiltered ProviderGrantDenied else CandSelected target endpoint in
      case mt_upstream_credential_id target of
        None \<Rightarrow> grant
      | Some credential_id \<Rightarrow>
          (case ctx_credentials ctx credential_id of
             None \<Rightarrow> CandFiltered CredentialMissing
           | Some credential \<Rightarrow>
               if \<not> credential_is_usable (uc_status credential) then CandFiltered CredentialUnusable
               else grant))"

text \<open>The endpoint checks: lifecycle, protocol, drain and health.\<close>

definition evaluate_endpoint ::
  "gateway_catalog \<Rightarrow> route_candidate_context \<Rightarrow> model_target_config \<Rightarrow> provider_endpoint \<Rightarrow>
   candidate_evaluation" where
  "evaluate_endpoint cat ctx target endpoint =
     (if \<not> is_active (pe_status endpoint) then CandFiltered EndpointInactive
      else if ctx_protocol_family ctx \<notin> set (pe_protocol_families endpoint)
      then CandFiltered EndpointProtocolMismatch
      else if hv_drained (ctx_hot_state ctx) (pe_tenant_id endpoint) (pe_provider_endpoint_id endpoint)
                (ctx_config_version ctx) (ctx_now ctx)
      then CandFiltered EndpointDrained
      else case hv_health (ctx_hot_state ctx) (pe_tenant_id endpoint)
                  (pe_provider_endpoint_id endpoint) (ctx_config_version ctx) (ctx_now ctx) of
        Blocked \<Rightarrow> CandFiltered EndpointHealthBlocked
      | Unhealthy \<Rightarrow> CandFiltered EndpointUnhealthy
      | _ \<Rightarrow> evaluate_access cat ctx target endpoint)"

definition evaluate_candidate ::
  "gateway_catalog \<Rightarrow> route_candidate_context \<Rightarrow> routing_group_target_config \<Rightarrow>
   candidate_evaluation" where
  "evaluate_candidate cat ctx candidate =
     (if \<not> is_active (gt_status candidate) then CandFiltered GroupTargetInactive
      else case ctx_targets ctx (gt_model_target_id candidate) of
        None \<Rightarrow> CandFiltered TargetMissing
      | Some target \<Rightarrow>
          if \<not> is_active (mt_status target) then CandFiltered TargetInactive
          else if mt_protocol_family target \<noteq> ctx_protocol_family ctx
          then CandFiltered ProtocolMismatch
          else if ctx_streaming ctx \<and> \<not> mt_supports_streaming target
          then CandFiltered StreamingUnsupported
          else case ctx_endpoints ctx (mt_provider_endpoint_id target) of
            None \<Rightarrow> CandFiltered EndpointMissing
          | Some endpoint \<Rightarrow> evaluate_endpoint cat ctx target endpoint)"

subsection \<open>Sticky attempt and ordered search\<close>

definition sticky_route_for_policy ::
  "route_policy_config \<Rightarrow> route_plan_request \<Rightarrow> model_alias_config \<Rightarrow> string \<Rightarrow>
   sticky_route_record option" where
  "sticky_route_for_policy policy request alias affinity_hash =
     (case rp_sticky_ttl_seconds policy of
        None \<Rightarrow> None
      | Some _ \<Rightarrow>
          hv_sticky (pr_hot_state request) (actor_tenant_id (pr_actor request))
            (actor_project_id (pr_actor request)) (ma_model_alias_id alias) affinity_hash
            (pr_config_version request) (pr_now request))"

text \<open>\<open>filtered_summary\<close> and \<open>provider_grant_denied\<close>, updated for one filtered candidate.\<close>

type_synonym plan_state = "route_filter_summary list \<times> bool"

definition note_filtered :: "route_filter_reason \<Rightarrow> plan_state \<Rightarrow> plan_state" where
  "note_filtered reason state =
     (add_filter_reason (fst state) reason, snd state \<or> reason = ProviderGrantDenied)"

definition try_sticky_route_selection ::
  "gateway_catalog \<Rightarrow> route_plan_request \<Rightarrow> route_candidate_context \<Rightarrow>
   routing_group_target_config list \<Rightarrow> plan_state \<Rightarrow> sticky_route_selection \<times> plan_state" where
  "try_sticky_route_selection cat request ctx candidates state =
     (case pr_route_affinity_hash request of
        None \<Rightarrow> (StickyUnavailable, state)
      | Some affinity_hash \<Rightarrow>
      (case sticky_route_for_policy (ctx_policy ctx) request (ctx_alias ctx) affinity_hash of
         None \<Rightarrow> (StickyUnavailable, state)
       | Some sticky \<Rightarrow>
         if sr_routing_group_id sticky \<noteq> rg_routing_group_id (ctx_group ctx)
         then (StickyMiss (Some ''routing_group_changed''), state)
         else (case find (\<lambda>candidate. gt_model_target_id candidate = sr_model_target_id sticky)
                      candidates of
           None \<Rightarrow> (StickyMiss (Some ''model_target_missing''), state)
         | Some candidate \<Rightarrow>
           (case evaluate_candidate cat ctx candidate of
              CandSelected target endpoint \<Rightarrow>
                if pe_provider_endpoint_id endpoint = sr_provider_endpoint_id sticky
                then (StickySelected
                        (make_route_selection ctx target endpoint (fst state) True None), state)
                else (StickyMiss (Some ''provider_endpoint_changed''), state)
            | CandFiltered reason \<Rightarrow>
                (StickyMiss (Some (filter_reason_as_str reason)), note_filtered reason state)))))"

fun first_eligible_route_selection ::
  "gateway_catalog \<Rightarrow> route_candidate_context \<Rightarrow> routing_group_target_config list \<Rightarrow> plan_state \<Rightarrow>
   string option \<Rightarrow> route_selection option \<times> plan_state" where
  "first_eligible_route_selection cat ctx [] state sticky_miss_reason = (None, state)"
| "first_eligible_route_selection cat ctx (candidate # candidates) state sticky_miss_reason =
     (case evaluate_candidate cat ctx candidate of
        CandSelected target endpoint \<Rightarrow>
          (Some (make_route_selection ctx target endpoint (fst state) False sticky_miss_reason),
           state)
      | CandFiltered reason \<Rightarrow>
          first_eligible_route_selection cat ctx candidates (note_filtered reason state)
            sticky_miss_reason)"

subsection \<open>Planning\<close>

definition plan_context ::
  "route_plan_request \<Rightarrow> model_alias_config \<Rightarrow> route_policy_config \<Rightarrow> routing_group_config \<Rightarrow>
   (string \<rightharpoonup> provider_endpoint) \<Rightarrow> (string \<rightharpoonup> upstream_credential_config) \<Rightarrow>
   (string \<rightharpoonup> model_target_config) \<Rightarrow> route_candidate_context" where
  "plan_context request alias policy grp endpoints credentials targets =
     \<lparr>ctx_actor = pr_actor request, ctx_protocol_family = pr_protocol_family request,
      ctx_streaming = pr_streaming request, ctx_alias = alias, ctx_policy = policy,
      ctx_group = grp, ctx_endpoints = endpoints, ctx_credentials = credentials,
      ctx_targets = targets, ctx_hot_state = pr_hot_state request,
      ctx_config_version = pr_config_version request, ctx_now = pr_now request\<rparr>"

text \<open>The part of the planner after the indexes: the sticky attempt, then the ordered search.\<close>

definition plan_candidates ::
  "gateway_catalog \<Rightarrow> route_plan_request \<Rightarrow> route_candidate_context \<Rightarrow>
   routing_group_target_config list \<Rightarrow> route_plan" where
  "plan_candidates cat request ctx candidates =
     (let search = (\<lambda>state reason.
        case first_eligible_route_selection cat ctx candidates state reason of
          (Some selection, state') \<Rightarrow>
            \<lparr>plan_outcome = PlanSelected selection, plan_filtered_summary = fst state'\<rparr>
        | (None, state') \<Rightarrow>
            \<lparr>plan_outcome = (if snd state' then PlanProviderGrantDenied else PlanNoRoute),
             plan_filtered_summary = fst state'\<rparr>) in
      case try_sticky_route_selection cat request ctx candidates ([], False) of
        (StickySelected selection, state) \<Rightarrow>
          \<lparr>plan_outcome = PlanSelected selection, plan_filtered_summary = fst state\<rparr>
      | (StickyMiss reason, state) \<Rightarrow> search state reason
      | (StickyUnavailable, state) \<Rightarrow> search state None)"

definition plan_runtime_route_with_hot_state ::
  "gateway_catalog \<Rightarrow> route_plan_request \<Rightarrow> route_plan gateway_result" where
  "plan_runtime_route_with_hot_state cat request =
     rbind (resolve_route_binding cat request) (\<lambda>(alias, policy, grp).
     rbind (index_endpoints (cat_provider_endpoints cat)) (\<lambda>endpoints.
     rbind (index_credentials (cat_upstream_credentials cat)) (\<lambda>credentials.
     rbind (index_targets (cat_model_targets cat)) (\<lambda>targets.
     Inr (plan_candidates cat request
            (plan_context request alias policy grp endpoints credentials targets)
            (route_candidates cat grp))))))"

text \<open>\<open>now\<close> stands for \<open>Utc::now()\<close>.\<close>

definition plan_runtime_route ::
  "gateway_catalog \<Rightarrow> authenticated_actor \<Rightarrow> protocol_family \<Rightarrow> string \<Rightarrow> bool \<Rightarrow> datetime \<Rightarrow>
   route_plan gateway_result" where
  "plan_runtime_route cat actor family alias_name streaming now =
     plan_runtime_route_with_hot_state cat
       \<lparr>pr_actor = actor, pr_protocol_family = family, pr_alias_name = alias_name,
        pr_streaming = streaming, pr_hot_state = null_view, pr_config_version = None,
        pr_now = now, pr_route_affinity_hash = None\<rparr>"

definition select_runtime_route ::
  "gateway_catalog \<Rightarrow> authenticated_actor \<Rightarrow> protocol_family \<Rightarrow> string \<Rightarrow> bool \<Rightarrow> datetime \<Rightarrow>
   route_selection gateway_result" where
  "select_runtime_route cat actor family alias_name streaming now =
     rbind (plan_runtime_route cat actor family alias_name streaming now) (\<lambda>plan.
       case plan_outcome plan of
         PlanSelected selection \<Rightarrow> Inr selection
       | PlanProviderGrantDenied \<Rightarrow> Inl (Authorization ''provider_grant_denied'')
       | PlanNoRoute \<Rightarrow> Inl (NoRoute ''no_eligible_model_target''))"

subsection \<open>Eligible candidates\<close>

text \<open>A candidate that may serve the request, with the target and endpoint it stands for.\<close>

definition endpoint_available :: "route_candidate_context \<Rightarrow> provider_endpoint \<Rightarrow> bool" where
  "endpoint_available ctx e \<longleftrightarrow>
     is_active (pe_status e) \<and> ctx_protocol_family ctx \<in> set (pe_protocol_families e) \<and>
     \<not> hv_drained (ctx_hot_state ctx) (pe_tenant_id e) (pe_provider_endpoint_id e)
         (ctx_config_version ctx) (ctx_now ctx) \<and>
     hv_health (ctx_hot_state ctx) (pe_tenant_id e) (pe_provider_endpoint_id e)
       (ctx_config_version ctx) (ctx_now ctx) \<notin> {Blocked, Unhealthy}"

definition credential_available :: "route_candidate_context \<Rightarrow> model_target_config \<Rightarrow> bool" where
  "credential_available ctx t \<longleftrightarrow>
     (\<forall>cid. mt_upstream_credential_id t = Some cid \<longrightarrow>
        (\<exists>c. ctx_credentials ctx cid = Some c \<and> credential_is_usable (uc_status c)))"

definition eligible ::
  "gateway_catalog \<Rightarrow> route_candidate_context \<Rightarrow> routing_group_target_config \<Rightarrow> model_target_config \<Rightarrow>
   provider_endpoint \<Rightarrow> bool" where
  "eligible cat ctx candidate t e \<longleftrightarrow>
     is_active (gt_status candidate) \<and>
     ctx_targets ctx (gt_model_target_id candidate) = Some t \<and> is_active (mt_status t) \<and>
     mt_protocol_family t = ctx_protocol_family ctx \<and>
     (ctx_streaming ctx \<longrightarrow> mt_supports_streaming t) \<and>
     ctx_endpoints ctx (mt_provider_endpoint_id t) = Some e \<and>
     endpoint_available ctx e \<and> credential_available ctx t \<and>
     provider_grant_allows (cat_provider_grants cat) (ctx_actor ctx) (candidate_path ctx t e)"

lemma evaluate_access_selected:
  "evaluate_access cat ctx t e = CandSelected t' e' \<longleftrightarrow>
     t' = t \<and> e' = e \<and> credential_available ctx t \<and>
     provider_grant_allows (cat_provider_grants cat) (ctx_actor ctx) (candidate_path ctx t e)"
  by (auto simp: evaluate_access_def credential_available_def Let_def split: option.split)

lemma evaluate_endpoint_selected:
  "evaluate_endpoint cat ctx t e = CandSelected t' e' \<longleftrightarrow>
     t' = t \<and> e' = e \<and> endpoint_available ctx e \<and> credential_available ctx t \<and>
     provider_grant_allows (cat_provider_grants cat) (ctx_actor ctx) (candidate_path ctx t e)"
  by (auto simp: evaluate_endpoint_def endpoint_available_def evaluate_access_selected
      split: endpoint_health_state.split)

lemma evaluate_candidate_selected:
  "evaluate_candidate cat ctx candidate = CandSelected t e \<longleftrightarrow> eligible cat ctx candidate t e"
  by (auto simp: evaluate_candidate_def eligible_def evaluate_endpoint_selected split: option.split)

definition candidate_eligible ::
  "gateway_catalog \<Rightarrow> route_candidate_context \<Rightarrow> routing_group_target_config \<Rightarrow> bool" where
  "candidate_eligible cat ctx candidate \<longleftrightarrow> (\<exists>t e. eligible cat ctx candidate t e)"

lemma candidate_eligible_iff:
  "candidate_eligible cat ctx candidate \<longleftrightarrow>
     (\<exists>t e. evaluate_candidate cat ctx candidate = CandSelected t e)"
  by (simp add: candidate_eligible_def evaluate_candidate_selected)

subsection \<open>The ordered search\<close>

text \<open>The state after a list of filtered candidates.\<close>

definition note_all ::
  "gateway_catalog \<Rightarrow> route_candidate_context \<Rightarrow> routing_group_target_config list \<Rightarrow> plan_state \<Rightarrow>
   plan_state" where
  "note_all cat ctx = fold (\<lambda>candidate state.
     case evaluate_candidate cat ctx candidate of
       CandSelected t e \<Rightarrow> state | CandFiltered reason \<Rightarrow> note_filtered reason state)"

lemma note_all_simps [simp]:
  "note_all cat ctx [] state = state"
  "evaluate_candidate cat ctx candidate = CandFiltered reason \<Longrightarrow>
     note_all cat ctx (candidate # candidates) state =
       note_all cat ctx candidates (note_filtered reason state)"
  by (simp_all add: note_all_def)

text \<open>The search returns the first eligible candidate, having noted all those before it.\<close>

lemma first_eligible_SomeD:
  assumes "first_eligible_route_selection cat ctx candidates state reason = (Some sel, state')"
  shows "\<exists>before c after t e. candidates = before @ c # after \<and>
        (\<forall>b \<in> set before. \<not> candidate_eligible cat ctx b) \<and> eligible cat ctx c t e \<and>
        state' = note_all cat ctx before state \<and>
        sel = make_route_selection ctx t e (fst state') False reason"
  using assms
proof (induction candidates arbitrary: state)
  case Nil
  then show ?case by simp
next
  case (Cons c candidates)
  show ?case
  proof (cases "evaluate_candidate cat ctx c")
    case (CandSelected t e)
    then have "eligible cat ctx c t e" by (simp add: evaluate_candidate_selected)
    with Cons.prems CandSelected show ?thesis
      by (intro exI [of _ "[]"] exI [of _ c] exI [of _ candidates] exI [of _ t] exI [of _ e]) auto
  next
    case (CandFiltered r)
    with Cons obtain before d after t e where
      "candidates = before @ d # after" "\<forall>b \<in> set before. \<not> candidate_eligible cat ctx b"
      "eligible cat ctx d t e" "state' = note_all cat ctx before (note_filtered r state)"
      "sel = make_route_selection ctx t e (fst state') False reason"
      by fastforce
    with CandFiltered show ?thesis
      by (intro exI [of _ "c # before"] exI [of _ d] exI [of _ after] exI [of _ t] exI [of _ e])
        (simp add: candidate_eligible_iff)
  qed
qed

lemma first_eligible_None_iff:
  "first_eligible_route_selection cat ctx candidates state reason = (None, state') \<longleftrightarrow>
     (\<forall>c \<in> set candidates. \<not> candidate_eligible cat ctx c) \<and>
     state' = note_all cat ctx candidates state"
proof (induction candidates arbitrary: state)
  case Nil
  then show ?case by auto
next
  case (Cons c candidates)
  then show ?case
    by (cases "evaluate_candidate cat ctx c") (auto simp: candidate_eligible_iff)
qed

text \<open>The summary after the search counts candidates by their reason.\<close>

definition filter_reason_count ::
  "gateway_catalog \<Rightarrow> route_candidate_context \<Rightarrow> routing_group_target_config list \<Rightarrow>
   route_filter_reason \<Rightarrow> nat" where
  "filter_reason_count cat ctx candidates reason =
     length (filter (\<lambda>c. evaluate_candidate cat ctx c = CandFiltered reason) candidates)"

lemma note_filtered_wf: "wf_summary (fst state) \<Longrightarrow> wf_summary (fst (note_filtered r state))"
  by (simp add: note_filtered_def add_filter_reason_wf)

lemma note_all_wf: "wf_summary (fst state) \<Longrightarrow> wf_summary (fst (note_all cat ctx candidates state))"
  unfolding note_all_def
  by (induction candidates arbitrary: state)
    (auto simp: note_filtered_wf split: candidate_evaluation.split)

lemma note_all_count:
  "wf_summary (fst state) \<Longrightarrow>
     summary_count (fst (note_all cat ctx candidates state)) reason =
       summary_count (fst state) reason + filter_reason_count cat ctx candidates reason"
proof (induction candidates arbitrary: state)
  case Nil
  then show ?case by (simp add: filter_reason_count_def)
next
  case (Cons c candidates)
  then show ?case
    by (cases "evaluate_candidate cat ctx c")
      (auto simp: note_all_def filter_reason_count_def note_filtered_def add_filter_reason_count
        add_filter_reason_wf)
qed

lemma note_all_total:
  "\<forall>c \<in> set candidates. \<not> candidate_eligible cat ctx c \<Longrightarrow>
     summary_total (fst (note_all cat ctx candidates state)) =
       summary_total (fst state) + length candidates"
proof (induction candidates arbitrary: state)
  case Nil
  then show ?case by simp
next
  case (Cons c candidates)
  then show ?case
    by (cases "evaluate_candidate cat ctx c")
      (auto simp: note_filtered_def candidate_eligible_iff)
qed

lemma note_all_denied:
  "snd (note_all cat ctx candidates state) \<longleftrightarrow>
     snd state \<or> (\<exists>c \<in> set candidates. evaluate_candidate cat ctx c = CandFiltered ProviderGrantDenied)"
proof (induction candidates arbitrary: state)
  case Nil
  then show ?case by simp
next
  case (Cons c candidates)
  then show ?case
    by (cases "evaluate_candidate cat ctx c")
      (auto simp: note_all_def note_filtered_def)
qed

subsection \<open>The sticky attempt\<close>

text \<open>The sticky candidate of a request: the mapping it finds and the candidate it points at.\<close>

definition sticky_candidate ::
  "route_plan_request \<Rightarrow> route_candidate_context \<Rightarrow> routing_group_target_config list \<Rightarrow>
   (sticky_route_record \<times> routing_group_target_config) option" where
  "sticky_candidate request ctx candidates =
     (case pr_route_affinity_hash request of
        None \<Rightarrow> None
      | Some h \<Rightarrow>
        (case sticky_route_for_policy (ctx_policy ctx) request (ctx_alias ctx) h of
           None \<Rightarrow> None
         | Some sticky \<Rightarrow>
             if sr_routing_group_id sticky \<noteq> rg_routing_group_id (ctx_group ctx) then None
             else map_option (Pair sticky)
               (find (\<lambda>c. gt_model_target_id c = sr_model_target_id sticky) candidates)))"

lemma sticky_candidate_member:
  "sticky_candidate request ctx candidates = Some (sticky, c) \<Longrightarrow> c \<in> set candidates"
  by (auto simp: sticky_candidate_def find_Some_iff split: option.splits if_splits)

lemma try_sticky_selected:
  assumes "try_sticky_route_selection cat request ctx candidates state = (StickySelected sel, state')"
  shows "\<exists>sticky c t e. sticky_candidate request ctx candidates = Some (sticky, c) \<and>
    eligible cat ctx c t e \<and> pe_provider_endpoint_id e = sr_provider_endpoint_id sticky \<and>
    state' = state \<and> sel = make_route_selection ctx t e (fst state) True None"
  using assms
  by (auto simp: try_sticky_route_selection_def sticky_candidate_def
      evaluate_candidate_selected [symmetric]
      split: option.splits if_splits candidate_evaluation.splits)

lemma try_sticky_hit:
  assumes "sticky_candidate request ctx candidates = Some (sticky, c)" and "eligible cat ctx c t e"
    and "pe_provider_endpoint_id e = sr_provider_endpoint_id sticky"
  shows "try_sticky_route_selection cat request ctx candidates state =
    (StickySelected (make_route_selection ctx t e (fst state) True None), state)"
  using assms
  by (auto simp: try_sticky_route_selection_def sticky_candidate_def
      evaluate_candidate_selected [symmetric] split: option.splits if_splits)

text \<open>A sticky attempt that does not select leaves the state alone or notes one candidate.\<close>

lemma try_sticky_state:
  assumes "try_sticky_route_selection cat request ctx candidates state = (r, state')"
  shows "state' = state \<or> (\<exists>c \<in> set candidates. \<exists>reason.
    evaluate_candidate cat ctx c = CandFiltered reason \<and> state' = note_filtered reason state \<and>
    r = StickyMiss (Some (filter_reason_as_str reason)))"
  using assms
  by (fastforce simp: try_sticky_route_selection_def find_Some_iff
      split: option.splits if_splits candidate_evaluation.splits)

subsection \<open>Plans over candidates\<close>

lemma plan_candidates_cases:
  obtains (sticky) sel state where
      "try_sticky_route_selection cat request ctx candidates ([], False) = (StickySelected sel, state)"
      "plan_candidates cat request ctx candidates =
        \<lparr>plan_outcome = PlanSelected sel, plan_filtered_summary = fst state\<rparr>"
  | (found) r state reason sel state' where
      "try_sticky_route_selection cat request ctx candidates ([], False) = (r, state)"
      "\<nexists>sel. r = StickySelected sel"
      "first_eligible_route_selection cat ctx candidates state reason = (Some sel, state')"
      "plan_candidates cat request ctx candidates =
        \<lparr>plan_outcome = PlanSelected sel, plan_filtered_summary = fst state'\<rparr>"
  | (missed) r state reason state' where
      "try_sticky_route_selection cat request ctx candidates ([], False) = (r, state)"
      "\<nexists>sel. r = StickySelected sel"
      "first_eligible_route_selection cat ctx candidates state reason = (None, state')"
      "plan_candidates cat request ctx candidates =
        \<lparr>plan_outcome = (if snd state' then PlanProviderGrantDenied else PlanNoRoute),
         plan_filtered_summary = fst state'\<rparr>"
proof -
  obtain r state where r: "try_sticky_route_selection cat request ctx candidates ([], False) = (r, state)"
    by (rule prod.exhaust)
  define reason where "reason = (case r of StickyMiss m \<Rightarrow> m | _ \<Rightarrow> None)"
  obtain sel state' where s: "first_eligible_route_selection cat ctx candidates state reason = (sel, state')"
    by (rule prod.exhaust)
  show thesis
  proof (cases r)
    case (StickySelected x)
    with r show thesis by (intro sticky) (auto simp: plan_candidates_def Let_def)
  next
    case (StickyMiss m)
    with r s show thesis
      by (cases sel) (auto intro: found missed simp: plan_candidates_def Let_def reason_def)
  next
    case StickyUnavailable
    with r s show thesis
      by (cases sel) (auto intro: found missed simp: plan_candidates_def Let_def reason_def)
  qed
qed

text \<open>What a plan selects is an eligible candidate, with the fields of its target and endpoint.\<close>

lemma plan_candidates_sound:
  assumes "plan_outcome (plan_candidates cat request ctx candidates) = PlanSelected sel"
  shows "\<exists>c \<in> set candidates. \<exists>t e summary hit miss. eligible cat ctx c t e \<and>
    sel = make_route_selection ctx t e summary hit miss \<and>
    plan_filtered_summary (plan_candidates cat request ctx candidates) = summary"
proof (cases rule: plan_candidates_cases [of cat request ctx candidates])
  case (sticky sel' state)
  with assms try_sticky_selected [OF sticky(1)] show ?thesis
    by (fastforce dest: sticky_candidate_member)
next
  case (found r state reason sel' state')
  with assms first_eligible_SomeD [OF found(3)] show ?thesis by fastforce
next
  case (missed r state reason state')
  with assms show ?thesis by (simp split: if_splits)
qed

lemma plan_candidates_complete:
  "(\<exists>sel. plan_outcome (plan_candidates cat request ctx candidates) = PlanSelected sel) \<longleftrightarrow>
     (\<exists>c \<in> set candidates. candidate_eligible cat ctx c)"
proof
  assume "\<exists>sel. plan_outcome (plan_candidates cat request ctx candidates) = PlanSelected sel"
  then show "\<exists>c \<in> set candidates. candidate_eligible cat ctx c"
    using plan_candidates_sound [of cat request ctx candidates]
    unfolding candidate_eligible_def by blast
next
  assume c: "\<exists>c \<in> set candidates. candidate_eligible cat ctx c"
  then show "\<exists>sel. plan_outcome (plan_candidates cat request ctx candidates) = PlanSelected sel"
    by (cases rule: plan_candidates_cases [of cat request ctx candidates])
      (auto simp: first_eligible_None_iff)
qed

text \<open>
  A plan reports a grant denial exactly when no candidate is eligible and grants alone stood
  between some candidate and its selection.
\<close>

lemma plan_candidates_denied_iff:
  "plan_outcome (plan_candidates cat request ctx candidates) = PlanProviderGrantDenied \<longleftrightarrow>
     (\<forall>c \<in> set candidates. \<not> candidate_eligible cat ctx c) \<and>
     (\<exists>c \<in> set candidates. evaluate_candidate cat ctx c = CandFiltered ProviderGrantDenied)"
proof (cases rule: plan_candidates_cases [of cat request ctx candidates])
  case (sticky sel state)
  then show ?thesis using plan_candidates_complete [of cat request ctx candidates] by auto
next
  case (found r state reason sel state')
  then show ?thesis using plan_candidates_complete [of cat request ctx candidates] by auto
next
  case (missed r state reason state')
  have "snd state \<longrightarrow>
      (\<exists>c \<in> set candidates. evaluate_candidate cat ctx c = CandFiltered ProviderGrantDenied)"
    using try_sticky_state [OF missed(1)] by (auto simp: note_filtered_def)
  with missed show ?thesis by (auto simp: first_eligible_None_iff note_all_denied)
qed

text \<open>Without a sticky mapping, the summary of a plan that selects nothing counts every candidate once.\<close>

lemma plan_candidates_summary:
  assumes none: "\<forall>c \<in> set candidates. \<not> candidate_eligible cat ctx c"
    and unsticky: "sticky_candidate request ctx candidates = None"
  shows "wf_summary (plan_filtered_summary (plan_candidates cat request ctx candidates))"
    and "summary_count (plan_filtered_summary (plan_candidates cat request ctx candidates)) reason =
      filter_reason_count cat ctx candidates reason"
    and "summary_total (plan_filtered_summary (plan_candidates cat request ctx candidates)) =
      length candidates"
proof -
  have state: "state = ([], False)"
    if "try_sticky_route_selection cat request ctx candidates ([], False) = (r, state)" for r state
    using that unsticky
    by (auto simp: try_sticky_route_selection_def sticky_candidate_def
        split: option.splits if_splits candidate_evaluation.splits)
  have "plan_filtered_summary (plan_candidates cat request ctx candidates) =
      fst (note_all cat ctx candidates ([], False))"
    using plan_candidates_complete [of cat request ctx candidates] none
    by (cases rule: plan_candidates_cases [of cat request ctx candidates])
      (auto simp: first_eligible_None_iff dest: state)
  then show "wf_summary (plan_filtered_summary (plan_candidates cat request ctx candidates))"
    "summary_count (plan_filtered_summary (plan_candidates cat request ctx candidates)) reason =
      filter_reason_count cat ctx candidates reason"
    "summary_total (plan_filtered_summary (plan_candidates cat request ctx candidates)) =
      length candidates"
    using none by (simp_all add: note_all_wf note_all_count note_all_total)
qed

subsection \<open>Alias resolution picks the most specific scope\<close>

lemma scoped_aliases_member:
  "(s, a) \<in> set (scoped_aliases cat actor name) \<longleftrightarrow>
     a \<in> set (cat_model_aliases cat) \<and> ma_tenant_id a = actor_tenant_id actor \<and>
     ma_alias_name a = name \<and> alias_scope_score a actor = Some s"
  by (force simp: scoped_aliases_def List.map_filter_def image_iff)

lemma sort_descending_first:
  assumes "sort_key (\<lambda>(s, _). - int s) xs = (s, a) # rest"
  shows "\<forall>(s', _) \<in> set xs. s' \<le> s"
    and "filter (\<lambda>(s', _). s' = s) xs = (s, a) # filter (\<lambda>(s', _). s' = s) rest"
proof -
  let ?f = "\<lambda>(s :: nat, _). - int s"
  have "sorted (map ?f ((s, a) # rest))" using sorted_sort_key [of ?f xs] assms by simp
  moreover have set: "set xs = insert (s, a) (set rest)"
    using set_sort [of ?f xs] assms by simp
  ultimately show "\<forall>(s', _) \<in> set xs. s' \<le> s" by auto
  have eq: "(\<lambda>p. ?f p = - int s) = (\<lambda>(s', _). s' = s)" by (auto simp: fun_eq_iff)
  have "filter (\<lambda>p. ?f p = - int s) (sort_key ?f xs) = filter (\<lambda>p. ?f p = - int s) xs"
    by (rule sort_key_stable)
  then show "filter (\<lambda>(s', _). s' = s) xs = (s, a) # filter (\<lambda>(s', _). s' = s) rest"
    unfolding eq assms by simp
qed

text \<open>
  Resolution succeeds when the best score is reached by exactly one alias; it fails as ambiguous
  when several reach it and as not found when no alias of the tenant is visible.
\<close>

lemma resolve_alias_Inr_iff:
  "resolve_alias cat actor name = Inr a \<longleftrightarrow>
     (\<exists>s. filter (\<lambda>(s', _). s' = s) (scoped_aliases cat actor name) = [(s, a)] \<and>
        (\<forall>(s', _) \<in> set (scoped_aliases cat actor name). s' \<le> s))"
proof (cases "sort_key (\<lambda>(score, _). - int score) (scoped_aliases cat actor name)")
  case Nil
  then have "scoped_aliases cat actor name = []" by (metis length_0_conv length_sort)
  with Nil show ?thesis by (simp add: resolve_alias_def)
next
  case (Cons p rest)
  obtain s b where p: "p = (s, b)" by (cases p)
  let ?xs = "scoped_aliases cat actor name"
  note first = sort_descending_first [OF Cons [unfolded p]]
  have best: "s' = s" if "filter (\<lambda>(t, _). t = s') ?xs = [(s', a)]" "\<forall>(t, _) \<in> set ?xs. t \<le> s'" for s'
  proof -
    have "(s, b) \<in> set ?xs"
      using first(2) by (metis (mono_tags, lifting) filter_is_subset list.set_intros(1) subsetD)
    moreover have "(s', a) \<in> set ?xs"
      using that(1) by (metis (mono_tags, lifting) filter_is_subset list.set_intros(1) subsetD)
    ultimately show "s' = s" using first(1) that(2) by fastforce
  qed
  have "resolve_alias cat actor name = Inr a \<longleftrightarrow>
      filter (\<lambda>(t, _). t = s) rest = [] \<and> b = a"
    using Cons p by (auto simp: resolve_alias_def list_ex_iff filter_empty_conv)
  also have "\<dots> \<longleftrightarrow> filter (\<lambda>(t, _). t = s) ?xs = [(s, a)]"
    using first(2) by auto
  finally show ?thesis using best first(1) by blast
qed

lemma resolve_alias_error:
  assumes "resolve_alias cat actor name = Inl err"
  shows "err = NotFound (''model alias '' @ name) \<and> scoped_aliases cat actor name = [] \<or>
    err = BadRequest (''ambiguous model alias '' @ name) \<and>
    (\<exists>s a b r. filter (\<lambda>(s', _). s' = s) (scoped_aliases cat actor name) = a # b # r \<and>
       (\<forall>(s', _) \<in> set (scoped_aliases cat actor name). s' \<le> s))"
proof (cases "sort_key (\<lambda>(score, _). - int score) (scoped_aliases cat actor name)")
  case Nil
  then have "scoped_aliases cat actor name = []" by (metis length_0_conv length_sort)
  with Nil assms show ?thesis by (simp add: resolve_alias_def)
next
  case (Cons p rest)
  obtain s a where p: "p = (s, a)" by (cases p)
  note first = sort_descending_first [OF Cons [unfolded p]]
  from Cons assms p have "err = BadRequest (''ambiguous model alias '' @ name)"
      "filter (\<lambda>(s', _). s' = s) rest \<noteq> []"
    by (auto simp: resolve_alias_def list_ex_iff filter_empty_conv split: if_splits)
  with first show ?thesis by (metis list.exhaust)
qed

lemma resolve_alias_visible:
  assumes "resolve_alias cat actor name = Inr a"
  shows "a \<in> set (cat_model_aliases cat) \<and> ma_tenant_id a = actor_tenant_id actor \<and>
    ma_alias_name a = name \<and> (\<exists>s. alias_scope_score a actor = Some s)"
proof -
  from assms obtain s where
    "filter (\<lambda>(s', _). s' = s) (scoped_aliases cat actor name) = [(s, a)]"
    by (auto simp: resolve_alias_Inr_iff)
  then have "(s, a) \<in> set (scoped_aliases cat actor name)"
    by (metis (mono_tags, lifting) filter_is_subset list.set_intros(1) subsetD)
  then show ?thesis by (auto simp: scoped_aliases_member)
qed

subsection \<open>Plans over a catalog\<close>

definition binding_ok ::
  "gateway_catalog \<Rightarrow> route_plan_request \<Rightarrow> model_alias_config \<Rightarrow> route_policy_config \<Rightarrow>
   routing_group_config \<Rightarrow> bool" where
  "binding_ok cat req a p g \<longleftrightarrow>
     a \<in> set (cat_model_aliases cat) \<and> ma_tenant_id a = actor_tenant_id (pr_actor req) \<and>
     ma_alias_name a = pr_alias_name req \<and> alias_scope_score a (pr_actor req) \<noteq> None \<and>
     ma_protocol_family a = pr_protocol_family req \<and> is_active (ma_status a) \<and>
     p \<in> set (cat_route_policies cat) \<and> rp_route_policy_id p = ma_route_policy_id a \<and>
     is_active (rp_status p) \<and>
     g \<in> set (cat_routing_groups cat) \<and> rg_routing_group_id g = rp_routing_group_id p \<and>
     is_active (rg_status g)"

lemma resolve_route_binding_Inr_iff:
  "resolve_route_binding cat req = Inr (a, p, g) \<longleftrightarrow>
     resolve_alias cat (pr_actor req) (pr_alias_name req) = Inr a \<and>
     ma_protocol_family a = pr_protocol_family req \<and> is_active (ma_status a) \<and>
     lookup_by rp_route_policy_id (cat_route_policies cat) (ma_route_policy_id a) = Some p \<and>
     is_active (rp_status p) \<and>
     lookup_by rg_routing_group_id (cat_routing_groups cat) (rp_routing_group_id p) = Some g \<and>
     is_active (rg_status g)"
  by (auto simp: resolve_route_binding_def result_simps lookup_by_def)

lemma resolve_route_binding_ok:
  "resolve_route_binding cat req = Inr (a, p, g) \<Longrightarrow> binding_ok cat req a p g"
  by (auto simp: resolve_route_binding_Inr_iff binding_ok_def dest: resolve_alias_visible
      lookup_by_SomeD)

definition catalog_context ::
  "gateway_catalog \<Rightarrow> route_plan_request \<Rightarrow> model_alias_config \<Rightarrow> route_policy_config \<Rightarrow>
   routing_group_config \<Rightarrow> route_candidate_context" where
  "catalog_context cat req a p g =
     plan_context req a p g (lookup_by pe_provider_endpoint_id (cat_provider_endpoints cat))
       (lookup_by uc_upstream_credential_id (cat_upstream_credentials cat))
       (lookup_by mt_model_target_id (cat_model_targets cat))"

lemma catalog_context_simps [simp]:
  "ctx_actor (catalog_context cat req a p g) = pr_actor req"
  "ctx_protocol_family (catalog_context cat req a p g) = pr_protocol_family req"
  "ctx_streaming (catalog_context cat req a p g) = pr_streaming req"
  "ctx_alias (catalog_context cat req a p g) = a"
  "ctx_policy (catalog_context cat req a p g) = p"
  "ctx_group (catalog_context cat req a p g) = g"
  "ctx_endpoints (catalog_context cat req a p g) =
     lookup_by pe_provider_endpoint_id (cat_provider_endpoints cat)"
  "ctx_credentials (catalog_context cat req a p g) =
     lookup_by uc_upstream_credential_id (cat_upstream_credentials cat)"
  "ctx_targets (catalog_context cat req a p g) =
     lookup_by mt_model_target_id (cat_model_targets cat)"
  "ctx_hot_state (catalog_context cat req a p g) = pr_hot_state req"
  "ctx_config_version (catalog_context cat req a p g) = pr_config_version req"
  "ctx_now (catalog_context cat req a p g) = pr_now req"
  by (simp_all add: catalog_context_def plan_context_def)

lemma plan_Inr_iff:
  "plan_runtime_route_with_hot_state cat req = Inr plan \<longleftrightarrow>
     (\<exists>a p g. resolve_route_binding cat req = Inr (a, p, g) \<and>
        distinct (map pe_provider_endpoint_id (cat_provider_endpoints cat)) \<and>
        distinct (map uc_upstream_credential_id (cat_upstream_credentials cat)) \<and>
        distinct (map mt_model_target_id (cat_model_targets cat)) \<and>
        plan = plan_candidates cat req (catalog_context cat req a p g) (route_candidates cat g))"
  by (auto simp: plan_runtime_route_with_hot_state_def result_simps index_defs catalog_context_def)

lemma route_candidates_member:
  "c \<in> set (route_candidates cat g) \<longleftrightarrow>
     c \<in> set (cat_routing_group_targets cat) \<and> gt_routing_group_id c = rg_routing_group_id g"
  by (auto simp: route_candidates_def)

lemma route_candidates_sorted:
  assumes "route_candidates cat g = before @ c # after" and "d \<in> set after"
  shows "candidate_key c \<le> candidate_key d"
  using sort_key_first [OF assms [unfolded route_candidates_def]] .

subsection \<open>Validated catalogs\<close>

text \<open>
  The reasons that remain once a catalog has passed validation: no reference is dangling, no
  protocol mismatched and no credential unusable, so a candidate is filtered only by lifecycle,
  capability, hot state or grants.
\<close>

definition operational_reasons :: "route_filter_reason set" where
  "operational_reasons =
     {GroupTargetInactive, TargetInactive, StreamingUnsupported, EndpointInactive, EndpointDrained,
      EndpointUnhealthy, EndpointHealthBlocked, ProviderGrantDenied}"

lemma evaluate_endpoint_reasons:
  assumes "evaluate_endpoint cat ctx t e = CandFiltered r"
    and "ctx_protocol_family ctx \<in> set (pe_protocol_families e)" and "credential_available ctx t"
  shows "r \<in> operational_reasons"
  using assms
  by (auto simp: evaluate_endpoint_def evaluate_access_def operational_reasons_def
      credential_available_def Let_def split: if_splits endpoint_health_state.splits option.splits)

lemma evaluate_candidate_validated:
  assumes wf: "catalog_wf parse_uri cat"
    and bind: "resolve_route_binding cat req = Inr (a, p, g)"
    and c: "c \<in> set (route_candidates cat g)"
    and filtered: "evaluate_candidate cat (catalog_context cat req a p g) c = CandFiltered r"
  shows "r \<in> operational_reasons"
proof -
  note ok = resolve_route_binding_ok [OF bind, unfolded binding_ok_def]
  from wf have u: "ids_unique cat" and aw: "alias_wf cat a" and
    tw: "\<And>t. t \<in> set (cat_model_targets cat) \<Longrightarrow> target_wf cat t"
    using ok by (auto simp: catalog_wf_def)
  from aw ok u have pol: "\<exists>t \<in> set (cat_model_targets cat). mt_model_target_id t = gt_model_target_id c \<and>
      mt_protocol_family t = ma_protocol_family a"
    using c unfolding alias_wf_def ids_unique_def
    by (metis (no_types, lifting) lookup_by_distinct option.inject route_candidates_member)
  then obtain t where t: "t \<in> set (cat_model_targets cat)" "mt_model_target_id t = gt_model_target_id c"
      "mt_protocol_family t = pr_protocol_family req" using ok by auto
  from tw [OF t(1)] obtain e where e: "e \<in> set (cat_provider_endpoints cat)"
      "pe_provider_endpoint_id e = mt_provider_endpoint_id t"
      "pr_protocol_family req \<in> set (pe_protocol_families e)"
    using t(3) by (auto simp: target_wf_def)
  from tw [OF t(1)] u have cred: "credential_available (catalog_context cat req a p g) t"
    by (fastforce simp: target_wf_def credential_available_def ids_unique_def lookup_by_Some_iff)
  from t e u have "lookup_by mt_model_target_id (cat_model_targets cat) (gt_model_target_id c) = Some t"
    "lookup_by pe_provider_endpoint_id (cat_provider_endpoints cat) (mt_provider_endpoint_id t) = Some e"
    by (auto simp: ids_unique_def lookup_by_Some_iff)
  with filtered t(3) show ?thesis
    using evaluate_endpoint_reasons [OF _ _ cred, of cat e r] e(3)
    by (auto simp: evaluate_candidate_def operational_reasons_def split: if_splits)
qed

subsection \<open>Hot state and versions\<close>

text \<open>Candidates evaluate alike under two hot views that give the same hints.\<close>

lemma evaluate_candidate_hints:
  assumes "\<And>t e. hv_drained v t e cv now = hv_drained v' t e cv' now'"
    and "\<And>t e. hv_health v t e cv now = hv_health v' t e cv' now'"
  shows "evaluate_candidate cat
      (ctx\<lparr>ctx_hot_state := v, ctx_config_version := cv, ctx_now := now\<rparr>) c =
    evaluate_candidate cat (ctx\<lparr>ctx_hot_state := v', ctx_config_version := cv', ctx_now := now'\<rparr>) c"
    (is "evaluate_candidate cat ?ctx c = evaluate_candidate cat ?ctx' c")
proof -
  have access: "evaluate_access cat ?ctx t e = evaluate_access cat ?ctx' t e" for t e
    by (simp add: evaluate_access_def candidate_path_def Let_def split: option.split)
  have "evaluate_endpoint cat ?ctx t e = evaluate_endpoint cat ?ctx' t e" for t e
    by (simp add: evaluate_endpoint_def assms access split: endpoint_health_state.split)
  then show ?thesis by (simp add: evaluate_candidate_def split: option.split)
qed

lemma first_eligible_cong:
  assumes "\<And>c. evaluate_candidate cat ctx c = evaluate_candidate cat ctx' c"
    and "ctx_alias ctx = ctx_alias ctx'" "ctx_policy ctx = ctx_policy ctx'" "ctx_group ctx = ctx_group ctx'"
  shows "first_eligible_route_selection cat ctx candidates state reason =
    first_eligible_route_selection cat ctx' candidates state reason"
  by (induction candidates arbitrary: state)
    (auto simp: assms make_route_selection_def split: candidate_evaluation.split)

text \<open>
  With no sticky mapping on either side, plans agree when the candidates evaluate alike.
\<close>

lemma plan_candidates_cong:
  assumes "\<And>c. evaluate_candidate cat ctx c = evaluate_candidate cat ctx' c"
    and "ctx_alias ctx = ctx_alias ctx'" "ctx_policy ctx = ctx_policy ctx'" "ctx_group ctx = ctx_group ctx'"
    and "\<And>h. sticky_route_for_policy (ctx_policy ctx) req (ctx_alias ctx) h = None"
    and "\<And>h. sticky_route_for_policy (ctx_policy ctx') req' (ctx_alias ctx') h = None"
  shows "plan_candidates cat req ctx candidates = plan_candidates cat req' ctx' candidates"
proof -
  have "try_sticky_route_selection cat req ctx candidates state = (StickyUnavailable, state)"
    "try_sticky_route_selection cat req' ctx' candidates state = (StickyUnavailable, state)" for state
    using assms(5,6) by (simp_all add: try_sticky_route_selection_def split: option.split)
  then show ?thesis
    by (simp add: plan_candidates_def Let_def first_eligible_cong [OF assms(1-4)])
qed

context route_hot_reader
begin

text \<open>A planner with no config version plans as if there were no hot state.\<close>

lemma plan_without_version:
  "plan_runtime_route_with_hot_state cat
     (req\<lparr>pr_hot_state := \<lparr>hv_health = health s, hv_drained = drained s, hv_sticky = sticky s\<rparr>,
          pr_config_version := None\<rparr>) =
   plan_runtime_route_with_hot_state cat (req\<lparr>pr_hot_state := null_view, pr_config_version := None\<rparr>)"
  (is "plan_runtime_route_with_hot_state cat ?r = plan_runtime_route_with_hot_state cat ?r'")
proof -
  have "resolve_route_binding cat ?r = resolve_route_binding cat ?r'"
    by (simp add: resolve_route_binding_def)
  moreover have "plan_candidates cat ?r (plan_context ?r a p g es cs ts) candidates =
      plan_candidates cat ?r' (plan_context ?r' a p g es cs ts) candidates" for a p g es cs ts candidates
  proof (rule plan_candidates_cong)
    show "evaluate_candidate cat (plan_context ?r a p g es cs ts) c =
        evaluate_candidate cat (plan_context ?r' a p g es cs ts) c" for c
      using evaluate_candidate_hints [of "pr_hot_state ?r" None "pr_now req" "pr_hot_state ?r'" None
          "pr_now req" cat "plan_context ?r a p g es cs ts" c]
      by (simp add: plan_context_def null_view_def health_no_version drained_no_version
          null_hot.health_no_version null_hot.drained_no_version)
  qed (simp_all add: plan_context_def sticky_route_for_policy_def sticky_no_version null_view_def
      null_hot.sticky_no_version split: option.split)
  ultimately show ?thesis by (simp add: plan_runtime_route_with_hot_state_def)
qed

end

subsection \<open>Reasons and sticky misses\<close>

lemma note_all_reasons:
  "fs_reason ` set (fst (note_all cat ctx candidates state)) =
     fs_reason ` set (fst state) \<union> {r. \<exists>c \<in> set candidates. evaluate_candidate cat ctx c = CandFiltered r}"
proof (induction candidates arbitrary: state)
  case Nil
  then show ?case by simp
next
  case (Cons c candidates)
  then show ?case
    by (cases "evaluate_candidate cat ctx c")
      (auto simp: note_all_def note_filtered_def add_filter_reason_reasons)
qed

text \<open>Every reason a plan reports is the reason of one of its candidates.\<close>

lemma plan_candidates_reasons:
  "fs_reason ` set (plan_filtered_summary (plan_candidates cat req ctx candidates)) \<subseteq>
     {r. \<exists>c \<in> set candidates. evaluate_candidate cat ctx c = CandFiltered r}"
    (is "_ \<subseteq> ?R")
proof -
  have state: "fs_reason ` set (fst state) \<subseteq> ?R"
    if "try_sticky_route_selection cat req ctx candidates ([], False) = (r, state)" for r state
    using try_sticky_state [OF that] by (auto simp: note_filtered_def)
  show ?thesis
  proof (cases rule: plan_candidates_cases [of cat req ctx candidates])
    case (sticky sel st)
    with state show ?thesis by auto
  next
    case (found r st reason sel st')
    from first_eligible_SomeD [OF found(3)] obtain before where
      "st' = note_all cat ctx before st" "set before \<subseteq> set candidates"
      by (metis Un_iff set_append subsetI)
    with state [OF found(1)] found show ?thesis by (auto simp: note_all_reasons)
  next
    case (missed r st reason st')
    with state [OF missed(1)] show ?thesis by (auto simp: first_eligible_None_iff note_all_reasons)
  qed
qed

text \<open>
  A sticky candidate that is filtered is noted once by the sticky attempt and once more by the
  search that follows.
\<close>

lemma plan_candidates_sticky_filtered:
  assumes none: "\<forall>c \<in> set candidates. \<not> candidate_eligible cat ctx c"
    and sticky: "sticky_candidate req ctx candidates = Some (record, c)"
  shows "summary_total (plan_filtered_summary (plan_candidates cat req ctx candidates)) =
    Suc (length candidates)"
proof -
  from sticky have "c \<in> set candidates" by (rule sticky_candidate_member)
  with none obtain r where r: "evaluate_candidate cat ctx c = CandFiltered r"
    by (cases "evaluate_candidate cat ctx c") (auto simp: candidate_eligible_iff)
  have "try_sticky_route_selection cat req ctx candidates ([], False) =
      (StickyMiss (Some (filter_reason_as_str r)), note_filtered r ([], False))"
    using sticky r
    by (auto simp: try_sticky_route_selection_def sticky_candidate_def
        split: option.splits if_splits)
  moreover have "first_eligible_route_selection cat ctx candidates state reason =
      (None, note_all cat ctx candidates state)" for state reason
    using none by (simp add: first_eligible_None_iff)
  ultimately show ?thesis
    by (simp add: plan_candidates_def Let_def note_all_total [OF none] note_filtered_def
        summary_total_Cons)
qed

end
