(* ===== verification/Gateway_Routing_Properties.thy ===== *)
theory Gateway_Routing_Properties
  imports Gateway_Route_Plan
begin

text \<open>
  The properties of the catalog, its grants and the route planner, each with an instance on a
  small catalog: one alias that routes to two targets on two endpoints, granted to one
  organization.
\<close>

subsection \<open>A catalog to instantiate with\<close>

definition demo_uri :: uri_parser where
  "demo_uri url = (if starts_with url ''https://'' then Inr (Some ''https'', True) else Inl ''invalid uri'')"

definition demo_endpoint :: "string \<Rightarrow> provider_endpoint" where
  "demo_endpoint i =
     \<lparr>pe_provider_endpoint_id = i, pe_tenant_id = ''t1'', pe_name = i, pe_provider_kind = ''openai'',
      pe_protocol_families = [OpenAiChat], pe_upstream_base_url = ''https://up'', pe_status = ResActive\<rparr>"

definition demo_credential :: upstream_credential_config where
  "demo_credential =
     \<lparr>uc_upstream_credential_id = ''c1'', uc_tenant_id = ''t1'', uc_provider_endpoint_id = ''e1'',
      uc_credential_kind = ''api_key'', uc_secret_ref_id = ''s1'', uc_status = CredActive\<rparr>"

definition demo_target :: "string \<Rightarrow> string \<Rightarrow> string option \<Rightarrow> model_target_config" where
  "demo_target i endpoint credential =
     \<lparr>mt_model_target_id = i, mt_tenant_id = ''t1'', mt_provider_endpoint_id = endpoint,
      mt_upstream_credential_id = credential, mt_protocol_family = OpenAiChat,
      mt_upstream_model_id = ''gpt'', mt_pricing_sku_id = None, mt_status = ResActive,
      mt_supports_streaming = True\<rparr>"

definition demo_alias :: model_alias_config where
  "demo_alias =
     \<lparr>ma_model_alias_id = ''a1'', ma_tenant_id = ''t1'', ma_organization_id = None,
      ma_project_id = None, ma_alias_name = ''fast'', ma_protocol_family = OpenAiChat,
      ma_route_policy_id = ''p1'', ma_status = ResActive\<rparr>"

definition demo_group_target :: "string \<Rightarrow> string \<Rightarrow> nat \<Rightarrow> routing_group_target_config" where
  "demo_group_target i target prio =
     \<lparr>gt_routing_group_target_id = i, gt_routing_group_id = ''g1'', gt_model_target_id = target,
      gt_weight = 1, gt_priority = prio, gt_status = ResActive\<rparr>"

definition demo_policy :: route_policy_config where
  "demo_policy =
     \<lparr>rp_route_policy_id = ''p1'', rp_tenant_id = ''t1'', rp_model_alias_id = ''a1'',
      rp_routing_group_id = ''g1'', rp_status = ResActive, rp_sticky_ttl_seconds = Some 600\<rparr>"

definition demo_group :: routing_group_config where
  "demo_group = \<lparr>rg_routing_group_id = ''g1'', rg_tenant_id = ''t1'', rg_status = ResActive\<rparr>"

definition demo_grant :: "grant_effect \<Rightarrow> grant_resource_kind \<Rightarrow> string \<Rightarrow> grant_closure_mode \<Rightarrow> provider_grant_config" where
  "demo_grant effect kind i mode =
     \<lparr>pg_provider_grant_id = ''gr1'', pg_tenant_id = ''t1'',
      pg_scope_kind = Some OrganizationGrant, pg_scope_id = Some ''o1'',
      pg_organization_id = None, pg_project_id = None, pg_principal_id = None,
      pg_resource_kind = Some kind, pg_resource_id = Some i,
      pg_effect = effect, pg_closure_mode = mode,
      pg_provider_endpoint_id = None, pg_model_target_id = None, pg_status = ResActive\<rparr>"

definition demo_catalog :: "provider_grant_config list \<Rightarrow> gateway_catalog" where
  "demo_catalog grants =
     \<lparr>cat_provider_endpoints = [demo_endpoint ''e1'', demo_endpoint ''e2''],
      cat_upstream_credentials = [demo_credential],
      cat_model_targets = [demo_target ''m1'' ''e1'' (Some ''c1''), demo_target ''m2'' ''e2'' None],
      cat_model_aliases = [demo_alias],
      cat_routing_groups = [demo_group],
      cat_routing_group_targets = [demo_group_target ''x2'' ''m2'' 2, demo_group_target ''x1'' ''m1'' 1],
      cat_route_policies = [demo_policy],
      cat_provider_grants = grants\<rparr>"

definition demo_actor :: authenticated_actor where
  "demo_actor =
     actor_for_user_session
       \<lparr>scope_tenant_id = ''t1'', scope_organization_id = Some ''o1'', scope_project_id = Some ''j1''\<rparr>
       ''u1'' ''sess'' ''req'' ''trace'' None"

definition demo_request :: "hot_view \<Rightarrow> i64 option \<Rightarrow> string option \<Rightarrow> route_plan_request" where
  "demo_request view version affinity =
     \<lparr>pr_actor = demo_actor, pr_protocol_family = OpenAiChat, pr_alias_name = ''fast'',
      pr_streaming = True, pr_hot_state = view, pr_config_version = version, pr_now = 100,
      pr_route_affinity_hash = affinity\<rparr>"

definition open_grant :: provider_grant_config where
  "open_grant = demo_grant Allow ModelAliasNode ''a1'' IncludeDescendants"

lemmas demo_defs =
  demo_uri_def demo_endpoint_def demo_credential_def demo_target_def demo_alias_def
  demo_group_target_def demo_policy_def demo_group_def demo_grant_def demo_catalog_def
  demo_actor_def demo_request_def open_grant_def actor_for_user_session_def

text \<open>The target and the stickiness of a selected route.\<close>

definition selected_target :: "route_plan gateway_result \<Rightarrow> (string \<times> bool) option" where
  "selected_target r =
     (case r of
        Inr plan \<Rightarrow> (case plan_outcome plan of
          PlanSelected sel \<Rightarrow> Some (rs_model_target_id sel, rs_sticky_hit sel) | _ \<Rightarrow> None)
      | Inl _ \<Rightarrow> None)"

lemma selected_target_Some:
  assumes "selected_target r = Some (i, hit)"
  obtains plan sel where "r = Inr plan" "plan_outcome plan = PlanSelected sel"
    "rs_model_target_id sel = i" "rs_sticky_hit sel = hit"
  using assms by (auto simp: selected_target_def split: sum.splits route_plan_outcome.splits)

lemma demo_validates: "validate demo_uri (demo_catalog [open_grant]) = Inr ()"
  by code_simp

lemma demo_selects:
  "selected_target (plan_runtime_route_with_hot_state (demo_catalog [open_grant])
     (demo_request null_view None None)) = Some (''m1'', False)"
  by code_simp

lemma demo_binding:
  "resolve_route_binding (demo_catalog grants) (demo_request view version affinity) =
     Inr (demo_alias, demo_policy, demo_group)"
  by (simp add: resolve_route_binding_def resolve_alias_def scoped_aliases_def List.map_filter_def
      alias_scope_score_def demo_defs)

subsection \<open>Validation\<close>

text \<open>
  C9. Catalog validation accepts exactly the catalogs whose ids are unique, whose references
  resolve, whose protocols agree along every alias, whose credentials are usable and belong to
  the endpoint of their target, and whose grants are well formed.
\<close>

theorem validate_accepts_exactly_wf: "validate parse_uri cat = Inr () \<longleftrightarrow> catalog_wf parse_uri cat"
  by (rule validate_iff_wf)

subsection \<open>Selection\<close>

text \<open>
  C2. A selected route is one the actor may use: its alias is active and visible to the actor in
  the actor's own tenant and speaks the ingress protocol, its policy and group are active, and
  the selected target is an active member of the group, on an active endpoint that is neither
  drained nor blocked nor unhealthy, with a usable credential, and admitted by provider grants.
  The fields of the selection are those of that target and endpoint.
\<close>

theorem route_selection_sound:
  assumes "plan_runtime_route_with_hot_state cat req = Inr plan"
    and "plan_outcome plan = PlanSelected sel"
  shows "\<exists>a p g c t e. binding_ok cat req a p g \<and>
    c \<in> set (cat_routing_group_targets cat) \<and> gt_routing_group_id c = rg_routing_group_id g \<and>
    t \<in> set (cat_model_targets cat) \<and> e \<in> set (cat_provider_endpoints cat) \<and>
    eligible cat (catalog_context cat req a p g) c t e \<and>
    sel = make_route_selection (catalog_context cat req a p g) t e (plan_filtered_summary plan)
      (rs_sticky_hit sel) (rs_sticky_miss_reason sel)"
proof -
  from assms(1) obtain a p g where bind: "resolve_route_binding cat req = Inr (a, p, g)" and
    plan: "plan = plan_candidates cat req (catalog_context cat req a p g) (route_candidates cat g)"
    by (auto simp: plan_Inr_iff)
  let ?ctx = "catalog_context cat req a p g"
  from plan_candidates_sound [OF assms(2) [unfolded plan]] obtain c t e hit miss where
    c: "c \<in> set (route_candidates cat g)" and elig: "eligible cat ?ctx c t e" and
    sel: "sel = make_route_selection ?ctx t e (plan_filtered_summary plan) hit miss"
    unfolding plan by blast
  from elig have "t \<in> set (cat_model_targets cat)" "e \<in> set (cat_provider_endpoints cat)"
    by (auto simp: eligible_def dest: lookup_by_SomeD)
  moreover have "sel = make_route_selection ?ctx t e (plan_filtered_summary plan)
      (rs_sticky_hit sel) (rs_sticky_miss_reason sel)"
    using sel by (simp add: make_route_selection_def)
  ultimately show ?thesis
    using resolve_route_binding_ok [OF bind] c elig unfolding route_candidates_member by blast
qed

theorem route_selection_sound_witness:
  "\<exists>a p g c t e. binding_ok (demo_catalog [open_grant]) (demo_request null_view None None) a p g \<and>
     eligible (demo_catalog [open_grant])
       (catalog_context (demo_catalog [open_grant]) (demo_request null_view None None) a p g) c t e \<and>
     mt_model_target_id t = ''m1''"
proof -
  obtain plan sel where "plan_runtime_route_with_hot_state (demo_catalog [open_grant])
      (demo_request null_view None None) = Inr plan" "plan_outcome plan = PlanSelected sel"
      "rs_model_target_id sel = ''m1''"
    using demo_selects by (rule selected_target_Some)
  from route_selection_sound [OF this(1,2)] this(3) show ?thesis
    by (metis make_route_selection_def route_selection.select_convs(5))
qed

text \<open>
  C13. Planning decides: once the alias is bound, a route is selected exactly when some member of
  the group is eligible, a grant denial is reported exactly when none is but grants alone filtered
  some member, and otherwise there is no route.
\<close>

theorem plan_outcome_classified:
  assumes "plan_runtime_route_with_hot_state cat req = Inr plan"
    and "resolve_route_binding cat req = Inr (a, p, g)"
  shows "((\<exists>sel. plan_outcome plan = PlanSelected sel) \<longleftrightarrow>
      (\<exists>c \<in> set (route_candidates cat g). candidate_eligible cat (catalog_context cat req a p g) c)) \<and>
    (plan_outcome plan = PlanProviderGrantDenied \<longleftrightarrow>
      (\<forall>c \<in> set (route_candidates cat g). \<not> candidate_eligible cat (catalog_context cat req a p g) c) \<and>
      (\<exists>c \<in> set (route_candidates cat g).
         evaluate_candidate cat (catalog_context cat req a p g) c = CandFiltered ProviderGrantDenied))"
proof -
  from assms have "plan =
      plan_candidates cat req (catalog_context cat req a p g) (route_candidates cat g)"
    by (auto simp: plan_Inr_iff)
  then show ?thesis by (simp add: plan_candidates_complete plan_candidates_denied_iff)
qed

theorem plan_outcome_classified_witness:
  "\<exists>plan. plan_runtime_route_with_hot_state (demo_catalog [open_grant])
     (demo_request null_view None None) = Inr plan \<and>
   (\<exists>c \<in> set (route_candidates (demo_catalog [open_grant]) demo_group).
      candidate_eligible (demo_catalog [open_grant]) (catalog_context (demo_catalog [open_grant])
        (demo_request null_view None None) demo_alias demo_policy demo_group) c)"
proof -
  obtain plan sel where p: "plan_runtime_route_with_hot_state (demo_catalog [open_grant])
      (demo_request null_view None None) = Inr plan" "plan_outcome plan = PlanSelected sel"
    using demo_selects by (rule selected_target_Some)
  with plan_outcome_classified [OF p(1) demo_binding] show ?thesis by blast
qed

text \<open>
  Without a sticky mapping the choice is the documented order: no eligible member of the
  group has a lower priority number, or the same and a higher weight, or the same and a smaller
  target id, than the selected one.
\<close>

theorem route_selection_first_in_order:
  assumes "plan_runtime_route_with_hot_state cat req = Inr plan"
    and "plan_outcome plan = PlanSelected sel" and "pr_route_affinity_hash req = None"
    and "resolve_route_binding cat req = Inr (a, p, g)"
    and "d \<in> set (route_candidates cat g)" and "candidate_eligible cat (catalog_context cat req a p g) d"
  shows "\<exists>c t e. eligible cat (catalog_context cat req a p g) c t e \<and>
    rs_model_target_id sel = mt_model_target_id t \<and> candidate_key c \<le> candidate_key d"
proof -
  let ?ctx = "catalog_context cat req a p g" and ?cs = "route_candidates cat g"
  from assms(1,4) have plan: "plan = plan_candidates cat req ?ctx ?cs" by (auto simp: plan_Inr_iff)
  have "try_sticky_route_selection cat req ?ctx ?cs ([], False) = (StickyUnavailable, [], False)"
    using assms(3) by (simp add: try_sticky_route_selection_def)
  with assms(2) plan obtain state' where
    "first_eligible_route_selection cat ?ctx ?cs ([], False) None = (Some sel, state')"
    by (auto simp: plan_candidates_def Let_def split: prod.splits option.splits if_splits)
  from first_eligible_SomeD [OF this] obtain before c after t e where
    split: "?cs = before @ c # after" and none: "\<forall>b \<in> set before. \<not> candidate_eligible cat ?ctx b"
    and elig: "eligible cat ?ctx c t e" and sel: "rs_model_target_id sel = mt_model_target_id t"
    by (auto simp: make_route_selection_def)
  from none assms(5,6) split have "d = c \<or> d \<in> set after" by auto
  with route_candidates_sorted [OF split] have "candidate_key c \<le> candidate_key d" by auto
  with elig sel show ?thesis by blast
qed

theorem route_selection_first_in_order_witness:
  "\<exists>c t e. eligible (demo_catalog [open_grant]) (catalog_context (demo_catalog [open_grant])
        (demo_request null_view None None) demo_alias demo_policy demo_group) c t e \<and>
     mt_model_target_id t = ''m1'' \<and> candidate_key c \<le> candidate_key (demo_group_target ''x2'' ''m2'' 2)"
proof -
  obtain plan sel where p: "plan_runtime_route_with_hot_state (demo_catalog [open_grant])
      (demo_request null_view None None) = Inr plan" "plan_outcome plan = PlanSelected sel"
      "rs_model_target_id sel = ''m1''"
    using demo_selects by (rule selected_target_Some)
  have m: "demo_group_target ''x2'' ''m2'' 2 \<in> set (route_candidates (demo_catalog [open_grant]) demo_group)"
    by (simp add: route_candidates_member demo_defs)
  have "evaluate_candidate (demo_catalog [open_grant]) (catalog_context (demo_catalog [open_grant])
        (demo_request null_view None None) demo_alias demo_policy demo_group)
        (demo_group_target ''x2'' ''m2'' 2) = CandSelected (demo_target ''m2'' ''e2'' None) (demo_endpoint ''e2'')"
    by code_simp
  then have e: "candidate_eligible (demo_catalog [open_grant]) (catalog_context (demo_catalog [open_grant])
        (demo_request null_view None None) demo_alias demo_policy demo_group)
        (demo_group_target ''x2'' ''m2'' 2)"
    by (auto simp: candidate_eligible_iff)
  have "pr_route_affinity_hash (demo_request null_view None None) = None" by (simp add: demo_defs)
  from route_selection_first_in_order [OF p(1,2) this demo_binding m e] p(3) show ?thesis by metis
qed

text \<open>
  On a validated catalog a candidate is only ever filtered for an operational reason: its
  lifecycle, a missing streaming capability, hot state, or grants. Dangling references, protocol
  mismatches and unusable credentials cannot be the reason.
\<close>

theorem validated_catalog_reasons:
  assumes "validate parse_uri cat = Inr ()"
    and "plan_runtime_route_with_hot_state cat req = Inr plan"
  shows "fs_reason ` set (plan_filtered_summary plan) \<subseteq> operational_reasons"
proof -
  from assms(2) obtain a p g where bind: "resolve_route_binding cat req = Inr (a, p, g)" and
    plan: "plan = plan_candidates cat req (catalog_context cat req a p g) (route_candidates cat g)"
    by (auto simp: plan_Inr_iff)
  from assms(1) have wf: "catalog_wf parse_uri cat" by (simp add: validate_iff_wf)
  show ?thesis
    using plan_candidates_reasons [of cat req "catalog_context cat req a p g" "route_candidates cat g"]
      evaluate_candidate_validated [OF wf bind] unfolding plan by auto
qed

lemma demo_denied:
  "map_sum id (\<lambda>plan. (plan_outcome plan, plan_filtered_summary plan))
     (plan_runtime_route_with_hot_state (demo_catalog []) (demo_request null_view None None)) =
   Inr (PlanProviderGrantDenied, [\<lparr>fs_reason = ProviderGrantDenied, fs_count = 2\<rparr>])"
  by code_simp

theorem validated_catalog_reasons_witness:
  "\<exists>plan. plan_runtime_route_with_hot_state (demo_catalog []) (demo_request null_view None None) =
     Inr plan \<and> plan_filtered_summary plan \<noteq> [] \<and>
     fs_reason ` set (plan_filtered_summary plan) \<subseteq> operational_reasons"
proof -
  obtain plan where plan: "plan_runtime_route_with_hot_state (demo_catalog [])
      (demo_request null_view None None) = Inr plan"
      "plan_filtered_summary plan = [\<lparr>fs_reason = ProviderGrantDenied, fs_count = 2\<rparr>]"
    using demo_denied
    by (cases "plan_runtime_route_with_hot_state (demo_catalog []) (demo_request null_view None None)")
      auto
  have "validate demo_uri (demo_catalog []) = Inr ()" by code_simp
  from validated_catalog_reasons [OF this plan(1)] plan show ?thesis by auto
qed

text \<open>
  On a validated catalog planning fails only for the request's own reasons or for a
  deactivated policy or group: the alias is not visible, ambiguous, inactive or of another
  protocol, or its existing policy or group is not active.
\<close>

theorem validated_catalog_errors:
  assumes "validate parse_uri cat = Inr ()"
    and "plan_runtime_route_with_hot_state cat req = Inl err"
  shows "resolve_alias cat (pr_actor req) (pr_alias_name req) = Inl err \<or>
    (\<exists>a. resolve_alias cat (pr_actor req) (pr_alias_name req) = Inr a \<and>
      ((\<exists>m. err = BadRequest m) \<and> ma_protocol_family a \<noteq> pr_protocol_family req \<or>
       err = NotFound (''model alias '' @ pr_alias_name req) \<and> ma_status a \<noteq> ResActive \<or>
       err = NotReady \<and>
       (\<exists>p \<in> set (cat_route_policies cat). rp_route_policy_id p = ma_route_policy_id a \<and>
         (rp_status p \<noteq> ResActive \<or>
          (\<exists>g \<in> set (cat_routing_groups cat). rg_routing_group_id g = rp_routing_group_id p \<and>
             rg_status g \<noteq> ResActive)))))"
proof -
  from assms(1) have wf: "catalog_wf parse_uri cat" by (simp add: validate_iff_wf)
  then have u: "ids_unique cat" by (simp add: catalog_wf_def)
  then have ix: "index_endpoints (cat_provider_endpoints cat) \<noteq> Inl e"
      "index_credentials (cat_upstream_credentials cat) \<noteq> Inl e"
      "index_targets (cat_model_targets cat) \<noteq> Inl e" for e
    by (simp_all add: index_defs index_by_distinct ids_unique_def)
  from assms(2) ix have bind: "resolve_route_binding cat req = Inl err"
    by (auto simp: plan_runtime_route_with_hot_state_def rbind_Inl_iff)
  have policy: "\<exists>p. lookup_by rp_route_policy_id (cat_route_policies cat) (ma_route_policy_id a) = Some p \<and>
      (\<exists>g. lookup_by rg_routing_group_id (cat_routing_groups cat) (rp_routing_group_id p) = Some g)"
    if "resolve_alias cat (pr_actor req) (pr_alias_name req) = Inr a" for a
  proof -
    from resolve_alias_visible [OF that] wf have "alias_wf cat a" by (simp add: catalog_wf_def)
    then obtain p where p: "p \<in> set (cat_route_policies cat)" "rp_route_policy_id p = ma_route_policy_id a"
      by (auto simp: alias_wf_def)
    with wf have "policy_wf cat p" by (simp add: catalog_wf_def)
    then obtain g where "g \<in> set (cat_routing_groups cat)" "rg_routing_group_id g = rp_routing_group_id p"
      by (auto simp: policy_wf_def)
    with p u show ?thesis by (auto simp: ids_unique_def lookup_by_Some_iff)
  qed
  show ?thesis
  proof (cases "resolve_alias cat (pr_actor req) (pr_alias_name req)")
    case (Inl e)
    with bind show ?thesis by (simp add: resolve_route_binding_def)
  next
    case (Inr a)
    from policy [OF this] obtain p g where
      "lookup_by rp_route_policy_id (cat_route_policies cat) (ma_route_policy_id a) = Some p"
      "lookup_by rg_routing_group_id (cat_routing_groups cat) (rp_routing_group_id p) = Some g" by blast
    with Inr bind show ?thesis
      by (auto simp: resolve_route_binding_def rbind_Inl_iff fail_if_Inl_iff lookup_by_def
          dest!: lookup_by_SomeD [unfolded lookup_by_def])
  qed
qed

theorem validated_catalog_errors_witness:
  "resolve_alias (demo_catalog [open_grant]) demo_actor ''slow'' = Inl (NotFound ''model alias slow'')"
proof -
  let ?req = "(demo_request null_view None None)\<lparr>pr_alias_name := ''slow''\<rparr>"
  have "plan_runtime_route_with_hot_state (demo_catalog [open_grant]) ?req =
      Inl (NotFound ''model alias slow'')" by code_simp
  from validated_catalog_errors [OF demo_validates this]
  have "resolve_alias (demo_catalog [open_grant]) demo_actor ''slow'' = Inl (NotFound ''model alias slow'') \<or>
    (\<exists>a. resolve_alias (demo_catalog [open_grant]) demo_actor ''slow'' = Inr a)"
    by (auto simp: demo_request_def)
  moreover have "\<nexists>a. resolve_alias (demo_catalog [open_grant]) demo_actor ''slow'' = Inr a"
    by (simp add: resolve_alias_def scoped_aliases_def List.map_filter_def demo_defs)
  ultimately show ?thesis by blast
qed

subsection \<open>Evidence\<close>

text \<open>
  The summary of a plan that selects nothing accounts for every candidate: without a sticky
  mapping it has one entry per reason, counts each candidate once under its own reason, and its
  total is the number of candidates.
\<close>

theorem plan_summary_exact:
  assumes "plan_runtime_route_with_hot_state cat req = Inr plan"
    and "resolve_route_binding cat req = Inr (a, p, g)"
    and "plan_outcome plan \<in> {PlanProviderGrantDenied, PlanNoRoute}"
    and "pr_route_affinity_hash req = None"
  shows "wf_summary (plan_filtered_summary plan) \<and>
    (\<forall>r. summary_count (plan_filtered_summary plan) r =
       filter_reason_count cat (catalog_context cat req a p g) (route_candidates cat g) r) \<and>
    summary_total (plan_filtered_summary plan) = length (route_candidates cat g)"
proof -
  let ?ctx = "catalog_context cat req a p g" and ?cs = "route_candidates cat g"
  from assms(1,2) have plan: "plan = plan_candidates cat req ?ctx ?cs" by (auto simp: plan_Inr_iff)
  with assms(3) plan_candidates_complete [of cat req ?ctx ?cs]
  have "\<forall>c \<in> set ?cs. \<not> candidate_eligible cat ?ctx c" by auto
  moreover have "sticky_candidate req ?ctx ?cs = None"
    using assms(4) by (simp add: sticky_candidate_def)
  ultimately show ?thesis by (simp add: plan plan_candidates_summary)
qed

theorem plan_summary_exact_witness:
  "filter_reason_count (demo_catalog []) (catalog_context (demo_catalog [])
     (demo_request null_view None None) demo_alias demo_policy demo_group)
     (route_candidates (demo_catalog []) demo_group) ProviderGrantDenied = 2"
proof -
  obtain plan where plan: "plan_runtime_route_with_hot_state (demo_catalog [])
      (demo_request null_view None None) = Inr plan" "plan_outcome plan = PlanProviderGrantDenied"
      "plan_filtered_summary plan = [\<lparr>fs_reason = ProviderGrantDenied, fs_count = 2\<rparr>]"
    using demo_denied
    by (cases "plan_runtime_route_with_hot_state (demo_catalog []) (demo_request null_view None None)")
      auto
  have "pr_route_affinity_hash (demo_request null_view None None) = None" by (simp add: demo_defs)
  with plan_summary_exact [OF plan(1) demo_binding _ this] plan(2)
  have "summary_count (plan_filtered_summary plan) ProviderGrantDenied =
      filter_reason_count (demo_catalog []) (catalog_context (demo_catalog [])
        (demo_request null_view None None) demo_alias demo_policy demo_group)
        (route_candidates (demo_catalog []) demo_group) ProviderGrantDenied" by simp
  with plan(3) show ?thesis by (simp add: summary_count_def)
qed

text \<open>
  A sticky candidate that is filtered is counted twice: when no candidate is eligible and the
  request's mapping points at one of them, the total of the summary is one more than the number
  of candidates.
\<close>

theorem sticky_filtered_counted_twice:
  assumes "plan_runtime_route_with_hot_state cat req = Inr plan"
    and "resolve_route_binding cat req = Inr (a, p, g)"
    and "plan_outcome plan \<in> {PlanProviderGrantDenied, PlanNoRoute}"
    and "sticky_candidate req (catalog_context cat req a p g) (route_candidates cat g) = Some (r, c)"
  shows "summary_total (plan_filtered_summary plan) = length (route_candidates cat g) + 1"
proof -
  let ?ctx = "catalog_context cat req a p g" and ?cs = "route_candidates cat g"
  from assms(1,2) have plan: "plan = plan_candidates cat req ?ctx ?cs" by (auto simp: plan_Inr_iff)
  with assms(3) plan_candidates_complete [of cat req ?ctx ?cs]
  have "\<forall>c \<in> set ?cs. \<not> candidate_eligible cat ?ctx c" by auto
  with assms(4) show ?thesis by (simp add: plan plan_candidates_sticky_filtered)
qed

definition demo_sticky :: sticky_route_record where
  "demo_sticky =
     \<lparr>sr_tenant_id = ''t1'', sr_project_id = Some ''j1'', sr_model_alias_id = ''a1'',
      sr_affinity_hash = ''h'', sr_routing_group_id = ''g1'', sr_model_target_id = ''m2'',
      sr_provider_endpoint_id = ''e2'', sr_config_version = 7, sr_created_at = 50,
      sr_expires_at = 500\<rparr>"

definition demo_sticky_view :: hot_view where
  "demo_sticky_view = mem_view (mem_set_sticky_route demo_sticky empty_hot_store)"

theorem sticky_filtered_counted_twice_witness:
  "\<exists>plan. plan_runtime_route_with_hot_state (demo_catalog [])
     (demo_request demo_sticky_view (Some 7) (Some ''h'')) = Inr plan \<and>
     summary_total (plan_filtered_summary plan) = 3"
proof -
  let ?req = "demo_request demo_sticky_view (Some 7) (Some ''h'')"
  have "map_sum id plan_outcome (plan_runtime_route_with_hot_state (demo_catalog []) ?req) =
      Inr PlanProviderGrantDenied" by code_simp
  then obtain plan where plan: "plan_runtime_route_with_hot_state (demo_catalog []) ?req = Inr plan"
      "plan_outcome plan = PlanProviderGrantDenied"
    by (cases "plan_runtime_route_with_hot_state (demo_catalog []) ?req") auto
  have "sticky_candidate ?req (catalog_context (demo_catalog []) ?req demo_alias demo_policy demo_group)
      (route_candidates (demo_catalog []) demo_group) =
      Some (demo_sticky, demo_group_target ''x2'' ''m2'' 2)" by code_simp
  moreover have "length (route_candidates (demo_catalog []) demo_group) = 2"
    by (simp add: route_candidates_def demo_defs)
  ultimately show ?thesis
    using sticky_filtered_counted_twice [OF plan(1) demo_binding] plan by auto
qed

subsection \<open>Stickiness and hot state\<close>

text \<open>
  A sticky hit is backed by a live mapping: on the in-memory store, a selection reported as a
  sticky hit has the target and endpoint of the mapping stored for the actor's tenant and project,
  the alias and the affinity hash, written for the config version in use and not yet expired; and
  the policy of the route has a sticky lifetime.
\<close>

theorem sticky_hit_backed:
  assumes "plan_runtime_route_with_hot_state cat req = Inr plan"
    and "plan_outcome plan = PlanSelected sel" and "rs_sticky_hit sel"
    and "pr_hot_state req = mem_view s"
  shows "\<exists>h r. pr_route_affinity_hash req = Some h \<and>
    hs_sticky_routes s (actor_tenant_id (pr_actor req), actor_project_id (pr_actor req),
      rs_model_alias_id sel, h) = Some r \<and>
    pr_config_version req = Some (sr_config_version r) \<and> pr_now req < sr_expires_at r \<and>
    rs_model_target_id sel = sr_model_target_id r \<and>
    pe_provider_endpoint_id (rs_provider_endpoint sel) = sr_provider_endpoint_id r \<and>
    rs_routing_group_id sel = sr_routing_group_id r \<and> rs_sticky_ttl_seconds sel \<noteq> None"
proof -
  from assms(1) obtain a p g where
    plan: "plan = plan_candidates cat req (catalog_context cat req a p g) (route_candidates cat g)"
    by (auto simp: plan_Inr_iff)
  let ?ctx = "catalog_context cat req a p g" and ?cs = "route_candidates cat g"
  have "\<exists>state. try_sticky_route_selection cat req ?ctx ?cs ([], False) = (StickySelected sel, state)"
  proof (cases rule: plan_candidates_cases [of cat req ?ctx ?cs])
    case (found r st reason sel' st')
    with assms(2,3) plan first_eligible_SomeD [OF found(3)] show ?thesis
      by (auto simp: make_route_selection_def)
  qed (use assms(2) plan in \<open>auto split: if_splits\<close>)
  then obtain r c t e where sc: "sticky_candidate req ?ctx ?cs = Some (r, c)" and
    el: "eligible cat ?ctx c t e" and ep: "pe_provider_endpoint_id e = sr_provider_endpoint_id r" and
    sel: "sel = make_route_selection ?ctx t e [] True None"
    by (auto dest: try_sticky_selected)
  from sc obtain h where h: "pr_route_affinity_hash req = Some h" "rp_sticky_ttl_seconds p \<noteq> None"
      "mem_sticky_route s (actor_tenant_id (pr_actor req)) (actor_project_id (pr_actor req))
         (ma_model_alias_id a) h (pr_config_version req) (pr_now req) = Some r"
      "sr_routing_group_id r = rg_routing_group_id g" "gt_model_target_id c = sr_model_target_id r"
    using assms(4)
    by (auto simp: sticky_candidate_def sticky_route_for_policy_def mem_view_def find_Some_iff
        split: option.splits if_splits)
  from el have "mt_model_target_id t = gt_model_target_id c"
    by (auto simp: eligible_def dest: lookup_by_SomeD)
  with h ep sel show ?thesis
    by (auto simp: make_route_selection_def mem_sticky_route_def opt_filter_Some_iff
        sticky_is_fresh_for_def)
qed

lemma demo_sticky_selects:
  "selected_target (plan_runtime_route_with_hot_state (demo_catalog [open_grant])
     (demo_request demo_sticky_view (Some 7) (Some ''h''))) = Some (''m2'', True)"
  by code_simp

theorem sticky_hit_backed_witness:
  "\<exists>h r. hs_sticky_routes (mem_set_sticky_route demo_sticky empty_hot_store)
     (''t1'', Some ''j1'', ''a1'', h) = Some r \<and> sr_model_target_id r = ''m2'' \<and> 100 < sr_expires_at r"
proof -
  let ?req = "demo_request demo_sticky_view (Some 7) (Some ''h'')"
  obtain plan sel where p: "plan_runtime_route_with_hot_state (demo_catalog [open_grant]) ?req = Inr plan"
      "plan_outcome plan = PlanSelected sel" "rs_model_target_id sel = ''m2''" "rs_sticky_hit sel"
    using demo_sticky_selects by (rule selected_target_Some) simp
  have "pr_hot_state ?req = mem_view (mem_set_sticky_route demo_sticky empty_hot_store)"
    by (simp add: demo_request_def demo_sticky_view_def)
  from sticky_hit_backed [OF p(1,2,4) this] obtain h r where
    "hs_sticky_routes (mem_set_sticky_route demo_sticky empty_hot_store)
       (''t1'', Some ''j1'', rs_model_alias_id sel, h) = Some r"
    "100 < sr_expires_at r" "rs_model_target_id sel = sr_model_target_id r"
    by (auto simp: demo_request_def demo_actor_def actor_for_user_session_def)
  moreover from this(1) have "rs_model_alias_id sel = ''a1''"
    by (auto simp: mem_set_sticky_route_def empty_hot_store_def demo_sticky_def split: if_splits)
  ultimately show ?thesis using p(3) by metis
qed

text \<open>
  Hot state without a config version is inert: whatever the in-memory store holds, a plan
  made without a version is the plan made with no hot state at all.
\<close>

theorem hot_state_needs_version:
  "plan_runtime_route_with_hot_state cat
     (req\<lparr>pr_hot_state := mem_view s, pr_config_version := None\<rparr>) =
   plan_runtime_route_with_hot_state cat (req\<lparr>pr_hot_state := null_view, pr_config_version := None\<rparr>)"
  unfolding mem_view_def by (rule mem_hot.plan_without_version)

subsection \<open>Aliases\<close>

text \<open>
  The most specific alias wins: an alias that resolves is visible to the actor in its own
  tenant, no visible alias of that name has a higher scope score (project 3, organization 2,
  tenant 1), and no other entry of the catalog ties with it.
\<close>

theorem alias_resolution_most_specific:
  assumes "resolve_alias cat actor name = Inr a"
  shows "a \<in> set (cat_model_aliases cat) \<and> ma_tenant_id a = actor_tenant_id actor \<and>
    ma_alias_name a = name \<and>
    (\<forall>b \<in> set (cat_model_aliases cat). \<forall>s.
       ma_tenant_id b = actor_tenant_id actor \<and> ma_alias_name b = name \<and>
       alias_scope_score b actor = Some s \<and> b \<noteq> a \<longrightarrow>
       (\<exists>best. alias_scope_score a actor = Some best \<and> s < best))"
proof -
  from assms obtain s where
    s: "filter (\<lambda>(s', _). s' = s) (scoped_aliases cat actor name) = [(s, a)]"
      "\<forall>(s', _) \<in> set (scoped_aliases cat actor name). s' \<le> s"
    by (auto simp: resolve_alias_Inr_iff)
  have mem: "(s, b) \<in> set (scoped_aliases cat actor name) \<longleftrightarrow> b = a" for b
  proof -
    have "(s, b) \<in> set (filter (\<lambda>(s', _). s' = s) (scoped_aliases cat actor name)) \<longleftrightarrow> b = a"
      using s(1) by simp
    then show ?thesis by simp
  qed
  then have "alias_scope_score a actor = Some s"
    using scoped_aliases_member [of s a] by blast
  moreover have "s' < s"
    if "(s', b) \<in> set (scoped_aliases cat actor name)" "b \<noteq> a" for s' b
    using that mem [of b] s(2) by (fastforce simp: order_less_le)
  ultimately show ?thesis
    using resolve_alias_visible [OF assms] by (auto simp: scoped_aliases_member)
qed

theorem alias_resolution_most_specific_witness:
  "(let own = demo_alias\<lparr>ma_model_alias_id := ''a2'', ma_organization_id := Some ''o1''\<rparr>;
        cat = (demo_catalog [])\<lparr>cat_model_aliases := [demo_alias, own]\<rparr> in
    resolve_alias cat demo_actor ''fast'' = Inr own \<and>
    (\<exists>best. alias_scope_score own demo_actor = Some best \<and> 1 < best))"
proof -
  let ?own = "demo_alias\<lparr>ma_model_alias_id := ''a2'', ma_organization_id := Some ''o1''\<rparr>"
  let ?cat = "(demo_catalog [])\<lparr>cat_model_aliases := [demo_alias, ?own]\<rparr>"
  have res: "resolve_alias ?cat demo_actor ''fast'' = Inr ?own" by code_simp
  have "alias_scope_score demo_alias demo_actor = Some 1" "demo_alias \<noteq> ?own"
    by (simp_all add: alias_scope_score_def demo_defs)
  with alias_resolution_most_specific [OF res] res show ?thesis
    by (auto simp: Let_def demo_alias_def demo_actor_def actor_for_user_session_def)
qed

subsection \<open>Provider grants\<close>

text \<open>
  C20. Closure grants mean what their closure modes say: evaluation admits a route exactly when
  the actor has an organization whose grants allow every node of the route and deny none, and the
  actor's project, if any, denies no node and allows every node of a kind it grants at all. A
  grant covers the node it names, or that node and those below it on the route.
\<close>

theorem closure_grants_meaning:
  "spec_provider_grant_allows grants actor path \<longleftrightarrow>
     (\<exists>org. actor_organization_id actor = Some org \<and>
        (\<forall>i < 5. (\<exists>g \<in> scope_grants grants actor Allow OrganizationGrant org. covers g path i) \<and>
                (\<forall>g \<in> scope_grants grants actor Deny OrganizationGrant org. \<not> covers g path i))) \<and>
     (\<forall>proj. actor_project_id actor = Some proj \<longrightarrow>
        (\<forall>i < 5. (\<forall>g \<in> scope_grants grants actor Deny ProjectGrant proj. \<not> covers g path i) \<and>
           ((\<exists>g \<in> scope_grants grants actor Allow ProjectGrant proj.
               pg_resource_kind g = Some (fst (path_nodes path ! i))) \<longrightarrow>
            (\<exists>g \<in> scope_grants grants actor Allow ProjectGrant proj. covers g path i))))"
  by (rule spec_allows_iff)

definition demo_path :: grant_path where
  "demo_path =
     \<lparr>gp_alias = demo_alias, gp_policy = demo_policy, gp_group = demo_group,
      gp_target = demo_target ''m1'' ''e1'' (Some ''c1''), gp_endpoint = demo_endpoint ''e1''\<rparr>"

theorem closure_grants_meaning_witness:
  "\<exists>g \<in> scope_grants [open_grant] demo_actor Allow OrganizationGrant ''o1''. covers g demo_path 4"
proof -
  have "spec_provider_grant_allows [open_grant] demo_actor demo_path" by code_simp
  then show ?thesis
    using closure_grants_meaning [of "[open_grant]" demo_actor demo_path]
    by (auto simp: demo_actor_def actor_for_user_session_def)
qed

text \<open>
  A denial only takes away: adding a denying provider grant to a catalog never admits a
  route that was not admitted before, in the legacy evaluation, in the closure evaluation, and
  when it is the grant that switches the tenant from the first to the second.
\<close>

theorem deny_grant_only_narrows:
  assumes "pg_effect g = Deny" and "provider_grant_allows (g # grants) actor path"
  shows "provider_grant_allows grants actor path"
  using assms by (rule provider_grant_allows_Deny)

theorem deny_grant_only_narrows_witness:
  "provider_grant_allows [open_grant] demo_actor demo_path"
proof (rule deny_grant_only_narrows)
  show "pg_effect (demo_grant Deny ModelTargetNode ''m2'' SelfOnly) = Deny" by (simp add: demo_defs)
  show "provider_grant_allows [demo_grant Deny ModelTargetNode ''m2'' SelfOnly, open_grant] demo_actor demo_path"
    by code_simp
qed

text \<open>
  Grants are local to a tenant and have no order: the decision is unchanged when the grants
  of other tenants and the inactive grants are removed, and depends on the set of grants only.
\<close>

theorem provider_grants_local_unordered:
  assumes "set grants' = {g \<in> set grants. is_active (pg_status g) \<and> pg_tenant_id g = actor_tenant_id actor}"
  shows "provider_grant_allows grants' actor path = provider_grant_allows grants actor path"
proof -
  have "provider_grant_allows grants' actor path = provider_grant_allows
      (filter (\<lambda>g. is_active (pg_status g) \<and> pg_tenant_id g = actor_tenant_id actor) grants) actor path"
    using assms by (intro provider_grant_allows_set) simp
  then show ?thesis by (simp only: provider_grant_allows_local)
qed

theorem provider_grants_local_unordered_witness:
  "provider_grant_allows [open_grant] demo_actor demo_path =
     provider_grant_allows [open_grant\<lparr>pg_tenant_id := ''t2'', pg_effect := Deny\<rparr>, open_grant]
       demo_actor demo_path"
  by (rule provider_grants_local_unordered) (auto simp: demo_defs)

text \<open>
  A project inherits from its organization or narrows it: where closure grants are in force,
  what an actor may reach inside a project it may reach at organization level too.
\<close>

theorem project_narrows_organization:
  assumes "has_spec_provider_grants grants actor" and "provider_grant_allows grants actor path"
  shows "provider_grant_allows grants (actor\<lparr>actor_project_id := None\<rparr>) path"
proof -
  from assms have "spec_provider_grant_allows grants actor path"
    by (simp add: provider_grant_allows_def)
  moreover from assms(1) have "has_spec_provider_grants grants (actor\<lparr>actor_project_id := None\<rparr>)"
    by (simp add: has_spec_provider_grants_def)
  ultimately show ?thesis
    by (simp add: provider_grant_allows_def spec_allows_project_narrows)
qed

theorem project_narrows_organization_witness:
  "provider_grant_allows [open_grant] (demo_actor\<lparr>actor_project_id := None\<rparr>) demo_path"
proof (rule project_narrows_organization)
  show "has_spec_provider_grants [open_grant] demo_actor" by code_simp
  show "provider_grant_allows [open_grant] demo_actor demo_path" by code_simp
qed

end
