(* ===== verification/Gateway_Runtime_Store.thy ===== *)
theory Gateway_Runtime_Store
  imports Gateway_Error "HOL-Library.AList"
begin

text \<open>
  The runtime policy store (\<open>RuntimePolicyRepository\<close> and its in-memory implementation in
  \<open>crates/starweaver-gateway/src/storage.rs\<close>): quota and budget counters, fail-limited
  allowances and budget leases. Every method of the trait takes its lock once, so each operation
  here is one atomic step of the running gateway. A \<open>HashMap\<close> whose values are enumerated is an
  association list with distinct keys; the results of such enumerations are sorted in the source,
  so the order of the list never shows. The locale \<open>policy_counters\<close> is the contract that the
  budget and quota code relies on.
\<close>

subsection \<open>State\<close>

record budget_lease =
  bl_lease_id :: string
  bl_tenant_id :: string
  bl_budget_policy_id :: string
  bl_counter_key :: string
  bl_request_id :: string
  bl_amount :: i64
  bl_status :: string
  bl_expires_at :: datetime
  bl_created_at :: datetime
  bl_updated_at :: datetime

record counter_decision =
  cd_current :: i64
  cd_allowed :: bool

record policy_store =
  ps_counters :: "string \<rightharpoonup> i64"
  ps_loss_allowances :: "string \<rightharpoonup> i64"
  ps_leases :: "(string \<times> budget_lease) list"
  ps_unavailable :: bool

definition empty_policy_store :: policy_store where
  "empty_policy_store =
     \<lparr>ps_counters = Map.empty, ps_loss_allowances = Map.empty, ps_leases = [],
      ps_unavailable = False\<rparr>"

subsection \<open>Operations\<close>

definition runtime_policy_hot_state_available :: "policy_store \<Rightarrow> bool" where
  "runtime_policy_hot_state_available s = (\<not> ps_unavailable s)"

definition runtime_policy_counter :: "policy_store \<Rightarrow> string \<Rightarrow> i64" where
  "runtime_policy_counter s key = unwrap_or (ps_counters s key) 0"

definition runtime_policy_loss_allowance_counter :: "policy_store \<Rightarrow> string \<Rightarrow> i64" where
  "runtime_policy_loss_allowance_counter s key = unwrap_or (ps_loss_allowances s key) 0"

definition increment_runtime_quota_counter ::
  "string \<Rightarrow> i64 \<Rightarrow> i64 \<Rightarrow> policy_store \<Rightarrow> counter_decision \<times> policy_store" where
  "increment_runtime_quota_counter key increment limit s =
     (let current = saturating_add (unwrap_or (ps_counters s key) 0) increment in
      (\<lparr>cd_current = current, cd_allowed = (current \<le> limit)\<rparr>,
       s\<lparr>ps_counters := (ps_counters s)(key \<mapsto> current)\<rparr>))"

definition adjust_runtime_policy_counter ::
  "string \<Rightarrow> i64 \<Rightarrow> policy_store \<Rightarrow> i64 \<times> policy_store" where
  "adjust_runtime_policy_counter key delta s =
     (let next = max (saturating_add (unwrap_or (ps_counters s key) 0) delta) 0 in
      (next, s\<lparr>ps_counters := (ps_counters s)(key := if next = 0 then None else Some next)\<rparr>))"

definition increment_runtime_policy_loss_allowance_counter ::
  "string \<Rightarrow> i64 \<Rightarrow> i64 \<Rightarrow> policy_store \<Rightarrow> counter_decision \<times> policy_store" where
  "increment_runtime_policy_loss_allowance_counter key increment limit s =
     (let current = saturating_add (unwrap_or (ps_loss_allowances s key) 0) increment in
      (\<lparr>cd_current = current, cd_allowed = (current \<le> limit)\<rparr>,
       s\<lparr>ps_loss_allowances := (ps_loss_allowances s)(key \<mapsto> current)\<rparr>))"

definition adjust_runtime_policy_loss_allowance_counter ::
  "string \<Rightarrow> i64 \<Rightarrow> policy_store \<Rightarrow> i64 \<times> policy_store" where
  "adjust_runtime_policy_loss_allowance_counter key delta s =
     (let next = max (saturating_add (unwrap_or (ps_loss_allowances s key) 0) delta) 0 in
      (next, s\<lparr>ps_loss_allowances :=
         (ps_loss_allowances s)(key := if next = 0 then None else Some next)\<rparr>))"

definition record_runtime_budget_lease :: "budget_lease \<Rightarrow> policy_store \<Rightarrow> policy_store" where
  "record_runtime_budget_lease record s =
     s\<lparr>ps_leases := AList.update (bl_lease_id record) record (ps_leases s)\<rparr>"

definition release_runtime_budget_lease ::
  "string \<Rightarrow> datetime \<Rightarrow> policy_store \<Rightarrow> budget_lease option \<times> policy_store" where
  "release_runtime_budget_lease lease_id now s =
     (case map_of (ps_leases s) lease_id of
        None \<Rightarrow> (None, s)
      | Some lease \<Rightarrow>
          if bl_status lease \<noteq> ''reserved'' then (None, s)
          else let lease' = lease\<lparr>bl_status := ''released'', bl_updated_at := now\<rparr> in
            (Some lease', s\<lparr>ps_leases := AList.update lease_id lease' (ps_leases s)\<rparr>))"

definition lease_due :: "string \<Rightarrow> datetime \<Rightarrow> budget_lease \<Rightarrow> bool" where
  "lease_due tenant_id now lease \<longleftrightarrow>
     bl_tenant_id lease = tenant_id \<and> bl_status lease = ''reserved'' \<and> bl_expires_at lease \<le> now"

definition mark_expired :: "datetime \<Rightarrow> budget_lease \<Rightarrow> budget_lease" where
  "mark_expired now lease = lease\<lparr>bl_status := ''expired'', bl_updated_at := now\<rparr>"

definition expire_runtime_budget_leases ::
  "string \<Rightarrow> datetime \<Rightarrow> policy_store \<Rightarrow> budget_lease list \<times> policy_store" where
  "expire_runtime_budget_leases tenant_id now s =
     (sort_key bl_lease_id
        (map (mark_expired now) (filter (lease_due tenant_id now) (map snd (ps_leases s)))),
      s\<lparr>ps_leases := map (\<lambda>(k, lease).
          (k, if lease_due tenant_id now lease then mark_expired now lease else lease)) (ps_leases s)\<rparr>)"

text \<open>Newest first, then by lease id.\<close>

definition runtime_budget_leases_for_tenant :: "policy_store \<Rightarrow> string \<Rightarrow> budget_lease list" where
  "runtime_budget_leases_for_tenant s tenant_id =
     sort_key (\<lambda>lease. - bl_created_at lease)
       (sort_key bl_lease_id (filter (\<lambda>lease. bl_tenant_id lease = tenant_id) (map snd (ps_leases s))))"

subsection \<open>The contract of the counters\<close>

text \<open>
  A counter family: an adjustment adds, saturating, and never goes below zero; a bounded
  increment adds, saturating, and says whether the limit still holds; other keys are untouched.
\<close>

locale policy_counters =
  fixes counter :: "'s \<Rightarrow> string \<Rightarrow> i64"
    and adjust :: "string \<Rightarrow> i64 \<Rightarrow> 's \<Rightarrow> i64 \<times> 's"
    and increment :: "string \<Rightarrow> i64 \<Rightarrow> i64 \<Rightarrow> 's \<Rightarrow> counter_decision \<times> 's"
  assumes counter_adjust:
      "counter (snd (adjust k d s)) k' =
         (if k' = k then max (saturating_add (counter s k) d) 0 else counter s k')"
    and adjust_value: "fst (adjust k d s) = counter (snd (adjust k d s)) k"
    and counter_increment:
      "counter (snd (increment k d limit s)) k' =
         (if k' = k then saturating_add (counter s k) d else counter s k')"
    and increment_value: "cd_current (fst (increment k d limit s)) = counter (snd (increment k d limit s)) k"
    and increment_allowed:
      "cd_allowed (fst (increment k d limit s)) \<longleftrightarrow> counter (snd (increment k d limit s)) k \<le> limit"
begin

lemma adjust_nonneg: "(\<forall>k. 0 \<le> counter s k) \<Longrightarrow> 0 \<le> counter (snd (adjust k d s)) k'"
  by (simp add: counter_adjust)

text \<open>Within the range of the counter, an adjustment is exact and the opposite one undoes it.\<close>

lemma adjust_exact:
  "0 \<le> counter s k + d \<Longrightarrow> counter s k + d \<le> i64_max \<Longrightarrow>
     counter (snd (adjust k d s)) k = counter s k + d"
  by (simp add: counter_adjust saturating_add_def i64_simps)

lemma adjust_undo:
  assumes "0 \<le> counter s k" "0 \<le> d" "counter s k + d \<le> i64_max"
  shows "counter (snd (adjust k (- d) (snd (adjust k d s)))) = counter s"
proof
  fix k'
  have "counter (snd (adjust k d s)) k = counter s k + d" using assms by (simp add: adjust_exact)
  with assms show "counter (snd (adjust k (- d) (snd (adjust k d s)))) k' = counter s k'"
    by (simp add: counter_adjust saturating_add_def i64_simps)
qed

text \<open>A bounded increment admits at most up to its limit.\<close>

lemma increment_bounded:
  "cd_allowed (fst (increment k d limit s)) \<Longrightarrow> counter (snd (increment k d limit s)) k \<le> limit"
  by (simp add: increment_allowed)

end

lemma unwrap_or_upd: "unwrap_or ((m(k \<mapsto> v)) k') d = (if k' = k then v else unwrap_or (m k') d)"
  by simp

interpretation quota_counters: policy_counters
  runtime_policy_counter adjust_runtime_policy_counter increment_runtime_quota_counter
  by unfold_locales
    (simp_all add: runtime_policy_counter_def adjust_runtime_policy_counter_def
      increment_runtime_quota_counter_def Let_def)

interpretation loss_counters: policy_counters
  runtime_policy_loss_allowance_counter adjust_runtime_policy_loss_allowance_counter
  increment_runtime_policy_loss_allowance_counter
  by unfold_locales
    (simp_all add: runtime_policy_loss_allowance_counter_def
      adjust_runtime_policy_loss_allowance_counter_def
      increment_runtime_policy_loss_allowance_counter_def Let_def)

text \<open>The counter families, the leases and the availability flag do not interfere.\<close>

lemma store_frames [simp]:
  "ps_leases (snd (adjust_runtime_policy_counter k d s)) = ps_leases s"
  "ps_loss_allowances (snd (adjust_runtime_policy_counter k d s)) = ps_loss_allowances s"
  "ps_unavailable (snd (adjust_runtime_policy_counter k d s)) = ps_unavailable s"
  "ps_leases (snd (increment_runtime_quota_counter k d l s)) = ps_leases s"
  "ps_loss_allowances (snd (increment_runtime_quota_counter k d l s)) = ps_loss_allowances s"
  "ps_unavailable (snd (increment_runtime_quota_counter k d l s)) = ps_unavailable s"
  "ps_counters (snd (adjust_runtime_policy_loss_allowance_counter k d s)) = ps_counters s"
  "ps_leases (snd (adjust_runtime_policy_loss_allowance_counter k d s)) = ps_leases s"
  "ps_counters (snd (increment_runtime_policy_loss_allowance_counter k d l s)) = ps_counters s"
  "ps_leases (snd (increment_runtime_policy_loss_allowance_counter k d l s)) = ps_leases s"
  "ps_counters (record_runtime_budget_lease r s) = ps_counters s"
  "ps_counters (snd (release_runtime_budget_lease i now s)) = ps_counters s"
  "ps_counters (snd (expire_runtime_budget_leases t now s)) = ps_counters s"
  "ps_unavailable (record_runtime_budget_lease r s) = ps_unavailable s"
  "ps_unavailable (snd (release_runtime_budget_lease i now s)) = ps_unavailable s"
  by (simp_all add: adjust_runtime_policy_counter_def increment_runtime_quota_counter_def
      adjust_runtime_policy_loss_allowance_counter_def
      increment_runtime_policy_loss_allowance_counter_def record_runtime_budget_lease_def
      release_runtime_budget_lease_def expire_runtime_budget_leases_def Let_def
      split: option.split)

lemma counter_of_counters:
  "ps_counters s = ps_counters s' \<Longrightarrow> runtime_policy_counter s = runtime_policy_counter s'"
  by (rule ext) (simp add: runtime_policy_counter_def)

subsection \<open>Leases\<close>

text \<open>The number of reserved leases that hold a counter.\<close>

definition reserved_on :: "string \<Rightarrow> budget_lease \<Rightarrow> bool" where
  "reserved_on key l \<longleftrightarrow> bl_status l = ''reserved'' \<and> bl_counter_key l = key"

definition reserved_count :: "policy_store \<Rightarrow> string \<Rightarrow> nat" where
  "reserved_count s key = length (filter (\<lambda>(_, l). reserved_on key l) (ps_leases s))"

definition leases_wf :: "policy_store \<Rightarrow> bool" where
  "leases_wf s \<longleftrightarrow> distinct (map fst (ps_leases s)) \<and>
     (\<forall>(i, l) \<in> set (ps_leases s). bl_lease_id l = i)"

lemma update_fresh: "k \<notin> fst ` set xs \<Longrightarrow> AList.update k v xs = xs @ [(k, v)]"
  by (induction xs) auto

lemma update_split:
  "distinct (map fst xs) \<Longrightarrow> map_of xs k = Some v \<Longrightarrow>
     \<exists>ys zs. xs = ys @ (k, v) # zs \<and> AList.update k v' xs = ys @ (k, v') # zs"
proof (induction xs)
  case Nil
  then show ?case by simp
next
  case (Cons p xs)
  obtain a b where p: "p = (a, b)" by (cases p)
  show ?case
  proof (cases "a = k")
    case True
    with Cons.prems p show ?thesis by (intro exI [of _ "[]"] exI [of _ xs]) simp
  next
    case False
    with Cons p obtain ys zs where "xs = ys @ (k, v) # zs" "AList.update k v' xs = ys @ (k, v') # zs"
      by auto
    with False p show ?thesis by (intro exI [of _ "p # ys"] exI [of _ zs]) simp
  qed
qed

lemma record_lease_count:
  assumes "bl_lease_id l \<notin> fst ` set (ps_leases s)"
  shows "reserved_count (record_runtime_budget_lease l s) key =
    reserved_count s key + (if reserved_on key l then 1 else 0)"
  using assms by (simp add: record_runtime_budget_lease_def reserved_count_def update_fresh)

lemma record_lease_wf:
  "leases_wf s \<Longrightarrow> bl_lease_id l \<notin> fst ` set (ps_leases s) \<Longrightarrow>
     leases_wf (record_runtime_budget_lease l s)"
  by (auto simp: leases_wf_def record_runtime_budget_lease_def update_fresh)

lemma release_lease_SomeD:
  assumes wf: "leases_wf s" and "release_runtime_budget_lease i now s = (Some l, s')"
  obtains l0 ys zs where "ps_leases s = ys @ (i, l0) # zs" "ps_leases s' = ys @ (i, l) # zs"
    "bl_status l0 = ''reserved''" "l = l0\<lparr>bl_status := ''released'', bl_updated_at := now\<rparr>"
    "s' = s\<lparr>ps_leases := ps_leases s'\<rparr>"
proof -
  from assms obtain l0 where l0: "map_of (ps_leases s) i = Some l0" "bl_status l0 = ''reserved''"
      "l = l0\<lparr>bl_status := ''released'', bl_updated_at := now\<rparr>"
      "s' = s\<lparr>ps_leases := AList.update i l (ps_leases s)\<rparr>"
    by (auto simp: release_runtime_budget_lease_def Let_def split: option.splits if_splits)
  from wf have "distinct (map fst (ps_leases s))" by (simp add: leases_wf_def)
  from update_split [OF this l0(1), of l] obtain ys zs where
    "ps_leases s = ys @ (i, l0) # zs" "AList.update i l (ps_leases s) = ys @ (i, l) # zs" by blast
  with l0 that show thesis by simp
qed

text \<open>A lease is released at most once, and releasing it frees exactly its own counter.\<close>

lemma release_lease_count:
  assumes "leases_wf s" "release_runtime_budget_lease i now s = (Some l, s')"
  shows "reserved_count s key = reserved_count s' key + (if bl_counter_key l = key then 1 else 0)"
  using assms by (elim release_lease_SomeD) (auto simp: reserved_count_def reserved_on_def)

lemma release_lease_wf:
  assumes "leases_wf s" "release_runtime_budget_lease i now s = (Some l, s')"
  shows "leases_wf s'"
proof -
  from assms obtain l0 ys zs where "ps_leases s = ys @ (i, l0) # zs" "ps_leases s' = ys @ (i, l) # zs"
      "l = l0\<lparr>bl_status := ''released'', bl_updated_at := now\<rparr>"
    by (rule release_lease_SomeD)
  with assms(1) show ?thesis by (auto simp: leases_wf_def)
qed

lemma release_lease_once:
  assumes "leases_wf s" "release_runtime_budget_lease i now s = (Some l, s')"
  shows "release_runtime_budget_lease i now' s' = (None, s')"
proof -
  from assms obtain l0 ys zs where "ps_leases s = ys @ (i, l0) # zs" "ps_leases s' = ys @ (i, l) # zs"
      "l = l0\<lparr>bl_status := ''released'', bl_updated_at := now\<rparr>"
    by (rule release_lease_SomeD)
  moreover from this assms(1) have "map_of ys i = None"
    by (auto simp: leases_wf_def map_of_eq_None_iff)
  ultimately have "map_of (ps_leases s') i = Some l" "bl_status l = ''released''"
    by (simp_all add: map_add_def)
  then show ?thesis by (simp add: release_runtime_budget_lease_def)
qed

lemma release_lease_None: "release_runtime_budget_lease i now s = (None, s') \<Longrightarrow> s' = s"
  by (auto simp: release_runtime_budget_lease_def Let_def split: option.splits if_splits)

lemma due_reserved: "lease_due t now l \<Longrightarrow> reserved_on key l \<longleftrightarrow> bl_counter_key l = key"
  by (simp add: lease_due_def reserved_on_def)

lemma mark_expired_simps [simp]:
  "\<not> reserved_on key (mark_expired now l)"
  "bl_counter_key (mark_expired now l) = bl_counter_key l"
  "bl_lease_id (mark_expired now l) = bl_lease_id l"
  "bl_amount (mark_expired now l) = bl_amount l"
  by (simp_all add: reserved_on_def mark_expired_def)

lemma expire_leases_count:
  assumes "expire_runtime_budget_leases t now s = (expired, s')"
  shows "reserved_count s key = reserved_count s' key + length (filter (\<lambda>l. bl_counter_key l = key) expired)"
proof -
  let ?mark = "\<lambda>(k :: string, l). (k, if lease_due t now l then mark_expired now l else l)"
  have "length (filter (\<lambda>(_, l). reserved_on key l) xs) =
    length (filter (\<lambda>(_, l). reserved_on key l) (map ?mark xs)) +
    length (filter (\<lambda>l. bl_counter_key l = key)
      (map (mark_expired now) (filter (lease_due t now) (map snd xs))))" for xs
  proof (induction xs)
    case Nil
    then show ?case by simp
  next
    case (Cons p xs)
    obtain k l where p: "p = (k, l)" by (cases p)
    from Cons show ?case
      by (cases "lease_due t now l") (simp_all add: p due_reserved)
  qed
  from this [of "ps_leases s"] assms show ?thesis
    by (simp add: expire_runtime_budget_leases_def reserved_count_def filter_sort)
      (auto simp: filter_sort)
qed

lemma expire_leases_wf:
  assumes "leases_wf s"
  shows "leases_wf (snd (expire_runtime_budget_leases t now s))"
proof -
  let ?mark = "\<lambda>(k :: string, l). (k, if lease_due t now l then mark_expired now l else l)"
  have "map fst (map ?mark xs) = map fst xs" for xs
    by (induction xs) auto
  moreover have "\<forall>(i, l) \<in> set (map ?mark (ps_leases s)). bl_lease_id l = i"
    using assms by (auto simp: leases_wf_def)
  ultimately show ?thesis
    using assms by (simp add: leases_wf_def expire_runtime_budget_leases_def del: map_map)
qed

text \<open>After an expiry pass the tenant has no overdue reservation left.\<close>

lemma expire_leases_complete:
  assumes "(i, l) \<in> set (ps_leases (snd (expire_runtime_budget_leases t now s)))"
    and "bl_tenant_id l = t" and "bl_status l = ''reserved''"
  shows "now < bl_expires_at l"
proof -
  from assms(1) obtain l0 where l0: "l = (if lease_due t now l0 then mark_expired now l0 else l0)"
    by (auto simp: expire_runtime_budget_leases_def)
  have "\<not> lease_due t now l0"
  proof
    assume "lease_due t now l0"
    with l0 assms(3) show False by (simp add: mark_expired_def)
  qed
  with l0 have "l = l0" by simp
  with \<open>\<not> lease_due t now l0\<close> assms(2,3) show ?thesis by (auto simp: lease_due_def)
qed

end
