(* ===== verification/Gateway_Json.thy ===== *)
theory Gateway_Json
  imports Gateway_Prelude
begin

text \<open>
  JSON documents (\<open>serde_json::Value\<close>), Unicode trimming and counting on the bytes of a string, and
  the first minimum of an iterator: the parts of the language's library that the documents of the
  gateway are read with.
\<close>

subsection \<open>Values\<close>

text \<open>\<open>serde_json::Value\<close>; a number that is not an integer is kept as its literal.\<close>

datatype json =
    JNull
  | JBool bool
  | JInt int
  | JFloat string
  | JString string
  | JArray "json list"
  | JObject "(string \<times> json) list"

fun json_get :: "json \<Rightarrow> string \<Rightarrow> json option" where
  "json_get (JObject kvs) key = map_of kvs key"
| "json_get _ key = None"

fun json_as_str :: "json \<Rightarrow> string option" where
  "json_as_str (JString s) = Some s"
| "json_as_str _ = None"

text \<open>\<open>Value::as_i64\<close>: an integer that fits.\<close>

fun json_as_i64 :: "json \<Rightarrow> i64 option" where
  "json_as_i64 (JInt i) = (if is_i64 i then Some i else None)"
| "json_as_i64 _ = None"

text \<open>\<open>Value::as_u64\<close>.\<close>

fun json_as_u64 :: "json \<Rightarrow> nat option" where
  "json_as_u64 (JInt i) = (if 0 \<le> i \<and> i < 2 ^ 64 then Some (nat i) else None)"
| "json_as_u64 _ = None"

fun json_as_bool :: "json \<Rightarrow> bool option" where
  "json_as_bool (JBool b) = Some b"
| "json_as_bool _ = None"

fun json_as_array :: "json \<Rightarrow> json list option" where
  "json_as_array (JArray vs) = Some vs"
| "json_as_array _ = None"

definition json_get_i64 :: "json \<Rightarrow> string \<Rightarrow> i64 option" where
  "json_get_i64 doc key = Option.bind (json_get doc key) json_as_i64"

definition json_get_str :: "json \<Rightarrow> string \<Rightarrow> string option" where
  "json_get_str doc key = Option.bind (json_get doc key) json_as_str"

definition json_opt_str :: "string option \<Rightarrow> json" where
  "json_opt_str x = (case x of None \<Rightarrow> JNull | Some s \<Rightarrow> JString s)"

text \<open>\<open>doc[key] = v\<close> on an object: replaces the entry in place or adds it.\<close>

fun entry_set :: "string \<Rightarrow> json \<Rightarrow> (string \<times> json) list \<Rightarrow> (string \<times> json) list" where
  "entry_set key v [] = [(key, v)]"
| "entry_set key v ((k, w) # kvs) = (if k = key then (k, v) # kvs else (k, w) # entry_set key v kvs)"

fun json_set :: "json \<Rightarrow> string \<Rightarrow> json \<Rightarrow> json" where
  "json_set (JObject kvs) key v = JObject (entry_set key v kvs)"
| "json_set doc key v = doc"

lemma map_of_entry_set: "map_of (entry_set key v kvs) = (map_of kvs)(key \<mapsto> v)"
  by (induction kvs) (auto simp: fun_eq_iff)

lemma json_get_set [simp]:
  "json_get (json_set (JObject kvs) key v) k = (if k = key then Some v else json_get (JObject kvs) k)"
  by (simp add: map_of_entry_set)

lemma json_get_i64_is_i64: "json_get_i64 doc key = Some i \<Longrightarrow> is_i64 i"
  by (auto simp: json_get_i64_def bind_eq_Some_conv elim!: json_as_i64.elims split: if_splits)

text \<open>
  \<open>Value\<close>'s indexing \<open>doc[key] = v\<close> panics on a value that is neither an object nor null; the code
  only writes to objects it built, which is the only case \<open>json_set\<close> is used on.
\<close>

subsection \<open>Strings as bytes\<close>

text \<open>The UTF-8 encodings of the code points with the \<open>White_Space\<close> property.\<close>

definition white_space :: "string list" where
  "white_space =
     [[CHR 0x09], [CHR 0x0A], [CHR 0x0B], [CHR 0x0C], [CHR 0x0D], [CHR 0x20],
      [CHR 0xC2, CHR 0x85], [CHR 0xC2, CHR 0xA0], [CHR 0xE1, CHR 0x9A, CHR 0x80],
      [CHR 0xE2, CHR 0x80, CHR 0x80], [CHR 0xE2, CHR 0x80, CHR 0x81],
      [CHR 0xE2, CHR 0x80, CHR 0x82], [CHR 0xE2, CHR 0x80, CHR 0x83],
      [CHR 0xE2, CHR 0x80, CHR 0x84], [CHR 0xE2, CHR 0x80, CHR 0x85],
      [CHR 0xE2, CHR 0x80, CHR 0x86], [CHR 0xE2, CHR 0x80, CHR 0x87],
      [CHR 0xE2, CHR 0x80, CHR 0x88], [CHR 0xE2, CHR 0x80, CHR 0x89],
      [CHR 0xE2, CHR 0x80, CHR 0x8A], [CHR 0xE2, CHR 0x80, CHR 0xA8],
      [CHR 0xE2, CHR 0x80, CHR 0xA9], [CHR 0xE2, CHR 0x80, CHR 0xAF],
      [CHR 0xE2, CHR 0x81, CHR 0x9F], [CHR 0xE3, CHR 0x80, CHR 0x80]]"

lemma white_space_nonempty: "w \<in> set white_space \<Longrightarrow> w \<noteq> []"
  by (auto simp: white_space_def)

lemma find_some_in: "find P xs = Some x \<Longrightarrow> x \<in> set xs \<and> P x"
  by (auto simp: find_Some_iff)

text \<open>\<open>str::trim_start\<close>, \<open>str::trim_end\<close> and \<open>str::trim\<close>.\<close>

function trim_start :: "string \<Rightarrow> string" where
  "trim_start s =
     (case find (\<lambda>w. starts_with s w) white_space of
        None \<Rightarrow> s
      | Some w \<Rightarrow> trim_start (drop (length w) s))"
  by auto
termination
proof (relation "measure length")
  fix s w assume "find (\<lambda>w. starts_with s w) white_space = Some w"
  then have w: "w \<in> set white_space" "starts_with s w" by (auto dest: find_some_in)
  then have "0 < length w" "length w \<le> length s"
    using white_space_nonempty
    by (auto simp: starts_with_def dest: arg_cong [where f = length])
  then have "length (drop (length w) s) < length s" unfolding length_drop by linarith
  then show "(drop (length w) s, s) \<in> measure length" unfolding in_measure .
qed simp

function trim_end :: "string \<Rightarrow> string" where
  "trim_end s =
     (case find (\<lambda>w. length w \<le> length s \<and> ends_with s w) white_space of
        None \<Rightarrow> s
      | Some w \<Rightarrow> trim_end (take (length s - length w) s))"
  by auto
termination
proof (relation "measure length")
  fix s w assume "find (\<lambda>w. length w \<le> length s \<and> ends_with s w) white_space = Some w"
  then have w: "w \<in> set white_space" "length w \<le> length s" by (auto dest: find_some_in)
  then have "0 < length w" using white_space_nonempty by auto
  with w(2) have "length (take (length s - length w) s) < length s" unfolding length_take by linarith
  then show "(take (length s - length w) s, s) \<in> measure length" unfolding in_measure .
qed simp

declare trim_start.simps [simp del] trim_end.simps [simp del]

definition trim :: "string \<Rightarrow> string" where
  "trim s = trim_end (trim_start s)"

lemma trim_start_clean: "find (\<lambda>w. starts_with (trim_start s) w) white_space = None"
proof (induction s rule: trim_start.induct)
  case (1 s)
  then show ?case
    by (cases "find (\<lambda>w. starts_with s w) white_space") (subst trim_start.simps; simp)+
qed

text \<open>The number of characters: bytes that do not continue a UTF-8 sequence.\<close>

definition char_count :: "string \<Rightarrow> nat" where
  "char_count s = length (filter (\<lambda>c. \<not> (0x80 \<le> (of_char c :: nat) \<and> (of_char c :: nat) < 0xC0)) s)"

text \<open>\<open>str::contains\<close> and \<open>str::to_ascii_lowercase\<close>.\<close>

definition contains_str :: "string \<Rightarrow> string \<Rightarrow> bool" where
  "contains_str s p = list_ex (\<lambda>i. starts_with (drop i s) p) [0..<Suc (length s)]"

definition ascii_lower :: "char \<Rightarrow> char" where
  "ascii_lower c = (if 65 \<le> (of_char c :: nat) \<and> (of_char c :: nat) \<le> 90
     then char_of ((of_char c :: nat) + 32) else c)"

definition to_ascii_lowercase :: "string \<Rightarrow> string" where
  "to_ascii_lowercase s = map ascii_lower s"

definition is_blank :: "string \<Rightarrow> bool" where
  "is_blank s \<longleftrightarrow> trim s = ''''"

subsection \<open>The first minimum\<close>

text \<open>\<open>Iterator::min_by\<close>: the first of the least elements.\<close>

fun first_min :: "('a \<Rightarrow> 'k::linorder) \<Rightarrow> 'a list \<Rightarrow> 'a option" where
  "first_min f [] = None"
| "first_min f (x # xs) =
     (case first_min f xs of
        None \<Rightarrow> Some x
      | Some y \<Rightarrow> if f y < f x then Some y else Some x)"

lemma first_min_None [simp]: "first_min f xs = None \<longleftrightarrow> xs = []"
  by (cases xs) (auto split: option.splits)

lemma first_min_SomeD: "first_min f xs = Some x \<Longrightarrow> x \<in> set xs \<and> (\<forall>y \<in> set xs. f x \<le> f y)"
proof (induction xs arbitrary: x)
  case Nil
  then show ?case by simp
next
  case (Cons a xs)
  show ?case
  proof (cases "first_min f xs")
    case None
    with Cons.prems show ?thesis by simp
  next
    case (Some y)
    with Cons.IH [OF Some] Cons.prems show ?thesis
      by (auto split: if_splits)
  qed
qed

end
