(* ===== verification/Gateway_Usage.thy ===== *)
theory Gateway_Usage
  imports Gateway_Domain Gateway_Json "HOL-Library.AList" "HOL-Library.Product_Lexorder"
begin

text \<open>
  Usage accounting (\<open>storage.rs\<close> and \<open>domain.rs\<close> of \<open>crates/starweaver-gateway/src\<close>, with the
  normalisation of provider usage from \<open>service.rs\<close>): usage events, the ledger buckets they are
  folded into, and what the ledger means. The calendar of the \<open>chrono\<close> crate is the argument \<open>cal\<close>,
  and the id that \<open>new_prefixed_id\<close> draws for the \<open>n\<close>-th bucket is \<open>new_id n\<close>. The plain \<open>+\<close> and
  \<open>+=\<close> on \<open>i64\<close> wrap in the release profile. The hash map of buckets is an association list.
\<close>

subsection \<open>Records\<close>

text \<open>
  \<open>cal_from_timestamp s\<close> is \<open>DateTime::from_timestamp(s, 0)\<close>; \<open>cal_from_ymd y m d\<close> is midnight UTC of
  the day that \<open>NaiveDate::from_ymd_opt\<close> accepts.
\<close>

record calendar =
  cal_year :: "datetime \<Rightarrow> int"
  cal_month :: "datetime \<Rightarrow> nat"
  cal_day :: "datetime \<Rightarrow> nat"
  cal_format_ymd :: "datetime \<Rightarrow> string"
  cal_from_timestamp :: "int \<Rightarrow> datetime option"
  cal_from_ymd :: "int \<Rightarrow> nat \<Rightarrow> nat \<Rightarrow> datetime option"

text \<open>\<open>DateTime::timestamp\<close>: whole seconds, rounded down.\<close>

definition timestamp :: "datetime \<Rightarrow> int" where
  "timestamp t = t div 1000000000"

record usage_event =
  ue_usage_event_id :: string
  ue_tenant_id :: string
  ue_organization_id :: "string option"
  ue_project_id :: "string option"
  ue_principal_id :: "string option"
  ue_project_member_id :: "string option"
  ue_service_account_id :: "string option"
  ue_api_key_id :: "string option"
  ue_request_id :: string
  ue_trace_id :: string
  ue_protocol_family :: protocol_family
  ue_route_decision_id :: "string option"
  ue_model_alias_id :: "string option"
  ue_model_target_id :: "string option"
  ue_route_policy_id :: "string option"
  ue_routing_group_id :: "string option"
  ue_provider_endpoint_id :: "string option"
  ue_upstream_credential_id :: "string option"
  ue_usage_confidence :: string
  ue_latency_ms :: "i64 option"
  ue_time_to_first_token_ms :: "i64 option"
  ue_status :: string
  ue_usage_payload :: json
  ue_cost_payload :: json
  ue_occurred_at :: datetime

record ledger_bucket =
  lb_ledger_bucket_id :: string
  lb_tenant_id :: string
  lb_organization_id :: "string option"
  lb_project_id :: "string option"
  lb_principal_id :: "string option"
  lb_project_member_id :: "string option"
  lb_service_account_id :: "string option"
  lb_api_key_id :: "string option"
  lb_model_alias_id :: "string option"
  lb_model_target_id :: "string option"
  lb_provider_endpoint_id :: "string option"
  lb_upstream_credential_id :: "string option"
  lb_route_policy_id :: "string option"
  lb_routing_group_id :: "string option"
  lb_protocol_family :: "protocol_family option"
  lb_status :: "string option"
  lb_usage_confidence :: "string option"
  lb_bucket_kind :: string
  lb_bucket_start :: datetime
  lb_currency_code :: string
  lb_input_tokens :: i64
  lb_output_tokens :: i64
  lb_reasoning_tokens :: i64
  lb_media_units :: i64
  lb_request_count :: i64
  lb_success_count :: i64
  lb_error_count :: i64
  lb_blocked_count :: i64
  lb_usage_missing_count :: i64
  lb_usage_estimated_count :: i64
  lb_estimated_cost_micros :: i64
  lb_pricing_version :: string
  lb_updated_at :: datetime

type_synonym ledger_map = "(string \<times> ledger_bucket) list"

record usage_store =
  us_usage_events :: "usage_event list"
  us_ledger_buckets :: ledger_map

definition empty_usage_store :: usage_store where
  "empty_usage_store = \<lparr>us_usage_events = [], us_ledger_buckets = []\<rparr>"

subsection \<open>Normalised usage\<close>

fun first_i64 :: "json \<Rightarrow> string list \<Rightarrow> i64 option" where
  "first_i64 value [] = None"
| "first_i64 value (key # keys) =
     (case json_get_i64 value key of Some i \<Rightarrow> Some i | None \<Rightarrow> first_i64 value keys)"

definition empty_usage_payload :: json where
  "empty_usage_payload = JObject
     [(''input_tokens'', JInt 0), (''output_tokens'', JInt 0), (''total_tokens'', JInt 0),
      (''cache_read_tokens'', JInt 0), (''cache_write_tokens'', JInt 0),
      (''cache_write_5m_tokens'', JInt 0), (''cache_write_1h_tokens'', JInt 0),
      (''reasoning_tokens'', JInt 0), (''tool_tokens'', JInt 0), (''image_input_units'', JInt 0),
      (''image_output_units'', JInt 0), (''audio_input_units'', JInt 0),
      (''audio_output_units'', JInt 0), (''request_units'', JInt 0),
      (''provider_usage_metadata'', JObject [])]"

fun usage_field :: "protocol_family \<Rightarrow> json \<Rightarrow> json option" where
  "usage_field OpenAiResponses body = json_get body ''usage''"
| "usage_field OpenAiChat body = json_get body ''usage''"
| "usage_field AnthropicMessages body = json_get body ''usage''"
| "usage_field BedrockConverse body = json_get body ''usage''"
| "usage_field GeminiGenerateContent body = json_get body ''usageMetadata''"
| "usage_field ProviderNative body = None"

definition normalized_usage_payload :: "protocol_family \<Rightarrow> json \<Rightarrow> json \<times> string" where
  "normalized_usage_payload protocol_family body =
     (case usage_field protocol_family body of
        None \<Rightarrow> (empty_usage_payload, ''missing'')
      | Some usage \<Rightarrow>
          let input_tokens = first_i64 usage [''input_tokens'', ''promptTokenCount'', ''inputTokens''];
              output_tokens = first_i64 usage [''output_tokens'', ''candidatesTokenCount'', ''outputTokens''];
              total_tokens =
                (case first_i64 usage [''total_tokens'', ''totalTokenCount'', ''totalTokens''] of
                   Some t \<Rightarrow> Some t
                 | None \<Rightarrow>
                     (case (input_tokens, output_tokens) of
                        (Some input, Some output) \<Rightarrow> Some (wrap_i64 (input + output))
                      | _ \<Rightarrow> None)) in
          (json_set (json_set (json_set empty_usage_payload
             ''input_tokens'' (JInt (unwrap_or input_tokens 0)))
             ''output_tokens'' (JInt (unwrap_or output_tokens 0)))
             ''total_tokens'' (JInt (unwrap_or total_tokens 0)),
           ''exact''))"

definition terminal_usage_token_count :: "json \<Rightarrow> i64" where
  "terminal_usage_token_count payload =
     (case json_get_i64 payload ''total_tokens'' of
        Some total_tokens \<Rightarrow> total_tokens
      | None \<Rightarrow>
          (case (json_get_i64 payload ''input_tokens'', json_get_i64 payload ''output_tokens'') of
             (Some input, Some output) \<Rightarrow>
               saturating_add (saturating_add input output)
                 (unwrap_or (json_get_i64 payload ''reasoning_tokens'') 0)
           | _ \<Rightarrow> 0))"

subsection \<open>Ledger buckets\<close>

definition usage_payload_i64 :: "json \<Rightarrow> string \<Rightarrow> i64" where
  "usage_payload_i64 payload key = unwrap_or (json_get_i64 payload key) 0"

definition usage_bucket_start :: "calendar \<Rightarrow> string \<Rightarrow> datetime \<Rightarrow> datetime" where
  "usage_bucket_start cal bucket_kind occurred_at =
     (let seconds = timestamp occurred_at in
      if bucket_kind = ''minute''
      then unwrap_or (cal_from_timestamp cal (seconds - seconds mod 60)) occurred_at
      else if bucket_kind = ''hour''
      then unwrap_or (cal_from_timestamp cal (seconds - seconds mod 3600)) occurred_at
      else if bucket_kind = ''day''
      then unwrap_or (cal_from_timestamp cal (seconds - seconds mod 86400)) occurred_at
      else if bucket_kind = ''month''
      then unwrap_or (cal_from_ymd cal (cal_year cal occurred_at) (cal_month cal occurred_at) 1)
             occurred_at
      else occurred_at)"

definition usage_bucket_dimensions :: "usage_event \<Rightarrow> string list" where
  "usage_bucket_dimensions e =
     [ue_tenant_id e, unwrap_or (ue_organization_id e) '''', unwrap_or (ue_project_id e) '''',
      unwrap_or (ue_principal_id e) '''', unwrap_or (ue_project_member_id e) '''',
      unwrap_or (ue_service_account_id e) '''', unwrap_or (ue_api_key_id e) '''',
      unwrap_or (ue_model_alias_id e) '''', unwrap_or (ue_model_target_id e) '''',
      unwrap_or (ue_provider_endpoint_id e) '''', unwrap_or (ue_upstream_credential_id e) '''',
      unwrap_or (ue_route_policy_id e) '''', unwrap_or (ue_routing_group_id e) '''',
      protocol_family_as_str (ue_protocol_family e), ue_status e, ue_usage_confidence e]"

definition usage_bucket_key :: "usage_event \<Rightarrow> string \<Rightarrow> datetime \<Rightarrow> string" where
  "usage_bucket_key e bucket_kind bucket_start =
     join_with ''|'' (usage_bucket_dimensions e @ [bucket_kind]) @ ''|'' @
     int_to_string (timestamp bucket_start)"

definition event_media_units :: "usage_event \<Rightarrow> i64" where
  "event_media_units e =
     wrap_i64 (usage_payload_i64 (ue_usage_payload e) ''image_input_units'' +
       usage_payload_i64 (ue_usage_payload e) ''image_output_units'' +
       usage_payload_i64 (ue_usage_payload e) ''audio_input_units'' +
       usage_payload_i64 (ue_usage_payload e) ''audio_output_units'' +
       usage_payload_i64 (ue_usage_payload e) ''request_units'')"

definition event_cost :: "usage_event \<Rightarrow> i64" where
  "event_cost e = unwrap_or (json_get_i64 (ue_cost_payload e) ''total_cost'') 0"

definition new_ledger_bucket :: "string \<Rightarrow> usage_event \<Rightarrow> string \<Rightarrow> datetime \<Rightarrow> ledger_bucket" where
  "new_ledger_bucket i e bucket_kind bucket_start =
     \<lparr>lb_ledger_bucket_id = i, lb_tenant_id = ue_tenant_id e,
      lb_organization_id = ue_organization_id e, lb_project_id = ue_project_id e,
      lb_principal_id = ue_principal_id e, lb_project_member_id = ue_project_member_id e,
      lb_service_account_id = ue_service_account_id e, lb_api_key_id = ue_api_key_id e,
      lb_model_alias_id = ue_model_alias_id e, lb_model_target_id = ue_model_target_id e,
      lb_provider_endpoint_id = ue_provider_endpoint_id e,
      lb_upstream_credential_id = ue_upstream_credential_id e,
      lb_route_policy_id = ue_route_policy_id e, lb_routing_group_id = ue_routing_group_id e,
      lb_protocol_family = Some (ue_protocol_family e), lb_status = Some (ue_status e),
      lb_usage_confidence = Some (ue_usage_confidence e), lb_bucket_kind = bucket_kind,
      lb_bucket_start = bucket_start,
      lb_currency_code = unwrap_or (json_get_str (ue_cost_payload e) ''currency'') ''USD'',
      lb_input_tokens = 0, lb_output_tokens = 0, lb_reasoning_tokens = 0, lb_media_units = 0,
      lb_request_count = 0, lb_success_count = 0, lb_error_count = 0, lb_blocked_count = 0,
      lb_usage_missing_count = 0, lb_usage_estimated_count = 0, lb_estimated_cost_micros = 0,
      lb_pricing_version = unwrap_or (json_get_str (ue_cost_payload e) ''pricing_version'') ''unpriced'',
      lb_updated_at = ue_occurred_at e\<rparr>"

definition add_to_bucket :: "usage_event \<Rightarrow> ledger_bucket \<Rightarrow> ledger_bucket" where
  "add_to_bucket e b =
     b\<lparr>lb_input_tokens :=
         wrap_i64 (lb_input_tokens b + usage_payload_i64 (ue_usage_payload e) ''input_tokens''),
       lb_output_tokens :=
         wrap_i64 (lb_output_tokens b + usage_payload_i64 (ue_usage_payload e) ''output_tokens''),
       lb_reasoning_tokens :=
         wrap_i64 (lb_reasoning_tokens b + usage_payload_i64 (ue_usage_payload e) ''reasoning_tokens''),
       lb_media_units := wrap_i64 (lb_media_units b + event_media_units e),
       lb_request_count := wrap_i64 (lb_request_count b + 1),
       lb_success_count := wrap_i64 (lb_success_count b + of_bool (ue_status e = ''success'')),
       lb_error_count := wrap_i64 (lb_error_count b +
         of_bool (ue_status e = ''error'' \<or> ue_status e = ''partial'' \<or> ue_status e = ''canceled'')),
       lb_blocked_count := wrap_i64 (lb_blocked_count b + of_bool (ue_status e = ''blocked'')),
       lb_usage_missing_count :=
         wrap_i64 (lb_usage_missing_count b + of_bool (ue_usage_confidence e = ''missing'')),
       lb_usage_estimated_count :=
         wrap_i64 (lb_usage_estimated_count b + of_bool (ue_usage_confidence e = ''estimated'')),
       lb_estimated_cost_micros := wrap_i64 (lb_estimated_cost_micros b + event_cost e),
       lb_updated_at := max (lb_updated_at b) (ue_occurred_at e)\<rparr>"

text \<open>\<open>event_bucket_key\<close> is the key the fold computes for an event and a bucket kind.\<close>

definition event_bucket_key :: "calendar \<Rightarrow> usage_event \<Rightarrow> string \<Rightarrow> string" where
  "event_bucket_key cal e bucket_kind =
     usage_bucket_key e bucket_kind (usage_bucket_start cal bucket_kind (ue_occurred_at e))"

definition fold_usage_event_into_bucket ::
  "calendar \<Rightarrow> (nat \<Rightarrow> string) \<Rightarrow> usage_event \<Rightarrow> string \<Rightarrow> ledger_map \<Rightarrow> ledger_map" where
  "fold_usage_event_into_bucket cal new_id e bucket_kind buckets =
     (let bucket_start = usage_bucket_start cal bucket_kind (ue_occurred_at e);
          key = usage_bucket_key e bucket_kind bucket_start;
          bucket = unwrap_or (map_of buckets key)
            (new_ledger_bucket (new_id (length buckets)) e bucket_kind bucket_start) in
      AList.update key (add_to_bucket e bucket) buckets)"

definition stable_ledger_bucket_id :: "(string \<Rightarrow> string) \<Rightarrow> string \<Rightarrow> string" where
  "stable_ledger_bucket_id sha256_hex key = ''lb_'' @ sha256_hex key"

definition ledger_bucket_record_for_event ::
  "calendar \<Rightarrow> (nat \<Rightarrow> string) \<Rightarrow> (string \<Rightarrow> string) \<Rightarrow> usage_event \<Rightarrow> string \<Rightarrow>
   ledger_bucket gateway_result" where
  "ledger_bucket_record_for_event cal new_id sha256_hex e bucket_kind =
     (let buckets = fold_usage_event_into_bucket cal new_id e bucket_kind [];
          bucket_start = usage_bucket_start cal bucket_kind (ue_occurred_at e);
          key = usage_bucket_key e bucket_kind bucket_start in
      case map_of buckets key of
        None \<Rightarrow> Inl (Internal ''folded usage event did not create a ledger bucket'')
      | Some bucket \<Rightarrow> Inr (bucket\<lparr>lb_ledger_bucket_id := stable_ledger_bucket_id sha256_hex key\<rparr>))"

subsection \<open>The store\<close>

definition bucket_kinds :: "string list" where
  "bucket_kinds = [''event'', ''minute'', ''hour'', ''day'', ''month'']"

definition same_usage_event :: "usage_event \<Rightarrow> usage_event \<Rightarrow> bool" where
  "same_usage_event existing e \<longleftrightarrow>
     ue_usage_event_id existing = ue_usage_event_id e \<or>
     (ue_tenant_id existing = ue_tenant_id e \<and> ue_request_id existing = ue_request_id e)"

definition record_usage_event ::
  "calendar \<Rightarrow> (nat \<Rightarrow> string) \<Rightarrow> usage_event \<Rightarrow> usage_store \<Rightarrow> usage_store" where
  "record_usage_event cal new_id e s =
     (if list_ex (\<lambda>existing. same_usage_event existing e) (us_usage_events s) then s
      else
        \<lparr>us_usage_events = us_usage_events s @ [e],
         us_ledger_buckets =
           fold (fold_usage_event_into_bucket cal new_id e) bucket_kinds (us_ledger_buckets s)\<rparr>)"

definition usage_events_for_tenant :: "usage_store \<Rightarrow> string \<Rightarrow> usage_event list" where
  "usage_events_for_tenant s tenant_id =
     sort_key (\<lambda>e. (- ue_occurred_at e, ue_usage_event_id e))
       (filter (\<lambda>e. ue_tenant_id e = tenant_id) (us_usage_events s))"

end
