(* ===== verification/Gateway_Budget.thy ===== *)
theory Gateway_Budget
  imports Gateway_Routing Gateway_Runtime_Store Gateway_Usage
begin

text \<open>
  Budget enforcement before a request is forwarded
  (\<open>crates/starweaver-gateway/src/service.rs\<close>): matching of policies, the ledger value of a
  policy, the reservation of one request on a budget counter and its release. Functions that
  update the runtime policy store take it as their last argument and return it updated.

  The calendar of the \<open>chrono\<close> crate is the argument \<open>cal\<close>, ids drawn by \<open>new_prefixed_id\<close> are
  the argument \<open>new_id\<close> (the \<open>n\<close>-th reservation of a request), and the clock readings taken on
  release are the argument \<open>utc_now\<close> (by lease id). \<open>Iterator::sum\<close> over \<open>i64\<close> wraps in the
  release profile.
\<close>

subsection \<open>Records\<close>

record budget_policy =
  bp_budget_policy_id :: string
  bp_tenant_id :: string
  bp_scope_kind :: string
  bp_scope_id :: string
  bp_organization_id :: "string option"
  bp_project_id :: "string option"
  bp_currency :: "string option"
  bp_period :: string
  bp_limit_kind :: string
  bp_hard_limit :: "i64 option"
  bp_soft_limit :: "i64 option"
  bp_thresholds :: "i64 list"
  bp_reset_policy :: string
  bp_overage_mode :: string
  bp_consistency_mode :: string
  bp_status :: resource_status
  bp_resource_version :: i64
  bp_schema_version :: nat
  bp_created_by :: string
  bp_created_at :: datetime
  bp_updated_at :: datetime

record emergency_operation =
  eo_emergency_operation_id :: string
  eo_tenant_id :: string
  eo_organization_id :: "string option"
  eo_project_id :: "string option"
  eo_operation_kind :: string
  eo_target_resource_kind :: string
  eo_target_resource_id :: string
  eo_requested_by :: string
  eo_reason :: string
  eo_status :: string
  eo_operator_alert_document :: json
  eo_resource_version :: i64
  eo_schema_version :: nat
  eo_created_at :: datetime
  eo_updated_at :: datetime
  eo_expires_at :: datetime

text \<open>The admin resources that enforcement reads; the maps of the store enumerated as lists.\<close>

record policy_admin =
  pa_budget_policies :: "budget_policy list"
  pa_ledger_buckets :: "ledger_bucket list"
  pa_emergency_operations :: "emergency_operation list"

definition budget_policies_for_tenant :: "policy_admin \<Rightarrow> string \<Rightarrow> budget_policy list" where
  "budget_policies_for_tenant admin tenant_id =
     sort_key (\<lambda>p. (bp_scope_kind p, bp_scope_id p, bp_limit_kind p, bp_budget_policy_id p))
       (filter (\<lambda>p. bp_tenant_id p = tenant_id) (pa_budget_policies admin))"

definition budget_policy_by_id :: "policy_admin \<Rightarrow> string \<Rightarrow> budget_policy option" where
  "budget_policy_by_id admin i = find (\<lambda>p. bp_budget_policy_id p = i) (pa_budget_policies admin)"

definition ledger_buckets_for_tenant :: "policy_admin \<Rightarrow> string \<Rightarrow> ledger_bucket list" where
  "ledger_buckets_for_tenant admin tenant_id =
     sort_key (\<lambda>b. (- lb_bucket_start b, lb_ledger_bucket_id b))
       (filter (\<lambda>b. lb_tenant_id b = tenant_id) (pa_ledger_buckets admin))"

text \<open>Newest first; the id descending order among equal times is a stable reversal.\<close>

definition emergency_operations_for_tenant :: "policy_admin \<Rightarrow> string \<Rightarrow> emergency_operation list" where
  "emergency_operations_for_tenant admin tenant_id =
     rev (sort_key (\<lambda>o1. (eo_created_at o1, eo_emergency_operation_id o1))
       (filter (\<lambda>o1. eo_tenant_id o1 = tenant_id) (pa_emergency_operations admin)))"

record budget_reservation =
  br_lease_id :: string
  br_counter_key :: string
  br_amount :: i64

subsection \<open>Matching\<close>

definition runtime_budget_policy_is_preflight_enforced :: "budget_policy \<Rightarrow> bool" where
  "runtime_budget_policy_is_preflight_enforced policy \<longleftrightarrow>
     bp_status policy = ResActive \<and> bp_overage_mode policy = ''block_new_requests'' \<and>
     bp_limit_kind policy \<in> {''requests'', ''tokens'', ''cost''}"

definition runtime_budget_policy_matches_request ::
  "budget_policy \<Rightarrow> authenticated_actor \<Rightarrow> selected_route_evidence option \<Rightarrow> bool" where
  "runtime_budget_policy_matches_request policy actor selected =
     (let kind = bp_scope_kind policy; i = bp_scope_id policy in
      if kind = ''tenant'' then i = actor_tenant_id actor
      else if kind = ''organization'' then actor_organization_id actor = Some i
      else if kind = ''project'' then actor_project_id actor = Some i
      else if kind = ''credential''
      then Option.bind selected sel_upstream_credential_id = Some i
      else if kind = ''alias'' then is_some_and selected (\<lambda>r. sel_model_alias_id r = i)
      else if kind = ''group'' then is_some_and selected (\<lambda>r. sel_routing_group_id r = i)
      else if kind = ''endpoint'' then is_some_and selected (\<lambda>r. sel_provider_endpoint_id r = i)
      else if kind = ''target'' then is_some_and selected (\<lambda>r. sel_model_target_id r = i)
      else False)"

definition runtime_budget_period_matches ::
  "calendar \<Rightarrow> budget_policy \<Rightarrow> datetime \<Rightarrow> datetime \<Rightarrow> bool" where
  "runtime_budget_period_matches cal policy bucket_start now =
     (if bp_period policy = ''calendar_day''
      then cal_year cal bucket_start = cal_year cal now \<and>
        cal_month cal bucket_start = cal_month cal now \<and> cal_day cal bucket_start = cal_day cal now
      else if bp_period policy = ''calendar_month''
      then cal_year cal bucket_start = cal_year cal now \<and>
        cal_month cal bucket_start = cal_month cal now
      else True)"

definition runtime_budget_bucket_scope_matches :: "budget_policy \<Rightarrow> ledger_bucket \<Rightarrow> bool" where
  "runtime_budget_bucket_scope_matches policy bucket =
     (let kind = bp_scope_kind policy; i = bp_scope_id policy in
      if kind = ''tenant'' then lb_tenant_id bucket = i
      else if kind = ''organization'' then lb_organization_id bucket = Some i
      else if kind = ''project'' then lb_project_id bucket = Some i
      else if kind = ''credential'' then lb_upstream_credential_id bucket = Some i
      else if kind = ''alias'' then lb_model_alias_id bucket = Some i
      else if kind = ''group'' then lb_routing_group_id bucket = Some i
      else if kind = ''endpoint'' then lb_provider_endpoint_id bucket = Some i
      else if kind = ''target'' then lb_model_target_id bucket = Some i
      else False)"

definition runtime_budget_bucket_currency_matches :: "budget_policy \<Rightarrow> ledger_bucket \<Rightarrow> bool" where
  "runtime_budget_bucket_currency_matches policy bucket =
     is_none_or (bp_currency policy) (\<lambda>c. c = lb_currency_code bucket)"

definition runtime_budget_bucket_matches ::
  "calendar \<Rightarrow> budget_policy \<Rightarrow> ledger_bucket \<Rightarrow> datetime \<Rightarrow> bool" where
  "runtime_budget_bucket_matches cal policy bucket now \<longleftrightarrow>
     lb_bucket_kind bucket = ''event'' \<and>
     runtime_budget_period_matches cal policy (lb_bucket_start bucket) now \<and>
     runtime_budget_bucket_scope_matches policy bucket \<and>
     runtime_budget_bucket_currency_matches policy bucket"

definition runtime_budget_bucket_value :: "budget_policy \<Rightarrow> ledger_bucket \<Rightarrow> i64" where
  "runtime_budget_bucket_value policy bucket =
     (if bp_limit_kind policy = ''requests'' then lb_request_count bucket
      else if bp_limit_kind policy = ''tokens''
      then saturating_add (saturating_add (lb_input_tokens bucket) (lb_output_tokens bucket))
             (lb_reasoning_tokens bucket)
      else if bp_limit_kind policy = ''cost'' then lb_estimated_cost_micros bucket
      else 0)"

text \<open>The value of the ledger for a policy, as summed in the preflight.\<close>

definition budget_ledger_value ::
  "calendar \<Rightarrow> budget_policy \<Rightarrow> ledger_bucket list \<Rightarrow> datetime \<Rightarrow> i64" where
  "budget_ledger_value cal policy buckets now =
     wrap_i64 (sum_list (map (runtime_budget_bucket_value policy)
       (filter (\<lambda>b. runtime_budget_bucket_matches cal policy b now) buckets)))"

subsection \<open>Counter keys\<close>

text \<open>\<open>format!("{:02}", n)\<close>.\<close>

definition pad2 :: "nat \<Rightarrow> string" where
  "pad2 n = (if n < 10 then ''0'' @ nat_digits n else nat_digits n)"

definition runtime_budget_reservation_period_key ::
  "calendar \<Rightarrow> budget_policy \<Rightarrow> datetime \<Rightarrow> string" where
  "runtime_budget_reservation_period_key cal policy now =
     (if bp_period policy = ''calendar_day'' then cal_format_ymd cal now
      else if bp_period policy = ''calendar_month''
      then int_to_string (cal_year cal now) @ ''-'' @ pad2 (cal_month cal now)
      else ''all_time'')"

definition runtime_budget_reservation_key :: "calendar \<Rightarrow> budget_policy \<Rightarrow> datetime \<Rightarrow> string" where
  "runtime_budget_reservation_key cal policy now =
     join_with ''|''
       [bp_tenant_id policy, bp_budget_policy_id policy, bp_scope_kind policy, bp_scope_id policy,
        bp_limit_kind policy, bp_period policy, runtime_budget_reservation_period_key cal policy now]"

subsection \<open>Reservation and release\<close>

text \<open>\<open>RUNTIME_BUDGET_LEASE_TTL_SECONDS\<close>, in nanoseconds.\<close>

definition budget_lease_ttl :: datetime where
  "budget_lease_ttl = 300 * 1000000000"

definition new_budget_lease ::
  "authenticated_actor \<Rightarrow> budget_policy \<Rightarrow> string \<Rightarrow> string \<Rightarrow> datetime \<Rightarrow> budget_lease" where
  "new_budget_lease actor policy counter_key lease_id now =
     \<lparr>bl_lease_id = lease_id, bl_tenant_id = bp_tenant_id policy,
      bl_budget_policy_id = bp_budget_policy_id policy, bl_counter_key = counter_key,
      bl_request_id = actor_request_id actor, bl_amount = 1, bl_status = ''reserved'',
      bl_expires_at = now + budget_lease_ttl, bl_created_at = now, bl_updated_at = now\<rparr>"

definition reserve_runtime_request_budget ::
  "calendar \<Rightarrow> string \<Rightarrow> authenticated_actor \<Rightarrow> budget_policy \<Rightarrow> i64 \<Rightarrow> i64 \<Rightarrow> datetime \<Rightarrow>
   policy_store \<Rightarrow> budget_reservation gateway_result \<times> policy_store" where
  "reserve_runtime_request_budget cal lease_id actor policy current_ledger_value limit now s =
     (if \<not> runtime_policy_hot_state_available s
      then (Inl (BudgetExceeded ''budget_hot_state_unavailable''), s)
      else
        let counter_key = runtime_budget_reservation_key cal policy now;
            (reserved, s1) = adjust_runtime_policy_counter counter_key 1 s in
        if saturating_add current_ledger_value reserved > limit
        then (Inl (BudgetExceeded ''hard_limit_reserved''),
              snd (adjust_runtime_policy_counter counter_key (- 1) s1))
        else
          (Inr \<lparr>br_lease_id = lease_id, br_counter_key = counter_key, br_amount = 1\<rparr>,
           record_runtime_budget_lease
             (new_budget_lease actor policy counter_key lease_id now) s1))"

fun release_runtime_budget_reservations ::
  "(string \<Rightarrow> datetime) \<Rightarrow> budget_reservation list \<Rightarrow> policy_store \<Rightarrow> policy_store" where
  "release_runtime_budget_reservations utc_now [] s = s"
| "release_runtime_budget_reservations utc_now (r # rs) s =
     (case release_runtime_budget_lease (br_lease_id r) (utc_now (br_lease_id r)) s of
        (Some _, s1) \<Rightarrow> release_runtime_budget_reservations utc_now rs
          (snd (adjust_runtime_policy_counter (br_counter_key r) (- br_amount r) s1))
      | (None, s1) \<Rightarrow> release_runtime_budget_reservations utc_now rs s1)"

subsection \<open>The preflight\<close>

definition active_force_budget_block_policy ::
  "policy_admin \<Rightarrow> authenticated_actor \<Rightarrow> selected_route_evidence option \<Rightarrow> datetime \<Rightarrow>
   budget_policy option" where
  "active_force_budget_block_policy admin actor selected now =
     (case List.map_filter (\<lambda>operation.
         opt_filter (\<lambda>policy. bp_tenant_id policy = actor_tenant_id actor \<and>
             bp_status policy \<noteq> ResDeleted \<and>
             runtime_budget_policy_matches_request policy actor selected)
           (budget_policy_by_id admin (eo_target_resource_id operation)))
       (filter (\<lambda>operation. eo_operation_kind operation = ''force_budget_block'' \<and>
           eo_target_resource_kind operation = ''BudgetPolicy'' \<and>
           eo_status operation = ''applied'' \<and> eo_expires_at operation > now)
         (emergency_operations_for_tenant admin (actor_tenant_id actor))) of
        [] \<Rightarrow> None
      | policy # _ \<Rightarrow> Some policy)"

definition budget_exceeded :: "budget_policy \<Rightarrow> i64 \<Rightarrow> i64 \<Rightarrow> bool" where
  "budget_exceeded policy current limit =
     (if bp_limit_kind policy = ''requests'' then saturating_add current 1 > limit
      else if bp_limit_kind policy = ''tokens'' \<or> bp_limit_kind policy = ''cost''
      then current \<ge> limit
      else False)"

text \<open>The loop over the policies; \<open>reservations\<close> are those made so far.\<close>

fun budget_preflight_loop ::
  "calendar \<Rightarrow> (nat \<Rightarrow> string) \<Rightarrow> (string \<Rightarrow> datetime) \<Rightarrow> authenticated_actor \<Rightarrow>
   selected_route_evidence option \<Rightarrow> ledger_bucket list \<Rightarrow> datetime \<Rightarrow> budget_policy list \<Rightarrow>
   budget_reservation list \<Rightarrow> policy_store \<Rightarrow>
   budget_reservation list gateway_result \<times> policy_store" where
  "budget_preflight_loop cal new_id utc_now actor selected buckets now [] reservations s =
     (Inr reservations, s)"
| "budget_preflight_loop cal new_id utc_now actor selected buckets now (policy # policies)
     reservations s =
     (case bp_hard_limit policy of
        None \<Rightarrow> budget_preflight_loop cal new_id utc_now actor selected buckets now policies
          reservations s
      | Some limit \<Rightarrow>
        if \<not> runtime_budget_policy_is_preflight_enforced policy \<or>
           \<not> runtime_budget_policy_matches_request policy actor selected
        then budget_preflight_loop cal new_id utc_now actor selected buckets now policies
          reservations s
        else
          let current = budget_ledger_value cal policy buckets now in
          if budget_exceeded policy current limit
          then (Inl (BudgetExceeded ''hard_limit_reached''),
                release_runtime_budget_reservations utc_now reservations s)
          else if bp_limit_kind policy = ''requests''
          then (case reserve_runtime_request_budget cal (new_id (length reservations)) actor policy
                       current limit now s of
              (Inl e, s1) \<Rightarrow> (Inl e, s1)
            | (Inr reservation, s1) \<Rightarrow>
                budget_preflight_loop cal new_id utc_now actor selected buckets now policies
                  (reservations @ [reservation]) s1)
          else budget_preflight_loop cal new_id utc_now actor selected buckets now policies
            reservations s)"

definition enforce_runtime_budget_preflight ::
  "calendar \<Rightarrow> (nat \<Rightarrow> string) \<Rightarrow> (string \<Rightarrow> datetime) \<Rightarrow> policy_admin \<Rightarrow> authenticated_actor \<Rightarrow>
   selected_route_evidence option \<Rightarrow> datetime \<Rightarrow> policy_store \<Rightarrow>
   budget_reservation list gateway_result \<times> policy_store" where
  "enforce_runtime_budget_preflight cal new_id utc_now admin actor selected now s =
     (if active_force_budget_block_policy admin actor selected now \<noteq> None
      then (Inl (BudgetExceeded ''emergency_force_budget_block''), s)
      else budget_preflight_loop cal new_id utc_now actor selected
             (ledger_buckets_for_tenant admin (actor_tenant_id actor)) now
             (budget_policies_for_tenant admin (actor_tenant_id actor)) [] s)"

end
