(* ===== verification/Gateway_Budget_Steps.thy ===== *)
theory Gateway_Budget_Steps
  imports Gateway_Budget "HOL-Library.Multiset"
begin

text \<open>
  Concurrent budget enforcement. Requests and the reconciler interleave at the granularity of the
  store operations (each takes its lock once), so a run is a sequence of the steps below over the
  store and the work in flight: leases that are admitted but not recorded, counters to roll back,
  and closed leases whose counter is still to be lowered. The invariant ties every counter to the
  leases, and bounds the leases by the hard limit.

  \<open>floor key\<close> is a lower bound of the ledger value that requests read for the key, and
  \<open>limit key\<close> the hard limit of its policy.
\<close>

subsection \<open>Runs\<close>

record budget_run =
  run_store :: policy_store
  run_admitted :: "budget_lease multiset"
  run_rejected :: "string multiset"
  run_draining :: "budget_lease multiset"

definition initial_run :: budget_run where
  "initial_run =
     \<lparr>run_store = empty_policy_store, run_admitted = {#}, run_rejected = {#}, run_draining = {#}\<rparr>"

text \<open>
  The steps of \<open>reserve_runtime_request_budget\<close> (\<open>admit\<close>, \<open>recorded\<close>, \<open>reject\<close>, \<open>rollback\<close>), of
  \<open>release_runtime_budget_reservations\<close> (\<open>close\<close>, \<open>drain\<close>) and of the reconciler
  (\<open>expire\<close>, \<open>drain\<close>). A lease id drawn by \<open>new_prefixed_id\<close> is fresh, and a counter does not
  reach the top of its range.
\<close>

inductive budget_step :: "(string \<Rightarrow> int) \<Rightarrow> (string \<Rightarrow> int) \<Rightarrow> budget_run \<Rightarrow> budget_run \<Rightarrow> bool"
  for floor limit where
  admit: "\<lbrakk>adjust_runtime_policy_counter key 1 (run_store r) = (v, s);
           runtime_policy_counter (run_store r) key < i64_max;
           floor key \<le> ledger; saturating_add ledger v \<le> limit key;
           l = new_budget_lease actor policy key lease_id now;
           lease_id \<notin> fst ` set (ps_leases (run_store r));
           lease_id \<notin> bl_lease_id ` set_mset (run_admitted r)\<rbrakk> \<Longrightarrow>
     budget_step floor limit r (r\<lparr>run_store := s, run_admitted := add_mset l (run_admitted r)\<rparr>)"
| reject: "\<lbrakk>adjust_runtime_policy_counter key 1 (run_store r) = (v, s);
            runtime_policy_counter (run_store r) key < i64_max;
            limit key < saturating_add ledger v\<rbrakk> \<Longrightarrow>
     budget_step floor limit r (r\<lparr>run_store := s, run_rejected := add_mset key (run_rejected r)\<rparr>)"
| rollback: "\<lbrakk>key \<in># run_rejected r; adjust_runtime_policy_counter key (- 1) (run_store r) = (v, s)\<rbrakk> \<Longrightarrow>
     budget_step floor limit r (r\<lparr>run_store := s, run_rejected := run_rejected r - {#key#}\<rparr>)"
| recorded: "\<lbrakk>l \<in># run_admitted r; record_runtime_budget_lease l (run_store r) = s\<rbrakk> \<Longrightarrow>
     budget_step floor limit r (r\<lparr>run_store := s, run_admitted := run_admitted r - {#l#}\<rparr>)"
| close: "\<lbrakk>release_runtime_budget_lease lease_id now (run_store r) = (Some l, s)\<rbrakk> \<Longrightarrow>
     budget_step floor limit r (r\<lparr>run_store := s, run_draining := add_mset l (run_draining r)\<rparr>)"
| expire: "\<lbrakk>expire_runtime_budget_leases tenant now (run_store r) = (ls, s)\<rbrakk> \<Longrightarrow>
     budget_step floor limit r (r\<lparr>run_store := s, run_draining := run_draining r + mset ls\<rparr>)"
| drain: "\<lbrakk>l \<in># run_draining r;
           adjust_runtime_policy_counter (bl_counter_key l) (- bl_amount l) (run_store r) = (v, s)\<rbrakk> \<Longrightarrow>
     budget_step floor limit r (r\<lparr>run_store := s, run_draining := run_draining r - {#l#}\<rparr>)"

inductive_cases budget_stepE: "budget_step floor limit r r'"

definition reachable :: "(string \<Rightarrow> int) \<Rightarrow> (string \<Rightarrow> int) \<Rightarrow> budget_run \<Rightarrow> bool" where
  "reachable floor limit r \<longleftrightarrow> (budget_step floor limit)\<^sup>*\<^sup>* initial_run r"

subsection \<open>The invariant\<close>

definition on_key :: "string \<Rightarrow> budget_lease multiset \<Rightarrow> nat" where
  "on_key key M = size (filter_mset (\<lambda>l. bl_counter_key l = key) M)"

lemma on_key_simps [simp]:
  "on_key key {#} = 0"
  "on_key key (add_mset l M) = (if bl_counter_key l = key then 1 else 0) + on_key key M"
  "on_key key (M + N) = on_key key M + on_key key N"
  "on_key key (mset ls) = length (filter (\<lambda>l. bl_counter_key l = key) ls)"
  by (simp_all add: on_key_def flip: size_mset)

lemma on_key_remove:
  "l \<in># M \<Longrightarrow> on_key key M = (if bl_counter_key l = key then 1 else 0) + on_key key (M - {#l#})"
  by (metis insert_DiffM on_key_simps(2))

definition unit_leases :: "budget_run \<Rightarrow> bool" where
  "unit_leases r \<longleftrightarrow>
     (\<forall>(_, l) \<in> set (ps_leases (run_store r)). bl_amount l = 1) \<and>
     (\<forall>l \<in># run_admitted r. bl_amount l = 1 \<and> bl_status l = ''reserved'') \<and>
     (\<forall>l \<in># run_draining r. bl_amount l = 1)"

definition fresh_admitted :: "budget_run \<Rightarrow> bool" where
  "fresh_admitted r \<longleftrightarrow>
     (\<forall>l \<in># run_admitted r. bl_lease_id l \<notin> fst ` set (ps_leases (run_store r))) \<and>
     (\<forall>l \<in># run_admitted r. \<forall>l' \<in># run_admitted r - {#l#}. bl_lease_id l \<noteq> bl_lease_id l')"

definition counters_exact :: "budget_run \<Rightarrow> bool" where
  "counters_exact r \<longleftrightarrow>
     (\<forall>key. runtime_policy_counter (run_store r) key \<le> i64_max \<and>
        runtime_policy_counter (run_store r) key =
        int (reserved_count (run_store r) key + on_key key (run_admitted r) +
             count (run_rejected r) key + on_key key (run_draining r)))"

definition within_limit :: "(string \<Rightarrow> int) \<Rightarrow> (string \<Rightarrow> int) \<Rightarrow> budget_run \<Rightarrow> bool" where
  "within_limit floor limit r \<longleftrightarrow>
     (\<forall>key. int (reserved_count (run_store r) key + on_key key (run_admitted r)) \<le>
        max 0 (limit key - floor key))"

definition budget_inv :: "(string \<Rightarrow> int) \<Rightarrow> (string \<Rightarrow> int) \<Rightarrow> budget_run \<Rightarrow> bool" where
  "budget_inv floor limit r \<longleftrightarrow>
     leases_wf (run_store r) \<and> unit_leases r \<and> fresh_admitted r \<and> counters_exact r \<and>
     within_limit floor limit r"

lemma budget_inv_initial: "budget_inv floor limit initial_run"
  by (simp add: budget_inv_def initial_run_def empty_policy_store_def leases_wf_def unit_leases_def
      fresh_admitted_def counters_exact_def within_limit_def runtime_policy_counter_def
      reserved_count_def i64_simps)

text \<open>One adjustment within range, seen from the invariant.\<close>

lemma adjust_effect:
  assumes "adjust_runtime_policy_counter key d s0 = (v, s)"
    and "0 \<le> runtime_policy_counter s0 key + d" "runtime_policy_counter s0 key + d \<le> i64_max"
  shows "runtime_policy_counter s = (runtime_policy_counter s0)(key := runtime_policy_counter s0 key + d)"
    and "v = runtime_policy_counter s0 key + d" and "ps_leases s = ps_leases s0"
proof -
  from assms(1) have s: "s = snd (adjust_runtime_policy_counter key d s0)"
    and v: "v = fst (adjust_runtime_policy_counter key d s0)" by simp_all
  have c: "runtime_policy_counter s key = runtime_policy_counter s0 key + d"
    unfolding s using assms(2,3) by (rule quota_counters.adjust_exact)
  then show "runtime_policy_counter s = (runtime_policy_counter s0)(key := runtime_policy_counter s0 key + d)"
    by (auto simp: s fun_eq_iff quota_counters.counter_adjust)
  show "v = runtime_policy_counter s0 key + d"
    unfolding v quota_counters.adjust_value using c s by simp
  show "ps_leases s = ps_leases s0" by (simp add: s)
qed

lemma reserved_count_leases: "ps_leases s = ps_leases s' \<Longrightarrow> reserved_count s = reserved_count s'"
  by (rule ext) (simp add: reserved_count_def)

lemma leases_wf_leases: "ps_leases s = ps_leases s' \<Longrightarrow> leases_wf s = leases_wf s'"
  by (simp add: leases_wf_def)

lemma counters_exactD:
  assumes "counters_exact r"
  shows "runtime_policy_counter (run_store r) key =
      int (reserved_count (run_store r) key + on_key key (run_admitted r) +
           count (run_rejected r) key + on_key key (run_draining r))"
    and "runtime_policy_counter (run_store r) key \<le> i64_max"
  using assms unfolding counters_exact_def by blast+

lemma counter_range:
  assumes "counters_exact r"
  shows "0 \<le> runtime_policy_counter (run_store r) key"
    and "key \<in># run_rejected r \<Longrightarrow> 1 \<le> runtime_policy_counter (run_store r) key"
    and "l \<in># run_draining r \<Longrightarrow> bl_counter_key l = key \<Longrightarrow>
      1 \<le> runtime_policy_counter (run_store r) key"
proof -
  note eq = counters_exactD(1) [OF assms, of key]
  show "0 \<le> runtime_policy_counter (run_store r) key" by (simp add: eq)
  show "1 \<le> runtime_policy_counter (run_store r) key" if "key \<in># run_rejected r"
  proof -
    from that have "1 \<le> count (run_rejected r) key" by (simp add: Suc_leI)
    with eq show ?thesis by linarith
  qed
  show "1 \<le> runtime_policy_counter (run_store r) key"
    if "l \<in># run_draining r" "bl_counter_key l = key"
    using on_key_remove [OF that(1), of key] that(2) eq by simp
qed

subsection \<open>Preservation\<close>

lemma saturating_below:
  assumes "saturating_add a b \<le> m" "i64_min \<le> m" "m < i64_max" "f \<le> a"
  shows "f + b \<le> m"
  using assms by (auto simp: saturating_add_def i64_simps max_def min_def split: if_splits)

lemma admit_inv:
  assumes inv: "budget_inv floor limit r"
    and adj: "adjust_runtime_policy_counter key 1 (run_store r) = (v, s)"
    and top: "runtime_policy_counter (run_store r) key < i64_max"
    and lim: "floor key \<le> ledger" "saturating_add ledger v \<le> limit key"
      "i64_min \<le> limit key" "limit key < i64_max"
    and l: "l = new_budget_lease actor policy key lease_id now"
    and fresh: "lease_id \<notin> fst ` set (ps_leases (run_store r))"
      "lease_id \<notin> bl_lease_id ` set_mset (run_admitted r)"
  shows "budget_inv floor limit (r\<lparr>run_store := s, run_admitted := add_mset l (run_admitted r)\<rparr>)"
proof -
  from inv have ex: "counters_exact r" and wf: "leases_wf (run_store r)" and ul: "unit_leases r"
    and fr: "fresh_admitted r" and wl: "within_limit floor limit r" by (simp_all add: budget_inv_def)
  have "0 \<le> runtime_policy_counter (run_store r) key + 1"
    using counter_range(1) [OF ex, of key] by simp
  note eff = adjust_effect [OF adj this] 
  have c: "runtime_policy_counter s = (runtime_policy_counter (run_store r))
      (key := runtime_policy_counter (run_store r) key + 1)"
    and v: "v = runtime_policy_counter (run_store r) key + 1"
    and ls: "ps_leases s = ps_leases (run_store r)" using eff top by simp_all
  have lk: "bl_counter_key l = key" "bl_lease_id l = lease_id" "bl_amount l = 1" "bl_status l = ''reserved''"
    by (simp_all add: l new_budget_lease_def)
  note rc = reserved_count_leases [OF ls]
  let ?r = "r\<lparr>run_store := s, run_admitted := add_mset l (run_admitted r)\<rparr>"
  have "counters_exact ?r"
    using top counters_exactD [OF ex] by (auto simp: counters_exact_def c rc lk)
  moreover have "within_limit floor limit ?r"
  proof -
    have "floor key + v \<le> limit key"
      using lim by (intro saturating_below) auto
    with v counters_exactD(1) [OF ex, of key]
    have "int (reserved_count (run_store r) key + on_key key (run_admitted r)) + 1 \<le>
        limit key - floor key" by linarith
    with wl show ?thesis by (auto simp: within_limit_def rc lk)
  qed
  moreover have "fresh_admitted ?r"
    using fr fresh by (auto simp: fresh_admitted_def ls lk)
  moreover have "unit_leases ?r" using ul by (auto simp: unit_leases_def ls lk)
  ultimately show ?thesis using wf leases_wf_leases [OF ls] by (simp add: budget_inv_def)
qed

text \<open>A step that only touches counters and one of the in-flight multisets.\<close>

lemma counter_step_inv:
  assumes inv: "budget_inv floor limit r"
    and adj: "adjust_runtime_policy_counter key d (run_store r) = (v, s)"
    and range: "0 \<le> runtime_policy_counter (run_store r) key + d"
      "runtime_policy_counter (run_store r) key + d \<le> i64_max"
    and drain: "\<forall>l \<in># draining. bl_amount l = 1"
    and count: "\<And>k. int (count rejected k + on_key k draining) =
      int (count (run_rejected r) k + on_key k (run_draining r)) + (if k = key then d else 0)"
  shows "budget_inv floor limit
    (r\<lparr>run_store := s, run_rejected := rejected, run_draining := draining\<rparr>)"
proof -
  from inv have ex: "counters_exact r" and wf: "leases_wf (run_store r)" and ul: "unit_leases r"
    and fr: "fresh_admitted r" and wl: "within_limit floor limit r" by (simp_all add: budget_inv_def)
  note eff = adjust_effect [OF adj range]
  note rc = reserved_count_leases [OF eff(3)]
  let ?r = "r\<lparr>run_store := s, run_rejected := rejected, run_draining := draining\<rparr>"
  have "runtime_policy_counter s k \<le> i64_max \<and> runtime_policy_counter s k =
      int (reserved_count s k + on_key k (run_admitted r) + count rejected k + on_key k draining)" for k
    using counters_exactD [OF ex, of k] count [of k] range
    by (cases "k = key") (simp_all add: eff(1) rc)
  then have "counters_exact ?r" by (simp add: counters_exact_def del: of_nat_add) metis
  moreover have "within_limit floor limit ?r" using wl by (simp add: within_limit_def rc)
  moreover have "fresh_admitted ?r" using fr by (simp add: fresh_admitted_def eff(3))
  moreover have "unit_leases ?r" using ul drain by (simp add: unit_leases_def eff(3))
  ultimately show ?thesis using wf leases_wf_leases [OF eff(3)] by (simp add: budget_inv_def)
qed

lemma reject_inv:
  assumes inv: "budget_inv floor limit r"
    and "adjust_runtime_policy_counter key 1 (run_store r) = (v, s)"
    and "runtime_policy_counter (run_store r) key < i64_max"
  shows "budget_inv floor limit (r\<lparr>run_store := s, run_rejected := add_mset key (run_rejected r)\<rparr>)"
proof -
  from inv have ex: "counters_exact r" and ul: "unit_leases r" by (simp_all add: budget_inv_def)
  have "budget_inv floor limit (r\<lparr>run_store := s, run_rejected := add_mset key (run_rejected r),
      run_draining := run_draining r\<rparr>)"
    using assms counter_range(1) [OF ex, of key] ul
    by (intro counter_step_inv) (auto simp: unit_leases_def)
  then show ?thesis by simp
qed

lemma rollback_inv:
  assumes inv: "budget_inv floor limit r" and key: "key \<in># run_rejected r"
    and "adjust_runtime_policy_counter key (- 1) (run_store r) = (v, s)"
  shows "budget_inv floor limit (r\<lparr>run_store := s, run_rejected := run_rejected r - {#key#}\<rparr>)"
proof -
  from inv have ex: "counters_exact r" and ul: "unit_leases r" by (simp_all add: budget_inv_def)
  have "budget_inv floor limit (r\<lparr>run_store := s, run_rejected := run_rejected r - {#key#},
      run_draining := run_draining r\<rparr>)"
  proof (rule counter_step_inv [OF inv assms(3)])
    show "0 \<le> runtime_policy_counter (run_store r) key + - 1"
      using counter_range(2) [OF ex key] by simp
    show "runtime_policy_counter (run_store r) key + - 1 \<le> i64_max"
      using counters_exactD(2) [OF ex, of key] by simp
    show "\<forall>l \<in># run_draining r. bl_amount l = 1" using ul by (simp add: unit_leases_def)
    have "1 \<le> count (run_rejected r) key" using key by (simp add: Suc_leI)
    then show "int (count (run_rejected r - {#key#}) k + on_key k (run_draining r)) =
      int (count (run_rejected r) k + on_key k (run_draining r)) + (if k = key then - 1 else 0)" for k
      by auto
  qed
  then show ?thesis by simp
qed

lemma drain_inv:
  assumes inv: "budget_inv floor limit r" and l: "l \<in># run_draining r"
    and adj: "adjust_runtime_policy_counter (bl_counter_key l) (- bl_amount l) (run_store r) = (v, s)"
  shows "budget_inv floor limit (r\<lparr>run_store := s, run_draining := run_draining r - {#l#}\<rparr>)"
proof -
  from inv have ex: "counters_exact r" and ul: "unit_leases r" by (simp_all add: budget_inv_def)
  with l have one: "bl_amount l = 1" by (simp add: unit_leases_def)
  have "budget_inv floor limit (r\<lparr>run_store := s, run_rejected := run_rejected r,
      run_draining := run_draining r - {#l#}\<rparr>)"
  proof (rule counter_step_inv [OF inv adj])
    show "0 \<le> runtime_policy_counter (run_store r) (bl_counter_key l) + - bl_amount l"
      using counter_range(3) [OF ex l] one by simp
    show "runtime_policy_counter (run_store r) (bl_counter_key l) + - bl_amount l \<le> i64_max"
      using counters_exactD(2) [OF ex, of "bl_counter_key l"] one by simp
    show "\<forall>l \<in># run_draining r - {#l#}. bl_amount l = 1"
      using ul by (auto simp: unit_leases_def dest: in_diffD)
    show "int (count (run_rejected r) k + on_key k (run_draining r - {#l#})) =
      int (count (run_rejected r) k + on_key k (run_draining r)) +
      (if k = bl_counter_key l then - bl_amount l else 0)" for k
      using on_key_remove [OF l, of k] one by auto
  qed
  then show ?thesis by simp
qed

lemma recorded_inv:
  assumes inv: "budget_inv floor limit r" and l: "l \<in># run_admitted r"
    and s: "record_runtime_budget_lease l (run_store r) = s"
  shows "budget_inv floor limit (r\<lparr>run_store := s, run_admitted := run_admitted r - {#l#}\<rparr>)"
proof -
  from inv have ex: "counters_exact r" and wf: "leases_wf (run_store r)" and ul: "unit_leases r"
    and fr: "fresh_admitted r" and wl: "within_limit floor limit r" by (simp_all add: budget_inv_def)
  from fr l have fresh: "bl_lease_id l \<notin> fst ` set (ps_leases (run_store r))"
    by (simp add: fresh_admitted_def)
  have res: "reserved_on k l \<longleftrightarrow> bl_counter_key l = k" for k
    using ul l by (auto simp: unit_leases_def reserved_on_def)
  have ls: "ps_leases s = ps_leases (run_store r) @ [(bl_lease_id l, l)]"
    using s fresh by (auto simp: record_runtime_budget_lease_def update_fresh)
  have sum: "reserved_count s k + on_key k (run_admitted r - {#l#}) =
      reserved_count (run_store r) k + on_key k (run_admitted r)" for k
    using record_lease_count [OF fresh, of k] on_key_remove [OF l, of k] s by (simp add: res)
  have c: "runtime_policy_counter s = runtime_policy_counter (run_store r)"
    by (rule counter_of_counters) (simp flip: s)
  let ?r = "r\<lparr>run_store := s, run_admitted := run_admitted r - {#l#}\<rparr>"
  have "counters_exact ?r" using ex by (simp add: counters_exact_def c) (metis of_nat_add sum)
  moreover have "within_limit floor limit ?r" using wl by (simp add: within_limit_def) (metis of_nat_add sum)
  moreover have "fresh_admitted ?r"
  proof -
    have other: "bl_lease_id l' \<noteq> bl_lease_id l" if "l' \<in># run_admitted r - {#l#}" for l'
      using fr l that unfolding fresh_admitted_def by metis
    have "l'' \<in># run_admitted r - {#l'#}" if "l'' \<in># run_admitted r - {#l#} - {#l'#}" for l' l''
      using that by (metis diff_right_commute in_diffD)
    then show ?thesis
      using fr other unfolding fresh_admitted_def
      by (auto simp: ls simp del: diff_diff_add_mset dest: in_diffD)
  qed
  moreover have "unit_leases ?r"
    using ul l by (auto simp: unit_leases_def ls dest: in_diffD)
  ultimately show ?thesis using record_lease_wf [OF wf fresh] s by (simp add: budget_inv_def)
qed

text \<open>A step that closes leases: they leave the reserved ones and start to drain.\<close>

lemma closing_inv:
  assumes inv: "budget_inv floor limit r"
    and wf': "leases_wf s" and c: "ps_counters s = ps_counters (run_store r)"
    and ids: "fst ` set (ps_leases s) = fst ` set (ps_leases (run_store r))"
    and unit: "\<forall>(_, l) \<in> set (ps_leases s). bl_amount l = 1" "\<forall>l \<in># closed. bl_amount l = 1"
    and count: "\<And>k. reserved_count (run_store r) k = reserved_count s k + on_key k closed"
  shows "budget_inv floor limit (r\<lparr>run_store := s, run_draining := run_draining r + closed\<rparr>)"
proof -
  from inv have ex: "counters_exact r" and ul: "unit_leases r"
    and fr: "fresh_admitted r" and wl: "within_limit floor limit r" by (simp_all add: budget_inv_def)
  let ?r = "r\<lparr>run_store := s, run_draining := run_draining r + closed\<rparr>"
  have "runtime_policy_counter s k \<le> i64_max \<and> runtime_policy_counter s k =
      int (reserved_count s k + on_key k (run_admitted r) + count (run_rejected r) k +
        on_key k (run_draining r + closed))" for k
    using counters_exactD [OF ex, of k] by (simp add: counter_of_counters [OF c] count)
  then have "counters_exact ?r" by (simp add: counters_exact_def del: of_nat_add on_key_simps) metis
  moreover have "int (reserved_count s k + on_key k (run_admitted r)) \<le> max 0 (limit k - floor k)" for k
    using wl [unfolded within_limit_def, rule_format, of k] by (simp add: count)
  then have "within_limit floor limit ?r" by (simp add: within_limit_def)
  moreover have "fresh_admitted ?r" using fr by (simp add: fresh_admitted_def ids)
  moreover have "unit_leases ?r" using ul unit by (auto simp: unit_leases_def)
  ultimately show ?thesis using wf' by (simp add: budget_inv_def)
qed

lemma close_inv:
  assumes inv: "budget_inv floor limit r"
    and rel: "release_runtime_budget_lease lease_id now (run_store r) = (Some l, s)"
  shows "budget_inv floor limit (r\<lparr>run_store := s, run_draining := add_mset l (run_draining r)\<rparr>)"
proof -
  from inv have wf: "leases_wf (run_store r)" and ul: "unit_leases r" by (simp_all add: budget_inv_def)
  from wf rel obtain l0 ys zs where ls: "ps_leases (run_store r) = ys @ (lease_id, l0) # zs"
      "ps_leases s = ys @ (lease_id, l) # zs"
      "l = l0\<lparr>bl_status := ''released'', bl_updated_at := now\<rparr>"
    by (rule release_lease_SomeD)
  have one: "bl_amount l = 1" "\<forall>(_, l) \<in> set (ps_leases s). bl_amount l = 1"
    using ul by (auto simp: unit_leases_def ls)
  have "budget_inv floor limit (r\<lparr>run_store := s, run_draining := run_draining r + {#l#}\<rparr>)"
  proof (rule closing_inv [OF inv release_lease_wf [OF wf rel]])
    show "ps_counters s = ps_counters (run_store r)"
      using rel store_frames(12) [of lease_id now "run_store r"] by simp
    show "fst ` set (ps_leases s) = fst ` set (ps_leases (run_store r))" by (simp add: ls)
    show "reserved_count (run_store r) k = reserved_count s k + on_key k {#l#}" for k
      using release_lease_count [OF wf rel, of k] by simp
  qed (use one in auto)
  then show ?thesis by simp
qed

lemma expire_inv:
  assumes inv: "budget_inv floor limit r"
    and ex: "expire_runtime_budget_leases tenant now (run_store r) = (ls, s)"
  shows "budget_inv floor limit (r\<lparr>run_store := s, run_draining := run_draining r + mset ls\<rparr>)"
proof (rule closing_inv [OF inv])
  from inv have wf: "leases_wf (run_store r)" and ul: "unit_leases r" by (simp_all add: budget_inv_def)
  show "leases_wf s" using expire_leases_wf [OF wf, of tenant now] ex by simp
  show "ps_counters s = ps_counters (run_store r)"
    using store_frames(13) [of tenant now "run_store r"] ex by simp
  show "fst ` set (ps_leases s) = fst ` set (ps_leases (run_store r))"
    using ex by (force simp: expire_runtime_budget_leases_def image_iff)
  from ul have one: "bl_amount l = 1" if "(i, l) \<in> set (ps_leases (run_store r))" for i l
    using that by (auto simp: unit_leases_def)
  show "\<forall>(_, l) \<in> set (ps_leases s). bl_amount l = 1"
    using ex one by (auto simp: expire_runtime_budget_leases_def)
  show "\<forall>l \<in># mset ls. bl_amount l = 1"
    using ex one by (auto simp: expire_runtime_budget_leases_def)
  show "reserved_count (run_store r) k = reserved_count s k + on_key k (mset ls)" for k
    using expire_leases_count [OF ex, of k] by simp
qed

lemma budget_step_inv:
  assumes "budget_step floor limit r r'" "budget_inv floor limit r"
    and "\<forall>key. i64_min \<le> limit key \<and> limit key < i64_max"
  shows "budget_inv floor limit r'"
  using assms
proof (cases rule: budget_step.cases)
  case (admit key v s ledger l actor policy lease_id now)
  with assms show ?thesis by (auto intro: admit_inv)
next
  case (reject key v s ledger)
  with assms show ?thesis by (auto intro: reject_inv)
next
  case (rollback key v s)
  with assms show ?thesis by (auto intro: rollback_inv)
next
  case (recorded l s)
  with assms show ?thesis by (auto intro: recorded_inv)
next
  case (close lease_id now l s)
  with assms show ?thesis by (auto intro: close_inv)
next
  case (expire tenant now ls s)
  with assms show ?thesis by (auto intro: expire_inv)
next
  case (drain l v s)
  with assms show ?thesis by (auto intro: drain_inv)
qed

lemma reachable_inv:
  assumes "reachable floor limit r" and "\<forall>key. i64_min \<le> limit key \<and> limit key < i64_max"
  shows "budget_inv floor limit r"
  using assms(1) unfolding reachable_def
  by (induction rule: rtranclp_induct) (use budget_inv_initial budget_step_inv assms(2) in blast)+

subsection \<open>The sequential code as steps\<close>

text \<open>An uninterrupted reservation or release is a sequence of steps of the run.\<close>

lemma reserve_steps:
  assumes res: "reserve_runtime_request_budget cal lease_id actor policy ledger (limit key) now (run_store r) = (res, s)"
    and key: "key = runtime_budget_reservation_key cal policy now"
    and top: "runtime_policy_counter (run_store r) key < i64_max" and led: "floor key \<le> ledger"
    and fresh: "lease_id \<notin> fst ` set (ps_leases (run_store r))"
      "lease_id \<notin> bl_lease_id ` set_mset (run_admitted r)"
  shows "(budget_step floor limit)\<^sup>*\<^sup>* r (r\<lparr>run_store := s\<rparr>)"
proof -
  obtain v s1 where adj: "adjust_runtime_policy_counter key 1 (run_store r) = (v, s1)"
    by (rule prod.exhaust)
  let ?l = "new_budget_lease actor policy key lease_id now"
  consider (down) "ps_unavailable (run_store r)"
    | (over) "\<not> ps_unavailable (run_store r)" "limit key < saturating_add ledger v"
    | (ok) "\<not> ps_unavailable (run_store r)" "saturating_add ledger v \<le> limit key"
    by linarith
  then show ?thesis
  proof cases
    case down
    with res have "s = run_store r"
      by (simp add: reserve_runtime_request_budget_def runtime_policy_hot_state_available_def)
    then show ?thesis by simp
  next
    case over
    with res adj key have s: "s = snd (adjust_runtime_policy_counter key (- 1) s1)"
      by (simp add: reserve_runtime_request_budget_def runtime_policy_hot_state_available_def)
    let ?r1 = "r\<lparr>run_store := s1, run_rejected := add_mset key (run_rejected r)\<rparr>"
    have "budget_step floor limit r ?r1"
      using adj top over(2) by (rule budget_step.reject)
    moreover have "budget_step floor limit ?r1
        (?r1\<lparr>run_store := s, run_rejected := run_rejected ?r1 - {#key#}\<rparr>)"
      by (rule budget_step.rollback [where v = "fst (adjust_runtime_policy_counter key (- 1) s1)"])
        (simp_all add: s)
    ultimately show ?thesis by (auto intro: rtranclp.intros)
  next
    case ok
    with res adj key have s: "s = record_runtime_budget_lease ?l s1"
      by (simp add: reserve_runtime_request_budget_def runtime_policy_hot_state_available_def Let_def)
    let ?r1 = "r\<lparr>run_store := s1, run_admitted := add_mset ?l (run_admitted r)\<rparr>"
    have "budget_step floor limit r ?r1"
      using adj top led ok(2) refl fresh by (rule budget_step.admit)
    moreover have "budget_step floor limit ?r1
        (?r1\<lparr>run_store := s, run_admitted := run_admitted ?r1 - {#?l#}\<rparr>)"
      by (rule budget_step.recorded) (simp_all add: s)
    ultimately show ?thesis by (auto intro: rtranclp.intros)
  qed
qed

subsection \<open>Draining to quiescence\<close>

text \<open>Outstanding drains can always be completed, whatever else the run is doing.\<close>

lemma drain_all_steps:
  "\<exists>s. (budget_step floor limit)\<^sup>*\<^sup>* r (r\<lparr>run_store := s, run_draining := {#}\<rparr>) \<and>
     ps_leases s = ps_leases (run_store r)"
proof (induction "run_draining r" arbitrary: r)
  case empty
  then have "r\<lparr>run_store := run_store r, run_draining := {#}\<rparr> = r" by (metis budget_run.surjective budget_run.update_convs(1,4))
  then show ?case by (metis rtranclp.rtrancl_refl)
next
  case (add l M)
  then have l: "l \<in># run_draining r" and M: "M = run_draining r - {#l#}"
    by (metis union_single_eq_member) (metis add.hyps(2) add_mset_remove_trivial)
  obtain v s where adj: "adjust_runtime_policy_counter (bl_counter_key l) (- bl_amount l) (run_store r) = (v, s)"
    by (rule prod.exhaust)
  let ?r = "r\<lparr>run_store := s, run_draining := run_draining r - {#l#}\<rparr>"
  have step: "budget_step floor limit r ?r" using l adj by (rule budget_step.drain)
  have "M = run_draining ?r" using M by simp
  from add.hyps(1) [OF this] obtain s' where
    "(budget_step floor limit)\<^sup>*\<^sup>* ?r (?r\<lparr>run_store := s', run_draining := {#}\<rparr>)"
    "ps_leases s' = ps_leases (run_store ?r)" by blast
  moreover have "ps_leases s = ps_leases (run_store r)"
    using adj store_frames(1) [of "bl_counter_key l" "- bl_amount l" "run_store r"] by simp
  ultimately show ?case
    using step by (auto intro: converse_rtranclp_into_rtranclp)
qed

subsection \<open>Releasing what was reserved\<close>

definition reservations_on :: "string \<Rightarrow> budget_reservation list \<Rightarrow> nat" where
  "reservations_on key rs = length (filter (\<lambda>r. br_counter_key r = key) rs)"

definition reservation_held :: "policy_store \<Rightarrow> budget_reservation \<Rightarrow> bool" where
  "reservation_held s r \<longleftrightarrow> br_amount r = 1 \<and>
     (\<exists>l. map_of (ps_leases s) (br_lease_id r) = Some l \<and> reserved_on (br_counter_key r) l)"

lemma release_lease_held:
  assumes "reservation_held s r"
  obtains l s1 where "release_runtime_budget_lease (br_lease_id r) now s = (Some l, s1)"
    "bl_counter_key l = br_counter_key r"
    "\<And>i. i \<noteq> br_lease_id r \<Longrightarrow> map_of (ps_leases s1) i = map_of (ps_leases s) i"
proof -
  from assms obtain l where l: "map_of (ps_leases s) (br_lease_id r) = Some l"
      "bl_status l = ''reserved''" "bl_counter_key l = br_counter_key r"
    by (auto simp: reservation_held_def reserved_on_def)
  let ?l = "l\<lparr>bl_status := ''released'', bl_updated_at := now\<rparr>"
  show thesis
    by (rule that [of ?l "s\<lparr>ps_leases := AList.update (br_lease_id r) ?l (ps_leases s)\<rparr>"])
      (use l in \<open>simp_all add: release_runtime_budget_lease_def update_conv' Let_def\<close>)
qed

text \<open>Releasing distinct held reservations frees exactly their counters and leases.\<close>

lemma release_reservations_exact:
  assumes "leases_wf s" "distinct (map br_lease_id rs)" "\<forall>r \<in> set rs. reservation_held s r"
    and "\<forall>key. int (reservations_on key rs) \<le> runtime_policy_counter s key \<and>
      runtime_policy_counter s key \<le> i64_max"
  shows "runtime_policy_counter (release_runtime_budget_reservations utc_now rs s) key =
      runtime_policy_counter s key - int (reservations_on key rs) \<and>
    reserved_count s key =
      reserved_count (release_runtime_budget_reservations utc_now rs s) key + reservations_on key rs"
  using assms
proof (induction rs arbitrary: s)
  case Nil
  then show ?case by (simp add: reservations_on_def)
next
  case (Cons r rs)
  from Cons.prems(3) have held: "reservation_held s r" and one: "br_amount r = 1"
    by (auto simp: reservation_held_def)
  obtain l s1 where rel: "release_runtime_budget_lease (br_lease_id r) (utc_now (br_lease_id r)) s = (Some l, s1)"
      "bl_counter_key l = br_counter_key r"
      "\<And>i. i \<noteq> br_lease_id r \<Longrightarrow> map_of (ps_leases s1) i = map_of (ps_leases s) i"
    using release_lease_held [OF held] by blast
  obtain v s2 where adj: "adjust_runtime_policy_counter (br_counter_key r) (- 1) s1 = (v, s2)"
    by (rule prod.exhaust)
  have c1: "runtime_policy_counter s1 = runtime_policy_counter s"
    using store_frames(12) [of "br_lease_id r" "utc_now (br_lease_id r)" s] rel(1)
    by (intro counter_of_counters) simp
  have bound: "int (reservations_on k rs) + (if br_counter_key r = k then 1 else 0) \<le> runtime_policy_counter s k"
    for k using Cons.prems(4) [rule_format, of k] by (auto simp: reservations_on_def)
  have eff: "runtime_policy_counter s2 = (runtime_policy_counter s)
        (br_counter_key r := runtime_policy_counter s (br_counter_key r) - 1)"
      "ps_leases s2 = ps_leases s1"
    using adjust_effect [OF adj] bound [of "br_counter_key r"]
      Cons.prems(4) [rule_format, of "br_counter_key r"] c1 by simp_all
  have "leases_wf s2" using release_lease_wf [OF Cons.prems(1) rel(1)] eff(2) by (simp add: leases_wf_def)
  moreover have "\<forall>r' \<in> set rs. reservation_held s2 r'"
  proof
    fix r' assume r': "r' \<in> set rs"
    with Cons.prems(2) have "br_lease_id r' \<noteq> br_lease_id r"
      by (fastforce simp: image_iff)
    with rel(3) have "map_of (ps_leases s2) (br_lease_id r') = map_of (ps_leases s) (br_lease_id r')"
      by (simp add: eff(2))
    with Cons.prems(3) r' show "reservation_held s2 r'" by (simp add: reservation_held_def)
  qed
  moreover have "\<forall>k. int (reservations_on k rs) \<le> runtime_policy_counter s2 k \<and>
      runtime_policy_counter s2 k \<le> i64_max"
  proof
    fix k
    show "int (reservations_on k rs) \<le> runtime_policy_counter s2 k \<and> runtime_policy_counter s2 k \<le> i64_max"
      using bound [of k] Cons.prems(4) [rule_format, of k] by (auto simp: eff(1) split: if_splits)
  qed
  ultimately have IH: "runtime_policy_counter (release_runtime_budget_reservations utc_now rs s2) key =
      runtime_policy_counter s2 key - int (reservations_on key rs) \<and>
    reserved_count s2 key =
      reserved_count (release_runtime_budget_reservations utc_now rs s2) key + reservations_on key rs"
    using Cons.IH Cons.prems(2) by simp
  have "reserved_count s key = reserved_count s2 key + (if br_counter_key r = key then 1 else 0)"
    using release_lease_count [OF Cons.prems(1) rel(1), of key] rel(2) reserved_count_leases [OF eff(2)]
    by simp
  with IH show ?case by (simp add: rel(1) adj one eff(1) reservations_on_def)
qed

subsection \<open>The preflight loop\<close>

lemma reserve_ok:
  assumes res: "reserve_runtime_request_budget cal lease_id actor policy ledger limit now s = (Inr r, s')"
    and fresh: "lease_id \<notin> fst ` set (ps_leases s)"
    and range: "0 \<le> runtime_policy_counter s (br_counter_key r)"
      "runtime_policy_counter s (br_counter_key r) < i64_max"
  shows "br_lease_id r = lease_id"
    and "runtime_policy_counter s' = (runtime_policy_counter s)
      (br_counter_key r := runtime_policy_counter s (br_counter_key r) + 1)"
    and "ps_leases s' = ps_leases s @
      [(lease_id, new_budget_lease actor policy (br_counter_key r) lease_id now)]"
    and "br_amount r = 1"
proof -
  let ?key = "runtime_budget_reservation_key cal policy now"
  obtain v s1 where adj: "adjust_runtime_policy_counter ?key 1 s = (v, s1)" by (rule prod.exhaust)
  from res adj have r: "r = \<lparr>br_lease_id = lease_id, br_counter_key = ?key, br_amount = 1\<rparr>"
    and s': "s' = record_runtime_budget_lease (new_budget_lease actor policy ?key lease_id now) s1"
    by (auto simp: reserve_runtime_request_budget_def Let_def split: if_splits)
  from range have eff: "runtime_policy_counter s1 = (runtime_policy_counter s)(?key := runtime_policy_counter s ?key + 1)"
      "ps_leases s1 = ps_leases s"
    using adjust_effect [OF adj] by (simp_all add: r)
  show "br_lease_id r = lease_id" "br_amount r = 1" by (simp_all add: r)
  have "runtime_policy_counter s' = runtime_policy_counter s1"
    by (rule counter_of_counters) (simp add: s')
  then show "runtime_policy_counter s' = (runtime_policy_counter s)
      (br_counter_key r := runtime_policy_counter s (br_counter_key r) + 1)"
    by (simp add: eff(1) r)
  show "ps_leases s' = ps_leases s @
      [(lease_id, new_budget_lease actor policy (br_counter_key r) lease_id now)]"
    using fresh by (simp add: s' r record_runtime_budget_lease_def new_budget_lease_def update_fresh eff(2))
qed

lemma reserve_failed:
  assumes res: "reserve_runtime_request_budget cal lease_id actor policy ledger limit now s = (Inl e, s')"
    and range: "\<And>k. 0 \<le> runtime_policy_counter s k \<and> runtime_policy_counter s k < i64_max"
  shows "runtime_policy_counter s' = runtime_policy_counter s \<and> ps_leases s' = ps_leases s \<and>
    (\<exists>reason. e = BudgetExceeded reason)"
proof -
  let ?key = "runtime_budget_reservation_key cal policy now"
  obtain v s1 where adj: "adjust_runtime_policy_counter ?key 1 s = (v, s1)" by (rule prod.exhaust)
  have "runtime_policy_counter (snd (adjust_runtime_policy_counter ?key (- 1) s1)) = runtime_policy_counter s"
    using quota_counters.adjust_undo [of s ?key 1] range [of ?key] adj by simp
  moreover have "ps_leases (snd (adjust_runtime_policy_counter ?key (- 1) s1)) = ps_leases s"
    using adj store_frames(1) [of ?key 1 s] by simp
  ultimately show ?thesis
    using res adj by (auto simp: reserve_runtime_request_budget_def Let_def split: if_splits)
qed

text \<open>Counters that take \<open>n\<close> more reservations without reaching the top of their range.\<close>

definition counter_room :: "policy_store \<Rightarrow> nat \<Rightarrow> bool" where
  "counter_room s n \<longleftrightarrow>
     (\<forall>key. 0 \<le> runtime_policy_counter s key \<and> runtime_policy_counter s key + int n < i64_max)"

lemma counter_room_mono: "counter_room s n \<Longrightarrow> m \<le> n \<Longrightarrow> counter_room s m"
  unfolding counter_room_def by (smt (verit) of_nat_le_iff)

lemma counter_roomD:
  "counter_room s n \<Longrightarrow> 0 \<le> runtime_policy_counter s key \<and> runtime_policy_counter s key + int n < i64_max"
  by (simp add: counter_room_def)

text \<open>
  What holds of the reservations made so far, relative to the store \<open>s0\<close> the loop began with.
\<close>

definition preflight_inv ::
  "(nat \<Rightarrow> string) \<Rightarrow> policy_store \<Rightarrow> budget_reservation list \<Rightarrow> policy_store \<Rightarrow> bool" where
  "preflight_inv new_id s0 rs s \<longleftrightarrow>
     leases_wf s \<and> map br_lease_id rs = map new_id [0..<length rs] \<and>
     (\<forall>r \<in> set rs. reservation_held s r) \<and>
     (\<forall>n \<ge> length rs. new_id n \<notin> fst ` set (ps_leases s)) \<and>
     (\<forall>key. runtime_policy_counter s key = runtime_policy_counter s0 key + int (reservations_on key rs)) \<and>
     (\<forall>key. reserved_count s key = reserved_count s0 key + reservations_on key rs)"

lemma reservations_on_snoc:
  "reservations_on key (rs @ [r]) = reservations_on key rs + (if br_counter_key r = key then 1 else 0)"
  by (simp add: reservations_on_def)

lemma reservations_on_le: "reservations_on key rs \<le> length rs"
  by (simp add: reservations_on_def)

lemma reserve_preflight_inv:
  assumes inv: "preflight_inv new_id s0 rs s" and inj: "inj new_id"
    and room: "counter_room s0 (length rs)"
    and res: "reserve_runtime_request_budget cal (new_id (length rs)) actor policy ledger limit now s = (Inr r, s')"
  shows "preflight_inv new_id s0 (rs @ [r]) s'"
proof -
  let ?i = "new_id (length rs)"
  from inv have wf: "leases_wf s" and ids: "map br_lease_id rs = map new_id [0..<length rs]"
    and held: "\<forall>r \<in> set rs. reservation_held s r"
    and later: "\<forall>n \<ge> length rs. new_id n \<notin> fst ` set (ps_leases s)"
    and c: "\<And>key. runtime_policy_counter s key = runtime_policy_counter s0 key + int (reservations_on key rs)"
    and n: "\<And>key. reserved_count s key = reserved_count s0 key + reservations_on key rs"
    by (auto simp: preflight_inv_def)
  from later have fresh: "?i \<notin> fst ` set (ps_leases s)" by simp
  have "0 \<le> runtime_policy_counter s k" "runtime_policy_counter s k < i64_max" for k
    using counter_roomD [OF room, of k] c [of k] reservations_on_le [of k rs] by linarith+
  note ok = reserve_ok [OF res fresh this]
  let ?l = "new_budget_lease actor policy (br_counter_key r) ?i now"
  have new: "map_of (ps_leases s') ?i = Some ?l" "reserved_on (br_counter_key r) ?l"
  proof -
    from fresh have "map_of (ps_leases s) ?i = None" by (simp add: map_of_eq_None_iff)
    then show "map_of (ps_leases s') ?i = Some ?l" by (simp add: ok(3) map_add_def)
  qed (simp add: reserved_on_def new_budget_lease_def)
  have old: "map_of (ps_leases s') j = map_of (ps_leases s) j" if "j \<noteq> ?i" for j
    using that by (simp add: ok(3) map_add_def split: option.split)
  have "br_lease_id r' \<noteq> ?i" if "r' \<in> set rs" for r'
  proof -
    from that ids have "br_lease_id r' \<in> new_id ` {0..<length rs}"
      by (metis atLeast_upt image_eqI image_set lessThan_atLeast0 list.set_map set_upt)
    with inj show ?thesis by (auto dest: injD)
  qed
  with held old have "\<forall>r' \<in> set rs. reservation_held s' r'" by (simp add: reservation_held_def)
  moreover have "reservation_held s' r" using new ok(1,4) by (simp add: reservation_held_def)
  moreover have "new_id m \<notin> fst ` set (ps_leases s')" if "m \<ge> Suc (length rs)" for m
    using that later inj by (auto simp: ok(3) dest: injD)
  moreover have "leases_wf s'"
    using wf fresh by (auto simp: leases_wf_def ok(3) new_budget_lease_def)
  moreover have "reserved_count s' key = reserved_count s key + (if br_counter_key r = key then 1 else 0)" for key
    by (simp add: reserved_count_def ok(3) reserved_on_def new_budget_lease_def)
  ultimately show ?thesis
    using ids c n by (auto simp: preflight_inv_def ok(1,2) reservations_on_snoc)
qed

lemma preflight_inv_release:
  assumes inv: "preflight_inv new_id s0 rs s" and inj: "inj new_id"
    and room: "counter_room s0 (length rs)"
  shows "runtime_policy_counter (release_runtime_budget_reservations utc_now rs s) = runtime_policy_counter s0 \<and>
    reserved_count (release_runtime_budget_reservations utc_now rs s) = reserved_count s0"
proof -
  from inv have "leases_wf s" "\<forall>r \<in> set rs. reservation_held s r"
    and ids: "map br_lease_id rs = map new_id [0..<length rs]"
    and c: "\<And>key. runtime_policy_counter s key = runtime_policy_counter s0 key + int (reservations_on key rs)"
    and n: "\<And>key. reserved_count s key = reserved_count s0 key + reservations_on key rs"
    by (auto simp: preflight_inv_def)
  moreover have "distinct (map br_lease_id rs)"
    unfolding ids using inj by (auto simp: distinct_map intro: inj_on_subset)
  moreover have "int (reservations_on k rs) \<le> runtime_policy_counter s k \<and> runtime_policy_counter s k \<le> i64_max" for k
    using counter_roomD [OF room, of k] c [of k] reservations_on_le [of k rs] by linarith
  ultimately have "runtime_policy_counter (release_runtime_budget_reservations utc_now rs s) k =
      runtime_policy_counter s k - int (reservations_on k rs) \<and>
    reserved_count s k =
      reserved_count (release_runtime_budget_reservations utc_now rs s) k + reservations_on k rs" for k
    by (intro release_reservations_exact) auto
  with c n show ?thesis by (auto simp: fun_eq_iff)
qed

text \<open>
  The loop started on the reservations \<open>rs\<close>: on success everything reserved is held and counted,
  and a denial by the ledger gives back everything that was reserved.
\<close>

lemma budget_preflight_loop_spec:
  assumes "preflight_inv new_id s0 rs s" "inj new_id"
    and "counter_room s0 (length rs + length policies)"
    and "budget_preflight_loop cal new_id utc_now actor selected buckets now policies rs s = (res, s')"
  shows "(\<forall>rs'. res = Inr rs' \<longrightarrow> preflight_inv new_id s0 rs' s') \<and>
    (\<forall>e. res = Inl e \<longrightarrow> e \<in> {BudgetExceeded ''hard_limit_reached'',
        BudgetExceeded ''hard_limit_reserved'', BudgetExceeded ''budget_hot_state_unavailable''}) \<and>
    (res = Inl (BudgetExceeded ''hard_limit_reached'') \<longrightarrow>
       runtime_policy_counter s' = runtime_policy_counter s0 \<and> reserved_count s' = reserved_count s0)"
  using assms
proof (induction policies arbitrary: rs s)
  case Nil
  then show ?case by auto
next
  case (Cons policy policies)
  let ?skip = "budget_preflight_loop cal new_id utc_now actor selected buckets now policies rs s = (res, s')"
  let ?current = "budget_ledger_value cal policy buckets now"
  have skip: ?case if ?skip
    using Cons.IH [OF Cons.prems(1,2) counter_room_mono [OF Cons.prems(3)] that] by simp
  show ?case
  proof (cases "bp_hard_limit policy")
    case None
    with Cons.prems(4) show ?thesis by (intro skip) simp
  next
    case (Some limit)
    let ?reserve = "reserve_runtime_request_budget cal (new_id (length rs)) actor policy ?current limit now s"
    consider (off) "\<not> runtime_budget_policy_is_preflight_enforced policy \<or>
          \<not> runtime_budget_policy_matches_request policy actor selected \<or>
          \<not> budget_exceeded policy ?current limit \<and> bp_limit_kind policy \<noteq> ''requests''"
      | (over) "runtime_budget_policy_is_preflight_enforced policy"
          "runtime_budget_policy_matches_request policy actor selected" "budget_exceeded policy ?current limit"
      | (on) "runtime_budget_policy_is_preflight_enforced policy"
          "runtime_budget_policy_matches_request policy actor selected"
          "\<not> budget_exceeded policy ?current limit" "bp_limit_kind policy = ''requests''"
      by blast
    then show ?thesis
    proof cases
      case off
      with Some Cons.prems(4) show ?thesis by (intro skip) (auto simp: Let_def split: if_splits)
    next
      case over
      with Some Cons.prems(4) have "res = Inl (BudgetExceeded ''hard_limit_reached'')"
        "s' = release_runtime_budget_reservations utc_now rs s" by (simp_all add: Let_def)
      moreover have "counter_room s0 (length rs)"
        using Cons.prems(3) by (rule counter_room_mono) simp
      ultimately show ?thesis
        using preflight_inv_release [OF Cons.prems(1,2)] by auto
    next
      case on
      obtain x s1 where x: "?reserve = (x, s1)" by (rule prod.exhaust)
      show ?thesis
      proof (cases x)
        case (Inl e)
        with x have "e \<in> {BudgetExceeded ''hard_limit_reserved'', BudgetExceeded ''budget_hot_state_unavailable''}"
          by (auto simp: reserve_runtime_request_budget_def Let_def split: if_splits prod.splits)
        moreover from Some on x Inl Cons.prems(4) have "res = Inl e" by (simp add: Let_def)
        ultimately show ?thesis by auto
      next
        case (Inr r)
        have room: "counter_room s0 (length rs)"
          using Cons.prems(3) by (rule counter_room_mono) simp
        have "preflight_inv new_id s0 (rs @ [r]) s1"
          using reserve_preflight_inv [OF Cons.prems(1,2) room] x Inr by simp
        moreover from Some on x Inr Cons.prems(4) have
          "budget_preflight_loop cal new_id utc_now actor selected buckets now policies (rs @ [r]) s1 = (res, s')"
          by (simp add: Let_def)
        ultimately show ?thesis using Cons.IH [OF _ Cons.prems(2)] Cons.prems(3) by auto
      qed
    qed
  qed
qed

text \<open>A reservation that fails inside the loop ends it with the earlier reservations in place.\<close>

lemma budget_preflight_loop_reserve_failed:
  assumes "bp_hard_limit policy = Some limit"
    and "runtime_budget_policy_is_preflight_enforced policy"
    and "runtime_budget_policy_matches_request policy actor selected"
    and "\<not> budget_exceeded policy (budget_ledger_value cal policy buckets now) limit"
    and "bp_limit_kind policy = ''requests''"
    and "reserve_runtime_request_budget cal (new_id (length rs)) actor policy
      (budget_ledger_value cal policy buckets now) limit now s = (Inl e, s1)"
  shows "budget_preflight_loop cal new_id utc_now actor selected buckets now (policy # policies) rs s = (Inl e, s1)"
  using assms by (simp add: Let_def)

lemma budget_preflight_loop_length:
  "budget_preflight_loop cal new_id utc_now actor selected buckets now policies rs s = (Inr rs', s') \<Longrightarrow>
     length rs' \<le> length rs + length policies"
proof (induction policies arbitrary: rs s)
  case Nil
  then show ?case by simp
next
  case (Cons policy policies)
  from Cons.prems obtain rs1 s1 where
    "budget_preflight_loop cal new_id utc_now actor selected buckets now policies rs1 s1 = (Inr rs', s')"
    "length rs1 \<le> Suc (length rs)"
    by (fastforce simp: Let_def split: option.splits if_splits sum.splits prod.splits)
  from Cons.IH [OF this(1)] this(2) show ?case by simp
qed

end
