(* ===== verification/Gateway_Quota.thy ===== *)
theory Gateway_Quota
  imports Gateway_Domain Gateway_Routing Gateway_Runtime_Store "HOL-Library.Multiset"
    "HOL-Library.Product_Lexorder"
begin

text \<open>
  Quota enforcement before a request is forwarded
  (\<open>crates/starweaver-gateway/src/service.rs\<close>): body and current limits, rate counters,
  concurrency reservations, the behaviour when hot state is lost, and the release of what was
  reserved. The replayed request contributes its streaming flag and its protocol family.
  \<open>now.timestamp().div_euclid(60)\<close> is the minute of a time given in nanoseconds.
\<close>

subsection \<open>Records\<close>

record quota_policy =
  qp_quota_policy_id :: string
  qp_tenant_id :: string
  qp_scope_kind :: string
  qp_scope_id :: string
  qp_organization_id :: "string option"
  qp_project_id :: "string option"
  qp_counter_kind :: string
  qp_limit :: i64
  qp_burst_limit :: "i64 option"
  qp_window :: string
  qp_increment_source :: string
  qp_loss_behavior :: string
  qp_status :: resource_status

record replay_request =
  rq_streaming :: bool
  rq_protocol_family :: protocol_family

datatype counter_backend = HotState | LossAllowance

record quota_reservation =
  qr_counter_key :: string
  qr_amount :: i64
  qr_counter_backend :: counter_backend

definition quota_policies_for_tenant :: "quota_policy list \<Rightarrow> string \<Rightarrow> quota_policy list" where
  "quota_policies_for_tenant policies tenant_id =
     sort_key (\<lambda>p. (qp_scope_kind p, qp_scope_id p, qp_counter_kind p, qp_quota_policy_id p))
       (filter (\<lambda>p. qp_tenant_id p = tenant_id) policies)"

subsection \<open>Matching and keys\<close>

definition runtime_quota_policy_matches_request ::
  "quota_policy \<Rightarrow> authenticated_actor \<Rightarrow> replay_request \<Rightarrow> selected_route_evidence option \<Rightarrow> bool" where
  "runtime_quota_policy_matches_request policy actor request selected =
     (let kind = qp_scope_kind policy; i = qp_scope_id policy in
      if kind = ''tenant'' then i = actor_tenant_id actor
      else if kind = ''organization'' then actor_organization_id actor = Some i
      else if kind = ''project'' then actor_project_id actor = Some i
      else if kind = ''credential'' then Option.bind selected sel_upstream_credential_id = Some i
      else if kind = ''alias'' then is_some_and selected (\<lambda>r. sel_model_alias_id r = i)
      else if kind = ''endpoint'' then is_some_and selected (\<lambda>r. sel_provider_endpoint_id r = i)
      else if kind = ''protocol_family''
      then protocol_family_as_str (rq_protocol_family request) = i
      else False)"

definition minute_of :: "datetime \<Rightarrow> int" where
  "minute_of t = t div 1000000000 div 60"

definition runtime_quota_counter_key :: "quota_policy \<Rightarrow> datetime \<Rightarrow> string" where
  "runtime_quota_counter_key policy now =
     (let window = qp_window policy;
          slot = (if window = ''fixed'' \<or> window = ''sliding'' then int_to_string (minute_of now)
            else if window = ''request_lifetime'' \<or> window = ''stream_lifetime'' then ''active''
            else if window = ''ledger_bucket'' then ''ledger_bucket''
            else ''default'') in
      join_with ''|''
        [qp_tenant_id policy, qp_quota_policy_id policy, qp_scope_kind policy, qp_scope_id policy,
         qp_counter_kind policy, window, slot])"

definition runtime_quota_loss_allowance_key :: "quota_policy \<Rightarrow> datetime \<Rightarrow> string" where
  "runtime_quota_loss_allowance_key policy now = ''loss|'' @ runtime_quota_counter_key policy now"

definition usize_to_i64 :: "nat \<Rightarrow> i64" where
  "usize_to_i64 n = (if int n \<le> i64_max then int n else i64_max)"

text \<open>The pair every enforcement function matches on.\<close>

definition quota_kind :: "quota_policy \<Rightarrow> string \<times> string" where
  "quota_kind policy = (qp_counter_kind policy, qp_increment_source policy)"

definition runtime_quota_policy_needs_hot_state :: "quota_policy \<Rightarrow> bool" where
  "runtime_quota_policy_needs_hot_state policy \<longleftrightarrow>
     quota_kind policy \<in> {(''request_rate'', ''accepted_preflight_request''),
       (''concurrent_request'', ''preflight_acquire''), (''concurrent_stream'', ''stream_start''),
       (''stream_duration'', ''stream_start''), (''token_actual_rate'', ''terminal_usage_event'')}"

definition runtime_quota_policy_requires_stream :: "quota_policy \<Rightarrow> bool" where
  "runtime_quota_policy_requires_stream policy \<longleftrightarrow>
     qp_counter_kind policy \<in> {''concurrent_stream'', ''stream_duration''}"

definition runtime_quota_policy_skips_request :: "quota_policy \<Rightarrow> replay_request \<Rightarrow> bool" where
  "runtime_quota_policy_skips_request policy request \<longleftrightarrow>
     runtime_quota_policy_requires_stream policy \<and> \<not> rq_streaming request"

subsection \<open>Limits that only read\<close>

definition enforce_runtime_quota_body_limit :: "quota_policy \<Rightarrow> nat \<Rightarrow> unit gateway_result" where
  "enforce_runtime_quota_body_limit policy request_body_bytes =
     (if quota_kind policy = (''request_body_bytes'', ''request_body_bytes'') \<and>
         usize_to_i64 request_body_bytes > qp_limit policy
      then Inl (QuotaExceeded ''request_body_size_limit_reached'')
      else Inr ())"

definition runtime_quota_current_value :: "policy_store \<Rightarrow> quota_policy \<Rightarrow> datetime \<Rightarrow> i64" where
  "runtime_quota_current_value s policy now =
     runtime_policy_counter s (runtime_quota_counter_key policy now)"

definition enforce_runtime_quota_current_limit ::
  "policy_store \<Rightarrow> quota_policy \<Rightarrow> datetime \<Rightarrow> unit gateway_result" where
  "enforce_runtime_quota_current_limit s policy now =
     (if quota_kind policy = (''token_actual_rate'', ''terminal_usage_event'') \<and>
         runtime_quota_current_value s policy now \<ge> qp_limit policy
      then Inl (QuotaExceeded ''token_actual_rate_limit_reached'')
      else if quota_kind policy = (''stream_duration'', ''stream_start'') \<and>
         runtime_quota_current_value s policy now \<ge> qp_limit policy
      then Inl (QuotaExceeded ''stream_duration_limit_reached'')
      else Inr ())"

text \<open>\<open>RuntimeQuotaPreflightInput\<close>, without the state.\<close>

record quota_input =
  qi_request :: replay_request
  qi_request_body_bytes :: nat
  qi_now :: datetime
  qi_hot_state_available :: bool

definition enforce_runtime_quota_preflight_limits ::
  "quota_input \<Rightarrow> quota_policy list \<Rightarrow> policy_store \<Rightarrow> unit gateway_result" where
  "enforce_runtime_quota_preflight_limits input policies s =
     try_all (\<lambda>policy.
       if runtime_quota_policy_skips_request policy (qi_request input) then Inr ()
       else rbind (enforce_runtime_quota_body_limit policy (qi_request_body_bytes input)) (\<lambda>_.
         if qi_hot_state_available input
         then enforce_runtime_quota_current_limit s policy (qi_now input)
         else Inr ())) policies"

subsection \<open>Reservations\<close>

definition reserve_runtime_quota_counter ::
  "quota_policy \<Rightarrow> i64 \<Rightarrow> string \<Rightarrow> datetime \<Rightarrow> policy_store \<Rightarrow>
   quota_reservation gateway_result \<times> policy_store" where
  "reserve_runtime_quota_counter policy amount reason now s =
     (let counter_key = runtime_quota_counter_key policy now;
          (current, s1) = adjust_runtime_policy_counter counter_key amount s in
      if current > qp_limit policy
      then (Inl (QuotaExceeded reason), snd (adjust_runtime_policy_counter counter_key (- amount) s1))
      else (Inr \<lparr>qr_counter_key = counter_key, qr_amount = amount, qr_counter_backend = HotState\<rparr>, s1))"

definition reserve_runtime_quota_loss_allowance ::
  "quota_policy \<Rightarrow> datetime \<Rightarrow> policy_store \<Rightarrow>
   quota_reservation option gateway_result \<times> policy_store" where
  "reserve_runtime_quota_loss_allowance policy now s =
     (let limit = unwrap_or (qp_burst_limit policy) 0 in
      if limit \<le> 0 then (Inl (QuotaExceeded ''fail_limited_allowance_unconfigured''), s)
      else
        let counter_key = runtime_quota_loss_allowance_key policy now;
            (decision, s1) = increment_runtime_policy_loss_allowance_counter counter_key 1 limit s in
        if \<not> cd_allowed decision
        then (Inl (QuotaExceeded ''fail_limited_allowance_exhausted''), s1)
        else if quota_kind policy \<in> {(''concurrent_request'', ''preflight_acquire''),
               (''concurrent_stream'', ''stream_start'')}
        then (Inr (Some \<lparr>qr_counter_key = counter_key, qr_amount = 1,
                qr_counter_backend = LossAllowance\<rparr>), s1)
        else (Inr None, s1))"

definition handle_runtime_quota_hot_state_loss ::
  "quota_policy \<Rightarrow> datetime \<Rightarrow> policy_store \<Rightarrow>
   quota_reservation option gateway_result \<times> policy_store" where
  "handle_runtime_quota_hot_state_loss policy now s =
     (if qp_loss_behavior policy = ''fail_open'' then (Inr None, s)
      else if qp_loss_behavior policy = ''fail_limited''
      then reserve_runtime_quota_loss_allowance policy now s
      else (Inl (QuotaExceeded ''hot_state_unavailable''), s))"

fun release_runtime_quota_reservations ::
  "quota_reservation list \<Rightarrow> policy_store \<Rightarrow> policy_store" where
  "release_runtime_quota_reservations [] s = s"
| "release_runtime_quota_reservations (r # rs) s =
     release_runtime_quota_reservations rs
       (case qr_counter_backend r of
          HotState \<Rightarrow> snd (adjust_runtime_policy_counter (qr_counter_key r) (- qr_amount r) s)
        | LossAllowance \<Rightarrow>
            snd (adjust_runtime_policy_loss_allowance_counter (qr_counter_key r) (- qr_amount r) s))"

text \<open>One concurrency branch of the loop: reserve one unit, or release what is held and fail.\<close>

definition acquire_or_release ::
  "quota_policy \<Rightarrow> string \<Rightarrow> datetime \<Rightarrow> quota_reservation list \<Rightarrow> policy_store \<Rightarrow>
   quota_reservation gateway_result \<times> policy_store" where
  "acquire_or_release policy reason now reservations s =
     (case reserve_runtime_quota_counter policy 1 reason now s of
        (Inl e, s1) \<Rightarrow> (Inl e, release_runtime_quota_reservations reservations s1)
      | (Inr r, s1) \<Rightarrow> (Inr r, s1))"

fun quota_preflight_loop ::
  "quota_input \<Rightarrow> quota_policy list \<Rightarrow> quota_reservation list \<Rightarrow> policy_store \<Rightarrow>
   quota_reservation list gateway_result \<times> policy_store" where
  "quota_preflight_loop input [] reservations s = (Inr reservations, s)"
| "quota_preflight_loop input (policy # policies) reservations s =
     (if runtime_quota_policy_skips_request policy (qi_request input)
      then quota_preflight_loop input policies reservations s
      else if runtime_quota_policy_needs_hot_state policy \<and> \<not> qi_hot_state_available input
      then (case handle_runtime_quota_hot_state_loss policy (qi_now input) s of
          (Inl e, s1) \<Rightarrow> (Inl e, s1)
        | (Inr None, s1) \<Rightarrow> quota_preflight_loop input policies reservations s1
        | (Inr (Some r), s1) \<Rightarrow> quota_preflight_loop input policies (reservations @ [r]) s1)
      else if quota_kind policy = (''request_rate'', ''accepted_preflight_request'')
      then (let (decision, s1) = increment_runtime_quota_counter
                  (runtime_quota_counter_key policy (qi_now input)) 1 (qp_limit policy) s in
        if \<not> cd_allowed decision
        then (Inl (QuotaExceeded ''request_rate_limit_reached''),
              release_runtime_quota_reservations reservations s1)
        else quota_preflight_loop input policies reservations s1)
      else if quota_kind policy = (''concurrent_request'', ''preflight_acquire'')
      then (case acquire_or_release policy ''concurrent_request_limit_reached'' (qi_now input)
                   reservations s of
          (Inl e, s1) \<Rightarrow> (Inl e, s1)
        | (Inr r, s1) \<Rightarrow> quota_preflight_loop input policies (reservations @ [r]) s1)
      else if quota_kind policy = (''concurrent_stream'', ''stream_start'')
      then (case acquire_or_release policy ''concurrent_stream_limit_reached'' (qi_now input)
                   reservations s of
          (Inl e, s1) \<Rightarrow> (Inl e, s1)
        | (Inr r, s1) \<Rightarrow> quota_preflight_loop input policies (reservations @ [r]) s1)
      else quota_preflight_loop input policies reservations s)"

definition reserve_runtime_quota_preflight ::
  "quota_input \<Rightarrow> quota_policy list \<Rightarrow> policy_store \<Rightarrow>
   quota_reservation list gateway_result \<times> policy_store" where
  "reserve_runtime_quota_preflight input policies s = quota_preflight_loop input policies [] s"

definition enforce_runtime_quota_preflight ::
  "quota_policy list \<Rightarrow> authenticated_actor \<Rightarrow> replay_request \<Rightarrow> selected_route_evidence option \<Rightarrow>
   nat \<Rightarrow> datetime \<Rightarrow> policy_store \<Rightarrow>
   quota_reservation list gateway_result \<times> policy_store" where
  "enforce_runtime_quota_preflight admin actor request selected request_body_bytes now s =
     (let policies = filter (\<lambda>policy. qp_status policy = ResActive \<and>
            runtime_quota_policy_matches_request policy actor request selected)
            (quota_policies_for_tenant admin (actor_tenant_id actor));
          input = \<lparr>qi_request = request, qi_request_body_bytes = request_body_bytes, qi_now = now,
            qi_hot_state_available = runtime_policy_hot_state_available s\<rparr> in
      case enforce_runtime_quota_preflight_limits input policies s of
        Inl e \<Rightarrow> (Inl e, s)
      | Inr _ \<Rightarrow> reserve_runtime_quota_preflight input policies s)"

subsection \<open>Rate counters\<close>

text \<open>Successive attempts on one rate counter: their decisions, in order.\<close>

fun rate_attempts :: "string \<Rightarrow> i64 \<Rightarrow> nat \<Rightarrow> policy_store \<Rightarrow> bool list \<times> policy_store" where
  "rate_attempts key limit 0 s = ([], s)"
| "rate_attempts key limit (Suc n) s =
     (let (decision, s1) = increment_runtime_quota_counter key 1 limit s;
          (decisions, s2) = rate_attempts key limit n s1 in
      (cd_allowed decision # decisions, s2))"

lemma rate_attempts_from:
  assumes "runtime_policy_counter s key = int c" "int (c + n) \<le> i64_max"
  shows "length (filter (\<lambda>allowed. allowed) (fst (rate_attempts key limit n s))) = min (c + n) (max c (nat limit)) - c"
  using assms
proof (induction n arbitrary: s c)
  case 0
  then show ?case by simp
next
  case (Suc n)
  obtain d s1 where inc: "increment_runtime_quota_counter key 1 limit s = (d, s1)" by (rule prod.exhaust)
  have c1: "runtime_policy_counter s1 key = int (Suc c)"
    using quota_counters.counter_increment [of key 1 limit s key] inc Suc.prems
    by (simp add: saturating_add_exact is_i64_def i64_simps)
  have d: "cd_allowed d \<longleftrightarrow> Suc c \<le> nat limit"
    using quota_counters.increment_allowed [of key 1 limit s] inc c1 by auto
  have "length (filter (\<lambda>allowed. allowed) (fst (rate_attempts key limit n s1))) =
      min (Suc c + n) (max (Suc c) (nat limit)) - Suc c"
    using Suc.IH [OF c1] Suc.prems(2) by simp
  with inc d show ?case by (auto simp: case_prod_unfold Let_def min_def max_def)
qed

subsection \<open>Concurrency counters\<close>

text \<open>
  Concurrent requests acquire and release slots in steps of the store, as budgets do: a raised
  counter is either held or about to be rolled back.
\<close>

record slot_run =
  sl_store :: policy_store
  sl_held :: "string multiset"
  sl_rejected :: "string multiset"

inductive slot_step :: "(string \<Rightarrow> int) \<Rightarrow> slot_run \<Rightarrow> slot_run \<Rightarrow> bool" for limit where
  acquired: "\<lbrakk>adjust_runtime_policy_counter key 1 (sl_store r) = (v, s); v \<le> limit key;
              runtime_policy_counter (sl_store r) key < i64_max\<rbrakk> \<Longrightarrow>
     slot_step limit r (r\<lparr>sl_store := s, sl_held := add_mset key (sl_held r)\<rparr>)"
| refused: "\<lbrakk>adjust_runtime_policy_counter key 1 (sl_store r) = (v, s); limit key < v;
             runtime_policy_counter (sl_store r) key < i64_max\<rbrakk> \<Longrightarrow>
     slot_step limit r (r\<lparr>sl_store := s, sl_rejected := add_mset key (sl_rejected r)\<rparr>)"
| rolled_back: "\<lbrakk>key \<in># sl_rejected r; adjust_runtime_policy_counter key (- 1) (sl_store r) = (v, s)\<rbrakk> \<Longrightarrow>
     slot_step limit r (r\<lparr>sl_store := s, sl_rejected := sl_rejected r - {#key#}\<rparr>)"
| released: "\<lbrakk>key \<in># sl_held r; adjust_runtime_policy_counter key (- 1) (sl_store r) = (v, s)\<rbrakk> \<Longrightarrow>
     slot_step limit r (r\<lparr>sl_store := s, sl_held := sl_held r - {#key#}\<rparr>)"

definition initial_slots :: slot_run where
  "initial_slots = \<lparr>sl_store = empty_policy_store, sl_held = {#}, sl_rejected = {#}\<rparr>"

definition slot_inv :: "(string \<Rightarrow> int) \<Rightarrow> slot_run \<Rightarrow> bool" where
  "slot_inv limit r \<longleftrightarrow>
     (\<forall>key. runtime_policy_counter (sl_store r) key \<le> i64_max \<and>
        runtime_policy_counter (sl_store r) key = int (count (sl_held r) key + count (sl_rejected r) key) \<and>
        int (count (sl_held r) key) \<le> max 0 (limit key))"

lemma slot_invD:
  assumes "slot_inv limit r"
  shows "runtime_policy_counter (sl_store r) key \<le> i64_max"
    and "runtime_policy_counter (sl_store r) key = int (count (sl_held r) key + count (sl_rejected r) key)"
    and "int (count (sl_held r) key) \<le> max 0 (limit key)"
  using assms unfolding slot_inv_def by blast+

lemma adjust_slot:
  assumes "adjust_runtime_policy_counter key d s0 = (v, s)"
    and "0 \<le> runtime_policy_counter s0 key + d" "runtime_policy_counter s0 key + d \<le> i64_max"
  shows "runtime_policy_counter s k = (if k = key then runtime_policy_counter s0 key + d else runtime_policy_counter s0 k)"
    and "v = runtime_policy_counter s0 key + d"
  using assms quota_counters.adjust_exact [OF assms(2,3)] quota_counters.adjust_value [of key d s0]
    quota_counters.counter_adjust [of key d s0 k]
  by auto

text \<open>One adjusted counter with the slots that account for it.\<close>

lemma slot_adjust_inv:
  assumes inv: "slot_inv limit r"
    and adj: "adjust_runtime_policy_counter key d (sl_store r) = (v, s)"
    and range: "0 \<le> runtime_policy_counter (sl_store r) key + d"
      "runtime_policy_counter (sl_store r) key + d \<le> i64_max"
    and sum: "\<And>k. int (count held k + count rejected k) =
      int (count (sl_held r) k + count (sl_rejected r) k) + (if k = key then d else 0)"
    and bound: "\<And>k. int (count held k) \<le> max 0 (limit k)"
  shows "slot_inv limit (r\<lparr>sl_store := s, sl_held := held, sl_rejected := rejected\<rparr>)"
proof -
  have "runtime_policy_counter s k \<le> i64_max \<and>
      runtime_policy_counter s k = int (count held k + count rejected k)" for k
    using slot_invD [OF inv, of k] adjust_slot(1) [OF adj range, of k] sum [of k] range
    by (cases "k = key") simp_all
  with bound show ?thesis by (simp add: slot_inv_def del: of_nat_add) metis
qed

lemma slot_step_inv:
  assumes "slot_step limit r r'" "slot_inv limit r"
  shows "slot_inv limit r'"
  using assms(1)
proof (cases rule: slot_step.cases)
  case (acquired key v s)
  have range: "0 \<le> runtime_policy_counter (sl_store r) key + 1"
      "runtime_policy_counter (sl_store r) key + 1 \<le> i64_max"
    using slot_invD(2) [OF assms(2), of key] acquired(4) by simp_all
  have "slot_inv limit (r\<lparr>sl_store := s, sl_held := add_mset key (sl_held r), sl_rejected := sl_rejected r\<rparr>)"
  proof (rule slot_adjust_inv [OF assms(2) acquired(2) range])
    show "int (count (add_mset key (sl_held r)) k) \<le> max 0 (limit k)" for k
      using slot_invD(2,3) [OF assms(2), of k] acquired(3) adjust_slot(2) [OF acquired(2) range] by auto
  qed auto
  with acquired(1) show ?thesis by simp
next
  case (refused key v s)
  have range: "0 \<le> runtime_policy_counter (sl_store r) key + 1"
      "runtime_policy_counter (sl_store r) key + 1 \<le> i64_max"
    using slot_invD(2) [OF assms(2), of key] refused(4) by simp_all
  have "slot_inv limit (r\<lparr>sl_store := s, sl_held := sl_held r, sl_rejected := add_mset key (sl_rejected r)\<rparr>)"
    using slot_invD(3) [OF assms(2)] by (intro slot_adjust_inv [OF assms(2) refused(2) range]) auto
  with refused(1) show ?thesis by simp
next
  case (rolled_back key v s)
  have one: "1 \<le> count (sl_rejected r) key" using rolled_back(2) by (simp add: Suc_leI)
  then have range: "0 \<le> runtime_policy_counter (sl_store r) key + - 1"
      "runtime_policy_counter (sl_store r) key + - 1 \<le> i64_max"
    using slot_invD(1,2) [OF assms(2), of key] by linarith+
  have "slot_inv limit (r\<lparr>sl_store := s, sl_held := sl_held r, sl_rejected := sl_rejected r - {#key#}\<rparr>)"
    using slot_invD(3) [OF assms(2)] one
    by (intro slot_adjust_inv [OF assms(2) rolled_back(3) range]) auto
  with rolled_back(1) show ?thesis by simp
next
  case (released key v s)
  have one: "1 \<le> count (sl_held r) key" using released(2) by (simp add: Suc_leI)
  then have range: "0 \<le> runtime_policy_counter (sl_store r) key + - 1"
      "runtime_policy_counter (sl_store r) key + - 1 \<le> i64_max"
    using slot_invD(1,2) [OF assms(2), of key] by linarith+
  have "slot_inv limit (r\<lparr>sl_store := s, sl_held := sl_held r - {#key#}, sl_rejected := sl_rejected r\<rparr>)"
  proof (rule slot_adjust_inv [OF assms(2) released(3) range])
    show "int (count (sl_held r - {#key#}) k) \<le> max 0 (limit k)" for k
      using slot_invD(3) [OF assms(2), of k] one by auto
  qed (use one in auto)
  with released(1) show ?thesis by simp
qed

lemma slots_reachable_inv: "(slot_step limit)\<^sup>*\<^sup>* initial_slots r \<Longrightarrow> slot_inv limit r"
proof (induction rule: rtranclp_induct)
  case base
  show ?case
    by (simp add: slot_inv_def initial_slots_def empty_policy_store_def runtime_policy_counter_def i64_simps)
next
  case (step r r')
  then show ?case by (blast intro: slot_step_inv)
qed

subsection \<open>The reservation loop\<close>

definition held_on :: "string \<Rightarrow> quota_reservation list \<Rightarrow> nat" where
  "held_on key rs = length (filter (\<lambda>r. qr_counter_key r = key) rs)"

lemma held_on_simps [simp]:
  "held_on key [] = 0"
  "held_on key (r # rs) = (if qr_counter_key r = key then 1 else 0) + held_on key rs"
  "held_on key (rs @ rs') = held_on key rs + held_on key rs'"
  by (simp_all add: held_on_def)

definition hot_unit :: "quota_reservation \<Rightarrow> bool" where
  "hot_unit r \<longleftrightarrow> qr_amount r = 1 \<and> qr_counter_backend r = HotState"

lemma release_quota_exact:
  assumes "\<forall>r \<in> set rs. hot_unit r"
    and "\<forall>key. int (held_on key rs) \<le> runtime_policy_counter s key \<and> runtime_policy_counter s key \<le> i64_max"
  shows "runtime_policy_counter (release_runtime_quota_reservations rs s) key =
    runtime_policy_counter s key - int (held_on key rs)"
  using assms
proof (induction rs arbitrary: s)
  case Nil
  then show ?case by simp
next
  case (Cons r rs)
  obtain v s1 where adj: "adjust_runtime_policy_counter (qr_counter_key r) (- 1) s = (v, s1)"
    by (rule prod.exhaust)
  have range: "0 \<le> runtime_policy_counter s (qr_counter_key r) + - 1"
      "runtime_policy_counter s (qr_counter_key r) + - 1 \<le> i64_max"
    using Cons.prems(2) [rule_format, of "qr_counter_key r"] by simp_all
  note eff = adjust_slot(1) [OF adj range]
  have "\<forall>k. int (held_on k rs) \<le> runtime_policy_counter s1 k \<and> runtime_policy_counter s1 k \<le> i64_max"
  proof
    fix k
    show "int (held_on k rs) \<le> runtime_policy_counter s1 k \<and> runtime_policy_counter s1 k \<le> i64_max"
      using Cons.prems(2) [rule_format, of k] eff [of k] by (auto split: if_splits)
  qed
  with Cons have "runtime_policy_counter (release_runtime_quota_reservations rs s1) key =
      runtime_policy_counter s1 key - int (held_on key rs)" by simp
  moreover have "release_runtime_quota_reservations (r # rs) s = release_runtime_quota_reservations rs s1"
    using Cons.prems(1) adj by (simp add: hot_unit_def)
  ultimately show ?case using eff [of key] by auto
qed

definition rate_keys :: "quota_policy list \<Rightarrow> datetime \<Rightarrow> string set" where
  "rate_keys policies now =
     (\<lambda>p. runtime_quota_counter_key p now) `
       {p \<in> set policies. quota_kind p = (''request_rate'', ''accepted_preflight_request'')}"

text \<open>
  The counters relative to those the loop began with: what is held is counted, and only rate
  counters may have grown beyond that, by at most one per policy passed.
\<close>

definition quota_inv ::
  "(string \<Rightarrow> i64) \<Rightarrow> string set \<Rightarrow> nat \<Rightarrow> quota_reservation list \<Rightarrow> policy_store \<Rightarrow> bool" where
  "quota_inv base rates n rs s \<longleftrightarrow>
     (\<forall>r \<in> set rs. hot_unit r) \<and>
     (\<forall>key. base key + int (held_on key rs) \<le> runtime_policy_counter s key \<and>
        runtime_policy_counter s key \<le> base key + int n \<and>
        (key \<notin> rates \<longrightarrow> runtime_policy_counter s key = base key + int (held_on key rs)))"

definition base_room :: "(string \<Rightarrow> i64) \<Rightarrow> nat \<Rightarrow> bool" where
  "base_room base n \<longleftrightarrow> (\<forall>key. 0 \<le> base key \<and> base key + int n \<le> i64_max)"

lemma quota_invD:
  assumes "quota_inv base rates n rs s"
  shows "\<forall>r \<in> set rs. hot_unit r"
    and "base key + int (held_on key rs) \<le> runtime_policy_counter s key"
    and "runtime_policy_counter s key \<le> base key + int n"
    and "key \<notin> rates \<Longrightarrow> runtime_policy_counter s key = base key + int (held_on key rs)"
  using assms unfolding quota_inv_def by blast+

lemma quota_invI:
  assumes "\<forall>r \<in> set rs. hot_unit r"
    and "\<And>key. base key + int (held_on key rs) \<le> runtime_policy_counter s key \<and>
      runtime_policy_counter s key \<le> base key + int n \<and>
      (key \<notin> rates \<longrightarrow> runtime_policy_counter s key = base key + int (held_on key rs))"
  shows "quota_inv base rates n rs s"
  using assms unfolding quota_inv_def by blast

lemma base_roomD: "base_room base n \<Longrightarrow> 0 \<le> base key \<and> base key + int n \<le> i64_max"
  by (simp add: base_room_def)

lemma base_room_mono:
  assumes "base_room base n" "m \<le> n"
  shows "base_room base m"
proof -
  have "0 \<le> base key \<and> base key + int m \<le> i64_max" for key
    using base_roomD [OF assms(1), of key] assms(2) by auto
  then show ?thesis by (simp add: base_room_def)
qed

lemma quota_inv_weaken:
  assumes "quota_inv base rates n rs s"
  shows "quota_inv base rates (Suc n) rs s"
proof -
  have "runtime_policy_counter s key \<le> base key + int (Suc n)" for key
    using quota_invD(3) [OF assms, of key] by simp
  with quota_invD [OF assms] show ?thesis by (intro quota_invI) auto
qed

lemma quota_inv_release:
  assumes inv: "quota_inv base rates n rs s" and room: "base_room base n" and key: "key \<notin> rates"
  shows "runtime_policy_counter (release_runtime_quota_reservations rs s) key = base key"
proof -
  have "int (held_on k rs) \<le> runtime_policy_counter s k \<and> runtime_policy_counter s k \<le> i64_max" for k
    using quota_invD(2,3) [OF inv, of k] base_roomD [OF room, of k] by linarith
  then show ?thesis
    using release_quota_exact [OF quota_invD(1) [OF inv], of s key] quota_invD(4) [OF inv key] by simp
qed

lemma quota_inv_rate:
  assumes inv: "quota_inv base rates n rs s" and room: "base_room base (Suc n)"
    and inc: "increment_runtime_quota_counter key 1 limit s = (d, s1)" and key: "key \<in> rates"
  shows "quota_inv base rates (Suc n) rs s1"
proof -
  have "runtime_policy_counter s1 k = (if k = key then runtime_policy_counter s key + 1 else runtime_policy_counter s k)" for k
    using quota_counters.counter_increment [of key 1 limit s k] inc quota_invD(2,3) [OF inv, of key]
      base_roomD [OF room, of key]
    by (simp add: saturating_add_exact is_i64_def i64_simps)
  then have "base k + int (held_on k rs) \<le> runtime_policy_counter s1 k \<and>
      runtime_policy_counter s1 k \<le> base k + int (Suc n) \<and>
      (k \<notin> rates \<longrightarrow> runtime_policy_counter s1 k = base k + int (held_on k rs))" for k
    using quota_invD(2-4) [OF inv, of k] key by auto
  then show ?thesis by (rule quota_invI [OF quota_invD(1) [OF inv]])
qed

lemma reserve_quota_ok:
  assumes inv: "quota_inv base rates n rs s" and room: "base_room base (Suc n)"
    and res: "reserve_runtime_quota_counter policy 1 reason now s = (Inr r, s1)"
  shows "quota_inv base rates (Suc n) (rs @ [r]) s1"
proof -
  let ?key = "runtime_quota_counter_key policy now"
  obtain v s' where adj: "adjust_runtime_policy_counter ?key 1 s = (v, s')" by (rule prod.exhaust)
  with res have r: "r = \<lparr>qr_counter_key = ?key, qr_amount = 1, qr_counter_backend = HotState\<rparr>"
      and s1: "s1 = s'" by (auto simp: reserve_runtime_quota_counter_def Let_def split: if_splits)
  have range: "0 \<le> runtime_policy_counter s ?key + 1" "runtime_policy_counter s ?key + 1 \<le> i64_max"
    using quota_invD(2,3) [OF inv, of ?key] base_roomD [OF room, of ?key] by linarith+
  note eff = adjust_slot(1) [OF adj range]
  have "base k + int (held_on k (rs @ [r])) \<le> runtime_policy_counter s1 k \<and>
      runtime_policy_counter s1 k \<le> base k + int (Suc n) \<and>
      (k \<notin> rates \<longrightarrow> runtime_policy_counter s1 k = base k + int (held_on k (rs @ [r])))" for k
    using quota_invD(2-4) [OF inv, of k] eff [of k] by (auto simp: s1 r)
  then show ?thesis
    using quota_invD(1) [OF inv] by (intro quota_invI) (auto simp: r hot_unit_def)
qed

lemma reserve_quota_failed:
  assumes inv: "quota_inv base rates n rs s" and room: "base_room base (Suc n)"
    and res: "reserve_runtime_quota_counter policy 1 reason now s = (Inl e, s1)"
  shows "quota_inv base rates n rs s1 \<and> e = QuotaExceeded reason"
proof -
  let ?key = "runtime_quota_counter_key policy now"
  obtain v s' where adj: "adjust_runtime_policy_counter ?key 1 s = (v, s')" by (rule prod.exhaust)
  with res have e: "e = QuotaExceeded reason" and s1: "s1 = snd (adjust_runtime_policy_counter ?key (- 1) s')"
    by (auto simp: reserve_runtime_quota_counter_def Let_def split: if_splits)
  have "0 \<le> runtime_policy_counter s ?key" "runtime_policy_counter s ?key + 1 \<le> i64_max"
    using quota_invD(2,3) [OF inv, of ?key] base_roomD [OF room, of ?key] by linarith+
  then have "runtime_policy_counter s1 = runtime_policy_counter s"
    using quota_counters.adjust_undo [of s ?key 1] adj by (simp add: s1)
  with inv e show ?thesis by (simp add: quota_inv_def)
qed

text \<open>
  With hot state available: a refused request keeps nothing but its rate counts, and an accepted
  one holds exactly what it reserved.
\<close>

lemma quota_preflight_loop_spec:
  assumes "quota_inv base rates n rs s" "base_room base (n + length policies)"
    and "qi_hot_state_available input" and "rate_keys policies (qi_now input) \<subseteq> rates"
    and "quota_preflight_loop input policies rs s = (res, s')"
  shows "(\<forall>rs'. res = Inr rs' \<longrightarrow> quota_inv base rates (n + length policies) rs' s') \<and>
    (\<forall>e. res = Inl e \<longrightarrow> e \<in> {QuotaExceeded ''request_rate_limit_reached'',
        QuotaExceeded ''concurrent_request_limit_reached'',
        QuotaExceeded ''concurrent_stream_limit_reached''} \<and>
      (\<forall>key. key \<notin> rates \<longrightarrow> runtime_policy_counter s' key = base key))"
  using assms
proof (induction policies arbitrary: n rs s)
  case Nil
  then show ?case by auto
next
  case (Cons policy policies)
  let ?now = "qi_now input"
  have keys: "rate_keys policies ?now \<subseteq> rates"
    using Cons.prems(4) by (auto simp: rate_keys_def)
  have room: "base_room base (Suc n)" "base_room base (Suc n + length policies)" "base_room base n"
    by (rule base_room_mono [OF Cons.prems(2)], simp)+
  have weaken: "quota_inv base rates (Suc n) rs s"
    using Cons.prems(1) by (rule quota_inv_weaken)
  have continue: ?case if "quota_inv base rates (Suc n) rs1 s1"
      "quota_preflight_loop input policies rs1 s1 = (res, s')" for rs1 s1
    using Cons.IH [OF that(1) room(2) Cons.prems(3) keys that(2)] by simp
  have acquire: ?case
    if "quota_preflight_loop input (policy # policies) rs s =
        (case acquire_or_release policy reason ?now rs s of
          (Inl e, s1) \<Rightarrow> (Inl e, s1)
        | (Inr r, s1) \<Rightarrow> quota_preflight_loop input policies (rs @ [r]) s1)"
      and "reason \<in> {''concurrent_request_limit_reached'', ''concurrent_stream_limit_reached''}" for reason
  proof -
    obtain x s1 where x: "reserve_runtime_quota_counter policy 1 reason ?now s = (x, s1)" by (rule prod.exhaust)
    show ?case
    proof (cases x)
      case (Inl e)
      from reserve_quota_failed [OF Cons.prems(1) room(1) x [unfolded Inl]]
      have q: "quota_inv base rates n rs s1" and e: "e = QuotaExceeded reason" by auto
      from that(1) Cons.prems(5) x Inl have "res = Inl e"
          "s' = release_runtime_quota_reservations rs s1"
        by (auto simp: acquire_or_release_def)
      with quota_inv_release [OF q room(3)] e that(2) show ?thesis by auto
    next
      case (Inr r)
      with that(1) Cons.prems(5) x have "quota_preflight_loop input policies (rs @ [r]) s1 = (res, s')"
        by (simp add: acquire_or_release_def)
      with reserve_quota_ok [OF Cons.prems(1) room(1) x [unfolded Inr]] show ?thesis by (rule continue)
    qed
  qed
  consider (skip) "runtime_quota_policy_skips_request policy (qi_request input) \<or>
        quota_kind policy \<notin> {(''request_rate'', ''accepted_preflight_request''),
          (''concurrent_request'', ''preflight_acquire''), (''concurrent_stream'', ''stream_start'')}"
    | (rate) "\<not> runtime_quota_policy_skips_request policy (qi_request input)"
        "quota_kind policy = (''request_rate'', ''accepted_preflight_request'')"
    | (req) "\<not> runtime_quota_policy_skips_request policy (qi_request input)"
        "quota_kind policy = (''concurrent_request'', ''preflight_acquire'')"
    | (stream) "\<not> runtime_quota_policy_skips_request policy (qi_request input)"
        "quota_kind policy = (''concurrent_stream'', ''stream_start'')"
    by blast
  then show ?case
  proof cases
    case skip
    with Cons.prems(3,5) have "quota_preflight_loop input policies rs s = (res, s')"
      by (auto split: if_splits)
    with weaken show ?thesis by (rule continue)
  next
    case rate
    let ?key = "runtime_quota_counter_key policy ?now"
    obtain d s1 where inc: "increment_runtime_quota_counter ?key 1 (qp_limit policy) s = (d, s1)"
      by (rule prod.exhaust)
    from rate Cons.prems(4) have "?key \<in> rates" by (auto simp: rate_keys_def)
    with quota_inv_rate [OF Cons.prems(1) room(1) inc] have q: "quota_inv base rates (Suc n) rs s1" by simp
    show ?thesis
    proof (cases "cd_allowed d")
      case True
      with rate inc Cons.prems(3,5) have "quota_preflight_loop input policies rs s1 = (res, s')" by simp
      with q show ?thesis by (rule continue)
    next
      case False
      with rate inc Cons.prems(3,5) have "res = Inl (QuotaExceeded ''request_rate_limit_reached'')"
        "s' = release_runtime_quota_reservations rs s1" by auto
      with quota_inv_release [OF q room(1)] show ?thesis by auto
    qed
  next
    case req
    with Cons.prems(3) show ?thesis by (intro acquire [of "''concurrent_request_limit_reached''"]) simp_all
  next
    case stream
    with Cons.prems(3) show ?thesis by (intro acquire [of "''concurrent_stream_limit_reached''"]) simp_all
  qed
qed

subsection \<open>Losing hot state\<close>

text \<open>
  A fail-limited allowance that is exhausted still counts the attempt, and nothing gives it back:
  only an admitted concurrency reservation is released later.
\<close>

lemma loss_allowance_denied:
  assumes "reserve_runtime_quota_loss_allowance policy now s = (Inl (QuotaExceeded ''fail_limited_allowance_exhausted''), s1)"
    and "0 \<le> runtime_policy_loss_allowance_counter s (runtime_quota_loss_allowance_key policy now)"
    and "runtime_policy_loss_allowance_counter s (runtime_quota_loss_allowance_key policy now) < i64_max"
  shows "runtime_policy_loss_allowance_counter s1 (runtime_quota_loss_allowance_key policy now) =
    runtime_policy_loss_allowance_counter s (runtime_quota_loss_allowance_key policy now) + 1"
proof -
  let ?key = "runtime_quota_loss_allowance_key policy now" and ?limit = "unwrap_or (qp_burst_limit policy) 0"
  from assms(1) have "s1 = snd (increment_runtime_policy_loss_allowance_counter ?key 1 ?limit s)"
    by (auto simp: reserve_runtime_quota_loss_allowance_def Let_def split: if_splits prod.splits)
  with assms(2,3) show ?thesis
    using loss_counters.counter_increment [of ?key 1 ?limit s ?key]
    by (simp add: saturating_add_exact is_i64_def i64_simps)
qed

end
