(* ===== verification/Gateway_Runtime_Policy.thy ===== *)
theory Gateway_Runtime_Policy
  imports Gateway_Budget_Steps Gateway_Quota
begin

text \<open>
  The runtime policy preflight as a whole, its release, the counters written at the end of a
  request, and the reconciler (\<open>crates/starweaver-gateway/src/service.rs\<close>). An audit event is
  modelled by the fields that vary. The ids of audit events are not modelled.
\<close>

subsection \<open>Preflight and release\<close>

record policy_preflight =
  pf_budget_reservations :: "budget_reservation list"
  pf_quota_reservations :: "quota_reservation list"

definition enforce_runtime_policy_preflight ::
  "calendar \<Rightarrow> (nat \<Rightarrow> string) \<Rightarrow> (string \<Rightarrow> datetime) \<Rightarrow> policy_admin \<Rightarrow> quota_policy list \<Rightarrow>
   authenticated_actor \<Rightarrow> replay_request \<Rightarrow> selected_route_evidence option \<Rightarrow> nat \<Rightarrow> datetime \<Rightarrow>
   policy_store \<Rightarrow> policy_preflight gateway_result \<times> policy_store" where
  "enforce_runtime_policy_preflight cal new_id utc_now admin quotas actor request selected
     request_body_bytes now s =
     (case enforce_runtime_budget_preflight cal new_id utc_now admin actor selected now s of
        (Inl e, s1) \<Rightarrow> (Inl e, s1)
      | (Inr budget_reservations, s1) \<Rightarrow>
          (case enforce_runtime_quota_preflight quotas actor request selected request_body_bytes now s1 of
             (Inl e, s2) \<Rightarrow>
               (Inl e, release_runtime_budget_reservations utc_now budget_reservations s2)
           | (Inr quota_reservations, s2) \<Rightarrow>
               (Inr \<lparr>pf_budget_reservations = budget_reservations,
                  pf_quota_reservations = quota_reservations\<rparr>, s2)))"

definition release_runtime_policy_reservations ::
  "(string \<Rightarrow> datetime) \<Rightarrow> policy_preflight \<Rightarrow> policy_store \<Rightarrow> policy_store" where
  "release_runtime_policy_reservations utc_now preflight s =
     release_runtime_quota_reservations (pf_quota_reservations preflight)
       (release_runtime_budget_reservations utc_now (pf_budget_reservations preflight) s)"

subsection \<open>Counters at the end of a request\<close>

definition finalize_runtime_token_actual_quota_terminal ::
  "quota_policy list \<Rightarrow> authenticated_actor \<Rightarrow> replay_request \<Rightarrow> selected_route_evidence \<Rightarrow>
   datetime \<Rightarrow> json \<Rightarrow> policy_store \<Rightarrow> policy_store" where
  "finalize_runtime_token_actual_quota_terminal quotas actor request selected ended_at payload s =
     (let tokens = terminal_usage_token_count payload in
      if tokens \<le> 0 then s
      else fold (\<lambda>policy s.
        if qp_status policy \<noteq> ResActive \<or> qp_counter_kind policy \<noteq> ''token_actual_rate'' \<or>
           qp_increment_source policy \<noteq> ''terminal_usage_event'' \<or>
           \<not> runtime_quota_policy_matches_request policy actor request (Some selected)
        then s
        else snd (adjust_runtime_policy_counter (runtime_quota_counter_key policy ended_at) tokens s))
        (quota_policies_for_tenant quotas (actor_tenant_id actor)) s)"

subsection \<open>The reconciler\<close>

definition runtime_quota_policy_has_durable_repair_source :: "quota_policy \<Rightarrow> bool" where
  "runtime_quota_policy_has_durable_repair_source policy \<longleftrightarrow>
     quota_kind policy \<in> {(''token_actual_rate'', ''terminal_usage_event''),
       (''stream_duration'', ''stream_start'')} \<and>
     qp_window policy \<in> {''fixed'', ''sliding'', ''ledger_bucket''}"

definition runtime_quota_usage_event_matches_policy :: "quota_policy \<Rightarrow> usage_event \<Rightarrow> bool" where
  "runtime_quota_usage_event_matches_policy policy event =
     (let kind = qp_scope_kind policy; i = qp_scope_id policy in
      if kind = ''tenant'' then ue_tenant_id event = i
      else if kind = ''organization'' then ue_organization_id event = Some i
      else if kind = ''project'' then ue_project_id event = Some i
      else if kind = ''credential'' then ue_upstream_credential_id event = Some i
      else if kind = ''alias'' then ue_model_alias_id event = Some i
      else if kind = ''endpoint'' then ue_provider_endpoint_id event = Some i
      else if kind = ''protocol_family''
      then protocol_family_as_str (ue_protocol_family event) = i
      else False)"

definition runtime_quota_usage_event_matches_window ::
  "quota_policy \<Rightarrow> usage_event \<Rightarrow> datetime \<Rightarrow> bool" where
  "runtime_quota_usage_event_matches_window policy event now =
     (if qp_window policy = ''fixed'' \<or> qp_window policy = ''sliding''
      then minute_of (ue_occurred_at event) = minute_of now
      else qp_window policy = ''ledger_bucket'')"

definition durable_stream_duration_seconds :: "usage_event \<Rightarrow> i64" where
  "durable_stream_duration_seconds event =
     (if ue_time_to_first_token_ms event = None then 0
      else max (unwrap_or (ue_latency_ms event) 0 div 1000) 1)"

definition runtime_quota_durable_usage_event_value :: "quota_policy \<Rightarrow> usage_event \<Rightarrow> i64" where
  "runtime_quota_durable_usage_event_value policy event =
     (if qp_counter_kind policy = ''token_actual_rate''
      then terminal_usage_token_count (ue_usage_payload event)
      else if qp_counter_kind policy = ''stream_duration'' then durable_stream_duration_seconds event
      else 0)"

definition runtime_quota_durable_usage_value_for_policy ::
  "quota_policy \<Rightarrow> usage_event list \<Rightarrow> datetime \<Rightarrow> i64" where
  "runtime_quota_durable_usage_value_for_policy policy events now =
     wrap_i64 (sum_list (map (runtime_quota_durable_usage_event_value policy)
       (filter (\<lambda>event. ue_status event = ''success'' \<and>
          runtime_quota_usage_event_matches_policy policy event \<and>
          runtime_quota_usage_event_matches_window policy event now) events)))"

datatype policy_audit =
    LeaseExpiryAudit string string i64 i64
  | RepairAudit string i64 i64 i64

text \<open>
  A lease expiry event names the policy, the lease and the counter before and after; a repair
  event names the policy, the counter before and after, and the difference.
\<close>

record reconciliation_summary =
  sm_hot_state_available :: bool
  sm_considered_budget_policy_count :: nat
  sm_expired_budget_lease_count :: nat
  sm_expired_budget_lease_total :: i64
  sm_considered_quota_policy_count :: nat
  sm_repairable_quota_policy_count :: nat
  sm_repaired_counter_count :: nat
  sm_audit_event_count :: nat
  sm_repaired_delta_total :: i64

definition empty_summary :: "bool \<Rightarrow> reconciliation_summary" where
  "empty_summary available =
     \<lparr>sm_hot_state_available = available, sm_considered_budget_policy_count = 0,
      sm_expired_budget_lease_count = 0, sm_expired_budget_lease_total = 0,
      sm_considered_quota_policy_count = 0, sm_repairable_quota_policy_count = 0,
      sm_repaired_counter_count = 0, sm_audit_event_count = 0, sm_repaired_delta_total = 0\<rparr>"

text \<open>The state of a tick: the summary, the audit log and the runtime policy store.\<close>

type_synonym tick = "reconciliation_summary \<times> policy_audit list \<times> policy_store"

definition settle_expired_lease :: "budget_lease \<Rightarrow> tick \<Rightarrow> tick" where
  "settle_expired_lease lease tick =
     (case tick of (summary, audits, s) \<Rightarrow>
        let previous = runtime_policy_counter s (bl_counter_key lease);
            (repaired, s1) = adjust_runtime_policy_counter (bl_counter_key lease) (- bl_amount lease) s in
        (summary\<lparr>sm_expired_budget_lease_count := sm_expired_budget_lease_count summary + 1,
           sm_expired_budget_lease_total :=
             saturating_add (sm_expired_budget_lease_total summary) (bl_amount lease),
           sm_audit_event_count := sm_audit_event_count summary + 1\<rparr>,
         audits @ [LeaseExpiryAudit (bl_budget_policy_id lease) (bl_lease_id lease) previous repaired],
         s1))"

definition repair_quota_counter :: "usage_event list \<Rightarrow> datetime \<Rightarrow> quota_policy \<Rightarrow> tick \<Rightarrow> tick" where
  "repair_quota_counter events now policy tick =
     (case tick of (summary, audits, s) \<Rightarrow>
        if qp_status policy \<noteq> ResActive then tick
        else
          let summary1 = summary\<lparr>sm_considered_quota_policy_count :=
                sm_considered_quota_policy_count summary + 1\<rparr> in
          if \<not> runtime_quota_policy_has_durable_repair_source policy then (summary1, audits, s)
          else
            let summary2 = summary1\<lparr>sm_repairable_quota_policy_count :=
                  sm_repairable_quota_policy_count summary1 + 1\<rparr>;
                durable = runtime_quota_durable_usage_value_for_policy policy events now;
                key = runtime_quota_counter_key policy now;
                current = runtime_policy_counter s key in
            if durable \<le> 0 \<or> current \<ge> durable then (summary2, audits, s)
            else
              let delta = saturating_sub durable current in
              (summary2\<lparr>sm_repaired_counter_count := sm_repaired_counter_count summary2 + 1,
                 sm_audit_event_count := sm_audit_event_count summary2 + 1,
                 sm_repaired_delta_total := saturating_add (sm_repaired_delta_total summary2) delta\<rparr>,
               audits @ [RepairAudit (qp_quota_policy_id policy) current durable delta],
               snd (adjust_runtime_policy_counter key delta s)))"

definition run_runtime_policy_reconciler_once ::
  "policy_admin \<Rightarrow> quota_policy list \<Rightarrow> usage_event list \<Rightarrow> string \<Rightarrow> datetime \<Rightarrow> policy_store \<Rightarrow> tick" where
  "run_runtime_policy_reconciler_once admin quotas events tenant_id now s =
     (let available = runtime_policy_hot_state_available s; summary = empty_summary available in
      if \<not> available then (summary, [], s)
      else
        let summary1 = summary\<lparr>sm_considered_budget_policy_count :=
              length (filter runtime_budget_policy_is_preflight_enforced
                (budget_policies_for_tenant admin tenant_id))\<rparr>;
            (expired, s1) = expire_runtime_budget_leases tenant_id now s;
            tick1 = fold settle_expired_lease expired (summary1, [], s1) in
        fold (repair_quota_counter (filter (\<lambda>e. ue_tenant_id e = tenant_id) events) now)
          (quota_policies_for_tenant quotas tenant_id) tick1)"

subsection \<open>Repair\<close>

definition tick_store :: "tick \<Rightarrow> policy_store" where
  "tick_store tick = snd (snd tick)"

lemma wrap_le_max: "wrap_i64 x \<le> i64_max"
  using wrap_i64_is_i64 by (simp add: is_i64_def)

definition counters_i64 :: "policy_store \<Rightarrow> bool" where
  "counters_i64 s \<longleftrightarrow> (\<forall>key. 0 \<le> runtime_policy_counter s key \<and> runtime_policy_counter s key \<le> i64_max)"

text \<open>One repair sets the counter to the durable value exactly when it is behind it.\<close>

lemma repair_effect:
  assumes "counters_i64 (tick_store tick)"
  shows "runtime_policy_counter (tick_store (repair_quota_counter events now policy tick)) key =
    (let durable = runtime_quota_durable_usage_value_for_policy policy events now in
     if qp_status policy = ResActive \<and> runtime_quota_policy_has_durable_repair_source policy \<and>
        key = runtime_quota_counter_key policy now
     then max (runtime_policy_counter (tick_store tick) key) durable
     else runtime_policy_counter (tick_store tick) key)"
proof -
  obtain summary audits s where tick: "tick = (summary, audits, s)" by (rule prod_cases3)
  let ?d = "runtime_quota_durable_usage_value_for_policy policy events now"
  let ?k = "runtime_quota_counter_key policy now"
  have c: "0 \<le> runtime_policy_counter s k" "runtime_policy_counter s k \<le> i64_max" for k
    using assms by (simp_all add: counters_i64_def tick tick_store_def)
  have d: "?d \<le> i64_max" by (simp add: runtime_quota_durable_usage_value_for_policy_def wrap_le_max)
  show ?thesis
  proof (cases "qp_status policy = ResActive \<and> runtime_quota_policy_has_durable_repair_source policy \<and>
      runtime_policy_counter s ?k < ?d")
    case True
    then have pos: "0 < ?d" using c(1) [of ?k] by linarith
    have delta: "saturating_sub ?d (runtime_policy_counter s ?k) = ?d - runtime_policy_counter s ?k"
      using True c [of ?k] d by (intro saturating_sub_exact) (simp add: is_i64_def i64_simps)
    have "tick_store (repair_quota_counter events now policy tick) =
        snd (adjust_runtime_policy_counter ?k (?d - runtime_policy_counter s ?k) s)"
      using True pos delta by (simp add: repair_quota_counter_def tick tick_store_def Let_def)
    moreover have "max (saturating_add (runtime_policy_counter s ?k) (?d - runtime_policy_counter s ?k)) 0 = ?d"
      using pos d by (simp add: saturating_add_exact is_i64_def i64_simps)
    ultimately show ?thesis
      using True by (simp add: quota_counters.counter_adjust tick tick_store_def Let_def)
  next
    case False
    then have "tick_store (repair_quota_counter events now policy tick) = s"
      by (auto simp: repair_quota_counter_def tick tick_store_def Let_def)
    moreover have "max (runtime_policy_counter s ?k) ?d = runtime_policy_counter s ?k"
      if "qp_status policy = ResActive" "runtime_quota_policy_has_durable_repair_source policy"
      using False that by simp
    ultimately show ?thesis by (simp add: tick tick_store_def Let_def)
  qed
qed

lemma repair_counters_i64:
  assumes "counters_i64 (tick_store tick)"
  shows "counters_i64 (tick_store (repair_quota_counter events now policy tick))"
  using assms
  by (auto simp: counters_i64_def repair_effect [OF assms] Let_def le_max_iff_disj
      runtime_quota_durable_usage_value_for_policy_def wrap_le_max)

lemma repair_all:
  assumes "counters_i64 (tick_store tick)"
  shows "runtime_policy_counter (tick_store tick) key \<le>
      runtime_policy_counter (tick_store (fold (repair_quota_counter events now) policies tick)) key \<and>
    (\<forall>policy \<in> set policies. qp_status policy = ResActive \<and>
       runtime_quota_policy_has_durable_repair_source policy \<and>
       key = runtime_quota_counter_key policy now \<longrightarrow>
       runtime_quota_durable_usage_value_for_policy policy events now \<le>
       runtime_policy_counter (tick_store (fold (repair_quota_counter events now) policies tick)) key)"
  using assms
proof (induction policies arbitrary: tick)
  case Nil
  then show ?case by simp
next
  case (Cons policy policies)
  let ?first = "runtime_policy_counter (tick_store (repair_quota_counter events now policy tick)) key"
  have "runtime_policy_counter (tick_store tick) key \<le> ?first"
    "qp_status policy = ResActive \<and> runtime_quota_policy_has_durable_repair_source policy \<and>
       key = runtime_quota_counter_key policy now \<Longrightarrow>
     runtime_quota_durable_usage_value_for_policy policy events now \<le> ?first"
    by (auto simp: repair_effect [OF Cons.prems] Let_def)
  with Cons.IH [OF repair_counters_i64 [OF Cons.prems, of events now policy]] show ?case
    by (auto intro: order_trans)
qed

end
