(* ===== verification/Gateway_Policy_Properties.thy ===== *)
theory Gateway_Policy_Properties
  imports Gateway_Runtime_Policy
begin

text \<open>
  The properties of budgets, quotas and the reconciler, each with an instance on a small tenant:
  two request budgets and an actor of one organization.
\<close>

subsection \<open>A tenant to instantiate with\<close>

definition demo_calendar :: calendar where
  "demo_calendar =
     \<lparr>cal_year = (\<lambda>_. 2025), cal_month = (\<lambda>_. 1), cal_day = (\<lambda>_. 1), cal_format_ymd = (\<lambda>_. ''2025-01-01''),
      cal_from_timestamp = (\<lambda>t. Some (t * 1000000000)), cal_from_ymd = (\<lambda>_ _ _. Some 0)\<rparr>"

definition demo_ids :: "nat \<Rightarrow> string" where
  "demo_ids n = ''bls_'' @ replicate n CHR ''x''"

lemma inj_demo_ids: "inj demo_ids"
proof (rule injI)
  fix m n
  assume "demo_ids m = demo_ids n"
  then have "length (demo_ids m) = length (demo_ids n)" by simp
  then show "m = n" by (simp add: demo_ids_def)
qed

definition tenant_actor :: authenticated_actor where
  "tenant_actor = actor_for_user_session
     \<lparr>scope_tenant_id = ''t1'', scope_organization_id = Some ''o1'', scope_project_id = None\<rparr>
     ''u1'' ''sess'' ''req'' ''trace'' None"

definition request_budget :: "string \<Rightarrow> i64 \<Rightarrow> budget_policy" where
  "request_budget i limit =
     \<lparr>bp_budget_policy_id = i, bp_tenant_id = ''t1'', bp_scope_kind = ''tenant'', bp_scope_id = ''t1'',
      bp_organization_id = None, bp_project_id = None, bp_currency = None, bp_period = ''all_time'',
      bp_limit_kind = ''requests'', bp_hard_limit = Some limit, bp_soft_limit = None, bp_thresholds = [],
      bp_reset_policy = ''calendar'', bp_overage_mode = ''block_new_requests'', bp_consistency_mode = ''strict'',
      bp_status = ResActive, bp_resource_version = 1, bp_schema_version = 1, bp_created_by = ''u1'',
      bp_created_at = 0, bp_updated_at = 0\<rparr>"

definition budget_key :: "string \<Rightarrow> string" where
  "budget_key i = ''t1|'' @ i @ ''|tenant|t1|requests|all_time|all_time''"

definition budget_admin :: "budget_policy list \<Rightarrow> policy_admin" where
  "budget_admin policies =
     \<lparr>pa_budget_policies = policies, pa_ledger_buckets = [], pa_emergency_operations = []\<rparr>"

lemmas budget_demo_defs =
  demo_calendar_def demo_ids_def tenant_actor_def request_budget_def budget_key_def budget_admin_def
  actor_for_user_session_def

text \<open>A run that admits and records one request on the budget \<open>b1\<close>, limited to one request.\<close>

definition demo_lease :: budget_lease where
  "demo_lease = new_budget_lease tenant_actor (request_budget ''b1'' 1) (budget_key ''b1'') ''bls_'' 0"

definition demo_run :: budget_run where
  "demo_run =
     initial_run\<lparr>run_store := record_runtime_budget_lease demo_lease
       (snd (adjust_runtime_policy_counter (budget_key ''b1'') 1 empty_policy_store))\<rparr>"

lemma demo_run_reachable: "reachable (\<lambda>_. 0) (\<lambda>_. 1) demo_run"
proof -
  have "reserve_runtime_request_budget demo_calendar ''bls_'' tenant_actor (request_budget ''b1'' 1) 0
      1 0 (run_store initial_run) =
    (Inr \<lparr>br_lease_id = ''bls_'', br_counter_key = budget_key ''b1'', br_amount = 1\<rparr>, run_store demo_run)"
    by (simp add: reserve_runtime_request_budget_def runtime_policy_hot_state_available_def
        initial_run_def empty_policy_store_def demo_run_def demo_lease_def budget_demo_defs Let_def
        runtime_budget_reservation_key_def runtime_budget_reservation_period_key_def
        adjust_runtime_policy_counter_def saturating_add_def i64_simps)
  from reserve_steps [where limit = "\<lambda>_. 1" and floor = "\<lambda>_. 0", OF this refl]
  have "(budget_step (\<lambda>_. 0) (\<lambda>_. 1))\<^sup>*\<^sup>* initial_run (initial_run\<lparr>run_store := run_store demo_run\<rparr>)"
    by (simp add: initial_run_def empty_policy_store_def runtime_policy_counter_def i64_simps)
  then show ?thesis by (simp add: reachable_def demo_run_def)
qed

lemma demo_run_reserved: "reserved_count (run_store demo_run) (budget_key ''b1'') = 1"
  by (simp add: demo_run_def reserved_count_def record_runtime_budget_lease_def
      adjust_runtime_policy_counter_def empty_policy_store_def demo_lease_def new_budget_lease_def
      reserved_on_def Let_def)

subsection \<open>Budgets\<close>



text \<open>
  C19. Budget counters are exact: in every reachable state a counter is the number of reserved
  leases on it plus the work in flight, so with nothing in flight it is the number of reserved
  leases. No release is applied twice and none is lost.
\<close>

theorem budget_counter_exact:
  assumes "reachable floor limit r" and "\<forall>key. i64_min \<le> limit key \<and> limit key < i64_max"
  shows "runtime_policy_counter (run_store r) key =
    int (reserved_count (run_store r) key + on_key key (run_admitted r) +
         count (run_rejected r) key + on_key key (run_draining r))"
  using reachable_inv [OF assms] counters_exactD(1) by (auto simp: budget_inv_def)

theorem budget_counter_exact_witness:
  "runtime_policy_counter (run_store demo_run) (budget_key ''b1'') = 1"
  using budget_counter_exact [OF demo_run_reachable, of "budget_key ''b1''"] demo_run_reserved
  by (simp add: i64_simps demo_run_def initial_run_def)



lemma preflight_inv_start:
  assumes "leases_wf s" and "\<forall>n. new_id n \<notin> fst ` set (ps_leases s)"
  shows "preflight_inv new_id s [] s"
  using assms by (simp add: preflight_inv_def reservations_on_def)

text \<open>
  A budget preflight and its release cancel: releasing what a successful preflight reserved
  restores every budget counter and the number of reserved leases on it. Lease ids are fresh.
\<close>

theorem budget_preflight_release_roundtrip:
  assumes "enforce_runtime_budget_preflight cal new_id utc_now admin actor selected now s = (Inr rs, s')"
    and "leases_wf s" and "\<forall>n. new_id n \<notin> fst ` set (ps_leases s)" and "inj new_id"
    and "counter_room s (length (budget_policies_for_tenant admin (actor_tenant_id actor)))"
  shows "runtime_policy_counter (release_runtime_budget_reservations utc_now rs s') = runtime_policy_counter s \<and>
    reserved_count (release_runtime_budget_reservations utc_now rs s') = reserved_count s"
proof -
  from assms(1) have loop: "budget_preflight_loop cal new_id utc_now actor selected
      (ledger_buckets_for_tenant admin (actor_tenant_id actor)) now
      (budget_policies_for_tenant admin (actor_tenant_id actor)) [] s = (Inr rs, s')"
    by (simp add: enforce_runtime_budget_preflight_def split: if_splits)
  have inv: "preflight_inv new_id s rs s'"
    using budget_preflight_loop_spec [OF preflight_inv_start [OF assms(2,3)] assms(4) _ loop] assms(5) by simp
  have "length rs \<le> length (budget_policies_for_tenant admin (actor_tenant_id actor))"
    using budget_preflight_loop_length [OF loop] by simp
  with assms(5) have "counter_room s (length rs)" by (rule counter_room_mono)
  with inv assms(4) show ?thesis by (rule preflight_inv_release)
qed

lemma demo_room: "counter_room empty_policy_store n" if "int n < i64_max"
  using that by (simp add: counter_room_def runtime_policy_counter_def empty_policy_store_def)

lemma demo_fresh: "leases_wf empty_policy_store" "\<forall>n. demo_ids n \<notin> fst ` set (ps_leases empty_policy_store)"
  by (simp_all add: leases_wf_def empty_policy_store_def)

definition two_budgets :: policy_admin where
  "two_budgets = budget_admin [request_budget ''b1'' 5, request_budget ''b2'' 1]"

theorem budget_preflight_release_roundtrip_witness:
  "\<exists>rs s'. enforce_runtime_budget_preflight demo_calendar demo_ids (\<lambda>_. 0) two_budgets tenant_actor
       None 0 empty_policy_store = (Inr rs, s') \<and> length rs = 2 \<and>
     runtime_policy_counter (release_runtime_budget_reservations (\<lambda>_. 0) rs s') = (\<lambda>_. 0)"
proof -
  let ?p = "enforce_runtime_budget_preflight demo_calendar demo_ids (\<lambda>_. 0) two_budgets tenant_actor
       None 0 empty_policy_store"
  have "map_sum id length (fst ?p) = Inr 2" by code_simp
  then obtain rs s' where p: "?p = (Inr rs, s')" "length rs = 2"
    by (cases "fst ?p") (auto simp: prod_eq_iff)
  have "length (budget_policies_for_tenant two_budgets (actor_tenant_id tenant_actor)) = 2" by code_simp
  then have "counter_room empty_policy_store
      (length (budget_policies_for_tenant two_budgets (actor_tenant_id tenant_actor)))"
    using demo_room [of 2] by (simp add: i64_simps)
  from budget_preflight_release_roundtrip [OF p(1) demo_fresh inj_demo_ids this]
  have "runtime_policy_counter (release_runtime_budget_reservations (\<lambda>_. 0) rs s') =
      runtime_policy_counter empty_policy_store" by blast
  moreover have "runtime_policy_counter empty_policy_store = (\<lambda>_. 0)"
    by (rule ext) (simp add: runtime_policy_counter_def empty_policy_store_def)
  ultimately show ?thesis using p by metis
qed

text \<open>
  A request that a budget's ledger denies leaves no reservation behind: when the preflight
  fails because a hard limit is reached, every counter and every number of reserved leases is what
  it was before, whatever the policies before it had reserved.
\<close>

theorem budget_ledger_denial_clean:
  assumes "enforce_runtime_budget_preflight cal new_id utc_now admin actor selected now s =
      (Inl (BudgetExceeded ''hard_limit_reached''), s')"
    and "leases_wf s" and "\<forall>n. new_id n \<notin> fst ` set (ps_leases s)" and "inj new_id"
    and "counter_room s (length (budget_policies_for_tenant admin (actor_tenant_id actor)))"
  shows "runtime_policy_counter s' = runtime_policy_counter s \<and> reserved_count s' = reserved_count s"
proof -
  from assms(1) have loop: "budget_preflight_loop cal new_id utc_now actor selected
      (ledger_buckets_for_tenant admin (actor_tenant_id actor)) now
      (budget_policies_for_tenant admin (actor_tenant_id actor)) [] s =
      (Inl (BudgetExceeded ''hard_limit_reached''), s')"
    by (simp add: enforce_runtime_budget_preflight_def split: if_splits)
  show ?thesis
    using budget_preflight_loop_spec [OF preflight_inv_start [OF assms(2,3)] assms(4) _ loop] assms(5) by simp
qed

theorem budget_ledger_denial_clean_witness:
  "\<exists>s'. enforce_runtime_budget_preflight demo_calendar demo_ids (\<lambda>_. 0)
       (budget_admin [request_budget ''b1'' 5, request_budget ''b2'' 0]) tenant_actor None 0
       empty_policy_store = (Inl (BudgetExceeded ''hard_limit_reached''), s') \<and>
     runtime_policy_counter s' = runtime_policy_counter empty_policy_store"
proof -
  let ?admin = "budget_admin [request_budget ''b1'' 5, request_budget ''b2'' 0]"
  let ?p = "enforce_runtime_budget_preflight demo_calendar demo_ids (\<lambda>_. 0) ?admin tenant_actor
       None 0 empty_policy_store"
  have "map_sum id length (fst ?p) = Inl (BudgetExceeded ''hard_limit_reached'')" by code_simp
  then obtain s' where p: "?p = (Inl (BudgetExceeded ''hard_limit_reached''), s')"
    by (cases "fst ?p") (auto simp: prod_eq_iff)
  have "length (budget_policies_for_tenant ?admin (actor_tenant_id tenant_actor)) = 2" by code_simp
  then have "counter_room empty_policy_store
      (length (budget_policies_for_tenant ?admin (actor_tenant_id tenant_actor)))"
    using demo_room [of 2] by (simp add: i64_simps)
  from budget_ledger_denial_clean [OF p demo_fresh inj_demo_ids this] p show ?thesis by blast
qed

text \<open>
  A request that a later budget's reservation denies leaks its earlier reservations: when a
  reservation fails inside the preflight, the loop returns the error with the counters and leases
  it had, so what it reserved for the policies before stays reserved until it expires.
\<close>

theorem budget_reserve_denial_keeps_reservations:
  assumes "bp_hard_limit policy = Some limit"
    and "runtime_budget_policy_is_preflight_enforced policy"
    and "runtime_budget_policy_matches_request policy actor selected"
    and "\<not> budget_exceeded policy (budget_ledger_value cal policy buckets now) limit"
    and "bp_limit_kind policy = ''requests''"
    and "reserve_runtime_request_budget cal (new_id (length rs)) actor policy
      (budget_ledger_value cal policy buckets now) limit now s = (Inl e, s1)"
    and "counter_room s 0"
  shows "budget_preflight_loop cal new_id utc_now actor selected buckets now (policy # policies) rs s = (Inl e, s1) \<and>
    runtime_policy_counter s1 = runtime_policy_counter s \<and> ps_leases s1 = ps_leases s"
  using budget_preflight_loop_reserve_failed [where new_id = new_id and rs = rs, OF assms(1-6)]
    reserve_failed [OF assms(6)]
    counter_roomD [OF assms(7)] by simp

text \<open>The store in which another request holds the only unit of the second budget.\<close>

definition contended_store :: policy_store where
  "contended_store = snd (adjust_runtime_policy_counter (budget_key ''b2'') 1 empty_policy_store)"

definition first_reserved :: policy_store where
  "first_reserved = snd (reserve_runtime_request_budget demo_calendar (demo_ids 0) tenant_actor
     (request_budget ''b1'' 5) 0 5 0 contended_store)"

theorem budget_reserve_denial_keeps_reservations_witness:
  "\<exists>e s1. budget_preflight_loop demo_calendar demo_ids (\<lambda>_. 0) tenant_actor None [] 0
       [request_budget ''b2'' 1]
       [\<lparr>br_lease_id = demo_ids 0, br_counter_key = budget_key ''b1'', br_amount = 1\<rparr>]
       first_reserved = (Inl e, s1) \<and>
     runtime_policy_counter s1 (budget_key ''b1'') = 1 \<and> ps_leases s1 \<noteq> []"
proof -
  let ?rs = "[\<lparr>br_lease_id = demo_ids 0, br_counter_key = budget_key ''b1'', br_amount = 1\<rparr>]"
  let ?b2 = "request_budget ''b2'' 1"
  let ?res = "reserve_runtime_request_budget demo_calendar (demo_ids (length ?rs)) tenant_actor ?b2
      (budget_ledger_value demo_calendar ?b2 [] 0) 1 0 first_reserved"
  have "fst ?res = Inl (BudgetExceeded ''hard_limit_reserved'')" by code_simp
  then obtain s1 where r: "?res = (Inl (BudgetExceeded ''hard_limit_reserved''), s1)"
    by (simp add: prod_eq_iff)
  have "bp_hard_limit ?b2 = Some 1" "runtime_budget_policy_is_preflight_enforced ?b2"
    "runtime_budget_policy_matches_request ?b2 tenant_actor None"
    "\<not> budget_exceeded ?b2 (budget_ledger_value demo_calendar ?b2 [] 0) 1" "bp_limit_kind ?b2 = ''requests''"
    by code_simp+
  moreover have "counter_room first_reserved 0"
    by (simp add: counter_room_def first_reserved_def contended_store_def runtime_policy_counter_def
        reserve_runtime_request_budget_def runtime_policy_hot_state_available_def Let_def
        adjust_runtime_policy_counter_def empty_policy_store_def record_runtime_budget_lease_def
        saturating_add_def i64_simps runtime_budget_reservation_key_def
        runtime_budget_reservation_period_key_def budget_demo_defs)
  ultimately have "budget_preflight_loop demo_calendar demo_ids (\<lambda>_. 0) tenant_actor None [] 0 [?b2] ?rs first_reserved =
      (Inl (BudgetExceeded ''hard_limit_reserved''), s1) \<and>
      runtime_policy_counter s1 = runtime_policy_counter first_reserved \<and> ps_leases s1 = ps_leases first_reserved"
    using r by (intro budget_reserve_denial_keeps_reservations)
  moreover have "runtime_policy_counter first_reserved (budget_key ''b1'') = 1" by code_simp
  moreover have "length (ps_leases first_reserved) = 1" by code_simp
  ultimately show ?thesis by (metis length_0_conv zero_neq_one)
qed

subsection \<open>Quotas\<close>

text \<open>
  C18. Concurrency quotas hold under every interleaving: the slots held on a counter never exceed
  its limit, and the counter is the number of held slots plus the rollbacks in flight.
\<close>

theorem concurrency_quota_respected:
  assumes "(slot_step limit)\<^sup>*\<^sup>* initial_slots r"
  shows "int (count (sl_held r) key) \<le> max 0 (limit key) \<and>
    runtime_policy_counter (sl_store r) key = int (count (sl_held r) key + count (sl_rejected r) key)"
  using slot_invD(2,3) [OF slots_reachable_inv [OF assms]] by simp

theorem concurrency_quota_respected_witness:
  "\<exists>r. (slot_step (\<lambda>_. 1))\<^sup>*\<^sup>* initial_slots r \<and> count (sl_held r) ''k'' = 1 \<and>
     int (count (sl_held r) ''k'') \<le> 1"
proof -
  let ?a = "adjust_runtime_policy_counter ''k'' 1 (sl_store initial_slots)"
  let ?r = "initial_slots\<lparr>sl_store := snd ?a, sl_held := add_mset ''k'' (sl_held initial_slots)\<rparr>"
  have "fst ?a = 1" by code_simp
  then have "slot_step (\<lambda>_. 1) initial_slots ?r"
    by (intro slot_step.acquired [where v = 1])
      (simp_all add: prod_eq_iff initial_slots_def empty_policy_store_def runtime_policy_counter_def i64_simps)
  then have run: "(slot_step (\<lambda>_. 1))\<^sup>*\<^sup>* initial_slots ?r" by simp
  from concurrency_quota_respected [OF run, of "''k''"] run show ?thesis
    by (intro exI [of _ ?r]) (simp add: initial_slots_def)
qed

text \<open>
  A request rate limit admits exactly its limit per window: of \<open>n\<close> attempts on a fresh
  counter, the first \<open>limit\<close> are allowed and the others are not.
\<close>

theorem rate_limit_exact:
  assumes "runtime_policy_counter s key = 0" and "int n \<le> i64_max"
  shows "length (filter (\<lambda>allowed. allowed) (fst (rate_attempts key limit n s))) = min n (nat limit)"
  using rate_attempts_from [of s key 0 n limit] assms by simp

theorem rate_limit_exact_witness:
  "length (filter (\<lambda>allowed. allowed) (fst (rate_attempts ''k'' 2 5 empty_policy_store))) = 2"
  using rate_limit_exact [of empty_policy_store "''k''" 5 2]
  by (simp add: runtime_policy_counter_def empty_policy_store_def i64_simps)

text \<open>
  With hot state available, a request that a quota refuses gives back every slot it took:
  all counters but the rate counters it was charged on are what they were before.
\<close>

theorem quota_denial_clean:
  assumes "reserve_runtime_quota_preflight input policies s = (Inl e, s')"
    and "qi_hot_state_available input" and "base_room (runtime_policy_counter s) (length policies)"
    and "key \<notin> rate_keys policies (qi_now input)"
  shows "runtime_policy_counter s' key = runtime_policy_counter s key"
proof -
  have "quota_inv (runtime_policy_counter s) (rate_keys policies (qi_now input)) 0 [] s"
    by (simp add: quota_inv_def)
  from quota_preflight_loop_spec [OF this _ assms(2) order_refl
      assms(1) [unfolded reserve_runtime_quota_preflight_def]] assms(3,4)
  show ?thesis by simp
qed

definition slot_quota :: "string \<Rightarrow> i64 \<Rightarrow> string \<Rightarrow> quota_policy" where
  "slot_quota i limit loss =
     \<lparr>qp_quota_policy_id = i, qp_tenant_id = ''t1'', qp_scope_kind = ''tenant'', qp_scope_id = ''t1'',
      qp_organization_id = None, qp_project_id = None,
      qp_counter_kind = ''concurrent_request'', qp_limit = limit, qp_burst_limit = Some 1,
      qp_window = ''request_lifetime'', qp_increment_source = ''preflight_acquire'',
      qp_loss_behavior = loss, qp_status = ResActive\<rparr>"

definition quota_request :: "bool \<Rightarrow> quota_input" where
  "quota_request available =
     \<lparr>qi_request = \<lparr>rq_streaming = False, rq_protocol_family = OpenAiChat\<rparr>,
      qi_request_body_bytes = 10, qi_now = 0, qi_hot_state_available = available\<rparr>"

definition slot_key :: "string \<Rightarrow> string" where
  "slot_key i = ''t1|'' @ i @ ''|tenant|t1|concurrent_request|request_lifetime|active''"

theorem quota_denial_clean_witness:
  "\<exists>s'. reserve_runtime_quota_preflight (quota_request True)
       [slot_quota ''q1'' 1 ''fail_closed'', slot_quota ''q2'' 0 ''fail_closed''] empty_policy_store =
       (Inl (QuotaExceeded ''concurrent_request_limit_reached''), s') \<and>
     runtime_policy_counter s' (slot_key ''q1'') = 0"
proof -
  let ?ps = "[slot_quota ''q1'' 1 ''fail_closed'', slot_quota ''q2'' 0 ''fail_closed'']"
  let ?p = "reserve_runtime_quota_preflight (quota_request True) ?ps empty_policy_store"
  have "map_sum id length (fst ?p) = Inl (QuotaExceeded ''concurrent_request_limit_reached'')" by code_simp
  then obtain s' where p: "?p = (Inl (QuotaExceeded ''concurrent_request_limit_reached''), s')"
    by (cases "fst ?p") (auto simp: prod_eq_iff)
  have "qi_hot_state_available (quota_request True)" by (simp add: quota_request_def)
  moreover have "base_room (runtime_policy_counter empty_policy_store) (length ?ps)"
    by (simp add: base_room_def runtime_policy_counter_def empty_policy_store_def i64_simps)
  moreover have "slot_key ''q1'' \<notin> rate_keys ?ps (qi_now (quota_request True))"
    by (auto simp: rate_keys_def quota_kind_def slot_quota_def)
  ultimately have "runtime_policy_counter s' (slot_key ''q1'') =
      runtime_policy_counter empty_policy_store (slot_key ''q1'')"
    using quota_denial_clean [OF p] by blast
  with p show ?thesis by (simp add: runtime_policy_counter_def empty_policy_store_def)
qed

text \<open>
  When hot state is lost, a refused attempt on a fail-limited allowance is charged and never
  given back: the counter grows by one although the request holds nothing, so refused requests
  keep an allowance exhausted after every admitted one has been released.
\<close>

theorem refused_allowance_still_charged:
  assumes "reserve_runtime_quota_loss_allowance policy now s =
      (Inl (QuotaExceeded ''fail_limited_allowance_exhausted''), s1)"
    and "0 \<le> runtime_policy_loss_allowance_counter s (runtime_quota_loss_allowance_key policy now)"
    and "runtime_policy_loss_allowance_counter s (runtime_quota_loss_allowance_key policy now) < i64_max"
  shows "runtime_policy_loss_allowance_counter s1 (runtime_quota_loss_allowance_key policy now) =
    runtime_policy_loss_allowance_counter s (runtime_quota_loss_allowance_key policy now) + 1"
  using assms by (rule loss_allowance_denied)

definition allowance_quota :: quota_policy where
  "allowance_quota = slot_quota ''q1'' 1 ''fail_limited''"

definition after_one_admitted :: policy_store where
  "after_one_admitted = snd (reserve_runtime_quota_loss_allowance allowance_quota 0 empty_policy_store)"

definition after_one_refused :: policy_store where
  "after_one_refused = snd (reserve_runtime_quota_loss_allowance allowance_quota 0 after_one_admitted)"

definition after_release :: policy_store where
  "after_release = release_runtime_quota_reservations
     [\<lparr>qr_counter_key = runtime_quota_loss_allowance_key allowance_quota 0, qr_amount = 1,
       qr_counter_backend = LossAllowance\<rparr>] after_one_refused"

theorem refused_allowance_still_charged_witness:
  "runtime_policy_loss_allowance_counter after_one_refused (runtime_quota_loss_allowance_key allowance_quota 0) = 2 \<and>
   fst (reserve_runtime_quota_loss_allowance allowance_quota 0 after_release) =
     Inl (QuotaExceeded ''fail_limited_allowance_exhausted'')"
proof -
  let ?k = "runtime_quota_loss_allowance_key allowance_quota 0"
  have one: "runtime_policy_loss_allowance_counter after_one_admitted ?k = 1" by code_simp
  have "fst (reserve_runtime_quota_loss_allowance allowance_quota 0 after_one_admitted) =
      Inl (QuotaExceeded ''fail_limited_allowance_exhausted'')" by code_simp
  then have "reserve_runtime_quota_loss_allowance allowance_quota 0 after_one_admitted =
      (Inl (QuotaExceeded ''fail_limited_allowance_exhausted''), after_one_refused)"
    by (simp add: after_one_refused_def prod_eq_iff)
  from refused_allowance_still_charged [OF this] one
  have "runtime_policy_loss_allowance_counter after_one_refused ?k = 2" by (simp add: i64_simps)
  moreover have "fst (reserve_runtime_quota_loss_allowance allowance_quota 0 after_release) =
      Inl (QuotaExceeded ''fail_limited_allowance_exhausted'')" by code_simp
  ultimately show ?thesis by blast
qed

text \<open>
  When hot state is lost, a request that a later policy refuses keeps the allowances it took:
  the loop returns the refusal without releasing, and an allowance reservation has no expiry.
\<close>

theorem quota_loss_denial_keeps_reservations:
  assumes "\<not> qi_hot_state_available input"
    and "\<not> runtime_quota_policy_skips_request policy (qi_request input)"
    and "runtime_quota_policy_needs_hot_state policy"
    and "handle_runtime_quota_hot_state_loss policy (qi_now input) s = (Inl e, s1)"
  shows "quota_preflight_loop input (policy # policies) reservations s = (Inl e, s1) \<and>
    (\<forall>key. runtime_policy_loss_allowance_counter s key \<le> i64_max - 1 \<longrightarrow>
       runtime_policy_loss_allowance_counter s key \<le> runtime_policy_loss_allowance_counter s1 key)"
proof -
  have "runtime_policy_loss_allowance_counter s k \<le> runtime_policy_loss_allowance_counter s1 k"
    if "runtime_policy_loss_allowance_counter s k \<le> i64_max - 1" for k
  proof -
    let ?key = "runtime_quota_loss_allowance_key policy (qi_now input)"
    let ?inc = "increment_runtime_policy_loss_allowance_counter ?key 1 (unwrap_or (qp_burst_limit policy) 0) s"
    from assms(4) have "s1 = s \<or> s1 = snd ?inc"
      by (auto simp: handle_runtime_quota_hot_state_loss_def reserve_runtime_quota_loss_allowance_def
          Let_def split: if_splits prod.splits)
    with that show ?thesis
      by (auto simp: loss_counters.counter_increment saturating_add_def i64_simps)
  qed
  with assms show ?thesis by simp
qed

theorem quota_loss_denial_keeps_reservations_witness:
  "runtime_policy_loss_allowance_counter
     (snd (quota_preflight_loop (quota_request False)
       [allowance_quota, slot_quota ''q2'' 1 ''fail_closed''] [] empty_policy_store))
     (runtime_quota_loss_allowance_key allowance_quota 0) = 1"
proof -
  let ?q2 = "slot_quota ''q2'' 1 ''fail_closed''"
  let ?r = "\<lparr>qr_counter_key = runtime_quota_loss_allowance_key allowance_quota 0, qr_amount = 1,
    qr_counter_backend = LossAllowance\<rparr>"
  have "quota_preflight_loop (quota_request False) [?q2] [?r] after_one_admitted =
      (Inl (QuotaExceeded ''hot_state_unavailable''), after_one_admitted)"
    by (rule quota_loss_denial_keeps_reservations [THEN conjunct1])
      (simp_all add: quota_request_def slot_quota_def runtime_quota_policy_skips_request_def
        runtime_quota_policy_requires_stream_def runtime_quota_policy_needs_hot_state_def
        quota_kind_def handle_runtime_quota_hot_state_loss_def)
  moreover have "handle_runtime_quota_hot_state_loss allowance_quota 0 empty_policy_store =
      (Inr (Some ?r), after_one_admitted)"
  proof -
    have "fst (handle_runtime_quota_hot_state_loss allowance_quota 0 empty_policy_store) = Inr (Some ?r)"
      by code_simp
    then show ?thesis
      by (simp add: after_one_admitted_def prod_eq_iff handle_runtime_quota_hot_state_loss_def
          allowance_quota_def slot_quota_def)
  qed
  moreover have "\<not> runtime_quota_policy_skips_request allowance_quota (qi_request (quota_request False))"
      "runtime_quota_policy_needs_hot_state allowance_quota" by code_simp+
  ultimately have "quota_preflight_loop (quota_request False) [allowance_quota, ?q2] [] empty_policy_store =
      (Inl (QuotaExceeded ''hot_state_unavailable''), after_one_admitted)"
    by (simp add: quota_request_def)
  moreover have "runtime_policy_loss_allowance_counter after_one_admitted
      (runtime_quota_loss_allowance_key allowance_quota 0) = 1" by code_simp
  ultimately show ?thesis by simp
qed

subsection \<open>The reconciler\<close>

lemma adjust_counters_i64:
  assumes "counters_i64 s"
  shows "counters_i64 (snd (adjust_runtime_policy_counter k d s))"
  using assms by (auto simp: counters_i64_def quota_counters.counter_adjust saturating_add_def i64_simps)

lemma settle_counters_i64:
  "counters_i64 (tick_store tick) \<Longrightarrow> counters_i64 (tick_store (fold settle_expired_lease ls tick))"
proof (induction ls arbitrary: tick)
  case Nil
  then show ?case by simp
next
  case (Cons l ls)
  obtain summary audits s where tick: "tick = (summary, audits, s)" by (rule prod_cases3)
  have "counters_i64 (tick_store (settle_expired_lease l tick))"
    using Cons.prems adjust_counters_i64 [of s "bl_counter_key l" "- bl_amount l"]
    by (simp add: settle_expired_lease_def tick tick_store_def Let_def case_prod_unfold)
  with Cons.IH show ?case by simp
qed

text \<open>
  A reconciler tick brings every repairable quota counter up to the durable usage: for each
  active policy of the tenant whose counter can be proven from usage events, the counter of the
  current window is afterwards at least the usage those events record.
\<close>

theorem reconciler_repairs_quota_counters:
  assumes "counters_i64 s" and "runtime_policy_hot_state_available s"
    and "policy \<in> set quotas" and "qp_tenant_id policy = tenant_id" and "qp_status policy = ResActive"
    and "runtime_quota_policy_has_durable_repair_source policy"
  shows "runtime_quota_durable_usage_value_for_policy policy (filter (\<lambda>e. ue_tenant_id e = tenant_id) events) now
    \<le> runtime_policy_counter
        (tick_store (run_runtime_policy_reconciler_once admin quotas events tenant_id now s))
        (runtime_quota_counter_key policy now)"
proof -
  obtain ls s1 where ex: "expire_runtime_budget_leases tenant_id now s = (ls, s1)" by (rule prod.exhaust)
  have "runtime_policy_counter s1 = runtime_policy_counter s"
    using store_frames(13) [of tenant_id now s] ex by (intro counter_of_counters) simp
  with assms(1) have i64: "counters_i64 s1" by (simp add: counters_i64_def)
  obtain summary1 where run: "run_runtime_policy_reconciler_once admin quotas events tenant_id now s =
      fold (repair_quota_counter (filter (\<lambda>e. ue_tenant_id e = tenant_id) events) now)
        (quota_policies_for_tenant quotas tenant_id) (fold settle_expired_lease ls (summary1, [], s1))"
    using assms(2) ex by (simp add: run_runtime_policy_reconciler_once_def Let_def)
  have "counters_i64 (tick_store (fold settle_expired_lease ls (summary1, [], s1)))"
    using i64 by (intro settle_counters_i64) (simp add: tick_store_def)
  from repair_all [OF this, of "runtime_quota_counter_key policy now"
      "filter (\<lambda>e. ue_tenant_id e = tenant_id) events" now "quota_policies_for_tenant quotas tenant_id"]
  show ?thesis
    unfolding run using assms(3-6) by (auto simp: quota_policies_for_tenant_def)
qed

definition token_quota :: quota_policy where
  "token_quota = (slot_quota ''q1'' 100 ''fail_closed'')
     \<lparr>qp_counter_kind := ''token_actual_rate'', qp_increment_source := ''terminal_usage_event'',
      qp_window := ''fixed''\<rparr>"

definition token_event :: usage_event where
  "token_event =
     \<lparr>ue_usage_event_id = ''ue1'', ue_tenant_id = ''t1'', ue_organization_id = None,
      ue_project_id = None, ue_principal_id = None, ue_project_member_id = None,
      ue_service_account_id = None, ue_api_key_id = None, ue_request_id = ''req1'',
      ue_trace_id = ''tr1'', ue_protocol_family = OpenAiChat, ue_route_decision_id = None,
      ue_model_alias_id = None, ue_model_target_id = None, ue_route_policy_id = None,
      ue_routing_group_id = None, ue_provider_endpoint_id = None, ue_upstream_credential_id = None,
      ue_usage_confidence = ''exact'', ue_latency_ms = None, ue_time_to_first_token_ms = None,
      ue_status = ''success'', ue_usage_payload = JObject [(''total_tokens'', JInt 42)],
      ue_cost_payload = JObject [], ue_occurred_at = 0\<rparr>"

theorem reconciler_repairs_quota_counters_witness:
  "42 \<le> runtime_policy_counter (tick_store (run_runtime_policy_reconciler_once (budget_admin [])
     [token_quota] [token_event] ''t1'' 5 empty_policy_store)) (runtime_quota_counter_key token_quota 5)"
proof -
  have "counters_i64 empty_policy_store"
    by (simp add: counters_i64_def runtime_policy_counter_def empty_policy_store_def i64_simps)
  moreover have "runtime_policy_hot_state_available empty_policy_store" by code_simp
  moreover have "token_quota \<in> set [token_quota]" "qp_tenant_id token_quota = ''t1''"
      "qp_status token_quota = ResActive" by (simp_all add: token_quota_def slot_quota_def)
  moreover have "runtime_quota_policy_has_durable_repair_source token_quota" by code_simp
  ultimately have "runtime_quota_durable_usage_value_for_policy token_quota
      (filter (\<lambda>e. ue_tenant_id e = ''t1'') [token_event]) 5 \<le>
    runtime_policy_counter (tick_store (run_runtime_policy_reconciler_once (budget_admin [])
     [token_quota] [token_event] ''t1'' 5 empty_policy_store)) (runtime_quota_counter_key token_quota 5)"
    by (rule reconciler_repairs_quota_counters)
  moreover have "runtime_quota_durable_usage_value_for_policy token_quota
      (filter (\<lambda>e. ue_tenant_id e = ''t1'') [token_event]) 5 = 42" by code_simp
  ultimately show ?thesis by simp
qed

text \<open>
  The reconciler does lower counters and does close active leases: the tick after the lifetime of
  the lease of \<open>demo_run\<close> takes its budget counter from one to zero and marks the lease expired.
\<close>

theorem reconciler_lowers_budget_counter:
  "runtime_policy_counter (run_store demo_run) (budget_key ''b1'') = 1 \<and>
   runtime_policy_counter (tick_store (run_runtime_policy_reconciler_once (budget_admin []) [] [] ''t1''
     budget_lease_ttl (run_store demo_run))) (budget_key ''b1'') = 0 \<and>
   map (bl_status \<circ> snd) (ps_leases (tick_store (run_runtime_policy_reconciler_once (budget_admin []) []
     [] ''t1'' budget_lease_ttl (run_store demo_run)))) = [''expired'']"
  by code_simp

end
