(* ===== verification/Gateway_Action_Table.thy ===== *)
theory Gateway_Action_Table
  imports Gateway_Error
begin

text \<open>
  The canonical action registry and the built-in roles
  (\<open>crates/starweaver-gateway/src/action.rs\<close>). The source declares one flat enum of 114
  actions by a macro over a table of (variant, action id, resource kind) rows. Here the variants
  are grouped into five datatypes by consecutive rows of that table, under one sum type
  \<open>gateway_action\<close>, because a datatype of 114 constructors is beyond what the datatype package
  handles in reasonable time; each variant keeps its name, its id and its resource kind, and
  \<open>canonical_actions\<close> lists them in the order of the table.
\<close>

subsection \<open>The table\<close>

text \<open>Actions 1 to 31 of the table: tenancy, identity and membership.\<close>

datatype directory_action =
    TenantRead | TenantWrite | IdentityProviderRead | IdentityProviderWrite | UserRead
  | UserWrite | UserDisable | ExternalIdentityRead | ExternalIdentityUnlink | SessionRead
  | SessionRevoke | SessionUpdate | ServiceAccountRead | ServiceAccountWrite
  | ServiceAccountDisable | OrganizationRead | OrganizationWrite | OrganizationMemberRead
  | OrganizationMemberWrite | OrganizationInviteRead | OrganizationInviteCreate
  | OrganizationInviteManage | OrganizationInviteAccept | ProjectRead | ProjectWrite
  | ProjectMemberRead | ProjectMemberWrite | CallerCredentialRead | CallerCredentialDisable
  | ActionGrantRead | ActionGrantWrite

text \<open>Actions 32 to 45 of the table: provider endpoints, upstream credentials and secrets.\<close>

datatype provider_action =
    ProviderEndpointRead | ProviderEndpointWrite | UpstreamCredentialRead
  | UpstreamCredentialWrite | UpstreamCredentialRotate | SecretRefRead | SecretRefWrite
  | SecretRefLocatorRead | CodexOAuthConnectionRead | CodexOAuthConnectionWrite
  | CodexOAuthSessionRead | CodexOAuthSessionStart | CodexOAuthSessionRevoke
  | CodexOAuthRefreshRead

text \<open>Actions 46 to 63 of the table: routing catalog and request policies.\<close>

datatype catalog_action =
    ModelTargetRead | ModelTargetWrite | ModelAliasRead | ModelAliasWrite | PricingSkuRead
  | PricingSkuWrite | RoutingGroupRead | RoutingGroupWrite | RoutePolicyRead
  | RoutePolicyWrite | ProviderGrantRead | ProviderGrantWrite | QuotaPolicyRead
  | QuotaPolicyWrite | AdmissionPolicyRead | AdmissionPolicyWrite | RedactionPolicyRead
  | RedactionPolicyWrite

text \<open>Actions 64 to 84 of the table: API keys, roles, configuration and operations.\<close>

datatype control_action =
    ApiKeyCreate | ApiKeyRead | ApiKeyRotate | ApiKeyDisable | RoleRead | RoleWrite
  | RoleBindingRead | RoleBindingWrite | PolicyRead | PolicyWrite | BudgetPolicyRead
  | BudgetPolicyWrite | ConfigRead | ConfigApply | ConfigPublish | ConfigRollback
  | RouteSimulationRun | CatalogImportCreate | CatalogImportRead | MaintenanceWindowRead
  | MaintenanceWindowWrite

text \<open>Actions 85 to 114 of the table: model traffic, evidence and observability.\<close>

datatype runtime_action =
    ModelInvoke | ModelStream | ModelNative | RouteDebugRead | UsageRead | UsageSummaryRead
  | UsageEventRead | RealtimeDashboardRead | DashboardTenantRead | DashboardOrganizationRead
  | DashboardProjectRead | DashboardProjectMemberRead | DashboardApiKeyRead
  | DashboardServiceAccountRead | ModelObservabilityRead | ProviderObservabilityRead
  | BudgetDashboardRead | QuotaDashboardRead | AuditRead | ExportRead | ExportCreate
  | NotificationRead | NotificationWrite | NotificationOutboxWrite | ObservabilityExportRead
  | ObservabilityExportWrite | HealthRead | ProviderHealthOverride | EmergencyDisable
  | DebugCaptureEnable

datatype gateway_action =
    Directory directory_action
  | Provider provider_action
  | Catalog catalog_action
  | Control control_action
  | Runtime runtime_action

record action_definition =
  ad_action :: gateway_action
  ad_action_id :: string
  ad_resource_kind :: string

definition directory_actions :: "gateway_action list" where
  "directory_actions =
     [Directory TenantRead, Directory TenantWrite, Directory IdentityProviderRead,
      Directory IdentityProviderWrite, Directory UserRead, Directory UserWrite,
      Directory UserDisable, Directory ExternalIdentityRead,
      Directory ExternalIdentityUnlink, Directory SessionRead, Directory SessionRevoke,
      Directory SessionUpdate, Directory ServiceAccountRead, Directory ServiceAccountWrite,
      Directory ServiceAccountDisable, Directory OrganizationRead,
      Directory OrganizationWrite, Directory OrganizationMemberRead,
      Directory OrganizationMemberWrite, Directory OrganizationInviteRead,
      Directory OrganizationInviteCreate, Directory OrganizationInviteManage,
      Directory OrganizationInviteAccept, Directory ProjectRead, Directory ProjectWrite,
      Directory ProjectMemberRead, Directory ProjectMemberWrite,
      Directory CallerCredentialRead, Directory CallerCredentialDisable,
      Directory ActionGrantRead, Directory ActionGrantWrite]"

definition provider_actions :: "gateway_action list" where
  "provider_actions =
     [Provider ProviderEndpointRead, Provider ProviderEndpointWrite,
      Provider UpstreamCredentialRead, Provider UpstreamCredentialWrite,
      Provider UpstreamCredentialRotate, Provider SecretRefRead, Provider SecretRefWrite,
      Provider SecretRefLocatorRead, Provider CodexOAuthConnectionRead,
      Provider CodexOAuthConnectionWrite, Provider CodexOAuthSessionRead,
      Provider CodexOAuthSessionStart, Provider CodexOAuthSessionRevoke,
      Provider CodexOAuthRefreshRead]"

definition catalog_actions :: "gateway_action list" where
  "catalog_actions =
     [Catalog ModelTargetRead, Catalog ModelTargetWrite, Catalog ModelAliasRead,
      Catalog ModelAliasWrite, Catalog PricingSkuRead, Catalog PricingSkuWrite,
      Catalog RoutingGroupRead, Catalog RoutingGroupWrite, Catalog RoutePolicyRead,
      Catalog RoutePolicyWrite, Catalog ProviderGrantRead, Catalog ProviderGrantWrite,
      Catalog QuotaPolicyRead, Catalog QuotaPolicyWrite, Catalog AdmissionPolicyRead,
      Catalog AdmissionPolicyWrite, Catalog RedactionPolicyRead,
      Catalog RedactionPolicyWrite]"

definition control_actions :: "gateway_action list" where
  "control_actions =
     [Control ApiKeyCreate, Control ApiKeyRead, Control ApiKeyRotate,
      Control ApiKeyDisable, Control RoleRead, Control RoleWrite, Control RoleBindingRead,
      Control RoleBindingWrite, Control PolicyRead, Control PolicyWrite,
      Control BudgetPolicyRead, Control BudgetPolicyWrite, Control ConfigRead,
      Control ConfigApply, Control ConfigPublish, Control ConfigRollback,
      Control RouteSimulationRun, Control CatalogImportCreate, Control CatalogImportRead,
      Control MaintenanceWindowRead, Control MaintenanceWindowWrite]"

definition runtime_actions :: "gateway_action list" where
  "runtime_actions =
     [Runtime ModelInvoke, Runtime ModelStream, Runtime ModelNative,
      Runtime RouteDebugRead, Runtime UsageRead, Runtime UsageSummaryRead,
      Runtime UsageEventRead, Runtime RealtimeDashboardRead, Runtime DashboardTenantRead,
      Runtime DashboardOrganizationRead, Runtime DashboardProjectRead,
      Runtime DashboardProjectMemberRead, Runtime DashboardApiKeyRead,
      Runtime DashboardServiceAccountRead, Runtime ModelObservabilityRead,
      Runtime ProviderObservabilityRead, Runtime BudgetDashboardRead,
      Runtime QuotaDashboardRead, Runtime AuditRead, Runtime ExportRead,
      Runtime ExportCreate, Runtime NotificationRead, Runtime NotificationWrite,
      Runtime NotificationOutboxWrite, Runtime ObservabilityExportRead,
      Runtime ObservabilityExportWrite, Runtime HealthRead, Runtime ProviderHealthOverride,
      Runtime EmergencyDisable, Runtime DebugCaptureEnable]"

text \<open>\<open>GatewayAction::canonical_actions\<close>: every action, in the order of the table.\<close>

definition canonical_actions :: "gateway_action list" where
  "canonical_actions =
     directory_actions @ provider_actions @ catalog_actions @ control_actions @ runtime_actions"

fun directory_as_str :: "directory_action \<Rightarrow> string" where
  "directory_as_str TenantRead = ''gateway.tenant.read''"
| "directory_as_str TenantWrite = ''gateway.tenant.write''"
| "directory_as_str IdentityProviderRead = ''gateway.identity_provider.read''"
| "directory_as_str IdentityProviderWrite = ''gateway.identity_provider.write''"
| "directory_as_str UserRead = ''gateway.user.read''"
| "directory_as_str UserWrite = ''gateway.user.write''"
| "directory_as_str UserDisable = ''gateway.user.disable''"
| "directory_as_str ExternalIdentityRead = ''gateway.external_identity.read''"
| "directory_as_str ExternalIdentityUnlink = ''gateway.external_identity.unlink''"
| "directory_as_str SessionRead = ''gateway.session.read''"
| "directory_as_str SessionRevoke = ''gateway.session.revoke''"
| "directory_as_str SessionUpdate = ''gateway.session.update''"
| "directory_as_str ServiceAccountRead = ''gateway.service_account.read''"
| "directory_as_str ServiceAccountWrite = ''gateway.service_account.write''"
| "directory_as_str ServiceAccountDisable = ''gateway.service_account.disable''"
| "directory_as_str OrganizationRead = ''gateway.organization.read''"
| "directory_as_str OrganizationWrite = ''gateway.organization.write''"
| "directory_as_str OrganizationMemberRead = ''gateway.organization_member.read''"
| "directory_as_str OrganizationMemberWrite = ''gateway.organization_member.write''"
| "directory_as_str OrganizationInviteRead = ''gateway.organization_invite.read''"
| "directory_as_str OrganizationInviteCreate = ''gateway.organization_invite.create''"
| "directory_as_str OrganizationInviteManage = ''gateway.organization_invite.manage''"
| "directory_as_str OrganizationInviteAccept = ''gateway.organization_invite.accept''"
| "directory_as_str ProjectRead = ''gateway.project.read''"
| "directory_as_str ProjectWrite = ''gateway.project.write''"
| "directory_as_str ProjectMemberRead = ''gateway.project_member.read''"
| "directory_as_str ProjectMemberWrite = ''gateway.project_member.write''"
| "directory_as_str CallerCredentialRead = ''gateway.caller_credential.read''"
| "directory_as_str CallerCredentialDisable = ''gateway.caller_credential.disable''"
| "directory_as_str ActionGrantRead = ''gateway.action_grant.read''"
| "directory_as_str ActionGrantWrite = ''gateway.action_grant.write''"

fun provider_as_str :: "provider_action \<Rightarrow> string" where
  "provider_as_str ProviderEndpointRead = ''gateway.provider_endpoint.read''"
| "provider_as_str ProviderEndpointWrite = ''gateway.provider_endpoint.write''"
| "provider_as_str UpstreamCredentialRead = ''gateway.upstream_credential.read''"
| "provider_as_str UpstreamCredentialWrite = ''gateway.upstream_credential.write''"
| "provider_as_str UpstreamCredentialRotate = ''gateway.upstream_credential.rotate''"
| "provider_as_str SecretRefRead = ''gateway.secret_ref.read''"
| "provider_as_str SecretRefWrite = ''gateway.secret_ref.write''"
| "provider_as_str SecretRefLocatorRead = ''gateway.secret_ref.locator.read''"
| "provider_as_str CodexOAuthConnectionRead = ''gateway.codex_oauth_connection.read''"
| "provider_as_str CodexOAuthConnectionWrite = ''gateway.codex_oauth_connection.write''"
| "provider_as_str CodexOAuthSessionRead = ''gateway.codex_oauth_session.read''"
| "provider_as_str CodexOAuthSessionStart = ''gateway.codex_oauth_session.start''"
| "provider_as_str CodexOAuthSessionRevoke = ''gateway.codex_oauth_session.revoke''"
| "provider_as_str CodexOAuthRefreshRead = ''gateway.codex_oauth_refresh.read''"

fun catalog_as_str :: "catalog_action \<Rightarrow> string" where
  "catalog_as_str ModelTargetRead = ''gateway.model_target.read''"
| "catalog_as_str ModelTargetWrite = ''gateway.model_target.write''"
| "catalog_as_str ModelAliasRead = ''gateway.model_alias.read''"
| "catalog_as_str ModelAliasWrite = ''gateway.model_alias.write''"
| "catalog_as_str PricingSkuRead = ''gateway.pricing_sku.read''"
| "catalog_as_str PricingSkuWrite = ''gateway.pricing_sku.write''"
| "catalog_as_str RoutingGroupRead = ''gateway.routing_group.read''"
| "catalog_as_str RoutingGroupWrite = ''gateway.routing_group.write''"
| "catalog_as_str RoutePolicyRead = ''gateway.route_policy.read''"
| "catalog_as_str RoutePolicyWrite = ''gateway.route_policy.write''"
| "catalog_as_str ProviderGrantRead = ''gateway.provider_grant.read''"
| "catalog_as_str ProviderGrantWrite = ''gateway.provider_grant.write''"
| "catalog_as_str QuotaPolicyRead = ''gateway.quota_policy.read''"
| "catalog_as_str QuotaPolicyWrite = ''gateway.quota_policy.write''"
| "catalog_as_str AdmissionPolicyRead = ''gateway.admission_policy.read''"
| "catalog_as_str AdmissionPolicyWrite = ''gateway.admission_policy.write''"
| "catalog_as_str RedactionPolicyRead = ''gateway.redaction_policy.read''"
| "catalog_as_str RedactionPolicyWrite = ''gateway.redaction_policy.write''"

fun control_as_str :: "control_action \<Rightarrow> string" where
  "control_as_str ApiKeyCreate = ''gateway.api_key.create''"
| "control_as_str ApiKeyRead = ''gateway.api_key.read''"
| "control_as_str ApiKeyRotate = ''gateway.api_key.rotate''"
| "control_as_str ApiKeyDisable = ''gateway.api_key.disable''"
| "control_as_str RoleRead = ''gateway.role.read''"
| "control_as_str RoleWrite = ''gateway.role.write''"
| "control_as_str RoleBindingRead = ''gateway.role_binding.read''"
| "control_as_str RoleBindingWrite = ''gateway.role_binding.write''"
| "control_as_str PolicyRead = ''gateway.policy.read''"
| "control_as_str PolicyWrite = ''gateway.policy.write''"
| "control_as_str BudgetPolicyRead = ''gateway.budget_policy.read''"
| "control_as_str BudgetPolicyWrite = ''gateway.budget_policy.write''"
| "control_as_str ConfigRead = ''gateway.config.read''"
| "control_as_str ConfigApply = ''gateway.config.apply''"
| "control_as_str ConfigPublish = ''gateway.config.publish''"
| "control_as_str ConfigRollback = ''gateway.config.rollback''"
| "control_as_str RouteSimulationRun = ''gateway.route_simulation.run''"
| "control_as_str CatalogImportCreate = ''gateway.catalog_import.create''"
| "control_as_str CatalogImportRead = ''gateway.catalog_import.read''"
| "control_as_str MaintenanceWindowRead = ''gateway.maintenance_window.read''"
| "control_as_str MaintenanceWindowWrite = ''gateway.maintenance_window.write''"

fun runtime_as_str :: "runtime_action \<Rightarrow> string" where
  "runtime_as_str ModelInvoke = ''gateway.model.invoke''"
| "runtime_as_str ModelStream = ''gateway.model.stream''"
| "runtime_as_str ModelNative = ''gateway.model.native''"
| "runtime_as_str RouteDebugRead = ''gateway.route.debug.read''"
| "runtime_as_str UsageRead = ''gateway.usage.read''"
| "runtime_as_str UsageSummaryRead = ''gateway.usage.summary.read''"
| "runtime_as_str UsageEventRead = ''gateway.usage.event.read''"
| "runtime_as_str RealtimeDashboardRead = ''gateway.realtime_dashboard.read''"
| "runtime_as_str DashboardTenantRead = ''gateway.dashboard.tenant.read''"
| "runtime_as_str DashboardOrganizationRead = ''gateway.dashboard.organization.read''"
| "runtime_as_str DashboardProjectRead = ''gateway.dashboard.project.read''"
| "runtime_as_str DashboardProjectMemberRead = ''gateway.dashboard.project_member.read''"
| "runtime_as_str DashboardApiKeyRead = ''gateway.dashboard.api_key.read''"
| "runtime_as_str DashboardServiceAccountRead = ''gateway.dashboard.service_account.read''"
| "runtime_as_str ModelObservabilityRead = ''gateway.model_observability.read''"
| "runtime_as_str ProviderObservabilityRead = ''gateway.provider_observability.read''"
| "runtime_as_str BudgetDashboardRead = ''gateway.budget_dashboard.read''"
| "runtime_as_str QuotaDashboardRead = ''gateway.quota_dashboard.read''"
| "runtime_as_str AuditRead = ''gateway.audit.read''"
| "runtime_as_str ExportRead = ''gateway.export.read''"
| "runtime_as_str ExportCreate = ''gateway.export.create''"
| "runtime_as_str NotificationRead = ''gateway.notification.read''"
| "runtime_as_str NotificationWrite = ''gateway.notification.write''"
| "runtime_as_str NotificationOutboxWrite = ''gateway.notification_outbox.write''"
| "runtime_as_str ObservabilityExportRead = ''gateway.observability_export.read''"
| "runtime_as_str ObservabilityExportWrite = ''gateway.observability_export.write''"
| "runtime_as_str HealthRead = ''gateway.health.read''"
| "runtime_as_str ProviderHealthOverride = ''gateway.provider_health.override''"
| "runtime_as_str EmergencyDisable = ''gateway.emergency.disable''"
| "runtime_as_str DebugCaptureEnable = ''gateway.debug_capture.enable''"

fun action_as_str :: "gateway_action \<Rightarrow> string" where
  "action_as_str (Directory a) = directory_as_str a"
| "action_as_str (Provider a) = provider_as_str a"
| "action_as_str (Catalog a) = catalog_as_str a"
| "action_as_str (Control a) = control_as_str a"
| "action_as_str (Runtime a) = runtime_as_str a"

fun directory_resource_kind :: "directory_action \<Rightarrow> string" where
  "directory_resource_kind TenantRead = ''Tenant''"
| "directory_resource_kind TenantWrite = ''Tenant''"
| "directory_resource_kind IdentityProviderRead = ''IdentityProvider''"
| "directory_resource_kind IdentityProviderWrite = ''IdentityProvider''"
| "directory_resource_kind UserRead = ''UserPrincipal''"
| "directory_resource_kind UserWrite = ''UserPrincipal''"
| "directory_resource_kind UserDisable = ''UserPrincipal''"
| "directory_resource_kind ExternalIdentityRead = ''ExternalIdentity''"
| "directory_resource_kind ExternalIdentityUnlink = ''ExternalIdentity''"
| "directory_resource_kind SessionRead = ''AuthSession''"
| "directory_resource_kind SessionRevoke = ''AuthSession''"
| "directory_resource_kind SessionUpdate = ''AuthSession''"
| "directory_resource_kind ServiceAccountRead = ''ServiceAccount''"
| "directory_resource_kind ServiceAccountWrite = ''ServiceAccount''"
| "directory_resource_kind ServiceAccountDisable = ''ServiceAccount''"
| "directory_resource_kind OrganizationRead = ''Organization''"
| "directory_resource_kind OrganizationWrite = ''Organization''"
| "directory_resource_kind OrganizationMemberRead = ''OrganizationMember''"
| "directory_resource_kind OrganizationMemberWrite = ''OrganizationMember''"
| "directory_resource_kind OrganizationInviteRead = ''OrganizationInvite''"
| "directory_resource_kind OrganizationInviteCreate = ''OrganizationInvite''"
| "directory_resource_kind OrganizationInviteManage = ''OrganizationInvite''"
| "directory_resource_kind OrganizationInviteAccept = ''OrganizationInvite''"
| "directory_resource_kind ProjectRead = ''Project''"
| "directory_resource_kind ProjectWrite = ''Project''"
| "directory_resource_kind ProjectMemberRead = ''ProjectMember''"
| "directory_resource_kind ProjectMemberWrite = ''ProjectMember''"
| "directory_resource_kind CallerCredentialRead = ''CallerCredential''"
| "directory_resource_kind CallerCredentialDisable = ''CallerCredential''"
| "directory_resource_kind ActionGrantRead = ''ActionGrant''"
| "directory_resource_kind ActionGrantWrite = ''ActionGrant''"

fun provider_resource_kind :: "provider_action \<Rightarrow> string" where
  "provider_resource_kind ProviderEndpointRead = ''ProviderEndpoint''"
| "provider_resource_kind ProviderEndpointWrite = ''ProviderEndpoint''"
| "provider_resource_kind UpstreamCredentialRead = ''UpstreamCredential''"
| "provider_resource_kind UpstreamCredentialWrite = ''UpstreamCredential''"
| "provider_resource_kind UpstreamCredentialRotate = ''UpstreamCredential''"
| "provider_resource_kind SecretRefRead = ''SecretRef''"
| "provider_resource_kind SecretRefWrite = ''SecretRef''"
| "provider_resource_kind SecretRefLocatorRead = ''SecretRef''"
| "provider_resource_kind CodexOAuthConnectionRead = ''CodexOAuthConnection''"
| "provider_resource_kind CodexOAuthConnectionWrite = ''CodexOAuthConnection''"
| "provider_resource_kind CodexOAuthSessionRead = ''CodexOAuthSession''"
| "provider_resource_kind CodexOAuthSessionStart = ''CodexOAuthSession''"
| "provider_resource_kind CodexOAuthSessionRevoke = ''CodexOAuthSession''"
| "provider_resource_kind CodexOAuthRefreshRead = ''CodexOAuthRefreshStatus''"

fun catalog_resource_kind :: "catalog_action \<Rightarrow> string" where
  "catalog_resource_kind ModelTargetRead = ''ModelTarget''"
| "catalog_resource_kind ModelTargetWrite = ''ModelTarget''"
| "catalog_resource_kind ModelAliasRead = ''ModelAlias''"
| "catalog_resource_kind ModelAliasWrite = ''ModelAlias''"
| "catalog_resource_kind PricingSkuRead = ''PricingSku''"
| "catalog_resource_kind PricingSkuWrite = ''PricingSku''"
| "catalog_resource_kind RoutingGroupRead = ''RoutingGroup''"
| "catalog_resource_kind RoutingGroupWrite = ''RoutingGroup''"
| "catalog_resource_kind RoutePolicyRead = ''RoutePolicy''"
| "catalog_resource_kind RoutePolicyWrite = ''RoutePolicy''"
| "catalog_resource_kind ProviderGrantRead = ''ProviderGrant''"
| "catalog_resource_kind ProviderGrantWrite = ''ProviderGrant''"
| "catalog_resource_kind QuotaPolicyRead = ''QuotaPolicy''"
| "catalog_resource_kind QuotaPolicyWrite = ''QuotaPolicy''"
| "catalog_resource_kind AdmissionPolicyRead = ''AdmissionPolicy''"
| "catalog_resource_kind AdmissionPolicyWrite = ''AdmissionPolicy''"
| "catalog_resource_kind RedactionPolicyRead = ''RedactionPolicy''"
| "catalog_resource_kind RedactionPolicyWrite = ''RedactionPolicy''"

fun control_resource_kind :: "control_action \<Rightarrow> string" where
  "control_resource_kind ApiKeyCreate = ''ApiKey''"
| "control_resource_kind ApiKeyRead = ''ApiKey''"
| "control_resource_kind ApiKeyRotate = ''ApiKey''"
| "control_resource_kind ApiKeyDisable = ''ApiKey''"
| "control_resource_kind RoleRead = ''RoleDefinition''"
| "control_resource_kind RoleWrite = ''RoleDefinition''"
| "control_resource_kind RoleBindingRead = ''RoleBinding''"
| "control_resource_kind RoleBindingWrite = ''RoleBinding''"
| "control_resource_kind PolicyRead = ''PolicyAttachment''"
| "control_resource_kind PolicyWrite = ''PolicyAttachment''"
| "control_resource_kind BudgetPolicyRead = ''BudgetPolicy''"
| "control_resource_kind BudgetPolicyWrite = ''BudgetPolicy''"
| "control_resource_kind ConfigRead = ''ConfigSnapshot''"
| "control_resource_kind ConfigApply = ''ConfigBundle''"
| "control_resource_kind ConfigPublish = ''ConfigSnapshot''"
| "control_resource_kind ConfigRollback = ''ConfigSnapshot''"
| "control_resource_kind RouteSimulationRun = ''RouteSimulation''"
| "control_resource_kind CatalogImportCreate = ''CatalogImport''"
| "control_resource_kind CatalogImportRead = ''CatalogImport''"
| "control_resource_kind MaintenanceWindowRead = ''MaintenanceWindow''"
| "control_resource_kind MaintenanceWindowWrite = ''MaintenanceWindow''"

fun runtime_resource_kind :: "runtime_action \<Rightarrow> string" where
  "runtime_resource_kind ModelInvoke = ''ModelAlias''"
| "runtime_resource_kind ModelStream = ''ModelAlias''"
| "runtime_resource_kind ModelNative = ''ProviderNativeEndpoint''"
| "runtime_resource_kind RouteDebugRead = ''RouteDecision''"
| "runtime_resource_kind UsageRead = ''UsageScope''"
| "runtime_resource_kind UsageSummaryRead = ''UsageScope''"
| "runtime_resource_kind UsageEventRead = ''UsageEvent''"
| "runtime_resource_kind RealtimeDashboardRead = ''RealtimeDashboard''"
| "runtime_resource_kind DashboardTenantRead = ''TenantDashboard''"
| "runtime_resource_kind DashboardOrganizationRead = ''OrganizationDashboard''"
| "runtime_resource_kind DashboardProjectRead = ''ProjectDashboard''"
| "runtime_resource_kind DashboardProjectMemberRead = ''ProjectMemberDashboard''"
| "runtime_resource_kind DashboardApiKeyRead = ''ApiKeyDashboard''"
| "runtime_resource_kind DashboardServiceAccountRead = ''ServiceAccountDashboard''"
| "runtime_resource_kind ModelObservabilityRead = ''ModelObservability''"
| "runtime_resource_kind ProviderObservabilityRead = ''ProviderEndpoint''"
| "runtime_resource_kind BudgetDashboardRead = ''BudgetDashboard''"
| "runtime_resource_kind QuotaDashboardRead = ''QuotaDashboard''"
| "runtime_resource_kind AuditRead = ''AuditEvent''"
| "runtime_resource_kind ExportRead = ''ExportManifest''"
| "runtime_resource_kind ExportCreate = ''ExportJob''"
| "runtime_resource_kind NotificationRead = ''NotificationSink''"
| "runtime_resource_kind NotificationWrite = ''NotificationSink''"
| "runtime_resource_kind NotificationOutboxWrite = ''NotificationOutboxEvent''"
| "runtime_resource_kind ObservabilityExportRead = ''OpenTelemetryExportConfig''"
| "runtime_resource_kind ObservabilityExportWrite = ''OpenTelemetryExportConfig''"
| "runtime_resource_kind HealthRead = ''RuntimeHealth''"
| "runtime_resource_kind ProviderHealthOverride = ''ProviderEndpoint''"
| "runtime_resource_kind EmergencyDisable = ''EmergencyOperation''"
| "runtime_resource_kind DebugCaptureEnable = ''DebugCapturePolicy''"

fun action_resource_kind :: "gateway_action \<Rightarrow> string" where
  "action_resource_kind (Directory a) = directory_resource_kind a"
| "action_resource_kind (Provider a) = provider_resource_kind a"
| "action_resource_kind (Catalog a) = catalog_resource_kind a"
| "action_resource_kind (Control a) = control_resource_kind a"
| "action_resource_kind (Runtime a) = runtime_resource_kind a"

text \<open>\<open>GatewayAction::canonical_definitions\<close>: the macro expands every row to one definition.\<close>

definition canonical_definitions :: "action_definition list" where
  "canonical_definitions =
     map (\<lambda>a. \<lparr>ad_action = a, ad_action_id = action_as_str a,
               ad_resource_kind = action_resource_kind a\<rparr>) canonical_actions"

text \<open>\<open>GatewayAction::from_action_id\<close>: a match with one arm per row, tried in order.\<close>

definition from_action_id :: "string \<Rightarrow> gateway_action option" where
  "from_action_id value =
     map_option ad_action (find (\<lambda>d. ad_action_id d = value) canonical_definitions)"

subsection \<open>Built-in roles\<close>

datatype role_scope_kind = TenantScope | OrganizationScope | ProjectScope | AnyScope

fun role_scope_as_str :: "role_scope_kind \<Rightarrow> string" where
  "role_scope_as_str TenantScope = ''tenant''"
| "role_scope_as_str OrganizationScope = ''organization''"
| "role_scope_as_str ProjectScope = ''project''"
| "role_scope_as_str AnyScope = ''any''"

datatype built_in_role =
    TenantOwner | TenantAdmin | SecurityAdmin | GatewayOperator | OrganizationAdmin
  | OrganizationMember | ProjectAdmin | ProjectDeveloper | ProjectViewer | UsageViewer | Auditor

definition built_ins :: "built_in_role list" where
  "built_ins =
     [TenantOwner, TenantAdmin, SecurityAdmin, GatewayOperator, OrganizationAdmin,
      OrganizationMember, ProjectAdmin, ProjectDeveloper, ProjectViewer, UsageViewer, Auditor]"

fun role_as_str :: "built_in_role \<Rightarrow> string" where
  "role_as_str TenantOwner = ''tenant_owner''"
| "role_as_str TenantAdmin = ''tenant_admin''"
| "role_as_str SecurityAdmin = ''security_admin''"
| "role_as_str GatewayOperator = ''gateway_operator''"
| "role_as_str OrganizationAdmin = ''organization_admin''"
| "role_as_str OrganizationMember = ''organization_member''"
| "role_as_str ProjectAdmin = ''project_admin''"
| "role_as_str ProjectDeveloper = ''project_developer''"
| "role_as_str ProjectViewer = ''project_viewer''"
| "role_as_str UsageViewer = ''usage_viewer''"
| "role_as_str Auditor = ''auditor''"

fun role_scope :: "built_in_role \<Rightarrow> role_scope_kind" where
  "role_scope TenantOwner = TenantScope"
| "role_scope TenantAdmin = TenantScope"
| "role_scope SecurityAdmin = TenantScope"
| "role_scope GatewayOperator = TenantScope"
| "role_scope OrganizationAdmin = OrganizationScope"
| "role_scope OrganizationMember = OrganizationScope"
| "role_scope ProjectAdmin = ProjectScope"
| "role_scope ProjectDeveloper = ProjectScope"
| "role_scope ProjectViewer = ProjectScope"
| "role_scope UsageViewer = AnyScope"
| "role_scope Auditor = AnyScope"

definition tenant_admin_actions :: "gateway_action list" where
  "tenant_admin_actions =
     [Directory TenantRead, Directory TenantWrite, Directory IdentityProviderRead,
      Directory IdentityProviderWrite, Directory UserRead, Directory UserWrite,
      Directory ServiceAccountRead, Directory ServiceAccountWrite,
      Directory OrganizationRead, Directory OrganizationWrite,
      Directory OrganizationMemberRead, Directory OrganizationMemberWrite,
      Directory OrganizationInviteRead, Directory OrganizationInviteCreate,
      Directory OrganizationInviteManage, Directory ProjectRead, Directory ProjectWrite,
      Directory ProjectMemberRead, Directory ProjectMemberWrite, Directory ActionGrantRead,
      Directory ActionGrantWrite, Provider ProviderEndpointRead,
      Provider ProviderEndpointWrite, Catalog ProviderGrantRead,
      Catalog ProviderGrantWrite, Catalog ModelTargetRead, Catalog ModelTargetWrite,
      Catalog ModelAliasRead, Catalog ModelAliasWrite, Catalog RoutingGroupRead,
      Catalog RoutingGroupWrite, Catalog RoutePolicyRead, Catalog RoutePolicyWrite,
      Control BudgetPolicyRead, Control BudgetPolicyWrite, Catalog QuotaPolicyRead,
      Catalog QuotaPolicyWrite, Catalog AdmissionPolicyRead, Catalog AdmissionPolicyWrite,
      Control RoleRead, Control RoleWrite, Control RoleBindingRead,
      Control RoleBindingWrite, Control PolicyRead, Control PolicyWrite,
      Control ConfigRead, Control ConfigApply, Control ConfigPublish,
      Control ConfigRollback, Control RouteSimulationRun, Control CatalogImportCreate,
      Control CatalogImportRead, Control MaintenanceWindowRead,
      Control MaintenanceWindowWrite]"

definition security_admin_actions :: "gateway_action list" where
  "security_admin_actions =
     [Directory CallerCredentialRead, Directory CallerCredentialDisable,
      Provider UpstreamCredentialRead, Provider UpstreamCredentialWrite,
      Provider UpstreamCredentialRotate, Provider SecretRefRead, Provider SecretRefWrite,
      Provider SecretRefLocatorRead, Provider CodexOAuthConnectionRead,
      Provider CodexOAuthConnectionWrite, Provider CodexOAuthSessionRead,
      Provider CodexOAuthSessionStart, Provider CodexOAuthSessionRevoke,
      Provider CodexOAuthRefreshRead, Catalog RedactionPolicyRead,
      Catalog RedactionPolicyWrite, Control ApiKeyRead, Control ApiKeyDisable,
      Runtime AuditRead, Runtime EmergencyDisable]"

definition gateway_operator_actions :: "gateway_action list" where
  "gateway_operator_actions =
     [Control ConfigRead, Runtime RealtimeDashboardRead, Runtime ModelObservabilityRead,
      Runtime ProviderObservabilityRead, Runtime ObservabilityExportRead,
      Runtime HealthRead, Runtime ProviderHealthOverride, Runtime RouteDebugRead,
      Control RouteSimulationRun, Runtime NotificationRead,
      Runtime NotificationOutboxWrite, Control MaintenanceWindowRead,
      Control MaintenanceWindowWrite, Runtime EmergencyDisable]"

definition organization_admin_actions :: "gateway_action list" where
  "organization_admin_actions =
     [Directory OrganizationRead, Directory OrganizationWrite,
      Directory OrganizationMemberRead, Directory OrganizationMemberWrite,
      Directory OrganizationInviteRead, Directory OrganizationInviteCreate,
      Directory OrganizationInviteManage, Directory ProjectRead, Directory ProjectWrite,
      Directory ProjectMemberRead, Directory ProjectMemberWrite, Catalog ProviderGrantRead,
      Catalog ProviderGrantWrite, Directory ActionGrantRead, Directory ActionGrantWrite,
      Control RoleBindingRead, Control RoleBindingWrite, Runtime DashboardOrganizationRead,
      Runtime DashboardProjectRead, Runtime UsageSummaryRead]"

definition organization_member_actions :: "gateway_action list" where
  "organization_member_actions =
     [Directory OrganizationRead, Directory OrganizationMemberRead, Directory ProjectRead,
      Runtime DashboardOrganizationRead, Runtime DashboardProjectRead]"

definition project_admin_actions :: "gateway_action list" where
  "project_admin_actions =
     [Directory ProjectRead, Directory ProjectWrite, Directory ProjectMemberRead,
      Directory ProjectMemberWrite, Control ApiKeyCreate, Control ApiKeyRead,
      Control ApiKeyRotate, Control ApiKeyDisable, Catalog ModelAliasRead,
      Catalog ModelAliasWrite, Control BudgetPolicyRead, Control BudgetPolicyWrite,
      Catalog QuotaPolicyRead, Catalog QuotaPolicyWrite, Catalog AdmissionPolicyRead,
      Catalog AdmissionPolicyWrite, Runtime ModelInvoke, Runtime ModelStream,
      Runtime UsageRead, Runtime UsageSummaryRead, Runtime UsageEventRead,
      Runtime DashboardProjectRead, Runtime DashboardApiKeyRead,
      Runtime BudgetDashboardRead, Runtime QuotaDashboardRead]"

definition project_developer_actions :: "gateway_action list" where
  "project_developer_actions =
     [Directory ProjectRead, Catalog ModelAliasRead, Runtime ModelInvoke,
      Runtime ModelStream, Runtime UsageSummaryRead, Runtime DashboardProjectRead,
      Runtime ModelObservabilityRead]"

definition project_viewer_actions :: "gateway_action list" where
  "project_viewer_actions =
     [Directory ProjectRead, Catalog ModelAliasRead, Runtime UsageSummaryRead,
      Runtime DashboardProjectRead, Runtime BudgetDashboardRead,
      Runtime QuotaDashboardRead, Runtime ModelObservabilityRead]"

definition usage_viewer_actions :: "gateway_action list" where
  "usage_viewer_actions =
     [Runtime UsageRead, Runtime UsageSummaryRead, Runtime UsageEventRead,
      Runtime DashboardTenantRead, Runtime DashboardOrganizationRead,
      Runtime DashboardProjectRead, Runtime DashboardProjectMemberRead,
      Runtime DashboardApiKeyRead, Runtime DashboardServiceAccountRead,
      Runtime BudgetDashboardRead, Runtime QuotaDashboardRead, Runtime ExportRead,
      Runtime ExportCreate]"

definition auditor_actions :: "gateway_action list" where
  "auditor_actions =
     [Runtime AuditRead, Runtime RouteDebugRead, Control ConfigRead,
      Runtime UsageEventRead, Runtime ExportRead]"

fun role_actions :: "built_in_role \<Rightarrow> gateway_action list" where
  "role_actions TenantOwner = canonical_actions"
| "role_actions TenantAdmin = tenant_admin_actions"
| "role_actions SecurityAdmin = security_admin_actions"
| "role_actions GatewayOperator = gateway_operator_actions"
| "role_actions OrganizationAdmin = organization_admin_actions"
| "role_actions OrganizationMember = organization_member_actions"
| "role_actions ProjectAdmin = project_admin_actions"
| "role_actions ProjectDeveloper = project_developer_actions"
| "role_actions ProjectViewer = project_viewer_actions"
| "role_actions UsageViewer = usage_viewer_actions"
| "role_actions Auditor = auditor_actions"

subsection \<open>The table is complete and unambiguous\<close>

lemmas canonical_actions_defs =
  canonical_actions_def directory_actions_def provider_actions_def catalog_actions_def
  control_actions_def runtime_actions_def

lemma canonical_actions_complete: "a \<in> set canonical_actions"
proof (cases a)
  case (Directory x)
  then show ?thesis by (cases x) (simp_all add: canonical_actions_def directory_actions_def)
next
  case (Provider x)
  then show ?thesis by (cases x) (simp_all add: canonical_actions_def provider_actions_def)
next
  case (Catalog x)
  then show ?thesis by (cases x) (simp_all add: canonical_actions_def catalog_actions_def)
next
  case (Control x)
  then show ?thesis by (cases x) (simp_all add: canonical_actions_def control_actions_def)
next
  case (Runtime x)
  then show ?thesis by (cases x) (simp_all add: canonical_actions_def runtime_actions_def)
qed

lemma canonical_action_ids_distinct: "distinct (map action_as_str canonical_actions)"
  by (simp add: canonical_actions_defs)

lemma canonical_actions_distinct: "distinct canonical_actions"
  using canonical_action_ids_distinct by (simp only: distinct_map)

lemma action_as_str_inject: "action_as_str a = action_as_str b \<longleftrightarrow> a = b"
  using canonical_action_ids_distinct canonical_actions_complete
  by (auto simp: distinct_map dest: inj_onD)

lemma find_definition:
  "find (\<lambda>d. ad_action_id d = v)
     (map (\<lambda>a. \<lparr>ad_action = a, ad_action_id = action_as_str a,
               ad_resource_kind = action_resource_kind a\<rparr>) as) =
   map_option (\<lambda>a. \<lparr>ad_action = a, ad_action_id = action_as_str a,
               ad_resource_kind = action_resource_kind a\<rparr>)
     (find (\<lambda>a. action_as_str a = v) as)"
  by (induction as) simp_all

lemma from_action_id_lookup: "from_action_id v = lookup_by action_as_str canonical_actions v"
  by (simp add: from_action_id_def canonical_definitions_def find_definition lookup_by_def
      option.map_comp comp_def option.map_ident)

lemma from_action_id_iff: "from_action_id v = Some a \<longleftrightarrow> v = action_as_str a"
proof
  assume "from_action_id v = Some a"
  then show "v = action_as_str a"
    by (auto simp: from_action_id_lookup dest: lookup_by_SomeD)
next
  assume "v = action_as_str a"
  then show "from_action_id v = Some a"
    using canonical_action_ids_distinct canonical_actions_complete
    by (simp only: from_action_id_lookup lookup_by_distinct)
qed

end
