(* ===== verification/Gateway_Authorization.thy ===== *)
theory Gateway_Authorization
  imports Gateway_Domain Gateway_Action_Table
begin

text \<open>
  Authorization (\<open>crates/starweaver-gateway/src/action.rs\<close>, second half): resources, grants,
  the preflight gates every policy engine applies, the foundation engine, role expansion,
  decision evidence and the item filter of list endpoints. The contract that policy engines
  share is the locale \<open>authorization_engine\<close>; the foundation engine interprets it here and the
  Cedar engine in \<open>Gateway_Policy\<close>.
\<close>

subsection \<open>Requests, grants, decisions\<close>

record resource_ref =
  rr_kind :: string
  rr_id :: string

definition model_alias_ref :: "string \<Rightarrow> resource_ref" where
  "model_alias_ref i = \<lparr>rr_kind = ''ModelAlias'', rr_id = i\<rparr>"

record authorization_request =
  areq_actor :: authenticated_actor
  areq_action :: gateway_action
  areq_resource :: resource_ref

record action_grant =
  ag_tenant_id :: string
  ag_organization_id :: "string option"
  ag_project_id :: "string option"
  ag_principal_id :: string
  ag_action :: gateway_action
  ag_resource_kind :: string
  ag_resource_id :: string

text \<open>\<open>ActionGrant::project\<close> and \<open>ActionGrant::for_builtin_role\<close>.\<close>

definition project_grant ::
  "string \<Rightarrow> string \<Rightarrow> string \<Rightarrow> string \<Rightarrow> gateway_action \<Rightarrow> resource_ref \<Rightarrow> action_grant" where
  "project_grant tenant_id organization_id project_id principal_id action resource =
     \<lparr>ag_tenant_id = tenant_id, ag_organization_id = Some organization_id,
      ag_project_id = Some project_id, ag_principal_id = principal_id, ag_action = action,
      ag_resource_kind = rr_kind resource, ag_resource_id = rr_id resource\<rparr>"

definition for_builtin_role ::
  "string \<Rightarrow> string option \<Rightarrow> string option \<Rightarrow> string \<Rightarrow> built_in_role \<Rightarrow> action_grant list" where
  "for_builtin_role tenant_id organization_id project_id principal_id role =
     map (\<lambda>action.
       \<lparr>ag_tenant_id = tenant_id, ag_organization_id = organization_id,
        ag_project_id = project_id, ag_principal_id = principal_id, ag_action = action,
        ag_resource_kind = action_resource_kind action, ag_resource_id = ''*''\<rparr>)
       (role_actions role)"

record authorization_decision =
  dec_allowed :: bool
  dec_reason :: string

definition decision_allow :: authorization_decision where
  "decision_allow = \<lparr>dec_allowed = True, dec_reason = ''allowed''\<rparr>"

definition decision_deny :: "string \<Rightarrow> authorization_decision" where
  "decision_deny reason = \<lparr>dec_allowed = False, dec_reason = reason\<rparr>"

subsection \<open>Gates and matching\<close>

definition api_key_allows_action :: "string list \<Rightarrow> gateway_action \<Rightarrow> bool" where
  "api_key_allows_action allowed_actions action \<longleftrightarrow>
     allowed_actions = [] \<or>
     list_ex (\<lambda>allowed. allowed = action_as_str action \<or> allowed = ''*'') allowed_actions"

definition api_key_allows_resource :: "string list \<Rightarrow> resource_ref \<Rightarrow> bool" where
  "api_key_allows_resource allowed_resources resource \<longleftrightarrow>
     allowed_resources = [] \<or>
     list_ex (\<lambda>allowed.
       allowed = ''*'' \<or>
       allowed = rr_id resource \<or>
       allowed = rr_kind resource @ '':'' @ rr_id resource \<or>
       allowed = rr_kind resource @ '':*'') allowed_resources"

text \<open>The actions an API key may never perform, whatever its owner may do.\<close>

definition strong_auth_actions :: "gateway_action list" where
  "strong_auth_actions =
     [Control ConfigPublish, Control ConfigRollback, Runtime ObservabilityExportWrite]"

definition gateway_preflight_decision ::
  "authorization_request \<Rightarrow> authorization_decision option" where
  "gateway_preflight_decision request =
     (let actor = areq_actor request; has_key = (actor_api_key_id actor \<noteq> None) in
      if has_key \<and> areq_action request \<in> set strong_auth_actions
      then Some (decision_deny ''api_key_strong_auth_required'')
      else if has_key \<and>
        \<not> api_key_allows_action (actor_allowed_actions actor) (areq_action request)
      then Some (decision_deny ''api_key_action_not_granted'')
      else if has_key \<and>
        \<not> api_key_allows_resource (actor_allowed_resources actor) (areq_resource request)
      then Some (decision_deny ''api_key_resource_not_granted'')
      else None)"

definition optional_scope_match :: "string option \<Rightarrow> string option \<Rightarrow> bool" where
  "optional_scope_match grant_scope actor_scope =
     is_none_or grant_scope (\<lambda>g. Some g = actor_scope)"

definition resource_matches :: "action_grant \<Rightarrow> resource_ref \<Rightarrow> bool" where
  "resource_matches grant resource \<longleftrightarrow>
     ag_resource_kind grant = rr_kind resource \<and>
     (ag_resource_id grant = ''*'' \<or> ag_resource_id grant = rr_id resource)"

definition grant_allows :: "action_grant \<Rightarrow> authorization_request \<Rightarrow> bool" where
  "grant_allows grant request =
     (let actor = areq_actor request in
      case actor_principal_id actor of
        None \<Rightarrow> False
      | Some principal_id \<Rightarrow>
          ag_tenant_id grant = actor_tenant_id actor \<and>
          optional_scope_match (ag_organization_id grant) (actor_organization_id actor) \<and>
          optional_scope_match (ag_project_id grant) (actor_project_id actor) \<and>
          ag_principal_id grant = principal_id \<and>
          ag_action grant = areq_action request \<and>
          resource_matches grant (areq_resource request))"

text \<open>\<open>FoundationAuthorizationEngine::authorize\<close>; the engine is its list of grants.\<close>

definition foundation_authorize ::
  "action_grant list \<Rightarrow> authorization_request \<Rightarrow> authorization_decision" where
  "foundation_authorize grants request =
     (case gateway_preflight_decision request of
        Some decision \<Rightarrow> decision
      | None \<Rightarrow>
          if areq_action request = Runtime ModelNative
          then decision_deny ''native_route_grant_required''
          else if \<not> list_ex (\<lambda>grant. grant_allows grant request) grants
          then decision_deny ''principal_action_not_granted''
          else decision_allow)"

subsection \<open>Evidence and lists\<close>

record authorization_decision_record =
  adr_authz_decision_id :: string
  adr_tenant_id :: string
  adr_organization_id :: "string option"
  adr_project_id :: "string option"
  adr_actor_id :: string
  adr_actor_kind :: actor_kind
  adr_action :: gateway_action
  adr_resource_kind :: string
  adr_resource_id :: string
  adr_allowed :: bool
  adr_reason :: string
  adr_policy_snapshot_id :: "string option"
  adr_request_id :: string
  adr_occurred_at :: datetime

text \<open>\<open>AuthorizationDecisionRecord::from_decision\<close>; \<open>new_id\<close> is the id \<open>new_prefixed_id\<close> drew.\<close>

definition from_decision ::
  "string \<Rightarrow> authorization_request \<Rightarrow> authorization_decision \<Rightarrow> string option \<Rightarrow> datetime \<Rightarrow>
   authorization_decision_record" where
  "from_decision new_id request decision policy_snapshot_id occurred_at =
     (let actor = areq_actor request in
      \<lparr>adr_authz_decision_id = new_id,
       adr_tenant_id = actor_tenant_id actor,
       adr_organization_id = actor_organization_id actor,
       adr_project_id = actor_project_id actor,
       adr_actor_id = actor_id actor,
       adr_actor_kind = actor_kind actor,
       adr_action = areq_action request,
       adr_resource_kind = rr_kind (areq_resource request),
       adr_resource_id = rr_id (areq_resource request),
       adr_allowed = dec_allowed decision,
       adr_reason = dec_reason decision,
       adr_policy_snapshot_id = policy_snapshot_id,
       adr_request_id = actor_request_id actor,
       adr_occurred_at = occurred_at\<rparr>)"

definition decision_label :: "authorization_decision_record \<Rightarrow> string" where
  "decision_label r = (if adr_allowed r then ''allowed'' else ''denied'')"

text \<open>The in-memory sink appends to its log (\<open>record_authorization_decision\<close>, \<open>storage.rs\<close>).\<close>

definition record_authorization_decision ::
  "authorization_decision_record list \<Rightarrow> authorization_decision_record \<Rightarrow>
   authorization_decision_record list" where
  "record_authorization_decision authz_decisions record = authz_decisions @ [record]"

definition authorize_with_evidence ::
  "(authorization_request \<Rightarrow> authorization_decision) \<Rightarrow> authorization_decision_record list \<Rightarrow>
   string \<Rightarrow> authorization_request \<Rightarrow> string option \<Rightarrow> datetime \<Rightarrow>
   authorization_decision \<times> authorization_decision_record list" where
  "authorize_with_evidence engine sink new_id request policy_snapshot_id occurred_at =
     (let decision = engine request in
      (decision,
       record_authorization_decision sink
         (from_decision new_id request decision policy_snapshot_id occurred_at)))"

text \<open>\<open>authorize_item_list\<close>: the loop keeps the allowed items and counts the others.\<close>

fun authorize_items ::
  "(authorization_request \<Rightarrow> authorization_decision) \<Rightarrow> authenticated_actor \<Rightarrow> gateway_action \<Rightarrow>
   (resource_ref \<times> 'i) list \<Rightarrow> 'i list \<times> nat \<Rightarrow> 'i list \<times> nat" where
  "authorize_items engine actor action [] acc = acc"
| "authorize_items engine actor action ((resource, item) # items) (allowed_items, filtered_count) =
     (let decision =
        engine \<lparr>areq_actor = actor, areq_action = action, areq_resource = resource\<rparr> in
      authorize_items engine actor action items
        (if dec_allowed decision then (allowed_items @ [item], filtered_count)
         else (allowed_items, filtered_count + 1)))"

definition authorize_item_list ::
  "(authorization_request \<Rightarrow> authorization_decision) \<Rightarrow> authenticated_actor \<Rightarrow> gateway_action \<Rightarrow>
   (resource_ref \<times> 'i) list \<Rightarrow> 'i list \<times> nat" where
  "authorize_item_list engine actor action items = authorize_items engine actor action items ([], 0)"

subsection \<open>The contract of a policy engine\<close>

lemma decision_simps [simp]:
  "dec_allowed decision_allow" "\<not> dec_allowed (decision_deny r)"
  "dec_reason decision_allow = ''allowed''" "dec_reason (decision_deny r) = r"
  "decision_allow \<noteq> decision_deny r"
  by (simp_all add: decision_allow_def decision_deny_def)

lemma preflight_denies: "gateway_preflight_decision request = Some d \<Longrightarrow> \<not> dec_allowed d"
  by (auto simp: gateway_preflight_decision_def Let_def split: if_splits)

lemma preflight_no_key:
  "actor_api_key_id (areq_actor request) = None \<Longrightarrow> gateway_preflight_decision request = None"
  by (simp add: gateway_preflight_decision_def)

lemma preflight_None_iff:
  "gateway_preflight_decision request = None \<longleftrightarrow>
     (actor_api_key_id (areq_actor request) \<noteq> None \<longrightarrow>
       areq_action request \<notin> set strong_auth_actions \<and>
       api_key_allows_action (actor_allowed_actions (areq_actor request)) (areq_action request) \<and>
       api_key_allows_resource (actor_allowed_resources (areq_actor request))
         (areq_resource request))"
  by (auto simp: gateway_preflight_decision_def Let_def)

text \<open>The actor with its key taken away: the owner acting with the same scope.\<close>

definition without_key :: "authorization_request \<Rightarrow> authorization_request" where
  "without_key request =
     request\<lparr>areq_actor := (areq_actor request)
       \<lparr>actor_api_key_id := None, actor_allowed_actions := [], actor_allowed_resources := []\<rparr>\<rparr>"

text \<open>
  What every engine promises: a preflight denial is final, an allowing decision is exactly
  \<open>allow()\<close>, and the key fields of the actor have no influence beyond the preflight.
\<close>

locale authorization_engine =
  fixes authorize :: "authorization_request \<Rightarrow> authorization_decision"
  assumes preflight_first:
      "gateway_preflight_decision request = Some d \<Longrightarrow> authorize request = d"
    and allow_reason: "dec_allowed (authorize request) \<Longrightarrow> authorize request = decision_allow"
    and key_only_in_preflight:
      "gateway_preflight_decision request = None \<Longrightarrow>
         authorize request = authorize (without_key request)"
begin

lemma allowed_passes_preflight:
  "dec_allowed (authorize request) \<Longrightarrow> gateway_preflight_decision request = None"
  using preflight_first preflight_denies by (metis not_None_eq)

text \<open>A key never widens what its owner may do.\<close>

lemma key_narrows:
  "dec_allowed (authorize request) \<Longrightarrow> dec_allowed (authorize (without_key request))"
  using allowed_passes_preflight key_only_in_preflight by metis

lemma items_acc:
  "authorize_items authorize actor action items (xs, n) =
     (xs @ map snd (filter (\<lambda>(resource, item). dec_allowed (authorize
        \<lparr>areq_actor = actor, areq_action = action, areq_resource = resource\<rparr>)) items),
      n + length (filter (\<lambda>(resource, item). \<not> dec_allowed (authorize
        \<lparr>areq_actor = actor, areq_action = action, areq_resource = resource\<rparr>)) items))"
  by (induction items arbitrary: xs n) (auto simp: Let_def)

lemma items_filter:
  "authorize_item_list authorize actor action items =
     (map snd (filter (\<lambda>(resource, item). dec_allowed (authorize
        \<lparr>areq_actor = actor, areq_action = action, areq_resource = resource\<rparr>)) items),
      length (filter (\<lambda>(resource, item). \<not> dec_allowed (authorize
        \<lparr>areq_actor = actor, areq_action = action, areq_resource = resource\<rparr>)) items))"
  by (simp add: authorize_item_list_def items_acc)

lemma items_counted:
  "authorize_item_list authorize actor action items = (allowed_items, filtered_count) \<Longrightarrow>
     length allowed_items + filtered_count = length items"
  by (auto simp: items_filter case_prod_unfold sum_length_filter_compl)

end

subsection \<open>The foundation engine\<close>

lemma grant_allows_without_key [simp]: "grant_allows g (without_key request) = grant_allows g request"
  by (simp add: grant_allows_def without_key_def Let_def split: option.split)

interpretation foundation: authorization_engine "foundation_authorize grants" for grants
proof unfold_locales
  fix request d
  assume "gateway_preflight_decision request = Some d"
  then show "foundation_authorize grants request = d" by (simp add: foundation_authorize_def)
next
  fix request
  assume "dec_allowed (foundation_authorize grants request)"
  then show "foundation_authorize grants request = decision_allow"
    by (auto simp: foundation_authorize_def preflight_denies split: option.splits if_splits)
next
  fix request
  assume "gateway_preflight_decision request = None"
  moreover have "gateway_preflight_decision (without_key request) = None"
    by (rule preflight_no_key) (simp add: without_key_def)
  moreover have "areq_action (without_key request) = areq_action request"
    by (simp add: without_key_def)
  ultimately show "foundation_authorize grants request =
      foundation_authorize grants (without_key request)"
    by (simp add: foundation_authorize_def)
qed

lemma foundation_allowed_iff:
  "dec_allowed (foundation_authorize grants request) \<longleftrightarrow>
     gateway_preflight_decision request = None \<and> areq_action request \<noteq> Runtime ModelNative \<and>
     (\<exists>grant \<in> set grants. grant_allows grant request)"
  by (auto simp: foundation_authorize_def preflight_denies list_ex_iff split: option.splits)

lemma grant_allows_scope:
  "grant_allows grant request \<Longrightarrow>
     ag_tenant_id grant = actor_tenant_id (areq_actor request) \<and>
     Some (ag_principal_id grant) = actor_principal_id (areq_actor request) \<and>
     ag_action grant = areq_action request \<and>
     (ag_organization_id grant = None \<or>
        ag_organization_id grant = actor_organization_id (areq_actor request)) \<and>
     (ag_project_id grant = None \<or> ag_project_id grant = actor_project_id (areq_actor request))"
  by (auto simp: grant_allows_def Let_def optional_scope_match_def is_none_or_def
      split: option.splits)

text \<open>Grants of other tenants or principals have no effect at all, not even on the reason.\<close>

lemma foundation_local:
  "foundation_authorize
     (filter (\<lambda>g. ag_tenant_id g = actor_tenant_id (areq_actor request) \<and>
                  Some (ag_principal_id g) = actor_principal_id (areq_actor request)) grants)
     request = foundation_authorize grants request"
proof -
  have "list_ex (\<lambda>g. grant_allows g request)
      (filter (\<lambda>g. ag_tenant_id g = actor_tenant_id (areq_actor request) \<and>
                   Some (ag_principal_id g) = actor_principal_id (areq_actor request)) grants) =
    list_ex (\<lambda>g. grant_allows g request) grants"
    using grant_allows_scope by (auto simp: list_ex_iff)
  then show ?thesis by (simp add: foundation_authorize_def)
qed

lemma foundation_reasons:
  "dec_reason (foundation_authorize grants request) \<in>
     {''api_key_strong_auth_required'', ''api_key_action_not_granted'',
      ''api_key_resource_not_granted'', ''native_route_grant_required'',
      ''principal_action_not_granted'', ''allowed''}"
  by (auto simp: foundation_authorize_def gateway_preflight_decision_def Let_def
      split: option.splits)

end
