(* ===== verification/Gateway_Policy.thy ===== *)
theory Gateway_Policy
  imports Gateway_Authorization
begin

text \<open>
  The Cedar policy boundary (\<open>crates/starweaver-gateway/src/policy.rs\<close>): the schema generated from
  the action registry, the validation of a policy bundle against it, and the Cedar engine. The
  \<open>cedar_policy\<close> crate is not part of the repository: what the code calls of it is the record
  \<open>cedar_api\<close>, an argument of every definition that uses it, with an error given by its display
  string. The engine interprets \<open>authorization_engine\<close> for every such record.
\<close>

subsection \<open>The library boundary\<close>

record cedar_validation =
  cv_passed :: bool
  cv_errors :: "string list"
  cv_warning_count :: nat

record cedar_response =
  cr_has_error :: bool
  cr_allow :: bool

record ('tn, 'sc, 'ps, 'rq, 'en) cedar_api =
  api_type_name :: "string \<Rightarrow> string + 'tn"
  api_schema :: "string \<Rightarrow> string + 'sc"
  api_policy_set :: "string \<Rightarrow> string + 'ps"
  api_validate_strict :: "'sc \<Rightarrow> 'ps \<Rightarrow> cedar_validation"
  api_request :: "'tn \<times> string \<Rightarrow> 'tn \<times> string \<Rightarrow> 'tn \<times> string \<Rightarrow> 'sc \<Rightarrow> string + 'rq"
  api_entities :: "('tn \<times> string) list \<Rightarrow> 'sc \<Rightarrow> string + 'en"
  api_is_authorized :: "'rq \<Rightarrow> 'ps \<Rightarrow> 'en \<Rightarrow> cedar_response"

subsection \<open>The schema\<close>

definition CEDAR_NAMESPACE :: string where
  "CEDAR_NAMESPACE = ''Gateway''"

definition CEDAR_PRINCIPAL_TYPES :: "string list" where
  "CEDAR_PRINCIPAL_TYPES = [''User'', ''ServiceAccount'', ''ApiKey'', ''InternalService'', ''System'']"

text \<open>A \<open>BTreeSet\<close> is the ascending list of its elements.\<close>

definition canonical_resource_kinds :: "string list" where
  "canonical_resource_kinds =
     remdups_adj (sort (filter (\<lambda>kind. kind \<notin> set CEDAR_PRINCIPAL_TYPES)
       (map ad_resource_kind canonical_definitions)))"

definition newline :: string where
  "newline = [CHR 0x0A]"

definition quoted :: "string \<Rightarrow> string" where
  "quoted s = [CHR 0x22] @ s @ [CHR 0x22]"

definition schema_entity_line :: "string \<Rightarrow> string" where
  "schema_entity_line kind = ''  entity '' @ kind @ '';'' @ newline"

definition schema_action_line :: "string \<Rightarrow> action_definition \<Rightarrow> string" where
  "schema_action_line principal_list d =
     ''  action '' @ quoted (ad_action_id d) @ '' appliesTo { principal: ['' @ principal_list @
     ''], resource: ['' @ ad_resource_kind d @ ''], context: {} };'' @ newline"

definition canonical_cedar_schema_source :: string where
  "canonical_cedar_schema_source =
     ''namespace Gateway {'' @ newline @
     concat (map schema_entity_line CEDAR_PRINCIPAL_TYPES) @
     concat (map schema_entity_line canonical_resource_kinds) @
     concat (map (schema_action_line (join_with '', '' CEDAR_PRINCIPAL_TYPES)) canonical_definitions) @
     ''}'' @ newline"

subsection \<open>Bundles\<close>

definition parse_canonical_schema ::
  "('tn, 'sc, 'ps, 'rq, 'en) cedar_api \<Rightarrow> 'sc gateway_result" where
  "parse_canonical_schema api =
     (case api_schema api canonical_cedar_schema_source of
        Inl error \<Rightarrow> Inl (Internal (''canonical cedar schema is invalid: '' @ error))
      | Inr schema \<Rightarrow> Inr schema)"

definition parse_policy_set ::
  "('tn, 'sc, 'ps, 'rq, 'en) cedar_api \<Rightarrow> string \<Rightarrow> 'ps gateway_result" where
  "parse_policy_set api policy_source =
     (case api_policy_set api policy_source of
        Inl error \<Rightarrow> Inl (BadRequest (''cedar policy bundle parse failed: '' @ error))
      | Inr policy_set \<Rightarrow> Inr policy_set)"

text \<open>The result is the warning count of the report.\<close>

definition validate_policy_set ::
  "('tn, 'sc, 'ps, 'rq, 'en) cedar_api \<Rightarrow> 'sc \<Rightarrow> 'ps \<Rightarrow> nat gateway_result" where
  "validate_policy_set api schema policy_set =
     (let validation = api_validate_strict api schema policy_set in
      if \<not> cv_passed validation
      then Inl (BadRequest (''cedar policy bundle validation failed: '' @
             join_with ''; '' (cv_errors validation)))
      else Inr (cv_warning_count validation))"

definition validate_cedar_policy_bundle ::
  "('tn, 'sc, 'ps, 'rq, 'en) cedar_api \<Rightarrow> string \<Rightarrow> nat gateway_result" where
  "validate_cedar_policy_bundle api policy_source =
     rbind (parse_canonical_schema api) (\<lambda>schema.
     rbind (parse_policy_set api policy_source) (\<lambda>policy_set.
     validate_policy_set api schema policy_set))"

record ('sc, 'ps) cedar_engine =
  ce_policy_set :: 'ps
  ce_schema :: 'sc

definition from_policy_source ::
  "('tn, 'sc, 'ps, 'rq, 'en) cedar_api \<Rightarrow> string \<Rightarrow> ('sc, 'ps) cedar_engine gateway_result" where
  "from_policy_source api policy_source =
     rbind (parse_canonical_schema api) (\<lambda>schema.
     rbind (parse_policy_set api policy_source) (\<lambda>policy_set.
     rbind (validate_policy_set api schema policy_set) (\<lambda>_.
     Inr \<lparr>ce_policy_set = policy_set, ce_schema = schema\<rparr>)))"

subsection \<open>The engine\<close>

fun cedar_actor_type :: "actor_kind \<Rightarrow> string" where
  "cedar_actor_type UserActor = ''User''"
| "cedar_actor_type ServiceAccountActor = ''ServiceAccount''"
| "cedar_actor_type ApiKeyActor = ''ApiKey''"
| "cedar_actor_type InternalServiceActor = ''InternalService''"
| "cedar_actor_type SystemActor = ''System''"

definition cedar_entity_uid ::
  "('tn, 'sc, 'ps, 'rq, 'en) cedar_api \<Rightarrow> string \<Rightarrow> string \<Rightarrow> ('tn \<times> string) gateway_result" where
  "cedar_entity_uid api entity_type entity_id =
     (case api_type_name api (CEDAR_NAMESPACE @ ''::'' @ entity_type) of
        Inl error \<Rightarrow> Inl (Internal (''cedar entity type is invalid: '' @ error))
      | Inr type_name \<Rightarrow> Inr (type_name, entity_id))"

definition cedar_request ::
  "('tn, 'sc, 'ps, 'rq, 'en) cedar_api \<Rightarrow> authorization_request \<Rightarrow> 'sc \<Rightarrow> 'rq gateway_result" where
  "cedar_request api request schema =
     rbind (cedar_entity_uid api (cedar_actor_type (actor_kind (areq_actor request)))
              (actor_id (areq_actor request))) (\<lambda>principal.
     rbind (cedar_entity_uid api ''Action'' (action_as_str (areq_action request))) (\<lambda>action.
     rbind (cedar_entity_uid api (rr_kind (areq_resource request)) (rr_id (areq_resource request)))
       (\<lambda>resource.
     case api_request api principal action resource schema of
       Inl error \<Rightarrow> Inl (Internal (''cedar request build failed: '' @ error))
     | Inr r \<Rightarrow> Inr r)))"

text \<open>The loop over \<open>[principal_uid, resource_uid]\<close> keeps each uid once.\<close>

definition cedar_entities ::
  "('tn, 'sc, 'ps, 'rq, 'en) cedar_api \<Rightarrow> authorization_request \<Rightarrow> 'sc \<Rightarrow> 'en gateway_result" where
  "cedar_entities api request schema =
     rbind (cedar_entity_uid api (cedar_actor_type (actor_kind (areq_actor request)))
              (actor_id (areq_actor request))) (\<lambda>principal.
     rbind (cedar_entity_uid api (rr_kind (areq_resource request)) (rr_id (areq_resource request)))
       (\<lambda>resource.
     case api_entities api (if principal = resource then [principal] else [principal, resource]) schema of
       Inl error \<Rightarrow> Inl (Internal (''cedar entities build failed: '' @ error))
     | Inr es \<Rightarrow> Inr es))"

definition cedar_authorize ::
  "('tn, 'sc, 'ps, 'rq, 'en) cedar_api \<Rightarrow> ('sc, 'ps) cedar_engine \<Rightarrow> authorization_request \<Rightarrow>
   authorization_decision" where
  "cedar_authorize api engine request =
     (case gateway_preflight_decision request of
        Some decision \<Rightarrow> decision
      | None \<Rightarrow>
          (case cedar_request api request (ce_schema engine) of
             Inl _ \<Rightarrow> decision_deny ''cedar_request_invalid''
           | Inr creq \<Rightarrow>
               (case cedar_entities api request (ce_schema engine) of
                  Inl _ \<Rightarrow> decision_deny ''cedar_entities_invalid''
                | Inr entities \<Rightarrow>
                    let response = api_is_authorized api creq (ce_policy_set engine) entities in
                    if cr_has_error response then decision_deny ''cedar_policy_error''
                    else if cr_allow response then decision_allow
                    else decision_deny ''cedar_policy_denied'')))"

subsection \<open>Laws\<close>

text \<open>What Cedar sees of a request: the actor's kind and id, the action and the resource.\<close>

definition cedar_view :: "authorization_request \<Rightarrow> actor_kind \<times> string \<times> gateway_action \<times> resource_ref" where
  "cedar_view request =
     (actor_kind (areq_actor request), actor_id (areq_actor request), areq_action request,
      areq_resource request)"

lemma cedar_request_cong:
  "cedar_view r1 = cedar_view r2 \<Longrightarrow> cedar_request api r1 schema = cedar_request api r2 schema"
  by (simp add: cedar_view_def cedar_request_def)

lemma cedar_entities_cong:
  "cedar_view r1 = cedar_view r2 \<Longrightarrow> cedar_entities api r1 schema = cedar_entities api r2 schema"
  by (simp add: cedar_view_def cedar_entities_def)

lemma cedar_view_without_key [simp]: "cedar_view (without_key request) = cedar_view request"
  by (simp add: cedar_view_def without_key_def)

lemma cedar_authorize_cong:
  assumes "cedar_view r1 = cedar_view r2"
    and "gateway_preflight_decision r1 = None" and "gateway_preflight_decision r2 = None"
  shows "cedar_authorize api engine r1 = cedar_authorize api engine r2"
  by (simp only: cedar_authorize_def assms(2,3) cedar_request_cong [OF assms(1)]
      cedar_entities_cong [OF assms(1)])

lemma cedar_authorize_cases:
  "cedar_authorize api engine request = decision_allow \<or>
   \<not> dec_allowed (cedar_authorize api engine request)"
  by (auto simp: cedar_authorize_def Let_def preflight_denies split: option.split sum.split)

interpretation cedar: authorization_engine "cedar_authorize api engine" for api engine
proof unfold_locales
  fix request d
  assume "gateway_preflight_decision request = Some d"
  then show "cedar_authorize api engine request = d" by (simp add: cedar_authorize_def)
next
  fix request
  assume "dec_allowed (cedar_authorize api engine request)"
  then show "cedar_authorize api engine request = decision_allow"
    using cedar_authorize_cases by metis
next
  fix request
  assume "gateway_preflight_decision request = None"
  then show "cedar_authorize api engine request = cedar_authorize api engine (without_key request)"
    by (intro cedar_authorize_cong) (simp_all add: preflight_no_key without_key_def cedar_view_def)
qed

text \<open>The engine is built exactly from the bundles that validation accepts.\<close>

lemma from_policy_source_iff:
  "(\<exists>engine. from_policy_source api source = Inr engine) \<longleftrightarrow>
     (\<exists>warnings. validate_cedar_policy_bundle api source = Inr warnings)"
  by (auto simp: from_policy_source_def validate_cedar_policy_bundle_def rbind_Inr_iff)

lemma from_policy_source_error:
  "from_policy_source api source = Inl e \<longleftrightarrow> validate_cedar_policy_bundle api source = Inl e"
  by (cases "parse_canonical_schema api"; cases "parse_policy_set api source")
    (auto simp: from_policy_source_def validate_cedar_policy_bundle_def validate_policy_set_def Let_def)

end
