(* ===== verification/Gateway_Auth.thy ===== *)
theory Gateway_Auth
  imports Gateway_Domain "HOL-Library.Word" "HOL-Library.AList"
begin

unbundle bit_operations_syntax

text \<open>
  Authentication (\<open>auth.rs\<close>, the API key and session repositories of \<open>storage.rs\<close>, and the key and
  session branches of \<open>authenticate_request\<close> in \<open>service.rs\<close>): generation and creation of keys and
  sessions, verification with its throttle, revocation, and the resolution of an actor through an
  active project membership. Argon2, SHA-256 and the random generator are library code: the record
  \<open>secret_hasher\<close> holds the first two, and drawn bytes, salts and ids are arguments. A hash map is
  an association list in the unspecified order of its iteration.
\<close>

subsection \<open>Stores\<close>

record secret_hasher =
  sh_parse_hash :: "string \<Rightarrow> string option"
  sh_verify_password :: "string \<Rightarrow> string \<Rightarrow> bool"
  sh_hash_password :: "string \<Rightarrow> string \<Rightarrow> string + string"
  sh_sha256_hex :: "string \<Rightarrow> string"

text \<open>\<open>sh_parse_hash\<close> is the error of \<open>PasswordHash::new\<close>, if any.\<close>

record last_used_update =
  lu_tenant_id :: string
  lu_api_key_id :: string
  lu_key_prefix :: string
  lu_request_id :: string
  lu_used_at :: datetime

record auth_store =
  as_api_keys :: "(string \<times> api_key_record list) list"
  as_failed_auth :: "string \<rightharpoonup> datetime list"
  as_last_used_updates :: "last_used_update list"
  as_sessions :: "(string \<times> auth_session_record) list"
  as_project_memberships :: "string \<times> string \<rightharpoonup> project_membership"

definition empty_auth_store :: auth_store where
  "empty_auth_store =
     \<lparr>as_api_keys = [], as_failed_auth = Map.empty, as_last_used_updates = [], as_sessions = [],
      as_project_memberships = Map.empty\<rparr>"

definition API_KEY_FAILED_AUTH_WINDOW :: datetime where
  "API_KEY_FAILED_AUTH_WINDOW = 60 * 1000000000"

definition API_KEY_FAILED_AUTH_MAX_ATTEMPTS :: nat where
  "API_KEY_FAILED_AUTH_MAX_ATTEMPTS = 8"

definition API_KEY_CANDIDATE_LIMIT :: nat where
  "API_KEY_CANDIDATE_LIMIT = 8"

subsection \<open>API keys in the store\<close>

text \<open>\<open>entry(prefix).or_default().push(record)\<close>.\<close>

fun push_key :: "string \<Rightarrow> 'a \<Rightarrow> (string \<times> 'a list) list \<Rightarrow> (string \<times> 'a list) list" where
  "push_key k x [] = [(k, [x])]"
| "push_key k x ((k', xs) # rest) =
     (if k' = k then (k', xs @ [x]) # rest else (k', xs) # push_key k x rest)"

definition insert_api_key :: "api_key_record \<Rightarrow> auth_store \<Rightarrow> auth_store" where
  "insert_api_key r s =
     s\<lparr>as_api_keys := push_key (key_key_prefix r) r
         (map (\<lambda>(prefix, records). (prefix, filter (\<lambda>c. key_api_key_id c \<noteq> key_api_key_id r) records))
            (as_api_keys s))\<rparr>"

definition api_key :: "auth_store \<Rightarrow> string \<Rightarrow> api_key_record option" where
  "api_key s i = find (\<lambda>r. key_api_key_id r = i) (concat (map snd (as_api_keys s)))"

definition api_key_status_supported_for_admin :: "api_key_status \<Rightarrow> bool" where
  "api_key_status_supported_for_admin status \<longleftrightarrow> status = KeyActive \<or> status = KeyDisabled"

text \<open>\<open>records.iter_mut().find(..)\<close>: the first record with the id, and the list with it updated.\<close>

fun update_first :: "('a \<Rightarrow> bool) \<Rightarrow> ('a \<Rightarrow> 'a) \<Rightarrow> 'a list \<Rightarrow> ('a \<times> 'a list) option" where
  "update_first P f [] = None"
| "update_first P f (x # xs) =
     (if P x then Some (f x, f x # xs)
      else map_option (\<lambda>(y, ys). (y, x # ys)) (update_first P f xs))"

fun update_first_bucket ::
  "('a \<Rightarrow> bool) \<Rightarrow> ('a \<Rightarrow> 'a) \<Rightarrow> (string \<times> 'a list) list \<Rightarrow> ('a \<times> (string \<times> 'a list) list) option" where
  "update_first_bucket P f [] = None"
| "update_first_bucket P f ((k, xs) # rest) =
     (case update_first P f xs of
        Some (y, ys) \<Rightarrow> Some (y, (k, ys) # rest)
      | None \<Rightarrow> map_option (\<lambda>(y, rest'). (y, (k, xs) # rest')) (update_first_bucket P f rest))"

definition update_api_key_status ::
  "string \<Rightarrow> api_key_status \<Rightarrow> datetime \<Rightarrow> auth_store \<Rightarrow> api_key_record gateway_result \<times> auth_store" where
  "update_api_key_status i status now s =
     (if \<not> api_key_status_supported_for_admin status
      then (Inl (BadRequest ''unsupported_api_key_status''), s)
      else
        (case update_first_bucket (\<lambda>r. key_api_key_id r = i)
                (\<lambda>r. r\<lparr>key_status := status, key_updated_at := now\<rparr>) (as_api_keys s) of
           Some (updated, keys) \<Rightarrow> (Inr updated, s\<lparr>as_api_keys := keys\<rparr>)
         | None \<Rightarrow> (Inl (NotFound (''API key '' @ i)), s)))"

definition candidates_by_prefix :: "auth_store \<Rightarrow> string \<Rightarrow> api_key_record list" where
  "candidates_by_prefix s prefix =
     (case map_of (as_api_keys s) prefix of
        None \<Rightarrow> [] | Some records \<Rightarrow> take API_KEY_CANDIDATE_LIMIT records)"

subsection \<open>The throttle\<close>

definition retain_fresh_failed_auth :: "datetime \<Rightarrow> datetime list \<Rightarrow> datetime list" where
  "retain_fresh_failed_auth now attempts =
     filter (\<lambda>attempt. attempt > now - API_KEY_FAILED_AUTH_WINDOW) attempts"

text \<open>The attempts recorded for a throttle key, pruned to the window; an absent key is created.\<close>

definition pruned_attempts :: "auth_store \<Rightarrow> string \<Rightarrow> datetime \<Rightarrow> datetime list" where
  "pruned_attempts s throttle_key now =
     retain_fresh_failed_auth now (case as_failed_auth s throttle_key of None \<Rightarrow> [] | Some xs \<Rightarrow> xs)"

definition failed_api_key_auth_count :: "string \<Rightarrow> datetime \<Rightarrow> auth_store \<Rightarrow> nat \<times> auth_store" where
  "failed_api_key_auth_count throttle_key now s =
     (let attempts = pruned_attempts s throttle_key now in
      (length attempts, s\<lparr>as_failed_auth := (as_failed_auth s)(throttle_key \<mapsto> attempts)\<rparr>))"

definition api_key_failed_auth_allowed :: "string \<Rightarrow> datetime \<Rightarrow> auth_store \<Rightarrow> bool \<times> auth_store" where
  "api_key_failed_auth_allowed throttle_key now s =
     (case failed_api_key_auth_count throttle_key now s of
        (n, s1) \<Rightarrow> (n < API_KEY_FAILED_AUTH_MAX_ATTEMPTS, s1))"

definition record_api_key_failed_auth :: "string \<Rightarrow> datetime \<Rightarrow> auth_store \<Rightarrow> auth_store" where
  "record_api_key_failed_auth throttle_key now s =
     s\<lparr>as_failed_auth :=
         (as_failed_auth s)(throttle_key \<mapsto> pruned_attempts s throttle_key now @ [now])\<rparr>"

definition record_api_key_last_used :: "last_used_update \<Rightarrow> auth_store \<Rightarrow> auth_store" where
  "record_api_key_last_used update s =
     s\<lparr>as_failed_auth := (as_failed_auth s)(lu_key_prefix update := None),
       as_last_used_updates := as_last_used_updates s @ [update]\<rparr>"

subsection \<open>Keys\<close>

definition API_KEY_PREFIX_LEN :: nat where
  "API_KEY_PREFIX_LEN = 12"

definition is_ascii :: "string \<Rightarrow> bool" where
  "is_ascii s = list_all (\<lambda>c. (of_char c :: nat) < 128) s"

definition key_prefix :: "string \<Rightarrow> string gateway_result" where
  "key_prefix raw_key =
     (let prefix_len = length ''swg_'' + API_KEY_PREFIX_LEN in
      if \<not> is_ascii raw_key \<or> \<not> starts_with raw_key ''swg_'' \<or> length raw_key < prefix_len
      then Inl Authentication
      else Inr (take prefix_len raw_key))"

definition HEX :: string where
  "HEX = ''0123456789abcdef''"

definition generate_raw_prefixed_token :: "8 word list \<Rightarrow> string \<Rightarrow> string" where
  "generate_raw_prefixed_token bytes prefix =
     prefix @ concat (map (\<lambda>byte. [HEX ! unat (drop_bit 4 byte), HEX ! unat (byte AND 0x0f)]) bytes)"

definition generate_raw_key :: "8 word list \<Rightarrow> string" where
  "generate_raw_key bytes = generate_raw_prefixed_token bytes ''swg_''"

definition generate_raw_session_token :: "8 word list \<Rightarrow> string" where
  "generate_raw_session_token bytes = generate_raw_prefixed_token bytes ''sws_''"

definition api_key_secret_metadata ::
  "secret_hasher \<Rightarrow> string \<Rightarrow> string \<Rightarrow> (string \<times> string) gateway_result" where
  "api_key_secret_metadata hasher salt raw_key =
     rbind (key_prefix raw_key) (\<lambda>prefix.
       case sh_hash_password hasher raw_key salt of
         Inl error \<Rightarrow> Inl (Internal (''api key hash failed: '' @ error))
       | Inr secret_hash \<Rightarrow> Inr (prefix, secret_hash))"

record create_api_key_request =
  ck_tenant_id :: string
  ck_organization_id :: "string option"
  ck_project_id :: "string option"
  ck_owner_principal_id :: string
  ck_name :: string
  ck_created_by :: string
  ck_expires_at :: "datetime option"
  ck_allowed_actions :: "string list"
  ck_allowed_resources :: "string list"

text \<open>\<open>CreatedApiKey\<close> is the record with the raw key.\<close>

definition create_api_key ::
  "secret_hasher \<Rightarrow> 8 word list \<Rightarrow> string \<Rightarrow> string \<Rightarrow> create_api_key_request \<Rightarrow> datetime \<Rightarrow>
   (api_key_record \<times> string) gateway_result" where
  "create_api_key hasher bytes salt new_id request now =
     (let raw_key = generate_raw_key bytes in
      rbind (api_key_secret_metadata hasher salt raw_key) (\<lambda>(prefix, secret_hash).
      Inr (\<lparr>key_api_key_id = new_id, key_tenant_id = ck_tenant_id request,
            key_organization_id = ck_organization_id request, key_project_id = ck_project_id request,
            key_owner_principal_id = ck_owner_principal_id request, key_name = ck_name request,
            key_key_prefix = prefix, key_secret_hash = secret_hash, key_hash_version = 1,
            key_status = KeyActive, key_allowed_actions = ck_allowed_actions request,
            key_allowed_resources = ck_allowed_resources request,
            key_expires_at = ck_expires_at request, key_last_used_at = None,
            key_last_used_request_id = None, key_created_by = ck_created_by request,
            key_created_at = now, key_updated_at = now\<rparr>, raw_key)))"

definition rotate_api_key_secret ::
  "secret_hasher \<Rightarrow> 8 word list \<Rightarrow> string \<Rightarrow> api_key_record \<Rightarrow> datetime \<Rightarrow>
   (api_key_record \<times> string) gateway_result" where
  "rotate_api_key_secret hasher bytes salt r now =
     (let raw_key = generate_raw_key bytes in
      rbind (api_key_secret_metadata hasher salt raw_key) (\<lambda>(prefix, secret_hash).
      Inr (r\<lparr>key_key_prefix := prefix, key_secret_hash := secret_hash, key_hash_version := 1,
            key_status := KeyActive, key_last_used_at := None, key_last_used_request_id := None,
            key_updated_at := now\<rparr>, raw_key)))"

definition verify_secret :: "secret_hasher \<Rightarrow> string \<Rightarrow> string \<Rightarrow> bool gateway_result" where
  "verify_secret hasher presented_key secret_hash =
     (case sh_parse_hash hasher secret_hash of
        Some error \<Rightarrow> Inl (Internal (''stored api key hash is invalid: '' @ error))
      | None \<Rightarrow> Inr (sh_verify_password hasher presented_key secret_hash))"

text \<open>The loop over candidates: the key that verifies, no key, or the error that stops it.\<close>

fun matching_candidate ::
  "secret_hasher \<Rightarrow> string \<Rightarrow> string \<Rightarrow> datetime \<Rightarrow> api_key_record list \<Rightarrow> api_key_record option gateway_result" where
  "matching_candidate hasher presented_key prefix now [] = Inr None"
| "matching_candidate hasher presented_key prefix now (candidate # rest) =
     (if key_key_prefix candidate \<noteq> prefix \<or> \<not> key_can_authenticate_at candidate now
      then matching_candidate hasher presented_key prefix now rest
      else
        rbind (verify_secret hasher presented_key (key_secret_hash candidate)) (\<lambda>ok.
          if ok then Inr (Some candidate)
          else matching_candidate hasher presented_key prefix now rest))"

definition verify_api_key ::
  "secret_hasher \<Rightarrow> string \<Rightarrow> string \<Rightarrow> string \<Rightarrow> datetime \<Rightarrow> auth_store \<Rightarrow>
   authenticated_actor gateway_result \<times> auth_store" where
  "verify_api_key hasher presented_key request_id trace_id now s =
     (case key_prefix presented_key of
        Inl e \<Rightarrow> (Inl e, s)
      | Inr prefix \<Rightarrow>
          (case api_key_failed_auth_allowed prefix now s of
             (allowed, s1) \<Rightarrow>
               if \<not> allowed then (Inl Authentication, s1)
               else
                 let candidates = candidates_by_prefix s1 prefix in
                 if candidates = []
                 then (Inl Authentication, record_api_key_failed_auth prefix now s1)
                 else
                   (case matching_candidate hasher presented_key prefix now candidates of
                      Inl e \<Rightarrow> (Inl e, s1)
                    | Inr None \<Rightarrow> (Inl Authentication, record_api_key_failed_auth prefix now s1)
                    | Inr (Some candidate) \<Rightarrow>
                        (Inr (actor_for_api_key candidate request_id trace_id),
                         record_api_key_last_used
                           \<lparr>lu_tenant_id = key_tenant_id candidate,
                            lu_api_key_id = key_api_key_id candidate, lu_key_prefix = prefix,
                            lu_request_id = request_id, lu_used_at = now\<rparr> s1))))"

subsection \<open>Sessions\<close>

definition session_token_hash :: "secret_hasher \<Rightarrow> string \<Rightarrow> string" where
  "session_token_hash hasher raw_token = ''sha256:'' @ sh_sha256_hex hasher raw_token"

record create_auth_session_request =
  cse_tenant_id :: string
  cse_principal_id :: string
  cse_active_organization_id :: "string option"
  cse_active_project_id :: "string option"
  cse_expires_at :: datetime

definition create_auth_session ::
  "secret_hasher \<Rightarrow> 8 word list \<Rightarrow> string \<Rightarrow> create_auth_session_request \<Rightarrow> datetime \<Rightarrow>
   auth_session_record \<times> string" where
  "create_auth_session hasher bytes new_id request now =
     (let raw_token = generate_raw_session_token bytes in
      (\<lparr>sess_auth_session_id = new_id, sess_tenant_id = cse_tenant_id request,
        sess_principal_id = cse_principal_id request,
        sess_active_organization_id = cse_active_organization_id request,
        sess_active_project_id = cse_active_project_id request,
        sess_session_hash = session_token_hash hasher raw_token, sess_status = SessActive,
        sess_expires_at = cse_expires_at request, sess_created_at = now, sess_updated_at = now\<rparr>,
       raw_token))"

definition insert_auth_session :: "auth_session_record \<Rightarrow> auth_store \<Rightarrow> auth_store" where
  "insert_auth_session r s = s\<lparr>as_sessions := AList.update (sess_session_hash r) r (as_sessions s)\<rparr>"

definition session_by_hash :: "auth_store \<Rightarrow> string \<Rightarrow> auth_session_record option" where
  "session_by_hash s h = map_of (as_sessions s) h"

definition verify_session_token ::
  "secret_hasher \<Rightarrow> string \<Rightarrow> datetime \<Rightarrow> auth_store \<Rightarrow> auth_session_record gateway_result" where
  "verify_session_token hasher presented_token now s =
     (if \<not> is_ascii presented_token \<or> \<not> starts_with presented_token ''sws_'' then Inl Authentication
      else
        let presented_hash = session_token_hash hasher presented_token in
        (case session_by_hash s presented_hash of
           None \<Rightarrow> Inl Authentication
         | Some session \<Rightarrow>
             if sess_session_hash session \<noteq> presented_hash \<or> \<not> session_can_authenticate_at session now
             then Inl Authentication else Inr session))"

definition revoke_session_by_hash ::
  "string \<Rightarrow> datetime \<Rightarrow> auth_store \<Rightarrow> auth_session_record gateway_result \<times> auth_store" where
  "revoke_session_by_hash h now s =
     (case session_by_hash s h of
        None \<Rightarrow> (Inl Authentication, s)
      | Some session \<Rightarrow>
          let revoked = session\<lparr>sess_status := SessRevoked, sess_updated_at := now\<rparr> in
          (Inr revoked, s\<lparr>as_sessions := AList.update h revoked (as_sessions s)\<rparr>))"

definition update_session_active_context_by_hash ::
  "string \<Rightarrow> string option \<Rightarrow> string option \<Rightarrow> datetime \<Rightarrow> auth_store \<Rightarrow>
   auth_session_record gateway_result \<times> auth_store" where
  "update_session_active_context_by_hash h organization_id project_id now s =
     (case session_by_hash s h of
        None \<Rightarrow> (Inl Authentication, s)
      | Some session \<Rightarrow>
          if \<not> session_can_authenticate_at session now then (Inl Authentication, s)
          else
            let updated = session\<lparr>sess_active_organization_id := organization_id,
                  sess_active_project_id := project_id, sess_updated_at := now\<rparr> in
            (Inr updated, s\<lparr>as_sessions := AList.update h updated (as_sessions s)\<rparr>))"

definition session_of_principal :: "string \<Rightarrow> string \<Rightarrow> auth_session_record \<Rightarrow> bool" where
  "session_of_principal tenant_id principal_id session \<longleftrightarrow>
     sess_tenant_id session = tenant_id \<and> sess_principal_id session = principal_id"

definition revoke_sessions_for_principal ::
  "string \<Rightarrow> string \<Rightarrow> datetime \<Rightarrow> auth_store \<Rightarrow> nat \<times> auth_store" where
  "revoke_sessions_for_principal tenant_id principal_id now s =
     (let hit = (\<lambda>session. session_of_principal tenant_id principal_id session \<and>
            sess_status session = SessActive) in
      (length (filter (\<lambda>(h, session). hit session) (as_sessions s)),
       s\<lparr>as_sessions := map (\<lambda>(h, session).
           (h, if hit session then session\<lparr>sess_status := SessRevoked, sess_updated_at := now\<rparr> else session))
           (as_sessions s)\<rparr>))"

fun revoke_first :: "(auth_session_record \<Rightarrow> bool) \<Rightarrow> datetime \<Rightarrow> (string \<times> auth_session_record) list \<Rightarrow>
    (auth_session_record \<times> (string \<times> auth_session_record) list) option" where
  "revoke_first P now [] = None"
| "revoke_first P now ((h, session) # rest) =
     (if P session
      then (let revoked = session\<lparr>sess_status := SessRevoked, sess_updated_at := now\<rparr> in
            Some (revoked, (h, revoked) # rest))
      else map_option (\<lambda>(r, rest'). (r, (h, session) # rest')) (revoke_first P now rest))"

definition revoke_session_for_principal ::
  "string \<Rightarrow> string \<Rightarrow> string \<Rightarrow> datetime \<Rightarrow> auth_store \<Rightarrow> auth_session_record gateway_result \<times> auth_store" where
  "revoke_session_for_principal tenant_id principal_id auth_session_id now s =
     (case revoke_first (\<lambda>session. session_of_principal tenant_id principal_id session \<and>
             sess_auth_session_id session = auth_session_id) now (as_sessions s) of
        None \<Rightarrow> (Inl (NotFound (''auth session '' @ auth_session_id)), s)
      | Some (revoked, sessions) \<Rightarrow> (Inr revoked, s\<lparr>as_sessions := sessions\<rparr>))"

subsection \<open>Actors\<close>

definition insert_project_membership :: "project_membership \<Rightarrow> auth_store \<Rightarrow> auth_store" where
  "insert_project_membership m s =
     s\<lparr>as_project_memberships := (as_project_memberships s)((pm_principal_id m, pm_project_id m) \<mapsto> m)\<rparr>"

definition active_project_membership ::
  "auth_store \<Rightarrow> string \<Rightarrow> string \<Rightarrow> string \<Rightarrow> project_membership gateway_result" where
  "active_project_membership s principal_id project_id missing_reason =
     (case as_project_memberships s (principal_id, project_id) of
        None \<Rightarrow> Inl (Authorization missing_reason)
      | Some membership \<Rightarrow>
          if \<not> pm_accepts_access membership then Inl (Authorization ''project_membership_inactive'')
          else Inr membership)"

definition resolve_user_session_actor ::
  "auth_store \<Rightarrow> string \<Rightarrow> string \<Rightarrow> string \<Rightarrow> string \<Rightarrow> string \<Rightarrow> datetime option \<Rightarrow>
   authenticated_actor gateway_result" where
  "resolve_user_session_actor s principal_id session_id project_id request_id trace_id expires_at =
     rbind (active_project_membership s principal_id project_id ''user_project_membership_required'')
       (\<lambda>membership. Inr (actor_for_user_session (from_project_membership membership) principal_id
          session_id request_id trace_id expires_at))"

definition resolve_service_account_actor ::
  "auth_store \<Rightarrow> string \<Rightarrow> string \<Rightarrow> string \<Rightarrow> string \<Rightarrow> authenticated_actor gateway_result" where
  "resolve_service_account_actor s service_account_id project_id request_id trace_id =
     rbind (active_project_membership s service_account_id project_id
              ''service_account_project_membership_required'')
       (\<lambda>membership. Inr (actor_for_service_account (from_project_membership membership)
          service_account_id request_id trace_id))"

text \<open>
  \<open>authenticate_request\<close> without a PostgreSQL store, after \<open>bearer_token\<close> and the request and trace
  ids; \<open>project_header\<close> is the result of \<open>optional_header\<close>, which is evaluated for sessions only.
\<close>

definition authenticate_request ::
  "secret_hasher \<Rightarrow> string \<Rightarrow> string option gateway_result \<Rightarrow> string \<Rightarrow> string \<Rightarrow> datetime \<Rightarrow> auth_store \<Rightarrow>
   authenticated_actor gateway_result \<times> auth_store" where
  "authenticate_request hasher presented_key project_header request_id trace_id now s =
     (if starts_with presented_key ''sws_''
      then
        (rbind (verify_session_token hasher presented_key now s) (\<lambda>session.
         rbind project_header (\<lambda>header.
         rbind (ok_or Authentication (case header of Some p \<Rightarrow> Some p | None \<Rightarrow> sess_active_project_id session))
           (\<lambda>project_id.
         resolve_user_session_actor s (sess_principal_id session) (sess_auth_session_id session) project_id
           request_id trace_id (Some (sess_expires_at session))))), s)
      else verify_api_key hasher presented_key request_id trace_id now s)"

end
