(* ===== verification/Gateway_Auth_Properties.thy ===== *)
theory Gateway_Auth_Properties
  imports Gateway_Auth "HOL-Library.Multiset"
begin

text \<open>
  What authentication promises: only a stored, live key or session yields an actor, with that
  record's own scope; tokens carry all the random bytes drawn for them; wrong guesses on a prefix
  are bounded in every window; disabling and revocation are immediate. The failure log behind the
  throttle is the interface \<open>failure_log\<close>.
\<close>

subsection \<open>The failure log\<close>

text \<open>At most \<open>n\<close> of the times fall in any window of width \<open>w\<close>.\<close>

definition window_bounded :: "datetime \<Rightarrow> nat \<Rightarrow> datetime list \<Rightarrow> bool" where
  "window_bounded w n history \<longleftrightarrow>
     (\<forall>T. length (filter (\<lambda>t. T - w < t \<and> t \<le> T) history) \<le> n)"

text \<open>From time \<open>now\<close> on, a log and a history have the same fresh entries.\<close>

definition agrees_from :: "datetime \<Rightarrow> datetime \<Rightarrow> datetime list \<Rightarrow> datetime list \<Rightarrow> bool" where
  "agrees_from w now log history \<longleftrightarrow>
     (\<forall>T \<ge> now. filter (\<lambda>t. t > T - w) log = filter (\<lambda>t. t > T - w) history)"

locale failure_log =
  fixes attempts_of :: "'s \<Rightarrow> string \<Rightarrow> datetime list"
    and allowed :: "string \<Rightarrow> datetime \<Rightarrow> 's \<Rightarrow> bool \<times> 's"
    and record_failure :: "string \<Rightarrow> datetime \<Rightarrow> 's \<Rightarrow> 's"
    and window :: datetime and limit :: nat
  assumes allowed_iff:
      "fst (allowed k now s) \<longleftrightarrow> length (filter (\<lambda>t. t > now - window) (attempts_of s k)) < limit"
    and allowed_log:
      "attempts_of (snd (allowed k now s)) k' =
         (if k' = k then filter (\<lambda>t. t > now - window) (attempts_of s k) else attempts_of s k')"
    and failure_log:
      "attempts_of (record_failure k now s) k' =
         (if k' = k then filter (\<lambda>t. t > now - window) (attempts_of s k) @ [now] else attempts_of s k')"
    and window_pos: "0 < window"
begin

lemma agrees_later:
  "agrees_from window now log history \<Longrightarrow> now \<le> now' \<Longrightarrow> agrees_from window now' log history"
  by (simp add: agrees_from_def)

lemma prune_agrees:
  assumes "agrees_from window now (attempts_of s k) history" and "now \<le> now'"
  shows "agrees_from window now' (attempts_of (snd (allowed k now' s)) k) history"
proof -
  have "filter (\<lambda>t. t > T - window) (filter (\<lambda>t. t > now' - window) xs) = filter (\<lambda>t. t > T - window) xs"
    if "now' \<le> T" for T xs
    using that by (auto intro!: filter_cong)
  then show ?thesis using assms by (auto simp: agrees_from_def allowed_log)
qed

lemma failure_agrees:
  assumes "agrees_from window now (attempts_of s k) history" and "now \<le> now'"
  shows "agrees_from window now' (attempts_of (record_failure k now' s) k) (history @ [now'])"
  using prune_agrees [OF assms] by (simp add: agrees_from_def allowed_log failure_log)

lemma failure_bounded:
  assumes "window_bounded window limit history" and "agrees_from window now (attempts_of s k) history"
    and "now \<le> now'" and "fst (allowed k now' s)"
  shows "window_bounded window limit (history @ [now'])"
  unfolding window_bounded_def
proof
  fix T
  show "length (filter (\<lambda>t. T - window < t \<and> t \<le> T) (history @ [now'])) \<le> limit"
  proof (cases "now' \<le> T")
    case True
    have sub: "length (filter (\<lambda>t. T - window < t \<and> t \<le> T) xs) \<le> length (filter (\<lambda>t. t > now' - window) xs)"
      for xs using True by (induction xs) auto
    have "length (filter (\<lambda>t. t > now' - window) history) < limit"
      using assms(2-4) by (simp add: allowed_iff agrees_from_def)
    with sub [of history] have "length (filter (\<lambda>t. T - window < t \<and> t \<le> T) history) < limit"
      by (rule le_less_trans)
    then show ?thesis by simp
  qed (use assms(1) in \<open>simp add: window_bounded_def\<close>)
qed

end

definition failed_attempts :: "auth_store \<Rightarrow> string \<Rightarrow> datetime list" where
  "failed_attempts s k = (case as_failed_auth s k of None \<Rightarrow> [] | Some xs \<Rightarrow> xs)"

lemma pruned_failed_attempts:
  "pruned_attempts s k now = filter (\<lambda>t. t > now - API_KEY_FAILED_AUTH_WINDOW) (failed_attempts s k)"
  by (simp add: pruned_attempts_def retain_fresh_failed_auth_def failed_attempts_def)

interpretation key_throttle: failure_log failed_attempts api_key_failed_auth_allowed
  record_api_key_failed_auth API_KEY_FAILED_AUTH_WINDOW API_KEY_FAILED_AUTH_MAX_ATTEMPTS
proof unfold_locales
  show "0 < API_KEY_FAILED_AUTH_WINDOW" by (simp add: API_KEY_FAILED_AUTH_WINDOW_def)
qed (auto simp: api_key_failed_auth_allowed_def failed_api_key_auth_count_def Let_def
    record_api_key_failed_auth_def pruned_failed_attempts failed_attempts_def)

subsection \<open>Runs of attempts\<close>

record auth_attempt =
  at_presented_key :: string
  at_request_id :: string
  at_trace_id :: string
  at_time :: datetime

text \<open>The attempts on a prefix that pass the throttle, with their times and results.\<close>

fun tested_attempts ::
  "secret_hasher \<Rightarrow> string \<Rightarrow> auth_attempt list \<Rightarrow> auth_store \<Rightarrow> (datetime \<times> authenticated_actor gateway_result) list" where
  "tested_attempts hasher p [] s = []"
| "tested_attempts hasher p (a # as) s =
     (case verify_api_key hasher (at_presented_key a) (at_request_id a) (at_trace_id a) (at_time a) s of
        (r, s') \<Rightarrow>
          (if key_prefix (at_presented_key a) = Inr p \<and> fst (api_key_failed_auth_allowed p (at_time a) s)
           then [(at_time a, r)] else []) @ tested_attempts hasher p as s')"

definition refusal_times :: "(datetime \<times> authenticated_actor gateway_result) list \<Rightarrow> datetime list" where
  "refusal_times tested = map fst (filter (\<lambda>(t, r). r = Inl Authentication) tested)"

lemma refusal_times_simps [simp]:
  "refusal_times [] = []"
  "refusal_times ((t, r) # xs) = (if r = Inl Authentication then t # refusal_times xs else refusal_times xs)"
  "refusal_times (xs @ ys) = refusal_times xs @ refusal_times ys"
  by (auto simp: refusal_times_def)

lemma allowed_keys [simp]: "as_api_keys (snd (api_key_failed_auth_allowed k now s)) = as_api_keys s"
  by (simp add: api_key_failed_auth_allowed_def failed_api_key_auth_count_def Let_def)

lemma last_used_attempts:
  "failed_attempts (record_api_key_last_used u s) k = (if k = lu_key_prefix u then [] else failed_attempts s k)"
  by (simp add: failed_attempts_def record_api_key_last_used_def)

lemma verify_other_prefix:
  assumes "verify_api_key hasher key rid tid now s = (r, s')" and "key_prefix key \<noteq> Inr p"
  shows "failed_attempts s' p = failed_attempts s p"
proof (cases "key_prefix key")
  case (Inr q)
  obtain ok s1 where a: "api_key_failed_auth_allowed q now s = (ok, s1)" by force
  have "failed_attempts s1 p = failed_attempts s p"
    using key_throttle.allowed_log [of q now s p] a assms(2) Inr by simp
  then show ?thesis using assms Inr a
    by (auto simp: verify_api_key_def Let_def key_throttle.failure_log last_used_attempts
        split: if_splits sum.splits option.splits)
qed (use assms in \<open>simp add: verify_api_key_def\<close>)

lemma matching_error:
  "matching_candidate hasher key p now cs \<noteq> Inl Authentication"
  by (induction cs) (auto simp: verify_secret_def rbind_Inl_iff split: option.splits)

text \<open>One attempt on the prefix that does not succeed: what it adds to the history.\<close>

lemma verify_same_prefix:
  assumes "verify_api_key hasher key rid tid now' s = (r, s')" and "key_prefix key = Inr p"
    and "agrees_from API_KEY_FAILED_AUTH_WINDOW now (failed_attempts s p) history" and "now \<le> now'"
    and "fst (api_key_failed_auth_allowed p now' s) \<Longrightarrow> \<exists>e. r = Inl e"
  shows "agrees_from API_KEY_FAILED_AUTH_WINDOW now' (failed_attempts s' p)
    (history @ (if fst (api_key_failed_auth_allowed p now' s) \<and> r = Inl Authentication then [now'] else []))"
proof -
  obtain ok s1 where a: "api_key_failed_auth_allowed p now' s = (ok, s1)" by force
  have pruned: "agrees_from API_KEY_FAILED_AUTH_WINDOW now' (failed_attempts s1 p) history"
    using key_throttle.prune_agrees [OF assms(3,4)] a by simp
  have "s' = s1 \<and> (ok \<longrightarrow> r \<noteq> Inl Authentication) \<or>
      s' = record_api_key_failed_auth p now' s1 \<and> ok \<and> r = Inl Authentication"
    using assms(1,2,5) a
    by (auto simp: verify_api_key_def Let_def matching_error split: if_splits sum.splits option.splits)
  then show ?thesis
    using pruned key_throttle.failure_agrees [OF pruned order_refl] a by auto
qed


lemma tested_bounded:
  assumes "sorted (map at_time as)" and "\<forall>a \<in> set as. now \<le> at_time a"
    and "agrees_from API_KEY_FAILED_AUTH_WINDOW now (failed_attempts s p) history"
    and "window_bounded API_KEY_FAILED_AUTH_WINDOW API_KEY_FAILED_AUTH_MAX_ATTEMPTS history"
    and "\<forall>(t, r) \<in> set (tested_attempts hasher p as s). \<exists>e. r = Inl e"
  shows "window_bounded API_KEY_FAILED_AUTH_WINDOW API_KEY_FAILED_AUTH_MAX_ATTEMPTS
    (history @ refusal_times (tested_attempts hasher p as s))"
  using assms
proof (induction as arbitrary: s now history)
  case (Cons a as)
  obtain r s' where v: "verify_api_key hasher (at_presented_key a) (at_request_id a) (at_trace_id a) (at_time a) s = (r, s')"
    by force
  let ?mine = "key_prefix (at_presented_key a) = Inr p"
  let ?tested = "?mine \<and> fst (api_key_failed_auth_allowed p (at_time a) s)"
  let ?new = "if ?tested \<and> r = Inl Authentication then [at_time a] else []"
  have le: "now \<le> at_time a" and later: "\<forall>b \<in> set as. at_time a \<le> at_time b"
    using Cons.prems(1,2) by simp_all
  have agrees: "agrees_from API_KEY_FAILED_AUTH_WINDOW (at_time a) (failed_attempts s' p) (history @ ?new)"
  proof (cases ?mine)
    case True
    have "\<exists>e. r = Inl e" if "fst (api_key_failed_auth_allowed p (at_time a) s)"
      using Cons.prems(5) v True that by auto
    then show ?thesis
      using verify_same_prefix [OF v True Cons.prems(3) le] True by simp
  next
    case False
    then show ?thesis
      using verify_other_prefix [OF v False] key_throttle.agrees_later [OF Cons.prems(3) le] by simp
  qed
  have bounded: "window_bounded API_KEY_FAILED_AUTH_WINDOW API_KEY_FAILED_AUTH_MAX_ATTEMPTS (history @ ?new)"
    using key_throttle.failure_bounded [OF Cons.prems(4,3) le] Cons.prems(4) by simp
  have "window_bounded API_KEY_FAILED_AUTH_WINDOW API_KEY_FAILED_AUTH_MAX_ATTEMPTS
      ((history @ ?new) @ refusal_times (tested_attempts hasher p as s'))"
    using Cons.prems(1,5) v later by (intro Cons.IH [OF _ later agrees bounded]) (auto split: if_splits)
  then show ?case using v by (auto split: if_splits)
qed simp

subsection \<open>Tokens\<close>

lemma high_nibble: "unat (drop_bit 4 b) = unat b div 16" for b :: "8 word"
  by (simp add: drop_bit_eq_div unat_div_distrib)

lemma low_nibble: "unat (b AND 0x0f) = unat b mod 16" for b :: "8 word"
proof -
  have "b AND 0x0f = b mod 16" by (simp add: take_bit_eq_mask mask_eq_exp_minus_1 flip: take_bit_eq_mod [of 4, simplified])
  then show ?thesis by (simp add: unat_mod_distrib)
qed

lemma byte_div_16: "unat b div 16 < 16" for b :: "8 word"
  using unsigned_less [of b, where ?'a = nat] by simp

lemma hex_nth_inject: "i < 16 \<Longrightarrow> j < 16 \<Longrightarrow> HEX ! i = HEX ! j \<longleftrightarrow> i = j"
  by (rule nth_eq_iff_index_eq) (simp_all add: HEX_def)

definition hex_byte :: "8 word \<Rightarrow> string" where
  "hex_byte byte = [HEX ! unat (drop_bit 4 byte), HEX ! unat (byte AND 0x0f)]"

lemma token_eq: "generate_raw_prefixed_token bytes prefix = prefix @ concat (map hex_byte bytes)"
  by (simp add: generate_raw_prefixed_token_def hex_byte_def [abs_def])

lemma hex_byte_inject: "hex_byte a = hex_byte b \<longleftrightarrow> a = b"
proof
  assume "hex_byte a = hex_byte b"
  then have "unat a div 16 = unat b div 16" and "unat a mod 16 = unat b mod 16"
    by (simp_all add: hex_byte_def high_nibble low_nibble hex_nth_inject byte_div_16)
  then have "unat a = unat b" by (metis div_mult_mod_eq)
  then show "a = b" by (simp add: word_unat_eq_iff)
qed simp

lemma hex_length [simp]: "length (hex_byte b) = 2"
  by (simp add: hex_byte_def)

lemma concat_hex_inject: "concat (map hex_byte as) = concat (map hex_byte bs) \<longleftrightarrow> as = bs"
proof (induction as arbitrary: bs)
  case Nil
  then show ?case by (cases bs) (auto simp: hex_byte_def)
next
  case (Cons a as)
  then show ?case
    by (cases bs) (auto simp: append_eq_append_conv hex_byte_inject, simp_all add: hex_byte_def)
qed

lemma concat_hex_length: "length (concat (map hex_byte bs)) = 2 * length bs"
  by (induction bs) simp_all

lemma ascii_hex: "is_ascii (concat (map hex_byte bs))"
proof -
  have "list_all (\<lambda>c. (of_char c :: nat) < 128) HEX" by (simp add: HEX_def)
  then have "(of_char (HEX ! i) :: nat) < 128" if "i < 16" for i
    using that by (simp add: list_all_length HEX_def)
  then show ?thesis
    by (induction bs) (simp_all add: is_ascii_def hex_byte_def high_nibble low_nibble byte_div_16)
qed

lemma ascii_append: "is_ascii (a @ b) \<longleftrightarrow> is_ascii a \<and> is_ascii b"
  by (simp add: is_ascii_def)

lemma raw_key_prefix:
  assumes "6 \<le> length bytes"
  shows "key_prefix (generate_raw_key bytes) = Inr (take 16 (generate_raw_key bytes))"
proof -
  have "length (generate_raw_key bytes) = 4 + 2 * length bytes"
    by (simp add: generate_raw_key_def token_eq concat_hex_length)
  moreover have "is_ascii (generate_raw_key bytes)"
    unfolding generate_raw_key_def token_eq ascii_append by (simp add: ascii_hex, simp add: is_ascii_def)
  moreover have "starts_with (generate_raw_key bytes) ''swg_''"
    by (simp add: generate_raw_key_def token_eq starts_with_def)
  ultimately show ?thesis using assms by (simp add: key_prefix_def API_KEY_PREFIX_LEN_def)
qed

subsection \<open>Keys in the store\<close>

definition keys_of :: "auth_store \<Rightarrow> api_key_record list" where
  "keys_of s = concat (map snd (as_api_keys s))"

definition keys_wf :: "auth_store \<Rightarrow> bool" where
  "keys_wf s \<longleftrightarrow> distinct (map key_api_key_id (keys_of s))"

lemma push_key_map_of:
  "map_of (push_key k x kvs) k' =
     (if k' = k then Some ((case map_of kvs k of None \<Rightarrow> [] | Some xs \<Rightarrow> xs) @ [x]) else map_of kvs k')"
  by (induction kvs) auto

lemma push_key_perm: "mset (concat (map snd (push_key k x kvs))) = add_mset x (mset (concat (map snd kvs)))"
  by (induction kvs) auto

lemma map_of_map_values: "map_of (map (\<lambda>(k, v). (k, f v)) kvs) k = map_option f (map_of kvs k)"
  by (induction kvs) auto

lemma keys_insert:
  "mset (keys_of (insert_api_key r s)) =
     add_mset r (mset (filter (\<lambda>c. key_api_key_id c \<noteq> key_api_key_id r) (keys_of s)))"
  by (simp add: insert_api_key_def keys_of_def push_key_perm filter_concat o_def case_prod_unfold)

lemma insert_keys_wf:
  assumes "keys_wf s"
  shows "keys_wf (insert_api_key r s)"
proof -
  have "mset (map key_api_key_id (keys_of (insert_api_key r s))) =
      add_mset (key_api_key_id r)
        (mset (map key_api_key_id (filter (\<lambda>c. key_api_key_id c \<noteq> key_api_key_id r) (keys_of s))))"
    using keys_insert [of r s] by (simp flip: image_mset_add_mset add: mset_map del: mset_filter)
  then have "distinct (map key_api_key_id (keys_of (insert_api_key r s))) \<longleftrightarrow>
      distinct (key_api_key_id r # map key_api_key_id (filter (\<lambda>c. key_api_key_id c \<noteq> key_api_key_id r) (keys_of s)))"
    by (metis mset.simps(2) mset_eq_imp_distinct_iff)
  then show ?thesis
    using assms distinct_map_filter by (auto simp: keys_wf_def)
qed


lemma update_first_Some:
  "update_first P f xs = Some (y, ys) \<Longrightarrow>
     \<exists>as x bs. xs = as @ x # bs \<and> ys = as @ f x # bs \<and> y = f x \<and> P x \<and> (\<forall>a \<in> set as. \<not> P a)"
proof (induction xs arbitrary: ys)
  case (Cons x xs)
  show ?case
  proof (cases "P x")
    case True
    then show ?thesis using Cons.prems by (intro exI [of _ "[]"]) auto
  next
    case False
    then obtain ys' where "update_first P f xs = Some (y, ys')" "ys = x # ys'"
      using Cons.prems by auto
    then obtain as x' bs where "xs = as @ x' # bs" "ys' = as @ f x' # bs" "y = f x'" "P x'" "\<forall>a \<in> set as. \<not> P a"
      using Cons.IH by blast
    then show ?thesis using False \<open>ys = x # ys'\<close> by (intro exI [of _ "x # as"]) auto
  qed
qed simp

lemma update_first_None: "update_first P f xs = None \<longleftrightarrow> (\<forall>x \<in> set xs. \<not> P x)"
  by (induction xs) auto

lemma update_first_bucket_concat:
  "map_option (\<lambda>(y, kvs'). (y, concat (map snd kvs'))) (update_first_bucket P f kvs) =
     update_first P f (concat (map snd kvs))"
proof (induction kvs)
  case (Cons kv kvs)
  obtain k xs where kv: "kv = (k, xs)" by force
  have app: "update_first P f (xs @ zs) = (case update_first P f xs of
      Some (y, ys) \<Rightarrow> Some (y, ys @ zs) | None \<Rightarrow> map_option (\<lambda>(y, zs'). (y, xs @ zs')) (update_first P f zs))" for zs
    by (induction xs)
      (auto split: option.splits simp: option.map_comp comp_def case_prod_unfold option.map_ident)
  show ?case
    by (cases "update_first P f xs"; cases "update_first_bucket P f kvs")
      (auto simp: kv app Cons.IH [symmetric])
qed simp

lemma status_update_keys:
  assumes "update_api_key_status i status now s = (Inr r, s')" and "keys_wf s"
  shows "keys_wf s'" and "\<forall>k \<in> set (keys_of s'). key_api_key_id k = i \<longrightarrow> key_status k = status"
proof -
  let ?P = "\<lambda>r. key_api_key_id r = i"
  let ?f = "\<lambda>r. r\<lparr>key_status := status, key_updated_at := now\<rparr>"
  obtain kvs where kvs: "update_first_bucket ?P ?f (as_api_keys s) = Some (r, kvs)" "s' = s\<lparr>as_api_keys := kvs\<rparr>"
    using assms(1) by (auto simp: update_api_key_status_def split: if_splits option.splits)
  have "update_first ?P ?f (keys_of s) = Some (r, keys_of s')"
    using update_first_bucket_concat [of ?P ?f "as_api_keys s"] kvs by (simp add: keys_of_def)
  from update_first_Some [OF this] obtain as x bs where split: "keys_of s = as @ x # bs"
    "keys_of s' = as @ ?f x # bs" "key_api_key_id x = i" by blast
  then show "keys_wf s'" using assms(2) by (simp add: keys_wf_def)
  show "\<forall>k \<in> set (keys_of s'). key_api_key_id k = i \<longrightarrow> key_status k = status"
    using split assms(2) by (auto simp: keys_wf_def image_iff)
qed

lemma candidates_in: "set (candidates_by_prefix s p) \<subseteq> set (keys_of s)"
proof
  fix k assume "k \<in> set (candidates_by_prefix s p)"
  then obtain records where "map_of (as_api_keys s) p = Some records" "k \<in> set records"
    by (cases "map_of (as_api_keys s) p") (auto simp: candidates_by_prefix_def dest: in_set_takeD)
  then have "records \<in> snd ` set (as_api_keys s)" using map_of_SomeD image_eqI snd_conv by metis
  then show "k \<in> set (keys_of s)" using \<open>k \<in> set records\<close> by (auto simp: keys_of_def)
qed

lemma candidates_allowed [simp]:
  "candidates_by_prefix (snd (api_key_failed_auth_allowed k now s)) p = candidates_by_prefix s p"
  by (simp add: candidates_by_prefix_def)

lemma matching_sound:
  "matching_candidate hasher key p now cs = Inr (Some k) \<Longrightarrow>
     k \<in> set cs \<and> key_key_prefix k = p \<and> key_can_authenticate_at k now \<and>
     verify_secret hasher key (key_secret_hash k) = Inr True"
  by (induction cs) (auto simp: rbind_Inr_iff split: if_splits)

lemma verify_sound:
  assumes "verify_api_key hasher key rid tid now s = (Inr actor, s')"
  shows "\<exists>k p. key_prefix key = Inr p \<and> k \<in> set (candidates_by_prefix s p) \<and> key_key_prefix k = p \<and>
    key_can_authenticate_at k now \<and> verify_secret hasher key (key_secret_hash k) = Inr True \<and>
    fst (api_key_failed_auth_allowed p now s) \<and> actor = actor_for_api_key k rid tid \<and>
    failed_attempts s' p = []"
proof -
  obtain p where p: "key_prefix key = Inr p"
    using assms by (auto simp: verify_api_key_def split: sum.splits)
  obtain ok s1 where a: "api_key_failed_auth_allowed p now s = (ok, s1)" by force
  have "candidates_by_prefix s1 p = candidates_by_prefix s p" using candidates_allowed a by (metis snd_conv)
  then obtain k where "ok" "matching_candidate hasher key p now (candidates_by_prefix s p) = Inr (Some k)"
    "actor = actor_for_api_key k rid tid" "failed_attempts s' p = []"
    using assms p a
    by (auto simp: verify_api_key_def Let_def last_used_attempts split: if_splits sum.splits option.splits)
  then show ?thesis using matching_sound p a by (metis fst_conv)
qed

lemma verify_api_keys:
  "as_api_keys (snd (verify_api_key hasher key rid tid now s)) = as_api_keys s"
proof -
  have "as_api_keys s1 = as_api_keys s" if "api_key_failed_auth_allowed p now s = (ok, s1)" for p ok s1
    using allowed_keys that by (metis snd_conv)
  then show ?thesis
    by (auto simp: verify_api_key_def record_api_key_failed_auth_def record_api_key_last_used_def Let_def
        split: sum.split prod.split option.split)
qed

text \<open>Key administration interleaved with authentication.\<close>

inductive key_step :: "auth_store \<Rightarrow> auth_store \<Rightarrow> bool" where
  insert_key: "key_step s (insert_api_key r s)"
| set_status: "key_step s (snd (update_api_key_status i status now s))"
| authenticate: "key_step s (snd (verify_api_key hasher key rid tid now s))"

lemma status_update_wf: "keys_wf s \<Longrightarrow> keys_wf (snd (update_api_key_status i status now s))"
proof -
  assume wf: "keys_wf s"
  obtain r s' where u: "update_api_key_status i status now s = (r, s')" by force
  show ?thesis
  proof (cases r)
    case (Inl e)
    then show ?thesis using u wf by (auto simp: update_api_key_status_def split: if_splits option.splits)
  next
    case (Inr k)
    then show ?thesis using status_update_keys(1) u wf by simp
  qed
qed

lemma key_run_wf: "key_step\<^sup>*\<^sup>* empty_auth_store s \<Longrightarrow> keys_wf s"
proof (induction rule: rtranclp_induct)
  case base
  show ?case by (simp add: keys_wf_def keys_of_def empty_auth_store_def)
next
  case (step y z)
  from step.hyps(2) step.IH show ?case
    by cases (simp_all add: insert_keys_wf status_update_wf, simp add: keys_wf_def keys_of_def verify_api_keys)
qed


subsection \<open>A demonstration tenant\<close>

text \<open>A hasher that obeys the law of \<open>hash_password\<close> and \<open>verify_password\<close>.\<close>

definition demo_hasher :: secret_hasher where
  "demo_hasher =
     \<lparr>sh_parse_hash = (\<lambda>_. None), sh_verify_password = (\<lambda>key h. h = ''argon2:'' @ key),
      sh_hash_password = (\<lambda>key salt. Inr (''argon2:'' @ key)), sh_sha256_hex = (\<lambda>t. t)\<rparr>"

definition demo_key_request :: create_api_key_request where
  "demo_key_request =
     \<lparr>ck_tenant_id = ''t1'', ck_organization_id = Some ''o1'', ck_project_id = Some ''p1'',
      ck_owner_principal_id = ''u1'', ck_name = ''ci'', ck_created_by = ''u1'', ck_expires_at = None,
      ck_allowed_actions = [], ck_allowed_resources = []\<rparr>"

definition demo_raw_key :: string where
  "demo_raw_key = generate_raw_key (replicate 32 0xab)"

definition demo_key :: api_key_record where
  "demo_key = fst (projr (create_api_key demo_hasher (replicate 32 0xab) ''salt'' ''ak1'' demo_key_request 0))"

lemma demo_created:
  "create_api_key demo_hasher (replicate 32 0xab) ''salt'' ''ak1'' demo_key_request 0 = Inr (demo_key, demo_raw_key)"
  unfolding demo_key_def demo_raw_key_def
  by (simp add: create_api_key_def api_key_secret_metadata_def raw_key_prefix demo_hasher_def Let_def)

lemma demo_key_fields:
  "key_api_key_id demo_key = ''ak1''" "key_prefix demo_raw_key = Inr (key_key_prefix demo_key)"
  "key_secret_hash demo_key = ''argon2:'' @ demo_raw_key" "key_status demo_key = KeyActive"
  "key_expires_at demo_key = None"
  by (simp_all add: demo_key_def demo_raw_key_def create_api_key_def api_key_secret_metadata_def
      raw_key_prefix demo_hasher_def demo_key_request_def Let_def)

definition demo_auth :: auth_store where
  "demo_auth = insert_api_key demo_key empty_auth_store"

lemma demo_auth_run: "key_step\<^sup>*\<^sup>* empty_auth_store demo_auth"
  unfolding demo_auth_def by (rule r_into_rtranclp, rule key_step.insert_key)

definition demo_session :: auth_session_record where
  "demo_session =
     \<lparr>sess_auth_session_id = ''sess1'', sess_tenant_id = ''t1'', sess_principal_id = ''u1'',
      sess_active_organization_id = None, sess_active_project_id = Some ''p1'',
      sess_session_hash = ''sha256:sws_x'', sess_status = SessActive, sess_expires_at = 100,
      sess_created_at = 0, sess_updated_at = 0\<rparr>"

definition demo_membership :: project_membership where
  "demo_membership =
     \<lparr>pm_project_member_id = ''pm1'', pm_tenant_id = ''t1'', pm_organization_id = ''o1'', pm_project_id = ''p1'',
      pm_principal_id = ''u1'', pm_organization_member_id = None, pm_status = MemActive, pm_resource_version = 1\<rparr>"

definition demo_login :: auth_store where
  "demo_login = insert_project_membership demo_membership (insert_auth_session demo_session empty_auth_store)"

subsection \<open>Properties\<close>

text \<open>
  An API key yields an actor only if it is a stored key: authentication that succeeds presented
  a key whose prefix has a stored record, live at that time, whose hash the key verifies against,
  while the prefix was not throttled. The actor has exactly that record's tenant, organization,
  project, owner and limits, and the failure log of the prefix is cleared.
\<close>

theorem api_key_authentication_sound:
  assumes "verify_api_key hasher key request_id trace_id now s = (Inr actor, s')"
  shows "\<exists>k p. key_prefix key = Inr p \<and> k \<in> set (keys_of s) \<and> key_key_prefix k = p \<and>
    key_accepts_authentication (key_status k) \<and> (\<forall>e. key_expires_at k = Some e \<longrightarrow> now < e) \<and>
    sh_verify_password hasher key (key_secret_hash k) \<and> fst (api_key_failed_auth_allowed p now s) \<and>
    actor_tenant_id actor = key_tenant_id k \<and> actor_organization_id actor = key_organization_id k \<and>
    actor_project_id actor = key_project_id k \<and> actor_principal_id actor = Some (key_owner_principal_id k) \<and>
    actor_api_key_id actor = Some (key_api_key_id k) \<and>
    actor_allowed_actions actor = key_allowed_actions k \<and>
    actor_allowed_resources actor = key_allowed_resources k \<and>
    failed_attempts s' p = []"
proof -
  obtain k p where "key_prefix key = Inr p" "k \<in> set (candidates_by_prefix s p)" "key_key_prefix k = p"
    "key_can_authenticate_at k now" "verify_secret hasher key (key_secret_hash k) = Inr True"
    "fst (api_key_failed_auth_allowed p now s)" "actor = actor_for_api_key k request_id trace_id"
    "failed_attempts s' p = []"
    using verify_sound [OF assms] by blast
  then show ?thesis
    using candidates_in [of s p]
    by (intro exI [of _ k] exI [of _ p])
      (auto simp: key_can_authenticate_at_def verify_secret_def actor_for_api_key_def is_none_or_iff
        split: option.splits)
qed

text \<open>
  A created key authenticates: with a hasher whose \<open>verify_password\<close> accepts what
  \<open>hash_password\<close> produced, the raw key that creation returns is accepted at any time before its
  expiry once the record is stored under a prefix no other key has, unless the prefix is
  throttled; the actor is the record's.
\<close>

theorem created_key_authenticates:
  assumes "\<forall>key salt h. sh_hash_password hasher key salt = Inr h \<longrightarrow>
      sh_parse_hash hasher h = None \<and> sh_verify_password hasher key h"
    and "create_api_key hasher bytes salt i request created_at = Inr (k, raw_key)" and "length bytes = 32"
    and "map_of (as_api_keys s) (key_key_prefix k) = None"
    and "fst (api_key_failed_auth_allowed (key_key_prefix k) now s)"
    and "\<forall>e. ck_expires_at request = Some e \<longrightarrow> now < e"
  shows "fst (verify_api_key hasher raw_key request_id trace_id now (insert_api_key k s)) =
    Inr (actor_for_api_key k request_id trace_id)"
proof -
  let ?s = "insert_api_key k s" and ?p = "key_key_prefix k"
  have prefix: "key_prefix raw_key = Inr ?p" and live: "key_can_authenticate_at k now"
    and secret: "verify_secret hasher raw_key (key_secret_hash k) = Inr True"
    using assms(1,2,3,6) raw_key_prefix [of bytes]
    by (auto simp: create_api_key_def api_key_secret_metadata_def Let_def rbind_Inr_iff
        key_can_authenticate_at_def is_none_or_iff verify_secret_def split: sum.splits)
  have open_: "fst (api_key_failed_auth_allowed ?p now ?s)"
    using assms(5) by (simp add: key_throttle.allowed_iff failed_attempts_def insert_api_key_def)
  have "candidates_by_prefix ?s ?p = [k]"
    using assms(4) by (simp add: candidates_by_prefix_def insert_api_key_def push_key_map_of
        map_of_map_values API_KEY_CANDIDATE_LIMIT_def)
  moreover obtain s1 where "api_key_failed_auth_allowed ?p now ?s = (True, s1)"
    using open_ by (metis prod.collapse)
  ultimately show ?thesis
    using prefix live secret candidates_allowed [of ?p now ?s ?p]
    by (simp add: verify_api_key_def Let_def)
qed

lemma demo_key_unthrottled: "fst (api_key_failed_auth_allowed p 7 empty_auth_store)"
  by (simp add: key_throttle.allowed_iff failed_attempts_def empty_auth_store_def
      API_KEY_FAILED_AUTH_MAX_ATTEMPTS_def)

theorem created_key_authenticates_witness:
  "fst (verify_api_key demo_hasher demo_raw_key ''r1'' ''tr1'' 7 demo_auth) =
    Inr (actor_for_api_key demo_key ''r1'' ''tr1'')"
  unfolding demo_auth_def
  by (rule created_key_authenticates [OF _ demo_created])
    (simp_all add: demo_key_unthrottled, simp_all add: demo_hasher_def empty_auth_store_def demo_key_request_def)

lemma demo_verified:
  "\<exists>s'. verify_api_key demo_hasher demo_raw_key ''r1'' ''tr1'' 7 demo_auth =
     (Inr (actor_for_api_key demo_key ''r1'' ''tr1''), s')"
  using demo_key_fields
  by (simp add: verify_api_key_def Let_def demo_auth_def insert_api_key_def empty_auth_store_def
      candidates_by_prefix_def API_KEY_CANDIDATE_LIMIT_def api_key_failed_auth_allowed_def
      failed_api_key_auth_count_def pruned_attempts_def retain_fresh_failed_auth_def
      API_KEY_FAILED_AUTH_MAX_ATTEMPTS_def verify_secret_def demo_hasher_def key_can_authenticate_at_def)

theorem api_key_authentication_sound_witness:
  "\<exists>k \<in> set (keys_of demo_auth). actor_tenant_id (actor_for_api_key demo_key ''r1'' ''tr1'') = key_tenant_id k"
proof -
  obtain s' where "verify_api_key demo_hasher demo_raw_key ''r1'' ''tr1'' 7 demo_auth =
     (Inr (actor_for_api_key demo_key ''r1'' ''tr1''), s')" using demo_verified by blast
  from api_key_authentication_sound [OF this] show ?thesis by blast
qed


definition demo_attempts :: "auth_attempt list" where
  "demo_attempts = replicate 9 \<lparr>at_presented_key = ''swg_0123456789ab'', at_request_id = ''r'',
     at_trace_id = ''t'', at_time = 5\<rparr>"

lemma demo_attempts_eval:
  "tested_attempts demo_hasher ''swg_0123456789ab'' demo_attempts empty_auth_store =
     replicate 8 (5, Inl Authentication)"
  by (simp add: demo_attempts_def numeral_eq_Suc verify_api_key_def key_prefix_def is_ascii_def
      starts_with_def API_KEY_PREFIX_LEN_def api_key_failed_auth_allowed_def failed_api_key_auth_count_def
      pruned_attempts_def retain_fresh_failed_auth_def API_KEY_FAILED_AUTH_MAX_ATTEMPTS_def
      API_KEY_FAILED_AUTH_WINDOW_def empty_auth_store_def candidates_by_prefix_def
      record_api_key_failed_auth_def Let_def)



text \<open>
  C35. Disabling a key is immediate: after any history of insertions, status changes and
  authentications, once a key is disabled no presented key authenticates as it, whatever the
  hasher accepts.
\<close>

theorem disabled_key_never_authenticates:
  assumes "key_step\<^sup>*\<^sup>* empty_auth_store s"
    and "update_api_key_status i KeyDisabled now s = (Inr k, s')"
    and "fst (verify_api_key hasher key request_id trace_id now' s') = Inr actor"
  shows "actor_api_key_id actor \<noteq> Some i"
proof -
  obtain s2 where "verify_api_key hasher key request_id trace_id now' s' = (Inr actor, s2)"
    using assms(3) by (metis prod.collapse)
  from verify_sound [OF this] obtain c p where c: "c \<in> set (candidates_by_prefix s' p)"
    "key_can_authenticate_at c now'" "actor = actor_for_api_key c request_id trace_id" by blast
  have "key_status c \<noteq> KeyDisabled" using c(2) by (auto simp: key_can_authenticate_at_def)
  moreover have "c \<in> set (keys_of s')" using c(1) candidates_in by blast
  ultimately have "key_api_key_id c \<noteq> i"
    using status_update_keys(2) [OF assms(2) key_run_wf [OF assms(1)]] by blast
  then show ?thesis using c(3) by (simp add: actor_for_api_key_def)
qed

definition demo_other_key :: api_key_record where
  "demo_other_key = demo_key\<lparr>key_api_key_id := ''ak2''\<rparr>"

definition demo_two_keys :: auth_store where
  "demo_two_keys = insert_api_key demo_other_key demo_auth"

definition demo_disabled :: auth_store where
  "demo_disabled = snd (update_api_key_status ''ak1'' KeyDisabled 9 demo_two_keys)"

lemma demo_disabled_eval:
  "update_api_key_status ''ak1'' KeyDisabled 9 demo_two_keys =
     (Inr (demo_key\<lparr>key_status := KeyDisabled, key_updated_at := 9\<rparr>), demo_disabled)"
  "fst (verify_api_key demo_hasher demo_raw_key ''r1'' ''tr1'' 7 demo_disabled) =
     Inr (actor_for_api_key demo_other_key ''r1'' ''tr1'')"
  using demo_key_fields
  by (simp_all add: demo_disabled_def update_api_key_status_def api_key_status_supported_for_admin_def
      demo_two_keys_def demo_other_key_def demo_auth_def insert_api_key_def empty_auth_store_def
      verify_api_key_def Let_def candidates_by_prefix_def API_KEY_CANDIDATE_LIMIT_def
      api_key_failed_auth_allowed_def failed_api_key_auth_count_def pruned_attempts_def
      retain_fresh_failed_auth_def API_KEY_FAILED_AUTH_MAX_ATTEMPTS_def verify_secret_def demo_hasher_def
      key_can_authenticate_at_def numeral_eq_Suc)

lemma demo_two_keys_run: "key_step\<^sup>*\<^sup>* empty_auth_store demo_two_keys"
  unfolding demo_two_keys_def by (rule rtranclp.rtrancl_into_rtrancl [OF demo_auth_run], rule key_step.insert_key)

theorem disabled_key_never_authenticates_witness:
  "actor_api_key_id (actor_for_api_key demo_other_key ''r1'' ''tr1'') \<noteq> Some ''ak1''"
  by (rule disabled_key_never_authenticates [OF demo_two_keys_run demo_disabled_eval])

text \<open>
  Revoking the sessions of a principal takes them all and nothing else: afterwards every token
  verifies exactly as before, except that a token of a session of that principal is refused; and
  the number returned is the number of sessions that were active.
\<close>

theorem session_revocation_exact:
  "verify_session_token hasher token now'
     (snd (revoke_sessions_for_principal tenant principal_id now s)) =
   rbind (verify_session_token hasher token now' s) (\<lambda>session.
     if session_of_principal tenant principal_id session then Inl Authentication else Inr session) \<and>
   fst (revoke_sessions_for_principal tenant principal_id now s) =
     length (filter (\<lambda>session. session_of_principal tenant principal_id session \<and>
       sess_status session = SessActive) (map snd (as_sessions s)))"
proof -
  let ?hit = "\<lambda>session. session_of_principal tenant principal_id session \<and> sess_status session = SessActive"
  let ?f = "\<lambda>session. if ?hit session then session\<lparr>sess_status := SessRevoked, sess_updated_at := now\<rparr> else session"
  have look: "session_by_hash (snd (revoke_sessions_for_principal tenant principal_id now s)) h =
      map_option ?f (session_by_hash s h)" for h
    using map_of_map_values [of ?f "as_sessions s" h]
    by (simp add: session_by_hash_def revoke_sessions_for_principal_def Let_def)
  have live: "session_can_authenticate_at (?f session) now' \<longleftrightarrow>
      session_can_authenticate_at session now' \<and> \<not> session_of_principal tenant principal_id session" for session
    by (cases "sess_status session") (auto simp: session_can_authenticate_at_def)
  have hash: "sess_session_hash (?f session) = sess_session_hash session" for session by simp
  have same: "\<not> session_of_principal tenant principal_id session \<Longrightarrow> ?f session = session" for session by simp
  let ?h = "session_token_hash hasher token"
  have "verify_session_token hasher token now' (snd (revoke_sessions_for_principal tenant principal_id now s)) =
   rbind (verify_session_token hasher token now' s) (\<lambda>session.
     if session_of_principal tenant principal_id session then Inl Authentication else Inr session)"
    by (cases "session_by_hash s ?h")
      (simp_all add: verify_session_token_def Let_def look live hash same)
  moreover have "fst (revoke_sessions_for_principal tenant principal_id now s) =
     length (filter ?hit (map snd (as_sessions s)))"
    by (simp add: revoke_sessions_for_principal_def Let_def filter_map comp_def case_prod_unfold)
  ultimately show ?thesis by blast
qed

text \<open>
  Tokens carry all their randomness: a token is its prefix and two characters per byte, and two
  tokens with the same prefix are equal only if the bytes drawn for them are.
\<close>

theorem tokens_injective:
  "length (generate_raw_prefixed_token bytes prefix) = length prefix + 2 * length bytes \<and>
   (generate_raw_prefixed_token bytes prefix = generate_raw_prefixed_token bytes' prefix \<longleftrightarrow> bytes = bytes')"
  by (simp add: token_eq concat_hex_length concat_hex_inject)

text \<open>
  A session acts through a membership only: a session token that authenticates belongs to a
  stored session that is active and not expired, and the actor has the tenant, organization and
  project of an active membership of the session's principal in the project of the request header
  or, without one, in the session's own. Nothing is written.
\<close>

theorem session_actor_from_membership:
  assumes "authenticate_request hasher token project_header request_id trace_id now s = (Inr actor, s')"
    and "starts_with token ''sws_''"
  shows "\<exists>session header project m. session_by_hash s (session_token_hash hasher token) = Some session \<and>
    sess_status session = SessActive \<and> now < sess_expires_at session \<and> project_header = Inr header \<and>
    (case header of Some h \<Rightarrow> project = h | None \<Rightarrow> sess_active_project_id session = Some project) \<and>
    as_project_memberships s (sess_principal_id session, project) = Some m \<and> pm_status m = MemActive \<and>
    actor_principal_id actor = Some (sess_principal_id session) \<and>
    actor_tenant_id actor = pm_tenant_id m \<and> actor_organization_id actor = Some (pm_organization_id m) \<and>
    actor_project_id actor = Some (pm_project_id m) \<and> s' = s"
proof -
  have live: "session_can_authenticate_at session now \<Longrightarrow> sess_status session = SessActive" for session
    by (cases "sess_status session") (auto simp: session_can_authenticate_at_def)
  have active: "pm_accepts_access m \<Longrightarrow> pm_status m = MemActive" for m
    by (cases "pm_status m") (auto simp: pm_accepts_access_def)
  let ?pick = "\<lambda>header session. case header of Some p \<Rightarrow> Some p | None \<Rightarrow> sess_active_project_id session"
  have s': "s' = s" and "rbind (verify_session_token hasher token now s) (\<lambda>session.
      rbind project_header (\<lambda>header. rbind (ok_or Authentication (?pick header session)) (\<lambda>project_id.
        resolve_user_session_actor s (sess_principal_id session) (sess_auth_session_id session) project_id
          request_id trace_id (Some (sess_expires_at session))))) = Inr actor"
    using assms by (auto simp: authenticate_request_def)
  then obtain session header project where
    verified: "verify_session_token hasher token now s = Inr session" and header: "project_header = Inr header"
    and project: "?pick header session = Some project"
    and resolved: "resolve_user_session_actor s (sess_principal_id session) (sess_auth_session_id session)
      project request_id trace_id (Some (sess_expires_at session)) = Inr actor"
    unfolding rbind_Inr_iff ok_or_Inr_iff by blast
  obtain m where m: "as_project_memberships s (sess_principal_id session, project) = Some m"
    "pm_accepts_access m" and actor: "actor = actor_for_user_session (from_project_membership m)
      (sess_principal_id session) (sess_auth_session_id session) request_id trace_id (Some (sess_expires_at session))"
    using resolved by (cases "as_project_memberships s (sess_principal_id session, project)")
      (auto simp: resolve_user_session_actor_def active_project_membership_def split: if_splits)
  have stored: "session_by_hash s (session_token_hash hasher token) = Some session"
    and can: "session_can_authenticate_at session now"
    using verified by (auto simp: verify_session_token_def Let_def split: if_splits option.splits)
  have "case header of Some h \<Rightarrow> project = h | None \<Rightarrow> sess_active_project_id session = Some project"
    using project by (cases header) auto
  moreover have "now < sess_expires_at session" using can by (simp add: session_can_authenticate_at_def)
  ultimately show ?thesis
    using stored header m s' live [OF can] active [OF m(2)]
    by (auto simp: actor actor_for_user_session_def from_project_membership_def)
qed

lemma demo_login_eval:
  "authenticate_request demo_hasher ''sws_x'' (Inr None) ''r1'' ''tr1'' 7 demo_login =
     (Inr (actor_for_user_session (from_project_membership demo_membership) ''u1'' ''sess1'' ''r1'' ''tr1'' (Some 100)),
      demo_login)"
  by (simp add: authenticate_request_def starts_with_def verify_session_token_def is_ascii_def demo_login_def
      session_by_hash_def insert_auth_session_def insert_project_membership_def empty_auth_store_def demo_session_def
      session_token_hash_def demo_hasher_def Let_def session_can_authenticate_at_def
      resolve_user_session_actor_def active_project_membership_def demo_membership_def pm_accepts_access_def)

theorem session_actor_from_membership_witness:
  "\<exists>session. session_by_hash demo_login (session_token_hash demo_hasher ''sws_x'') = Some session \<and>
     sess_status session = SessActive"
proof -
  have "starts_with ''sws_x'' ''sws_''" by (simp add: starts_with_def)
  from session_actor_from_membership [OF demo_login_eval this] show ?thesis by blast
qed

end
