(* ===== verification/Gateway_Config.thy ===== *)
theory Gateway_Config
  imports Gateway_Policy Gateway_Json
begin

text \<open>
  Configuration publication (\<open>config.rs\<close>, and the config parts of \<open>domain.rs\<close>, \<open>storage.rs\<close> and
  \<open>service.rs\<close> of \<open>crates/starweaver-gateway/src\<close>): immutable snapshots with a version per tenant,
  the publication pointer and the invalidation events, rollback as a new publication, reloads of
  runtime workers, and the choice of the authorization engine by the latest snapshot. JSON
  encoding and SHA-256 are library code: the record \<open>snapshot_codec\<close> holds both. The ids that
  \<open>new_prefixed_id\<close> draws are arguments.
\<close>

subsection \<open>Data\<close>

record resource_version =
  rv_resource_kind :: string
  rv_resource_id :: string
  rv_version :: i64

record config_document =
  doc_schema :: string
  doc_resource_versions :: "resource_version list"
  doc_payload :: json
  doc_rollback_of :: "string option"

datatype config_snapshot_status = SnapPending | SnapPublished | SnapRejected | SnapRolledBack

fun snapshot_status_as_str :: "config_snapshot_status \<Rightarrow> string" where
  "snapshot_status_as_str SnapPending = ''pending''"
| "snapshot_status_as_str SnapPublished = ''published''"
| "snapshot_status_as_str SnapRejected = ''rejected''"
| "snapshot_status_as_str SnapRolledBack = ''rolled_back''"

record config_snapshot_meta =
  snap_snapshot_id :: string
  snap_tenant_id :: string
  snap_version :: i64
  snap_checksum :: string
  snap_status :: config_snapshot_status
  snap_compiled_at :: datetime

record published_snapshot =
  pub_metadata :: config_snapshot_meta
  pub_document :: config_document
  pub_created_by :: string
  pub_published_at :: datetime

record publish_request =
  pub_req_tenant_id :: string
  pub_req_resource_versions :: "resource_version list"
  pub_req_payload :: json
  pub_req_created_by :: string

record publication_pointer =
  ptr_tenant_id :: string
  ptr_snapshot_id :: string
  ptr_version :: i64
  ptr_checksum :: string
  ptr_invalidation_id :: string
  ptr_published_at :: datetime
  ptr_updated_at :: datetime

record invalidation_event =
  inv_invalidation_id :: string
  inv_tenant_id :: string
  inv_snapshot_id :: string
  inv_version :: i64
  inv_checksum :: string
  inv_published_at :: datetime
  inv_created_at :: datetime

datatype config_reload_source = FromInvalidation | FromPolling

fun reload_source_as_str :: "config_reload_source \<Rightarrow> string" where
  "reload_source_as_str FromInvalidation = ''invalidation''"
| "reload_source_as_str FromPolling = ''polling''"

datatype config_worker_reload_status = ReloadLoaded | ReloadFailed

fun reload_status_as_str :: "config_worker_reload_status \<Rightarrow> string" where
  "reload_status_as_str ReloadLoaded = ''loaded''"
| "reload_status_as_str ReloadFailed = ''failed''"

record worker_reload =
  wr_tenant_id :: string
  wr_worker_id :: string
  wr_snapshot_id :: string
  wr_loaded_version :: i64
  wr_checksum :: string
  wr_last_known_good_snapshot_id :: string
  wr_last_known_good_version :: i64
  wr_reload_source :: config_reload_source
  wr_status :: config_worker_reload_status
  wr_missed_invalidation_count :: nat
  wr_publication_lag_ms :: i64
  wr_reloaded_at :: datetime

record config_store =
  cs_snapshots :: "published_snapshot list"
  cs_publications :: "string \<rightharpoonup> publication_pointer"
  cs_invalidations :: "invalidation_event list"
  cs_worker_reloads :: "string \<times> string \<rightharpoonup> worker_reload"
  cs_latest_snapshot :: "config_snapshot_meta option"

definition empty_config_store :: config_store where
  "empty_config_store =
     \<lparr>cs_snapshots = [], cs_publications = Map.empty, cs_invalidations = [],
      cs_worker_reloads = Map.empty, cs_latest_snapshot = None\<rparr>"

record snapshot_codec =
  codec_to_vec :: "config_document \<Rightarrow> string + string"
  codec_sha256_hex :: "string \<Rightarrow> string"

subsection \<open>The store\<close>

text \<open>\<open>Iterator::max_by_key\<close>: the last of the elements with the largest key.\<close>

fun max_by_key :: "('a \<Rightarrow> int) \<Rightarrow> 'a list \<Rightarrow> 'a option" where
  "max_by_key key [] = None"
| "max_by_key key (x # xs) =
     (case max_by_key key xs of None \<Rightarrow> Some x | Some y \<Rightarrow> if key x > key y then Some x else Some y)"

definition config_snapshot :: "config_store \<Rightarrow> string \<Rightarrow> published_snapshot option" where
  "config_snapshot s i = find (\<lambda>p. snap_snapshot_id (pub_metadata p) = i) (cs_snapshots s)"

definition latest_published_snapshot_for_tenant ::
  "config_store \<Rightarrow> string \<Rightarrow> config_snapshot_meta option" where
  "latest_published_snapshot_for_tenant s tenant_id =
     (case cs_publications s tenant_id of
        Some pointer \<Rightarrow> map_option pub_metadata (config_snapshot s (ptr_snapshot_id pointer))
      | None \<Rightarrow>
          map_option pub_metadata
            (max_by_key (\<lambda>p. snap_version (pub_metadata p))
               (filter (\<lambda>p. snap_tenant_id (pub_metadata p) = tenant_id) (cs_snapshots s))))"

definition insert_config_snapshot ::
  "string \<Rightarrow> published_snapshot \<Rightarrow> config_store \<Rightarrow> config_store" where
  "insert_config_snapshot invalidation_id snapshot s =
     (let m = pub_metadata snapshot;
          pointer =
            \<lparr>ptr_tenant_id = snap_tenant_id m, ptr_snapshot_id = snap_snapshot_id m,
             ptr_version = snap_version m, ptr_checksum = snap_checksum m,
             ptr_invalidation_id = invalidation_id, ptr_published_at = pub_published_at snapshot,
             ptr_updated_at = pub_published_at snapshot\<rparr>;
          invalidation =
            \<lparr>inv_invalidation_id = invalidation_id, inv_tenant_id = snap_tenant_id m,
             inv_snapshot_id = snap_snapshot_id m, inv_version = snap_version m,
             inv_checksum = snap_checksum m, inv_published_at = pub_published_at snapshot,
             inv_created_at = pub_published_at snapshot\<rparr> in
      s\<lparr>cs_snapshots := cs_snapshots s @ [snapshot],
        cs_publications := (cs_publications s)(ptr_tenant_id pointer \<mapsto> pointer),
        cs_invalidations := cs_invalidations s @ [invalidation],
        cs_latest_snapshot := Some m\<rparr>)"

definition config_invalidation_events_for_tenant ::
  "config_store \<Rightarrow> string \<Rightarrow> invalidation_event list" where
  "config_invalidation_events_for_tenant s tenant_id =
     filter (\<lambda>e. inv_tenant_id e = tenant_id) (cs_invalidations s)"

definition count_missed_invalidations ::
  "config_store \<Rightarrow> string \<Rightarrow> worker_reload option \<Rightarrow> i64 \<Rightarrow> nat" where
  "count_missed_invalidations s tenant_id previous target_version =
     (let previous_version = (case previous of None \<Rightarrow> 0 | Some r \<Rightarrow> wr_loaded_version r) in
      length (filter (\<lambda>e. inv_tenant_id e = tenant_id \<and> inv_version e > previous_version \<and>
                          inv_version e \<le> target_version) (cs_invalidations s)))"

text \<open>A duration is in nanoseconds; \<open>num_milliseconds\<close> rounds toward zero, and the result is clamped.\<close>

definition config_worker_reload_record ::
  "string \<Rightarrow> string \<Rightarrow> config_snapshot_meta \<Rightarrow> config_reload_source \<Rightarrow> nat \<Rightarrow> datetime \<Rightarrow> datetime \<Rightarrow>
   worker_reload" where
  "config_worker_reload_record tenant_id worker_id snapshot source missed published_at reloaded_at =
     \<lparr>wr_tenant_id = tenant_id, wr_worker_id = worker_id,
      wr_snapshot_id = snap_snapshot_id snapshot, wr_loaded_version = snap_version snapshot,
      wr_checksum = snap_checksum snapshot,
      wr_last_known_good_snapshot_id = snap_snapshot_id snapshot,
      wr_last_known_good_version = snap_version snapshot,
      wr_reload_source = source, wr_status = ReloadLoaded, wr_missed_invalidation_count = missed,
      wr_publication_lag_ms = max 0 ((reloaded_at - published_at) div 1000000),
      wr_reloaded_at = reloaded_at\<rparr>"

definition store_worker_reload :: "worker_reload \<Rightarrow> config_store \<Rightarrow> config_store" where
  "store_worker_reload r s =
     s\<lparr>cs_worker_reloads := (cs_worker_reloads s)((wr_tenant_id r, wr_worker_id r) \<mapsto> r)\<rparr>"

definition reload_config_worker_from_invalidation ::
  "string \<Rightarrow> string \<Rightarrow> string \<Rightarrow> datetime \<Rightarrow> config_store \<Rightarrow> worker_reload gateway_result \<times> config_store" where
  "reload_config_worker_from_invalidation tenant_id worker_id invalidation_id now s =
     (case find (\<lambda>e. inv_tenant_id e = tenant_id \<and> inv_invalidation_id e = invalidation_id)
             (cs_invalidations s) of
        None \<Rightarrow> (Inl (NotFound (''config invalidation '' @ invalidation_id)), s)
      | Some event \<Rightarrow>
          (case config_snapshot s (inv_snapshot_id event) of
             None \<Rightarrow> (Inl (NotFound (''config snapshot '' @ inv_snapshot_id event)), s)
           | Some snapshot \<Rightarrow>
               let missed = count_missed_invalidations s tenant_id
                     (cs_worker_reloads s (tenant_id, worker_id)) (inv_version event);
                   r = config_worker_reload_record tenant_id worker_id (pub_metadata snapshot)
                     FromInvalidation (missed - 1) (inv_published_at event) now in
               (Inr r, store_worker_reload r s)))"

definition reload_config_worker_by_polling ::
  "string \<Rightarrow> string \<Rightarrow> datetime \<Rightarrow> config_store \<Rightarrow> worker_reload gateway_result \<times> config_store" where
  "reload_config_worker_by_polling tenant_id worker_id now s =
     (case cs_publications s tenant_id of
        None \<Rightarrow> (Inl (NotFound (''config publication pointer '' @ tenant_id)), s)
      | Some pointer \<Rightarrow>
          (case config_snapshot s (ptr_snapshot_id pointer) of
             None \<Rightarrow> (Inl (NotFound (''config snapshot '' @ ptr_snapshot_id pointer)), s)
           | Some snapshot \<Rightarrow>
               let missed = count_missed_invalidations s tenant_id
                     (cs_worker_reloads s (tenant_id, worker_id)) (ptr_version pointer);
                   r = config_worker_reload_record tenant_id worker_id (pub_metadata snapshot)
                     FromPolling missed (ptr_published_at pointer) now in
               (Inr r, store_worker_reload r s)))"

subsection \<open>Publication\<close>

definition validate_config_snapshot_payload ::
  "('tn, 'sc, 'ps, 'rq, 'en) cedar_api \<Rightarrow> json \<Rightarrow> unit gateway_result" where
  "validate_config_snapshot_payload api payload =
     (case json_get payload ''cedar_policy_bundle'' of
        None \<Rightarrow> Inr ()
      | Some bundle \<Rightarrow>
          (case json_as_str bundle of
             None \<Rightarrow> Inl (BadRequest ''cedar_policy_bundle must be a string'')
           | Some policy_bundle \<Rightarrow>
               rbind (validate_cedar_policy_bundle api policy_bundle) (\<lambda>_. Inr ())))"

definition snapshot_checksum :: "snapshot_codec \<Rightarrow> config_document \<Rightarrow> string gateway_result" where
  "snapshot_checksum codec document =
     (case codec_to_vec codec document of
        Inl error \<Rightarrow> Inl (Internal (''failed to encode config snapshot: '' @ error))
      | Inr bytes \<Rightarrow> Inr (''sha256:'' @ codec_sha256_hex codec bytes))"

text \<open>
  \<open>publish_document\<close> reads the latest version and then inserts; the two accesses take the locks of
  the store separately, so they are two definitions.
\<close>

definition next_snapshot_version :: "config_store \<Rightarrow> string \<Rightarrow> i64" where
  "next_snapshot_version s tenant_id =
     (case latest_published_snapshot_for_tenant s tenant_id of
        None \<Rightarrow> 1 | Some m \<Rightarrow> wrap_i64 (snap_version m + 1))"

definition publish_version ::
  "snapshot_codec \<Rightarrow> string \<times> string \<Rightarrow> string \<Rightarrow> i64 \<Rightarrow> config_document \<Rightarrow> string \<Rightarrow> datetime \<Rightarrow>
   config_store \<Rightarrow> published_snapshot gateway_result \<times> config_store" where
  "publish_version codec ids tenant_id version document created_by now s =
     (case snapshot_checksum codec document of
        Inl e \<Rightarrow> (Inl e, s)
      | Inr checksum \<Rightarrow>
          let snapshot =
            \<lparr>pub_metadata =
               \<lparr>snap_snapshot_id = fst ids, snap_tenant_id = tenant_id, snap_version = version,
                snap_checksum = checksum, snap_status = SnapPublished, snap_compiled_at = now\<rparr>,
             pub_document = document, pub_created_by = created_by, pub_published_at = now\<rparr> in
          (Inr snapshot, insert_config_snapshot (snd ids) snapshot s))"

definition publish_document ::
  "snapshot_codec \<Rightarrow> string \<times> string \<Rightarrow> string \<Rightarrow> config_document \<Rightarrow> string \<Rightarrow> datetime \<Rightarrow> config_store \<Rightarrow>
   published_snapshot gateway_result \<times> config_store" where
  "publish_document codec ids tenant_id document created_by now s =
     publish_version codec ids tenant_id (next_snapshot_version s tenant_id) document created_by now s"

definition publish_config_snapshot ::
  "('tn, 'sc, 'ps, 'rq, 'en) cedar_api \<Rightarrow> snapshot_codec \<Rightarrow> string \<times> string \<Rightarrow> publish_request \<Rightarrow>
   datetime \<Rightarrow> config_store \<Rightarrow> published_snapshot gateway_result \<times> config_store" where
  "publish_config_snapshot api codec ids request now s =
     (case validate_config_snapshot_payload api (pub_req_payload request) of
        Inl e \<Rightarrow> (Inl e, s)
      | Inr _ \<Rightarrow>
          publish_document codec ids (pub_req_tenant_id request)
            \<lparr>doc_schema = ''gateway.config_snapshot.v1'',
             doc_resource_versions = pub_req_resource_versions request,
             doc_payload = pub_req_payload request, doc_rollback_of = None\<rparr>
            (pub_req_created_by request) now s)"

definition rollback_config_snapshot ::
  "snapshot_codec \<Rightarrow> string \<times> string \<Rightarrow> string \<Rightarrow> string \<Rightarrow> string \<Rightarrow> datetime \<Rightarrow> config_store \<Rightarrow>
   published_snapshot gateway_result \<times> config_store" where
  "rollback_config_snapshot codec ids tenant_id source_snapshot_id created_by now s =
     (case config_snapshot s source_snapshot_id of
        None \<Rightarrow> (Inl (NotFound (''config snapshot '' @ source_snapshot_id)), s)
      | Some source \<Rightarrow>
          if snap_tenant_id (pub_metadata source) \<noteq> tenant_id
          then (Inl (Authorization ''snapshot_tenant_mismatch''), s)
          else publish_document codec ids tenant_id
                 ((pub_document source)\<lparr>doc_rollback_of := Some source_snapshot_id\<rparr>) created_by now s)"

subsection \<open>The engine of a tenant\<close>

definition latest_snapshot_for_actor_in_memory ::
  "config_store \<Rightarrow> authenticated_actor \<Rightarrow> published_snapshot option gateway_result" where
  "latest_snapshot_for_actor_in_memory s actor =
     (case latest_published_snapshot_for_tenant s (actor_tenant_id actor) of
        None \<Rightarrow> Inr None
      | Some metadata \<Rightarrow>
          (case config_snapshot s (snap_snapshot_id metadata) of
             None \<Rightarrow> Inl (Internal (''latest config snapshot '' @ snap_snapshot_id metadata @
                       '' is missing from store''))
           | Some snapshot \<Rightarrow> Inr (Some snapshot)))"

text \<open>The result is the engine's decision function and the id of the policy snapshot.\<close>

definition authorization_engine_for_actor ::
  "('tn, 'sc, 'ps, 'rq, 'en) cedar_api \<Rightarrow> config_store \<Rightarrow> action_grant list \<Rightarrow> authenticated_actor \<Rightarrow>
   ((authorization_request \<Rightarrow> authorization_decision) \<times> string option) gateway_result" where
  "authorization_engine_for_actor api s action_grants actor =
     rbind (latest_snapshot_for_actor_in_memory s actor) (\<lambda>latest.
       case latest of
         None \<Rightarrow> Inr (foundation_authorize action_grants, None)
       | Some snapshot \<Rightarrow>
           (case Option.bind (json_get (doc_payload (pub_document snapshot)) ''cedar_policy_bundle'')
                   json_as_str of
              None \<Rightarrow> Inr (foundation_authorize action_grants, None)
            | Some policy_bundle \<Rightarrow>
                rbind (from_policy_source api policy_bundle) (\<lambda>engine.
                  Inr (cedar_authorize api engine, Some (snap_snapshot_id (pub_metadata snapshot))))))"

end
