(* ===== verification/Gateway_Config_Steps.thy ===== *)
theory Gateway_Config_Steps
  imports Gateway_Config
begin

text \<open>
  Runs of the publication machinery: publications, rollbacks and worker reloads in any order, each
  operation atomic. The invariant ties the pointer and the invalidation events of a tenant to its
  snapshots and numbers the snapshots without gaps. The last section takes the atomicity away.
\<close>

subsection \<open>The step relation and its invariant\<close>

definition snapshot_ids :: "config_store \<Rightarrow> string set" where
  "snapshot_ids s = (\<lambda>p. snap_snapshot_id (pub_metadata p)) ` set (cs_snapshots s)"

definition tenant_snapshots :: "config_store \<Rightarrow> string \<Rightarrow> published_snapshot list" where
  "tenant_snapshots s t = filter (\<lambda>p. snap_tenant_id (pub_metadata p) = t) (cs_snapshots s)"

text \<open>
  A publication draws a fresh id (a version 7 UUID) and the store holds fewer snapshots than the
  largest 64-bit version.
\<close>

inductive config_step :: "('tn, 'sc, 'ps, 'rq, 'en) cedar_api \<Rightarrow> snapshot_codec \<Rightarrow> config_store \<Rightarrow>
    config_store \<Rightarrow> bool" for api codec where
  publish: "publish_config_snapshot api codec ids request now s = (result, s') \<Longrightarrow>
    fst ids \<notin> snapshot_ids s \<Longrightarrow> int (length (cs_snapshots s)) < i64_max \<Longrightarrow> config_step api codec s s'"
| rollback: "rollback_config_snapshot codec ids tenant source actor now s = (result, s') \<Longrightarrow>
    fst ids \<notin> snapshot_ids s \<Longrightarrow> int (length (cs_snapshots s)) < i64_max \<Longrightarrow> config_step api codec s s'"
| invalidate: "reload_config_worker_from_invalidation tenant worker invalidation now s = (outcome, s') \<Longrightarrow>
    config_step api codec s s'"
| poll: "reload_config_worker_by_polling tenant worker now s = (outcome, s') \<Longrightarrow>
    config_step api codec s s'"

definition event_view :: "invalidation_event \<Rightarrow> string \<times> string \<times> i64 \<times> string \<times> datetime" where
  "event_view e = (inv_tenant_id e, inv_snapshot_id e, inv_version e, inv_checksum e, inv_published_at e)"

definition snapshot_view :: "published_snapshot \<Rightarrow> string \<times> string \<times> i64 \<times> string \<times> datetime" where
  "snapshot_view p =
     (snap_tenant_id (pub_metadata p), snap_snapshot_id (pub_metadata p),
      snap_version (pub_metadata p), snap_checksum (pub_metadata p), pub_published_at p)"

definition pointer_view :: "publication_pointer \<Rightarrow> string \<times> string \<times> i64 \<times> string \<times> datetime" where
  "pointer_view p = (ptr_tenant_id p, ptr_snapshot_id p, ptr_version p, ptr_checksum p, ptr_published_at p)"

definition reload_wf :: "config_store \<Rightarrow> string \<Rightarrow> worker_reload \<Rightarrow> bool" where
  "reload_wf s t r \<longleftrightarrow>
     (\<exists>p \<in> set (tenant_snapshots s t). wr_snapshot_id r = snap_snapshot_id (pub_metadata p) \<and>
        wr_loaded_version r = snap_version (pub_metadata p))"

definition versions_gapless :: "config_store \<Rightarrow> bool" where
  "versions_gapless s \<longleftrightarrow>
     (\<forall>t. map (\<lambda>p. snap_version (pub_metadata p)) (tenant_snapshots s t) =
          map int [1..<Suc (length (tenant_snapshots s t))])"

definition pointer_wf :: "config_store \<Rightarrow> bool" where
  "pointer_wf s \<longleftrightarrow>
     (\<forall>t. map_option pointer_view (cs_publications s t) =
          (if tenant_snapshots s t = [] then None
           else Some (snapshot_view (last (tenant_snapshots s t)))))"

definition config_inv :: "config_store \<Rightarrow> bool" where
  "config_inv s \<longleftrightarrow>
     distinct (map (\<lambda>p. snap_snapshot_id (pub_metadata p)) (cs_snapshots s)) \<and>
     versions_gapless s \<and> pointer_wf s \<and>
     map event_view (cs_invalidations s) = map snapshot_view (cs_snapshots s) \<and>
     (\<forall>t w r. cs_worker_reloads s (t, w) = Some r \<longrightarrow> reload_wf s t r)"

subsection \<open>Reading a well-formed store\<close>

lemma tenant_snapshots_in:
  "p \<in> set (tenant_snapshots s t) \<longleftrightarrow> p \<in> set (cs_snapshots s) \<and> snap_tenant_id (pub_metadata p) = t"
  by (auto simp: tenant_snapshots_def)

lemma find_unique:
  "distinct (map key xs) \<Longrightarrow> x \<in> set xs \<Longrightarrow> find (\<lambda>y. key y = key x) xs = Some x"
  by (induction xs) (auto simp: image_iff)

lemma config_snapshot_in:
  assumes "config_inv s" and "p \<in> set (cs_snapshots s)"
  shows "config_snapshot s (snap_snapshot_id (pub_metadata p)) = Some p"
  using assms find_unique [of "\<lambda>p. snap_snapshot_id (pub_metadata p)" "cs_snapshots s" p]
  by (simp add: config_inv_def config_snapshot_def)

lemma config_snapshot_SomeD:
  "config_snapshot s i = Some p \<Longrightarrow> p \<in> set (cs_snapshots s) \<and> snap_snapshot_id (pub_metadata p) = i"
  by (auto simp: config_snapshot_def find_Some_iff)

lemma max_by_key_empty [simp]: "max_by_key key xs = None \<longleftrightarrow> xs = []"
  by (cases xs) (auto split: option.splits)

lemma pointer_Some:
  assumes "config_inv s" and "cs_publications s t = Some p"
  shows "tenant_snapshots s t \<noteq> []" and "pointer_view p = snapshot_view (last (tenant_snapshots s t))"
  using assms by (auto simp: config_inv_def pointer_wf_def split: if_splits)
    (metis option.distinct(1) option.inject option.simps(9))+

lemma pointer_None:
  assumes "config_inv s"
  shows "cs_publications s t = None \<longleftrightarrow> tenant_snapshots s t = []"
proof -
  have "map_option pointer_view (cs_publications s t) =
      (if tenant_snapshots s t = [] then None else Some (snapshot_view (last (tenant_snapshots s t))))"
    using assms by (simp add: config_inv_def pointer_wf_def)
  then show ?thesis by (auto split: if_splits)
qed

lemma latest_of_inv:
  assumes "config_inv s"
  shows "latest_published_snapshot_for_tenant s t =
    (if tenant_snapshots s t = [] then None else Some (pub_metadata (last (tenant_snapshots s t))))"
proof (cases "cs_publications s t")
  case None
  then have "tenant_snapshots s t = []" using pointer_None [OF assms] by simp
  then show ?thesis using None
    by (simp add: latest_published_snapshot_for_tenant_def tenant_snapshots_def)
next
  case (Some p)
  let ?l = "last (tenant_snapshots s t)"
  have ne: "tenant_snapshots s t \<noteq> []" and "pointer_view p = snapshot_view ?l"
    using pointer_Some [OF assms Some] by simp_all
  then have "ptr_snapshot_id p = snap_snapshot_id (pub_metadata ?l)"
    by (simp add: pointer_view_def snapshot_view_def)
  moreover have "?l \<in> set (cs_snapshots s)"
    using ne last_in_set tenant_snapshots_in by metis
  ultimately have "config_snapshot s (ptr_snapshot_id p) = Some ?l"
    using config_snapshot_in [OF assms] by simp
  then show ?thesis using Some ne by (simp add: latest_published_snapshot_for_tenant_def)
qed

lemma version_nth:
  assumes "config_inv s" and "i < length (tenant_snapshots s t)"
  shows "snap_version (pub_metadata (tenant_snapshots s t ! i)) = int i + 1"
proof -
  have "map (\<lambda>p. snap_version (pub_metadata p)) (tenant_snapshots s t) ! i =
      map int [1..<Suc (length (tenant_snapshots s t))] ! i"
    using assms(1) by (simp only: config_inv_def versions_gapless_def)
  then show ?thesis using assms(2) by (simp del: upt_Suc)
qed

lemma version_last:
  assumes "config_inv s" and "tenant_snapshots s t \<noteq> []"
  shows "snap_version (pub_metadata (last (tenant_snapshots s t))) = int (length (tenant_snapshots s t))"
  using version_nth [OF assms(1), of "length (tenant_snapshots s t) - 1" t] assms(2)
  by (simp add: last_conv_nth of_nat_diff Suc_leI)

lemma version_bounds:
  assumes "config_inv s" and "p \<in> set (tenant_snapshots s t)"
  shows "1 \<le> snap_version (pub_metadata p)"
    and "snap_version (pub_metadata p) \<le> int (length (tenant_snapshots s t))"
  using assms version_nth [OF assms(1)] by (auto simp: in_set_conv_nth)

lemma wrap_small: "0 \<le> x \<Longrightarrow> x \<le> i64_max \<Longrightarrow> wrap_i64 x = x"
  by (simp add: wrap_i64_def i64_max_def)

lemma next_version_inv:
  assumes "config_inv s" and "int (length (cs_snapshots s)) < i64_max"
  shows "next_snapshot_version s t = int (length (tenant_snapshots s t)) + 1"
proof -
  have "length (tenant_snapshots s t) \<le> length (cs_snapshots s)"
    by (simp add: tenant_snapshots_def)
  then have "int (length (tenant_snapshots s t)) + 1 \<le> i64_max" using assms(2) by linarith
  then show ?thesis
    using version_last [OF assms(1)] wrap_small
    by (simp add: next_snapshot_version_def latest_of_inv [OF assms(1)])
qed

subsection \<open>Preservation\<close>

lemma insert_fields [simp]:
  "cs_snapshots (insert_config_snapshot i p s) = cs_snapshots s @ [p]"
  "cs_worker_reloads (insert_config_snapshot i p s) = cs_worker_reloads s"
  "tenant_snapshots (insert_config_snapshot i p s) t =
     tenant_snapshots s t @ (if snap_tenant_id (pub_metadata p) = t then [p] else [])"
  by (simp_all add: insert_config_snapshot_def Let_def tenant_snapshots_def)

lemma publications_insert:
  "map_option pointer_view (cs_publications (insert_config_snapshot i p s) t) =
     (if snap_tenant_id (pub_metadata p) = t then Some (snapshot_view p)
      else map_option pointer_view (cs_publications s t))"
  by (simp add: insert_config_snapshot_def Let_def pointer_view_def snapshot_view_def)

lemma insert_inv:
  assumes inv: "config_inv s" and fresh: "snap_snapshot_id (pub_metadata p) \<notin> snapshot_ids s"
    and version: "snap_version (pub_metadata p) =
      int (length (tenant_snapshots s (snap_tenant_id (pub_metadata p)))) + 1"
  shows "config_inv (insert_config_snapshot i p s)"
proof -
  let ?s = "insert_config_snapshot i p s"
  have "distinct (map (\<lambda>p. snap_snapshot_id (pub_metadata p)) (cs_snapshots ?s))"
    using inv fresh by (auto simp: config_inv_def snapshot_ids_def)
  moreover have "versions_gapless ?s"
    using inv version by (auto simp: config_inv_def versions_gapless_def)
  moreover have "pointer_wf ?s"
    unfolding pointer_wf_def
  proof
    fix t
    have "map_option pointer_view (cs_publications s t) =
        (if tenant_snapshots s t = [] then None else Some (snapshot_view (last (tenant_snapshots s t))))"
      using inv by (simp add: config_inv_def pointer_wf_def)
    then show "map_option pointer_view (cs_publications ?s t) =
        (if tenant_snapshots ?s t = [] then None else Some (snapshot_view (last (tenant_snapshots ?s t))))"
      by (auto simp: publications_insert snapshot_view_def pointer_view_def)
  qed
  moreover have "map event_view (cs_invalidations ?s) = map snapshot_view (cs_snapshots ?s)"
    using inv by (simp add: config_inv_def insert_config_snapshot_def Let_def event_view_def
        snapshot_view_def)
  moreover have "\<forall>t w r. cs_worker_reloads ?s (t, w) = Some r \<longrightarrow> reload_wf ?s t r"
    using inv unfolding config_inv_def reload_wf_def by (simp, blast)
  ultimately show ?thesis by (simp add: config_inv_def)
qed

lemma publish_document_cases:
  assumes "publish_document codec ids t d by now s = (result, s')"
  shows "(\<exists>e. result = Inl e \<and> s' = s) \<or>
    (\<exists>p. result = Inr p \<and> s' = insert_config_snapshot (snd ids) p s \<and>
       snap_snapshot_id (pub_metadata p) = fst ids \<and> snap_tenant_id (pub_metadata p) = t \<and>
       snap_version (pub_metadata p) = next_snapshot_version s t \<and> pub_document p = d \<and>
       pub_published_at p = now)"
  using assms by (auto simp: publish_document_def publish_version_def Let_def split: sum.splits)

lemma publish_document_inv:
  assumes "publish_document codec ids t d by now s = (result, s')" and "config_inv s"
    and "fst ids \<notin> snapshot_ids s" and "int (length (cs_snapshots s)) < i64_max"
  shows "config_inv s'"
  using publish_document_cases [OF assms(1)] assms(2,3) next_version_inv [OF assms(2,4)]
  by (auto intro!: insert_inv)

lemma store_reload_inv:
  assumes "config_inv s" and "reload_wf s (wr_tenant_id r) r"
  shows "config_inv (store_worker_reload r s)"
  using assms
  by (auto simp: config_inv_def versions_gapless_def pointer_wf_def reload_wf_def
      tenant_snapshots_def store_worker_reload_def)

lemma reload_record_wf:
  assumes "p \<in> set (tenant_snapshots s t)"
  shows "reload_wf s t (config_worker_reload_record t w (pub_metadata p) src missed since now)"
  using assms by (auto simp: reload_wf_def config_worker_reload_record_def)

lemma event_snapshot:
  assumes "config_inv s" and "e \<in> set (cs_invalidations s)"
  obtains p where "p \<in> set (tenant_snapshots s (inv_tenant_id e))"
    and "config_snapshot s (inv_snapshot_id e) = Some p"
    and "snap_version (pub_metadata p) = inv_version e"
proof -
  have "event_view e \<in> set (map event_view (cs_invalidations s))" using assms(2) by simp
  then have "event_view e \<in> set (map snapshot_view (cs_snapshots s))"
    using assms(1) by (simp only: config_inv_def)
  then obtain p where p: "p \<in> set (cs_snapshots s)" "event_view e = snapshot_view p" by auto
  then have "p \<in> set (tenant_snapshots s (inv_tenant_id e))"
    by (simp add: tenant_snapshots_in event_view_def snapshot_view_def)
  moreover have "config_snapshot s (inv_snapshot_id e) = Some p"
    using config_snapshot_in [OF assms(1) p(1)] p(2) by (simp add: event_view_def snapshot_view_def)
  ultimately show ?thesis using that p(2) by (simp add: event_view_def snapshot_view_def)
qed

lemma invalidate_inv:
  assumes "reload_config_worker_from_invalidation t w i now s = (outcome, s')" and "config_inv s"
  shows "config_inv s'"
proof (cases "find (\<lambda>e. inv_tenant_id e = t \<and> inv_invalidation_id e = i) (cs_invalidations s)")
  case None
  then show ?thesis using assms by (auto simp: reload_config_worker_from_invalidation_def)
next
  case (Some e)
  then have e: "e \<in> set (cs_invalidations s)" "inv_tenant_id e = t"
    by (auto simp: find_Some_iff)
  obtain p where "p \<in> set (tenant_snapshots s t)" "config_snapshot s (inv_snapshot_id e) = Some p"
    using event_snapshot [OF assms(2) e(1)] e(2) by metis
  then show ?thesis
    using assms Some
    by (auto simp: reload_config_worker_from_invalidation_def Let_def
        intro!: store_reload_inv reload_record_wf)
      (simp_all add: config_worker_reload_record_def reload_wf_def, blast)
qed

lemma poll_cases:
  assumes "reload_config_worker_by_polling t w now s = (outcome, s')" and "config_inv s"
    and "tenant_snapshots s t \<noteq> []"
  shows "\<exists>ptr. cs_publications s t = Some ptr \<and>
    outcome = Inr (config_worker_reload_record t w (pub_metadata (last (tenant_snapshots s t))) FromPolling
      (count_missed_invalidations s t (cs_worker_reloads s (t, w))
         (int (length (tenant_snapshots s t)))) (pub_published_at (last (tenant_snapshots s t))) now) \<and>
    s' = store_worker_reload (projr outcome) s"
proof -
  obtain ptr where ptr: "cs_publications s t = Some ptr"
    using pointer_None [OF assms(2)] assms(3) by blast
  let ?l = "last (tenant_snapshots s t)"
  have view: "pointer_view ptr = snapshot_view ?l" using pointer_Some [OF assms(2) ptr] by simp
  have "?l \<in> set (cs_snapshots s)" using assms(3) last_in_set tenant_snapshots_in by metis
  then have "config_snapshot s (ptr_snapshot_id ptr) = Some ?l"
    using config_snapshot_in [OF assms(2)] view by (simp add: pointer_view_def snapshot_view_def)
  then show ?thesis
    using assms ptr view version_last [OF assms(2,3)]
    by (auto simp: reload_config_worker_by_polling_def Let_def pointer_view_def snapshot_view_def)
qed

lemma poll_inv:
  assumes "reload_config_worker_by_polling t w now s = (outcome, s')" and "config_inv s"
  shows "config_inv s'"
proof (cases "tenant_snapshots s t = []")
  case True
  then show ?thesis
    using assms pointer_None [OF assms(2), of t] by (auto simp: reload_config_worker_by_polling_def)
next
  case False
  then obtain missed since where
    out: "outcome = Inr (config_worker_reload_record t w (pub_metadata (last (tenant_snapshots s t))) FromPolling missed since now)"
    and s': "s' = store_worker_reload (projr outcome) s"
    using poll_cases [OF assms] by blast
  have "reload_wf s t (projr outcome)"
    unfolding out by (simp add: reload_record_wf False)
  then show ?thesis unfolding s' using assms(2) out
    by (intro store_reload_inv) (simp_all add: config_worker_reload_record_def)
qed

lemma step_inv: "config_step api codec s s' \<Longrightarrow> config_inv s \<Longrightarrow> config_inv s'"
proof (induction rule: config_step.induct)
  case (publish ids request now s result s')
  then show ?case
    by (auto simp: publish_config_snapshot_def split: sum.splits intro: publish_document_inv)
next
  case (rollback ids tenant source actor now s result s')
  then show ?case
    by (auto simp: rollback_config_snapshot_def split: option.splits if_splits
        intro: publish_document_inv)
next
  case (invalidate tenant worker invalidation now s outcome s')
  then show ?case by (blast intro: invalidate_inv)
next
  case (poll tenant worker now s outcome s')
  then show ?case by (blast intro: poll_inv)
qed

lemma empty_inv: "config_inv empty_config_store"
  by (simp add: config_inv_def empty_config_store_def versions_gapless_def pointer_wf_def
      tenant_snapshots_def)

lemma run_inv: "(config_step api codec)\<^sup>*\<^sup>* empty_config_store s \<Longrightarrow> config_inv s"
  by (induction rule: rtranclp_induct) (auto intro: empty_inv step_inv)

subsection \<open>Missed invalidations\<close>

lemma count_upto: "length (filter (\<lambda>v. a < v \<and> v \<le> b) (map int [1..<Suc n])) = nat (min b (int n) - max 0 a)"
proof (induction n)
  case (Suc n)
  have "[1..<Suc (Suc n)] = [1..<Suc n] @ [Suc n]" by simp
  then show ?case using Suc by (simp del: upt_Suc) (auto simp: min_def max_def)
qed simp

lemma count_missed_inv:
  assumes "config_inv s"
  shows "count_missed_invalidations s t previous target =
    nat (min target (int (length (tenant_snapshots s t))) -
      max 0 (case previous of None \<Rightarrow> 0 | Some r \<Rightarrow> wr_loaded_version r))"
proof -
  let ?pv = "case previous of None \<Rightarrow> 0 | Some r \<Rightarrow> wr_loaded_version r"
  let ?P = "\<lambda>x. case x of (tn, i, v, c, at) \<Rightarrow> tn = t \<and> ?pv < v \<and> v \<le> target"
  have events: "filter (\<lambda>e. inv_tenant_id e = t \<and> inv_version e > ?pv \<and> inv_version e \<le> target) es =
      filter (?P \<circ> event_view) es" for es
    by (rule filter_cong) (simp_all add: event_view_def)
  have "length (filter (?P \<circ> event_view) (cs_invalidations s)) =
      length (filter ?P (map event_view (cs_invalidations s)))" by (simp add: filter_map)
  also have "\<dots> = length (filter ?P (map snapshot_view (cs_snapshots s)))"
    using assms by (simp add: config_inv_def)
  also have "\<dots> = length (filter (\<lambda>p. ?pv < snap_version (pub_metadata p) \<and>
      snap_version (pub_metadata p) \<le> target) (tenant_snapshots s t))"
    by (simp add: filter_map tenant_snapshots_def o_def snapshot_view_def conj_commute conj_left_commute)
  also have "\<dots> = length (filter (\<lambda>v. ?pv < v \<and> v \<le> target)
      (map (\<lambda>p. snap_version (pub_metadata p)) (tenant_snapshots s t)))"
    by (simp add: filter_map o_def)
  also have "\<dots> = length (filter (\<lambda>v. ?pv < v \<and> v \<le> target)
      (map int [1..<Suc (length (tenant_snapshots s t))]))"
    using assms by (simp only: config_inv_def versions_gapless_def)
  also have "\<dots> = nat (min target (int (length (tenant_snapshots s t))) - max 0 ?pv)"
    by (rule count_upto)
  finally show ?thesis
    unfolding count_missed_invalidations_def Let_def events .
qed

end
