(* ===== verification/Gateway_Config_Properties.thy ===== *)
theory Gateway_Config_Properties
  imports Gateway_Config_Steps
begin

text \<open>
  What configuration publication promises: gapless versions, rollback as a newer version, workers
  that converge by polling, and an authorization engine for every tenant whatever was published.
  Two theorems record where the code falls short of the design notes: an old invalidation event
  takes a worker back, and two publications that overlap get one version.
\<close>

subsection \<open>Published bundles stay valid\<close>

definition payloads_valid ::
  "('tn, 'sc, 'ps, 'rq, 'en) cedar_api \<Rightarrow> config_store \<Rightarrow> bool" where
  "payloads_valid api s \<longleftrightarrow>
     (\<forall>p \<in> set (cs_snapshots s). validate_config_snapshot_payload api (doc_payload (pub_document p)) = Inr ())"

lemma payloads_insert:
  "payloads_valid api (insert_config_snapshot i p s) \<longleftrightarrow>
     payloads_valid api s \<and> validate_config_snapshot_payload api (doc_payload (pub_document p)) = Inr ()"
  by (auto simp: payloads_valid_def)

lemma payloads_document:
  assumes "publish_document codec ids t d by now s = (result, s')" and "payloads_valid api s"
    and "validate_config_snapshot_payload api (doc_payload d) = Inr ()"
  shows "payloads_valid api s'"
  using publish_document_cases [OF assms(1)] assms(2,3) by (auto simp: payloads_insert)

lemma reload_snapshots:
  "cs_snapshots (snd (reload_config_worker_from_invalidation t w i now s)) = cs_snapshots s"
  "cs_snapshots (snd (reload_config_worker_by_polling t w now s)) = cs_snapshots s"
  by (auto simp: reload_config_worker_from_invalidation_def reload_config_worker_by_polling_def
      store_worker_reload_def Let_def split: option.split)

lemma payloads_step: "config_step api codec s s' \<Longrightarrow> payloads_valid api s \<Longrightarrow> payloads_valid api s'"
proof (induction rule: config_step.induct)
  case (publish ids request now s result s')
  then show ?case
    by (auto simp: publish_config_snapshot_def split: sum.splits intro: payloads_document)
next
  case (rollback ids tenant source actor now s result s')
  then show ?case
  proof (cases "config_snapshot s source")
    case (Some q)
    then have "q \<in> set (cs_snapshots s)" using config_snapshot_SomeD by blast
    then have "validate_config_snapshot_payload api (doc_payload (pub_document q)) = Inr ()"
      using rollback.prems by (simp add: payloads_valid_def)
    then show ?thesis
      using rollback.hyps(1) rollback.prems Some
      by (auto simp: rollback_config_snapshot_def split: if_splits dest: payloads_document)
  qed (auto simp: rollback_config_snapshot_def)
next
  case (invalidate tenant worker invalidation now s outcome s')
  then show ?case using reload_snapshots(1) by (metis payloads_valid_def snd_conv)
next
  case (poll tenant worker now s outcome s')
  then show ?case using reload_snapshots(2) by (metis payloads_valid_def snd_conv)
qed

lemma run_payloads: "(config_step api codec)\<^sup>*\<^sup>* empty_config_store s \<Longrightarrow> payloads_valid api s"
proof (induction rule: rtranclp_induct)
  case base
  show ?case by (simp add: payloads_valid_def empty_config_store_def)
next
  case (step y z)
  then show ?case by (blast intro: payloads_step)
qed

lemma valid_bundle_builds:
  assumes "validate_config_snapshot_payload api payload = Inr ()"
    and "Option.bind (json_get payload ''cedar_policy_bundle'') json_as_str = Some bundle"
  shows "\<exists>engine. from_policy_source api bundle = Inr engine"
proof -
  have "\<exists>warnings. validate_cedar_policy_bundle api bundle = Inr warnings"
    using assms by (auto simp: validate_config_snapshot_payload_def rbind_Inr_iff
        split: option.splits bind_splits)
  then show ?thesis by (simp add: from_policy_source_iff)
qed

subsection \<open>A demonstration run\<close>

definition demo_codec :: snapshot_codec where
  "demo_codec = \<lparr>codec_to_vec = (\<lambda>d. Inr (doc_schema d)), codec_sha256_hex = (\<lambda>b. ''00'')\<rparr>"

definition demo_api :: "(string, unit, string, unit, unit) cedar_api" where
  "demo_api =
     \<lparr>api_type_name = Inr, api_schema = (\<lambda>_. Inr ()), api_policy_set = Inr,
      api_validate_strict = (\<lambda>_ p. \<lparr>cv_passed = (p \<noteq> ''bad''), cv_errors = [''bad policy''], cv_warning_count = 0\<rparr>),
      api_request = (\<lambda>_ _ _ _. Inr ()), api_entities = (\<lambda>_ _. Inr ()),
      api_is_authorized = (\<lambda>_ _ _. \<lparr>cr_has_error = False, cr_allow = True\<rparr>)\<rparr>"

definition demo_publish :: "string \<Rightarrow> string \<Rightarrow> config_store \<Rightarrow> config_store" where
  "demo_publish i e s = snd (publish_config_snapshot demo_api demo_codec (i, e)
     \<lparr>pub_req_tenant_id = ''t1'', pub_req_resource_versions = [],
      pub_req_payload = JObject [(''cedar_policy_bundle'', JString ''ok'')], pub_req_created_by = ''u1''\<rparr> 5 s)"

definition demo_config :: config_store where
  "demo_config = demo_publish ''c2'' ''e2'' (demo_publish ''c1'' ''e1'' empty_config_store)"

lemmas demo_config_simps = demo_publish_def publish_config_snapshot_def publish_document_def
  publish_version_def next_snapshot_version_def snapshot_checksum_def validate_config_snapshot_payload_def
  validate_cedar_policy_bundle_def parse_canonical_schema_def parse_policy_set_def validate_policy_set_def
  demo_api_def demo_codec_def empty_config_store_def insert_config_snapshot_def Let_def
  latest_published_snapshot_for_tenant_def config_snapshot_def wrap_i64_def

lemma demo_publish_step:
  assumes "i \<notin> snapshot_ids s" and "int (length (cs_snapshots s)) < i64_max"
  shows "config_step demo_api demo_codec s (demo_publish i e s)"
  unfolding demo_publish_def
  by (rule config_step.publish [where ids = "(i, e)", OF prod.collapse [symmetric]]) (use assms in simp_all)

lemma demo_config_run: "(config_step demo_api demo_codec)\<^sup>*\<^sup>* empty_config_store demo_config"
  unfolding demo_config_def
  by (rule rtranclp.rtrancl_into_rtrancl [OF r_into_rtranclp])
    (rule demo_publish_step; simp add: snapshot_ids_def demo_config_simps i64_simps)+

subsection \<open>Properties\<close>



text \<open>
  Rollback goes forward: it republishes the document of the source snapshot, marked with its
  id, under a version above every version of the tenant; it makes it the latest, leaves the source
  as it was, and changes the latest snapshot of no other tenant.
\<close>

theorem rollback_publishes_newer:
  assumes "(config_step api codec)\<^sup>*\<^sup>* empty_config_store s"
    and "rollback_config_snapshot codec ids tenant source actor now s = (Inr p, s')"
    and "fst ids \<notin> snapshot_ids s" and "int (length (cs_snapshots s)) < i64_max"
  shows "\<exists>q. config_snapshot s source = Some q \<and> config_snapshot s' source = Some q \<and>
    snap_tenant_id (pub_metadata q) = tenant \<and>
    pub_document p = (pub_document q)\<lparr>doc_rollback_of := Some source\<rparr> \<and>
    (\<forall>r \<in> set (tenant_snapshots s tenant). snap_version (pub_metadata r) < snap_version (pub_metadata p)) \<and>
    latest_published_snapshot_for_tenant s' tenant = Some (pub_metadata p) \<and>
    (\<forall>t. t \<noteq> tenant \<longrightarrow> latest_published_snapshot_for_tenant s' t = latest_published_snapshot_for_tenant s t)"
proof -
  have inv: "config_inv s" using assms(1) by (rule run_inv)
  have inv': "config_inv s'" using step_inv [OF config_step.rollback [OF assms(2-4)]] inv by blast
  obtain q where q: "config_snapshot s source = Some q" "snap_tenant_id (pub_metadata q) = tenant"
    and doc: "publish_document codec ids tenant ((pub_document q)\<lparr>doc_rollback_of := Some source\<rparr>)
      actor now s = (Inr p, s')"
    using assms(2) by (auto simp: rollback_config_snapshot_def split: option.splits if_splits)
  note p = publish_document_cases [OF doc]
  have "snap_tenant_id (pub_metadata p) = tenant" and s': "s' = insert_config_snapshot (snd ids) p s"
    using p by auto
  moreover have "config_snapshot s' source = Some q"
    using q(1) config_snapshot_SomeD [OF q(1)] config_snapshot_in [OF inv', of q] s' by auto
  moreover have "\<forall>r \<in> set (tenant_snapshots s tenant).
      snap_version (pub_metadata r) < snap_version (pub_metadata p)"
    using p next_version_inv [OF inv assms(4)] version_bounds(2) [OF inv, of _ tenant] by fastforce
  ultimately show ?thesis
    using q p latest_of_inv [OF inv'] latest_of_inv [OF inv] by auto
qed

definition demo_rollback :: "published_snapshot gateway_result \<times> config_store" where
  "demo_rollback = rollback_config_snapshot demo_codec (''c3'', ''e3'') ''t1'' ''c1'' ''u1'' 9 demo_config"

lemma demo_rollback_ok:
  "rollback_config_snapshot demo_codec (''c3'', ''e3'') ''t1'' ''c1'' ''u1'' 9 demo_config =
     (Inr (projr (fst demo_rollback)), snd demo_rollback)"
  by (simp add: demo_rollback_def demo_config_def rollback_config_snapshot_def demo_config_simps)

lemma demo_config_room:
  "''c3'' \<notin> snapshot_ids demo_config" "int (length (cs_snapshots demo_config)) < i64_max"
  by (simp_all add: snapshot_ids_def demo_config_def demo_config_simps i64_simps)

theorem rollback_publishes_newer_witness:
  "latest_published_snapshot_for_tenant (snd demo_rollback) ''t1'' =
     Some (pub_metadata (projr (fst demo_rollback)))"
  using rollback_publishes_newer [OF demo_config_run demo_rollback_ok] demo_config_room by auto

text \<open>
  Workers converge by polling: once a tenant has a publication, a poll succeeds whatever
  invalidations the worker missed, loads the latest version, and counts as missed exactly the
  versions between the one it had and the one it loads.
\<close>

theorem polling_converges:
  assumes "(config_step api codec)\<^sup>*\<^sup>* empty_config_store s"
    and "cs_publications s t \<noteq> None"
  shows "\<exists>r s' m. reload_config_worker_by_polling t w now s = (Inr r, s') \<and>
    cs_worker_reloads s' (t, w) = Some r \<and>
    latest_published_snapshot_for_tenant s t = Some m \<and>
    wr_snapshot_id r = snap_snapshot_id m \<and> wr_loaded_version r = snap_version m \<and>
    int (wr_missed_invalidation_count r) = wr_loaded_version r -
      (case cs_worker_reloads s (t, w) of None \<Rightarrow> 0 | Some prev \<Rightarrow> wr_loaded_version prev)"
proof -
  have inv: "config_inv s" using assms(1) by (rule run_inv)
  have ne: "tenant_snapshots s t \<noteq> []" using assms(2) pointer_None [OF inv] by simp
  obtain outcome s' where out: "reload_config_worker_by_polling t w now s = (outcome, s')" by force
  let ?prev = "case cs_worker_reloads s (t, w) of None \<Rightarrow> 0 | Some prev \<Rightarrow> wr_loaded_version prev"
  have "0 \<le> ?prev \<and> ?prev \<le> int (length (tenant_snapshots s t))"
  proof (cases "cs_worker_reloads s (t, w)")
    case (Some r)
    then obtain p where "p \<in> set (tenant_snapshots s t)" "wr_loaded_version r = snap_version (pub_metadata p)"
      using inv unfolding config_inv_def reload_wf_def by blast
    then show ?thesis using Some version_bounds [OF inv, of p t] by simp
  qed simp
  then show ?thesis
    using poll_cases [OF out inv ne] out latest_of_inv [OF inv, of t] ne version_last [OF inv ne]
      count_missed_inv [OF inv, of t "cs_worker_reloads s (t, w)"]
    by (auto simp: config_worker_reload_record_def store_worker_reload_def)
qed

theorem polling_converges_witness:
  "\<exists>r s' m. reload_config_worker_by_polling ''t1'' ''w1'' 20 demo_config = (Inr r, s') \<and>
    latest_published_snapshot_for_tenant demo_config ''t1'' = Some m \<and> wr_loaded_version r = snap_version m"
  using polling_converges [OF demo_config_run, of "''t1''" "''w1''" 20]
  by (simp add: demo_config_def demo_config_simps) blast

text \<open>
  An old invalidation takes a worker back: a worker that has a newer version and then handles
  an event of an older one loads the older snapshot and reports it as its last known good, with
  no missed invalidation. Nothing compares the event's version with the loaded one.
\<close>

theorem stale_invalidation_downgrades_worker:
  assumes "(config_step api codec)\<^sup>*\<^sup>* empty_config_store s"
    and "cs_worker_reloads s (t, w) = Some loaded"
    and "find (\<lambda>e. inv_tenant_id e = t \<and> inv_invalidation_id e = i) (cs_invalidations s) = Some e"
    and "inv_version e < wr_loaded_version loaded"
  shows "\<exists>r s'. reload_config_worker_from_invalidation t w i now s = (Inr r, s') \<and>
    cs_worker_reloads s' (t, w) = Some r \<and> wr_loaded_version r < wr_loaded_version loaded \<and>
    wr_last_known_good_version r = inv_version e \<and> wr_missed_invalidation_count r = 0"
proof -
  have inv: "config_inv s" using assms(1) by (rule run_inv)
  have e: "e \<in> set (cs_invalidations s)" "inv_tenant_id e = t"
    using assms(3) by (auto simp: find_Some_iff)
  obtain p where p: "p \<in> set (tenant_snapshots s t)" "config_snapshot s (inv_snapshot_id e) = Some p"
    "snap_version (pub_metadata p) = inv_version e"
    using event_snapshot [OF inv e(1)] e(2) by metis
  have "count_missed_invalidations s t (Some loaded) (inv_version e) = 0"
    using assms(4) version_bounds(1) [OF inv p(1)] p(3) by (simp add: count_missed_inv [OF inv])
  then show ?thesis using assms p
    by (simp add: reload_config_worker_from_invalidation_def Let_def config_worker_reload_record_def
        store_worker_reload_def)
qed

definition demo_polled :: config_store where
  "demo_polled = snd (reload_config_worker_by_polling ''t1'' ''w1'' 20 demo_config)"

lemma demo_polled_run: "(config_step demo_api demo_codec)\<^sup>*\<^sup>* empty_config_store demo_polled"
  unfolding demo_polled_def
  by (rule rtranclp.rtrancl_into_rtrancl [OF demo_config_run], rule config_step.poll [OF prod.collapse [symmetric]])

lemma demo_polled_eval:
  "map_option wr_loaded_version (cs_worker_reloads demo_polled (''t1'', ''w1'')) = Some 2"
  "map_option inv_version (find (\<lambda>e. inv_tenant_id e = ''t1'' \<and> inv_invalidation_id e = ''e1'')
     (cs_invalidations demo_polled)) = Some 1"
  by (simp_all add: demo_polled_def reload_config_worker_by_polling_def demo_config_def demo_config_simps
      store_worker_reload_def config_worker_reload_record_def)

theorem stale_invalidation_downgrades_worker_witness:
  "\<exists>r s'. reload_config_worker_from_invalidation ''t1'' ''w1'' ''e1'' 30 demo_polled = (Inr r, s') \<and>
    wr_last_known_good_version r = 1"
proof -
  obtain loaded where l: "cs_worker_reloads demo_polled (''t1'', ''w1'') = Some loaded"
    "wr_loaded_version loaded = 2" using demo_polled_eval(1) by auto
  obtain e where e: "find (\<lambda>e. inv_tenant_id e = ''t1'' \<and> inv_invalidation_id e = ''e1'')
     (cs_invalidations demo_polled) = Some e" "inv_version e = 1" using demo_polled_eval(2) by auto
  show ?thesis
    using stale_invalidation_downgrades_worker [OF demo_polled_run l(1) e(1), of 30] l(2) e(2) by auto
qed

text \<open>
  Overlapping publications share a version: when two publications of a tenant read the latest
  version before either inserts, both snapshots get that version plus one, so versions are not
  unique without serialization by the caller.
\<close>

theorem overlapping_publications_share_version:
  assumes "snapshot_checksum codec d1 = Inr c1" and "snapshot_checksum codec d2 = Inr c2"
    and "v1 = next_snapshot_version s t" and "v2 = next_snapshot_version s t"
    and "s1 = snd (publish_version codec ids1 t v1 d1 by1 now1 s)"
    and "s2 = snd (publish_version codec ids2 t v2 d2 by2 now2 s1)"
  shows "map (\<lambda>p. snap_version (pub_metadata p)) (tenant_snapshots s2 t) =
    map (\<lambda>p. snap_version (pub_metadata p)) (tenant_snapshots s t) @ [v1, v1]"
  using assms by (simp add: publish_version_def Let_def)

theorem overlapping_publications_share_version_witness:
  "let d = \<lparr>doc_schema = ''x'', doc_resource_versions = [], doc_payload = JNull, doc_rollback_of = None\<rparr>;
       v = next_snapshot_version demo_config ''t1'';
       s1 = snd (publish_version demo_codec (''c3'', ''e3'') ''t1'' v d ''u1'' 7 demo_config);
       s2 = snd (publish_version demo_codec (''c4'', ''e4'') ''t1'' v d ''u2'' 8 s1) in
   map (\<lambda>p. snap_version (pub_metadata p)) (tenant_snapshots s2 ''t1'') = [1, 2, 3, 3]"
  unfolding Let_def
  by (subst overlapping_publications_share_version [OF _ _ refl refl refl refl])
    (simp_all add: snapshot_checksum_def demo_codec_def,
     simp_all add: tenant_snapshots_def demo_config_def demo_config_simps)



end
