(* ===== verification/Gateway_Notification.thy ===== *)
theory Gateway_Notification
  imports Gateway_Domain Gateway_Json "HOL-Library.Product_Lexorder"
begin

text \<open>
  Notifications (\<open>crates/starweaver-gateway/src\<close>): sinks, subscriptions and the outbox of
  \<open>domain.rs\<close> and \<open>storage.rs\<close>, and the delivery worker of \<open>service.rs\<close>
  (\<open>deliver_due_notifications_with_transport\<close> and what it calls). Hash maps that are iterated are
  lists. The libraries a webhook is sent with are the argument \<open>api\<close>: the URI parser, JSON
  encoding, SHA-256, the RFC 3339 form of a time, the base64 form of an HMAC, and the POST itself,
  which gives the response status or no response. The secret of a reference is the argument
  \<open>secret_value\<close>, and ids from \<open>new_prefixed_id\<close> are arguments.
\<close>

subsection \<open>Records\<close>

record notification_sink =
  sink_id :: string
  sink_tenant_id :: string
  sink_organization_id :: "string option"
  sink_project_id :: "string option"
  sink_name :: string
  sink_kind :: string
  sink_endpoint_config :: json
  sink_signing_secret_ref_id :: "string option"
  sink_status :: resource_status
  sink_resource_version :: i64

record notification_subscription =
  sub_id :: string
  sub_tenant_id :: string
  sub_organization_id :: "string option"
  sub_project_id :: "string option"
  sub_notification_sink_id :: string
  sub_event_family :: string
  sub_filter_document :: json
  sub_status :: resource_status
  sub_resource_version :: i64

record outbox_event =
  ob_id :: string
  ob_tenant_id :: string
  ob_organization_id :: "string option"
  ob_project_id :: "string option"
  ob_subscription_id :: "string option"
  ob_sink_id :: "string option"
  ob_event_kind :: string
  ob_dedupe_key :: string
  ob_payload_document :: json
  ob_status :: string
  ob_attempt_count :: int
  ob_next_attempt_at :: "datetime option"
  ob_created_at :: datetime
  ob_updated_at :: datetime

record delivery_attempt =
  da_id :: string
  da_outbox_event_id :: string
  da_sink_id :: "string option"
  da_attempt_index :: int
  da_status :: string
  da_response_status :: "int option"
  da_error_message :: "string option"
  da_request_body_sha256 :: "string option"
  da_signing_secret_ref_id :: "string option"
  da_signature_sha256 :: "string option"
  da_delivery_headers :: json
  da_attempted_at :: datetime

record outbox_request =
  or_tenant_id :: string
  or_organization_id :: "string option"
  or_project_id :: "string option"
  or_subscription_id :: "string option"
  or_sink_id :: "string option"
  or_event_kind :: string
  or_dedupe_key :: string
  or_payload_document :: json
  or_next_attempt_at :: "datetime option"

record attempt_request =
  ar_outbox_event_id :: string
  ar_sink_id :: "string option"
  ar_status :: string
  ar_response_status :: "int option"
  ar_error_message :: "string option"
  ar_request_body_sha256 :: "string option"
  ar_signing_secret_ref_id :: "string option"
  ar_signature_sha256 :: "string option"
  ar_delivery_headers :: json
  ar_next_attempt_at :: "datetime option"

record notification_store =
  ns_sinks :: "string \<rightharpoonup> notification_sink"
  ns_subscriptions :: "notification_subscription list"
  ns_outbox :: "outbox_event list"
  ns_attempts :: "delivery_attempt list"

definition empty_notification_store :: notification_store where
  "empty_notification_store =
     \<lparr>ns_sinks = Map.empty, ns_subscriptions = [], ns_outbox = [], ns_attempts = []\<rparr>"

subsection \<open>The outbox\<close>

definition new_outbox_event :: "string \<Rightarrow> outbox_request \<Rightarrow> datetime \<Rightarrow> outbox_event" where
  "new_outbox_event i r now =
     \<lparr>ob_id = i, ob_tenant_id = or_tenant_id r, ob_organization_id = or_organization_id r,
      ob_project_id = or_project_id r, ob_subscription_id = or_subscription_id r,
      ob_sink_id = or_sink_id r, ob_event_kind = or_event_kind r, ob_dedupe_key = or_dedupe_key r,
      ob_payload_document = or_payload_document r, ob_status = ''pending'', ob_attempt_count = 0,
      ob_next_attempt_at = or_next_attempt_at r, ob_created_at = now, ob_updated_at = now\<rparr>"

definition append_notification_outbox_event ::
  "string \<Rightarrow> outbox_request \<Rightarrow> datetime \<Rightarrow> notification_store \<Rightarrow> outbox_event \<times> notification_store" where
  "append_notification_outbox_event new_id r now s =
     (case find (\<lambda>e. ob_tenant_id e = or_tenant_id r \<and> ob_dedupe_key e = or_dedupe_key r) (ns_outbox s) of
        Some existing \<Rightarrow> (existing, s)
      | None \<Rightarrow>
          let e = new_outbox_event new_id r now in
          (e, s\<lparr>ns_outbox := filter (\<lambda>x. ob_id x \<noteq> new_id) (ns_outbox s) @ [e]\<rparr>))"

definition outbox_event_by_id :: "notification_store \<Rightarrow> string \<Rightarrow> outbox_event option" where
  "outbox_event_by_id s i = find (\<lambda>e. ob_id e = i) (ns_outbox s)"

text \<open>Writing an event back through \<open>get_mut\<close>.\<close>

definition put_outbox_event :: "outbox_event \<Rightarrow> notification_store \<Rightarrow> notification_store" where
  "put_outbox_event e s = s\<lparr>ns_outbox := map (\<lambda>x. if ob_id x = ob_id e then e else x) (ns_outbox s)\<rparr>"

definition replay_dead_lettered_notification_outbox_event ::
  "string \<Rightarrow> datetime \<Rightarrow> notification_store \<Rightarrow> outbox_event gateway_result \<times> notification_store" where
  "replay_dead_lettered_notification_outbox_event i now s =
     (case outbox_event_by_id s i of
        None \<Rightarrow> (Inl (NotFound (''notification outbox event '' @ i)), s)
      | Some e \<Rightarrow>
          if ob_status e \<noteq> ''dead_lettered''
          then (Inl (BadRequest ''notification_replay_requires_dead_lettered_event''), s)
          else
            let e' = e\<lparr>ob_status := ''pending'', ob_attempt_count := 0, ob_next_attempt_at := Some now,
                  ob_updated_at := now\<rparr> in
            (Inr e', put_outbox_event e' s))"

definition notification_subscriptions_for_tenant ::
  "notification_store \<Rightarrow> string \<Rightarrow> notification_subscription list" where
  "notification_subscriptions_for_tenant s tenant_id =
     sort_key (\<lambda>b. (sub_notification_sink_id b, sub_event_family b, sub_id b))
       (filter (\<lambda>b. sub_tenant_id b = tenant_id) (ns_subscriptions s))"

definition notification_outbox_events_for_tenant ::
  "notification_store \<Rightarrow> string \<Rightarrow> outbox_event list" where
  "notification_outbox_events_for_tenant s tenant_id =
     sort_key (\<lambda>e. (- ob_created_at e, ob_id e)) (filter (\<lambda>e. ob_tenant_id e = tenant_id) (ns_outbox s))"

definition outbox_event_due :: "string \<Rightarrow> datetime \<Rightarrow> outbox_event \<Rightarrow> bool" where
  "outbox_event_due tenant_id now e \<longleftrightarrow>
     ob_tenant_id e = tenant_id \<and> (ob_status e = ''pending'' \<or> ob_status e = ''retryable_failed'') \<and>
     is_none_or (ob_next_attempt_at e) (\<lambda>next_at. next_at \<le> now)"

definition due_notification_outbox_events ::
  "notification_store \<Rightarrow> string \<Rightarrow> datetime \<Rightarrow> nat \<Rightarrow> outbox_event list" where
  "due_notification_outbox_events s tenant_id now limit =
     take limit (sort_key (\<lambda>e. (ob_created_at e, ob_id e))
       (filter (outbox_event_due tenant_id now) (ns_outbox s)))"

text \<open>\<open>i32::saturating_add(1)\<close>.\<close>

definition i32_succ :: "int \<Rightarrow> int" where
  "i32_succ n = min (2 ^ 31 - 1) (n + 1)"

definition outbox_status_of_attempt :: "string \<Rightarrow> string option" where
  "outbox_status_of_attempt status =
     (if status = ''succeeded'' then Some ''delivered''
      else if status = ''retryable_failed'' then Some ''retryable_failed''
      else if status = ''permanent_failed'' then Some ''permanent_failed''
      else if status = ''dead_lettered'' then Some ''dead_lettered''
      else if status = ''started'' then Some ''delivering''
      else None)"

definition new_delivery_attempt ::
  "string \<Rightarrow> attempt_request \<Rightarrow> int \<Rightarrow> datetime \<Rightarrow> delivery_attempt" where
  "new_delivery_attempt i r attempt_index now =
     \<lparr>da_id = i, da_outbox_event_id = ar_outbox_event_id r, da_sink_id = ar_sink_id r,
      da_attempt_index = attempt_index, da_status = ar_status r,
      da_response_status = ar_response_status r, da_error_message = ar_error_message r,
      da_request_body_sha256 = ar_request_body_sha256 r,
      da_signing_secret_ref_id = ar_signing_secret_ref_id r,
      da_signature_sha256 = ar_signature_sha256 r, da_delivery_headers = ar_delivery_headers r,
      da_attempted_at = now\<rparr>"

text \<open>The attempt count is raised before an unknown status is refused, and stays raised.\<close>

definition record_notification_delivery_attempt ::
  "string \<Rightarrow> attempt_request \<Rightarrow> datetime \<Rightarrow> notification_store \<Rightarrow>
   delivery_attempt gateway_result \<times> notification_store" where
  "record_notification_delivery_attempt new_id r now s =
     (case outbox_event_by_id s (ar_outbox_event_id r) of
        None \<Rightarrow> (Inl (NotFound (''notification outbox event '' @ ar_outbox_event_id r)), s)
      | Some e \<Rightarrow>
          let attempt_index = ob_attempt_count e;
              e1 = e\<lparr>ob_attempt_count := i32_succ (ob_attempt_count e)\<rparr> in
          case outbox_status_of_attempt (ar_status r) of
            None \<Rightarrow>
              (Inl (BadRequest ''notification_delivery_attempt_status_invalid''), put_outbox_event e1 s)
          | Some status \<Rightarrow>
              let e2 = e1\<lparr>ob_status := status,
                    ob_next_attempt_at :=
                      (if ar_status r = ''retryable_failed'' then ar_next_attempt_at r
                       else if ar_status r = ''started'' then ob_next_attempt_at e
                       else None),
                    ob_updated_at := now\<rparr>;
                  attempt = new_delivery_attempt new_id r attempt_index now;
                  s1 = put_outbox_event e2 s in
              (Inr attempt, s1\<lparr>ns_attempts := ns_attempts s1 @ [attempt]\<rparr>))"

definition notification_delivery_attempts_for_event ::
  "notification_store \<Rightarrow> string \<Rightarrow> delivery_attempt list" where
  "notification_delivery_attempts_for_event s i =
     sort_key (\<lambda>a. (da_attempt_index a, da_id a))
       (filter (\<lambda>a. da_outbox_event_id a = i) (ns_attempts s))"

subsection \<open>Subscriptions\<close>

definition notification_subscription_filter_matches ::
  "json \<Rightarrow> string \<Rightarrow> string \<Rightarrow> string \<Rightarrow> bool" where
  "notification_subscription_filter_matches flt event_kind scope_kind scope_id =
     (if flt = JNull then True
      else
        is_none_or (Option.bind (json_get flt ''event_types'') json_as_array)
          (\<lambda>event_types. list_ex (\<lambda>v. json_as_str v = Some event_kind) event_types) \<and>
        is_none_or (json_get_str flt ''scope_kind'') (\<lambda>k. k = scope_kind) \<and>
        is_none_or (json_get_str flt ''scope_id'') (\<lambda>i. i = scope_id))"

text \<open>
  The loop that both kinds of runtime notification run: every active subscription of the family
  whose filter matches and whose sink is active gets one outbox event. \<open>key_of\<close> is the dedupe key
  for a subscription, and \<open>new_id\<close> the id drawn for it.
\<close>

definition enqueue_to_subscription ::
  "(string \<Rightarrow> string) \<Rightarrow> authenticated_actor \<Rightarrow> string \<Rightarrow> json \<Rightarrow> (string \<Rightarrow> string) \<Rightarrow> datetime \<Rightarrow>
   notification_subscription \<Rightarrow> notification_store \<Rightarrow> notification_store" where
  "enqueue_to_subscription new_id actor event_kind payload key_of now subscription s =
     (case ns_sinks s (sub_notification_sink_id subscription) of
        None \<Rightarrow> s
      | Some sink \<Rightarrow>
          if sink_status sink \<noteq> ResActive then s
          else snd (append_notification_outbox_event (new_id (sub_id subscription))
            \<lparr>or_tenant_id = actor_tenant_id actor, or_organization_id = actor_organization_id actor,
             or_project_id = actor_project_id actor, or_subscription_id = Some (sub_id subscription),
             or_sink_id = Some (sink_id sink), or_event_kind = event_kind,
             or_dedupe_key = key_of (sub_id subscription), or_payload_document = payload,
             or_next_attempt_at = Some now\<rparr> now s))"

definition enqueue_to_subscribers ::
  "(string \<Rightarrow> string) \<Rightarrow> authenticated_actor \<Rightarrow> string \<Rightarrow> string \<Rightarrow> string \<Rightarrow> string \<Rightarrow> json \<Rightarrow>
   (string \<Rightarrow> string) \<Rightarrow> datetime \<Rightarrow> notification_store \<Rightarrow> notification_store" where
  "enqueue_to_subscribers new_id actor event_family event_kind scope_kind scope_id payload key_of now s =
     fold (enqueue_to_subscription new_id actor event_kind payload key_of now)
       (filter (\<lambda>b. sub_status b = ResActive \<and> sub_event_family b = event_family \<and>
           notification_subscription_filter_matches (sub_filter_document b) event_kind scope_kind scope_id)
         (notification_subscriptions_for_tenant s (actor_tenant_id actor))) s"

fun runtime_policy_notification_kind :: "gateway_error \<Rightarrow> (string \<times> string \<times> string) option" where
  "runtime_policy_notification_kind (BudgetExceeded reason) =
     Some (''budget'', ''gateway.budget.hard_block'', reason)"
| "runtime_policy_notification_kind (QuotaExceeded reason) =
     Some (''quota'', ''gateway.quota.limit_exceeded'', reason)"
| "runtime_policy_notification_kind _ = None"

definition runtime_notification_scope :: "authenticated_actor \<Rightarrow> string \<times> string" where
  "runtime_notification_scope actor =
     (case actor_project_id actor of
        Some project_id \<Rightarrow> (''project'', project_id)
      | None \<Rightarrow>
          (case actor_organization_id actor of
             Some organization_id \<Rightarrow> (''organization'', organization_id)
           | None \<Rightarrow> (''tenant'', actor_tenant_id actor)))"

definition policy_block_dedupe_key :: "authenticated_actor \<Rightarrow> string \<Rightarrow> string \<Rightarrow> string" where
  "policy_block_dedupe_key actor event_kind subscription_id =
     ''runtime-policy-block:'' @ actor_request_id actor @ '':'' @ subscription_id @ '':'' @ event_kind"

end
