(* ===== verification/Gateway_Delivery.thy ===== *)
theory Gateway_Delivery
  imports Gateway_Notification
begin

text \<open>
  The delivery worker of the notification outbox (\<open>crates/starweaver-gateway/src/service.rs\<close>, from
  \<open>deliver_due_notifications\<close> to \<open>notification_signature\<close>, with the webhook host check).
\<close>

subsection \<open>Libraries and host check\<close>

text \<open>What the source reads of an \<open>http::Uri\<close>; the authority with its host.\<close>

record parsed_uri =
  pu_scheme :: "string option"
  pu_authority :: "(string \<times> string) option"
  pu_path :: string
  pu_query :: "string option"

record webhook_request =
  wr_url :: string
  wr_body :: string
  wr_delivery_id :: string
  wr_event_id :: string
  wr_event_type :: string
  wr_schema :: string
  wr_timestamp :: string
  wr_signature :: string
  wr_timeout_seconds :: nat

record webhook_api =
  wa_parse_uri :: "string \<Rightarrow> parsed_uri option"
  wa_encode :: "json \<Rightarrow> string + string"
  wa_sha256 :: "string \<Rightarrow> string"
  wa_rfc3339 :: "datetime \<Rightarrow> string"
  wa_hmac :: "string \<Rightarrow> string \<Rightarrow> string + string"
  wa_post :: "webhook_request \<Rightarrow> nat option"

definition sha256_hex :: "webhook_api \<Rightarrow> string \<Rightarrow> string" where
  "sha256_hex api bytes = ''sha256:'' @ wa_sha256 api bytes"

definition is_loopback_host :: "string \<Rightarrow> bool" where
  "is_loopback_host host \<longleftrightarrow> host \<in> {''localhost'', ''127.0.0.1'', ''[::1]'', ''::1''}"

definition allows_local_callback_adapter :: "string \<Rightarrow> bool" where
  "allows_local_callback_adapter environment \<longleftrightarrow> environment = ''local'' \<or> environment = ''test''"

definition safe_webhook_endpoint_host_with_policy ::
  "(string \<Rightarrow> parsed_uri option) \<Rightarrow> string \<Rightarrow> bool \<Rightarrow> string option" where
  "safe_webhook_endpoint_host_with_policy parse_uri v allow_loopback_http =
     (case parse_uri v of
        None \<Rightarrow> None
      | Some uri \<Rightarrow>
          if pu_query uri \<noteq> None then None
          else case (pu_scheme uri, pu_authority uri) of
            (Some scheme, Some (authority, host)) \<Rightarrow>
              if CHR ''@'' \<in> set authority then None
              else if host = '''' \<or> length host > 253 then None
              else if scheme = ''https'' then Some host
              else if scheme = ''http'' \<and> allow_loopback_http \<and> is_loopback_host host then Some host
              else None
          | _ \<Rightarrow> None)"

definition safe_webhook_endpoint_host :: "(string \<Rightarrow> parsed_uri option) \<Rightarrow> string \<Rightarrow> string option" where
  "safe_webhook_endpoint_host parse_uri v = safe_webhook_endpoint_host_with_policy parse_uri v True"

definition safe_webhook_endpoint_host_for_config ::
  "(string \<Rightarrow> parsed_uri option) \<Rightarrow> string \<Rightarrow> string \<Rightarrow> string option" where
  "safe_webhook_endpoint_host_for_config parse_uri environment v =
     safe_webhook_endpoint_host_with_policy parse_uri v (allows_local_callback_adapter environment)"

definition safe_url_path :: "(string \<Rightarrow> parsed_uri option) \<Rightarrow> string \<Rightarrow> string option" where
  "safe_url_path parse_uri v = opt_filter (\<lambda>path. path \<noteq> '''') (map_option pu_path (parse_uri v))"

definition mask_secret_ref_id :: "string \<Rightarrow> string" where
  "mask_secret_ref_id secret_ref_id =
     (if starts_with secret_ref_id ''sec_'' then ''sec_***'' else ''***'')"

subsection \<open>One webhook\<close>

datatype delivery_transport = HttpTransport | SyntheticTransport

fun transport_as_str :: "delivery_transport \<Rightarrow> string" where
  "transport_as_str HttpTransport = ''http''"
| "transport_as_str SyntheticTransport = ''synthetic''"

datatype delivery_result_kind = DeliverySucceeded | DeliveryRetryableFailed | DeliveryPermanentFailed

record delivery_result =
  dr_kind :: delivery_result_kind
  dr_response_status :: "int option"
  dr_response_status_class :: "string option"
  dr_timeout_seconds :: nat

definition http_status_class :: "nat \<Rightarrow> string" where
  "http_status_class status =
     (if 100 \<le> status \<and> status \<le> 199 then ''1xx''
      else if 200 \<le> status \<and> status \<le> 299 then ''2xx''
      else if 300 \<le> status \<and> status \<le> 399 then ''3xx''
      else if 400 \<le> status \<and> status \<le> 499 then ''4xx''
      else if 500 \<le> status \<and> status \<le> 599 then ''5xx''
      else ''unknown'')"

definition webhook_result_from_http_status :: "nat \<Rightarrow> nat \<Rightarrow> delivery_result" where
  "webhook_result_from_http_status status timeout_seconds =
     \<lparr>dr_kind =
        (if 200 \<le> status \<and> status \<le> 299 then DeliverySucceeded
         else if status \<in> {408, 425, 429} \<or> status \<ge> 500 then DeliveryRetryableFailed
         else DeliveryPermanentFailed),
      dr_response_status = Some (int status),
      dr_response_status_class = Some (http_status_class status),
      dr_timeout_seconds = timeout_seconds\<rparr>"

definition synthetic_webhook_delivery_result ::
  "(string \<Rightarrow> parsed_uri option) \<Rightarrow> string \<Rightarrow> nat \<Rightarrow> delivery_result" where
  "synthetic_webhook_delivery_result parse_uri url timeout_seconds =
     (let host = to_ascii_lowercase (unwrap_or (safe_webhook_endpoint_host parse_uri url) '''') in
      if contains_str host ''gone'' \<or> contains_str host ''permanent''
      then \<lparr>dr_kind = DeliveryPermanentFailed, dr_response_status = Some 410,
            dr_response_status_class = Some ''4xx'', dr_timeout_seconds = timeout_seconds\<rparr>
      else if contains_str host ''retry'' \<or> contains_str host ''unavailable'' \<or> contains_str host ''fail''
      then \<lparr>dr_kind = DeliveryRetryableFailed, dr_response_status = Some 503,
            dr_response_status_class = Some ''5xx'', dr_timeout_seconds = timeout_seconds\<rparr>
      else \<lparr>dr_kind = DeliverySucceeded, dr_response_status = Some 204,
            dr_response_status_class = Some ''2xx'', dr_timeout_seconds = timeout_seconds\<rparr>)"

definition execute_webhook_delivery ::
  "webhook_api \<Rightarrow> delivery_transport \<Rightarrow> bool \<Rightarrow> webhook_request \<Rightarrow> delivery_result gateway_result" where
  "execute_webhook_delivery api transport has_client r =
     (case transport of
        SyntheticTransport \<Rightarrow>
          Inr (synthetic_webhook_delivery_result (wa_parse_uri api) (wr_url r) (wr_timeout_seconds r))
      | HttpTransport \<Rightarrow>
          if \<not> has_client then Inl (Internal ''notification_http_client_missing'')
          else Inr (case wa_post api r of
              None \<Rightarrow> \<lparr>dr_kind = DeliveryRetryableFailed, dr_response_status = None,
                dr_response_status_class = None, dr_timeout_seconds = wr_timeout_seconds r\<rparr>
            | Some status \<Rightarrow> webhook_result_from_http_status status (wr_timeout_seconds r)))"

definition notification_delivery_max_attempts :: "notification_sink \<Rightarrow> int" where
  "notification_delivery_max_attempts sink =
     unwrap_or (opt_filter (\<lambda>v. 1 \<le> v \<and> v \<le> 10)
       (opt_filter (\<lambda>v. - (2 ^ 31) \<le> v \<and> v < 2 ^ 31)
         (Option.bind (Option.bind (json_get (sink_endpoint_config sink) ''retry_policy'')
           (\<lambda>policy. json_get policy ''max_attempts'')) json_as_i64))) 3"

definition notification_webhook_timeout_seconds :: "notification_sink \<Rightarrow> nat" where
  "notification_webhook_timeout_seconds sink =
     unwrap_or (opt_filter (\<lambda>v. 1 \<le> v \<and> v \<le> 60)
       (Option.bind (json_get (sink_endpoint_config sink) ''timeout_seconds'') json_as_u64)) 10"

text \<open>\<open>NOTIFICATION_DELIVERY_RETRY_DELAY_SECONDS\<close>, in nanoseconds.\<close>

definition delivery_retry_delay :: datetime where
  "delivery_retry_delay = 60 * 1000000000"

definition notification_delivery_status_from_result ::
  "outbox_event \<Rightarrow> notification_sink \<Rightarrow> delivery_result_kind \<Rightarrow> datetime \<Rightarrow>
   string \<times> string option \<times> datetime option" where
  "notification_delivery_status_from_result e sink kind now =
     (case kind of
        DeliverySucceeded \<Rightarrow> (''succeeded'', None, None)
      | DeliveryPermanentFailed \<Rightarrow>
          (''permanent_failed'', Some ''notification_webhook_permanent_failure'', None)
      | DeliveryRetryableFailed \<Rightarrow>
          if i32_succ (ob_attempt_count e) \<ge> notification_delivery_max_attempts sink
          then (''dead_lettered'', Some ''notification_webhook_retry_exhausted'', None)
          else (''retryable_failed'', Some ''notification_webhook_retryable_failure'',
                Some (now + delivery_retry_delay)))"

definition notification_signature ::
  "webhook_api \<Rightarrow> string \<Rightarrow> string \<Rightarrow> string \<Rightarrow> string gateway_result" where
  "notification_signature api signing_secret ts body =
     (case wa_hmac api signing_secret (ts @ ''.'' @ body) of
        Inl error \<Rightarrow> Inl (Internal (''failed to initialize notification signer: '' @ error))
      | Inr mac \<Rightarrow> Inr (''v1='' @ mac))"

record delivery_plan =
  dp_status :: string
  dp_response_status :: "int option"
  dp_error_message :: "string option"
  dp_request_body_sha256 :: "string option"
  dp_signing_secret_ref_id :: "string option"
  dp_signature_sha256 :: "string option"
  dp_delivery_headers :: json
  dp_next_attempt_at :: "datetime option"

definition plan_success :: "int option \<Rightarrow> json \<Rightarrow> delivery_plan" where
  "plan_success response_status headers =
     \<lparr>dp_status = ''succeeded'', dp_response_status = response_status, dp_error_message = None,
      dp_request_body_sha256 = None, dp_signing_secret_ref_id = None, dp_signature_sha256 = None,
      dp_delivery_headers = headers, dp_next_attempt_at = None\<rparr>"

definition plan_failure :: "string \<Rightarrow> int option \<Rightarrow> string \<Rightarrow> json \<Rightarrow> delivery_plan" where
  "plan_failure status response_status message headers =
     \<lparr>dp_status = status, dp_response_status = response_status, dp_error_message = Some message,
      dp_request_body_sha256 = None, dp_signing_secret_ref_id = None, dp_signature_sha256 = None,
      dp_delivery_headers = headers, dp_next_attempt_at = None\<rparr>"

definition with_next_attempt_at :: "delivery_plan \<Rightarrow> datetime \<Rightarrow> delivery_plan" where
  "with_next_attempt_at plan t = plan\<lparr>dp_next_attempt_at := Some t\<rparr>"

definition opt_int_json :: "int option \<Rightarrow> json" where
  "opt_int_json x = (case x of None \<Rightarrow> JNull | Some i \<Rightarrow> JInt i)"

definition webhook_delivery_headers ::
  "webhook_api \<Rightarrow> delivery_transport \<Rightarrow> string \<Rightarrow> string \<Rightarrow> outbox_event \<Rightarrow> string \<Rightarrow> string \<Rightarrow>
   string \<Rightarrow> string \<Rightarrow> string \<Rightarrow> delivery_result \<Rightarrow> json" where
  "webhook_delivery_headers api transport host url e body_sha256 signature_sha256 payload_schema ts
     secret_ref_id delivery = JObject
     [(''transport'', JString ''webhook''), (''transport_mode'', JString (transport_as_str transport)),
      (''url_host'', JString host), (''url_path'', json_opt_str (safe_url_path (wa_parse_uri api) url)),
      (''body_sha256'', JString body_sha256), (''signature_algorithm'', JString ''hmac-sha256''),
      (''signature_sha256'', JString signature_sha256),
      (''timeout_seconds'', JInt (int (dr_timeout_seconds delivery))),
      (''response_status_class'', json_opt_str (dr_response_status_class delivery)),
      (''headers'', JObject
        [(''x-gateway-delivery-id'', JString (ob_id e)),
         (''x-gateway-event-id'', JString (ob_dedupe_key e)),
         (''x-gateway-event-type'', JString (ob_event_kind e)),
         (''x-gateway-schema'', JString payload_schema), (''x-gateway-timestamp'', JString ts),
         (''x-gateway-signature'', JString ''hmac-sha256:***'')]),
      (''signing_secret_ref_id'', JString (mask_secret_ref_id secret_ref_id))]"

definition webhook_delivery_plan ::
  "webhook_api \<Rightarrow> string \<Rightarrow> (string \<Rightarrow> string option) \<Rightarrow> notification_sink \<Rightarrow> outbox_event \<Rightarrow>
   datetime \<Rightarrow> delivery_transport \<Rightarrow> bool \<Rightarrow> delivery_plan gateway_result" where
  "webhook_delivery_plan api environment secret_value sink e now transport has_client =
     rbind (ok_or (BadRequest ''notification_sink_webhook_url_required'')
       (json_get_str (sink_endpoint_config sink) ''url'')) (\<lambda>url.
     rbind (ok_or (BadRequest ''notification_sink_webhook_url_invalid'')
       (safe_webhook_endpoint_host_for_config (wa_parse_uri api) environment url)) (\<lambda>host.
     rbind (ok_or (BadRequest ''notification_sink_signing_secret_ref_required'')
       (sink_signing_secret_ref_id sink)) (\<lambda>secret_ref_id.
     rbind (ok_or (BadRequest ''notification_sink_signing_secret_missing'')
       (secret_value secret_ref_id)) (\<lambda>signing_secret.
     case wa_encode api (ob_payload_document e) of
       Inl error \<Rightarrow> Inl (Internal (''failed to encode notification payload: '' @ error))
     | Inr body \<Rightarrow>
       let body_sha256 = sha256_hex api body; ts = wa_rfc3339 api now in
       rbind (notification_signature api signing_secret ts body) (\<lambda>signature.
       let signature_sha256 = sha256_hex api signature;
           payload_schema = unwrap_or (json_get_str (ob_payload_document e) ''schema'')
             ''gateway.notification.v1'' in
       rbind (execute_webhook_delivery api transport has_client
         \<lparr>wr_url = url, wr_body = body, wr_delivery_id = ob_id e, wr_event_id = ob_dedupe_key e,
          wr_event_type = ob_event_kind e, wr_schema = payload_schema, wr_timestamp = ts,
          wr_signature = signature,
          wr_timeout_seconds = notification_webhook_timeout_seconds sink\<rparr>) (\<lambda>delivery.
       let (status, message, next_attempt_at) =
             notification_delivery_status_from_result e sink (dr_kind delivery) now in
       Inr \<lparr>dp_status = status, dp_response_status = dr_response_status delivery,
            dp_error_message = message, dp_request_body_sha256 = Some body_sha256,
            dp_signing_secret_ref_id = Some secret_ref_id,
            dp_signature_sha256 = Some signature_sha256,
            dp_delivery_headers = webhook_delivery_headers api transport host url e body_sha256
              signature_sha256 payload_schema ts secret_ref_id delivery,
            dp_next_attempt_at = next_attempt_at\<rparr>))))))"

subsection \<open>The worker\<close>

definition delivery_plan_for ::
  "webhook_api \<Rightarrow> string \<Rightarrow> (string \<Rightarrow> string option) \<Rightarrow> notification_sink option \<Rightarrow> outbox_event \<Rightarrow>
   datetime \<Rightarrow> delivery_transport \<Rightarrow> bool \<Rightarrow> delivery_plan gateway_result" where
  "delivery_plan_for api environment secret_value sink e now transport has_client =
     (case sink of
        None \<Rightarrow> Inr (plan_failure ''permanent_failed'' None ''notification_sink_missing''
          (JObject [(''transport'', JNull)]))
      | Some sink \<Rightarrow>
          if sink_status sink \<noteq> ResActive
          then Inr (plan_failure ''permanent_failed'' None ''notification_sink_not_active''
            (JObject [(''transport'', JString (sink_kind sink))]))
          else if sink_kind sink = ''stdout''
          then Inr (plan_success (Some 204) (JObject [(''transport'', JString ''stdout'')]))
          else if sink_kind sink = ''disabled''
          then Inr (plan_failure ''permanent_failed'' None ''notification_sink_disabled''
            (JObject [(''transport'', JString ''disabled'')]))
          else if sink_kind sink = ''webhook''
          then webhook_delivery_plan api environment secret_value sink e now transport has_client
          else Inr (with_next_attempt_at (plan_failure ''retryable_failed'' None
            ''notification_delivery_backend_not_connected''
            (JObject [(''transport'', JString (sink_kind sink))])) (now + delivery_retry_delay)))"

definition deliver_notification_outbox_event ::
  "webhook_api \<Rightarrow> string \<Rightarrow> (string \<Rightarrow> string option) \<Rightarrow> string \<Rightarrow> outbox_event \<Rightarrow> datetime \<Rightarrow>
   delivery_transport \<Rightarrow> bool \<Rightarrow> notification_store \<Rightarrow>
   delivery_attempt gateway_result \<times> notification_store" where
  "deliver_notification_outbox_event api environment secret_value new_id e now transport has_client s =
     (case delivery_plan_for api environment secret_value (Option.bind (ob_sink_id e) (ns_sinks s)) e now
         transport has_client of
        Inl error \<Rightarrow> (Inl error, s)
      | Inr plan \<Rightarrow> record_notification_delivery_attempt new_id
          \<lparr>ar_outbox_event_id = ob_id e, ar_sink_id = ob_sink_id e, ar_status = dp_status plan,
           ar_response_status = dp_response_status plan, ar_error_message = dp_error_message plan,
           ar_request_body_sha256 = dp_request_body_sha256 plan,
           ar_signing_secret_ref_id = dp_signing_secret_ref_id plan,
           ar_signature_sha256 = dp_signature_sha256 plan,
           ar_delivery_headers = dp_delivery_headers plan,
           ar_next_attempt_at = dp_next_attempt_at plan\<rparr> now s)"

fun deliver_all ::
  "(outbox_event \<Rightarrow> notification_store \<Rightarrow> delivery_attempt gateway_result \<times> notification_store) \<Rightarrow>
   outbox_event list \<Rightarrow> notification_store \<Rightarrow> delivery_attempt list \<times> notification_store" where
  "deliver_all deliver [] s = ([], s)"
| "deliver_all deliver (e # es) s =
     (case deliver e s of
        (Inl _, s1) \<Rightarrow> deliver_all deliver es s1
      | (Inr attempt, s1) \<Rightarrow>
          (case deliver_all deliver es s1 of (attempts, s2) \<Rightarrow> (attempt # attempts, s2)))"

text \<open>\<open>new_id\<close> gives the id drawn for the attempt at an event.\<close>

definition deliver_due_notifications_with_transport ::
  "webhook_api \<Rightarrow> string \<Rightarrow> (string \<Rightarrow> string option) \<Rightarrow> (string \<Rightarrow> string) \<Rightarrow> string \<Rightarrow> datetime \<Rightarrow> nat \<Rightarrow>
   delivery_transport \<Rightarrow> notification_store \<Rightarrow> delivery_attempt list \<times> notification_store" where
  "deliver_due_notifications_with_transport api environment secret_value new_id tenant_id now limit
     transport s =
     deliver_all (\<lambda>e. deliver_notification_outbox_event api environment secret_value (new_id (ob_id e)) e now
         transport (transport = HttpTransport))
       (due_notification_outbox_events s tenant_id now limit) s"

definition deliver_due_notifications ::
  "webhook_api \<Rightarrow> string \<Rightarrow> (string \<Rightarrow> string option) \<Rightarrow> (string \<Rightarrow> string) \<Rightarrow> string \<Rightarrow> datetime \<Rightarrow> nat \<Rightarrow>
   notification_store \<Rightarrow> delivery_attempt list \<times> notification_store" where
  "deliver_due_notifications api environment secret_value new_id tenant_id now limit s =
     deliver_due_notifications_with_transport api environment secret_value new_id tenant_id now limit
       HttpTransport s"

end
