(* ===== verification/Gateway_Outbox_Steps.thy ===== *)
theory Gateway_Outbox_Steps
  imports Gateway_Delivery
begin

text \<open>
  Runs of the notification outbox: appends, delivery rounds, replays and administration in any
  order, as the step relation \<open>outbox_step\<close>, with the effect of each operation on one event and the
  invariant of all runs.
\<close>

subsection \<open>Effects on one event\<close>

definition after_attempt :: "string \<Rightarrow> datetime option \<Rightarrow> datetime \<Rightarrow> outbox_event \<Rightarrow> outbox_event" where
  "after_attempt attempt_status next_at now e =
     e\<lparr>ob_attempt_count := i32_succ (ob_attempt_count e),
       ob_status := unwrap_or (outbox_status_of_attempt attempt_status) (ob_status e),
       ob_next_attempt_at := (if attempt_status = ''retryable_failed'' then next_at else None),
       ob_updated_at := now\<rparr>"

lemma after_attempt_same [simp]:
  "ob_id (after_attempt st nx now e) = ob_id e"
  "ob_tenant_id (after_attempt st nx now e) = ob_tenant_id e"
  "ob_dedupe_key (after_attempt st nx now e) = ob_dedupe_key e"
  "ob_sink_id (after_attempt st nx now e) = ob_sink_id e"
  "ob_attempt_count (after_attempt st nx now e) = i32_succ (ob_attempt_count e)"
  by (simp_all add: after_attempt_def)

text \<open>Statuses of attempts that a plan can have.\<close>

definition plan_statuses :: "string set" where
  "plan_statuses = {''succeeded'', ''retryable_failed'', ''permanent_failed'', ''dead_lettered''}"

lemma status_from_result_cases:
  "fst (notification_delivery_status_from_result e sink kind now) \<in> plan_statuses"
  by (cases kind) (simp_all add: notification_delivery_status_from_result_def plan_statuses_def)

lemma rbind_InrE: "rbind x f = Inr y \<Longrightarrow> (\<And>a. x = Inr a \<Longrightarrow> f a = Inr y \<Longrightarrow> P) \<Longrightarrow> P"
  by (cases x) auto

text \<open>A webhook plan is the outcome of one delivery, whatever the endpoint did.\<close>

lemma webhook_plan_outcome:
  assumes "webhook_delivery_plan api env sv sink e now tr cl = Inr plan"
  shows "\<exists>kind. dp_status plan = fst (notification_delivery_status_from_result e sink kind now) \<and>
    dp_next_attempt_at plan = snd (snd (notification_delivery_status_from_result e sink kind now))"
  using assms unfolding webhook_delivery_plan_def Let_def
  by (elim rbind_InrE) (auto simp: prod.case_eq_if elim!: rbind_InrE split: sum.splits)

lemma plan_status_cases:
  assumes "delivery_plan_for api env sv sink e now tr cl = Inr plan"
  shows "dp_status plan \<in> plan_statuses"
proof (cases "\<exists>k. sink = Some k \<and> sink_status k = ResActive \<and> sink_kind k = ''webhook''")
  case True
  then obtain k where "webhook_delivery_plan api env sv k e now tr cl = Inr plan"
    using assms by (auto simp: delivery_plan_for_def)
  then obtain kind where "dp_status plan = fst (notification_delivery_status_from_result e k kind now)"
    by (auto dest: webhook_plan_outcome)
  then show ?thesis by (simp add: status_from_result_cases)
next
  case False
  with assms show ?thesis
    by (auto simp: delivery_plan_for_def plan_failure_def plan_success_def with_next_attempt_at_def
        plan_statuses_def split: option.splits if_splits)
qed

definition attempt_event ::
  "webhook_api \<Rightarrow> string \<Rightarrow> (string \<Rightarrow> string option) \<Rightarrow> (string \<rightharpoonup> notification_sink) \<Rightarrow> datetime \<Rightarrow>
   delivery_transport \<Rightarrow> outbox_event \<Rightarrow> outbox_event" where
  "attempt_event api env sv sinks now tr e =
     (case delivery_plan_for api env sv (Option.bind (ob_sink_id e) sinks) e now tr (tr = HttpTransport) of
        Inl _ \<Rightarrow> e
      | Inr plan \<Rightarrow> after_attempt (dp_status plan) (dp_next_attempt_at plan) now e)"

lemma attempt_event_same [simp]:
  "ob_id (attempt_event api env sv sinks now tr e) = ob_id e"
  "ob_tenant_id (attempt_event api env sv sinks now tr e) = ob_tenant_id e"
  "ob_dedupe_key (attempt_event api env sv sinks now tr e) = ob_dedupe_key e"
  "ob_sink_id (attempt_event api env sv sinks now tr e) = ob_sink_id e"
  by (simp_all add: attempt_event_def split: sum.splits)

lemma outbox_event_by_id_mem:
  assumes "distinct (map ob_id (ns_outbox s))" and "e \<in> set (ns_outbox s)"
  shows "outbox_event_by_id s (ob_id e) = Some e"
proof -
  have "find (\<lambda>x. ob_id x = ob_id e) (ns_outbox s) \<noteq> None"
    using assms(2) by (auto simp: find_None_iff)
  then obtain x where x: "find (\<lambda>x. ob_id x = ob_id e) (ns_outbox s) = Some x" by auto
  then have "x \<in> set (ns_outbox s)" "ob_id x = ob_id e" by (auto simp: find_Some_iff)
  then have "x = e" using assms by (simp add: distinct_map inj_on_def)
  with x show ?thesis by (simp add: outbox_event_by_id_def)
qed

lemma deliver_effect:
  assumes "distinct (map ob_id (ns_outbox s))" and "e \<in> set (ns_outbox s)"
  shows "ns_outbox (snd (deliver_notification_outbox_event api env sv i e now tr (tr = HttpTransport) s)) =
      map (\<lambda>x. if ob_id x = ob_id e then attempt_event api env sv (ns_sinks s) now tr e else x) (ns_outbox s)"
    and "ns_sinks (snd (deliver_notification_outbox_event api env sv i e now tr (tr = HttpTransport) s)) = ns_sinks s"
proof -
  let ?plan = "delivery_plan_for api env sv (Option.bind (ob_sink_id e) (ns_sinks s)) e now tr (tr = HttpTransport)"
  have same: "map (\<lambda>x. if ob_id x = ob_id e then e else x) (ns_outbox s) = ns_outbox s"
    using assms by (intro map_idI) (auto simp: distinct_map inj_on_def)
  have "ns_outbox (snd (deliver_notification_outbox_event api env sv i e now tr (tr = HttpTransport) s)) =
      map (\<lambda>x. if ob_id x = ob_id e then attempt_event api env sv (ns_sinks s) now tr e else x) (ns_outbox s) \<and>
    ns_sinks (snd (deliver_notification_outbox_event api env sv i e now tr (tr = HttpTransport) s)) = ns_sinks s"
  proof (cases ?plan)
    case (Inl error)
    then have unchanged: "attempt_event api env sv (ns_sinks s) now tr e = e"
      by (simp add: attempt_event_def)
    show ?thesis
      unfolding unchanged using Inl same by (simp add: deliver_notification_outbox_event_def)
  next
    case (Inr plan)
    then have st: "dp_status plan \<in> plan_statuses" by (rule plan_status_cases)
    then obtain st' where "outbox_status_of_attempt (dp_status plan) = Some st'"
      by (auto simp: plan_statuses_def outbox_status_of_attempt_def)
    moreover from st have "dp_status plan \<noteq> ''started''" by (auto simp: plan_statuses_def)
    ultimately show ?thesis
      using Inr by (simp add: deliver_notification_outbox_event_def attempt_event_def after_attempt_def
          record_notification_delivery_attempt_def outbox_event_by_id_mem [OF assms] Let_def
          put_outbox_event_def cong: map_cong)
  qed
  then show "ns_outbox (snd (deliver_notification_outbox_event api env sv i e now tr (tr = HttpTransport) s)) =
      map (\<lambda>x. if ob_id x = ob_id e then attempt_event api env sv (ns_sinks s) now tr e else x) (ns_outbox s)"
    and "ns_sinks (snd (deliver_notification_outbox_event api env sv i e now tr (tr = HttpTransport) s)) = ns_sinks s"
    by simp_all
qed

lemma deliver_all_effect:
  assumes "distinct (map ob_id (ns_outbox s))" and "set es \<subseteq> set (ns_outbox s)" and "distinct es"
  shows "ns_outbox (snd (deliver_all (\<lambda>e. deliver_notification_outbox_event api env sv (new_id (ob_id e)) e now tr
        (tr = HttpTransport)) es s)) =
      map (\<lambda>x. if x \<in> set es then attempt_event api env sv (ns_sinks s) now tr x else x) (ns_outbox s) \<and>
    ns_sinks (snd (deliver_all (\<lambda>e. deliver_notification_outbox_event api env sv (new_id (ob_id e)) e now tr
        (tr = HttpTransport)) es s)) = ns_sinks s"
  using assms
proof (induction es arbitrary: s)
  case Nil
  then show ?case by (simp add: map_idI)
next
  case (Cons e es)
  let ?D = "\<lambda>e. deliver_notification_outbox_event api env sv (new_id (ob_id e)) e now tr (tr = HttpTransport)"
  let ?A = "attempt_event api env sv (ns_sinks s) now tr"
  define s1 where "s1 = snd (?D e s)"
  have e: "e \<in> set (ns_outbox s)" using Cons.prems(2) by simp
  have out: "ns_outbox s1 = map (\<lambda>x. if ob_id x = ob_id e then ?A e else x) (ns_outbox s)"
    and sinks: "ns_sinks s1 = ns_sinks s"
    unfolding s1_def by (rule deliver_effect [OF Cons.prems(1) e])+
  have out': "ns_outbox s1 = map (\<lambda>x. if x = e then ?A e else x) (ns_outbox s)"
    unfolding out using Cons.prems(1) e by (intro map_cong) (auto simp: distinct_map inj_on_def)
  have "map ob_id (ns_outbox s1) = map ob_id (ns_outbox s)" by (auto simp: out)
  then have d1: "distinct (map ob_id (ns_outbox s1))" using Cons.prems(1) by simp
  have sub: "set es \<subseteq> set (ns_outbox s1)"
    using Cons.prems(2,3) by (force simp: out')
  have fresh: "?A e \<notin> set es"
  proof
    assume "?A e \<in> set es"
    moreover from this have "?A e \<in> set (ns_outbox s)" using Cons.prems(2) by auto
    ultimately have "?A e = e" using Cons.prems(1) e by (auto simp: distinct_map inj_on_def)
    with \<open>?A e \<in> set es\<close> Cons.prems(3) show False by simp
  qed
  have run: "snd (deliver_all ?D (e # es) s) = snd (deliver_all ?D es s1)"
    by (simp add: s1_def split: prod.splits sum.splits)
  show ?case
    unfolding run using Cons.IH [OF d1 sub] Cons.prems(3) fresh by (auto simp: sinks out')
qed

text \<open>One round attempts exactly the selected events, each on its own.\<close>

lemma delivery_round:
  assumes "distinct (map ob_id (ns_outbox s))"
  shows "ns_outbox (snd (deliver_due_notifications_with_transport api env sv new_id t now limit tr s)) =
      map (\<lambda>x. if x \<in> set (due_notification_outbox_events s t now limit)
        then attempt_event api env sv (ns_sinks s) now tr x else x) (ns_outbox s)"
    and "ns_sinks (snd (deliver_due_notifications_with_transport api env sv new_id t now limit tr s)) = ns_sinks s"
proof -
  have "set (due_notification_outbox_events s t now limit) \<subseteq> set (ns_outbox s)"
    by (auto simp: due_notification_outbox_events_def dest!: in_set_takeD)
  moreover have "distinct (due_notification_outbox_events s t now limit)"
    using assms by (simp add: due_notification_outbox_events_def distinct_map)
  ultimately show "ns_outbox (snd (deliver_due_notifications_with_transport api env sv new_id t now limit tr s)) =
      map (\<lambda>x. if x \<in> set (due_notification_outbox_events s t now limit)
        then attempt_event api env sv (ns_sinks s) now tr x else x) (ns_outbox s)"
    and "ns_sinks (snd (deliver_due_notifications_with_transport api env sv new_id t now limit tr s)) = ns_sinks s"
    using deliver_all_effect [OF assms, where api = api and env = env and sv = sv and new_id = new_id
        and now = now and tr = tr]
    by (simp_all add: deliver_due_notifications_with_transport_def)
qed

lemma due_eventD:
  "e \<in> set (due_notification_outbox_events s t now limit) \<Longrightarrow> e \<in> set (ns_outbox s) \<and> outbox_event_due t now e"
  by (auto simp: due_notification_outbox_events_def dest!: in_set_takeD)

subsection \<open>Steps and their invariant\<close>

text \<open>
  The operations that runtime requests, the worker and the replay route run on the outbox. Ids are
  fresh; times, the libraries, the environment and the secrets may differ from step to step.
\<close>

inductive delivery_step :: "notification_store \<Rightarrow> notification_store \<Rightarrow> bool" where
  append: "i \<notin> set (map ob_id (ns_outbox s)) \<Longrightarrow>
     delivery_step s (snd (append_notification_outbox_event i r now s))"
| deliver: "delivery_step s
     (snd (deliver_due_notifications_with_transport api env sv new_id t now limit tr s))"
| replay: "delivery_step s (snd (replay_dead_lettered_notification_outbox_event i now s))"

inductive outbox_step :: "notification_store \<Rightarrow> notification_store \<Rightarrow> bool" where
  delivery: "delivery_step s s' \<Longrightarrow> outbox_step s s'"
| admin: "outbox_step s (s\<lparr>ns_sinks := sinks, ns_subscriptions := subs\<rparr>)"

inductive_cases outbox_stepE: "outbox_step s s'"
inductive_cases delivery_stepE: "delivery_step s s'"

abbreviation event_open :: "outbox_event \<Rightarrow> bool" where
  "event_open e \<equiv> ob_status e = ''pending'' \<or> ob_status e = ''retryable_failed''"

definition outbox_event_wf :: "outbox_event \<Rightarrow> bool" where
  "outbox_event_wf e \<longleftrightarrow> 0 \<le> ob_attempt_count e \<and> ob_attempt_count e < 2 ^ 31 \<and>
     (event_open e \<or>
      ob_status e \<in> {''delivered'', ''permanent_failed'', ''dead_lettered''} \<and> ob_next_attempt_at e = None)"

definition outbox_inv :: "notification_store \<Rightarrow> bool" where
  "outbox_inv s \<longleftrightarrow> distinct (map ob_id (ns_outbox s)) \<and>
     distinct (map (\<lambda>e. (ob_tenant_id e, ob_dedupe_key e)) (ns_outbox s)) \<and>
     (\<forall>e \<in> set (ns_outbox s). outbox_event_wf e)"

lemma after_attempt_wf:
  "outbox_event_wf e \<Longrightarrow> st \<in> plan_statuses \<Longrightarrow> outbox_event_wf (after_attempt st nx now e)"
  unfolding plan_statuses_def
  by (elim insertE emptyE)
    (simp_all add: outbox_event_wf_def after_attempt_def outbox_status_of_attempt_def i32_succ_def)

lemma attempt_event_wf: "outbox_event_wf e \<Longrightarrow> outbox_event_wf (attempt_event api env sv sinks now tr e)"
  by (auto simp: attempt_event_def dest!: plan_status_cases intro: after_attempt_wf split: sum.splits)

text \<open>An update of events that keeps their ids and keys keeps the invariant.\<close>

lemma outbox_inv_map:
  assumes "outbox_inv s" and "ns_outbox s' = map f (ns_outbox s)"
    and "\<And>e. e \<in> set (ns_outbox s) \<Longrightarrow> ob_id (f e) = ob_id e \<and> ob_tenant_id (f e) = ob_tenant_id e \<and>
       ob_dedupe_key (f e) = ob_dedupe_key e \<and> outbox_event_wf (f e)"
  shows "outbox_inv s'"
proof -
  have same: "map (ob_id \<circ> f) (ns_outbox s) = map ob_id (ns_outbox s)"
    "map ((\<lambda>e. (ob_tenant_id e, ob_dedupe_key e)) \<circ> f) (ns_outbox s) =
     map (\<lambda>e. (ob_tenant_id e, ob_dedupe_key e)) (ns_outbox s)"
    using assms(3) by (auto intro!: map_cong)
  show ?thesis using assms by (simp add: outbox_inv_def same)
qed

lemma append_outbox:
  assumes "outbox_inv s" and "i \<notin> set (map ob_id (ns_outbox s))"
  shows "ns_outbox (snd (append_notification_outbox_event i r now s)) =
      (if \<exists>e \<in> set (ns_outbox s). ob_tenant_id e = or_tenant_id r \<and> ob_dedupe_key e = or_dedupe_key r
       then ns_outbox s else ns_outbox s @ [new_outbox_event i r now])"
proof -
  have "filter (\<lambda>x. ob_id x \<noteq> i) (ns_outbox s) = ns_outbox s"
    using assms(2) by (auto simp: filter_id_conv)
  then show ?thesis
    by (auto simp: append_notification_outbox_event_def find_None_iff find_Some_iff Let_def
        split: option.splits)
qed

lemma append_inv:
  assumes "outbox_inv s" and "i \<notin> set (map ob_id (ns_outbox s))"
  shows "outbox_inv (snd (append_notification_outbox_event i r now s))"
  using assms by (auto simp: outbox_inv_def append_outbox [OF assms] new_outbox_event_def outbox_event_wf_def)

lemma replay_outbox:
  assumes "outbox_inv s"
  shows "ns_outbox (snd (replay_dead_lettered_notification_outbox_event i now s)) =
    map (\<lambda>e. if ob_id e = i \<and> ob_status e = ''dead_lettered''
      then e\<lparr>ob_status := ''pending'', ob_attempt_count := 0, ob_next_attempt_at := Some now,
        ob_updated_at := now\<rparr> else e) (ns_outbox s)"
proof (cases "outbox_event_by_id s i")
  case None
  then have "i \<notin> ob_id ` set (ns_outbox s)" by (auto simp: outbox_event_by_id_def find_None_iff)
  with None show ?thesis
    by (auto simp: replay_dead_lettered_notification_outbox_event_def intro!: map_idI [symmetric])
next
  case (Some e)
  then have e: "e \<in> set (ns_outbox s)" "ob_id e = i" by (auto simp: outbox_event_by_id_def find_Some_iff)
  have uniq: "x = e" if "x \<in> set (ns_outbox s)" "ob_id x = i" for x
    using that e assms by (auto simp: outbox_inv_def distinct_map inj_on_def)
  show ?thesis
  proof (cases "ob_status e = ''dead_lettered''")
    case True
    with Some e(2) show ?thesis
      by (simp add: replay_dead_lettered_notification_outbox_event_def put_outbox_event_def Let_def)
        (auto dest: uniq)
  next
    case False
    with Some uniq have "map (\<lambda>x. if ob_id x = i \<and> ob_status x = ''dead_lettered'' then f x else x)
        (ns_outbox s) = ns_outbox s" for f
      by (intro map_idI) auto
    with Some False show ?thesis by (simp add: replay_dead_lettered_notification_outbox_event_def)
  qed
qed

lemma delivery_step_inv: "delivery_step s s' \<Longrightarrow> outbox_inv s \<Longrightarrow> outbox_inv s'"
proof (induction rule: delivery_step.induct)
  case (append i s r now)
  then show ?case by (intro append_inv)
next
  case (deliver s api env sv new_id t now limit tr)
  then have d: "distinct (map ob_id (ns_outbox s))" by (simp add: outbox_inv_def)
  show ?case
    using deliver by (intro outbox_inv_map [OF deliver delivery_round(1) [OF d]])
      (auto simp: outbox_inv_def attempt_event_wf)
next
  case (replay s i now)
  then show ?case
    by (intro outbox_inv_map [OF replay replay_outbox [OF replay]])
      (auto simp: outbox_inv_def outbox_event_wf_def)
qed

lemma outbox_step_inv: "outbox_step s s' \<Longrightarrow> outbox_inv s \<Longrightarrow> outbox_inv s'"
  by (auto elim!: outbox_stepE dest: delivery_step_inv simp: outbox_inv_def)

lemma outbox_run_inv: "outbox_step\<^sup>*\<^sup>* s s' \<Longrightarrow> outbox_inv s \<Longrightarrow> outbox_inv s'"
  by (induction rule: rtranclp_induct) (auto dest: outbox_step_inv)

text \<open>An event that was delivered or failed for good is never touched again.\<close>

lemma closed_event_step:
  assumes "outbox_step s s'" and "outbox_inv s" and "e \<in> set (ns_outbox s)"
    and "ob_status e \<in> {''delivered'', ''permanent_failed''}"
  shows "e \<in> set (ns_outbox s')"
  using assms(1)
proof (cases rule: outbox_step.cases)
  case delivery
  then show ?thesis
  proof (cases rule: delivery_step.cases)
    case (append i r now)
    with append_outbox [OF assms(2)] assms(3) show ?thesis by simp
  next
    case (deliver api env sv new_id t now limit tr)
    have "e \<notin> set (due_notification_outbox_events s t now limit)"
      using assms(4) by (auto dest!: due_eventD simp: outbox_event_due_def)
    moreover have "distinct (map ob_id (ns_outbox s))" using assms(2) by (simp add: outbox_inv_def)
    ultimately show ?thesis using assms(3) deliver by (force simp: delivery_round(1))
  next
    case (replay i now)
    with assms(3,4) show ?thesis by (force simp: replay_outbox [OF assms(2)])
  qed
next
  case (admin sinks subs)
  with assms(3) show ?thesis by simp
qed

end
