(* ===== verification/Gateway_Outbox_Properties.thy ===== *)
theory Gateway_Outbox_Properties
  imports Gateway_Outbox_Steps
begin

text \<open>
  Properties of the notification outbox: one event per dedupe key in every run, finality of
  delivery, the retry budget of a webhook, that a healthy outbox drains, and what an event whose
  delivery cannot be planned does to the events behind it.
\<close>

subsection \<open>The retry budget\<close>

abbreviation event_sink :: "(string \<rightharpoonup> notification_sink) \<Rightarrow> outbox_event \<Rightarrow> notification_sink option" where
  "event_sink sinks e \<equiv> Option.bind (ob_sink_id e) sinks"

lemma max_attempts_bounds: "1 \<le> notification_delivery_max_attempts k" "notification_delivery_max_attempts k \<le> 10"
proof -
  obtain x where "notification_delivery_max_attempts k = unwrap_or (opt_filter (\<lambda>v. 1 \<le> v \<and> v \<le> 10) x) 3"
    unfolding notification_delivery_max_attempts_def by blast
  then show "1 \<le> notification_delivery_max_attempts k" "notification_delivery_max_attempts k \<le> 10"
    by (cases x; simp)+
qed

definition webhook_budget :: "(string \<rightharpoonup> notification_sink) \<Rightarrow> outbox_event \<Rightarrow> bool" where
  "webhook_budget sinks e \<longleftrightarrow>
     (case event_sink sinks e of
        None \<Rightarrow> True
      | Some k \<Rightarrow> sink_kind k = ''webhook'' \<longrightarrow>
          ob_attempt_count e \<le> notification_delivery_max_attempts k \<and>
          (event_open e \<longrightarrow> ob_attempt_count e < notification_delivery_max_attempts k))"

lemma i32_succ_small: "n < 10 \<Longrightarrow> i32_succ n = n + 1"
  by (simp add: i32_succ_def)

text \<open>What an attempt leaves open: only a webhook that failed retryably within its budget.\<close>

lemma status_from_result_open:
  assumes "fst (notification_delivery_status_from_result e k kind now) = ''retryable_failed''"
  shows "i32_succ (ob_attempt_count e) < notification_delivery_max_attempts k \<and>
    snd (snd (notification_delivery_status_from_result e k kind now)) = Some (now + delivery_retry_delay)"
  using assms by (cases kind) (auto simp: notification_delivery_status_from_result_def split: if_splits)

lemma plan_statuses_open:
  "st \<in> plan_statuses \<Longrightarrow> event_open (after_attempt st nx now e) \<Longrightarrow> st = ''retryable_failed''"
  unfolding plan_statuses_def
  by (elim insertE emptyE) (simp_all add: after_attempt_def outbox_status_of_attempt_def)

lemma attempt_webhook_open:
  assumes "event_sink sinks e = Some k" and "sink_kind k = ''webhook''"
    and "delivery_plan_for api env sv (event_sink sinks e) e now tr cl = Inr plan"
    and "dp_status plan = ''retryable_failed''"
  shows "i32_succ (ob_attempt_count e) < notification_delivery_max_attempts k \<and>
    dp_next_attempt_at plan = Some (now + delivery_retry_delay)"
proof -
  have act: "sink_status k = ResActive"
    using assms by (auto simp: delivery_plan_for_def plan_failure_def split: if_splits)
  then have "webhook_delivery_plan api env sv k e now tr cl = Inr plan"
    using assms by (simp add: delivery_plan_for_def)
  from webhook_plan_outcome [OF this] assms(4) show ?thesis by (metis status_from_result_open)
qed

lemma attempt_budget:
  assumes "webhook_budget sinks e" and "event_open e"
  shows "webhook_budget sinks (attempt_event api env sv sinks now tr e)"
proof (cases "delivery_plan_for api env sv (event_sink sinks e) e now tr (tr = HttpTransport)")
  case (Inl error)
  with assms show ?thesis by (simp add: attempt_event_def)
next
  case (Inr plan)
  let ?e = "after_attempt (dp_status plan) (dp_next_attempt_at plan) now e"
  have ev: "attempt_event api env sv sinks now tr e = ?e" using Inr by (simp add: attempt_event_def)
  have "ob_attempt_count ?e \<le> notification_delivery_max_attempts k \<and>
      (event_open ?e \<longrightarrow> ob_attempt_count ?e < notification_delivery_max_attempts k)"
    if k: "event_sink sinks e = Some k" "sink_kind k = ''webhook''" for k
  proof -
    have "ob_attempt_count e < notification_delivery_max_attempts k"
      using assms k by (simp add: webhook_budget_def)
    moreover have "i32_succ (ob_attempt_count e) < notification_delivery_max_attempts k" if "event_open ?e"
      using attempt_webhook_open [OF k Inr] plan_statuses_open [OF plan_status_cases [OF Inr] that] by simp
    ultimately show ?thesis by (simp add: i32_succ_def)
  qed
  then show ?thesis unfolding ev by (auto simp: webhook_budget_def split: option.splits)
qed

lemma delivery_step_budget:
  assumes "delivery_step s s'" and "outbox_inv s" and "\<forall>e \<in> set (ns_outbox s). webhook_budget (ns_sinks s) e"
  shows "ns_sinks s' = ns_sinks s \<and> (\<forall>e \<in> set (ns_outbox s'). webhook_budget (ns_sinks s) e)"
  using assms(1)
proof (cases rule: delivery_step.cases)
  case (append i r now)
  have "webhook_budget (ns_sinks s) (new_outbox_event i r now)"
    using max_attempts_bounds by (auto simp: webhook_budget_def new_outbox_event_def split: option.splits
        intro: order.strict_trans2 [OF zero_less_one] order.trans [OF zero_le_one])
  moreover have "ns_sinks s' = ns_sinks s"
    using append by (simp add: append_notification_outbox_event_def Let_def split: option.splits)
  ultimately show ?thesis using append assms(3) by (simp add: append_outbox [OF assms(2)])
next
  case (deliver api env sv new_id t now limit tr)
  have d: "distinct (map ob_id (ns_outbox s))" using assms(2) by (simp add: outbox_inv_def)
  show ?thesis
    using assms(3) deliver
    by (auto simp: delivery_round [OF d] dest!: due_eventD simp: outbox_event_due_def attempt_budget)
next
  case (replay i now)
  have "ns_sinks s' = ns_sinks s"
    using replay by (simp add: replay_dead_lettered_notification_outbox_event_def put_outbox_event_def
        Let_def split: option.splits)
  moreover have "webhook_budget (ns_sinks s) (e\<lparr>ob_status := ''pending'', ob_attempt_count := 0,
      ob_next_attempt_at := Some now, ob_updated_at := now\<rparr>)" for e
    using max_attempts_bounds by (auto simp: webhook_budget_def split: option.splits
        intro: order.strict_trans2 [OF zero_less_one] order.trans [OF zero_le_one])
  ultimately show ?thesis using replay assms(3) by (auto simp: replay_outbox [OF assms(2)])
qed

lemma delivery_run_budget:
  assumes "delivery_step\<^sup>*\<^sup>* s s'" and "outbox_inv s" and "\<forall>e \<in> set (ns_outbox s). webhook_budget (ns_sinks s) e"
  shows "outbox_inv s' \<and> ns_sinks s' = ns_sinks s \<and> (\<forall>e \<in> set (ns_outbox s'). webhook_budget (ns_sinks s) e)"
  using assms(1)
proof (induction rule: rtranclp_induct)
  case base
  with assms(2,3) show ?case by simp
next
  case (step s1 s2)
  then have "outbox_inv s2" by (blast intro: delivery_step_inv)
  with step delivery_step_budget [OF step(2)] show ?case by auto
qed

subsection \<open>A store to instantiate with\<close>

definition demo_sink :: "string \<Rightarrow> string \<Rightarrow> notification_sink" where
  "demo_sink i kind =
     \<lparr>sink_id = i, sink_tenant_id = ''t1'', sink_organization_id = None, sink_project_id = None,
      sink_name = i, sink_kind = kind,
      sink_endpoint_config = JObject [(''url'', JString ''https://hooks.example/in'')],
      sink_signing_secret_ref_id = Some ''sec_1'', sink_status = ResActive, sink_resource_version = 1\<rparr>"

definition demo_outbox_request :: "string \<Rightarrow> string \<Rightarrow> outbox_request" where
  "demo_outbox_request sink key =
     \<lparr>or_tenant_id = ''t1'', or_organization_id = None, or_project_id = None, or_subscription_id = None,
      or_sink_id = Some sink, or_event_kind = ''gateway.budget.hard_block'', or_dedupe_key = key,
      or_payload_document = JObject [], or_next_attempt_at = None\<rparr>"

definition demo_uri :: "string \<Rightarrow> parsed_uri option" where
  "demo_uri v = Some \<lparr>pu_scheme = Some ''https'', pu_authority = Some (''hooks.example'', ''hooks.example''),
     pu_path = ''/in'', pu_query = None\<rparr>"

text \<open>Libraries with an endpoint that answers every request with the given status.\<close>

definition demo_webhook_api :: "nat \<Rightarrow> webhook_api" where
  "demo_webhook_api status =
     \<lparr>wa_parse_uri = demo_uri, wa_encode = (\<lambda>_. Inr ''{}''), wa_sha256 = (\<lambda>_. ''h''),
      wa_rfc3339 = (\<lambda>_. ''t''), wa_hmac = (\<lambda>_ _. Inr ''m''), wa_post = (\<lambda>_. Some status)\<rparr>"

definition demo_outbox :: notification_store where
  "demo_outbox =
     (let s0 = empty_notification_store\<lparr>ns_sinks := [''k1'' \<mapsto> demo_sink ''k1'' ''webhook'',
            ''k2'' \<mapsto> demo_sink ''k2'' ''stdout'']\<rparr>;
          s1 = snd (append_notification_outbox_event ''n1'' (demo_outbox_request ''k1'' ''a'') 0 s0) in
      snd (append_notification_outbox_event ''n2'' (demo_outbox_request ''k2'' ''b'') 1 s1))"

definition demo_delivery :: "nat \<Rightarrow> datetime \<Rightarrow> nat \<Rightarrow> notification_store \<Rightarrow> notification_store" where
  "demo_delivery status now limit s = snd (deliver_due_notifications_with_transport
     (demo_webhook_api status) ''production'' (\<lambda>_. Some ''key'') (\<lambda>i. i) ''t1'' now limit HttpTransport s)"

lemma run_append:
  "delivery_step\<^sup>*\<^sup>* s0 s \<Longrightarrow> i \<notin> set (map ob_id (ns_outbox s)) \<Longrightarrow>
     delivery_step\<^sup>*\<^sup>* s0 (snd (append_notification_outbox_event i r now s))"
  by (erule rtranclp.rtrancl_into_rtrancl) (rule delivery_step.append)

lemma demo_delivery_step: "delivery_step s (demo_delivery status now limit s)"
  unfolding demo_delivery_def by (rule delivery_step.deliver)

lemma run_demo_delivery:
  "delivery_step\<^sup>*\<^sup>* s0 s \<Longrightarrow> delivery_step\<^sup>*\<^sup>* s0 (demo_delivery status now limit s)"
  by (erule rtranclp.rtrancl_into_rtrancl) (rule demo_delivery_step)

lemma demo_outbox_run:
  "delivery_step\<^sup>*\<^sup>* (empty_notification_store\<lparr>ns_sinks := [''k1'' \<mapsto> demo_sink ''k1'' ''webhook'',
     ''k2'' \<mapsto> demo_sink ''k2'' ''stdout'']\<rparr>) demo_outbox"
  unfolding demo_outbox_def Let_def
  by (intro run_append rtranclp.rtrancl_refl)
    (simp_all add: empty_notification_store_def append_notification_outbox_event_def new_outbox_event_def
      Let_def demo_outbox_request_def)

lemma empty_outbox_inv: "outbox_inv (empty_notification_store\<lparr>ns_sinks := sinks\<rparr>)"
  by (simp add: outbox_inv_def empty_notification_store_def)

lemma delivery_run_outbox: "delivery_step\<^sup>*\<^sup>* s s' \<Longrightarrow> outbox_step\<^sup>*\<^sup>* s s'"
  by (induction rule: rtranclp_induct) (auto intro: rtranclp.rtrancl_into_rtrancl outbox_step.delivery)

lemma demo_outbox_inv: "outbox_inv demo_outbox"
  by (rule outbox_run_inv [OF delivery_run_outbox [OF demo_outbox_run] empty_outbox_inv])

subsection \<open>Deduplication and finality\<close>

text \<open>
  In every run of the outbox, with administration of sinks at any point, there is at most one
  event for a dedupe key of a tenant, ids are unique, and every event is open (pending or to be
  retried) or closed without a schedule: no event is lost in between.
\<close>

theorem outbox_deduplicated:
  assumes "outbox_step\<^sup>*\<^sup>* (empty_notification_store\<lparr>ns_sinks := sinks\<rparr>) s"
  shows "(\<forall>e \<in> set (ns_outbox s). \<forall>e' \<in> set (ns_outbox s).
      ob_tenant_id e = ob_tenant_id e' \<and> ob_dedupe_key e = ob_dedupe_key e' \<or> ob_id e = ob_id e' \<longrightarrow> e = e') \<and>
    (\<forall>e \<in> set (ns_outbox s). 0 \<le> ob_attempt_count e \<and>
      (ob_status e \<in> {''pending'', ''retryable_failed''} \<or>
       ob_status e \<in> {''delivered'', ''permanent_failed'', ''dead_lettered''} \<and> ob_next_attempt_at e = None))"
proof -
  from assms have "outbox_inv s" using empty_outbox_inv by (rule outbox_run_inv)
  then show ?thesis
    by (auto simp: outbox_inv_def outbox_event_wf_def distinct_map inj_on_def)
qed

theorem outbox_deduplicated_witness:
  "inj_on ob_id (set (ns_outbox demo_outbox)) \<and> length (ns_outbox demo_outbox) = 2"
proof
  show "inj_on ob_id (set (ns_outbox demo_outbox))"
    using outbox_deduplicated [OF delivery_run_outbox [OF demo_outbox_run]] by (blast intro: inj_onI)
  show "length (ns_outbox demo_outbox) = 2" by code_simp
qed

text \<open>
  Delivery is final: an event that was delivered, or that failed permanently, is still in the
  outbox, unchanged, after any later run of appends, delivery rounds, replays and administration;
  in particular it is never attempted again and cannot be replayed.
\<close>

theorem closed_event_final:
  assumes "outbox_step\<^sup>*\<^sup>* s s'" and "outbox_inv s" and "e \<in> set (ns_outbox s)"
    and "ob_status e \<in> {''delivered'', ''permanent_failed''}"
  shows "e \<in> set (ns_outbox s') \<and> \<not> outbox_event_due t now e \<and>
    fst (replay_dead_lettered_notification_outbox_event (ob_id e) now s') =
      Inl (BadRequest ''notification_replay_requires_dead_lettered_event'')"
proof -
  have "outbox_inv s' \<and> e \<in> set (ns_outbox s')" using assms
    by (induction rule: rtranclp_induct) (auto dest: outbox_step_inv closed_event_step)
  then have "e \<in> set (ns_outbox s')" "outbox_event_by_id s' (ob_id e) = Some e"
    by (auto simp: outbox_inv_def outbox_event_by_id_mem)
  moreover have "\<not> outbox_event_due t now e" using assms(4) by (auto simp: outbox_event_due_def)
  ultimately show ?thesis using assms(4)
    by (auto simp: replay_dead_lettered_notification_outbox_event_def)
qed

theorem closed_event_final_witness:
  "let s1 = demo_delivery 204 5 10 demo_outbox; s2 = demo_delivery 500 9 10 s1 in
   map ob_status (ns_outbox s1) = [''delivered'', ''delivered''] \<and> set (ns_outbox s1) \<subseteq> set (ns_outbox s2)"
proof -
  define s1 where "s1 = demo_delivery 204 5 10 demo_outbox"
  have st: "map ob_status (ns_outbox s1) = [''delivered'', ''delivered'']" unfolding s1_def by code_simp
  have inv: "outbox_inv s1"
    unfolding s1_def by (rule delivery_step_inv [OF demo_delivery_step demo_outbox_inv])
  have run: "outbox_step\<^sup>*\<^sup>* s1 (demo_delivery 500 9 10 s1)"
    by (intro r_into_rtranclp outbox_step.delivery demo_delivery_step)
  have "ob_status e \<in> {''delivered'', ''permanent_failed''}" if "e \<in> set (ns_outbox s1)" for e
    using that arg_cong [OF st, of set] by auto
  then have "set (ns_outbox s1) \<subseteq> set (ns_outbox (demo_delivery 500 9 10 s1))"
    using closed_event_final [OF run inv] by blast
  with st show ?thesis by (simp add: Let_def s1_def)
qed

text \<open>
  The retry budget of a webhook is respected in every run of appends, delivery rounds and
  replays under a fixed administration: between replays an event of a webhook sink is attempted at
  most \<open>max_attempts\<close> times (between one and ten), and an event that has used its budget is not
  due at any time.
\<close>

theorem webhook_attempts_bounded:
  assumes "delivery_step\<^sup>*\<^sup>* (empty_notification_store\<lparr>ns_sinks := sinks\<rparr>) s"
    and "e \<in> set (ns_outbox s)" and "ob_sink_id e = Some i" and "sinks i = Some k"
    and "sink_kind k = ''webhook''"
  shows "ob_attempt_count e \<le> notification_delivery_max_attempts k \<and>
    notification_delivery_max_attempts k \<le> 10 \<and>
    (ob_attempt_count e = notification_delivery_max_attempts k \<longrightarrow> \<not> outbox_event_due t now e)"
proof -
  have "\<forall>e \<in> set (ns_outbox s). webhook_budget sinks e"
    using delivery_run_budget [OF assms(1) empty_outbox_inv]
    by (simp add: empty_notification_store_def)
  with assms(2) have "webhook_budget sinks e" by blast
  with assms(3-5) show ?thesis
    by (auto simp: webhook_budget_def outbox_event_due_def max_attempts_bounds)
qed

theorem webhook_attempts_bounded_witness:
  "let e = hd (ns_outbox (demo_delivery 500 (3 * delivery_retry_delay) 10
       (demo_delivery 500 (2 * delivery_retry_delay) 10 (demo_delivery 500 delivery_retry_delay 10 demo_outbox)))) in
   (ob_attempt_count e, ob_status e) = (3, ''dead_lettered'') \<and> (\<forall>now. \<not> outbox_event_due ''t1'' now e)"
proof -
  let ?s = "demo_delivery 500 (3 * delivery_retry_delay) 10
       (demo_delivery 500 (2 * delivery_retry_delay) 10 (demo_delivery 500 delivery_retry_delay 10 demo_outbox))"
  have run: "delivery_step\<^sup>*\<^sup>* (empty_notification_store\<lparr>ns_sinks := [''k1'' \<mapsto> demo_sink ''k1'' ''webhook'',
     ''k2'' \<mapsto> demo_sink ''k2'' ''stdout'']\<rparr>) ?s"
    by (intro run_demo_delivery demo_outbox_run)
  have e: "(ob_attempt_count (hd (ns_outbox ?s)), ob_status (hd (ns_outbox ?s))) = (3, ''dead_lettered'')"
    by code_simp
  have ne: "ns_outbox ?s \<noteq> []" by code_simp
  have k: "ob_sink_id (hd (ns_outbox ?s)) = Some ''k1''" by code_simp
  have m: "notification_delivery_max_attempts (demo_sink ''k1'' ''webhook'') = 3" by code_simp
  have "\<forall>now. \<not> outbox_event_due ''t1'' now (hd (ns_outbox ?s))"
    using webhook_attempts_bounded [OF run hd_in_set [OF ne] k, of "demo_sink ''k1'' ''webhook''"] e m
    by (simp add: demo_sink_def)
  with e show ?thesis by (simp add: Let_def)
qed

subsection \<open>Draining\<close>

text \<open>Delivery of an event can be planned: the sink needs nothing, or has all a webhook needs.\<close>

definition sink_ready ::
  "webhook_api \<Rightarrow> string \<Rightarrow> (string \<Rightarrow> string option) \<Rightarrow> (string \<rightharpoonup> notification_sink) \<Rightarrow> outbox_event \<Rightarrow> bool" where
  "sink_ready api env sv sinks e \<longleftrightarrow>
     (case event_sink sinks e of
        None \<Rightarrow> True
      | Some k \<Rightarrow> sink_kind k \<in> {''stdout'', ''disabled''} \<or>
          sink_kind k = ''webhook'' \<and>
          (\<exists>url host secret_ref_id key body. json_get_str (sink_endpoint_config k) ''url'' = Some url \<and>
             safe_webhook_endpoint_host_for_config (wa_parse_uri api) env url = Some host \<and>
             sink_signing_secret_ref_id k = Some secret_ref_id \<and> sv secret_ref_id = Some key \<and>
             wa_encode api (ob_payload_document e) = Inr body \<and>
             (\<forall>text. \<exists>mac. wa_hmac api key text = Inr mac)))"

lemma webhook_plan_ready:
  assumes "event_sink sinks e = Some k" and "sink_kind k = ''webhook''" and "sink_ready api env sv sinks e"
  shows "\<exists>plan. webhook_delivery_plan api env sv k e now tr (tr = HttpTransport) = Inr plan"
proof -
  from assms obtain url host secret_ref_id key body where
    ready: "json_get_str (sink_endpoint_config k) ''url'' = Some url"
      "safe_webhook_endpoint_host_for_config (wa_parse_uri api) env url = Some host"
      "sink_signing_secret_ref_id k = Some secret_ref_id" "sv secret_ref_id = Some key"
      "wa_encode api (ob_payload_document e) = Inr body"
    and mac: "\<forall>text. \<exists>mac. wa_hmac api key text = Inr mac"
    by (auto simp: sink_ready_def)
  from mac obtain m where "wa_hmac api key (wa_rfc3339 api now @ ''.'' @ body) = Inr m" by blast
  then have sig: "notification_signature api key (wa_rfc3339 api now) body = Inr (''v1='' @ m)"
    by (simp add: notification_signature_def)
  show ?thesis
    by (cases tr) (simp_all add: webhook_delivery_plan_def ready sig Let_def execute_webhook_delivery_def
        prod.case_eq_if)
qed

lemma plan_ready:
  assumes "sink_ready api env sv sinks e"
  shows "\<exists>plan. delivery_plan_for api env sv (event_sink sinks e) e now tr (tr = HttpTransport) = Inr plan"
proof (cases "event_sink sinks e")
  case None
  then show ?thesis by (simp add: delivery_plan_for_def)
next
  case (Some k)
  show ?thesis
  proof (cases "sink_kind k = ''webhook''")
    case True
    with webhook_plan_ready [OF Some True assms] Some show ?thesis by (simp add: delivery_plan_for_def)
  next
    case False
    with Some assms show ?thesis by (auto simp: delivery_plan_for_def sink_ready_def)
  qed
qed

lemma attempt_ready:
  assumes "sink_ready api env sv sinks e" and "webhook_budget sinks e" and "event_open e"
    and "event_open (attempt_event api env sv sinks now tr e)"
  shows "\<exists>k. event_sink sinks e = Some k \<and> sink_kind k = ''webhook'' \<and>
     ob_attempt_count (attempt_event api env sv sinks now tr e) = ob_attempt_count e + 1 \<and>
     ob_next_attempt_at (attempt_event api env sv sinks now tr e) = Some (now + delivery_retry_delay)"
proof -
  obtain plan where plan: "delivery_plan_for api env sv (event_sink sinks e) e now tr (tr = HttpTransport) = Inr plan"
    using plan_ready [OF assms(1)] by blast
  have ev: "attempt_event api env sv sinks now tr e =
      after_attempt (dp_status plan) (dp_next_attempt_at plan) now e"
    using plan by (simp add: attempt_event_def)
  have st: "dp_status plan = ''retryable_failed''"
    using plan_statuses_open [OF plan_status_cases [OF plan]] assms(4) ev by simp
  have "\<exists>k. event_sink sinks e = Some k \<and> sink_kind k = ''webhook''"
    using assms(1) plan st
    by (cases "event_sink sinks e")
      (auto simp: sink_ready_def delivery_plan_for_def plan_failure_def plan_success_def split: if_splits)
  then obtain k where k: "event_sink sinks e = Some k" "sink_kind k = ''webhook''" by blast
  have "ob_attempt_count e < 10"
    using assms(2,3) k max_attempts_bounds(2) [of k] by (simp add: webhook_budget_def)
  then show ?thesis
    using k attempt_webhook_open [OF k plan st] st by (simp add: ev i32_succ_small after_attempt_def)
qed

fun delivery_rounds ::
  "webhook_api \<Rightarrow> string \<Rightarrow> (string \<Rightarrow> string option) \<Rightarrow> (string \<Rightarrow> string) \<Rightarrow> string \<Rightarrow> nat \<Rightarrow>
   delivery_transport \<Rightarrow> datetime list \<Rightarrow> notification_store \<Rightarrow> notification_store" where
  "delivery_rounds api env sv new_id t limit tr [] s = s"
| "delivery_rounds api env sv new_id t limit tr (now # nows) s =
     delivery_rounds api env sv new_id t limit tr nows
       (snd (deliver_due_notifications_with_transport api env sv new_id t now limit tr s))"

text \<open>Attempts an open event may still need.\<close>

definition attempts_left :: "(string \<rightharpoonup> notification_sink) \<Rightarrow> outbox_event \<Rightarrow> int" where
  "attempts_left sinks e =
     (case event_sink sinks e of
        None \<Rightarrow> 1
      | Some k \<Rightarrow> if sink_kind k = ''webhook''
          then notification_delivery_max_attempts k - ob_attempt_count e else 1)"

definition round_ready ::
  "webhook_api \<Rightarrow> string \<Rightarrow> (string \<Rightarrow> string option) \<Rightarrow> string \<Rightarrow> datetime \<Rightarrow> int \<Rightarrow> notification_store \<Rightarrow> bool" where
  "round_ready api env sv t now n s \<longleftrightarrow> outbox_inv s \<and>
     (\<forall>e \<in> set (ns_outbox s). webhook_budget (ns_sinks s) e \<and> sink_ready api env sv (ns_sinks s) e \<and>
        (ob_tenant_id e = t \<and> event_open e \<longrightarrow> is_none_or (ob_next_attempt_at e) (\<lambda>u. u \<le> now) \<and>
           attempts_left (ns_sinks s) e \<le> n))"

lemma all_due_selected:
  assumes "length (ns_outbox s) \<le> limit"
  shows "set (due_notification_outbox_events s t now limit) = {e \<in> set (ns_outbox s). outbox_event_due t now e}"
proof -
  have "length (filter (outbox_event_due t now) (ns_outbox s)) \<le> limit"
    using assms length_filter_le order.trans by blast
  then show ?thesis by (auto simp: due_notification_outbox_events_def)
qed

lemma attempt_event_payload [simp]:
  "ob_payload_document (attempt_event api env sv sinks now tr e) = ob_payload_document e"
  by (simp add: attempt_event_def after_attempt_def split: sum.splits)

lemma sink_ready_attempt:
  "sink_ready api env sv sinks e \<Longrightarrow> sink_ready api env sv sinks (attempt_event api env sv sinks now tr e)"
  by (simp add: sink_ready_def split: option.splits)

lemma round_ready_zero:
  assumes "round_ready api env sv t now 0 s" and "e \<in> set (ns_outbox s)" and "ob_tenant_id e = t"
  shows "\<not> event_open e"
proof
  assume "event_open e"
  with assms have "webhook_budget (ns_sinks s) e" "attempts_left (ns_sinks s) e \<le> 0"
    by (auto simp: round_ready_def)
  with \<open>event_open e\<close> show False
    by (simp add: attempts_left_def webhook_budget_def split: option.splits if_splits)
qed

lemma round_ready_step:
  assumes "round_ready api env sv t now n s" and "length (ns_outbox s) \<le> limit"
    and "now + delivery_retry_delay \<le> later"
  shows "round_ready api env sv t later (n - 1)
    (snd (deliver_due_notifications_with_transport api env sv new_id t now limit tr s))" (is "round_ready _ _ _ _ _ _ ?s'")
proof -
  let ?A = "attempt_event api env sv (ns_sinks s) now tr"
  have inv: "outbox_inv s" using assms(1) by (simp add: round_ready_def)
  then have d: "distinct (map ob_id (ns_outbox s))" by (simp add: outbox_inv_def)
  have out: "ns_outbox ?s' = map (\<lambda>x. if outbox_event_due t now x then ?A x else x) (ns_outbox s)"
    by (simp add: delivery_round [OF d] all_due_selected [OF assms(2)] cong: map_cong)
  have sinks: "ns_sinks ?s' = ns_sinks s" by (simp add: delivery_round [OF d])
  have inv': "outbox_inv ?s'" by (rule delivery_step_inv [OF delivery_step.deliver inv])
  have ev: "webhook_budget (ns_sinks s) e' \<and> sink_ready api env sv (ns_sinks s) e' \<and>
      (ob_tenant_id e' = t \<and> event_open e' \<longrightarrow> is_none_or (ob_next_attempt_at e') (\<lambda>u. u \<le> later) \<and>
         attempts_left (ns_sinks s) e' \<le> n - 1)"
    if e: "e \<in> set (ns_outbox s)" and e': "e' = (if outbox_event_due t now e then ?A e else e)" for e e'
  proof (cases "outbox_event_due t now e")
    case False
    with e e' assms(1) show ?thesis by (auto simp: round_ready_def outbox_event_due_def)
  next
    case True
    then have op: "ob_tenant_id e = t" "event_open e" by (auto simp: outbox_event_due_def)
    from e assms(1) have r: "webhook_budget (ns_sinks s) e" "sink_ready api env sv (ns_sinks s) e"
        "attempts_left (ns_sinks s) e \<le> n"
      using op by (auto simp: round_ready_def)
    have "is_none_or (ob_next_attempt_at (?A e)) (\<lambda>u. u \<le> later) \<and> attempts_left (ns_sinks s) (?A e) \<le> n - 1"
      if "event_open (?A e)"
      using attempt_ready [OF r(2,1) op(2) that] r(3) assms(3) by (auto simp: attempts_left_def)
    moreover have "sink_ready api env sv (ns_sinks s) (?A e)" using r(2) by (rule sink_ready_attempt)
    ultimately show ?thesis using e' True attempt_budget [OF r(1) op(2)] by simp
  qed
  have "\<exists>e \<in> set (ns_outbox s). e' = (if outbox_event_due t now e then ?A e else e)"
    if "e' \<in> set (ns_outbox ?s')" for e'
    using that unfolding out set_map by blast
  then show ?thesis unfolding round_ready_def sinks using inv' ev by blast
qed

lemma rounds_drain:
  assumes "round_ready api env sv t (hd (nows @ [0])) (int (length nows)) s" and "length (ns_outbox s) \<le> limit"
    and "successively (\<lambda>now later. now + delivery_retry_delay \<le> later) nows"
  shows "\<forall>e \<in> set (ns_outbox (delivery_rounds api env sv new_id t limit tr nows s)).
    ob_tenant_id e = t \<longrightarrow> \<not> event_open e"
  using assms
proof (induction nows arbitrary: s)
  case Nil
  then show ?case using round_ready_zero by auto
next
  case (Cons now nows)
  let ?s' = "snd (deliver_due_notifications_with_transport api env sv new_id t now limit tr s)"
  have d: "distinct (map ob_id (ns_outbox s))" using Cons.prems(1) by (simp add: round_ready_def outbox_inv_def)
  have len: "length (ns_outbox ?s') \<le> limit" using Cons.prems(2) by (simp add: delivery_round [OF d])
  have r: "round_ready api env sv t later (int (length nows)) ?s'"
    if "now + delivery_retry_delay \<le> later" for later
    using round_ready_step [OF _ Cons.prems(2) that, of api env sv t "int (length (now # nows))"]
      Cons.prems(1) by simp
  show ?case
  proof (cases nows)
    case Nil
    from r have "round_ready api env sv t (max 0 (now + delivery_retry_delay)) 0 ?s'" by (simp add: Nil)
    then have "\<forall>e \<in> set (ns_outbox ?s'). ob_tenant_id e = t \<longrightarrow> \<not> event_open e"
      using round_ready_zero by blast
    then show ?thesis by (simp add: Nil)
  next
    case (Cons later rest)
    with \<open>successively _ (now # nows)\<close> r [of later] Cons.IH [of ?s'] len show ?thesis
      by (simp add: Cons)
  qed
qed

text \<open>
  C30. A healthy outbox drains whatever the endpoints answer: if delivery of every event can be
  planned and the batch limit covers the outbox, then ten rounds at least one retry delay apart
  leave no open event of the tenant. Each event is delivered, failed permanently or dead-lettered.
\<close>

theorem outbox_drains:
  assumes "delivery_step\<^sup>*\<^sup>* (empty_notification_store\<lparr>ns_sinks := sinks\<rparr>) s"
    and "\<forall>e \<in> set (ns_outbox s). sink_ready api env sv sinks e \<and>
      (ob_tenant_id e = t \<longrightarrow> is_none_or (ob_next_attempt_at e) (\<lambda>u. u \<le> hd nows))"
    and "length nows = 10" and "successively (\<lambda>now later. now + delivery_retry_delay \<le> later) nows"
    and "length (ns_outbox s) \<le> limit"
  shows "\<forall>e \<in> set (ns_outbox (delivery_rounds api env sv new_id t limit tr nows s)).
    ob_tenant_id e = t \<longrightarrow> ob_status e \<in> {''delivered'', ''permanent_failed'', ''dead_lettered''}"
proof -
  have run: "outbox_inv s" "ns_sinks s = sinks" "\<forall>e \<in> set (ns_outbox s). webhook_budget sinks e"
    using delivery_run_budget [OF assms(1) empty_outbox_inv] by (simp_all add: empty_notification_store_def)
  have "attempts_left sinks e \<le> 10" if "e \<in> set (ns_outbox s)" for e
  proof -
    have "0 \<le> ob_attempt_count e" using run(1) that by (auto simp: outbox_inv_def outbox_event_wf_def)
    moreover have "notification_delivery_max_attempts k - ob_attempt_count e \<le> 10" for k
      using max_attempts_bounds(2) [of k] calculation by linarith
    ultimately show ?thesis by (simp add: attempts_left_def split: option.splits)
  qed
  then have "round_ready api env sv t (hd (nows @ [0])) (int (length nows)) s"
    using assms(2,3) run by (cases nows) (auto simp: round_ready_def)
  then have closed: "\<forall>e \<in> set (ns_outbox (delivery_rounds api env sv new_id t limit tr nows s)).
      ob_tenant_id e = t \<longrightarrow> \<not> event_open e"
    by (rule rounds_drain [OF _ assms(5,4)])
  have "delivery_step\<^sup>*\<^sup>* s (delivery_rounds api env sv new_id t limit tr nows s)" for s
    by (induction nows arbitrary: s)
      (auto intro: converse_rtranclp_into_rtranclp delivery_step.deliver)
  then have "outbox_inv (delivery_rounds api env sv new_id t limit tr nows s)"
    using outbox_run_inv [OF delivery_run_outbox] run(1) by blast
  with closed show ?thesis by (auto simp: outbox_inv_def outbox_event_wf_def)
qed

definition minute_rounds :: "datetime list" where
  "minute_rounds = map (\<lambda>i. int i * delivery_retry_delay) [1..<11]"

theorem outbox_drains_witness:
  "filter (\<lambda>e. ob_tenant_id e = ''t1'' \<and> ob_status e \<notin> {''delivered'', ''permanent_failed'', ''dead_lettered''})
     (ns_outbox (delivery_rounds (demo_webhook_api 500) ''production'' (\<lambda>_. Some ''key'') (\<lambda>i. i) ''t1''
        10 HttpTransport minute_rounds demo_outbox)) = []"
  unfolding filter_empty_conv de_Morgan_conj not_not imp_conv_disj [symmetric]
proof (rule outbox_drains [OF demo_outbox_run])
  have host: "safe_webhook_endpoint_host_for_config demo_uri ''production'' url = Some ''hooks.example''" for url
    by (simp add: safe_webhook_endpoint_host_for_config_def safe_webhook_endpoint_host_with_policy_def demo_uri_def)
  show "\<forall>e \<in> set (ns_outbox demo_outbox). sink_ready (demo_webhook_api 500) ''production'' (\<lambda>_. Some ''key'')
      [''k1'' \<mapsto> demo_sink ''k1'' ''webhook'', ''k2'' \<mapsto> demo_sink ''k2'' ''stdout''] e \<and>
      (ob_tenant_id e = ''t1'' \<longrightarrow> is_none_or (ob_next_attempt_at e) (\<lambda>u. u \<le> hd minute_rounds))"
    by (simp add: demo_outbox_def empty_notification_store_def append_notification_outbox_event_def
        new_outbox_event_def demo_outbox_request_def Let_def sink_ready_def demo_sink_def host
        demo_webhook_api_def json_get_str_def)
  show "length minute_rounds = 10" by (simp add: minute_rounds_def)
  show "successively (\<lambda>now later. now + delivery_retry_delay \<le> later) minute_rounds" by code_simp
  show "length (ns_outbox demo_outbox) \<le> 10" by code_simp
qed

subsection \<open>Events that cannot be planned\<close>

text \<open>
  C37. An event whose delivery cannot be planned (a webhook sink whose signing secret is no longer
  readable, say) is not recorded as attempted: it keeps its place. When the oldest due events up
  to the batch limit are all of this kind, a delivery round does nothing at all, however many
  deliverable events wait behind them.
\<close>

theorem unplannable_head_blocks:
  assumes "\<forall>e \<in> set (due_notification_outbox_events s t now limit). \<exists>error.
    delivery_plan_for api env sv (event_sink (ns_sinks s) e) e now tr (tr = HttpTransport) = Inl error"
  shows "deliver_due_notifications_with_transport api env sv new_id t now limit tr s = ([], s)"
proof -
  have "deliver_all (\<lambda>e. deliver_notification_outbox_event api env sv (new_id (ob_id e)) e now tr
      (tr = HttpTransport)) es s = ([], s)"
    if "\<forall>e \<in> set es. \<exists>error.
      delivery_plan_for api env sv (event_sink (ns_sinks s) e) e now tr (tr = HttpTransport) = Inl error" for es
    using that by (induction es) (auto simp: deliver_notification_outbox_event_def)
  with assms show ?thesis by (simp add: deliver_due_notifications_with_transport_def)
qed

text \<open>
  In \<open>demo_outbox\<close> without a readable secret, a worker with batch limit one never reaches the second
  event, which a standard output sink could take at once.
\<close>

theorem unplannable_head_blocks_witness:
  "\<forall>now. deliver_due_notifications_with_transport (demo_webhook_api 204) ''production'' (\<lambda>_. None) (\<lambda>i. i)
     ''t1'' now 1 HttpTransport demo_outbox = ([], demo_outbox)"
proof
  fix now
  have head: "due_notification_outbox_events demo_outbox ''t1'' now 1 = [hd (ns_outbox demo_outbox)]"
    by (simp add: due_notification_outbox_events_def demo_outbox_def empty_notification_store_def
        append_notification_outbox_event_def new_outbox_event_def demo_outbox_request_def Let_def
        outbox_event_due_def less_prod_def)
  have sink: "event_sink (ns_sinks demo_outbox) (hd (ns_outbox demo_outbox)) = Some (demo_sink ''k1'' ''webhook'')"
    by (simp add: demo_outbox_def empty_notification_store_def append_notification_outbox_event_def
        new_outbox_event_def demo_outbox_request_def Let_def)
  have "delivery_plan_for (demo_webhook_api 204) ''production'' (\<lambda>_. None) (Some (demo_sink ''k1'' ''webhook''))
      (hd (ns_outbox demo_outbox)) now HttpTransport True =
      Inl (BadRequest ''notification_sink_signing_secret_missing'')"
    by (simp add: delivery_plan_for_def demo_sink_def webhook_delivery_plan_def demo_webhook_api_def
        json_get_str_def safe_webhook_endpoint_host_for_config_def
        safe_webhook_endpoint_host_with_policy_def demo_uri_def)
  then show "deliver_due_notifications_with_transport (demo_webhook_api 204) ''production'' (\<lambda>_. None) (\<lambda>i. i)
     ''t1'' now 1 HttpTransport demo_outbox = ([], demo_outbox)"
    by (intro unplannable_head_blocks) (simp only: head, simp add: sink)
qed

text \<open>
  An attempt recorded with an unknown status is refused, but the attempt count has already been
  raised: the refused request uses up retry budget.
\<close>

lemma refused_attempt_still_counted:
  assumes "outbox_event_by_id s i = Some e" and "outbox_status_of_attempt (ar_status r) = None"
    and "ar_outbox_event_id r = i"
  shows "record_notification_delivery_attempt new_id r now s =
    (Inl (BadRequest ''notification_delivery_attempt_status_invalid''),
     put_outbox_event (e\<lparr>ob_attempt_count := i32_succ (ob_attempt_count e)\<rparr>) s)"
  using assms by (simp add: record_notification_delivery_attempt_def Let_def)

end
