(* ===== verification/Gateway_Pricing.thy ===== *)
theory Gateway_Pricing
  imports Gateway_Usage "HOL-Library.Signed_Division"
begin

text \<open>
  Pricing of a terminal usage event (\<open>service.rs\<close> of \<open>crates/starweaver-gateway/src\<close>, from
  \<open>unpriced_cost_payload\<close> to \<open>fixed_per_million_cost\<close>; \<open>PricingSkuRecord\<close> of \<open>domain.rs\<close>): the choice of
  a pricing SKU, the match of its patterns, and the fixed-point cost of a usage payload. The hash
  map of SKUs is the list \<open>skus\<close>.
\<close>

subsection \<open>SKUs and their choice\<close>

record pricing_sku =
  sku_pricing_sku_id :: string
  sku_tenant_id :: string
  sku_organization_id :: "string option"
  sku_name :: string
  sku_currency :: string
  sku_unit :: string
  sku_model_id_patterns :: "string list"
  sku_provider_endpoint_patterns :: "string list"
  sku_pricing_document :: json
  sku_pricing_version :: i64
  sku_effective_from :: datetime
  sku_effective_until :: "datetime option"
  sku_is_preset :: bool
  sku_status :: resource_status
  sku_resource_version :: i64
  sku_schema_version :: nat
  sku_created_by :: string
  sku_created_at :: datetime
  sku_updated_at :: datetime

definition pricing_skus_for_tenant :: "pricing_sku list \<Rightarrow> string \<Rightarrow> pricing_sku list" where
  "pricing_skus_for_tenant skus tenant_id =
     sort_key (\<lambda>s. (sku_name s, sku_pricing_sku_id s)) (filter (\<lambda>s. sku_tenant_id s = tenant_id) skus)"

definition pricing_sku_by_id :: "pricing_sku list \<Rightarrow> string \<Rightarrow> pricing_sku option" where
  "pricing_sku_by_id skus i = find (\<lambda>s. sku_pricing_sku_id s = i) skus"

definition runtime_pricing_sku_is_available ::
  "pricing_sku \<Rightarrow> authenticated_actor \<Rightarrow> datetime \<Rightarrow> bool" where
  "runtime_pricing_sku_is_available sku actor now \<longleftrightarrow>
     sku_tenant_id sku = actor_tenant_id actor \<and> sku_status sku = ResActive \<and>
     is_none_or (sku_organization_id sku) (\<lambda>organization_id.
       Some organization_id = actor_organization_id actor) \<and>
     sku_effective_from sku \<le> now \<and> is_none_or (sku_effective_until sku) (\<lambda>until. until > now)"

definition pricing_sku_specificity :: "pricing_sku \<Rightarrow> nat" where
  "pricing_sku_specificity sku =
     sum_list (map (\<lambda>pattern. char_count (filter (\<lambda>c. c \<noteq> CHR ''*'') pattern))
       (sku_model_id_patterns sku @ sku_provider_endpoint_patterns sku))"

definition pricing_pattern_matches :: "string \<Rightarrow> string \<Rightarrow> bool" where
  "pricing_pattern_matches pattern v =
     (if pattern = ''*'' \<or> pattern = v then True
      else case position (\<lambda>c. c = CHR ''*'') pattern of
        None \<Rightarrow> False
      | Some star_index \<Rightarrow>
          starts_with v (take star_index pattern) \<and> ends_with v (drop (star_index + 1) pattern))"

definition pricing_patterns_match :: "string list \<Rightarrow> string \<Rightarrow> bool" where
  "pricing_patterns_match patterns v = list_ex (\<lambda>pattern. pricing_pattern_matches (trim pattern) v) patterns"

definition pricing_sku_matches :: "pricing_sku \<Rightarrow> string \<Rightarrow> string \<Rightarrow> bool" where
  "pricing_sku_matches sku upstream_model_id provider_endpoint_id \<longleftrightarrow>
     pricing_patterns_match (sku_model_id_patterns sku) upstream_model_id \<and>
     (sku_provider_endpoint_patterns sku = [] \<or>
      pricing_patterns_match (sku_provider_endpoint_patterns sku) provider_endpoint_id)"

definition resolve_runtime_pricing_sku ::
  "pricing_sku list \<Rightarrow> authenticated_actor \<Rightarrow> string \<Rightarrow> string \<Rightarrow> string option \<Rightarrow> datetime \<Rightarrow>
   pricing_sku option" where
  "resolve_runtime_pricing_sku skus actor upstream_model_id provider_endpoint_id explicit now =
     (case explicit of
        Some pricing_sku_id \<Rightarrow>
          opt_filter (\<lambda>sku. runtime_pricing_sku_is_available sku actor now)
            (pricing_sku_by_id skus pricing_sku_id)
      | None \<Rightarrow>
          first_min (\<lambda>sku. (- int (pricing_sku_specificity sku), sku_name sku, sku_pricing_sku_id sku))
            (filter (\<lambda>sku. runtime_pricing_sku_is_available sku actor now \<and>
                pricing_sku_matches sku upstream_model_id provider_endpoint_id)
              (pricing_skus_for_tenant skus (actor_tenant_id actor))))"

subsection \<open>Costs\<close>

text \<open>\<open>i128::saturating_mul\<close>; the division of the source truncates toward zero.\<close>

definition i128_saturating_mul :: "int \<Rightarrow> int \<Rightarrow> int" where
  "i128_saturating_mul a b = max (- (2 ^ 127)) (min (2 ^ 127 - 1) (a * b))"

definition fixed_per_million_cost :: "i64 \<Rightarrow> i64 \<Rightarrow> string \<Rightarrow> i64" where
  "fixed_per_million_cost units price_per_million rounding_mode =
     (let raw = i128_saturating_mul units price_per_million;
          divisor = 1000000;
          v = (if rounding_mode = ''floor_per_event'' then raw sdiv divisor
               else if raw = 0 then 0
               else (raw + divisor - 1) sdiv divisor) in
      if is_i64 v then v else i64_max)"

definition token_component_cost :: "json \<Rightarrow> json \<Rightarrow> string \<Rightarrow> string \<Rightarrow> string \<Rightarrow> i64" where
  "token_component_cost usage_payload token_prices usage_key price_key rounding_mode =
     (let units = max (unwrap_or (json_get_i64 usage_payload usage_key) 0) 0;
          price_per_million = max (unwrap_or (json_get_i64 token_prices price_key) 0) 0 in
      fixed_per_million_cost units price_per_million rounding_mode)"

definition unpriced_cost_payload :: json where
  "unpriced_cost_payload = JObject
     [(''currency'', JString ''USD''), (''unit'', JString ''micro_usd''), (''input_cost'', JInt 0),
      (''output_cost'', JInt 0), (''cache_read_cost'', JInt 0), (''cache_write_cost'', JInt 0),
      (''reasoning_cost'', JInt 0), (''media_cost'', JInt 0), (''request_cost'', JInt 0),
      (''total_cost'', JInt 0), (''confidence'', JString ''unpriced''), (''pricing_sku_id'', JNull),
      (''pricing_version'', JString ''unpriced''), (''rounding_mode'', JString ''none''),
      (''diagnostics'', JArray [JString ''pricing_resolution_not_connected''])]"

definition sku_rounding_mode :: "pricing_sku \<Rightarrow> string" where
  "sku_rounding_mode sku = unwrap_or (json_get_str (sku_pricing_document sku) ''rounding'') ''ceil_per_event''"

definition sku_component :: "pricing_sku \<Rightarrow> json \<Rightarrow> string \<Rightarrow> string \<Rightarrow> i64" where
  "sku_component sku usage_payload usage_key price_key =
     token_component_cost usage_payload
       (unwrap_or (json_get (sku_pricing_document sku) ''tokens'') JNull)
       usage_key price_key (sku_rounding_mode sku)"

definition cost_payload_from_pricing_sku :: "pricing_sku \<Rightarrow> json \<Rightarrow> json" where
  "cost_payload_from_pricing_sku sku usage =
     (let rounding_mode = sku_rounding_mode sku;
          input_cost = sku_component sku usage ''input_tokens'' ''input_per_million'';
          output_cost = sku_component sku usage ''output_tokens'' ''output_per_million'';
          cache_read_cost = sku_component sku usage ''cache_read_tokens'' ''cache_read_per_million'';
          cache_write_cost = saturating_add (saturating_add
            (sku_component sku usage ''cache_write_tokens'' ''cache_write_per_million'')
            (sku_component sku usage ''cache_write_5m_tokens'' ''cache_write_5m_per_million''))
            (sku_component sku usage ''cache_write_1h_tokens'' ''cache_write_1h_per_million'');
          reasoning_cost = sku_component sku usage ''reasoning_tokens'' ''reasoning_per_million'';
          media_cost = 0;
          request_cost = max (unwrap_or (json_get_i64 (sku_pricing_document sku) ''flat_request_cost'') 0) 0;
          total_cost = saturating_add (saturating_add (saturating_add (saturating_add (saturating_add
            (saturating_add input_cost output_cost) cache_read_cost) cache_write_cost) reasoning_cost)
            media_cost) request_cost in
      JObject
       [(''currency'', JString (sku_currency sku)), (''unit'', JString (sku_unit sku)),
        (''input_cost'', JInt input_cost), (''output_cost'', JInt output_cost),
        (''cache_read_cost'', JInt cache_read_cost), (''cache_write_cost'', JInt cache_write_cost),
        (''reasoning_cost'', JInt reasoning_cost), (''media_cost'', JInt media_cost),
        (''request_cost'', JInt request_cost), (''total_cost'', JInt total_cost),
        (''confidence'', JString ''estimated''),
        (''pricing_sku_id'', JString (sku_pricing_sku_id sku)),
        (''pricing_version'', JString (int_to_string (sku_pricing_version sku))),
        (''rounding_mode'', JString rounding_mode), (''diagnostics'', JArray [])])"

definition runtime_cost_payload ::
  "pricing_sku list \<Rightarrow> authenticated_actor \<Rightarrow> string \<Rightarrow> string \<Rightarrow> string option \<Rightarrow> datetime \<Rightarrow> json \<Rightarrow> json" where
  "runtime_cost_payload skus actor upstream_model_id provider_endpoint_id explicit ended_at usage =
     (case resolve_runtime_pricing_sku skus actor upstream_model_id provider_endpoint_id explicit ended_at of
        None \<Rightarrow> unpriced_cost_payload
      | Some sku \<Rightarrow> cost_payload_from_pricing_sku sku usage)"

subsection \<open>Arithmetic of costs\<close>

lemma i64_product_fits:
  assumes "0 \<le> a" "a \<le> i64_max" "0 \<le> b" "b \<le> i64_max"
  shows "i128_saturating_mul a b = a * b"
proof -
  have "a * b \<le> i64_max * i64_max" using assms by (intro mult_mono) auto
  also have "\<dots> \<le> 2 ^ 127 - 1" by (simp add: i64_simps)
  finally have "a * b \<le> 2 ^ 127 - 1" .
  moreover have "0 \<le> a * b" using assms by simp
  ultimately show ?thesis by (simp add: i128_saturating_mul_def)
qed

text \<open>The exact quotient, rounded as the mode says, capped at the largest \<open>i64\<close>.\<close>

lemma fixed_per_million_cost_eq:
  assumes "0 \<le> a" "a \<le> i64_max" "0 \<le> b" "b \<le> i64_max"
  shows "fixed_per_million_cost a b mode =
    min i64_max (if mode = ''floor_per_event'' then a * b div 1000000 else (a * b + 999999) div 1000000)"
proof -
  have nn: "0 \<le> a * b" using assms by simp
  have sd: "x sdiv (1000000 :: int) = x div 1000000" if "0 \<le> x" for x
    using that by (cases "x = 0") (simp_all add: signed_divide_int_def sgn_if)
  have q: "0 \<le> a * b div 1000000" "0 \<le> (a * b + 999999) div 1000000"
    using nn by (simp_all add: pos_imp_zdiv_nonneg_iff)
  show ?thesis
    using nn q by (auto simp: fixed_per_million_cost_def Let_def i64_product_fits [OF assms] sd
        is_i64_def min_def i64_bounds)
qed

lemma fixed_per_million_cost_bounds:
  assumes "0 \<le> a" "a \<le> i64_max" "0 \<le> b" "b \<le> i64_max"
  shows "0 \<le> fixed_per_million_cost a b mode \<and> fixed_per_million_cost a b mode \<le> i64_max"
proof -
  have "0 \<le> a * b" using assms by simp
  then show ?thesis
    by (auto simp: fixed_per_million_cost_eq [OF assms] pos_imp_zdiv_nonneg_iff i64_bounds)
qed

end
