(* ===== verification/Gateway_Terminal.thy ===== *)
theory Gateway_Terminal
  imports Gateway_Pricing Gateway_Notification Gateway_Runtime_Policy
begin

text \<open>
  The end of a runtime request (\<open>crates/starweaver-gateway/src/service.rs\<close>): the usage event, the
  counters and thresholds it moves (\<open>record_terminal_usage_event\<close> and the \<open>finalize_\<close> functions), the
  notifications of blocked requests, and the accounting of one request from its preflight to the
  release of its reservations (the second half of \<open>model_ingress\<close>).

  The JSON form of a time is the argument \<open>json_time\<close>; ids drawn by \<open>new_prefixed_id\<close> are arguments
  (an outbox id per dedupe key, a bucket id per position). The write-through to PostgreSQL is the
  argument \<open>postgres_insert\<close>: absent, or a function that may fail.
\<close>

subsection \<open>Inputs and state\<close>

record terminal_usage_input =
  ti_replay_case :: replay_request
  ti_route_decision_id :: string
  ti_selected :: selected_route_evidence
  ti_requested_model :: string
  ti_upstream_model_id :: string
  ti_pricing_sku_id :: "string option"
  ti_response_protocol_family :: protocol_family
  ti_response_body :: json
  ti_started_at :: datetime
  ti_ended_at :: datetime

text \<open>The administration that accounting reads, and the libraries and id supplies it uses.\<close>

record accounting_env =
  ae_calendar :: calendar
  ae_admin :: policy_admin
  ae_quotas :: "quota_policy list"
  ae_skus :: "pricing_sku list"
  ae_memberships :: "string \<times> string \<rightharpoonup> project_membership"
  ae_json_time :: "datetime \<Rightarrow> json"
  ae_new_bucket_id :: "nat \<Rightarrow> string"
  ae_new_outbox_id :: "string \<Rightarrow> string"
  ae_postgres_insert :: "(usage_event \<Rightarrow> unit gateway_result) option"

text \<open>The state that a request changes.\<close>

record accounting_state =
  ac_usage :: usage_store
  ac_notifications :: notification_store
  ac_policy :: policy_store

text \<open>The admin view with the live ledger.\<close>

definition ledger_admin :: "accounting_env \<Rightarrow> accounting_state \<Rightarrow> policy_admin" where
  "ledger_admin env st = (ae_admin env)\<lparr>pa_ledger_buckets := map snd (us_ledger_buckets (ac_usage st))\<rparr>"

subsection \<open>Quota counters\<close>

text \<open>\<open>Duration::num_seconds\<close> of a negative duration is never above zero, as is its floor.\<close>

definition runtime_stream_duration_seconds :: "terminal_usage_input \<Rightarrow> i64" where
  "runtime_stream_duration_seconds input = max ((ti_ended_at input - ti_started_at input) div 1000000000) 1"

definition finalize_runtime_stream_duration_quota_terminal ::
  "quota_policy list \<Rightarrow> authenticated_actor \<Rightarrow> terminal_usage_input \<Rightarrow> policy_store \<Rightarrow> policy_store" where
  "finalize_runtime_stream_duration_quota_terminal quotas actor input s =
     (if \<not> rq_streaming (ti_replay_case input) then s
      else
        let stream_seconds = runtime_stream_duration_seconds input in
        fold (\<lambda>policy s.
          if qp_status policy \<noteq> ResActive \<or> qp_counter_kind policy \<noteq> ''stream_duration'' \<or>
             qp_increment_source policy \<noteq> ''stream_start'' \<or>
             \<not> runtime_quota_policy_matches_request policy actor (ti_replay_case input) (Some (ti_selected input))
          then s
          else snd (adjust_runtime_policy_counter (runtime_quota_counter_key policy (ti_ended_at input))
            stream_seconds s))
          (quota_policies_for_tenant quotas (actor_tenant_id actor)) s)"

definition finalize_runtime_quota_terminal ::
  "quota_policy list \<Rightarrow> authenticated_actor \<Rightarrow> terminal_usage_input \<Rightarrow> json \<Rightarrow> policy_store \<Rightarrow> policy_store" where
  "finalize_runtime_quota_terminal quotas actor input usage_payload s =
     (if \<not> runtime_policy_hot_state_available s then s
      else finalize_runtime_stream_duration_quota_terminal quotas actor input
        (finalize_runtime_token_actual_quota_terminal quotas actor (ti_replay_case input)
          (ti_selected input) (ti_ended_at input) usage_payload s))"

subsection \<open>Budget thresholds\<close>

record budget_threshold =
  bt_event_kind :: string
  bt_threshold_kind :: string
  bt_reason :: string
  bt_value :: i64

definition runtime_budget_terminal_value :: "budget_policy \<Rightarrow> json \<Rightarrow> json \<Rightarrow> i64" where
  "runtime_budget_terminal_value policy usage_payload cost_payload =
     (if bp_limit_kind policy = ''requests'' then 1
      else if bp_limit_kind policy = ''tokens'' then terminal_usage_token_count usage_payload
      else if bp_limit_kind policy = ''cost'' then unwrap_or (json_get_i64 cost_payload ''total_cost'') 0
      else 0)"

definition soft_limit_threshold :: "i64 \<Rightarrow> budget_threshold" where
  "soft_limit_threshold v = \<lparr>bt_event_kind = ''gateway.budget.soft_limit_reached'',
     bt_threshold_kind = ''soft_limit'', bt_reason = ''soft_limit_reached'', bt_value = v\<rparr>"

definition hard_limit_threshold :: "i64 \<Rightarrow> budget_threshold" where
  "hard_limit_threshold v = \<lparr>bt_event_kind = ''gateway.budget.hard_limit_reached'',
     bt_threshold_kind = ''hard_limit'', bt_reason = ''hard_limit_reached'', bt_value = v\<rparr>"

definition plain_threshold :: "i64 \<Rightarrow> budget_threshold" where
  "plain_threshold v = \<lparr>bt_event_kind = ''gateway.budget.threshold_reached'',
     bt_threshold_kind = ''threshold'', bt_reason = ''threshold_reached'', bt_value = v\<rparr>"

definition runtime_budget_terminal_thresholds :: "budget_policy \<Rightarrow> budget_threshold list" where
  "runtime_budget_terminal_thresholds policy =
     remdups_adj (sort_key (\<lambda>t. (bt_value t, bt_threshold_kind t))
       ((case bp_soft_limit policy of None \<Rightarrow> [] | Some v \<Rightarrow> [soft_limit_threshold v]) @
        (case bp_hard_limit policy of None \<Rightarrow> [] | Some v \<Rightarrow> [hard_limit_threshold v]) @
        map plain_threshold (bp_thresholds policy)))"

definition threshold_dedupe_key ::
  "calendar \<Rightarrow> budget_policy \<Rightarrow> datetime \<Rightarrow> budget_threshold \<Rightarrow> string \<Rightarrow> string" where
  "threshold_dedupe_key cal policy ended_at threshold subscription_id =
     ''runtime-budget-threshold:'' @ bp_budget_policy_id policy @ '':'' @
     runtime_budget_reservation_period_key cal policy ended_at @ '':'' @ bt_threshold_kind threshold @ '':'' @
     int_to_string (bt_value threshold) @ '':'' @ subscription_id"

definition redaction_document :: json where
  "redaction_document = JObject [(''request_body_included'', JBool False),
     (''provider_body_included'', JBool False), (''secret_material_included'', JBool False)]"

definition route_document :: "selected_route_evidence option \<Rightarrow> json" where
  "route_document selected = JObject
     [(''model_alias_id'', json_opt_str (map_option sel_model_alias_id selected)),
      (''model_target_id'', json_opt_str (map_option sel_model_target_id selected)),
      (''routing_group_id'', json_opt_str (map_option sel_routing_group_id selected)),
      (''provider_endpoint_id'', json_opt_str (map_option sel_provider_endpoint_id selected)),
      (''upstream_credential_id'', json_opt_str (Option.bind selected sel_upstream_credential_id))]"

definition notification_document ::
  "(datetime \<Rightarrow> json) \<Rightarrow> string \<Rightarrow> string \<Rightarrow> string \<Rightarrow> authenticated_actor \<Rightarrow> string \<times> string \<Rightarrow>
   protocol_family \<Rightarrow> string \<Rightarrow> selected_route_evidence option \<Rightarrow> json \<Rightarrow> datetime \<Rightarrow> json" where
  "notification_document json_time schema event_type event_family actor scope family requested_model selected
     policy_document now = JObject
     [(''schema'', JString schema), (''event_type'', JString event_type),
      (''event_family'', JString event_family), (''tenant_id'', JString (actor_tenant_id actor)),
      (''organization_id'', json_opt_str (actor_organization_id actor)),
      (''project_id'', json_opt_str (actor_project_id actor)),
      (''scope'', JObject [(''kind'', JString (fst scope)), (''id'', JString (snd scope))]),
      (''request'', JObject [(''request_id'', JString (actor_request_id actor)),
        (''protocol_family'', JString (protocol_family_as_str family)),
        (''requested_model'', JString requested_model)]),
      (''actor'', JObject [(''actor_kind'', JString (actor_kind_as_str (actor_kind actor))),
        (''actor_id'', JString (actor_id actor))]),
      (''route'', route_document selected), (''policy'', policy_document),
      (''redaction'', redaction_document), (''occurred_at'', json_time now)]"

definition threshold_policy_document :: "budget_policy \<Rightarrow> budget_threshold \<Rightarrow> i64 \<Rightarrow> i64 \<Rightarrow> json" where
  "threshold_policy_document policy threshold previous current = JObject
     [(''budget_policy_id'', JString (bp_budget_policy_id policy)),
      (''limit_kind'', JString (bp_limit_kind policy)), (''period'', JString (bp_period policy)),
      (''threshold_kind'', JString (bt_threshold_kind threshold)),
      (''threshold_value'', JInt (bt_value threshold)), (''previous_value'', JInt previous),
      (''current_value'', JInt current), (''reason'', JString (bt_reason threshold))]"

definition enqueue_runtime_budget_threshold_event ::
  "accounting_env \<Rightarrow> authenticated_actor \<Rightarrow> terminal_usage_input \<Rightarrow> budget_policy \<Rightarrow> budget_threshold \<Rightarrow>
   i64 \<Rightarrow> i64 \<Rightarrow> notification_store \<Rightarrow> notification_store" where
  "enqueue_runtime_budget_threshold_event env actor input policy threshold previous current n =
     (let payload = notification_document (ae_json_time env)
            ''gateway.notification.runtime_budget_threshold.v1'' (bt_event_kind threshold) ''budget'' actor
            (bp_scope_kind policy, bp_scope_id policy) (rq_protocol_family (ti_replay_case input))
            (ti_requested_model input) (Some (ti_selected input))
            (threshold_policy_document policy threshold previous current) (ti_ended_at input);
          key_of = threshold_dedupe_key (ae_calendar env) policy (ti_ended_at input) threshold in
      enqueue_to_subscribers (\<lambda>i. ae_new_outbox_id env (key_of i)) actor ''budget'' (bt_event_kind threshold)
        (bp_scope_kind policy) (bp_scope_id policy) payload key_of (ti_ended_at input) n)"

definition finalize_budget_policy ::
  "accounting_env \<Rightarrow> authenticated_actor \<Rightarrow> terminal_usage_input \<Rightarrow> json \<Rightarrow> json \<Rightarrow> ledger_bucket list \<Rightarrow>
   budget_policy \<Rightarrow> notification_store \<Rightarrow> notification_store" where
  "finalize_budget_policy env actor input usage_payload cost_payload buckets policy n =
     (if bp_status policy \<noteq> ResActive \<or>
         \<not> runtime_budget_policy_matches_request policy actor (Some (ti_selected input)) then n
      else
        let event_value = runtime_budget_terminal_value policy usage_payload cost_payload in
        if event_value \<le> 0 then n
        else
          let current = budget_ledger_value (ae_calendar env) policy buckets (ti_ended_at input);
              previous = saturating_sub current event_value in
          fold (\<lambda>threshold n.
              if previous < bt_value threshold \<and> current \<ge> bt_value threshold
              then enqueue_runtime_budget_threshold_event env actor input policy threshold previous current n
              else n)
            (runtime_budget_terminal_thresholds policy) n)"

definition finalize_runtime_budget_terminal ::
  "accounting_env \<Rightarrow> authenticated_actor \<Rightarrow> terminal_usage_input \<Rightarrow> json \<Rightarrow> json \<Rightarrow> accounting_state \<Rightarrow>
   accounting_state" where
  "finalize_runtime_budget_terminal env actor input usage_payload cost_payload st =
     (let admin = ledger_admin env st in
      st\<lparr>ac_notifications :=
        fold (finalize_budget_policy env actor input usage_payload cost_payload
            (ledger_buckets_for_tenant admin (actor_tenant_id actor)))
          (budget_policies_for_tenant admin (actor_tenant_id actor)) (ac_notifications st)\<rparr>)"

definition finalize_runtime_policy_terminal ::
  "accounting_env \<Rightarrow> authenticated_actor \<Rightarrow> terminal_usage_input \<Rightarrow> json \<Rightarrow> json \<Rightarrow> accounting_state \<Rightarrow>
   accounting_state" where
  "finalize_runtime_policy_terminal env actor input usage_payload cost_payload st =
     finalize_runtime_budget_terminal env actor input usage_payload cost_payload
       (st\<lparr>ac_policy := finalize_runtime_quota_terminal (ae_quotas env) actor input usage_payload (ac_policy st)\<rparr>)"

subsection \<open>The usage event\<close>

definition terminal_usage_event ::
  "accounting_env \<Rightarrow> string \<Rightarrow> authenticated_actor \<Rightarrow> terminal_usage_input \<Rightarrow> usage_event" where
  "terminal_usage_event env new_usage_id actor input =
     (let (usage_payload, usage_confidence) =
            normalized_usage_payload (ti_response_protocol_family input) (ti_response_body input);
          latency_ms = max ((ti_ended_at input - ti_started_at input) div 1000000) 0;
          selected = ti_selected input in
      \<lparr>ue_usage_event_id = new_usage_id, ue_tenant_id = actor_tenant_id actor,
       ue_organization_id = actor_organization_id actor, ue_project_id = actor_project_id actor,
       ue_principal_id = actor_principal_id actor,
       ue_project_member_id =
         (case (actor_principal_id actor, actor_project_id actor) of
            (Some principal_id, Some project_id) \<Rightarrow>
              map_option pm_project_member_id (ae_memberships env (principal_id, project_id))
          | _ \<Rightarrow> None),
       ue_service_account_id =
         (if actor_kind actor = ServiceAccountActor then Some (actor_id actor) else None),
       ue_api_key_id = actor_api_key_id actor, ue_request_id = actor_request_id actor,
       ue_trace_id = actor_trace_id actor,
       ue_protocol_family = rq_protocol_family (ti_replay_case input),
       ue_route_decision_id = Some (ti_route_decision_id input),
       ue_model_alias_id = Some (sel_model_alias_id selected),
       ue_model_target_id = Some (sel_model_target_id selected),
       ue_route_policy_id = Some (sel_route_policy_id selected),
       ue_routing_group_id = Some (sel_routing_group_id selected),
       ue_provider_endpoint_id = Some (sel_provider_endpoint_id selected),
       ue_upstream_credential_id = sel_upstream_credential_id selected,
       ue_usage_confidence = usage_confidence, ue_latency_ms = Some latency_ms,
       ue_time_to_first_token_ms =
         (if rq_streaming (ti_replay_case input) then Some latency_ms else None),
       ue_status = ''success'', ue_usage_payload = usage_payload,
       ue_cost_payload = runtime_cost_payload (ae_skus env) actor (ti_upstream_model_id input)
         (sel_provider_endpoint_id selected) (ti_pricing_sku_id input) (ti_ended_at input) usage_payload,
       ue_occurred_at = ti_ended_at input\<rparr>)"

definition record_terminal_usage_event ::
  "accounting_env \<Rightarrow> string \<Rightarrow> authenticated_actor \<Rightarrow> terminal_usage_input \<Rightarrow> accounting_state \<Rightarrow>
   unit gateway_result \<times> accounting_state" where
  "record_terminal_usage_event env new_usage_id actor input st =
     (let event = terminal_usage_event env new_usage_id actor input;
          st1 = st\<lparr>ac_usage := record_usage_event (ae_calendar env) (ae_new_bucket_id env) event (ac_usage st)\<rparr> in
      case (case ae_postgres_insert env of None \<Rightarrow> Inr () | Some insert_usage_event \<Rightarrow> insert_usage_event event) of
        Inl error \<Rightarrow> (Inl error, st1)
      | Inr _ \<Rightarrow> (Inr (), finalize_runtime_policy_terminal env actor input (ue_usage_payload event)
          (ue_cost_payload event) st1))"

subsection \<open>Blocked requests\<close>

definition enqueue_runtime_policy_notification_events ::
  "accounting_env \<Rightarrow> authenticated_actor \<Rightarrow> protocol_family \<Rightarrow> string \<Rightarrow> selected_route_evidence option \<Rightarrow>
   gateway_error \<Rightarrow> datetime \<Rightarrow> notification_store \<Rightarrow> notification_store" where
  "enqueue_runtime_policy_notification_events env actor family requested_model selected error now n =
     (case runtime_policy_notification_kind error of
        None \<Rightarrow> n
      | Some (event_family, event_kind, reason) \<Rightarrow>
          let scope = runtime_notification_scope actor;
              payload = notification_document (ae_json_time env)
                ''gateway.notification.runtime_policy_block.v1'' event_kind event_family actor scope family
                requested_model selected (JObject [(''reason'', JString reason)]) now;
              key_of = policy_block_dedupe_key actor event_kind in
          enqueue_to_subscribers (\<lambda>i. ae_new_outbox_id env (key_of i)) actor event_family event_kind
            (fst scope) (snd scope) payload key_of now n)"

subsection \<open>The accounting of one request\<close>

definition is_safe_request_id :: "string \<Rightarrow> bool" where
  "is_safe_request_id v \<longleftrightarrow> v \<noteq> '''' \<and> length v \<le> 128 \<and>
     list_all (\<lambda>c. let b = (of_char c :: nat) in
       (48 \<le> b \<and> b \<le> 57) \<or> (65 \<le> b \<and> b \<le> 90) \<or> (97 \<le> b \<and> b \<le> 122) \<or>
       c = CHR ''_'' \<or> c = CHR ''-'' \<or> c = CHR ''.'') v"

text \<open>\<open>header\<close> is the value of \<open>x-gateway-request-id\<close> where it is readable as a string.\<close>

definition request_id_from_headers :: "string option \<Rightarrow> string \<Rightarrow> string" where
  "request_id_from_headers header new_id = unwrap_or (opt_filter is_safe_request_id header) new_id"

text \<open>
  From the preflight on, with a selected route: a request that is blocked notifies, a provider
  failure releases the reservations, and a success is recorded before they are released. \<open>provider_error\<close>
  is what the provider call returned. An error while recording returns at once. The evidence of
  route decisions and attempts that the code records on the way (\<open>Gateway_Routing\<close>) is not part of
  this state.
\<close>

record request_ids =
  ri_lease_id :: "nat \<Rightarrow> string"
  ri_usage_id :: string
  ri_release_time :: "string \<Rightarrow> datetime"

definition model_ingress_accounting ::
  "accounting_env \<Rightarrow> request_ids \<Rightarrow> authenticated_actor \<Rightarrow> nat \<Rightarrow> datetime \<Rightarrow> gateway_error option \<Rightarrow>
   terminal_usage_input \<Rightarrow> accounting_state \<Rightarrow> unit gateway_result \<times> accounting_state" where
  "model_ingress_accounting env ids actor request_body_bytes now provider_error input st =
     (case enforce_runtime_policy_preflight (ae_calendar env) (ri_lease_id ids) (ri_release_time ids)
         (ledger_admin env st) (ae_quotas env) actor (ti_replay_case input) (Some (ti_selected input))
         request_body_bytes now (ac_policy st) of
        (Inl error, p) \<Rightarrow>
          (Inl error, st\<lparr>ac_policy := p,
             ac_notifications := enqueue_runtime_policy_notification_events env actor
               (rq_protocol_family (ti_replay_case input)) (ti_requested_model input)
               (Some (ti_selected input)) error now (ac_notifications st)\<rparr>)
      | (Inr preflight, p) \<Rightarrow>
          (case provider_error of
             Some error \<Rightarrow>
               (Inl error, st\<lparr>ac_policy := release_runtime_policy_reservations (ri_release_time ids) preflight p\<rparr>)
           | None \<Rightarrow>
               (case record_terminal_usage_event env (ri_usage_id ids) actor input (st\<lparr>ac_policy := p\<rparr>) of
                  (Inl error, st1) \<Rightarrow> (Inl error, st1)
                | (Inr _, st1) \<Rightarrow>
                    (Inr (), st1\<lparr>ac_policy := release_runtime_policy_reservations (ri_release_time ids)
                       preflight (ac_policy st1)\<rparr>))))"

end
