(* ===== verification/Gateway_Ledger.thy ===== *)
theory Gateway_Ledger
  imports Gateway_Usage
begin

text \<open>
  What the usage ledger means. The abstract ledger is the list of accepted events; every stored
  bucket is the aggregate, modulo the width of its counters, of the accepted events that have its
  key. The interface \<open>bucket_measure\<close> is a counter of a bucket with what one event adds to it.
\<close>

subsection \<open>Wrap-around sums\<close>

lemma wrap_i64_cong: "x mod 2 ^ 64 = y mod 2 ^ 64 \<Longrightarrow> wrap_i64 x = wrap_i64 y"
  unfolding wrap_i64_def by (metis mod_add_left_eq)

lemma wrap_i64_mod: "wrap_i64 x mod 2 ^ 64 = x mod 2 ^ 64"
proof -
  have "((x + 2 ^ 63) mod 2 ^ 64 - 2 ^ 63) mod 2 ^ 64 = (x + 2 ^ 63 - 2 ^ 63) mod 2 ^ 64"
    by (rule mod_diff_left_eq)
  then show ?thesis by (simp add: wrap_i64_def)
qed

lemma wrap_i64_add_left [i64_simps]: "wrap_i64 (wrap_i64 x + y) = wrap_i64 (x + y)"
  by (rule wrap_i64_cong) (metis mod_add_left_eq wrap_i64_mod)

lemma wrap_i64_add_right [i64_simps]: "wrap_i64 (x + wrap_i64 y) = wrap_i64 (x + y)"
  using wrap_i64_add_left [of y x] by (simp add: add.commute)

lemma wrap_i64_idem [i64_simps]: "wrap_i64 (wrap_i64 x) = wrap_i64 x"
  using wrap_i64_add_left [of x 0] by simp

lemma wrap_i64_0 [simp]: "wrap_i64 0 = 0"
  by (rule wrap_i64_exact) (simp add: is_i64_def i64_simps)

lemma wrap_sum_list_wrap:
  "wrap_i64 (sum_list (map (\<lambda>x. wrap_i64 (f x)) xs)) = wrap_i64 (sum_list (map f xs))"
proof (induction xs)
  case Nil
  then show ?case by simp
next
  case (Cons x xs)
  have "wrap_i64 (wrap_i64 (f x) + sum_list (map (\<lambda>x. wrap_i64 (f x)) xs)) =
      wrap_i64 (f x + wrap_i64 (sum_list (map (\<lambda>x. wrap_i64 (f x)) xs)))"
    by (simp add: wrap_i64_add_left wrap_i64_add_right)
  with Cons.IH show ?case by (simp add: wrap_i64_add_right)
qed

subsection \<open>The abstract ledger\<close>

text \<open>The accepted events: the first event of each usage event id and of each request of a tenant.\<close>

fun accepted_events :: "usage_event list \<Rightarrow> usage_event list \<Rightarrow> usage_event list" where
  "accepted_events seen [] = seen"
| "accepted_events seen (e # es) =
     (if \<exists>x \<in> set seen. same_usage_event x e then accepted_events seen es
      else accepted_events (seen @ [e]) es)"

text \<open>What goes into the bucket with a key: the event once for each of its kinds with that key.\<close>

definition event_share :: "calendar \<Rightarrow> string \<Rightarrow> usage_event \<Rightarrow> usage_event list" where
  "event_share cal key e = map (\<lambda>_. e) (filter (\<lambda>kind. event_bucket_key cal e kind = key) bucket_kinds)"

definition bucket_events :: "calendar \<Rightarrow> string \<Rightarrow> usage_event list \<Rightarrow> usage_event list" where
  "bucket_events cal key events = concat (map (event_share cal key) events)"

lemma bucket_events_append [simp]:
  "bucket_events cal key (xs @ ys) = bucket_events cal key xs @ bucket_events cal key ys"
  by (simp add: bucket_events_def)

text \<open>A bucket holds a list of events: it was opened by the first and has added all of them.\<close>

definition bucket_of :: "string \<Rightarrow> usage_event \<Rightarrow> string \<Rightarrow> datetime \<Rightarrow> usage_event list \<Rightarrow> ledger_bucket" where
  "bucket_of i e kind start es = fold add_to_bucket es (new_ledger_bucket i e kind start)"

definition bucket_holds :: "calendar \<Rightarrow> string \<Rightarrow> usage_event list \<Rightarrow> ledger_bucket option \<Rightarrow> bool" where
  "bucket_holds cal key es b \<longleftrightarrow>
     (if es = [] then b = None
      else \<exists>i kind. kind \<in> set bucket_kinds \<and> event_bucket_key cal (hd es) kind = key \<and>
        b = Some (bucket_of i (hd es) kind
          (usage_bucket_start cal kind (ue_occurred_at (hd es))) es))"

definition ledger_inv :: "calendar \<Rightarrow> usage_store \<Rightarrow> bool" where
  "ledger_inv cal s \<longleftrightarrow>
     (\<forall>key. bucket_holds cal key (bucket_events cal key (us_usage_events s))
        (map_of (us_ledger_buckets s) key))"

lemma fold_bucket_lookup:
  "map_of (fold_usage_event_into_bucket cal new_id e kind buckets) key =
     (if key = event_bucket_key cal e kind
      then Some (add_to_bucket e (unwrap_or (map_of buckets key)
        (new_ledger_bucket (new_id (length buckets)) e kind
          (usage_bucket_start cal kind (ue_occurred_at e)))))
      else map_of buckets key)"
  by (simp add: fold_usage_event_into_bucket_def Let_def update_conv event_bucket_key_def)

lemma bucket_holds_add:
  assumes "bucket_holds cal key es b" and "kind \<in> set bucket_kinds"
    and "event_bucket_key cal e kind = key"
  shows "bucket_holds cal key (es @ [e]) (Some (add_to_bucket e (unwrap_or b
      (new_ledger_bucket i e kind (usage_bucket_start cal kind (ue_occurred_at e))))))"
proof (cases "es = []")
  case True
  with assms show ?thesis by (auto simp: bucket_holds_def bucket_of_def)
next
  case False
  with assms(1) obtain i kind' where "kind' \<in> set bucket_kinds"
      "event_bucket_key cal (hd es) kind' = key"
      "b = Some (bucket_of i (hd es) kind' (usage_bucket_start cal kind' (ue_occurred_at (hd es))) es)"
    by (auto simp: bucket_holds_def)
  with False show ?thesis by (auto simp: bucket_holds_def bucket_of_def)
qed

lemma bucket_holds_fold:
  assumes "set kinds \<subseteq> set bucket_kinds" and "bucket_holds cal key es (map_of buckets key)"
  shows "bucket_holds cal key
     (es @ map (\<lambda>_. e) (filter (\<lambda>kind. event_bucket_key cal e kind = key) kinds))
     (map_of (fold (fold_usage_event_into_bucket cal new_id e) kinds buckets) key)"
  using assms
proof (induction kinds arbitrary: es buckets)
  case Nil
  then show ?case by simp
next
  case (Cons kind kinds)
  show ?case
  proof (cases "event_bucket_key cal e kind = key")
    case True
    then have "bucket_holds cal key (es @ [e])
        (map_of (fold_usage_event_into_bucket cal new_id e kind buckets) key)"
      using bucket_holds_add [OF Cons.prems(2), of kind e] Cons.prems(1)
      by (simp add: fold_bucket_lookup)
    from Cons.IH [OF _ this] Cons.prems(1) True show ?thesis by simp
  next
    case False
    then have "bucket_holds cal key es
        (map_of (fold_usage_event_into_bucket cal new_id e kind buckets) key)"
      using Cons.prems(2) by (auto simp: fold_bucket_lookup)
    from Cons.IH [OF _ this] Cons.prems(1) False show ?thesis by simp
  qed
qed

lemma record_usage_event_inv:
  assumes "ledger_inv cal s"
  shows "ledger_inv cal (record_usage_event cal new_id e s)"
proof (cases "list_ex (\<lambda>x. same_usage_event x e) (us_usage_events s)")
  case True
  with assms show ?thesis by (simp add: record_usage_event_def)
next
  case False
  then have s': "record_usage_event cal new_id e s = \<lparr>us_usage_events = us_usage_events s @ [e],
      us_ledger_buckets = fold (fold_usage_event_into_bucket cal new_id e) bucket_kinds
        (us_ledger_buckets s)\<rparr>"
    by (simp add: record_usage_event_def)
  show ?thesis
    using assms bucket_holds_fold [OF subset_refl, where cal = cal and e = e and new_id = new_id]
    by (simp add: s' ledger_inv_def bucket_events_def event_share_def)
qed

lemma empty_usage_store_inv: "ledger_inv cal empty_usage_store"
  by (simp add: ledger_inv_def empty_usage_store_def bucket_events_def bucket_holds_def)

definition run_usage_events ::
  "calendar \<Rightarrow> (nat \<Rightarrow> string) \<Rightarrow> usage_event list \<Rightarrow> usage_store \<Rightarrow> usage_store" where
  "run_usage_events cal new_id es s = fold (record_usage_event cal new_id) es s"

lemma run_usage_events_inv: "ledger_inv cal s \<Longrightarrow> ledger_inv cal (run_usage_events cal new_id es s)"
  by (induction es arbitrary: s) (simp_all add: run_usage_events_def record_usage_event_inv)

lemma run_usage_events_accepted:
  "us_usage_events (run_usage_events cal new_id es s) = accepted_events (us_usage_events s) es"
  by (induction es arbitrary: s)
    (simp_all add: run_usage_events_def record_usage_event_def list_ex_iff)

subsection \<open>Counters of a bucket\<close>

locale bucket_measure =
  fixes counter :: "ledger_bucket \<Rightarrow> i64"
    and share :: "usage_event \<Rightarrow> int"
  assumes counter_new: "counter (new_ledger_bucket i e kind start) = 0"
    and counter_add: "counter (add_to_bucket e b) = wrap_i64 (counter b + share e)"
begin

lemma counter_fold:
  "is_i64 (counter b) \<Longrightarrow> counter (fold add_to_bucket es b) = wrap_i64 (counter b + sum_list (map share es))"
proof (induction es arbitrary: b)
  case Nil
  then show ?case by (simp add: wrap_i64_exact)
next
  case (Cons e es)
  then show ?case
    by (simp add: counter_add wrap_i64_is_i64 wrap_i64_add_left add.assoc)
qed

lemma counter_bucket: "counter (bucket_of i e kind start es) = wrap_i64 (sum_list (map share es))"
  using counter_fold [of "new_ledger_bucket i e kind start" es]
  by (simp add: bucket_of_def counter_new is_i64_def i64_bounds)

lemma counter_exact:
  assumes "ledger_inv cal s" and "map_of (us_ledger_buckets s) key = Some b"
  shows "counter b = wrap_i64 (sum_list (map share (bucket_events cal key (us_usage_events s))))"
proof -
  have "bucket_holds cal key (bucket_events cal key (us_usage_events s)) (Some b)"
    using assms by (auto simp: ledger_inv_def dest: spec [of _ key])
  then show ?thesis by (auto simp: bucket_holds_def counter_bucket split: if_splits)
qed

end

definition payload_share :: "string \<Rightarrow> usage_event \<Rightarrow> int" where
  "payload_share key e = usage_payload_i64 (ue_usage_payload e) key"

lemmas bucket_measure_defs = new_ledger_bucket_def add_to_bucket_def payload_share_def

interpretation input_tokens: bucket_measure lb_input_tokens "payload_share ''input_tokens''"
  by unfold_locales (simp_all add: bucket_measure_defs)

interpretation output_tokens: bucket_measure lb_output_tokens "payload_share ''output_tokens''"
  by unfold_locales (simp_all add: bucket_measure_defs)

interpretation reasoning_tokens: bucket_measure lb_reasoning_tokens "payload_share ''reasoning_tokens''"
  by unfold_locales (simp_all add: bucket_measure_defs)

interpretation media_units: bucket_measure lb_media_units event_media_units
  by unfold_locales (simp_all add: bucket_measure_defs)

interpretation request_count: bucket_measure lb_request_count "\<lambda>_. 1"
  by unfold_locales (simp_all add: bucket_measure_defs)

interpretation success_count: bucket_measure lb_success_count "\<lambda>e. of_bool (ue_status e = ''success'')"
  by unfold_locales (simp_all add: bucket_measure_defs)

interpretation error_count: bucket_measure lb_error_count
  "\<lambda>e. of_bool (ue_status e \<in> {''error'', ''partial'', ''canceled''})"
  by unfold_locales (simp_all add: bucket_measure_defs)

interpretation blocked_count: bucket_measure lb_blocked_count "\<lambda>e. of_bool (ue_status e = ''blocked'')"
  by unfold_locales (simp_all add: bucket_measure_defs)

interpretation usage_missing_count: bucket_measure lb_usage_missing_count
  "\<lambda>e. of_bool (ue_usage_confidence e = ''missing'')"
  by unfold_locales (simp_all add: bucket_measure_defs)

interpretation usage_estimated_count: bucket_measure lb_usage_estimated_count
  "\<lambda>e. of_bool (ue_usage_confidence e = ''estimated'')"
  by unfold_locales (simp_all add: bucket_measure_defs)

interpretation cost_micros: bucket_measure lb_estimated_cost_micros event_cost
  by unfold_locales (simp_all add: bucket_measure_defs)

end
