(* ===== verification/Gateway_Usage_Properties.thy ===== *)
theory Gateway_Usage_Properties
  imports Gateway_Ledger Gateway_Pricing Gateway_Budget
begin

text \<open>
  Properties of usage accounting: the ledger is the aggregate of the accepted events, the value a
  budget is checked against is the accepted usage in its scope and period, the cost of an event is
  exact up to one unit per price component, and the price applied is the most specific one.
\<close>

subsection \<open>Keys\<close>

text \<open>Attribution that keys keep apart: no separator inside an id, and no id present but empty.\<close>

definition event_dimensions :: "usage_event \<Rightarrow> string option list" where
  "event_dimensions e =
     [ue_organization_id e, ue_project_id e, ue_principal_id e, ue_project_member_id e,
      ue_service_account_id e, ue_api_key_id e, ue_model_alias_id e, ue_model_target_id e,
      ue_provider_endpoint_id e, ue_upstream_credential_id e, ue_route_policy_id e,
      ue_routing_group_id e]"

definition clean_event :: "usage_event \<Rightarrow> bool" where
  "clean_event e \<longleftrightarrow> list_all (\<lambda>d. CHR ''|'' \<notin> set d) (usage_bucket_dimensions e) \<and>
     list_all (\<lambda>d. d \<noteq> Some '''') (event_dimensions e)"

lemma usage_bucket_key_join:
  "usage_bucket_key e kind start =
     join_with ''|'' (usage_bucket_dimensions e @ [kind, int_to_string (timestamp start)])"
  using join_with_snoc [of "usage_bucket_dimensions e @ [kind]" "''|''" "int_to_string (timestamp start)"]
  by (simp add: usage_bucket_key_def)

lemma no_bar_int: "CHR ''|'' \<notin> set (int_to_string i)"
  by (auto dest!: int_to_string_chars)

lemma no_bar_kind: "kind \<in> set bucket_kinds \<Longrightarrow> CHR ''|'' \<notin> set kind"
  by (auto simp: bucket_kinds_def)

lemma unwrap_or_inject: "x \<noteq> Some '''' \<Longrightarrow> y \<noteq> Some '''' \<Longrightarrow> unwrap_or x '''' = unwrap_or y '''' \<Longrightarrow> x = y"
  by (cases x; cases y) auto

lemma event_bucket_key_inject:
  assumes "clean_event e" "clean_event e'" "kind \<in> set bucket_kinds" "kind' \<in> set bucket_kinds"
    and "event_bucket_key cal e kind = event_bucket_key cal e' kind'"
  shows "ue_tenant_id e = ue_tenant_id e'" "event_dimensions e = event_dimensions e'" "kind = kind'"
    "timestamp (usage_bucket_start cal kind (ue_occurred_at e)) =
     timestamp (usage_bucket_start cal kind (ue_occurred_at e'))"
proof -
  have "usage_bucket_dimensions e @ [kind, int_to_string (timestamp (usage_bucket_start cal kind (ue_occurred_at e)))] =
     usage_bucket_dimensions e' @ [kind', int_to_string (timestamp (usage_bucket_start cal kind' (ue_occurred_at e')))]"
    using assms no_bar_int no_bar_kind
    by (intro join_with_inject [where c = "CHR ''|''"])
      (auto simp: event_bucket_key_def usage_bucket_key_join clean_event_def list_all_iff
        usage_bucket_dimensions_def)
  then have dims: "usage_bucket_dimensions e = usage_bucket_dimensions e'" and kind: "kind = kind'"
    and start: "timestamp (usage_bucket_start cal kind (ue_occurred_at e)) =
      timestamp (usage_bucket_start cal kind' (ue_occurred_at e'))"
    by (auto simp: usage_bucket_dimensions_def)
  show "kind = kind'" by (rule kind)
  show "timestamp (usage_bucket_start cal kind (ue_occurred_at e)) =
     timestamp (usage_bucket_start cal kind (ue_occurred_at e'))" using start kind by simp
  show "ue_tenant_id e = ue_tenant_id e'" using dims by (simp add: usage_bucket_dimensions_def)
  show "event_dimensions e = event_dimensions e'"
    using dims assms(1,2)
    by (simp add: usage_bucket_dimensions_def clean_event_def event_dimensions_def unwrap_or_inject)
qed

subsection \<open>Regrouping\<close>

lemma sum_list_group:
  fixes f :: "'a \<Rightarrow> int"
  assumes "distinct ks"
  shows "sum_list (map (\<lambda>k. sum_list (map f (filter (\<lambda>p. g p = k) ps))) ks) =
    sum_list (map f (filter (\<lambda>p. g p \<in> set ks) ps))"
proof (induction ps)
  case Nil
  then show ?case by simp
next
  case (Cons p ps)
  have "sum_list (map (\<lambda>k. if g p = k then f p else 0) ks) = (if g p \<in> set ks then f p else 0)"
    using assms by (induction ks) auto
  moreover have "sum_list (map (\<lambda>k. sum_list (map f (filter (\<lambda>p. g p = k) (p # ps)))) ks) =
      sum_list (map (\<lambda>k. if g p = k then f p else 0) ks) +
      sum_list (map (\<lambda>k. sum_list (map f (filter (\<lambda>p. g p = k) ps))) ks)"
    by (subst sum_list_addf [symmetric]) (auto intro!: arg_cong [where f = sum_list])
  ultimately show ?case using Cons by simp
qed

text \<open>The shares of the accepted events in the five kinds of bucket.\<close>

definition event_shares :: "usage_event list \<Rightarrow> (usage_event \<times> string) list" where
  "event_shares es = concat (map (\<lambda>e. map (Pair e) bucket_kinds) es)"

lemma bucket_events_shares:
  "bucket_events cal key es = map fst (filter (\<lambda>(e, kind). event_bucket_key cal e kind = key) (event_shares es))"
  by (induction es) (simp_all add: bucket_events_def event_shares_def event_share_def filter_map o_def)

lemma event_shares_filter_event:
  "sum_list (map (\<lambda>p. f (fst p)) (filter (\<lambda>(e, kind). kind = ''event'' \<and> Q e) (event_shares es))) =
    sum_list (map f (filter Q es))" for f :: "usage_event \<Rightarrow> int"
  by (induction es) (auto simp: event_shares_def bucket_kinds_def)

lemma fold_bucket_keys:
  assumes "distinct (map fst buckets)"
  shows "distinct (map fst (fold (fold_usage_event_into_bucket cal new_id e) kinds buckets))"
  using assms
  by (induction kinds arbitrary: buckets)
    (simp_all add: fold_usage_event_into_bucket_def Let_def distinct_update)

lemma run_bucket_keys: "distinct (map fst (us_ledger_buckets s)) \<Longrightarrow>
    distinct (map fst (us_ledger_buckets (run_usage_events cal new_id es s)))"
  by (induction es arbitrary: s)
    (simp_all add: run_usage_events_def record_usage_event_def fold_bucket_keys)


subsection \<open>The value a budget is checked against\<close>

lemma sum_list_sort_key:
  fixes f :: "'a \<Rightarrow> int"
  shows "sum_list (map f (filter P (sort_key g xs))) = sum_list (map f (filter P xs))"
proof -
  have "sum_list (map f (filter P (insort_key g x xs))) =
      (if P x then f x else 0) + sum_list (map f (filter P xs))" for x xs
    by (induction xs) auto
  then show ?thesis by (induction xs) (auto simp: sort_key_def)
qed


lemma bucket_of_dimensions [simp]:
  "lb_tenant_id (bucket_of i e kind start es) = ue_tenant_id e"
  "lb_organization_id (bucket_of i e kind start es) = ue_organization_id e"
  "lb_project_id (bucket_of i e kind start es) = ue_project_id e"
  "lb_model_alias_id (bucket_of i e kind start es) = ue_model_alias_id e"
  "lb_model_target_id (bucket_of i e kind start es) = ue_model_target_id e"
  "lb_provider_endpoint_id (bucket_of i e kind start es) = ue_provider_endpoint_id e"
  "lb_upstream_credential_id (bucket_of i e kind start es) = ue_upstream_credential_id e"
  "lb_routing_group_id (bucket_of i e kind start es) = ue_routing_group_id e"
  "lb_bucket_kind (bucket_of i e kind start es) = kind"
  "lb_bucket_start (bucket_of i e kind start es) = start"
proof -
  have "lb_tenant_id (fold add_to_bucket es b) = lb_tenant_id b \<and>
    lb_organization_id (fold add_to_bucket es b) = lb_organization_id b \<and>
    lb_project_id (fold add_to_bucket es b) = lb_project_id b \<and>
    lb_model_alias_id (fold add_to_bucket es b) = lb_model_alias_id b \<and>
    lb_model_target_id (fold add_to_bucket es b) = lb_model_target_id b \<and>
    lb_provider_endpoint_id (fold add_to_bucket es b) = lb_provider_endpoint_id b \<and>
    lb_upstream_credential_id (fold add_to_bucket es b) = lb_upstream_credential_id b \<and>
    lb_routing_group_id (fold add_to_bucket es b) = lb_routing_group_id b \<and>
    lb_bucket_kind (fold add_to_bucket es b) = lb_bucket_kind b \<and>
    lb_bucket_start (fold add_to_bucket es b) = lb_bucket_start b" for b
    by (induction es arbitrary: b) (simp_all add: add_to_bucket_def)
  then show "lb_tenant_id (bucket_of i e kind start es) = ue_tenant_id e"
  "lb_organization_id (bucket_of i e kind start es) = ue_organization_id e"
  "lb_project_id (bucket_of i e kind start es) = ue_project_id e"
  "lb_model_alias_id (bucket_of i e kind start es) = ue_model_alias_id e"
  "lb_model_target_id (bucket_of i e kind start es) = ue_model_target_id e"
  "lb_provider_endpoint_id (bucket_of i e kind start es) = ue_provider_endpoint_id e"
  "lb_upstream_credential_id (bucket_of i e kind start es) = ue_upstream_credential_id e"
  "lb_routing_group_id (bucket_of i e kind start es) = ue_routing_group_id e"
  "lb_bucket_kind (bucket_of i e kind start es) = kind"
  "lb_bucket_start (bucket_of i e kind start es) = start"
    by (simp_all add: bucket_of_def new_ledger_bucket_def)
qed

lemma event_share_mem:
  "(e, kind) \<in> set (event_shares es) \<longleftrightarrow> e \<in> set es \<and> kind \<in> set bucket_kinds"
  by (auto simp: event_shares_def)

text \<open>The bucket of a share was opened by an event with the same key.\<close>

lemma share_bucket:
  assumes "ledger_inv cal s" and "(e, kind) \<in> set (event_shares (us_usage_events s))"
  shows "\<exists>e0 i kind0 es. map_of (us_ledger_buckets s) (event_bucket_key cal e kind) =
      Some (bucket_of i e0 kind0 (usage_bucket_start cal kind0 (ue_occurred_at e0)) es) \<and>
    e0 \<in> set (us_usage_events s) \<and> kind0 \<in> set bucket_kinds \<and>
    event_bucket_key cal e0 kind0 = event_bucket_key cal e kind"
proof -
  let ?key = "event_bucket_key cal e kind"
  let ?es = "bucket_events cal ?key (us_usage_events s)"
  have ne: "?es \<noteq> []" using assms(2) by (auto simp: bucket_events_shares filter_empty_conv)
  then have "hd ?es \<in> set ?es" by simp
  then have hd: "hd ?es \<in> set (us_usage_events s)"
    unfolding bucket_events_shares by (auto simp: event_share_mem)
  have "bucket_holds cal ?key ?es (map_of (us_ledger_buckets s) ?key)"
    using assms(1) by (simp add: ledger_inv_def)
  with ne hd show ?thesis unfolding bucket_holds_def by auto
qed

lemma buckets_total:
  assumes m: "bucket_measure counter share" and inv: "ledger_inv cal s"
    and d: "distinct (map fst (us_ledger_buckets s))"
  shows "wrap_i64 (sum_list (map counter (filter P (map snd (us_ledger_buckets s))))) =
    wrap_i64 (sum_list (map (\<lambda>p. share (fst p)) (filter (\<lambda>(e, kind).
      P (the (map_of (us_ledger_buckets s) (event_bucket_key cal e kind)))) (event_shares (us_usage_events s)))))"
proof -
  let ?B = "us_ledger_buckets s"
  let ?g = "\<lambda>(e, kind). event_bucket_key cal e kind"
  let ?S = "event_shares (us_usage_events s)"
  define ks where "ks = map fst (filter (\<lambda>x. P (snd x)) ?B)"
  have dk: "distinct ks" unfolding ks_def using d by (simp add: distinct_map_filter)
  have val: "map_of ?B (fst x) = Some (snd x)" if "x \<in> set ?B" for x
    using that d by simp
  have cnt: "counter b = wrap_i64 (sum_list (map (\<lambda>p. share (fst p)) (filter (\<lambda>p. ?g p = k) ?S)))"
    if "(k, b) \<in> set ?B" for k b
    using bucket_measure.counter_exact [OF m inv, of k b] val [OF that]
    by (simp add: bucket_events_shares o_def case_prod_unfold)
  have "map counter (filter P (map snd ?B)) = map (\<lambda>k. counter (the (map_of ?B k))) ks"
    by (auto simp: ks_def filter_map o_def val intro!: map_cong)
  also have "\<dots> = map (\<lambda>k. wrap_i64 (sum_list (map (\<lambda>p. share (fst p)) (filter (\<lambda>p. ?g p = k) ?S)))) ks"
    using cnt by (auto simp: ks_def val intro!: map_cong)
  finally have "wrap_i64 (sum_list (map counter (filter P (map snd ?B)))) =
      wrap_i64 (sum_list (map (\<lambda>k. sum_list (map (\<lambda>p. share (fst p)) (filter (\<lambda>p. ?g p = k) ?S))) ks))"
    by (simp add: wrap_sum_list_wrap)
  also have "\<dots> = wrap_i64 (sum_list (map (\<lambda>p. share (fst p)) (filter (\<lambda>p. ?g p \<in> set ks) ?S)))"
    by (simp add: sum_list_group [OF dk])
  also have "filter (\<lambda>p. ?g p \<in> set ks) ?S = filter (\<lambda>(e, kind). P (the (map_of ?B (event_bucket_key cal e kind)))) ?S"
  proof (intro filter_cong refl)
    fix p assume mem: "p \<in> set ?S"
    obtain e kind where p: "p = (e, kind)" by (cases p)
    with mem obtain b where "map_of ?B (event_bucket_key cal e kind) = Some b"
      using share_bucket [OF inv, of e kind] by auto
    then have key_iff: "event_bucket_key cal e kind \<in> set ks \<longleftrightarrow> P b"
        "the (map_of ?B (event_bucket_key cal e kind)) = b"
      using val map_of_SomeD [of ?B _ b] by (auto simp: ks_def intro!: image_eqI [of _ _ "(_, b)"])
    show "?g p \<in> set ks \<longleftrightarrow> (case p of (e, kind) \<Rightarrow> P (the (map_of ?B (event_bucket_key cal e kind))))"
      using key_iff by (simp add: p)
  qed
  finally show ?thesis .
qed


text \<open>An event counts for a policy: the same scope and period, read off the event itself.\<close>

definition event_in_budget :: "calendar \<Rightarrow> budget_policy \<Rightarrow> usage_event \<Rightarrow> datetime \<Rightarrow> bool" where
  "event_in_budget cal policy e now \<longleftrightarrow>
     runtime_budget_period_matches cal policy (ue_occurred_at e) now \<and>
     (case bp_scope_kind policy of k \<Rightarrow>
        k = ''tenant'' \<and> ue_tenant_id e = bp_scope_id policy \<or>
        k = ''organization'' \<and> ue_organization_id e = Some (bp_scope_id policy) \<or>
        k = ''project'' \<and> ue_project_id e = Some (bp_scope_id policy) \<or>
        k = ''credential'' \<and> ue_upstream_credential_id e = Some (bp_scope_id policy) \<or>
        k = ''alias'' \<and> ue_model_alias_id e = Some (bp_scope_id policy) \<or>
        k = ''group'' \<and> ue_routing_group_id e = Some (bp_scope_id policy) \<or>
        k = ''endpoint'' \<and> ue_provider_endpoint_id e = Some (bp_scope_id policy) \<or>
        k = ''target'' \<and> ue_model_target_id e = Some (bp_scope_id policy))"

definition event_budget_value :: "budget_policy \<Rightarrow> usage_event \<Rightarrow> int" where
  "event_budget_value policy e = (if bp_limit_kind policy = ''requests'' then 1 else event_cost e)"

text \<open>The date of a time does not depend on the fraction of its second.\<close>

definition calendar_by_second :: "calendar \<Rightarrow> bool" where
  "calendar_by_second cal \<longleftrightarrow> (\<forall>t t'. timestamp t = timestamp t' \<longrightarrow>
     cal_year cal t = cal_year cal t' \<and> cal_month cal t = cal_month cal t' \<and> cal_day cal t = cal_day cal t')"

lemma share_in_budget:
  assumes inv: "ledger_inv cal s" and cal: "calendar_by_second cal" and cur: "bp_currency policy = None"
    and clean: "\<forall>e \<in> set (us_usage_events s). clean_event e"
    and share: "(e, kind) \<in> set (event_shares (us_usage_events s))"
    and bkt: "map_of (us_ledger_buckets s) (event_bucket_key cal e kind) = Some b"
  shows "(lb_tenant_id b = t \<and> runtime_budget_bucket_matches cal policy b now) =
      (kind = ''event'' \<and> ue_tenant_id e = t \<and> event_in_budget cal policy e now)"
proof -
  obtain e0 i kind0 es where b: "b = bucket_of i e0 kind0 (usage_bucket_start cal kind0 (ue_occurred_at e0)) es"
    and e0: "e0 \<in> set (us_usage_events s)" "kind0 \<in> set bucket_kinds"
    and key: "event_bucket_key cal e0 kind0 = event_bucket_key cal e kind"
    using share_bucket [OF inv share] bkt by auto
  have e: "e \<in> set (us_usage_events s)" "kind \<in> set bucket_kinds" using share by (simp_all add: event_share_mem)
  have "clean_event e0" "clean_event e" using clean e0(1) e(1) by blast+
  note inj = event_bucket_key_inject [OF this e0(2) e(2) key]
  have period: "runtime_budget_period_matches cal policy (ue_occurred_at e0) now =
      runtime_budget_period_matches cal policy (ue_occurred_at e) now" if "kind = ''event''"
  proof -
    have "timestamp (ue_occurred_at e0) = timestamp (ue_occurred_at e)"
      using inj(3,4) that by (simp add: usage_bucket_start_def)
    with cal have "cal_year cal (ue_occurred_at e0) = cal_year cal (ue_occurred_at e)"
      "cal_month cal (ue_occurred_at e0) = cal_month cal (ue_occurred_at e)"
      "cal_day cal (ue_occurred_at e0) = cal_day cal (ue_occurred_at e)"
      unfolding calendar_by_second_def by blast+
    then show ?thesis by (simp add: runtime_budget_period_matches_def)
  qed
  have start: "kind = ''event'' \<Longrightarrow> usage_bucket_start cal kind0 (ue_occurred_at e0) = ue_occurred_at e0"
    using inj(3) by (simp add: usage_bucket_start_def)
  have dims: "ue_organization_id e0 = ue_organization_id e" "ue_project_id e0 = ue_project_id e"
      "ue_upstream_credential_id e0 = ue_upstream_credential_id e" "ue_model_alias_id e0 = ue_model_alias_id e"
      "ue_routing_group_id e0 = ue_routing_group_id e" "ue_provider_endpoint_id e0 = ue_provider_endpoint_id e"
      "ue_model_target_id e0 = ue_model_target_id e"
    using inj(2) by (simp_all add: event_dimensions_def)
  have scope: "runtime_budget_bucket_scope_matches policy b = (event_in_budget cal policy e now)"
    if "runtime_budget_period_matches cal policy (ue_occurred_at e) now"
    using that by (simp add: b runtime_budget_bucket_scope_matches_def Let_def event_in_budget_def dims inj(1))
  show ?thesis
  proof (cases "kind = ''event''")
    case True
    then show ?thesis
      using period start inj scope
      by (auto simp: b runtime_budget_bucket_matches_def runtime_budget_bucket_currency_matches_def cur
          event_in_budget_def)
  next
    case False
    then show ?thesis using inj(3) by (simp add: b runtime_budget_bucket_matches_def)
  qed
qed

lemma budget_value_of_ledger:
  assumes m: "bucket_measure counter (event_budget_value policy)"
    and val: "runtime_budget_bucket_value policy = counter"
    and inv: "ledger_inv cal s" and d: "distinct (map fst (us_ledger_buckets s))"
    and cal: "calendar_by_second cal" and cur: "bp_currency policy = None"
    and clean: "\<forall>e \<in> set (us_usage_events s). clean_event e"
    and admin: "pa_ledger_buckets admin = map snd (us_ledger_buckets s)"
  shows "budget_ledger_value cal policy (ledger_buckets_for_tenant admin t) now =
    wrap_i64 (sum_list (map (event_budget_value policy)
      (filter (\<lambda>e. ue_tenant_id e = t \<and> event_in_budget cal policy e now) (us_usage_events s))))"
proof -
  let ?P = "\<lambda>b. lb_tenant_id b = t \<and> runtime_budget_bucket_matches cal policy b now"
  have "budget_ledger_value cal policy (ledger_buckets_for_tenant admin t) now =
      wrap_i64 (sum_list (map counter (filter ?P (map snd (us_ledger_buckets s)))))"
    by (simp add: budget_ledger_value_def ledger_buckets_for_tenant_def sum_list_sort_key val admin
        conj_commute)
  also have "\<dots> = wrap_i64 (sum_list (map (\<lambda>p. event_budget_value policy (fst p)) (filter (\<lambda>(e, kind).
      ?P (the (map_of (us_ledger_buckets s) (event_bucket_key cal e kind)))) (event_shares (us_usage_events s)))))"
    by (rule buckets_total [OF m inv d])
  also have "filter (\<lambda>(e, kind). ?P (the (map_of (us_ledger_buckets s) (event_bucket_key cal e kind))))
        (event_shares (us_usage_events s)) =
      filter (\<lambda>(e, kind). kind = ''event'' \<and> ue_tenant_id e = t \<and> event_in_budget cal policy e now)
        (event_shares (us_usage_events s))"
  proof (intro filter_cong refl)
    fix p assume mem: "p \<in> set (event_shares (us_usage_events s))"
    obtain e kind where pe: "p = (e, kind)" by (cases p)
    with mem have p: "(e, kind) \<in> set (event_shares (us_usage_events s))" by simp
    then obtain b where "map_of (us_ledger_buckets s) (event_bucket_key cal e kind) = Some b"
      using share_bucket [OF inv] by blast
    then show "(case p of (e, kind) \<Rightarrow> ?P (the (map_of (us_ledger_buckets s) (event_bucket_key cal e kind)))) =
        (case p of (e, kind) \<Rightarrow> kind = ''event'' \<and> ue_tenant_id e = t \<and> event_in_budget cal policy e now)"
      using share_in_budget [OF inv cal cur clean p] by (simp add: pe)
  qed
  finally show ?thesis
    using event_shares_filter_event [of "event_budget_value policy"
        "\<lambda>e. ue_tenant_id e = t \<and> event_in_budget cal policy e now" "us_usage_events s"]
    by simp
qed


subsection \<open>The ledger\<close>

definition sample_event :: "string \<Rightarrow> string \<Rightarrow> json \<Rightarrow> json \<Rightarrow> datetime \<Rightarrow> usage_event" where
  "sample_event i req usage cost at =
     \<lparr>ue_usage_event_id = i, ue_tenant_id = ''t1'', ue_organization_id = Some ''o1'', ue_project_id = None,
      ue_principal_id = None, ue_project_member_id = None, ue_service_account_id = None,
      ue_api_key_id = None, ue_request_id = req, ue_trace_id = ''tr'', ue_protocol_family = OpenAiChat,
      ue_route_decision_id = None, ue_model_alias_id = Some ''ma1'', ue_model_target_id = None,
      ue_route_policy_id = None, ue_routing_group_id = None, ue_provider_endpoint_id = None,
      ue_upstream_credential_id = None, ue_usage_confidence = ''exact'', ue_latency_ms = None,
      ue_time_to_first_token_ms = None, ue_status = ''success'', ue_usage_payload = usage,
      ue_cost_payload = cost, ue_occurred_at = at\<rparr>"

definition epoch_calendar :: calendar where
  "epoch_calendar =
     \<lparr>cal_year = (\<lambda>_. 1970), cal_month = (\<lambda>_. 1), cal_day = (\<lambda>t. nat (1 + timestamp t div 86400)),
      cal_format_ymd = (\<lambda>_. ''1970-01-01''), cal_from_timestamp = (\<lambda>t. Some (t * 1000000000)),
      cal_from_ymd = (\<lambda>_ _ _. Some 0)\<rparr>"

definition sample_cost :: "string \<Rightarrow> i64 \<Rightarrow> json" where
  "sample_cost currency c = JObject [(''currency'', JString currency), (''total_cost'', JInt c)]"

definition sample_events :: "usage_event list" where
  "sample_events =
     [sample_event ''use_1'' ''req_1'' empty_usage_payload (sample_cost ''USD'' 30) 1000000000,
      sample_event ''use_2'' ''req_2'' empty_usage_payload (sample_cost ''USD'' 12) 1500000000,
      sample_event ''use_3'' ''req_1'' empty_usage_payload (sample_cost ''USD'' 30) 1700000000]"

definition bucket_ids :: "nat \<Rightarrow> string" where
  "bucket_ids n = ''lb_'' @ nat_digits n"

lemma updated_at_fold:
  "lb_updated_at (fold add_to_bucket es b) = fold max (map ue_occurred_at es) (lb_updated_at b)"
  by (induction es arbitrary: b) (simp_all add: add_to_bucket_def max.commute)

lemma updated_at_bucket:
  assumes "es \<noteq> []"
  shows "lb_updated_at (bucket_of i (hd es) kind start es) = Max (set (map ue_occurred_at es))"
proof -
  have "lb_updated_at (bucket_of i (hd es) kind start es) =
      Max (set (ue_occurred_at (hd es) # map ue_occurred_at es))"
    unfolding Max.set_eq_fold by (simp add: bucket_of_def updated_at_fold new_ledger_bucket_def)
  also have "set (ue_occurred_at (hd es) # map ue_occurred_at es) = set (map ue_occurred_at es)"
    using assms by (cases es) auto
  finally show ?thesis .
qed



lemma accepted_events_subset: "set (accepted_events seen es) \<subseteq> set seen \<union> set es"
proof (induction es arbitrary: seen)
  case Nil
  then show ?case by simp
next
  case (Cons e es)
  from Cons [of seen] Cons [of "seen @ [e]"] show ?case by auto
qed


definition cost_budget :: budget_policy where
  "cost_budget =
     \<lparr>bp_budget_policy_id = ''b1'', bp_tenant_id = ''t1'', bp_scope_kind = ''alias'', bp_scope_id = ''ma1'',
      bp_organization_id = None, bp_project_id = None, bp_currency = None, bp_period = ''calendar_day'',
      bp_limit_kind = ''cost'', bp_hard_limit = Some 100, bp_soft_limit = Some 40, bp_thresholds = [],
      bp_reset_policy = ''calendar'', bp_overage_mode = ''block_new_requests'', bp_consistency_mode = ''strict'',
      bp_status = ResActive, bp_resource_version = 1, bp_schema_version = 1, bp_created_by = ''u1'',
      bp_created_at = 0, bp_updated_at = 0\<rparr>"

definition sample_admin :: policy_admin where
  "sample_admin = \<lparr>pa_budget_policies = [cost_budget],
     pa_ledger_buckets = map snd (us_ledger_buckets
       (run_usage_events epoch_calendar bucket_ids sample_events empty_usage_store)),
     pa_emergency_operations = []\<rparr>"



text \<open>
  Recording is idempotent: once a list of events has been recorded, recording any further events
  that repeat an event id or a request of a tenant among the accepted ones leaves the store, events
  and buckets, exactly as it is. A retried terminal write is not charged twice.
\<close>

theorem usage_recording_idempotent:
  assumes "\<forall>e \<in> set again. \<exists>x \<in> set (accepted_events [] es). same_usage_event x e"
  shows "run_usage_events cal new_id (es @ again) empty_usage_store =
    run_usage_events cal new_id es empty_usage_store"
proof -
  have "run_usage_events cal new_id again s = s"
    if "\<forall>e \<in> set again. \<exists>x \<in> set (us_usage_events s). same_usage_event x e" for s
    using that by (induction again) (simp_all add: run_usage_events_def record_usage_event_def list_ex_iff)
  moreover have "us_usage_events (run_usage_events cal new_id es empty_usage_store) = accepted_events [] es"
    by (simp add: run_usage_events_accepted) (simp add: empty_usage_store_def)
  moreover have "run_usage_events cal new_id (es @ again) empty_usage_store =
      run_usage_events cal new_id again (run_usage_events cal new_id es empty_usage_store)"
    by (simp add: run_usage_events_def)
  ultimately show ?thesis using assms by simp
qed

theorem usage_recording_idempotent_witness:
  "run_usage_events epoch_calendar bucket_ids (sample_events @ sample_events) empty_usage_store =
   run_usage_events epoch_calendar bucket_ids sample_events empty_usage_store"
proof (rule usage_recording_idempotent)
  show "\<forall>e \<in> set sample_events. \<exists>x \<in> set (accepted_events [] sample_events). same_usage_event x e"
    by code_simp
qed

subsection \<open>Pricing\<close>

text \<open>What is charged for a component: units and a price per million of them, never negative.\<close>

definition charged_units :: "json \<Rightarrow> string \<Rightarrow> int" where
  "charged_units usage uk = max (unwrap_or (json_get_i64 usage uk) 0) 0"

definition charged_price :: "pricing_sku \<Rightarrow> string \<Rightarrow> int" where
  "charged_price sku pk =
     charged_units (unwrap_or (json_get (sku_pricing_document sku) ''tokens'') JNull) pk"

lemma charged_bounds: "0 \<le> charged_units doc k" "charged_units doc k \<le> i64_max"
  using json_get_i64_is_i64 [of doc k]
  by (cases "json_get_i64 doc k"; simp add: charged_units_def is_i64_def i64_bounds)+

lemma sku_component_eq:
  "sku_component sku usage uk pk =
     fixed_per_million_cost (charged_units usage uk) (charged_price sku pk) (sku_rounding_mode sku)"
  by (simp add: sku_component_def token_component_cost_def Let_def charged_units_def charged_price_def)

text \<open>The exact value of a component, in millionths of a unit.\<close>

definition exact_component :: "pricing_sku \<Rightarrow> json \<Rightarrow> string \<times> string \<Rightarrow> int" where
  "exact_component sku usage c = charged_units usage (fst c) * charged_price sku (snd c)"

definition price_components :: "(string \<times> string) list" where
  "price_components =
     [(''input_tokens'', ''input_per_million''), (''output_tokens'', ''output_per_million''),
      (''cache_read_tokens'', ''cache_read_per_million''),
      (''cache_write_tokens'', ''cache_write_per_million''),
      (''cache_write_5m_tokens'', ''cache_write_5m_per_million''),
      (''cache_write_1h_tokens'', ''cache_write_1h_per_million''),
      (''reasoning_tokens'', ''reasoning_per_million'')]"

definition flat_request_cost :: "pricing_sku \<Rightarrow> int" where
  "flat_request_cost sku = max (unwrap_or (json_get_i64 (sku_pricing_document sku) ''flat_request_cost'') 0) 0"

definition payload_total :: "json \<Rightarrow> i64" where
  "payload_total payload = unwrap_or (json_get_i64 payload ''total_cost'') 0"

lemma component_rounding:
  assumes "sku_component sku usage uk pk < i64_max"
  shows "(if sku_rounding_mode sku = ''floor_per_event''
     then 1000000 * sku_component sku usage uk pk \<le> exact_component sku usage (uk, pk) \<and>
       exact_component sku usage (uk, pk) < 1000000 * sku_component sku usage uk pk + 1000000
     else exact_component sku usage (uk, pk) \<le> 1000000 * sku_component sku usage uk pk \<and>
       1000000 * sku_component sku usage uk pk < exact_component sku usage (uk, pk) + 1000000)"
proof -
  let ?x = "charged_units usage uk * charged_price sku pk"
  have q: "1000000 * (?x div 1000000) \<le> ?x" "?x < 1000000 * (?x div 1000000) + 1000000"
    "?x \<le> 1000000 * ((?x + 999999) div 1000000)" "1000000 * ((?x + 999999) div 1000000) < ?x + 1000000"
    by linarith+
  have c: "sku_component sku usage uk pk = min i64_max (if sku_rounding_mode sku = ''floor_per_event''
      then ?x div 1000000 else (?x + 999999) div 1000000)"
    unfolding sku_component_eq charged_price_def by (rule fixed_per_million_cost_eq) (rule charged_bounds)+
  show ?thesis using assms q unfolding c exact_component_def by (simp split: if_splits)
qed

lemma component_nonneg: "0 \<le> sku_component sku usage uk pk \<and> sku_component sku usage uk pk \<le> i64_max"
  unfolding sku_component_eq charged_price_def by (rule fixed_per_million_cost_bounds) (rule charged_bounds)+

lemma saturating_add_caps:
  "0 \<le> a \<Longrightarrow> 0 \<le> b \<Longrightarrow> saturating_add a b = min i64_max (a + b)"
  "0 \<le> a \<Longrightarrow> 0 \<le> b \<Longrightarrow> saturating_add (min i64_max a) b = min i64_max (a + b)"
  "0 \<le> a \<Longrightarrow> 0 \<le> b \<Longrightarrow> saturating_add (min i64_max a) (min i64_max b) = min i64_max (a + b)"
  by (simp_all add: saturating_add_def i64_bounds)

lemma total_cost_eq:
  "payload_total (cost_payload_from_pricing_sku sku usage) =
     min i64_max (sum_list (map (\<lambda>(uk, pk). sku_component sku usage uk pk) price_components) +
       flat_request_cost sku)"
proof -
  have flat: "0 \<le> flat_request_cost sku" by (simp add: flat_request_cost_def)
  note nn = component_nonneg [of sku usage, THEN conjunct1]
  obtain t where t: "json_get_i64 (cost_payload_from_pricing_sku sku usage) ''total_cost'' = Some t"
    and eq: "t = saturating_add (saturating_add (saturating_add (saturating_add (saturating_add (saturating_add
      (sku_component sku usage ''input_tokens'' ''input_per_million'')
      (sku_component sku usage ''output_tokens'' ''output_per_million''))
      (sku_component sku usage ''cache_read_tokens'' ''cache_read_per_million''))
      (saturating_add (saturating_add
        (sku_component sku usage ''cache_write_tokens'' ''cache_write_per_million'')
        (sku_component sku usage ''cache_write_5m_tokens'' ''cache_write_5m_per_million''))
        (sku_component sku usage ''cache_write_1h_tokens'' ''cache_write_1h_per_million'')))
      (sku_component sku usage ''reasoning_tokens'' ''reasoning_per_million'')) 0) (flat_request_cost sku)"
    by (simp add: cost_payload_from_pricing_sku_def Let_def json_get_i64_def saturating_add_is_i64
        flat_request_cost_def)
  have "t = min i64_max (sum_list (map (\<lambda>(uk, pk). sku_component sku usage uk pk) price_components) +
       flat_request_cost sku)"
    unfolding eq price_components_def using nn flat by (simp add: saturating_add_caps add_nonneg_nonneg)
  with t show ?thesis by (simp add: payload_total_def)
qed

lemma sum_list_bounds:
  fixes f g :: "'a \<Rightarrow> int"
  assumes "\<And>x. x \<in> set xs \<Longrightarrow> f x \<le> g x \<and> g x < f x + d" and "0 < d"
  shows "sum_list (map f xs) \<le> sum_list (map g xs) \<and>
    sum_list (map g xs) \<le> sum_list (map f xs) + d * int (length xs)"
  using assms
proof (induction xs)
  case Nil
  then show ?case by simp
next
  case (Cons x xs)
  have "f x \<le> g x \<and> g x < f x + d" using Cons.prems(1) by simp
  moreover have "sum_list (map f xs) \<le> sum_list (map g xs) \<and>
    sum_list (map g xs) \<le> sum_list (map f xs) + d * int (length xs)"
    using Cons.prems by (intro Cons.IH) auto
  ultimately show ?case by (simp add: algebra_simps)
qed

lemma components_below_total:
  assumes "payload_total (cost_payload_from_pricing_sku sku usage) < i64_max"
    and "(uk, pk) \<in> set price_components"
  shows "sku_component sku usage uk pk < i64_max"
proof -
  have "sku_component sku usage uk pk \<le>
      sum_list (map (\<lambda>(uk, pk). sku_component sku usage uk pk) price_components)"
    using assms(2) component_nonneg by (intro member_le_sum_list) force+
  moreover have "0 \<le> flat_request_cost sku" by (simp add: flat_request_cost_def)
  ultimately show ?thesis using assms(1) unfolding total_cost_eq by linarith
qed


definition sample_sku :: "string \<Rightarrow> string list \<Rightarrow> pricing_sku" where
  "sample_sku i patterns =
     \<lparr>sku_pricing_sku_id = i, sku_tenant_id = ''t1'', sku_organization_id = None, sku_name = i,
      sku_currency = ''USD'', sku_unit = ''micro_usd'', sku_model_id_patterns = patterns,
      sku_provider_endpoint_patterns = [],
      sku_pricing_document = JObject [(''tokens'', JObject [(''input_per_million'', JInt 3000),
        (''output_per_million'', JInt 15000)])],
      sku_pricing_version = 1, sku_effective_from = 0, sku_effective_until = None, sku_is_preset = False,
      sku_status = ResActive, sku_resource_version = 1, sku_schema_version = 1, sku_created_by = ''u1'',
      sku_created_at = 0, sku_updated_at = 0\<rparr>"

definition sample_usage :: json where
  "sample_usage = fst (normalized_usage_payload AnthropicMessages (JObject [(''usage'',
     JObject [(''input_tokens'', JInt 1000), (''output_tokens'', JInt 100)])]))"


text \<open>
  Without a pinned SKU the price is the most specific one: the SKU that is resolved is available
  to the actor at the end of the request and matches the model and the endpoint, no other such SKU
  of the tenant has more specific patterns, and among equally specific ones its name is first. If
  no SKU is resolved, no SKU of the tenant is available and matches, and the event is unpriced with
  cost zero.
\<close>

theorem price_most_specific:
  "case resolve_runtime_pricing_sku skus actor model endpoint None now of
     Some sku \<Rightarrow> sku \<in> set skus \<and> runtime_pricing_sku_is_available sku actor now \<and>
       pricing_sku_matches sku model endpoint \<and>
       (\<forall>other \<in> set skus. runtime_pricing_sku_is_available other actor now \<and>
          pricing_sku_matches other model endpoint \<longrightarrow>
          pricing_sku_specificity other \<le> pricing_sku_specificity sku \<and>
          (pricing_sku_specificity other = pricing_sku_specificity sku \<longrightarrow> sku_name sku \<le> sku_name other))
   | None \<Rightarrow> (\<forall>other \<in> set skus. runtime_pricing_sku_is_available other actor now \<longrightarrow>
        \<not> pricing_sku_matches other model endpoint) \<and>
      payload_total (runtime_cost_payload skus actor model endpoint None now usage) = 0"
proof -
  let ?f = "\<lambda>sku. (- int (pricing_sku_specificity sku), sku_name sku, sku_pricing_sku_id sku)"
  let ?c = "filter (\<lambda>sku. runtime_pricing_sku_is_available sku actor now \<and> pricing_sku_matches sku model endpoint)
      (pricing_skus_for_tenant skus (actor_tenant_id actor))"
  have res: "resolve_runtime_pricing_sku skus actor model endpoint None now = first_min ?f ?c"
    by (simp add: resolve_runtime_pricing_sku_def)
  have cand: "sku \<in> set ?c \<longleftrightarrow> sku \<in> set skus \<and> runtime_pricing_sku_is_available sku actor now \<and>
      pricing_sku_matches sku model endpoint" for sku
    by (auto simp: pricing_skus_for_tenant_def runtime_pricing_sku_is_available_def)
  show ?thesis
  proof (cases "first_min ?f ?c")
    case None
    then have "set ?c = {}" by simp
    then have "\<forall>other \<in> set skus. runtime_pricing_sku_is_available other actor now \<longrightarrow>
        \<not> pricing_sku_matches other model endpoint" using cand by (metis empty_iff)
    moreover have "payload_total unpriced_cost_payload = 0" by code_simp
    ultimately show ?thesis using None by (simp add: res runtime_cost_payload_def)
  next
    case (Some sku)
    have "sku \<in> set ?c" by (rule first_min_SomeD [OF Some, THEN conjunct1])
    moreover have least: "\<forall>other \<in> set ?c. ?f sku \<le> ?f other"
      by (rule first_min_SomeD [OF Some, THEN conjunct2])
    moreover have "pricing_sku_specificity other \<le> pricing_sku_specificity sku \<and>
        (pricing_sku_specificity other = pricing_sku_specificity sku \<longrightarrow> sku_name sku \<le> sku_name other)"
      if "other \<in> set ?c" for other
      using bspec [OF least that] by (auto simp: less_eq_prod_def less_prod_def)
    ultimately show ?thesis using Some cand unfolding res by simp
  qed
qed

theorem price_most_specific_witness:
  "map_option sku_pricing_sku_id (resolve_runtime_pricing_sku
     [sample_sku ''s1'' [''claude-*''], sample_sku ''s2'' [''claude-sonnet'']]
     (actor_for_user_session \<lparr>scope_tenant_id = ''t1'', scope_organization_id = None, scope_project_id = None\<rparr>
        ''u1'' ''sess'' ''req'' ''trace'' None) ''claude-sonnet'' ''pe1'' None 5) = Some ''s2'' \<and>
   pricing_sku_specificity (sample_sku ''s1'' [''claude-*'']) \<le> pricing_sku_specificity (sample_sku ''s2'' [''claude-sonnet''])"
proof -
  let ?a = "actor_for_user_session \<lparr>scope_tenant_id = ''t1'', scope_organization_id = None, scope_project_id = None\<rparr>
        ''u1'' ''sess'' ''req'' ''trace'' None"
  let ?skus = "[sample_sku ''s1'' [''claude-*''], sample_sku ''s2'' [''claude-sonnet'']]"
  have r: "resolve_runtime_pricing_sku ?skus ?a ''claude-sonnet'' ''pe1'' None 5 = Some (?skus ! 1)" by code_simp
  have "runtime_pricing_sku_is_available (?skus ! 0) ?a 5" "pricing_sku_matches (?skus ! 0) ''claude-sonnet'' ''pe1''"
    by code_simp+
  with price_most_specific [where skus = ?skus and actor = ?a and model = "''claude-sonnet''"
      and endpoint = "''pe1''" and now = 5 and usage = JNull] r
  show ?thesis by (simp add: sample_sku_def)
qed


subsection \<open>What the accounting misses\<close>

text \<open>
  Token usage of the OpenAI Chat protocol is not read. A response whose usage has the fields of
  that protocol, \<open>prompt_tokens\<close>, \<open>completion_tokens\<close> and \<open>total_tokens\<close>, is normalised to zero input and
  zero output tokens under the confidence \<open>exact\<close>; only the total is kept. Every price per token
  then gives cost zero.
\<close>

theorem chat_tokens_unread:
  assumes "is_i64 p" and "is_i64 c" and "is_i64 n"
  shows "let body = JObject [(''usage'', JObject [(''prompt_tokens'', JInt p), (''completion_tokens'', JInt c),
       (''total_tokens'', JInt n)])]; usage = fst (normalized_usage_payload OpenAiChat body) in
    snd (normalized_usage_payload OpenAiChat body) = ''exact'' \<and>
    usage_payload_i64 usage ''input_tokens'' = 0 \<and> usage_payload_i64 usage ''output_tokens'' = 0 \<and>
    terminal_usage_token_count usage = n \<and>
    payload_total (cost_payload_from_pricing_sku sku usage) = flat_request_cost sku"
proof -
  let ?body = "JObject [(''usage'', JObject [(''prompt_tokens'', JInt p), (''completion_tokens'', JInt c),
       (''total_tokens'', JInt n)])]"
  let ?usage = "fst (normalized_usage_payload OpenAiChat ?body)"
  have usage: "?usage = json_set empty_usage_payload ''total_tokens'' (JInt n)"
    "snd (normalized_usage_payload OpenAiChat ?body) = ''exact''"
    using assms by (simp_all add: normalized_usage_payload_def json_get_i64_def Let_def empty_usage_payload_def)
  have zero: "charged_units ?usage uk = 0" if "(uk, pk) \<in> set price_components" for uk pk
    using that unfolding usage
    by (auto simp: price_components_def empty_usage_payload_def charged_units_def json_get_i64_def is_i64_def
        i64_bounds)
  have "sku_component sku ?usage uk pk = 0" if "(uk, pk) \<in> set price_components" for uk pk
    unfolding sku_component_eq zero [OF that]
    by (simp add: fixed_per_million_cost_def i128_saturating_mul_def Let_def is_i64_def i64_bounds)
  then have "map (\<lambda>(uk, pk). sku_component sku ?usage uk pk) price_components =
      map (\<lambda>_. 0) price_components"
    by (intro map_cong) auto
  moreover have "flat_request_cost sku \<le> i64_max"
    using charged_bounds(2) [of "sku_pricing_document sku" "''flat_request_cost''"]
    by (simp add: flat_request_cost_def charged_units_def)
  ultimately have "payload_total (cost_payload_from_pricing_sku sku ?usage) = flat_request_cost sku"
    unfolding total_cost_eq by (simp add: price_components_def)
  moreover have "usage_payload_i64 ?usage ''input_tokens'' = 0" "usage_payload_i64 ?usage ''output_tokens'' = 0"
      "terminal_usage_token_count ?usage = n"
    using assms(3) unfolding usage
    by (simp_all add: usage_payload_i64_def terminal_usage_token_count_def empty_usage_payload_def
        json_get_i64_def is_i64_def i64_bounds)
  ultimately show ?thesis using usage(2) by (simp only: Let_def)
qed

theorem chat_tokens_unread_witness:
  "payload_total (cost_payload_from_pricing_sku (sample_sku ''s1'' [''*'']) (fst (normalized_usage_payload OpenAiChat
     (JObject [(''usage'', JObject [(''prompt_tokens'', JInt 1000000), (''completion_tokens'', JInt 500000),
       (''total_tokens'', JInt 1500000)])])))) = 0"
proof -
  have "is_i64 1000000" "is_i64 500000" "is_i64 1500000" by (simp_all add: is_i64_def i64_bounds)
  from chat_tokens_unread [OF this, of "sample_sku ''s1'' [''*'']"]
  show ?thesis by (simp add: Let_def flat_request_cost_def sample_sku_def json_get_i64_def)
qed

text \<open>
  Buckets do not separate currencies: a cost in one currency is added to a bucket that carries the
  code of another when the events agree in attribution and second.
\<close>

lemma bucket_mixes_currencies:
  "map (\<lambda>(k, b). (lb_currency_code b, lb_estimated_cost_micros b)) (filter (\<lambda>(k, b). lb_bucket_kind b = ''event'')
     (us_ledger_buckets (run_usage_events epoch_calendar bucket_ids
       [sample_event ''use_1'' ''req_1'' empty_usage_payload (sample_cost ''USD'' 30) 1000000000,
        sample_event ''use_2'' ''req_2'' empty_usage_payload (sample_cost ''EUR'' 12) 1500000000]
       empty_usage_store))) = [(''USD'', 42)]"
  by code_simp

text \<open>
  The specificity of a SKU counts the characters of all its patterns, not of the pattern that
  matched: a SKU that lists several broad patterns is preferred to one that names the model.
\<close>

lemma broad_sku_preferred:
  "map_option sku_pricing_sku_id (resolve_runtime_pricing_sku
     [sample_sku ''exact'' [''claude-sonnet''], sample_sku ''broad'' [''claude-*'', ''gpt-*'', ''gemini-*'']]
     (actor_for_user_session \<lparr>scope_tenant_id = ''t1'', scope_organization_id = None, scope_project_id = None\<rparr>
        ''u1'' ''sess'' ''req'' ''trace'' None) ''claude-sonnet'' ''pe1'' None 5) = Some ''broad''"
  by code_simp

text \<open>Prefix and suffix of a pattern may overlap in the value.\<close>

lemma pattern_overlap: "pricing_pattern_matches ''ab*ba'' ''aba''"
  by code_simp

end
