(* ===== verification/Gateway_Terminal_Properties.thy ===== *)
theory Gateway_Terminal_Properties
  imports Gateway_Terminal Gateway_Usage_Properties Gateway_Policy_Properties
begin

text \<open>
  Properties of the accounting of a request as a whole: thresholds are notified exactly when the
  ledger crosses them, a request id that a client repeats is metered once, and a failed ledger
  write keeps the reservations of its request.
\<close>

subsection \<open>Enqueueing\<close>

text \<open>A tenant has an event for a dedupe key; ids drawn for a key belong to that key.\<close>

definition has_key :: "string \<Rightarrow> notification_store \<Rightarrow> string \<Rightarrow> bool" where
  "has_key t n k \<longleftrightarrow> (\<exists>e \<in> set (ns_outbox n). ob_tenant_id e = t \<and> ob_dedupe_key e = k)"

definition ids_faithful :: "(string \<Rightarrow> string) \<Rightarrow> string \<Rightarrow> notification_store \<Rightarrow> bool" where
  "ids_faithful new_id t n \<longleftrightarrow>
     (\<forall>e \<in> set (ns_outbox n). \<forall>k. ob_id e = new_id k \<longrightarrow> ob_tenant_id e = t \<and> ob_dedupe_key e = k)"

definition same_directory :: "notification_store \<Rightarrow> notification_store \<Rightarrow> bool" where
  "same_directory n n' \<longleftrightarrow> ns_sinks n' = ns_sinks n \<and> ns_subscriptions n' = ns_subscriptions n"

lemma append_has_key:
  assumes "inj new_id" and "ids_faithful new_id t n" and "or_tenant_id r = t" and "or_dedupe_key r = k"
    and n'_def: "n' = snd (append_notification_outbox_event (new_id k) r now n)"
  shows "ids_faithful new_id t n' \<and> same_directory n n' \<and> (\<forall>k'. has_key t n' k' \<longleftrightarrow> has_key t n k' \<or> k' = k)"
proof (cases "has_key t n k")
  case True
  then obtain e where "find (\<lambda>e. ob_tenant_id e = or_tenant_id r \<and> ob_dedupe_key e = or_dedupe_key r) (ns_outbox n) = Some e"
    using assms(3,4) by (cases "find (\<lambda>e. ob_tenant_id e = or_tenant_id r \<and> ob_dedupe_key e = or_dedupe_key r) (ns_outbox n)")
      (auto simp: has_key_def find_None_iff)
  then have "n' = n" by (simp add: n'_def append_notification_outbox_event_def)
  with True assms(2) show ?thesis by (auto simp: same_directory_def)
next
  case False
  then have none: "find (\<lambda>e. ob_tenant_id e = or_tenant_id r \<and> ob_dedupe_key e = or_dedupe_key r) (ns_outbox n) = None"
    using assms(3,4) by (auto simp: has_key_def find_None_iff)
  have "filter (\<lambda>x. ob_id x \<noteq> new_id k) (ns_outbox n) = ns_outbox n"
    using assms(2) False by (auto simp: filter_id_conv ids_faithful_def has_key_def)
  then have n': "n' = n\<lparr>ns_outbox := ns_outbox n @ [new_outbox_event (new_id k) r now]\<rparr>"
    by (simp add: n'_def append_notification_outbox_event_def none Let_def)
  show ?thesis
    using assms(1-4) injD [OF assms(1)]
    by (auto simp: n' ids_faithful_def same_directory_def has_key_def new_outbox_event_def)
qed

text \<open>A subscription whose events have a live sink.\<close>

definition deliverable :: "notification_store \<Rightarrow> notification_subscription \<Rightarrow> bool" where
  "deliverable n b \<longleftrightarrow> is_some_and (ns_sinks n (sub_notification_sink_id b)) (\<lambda>k. sink_status k = ResActive)"

lemma enqueue_has_key:
  assumes "inj new_id" and "ids_faithful new_id (actor_tenant_id actor) n"
    and n'_def: "n' = enqueue_to_subscription (\<lambda>i. new_id (key_of i)) actor event_kind payload key_of now b n"
  shows "ids_faithful new_id (actor_tenant_id actor) n' \<and> same_directory n n' \<and>
    (\<forall>k. has_key (actor_tenant_id actor) n' k \<longleftrightarrow>
       has_key (actor_tenant_id actor) n k \<or> deliverable n b \<and> k = key_of (sub_id b))"
proof (cases "deliverable n b")
  case True
  then obtain sink where sink: "ns_sinks n (sub_notification_sink_id b) = Some sink" "sink_status sink = ResActive"
    by (auto simp: deliverable_def is_some_and_iff)
  show ?thesis
    using append_has_key [OF assms(1,2) _ _ refl, where k = "key_of (sub_id b)" and now = now] True
    by (simp add: n'_def enqueue_to_subscription_def sink)
next
  case False
  then have "n' = n"
    by (auto simp: n'_def enqueue_to_subscription_def deliverable_def is_some_and_def split: option.splits)
  with False assms(2) show ?thesis by (simp add: same_directory_def)
qed

lemma enqueue_fold_has_key:
  assumes "inj new_id" and "ids_faithful new_id (actor_tenant_id actor) n"
  shows "ids_faithful new_id (actor_tenant_id actor)
      (fold (enqueue_to_subscription (\<lambda>i. new_id (key_of i)) actor event_kind payload key_of now) bs n) \<and>
    same_directory n (fold (enqueue_to_subscription (\<lambda>i. new_id (key_of i)) actor event_kind payload key_of now) bs n) \<and>
    (\<forall>k. has_key (actor_tenant_id actor)
        (fold (enqueue_to_subscription (\<lambda>i. new_id (key_of i)) actor event_kind payload key_of now) bs n) k \<longleftrightarrow>
       has_key (actor_tenant_id actor) n k \<or> (\<exists>b \<in> set bs. deliverable n b \<and> k = key_of (sub_id b)))"
  using assms(2)
proof (induction bs arbitrary: n)
  case Nil
  then show ?case by (simp add: same_directory_def)
next
  case (Cons b bs)
  define n1 where "n1 = enqueue_to_subscription (\<lambda>i. new_id (key_of i)) actor event_kind payload key_of now b n"
  note one = enqueue_has_key [OF assms(1) Cons.prems n1_def]
  then have d: "deliverable n1 = deliverable n"
    by (auto simp: deliverable_def same_directory_def fun_eq_iff)
  from one Cons.IH [of n1] show ?case
    by (auto simp: n1_def [symmetric] d same_directory_def)
qed

subsection \<open>Thresholds\<close>

text \<open>A subscriber of a policy's threshold.\<close>

definition threshold_subscriber ::
  "notification_store \<Rightarrow> authenticated_actor \<Rightarrow> budget_policy \<Rightarrow> budget_threshold \<Rightarrow> notification_subscription \<Rightarrow> bool" where
  "threshold_subscriber n actor policy th b \<longleftrightarrow>
     b \<in> set (ns_subscriptions n) \<and> sub_tenant_id b = actor_tenant_id actor \<and> sub_status b = ResActive \<and>
     sub_event_family b = ''budget'' \<and>
     notification_subscription_filter_matches (sub_filter_document b) (bt_event_kind th)
       (bp_scope_kind policy) (bp_scope_id policy) \<and> deliverable n b"

lemma threshold_enqueue_has_key:
  assumes "inj (ae_new_outbox_id env)" and "ids_faithful (ae_new_outbox_id env) (actor_tenant_id actor) n"
    and n'_def: "n' = enqueue_runtime_budget_threshold_event env actor input policy th previous current n"
  shows "ids_faithful (ae_new_outbox_id env) (actor_tenant_id actor) n' \<and> same_directory n n' \<and>
    (\<forall>k. has_key (actor_tenant_id actor) n' k \<longleftrightarrow> has_key (actor_tenant_id actor) n k \<or>
      (\<exists>b. threshold_subscriber n actor policy th b \<and>
         k = threshold_dedupe_key (ae_calendar env) policy (ti_ended_at input) th (sub_id b)))"
proof -
  let ?bs = "filter (\<lambda>b. sub_status b = ResActive \<and> sub_event_family b = ''budget'' \<and>
      notification_subscription_filter_matches (sub_filter_document b) (bt_event_kind th)
        (bp_scope_kind policy) (bp_scope_id policy))
      (notification_subscriptions_for_tenant n (actor_tenant_id actor))"
  have mem: "b \<in> set ?bs \<and> deliverable n b \<longleftrightarrow> threshold_subscriber n actor policy th b" for b
    by (auto simp: threshold_subscriber_def notification_subscriptions_for_tenant_def)
  have subs: "(\<exists>b. threshold_subscriber n actor policy th b \<and> P b) \<longleftrightarrow> (\<exists>b \<in> set ?bs. deliverable n b \<and> P b)" for P
    using mem by blast
  show ?thesis
    unfolding n'_def enqueue_runtime_budget_threshold_event_def Let_def enqueue_to_subscribers_def subs
    by (rule enqueue_fold_has_key [OF assms(1,2)])
qed

text \<open>The kinds of threshold and their values are part of the key.\<close>

lemma threshold_cases:
  assumes "th \<in> set (runtime_budget_terminal_thresholds policy)"
  obtains v where "th = soft_limit_threshold v" | v where "th = hard_limit_threshold v"
    | v where "th = plain_threshold v"
  using assms by (auto simp: runtime_budget_terminal_thresholds_def split: option.splits)

lemmas threshold_defs = soft_limit_threshold_def hard_limit_threshold_def plain_threshold_def

lemma threshold_kind_no_colon:
  "th \<in> set (runtime_budget_terminal_thresholds policy) \<Longrightarrow> CHR '':'' \<notin> set (bt_threshold_kind th)"
  by (erule threshold_cases) (simp_all add: threshold_defs)

lemma int_no_colon: "CHR '':'' \<notin> set (int_to_string i)"
  by (auto dest!: int_to_string_chars)

lemma threshold_kind_event:
  "th \<in> set (runtime_budget_terminal_thresholds policy) \<Longrightarrow> th' \<in> set (runtime_budget_terminal_thresholds policy) \<Longrightarrow>
     bt_threshold_kind th = bt_threshold_kind th' \<Longrightarrow> bt_value th = bt_value th' \<Longrightarrow> th = th'"
  by (erule threshold_cases; erule threshold_cases) (simp_all add: threshold_defs)

lemma threshold_key_inject:
  assumes "th \<in> set (runtime_budget_terminal_thresholds policy)"
    and "th' \<in> set (runtime_budget_terminal_thresholds policy)"
    and "threshold_dedupe_key cal policy at th i = threshold_dedupe_key cal policy at th' i'"
  shows "th = th' \<and> i = i'"
proof -
  have "bt_threshold_kind th @ CHR '':'' # int_to_string (bt_value th) @ CHR '':'' # i =
      bt_threshold_kind th' @ CHR '':'' # int_to_string (bt_value th') @ CHR '':'' # i'"
    using assms(3) by (simp add: threshold_dedupe_key_def)
  then have "bt_threshold_kind th = bt_threshold_kind th'" "bt_value th = bt_value th'" "i = i'"
    using append_sep_eq [OF threshold_kind_no_colon [OF assms(1)] threshold_kind_no_colon [OF assms(2)]]
      append_sep_eq [OF int_no_colon int_no_colon] by auto
  with threshold_kind_event [OF assms(1,2)] show ?thesis by simp
qed


lemma threshold_subscriber_cong:
  "same_directory n n' \<Longrightarrow> threshold_subscriber n' actor policy th b = threshold_subscriber n actor policy th b"
  by (simp add: same_directory_def threshold_subscriber_def deliverable_def)

lemma threshold_fold_has_key:
  assumes "inj (ae_new_outbox_id env)" and "ids_faithful (ae_new_outbox_id env) (actor_tenant_id actor) n"
    and n'_def: "n' = fold (\<lambda>th n. if crossed th
      then enqueue_runtime_budget_threshold_event env actor input policy th previous current n else n) ths n"
  shows "ids_faithful (ae_new_outbox_id env) (actor_tenant_id actor) n' \<and> same_directory n n' \<and>
    (\<forall>k. has_key (actor_tenant_id actor) n' k \<longleftrightarrow> has_key (actor_tenant_id actor) n k \<or>
      (\<exists>th \<in> set ths. crossed th \<and> (\<exists>b. threshold_subscriber n actor policy th b \<and>
         k = threshold_dedupe_key (ae_calendar env) policy (ti_ended_at input) th (sub_id b))))"
  using assms(2) unfolding n'_def
proof (induction ths arbitrary: n)
  case Nil
  then show ?case by (simp add: same_directory_def)
next
  case (Cons th ths)
  define n1 where "n1 = (if crossed th
      then enqueue_runtime_budget_threshold_event env actor input policy th previous current n else n)"
  have one: "ids_faithful (ae_new_outbox_id env) (actor_tenant_id actor) n1 \<and> same_directory n n1 \<and>
    (\<forall>k. has_key (actor_tenant_id actor) n1 k \<longleftrightarrow> has_key (actor_tenant_id actor) n k \<or>
      crossed th \<and> (\<exists>b. threshold_subscriber n actor policy th b \<and>
         k = threshold_dedupe_key (ae_calendar env) policy (ti_ended_at input) th (sub_id b)))"
    using threshold_enqueue_has_key [OF assms(1) Cons.prems refl, of input policy th previous current] Cons.prems
    by (cases "crossed th") (simp_all add: n1_def same_directory_def)
  then have sub: "threshold_subscriber n1 actor policy = threshold_subscriber n actor policy"
    by (auto simp: threshold_subscriber_cong fun_eq_iff)
  from one Cons.IH [of n1] show ?case
    unfolding fold_simps o_def n1_def [symmetric] sub by (auto simp: same_directory_def)
qed


subsection \<open>A tenant to account for\<close>

definition budget_sink :: notification_sink where
  "budget_sink =
     \<lparr>sink_id = ''k1'', sink_tenant_id = ''t1'', sink_organization_id = None, sink_project_id = None,
      sink_name = ''out'', sink_kind = ''stdout'', sink_endpoint_config = JObject [],
      sink_signing_secret_ref_id = None, sink_status = ResActive, sink_resource_version = 1\<rparr>"

definition budget_subscription :: notification_subscription where
  "budget_subscription =
     \<lparr>sub_id = ''n1'', sub_tenant_id = ''t1'', sub_organization_id = None, sub_project_id = None,
      sub_notification_sink_id = ''k1'', sub_event_family = ''budget'', sub_filter_document = JNull,
      sub_status = ResActive, sub_resource_version = 1\<rparr>"

definition metered_budget :: budget_policy where
  "metered_budget = (request_budget ''b1'' 2)\<lparr>bp_soft_limit := Some 1\<rparr>"

definition accounting_demo_env :: "(usage_event \<Rightarrow> unit gateway_result) option \<Rightarrow> accounting_env" where
  "accounting_demo_env pg =
     \<lparr>ae_calendar = epoch_calendar,
      ae_admin = \<lparr>pa_budget_policies = [metered_budget], pa_ledger_buckets = [], pa_emergency_operations = []\<rparr>,
      ae_quotas = [slot_quota ''q1'' 1 ''fail_closed''], ae_skus = [], ae_memberships = Map.empty,
      ae_json_time = (\<lambda>_. JNull), ae_new_bucket_id = bucket_ids, ae_new_outbox_id = (\<lambda>k. k),
      ae_postgres_insert = pg\<rparr>"

definition accounting_demo_start :: accounting_state where
  "accounting_demo_start =
     \<lparr>ac_usage = empty_usage_store,
      ac_notifications = empty_notification_store\<lparr>ns_sinks := [''k1'' \<mapsto> budget_sink],
        ns_subscriptions := [budget_subscription]\<rparr>,
      ac_policy = empty_policy_store\<rparr>"

definition demo_selected :: selected_route_evidence where
  "demo_selected =
     \<lparr>sel_model_alias_id = ''ma1'', sel_route_policy_id = ''rp1'', sel_routing_group_id = ''rg1'',
      sel_model_target_id = ''mt1'', sel_provider_endpoint_id = ''pe1'', sel_upstream_credential_id = None,
      sel_filtered_summary = [], sel_sticky_hit = False, sel_sticky_miss_reason = None\<rparr>"

definition demo_input :: terminal_usage_input where
  "demo_input =
     \<lparr>ti_replay_case = \<lparr>rq_streaming = False, rq_protocol_family = AnthropicMessages\<rparr>,
      ti_route_decision_id = ''rd1'', ti_selected = demo_selected, ti_requested_model = ''m'',
      ti_upstream_model_id = ''m'', ti_pricing_sku_id = None,
      ti_response_protocol_family = AnthropicMessages,
      ti_response_body = JObject [(''usage'', JObject [(''input_tokens'', JInt 10), (''output_tokens'', JInt 5)])],
      ti_started_at = 0, ti_ended_at = 1000000000\<rparr>"

text \<open>The caller sends \<open>x-gateway-request-id: again\<close> with its \<open>n\<close>-th request.\<close>

definition demo_caller :: "string \<Rightarrow> authenticated_actor" where
  "demo_caller fresh = tenant_actor\<lparr>actor_request_id := request_id_from_headers (Some ''again'') fresh\<rparr>"

definition demo_request_ids :: "nat \<Rightarrow> request_ids" where
  "demo_request_ids n = \<lparr>ri_lease_id = (\<lambda>i. ''l'' @ nat_digits n @ ''_'' @ nat_digits i),
     ri_usage_id = ''use_'' @ nat_digits n, ri_release_time = (\<lambda>_. 0)\<rparr>"

definition demo_ingress ::
  "(usage_event \<Rightarrow> unit gateway_result) option \<Rightarrow> nat \<Rightarrow> accounting_state \<Rightarrow> unit gateway_result \<times> accounting_state" where
  "demo_ingress pg n st = model_ingress_accounting (accounting_demo_env pg) (demo_request_ids n)
     (demo_caller (''req_'' @ nat_digits n)) 10 0 None demo_input st"




subsection \<open>Repeated request ids\<close>

lemma terminal_event_ids:
  "ue_tenant_id (terminal_usage_event env i actor input) = actor_tenant_id actor"
  "ue_request_id (terminal_usage_event env i actor input) = actor_request_id actor"
  unfolding terminal_usage_event_def Let_def prod.case_eq_if by simp_all

lemma finalize_usage: "ac_usage (finalize_runtime_policy_terminal env actor input u c st) = ac_usage st"
  by (simp add: finalize_runtime_policy_terminal_def finalize_runtime_budget_terminal_def Let_def)

lemma record_terminal_usage:
  "ac_usage (snd (record_terminal_usage_event env i actor input st)) =
     record_usage_event (ae_calendar env) (ae_new_bucket_id env) (terminal_usage_event env i actor input) (ac_usage st)"
  by (simp add: record_terminal_usage_event_def Let_def finalize_usage split: sum.splits)

lemma ingress_usage:
  "ac_usage (snd (model_ingress_accounting env ids actor bytes now provider_error input st)) \<in>
     {ac_usage st, record_usage_event (ae_calendar env) (ae_new_bucket_id env)
        (terminal_usage_event env (ri_usage_id ids) actor input) (ac_usage st)}"
proof -
  let ?rec = "\<lambda>p. record_terminal_usage_event env (ri_usage_id ids) actor input (st\<lparr>ac_policy := p\<rparr>)"
  have "ac_usage (snd (?rec p)) = record_usage_event (ae_calendar env) (ae_new_bucket_id env)
        (terminal_usage_event env (ri_usage_id ids) actor input) (ac_usage st)" for p
    by (simp add: record_terminal_usage)
  then show ?thesis
    unfolding model_ingress_accounting_def
    by (auto split: prod.splits sum.splits option.splits) (metis snd_conv)+
qed

text \<open>
  C32. A caller chooses its request id, and a request id is metered once. A safe value of the header
  \<open>x-gateway-request-id\<close> becomes the request id of the caller; and once the tenant has a usage event
  with that id, no further request that carries it, whether it succeeds or not, adds a usage event
  or changes a ledger bucket, so the value of every budget stays what it is.
\<close>

theorem repeated_request_id_unmetered:
  assumes "is_safe_request_id v" and "actor_request_id actor = request_id_from_headers (Some v) fresh"
    and "e \<in> set (us_usage_events (ac_usage st))" and "ue_tenant_id e = actor_tenant_id actor"
    and "ue_request_id e = v"
  shows "ac_usage (snd (model_ingress_accounting env ids actor bytes now provider_error input st)) = ac_usage st"
proof -
  have "actor_request_id actor = v" using assms(1,2) by (simp add: request_id_from_headers_def)
  with assms(3-5) have "same_usage_event e (terminal_usage_event env (ri_usage_id ids) actor input)"
    by (simp add: same_usage_event_def terminal_event_ids)
  with assms(3) have "record_usage_event (ae_calendar env) (ae_new_bucket_id env)
      (terminal_usage_event env (ri_usage_id ids) actor input) (ac_usage st) = ac_usage st"
    by (auto simp: record_usage_event_def list_ex_iff)
  with ingress_usage [of env ids actor bytes now provider_error input st] show ?thesis by simp
qed

text \<open>After two requests of the same caller the ledger counts one.\<close>

theorem repeated_request_id_unmetered_witness:
  "let r1 = demo_ingress None 1 accounting_demo_start; r2 = demo_ingress None 2 (snd r1) in
   fst r1 = Inr () \<and> ac_usage (snd r2) = ac_usage (snd r1) \<and>
   length (us_usage_events (ac_usage (snd r2))) = 1"
proof -
  let ?r1 = "demo_ingress None 1 accounting_demo_start"
  let ?r2 = "demo_ingress None 2 (snd ?r1)"
  have ok: "fst ?r1 = Inr ()" by code_simp
  have one: "length (us_usage_events (ac_usage (snd ?r1))) = 1" by code_simp
  have ev: "ue_tenant_id (hd (us_usage_events (ac_usage (snd ?r1)))) = ''t1''"
    "ue_request_id (hd (us_usage_events (ac_usage (snd ?r1)))) = ''again''" by code_simp+
  have mem: "hd (us_usage_events (ac_usage (snd ?r1))) \<in> set (us_usage_events (ac_usage (snd ?r1)))"
    using one by (intro hd_in_set) auto
  have safe: "is_safe_request_id ''again''" by code_simp
  have caller: "actor_request_id (demo_caller f) = request_id_from_headers (Some ''again'') f"
    "actor_tenant_id (demo_caller f) = ''t1''" for f
    by (simp_all add: demo_caller_def tenant_actor_def actor_for_user_session_def)
  have u2: "ac_usage (snd ?r2) = ac_usage (snd ?r1)"
    unfolding demo_ingress_def [of None 2]
    using repeated_request_id_unmetered [OF safe caller(1) mem] ev caller(2) by simp
  with ok u2 one show ?thesis by (simp add: Let_def)
qed

subsection \<open>Failed writes\<close>

text \<open>
  When the write of the usage event to PostgreSQL fails, the request returns the error before the
  release of its reservations: the slot of the concurrency quota and the budget counter stay
  taken.
\<close>

lemma failed_ledger_write_keeps_reservations:
  "let r1 = demo_ingress (Some (\<lambda>_. Inl (Internal ''db''))) 1 accounting_demo_start in
   fst r1 = Inl (Internal ''db'') \<and>
   runtime_policy_counter (ac_policy (snd r1)) (runtime_quota_counter_key (slot_quota ''q1'' 1 ''fail_closed'') 0) = 1 \<and>
   runtime_policy_counter (ac_policy (snd r1)) (budget_key ''b1'') = 1"
  by code_simp

end
