(* ===== verification/Gateway_Route_Table.thy ===== *)
theory Gateway_Route_Table
  imports Gateway_Authorization
begin

text \<open>
  The canonical route matrix (\<open>crates/starweaver-gateway/src/route.rs\<close>): for every method and path
  pattern the required action, the resource kind, whether API keys are accepted and whether strong
  authentication is required. The constant \<open>FOUNDATION_ROUTES\<close> is split into seventeen consecutive
  parts here; \<open>route_row\<close> takes the fields of a \<open>RouteMetadata\<close> in the order of the source.
\<close>

subsection \<open>Route metadata\<close>

text \<open>The methods of the \<open>http\<close> crate that the table and the mutation check name.\<close>

datatype http_method = GET | POST | PUT | PATCH | DELETE

fun method_as_str :: "http_method \<Rightarrow> string" where
  "method_as_str GET = ''GET''"
| "method_as_str POST = ''POST''"
| "method_as_str PUT = ''PUT''"
| "method_as_str PATCH = ''PATCH''"
| "method_as_str DELETE = ''DELETE''"

record route_metadata =
  rm_method :: http_method
  rm_path_pattern :: string
  rm_protocol_family :: "protocol_family option"
  rm_action :: gateway_action
  rm_resource_kind :: string
  rm_scope_params :: "string list"
  rm_allow_api_key :: bool
  rm_strong_auth_required :: bool
  rm_audit_event_type :: string

definition actor_constraint_denial :: "route_metadata \<Rightarrow> authenticated_actor \<Rightarrow> string option" where
  "actor_constraint_denial route actor =
     (if actor_api_key_id actor \<noteq> None \<and> \<not> rm_allow_api_key route
      then Some ''api_key_not_allowed_for_route''
      else if rm_strong_auth_required route \<and> actor_auth_strength actor < 80
      then Some ''strong_auth_required''
      else None)"

definition route_resource :: "route_metadata \<Rightarrow> string \<Rightarrow> resource_ref" where
  "route_resource route i = \<lparr>rr_kind = rm_resource_kind route, rr_id = i\<rparr>"

text \<open>The id of the decision record is drawn by \<open>new_prefixed_id\<close>.\<close>

definition authorize_route_with_evidence ::
  "route_metadata \<Rightarrow> (authorization_request \<Rightarrow> authorization_decision) \<Rightarrow>
   authorization_decision_record list \<Rightarrow> string \<Rightarrow> authenticated_actor \<Rightarrow> string \<Rightarrow> string option \<Rightarrow> datetime \<Rightarrow>
   authorization_decision \<times> authorization_decision_record list" where
  "authorize_route_with_evidence route engine sink new_id actor resource_id policy_snapshot_id occurred_at =
     (let request = \<lparr>areq_actor = actor, areq_action = rm_action route,
                     areq_resource = route_resource route resource_id\<rparr>;
          decision = (case actor_constraint_denial route actor of
                        None \<Rightarrow> engine request
                      | Some reason \<Rightarrow> decision_deny reason) in
      (decision, record_authorization_decision sink
         (from_decision new_id request decision policy_snapshot_id occurred_at)))"

subsection \<open>The table\<close>

definition route_row ::
  "http_method \<Rightarrow> string \<Rightarrow> protocol_family option \<Rightarrow> gateway_action \<Rightarrow> string \<Rightarrow> string list \<Rightarrow> bool \<Rightarrow> bool \<Rightarrow>
   string \<Rightarrow> route_metadata" where
  "route_row method path_pattern protocol_family action resource_kind scope_params allow_api_key
     strong_auth_required audit_event_type =
     \<lparr>rm_method = method, rm_path_pattern = path_pattern, rm_protocol_family = protocol_family,
      rm_action = action, rm_resource_kind = resource_kind, rm_scope_params = scope_params,
      rm_allow_api_key = allow_api_key, rm_strong_auth_required = strong_auth_required,
      rm_audit_event_type = audit_event_type\<rparr>"

definition foundation_routes_1 :: "route_metadata list" where
  "foundation_routes_1 =
    [route_row POST ''/v1/responses'' (Some OpenAiResponses)
       (Runtime ModelInvoke) ''ModelAlias''
       [''model''] True False ''gateway.model.invoke'',
     route_row POST ''/v1/chat/completions'' (Some OpenAiChat)
       (Runtime ModelStream) ''ModelAlias''
       [''model''] True False ''gateway.model.stream'',
     route_row POST ''/v1/messages'' (Some AnthropicMessages)
       (Runtime ModelInvoke) ''ModelAlias''
       [''model''] True False ''gateway.model.invoke'',
     route_row POST ''/v1beta/models/{model}:generateContent'' (Some GeminiGenerateContent)
       (Runtime ModelInvoke) ''ModelAlias''
       [''model''] True False ''gateway.model.invoke'',
     route_row POST ''/model/{model}/converse'' (Some BedrockConverse)
       (Runtime ModelInvoke) ''ModelAlias''
       [''model''] True False ''gateway.model.invoke'',
     route_row POST ''/native/{provider}/{operation}'' (Some ProviderNative)
       (Runtime ModelNative) ''ProviderNativeEndpoint''
       [''provider'', ''operation''] True False ''gateway.model.native'',
     route_row GET ''/admin/v1/config/snapshots'' None
       (Control ConfigRead) ''ConfigSnapshot''
       [''tenant_id''] True False ''gateway.config.read'',
     route_row GET ''/admin/v1/config/snapshots/{snapshot_id}'' None
       (Control ConfigRead) ''ConfigSnapshot''
       [''tenant_id'', ''snapshot_id''] True False ''gateway.config.read'',
     route_row POST ''/admin/v1/config/snapshots:validate'' None
       (Control ConfigRead) ''ConfigSnapshot''
       [''tenant_id''] True False ''gateway.config.validate'',
     route_row GET ''/admin/v1/config/validation-diagnostics'' None
       (Control ConfigRead) ''ConfigSnapshot''
       [''tenant_id''] True False ''gateway.config.validation_diagnostic.read'',
     route_row GET ''/admin/v1/catalog-imports'' None
       (Control CatalogImportRead) ''CatalogImport''
       [''tenant_id''] True False ''gateway.catalog_import.read'',
     route_row POST ''/admin/v1/catalog-imports'' None
       (Control CatalogImportCreate) ''CatalogImport''
       [''tenant_id''] True False ''gateway.catalog_import.create'',
     route_row POST ''/admin/v1/catalog-imports:validate'' None
       (Control CatalogImportRead) ''CatalogImport''
       [''tenant_id''] True False ''gateway.catalog_import.validate'']"

definition foundation_routes_2 :: "route_metadata list" where
  "foundation_routes_2 =
    [route_row GET ''/admin/v1/catalog-imports/{catalog_import_id}'' None
       (Control CatalogImportRead) ''CatalogImport''
       [''tenant_id'', ''catalog_import_id''] True False ''gateway.catalog_import.read'',
     route_row POST ''/admin/v1/route-simulations'' None
       (Control RouteSimulationRun) ''RouteSimulation''
       [''tenant_id'', ''alias_name'', ''protocol_family''] True False ''gateway.route_simulation.run'',
     route_row GET ''/admin/v1/route-decisions'' None
       (Runtime RouteDebugRead) ''RouteDecision''
       [''tenant_id''] False True ''gateway.route_decision.read'',
     route_row GET ''/admin/v1/route-decisions/{route_decision_id}'' None
       (Runtime RouteDebugRead) ''RouteDecision''
       [''tenant_id'', ''route_decision_id''] False True ''gateway.route_decision.read'',
     route_row GET ''/admin/v1/route-attempts'' None
       (Runtime RouteDebugRead) ''RouteDecision''
       [''tenant_id''] False True ''gateway.route_attempt.read'',
     route_row GET ''/admin/v1/route-attempts/{route_attempt_event_id}'' None
       (Runtime RouteDebugRead) ''RouteDecision''
       [''tenant_id'', ''route_attempt_event_id''] False True ''gateway.route_attempt.read'',
     route_row GET ''/admin/v1/audit/events'' None
       (Runtime AuditRead) ''AuditEvent''
       [''tenant_id''] False True ''gateway.audit.read'',
     route_row POST ''/admin/v1/config/snapshots:publish'' None
       (Control ConfigPublish) ''ConfigSnapshot''
       [''tenant_id''] False True ''gateway.config.publish'',
     route_row POST ''/admin/v1/config/snapshots:rollback'' None
       (Control ConfigRollback) ''ConfigSnapshot''
       [''tenant_id'', ''source_snapshot_id''] False True ''gateway.config.rollback'',
     route_row GET ''/admin/v1/projects'' None
       (Directory ProjectRead) ''Project''
       [''tenant_id''] True False ''gateway.project.read'',
     route_row GET ''/admin/v1/projects/{project_id}'' None
       (Directory ProjectRead) ''Project''
       [''tenant_id'', ''project_id''] True False ''gateway.project.read'',
     route_row PATCH ''/admin/v1/projects/{project_id}'' None
       (Directory ProjectWrite) ''Project''
       [''tenant_id'', ''project_id''] True False ''gateway.project.update'',
     route_row GET ''/admin/v1/organizations'' None
       (Directory OrganizationRead) ''Organization''
       [''tenant_id''] True False ''gateway.organization.read'']"

definition foundation_routes_3 :: "route_metadata list" where
  "foundation_routes_3 =
    [route_row GET ''/admin/v1/organizations/{organization_id}'' None
       (Directory OrganizationRead) ''Organization''
       [''tenant_id'', ''organization_id''] True False ''gateway.organization.read'',
     route_row PATCH ''/admin/v1/organizations/{organization_id}'' None
       (Directory OrganizationWrite) ''Organization''
       [''tenant_id'', ''organization_id''] True False ''gateway.organization.update'',
     route_row GET ''/admin/v1/organizations/{organization_id}/members'' None
       (Directory OrganizationMemberRead) ''OrganizationMember''
       [''tenant_id'', ''organization_id''] True False ''gateway.organization_member.read'',
     route_row GET ''/admin/v1/organizations/{organization_id}/members/{organization_member_id}'' None
       (Directory OrganizationMemberRead) ''OrganizationMember''
       [''tenant_id'', ''organization_id'', ''organization_member_id''] True False ''gateway.organization_member.read'',
     route_row PATCH ''/admin/v1/organizations/{organization_id}/members/{organization_member_id}'' None
       (Directory OrganizationMemberWrite) ''OrganizationMember''
       [''tenant_id'', ''organization_id'', ''organization_member_id''] True False ''gateway.organization_member.update'',
     route_row GET ''/admin/v1/projects/{project_id}/members'' None
       (Directory ProjectMemberRead) ''ProjectMember''
       [''tenant_id'', ''project_id''] True False ''gateway.project_member.read'',
     route_row POST ''/admin/v1/projects/{project_id}/members'' None
       (Directory ProjectMemberWrite) ''ProjectMember''
       [''tenant_id'', ''project_id''] False True ''gateway.project_member.create'',
     route_row GET ''/admin/v1/projects/{project_id}/members/{project_member_id}'' None
       (Directory ProjectMemberRead) ''ProjectMember''
       [''tenant_id'', ''project_id'', ''project_member_id''] True False ''gateway.project_member.read'',
     route_row PATCH ''/admin/v1/projects/{project_id}/members/{project_member_id}'' None
       (Directory ProjectMemberWrite) ''ProjectMember''
       [''tenant_id'', ''project_id'', ''project_member_id''] True False ''gateway.project_member.update'',
     route_row GET ''/admin/v1/service-accounts'' None
       (Directory ServiceAccountRead) ''ServiceAccount''
       [''tenant_id''] True False ''gateway.service_account.read'',
     route_row POST ''/admin/v1/service-accounts'' None
       (Directory ServiceAccountWrite) ''ServiceAccount''
       [''tenant_id''] True False ''gateway.service_account.create'']"

definition foundation_routes_4 :: "route_metadata list" where
  "foundation_routes_4 =
    [route_row GET ''/admin/v1/service-accounts/{service_account_id}'' None
       (Directory ServiceAccountRead) ''ServiceAccount''
       [''tenant_id'', ''service_account_id''] True False ''gateway.service_account.read'',
     route_row PATCH ''/admin/v1/service-accounts/{service_account_id}'' None
       (Directory ServiceAccountWrite) ''ServiceAccount''
       [''tenant_id'', ''service_account_id''] True False ''gateway.service_account.update'',
     route_row GET ''/admin/v1/api-keys'' None
       (Control ApiKeyRead) ''ApiKey''
       [''tenant_id''] False True ''gateway.api_key.read'',
     route_row POST ''/admin/v1/api-keys'' None
       (Control ApiKeyCreate) ''ApiKey''
       [''tenant_id''] False True ''gateway.api_key.create'',
     route_row GET ''/admin/v1/api-keys/{api_key_id}'' None
       (Control ApiKeyRead) ''ApiKey''
       [''tenant_id'', ''api_key_id''] False True ''gateway.api_key.read'',
     route_row POST ''/admin/v1/api-keys/{api_key_id}/rotate'' None
       (Control ApiKeyRotate) ''ApiKey''
       [''tenant_id'', ''api_key_id''] False True ''gateway.api_key.rotate'',
     route_row POST ''/admin/v1/api-keys/{api_key_id}/disable'' None
       (Control ApiKeyDisable) ''ApiKey''
       [''tenant_id'', ''api_key_id''] False True ''gateway.api_key.disable'',
     route_row GET ''/admin/v1/provider-endpoints'' None
       (Provider ProviderEndpointRead) ''ProviderEndpoint''
       [''tenant_id''] True False ''gateway.provider_endpoint.read'',
     route_row POST ''/admin/v1/provider-endpoints'' None
       (Provider ProviderEndpointWrite) ''ProviderEndpoint''
       [''tenant_id''] True False ''gateway.provider_endpoint.create'',
     route_row POST ''/admin/v1/provider-endpoints:validate'' None
       (Provider ProviderEndpointRead) ''ProviderEndpoint''
       [''tenant_id''] True False ''gateway.provider_endpoint.validate'',
     route_row GET ''/admin/v1/provider-endpoints/{provider_endpoint_id}'' None
       (Provider ProviderEndpointRead) ''ProviderEndpoint''
       [''tenant_id'', ''provider_endpoint_id''] True False ''gateway.provider_endpoint.read'',
     route_row PATCH ''/admin/v1/provider-endpoints/{provider_endpoint_id}'' None
       (Provider ProviderEndpointWrite) ''ProviderEndpoint''
       [''tenant_id'', ''provider_endpoint_id''] True False ''gateway.provider_endpoint.update'',
     route_row GET ''/admin/v1/upstream-credentials'' None
       (Provider UpstreamCredentialRead) ''UpstreamCredential''
       [''tenant_id''] True False ''gateway.upstream_credential.read'']"

definition foundation_routes_5 :: "route_metadata list" where
  "foundation_routes_5 =
    [route_row POST ''/admin/v1/upstream-credentials'' None
       (Provider UpstreamCredentialWrite) ''UpstreamCredential''
       [''tenant_id''] True False ''gateway.upstream_credential.create'',
     route_row POST ''/admin/v1/upstream-credentials:validate'' None
       (Provider UpstreamCredentialRead) ''UpstreamCredential''
       [''tenant_id''] True False ''gateway.upstream_credential.validate'',
     route_row GET ''/admin/v1/upstream-credentials/{upstream_credential_id}'' None
       (Provider UpstreamCredentialRead) ''UpstreamCredential''
       [''tenant_id'', ''upstream_credential_id''] True False ''gateway.upstream_credential.read'',
     route_row PATCH ''/admin/v1/upstream-credentials/{upstream_credential_id}'' None
       (Provider UpstreamCredentialWrite) ''UpstreamCredential''
       [''tenant_id'', ''upstream_credential_id''] True False ''gateway.upstream_credential.update'',
     route_row GET ''/admin/v1/codex/oauth/connections'' None
       (Provider CodexOAuthConnectionRead) ''CodexOAuthConnection''
       [''tenant_id''] False True ''gateway.codex_oauth_connection.read'',
     route_row POST ''/admin/v1/codex/oauth/connections'' None
       (Provider CodexOAuthConnectionWrite) ''CodexOAuthConnection''
       [''tenant_id''] False True ''gateway.codex_oauth_connection.create'',
     route_row GET ''/admin/v1/codex/oauth/connections/{codex_oauth_connection_id}'' None
       (Provider CodexOAuthConnectionRead) ''CodexOAuthConnection''
       [''tenant_id'', ''codex_oauth_connection_id''] False True ''gateway.codex_oauth_connection.read'',
     route_row PATCH ''/admin/v1/codex/oauth/connections/{codex_oauth_connection_id}'' None
       (Provider CodexOAuthConnectionWrite) ''CodexOAuthConnection''
       [''tenant_id'', ''codex_oauth_connection_id''] False True ''gateway.codex_oauth_connection.update'',
     route_row GET ''/admin/v1/codex/oauth/connections/{codex_oauth_connection_id}/sessions'' None
       (Provider CodexOAuthSessionRead) ''CodexOAuthSession''
       [''tenant_id'', ''codex_oauth_connection_id''] False True ''gateway.codex_oauth_session.read'',
     route_row POST ''/admin/v1/codex/oauth/connections/{codex_oauth_connection_id}/sessions'' None
       (Provider CodexOAuthSessionStart) ''CodexOAuthSession''
       [''tenant_id'', ''codex_oauth_connection_id''] False True ''gateway.codex_oauth_session.start'',
     route_row GET ''/admin/v1/codex/oauth/sessions/{codex_oauth_session_id}'' None
       (Provider CodexOAuthSessionRead) ''CodexOAuthSession''
       [''tenant_id'', ''codex_oauth_session_id''] False True ''gateway.codex_oauth_session.read'']"

definition foundation_routes_6 :: "route_metadata list" where
  "foundation_routes_6 =
    [route_row POST ''/admin/v1/codex/oauth/sessions/{codex_oauth_session_id}/revoke'' None
       (Provider CodexOAuthSessionRevoke) ''CodexOAuthSession''
       [''tenant_id'', ''codex_oauth_session_id''] False True ''gateway.codex_oauth_session.revoke'',
     route_row GET ''/admin/v1/codex/oauth/refresh-status/{codex_oauth_connection_id}'' None
       (Provider CodexOAuthRefreshRead) ''CodexOAuthRefreshStatus''
       [''tenant_id'', ''codex_oauth_connection_id''] False True ''gateway.codex_oauth_refresh.read'',
     route_row GET ''/admin/v1/secret-refs'' None
       (Provider SecretRefRead) ''SecretRef''
       [''tenant_id''] True False ''gateway.secret_ref.read'',
     route_row POST ''/admin/v1/secret-refs'' None
       (Provider SecretRefWrite) ''SecretRef''
       [''tenant_id''] True False ''gateway.secret_ref.create'',
     route_row GET ''/admin/v1/secret-refs/{secret_ref_id}'' None
       (Provider SecretRefRead) ''SecretRef''
       [''tenant_id'', ''secret_ref_id''] True False ''gateway.secret_ref.read'',
     route_row PATCH ''/admin/v1/secret-refs/{secret_ref_id}'' None
       (Provider SecretRefWrite) ''SecretRef''
       [''tenant_id'', ''secret_ref_id''] True False ''gateway.secret_ref.update'',
     route_row GET ''/admin/v1/secret-refs/{secret_ref_id}/locator'' None
       (Provider SecretRefLocatorRead) ''SecretRef''
       [''tenant_id'', ''secret_ref_id''] False True ''gateway.secret_ref.locator.read'',
     route_row POST ''/admin/v1/secret-refs/{secret_ref_id}/rotate'' None
       (Provider SecretRefWrite) ''SecretRef''
       [''tenant_id'', ''secret_ref_id''] False True ''gateway.secret_ref.rotate'',
     route_row GET ''/admin/v1/model-targets'' None
       (Catalog ModelTargetRead) ''ModelTarget''
       [''tenant_id''] True False ''gateway.model_target.read'',
     route_row POST ''/admin/v1/model-targets'' None
       (Catalog ModelTargetWrite) ''ModelTarget''
       [''tenant_id''] True False ''gateway.model_target.create'',
     route_row POST ''/admin/v1/model-targets:validate'' None
       (Catalog ModelTargetRead) ''ModelTarget''
       [''tenant_id''] True False ''gateway.model_target.validate'',
     route_row GET ''/admin/v1/model-targets/{model_target_id}'' None
       (Catalog ModelTargetRead) ''ModelTarget''
       [''tenant_id'', ''model_target_id''] True False ''gateway.model_target.read'']"

definition foundation_routes_7 :: "route_metadata list" where
  "foundation_routes_7 =
    [route_row PATCH ''/admin/v1/model-targets/{model_target_id}'' None
       (Catalog ModelTargetWrite) ''ModelTarget''
       [''tenant_id'', ''model_target_id''] True False ''gateway.model_target.update'',
     route_row GET ''/admin/v1/model-aliases'' None
       (Catalog ModelAliasRead) ''ModelAlias''
       [''tenant_id''] True False ''gateway.model_alias.read'',
     route_row POST ''/admin/v1/model-aliases'' None
       (Catalog ModelAliasWrite) ''ModelAlias''
       [''tenant_id''] True False ''gateway.model_alias.create'',
     route_row POST ''/admin/v1/model-aliases:validate'' None
       (Catalog ModelAliasRead) ''ModelAlias''
       [''tenant_id''] True False ''gateway.model_alias.validate'',
     route_row GET ''/admin/v1/model-aliases/{model_alias_id}'' None
       (Catalog ModelAliasRead) ''ModelAlias''
       [''tenant_id'', ''model_alias_id''] True False ''gateway.model_alias.read'',
     route_row PATCH ''/admin/v1/model-aliases/{model_alias_id}'' None
       (Catalog ModelAliasWrite) ''ModelAlias''
       [''tenant_id'', ''model_alias_id''] True False ''gateway.model_alias.update'',
     route_row GET ''/admin/v1/pricing-skus'' None
       (Catalog PricingSkuRead) ''PricingSku''
       [''tenant_id''] True False ''gateway.pricing_sku.read'',
     route_row POST ''/admin/v1/pricing-skus'' None
       (Catalog PricingSkuWrite) ''PricingSku''
       [''tenant_id''] True False ''gateway.pricing_sku.create'',
     route_row POST ''/admin/v1/pricing-skus:validate'' None
       (Catalog PricingSkuRead) ''PricingSku''
       [''tenant_id''] True False ''gateway.pricing_sku.validate'',
     route_row GET ''/admin/v1/pricing-skus/{pricing_sku_id}'' None
       (Catalog PricingSkuRead) ''PricingSku''
       [''tenant_id'', ''pricing_sku_id''] True False ''gateway.pricing_sku.read'',
     route_row PATCH ''/admin/v1/pricing-skus/{pricing_sku_id}'' None
       (Catalog PricingSkuWrite) ''PricingSku''
       [''tenant_id'', ''pricing_sku_id''] True False ''gateway.pricing_sku.update'',
     route_row GET ''/admin/v1/budgets/dashboard'' None
       (Runtime BudgetDashboardRead) ''BudgetDashboard''
       [''tenant_id''] True False ''gateway.budget_dashboard.read'',
     route_row GET ''/admin/v1/budgets/{budget_policy_id}/timeseries'' None
       (Runtime BudgetDashboardRead) ''BudgetDashboard''
       [''tenant_id'', ''budget_policy_id''] True False ''gateway.budget_dashboard.timeseries.read'']"

definition foundation_routes_8 :: "route_metadata list" where
  "foundation_routes_8 =
    [route_row GET ''/admin/v1/budget-policies'' None
       (Control BudgetPolicyRead) ''BudgetPolicy''
       [''tenant_id''] True False ''gateway.budget_policy.read'',
     route_row POST ''/admin/v1/budget-policies'' None
       (Control BudgetPolicyWrite) ''BudgetPolicy''
       [''tenant_id''] True False ''gateway.budget_policy.create'',
     route_row POST ''/admin/v1/budget-policies:validate'' None
       (Control BudgetPolicyRead) ''BudgetPolicy''
       [''tenant_id''] True False ''gateway.budget_policy.validate'',
     route_row GET ''/admin/v1/budget-policies/{budget_policy_id}'' None
       (Control BudgetPolicyRead) ''BudgetPolicy''
       [''tenant_id'', ''budget_policy_id''] True False ''gateway.budget_policy.read'',
     route_row PATCH ''/admin/v1/budget-policies/{budget_policy_id}'' None
       (Control BudgetPolicyWrite) ''BudgetPolicy''
       [''tenant_id'', ''budget_policy_id''] True False ''gateway.budget_policy.update'',
     route_row GET ''/admin/v1/quotas/dashboard'' None
       (Runtime QuotaDashboardRead) ''QuotaDashboard''
       [''tenant_id''] True False ''gateway.quota_dashboard.read'',
     route_row GET ''/admin/v1/rate-limits/{quota_policy_id}/timeseries'' None
       (Runtime QuotaDashboardRead) ''QuotaDashboard''
       [''tenant_id'', ''quota_policy_id''] True False ''gateway.quota_dashboard.timeseries.read'',
     route_row GET ''/admin/v1/quota-policies'' None
       (Catalog QuotaPolicyRead) ''QuotaPolicy''
       [''tenant_id''] True False ''gateway.quota_policy.read'',
     route_row POST ''/admin/v1/quota-policies'' None
       (Catalog QuotaPolicyWrite) ''QuotaPolicy''
       [''tenant_id''] True False ''gateway.quota_policy.create'',
     route_row POST ''/admin/v1/quota-policies:validate'' None
       (Catalog QuotaPolicyRead) ''QuotaPolicy''
       [''tenant_id''] True False ''gateway.quota_policy.validate'',
     route_row GET ''/admin/v1/quota-policies/{quota_policy_id}'' None
       (Catalog QuotaPolicyRead) ''QuotaPolicy''
       [''tenant_id'', ''quota_policy_id''] True False ''gateway.quota_policy.read'',
     route_row PATCH ''/admin/v1/quota-policies/{quota_policy_id}'' None
       (Catalog QuotaPolicyWrite) ''QuotaPolicy''
       [''tenant_id'', ''quota_policy_id''] True False ''gateway.quota_policy.update'',
     route_row GET ''/admin/v1/exports/jobs'' None
       (Runtime ExportRead) ''ExportManifest''
       [''tenant_id''] False True ''gateway.export_job.read'']"

definition foundation_routes_9 :: "route_metadata list" where
  "foundation_routes_9 =
    [route_row POST ''/admin/v1/exports/jobs'' None
       (Runtime ExportCreate) ''ExportJob''
       [''tenant_id''] False True ''gateway.export_job.create'',
     route_row GET ''/admin/v1/exports/jobs/{export_job_id}'' None
       (Runtime ExportRead) ''ExportManifest''
       [''tenant_id'', ''export_job_id''] False True ''gateway.export_job.read'',
     route_row GET ''/admin/v1/exports/jobs/{export_job_id}/manifest'' None
       (Runtime ExportRead) ''ExportManifest''
       [''tenant_id'', ''export_job_id''] False True ''gateway.export_manifest.read'',
     route_row GET ''/admin/v1/maintenance-windows'' None
       (Control MaintenanceWindowRead) ''MaintenanceWindow''
       [''tenant_id''] False True ''gateway.maintenance_window.read'',
     route_row POST ''/admin/v1/maintenance-windows'' None
       (Control MaintenanceWindowWrite) ''MaintenanceWindow''
       [''tenant_id''] False True ''gateway.maintenance_window.create'',
     route_row POST ''/admin/v1/maintenance-windows:validate'' None
       (Control MaintenanceWindowRead) ''MaintenanceWindow''
       [''tenant_id''] False True ''gateway.maintenance_window.validate'',
     route_row GET ''/admin/v1/maintenance-windows/{maintenance_window_id}'' None
       (Control MaintenanceWindowRead) ''MaintenanceWindow''
       [''tenant_id'', ''maintenance_window_id''] False True ''gateway.maintenance_window.read'',
     route_row PATCH ''/admin/v1/maintenance-windows/{maintenance_window_id}'' None
       (Control MaintenanceWindowWrite) ''MaintenanceWindow''
       [''tenant_id'', ''maintenance_window_id''] False True ''gateway.maintenance_window.update'',
     route_row GET ''/admin/v1/emergency/operations'' None
       (Runtime EmergencyDisable) ''EmergencyOperation''
       [''tenant_id''] False True ''gateway.emergency.read'',
     route_row GET ''/admin/v1/emergency/operations/{emergency_operation_id}'' None
       (Runtime EmergencyDisable) ''EmergencyOperation''
       [''tenant_id'', ''emergency_operation_id''] False True ''gateway.emergency.read'',
     route_row POST ''/admin/v1/emergency/upstream-credentials/{upstream_credential_id}/disable'' None
       (Runtime EmergencyDisable) ''EmergencyOperation''
       [''tenant_id'', ''upstream_credential_id''] False True ''gateway.emergency.disable'',
     route_row POST ''/admin/v1/emergency/provider-endpoints/{provider_endpoint_id}/disable'' None
       (Runtime EmergencyDisable) ''EmergencyOperation''
       [''tenant_id'', ''provider_endpoint_id''] False True ''gateway.emergency.disable'']"

definition foundation_routes_10 :: "route_metadata list" where
  "foundation_routes_10 =
    [route_row POST ''/admin/v1/emergency/routing-groups/{routing_group_id}/drain'' None
       (Runtime EmergencyDisable) ''EmergencyOperation''
       [''tenant_id'', ''routing_group_id''] False True ''gateway.emergency.drain'',
     route_row POST ''/admin/v1/emergency/config/freeze'' None
       (Runtime EmergencyDisable) ''EmergencyOperation''
       [''tenant_id''] False True ''gateway.emergency.freeze'',
     route_row POST ''/admin/v1/emergency/config/snapshots/{source_snapshot_id}/rollback'' None
       (Control ConfigRollback) ''ConfigSnapshot''
       [''tenant_id'', ''source_snapshot_id''] False True ''gateway.emergency.rollback'',
     route_row POST ''/admin/v1/emergency/budget-policies/{budget_policy_id}/force-block'' None
       (Runtime EmergencyDisable) ''EmergencyOperation''
       [''tenant_id'', ''budget_policy_id''] False True ''gateway.emergency.force_budget_block'',
     route_row GET ''/admin/v1/observability/otel-export/configs'' None
       (Runtime ObservabilityExportRead) ''OpenTelemetryExportConfig''
       [''tenant_id''] True False ''gateway.observability_export.read'',
     route_row POST ''/admin/v1/observability/otel-export/configs'' None
       (Runtime ObservabilityExportWrite) ''OpenTelemetryExportConfig''
       [''tenant_id''] False True ''gateway.observability_export.create'',
     route_row GET ''/admin/v1/observability/otel-export/configs/{otel_export_config_id}'' None
       (Runtime ObservabilityExportRead) ''OpenTelemetryExportConfig''
       [''tenant_id'', ''otel_export_config_id''] True False ''gateway.observability_export.read'',
     route_row PATCH ''/admin/v1/observability/otel-export/configs/{otel_export_config_id}'' None
       (Runtime ObservabilityExportWrite) ''OpenTelemetryExportConfig''
       [''tenant_id'', ''otel_export_config_id''] False True ''gateway.observability_export.update'',
     route_row POST ''/admin/v1/observability/otel-export/configs/{otel_export_config_id}/validate'' None
       (Runtime ObservabilityExportWrite) ''OpenTelemetryExportConfig''
       [''tenant_id'', ''otel_export_config_id''] False True ''gateway.observability_export.validate'',
     route_row POST ''/admin/v1/observability/otel-export/configs/{otel_export_config_id}/disable'' None
       (Runtime ObservabilityExportWrite) ''OpenTelemetryExportConfig''
       [''tenant_id'', ''otel_export_config_id''] False True ''gateway.observability_export.disable'',
     route_row GET ''/admin/v1/notification/sinks'' None
       (Runtime NotificationRead) ''NotificationSink''
       [''tenant_id''] True False ''gateway.notification_sink.read'']"

definition foundation_routes_11 :: "route_metadata list" where
  "foundation_routes_11 =
    [route_row POST ''/admin/v1/notification/sinks'' None
       (Runtime NotificationWrite) ''NotificationSink''
       [''tenant_id''] False True ''gateway.notification_sink.create'',
     route_row POST ''/admin/v1/notification/sinks:validate'' None
       (Runtime NotificationWrite) ''NotificationSink''
       [''tenant_id''] False True ''gateway.notification_sink.validate'',
     route_row GET ''/admin/v1/notification/sinks/{notification_sink_id}'' None
       (Runtime NotificationRead) ''NotificationSink''
       [''tenant_id'', ''notification_sink_id''] True False ''gateway.notification_sink.read'',
     route_row PATCH ''/admin/v1/notification/sinks/{notification_sink_id}'' None
       (Runtime NotificationWrite) ''NotificationSink''
       [''tenant_id'', ''notification_sink_id''] False True ''gateway.notification_sink.update'',
     route_row GET ''/admin/v1/notification/sinks/{notification_sink_id}/subscriptions'' None
       (Runtime NotificationRead) ''NotificationSink''
       [''tenant_id'', ''notification_sink_id''] True False ''gateway.notification_subscription.read'',
     route_row POST ''/admin/v1/notification/sinks/{notification_sink_id}/subscriptions'' None
       (Runtime NotificationWrite) ''NotificationSink''
       [''tenant_id'', ''notification_sink_id''] False True ''gateway.notification_subscription.create'',
     route_row POST ''/admin/v1/notification/sinks/{notification_sink_id}/subscriptions:validate'' None
       (Runtime NotificationWrite) ''NotificationSink''
       [''tenant_id'', ''notification_sink_id''] False True ''gateway.notification_subscription.validate'',
     route_row GET ''/admin/v1/notification/sinks/{notification_sink_id}/subscriptions/{notification_subscription_id}'' None
       (Runtime NotificationRead) ''NotificationSink''
       [''tenant_id'', ''notification_sink_id'', ''notification_subscription_id''] True False ''gateway.notification_subscription.read'',
     route_row PATCH ''/admin/v1/notification/sinks/{notification_sink_id}/subscriptions/{notification_subscription_id}'' None
       (Runtime NotificationWrite) ''NotificationSink''
       [''tenant_id'', ''notification_sink_id'', ''notification_subscription_id''] False True ''gateway.notification_subscription.update'',
     route_row POST ''/admin/v1/notification/outbox/{notification_outbox_event_id}/replay'' None
       (Runtime NotificationOutboxWrite) ''NotificationOutboxEvent''
       [''tenant_id'', ''notification_outbox_event_id''] False True ''gateway.notification_outbox.replay'']"

definition foundation_routes_12 :: "route_metadata list" where
  "foundation_routes_12 =
    [route_row GET ''/admin/v1/identity-providers'' None
       (Directory IdentityProviderRead) ''IdentityProvider''
       [''tenant_id''] True False ''gateway.identity_provider.read'',
     route_row POST ''/admin/v1/identity-providers'' None
       (Directory IdentityProviderWrite) ''IdentityProvider''
       [''tenant_id''] False True ''gateway.identity_provider.create'',
     route_row POST ''/admin/v1/identity-providers:validate'' None
       (Directory IdentityProviderWrite) ''IdentityProvider''
       [''tenant_id''] False True ''gateway.identity_provider.validate'',
     route_row GET ''/admin/v1/identity-providers/{login_provider_id}'' None
       (Directory IdentityProviderRead) ''IdentityProvider''
       [''tenant_id'', ''login_provider_id''] True False ''gateway.identity_provider.read'',
     route_row PATCH ''/admin/v1/identity-providers/{login_provider_id}'' None
       (Directory IdentityProviderWrite) ''IdentityProvider''
       [''tenant_id'', ''login_provider_id''] False True ''gateway.identity_provider.update'',
     route_row GET ''/admin/v1/users'' None
       (Directory UserRead) ''UserPrincipal''
       [''tenant_id''] True False ''gateway.user.read'',
     route_row GET ''/admin/v1/users/{user_id}'' None
       (Directory UserRead) ''UserPrincipal''
       [''tenant_id'', ''user_id''] True False ''gateway.user.read'',
     route_row PATCH ''/admin/v1/users/{user_id}'' None
       (Directory UserDisable) ''UserPrincipal''
       [''tenant_id'', ''user_id''] False True ''gateway.user.disable'',
     route_row GET ''/admin/v1/users/{user_id}/sessions'' None
       (Directory SessionRead) ''AuthSession''
       [''tenant_id'', ''user_id''] True False ''gateway.session.read'',
     route_row POST ''/admin/v1/users/{user_id}/sessions/{auth_session_id}/revoke'' None
       (Directory SessionRevoke) ''AuthSession''
       [''tenant_id'', ''user_id'', ''auth_session_id''] False True ''gateway.session.revoke'',
     route_row GET ''/admin/v1/users/{user_id}/external-identities'' None
       (Directory ExternalIdentityRead) ''ExternalIdentity''
       [''tenant_id'', ''user_id''] True False ''gateway.external_identity.read'',
     route_row GET ''/admin/v1/users/{user_id}/external-identities/{external_identity_id}'' None
       (Directory ExternalIdentityRead) ''ExternalIdentity''
       [''tenant_id'', ''user_id'', ''external_identity_id''] True False ''gateway.external_identity.read'']"

definition foundation_routes_13 :: "route_metadata list" where
  "foundation_routes_13 =
    [route_row POST ''/admin/v1/users/{user_id}/external-identities/{external_identity_id}/unlink'' None
       (Directory ExternalIdentityUnlink) ''ExternalIdentity''
       [''tenant_id'', ''user_id'', ''external_identity_id''] False True ''gateway.external_identity.unlink'',
     route_row GET ''/admin/v1/organizations/{organization_id}/invitations'' None
       (Directory OrganizationInviteRead) ''OrganizationInvite''
       [''tenant_id'', ''organization_id''] True False ''gateway.organization_invite.read'',
     route_row POST ''/admin/v1/organizations/{organization_id}/invitations'' None
       (Directory OrganizationInviteCreate) ''OrganizationInvite''
       [''tenant_id'', ''organization_id''] False True ''gateway.organization_invite.create'',
     route_row GET ''/admin/v1/organizations/{organization_id}/invitations/{invitation_id}'' None
       (Directory OrganizationInviteRead) ''OrganizationInvite''
       [''tenant_id'', ''organization_id'', ''invitation_id''] True False ''gateway.organization_invite.read'',
     route_row POST ''/admin/v1/organizations/{organization_id}/invitations/{invitation_id}/revoke'' None
       (Directory OrganizationInviteManage) ''OrganizationInvite''
       [''tenant_id'', ''organization_id'', ''invitation_id''] False True ''gateway.organization_invite.revoke'',
     route_row GET ''/admin/v1/route-policies'' None
       (Catalog RoutePolicyRead) ''RoutePolicy''
       [''tenant_id''] True False ''gateway.route_policy.read'',
     route_row POST ''/admin/v1/route-policies'' None
       (Catalog RoutePolicyWrite) ''RoutePolicy''
       [''tenant_id''] True False ''gateway.route_policy.create'',
     route_row POST ''/admin/v1/route-policies:validate'' None
       (Catalog RoutePolicyRead) ''RoutePolicy''
       [''tenant_id''] True False ''gateway.route_policy.validate'',
     route_row GET ''/admin/v1/route-policies/{route_policy_id}'' None
       (Catalog RoutePolicyRead) ''RoutePolicy''
       [''tenant_id'', ''route_policy_id''] True False ''gateway.route_policy.read'',
     route_row PATCH ''/admin/v1/route-policies/{route_policy_id}'' None
       (Catalog RoutePolicyWrite) ''RoutePolicy''
       [''tenant_id'', ''route_policy_id''] True False ''gateway.route_policy.update'',
     route_row GET ''/admin/v1/provider-grants'' None
       (Catalog ProviderGrantRead) ''ProviderGrant''
       [''tenant_id''] True False ''gateway.provider_grant.read'']"

definition foundation_routes_14 :: "route_metadata list" where
  "foundation_routes_14 =
    [route_row POST ''/admin/v1/provider-grants'' None
       (Catalog ProviderGrantWrite) ''ProviderGrant''
       [''tenant_id''] True False ''gateway.provider_grant.create'',
     route_row POST ''/admin/v1/provider-grants:validate'' None
       (Catalog ProviderGrantRead) ''ProviderGrant''
       [''tenant_id''] True False ''gateway.provider_grant.validate'',
     route_row GET ''/admin/v1/provider-grants/{provider_grant_id}'' None
       (Catalog ProviderGrantRead) ''ProviderGrant''
       [''tenant_id'', ''provider_grant_id''] True False ''gateway.provider_grant.read'',
     route_row PATCH ''/admin/v1/provider-grants/{provider_grant_id}'' None
       (Catalog ProviderGrantWrite) ''ProviderGrant''
       [''tenant_id'', ''provider_grant_id''] True False ''gateway.provider_grant.update'',
     route_row GET ''/admin/v1/routing-groups'' None
       (Catalog RoutingGroupRead) ''RoutingGroup''
       [''tenant_id''] True False ''gateway.routing_group.read'',
     route_row POST ''/admin/v1/routing-groups'' None
       (Catalog RoutingGroupWrite) ''RoutingGroup''
       [''tenant_id''] True False ''gateway.routing_group.create'',
     route_row POST ''/admin/v1/routing-groups:validate'' None
       (Catalog RoutingGroupRead) ''RoutingGroup''
       [''tenant_id''] True False ''gateway.routing_group.validate'',
     route_row GET ''/admin/v1/routing-groups/{routing_group_id}'' None
       (Catalog RoutingGroupRead) ''RoutingGroup''
       [''tenant_id'', ''routing_group_id''] True False ''gateway.routing_group.read'',
     route_row PATCH ''/admin/v1/routing-groups/{routing_group_id}'' None
       (Catalog RoutingGroupWrite) ''RoutingGroup''
       [''tenant_id'', ''routing_group_id''] True False ''gateway.routing_group.update'',
     route_row GET ''/admin/v1/routing-groups/{routing_group_id}/targets'' None
       (Catalog RoutingGroupRead) ''RoutingGroup''
       [''tenant_id'', ''routing_group_id''] True False ''gateway.routing_group_target.read'',
     route_row POST ''/admin/v1/routing-groups/{routing_group_id}/targets'' None
       (Catalog RoutingGroupWrite) ''RoutingGroup''
       [''tenant_id'', ''routing_group_id''] True False ''gateway.routing_group_target.create'',
     route_row POST ''/admin/v1/routing-groups/{routing_group_id}/targets:validate'' None
       (Catalog RoutingGroupRead) ''RoutingGroup''
       [''tenant_id'', ''routing_group_id''] True False ''gateway.routing_group_target.validate'']"

definition foundation_routes_15 :: "route_metadata list" where
  "foundation_routes_15 =
    [route_row GET ''/admin/v1/routing-groups/{routing_group_id}/targets/{routing_group_target_id}'' None
       (Catalog RoutingGroupRead) ''RoutingGroup''
       [''tenant_id'', ''routing_group_id'', ''routing_group_target_id''] True False ''gateway.routing_group_target.read'',
     route_row PATCH ''/admin/v1/routing-groups/{routing_group_id}/targets/{routing_group_target_id}'' None
       (Catalog RoutingGroupWrite) ''RoutingGroup''
       [''tenant_id'', ''routing_group_id'', ''routing_group_target_id''] True False ''gateway.routing_group_target.update'',
     route_row GET ''/admin/v1/realtime/overview'' None
       (Runtime RealtimeDashboardRead) ''RealtimeDashboard''
       [''tenant_id''] True False ''gateway.realtime_dashboard.read'',
     route_row GET ''/admin/v1/realtime/providers'' None
       (Runtime RealtimeDashboardRead) ''RealtimeDashboard''
       [''tenant_id''] True False ''gateway.realtime_dashboard.read'',
     route_row GET ''/admin/v1/realtime/routes'' None
       (Runtime RealtimeDashboardRead) ''RealtimeDashboard''
       [''tenant_id''] True False ''gateway.realtime_dashboard.read'',
     route_row GET ''/admin/v1/realtime/budgets'' None
       (Runtime RealtimeDashboardRead) ''RealtimeDashboard''
       [''tenant_id''] True False ''gateway.realtime_dashboard.read'',
     route_row GET ''/admin/v1/realtime/quotas'' None
       (Runtime RealtimeDashboardRead) ''RealtimeDashboard''
       [''tenant_id''] True False ''gateway.realtime_dashboard.read'',
     route_row GET ''/admin/v1/realtime/workers'' None
       (Runtime RealtimeDashboardRead) ''RealtimeDashboard''
       [''tenant_id''] True False ''gateway.realtime_dashboard.read'',
     route_row GET ''/admin/v1/dashboards/tenant/overview'' None
       (Runtime DashboardTenantRead) ''TenantDashboard''
       [''tenant_id''] True False ''gateway.dashboard.tenant.read'',
     route_row GET ''/admin/v1/dashboards/organizations/{organization_id}'' None
       (Runtime DashboardOrganizationRead) ''OrganizationDashboard''
       [''tenant_id'', ''organization_id''] True False ''gateway.dashboard.organization.read'',
     route_row GET ''/admin/v1/dashboards/projects/{project_id}'' None
       (Runtime DashboardProjectRead) ''ProjectDashboard''
       [''tenant_id'', ''project_id''] True False ''gateway.dashboard.project.read'',
     route_row GET ''/admin/v1/dashboards/project-members/{project_member_id}'' None
       (Runtime DashboardProjectMemberRead) ''ProjectMemberDashboard''
       [''tenant_id'', ''project_member_id''] True False ''gateway.dashboard.project_member.read'']"

definition foundation_routes_16 :: "route_metadata list" where
  "foundation_routes_16 =
    [route_row GET ''/admin/v1/dashboards/api-keys/{api_key_id}'' None
       (Runtime DashboardApiKeyRead) ''ApiKeyDashboard''
       [''tenant_id'', ''api_key_id''] True False ''gateway.dashboard.api_key.read'',
     route_row GET ''/admin/v1/dashboards/service-accounts/{service_account_id}'' None
       (Runtime DashboardServiceAccountRead) ''ServiceAccountDashboard''
       [''tenant_id'', ''service_account_id''] True False ''gateway.dashboard.service_account.read'',
     route_row GET ''/admin/v1/models/aliases/{model_alias_id}/dashboard'' None
       (Runtime ModelObservabilityRead) ''ModelObservability''
       [''tenant_id'', ''model_alias_id''] True False ''gateway.model_observability.alias.read'',
     route_row GET ''/admin/v1/models/aliases/{model_alias_id}/routes'' None
       (Runtime ModelObservabilityRead) ''ModelObservability''
       [''tenant_id'', ''model_alias_id''] True False ''gateway.model_observability.alias.routes.read'',
     route_row GET ''/admin/v1/models/aliases/{model_alias_id}/quality'' None
       (Runtime ModelObservabilityRead) ''ModelObservability''
       [''tenant_id'', ''model_alias_id''] True False ''gateway.model_observability.alias.quality.read'',
     route_row GET ''/admin/v1/models/targets/{model_target_id}/dashboard'' None
       (Runtime ModelObservabilityRead) ''ModelObservability''
       [''tenant_id'', ''model_target_id''] True False ''gateway.model_observability.target.read'',
     route_row GET ''/admin/v1/provider-endpoints/{provider_endpoint_id}/observability/usage'' None
       (Runtime ProviderObservabilityRead) ''ProviderEndpoint''
       [''tenant_id'', ''provider_endpoint_id''] True False ''gateway.provider_observability.usage.read'',
     route_row GET ''/admin/v1/provider-endpoints/{provider_endpoint_id}/observability/health'' None
       (Runtime ProviderObservabilityRead) ''ProviderEndpoint''
       [''tenant_id'', ''provider_endpoint_id''] True False ''gateway.provider_observability.health.read'',
     route_row GET ''/admin/v1/provider-endpoints/{provider_endpoint_id}/observability/failover'' None
       (Runtime ProviderObservabilityRead) ''ProviderEndpoint''
       [''tenant_id'', ''provider_endpoint_id''] True False ''gateway.provider_observability.failover.read'',
     route_row GET ''/admin/v1/provider-endpoints/{provider_endpoint_id}/observability/credentials'' None
       (Runtime ProviderObservabilityRead) ''ProviderEndpoint''
       [''tenant_id'', ''provider_endpoint_id''] True False ''gateway.provider_observability.credentials.read'']"

definition foundation_routes_17 :: "route_metadata list" where
  "foundation_routes_17 =
    [route_row GET ''/admin/v1/provider-endpoints/{provider_endpoint_id}/observability/model-targets'' None
       (Runtime ProviderObservabilityRead) ''ProviderEndpoint''
       [''tenant_id'', ''provider_endpoint_id''] True False ''gateway.provider_observability.model_targets.read'',
     route_row GET ''/admin/v1/usage/summary'' None
       (Runtime UsageSummaryRead) ''UsageScope''
       [''tenant_id'', ''scope_kind'', ''scope_id''] True False ''gateway.usage.summary.read'',
     route_row GET ''/admin/v1/usage/timeseries'' None
       (Runtime UsageSummaryRead) ''UsageScope''
       [''tenant_id'', ''scope_kind'', ''scope_id'', ''bucket_kind''] True False ''gateway.usage.timeseries.read'',
     route_row GET ''/admin/v1/usage/events'' None
       (Runtime UsageEventRead) ''UsageEvent''
       [''tenant_id'', ''scope_kind'', ''scope_id''] True False ''gateway.usage.event.read'',
     route_row GET ''/admin/v1/usage/breakdown/by-project'' None
       (Runtime UsageRead) ''UsageScope''
       [''tenant_id'', ''scope_kind'', ''scope_id''] True False ''gateway.usage.breakdown.read'',
     route_row GET ''/admin/v1/usage/breakdown/by-project-member'' None
       (Runtime UsageRead) ''UsageScope''
       [''tenant_id'', ''scope_kind'', ''scope_id''] True False ''gateway.usage.breakdown.read'',
     route_row GET ''/admin/v1/usage/breakdown/by-model'' None
       (Runtime UsageRead) ''UsageScope''
       [''tenant_id'', ''scope_kind'', ''scope_id''] True False ''gateway.usage.breakdown.read'',
     route_row GET ''/admin/v1/usage/breakdown/by-provider-endpoint'' None
       (Runtime UsageRead) ''UsageScope''
       [''tenant_id'', ''scope_kind'', ''scope_id''] True False ''gateway.usage.breakdown.read'']"


definition foundation_routes :: "route_metadata list" where
  "foundation_routes =
     foundation_routes_1 @ foundation_routes_2 @ foundation_routes_3 @ foundation_routes_4 @
     foundation_routes_5 @ foundation_routes_6 @ foundation_routes_7 @ foundation_routes_8 @
     foundation_routes_9 @ foundation_routes_10 @ foundation_routes_11 @ foundation_routes_12 @
     foundation_routes_13 @ foundation_routes_14 @ foundation_routes_15 @ foundation_routes_16 @
     foundation_routes_17"

subsection \<open>Facts about the table\<close>

text \<open>The names in braces of a path pattern.\<close>

fun path_placeholders :: "string \<Rightarrow> string list" where
  "path_placeholders [] = []"
| "path_placeholders (c # cs) =
     (if c = CHR ''{'' then takeWhile (\<lambda>d. d \<noteq> CHR ''}'') cs # path_placeholders cs
      else path_placeholders cs)"

text \<open>
  A row is well-formed if it names the resource kind of its action, its scope parameters cover the
  placeholders of its path and it is audited, if it either accepts API keys or requires strong
  authentication, and if it belongs to a protocol family exactly when it is not an admin route.
\<close>

definition route_wf :: "route_metadata \<Rightarrow> bool" where
  "route_wf r \<longleftrightarrow>
     rm_resource_kind r = action_resource_kind (rm_action r) \<and>
     rm_scope_params r \<noteq> [] \<and> rm_audit_event_type r \<noteq> [] \<and>
     list_all (\<lambda>p. List.member (rm_scope_params r) p) (path_placeholders (rm_path_pattern r)) \<and>
     (rm_strong_auth_required r \<longleftrightarrow> \<not> rm_allow_api_key r) \<and>
     (rm_protocol_family r = None \<longleftrightarrow> take 10 (rm_path_pattern r) = ''/admin/v1/'') \<and>
     (List.member strong_auth_actions (rm_action r) \<longrightarrow> rm_strong_auth_required r)"

lemma foundation_routes_wf: "list_all route_wf foundation_routes"
  by code_simp

text \<open>
  Distinctness is checked on a hash of the rows, which separates all of them and is cheaper to
  compare than the strings.
\<close>

definition text_hash :: "int \<Rightarrow> string \<Rightarrow> int" where
  "text_hash m s = fold (\<lambda>c h. (31 * h + of_char c) mod m) s 0"

definition route_hash :: "http_method \<times> string \<Rightarrow> int" where
  "route_hash = (\<lambda>(method, path). text_hash 2848 (method_as_str method @ '' '' @ path))"

lemma foundation_route_hashes:
  "distinct (map (\<lambda>r. route_hash (rm_method r, rm_path_pattern r)) foundation_routes)"
  by code_simp

lemma foundation_routes_distinct:
  "distinct (map (\<lambda>r. (rm_method r, rm_path_pattern r)) foundation_routes)"
proof -
  have "distinct (map route_hash (map (\<lambda>r. (rm_method r, rm_path_pattern r)) foundation_routes))"
    using foundation_route_hashes by (simp add: o_def)
  then show ?thesis unfolding distinct_map by blast
qed

lemma foundation_route_unique:
  "r \<in> set foundation_routes \<Longrightarrow> r' \<in> set foundation_routes \<Longrightarrow> rm_method r = rm_method r' \<Longrightarrow>
     rm_path_pattern r = rm_path_pattern r' \<Longrightarrow> r = r'"
  using foundation_routes_distinct by (auto simp: distinct_map inj_on_def)

end
