(* ===== verification/Gateway_Admin.thy ===== *)
theory Gateway_Admin
  imports Gateway_Route_Table Gateway_Config Gateway_Budget Gateway_Hot_State Gateway_Auth
begin

text \<open>
  The frame of the admin API (\<open>crates/starweaver-gateway/src/service.rs\<close>): the route gate with the
  configuration freeze, idempotent mutations, audit events and emergency operations. Every admin
  mutation is a function of the state that returns a result and the state; \<open>?\<close> is \<open>abind\<close>, which
  keeps what was written before the error.

  The state is the part of \<open>AppState\<close> (in-memory store and hot state) that the modelled handlers
  touch. Argument \<open>api\<close> is the Cedar library, the environment holds JSON encoding, SHA-256 and the
  printing of times; ids and clock readings are arguments.
\<close>

subsection \<open>State\<close>

record idempotency_record =
  idr_tenant_id :: string
  idr_scope_key :: string
  idr_request_hash :: string
  idr_response_record :: json
  idr_expires_at :: datetime
  idr_created_at :: datetime

record audit_event =
  aud_audit_event_id :: string
  aud_event_type :: string
  aud_tenant_id :: string
  aud_organization_id :: "string option"
  aud_project_id :: "string option"
  aud_scope_kind :: string
  aud_scope_id :: string
  aud_resource_kind :: string
  aud_resource_id :: string
  aud_before_version :: "i64 option"
  aud_after_version :: "i64 option"
  aud_actor_id :: string
  aud_actor_kind :: actor_kind
  aud_principal_id :: "string option"
  aud_request_id :: string
  aud_trace_id :: string
  aud_redacted_diff :: json
  aud_occurred_at :: datetime

text \<open>\<open>UpstreamCredentialStatus\<close> of the admin resource.\<close>

datatype upstream_credential_status = UcActive | UcRotating | UcDisabled | UcDeleted

fun upstream_credential_status_as_str :: "upstream_credential_status \<Rightarrow> string" where
  "upstream_credential_status_as_str UcActive = ''active''"
| "upstream_credential_status_as_str UcRotating = ''rotating''"
| "upstream_credential_status_as_str UcDisabled = ''disabled''"
| "upstream_credential_status_as_str UcDeleted = ''deleted''"

record provider_endpoint_record =
  per_provider_endpoint_id :: string
  per_tenant_id :: string
  per_organization_id :: "string option"
  per_provider_kind :: string
  per_display_name :: string
  per_protocol_families :: "protocol_family list"
  per_upstream_base_url :: string
  per_status :: resource_status
  per_resource_version :: i64
  per_schema_version :: nat
  per_created_by :: string
  per_created_at :: datetime
  per_updated_at :: datetime

record upstream_credential_record =
  ucr_upstream_credential_id :: string
  ucr_tenant_id :: string
  ucr_organization_id :: "string option"
  ucr_provider_endpoint_id :: string
  ucr_credential_kind :: string
  ucr_secret_ref_id :: string
  ucr_status :: upstream_credential_status
  ucr_resource_version :: i64
  ucr_schema_version :: nat
  ucr_created_by :: string
  ucr_created_at :: datetime
  ucr_updated_at :: datetime

record routing_group_record =
  rgr_routing_group_id :: string
  rgr_tenant_id :: string
  rgr_organization_id :: "string option"
  rgr_name :: string
  rgr_protocol_family :: protocol_family
  rgr_purpose :: "string option"
  rgr_status :: resource_status
  rgr_resource_version :: i64
  rgr_schema_version :: nat
  rgr_created_by :: string
  rgr_created_at :: datetime
  rgr_updated_at :: datetime

text \<open>
  The directory as far as the validation of API keys reads it: which tenants exist, and the tenant
  and organization of users, service accounts, organizations and projects.
\<close>

record directory =
  dir_tenants :: "string list"
  dir_user_tenant :: "string \<rightharpoonup> string"
  dir_service_account_tenant :: "string \<rightharpoonup> string"
  dir_organization_tenant :: "string \<rightharpoonup> string"
  dir_project_scope :: "string \<rightharpoonup> string \<times> string"

record admin_state =
  ad_config :: config_store
  ad_grants :: "action_grant list"
  ad_authz :: "authorization_decision_record list"
  ad_idempotency :: "string \<times> string \<rightharpoonup> idempotency_record"
  ad_policy :: policy_admin
  ad_audit :: "audit_event list"
  ad_endpoints :: "string \<rightharpoonup> provider_endpoint_record"
  ad_credentials :: "string \<rightharpoonup> upstream_credential_record"
  ad_groups :: "string \<rightharpoonup> routing_group_record"
  ad_hot :: hot_store
  ad_auth :: auth_store
  ad_directory :: directory

record admin_env =
  av_to_vec :: "json \<Rightarrow> string + string"
  av_sha256_hex :: "string \<Rightarrow> string"
  av_display_time :: "datetime \<Rightarrow> string"
  av_json_time :: "datetime \<Rightarrow> json"

type_synonym 'a admin_op = "admin_state \<Rightarrow> 'a gateway_result \<times> admin_state"

definition abind :: "'a admin_op \<Rightarrow> ('a \<Rightarrow> 'b admin_op) \<Rightarrow> 'b admin_op" where
  "abind m f = (\<lambda>s. case m s of (Inl e, s1) \<Rightarrow> (Inl e, s1) | (Inr a, s1) \<Rightarrow> f a s1)"

definition aret :: "'a \<Rightarrow> 'a admin_op" where
  "aret a = (\<lambda>s. (Inr a, s))"

text \<open>A check that writes nothing, and a write that cannot fail.\<close>

definition acheck :: "(admin_state \<Rightarrow> 'a gateway_result) \<Rightarrow> 'a admin_op" where
  "acheck f = (\<lambda>s. (f s, s))"

definition awrite :: "(admin_state \<Rightarrow> admin_state) \<Rightarrow> unit admin_op" where
  "awrite f = (\<lambda>s. (Inr (), f s))"

definition json_opt_time :: "admin_env \<Rightarrow> datetime option \<Rightarrow> json" where
  "json_opt_time env t = (case t of None \<Rightarrow> JNull | Some d \<Rightarrow> av_json_time env d)"

subsection \<open>Emergency operations in the store\<close>

definition emergency_operation_by_id :: "policy_admin \<Rightarrow> string \<Rightarrow> emergency_operation option" where
  "emergency_operation_by_id admin i =
     find (\<lambda>op. eo_emergency_operation_id op = i) (pa_emergency_operations admin)"

definition active_emergency_operation ::
  "policy_admin \<Rightarrow> string \<Rightarrow> string \<Rightarrow> datetime \<Rightarrow> emergency_operation option" where
  "active_emergency_operation admin tenant_id operation_kind now =
     find (\<lambda>op. eo_operation_kind op = operation_kind \<and> eo_status op = ''applied'' \<and> eo_expires_at op > now)
       (emergency_operations_for_tenant admin tenant_id)"

subsection \<open>The route gate\<close>

definition route_metadata_for :: "http_method \<Rightarrow> string \<Rightarrow> route_metadata gateway_result" where
  "route_metadata_for method path_pattern =
     (case find (\<lambda>r. method_as_str (rm_method r) = method_as_str method \<and> rm_path_pattern r = path_pattern)
             foundation_routes of
        None \<Rightarrow> Inl (Internal (''missing route metadata for '' @ method_as_str method @ '' '' @ path_pattern))
      | Some r \<Rightarrow> Inr r)"

definition admin_route_mutates :: "http_method \<Rightarrow> bool" where
  "admin_route_mutates method \<longleftrightarrow> method = POST \<or> method = PUT \<or> method = PATCH \<or> method = DELETE"

definition route_allowed_during_config_freeze :: "route_metadata \<Rightarrow> bool" where
  "route_allowed_during_config_freeze route \<longleftrightarrow>
     rm_action route \<in> {Runtime EmergencyDisable, Control ConfigRollback,
       Directory ExternalIdentityUnlink, Directory SessionRevoke} \<or>
     ends_with (rm_audit_event_type route) ''.validate''"

definition reject_frozen_config_mutation ::
  "admin_env \<Rightarrow> policy_admin \<Rightarrow> route_metadata \<Rightarrow> http_method \<Rightarrow> authenticated_actor \<Rightarrow> datetime \<Rightarrow> unit gateway_result" where
  "reject_frozen_config_mutation env admin route method actor now =
     (if \<not> admin_route_mutates method \<or> route_allowed_during_config_freeze route then Inr ()
      else case active_emergency_operation admin (actor_tenant_id actor) ''freeze_config'' now of
             None \<Rightarrow> Inr ()
           | Some freeze \<Rightarrow> Inl (BadRequest (''config_frozen: emergency operation '' @
               eo_emergency_operation_id freeze @ '' expires at '' @ av_display_time env (eo_expires_at freeze))))"

definition authorize_admin_route ::
  "('tn, 'sc, 'ps, 'rq, 'en) cedar_api \<Rightarrow> admin_env \<Rightarrow> string \<Rightarrow> authenticated_actor \<Rightarrow> http_method \<Rightarrow> string \<Rightarrow>
   string \<Rightarrow> datetime \<Rightarrow> unit admin_op" where
  "authorize_admin_route api env new_id actor method path_pattern resource_id now =
     abind (acheck (\<lambda>s. route_metadata_for method path_pattern)) (\<lambda>route.
     abind (acheck (\<lambda>s. reject_frozen_config_mutation env (ad_policy s) route method actor now)) (\<lambda>_.
     abind (acheck (\<lambda>s. authorization_engine_for_actor api (ad_config s) (ad_grants s) actor))
       (\<lambda>(engine, policy_snapshot_id) s.
         case authorize_route_with_evidence route engine (ad_authz s) new_id actor resource_id
                policy_snapshot_id now of
           (decision, authz) \<Rightarrow>
             (if dec_allowed decision then Inr () else Inl (Authorization (dec_reason decision)),
              s\<lparr>ad_authz := authz\<rparr>))))"

lemma route_metadata_for_table:
  assumes "r \<in> set foundation_routes"
  shows "route_metadata_for (rm_method r) (rm_path_pattern r) = Inr r"
proof -
  have "method_as_str m = method_as_str m' \<longleftrightarrow> m = m'" for m m' by (cases m; cases m') simp_all
  then have "find (\<lambda>r'. method_as_str (rm_method r') = method_as_str (rm_method r) \<and>
      rm_path_pattern r' = rm_path_pattern r) foundation_routes = Some r"
    using assms foundation_route_unique [OF _ assms]
    by (cases "find (\<lambda>r'. rm_method r' = rm_method r \<and> rm_path_pattern r' = rm_path_pattern r) foundation_routes")
      (auto simp: find_None_iff dest: find_some_in)
  then show ?thesis by (simp add: route_metadata_for_def)
qed

subsection \<open>Idempotency\<close>

definition IDEMPOTENCY_TTL :: datetime where
  "IDEMPOTENCY_TTL = 24 * 3600 * 1000000000"

definition is_ascii_alphanumeric :: "char \<Rightarrow> bool" where
  "is_ascii_alphanumeric c \<longleftrightarrow> (let b = (of_char c :: int) in
     48 \<le> b \<and> b \<le> 57 \<or> 65 \<le> b \<and> b \<le> 90 \<or> 97 \<le> b \<and> b \<le> 122)"

definition validate_idempotency_key :: "string \<Rightarrow> unit gateway_result" where
  "validate_idempotency_key idempotency_key =
     (if \<not> is_blank idempotency_key \<and> length idempotency_key \<le> 160 \<and>
         list_all (\<lambda>c. is_ascii_alphanumeric c \<or> c = CHR ''_'' \<or> c = CHR ''-'' \<or> c = CHR ''.'') idempotency_key
      then Inr () else Inl (BadRequest ''invalid_idempotency_key''))"

definition validate_required_reason :: "string \<Rightarrow> unit gateway_result" where
  "validate_required_reason reason =
     (if is_blank reason then Inl (BadRequest ''reason_required'') else Inr ())"

definition idempotency_scope_key :: "string \<Rightarrow> string \<Rightarrow> string" where
  "idempotency_scope_key operation idempotency_key = operation @ '':'' @ idempotency_key"

definition stable_request_hash :: "admin_env \<Rightarrow> json \<Rightarrow> string gateway_result" where
  "stable_request_hash env request =
     (case av_to_vec env request of
        Inl error \<Rightarrow> Inl (Internal (''failed to encode idempotency request: '' @ error))
      | Inr bytes \<Rightarrow> Inr (''sha256:'' @ av_sha256_hex env bytes))"

text \<open>An expired record is removed by the lookup.\<close>

definition idempotency_response ::
  "string \<Rightarrow> string \<Rightarrow> string \<Rightarrow> datetime \<Rightarrow> json option admin_op" where
  "idempotency_response tenant_id scope_key request_hash now s =
     (case ad_idempotency s (tenant_id, scope_key) of
        None \<Rightarrow> (Inr None, s)
      | Some r \<Rightarrow>
          if idr_expires_at r \<le> now
          then (Inr None, s\<lparr>ad_idempotency := (ad_idempotency s)((tenant_id, scope_key) := None)\<rparr>)
          else if idr_request_hash r \<noteq> request_hash then (Inl (BadRequest ''idempotency_key_conflict''), s)
          else (Inr (Some (idr_response_record r)), s))"

definition record_idempotency_response :: "idempotency_record \<Rightarrow> admin_state \<Rightarrow> admin_state" where
  "record_idempotency_response r s =
     s\<lparr>ad_idempotency := (ad_idempotency s)((idr_tenant_id r, idr_scope_key r) \<mapsto> r)\<rparr>"

definition record_idempotent_admin_response ::
  "string \<Rightarrow> string \<Rightarrow> string \<Rightarrow> json \<Rightarrow> datetime \<Rightarrow> admin_state \<Rightarrow> admin_state" where
  "record_idempotent_admin_response tenant_id scope_key request_hash response now =
     record_idempotency_response
       \<lparr>idr_tenant_id = tenant_id, idr_scope_key = scope_key, idr_request_hash = request_hash,
        idr_response_record = response, idr_expires_at = now + IDEMPOTENCY_TTL, idr_created_at = now\<rparr>"

definition response_with_replay_flag :: "json \<Rightarrow> bool \<Rightarrow> json" where
  "response_with_replay_flag response replayed =
     json_set response ''idempotency_replayed'' (JBool replayed)"

text \<open>
  The block every mutating handler repeats: look the key up and return the stored response, or run
  the \<open>effect\<close>, which gives the response and the response to store, and store it.
\<close>

definition idempotent_mutation ::
  "string \<Rightarrow> string \<Rightarrow> string \<Rightarrow> datetime \<Rightarrow> (json \<times> json) admin_op \<Rightarrow> json admin_op" where
  "idempotent_mutation tenant_id scope_key request_hash now effect =
     abind (idempotency_response tenant_id scope_key request_hash now) (\<lambda>found.
       case found of
         Some response \<Rightarrow> aret (response_with_replay_flag response True)
       | None \<Rightarrow>
           abind effect (\<lambda>(response, stored).
           abind (awrite (record_idempotent_admin_response tenant_id scope_key request_hash stored now)) (\<lambda>_.
             aret response)))"

subsection \<open>Audit\<close>

definition actor_principal_or_actor_id :: "authenticated_actor \<Rightarrow> string" where
  "actor_principal_or_actor_id actor = unwrap_or (actor_principal_id actor) (actor_id actor)"

record admin_resource_audit_input =
  ari_event_type :: string
  ari_scope_kind :: string
  ari_scope_id :: string
  ari_resource_kind :: string
  ari_resource_id :: string
  ari_before_version :: "i64 option"
  ari_after_version :: "i64 option"
  ari_redacted_diff :: json
  ari_occurred_at :: datetime

definition record_admin_resource_audit ::
  "string \<Rightarrow> authenticated_actor \<Rightarrow> admin_resource_audit_input \<Rightarrow> admin_state \<Rightarrow> admin_state" where
  "record_admin_resource_audit audit_event_id actor input s =
     s\<lparr>ad_audit := ad_audit s @
        [\<lparr>aud_audit_event_id = audit_event_id, aud_event_type = ari_event_type input,
          aud_tenant_id = actor_tenant_id actor, aud_organization_id = actor_organization_id actor,
          aud_project_id = actor_project_id actor, aud_scope_kind = ari_scope_kind input,
          aud_scope_id = ari_scope_id input, aud_resource_kind = ari_resource_kind input,
          aud_resource_id = ari_resource_id input, aud_before_version = ari_before_version input,
          aud_after_version = ari_after_version input, aud_actor_id = actor_id actor,
          aud_actor_kind = actor_kind actor, aud_principal_id = actor_principal_id actor,
          aud_request_id = actor_request_id actor, aud_trace_id = actor_trace_id actor,
          aud_redacted_diff = ari_redacted_diff input, aud_occurred_at = ari_occurred_at input\<rparr>]\<rparr>"

definition record_config_snapshot_audit ::
  "string \<Rightarrow> authenticated_actor \<Rightarrow> string \<Rightarrow> string \<Rightarrow> i64 option \<Rightarrow> i64 option \<Rightarrow> json \<Rightarrow> datetime \<Rightarrow>
   admin_state \<Rightarrow> admin_state" where
  "record_config_snapshot_audit audit_event_id actor event_type resource_id before_version after_version
     redacted_diff occurred_at =
     record_admin_resource_audit audit_event_id actor
       \<lparr>ari_event_type = event_type, ari_scope_kind = ''tenant'', ari_scope_id = actor_tenant_id actor,
        ari_resource_kind = ''ConfigSnapshot'', ari_resource_id = resource_id,
        ari_before_version = before_version, ari_after_version = after_version,
        ari_redacted_diff = redacted_diff, ari_occurred_at = occurred_at\<rparr>"

end
