(* ===== verification/Gateway_Emergency.thy ===== *)
theory Gateway_Emergency
  imports Gateway_Admin
begin

text \<open>
  Emergency operations (\<open>crates/starweaver-gateway/src/service.rs\<close>, from
  \<open>emergency_disable_upstream_credential\<close> to \<open>emergency_force_budget_block\<close>): disabling upstream
  credentials and provider endpoints, draining a routing group, freezing the configuration, rolling
  a snapshot back and blocking a budget, each with its record, audit event and idempotency key.
\<close>

subsection \<open>Requests and records\<close>

record emergency_request =
  er_idempotency_key :: string
  er_expected_version :: "i64 option"
  er_reason :: string
  er_expires_at :: datetime

text \<open>The ids a handler draws: decision, operation, audit event, snapshot with its invalidation.\<close>

record admin_ids =
  ai_authz :: string
  ai_operation :: string
  ai_audit :: string
  ai_snapshot :: "string \<times> string"

definition json_opt_i64 :: "i64 option \<Rightarrow> json" where
  "json_opt_i64 x = (case x of None \<Rightarrow> JNull | Some i \<Rightarrow> JInt i)"

text \<open>\<open>Serialize\<close> of \<open>AdminEmergencyOperationRequest\<close>.\<close>

definition emergency_request_json :: "admin_env \<Rightarrow> emergency_request \<Rightarrow> json" where
  "emergency_request_json env request = JObject
     [(''idempotency_key'', JString (er_idempotency_key request)),
      (''expected_version'', json_opt_i64 (er_expected_version request)),
      (''reason'', JString (er_reason request)),
      (''expires_at'', av_json_time env (er_expires_at request))]"

definition emergency_request_hash ::
  "admin_env \<Rightarrow> string \<Rightarrow> emergency_request \<Rightarrow> string gateway_result" where
  "emergency_request_hash env target_resource_id request = stable_request_hash env (JObject
     [(''target_resource_id'', JString target_resource_id), (''request'', emergency_request_json env request)])"

definition emergency_idempotency_scope_key :: "string \<Rightarrow> string \<Rightarrow> string \<Rightarrow> string" where
  "emergency_idempotency_scope_key operation_kind target_resource_id idempotency_key =
     idempotency_scope_key (''emergency:'' @ operation_kind @ '':'' @ target_resource_id) idempotency_key"

definition validate_emergency_operation_request ::
  "emergency_request \<Rightarrow> datetime \<Rightarrow> unit gateway_result" where
  "validate_emergency_operation_request request now =
     rbind (validate_idempotency_key (er_idempotency_key request)) (\<lambda>_.
     rbind (validate_required_reason (er_reason request)) (\<lambda>_.
       if er_expires_at request \<le> now then Inl (BadRequest ''emergency_expiry_must_be_future'')
       else Inr ()))"

definition required_emergency_expected_version :: "emergency_request \<Rightarrow> i64 gateway_result" where
  "required_emergency_expected_version request =
     (case opt_filter (\<lambda>version. version > 0) (er_expected_version request) of
        None \<Rightarrow> Inl (BadRequest ''expected_version_required'')
      | Some version \<Rightarrow> Inr version)"

definition ensure_emergency_expected_version :: "i64 \<Rightarrow> i64 \<Rightarrow> unit gateway_result" where
  "ensure_emergency_expected_version expected_version actual_version =
     (if expected_version \<noteq> actual_version then Inl (BadRequest ''stale_resource_version'') else Inr ())"

record emergency_operation_input =
  eoi_operation_kind :: string
  eoi_target_resource_kind :: string
  eoi_target_resource_id :: string
  eoi_organization_id :: "string option"
  eoi_project_id :: "string option"
  eoi_reason :: string
  eoi_expires_at :: datetime

definition operator_alert_document :: "string \<Rightarrow> string \<Rightarrow> json" where
  "operator_alert_document operation_kind target_resource_kind = JObject
     [(''alert_required'', JBool True), (''alert_kind'', JString ''emergency_operation''),
      (''operation_kind'', JString operation_kind),
      (''target_resource_kind'', JString target_resource_kind),
      (''delivery_status'', JString ''not_connected''), (''redacted'', JBool True)]"

text \<open>The store keys operations by id; a fresh id adds one.\<close>

definition create_emergency_operation ::
  "string \<Rightarrow> string \<Rightarrow> string \<Rightarrow> emergency_operation_input \<Rightarrow> json \<Rightarrow> datetime \<Rightarrow> emergency_operation admin_op" where
  "create_emergency_operation new_id tenant_id requested_by input alert now s =
     (if is_blank (eoi_reason input) then (Inl (BadRequest ''reason_required''), s)
      else if eoi_expires_at input \<le> now
      then (Inl (BadRequest ''emergency_expiry_must_be_future''), s)
      else
        let op =
          \<lparr>eo_emergency_operation_id = new_id, eo_tenant_id = tenant_id,
           eo_organization_id = eoi_organization_id input, eo_project_id = eoi_project_id input,
           eo_operation_kind = eoi_operation_kind input,
           eo_target_resource_kind = eoi_target_resource_kind input,
           eo_target_resource_id = eoi_target_resource_id input, eo_requested_by = requested_by,
           eo_reason = trim (eoi_reason input), eo_status = ''applied'',
           eo_operator_alert_document = alert, eo_resource_version = 1, eo_schema_version = 1,
           eo_created_at = now, eo_updated_at = now, eo_expires_at = eoi_expires_at input\<rparr> in
        (Inr op, s\<lparr>ad_policy := (ad_policy s)\<lparr>pa_emergency_operations :=
           filter (\<lambda>o1. eo_emergency_operation_id o1 \<noteq> new_id) (pa_emergency_operations (ad_policy s)) @ [op]\<rparr>\<rparr>))"

definition create_emergency_operation_record ::
  "string \<Rightarrow> authenticated_actor \<Rightarrow> emergency_operation_input \<Rightarrow> datetime \<Rightarrow> emergency_operation admin_op" where
  "create_emergency_operation_record new_id actor input now =
     create_emergency_operation new_id (actor_tenant_id actor) (actor_principal_or_actor_id actor) input
       (operator_alert_document (eoi_operation_kind input) (eoi_target_resource_kind input)) now"

definition emergency_operation_audit_event_type :: "string \<Rightarrow> string" where
  "emergency_operation_audit_event_type operation_kind =
     (if operation_kind = ''drain_routing_group'' then ''gateway.emergency.drain''
      else if operation_kind = ''freeze_config'' then ''gateway.emergency.freeze''
      else if operation_kind = ''rollback_config_snapshot'' then ''gateway.emergency.rollback''
      else if operation_kind = ''force_budget_block'' then ''gateway.emergency.force_budget_block''
      else ''gateway.emergency.disable'')"

definition record_emergency_operation_audit ::
  "admin_env \<Rightarrow> string \<Rightarrow> authenticated_actor \<Rightarrow> emergency_operation \<Rightarrow> i64 option \<Rightarrow> i64 option \<Rightarrow> json \<Rightarrow>
   datetime \<Rightarrow> admin_state \<Rightarrow> admin_state" where
  "record_emergency_operation_audit env audit_event_id actor op before_version after_version target_diff now =
     record_admin_resource_audit audit_event_id actor
       \<lparr>ari_event_type = emergency_operation_audit_event_type (eo_operation_kind op),
        ari_scope_kind = ''tenant'', ari_scope_id = actor_tenant_id actor,
        ari_resource_kind = ''EmergencyOperation'', ari_resource_id = eo_emergency_operation_id op,
        ari_before_version = before_version, ari_after_version = after_version,
        ari_redacted_diff = JObject
          [(''operation_kind'', JString (eo_operation_kind op)),
           (''target_resource_kind'', JString (eo_target_resource_kind op)),
           (''target_resource_id'', JString (eo_target_resource_id op)),
           (''reason'', JString (eo_reason op)), (''expires_at'', av_json_time env (eo_expires_at op)),
           (''operator_alert'', eo_operator_alert_document op), (''target_diff'', target_diff)],
        ari_occurred_at = now\<rparr>"

subsection \<open>Resource bodies\<close>

definition emergency_operation_resource_body :: "admin_env \<Rightarrow> emergency_operation \<Rightarrow> json" where
  "emergency_operation_resource_body env op = JObject
     [(''kind'', JString ''emergency_operation''), (''id'', JString (eo_emergency_operation_id op)),
      (''emergency_operation_id'', JString (eo_emergency_operation_id op)),
      (''tenant_id'', JString (eo_tenant_id op)),
      (''organization_id'', json_opt_str (eo_organization_id op)),
      (''project_id'', json_opt_str (eo_project_id op)),
      (''operation_kind'', JString (eo_operation_kind op)),
      (''target_resource_kind'', JString (eo_target_resource_kind op)),
      (''target_resource_id'', JString (eo_target_resource_id op)),
      (''requested_by'', JString (eo_requested_by op)), (''reason'', JString (eo_reason op)),
      (''status'', JString (eo_status op)), (''operator_alert'', eo_operator_alert_document op),
      (''version'', JInt (eo_resource_version op)), (''schema_version'', JInt (int (eo_schema_version op))),
      (''created_at'', av_json_time env (eo_created_at op)),
      (''updated_at'', av_json_time env (eo_updated_at op)),
      (''expires_at'', av_json_time env (eo_expires_at op))]"

definition emergency_operation_mutation_response ::
  "admin_env \<Rightarrow> emergency_operation \<Rightarrow> json \<Rightarrow> string \<Rightarrow> json" where
  "emergency_operation_mutation_response env op affected_resource audit_event_id = JObject
     [(''schema'', JString ''gateway.admin.emergency_operation_mutation.v1''),
      (''resource'', emergency_operation_resource_body env op),
      (''affected_resource'', affected_resource), (''audit_event_id'', JString audit_event_id),
      (''idempotency_replayed'', JBool False)]"

definition upstream_credential_resource_body :: "admin_env \<Rightarrow> upstream_credential_record \<Rightarrow> json" where
  "upstream_credential_resource_body env c = JObject
     [(''kind'', JString ''upstream_credential''), (''id'', JString (ucr_upstream_credential_id c)),
      (''tenant_id'', JString (ucr_tenant_id c)),
      (''organization_id'', json_opt_str (ucr_organization_id c)),
      (''provider_endpoint_id'', JString (ucr_provider_endpoint_id c)),
      (''credential_kind'', JString (ucr_credential_kind c)),
      (''secret_ref_id'', JString (ucr_secret_ref_id c)), (''version'', JInt (ucr_resource_version c)),
      (''status'', JString (upstream_credential_status_as_str (ucr_status c))),
      (''created_by'', JString (ucr_created_by c)), (''created_at'', av_json_time env (ucr_created_at c)),
      (''updated_at'', av_json_time env (ucr_updated_at c))]"

definition provider_endpoint_resource_body :: "admin_env \<Rightarrow> provider_endpoint_record \<Rightarrow> json" where
  "provider_endpoint_resource_body env e = JObject
     [(''kind'', JString ''provider_endpoint''), (''id'', JString (per_provider_endpoint_id e)),
      (''tenant_id'', JString (per_tenant_id e)),
      (''organization_id'', json_opt_str (per_organization_id e)),
      (''provider_kind'', JString (per_provider_kind e)), (''display_name'', JString (per_display_name e)),
      (''protocol_families'', JArray (map (JString \<circ> protocol_family_as_str) (per_protocol_families e))),
      (''upstream_base_url'', JString (per_upstream_base_url e)), (''version'', JInt (per_resource_version e)),
      (''status'', JString (resource_status_as_str (per_status e))),
      (''created_by'', JString (per_created_by e)), (''created_at'', av_json_time env (per_created_at e)),
      (''updated_at'', av_json_time env (per_updated_at e))]"

definition routing_group_resource_body :: "admin_env \<Rightarrow> routing_group_record \<Rightarrow> json" where
  "routing_group_resource_body env g = JObject
     [(''kind'', JString ''routing_group''), (''id'', JString (rgr_routing_group_id g)),
      (''tenant_id'', JString (rgr_tenant_id g)),
      (''organization_id'', json_opt_str (rgr_organization_id g)), (''name'', JString (rgr_name g)),
      (''protocol_family'', JString (protocol_family_as_str (rgr_protocol_family g))),
      (''purpose'', json_opt_str (rgr_purpose g)), (''version'', JInt (rgr_resource_version g)),
      (''status'', JString (resource_status_as_str (rgr_status g))),
      (''created_by'', JString (rgr_created_by g)), (''created_at'', av_json_time env (rgr_created_at g)),
      (''updated_at'', av_json_time env (rgr_updated_at g))]"

definition budget_policy_resource_body :: "admin_env \<Rightarrow> budget_policy \<Rightarrow> json" where
  "budget_policy_resource_body env p = JObject
     [(''kind'', JString ''budget_policy''), (''id'', JString (bp_budget_policy_id p)),
      (''tenant_id'', JString (bp_tenant_id p)), (''scope_kind'', JString (bp_scope_kind p)),
      (''scope_id'', JString (bp_scope_id p)), (''organization_id'', json_opt_str (bp_organization_id p)),
      (''project_id'', json_opt_str (bp_project_id p)), (''currency'', json_opt_str (bp_currency p)),
      (''period'', JString (bp_period p)), (''limit_kind'', JString (bp_limit_kind p)),
      (''hard_limit'', json_opt_i64 (bp_hard_limit p)), (''soft_limit'', json_opt_i64 (bp_soft_limit p)),
      (''thresholds'', JArray (map JInt (bp_thresholds p))), (''reset_policy'', JString (bp_reset_policy p)),
      (''overage_mode'', JString (bp_overage_mode p)),
      (''consistency_mode'', JString (bp_consistency_mode p)), (''version'', JInt (bp_resource_version p)),
      (''status'', JString (resource_status_as_str (bp_status p))),
      (''created_by'', JString (bp_created_by p)), (''created_at'', av_json_time env (bp_created_at p)),
      (''updated_at'', av_json_time env (bp_updated_at p))]"

definition status_change_diff :: "string \<Rightarrow> string \<Rightarrow> string \<times> json" where
  "status_change_diff before after =
     (''target_status'', JObject [(''before'', JString before), (''after'', JString after)])"

subsection \<open>Resources of the actor's tenant and their status\<close>

definition upstream_credential_for_actor ::
  "authenticated_actor \<Rightarrow> string \<Rightarrow> admin_state \<Rightarrow> upstream_credential_record gateway_result" where
  "upstream_credential_for_actor actor i s =
     (case opt_filter (\<lambda>c. ucr_tenant_id c = actor_tenant_id actor) (ad_credentials s i) of
        None \<Rightarrow> Inl (NotFound (''upstream credential '' @ i)) | Some c \<Rightarrow> Inr c)"

definition provider_endpoint_for_actor ::
  "authenticated_actor \<Rightarrow> string \<Rightarrow> admin_state \<Rightarrow> provider_endpoint_record gateway_result" where
  "provider_endpoint_for_actor actor i s =
     (case opt_filter (\<lambda>e. per_tenant_id e = actor_tenant_id actor) (ad_endpoints s i) of
        None \<Rightarrow> Inl (NotFound (''provider endpoint '' @ i)) | Some e \<Rightarrow> Inr e)"

definition routing_group_for_actor ::
  "authenticated_actor \<Rightarrow> string \<Rightarrow> admin_state \<Rightarrow> routing_group_record gateway_result" where
  "routing_group_for_actor actor i s =
     (case opt_filter (\<lambda>g. rgr_tenant_id g = actor_tenant_id actor) (ad_groups s i) of
        None \<Rightarrow> Inl (NotFound (''routing group '' @ i)) | Some g \<Rightarrow> Inr g)"

definition budget_policy_for_actor ::
  "authenticated_actor \<Rightarrow> string \<Rightarrow> admin_state \<Rightarrow> budget_policy gateway_result" where
  "budget_policy_for_actor actor i s =
     (case opt_filter (\<lambda>p. bp_tenant_id p = actor_tenant_id actor) (budget_policy_by_id (ad_policy s) i) of
        None \<Rightarrow> Inl (NotFound (''budget policy '' @ i)) | Some p \<Rightarrow> Inr p)"

definition update_upstream_credential_status ::
  "string \<Rightarrow> i64 \<Rightarrow> upstream_credential_status \<Rightarrow> datetime \<Rightarrow> upstream_credential_record admin_op" where
  "update_upstream_credential_status i expected_resource_version status now s =
     (case ad_credentials s i of
        None \<Rightarrow> (Inl (NotFound (''upstream credential '' @ i)), s)
      | Some c \<Rightarrow>
          if ucr_resource_version c \<noteq> expected_resource_version
          then (Inl (BadRequest ''stale_resource_version''), s)
          else let c' = c\<lparr>ucr_status := status, ucr_resource_version := wrap_i64 (ucr_resource_version c + 1),
                          ucr_updated_at := now\<rparr> in
            (Inr c', s\<lparr>ad_credentials := (ad_credentials s)(i \<mapsto> c')\<rparr>))"

definition update_provider_endpoint_status ::
  "string \<Rightarrow> i64 \<Rightarrow> resource_status \<Rightarrow> datetime \<Rightarrow> provider_endpoint_record admin_op" where
  "update_provider_endpoint_status i expected_resource_version status now s =
     (case ad_endpoints s i of
        None \<Rightarrow> (Inl (NotFound (''provider endpoint '' @ i)), s)
      | Some e \<Rightarrow>
          if per_resource_version e \<noteq> expected_resource_version
          then (Inl (BadRequest ''stale_resource_version''), s)
          else let e' = e\<lparr>per_status := status, per_resource_version := wrap_i64 (per_resource_version e + 1),
                          per_updated_at := now\<rparr> in
            (Inr e', s\<lparr>ad_endpoints := (ad_endpoints s)(i \<mapsto> e')\<rparr>))"

definition update_routing_group_status ::
  "string \<Rightarrow> i64 \<Rightarrow> resource_status \<Rightarrow> datetime \<Rightarrow> routing_group_record admin_op" where
  "update_routing_group_status i expected_resource_version status now s =
     (case ad_groups s i of
        None \<Rightarrow> (Inl (NotFound (''routing group '' @ i)), s)
      | Some g \<Rightarrow>
          if rgr_resource_version g \<noteq> expected_resource_version
          then (Inl (BadRequest ''stale_resource_version''), s)
          else let g' = g\<lparr>rgr_status := status, rgr_resource_version := wrap_i64 (rgr_resource_version g + 1),
                          rgr_updated_at := now\<rparr> in
            (Inr g', s\<lparr>ad_groups := (ad_groups s)(i \<mapsto> g')\<rparr>))"

text \<open>Without a publication of the tenant nothing is drained.\<close>

definition set_endpoint_emergency_drain ::
  "provider_endpoint_record \<Rightarrow> string \<Rightarrow> datetime \<Rightarrow> datetime \<Rightarrow> admin_state \<Rightarrow> admin_state" where
  "set_endpoint_emergency_drain endpoint reason expires_at now s =
     (case cs_publications (ad_config s) (per_tenant_id endpoint) of
        None \<Rightarrow> s
      | Some publication \<Rightarrow>
          s\<lparr>ad_hot := mem_set_endpoint_drain
              \<lparr>edr_tenant_id = per_tenant_id endpoint,
               edr_provider_endpoint_id = per_provider_endpoint_id endpoint,
               edr_config_version = ptr_version publication, edr_reason = trim reason,
               edr_created_at = now, edr_expires_at = expires_at\<rparr> (ad_hot s)\<rparr>)"

subsection \<open>Handlers\<close>

definition ADMIN_EMERGENCY_DISABLE_UPSTREAM_CREDENTIAL_PATH :: string where
  "ADMIN_EMERGENCY_DISABLE_UPSTREAM_CREDENTIAL_PATH =
     ''/admin/v1/emergency/upstream-credentials/{upstream_credential_id}/disable''"

definition ADMIN_EMERGENCY_DISABLE_PROVIDER_ENDPOINT_PATH :: string where
  "ADMIN_EMERGENCY_DISABLE_PROVIDER_ENDPOINT_PATH =
     ''/admin/v1/emergency/provider-endpoints/{provider_endpoint_id}/disable''"

definition ADMIN_EMERGENCY_DRAIN_ROUTING_GROUP_PATH :: string where
  "ADMIN_EMERGENCY_DRAIN_ROUTING_GROUP_PATH =
     ''/admin/v1/emergency/routing-groups/{routing_group_id}/drain''"

definition ADMIN_EMERGENCY_FREEZE_CONFIG_PATH :: string where
  "ADMIN_EMERGENCY_FREEZE_CONFIG_PATH = ''/admin/v1/emergency/config/freeze''"

definition ADMIN_EMERGENCY_ROLLBACK_CONFIG_SNAPSHOT_PATH :: string where
  "ADMIN_EMERGENCY_ROLLBACK_CONFIG_SNAPSHOT_PATH =
     ''/admin/v1/emergency/config/snapshots/{source_snapshot_id}/rollback''"

definition ADMIN_EMERGENCY_FORCE_BUDGET_BLOCK_PATH :: string where
  "ADMIN_EMERGENCY_FORCE_BUDGET_BLOCK_PATH =
     ''/admin/v1/emergency/budget-policies/{budget_policy_id}/force-block''"

text \<open>
  The beginning all six handlers share: validate the request, authorize the route, compute the scope
  key and the hash over the target and the request, and run the rest once.
\<close>

definition emergency_mutation ::
  "('tn, 'sc, 'ps, 'rq, 'en) cedar_api \<Rightarrow> admin_env \<Rightarrow> admin_ids \<Rightarrow> authenticated_actor \<Rightarrow> string \<Rightarrow> string \<Rightarrow>
   string \<Rightarrow> emergency_request \<Rightarrow> datetime \<Rightarrow> (json \<times> json) admin_op \<Rightarrow> json admin_op" where
  "emergency_mutation api env ids actor path operation_kind target_resource_id request now effect =
     abind (acheck (\<lambda>s. validate_emergency_operation_request request now)) (\<lambda>_.
     abind (authorize_admin_route api env (ai_authz ids) actor POST path target_resource_id now) (\<lambda>_.
     abind (acheck (\<lambda>s. emergency_request_hash env target_resource_id request)) (\<lambda>request_hash.
       idempotent_mutation (actor_tenant_id actor)
         (emergency_idempotency_scope_key operation_kind target_resource_id (er_idempotency_key request))
         request_hash now effect)))"

text \<open>
  And the end: create the operation, audit it with the versions and the difference, and answer with
  the affected resource.
\<close>

definition emergency_evidence ::
  "admin_env \<Rightarrow> admin_ids \<Rightarrow> authenticated_actor \<Rightarrow> emergency_operation_input \<Rightarrow> i64 option \<Rightarrow>
   (emergency_operation \<Rightarrow> i64 option) \<Rightarrow> json \<Rightarrow> json \<Rightarrow> datetime \<Rightarrow> (json \<times> json) admin_op" where
  "emergency_evidence env ids actor input before_version after_version target_diff affected_resource now =
     abind (create_emergency_operation_record (ai_operation ids) actor input now) (\<lambda>op.
     abind (awrite (record_emergency_operation_audit env (ai_audit ids) actor op before_version
              (after_version op) target_diff now)) (\<lambda>_.
       let response = emergency_operation_mutation_response env op affected_resource (ai_audit ids) in
       aret (response, response)))"

definition emergency_disable_upstream_credential ::
  "('tn, 'sc, 'ps, 'rq, 'en) cedar_api \<Rightarrow> admin_env \<Rightarrow> admin_ids \<Rightarrow> authenticated_actor \<Rightarrow> string \<Rightarrow>
   emergency_request \<Rightarrow> datetime \<Rightarrow> json admin_op" where
  "emergency_disable_upstream_credential api env ids actor upstream_credential_id request now =
     emergency_mutation api env ids actor ADMIN_EMERGENCY_DISABLE_UPSTREAM_CREDENTIAL_PATH
       ''disable_upstream_credential'' upstream_credential_id request now
       (abind (acheck (upstream_credential_for_actor actor upstream_credential_id)) (\<lambda>before.
        abind (acheck (\<lambda>s. required_emergency_expected_version request)) (\<lambda>expected_version.
        abind (update_upstream_credential_status upstream_credential_id expected_version UcDisabled now) (\<lambda>updated.
          emergency_evidence env ids actor
            \<lparr>eoi_operation_kind = ''disable_upstream_credential'',
             eoi_target_resource_kind = ''UpstreamCredential'',
             eoi_target_resource_id = ucr_upstream_credential_id updated,
             eoi_organization_id = ucr_organization_id updated, eoi_project_id = None,
             eoi_reason = er_reason request, eoi_expires_at = er_expires_at request\<rparr>
            (Some (ucr_resource_version before)) (\<lambda>_. Some (ucr_resource_version updated))
            (JObject [status_change_diff (upstream_credential_status_as_str (ucr_status before))
               (upstream_credential_status_as_str (ucr_status updated))])
            (upstream_credential_resource_body env updated) now))))"

definition emergency_disable_provider_endpoint ::
  "('tn, 'sc, 'ps, 'rq, 'en) cedar_api \<Rightarrow> admin_env \<Rightarrow> admin_ids \<Rightarrow> authenticated_actor \<Rightarrow> string \<Rightarrow>
   emergency_request \<Rightarrow> datetime \<Rightarrow> json admin_op" where
  "emergency_disable_provider_endpoint api env ids actor provider_endpoint_id request now =
     emergency_mutation api env ids actor ADMIN_EMERGENCY_DISABLE_PROVIDER_ENDPOINT_PATH
       ''disable_provider_endpoint'' provider_endpoint_id request now
       (abind (acheck (provider_endpoint_for_actor actor provider_endpoint_id)) (\<lambda>before.
        abind (acheck (\<lambda>s. required_emergency_expected_version request)) (\<lambda>expected_version.
        abind (update_provider_endpoint_status provider_endpoint_id expected_version ResDisabled now) (\<lambda>updated.
        abind (awrite (set_endpoint_emergency_drain updated (er_reason request) (er_expires_at request) now)) (\<lambda>_.
          emergency_evidence env ids actor
            \<lparr>eoi_operation_kind = ''disable_provider_endpoint'',
             eoi_target_resource_kind = ''ProviderEndpoint'',
             eoi_target_resource_id = per_provider_endpoint_id updated,
             eoi_organization_id = per_organization_id updated, eoi_project_id = None,
             eoi_reason = er_reason request, eoi_expires_at = er_expires_at request\<rparr>
            (Some (per_resource_version before)) (\<lambda>_. Some (per_resource_version updated))
            (JObject [status_change_diff (resource_status_as_str (per_status before))
               (resource_status_as_str (per_status updated)), (''hot_state_drain_written'', JBool True)])
            (provider_endpoint_resource_body env updated) now)))))"

definition emergency_drain_routing_group ::
  "('tn, 'sc, 'ps, 'rq, 'en) cedar_api \<Rightarrow> admin_env \<Rightarrow> admin_ids \<Rightarrow> authenticated_actor \<Rightarrow> string \<Rightarrow>
   emergency_request \<Rightarrow> datetime \<Rightarrow> json admin_op" where
  "emergency_drain_routing_group api env ids actor routing_group_id request now =
     emergency_mutation api env ids actor ADMIN_EMERGENCY_DRAIN_ROUTING_GROUP_PATH
       ''drain_routing_group'' routing_group_id request now
       (abind (acheck (routing_group_for_actor actor routing_group_id)) (\<lambda>before.
        abind (acheck (\<lambda>s. required_emergency_expected_version request)) (\<lambda>expected_version.
        abind (update_routing_group_status routing_group_id expected_version ResDraining now) (\<lambda>updated.
          emergency_evidence env ids actor
            \<lparr>eoi_operation_kind = ''drain_routing_group'', eoi_target_resource_kind = ''RoutingGroup'',
             eoi_target_resource_id = rgr_routing_group_id updated,
             eoi_organization_id = rgr_organization_id updated, eoi_project_id = None,
             eoi_reason = er_reason request, eoi_expires_at = er_expires_at request\<rparr>
            (Some (rgr_resource_version before)) (\<lambda>_. Some (rgr_resource_version updated))
            (JObject [status_change_diff (resource_status_as_str (rgr_status before))
               (resource_status_as_str (rgr_status updated))])
            (routing_group_resource_body env updated) now))))"

definition emergency_freeze_config ::
  "('tn, 'sc, 'ps, 'rq, 'en) cedar_api \<Rightarrow> admin_env \<Rightarrow> admin_ids \<Rightarrow> authenticated_actor \<Rightarrow>
   emergency_request \<Rightarrow> datetime \<Rightarrow> json admin_op" where
  "emergency_freeze_config api env ids actor request now =
     emergency_mutation api env ids actor ADMIN_EMERGENCY_FREEZE_CONFIG_PATH
       ''freeze_config'' (actor_tenant_id actor) request now
       (emergency_evidence env ids actor
          \<lparr>eoi_operation_kind = ''freeze_config'', eoi_target_resource_kind = ''Config'',
           eoi_target_resource_id = actor_tenant_id actor, eoi_organization_id = None,
           eoi_project_id = None, eoi_reason = er_reason request, eoi_expires_at = er_expires_at request\<rparr>
          None (\<lambda>op. Some (eo_resource_version op))
          (JObject [(''config_mutation_gate'', JString ''frozen'')])
          (JObject [(''kind'', JString ''config''), (''id'', JString (actor_tenant_id actor)),
             (''tenant_id'', JString (actor_tenant_id actor)), (''status'', JString ''frozen''),
             (''expires_at'', av_json_time env (er_expires_at request))]) now)"

definition emergency_rollback_config_snapshot ::
  "('tn, 'sc, 'ps, 'rq, 'en) cedar_api \<Rightarrow> admin_env \<Rightarrow> snapshot_codec \<Rightarrow> admin_ids \<Rightarrow> authenticated_actor \<Rightarrow>
   string \<Rightarrow> emergency_request \<Rightarrow> datetime \<Rightarrow> json admin_op" where
  "emergency_rollback_config_snapshot api env codec ids actor source_snapshot_id request now =
     emergency_mutation api env ids actor ADMIN_EMERGENCY_ROLLBACK_CONFIG_SNAPSHOT_PATH
       ''rollback_config_snapshot'' source_snapshot_id request now
       (abind (acheck (\<lambda>s. Inr (map_option snap_version
           (latest_published_snapshot_for_tenant (ad_config s) (actor_tenant_id actor))))) (\<lambda>before_version.
        abind (\<lambda>s. case rollback_config_snapshot codec (ai_snapshot ids) (actor_tenant_id actor)
                  source_snapshot_id (actor_principal_or_actor_id actor) now (ad_config s) of
                (r, config) \<Rightarrow> (r, s\<lparr>ad_config := config\<rparr>)) (\<lambda>snapshot.
          let m = pub_metadata snapshot in
          emergency_evidence env ids actor
            \<lparr>eoi_operation_kind = ''rollback_config_snapshot'', eoi_target_resource_kind = ''ConfigSnapshot'',
             eoi_target_resource_id = source_snapshot_id, eoi_organization_id = None,
             eoi_project_id = None, eoi_reason = er_reason request, eoi_expires_at = er_expires_at request\<rparr>
            before_version (\<lambda>_. Some (snap_version m))
            (JObject [(''rollback_of'', JString source_snapshot_id),
               (''created_snapshot_id'', JString (snap_snapshot_id m)),
               (''created_snapshot_version'', JInt (snap_version m))])
            (JObject [(''kind'', JString ''config_snapshot''), (''id'', JString (snap_snapshot_id m)),
               (''snapshot_id'', JString (snap_snapshot_id m)), (''tenant_id'', JString (snap_tenant_id m)),
               (''version'', JInt (snap_version m)), (''checksum'', JString (snap_checksum m)),
               (''status'', JString (snapshot_status_as_str (snap_status m))),
               (''rollback_of'', json_opt_str (doc_rollback_of (pub_document snapshot))),
               (''published_at'', av_json_time env (pub_published_at snapshot))]) now)))"

definition emergency_force_budget_block ::
  "('tn, 'sc, 'ps, 'rq, 'en) cedar_api \<Rightarrow> admin_env \<Rightarrow> admin_ids \<Rightarrow> authenticated_actor \<Rightarrow> string \<Rightarrow>
   emergency_request \<Rightarrow> datetime \<Rightarrow> json admin_op" where
  "emergency_force_budget_block api env ids actor budget_policy_id request now =
     emergency_mutation api env ids actor ADMIN_EMERGENCY_FORCE_BUDGET_BLOCK_PATH
       ''force_budget_block'' budget_policy_id request now
       (abind (acheck (budget_policy_for_actor actor budget_policy_id)) (\<lambda>policy.
        abind (acheck (\<lambda>s. required_emergency_expected_version request)) (\<lambda>expected_version.
        abind (acheck (\<lambda>s. ensure_emergency_expected_version expected_version (bp_resource_version policy))) (\<lambda>_.
          emergency_evidence env ids actor
            \<lparr>eoi_operation_kind = ''force_budget_block'', eoi_target_resource_kind = ''BudgetPolicy'',
             eoi_target_resource_id = bp_budget_policy_id policy,
             eoi_organization_id = bp_organization_id policy, eoi_project_id = bp_project_id policy,
             eoi_reason = er_reason request, eoi_expires_at = er_expires_at request\<rparr>
            (Some (bp_resource_version policy)) (\<lambda>_. Some (bp_resource_version policy))
            (JObject [(''force_block'', JBool True),
               (''policy_scope'', JObject [(''kind'', JString (bp_scope_kind policy)),
                  (''id'', JString (bp_scope_id policy))]),
               (''policy_limit_kind'', JString (bp_limit_kind policy)),
               (''policy_overage_mode'', JString (bp_overage_mode policy))])
            (JObject [(''kind'', JString ''budget_policy_force_block''),
               (''id'', JString (bp_budget_policy_id policy)), (''tenant_id'', JString (bp_tenant_id policy)),
               (''status'', JString ''forced_block''), (''expires_at'', av_json_time env (er_expires_at request)),
               (''budget_policy'', budget_policy_resource_body env policy)]) now))))"


end
