(* ===== verification/Gateway_Admin_Handlers.thy ===== *)
theory Gateway_Admin_Handlers
  imports Gateway_Emergency
begin

text \<open>
  Admin handlers for configuration snapshots and API keys (\<open>crates/starweaver-gateway/src/service.rs\<close>)
  with the checks of the store on API key records (\<open>storage.rs\<close>). The branch of the code with a
  PostgreSQL store is not modelled.
\<close>

subsection \<open>Configuration snapshots\<close>

record admin_publish_request =
  apr_idempotency_key :: string
  apr_resource_versions :: "resource_version list"
  apr_payload :: json

record admin_rollback_request =
  arr_idempotency_key :: string
  arr_source_snapshot_id :: string
  arr_reason :: string

text \<open>\<open>Serialize\<close> of the requests and of \<open>PublishedConfigSnapshot\<close>.\<close>

definition resource_version_json :: "resource_version \<Rightarrow> json" where
  "resource_version_json v = JObject
     [(''resource_kind'', JString (rv_resource_kind v)), (''resource_id'', JString (rv_resource_id v)),
      (''version'', JInt (rv_version v))]"

definition admin_publish_request_json :: "admin_publish_request \<Rightarrow> json" where
  "admin_publish_request_json r = JObject
     [(''idempotency_key'', JString (apr_idempotency_key r)),
      (''resource_versions'', JArray (map resource_version_json (apr_resource_versions r))),
      (''payload'', apr_payload r)]"

definition admin_rollback_request_json :: "admin_rollback_request \<Rightarrow> json" where
  "admin_rollback_request_json r = JObject
     [(''idempotency_key'', JString (arr_idempotency_key r)),
      (''source_snapshot_id'', JString (arr_source_snapshot_id r)), (''reason'', JString (arr_reason r))]"

definition published_snapshot_json :: "admin_env \<Rightarrow> published_snapshot \<Rightarrow> json" where
  "published_snapshot_json env p =
     (let m = pub_metadata p; d = pub_document p in JObject
      [(''metadata'', JObject
          [(''snapshot_id'', JString (snap_snapshot_id m)), (''tenant_id'', JString (snap_tenant_id m)),
           (''version'', JInt (snap_version m)), (''checksum'', JString (snap_checksum m)),
           (''status'', JString (snapshot_status_as_str (snap_status m))),
           (''compiled_at'', av_json_time env (snap_compiled_at m))]),
       (''document'', JObject
          [(''schema'', JString (doc_schema d)),
           (''resource_versions'', JArray (map resource_version_json (doc_resource_versions d))),
           (''payload'', doc_payload d), (''rollback_of'', json_opt_str (doc_rollback_of d))]),
       (''created_by'', JString (pub_created_by p)), (''published_at'', av_json_time env (pub_published_at p))])"

definition config_snapshot_mutation_response :: "admin_env \<Rightarrow> published_snapshot \<Rightarrow> string \<Rightarrow> json" where
  "config_snapshot_mutation_response env snapshot audit_event_id = JObject
     [(''schema'', JString ''gateway.admin.config_snapshot_mutation.v1''),
      (''snapshot'', published_snapshot_json env snapshot), (''audit_event_id'', JString audit_event_id),
      (''idempotency_replayed'', JBool False)]"

text \<open>A handler is split into its effect, what runs once per idempotency key, and the guards before it.\<close>

definition publish_effect ::
  "('tn, 'sc, 'ps, 'rq, 'en) cedar_api \<Rightarrow> admin_env \<Rightarrow> snapshot_codec \<Rightarrow> admin_ids \<Rightarrow> authenticated_actor \<Rightarrow>
   admin_publish_request \<Rightarrow> datetime \<Rightarrow> (json \<times> json) admin_op" where
  "publish_effect api env codec ids actor request now =
     abind (acheck (\<lambda>s. Inr (map_option snap_version
          (latest_published_snapshot_for_tenant (ad_config s) (actor_tenant_id actor))))) (\<lambda>before_version.
     abind (\<lambda>s. case publish_config_snapshot api codec (ai_snapshot ids)
                 \<lparr>pub_req_tenant_id = actor_tenant_id actor,
                  pub_req_resource_versions = apr_resource_versions request,
                  pub_req_payload = apr_payload request,
                  pub_req_created_by = actor_principal_or_actor_id actor\<rparr> now (ad_config s) of
               (r, config) \<Rightarrow> (r, s\<lparr>ad_config := config\<rparr>)) (\<lambda>snapshot.
     abind (awrite (record_config_snapshot_audit (ai_audit ids) actor ''gateway.config.publish''
               (snap_snapshot_id (pub_metadata snapshot)) before_version
               (Some (snap_version (pub_metadata snapshot)))
               (JObject [(''published_snapshot_id'', JString (snap_snapshot_id (pub_metadata snapshot))),
                  (''checksum'', JString (snap_checksum (pub_metadata snapshot)))]) now)) (\<lambda>_.
       let response = config_snapshot_mutation_response env snapshot (ai_audit ids) in
       aret (response, response))))"

definition publish_config_snapshot_admin ::
  "('tn, 'sc, 'ps, 'rq, 'en) cedar_api \<Rightarrow> admin_env \<Rightarrow> snapshot_codec \<Rightarrow> admin_ids \<Rightarrow> authenticated_actor \<Rightarrow>
   admin_publish_request \<Rightarrow> datetime \<Rightarrow> json admin_op" where
  "publish_config_snapshot_admin api env codec ids actor request now =
     abind (acheck (\<lambda>s. validate_idempotency_key (apr_idempotency_key request))) (\<lambda>_.
     abind (authorize_admin_route api env (ai_authz ids) actor POST ''/admin/v1/config/snapshots:publish''
              (actor_tenant_id actor) now) (\<lambda>_.
     abind (acheck (\<lambda>s. stable_request_hash env (admin_publish_request_json request))) (\<lambda>request_hash.
       idempotent_mutation (actor_tenant_id actor)
         (idempotency_scope_key ''config_snapshots:publish'' (apr_idempotency_key request)) request_hash now
         (publish_effect api env codec ids actor request now))))"

definition rollback_effect ::
  "admin_env \<Rightarrow> snapshot_codec \<Rightarrow> admin_ids \<Rightarrow> authenticated_actor \<Rightarrow>
   admin_rollback_request \<Rightarrow> datetime \<Rightarrow> (json \<times> json) admin_op" where
  "rollback_effect env codec ids actor request now =
     abind (acheck (\<lambda>s. Inr (map_option snap_version
          (latest_published_snapshot_for_tenant (ad_config s) (actor_tenant_id actor))))) (\<lambda>before_version.
     abind (\<lambda>s. case rollback_config_snapshot codec (ai_snapshot ids) (actor_tenant_id actor)
                 (arr_source_snapshot_id request) (actor_principal_or_actor_id actor) now (ad_config s) of
               (r, config) \<Rightarrow> (r, s\<lparr>ad_config := config\<rparr>)) (\<lambda>snapshot.
     abind (awrite (record_config_snapshot_audit (ai_audit ids) actor ''gateway.config.rollback''
               (snap_snapshot_id (pub_metadata snapshot)) before_version
               (Some (snap_version (pub_metadata snapshot)))
               (JObject [(''rollback_of'', JString (arr_source_snapshot_id request)),
                  (''reason'', JString (arr_reason request))]) now)) (\<lambda>_.
       let response = config_snapshot_mutation_response env snapshot (ai_audit ids) in
       aret (response, response))))"

definition rollback_config_snapshot_admin ::
  "('tn, 'sc, 'ps, 'rq, 'en) cedar_api \<Rightarrow> admin_env \<Rightarrow> snapshot_codec \<Rightarrow> admin_ids \<Rightarrow> authenticated_actor \<Rightarrow>
   admin_rollback_request \<Rightarrow> datetime \<Rightarrow> json admin_op" where
  "rollback_config_snapshot_admin api env codec ids actor request now =
     abind (acheck (\<lambda>s. validate_idempotency_key (arr_idempotency_key request))) (\<lambda>_.
     abind (acheck (\<lambda>s. validate_required_reason (arr_reason request))) (\<lambda>_.
     abind (authorize_admin_route api env (ai_authz ids) actor POST ''/admin/v1/config/snapshots:rollback''
              (arr_source_snapshot_id request) now) (\<lambda>_.
     abind (acheck (\<lambda>s. stable_request_hash env (admin_rollback_request_json request))) (\<lambda>request_hash.
       idempotent_mutation (actor_tenant_id actor)
         (idempotency_scope_key ''config_snapshots:rollback'' (arr_idempotency_key request)) request_hash now
         (rollback_effect env codec ids actor request now)))))"

subsection \<open>API key records in the store\<close>

definition validate_api_key_owner :: "directory \<Rightarrow> api_key_record \<Rightarrow> unit gateway_result" where
  "validate_api_key_owner dir r =
     (case dir_user_tenant dir (key_owner_principal_id r) of
        Some tenant_id \<Rightarrow>
          if tenant_id = key_tenant_id r then Inr () else Inl (Authorization ''api_key_owner_tenant_mismatch'')
      | None \<Rightarrow>
          (case dir_service_account_tenant dir (key_owner_principal_id r) of
             Some tenant_id \<Rightarrow>
               if tenant_id = key_tenant_id r then Inr ()
               else Inl (Authorization ''api_key_owner_tenant_mismatch'')
           | None \<Rightarrow> Inl (NotFound (''principal '' @ key_owner_principal_id r))))"

text \<open>A project is found with its tenant and its organization.\<close>

definition validate_api_key_scope :: "directory \<Rightarrow> api_key_record \<Rightarrow> unit gateway_result" where
  "validate_api_key_scope dir r =
     rbind (case key_project_id r of
              None \<Rightarrow> Inr None
            | Some project_id \<Rightarrow>
                (case dir_project_scope dir project_id of
                   None \<Rightarrow> Inl (NotFound (''project '' @ project_id))
                 | Some (tenant_id, project_organization) \<Rightarrow>
                     if tenant_id \<noteq> key_tenant_id r then Inl (Authorization ''api_key_project_tenant_mismatch'')
                     else Inr (Some project_organization)))
       (\<lambda>project_organization.
          case (case key_organization_id r of Some o1 \<Rightarrow> Some o1 | None \<Rightarrow> project_organization) of
            None \<Rightarrow> Inl (BadRequest ''api_key_scope_required'')
          | Some organization_id \<Rightarrow>
              (case dir_organization_tenant dir organization_id of
                 None \<Rightarrow> Inl (NotFound (''organization '' @ organization_id))
               | Some tenant_id \<Rightarrow>
                   if tenant_id \<noteq> key_tenant_id r
                   then Inl (Authorization ''api_key_organization_tenant_mismatch'')
                   else if is_some_and project_organization (\<lambda>o1. o1 \<noteq> organization_id)
                   then Inl (BadRequest ''api_key_project_organization_mismatch'')
                   else Inr ()))"

definition validate_api_key_action_allowlist :: "api_key_record \<Rightarrow> unit gateway_result" where
  "validate_api_key_action_allowlist r =
     try_all (\<lambda>action_id. if from_action_id action_id = None
        then Inl (BadRequest (''unknown_api_key_action:'' @ action_id)) else Inr ()) (key_allowed_actions r)"

definition validate_api_key_admin_record :: "directory \<Rightarrow> api_key_record \<Rightarrow> unit gateway_result" where
  "validate_api_key_admin_record dir r =
     (if is_blank (key_name r) then Inl (BadRequest ''api_key_name_required'')
      else if key_organization_id r = None \<and> key_project_id r = None
      then Inl (BadRequest ''api_key_scope_required'')
      else if \<not> List.member (dir_tenants dir) (key_tenant_id r)
      then Inl (NotFound (''tenant '' @ key_tenant_id r))
      else rbind (validate_api_key_owner dir r) (\<lambda>_.
           rbind (validate_api_key_scope dir r) (\<lambda>_. validate_api_key_action_allowlist r)))"

definition create_api_key_record :: "api_key_record \<Rightarrow> api_key_record admin_op" where
  "create_api_key_record r =
     abind (acheck (\<lambda>s. validate_api_key_admin_record (ad_directory s) r)) (\<lambda>_ s.
       (Inr r, s\<lparr>ad_auth := insert_api_key r (ad_auth s)\<rparr>))"

definition replace_api_key_secret :: "api_key_record \<Rightarrow> api_key_record admin_op" where
  "replace_api_key_secret r =
     abind (acheck (\<lambda>s. validate_api_key_admin_record (ad_directory s) r)) (\<lambda>_ s.
       case api_key (ad_auth s) (key_api_key_id r) of
         None \<Rightarrow> (Inl (NotFound (''API key '' @ key_api_key_id r)), s)
       | Some existing \<Rightarrow>
           if key_tenant_id existing \<noteq> key_tenant_id r
           then (Inl (Authorization ''api_key_tenant_mismatch''), s)
           else (Inr r, s\<lparr>ad_auth := insert_api_key r (ad_auth s)\<rparr>))"

definition api_key_for_actor ::
  "authenticated_actor \<Rightarrow> string \<Rightarrow> admin_state \<Rightarrow> api_key_record gateway_result" where
  "api_key_for_actor actor i s =
     (case opt_filter (\<lambda>k. key_tenant_id k = actor_tenant_id actor) (api_key (ad_auth s) i) of
        None \<Rightarrow> Inl (NotFound (''API key '' @ i)) | Some k \<Rightarrow> Inr k)"

definition update_api_key_status_for_state ::
  "authenticated_actor \<Rightarrow> string \<Rightarrow> api_key_status \<Rightarrow> datetime \<Rightarrow> api_key_record admin_op" where
  "update_api_key_status_for_state actor i status now =
     abind (\<lambda>s. case update_api_key_status i status now (ad_auth s) of
              (r, auth) \<Rightarrow> (r, s\<lparr>ad_auth := auth\<rparr>)) (\<lambda>updated s.
       if key_tenant_id updated \<noteq> actor_tenant_id actor then (Inl (NotFound (''API key '' @ i)), s)
       else (Inr updated, s\<lparr>ad_auth := insert_api_key updated (ad_auth s)\<rparr>))"

subsection \<open>API key handlers\<close>

record admin_create_api_key_request =
  cak_idempotency_key :: string
  cak_organization_id :: "string option"
  cak_project_id :: "string option"
  cak_owner_principal_id :: "string option"
  cak_name :: string
  cak_expires_at :: "datetime option"
  cak_allowed_actions :: "string list"
  cak_allowed_resources :: "string list"

text \<open>\<open>AdminRotateApiKeyRequest\<close> and \<open>AdminDisableApiKeyRequest\<close> have the same fields.\<close>

record admin_api_key_reason_request =
  akr_idempotency_key :: string
  akr_reason :: "string option"

text \<open>What a new secret is made of: the bytes, the salt of the password hash and the id of a new key.\<close>

record key_material =
  km_bytes :: "8 word list"
  km_salt :: string
  km_key_id :: string

definition json_strings :: "string list \<Rightarrow> json" where
  "json_strings xs = JArray (map JString xs)"

definition admin_create_api_key_request_json :: "admin_env \<Rightarrow> admin_create_api_key_request \<Rightarrow> json" where
  "admin_create_api_key_request_json env r = JObject
     [(''idempotency_key'', JString (cak_idempotency_key r)),
      (''organization_id'', json_opt_str (cak_organization_id r)),
      (''project_id'', json_opt_str (cak_project_id r)),
      (''owner_principal_id'', json_opt_str (cak_owner_principal_id r)), (''name'', JString (cak_name r)),
      (''expires_at'', json_opt_time env (cak_expires_at r)),
      (''allowed_actions'', json_strings (cak_allowed_actions r)),
      (''allowed_resources'', json_strings (cak_allowed_resources r))]"

definition admin_api_key_reason_request_json :: "admin_api_key_reason_request \<Rightarrow> json" where
  "admin_api_key_reason_request_json r = JObject
     [(''idempotency_key'', JString (akr_idempotency_key r)), (''reason'', json_opt_str (akr_reason r))]"

fun api_key_status_json :: "api_key_status \<Rightarrow> json" where
  "api_key_status_json KeyActive = JString ''active''"
| "api_key_status_json KeyDisabled = JString ''disabled''"
| "api_key_status_json KeyExpired = JString ''expired''"
| "api_key_status_json KeyRotating = JString ''rotating''"
| "api_key_status_json KeyDeleted = JString ''deleted''"

definition api_key_resource_body :: "admin_env \<Rightarrow> api_key_record \<Rightarrow> json" where
  "api_key_resource_body env k = JObject
     [(''kind'', JString ''api_key''), (''id'', JString (key_api_key_id k)),
      (''tenant_id'', JString (key_tenant_id k)),
      (''organization_id'', json_opt_str (key_organization_id k)),
      (''project_id'', json_opt_str (key_project_id k)),
      (''owner_principal_id'', JString (key_owner_principal_id k)), (''name'', JString (key_name k)),
      (''key_prefix'', JString (key_key_prefix k)), (''hash_version'', JInt (int (key_hash_version k))),
      (''status'', api_key_status_json (key_status k)),
      (''allowed_actions'', json_strings (key_allowed_actions k)),
      (''allowed_resources'', json_strings (key_allowed_resources k)),
      (''expires_at'', json_opt_time env (key_expires_at k)),
      (''last_used_at'', json_opt_time env (key_last_used_at k)),
      (''last_used_request_id'', json_opt_str (key_last_used_request_id k)),
      (''created_by'', JString (key_created_by k)), (''created_at'', av_json_time env (key_created_at k)),
      (''updated_at'', av_json_time env (key_updated_at k))]"

definition api_key_mutation_response ::
  "admin_env \<Rightarrow> api_key_record \<Rightarrow> string \<Rightarrow> string option \<Rightarrow> bool \<Rightarrow> bool \<Rightarrow> json" where
  "api_key_mutation_response env k audit_event_id raw_key one_time_secret_available idempotency_replayed =
     JObject
     [(''schema'', JString ''gateway.admin.api_key_mutation.v1''),
      (''resource'', api_key_resource_body env k), (''raw_key'', json_opt_str raw_key),
      (''one_time_secret_available'', JBool one_time_secret_available),
      (''audit_event_id'', JString audit_event_id), (''idempotency_replayed'', JBool idempotency_replayed)]"

definition api_key_audit_input :: "string \<Rightarrow> api_key_record \<Rightarrow> json \<Rightarrow> datetime \<Rightarrow> admin_resource_audit_input" where
  "api_key_audit_input event_type k redacted_diff now =
     \<lparr>ari_event_type = event_type, ari_scope_kind = ''api_key'', ari_scope_id = key_api_key_id k,
      ari_resource_kind = ''ApiKey'', ari_resource_id = key_api_key_id k, ari_before_version = None,
      ari_after_version = None, ari_redacted_diff = redacted_diff, ari_occurred_at = now\<rparr>"

definition ADMIN_API_KEY_ROTATE_PATH :: string where
  "ADMIN_API_KEY_ROTATE_PATH = ''/admin/v1/api-keys/{api_key_id}/rotate''"

definition ADMIN_API_KEY_DISABLE_PATH :: string where
  "ADMIN_API_KEY_DISABLE_PATH = ''/admin/v1/api-keys/{api_key_id}/disable''"

definition create_key_effect ::
  "admin_env \<Rightarrow> secret_hasher \<Rightarrow> key_material \<Rightarrow> admin_ids \<Rightarrow> authenticated_actor \<Rightarrow>
   admin_create_api_key_request \<Rightarrow> datetime \<Rightarrow> (json \<times> json) admin_op" where
  "create_key_effect env hasher material ids actor request now =
     abind (acheck (\<lambda>s. create_api_key hasher (km_bytes material) (km_salt material) (km_key_id material)
           \<lparr>ck_tenant_id = actor_tenant_id actor, ck_organization_id = cak_organization_id request,
            ck_project_id = cak_project_id request,
            ck_owner_principal_id = unwrap_or (cak_owner_principal_id request) (actor_principal_or_actor_id actor),
            ck_name = trim (cak_name request), ck_created_by = actor_principal_or_actor_id actor,
            ck_expires_at = cak_expires_at request, ck_allowed_actions = cak_allowed_actions request,
            ck_allowed_resources = cak_allowed_resources request\<rparr> now)) (\<lambda>(created, raw_key).
     abind (create_api_key_record created) (\<lambda>k.
     abind (awrite (record_admin_resource_audit (ai_audit ids) actor
               (api_key_audit_input ''gateway.api_key.create'' k (JObject
                 [(''created'', JBool True), (''organization_id'', json_opt_str (key_organization_id k)),
                  (''project_id'', json_opt_str (key_project_id k)),
                  (''owner_principal_id'', JString (key_owner_principal_id k)),
                  (''name'', JString (key_name k)),
                  (''allowed_actions'', json_strings (key_allowed_actions k)),
                  (''allowed_resources'', json_strings (key_allowed_resources k)),
                  (''expires_at'', json_opt_time env (key_expires_at k))]) now))) (\<lambda>_.
       aret (api_key_mutation_response env k (ai_audit ids) (Some raw_key) True False,
               api_key_mutation_response env k (ai_audit ids) None False False))))"

definition create_api_key_admin ::
  "('tn, 'sc, 'ps, 'rq, 'en) cedar_api \<Rightarrow> admin_env \<Rightarrow> secret_hasher \<Rightarrow> key_material \<Rightarrow> admin_ids \<Rightarrow>
   authenticated_actor \<Rightarrow> admin_create_api_key_request \<Rightarrow> datetime \<Rightarrow> json admin_op" where
  "create_api_key_admin api env hasher material ids actor request now =
     abind (authorize_admin_route api env (ai_authz ids) actor POST ''/admin/v1/api-keys'' ''*'' now) (\<lambda>_.
     abind (acheck (\<lambda>s. stable_request_hash env (admin_create_api_key_request_json env request))) (\<lambda>request_hash.
       idempotent_mutation (actor_tenant_id actor)
         (idempotency_scope_key ''api_keys:create'' (cak_idempotency_key request)) request_hash now
         (create_key_effect env hasher material ids actor request now)))"

definition rotate_key_effect ::
  "admin_env \<Rightarrow> secret_hasher \<Rightarrow> key_material \<Rightarrow> admin_ids \<Rightarrow> authenticated_actor \<Rightarrow>
   string \<Rightarrow> admin_api_key_reason_request \<Rightarrow> datetime \<Rightarrow> (json \<times> json) admin_op" where
  "rotate_key_effect env hasher material ids actor api_key_id request now =
     abind (acheck (api_key_for_actor actor api_key_id)) (\<lambda>before.
     abind (acheck (\<lambda>s. rotate_api_key_secret hasher (km_bytes material) (km_salt material) before now))
         (\<lambda>(rotated, raw_key).
     abind (replace_api_key_secret rotated) (\<lambda>k.
     abind (awrite (record_admin_resource_audit (ai_audit ids) actor
               (api_key_audit_input ''gateway.api_key.rotate'' k (JObject
                 [(''rotated'', JBool True),
                  (''key_prefix'', JObject [(''before'', JString (key_key_prefix before)),
                     (''after'', JString (key_key_prefix k))]),
                  (''reason'', json_opt_str (akr_reason request))]) now))) (\<lambda>_.
       aret (api_key_mutation_response env k (ai_audit ids) (Some raw_key) True False,
               api_key_mutation_response env k (ai_audit ids) None False False)))))"

definition rotate_api_key_admin ::
  "('tn, 'sc, 'ps, 'rq, 'en) cedar_api \<Rightarrow> admin_env \<Rightarrow> secret_hasher \<Rightarrow> key_material \<Rightarrow> admin_ids \<Rightarrow>
   authenticated_actor \<Rightarrow> string \<Rightarrow> admin_api_key_reason_request \<Rightarrow> datetime \<Rightarrow> json admin_op" where
  "rotate_api_key_admin api env hasher material ids actor api_key_id request now =
     abind (authorize_admin_route api env (ai_authz ids) actor POST ADMIN_API_KEY_ROTATE_PATH api_key_id now) (\<lambda>_.
     abind (acheck (\<lambda>s. stable_request_hash env (admin_api_key_reason_request_json request))) (\<lambda>request_hash.
       idempotent_mutation (actor_tenant_id actor)
         (idempotency_scope_key ''api_keys:rotate'' (akr_idempotency_key request)) request_hash now
         (rotate_key_effect env hasher material ids actor api_key_id request now)))"

definition disable_key_effect ::
  "admin_env \<Rightarrow> admin_ids \<Rightarrow> authenticated_actor \<Rightarrow> string \<Rightarrow>
   admin_api_key_reason_request \<Rightarrow> datetime \<Rightarrow> (json \<times> json) admin_op" where
  "disable_key_effect env ids actor api_key_id request now =
     abind (acheck (api_key_for_actor actor api_key_id)) (\<lambda>before.
     abind (update_api_key_status_for_state actor api_key_id KeyDisabled now) (\<lambda>k.
     abind (awrite (record_admin_resource_audit (ai_audit ids) actor
               (api_key_audit_input ''gateway.api_key.disable'' k (JObject
                 [(''status'', JObject [(''before'', api_key_status_json (key_status before)),
                     (''after'', api_key_status_json (key_status k))]),
                  (''reason'', json_opt_str (akr_reason request))]) now))) (\<lambda>_.
       let response = api_key_mutation_response env k (ai_audit ids) None False False in
       aret (response, response))))"

definition disable_api_key_admin ::
  "('tn, 'sc, 'ps, 'rq, 'en) cedar_api \<Rightarrow> admin_env \<Rightarrow> admin_ids \<Rightarrow> authenticated_actor \<Rightarrow> string \<Rightarrow>
   admin_api_key_reason_request \<Rightarrow> datetime \<Rightarrow> json admin_op" where
  "disable_api_key_admin api env ids actor api_key_id request now =
     abind (authorize_admin_route api env (ai_authz ids) actor POST ADMIN_API_KEY_DISABLE_PATH api_key_id now) (\<lambda>_.
     abind (acheck (\<lambda>s. stable_request_hash env (admin_api_key_reason_request_json request))) (\<lambda>request_hash.
       idempotent_mutation (actor_tenant_id actor)
         (idempotency_scope_key ''api_keys:disable'' (akr_idempotency_key request)) request_hash now
         (disable_key_effect env ids actor api_key_id request now)))"


end
