(* ===== verification/Gateway_Admin_Steps.thy ===== *)
theory Gateway_Admin_Steps
  imports Gateway_Admin_Handlers
begin

text \<open>
  Runs of the modelled admin mutations: one call type with the dispatch of the router, the step
  relation of any such calls interleaved with the rest of the gateway, and what calls keep of the
  state. The interface \<open>admin_relation\<close> is what a relation between states has to satisfy for the
  common parts of the handlers to keep it.
\<close>

subsection \<open>Calls\<close>

datatype admin_call =
    DisableUpstreamCredential string emergency_request
  | DisableProviderEndpoint string emergency_request
  | DrainRoutingGroup string emergency_request
  | FreezeConfig emergency_request
  | EmergencyRollback string emergency_request
  | ForceBudgetBlock string emergency_request
  | PublishSnapshot admin_publish_request
  | RollbackSnapshot admin_rollback_request
  | CreateApiKey admin_create_api_key_request
  | RotateApiKey string admin_api_key_reason_request
  | DisableApiKey string admin_api_key_reason_request

text \<open>The external code of a gateway instance.\<close>

record ('tn, 'sc, 'ps, 'rq, 'en) admin_context =
  ctxt_cedar :: "('tn, 'sc, 'ps, 'rq, 'en) cedar_api"
  ctxt_env :: admin_env
  ctxt_codec :: snapshot_codec
  ctxt_hasher :: secret_hasher

fun handle_admin_call ::
  "('tn, 'sc, 'ps, 'rq, 'en) admin_context \<Rightarrow> key_material \<Rightarrow> admin_ids \<Rightarrow> authenticated_actor \<Rightarrow> admin_call \<Rightarrow>
   datetime \<Rightarrow> json admin_op" where
  "handle_admin_call c material ids actor (DisableUpstreamCredential i request) now =
     emergency_disable_upstream_credential (ctxt_cedar c) (ctxt_env c) ids actor i request now"
| "handle_admin_call c material ids actor (DisableProviderEndpoint i request) now =
     emergency_disable_provider_endpoint (ctxt_cedar c) (ctxt_env c) ids actor i request now"
| "handle_admin_call c material ids actor (DrainRoutingGroup i request) now =
     emergency_drain_routing_group (ctxt_cedar c) (ctxt_env c) ids actor i request now"
| "handle_admin_call c material ids actor (FreezeConfig request) now =
     emergency_freeze_config (ctxt_cedar c) (ctxt_env c) ids actor request now"
| "handle_admin_call c material ids actor (EmergencyRollback i request) now =
     emergency_rollback_config_snapshot (ctxt_cedar c) (ctxt_env c) (ctxt_codec c) ids actor i request now"
| "handle_admin_call c material ids actor (ForceBudgetBlock i request) now =
     emergency_force_budget_block (ctxt_cedar c) (ctxt_env c) ids actor i request now"
| "handle_admin_call c material ids actor (PublishSnapshot request) now =
     publish_config_snapshot_admin (ctxt_cedar c) (ctxt_env c) (ctxt_codec c) ids actor request now"
| "handle_admin_call c material ids actor (RollbackSnapshot request) now =
     rollback_config_snapshot_admin (ctxt_cedar c) (ctxt_env c) (ctxt_codec c) ids actor request now"
| "handle_admin_call c material ids actor (CreateApiKey request) now =
     create_api_key_admin (ctxt_cedar c) (ctxt_env c) (ctxt_hasher c) material ids actor request now"
| "handle_admin_call c material ids actor (RotateApiKey i request) now =
     rotate_api_key_admin (ctxt_cedar c) (ctxt_env c) (ctxt_hasher c) material ids actor i request now"
| "handle_admin_call c material ids actor (DisableApiKey i request) now =
     disable_api_key_admin (ctxt_cedar c) (ctxt_env c) ids actor i request now"

text \<open>The key a call is recorded under, and the document its hash is taken of.\<close>

fun call_scope_key :: "string \<Rightarrow> admin_call \<Rightarrow> string" where
  "call_scope_key tenant_id (DisableUpstreamCredential i r) =
     emergency_idempotency_scope_key ''disable_upstream_credential'' i (er_idempotency_key r)"
| "call_scope_key tenant_id (DisableProviderEndpoint i r) =
     emergency_idempotency_scope_key ''disable_provider_endpoint'' i (er_idempotency_key r)"
| "call_scope_key tenant_id (DrainRoutingGroup i r) =
     emergency_idempotency_scope_key ''drain_routing_group'' i (er_idempotency_key r)"
| "call_scope_key tenant_id (FreezeConfig r) =
     emergency_idempotency_scope_key ''freeze_config'' tenant_id (er_idempotency_key r)"
| "call_scope_key tenant_id (EmergencyRollback i r) =
     emergency_idempotency_scope_key ''rollback_config_snapshot'' i (er_idempotency_key r)"
| "call_scope_key tenant_id (ForceBudgetBlock i r) =
     emergency_idempotency_scope_key ''force_budget_block'' i (er_idempotency_key r)"
| "call_scope_key tenant_id (PublishSnapshot r) =
     idempotency_scope_key ''config_snapshots:publish'' (apr_idempotency_key r)"
| "call_scope_key tenant_id (RollbackSnapshot r) =
     idempotency_scope_key ''config_snapshots:rollback'' (arr_idempotency_key r)"
| "call_scope_key tenant_id (CreateApiKey r) =
     idempotency_scope_key ''api_keys:create'' (cak_idempotency_key r)"
| "call_scope_key tenant_id (RotateApiKey i r) =
     idempotency_scope_key ''api_keys:rotate'' (akr_idempotency_key r)"
| "call_scope_key tenant_id (DisableApiKey i r) =
     idempotency_scope_key ''api_keys:disable'' (akr_idempotency_key r)"

definition call_request_hash :: "admin_env \<Rightarrow> string \<Rightarrow> admin_call \<Rightarrow> string gateway_result" where
  "call_request_hash env tenant_id call =
     (case call of
        DisableUpstreamCredential i r \<Rightarrow> emergency_request_hash env i r
      | DisableProviderEndpoint i r \<Rightarrow> emergency_request_hash env i r
      | DrainRoutingGroup i r \<Rightarrow> emergency_request_hash env i r
      | FreezeConfig r \<Rightarrow> emergency_request_hash env tenant_id r
      | EmergencyRollback i r \<Rightarrow> emergency_request_hash env i r
      | ForceBudgetBlock i r \<Rightarrow> emergency_request_hash env i r
      | PublishSnapshot r \<Rightarrow> stable_request_hash env (admin_publish_request_json r)
      | RollbackSnapshot r \<Rightarrow> stable_request_hash env (admin_rollback_request_json r)
      | CreateApiKey r \<Rightarrow> stable_request_hash env (admin_create_api_key_request_json env r)
      | RotateApiKey i r \<Rightarrow> stable_request_hash env (admin_api_key_reason_request_json r)
      | DisableApiKey i r \<Rightarrow> stable_request_hash env (admin_api_key_reason_request_json r))"

subsection \<open>The routes of the calls\<close>

lemma admin_rows:
  "route_row POST ''/admin/v1/config/snapshots:publish'' None (Control ConfigPublish) ''ConfigSnapshot''
     [''tenant_id''] False True ''gateway.config.publish'' \<in> set foundation_routes"
  "route_row POST ''/admin/v1/api-keys'' None (Control ApiKeyCreate) ''ApiKey''
     [''tenant_id''] False True ''gateway.api_key.create'' \<in> set foundation_routes"
  "route_row POST ADMIN_API_KEY_ROTATE_PATH None (Control ApiKeyRotate) ''ApiKey''
     [''tenant_id'', ''api_key_id''] False True ''gateway.api_key.rotate'' \<in> set foundation_routes"
  "route_row POST ADMIN_API_KEY_DISABLE_PATH None (Control ApiKeyDisable) ''ApiKey''
     [''tenant_id'', ''api_key_id''] False True ''gateway.api_key.disable'' \<in> set foundation_routes"
  "route_row POST ADMIN_EMERGENCY_FREEZE_CONFIG_PATH None (Runtime EmergencyDisable) ''EmergencyOperation''
     [''tenant_id''] False True ''gateway.emergency.freeze'' \<in> set foundation_routes"
  "route_row POST ADMIN_EMERGENCY_FORCE_BUDGET_BLOCK_PATH None (Runtime EmergencyDisable) ''EmergencyOperation''
     [''tenant_id'', ''budget_policy_id''] False True ''gateway.emergency.force_budget_block'' \<in> set foundation_routes"
  "route_row POST ADMIN_EMERGENCY_DISABLE_UPSTREAM_CREDENTIAL_PATH None (Runtime EmergencyDisable)
     ''EmergencyOperation'' [''tenant_id'', ''upstream_credential_id''] False True ''gateway.emergency.disable''
     \<in> set foundation_routes"
  "route_row POST ADMIN_EMERGENCY_DISABLE_PROVIDER_ENDPOINT_PATH None (Runtime EmergencyDisable)
     ''EmergencyOperation'' [''tenant_id'', ''provider_endpoint_id''] False True ''gateway.emergency.disable''
     \<in> set foundation_routes"
  unfolding foundation_routes_def foundation_routes_2_def foundation_routes_4_def foundation_routes_9_def
    foundation_routes_10_def ADMIN_API_KEY_ROTATE_PATH_def ADMIN_API_KEY_DISABLE_PATH_def
    ADMIN_EMERGENCY_FREEZE_CONFIG_PATH_def ADMIN_EMERGENCY_FORCE_BUDGET_BLOCK_PATH_def
    ADMIN_EMERGENCY_DISABLE_UPSTREAM_CREDENTIAL_PATH_def ADMIN_EMERGENCY_DISABLE_PROVIDER_ENDPOINT_PATH_def
  by simp_all

subsection \<open>The operations of the monad\<close>

lemma abind_assoc: "abind (abind m f) g = abind m (\<lambda>a. abind (f a) g)"
  by (auto simp: abind_def fun_eq_iff split: sum.splits prod.splits)

lemma abind_Inr_iff:
  "abind m f s = (Inr b, s2) \<longleftrightarrow> (\<exists>a s1. m s = (Inr a, s1) \<and> f a s1 = (Inr b, s2))"
  by (auto simp: abind_def split: sum.splits prod.splits)

lemma abind_acheck:
  "abind (acheck g) f s = (case g s of Inl e \<Rightarrow> (Inl e, s) | Inr a \<Rightarrow> f a s)"
  by (simp add: abind_def acheck_def split: sum.splits)

lemma abind_awrite: "abind (awrite g) f s = f () (g s)"
  by (simp add: abind_def awrite_def)

lemma abind_aret: "abind (aret a) f = f a"
  by (simp add: abind_def aret_def fun_eq_iff)

lemmas abind_simps = abind_acheck abind_awrite abind_aret

definition keeps :: "(admin_state \<Rightarrow> admin_state \<Rightarrow> bool) \<Rightarrow> 'a admin_op \<Rightarrow> bool" where
  "keeps R m \<longleftrightarrow> (\<forall>s. R s (snd (m s)))"

lemma keepsD: "keeps R m \<Longrightarrow> R s (snd (m s))"
  by (simp add: keeps_def)

text \<open>
  What the common parts need of a relation: the gate asks that it is reflexive, transitive and blind
  to the decision log, the rest of a handler that it is blind to the audit log as well.
\<close>

locale gate_relation =
  fixes R :: "admin_state \<Rightarrow> admin_state \<Rightarrow> bool"
  assumes refl: "R s s"
    and trans: "R s t \<Longrightarrow> R t u \<Longrightarrow> R s u"
    and authz: "R s (s\<lparr>ad_authz := authz\<rparr>)"
begin

lemma keeps_abind: "keeps R m \<Longrightarrow> (\<And>a. keeps R (f a)) \<Longrightarrow> keeps R (abind m f)"
  by (auto simp: keeps_def abind_def split: sum.splits prod.splits) (metis snd_conv trans)+

lemma keeps_acheck: "keeps R (acheck g)"
  by (simp add: keeps_def acheck_def refl)

lemma keeps_aret: "keeps R (aret a)"
  by (simp add: keeps_def aret_def refl)

lemma keeps_awrite: "(\<And>s. R s (f s)) \<Longrightarrow> keeps R (awrite f)"
  by (simp add: keeps_def awrite_def)

lemma keeps_gate: "keeps R (authorize_admin_route api env i actor method path resource_id now)"
  unfolding authorize_admin_route_def
  by (intro keeps_abind keeps_acheck) (auto simp: keeps_def authz split: prod.splits)

lemmas keeps_frame = keeps_abind keeps_acheck keeps_aret keeps_gate

end

locale admin_relation = gate_relation +
  assumes audit: "R s (s\<lparr>ad_audit := events\<rparr>)"
begin

lemma keeps_audit: "keeps R (awrite (record_admin_resource_audit i actor input))"
  by (intro keeps_awrite) (simp add: record_admin_resource_audit_def audit)

lemma keeps_config_audit:
  "keeps R (awrite (record_config_snapshot_audit i actor event_type resource_id before after diff now))"
  unfolding record_config_snapshot_audit_def by (rule keeps_audit)

lemma keeps_evidence:
  assumes "\<And>s. R s (snd (create_emergency_operation_record (ai_operation ids) actor input now s))"
  shows "keeps R (emergency_evidence env ids actor input before after diff affected now)"
  unfolding emergency_evidence_def record_emergency_operation_audit_def Let_def
  by (intro keeps_abind keeps_audit keeps_aret) (simp add: keeps_def assms)

lemmas keeps_effect = keeps_frame keeps_audit keeps_config_audit

end

subsection \<open>What is kept\<close>

definition only_authz :: "admin_state \<Rightarrow> admin_state \<Rightarrow> bool" where
  "only_authz s s' \<longleftrightarrow> (\<exists>authz. s' = s\<lparr>ad_authz := authz\<rparr>)"

definition same_idempotency :: "admin_state \<Rightarrow> admin_state \<Rightarrow> bool" where
  "same_idempotency s s' \<longleftrightarrow> ad_idempotency s' = ad_idempotency s"

definition operations_kept :: "string \<Rightarrow> admin_state \<Rightarrow> admin_state \<Rightarrow> bool" where
  "operations_kept i s s' \<longleftrightarrow>
     (\<forall>op \<in> set (pa_emergency_operations (ad_policy s)). eo_emergency_operation_id op \<noteq> i \<longrightarrow>
        op \<in> set (pa_emergency_operations (ad_policy s'))) \<and>
     pa_budget_policies (ad_policy s') = pa_budget_policies (ad_policy s)"

definition records_kept :: "datetime \<Rightarrow> admin_state \<Rightarrow> admin_state \<Rightarrow> bool" where
  "records_kept until s s' \<longleftrightarrow>
     (\<forall>k r. ad_idempotency s k = Some r \<and> until < idr_expires_at r \<longrightarrow> ad_idempotency s' k = Some r)"

interpretation authz_only: gate_relation only_authz
proof unfold_locales
  show "only_authz s s" for s
    unfolding only_authz_def by (rule exI [of _ "ad_authz s"]) simp
qed (auto simp: only_authz_def)

interpretation idem: admin_relation same_idempotency
  by unfold_locales (auto simp: same_idempotency_def)

interpretation ops: admin_relation "operations_kept i"
  by unfold_locales (auto simp: operations_kept_def)

interpretation records: admin_relation "records_kept until"
  by unfold_locales (auto simp: records_kept_def)

text \<open>The writes of the effects that are not of the common parts.\<close>

lemma create_operation_idem:
  "same_idempotency s (snd (create_emergency_operation_record i actor input now s))"
  by (simp add: create_emergency_operation_record_def create_emergency_operation_def same_idempotency_def Let_def)

lemma create_operation_ops:
  "operations_kept i s (snd (create_emergency_operation_record i actor input now s))"
  by (auto simp: create_emergency_operation_record_def create_emergency_operation_def operations_kept_def Let_def)

lemma update_status_idem:
  "keeps same_idempotency (update_upstream_credential_status i v st now)"
  "keeps same_idempotency (update_provider_endpoint_status i v st' now)"
  "keeps same_idempotency (update_routing_group_status i v st' now)"
  by (auto simp: keeps_def same_idempotency_def update_upstream_credential_status_def
      update_provider_endpoint_status_def update_routing_group_status_def Let_def split: option.splits)

lemma update_status_ops:
  "keeps (operations_kept n) (update_upstream_credential_status i v st now)"
  "keeps (operations_kept n) (update_provider_endpoint_status i v st' now)"
  "keeps (operations_kept n) (update_routing_group_status i v st' now)"
  by (auto simp: keeps_def operations_kept_def update_upstream_credential_status_def
      update_provider_endpoint_status_def update_routing_group_status_def Let_def split: option.splits)

lemma set_drain_keeps:
  "keeps same_idempotency (awrite (set_endpoint_emergency_drain e reason x now))"
  "keeps (operations_kept n) (awrite (set_endpoint_emergency_drain e reason x now))"
  by (auto simp: keeps_def awrite_def same_idempotency_def operations_kept_def
      set_endpoint_emergency_drain_def split: option.splits)

lemma config_write_keeps:
  "keeps same_idempotency (\<lambda>s. case f (ad_config s) of (r, config) \<Rightarrow> (r, s\<lparr>ad_config := config\<rparr>))"
  "keeps (operations_kept n) (\<lambda>s. case f (ad_config s) of (r, config) \<Rightarrow> (r, s\<lparr>ad_config := config\<rparr>))"
  by (auto simp: keeps_def same_idempotency_def operations_kept_def split: prod.splits)

lemma key_write_keeps:
  "keeps same_idempotency (create_api_key_record k)" "keeps (operations_kept n) (create_api_key_record k)"
  "keeps same_idempotency (replace_api_key_secret k)" "keeps (operations_kept n) (replace_api_key_secret k)"
  "keeps same_idempotency (update_api_key_status_for_state actor i st now)"
  "keeps (operations_kept n) (update_api_key_status_for_state actor i st now)"
  by (auto simp: keeps_def same_idempotency_def operations_kept_def create_api_key_record_def abind_def
      acheck_def replace_api_key_secret_def update_api_key_status_for_state_def split: sum.splits prod.splits option.splits)

lemmas idem_effects = idem.keeps_effect idem.keeps_evidence create_operation_idem update_status_idem
  set_drain_keeps(1) config_write_keeps(1) key_write_keeps(1,3,5)

lemmas ops_effects = ops.keeps_effect ops.keeps_evidence create_operation_ops update_status_ops
  set_drain_keeps(2) config_write_keeps(2) key_write_keeps(2,4,6)

subsection \<open>Idempotent calls\<close>

text \<open>
  What an effect may store: the response itself, or the response without the secret it carries.
\<close>

definition sanitized :: "json \<Rightarrow> json \<Rightarrow> bool" where
  "sanitized response stored \<longleftrightarrow>
     (\<exists>kvs. stored = JObject kvs) \<and> json_get stored ''raw_key'' \<in> {None, Some JNull} \<and>
     (\<forall>field. field \<notin> {''raw_key'', ''one_time_secret_available''} \<longrightarrow>
        json_get stored field = json_get response field)"

definition sanitizes :: "(json \<times> json) admin_op \<Rightarrow> bool" where
  "sanitizes effect \<longleftrightarrow> (\<forall>s response stored s'. effect s = (Inr (response, stored), s') \<longrightarrow> sanitized response stored)"

text \<open>
  The shape of every handler: guards that write decisions only, then the hash, then an idempotent
  mutation whose effect leaves the idempotency records alone.
\<close>

inductive idempotent_call ::
  "string \<Rightarrow> string \<Rightarrow> string gateway_result \<Rightarrow> datetime \<Rightarrow> string \<Rightarrow> json admin_op \<Rightarrow> bool"
  for tenant_id scope_key request_hash now i where
  mutation: "keeps same_idempotency effect \<Longrightarrow> keeps (operations_kept i) effect \<Longrightarrow> sanitizes effect \<Longrightarrow>
    idempotent_call tenant_id scope_key request_hash now i
      (abind (acheck (\<lambda>s. request_hash)) (\<lambda>h. idempotent_mutation tenant_id scope_key h now effect))"
| guarded: "keeps only_authz (guard :: unit admin_op) \<Longrightarrow> idempotent_call tenant_id scope_key request_hash now i m \<Longrightarrow>
    idempotent_call tenant_id scope_key request_hash now i (abind guard (\<lambda>_. m))"


lemma only_authz_idempotency: "only_authz s s' \<Longrightarrow> ad_idempotency s' = ad_idempotency s"
  by (auto simp: only_authz_def)

lemma only_authz_operations: "only_authz s s' \<Longrightarrow> operations_kept i s s'"
  by (auto simp: only_authz_def operations_kept_def)

lemma guarded_fst_snd:
  assumes "keeps only_authz g"
  shows "only_authz s (snd (abind g (\<lambda>_. m) s)) \<and> (\<exists>e. fst (abind g (\<lambda>_. m) s) = Inl e) \<or>
    (\<exists>s1. only_authz s s1 \<and> abind g (\<lambda>_. m) s = m s1)"
  using keepsD [OF assms, of s] by (cases "g s") (auto simp: abind_def split: sum.splits)

lemma idempotent_mutation_fresh:
  assumes "idempotency_response tenant_id scope_key h now s = (Inr None, s1)"
  shows "idempotent_mutation tenant_id scope_key h now effect s = (Inr response, s') \<longleftrightarrow>
    (\<exists>stored s2. effect s1 = (Inr (response, stored), s2) \<and>
       s' = record_idempotent_admin_response tenant_id scope_key h stored now s2)"
  using assms by (auto simp: idempotent_mutation_def abind_Inr_iff awrite_def aret_def split: prod.splits)

text \<open>A call whose key has no record in force runs its effect and stores the response.\<close>

lemma idempotent_call_first:
  assumes "idempotent_call tenant_id scope_key request_hash now i m" and "m s = (Inr response, s')"
    and "\<And>r. ad_idempotency s (tenant_id, scope_key) = Some r \<Longrightarrow> idr_expires_at r \<le> now"
  shows "\<exists>h stored. request_hash = Inr h \<and> sanitized response stored \<and>
    ad_idempotency s' (tenant_id, scope_key) = Some
      \<lparr>idr_tenant_id = tenant_id, idr_scope_key = scope_key, idr_request_hash = h,
       idr_response_record = stored, idr_expires_at = now + IDEMPOTENCY_TTL, idr_created_at = now\<rparr>"
  using assms
proof (induction arbitrary: s)
  case (mutation effect)
  obtain h where h: "request_hash = Inr h"
    using mutation.prems(1) by (auto simp: abind_simps split: sum.splits)
  obtain s1 where look: "idempotency_response tenant_id scope_key h now s = (Inr None, s1)"
    using mutation.prems(2) by (force simp: idempotency_response_def split: option.splits)
  obtain stored s2 where eff: "effect s1 = (Inr (response, stored), s2)" and
    s': "s' = record_idempotent_admin_response tenant_id scope_key h stored now s2"
    using mutation.prems(1) unfolding h by (auto simp: abind_acheck idempotent_mutation_fresh [OF look])
  from mutation.hyps(3) eff have "sanitized response stored" by (auto simp: sanitizes_def)
  with h show ?case
    by (auto simp: s' record_idempotent_admin_response_def record_idempotency_response_def)
next
  case (guarded g m)
  from guarded_fst_snd [OF guarded.hyps(1), of s m] guarded.prems(1) obtain s1 where
    s1: "only_authz s s1" "m s1 = (Inr response, s')" by auto
  then show ?case using guarded.IH [OF s1(2)] guarded.prems(2) by (simp add: only_authz_idempotency)
qed

text \<open>A call whose key has a record in force changes nothing but the decision log.\<close>

lemma idempotent_mutation_found:
  assumes "ad_idempotency s (tenant_id, scope_key) = Some r" and "now < idr_expires_at r"
  shows "idempotent_mutation tenant_id scope_key h now effect s =
    (if idr_request_hash r \<noteq> h then (Inl (BadRequest ''idempotency_key_conflict''), s)
     else (Inr (response_with_replay_flag (idr_response_record r) True), s))"
  using assms by (simp add: idempotent_mutation_def abind_def idempotency_response_def aret_def)

lemma idempotent_call_again:
  assumes "idempotent_call tenant_id scope_key request_hash now i m"
    and "ad_idempotency s (tenant_id, scope_key) = Some r" and "now < idr_expires_at r"
  shows "only_authz s (snd (m s)) \<and> (\<forall>response. fst (m s) = Inr response \<longrightarrow>
    request_hash = Inr (idr_request_hash r) \<and>
    response = response_with_replay_flag (idr_response_record r) True)"
  using assms
proof (induction arbitrary: s)
  case (mutation effect)
  then show ?case
    by (auto simp: abind_acheck idempotent_mutation_found authz_only.refl split: sum.splits)
next
  case (guarded g m)
  from guarded_fst_snd [OF guarded.hyps(1), of s m] show ?case
  proof
    assume "\<exists>s1. only_authz s s1 \<and> abind g (\<lambda>_. m) s = m s1"
    then obtain s1 where s1: "only_authz s s1" "abind g (\<lambda>_. m) s = m s1" by blast
    with guarded.prems guarded.IH [of s1] show ?thesis
      by (auto simp: only_authz_idempotency intro: authz_only.trans)
  qed auto
qed

lemma idempotent_mutation_records:
  assumes "keeps same_idempotency effect" and "now \<le> until"
  shows "records_kept until s (snd (idempotent_mutation tenant_id scope_key h now effect s))"
proof (cases "idempotency_response tenant_id scope_key h now s")
  case (Pair res s1)
  have "records_kept until s s1 \<and>
      (res = Inr None \<longrightarrow> (\<forall>r. ad_idempotency s (tenant_id, scope_key) = Some r \<longrightarrow> idr_expires_at r \<le> now))"
    using Pair assms(2) by (auto simp: idempotency_response_def records_kept_def split: option.splits if_splits)
  then show ?thesis using keepsD [OF assms(1), of s1] assms(2) Pair
    by (cases "effect s1") (auto simp: idempotent_mutation_def abind_def awrite_def aret_def records_kept_def
      same_idempotency_def record_idempotent_admin_response_def record_idempotency_response_def
      split: sum.splits prod.splits option.splits)
qed

lemma idempotent_call_records:
  assumes "idempotent_call tenant_id scope_key request_hash now i m" and "now \<le> until"
  shows "keeps (records_kept until) m"
  using assms
proof induction
  case (mutation effect)
  then show ?case
    by (intro records.keeps_abind records.keeps_acheck) (simp add: keeps_def idempotent_mutation_records)
next
  case (guarded g m)
  have "keeps (records_kept until) g"
    unfolding keeps_def records_kept_def
    using only_authz_idempotency [OF keepsD [OF guarded.hyps(1)]] by simp
  then show ?case by (intro records.keeps_abind guarded.IH guarded.prems)
qed

lemma idempotent_call_operations:
  assumes "idempotent_call tenant_id scope_key request_hash now i m"
  shows "keeps (operations_kept i) m"
  using assms
proof induction
  case (mutation effect)
  have "keeps (operations_kept i) (idempotency_response tenant_id scope_key h now)" for h
    by (auto simp: keeps_def idempotency_response_def operations_kept_def split: option.splits)
  moreover have "keeps (operations_kept i) (awrite (record_idempotent_admin_response tenant_id scope_key h x now))"
    for h x by (auto simp: keeps_def awrite_def record_idempotent_admin_response_def
      record_idempotency_response_def operations_kept_def)
  ultimately show ?case unfolding idempotent_mutation_def
    by (intro ops.keeps_abind ops.keeps_acheck)
      (auto split: option.splits intro!: ops.keeps_abind ops.keeps_aret mutation.hyps)
next
  case (guarded g m)
  have "keeps (operations_kept i) g"
    using guarded.hyps(1) by (auto simp: keeps_def intro: only_authz_operations)
  then show ?case by (intro ops.keeps_abind guarded.IH)
qed


lemma sanitizes_abind: "(\<And>a. sanitizes (f a)) \<Longrightarrow> sanitizes (abind m f)"
  by (auto simp: sanitizes_def abind_Inr_iff) blast

lemma sanitizes_aret: "sanitized response stored \<Longrightarrow> sanitizes (aret (response, stored))"
  by (simp add: sanitizes_def aret_def)

lemma sanitized_responses:
  "sanitized (emergency_operation_mutation_response env op affected i) (emergency_operation_mutation_response env op affected i)"
  "sanitized (config_snapshot_mutation_response env snapshot i) (config_snapshot_mutation_response env snapshot i)"
  "sanitized (api_key_mutation_response env k i raw b c) (api_key_mutation_response env k i None b' c)"
  by (auto simp: sanitized_def emergency_operation_mutation_response_def config_snapshot_mutation_response_def
      api_key_mutation_response_def json_opt_str_def)

lemma sanitizes_evidence: "sanitizes (emergency_evidence env ids actor input before after diff affected now)"
  unfolding emergency_evidence_def Let_def by (intro sanitizes_abind sanitizes_aret sanitized_responses)

lemmas sanitizes_effects = sanitizes_abind sanitizes_aret sanitizes_evidence sanitized_responses

lemma emergency_mutation_call:
  assumes "keeps same_idempotency effect" "keeps (operations_kept i) effect" "sanitizes effect"
  shows "idempotent_call (actor_tenant_id actor)
    (emergency_idempotency_scope_key kind target (er_idempotency_key request))
    (emergency_request_hash env target request) now i
    (emergency_mutation api env ids actor path kind target request now effect)"
  unfolding emergency_mutation_def
  by (intro idempotent_call.intros authz_only.keeps_frame assms)

lemma keeps_case_prod: "(\<And>a b. keeps R (f a b)) \<Longrightarrow> keeps R (case p of (a, b) \<Rightarrow> f a b)"
  by (cases p) simp

lemma sanitizes_case_prod: "(\<And>a b. sanitizes (f a b)) \<Longrightarrow> sanitizes (case p of (a, b) \<Rightarrow> f a b)"
  by (cases p) simp

lemma handle_idempotent:
  "idempotent_call (actor_tenant_id actor) (call_scope_key (actor_tenant_id actor) call)
     (call_request_hash (ctxt_env c) (actor_tenant_id actor) call) now (ai_operation ids)
     (handle_admin_call c material ids actor call now)"
proof (cases call)
  case (DisableUpstreamCredential i r)
  then show ?thesis
    by (simp add: call_request_hash_def emergency_disable_upstream_credential_def)
      (intro emergency_mutation_call idem_effects ops_effects sanitizes_effects)
next
  case (DisableProviderEndpoint i r)
  then show ?thesis
    by (simp add: call_request_hash_def emergency_disable_provider_endpoint_def)
      (intro emergency_mutation_call idem_effects ops_effects sanitizes_effects)
next
  case (DrainRoutingGroup i r)
  then show ?thesis
    by (simp add: call_request_hash_def emergency_drain_routing_group_def)
      (intro emergency_mutation_call idem_effects ops_effects sanitizes_effects)
next
  case (FreezeConfig r)
  then show ?thesis
    by (simp add: call_request_hash_def emergency_freeze_config_def)
      (intro emergency_mutation_call idem_effects ops_effects sanitizes_effects)
next
  case (EmergencyRollback i r)
  then show ?thesis
    by (simp add: call_request_hash_def emergency_rollback_config_snapshot_def Let_def)
      (intro emergency_mutation_call idem_effects ops_effects sanitizes_effects)
next
  case (ForceBudgetBlock i r)
  then show ?thesis
    by (simp add: call_request_hash_def emergency_force_budget_block_def)
      (intro emergency_mutation_call idem_effects ops_effects sanitizes_effects)
next
  case (PublishSnapshot r)
  then show ?thesis
    by (simp add: call_request_hash_def publish_config_snapshot_admin_def publish_effect_def Let_def)
      (intro idempotent_call.intros authz_only.keeps_frame idem_effects ops_effects sanitizes_effects)
next
  case (RollbackSnapshot r)
  then show ?thesis
    by (simp add: call_request_hash_def rollback_config_snapshot_admin_def rollback_effect_def Let_def)
      (intro idempotent_call.intros authz_only.keeps_frame idem_effects ops_effects sanitizes_effects)
next
  case (CreateApiKey r)
  then show ?thesis
    by (simp add: call_request_hash_def create_api_key_admin_def create_key_effect_def)
      (intro idempotent_call.intros authz_only.keeps_frame idem_effects ops_effects sanitizes_effects
        keeps_case_prod sanitizes_case_prod)
next
  case (RotateApiKey i r)
  then show ?thesis
    by (simp add: call_request_hash_def rotate_api_key_admin_def rotate_key_effect_def)
      (intro idempotent_call.intros authz_only.keeps_frame idem_effects ops_effects sanitizes_effects
        keeps_case_prod sanitizes_case_prod)
next
  case (DisableApiKey i r)
  then show ?thesis
    by (simp add: call_request_hash_def disable_api_key_admin_def disable_key_effect_def Let_def)
      (intro idempotent_call.intros authz_only.keeps_frame idem_effects ops_effects sanitizes_effects)
qed

subsection \<open>Runs\<close>

text \<open>
  Any calls up to a time, with fresh operation ids, interleaved with whatever else the gateway does
  that leaves idempotency records, emergency operations and budget policies alone.
\<close>

inductive admin_step ::
  "('tn, 'sc, 'ps, 'rq, 'en) admin_context \<Rightarrow> datetime \<Rightarrow> admin_state \<Rightarrow> admin_state \<Rightarrow> bool"
  for c until where
  call: "now \<le> until \<Longrightarrow>
    ai_operation ids \<notin> eo_emergency_operation_id ` set (pa_emergency_operations (ad_policy s)) \<Longrightarrow>
    admin_step c until s (snd (handle_admin_call c material ids actor call now s))"
| other: "ad_idempotency s' = ad_idempotency s \<Longrightarrow> ad_policy s' = ad_policy s \<Longrightarrow> admin_step c until s s'"

lemma admin_step_records:
  assumes "admin_step c until s s'"
  shows "records_kept until s s'"
  using assms
proof cases
  case (call now ids material actor call)
  show ?thesis
    unfolding call(1) by (rule keepsD [OF idempotent_call_records [OF handle_idempotent call(2)]])
qed (simp add: records_kept_def)

lemma admin_run_records: "(admin_step c until)\<^sup>*\<^sup>* s s' \<Longrightarrow> records_kept until s s'"
  by (induction rule: rtranclp_induct) (auto intro: records.refl records.trans admin_step_records)

definition operations_stay :: "admin_state \<Rightarrow> admin_state \<Rightarrow> bool" where
  "operations_stay s s' \<longleftrightarrow>
     set (pa_emergency_operations (ad_policy s)) \<subseteq> set (pa_emergency_operations (ad_policy s')) \<and>
     pa_budget_policies (ad_policy s') = pa_budget_policies (ad_policy s)"

lemma admin_step_operations:
  assumes "admin_step c until s s'"
  shows "operations_stay s s'"
  using assms
proof cases
  case (call now ids material actor call)
  have "operations_kept (ai_operation ids) s s'"
    unfolding call(1) by (rule keepsD [OF idempotent_call_operations [OF handle_idempotent]])
  moreover from call(3) have "eo_emergency_operation_id op \<noteq> ai_operation ids"
    if "op \<in> set (pa_emergency_operations (ad_policy s))" for op
    using that by (metis image_eqI)
  ultimately show ?thesis unfolding operations_kept_def operations_stay_def by blast
qed (simp add: operations_stay_def)

lemma admin_run_operations: "(admin_step c until)\<^sup>*\<^sup>* s s' \<Longrightarrow> operations_stay s s'"
  by (induction rule: rtranclp_induct) (fastforce dest!: admin_step_operations simp: operations_stay_def)+


end
