(* ===== verification/Gateway_Runtime_Route.thy ===== *)
theory Gateway_Runtime_Route
  imports Gateway_Route_Plan Gateway_Config Gateway_Admin
begin

text \<open>
  From a request to its route (\<open>crates/starweaver-gateway/src/service.rs\<close>, \<open>runtime_route_target\<close>): the
  catalog of the latest published snapshot, the plan, the evidence of the decision, the sticky
  mapping, and the credential the provider request is signed with. The state is that of the admin
  API, since both read the same store, with the log of route decisions beside it. Deserialization
  of a catalog (\<open>serde_json::from_value\<close>) is the argument \<open>decode\<close>.
\<close>

subsection \<open>The catalog in effect\<close>

definition payload_has_catalog :: "json \<Rightarrow> bool" where
  "payload_has_catalog payload =
     list_ex (\<lambda>field. json_get payload field \<noteq> None)
       [''provider_endpoints'', ''upstream_credentials'', ''model_targets'', ''model_aliases'',
        ''routing_groups'', ''routing_group_targets'', ''route_policies'', ''provider_grants'']"

definition catalog_from_payload ::
  "(json \<Rightarrow> string + gateway_catalog) \<Rightarrow> uri_parser \<Rightarrow> json \<Rightarrow> gateway_catalog option gateway_result" where
  "catalog_from_payload decode parse_uri payload =
     (if \<not> payload_has_catalog payload then Inr None
      else case decode payload of
             Inl error \<Rightarrow> Inl (BadRequest (''invalid catalog snapshot payload: '' @ error))
           | Inr cat \<Rightarrow> rbind (validate parse_uri cat) (\<lambda>_. Inr (Some cat)))"

record loaded_catalog =
  lc_catalog :: gateway_catalog
  lc_snapshot_id :: string
  lc_version :: i64

definition latest_catalog_for_actor ::
  "(json \<Rightarrow> string + gateway_catalog) \<Rightarrow> uri_parser \<Rightarrow> config_store \<Rightarrow> authenticated_actor \<Rightarrow>
   loaded_catalog option gateway_result" where
  "latest_catalog_for_actor decode parse_uri config actor =
     rbind (latest_snapshot_for_actor_in_memory config actor) (\<lambda>latest.
       case latest of
         None \<Rightarrow> Inr None
       | Some snapshot \<Rightarrow>
           rbind (catalog_from_payload decode parse_uri (doc_payload (pub_document snapshot))) (\<lambda>cat.
             Inr (map_option (\<lambda>c. \<lparr>lc_catalog = c, lc_snapshot_id = snap_snapshot_id (pub_metadata snapshot),
                     lc_version = snap_version (pub_metadata snapshot)\<rparr>) cat)))"

subsection \<open>The route of a request\<close>

record runtime_credential_snapshot =
  rcs_credential_kind :: string
  rcs_secret_ref_id :: string

record routed_target =
  rrt_authorization_resource_id :: string
  rrt_upstream_model_id :: string
  rrt_provider_endpoint :: "provider_endpoint option"
  rrt_upstream_credential_id :: "string option"
  rrt_upstream_credential_snapshot :: "runtime_credential_snapshot option"
  rrt_pricing_sku_id :: "string option"
  rrt_route_decision_id :: "string option"
  rrt_selected_route :: "selected_route_evidence option"
  rrt_decision_request :: "route_decision_request option"

record route_state =
  rst_hot :: hot_store
  rst_decisions :: "route_decision_record list"

definition credential_snapshot_of :: "gateway_catalog \<Rightarrow> route_selection \<Rightarrow> runtime_credential_snapshot option" where
  "credential_snapshot_of cat selection =
     Option.bind (rs_upstream_credential_id selection) (\<lambda>i.
       map_option (\<lambda>c. \<lparr>rcs_credential_kind = uc_credential_kind c, rcs_secret_ref_id = uc_secret_ref_id c\<rparr>)
         (find (\<lambda>c. uc_upstream_credential_id c = i) (cat_upstream_credentials cat)))"

definition record_sticky_route_mapping ::
  "authenticated_actor \<Rightarrow> route_selection \<Rightarrow> i64 \<Rightarrow> string option \<Rightarrow> datetime \<Rightarrow> hot_store \<Rightarrow> hot_store" where
  "record_sticky_route_mapping actor selection config_version route_affinity_hash now hot =
     (case route_affinity_hash of
        None \<Rightarrow> hot
      | Some affinity_hash \<Rightarrow>
          (case rs_sticky_ttl_seconds selection of
             None \<Rightarrow> hot
           | Some ttl_seconds \<Rightarrow> mem_set_sticky_route
               \<lparr>sr_tenant_id = actor_tenant_id actor, sr_project_id = actor_project_id actor,
                sr_model_alias_id = rs_model_alias_id selection, sr_affinity_hash = affinity_hash,
                sr_routing_group_id = rs_routing_group_id selection,
                sr_model_target_id = rs_model_target_id selection,
                sr_provider_endpoint_id = pe_provider_endpoint_id (rs_provider_endpoint selection),
                sr_config_version = config_version, sr_created_at = now,
                sr_expires_at = now + ttl_seconds * 1000000000\<rparr> hot))"

definition selected_runtime_route_target ::
  "string \<Rightarrow> authenticated_actor \<Rightarrow> route_decision_request \<Rightarrow> route_selection \<Rightarrow>
   runtime_credential_snapshot option \<Rightarrow> i64 \<Rightarrow> string option \<Rightarrow> datetime \<Rightarrow> route_state \<Rightarrow>
   routed_target \<times> route_state" where
  "selected_runtime_route_target new_id actor decision_request selection credential_snapshot config_version
     route_affinity_hash now s =
     (let evidence =
        \<lparr>sel_model_alias_id = rs_model_alias_id selection, sel_route_policy_id = rs_route_policy_id selection,
         sel_routing_group_id = rs_routing_group_id selection,
         sel_model_target_id = rs_model_target_id selection,
         sel_provider_endpoint_id = pe_provider_endpoint_id (rs_provider_endpoint selection),
         sel_upstream_credential_id = rs_upstream_credential_id selection,
         sel_filtered_summary = rs_filtered_summary selection, sel_sticky_hit = rs_sticky_hit selection,
         sel_sticky_miss_reason = rs_sticky_miss_reason selection\<rparr> in
      (\<lparr>rrt_authorization_resource_id = rs_model_alias_id selection,
        rrt_upstream_model_id = rs_upstream_model_id selection,
        rrt_provider_endpoint = Some (rs_provider_endpoint selection),
        rrt_upstream_credential_id = rs_upstream_credential_id selection,
        rrt_upstream_credential_snapshot = credential_snapshot,
        rrt_pricing_sku_id = rs_pricing_sku_id selection, rrt_route_decision_id = Some new_id,
        rrt_selected_route = Some evidence, rrt_decision_request = Some decision_request\<rparr>,
       s\<lparr>rst_decisions := rst_decisions s @ [decision_selected new_id actor decision_request evidence now],
         rst_hot := record_sticky_route_mapping actor selection config_version route_affinity_hash now (rst_hot s)\<rparr>))"

text \<open>Without a catalog the model name is used as it is and no endpoint is known.\<close>

definition unrouted_target :: "string \<Rightarrow> routed_target" where
  "unrouted_target requested_model =
     \<lparr>rrt_authorization_resource_id = requested_model, rrt_upstream_model_id = requested_model,
      rrt_provider_endpoint = None, rrt_upstream_credential_id = None,
      rrt_upstream_credential_snapshot = None, rrt_pricing_sku_id = None,
      rrt_route_decision_id = None, rrt_selected_route = None, rrt_decision_request = None\<rparr>"

text \<open>\<open>now\<close> stands for the readings of the clock on the way.\<close>

definition runtime_route_target ::
  "(json \<Rightarrow> string + gateway_catalog) \<Rightarrow> uri_parser \<Rightarrow> string \<Rightarrow> config_store \<Rightarrow> authenticated_actor \<Rightarrow>
   protocol_family \<Rightarrow> bool \<Rightarrow> string \<Rightarrow> string option \<Rightarrow> datetime \<Rightarrow> route_state \<Rightarrow>
   routed_target gateway_result \<times> route_state" where
  "runtime_route_target decode parse_uri new_id config actor protocol_family streaming requested_model
     route_affinity_hash now s =
     (case latest_catalog_for_actor decode parse_uri config actor of
        Inl e \<Rightarrow> (Inl e, s)
      | Inr None \<Rightarrow> (Inr (unrouted_target requested_model), s)
      | Inr (Some loaded) \<Rightarrow>
          let decision_request =
            \<lparr>drq_protocol_family = protocol_family, drq_alias_name = requested_model,
             drq_config_snapshot_id = Some (lc_snapshot_id loaded),
             drq_config_version = Some (lc_version loaded)\<rparr> in
          (case plan_runtime_route_with_hot_state (lc_catalog loaded)
                  \<lparr>pr_actor = actor, pr_protocol_family = protocol_family, pr_alias_name = requested_model,
                   pr_streaming = streaming, pr_hot_state = mem_view (rst_hot s),
                   pr_config_version = Some (lc_version loaded), pr_now = now,
                   pr_route_affinity_hash = route_affinity_hash\<rparr> of
             Inl e \<Rightarrow> (Inl e, s)
           | Inr plan \<Rightarrow>
               (case plan_outcome plan of
                  PlanSelected selection \<Rightarrow>
                    (case selected_runtime_route_target new_id actor decision_request selection
                            (credential_snapshot_of (lc_catalog loaded) selection) (lc_version loaded)
                            route_affinity_hash now s of
                       (target, s1) \<Rightarrow> (Inr target, s1))
                | PlanProviderGrantDenied \<Rightarrow>
                    (Inl (Authorization ''provider_grant_denied''),
                     s\<lparr>rst_decisions := rst_decisions s @ [decision_terminal new_id actor decision_request
                         DecBlocked ''provider_grant_denied'' (plan_filtered_summary plan) now]\<rparr>)
                | PlanNoRoute \<Rightarrow>
                    (Inl (NoRoute ''no_eligible_model_target''),
                     s\<lparr>rst_decisions := rst_decisions s @ [decision_terminal new_id actor decision_request
                         DecNoRoute ''no_eligible_model_target'' (plan_filtered_summary plan) now]\<rparr>))))"

subsection \<open>The upstream credential\<close>

record provider_adapter_credential =
  pac_upstream_credential_id :: string
  pac_credential_kind :: string
  pac_secret_value :: string

text \<open>
  The credential record of the store wins over the one in the snapshot, if its secret can be read.
  \<open>secret_value\<close> is the secret backend.
\<close>

definition runtime_provider_adapter_credential ::
  "(string \<rightharpoonup> upstream_credential_record) \<Rightarrow> (string \<rightharpoonup> string) \<Rightarrow> routed_target \<Rightarrow>
   provider_adapter_credential option" where
  "runtime_provider_adapter_credential credentials secret_value target =
     (case Option.bind (Option.bind (rrt_upstream_credential_id target) credentials) (\<lambda>c.
             map_option (\<lambda>v. \<lparr>pac_upstream_credential_id = ucr_upstream_credential_id c,
                 pac_credential_kind = ucr_credential_kind c, pac_secret_value = v\<rparr>)
               (secret_value (ucr_secret_ref_id c))) of
        Some credential \<Rightarrow> Some credential
      | None \<Rightarrow>
          Option.bind (rrt_upstream_credential_id target) (\<lambda>i.
          Option.bind (rrt_upstream_credential_snapshot target) (\<lambda>snapshot.
            map_option (\<lambda>v. \<lparr>pac_upstream_credential_id = i,
                pac_credential_kind = rcs_credential_kind snapshot, pac_secret_value = v\<rparr>)
              (secret_value (rcs_secret_ref_id snapshot)))))"

end
