(* ===== verification/Gateway_Admin_Demo.thy ===== *)
theory Gateway_Admin_Demo
  imports Gateway_Admin_Steps Gateway_Runtime_Route Gateway_Config_Properties Gateway_Routing_Properties
    Gateway_Policy_Properties Gateway_Auth_Properties
begin

text \<open>
  A gateway to instantiate the admin properties with: one tenant with a published catalog, an endpoint
  with its credential, a request budget and two API keys, and an administrator whose calls succeed.
\<close>

subsection \<open>A gateway to instantiate with\<close>

text \<open>
  One tenant with a published catalog, an endpoint with its credential, a request budget and two API
  keys. The administrator has the grants for emergency operations,
  publications and disabling keys; the digest is the identity.
\<close>

definition demo_payload :: json where
  "demo_payload = JObject [(''provider_endpoints'', JArray [])]"

definition demo_admin_grants :: "action_grant list" where
  "demo_admin_grants = map (\<lambda>(action, kind).
     \<lparr>ag_tenant_id = ''t1'', ag_organization_id = None, ag_project_id = None, ag_principal_id = ''u1'',
      ag_action = action, ag_resource_kind = kind, ag_resource_id = ''*''\<rparr>)
     [(Runtime EmergencyDisable, ''EmergencyOperation''), (Control ConfigPublish, ''ConfigSnapshot''),
      (Control ApiKeyDisable, ''ApiKey'')]"

definition demo_published :: config_store where
  "demo_published = snd (publish_config_snapshot demo_api demo_codec (''c1'', ''v1'')
     \<lparr>pub_req_tenant_id = ''t1'', pub_req_resource_versions = [], pub_req_payload = demo_payload,
      pub_req_created_by = ''u1''\<rparr> 5 empty_config_store)"

definition demo_api_key :: "string \<Rightarrow> api_key_record" where
  "demo_api_key i =
     \<lparr>key_api_key_id = i, key_tenant_id = ''t1'', key_organization_id = Some ''o1'', key_project_id = None,
      key_owner_principal_id = ''u1'', key_name = i, key_key_prefix = ''swk_'' @ i, key_secret_hash = i,
      key_hash_version = 1, key_status = KeyActive, key_allowed_actions = [], key_allowed_resources = [],
      key_expires_at = None, key_last_used_at = None, key_last_used_request_id = None,
      key_created_by = ''u1'', key_created_at = 0, key_updated_at = 0\<rparr>"

definition demo_endpoint_record :: provider_endpoint_record where
  "demo_endpoint_record =
     \<lparr>per_provider_endpoint_id = ''e1'', per_tenant_id = ''t1'', per_organization_id = None,
      per_provider_kind = ''openai'', per_display_name = ''e1'', per_protocol_families = [OpenAiChat],
      per_upstream_base_url = ''https://up'', per_status = ResActive, per_resource_version = 1,
      per_schema_version = 1, per_created_by = ''u1'', per_created_at = 0, per_updated_at = 0\<rparr>"

definition demo_credential_record :: upstream_credential_record where
  "demo_credential_record =
     \<lparr>ucr_upstream_credential_id = ''c1'', ucr_tenant_id = ''t1'', ucr_organization_id = None,
      ucr_provider_endpoint_id = ''e1'', ucr_credential_kind = ''api_key'', ucr_secret_ref_id = ''s1'',
      ucr_status = UcActive, ucr_resource_version = 1, ucr_schema_version = 1, ucr_created_by = ''u1'',
      ucr_created_at = 0, ucr_updated_at = 0\<rparr>"

definition demo_admin :: admin_state where
  "demo_admin =
     \<lparr>ad_config = demo_published, ad_grants = demo_admin_grants, ad_authz = [], ad_idempotency = Map.empty,
      ad_policy = budget_admin [request_budget ''b1'' 5], ad_audit = [],
      ad_endpoints = [''e1'' \<mapsto> demo_endpoint_record], ad_credentials = [''c1'' \<mapsto> demo_credential_record],
      ad_groups = Map.empty, ad_hot = empty_hot_store,
      ad_auth = insert_api_key (demo_api_key ''ak2'') (insert_api_key (demo_api_key ''ak1'') empty_auth_store),
      ad_directory = \<lparr>dir_tenants = [''t1''], dir_user_tenant = [''u1'' \<mapsto> ''t1''],
        dir_service_account_tenant = Map.empty, dir_organization_tenant = [''o1'' \<mapsto> ''t1''],
        dir_project_scope = Map.empty\<rparr>\<rparr>"

definition demo_context :: "(string, unit, string, unit, unit) admin_context" where
  "demo_context =
     \<lparr>ctxt_cedar = demo_api,
      ctxt_env = \<lparr>av_to_vec = (\<lambda>_. Inr ''bytes''), av_sha256_hex = (\<lambda>b. b), av_display_time = (\<lambda>_. ''then''),
        av_json_time = JInt\<rparr>,
      ctxt_codec = demo_codec, ctxt_hasher = demo_hasher\<rparr>"

definition demo_admin_ids :: "string \<Rightarrow> admin_ids" where
  "demo_admin_ids i = \<lparr>ai_authz = ''authz_'' @ i, ai_operation = ''op_'' @ i, ai_audit = ''audit_'' @ i,
     ai_snapshot = (''snap_'' @ i, ''inv_'' @ i)\<rparr>"

definition demo_material :: key_material where
  "demo_material = \<lparr>km_bytes = replicate 32 0, km_salt = ''salt'', km_key_id = ''ak3''\<rparr>"

definition demo_emergency :: emergency_request where
  "demo_emergency = \<lparr>er_idempotency_key = ''k1'', er_expected_version = Some 1, er_reason = ''leak'',
     er_expires_at = 1000\<rparr>"

definition demo_reason :: admin_api_key_reason_request where
  "demo_reason = \<lparr>akr_idempotency_key = ''k1'', akr_reason = Some ''leak''\<rparr>"

definition demo_may :: "string \<Rightarrow> string \<Rightarrow> bool" where
  "demo_may path resource_id \<longleftrightarrow> (case route_metadata_for POST path of Inl e \<Rightarrow> False | Inr r \<Rightarrow>
     actor_constraint_denial r demo_actor = None \<and> dec_allowed (foundation_authorize demo_admin_grants
       \<lparr>areq_actor = demo_actor, areq_action = rm_action r, areq_resource = route_resource r resource_id\<rparr>))"

lemma demo_mays:
  "demo_may ''/admin/v1/config/snapshots:publish'' ''t1''"
  "demo_may ADMIN_API_KEY_DISABLE_PATH ''ak1''" "demo_may ADMIN_API_KEY_DISABLE_PATH ''ak2''"
  "demo_may ADMIN_EMERGENCY_FREEZE_CONFIG_PATH ''t1''"
  "demo_may ADMIN_EMERGENCY_FORCE_BUDGET_BLOCK_PATH ''b1''"
  "demo_may ADMIN_EMERGENCY_DISABLE_UPSTREAM_CREDENTIAL_PATH ''c1''"
  "demo_may ADMIN_EMERGENCY_DISABLE_PROVIDER_ENDPOINT_PATH ''e1''"
  using admin_rows [THEN route_metadata_for_table]
  by (simp_all add: demo_may_def route_row_def actor_constraint_denial_def foundation_authorize_def route_resource_def
      gateway_preflight_decision_def demo_admin_grants_def grant_allows_def resource_matches_def
      optional_scope_match_def demo_actor_def actor_for_user_session_def decision_allow_def Let_def)

lemma demo_engine: "authorization_engine_for_actor demo_api demo_published grants demo_actor =
    Inr (foundation_authorize grants, None)"
  by (simp add: authorization_engine_for_actor_def latest_snapshot_for_actor_in_memory_def demo_published_def
      demo_payload_def demo_config_simps demo_actor_def actor_for_user_session_def)

lemma demo_actor_tenant: "actor_tenant_id demo_actor = ''t1''"
  by (simp add: demo_actor_def actor_for_user_session_def)

lemma demo_gate:
  assumes "demo_may path resource_id" and "ad_config s = demo_published" and "ad_grants s = demo_admin_grants"
    and "active_emergency_operation (ad_policy s) ''t1'' ''freeze_config'' now = None"
  obtains authz where "authorize_admin_route demo_api env i demo_actor POST path resource_id now s =
    (Inr (), s\<lparr>ad_authz := authz\<rparr>)"
proof -
  from assms(1) obtain r where r: "route_metadata_for POST path = Inr r" "actor_constraint_denial r demo_actor = None"
    "dec_allowed (foundation_authorize demo_admin_grants
       \<lparr>areq_actor = demo_actor, areq_action = rm_action r, areq_resource = route_resource r resource_id\<rparr>)"
    by (auto simp: demo_may_def split: sum.splits)
  have "reject_frozen_config_mutation env (ad_policy s) r POST demo_actor now = Inr ()"
    using assms(4) by (simp add: reject_frozen_config_mutation_def demo_actor_tenant)
  with r assms(2,3) show ?thesis
    by (intro that) (simp add: authorize_admin_route_def abind_acheck demo_engine
      authorize_route_with_evidence_def Let_def)
qed

text \<open>The calls of the demonstration, each of which succeeds.\<close>

definition demo_call :: "admin_call \<Rightarrow> json gateway_result \<times> admin_state" where
  "demo_call call = handle_admin_call demo_context demo_material (demo_admin_ids ''1'') demo_actor call 10 demo_admin"

lemma demo_requests:
  "validate_emergency_operation_request demo_emergency 10 = Inr ()"
  "required_emergency_expected_version demo_emergency = Inr 1"
  "is_blank (er_reason demo_emergency) = False" "er_expires_at demo_emergency = 1000"
  by code_simp+

lemma demo_fields:
  "ctxt_cedar demo_context = demo_api" "av_to_vec (ctxt_env demo_context) = (\<lambda>_. Inr ''bytes'')"
  "ad_config demo_admin = demo_published" "ad_grants demo_admin = demo_admin_grants"
  "ad_idempotency demo_admin = Map.empty"
  "ad_policy demo_admin = budget_admin [request_budget ''b1'' 5]"
  "ad_credentials demo_admin = [''c1'' \<mapsto> demo_credential_record]"
  "ad_endpoints demo_admin = [''e1'' \<mapsto> demo_endpoint_record]"
  by (simp_all add: demo_context_def demo_admin_def)

lemma demo_not_frozen: "active_emergency_operation (ad_policy demo_admin) ''t1'' ''freeze_config'' now = None"
  by (simp add: demo_fields active_emergency_operation_def emergency_operations_for_tenant_def budget_admin_def)

lemmas demo_call_simps = demo_call_def abind_def acheck_def awrite_def aret_def emergency_mutation_def
  demo_requests emergency_request_hash_def stable_request_hash_def idempotent_mutation_def
  idempotency_response_def emergency_evidence_def create_emergency_operation_record_def Let_def
  create_emergency_operation_def demo_fields demo_actor_tenant opt_filter_def
  
lemma demo_freeze: "isl (fst (demo_call (FreezeConfig demo_emergency))) = False"
  by (rule demo_gate [OF demo_mays(4) demo_fields(3,4) demo_not_frozen,
        of "ctxt_env demo_context" "ai_authz (demo_admin_ids ''1'')" 10])
    (simp add: demo_call_simps emergency_freeze_config_def)

lemma demo_block: "isl (fst (demo_call (ForceBudgetBlock ''b1'' demo_emergency))) = False"
  by (rule demo_gate [OF demo_mays(5) demo_fields(3,4) demo_not_frozen,
        of "ctxt_env demo_context" "ai_authz (demo_admin_ids ''1'')" 10])
    (simp add: demo_call_simps emergency_force_budget_block_def budget_policy_for_actor_def
      budget_policy_by_id_def budget_admin_def request_budget_def ensure_emergency_expected_version_def)

lemma demo_disable_credential: "isl (fst (demo_call (DisableUpstreamCredential ''c1'' demo_emergency))) = False"
  by (rule demo_gate [OF demo_mays(6) demo_fields(3,4) demo_not_frozen,
        of "ctxt_env demo_context" "ai_authz (demo_admin_ids ''1'')" 10])
    (simp add: demo_call_simps emergency_disable_upstream_credential_def upstream_credential_for_actor_def
      demo_credential_record_def update_upstream_credential_status_def)

lemma demo_disable_endpoint: "isl (fst (demo_call (DisableProviderEndpoint ''e1'' demo_emergency))) = False"
  by (rule demo_gate [OF demo_mays(7) demo_fields(3,4) demo_not_frozen,
        of "ctxt_env demo_context" "ai_authz (demo_admin_ids ''1'')" 10])
    (simp add: demo_call_simps emergency_disable_provider_endpoint_def provider_endpoint_for_actor_def
      demo_endpoint_record_def update_provider_endpoint_status_def)

lemma demo_keys:
  "api_key_for_actor demo_actor ''ak1'' (demo_admin\<lparr>ad_authz := authz\<rparr>) = Inr (demo_api_key ''ak1'')"
  "update_api_key_status ''ak1'' KeyDisabled 10 (ad_auth demo_admin) =
     (Inr ((demo_api_key ''ak1'')\<lparr>key_status := KeyDisabled, key_updated_at := 10\<rparr>),
      insert_api_key (demo_api_key ''ak2'') (insert_api_key
        ((demo_api_key ''ak1'')\<lparr>key_status := KeyDisabled, key_updated_at := 10\<rparr>) empty_auth_store))"
  by (simp_all add: api_key_for_actor_def demo_admin_def demo_api_key_def insert_api_key_def empty_auth_store_def
      api_key_def demo_actor_tenant opt_filter_def update_api_key_status_def api_key_status_supported_for_admin_def)

lemma demo_disable_key: "isl (fst (demo_call (DisableApiKey ''ak1'' demo_reason))) = False"
  by (rule demo_gate [OF demo_mays(2) demo_fields(3,4) demo_not_frozen,
        of "ctxt_env demo_context" "ai_authz (demo_admin_ids ''1'')" 10])
    (simp add: demo_call_simps disable_api_key_admin_def disable_key_effect_def demo_keys
      update_api_key_status_for_state_def, simp add: demo_api_key_def)

subsection \<open>The states after the calls\<close>

lemma demo_call_ok:
  assumes "isl (fst (demo_call call)) = False"
  shows "handle_admin_call demo_context demo_material (demo_admin_ids ''1'') demo_actor call 10 demo_admin =
    (Inr (projr (fst (demo_call call))), snd (demo_call call))"
  using assms by (cases "demo_call call") (auto simp: demo_call_def isl_def)

definition demo_after_disable :: admin_state where
  "demo_after_disable = snd (demo_call (DisableApiKey ''ak1'' demo_reason))"

lemma demo_after_disable_fields:
  "ad_config demo_after_disable = demo_published \<and> ad_grants demo_after_disable = demo_admin_grants \<and>
   ad_policy demo_after_disable = ad_policy demo_admin \<and>
   map_option key_status (api_key (ad_auth demo_after_disable) ''ak2'') = Some KeyActive"
  by (rule demo_gate [OF demo_mays(2) demo_fields(3,4) demo_not_frozen,
        of "ctxt_env demo_context" "ai_authz (demo_admin_ids ''1'')" 10])
    (simp add: demo_after_disable_def demo_call_simps disable_api_key_admin_def disable_key_effect_def demo_keys
      update_api_key_status_for_state_def record_admin_resource_audit_def record_idempotent_admin_response_def
      record_idempotency_response_def,
      simp add: demo_api_key_def insert_api_key_def empty_auth_store_def api_key_def)

definition demo_drained :: admin_state where
  "demo_drained = snd (demo_call (DisableProviderEndpoint ''e1'' demo_emergency))"

definition demo_hot :: hot_store where
  "demo_hot = mem_set_endpoint_drain
     \<lparr>edr_tenant_id = ''t1'', edr_provider_endpoint_id = ''e1'', edr_config_version = 1, edr_reason = ''leak'',
      edr_created_at = 10, edr_expires_at = 1000\<rparr> empty_hot_store"

definition demo_pointer :: publication_pointer where
  "demo_pointer = the (cs_publications demo_published ''t1'')"

lemma demo_published_eval:
  "cs_publications demo_published ''t1'' = Some demo_pointer" "ptr_version demo_pointer = 1"
  "config_inv demo_published" "snapshot_ids demo_published = {''c1''}" "length (cs_snapshots demo_published) = 1"
proof -
  show "config_inv demo_published"
    unfolding demo_published_def
    by (rule run_inv [OF r_into_rtranclp], rule config_step.publish [where api = demo_api and codec = demo_codec and
          ids = "(''c1'', ''v1'')", OF prod.collapse [symmetric]])
      (simp_all add: snapshot_ids_def empty_config_store_def i64_simps)
qed (simp_all add: demo_pointer_def demo_published_def demo_payload_def demo_config_simps snapshot_ids_def)

lemma demo_reason_trimmed: "trim (er_reason demo_emergency) = ''leak''"
  by code_simp

lemma demo_drained_fields:
  "ad_config demo_drained = demo_published \<and> ad_grants demo_drained = demo_admin_grants \<and> ad_hot demo_drained = demo_hot \<and>
   active_emergency_operation (ad_policy demo_drained) ''t1'' ''freeze_config'' now = None \<and>
   ad_idempotency demo_drained (t, ''config_snapshots:publish:k2'') = None"
  by (rule demo_gate [OF demo_mays(7) demo_fields(3,4) demo_not_frozen,
        of "ctxt_env demo_context" "ai_authz (demo_admin_ids ''1'')" 10])
    (simp add: demo_drained_def demo_call_simps emergency_disable_provider_endpoint_def provider_endpoint_for_actor_def
      demo_endpoint_record_def update_provider_endpoint_status_def set_endpoint_emergency_drain_def demo_published_eval
      record_emergency_operation_audit_def record_admin_resource_audit_def record_idempotent_admin_response_def
      record_idempotency_response_def demo_hot_def demo_reason_trimmed active_emergency_operation_def
      emergency_operations_for_tenant_def budget_admin_def emergency_idempotency_scope_key_def
      idempotency_scope_key_def, simp add: demo_admin_def)

definition demo_route :: "admin_state \<Rightarrow> datetime \<Rightarrow> routed_target gateway_result \<times> route_state" where
  "demo_route s now = runtime_route_target (\<lambda>_. Inr (demo_catalog [open_grant])) demo_uri ''rd1'' (ad_config s)
     demo_actor OpenAiChat True ''fast'' None now \<lparr>rst_hot = ad_hot s, rst_decisions = []\<rparr>"

lemma demo_latest_catalog:
  "latest_catalog_for_actor (\<lambda>_. Inr (demo_catalog [open_grant])) demo_uri demo_published demo_actor =
     Inr (Some \<lparr>lc_catalog = demo_catalog [open_grant], lc_snapshot_id = ''c1'', lc_version = 1\<rparr>)"
  by (simp add: latest_catalog_for_actor_def latest_snapshot_for_actor_in_memory_def demo_published_def
      demo_payload_def demo_config_simps demo_actor_tenant catalog_from_payload_def payload_has_catalog_def
      demo_validates result_simps)

lemma demo_plan:
  "(case plan_runtime_route_with_hot_state (demo_catalog [open_grant])
      \<lparr>pr_actor = demo_actor, pr_protocol_family = OpenAiChat, pr_alias_name = ''fast'', pr_streaming = True,
       pr_hot_state = mem_view demo_hot, pr_config_version = Some 1, pr_now = 20, pr_route_affinity_hash = None\<rparr> of
      Inr plan \<Rightarrow> (case plan_outcome plan of PlanSelected sel \<Rightarrow> pe_tenant_id (rs_provider_endpoint sel) = ''t1'' | _ \<Rightarrow> False)
    | Inl _ \<Rightarrow> False)"
  by code_simp

lemma demo_routes:
  "\<exists>target st endpoint. demo_route demo_drained 20 = (Inr target, st) \<and> rrt_provider_endpoint target = Some endpoint \<and>
     pe_tenant_id endpoint = ''t1''"
  using demo_plan demo_drained_fields
  by (auto simp: demo_route_def runtime_route_target_def demo_latest_catalog Let_def selected_runtime_route_target_def
      split: sum.splits route_plan_outcome.splits)

text \<open>A publication after the endpoint was disabled.\<close>

definition demo_document :: admin_publish_request where
  "demo_document = \<lparr>apr_idempotency_key = ''k2'', apr_resource_versions = [], apr_payload = demo_payload\<rparr>"

definition demo_republished :: "json gateway_result \<times> admin_state" where
  "demo_republished = handle_admin_call demo_context demo_material (demo_admin_ids ''2'') demo_actor
     (PublishSnapshot demo_document) 20 demo_drained"

lemma demo_document_key: "validate_idempotency_key ''k2'' = Inr ()"
  by code_simp

lemma demo_republished_ok:
  "handle_admin_call demo_context demo_material (demo_admin_ids ''2'') demo_actor (PublishSnapshot demo_document) 20
     demo_drained = (Inr (projr (fst demo_republished)), snd demo_republished)"
proof -
  have "isl (fst demo_republished) = False"
    by (rule demo_gate [OF demo_mays(1), of demo_drained 20 "ctxt_env demo_context" "ai_authz (demo_admin_ids ''2'')"])
      (use demo_drained_fields in \<open>simp_all add: demo_republished_def publish_config_snapshot_admin_def
        publish_effect_def demo_document_key demo_call_simps demo_document_def idempotency_scope_key_def
        publish_config_snapshot_def publish_document_def publish_version_def validate_config_snapshot_payload_def
        demo_payload_def snapshot_checksum_def demo_codec_def demo_context_def split: prod.splits sum.splits\<close>)
  then show ?thesis by (cases demo_republished) (auto simp: isl_def demo_republished_def)
qed

end
