(* ===== verification/Gateway_Admin_Properties.thy ===== *)
theory Gateway_Admin_Properties
  imports Gateway_Admin_Demo
begin

text \<open>
  Properties of the admin API: mutations are applied once, emergency operations and what they reach
  in the runtime, the route gate, tenant isolation, and where the handlers fall short.
\<close>

subsection \<open>Successful calls\<close>

definition log_only :: "admin_state \<Rightarrow> admin_state \<Rightarrow> bool" where
  "log_only s s' \<longleftrightarrow> (\<exists>authz records. s' = s\<lparr>ad_authz := authz, ad_idempotency := records\<rparr>)"

lemma log_onlyD:
  "log_only s s' \<Longrightarrow> ad_config s' = ad_config s" "log_only s s' \<Longrightarrow> ad_policy s' = ad_policy s"
  "log_only s s' \<Longrightarrow> ad_hot s' = ad_hot s" "log_only s s' \<Longrightarrow> ad_credentials s' = ad_credentials s"
  "log_only s s' \<Longrightarrow> ad_endpoints s' = ad_endpoints s" "log_only s s' \<Longrightarrow> ad_groups s' = ad_groups s"
  "log_only s s' \<Longrightarrow> ad_auth s' = ad_auth s" "log_only s s' \<Longrightarrow> ad_directory s' = ad_directory s"
  "log_only s s' \<Longrightarrow> ad_grants s' = ad_grants s"
  by (auto simp: log_only_def)

definition no_record :: "string \<Rightarrow> string \<Rightarrow> datetime \<Rightarrow> admin_state \<Rightarrow> bool" where
  "no_record tenant_id scope_key now s \<longleftrightarrow>
     (\<forall>r. ad_idempotency s (tenant_id, scope_key) = Some r \<longrightarrow> idr_expires_at r \<le> now)"

lemma demo_no_record: "no_record t k now demo_admin"
  by (simp add: no_record_def demo_fields)

lemma no_record_only_authz: "only_authz s s' \<Longrightarrow> no_record t k now s' \<longleftrightarrow> no_record t k now s"
  by (simp add: no_record_def only_authz_idempotency)

text \<open>A successful mutation without a record in force has run its effect.\<close>

lemma mutation_effect:
  assumes "idempotent_mutation tenant_id scope_key h now effect s = (Inr response, s')"
    and "no_record tenant_id scope_key now s"
  obtains s1 stored s2 where "log_only s s1" and "effect s1 = (Inr (response, stored), s2)"
    and "s' = record_idempotent_admin_response tenant_id scope_key h stored now s2"
proof -
  obtain s1 where look: "idempotency_response tenant_id scope_key h now s = (Inr None, s1)" "log_only s s1"
  proof (cases "ad_idempotency s (tenant_id, scope_key)")
    case None
    moreover have "log_only s s"
      unfolding log_only_def by (rule exI [of _ "ad_authz s"], rule exI [of _ "ad_idempotency s"]) simp
    ultimately show ?thesis by (intro that [of s]) (simp_all add: idempotency_response_def)
  next
    case (Some r)
    with assms(2) have "idr_expires_at r \<le> now" by (auto simp: no_record_def)
    moreover have "log_only s (s\<lparr>ad_idempotency := records\<rparr>)" for records
      unfolding log_only_def by (rule exI [of _ "ad_authz s"], rule exI [of _ records]) simp
    ultimately show ?thesis using Some that by (simp add: idempotency_response_def)
  qed
  with assms(1) idempotent_mutation_fresh [OF look(1)] that show ?thesis by blast
qed

lemma log_only_trans: "only_authz s s1 \<Longrightarrow> log_only s1 s2 \<Longrightarrow> log_only s s2"
  unfolding only_authz_def log_only_def by clarsimp blast

lemma guarded_effect:
  assumes "abind (authorize_admin_route api env i actor method path resource_id now)
      (\<lambda>_. abind (acheck (\<lambda>s. request_hash))
        (\<lambda>h. idempotent_mutation tenant_id scope_key h now effect)) s = (Inr response, s')"
    and "no_record tenant_id scope_key now s"
  obtains h s0 s1 stored s2 where "authorize_admin_route api env i actor method path resource_id now s = (Inr (), s0)"
    and "request_hash = Inr h" and "log_only s s1" and "effect s1 = (Inr (response, stored), s2)"
    and "s' = record_idempotent_admin_response tenant_id scope_key h stored now s2"
proof -
  from assms(1) obtain s0 h where gate: "authorize_admin_route api env i actor method path resource_id now s = (Inr (), s0)"
    and h: "request_hash = Inr h" and m: "idempotent_mutation tenant_id scope_key h now effect s0 = (Inr response, s')"
    by (auto simp: abind_Inr_iff acheck_def)
  from authz_only.keeps_gate have "only_authz s s0"
    using keepsD [of only_authz _ s] gate by (metis snd_conv)
  moreover from this assms(2) have "no_record tenant_id scope_key now s0" by (simp add: no_record_only_authz)
  ultimately show ?thesis using mutation_effect [OF m] gate h that by (metis log_only_trans)
qed

lemma emergency_effect:
  assumes "emergency_mutation api env ids actor path kind target request now effect s = (Inr response, s')"
    and "no_record (actor_tenant_id actor)
      (emergency_idempotency_scope_key kind target (er_idempotency_key request)) now s"
  obtains h s1 stored s2 where "validate_emergency_operation_request request now = Inr ()"
    and "log_only s s1" and "effect s1 = (Inr (response, stored), s2)"
    and "s' = record_idempotent_admin_response (actor_tenant_id actor)
      (emergency_idempotency_scope_key kind target (er_idempotency_key request)) h stored now s2"
proof -
  from assms(1) have "validate_emergency_operation_request request now = Inr ()" and
    "abind (authorize_admin_route api env (ai_authz ids) actor POST path target now)
      (\<lambda>_. abind (acheck (\<lambda>s. emergency_request_hash env target request))
        (\<lambda>h. idempotent_mutation (actor_tenant_id actor)
          (emergency_idempotency_scope_key kind target (er_idempotency_key request)) h now effect)) s = (Inr response, s')"
    by (auto simp: emergency_mutation_def abind_acheck split: sum.splits)
  with guarded_effect [OF this(2) assms(2)] that show ?thesis by metis
qed

lemma evidence_operation:
  assumes "emergency_evidence env ids actor input before after diff affected now s = (Inr r, s')"
  shows "\<exists>op \<in> set (pa_emergency_operations (ad_policy s')). eo_tenant_id op = actor_tenant_id actor \<and>
      eo_operation_kind op = eoi_operation_kind input \<and>
      eo_target_resource_kind op = eoi_target_resource_kind input \<and>
      eo_target_resource_id op = eoi_target_resource_id input \<and> eo_status op = ''applied'' \<and>
      eo_expires_at op = eoi_expires_at input"
    and "ad_config s' = ad_config s" and "ad_hot s' = ad_hot s" and "ad_credentials s' = ad_credentials s"
    and "pa_budget_policies (ad_policy s') = pa_budget_policies (ad_policy s)"
    and "ad_endpoints s' = ad_endpoints s" and "ad_groups s' = ad_groups s"
  using assms
  by (auto simp: emergency_evidence_def abind_Inr_iff create_emergency_operation_record_def
      create_emergency_operation_def awrite_def aret_def record_emergency_operation_audit_def
      record_admin_resource_audit_def Let_def split: if_splits)

lemma evidence_frame:
  assumes "emergency_evidence env ids actor input before after diff affected now s = (Inr r, s')"
  shows "ad_config s' = ad_config s \<and> ad_hot s' = ad_hot s \<and> ad_credentials s' = ad_credentials s \<and>
    ad_endpoints s' = ad_endpoints s \<and> ad_groups s' = ad_groups s"
  using evidence_operation [OF assms] by simp

lemma record_response_fields [simp]:
  "ad_config (record_idempotent_admin_response t k h x now s) = ad_config s"
  "ad_policy (record_idempotent_admin_response t k h x now s) = ad_policy s"
  "ad_hot (record_idempotent_admin_response t k h x now s) = ad_hot s"
  "ad_credentials (record_idempotent_admin_response t k h x now s) = ad_credentials s"
  "ad_endpoints (record_idempotent_admin_response t k h x now s) = ad_endpoints s"
  "ad_groups (record_idempotent_admin_response t k h x now s) = ad_groups s"
  "ad_auth (record_idempotent_admin_response t k h x now s) = ad_auth s"
  "ad_directory (record_idempotent_admin_response t k h x now s) = ad_directory s"
  by (simp_all add: record_idempotent_admin_response_def record_idempotency_response_def)

subsection \<open>Applied once\<close>

lemma admin_call_recorded:
  assumes "handle_admin_call c material ids actor call now s = (Inr response, s1)"
    and "no_record (actor_tenant_id actor) (call_scope_key (actor_tenant_id actor) call) now s"
    and "(admin_step c until)\<^sup>*\<^sup>* s1 s2" and "until < now + IDEMPOTENCY_TTL"
  obtains h stored where "call_request_hash (ctxt_env c) (actor_tenant_id actor) call = Inr h"
    and "sanitized response stored"
    and "ad_idempotency s2 (actor_tenant_id actor, call_scope_key (actor_tenant_id actor) call) = Some
      \<lparr>idr_tenant_id = actor_tenant_id actor, idr_scope_key = call_scope_key (actor_tenant_id actor) call,
       idr_request_hash = h, idr_response_record = stored, idr_expires_at = now + IDEMPOTENCY_TTL,
       idr_created_at = now\<rparr>"
  using idempotent_call_first [OF handle_idempotent assms(1)] assms(2,4) admin_run_records [OF assms(3)] that
  unfolding no_record_def records_kept_def by fastforce

lemma sanitized_replay:
  assumes "sanitized response stored"
  shows "json_get (response_with_replay_flag stored True) ''idempotency_replayed'' = Some (JBool True)"
    and "json_get (response_with_replay_flag stored True) ''raw_key'' \<in> {None, Some JNull}"
    and "field \<notin> {''raw_key'', ''one_time_secret_available'', ''idempotency_replayed''} \<Longrightarrow>
      json_get (response_with_replay_flag stored True) field = json_get response field"
proof -
  from assms obtain kvs where kvs: "stored = JObject kvs" by (auto simp: sanitized_def)
  have get: "json_get (response_with_replay_flag stored True) field =
      (if field = ''idempotency_replayed'' then Some (JBool True) else json_get stored field)" for field
    unfolding response_with_replay_flag_def kvs by (simp del: json_set.simps)
  with assms show "json_get (response_with_replay_flag stored True) ''idempotency_replayed'' = Some (JBool True)"
    and "json_get (response_with_replay_flag stored True) ''raw_key'' \<in> {None, Some JNull}"
    and "field \<notin> {''raw_key'', ''one_time_secret_available'', ''idempotency_replayed''} \<Longrightarrow>
      json_get (response_with_replay_flag stored True) field = json_get response field"
    by (auto simp: sanitized_def)
qed

text \<open>
  C23. An admin mutation is applied once. After a call has succeeded, and whatever calls and other
  work follow, every call of the same tenant with the same scope key within twenty-four hours
  changes nothing but the log of authorization decisions. If it succeeds it is the same request and
  gets the stored response: marked as replayed, without the secret, and otherwise field by field
  the response of the first call.
\<close>

theorem admin_call_once:
  assumes "handle_admin_call c material ids actor call now s = (Inr response, s1)"
    and "no_record (actor_tenant_id actor) (call_scope_key (actor_tenant_id actor) call) now s"
    and "(admin_step c until)\<^sup>*\<^sup>* s1 s2" and "until < now + IDEMPOTENCY_TTL" and "later \<le> until"
    and "actor_tenant_id other = actor_tenant_id actor"
    and "call_scope_key (actor_tenant_id actor) again = call_scope_key (actor_tenant_id actor) call"
  shows "\<exists>authz. snd (handle_admin_call c material' ids' other again later s2) = s2\<lparr>ad_authz := authz\<rparr> \<and>
    (\<forall>r. fst (handle_admin_call c material' ids' other again later s2) = Inr r \<longrightarrow>
       call_request_hash (ctxt_env c) (actor_tenant_id actor) again =
         call_request_hash (ctxt_env c) (actor_tenant_id actor) call \<and>
       json_get r ''idempotency_replayed'' = Some (JBool True) \<and>
       json_get r ''raw_key'' \<in> {None, Some JNull} \<and>
       (\<forall>field. field \<notin> {''raw_key'', ''one_time_secret_available'', ''idempotency_replayed''} \<longrightarrow>
          json_get r field = json_get response field))"
proof -
  let ?t = "actor_tenant_id actor" and ?k = "call_scope_key (actor_tenant_id actor) call"
  let ?m = "handle_admin_call c material' ids' other again later"
  from admin_call_recorded [OF assms(1-4)] obtain h stored where
    h: "call_request_hash (ctxt_env c) ?t call = Inr h" and san: "sanitized response stored" and
    rec: "ad_idempotency s2 (?t, ?k) = Some
      \<lparr>idr_tenant_id = ?t, idr_scope_key = ?k, idr_request_hash = h, idr_response_record = stored,
       idr_expires_at = now + IDEMPOTENCY_TTL, idr_created_at = now\<rparr>" .
  have "idempotent_call ?t ?k (call_request_hash (ctxt_env c) ?t again) later (ai_operation ids') ?m"
    using handle_idempotent [of other again c later ids' material'] assms(6,7) by simp
  from idempotent_call_again [OF this rec] assms(4,5)
  have only: "only_authz s2 (snd (?m s2))" and
    r: "fst (?m s2) = Inr r \<Longrightarrow> call_request_hash (ctxt_env c) ?t again = Inr h \<and>
        r = response_with_replay_flag stored True" for r by simp_all
  with h sanitized_replay [OF san] show ?thesis by (auto simp: only_authz_def)
qed

theorem admin_call_once_witness:
  "\<exists>authz. snd (handle_admin_call demo_context demo_material (demo_admin_ids ''2'') demo_actor
      (DisableApiKey ''ak1'' demo_reason) 20 (snd (demo_call (DisableApiKey ''ak1'' demo_reason)))) =
    (snd (demo_call (DisableApiKey ''ak1'' demo_reason)))\<lparr>ad_authz := authz\<rparr>"
  using admin_call_once [OF demo_call_ok [OF demo_disable_key] demo_no_record rtranclp.rtrancl_refl,
      of 30 20 demo_actor "DisableApiKey ''ak1'' demo_reason" demo_material "demo_admin_ids ''2''"]
  by (auto simp: IDEMPOTENCY_TTL_def)

text \<open>
  C40. An idempotency key that disabled one API key leaves another enabled. The record of a disable
  call is found by the idempotency key alone and compared by the body alone, and neither names the
  API key: a second authorized call for another API key with the same body within twenty-four hours
  is answered with success and the first call's resource, and no key changes.
\<close>

theorem disable_replays_for_other_key:
  assumes "handle_admin_call c material ids actor (DisableApiKey i request) now s = (Inr response, s1)"
    and "no_record (actor_tenant_id actor) (call_scope_key (actor_tenant_id actor) (DisableApiKey i request)) now s"
    and "(admin_step c until)\<^sup>*\<^sup>* s1 s2" and "until < now + IDEMPOTENCY_TTL" and "later \<le> until"
    and "actor_tenant_id other = actor_tenant_id actor"
    and "authorize_admin_route (ctxt_cedar c) (ctxt_env c) (ai_authz ids') other POST ADMIN_API_KEY_DISABLE_PATH j
      later s2 = (Inr (), s3)"
  shows "\<exists>r. handle_admin_call c material' ids' other (DisableApiKey j request) later s2 = (Inr r, s3) \<and>
    json_get r ''resource'' = json_get response ''resource'' \<and> ad_auth s3 = ad_auth s2"
proof -
  let ?t = "actor_tenant_id actor" and ?k = "call_scope_key (actor_tenant_id actor) (DisableApiKey i request)"
  from admin_call_recorded [OF assms(1-4)] obtain h stored where
    h: "call_request_hash (ctxt_env c) ?t (DisableApiKey i request) = Inr h" and san: "sanitized response stored" and
    rec: "ad_idempotency s2 (?t, ?k) = Some
      \<lparr>idr_tenant_id = ?t, idr_scope_key = ?k, idr_request_hash = h, idr_response_record = stored,
       idr_expires_at = now + IDEMPOTENCY_TTL, idr_created_at = now\<rparr>" .
  from assms(7) authz_only.keeps_gate have only: "only_authz s2 s3" by (metis keepsD snd_conv)
  have found: "idempotent_mutation ?t ?k h later effect s3 = (Inr (response_with_replay_flag stored True), s3)" for effect
    using only_authz_idempotency [OF only] rec assms(4,5) by (subst idempotent_mutation_found) auto
  have "handle_admin_call c material' ids' other (DisableApiKey j request) later s2 =
      (Inr (response_with_replay_flag stored True), s3)"
    using found h assms(6,7) by (simp add: disable_api_key_admin_def abind_def [of "authorize_admin_route _ _ _ _ _ _ _ _"]
      abind_acheck call_request_hash_def)
  moreover have "json_get (response_with_replay_flag stored True) ''resource'' = json_get response ''resource''"
    by (rule sanitized_replay(3) [OF san]) simp
  ultimately show ?thesis using only by (auto simp: only_authz_def)
qed

theorem disable_replays_for_other_key_witness:
  "\<exists>r s3. handle_admin_call demo_context demo_material (demo_admin_ids ''2'') demo_actor
      (DisableApiKey ''ak2'' demo_reason) 20 demo_after_disable = (Inr r, s3) \<and>
    map_option key_status (api_key (ad_auth s3) ''ak2'') = Some KeyActive"
proof -
  have "active_emergency_operation (ad_policy demo_after_disable) ''t1'' ''freeze_config'' 20 = None"
    using demo_after_disable_fields demo_not_frozen by simp
  with demo_gate [OF demo_mays(3), of demo_after_disable 20 "ctxt_env demo_context" "ai_authz (demo_admin_ids ''2'')"]
    demo_after_disable_fields obtain authz where
    gate: "authorize_admin_route (ctxt_cedar demo_context) (ctxt_env demo_context) (ai_authz (demo_admin_ids ''2''))
      demo_actor POST ADMIN_API_KEY_DISABLE_PATH ''ak2'' 20 demo_after_disable =
        (Inr (), demo_after_disable\<lparr>ad_authz := authz\<rparr>)" by (auto simp: demo_fields)
  have "\<exists>r. handle_admin_call demo_context demo_material (demo_admin_ids ''2'') demo_actor
      (DisableApiKey ''ak2'' demo_reason) 20 demo_after_disable = (Inr r, demo_after_disable\<lparr>ad_authz := authz\<rparr>)"
    using disable_replays_for_other_key [OF demo_call_ok [OF demo_disable_key] demo_no_record rtranclp.rtrancl_refl
      _ _ refl gate [unfolded demo_after_disable_def], of 30]
    unfolding demo_after_disable_def by (force simp: IDEMPOTENCY_TTL_def)
  with demo_after_disable_fields show ?thesis by fastforce
qed

subsection \<open>Freeze and force block\<close>

lemma applied_operation:
  assumes "op \<in> set (pa_emergency_operations admin)" and "eo_tenant_id op = t"
    and "eo_operation_kind op = kind" and "eo_status op = ''applied''" and "now < eo_expires_at op"
  shows "\<exists>active. active_emergency_operation admin t kind now = Some active"
proof -
  have "op \<in> set (emergency_operations_for_tenant admin t)"
    using assms by (simp add: emergency_operations_for_tenant_def)
  then show ?thesis using assms
    by (auto simp: active_emergency_operation_def find_None_iff simp flip: not_None_eq)
qed

lemma frozen_gate:
  assumes "r \<in> set foundation_routes" and "admin_route_mutates (rm_method r)"
    and "\<not> route_allowed_during_config_freeze r"
    and "active_emergency_operation (ad_policy s) (actor_tenant_id actor) ''freeze_config'' now = Some op"
  shows "\<exists>m. authorize_admin_route api env i actor (rm_method r) (rm_path_pattern r) resource_id now s =
    (Inl (BadRequest m), s)"
  using assms by (simp add: authorize_admin_route_def abind_acheck route_metadata_for_table
      reject_frozen_config_mutation_def)


fun stopped_by_freeze :: "admin_call \<Rightarrow> bool" where
  "stopped_by_freeze (PublishSnapshot r) = True"
| "stopped_by_freeze (CreateApiKey r) = True"
| "stopped_by_freeze (RotateApiKey i r) = True"
| "stopped_by_freeze (DisableApiKey i r) = True"
| "stopped_by_freeze _ = False"

definition freezable_row :: "http_method \<Rightarrow> string \<Rightarrow> bool" where
  "freezable_row method path \<longleftrightarrow> admin_route_mutates method \<and>
     (case route_metadata_for method path of Inl e \<Rightarrow> False | Inr r \<Rightarrow> \<not> route_allowed_during_config_freeze r)"

lemma freezable_rows:
  "freezable_row POST ''/admin/v1/config/snapshots:publish''" "freezable_row POST ''/admin/v1/api-keys''"
  "freezable_row POST ADMIN_API_KEY_ROTATE_PATH" "freezable_row POST ADMIN_API_KEY_DISABLE_PATH"
  using admin_rows(1-4) [THEN route_metadata_for_table]
  by (simp_all add: freezable_row_def admin_route_mutates_def route_allowed_during_config_freeze_def route_row_def
      ends_with_def)

lemma frozen_row:
  assumes "freezable_row method path"
    and "active_emergency_operation (ad_policy s) (actor_tenant_id actor) ''freeze_config'' now = Some op"
  shows "\<exists>m. authorize_admin_route api env i actor method path resource_id now s = (Inl (BadRequest m), s)"
  using assms by (auto simp: freezable_row_def authorize_admin_route_def abind_acheck
      reject_frozen_config_mutation_def split: sum.splits)

lemma stopped_call:
  assumes "stopped_by_freeze call"
    and "active_emergency_operation (ad_policy s) (actor_tenant_id actor) ''freeze_config'' now = Some op"
  shows "\<exists>e. handle_admin_call c material ids actor call now s = (Inl e, s)"
proof -
  have "\<exists>e. abind (authorize_admin_route api env i actor verb path resource_id now) f s = (Inl e, s)"
    if "freezable_row verb path" for api env i verb path resource_id f
    using frozen_row [OF that assms(2), of api env i resource_id] by (auto simp: abind_def)
  with assms(1) freezable_rows show ?thesis
    by (cases call rule: stopped_by_freeze.cases)
      (auto simp: publish_config_snapshot_admin_def create_api_key_admin_def rotate_api_key_admin_def
        disable_api_key_admin_def abind_acheck split: sum.splits)
qed

text \<open>
  C24. A frozen configuration stays frozen until the freeze expires. After a successful freeze, and
  whatever follows, the gate refuses every mutating route of the table that is not exempt to every
  actor of the tenant and writes nothing; in particular publications and every change of API keys
  are refused and leave the state as it is. A leaked key cannot be disabled while a freeze lasts.
\<close>

theorem freeze_blocks_mutations:
  assumes "handle_admin_call c material ids actor (FreezeConfig request) now s = (Inr response, s1)"
    and "no_record (actor_tenant_id actor) (call_scope_key (actor_tenant_id actor) (FreezeConfig request)) now s"
    and "(admin_step c until)\<^sup>*\<^sup>* s1 s2" and "later < er_expires_at request"
    and "actor_tenant_id other = actor_tenant_id actor"
  shows "(\<forall>r \<in> set foundation_routes. admin_route_mutates (rm_method r) \<and> \<not> route_allowed_during_config_freeze r \<longrightarrow>
      (\<exists>m. authorize_admin_route (ctxt_cedar c) (ctxt_env c) i other (rm_method r) (rm_path_pattern r) resource_id
         later s2 = (Inl (BadRequest m), s2))) \<and>
    (\<forall>call. stopped_by_freeze call \<longrightarrow> (\<exists>e. handle_admin_call c material' ids' other call later s2 = (Inl e, s2)))"
proof -
  from assms(1) obtain h s0 stored s0' where
    eff: "emergency_evidence (ctxt_env c) ids actor
       \<lparr>eoi_operation_kind = ''freeze_config'', eoi_target_resource_kind = ''Config'',
        eoi_target_resource_id = actor_tenant_id actor, eoi_organization_id = None,
        eoi_project_id = None, eoi_reason = er_reason request, eoi_expires_at = er_expires_at request\<rparr>
       None (\<lambda>op. Some (eo_resource_version op)) (JObject [(''config_mutation_gate'', JString ''frozen'')])
       (JObject [(''kind'', JString ''config''), (''id'', JString (actor_tenant_id actor)),
          (''tenant_id'', JString (actor_tenant_id actor)), (''status'', JString ''frozen''),
          (''expires_at'', av_json_time (ctxt_env c) (er_expires_at request))]) now s0 =
       (Inr (response, stored), s0')" and
    s1: "s1 = record_idempotent_admin_response (actor_tenant_id actor)
      (call_scope_key (actor_tenant_id actor) (FreezeConfig request)) h stored now s0'"
    using assms(2) by (auto simp: emergency_freeze_config_def elim!: emergency_effect)
  from evidence_operation(1) [OF eff] obtain op where op: "op \<in> set (pa_emergency_operations (ad_policy s1))"
    "eo_tenant_id op = actor_tenant_id actor" "eo_operation_kind op = ''freeze_config''"
    "eo_status op = ''applied''" "eo_expires_at op = er_expires_at request" by (auto simp: s1)
  with admin_run_operations [OF assms(3)] have "op \<in> set (pa_emergency_operations (ad_policy s2))"
    by (auto simp: operations_stay_def)
  from applied_operation [OF this op(2,3,4), of later] op(5) assms(4,5) obtain active where
    "active_emergency_operation (ad_policy s2) (actor_tenant_id other) ''freeze_config'' later = Some active"
    by auto
  with frozen_gate stopped_call show ?thesis by blast
qed

theorem freeze_blocks_mutations_witness:
  "\<exists>e. handle_admin_call demo_context demo_material (demo_admin_ids ''2'') demo_actor
      (DisableApiKey ''ak1'' demo_reason) 20 (snd (demo_call (FreezeConfig demo_emergency))) =
    (Inl e, snd (demo_call (FreezeConfig demo_emergency)))"
proof -
  have "stopped_by_freeze (DisableApiKey ''ak1'' demo_reason)" by simp
  with freeze_blocks_mutations [OF demo_call_ok [OF demo_freeze] demo_no_record rtranclp.rtrancl_refl _ refl, of 20]
  show ?thesis unfolding demo_requests by fastforce
qed

lemma map_filter_nonempty: "x \<in> set xs \<Longrightarrow> f x \<noteq> None \<Longrightarrow> List.map_filter f xs \<noteq> []"
  by (induction xs) (auto simp: List.map_filter_simps split: option.splits)

lemma active_force_block:
  assumes "op \<in> set (emergency_operations_for_tenant admin (actor_tenant_id actor))"
    and "eo_operation_kind op = ''force_budget_block''" and "eo_target_resource_kind op = ''BudgetPolicy''"
    and "eo_status op = ''applied''" and "now < eo_expires_at op"
    and "budget_policy_by_id admin (eo_target_resource_id op) = Some policy"
    and "bp_tenant_id policy = actor_tenant_id actor" and "bp_status policy \<noteq> ResDeleted"
    and "runtime_budget_policy_matches_request policy actor selected"
  shows "active_force_budget_block_policy admin actor selected now \<noteq> None"
proof -
  have "List.map_filter (\<lambda>operation.
         opt_filter (\<lambda>policy. bp_tenant_id policy = actor_tenant_id actor \<and>
             bp_status policy \<noteq> ResDeleted \<and> runtime_budget_policy_matches_request policy actor selected)
           (budget_policy_by_id admin (eo_target_resource_id operation)))
       (filter (\<lambda>operation. eo_operation_kind operation = ''force_budget_block'' \<and>
           eo_target_resource_kind operation = ''BudgetPolicy'' \<and>
           eo_status operation = ''applied'' \<and> eo_expires_at operation > now)
         (emergency_operations_for_tenant admin (actor_tenant_id actor))) \<noteq> []"
    using assms by (intro map_filter_nonempty [of op]) simp_all
  then show ?thesis by (simp add: active_force_budget_block_policy_def split: list.splits)
qed

text \<open>
  A forced budget block stops requests until it expires: after a successful block of a policy,
  and whatever follows, the budget preflight of every request of the tenant that the policy matches
  fails with the emergency reason and reserves nothing, whatever the ledger and the counters say.
\<close>

theorem force_block_stops_requests:
  assumes "handle_admin_call c material ids actor (ForceBudgetBlock i request) now s = (Inr response, s1)"
    and "no_record (actor_tenant_id actor) (call_scope_key (actor_tenant_id actor) (ForceBudgetBlock i request)) now s"
    and "(admin_step c until)\<^sup>*\<^sup>* s1 s2" and "later < er_expires_at request"
    and "actor_tenant_id other = actor_tenant_id actor"
    and "budget_policy_by_id (ad_policy s) i = Some policy" and "bp_status policy \<noteq> ResDeleted"
    and "runtime_budget_policy_matches_request policy other selected"
  shows "enforce_runtime_budget_preflight cal new_id utc_now (ad_policy s2) other selected later counters =
    (Inl (BudgetExceeded ''emergency_force_budget_block''), counters)"
proof -
  from assms(1,2) obtain h s0 stored s0' before after diff affected where
    log: "log_only s s0" and
    ten: "bp_tenant_id policy = actor_tenant_id actor" and
    eff: "emergency_evidence (ctxt_env c) ids actor
       \<lparr>eoi_operation_kind = ''force_budget_block'', eoi_target_resource_kind = ''BudgetPolicy'',
        eoi_target_resource_id = bp_budget_policy_id policy, eoi_organization_id = bp_organization_id policy,
        eoi_project_id = bp_project_id policy, eoi_reason = er_reason request,
        eoi_expires_at = er_expires_at request\<rparr> before after diff affected now s0 =
       (Inr (response, stored), s0')" and
    s1: "s1 = record_idempotent_admin_response (actor_tenant_id actor)
      (call_scope_key (actor_tenant_id actor) (ForceBudgetBlock i request)) h stored now s0'"
    using assms(6)
    by (auto simp: emergency_force_budget_block_def abind_Inr_iff acheck_def budget_policy_for_actor_def
        log_onlyD split: option.splits if_splits elim!: emergency_effect)
  have id: "bp_budget_policy_id policy = i" using assms(6) by (auto simp: budget_policy_by_id_def find_Some_iff)
  from evidence_operation(1) [OF eff] obtain op where op: "op \<in> set (pa_emergency_operations (ad_policy s1))"
    "eo_tenant_id op = actor_tenant_id actor" "eo_operation_kind op = ''force_budget_block''"
    "eo_target_resource_kind op = ''BudgetPolicy''" "eo_target_resource_id op = i"
    "eo_status op = ''applied''" "eo_expires_at op = er_expires_at request" by (auto simp: s1 id)
  have pol: "budget_policy_by_id (ad_policy s2) i = Some policy"
    using admin_run_operations [OF assms(3)] evidence_operation(5) [OF eff] assms(6) log_onlyD(2) [OF log]
    by (simp add: operations_stay_def budget_policy_by_id_def s1)
  from admin_run_operations [OF assms(3)] op(1) have "op \<in> set (emergency_operations_for_tenant (ad_policy s2)
      (actor_tenant_id other))"
    using op(2) assms(5) by (auto simp: emergency_operations_for_tenant_def operations_stay_def)
  then have "active_force_budget_block_policy (ad_policy s2) other selected later \<noteq> None"
    using op(3-7) pol ten assms(4,5,7,8) by (intro active_force_block [where op = op and policy = policy]) simp_all
  then show ?thesis by (simp add: enforce_runtime_budget_preflight_def)
qed

theorem force_block_stops_requests_witness:
  "enforce_runtime_budget_preflight demo_calendar demo_ids (\<lambda>_. 0)
      (ad_policy (snd (demo_call (ForceBudgetBlock ''b1'' demo_emergency)))) tenant_actor None 20 empty_policy_store =
    (Inl (BudgetExceeded ''emergency_force_budget_block''), empty_policy_store)"
  by (rule force_block_stops_requests [OF demo_call_ok [OF demo_block] demo_no_record rtranclp.rtrancl_refl,
        where policy = "request_budget ''b1'' 5"])
    (simp_all add: demo_requests demo_actor_tenant demo_fields budget_demo_defs budget_policy_by_id_def
      runtime_budget_policy_matches_request_def Let_def)


subsection \<open>Emergency operations and routing\<close>

lemma update_status_fields:
  "update_upstream_credential_status i v st now s = (Inr c, s') \<Longrightarrow>
     ad_config s' = ad_config s \<and> ad_hot s' = ad_hot s \<and>
     (\<exists>old. ad_credentials s i = Some old \<and> ad_credentials s' = (ad_credentials s)(i \<mapsto> c) \<and>
        ucr_secret_ref_id c = ucr_secret_ref_id old \<and> ucr_credential_kind c = ucr_credential_kind old \<and>
        ucr_upstream_credential_id c = ucr_upstream_credential_id old \<and> ucr_status c = st)"
  "update_routing_group_status i v st' now s = (Inr g, s') \<Longrightarrow>
     ad_config s' = ad_config s \<and> ad_hot s' = ad_hot s \<and> ad_credentials s' = ad_credentials s"
  by (auto simp: update_upstream_credential_status_def update_routing_group_status_def Let_def
      split: option.splits if_splits)

lemma adapter_credential_update:
  assumes "credentials i = Some old" and "ucr_secret_ref_id new = ucr_secret_ref_id old"
    and "ucr_credential_kind new = ucr_credential_kind old"
    and "ucr_upstream_credential_id new = ucr_upstream_credential_id old"
  shows "runtime_provider_adapter_credential (credentials(i \<mapsto> new)) secret_value target =
    runtime_provider_adapter_credential credentials secret_value target"
  using assms by (cases "rrt_upstream_credential_id target")
    (auto simp: runtime_provider_adapter_credential_def)

text \<open>
  The emergency disabling of an upstream credential and the emergency draining of a routing group
  do not reach the runtime. Routing reads the published snapshot and the hot state, and neither
  handler writes them: after a successful call every request is routed exactly as before, and the
  secret of the disabled credential is still handed to the provider request.
\<close>

theorem emergency_disable_keeps_routing:
  assumes "call = DisableUpstreamCredential i request \<or> call = DrainRoutingGroup i request"
    and "handle_admin_call c material ids actor call now s = (Inr response, s1)"
    and "no_record (actor_tenant_id actor) (call_scope_key (actor_tenant_id actor) call) now s"
  shows "runtime_route_target decode parse_uri new_id (ad_config s1) other family streaming model affinity later
      \<lparr>rst_hot = ad_hot s1, rst_decisions = decisions\<rparr> =
    runtime_route_target decode parse_uri new_id (ad_config s) other family streaming model affinity later
      \<lparr>rst_hot = ad_hot s, rst_decisions = decisions\<rparr> \<and>
    runtime_provider_adapter_credential (ad_credentials s1) secret_value target =
    runtime_provider_adapter_credential (ad_credentials s) secret_value target"
proof -
  have "ad_config s1 = ad_config s \<and> ad_hot s1 = ad_hot s \<and> (ad_credentials s1 = ad_credentials s \<or>
      (\<exists>old new. ad_credentials s i = Some old \<and> ad_credentials s1 = (ad_credentials s)(i \<mapsto> new) \<and>
        ucr_secret_ref_id new = ucr_secret_ref_id old \<and> ucr_credential_kind new = ucr_credential_kind old \<and>
        ucr_upstream_credential_id new = ucr_upstream_credential_id old))"
    using assms(1)
  proof
    assume call: "call = DisableUpstreamCredential i request"
    from assms(2,3) show ?thesis unfolding call
      by (auto simp: emergency_disable_upstream_credential_def abind_Inr_iff acheck_def log_onlyD
          elim!: emergency_effect dest!: evidence_frame update_status_fields(1))
  next
    assume call: "call = DrainRoutingGroup i request"
    from assms(2,3) show ?thesis unfolding call
      by (auto simp: emergency_drain_routing_group_def abind_Inr_iff acheck_def log_onlyD
          elim!: emergency_effect dest!: evidence_frame update_status_fields(2))
  qed
  then show ?thesis by (auto simp: adapter_credential_update)
qed

theorem emergency_disable_keeps_routing_witness:
  "runtime_provider_adapter_credential
      (ad_credentials (snd (demo_call (DisableUpstreamCredential ''c1'' demo_emergency)))) [''s1'' \<mapsto> ''secret'']
      ((unrouted_target ''m'')\<lparr>rrt_upstream_credential_id := Some ''c1''\<rparr>) =
    Some \<lparr>pac_upstream_credential_id = ''c1'', pac_credential_kind = ''api_key'', pac_secret_value = ''secret''\<rparr>"
proof -
  have "runtime_provider_adapter_credential (ad_credentials demo_admin) [''s1'' \<mapsto> ''secret'']
      ((unrouted_target ''m'')\<lparr>rrt_upstream_credential_id := Some ''c1''\<rparr>) =
    Some \<lparr>pac_upstream_credential_id = ''c1'', pac_credential_kind = ''api_key'', pac_secret_value = ''secret''\<rparr>"
    by (simp add: runtime_provider_adapter_credential_def unrouted_target_def demo_fields demo_credential_record_def)
  with emergency_disable_keeps_routing [OF disjI1 [OF refl] demo_call_ok [OF demo_disable_credential] demo_no_record]
  show ?thesis by metis
qed


lemma plan_selected_available:
  assumes "plan_runtime_route_with_hot_state cat req = Inr plan" and "plan_outcome plan = PlanSelected sel"
  shows "\<not> hv_drained (pr_hot_state req) (pe_tenant_id (rs_provider_endpoint sel))
    (pe_provider_endpoint_id (rs_provider_endpoint sel)) (pr_config_version req) (pr_now req)"
proof -
  from assms(1) obtain a p g where
    plan: "plan = plan_candidates cat req (catalog_context cat req a p g) (route_candidates cat g)"
    by (auto simp: plan_Inr_iff)
  from plan_candidates_sound [OF assms(2) [unfolded plan]] obtain c t e summary hit miss where
    "eligible cat (catalog_context cat req a p g) c t e"
    "sel = make_route_selection (catalog_context cat req a p g) t e summary hit miss" by blast
  then show ?thesis by (simp add: eligible_def endpoint_available_def make_route_selection_def)
qed

lemma routed_endpoint:
  assumes "runtime_route_target decode parse_uri new_id config actor family streaming model affinity now st =
      (Inr target, st')" and "rrt_provider_endpoint target = Some e"
  obtains loaded where "latest_catalog_for_actor decode parse_uri config actor = Inr (Some loaded)"
    and "\<not> mem_endpoint_is_drained (rst_hot st) (pe_tenant_id e) (pe_provider_endpoint_id e) (Some (lc_version loaded)) now"
proof -
  from assms obtain loaded plan sel where l: "latest_catalog_for_actor decode parse_uri config actor = Inr (Some loaded)"
    and plan: "plan_runtime_route_with_hot_state (lc_catalog loaded)
      \<lparr>pr_actor = actor, pr_protocol_family = family, pr_alias_name = model, pr_streaming = streaming,
       pr_hot_state = mem_view (rst_hot st), pr_config_version = Some (lc_version loaded), pr_now = now,
       pr_route_affinity_hash = affinity\<rparr> = Inr plan" "plan_outcome plan = PlanSelected sel"
    and e: "e = rs_provider_endpoint sel"
    by (auto simp: runtime_route_target_def Let_def unrouted_target_def selected_runtime_route_target_def
        split: sum.splits option.splits route_plan_outcome.splits)
  from plan_selected_available [OF plan] show ?thesis
    by (intro that [OF l]) (simp add: mem_view_def e)
qed

lemma loaded_version:
  assumes "config_inv config" and "latest_catalog_for_actor decode parse_uri config actor = Inr (Some loaded)"
    and "cs_publications config (actor_tenant_id actor) = Some p"
  shows "lc_version loaded = ptr_version p"
proof -
  let ?l = "last (tenant_snapshots config (actor_tenant_id actor))"
  note ptr = pointer_Some [OF assms(1,3)]
  have "config_snapshot config (snap_snapshot_id (pub_metadata ?l)) = Some ?l"
    using ptr(1) last_in_set tenant_snapshots_in config_snapshot_in [OF assms(1)] by metis
  with assms(2) ptr have "lc_version loaded = snap_version (pub_metadata ?l)"
    by (auto simp: latest_catalog_for_actor_def latest_snapshot_for_actor_in_memory_def
        latest_of_inv [OF assms(1)] result_simps split: option.splits)
  with ptr(2) show ?thesis by (simp add: pointer_view_def snapshot_view_def)
qed

lemma endpoint_disabled:
  assumes "handle_admin_call c material ids actor (DisableProviderEndpoint i request) now s = (Inr response, s1)"
    and "no_record (actor_tenant_id actor)
      (call_scope_key (actor_tenant_id actor) (DisableProviderEndpoint i request)) now s"
    and "ad_endpoints s i = Some e" and "per_provider_endpoint_id e = i"
    and "cs_publications (ad_config s) (actor_tenant_id actor) = Some p"
  shows "ad_config s1 = ad_config s \<and>
    (\<exists>r. hs_endpoint_drains (ad_hot s1) (actor_tenant_id actor, i) = Some r \<and>
       edr_config_version r = ptr_version p \<and> edr_expires_at r = er_expires_at request) \<and>
    (\<exists>e'. ad_endpoints s1 i = Some e' \<and> per_status e' = ResDisabled)"
  using assms(1,2)
  unfolding handle_admin_call.simps call_scope_key.simps emergency_disable_provider_endpoint_def
proof (rule emergency_effect, goal_cases)
  case (1 h s2 stored s4)
  note log = 1(2)
  from 1(3) obtain old s3 expected e' where
    ten: "provider_endpoint_for_actor actor i s2 = Inr old" and
    upd: "update_provider_endpoint_status i expected ResDisabled now s2 = (Inr e', s3)" and
    s4: "ad_config s4 = ad_config (set_endpoint_emergency_drain e' (er_reason request) (er_expires_at request) now s3)"
      "ad_endpoints s4 = ad_endpoints (set_endpoint_emergency_drain e' (er_reason request) (er_expires_at request) now s3)"
      "ad_hot s4 = ad_hot (set_endpoint_emergency_drain e' (er_reason request) (er_expires_at request) now s3)"
    by (auto simp: abind_Inr_iff acheck_def awrite_def dest!: evidence_frame)
  from upd log_onlyD [OF log] assms(3) have s3: "e' = e\<lparr>per_status := ResDisabled,
      per_resource_version := wrap_i64 (per_resource_version e + 1), per_updated_at := now\<rparr>"
    "ad_endpoints s3 i = Some e'" "ad_config s3 = ad_config s" "ad_hot s3 = ad_hot s"
    by (auto simp: update_provider_endpoint_status_def Let_def split: if_splits)
  from ten assms(3) log_onlyD [OF log] have "per_tenant_id e = actor_tenant_id actor"
    by (auto simp: provider_endpoint_for_actor_def opt_filter_Some_iff split: option.splits if_splits)
  with 1(4) s3 s4 assms(3-5) show ?case
    by (auto simp: set_endpoint_emergency_drain_def mem_set_endpoint_drain_def)
qed

text \<open>
  C25. An endpoint that was disabled by an emergency operation gets no traffic while the operation and
  the published version last: no request of the tenant is routed to it until the operation expires,
  as long as the publication and the drains stay as they are, and whatever the published catalog
  and the sticky routes say.
\<close>

theorem disabled_endpoint_unroutable:
  assumes "handle_admin_call c material ids actor (DisableProviderEndpoint i request) now s = (Inr response, s1)"
    and "no_record (actor_tenant_id actor)
      (call_scope_key (actor_tenant_id actor) (DisableProviderEndpoint i request)) now s"
    and "ad_endpoints s i = Some e" and "per_provider_endpoint_id e = i"
    and "config_inv (ad_config s)" and "cs_publications (ad_config s) (actor_tenant_id actor) = Some p"
    and "hs_endpoint_drains hot = hs_endpoint_drains (ad_hot s1)" and "later < er_expires_at request"
    and "actor_tenant_id other = actor_tenant_id actor"
    and "runtime_route_target decode parse_uri new_id (ad_config s1) other family streaming model affinity later
      \<lparr>rst_hot = hot, rst_decisions = decisions\<rparr> = (Inr target, st)"
    and "rrt_provider_endpoint target = Some endpoint"
  shows "\<not> (pe_provider_endpoint_id endpoint = i \<and> pe_tenant_id endpoint = actor_tenant_id actor)"
proof
  assume e: "pe_provider_endpoint_id endpoint = i \<and> pe_tenant_id endpoint = actor_tenant_id actor"
  note d = endpoint_disabled [OF assms(1-4,6)]
  from routed_endpoint [OF assms(10,11)] obtain loaded where
    l: "latest_catalog_for_actor decode parse_uri (ad_config s1) other = Inr (Some loaded)" and
    "\<not> mem_endpoint_is_drained hot (actor_tenant_id actor) i (Some (lc_version loaded)) later"
    using e by auto
  moreover have "lc_version loaded = ptr_version p"
    using loaded_version [OF _ l] d assms(5,6,9) by simp
  ultimately show False
    using d assms(7,8) by (auto simp: mem_endpoint_is_drained_def drain_is_fresh_for_def is_some_and_def)
qed

theorem disabled_endpoint_unroutable_witness:
  "\<exists>target. fst (demo_route (demo_drained) 20) = Inr target \<and>
    map_option pe_provider_endpoint_id (rrt_provider_endpoint target) \<notin> {None, Some ''e1''}"
proof -
  let ?s = "demo_drained"
  from demo_routes obtain target st endpoint where
    route: "demo_route ?s 20 = (Inr target, st)" "rrt_provider_endpoint target = Some endpoint"
    "pe_tenant_id endpoint = ''t1''" by blast
  have "\<not> (pe_provider_endpoint_id endpoint = ''e1'' \<and> pe_tenant_id endpoint = actor_tenant_id demo_actor)"
    by (rule disabled_endpoint_unroutable [OF demo_call_ok [OF demo_disable_endpoint, folded demo_drained_def] demo_no_record _ _ _ _ refl _ refl
          route(1) [unfolded demo_route_def] route(2), where e = demo_endpoint_record])
      (use demo_drained_fields in \<open>simp_all add: demo_published_eval demo_fields demo_endpoint_record_def demo_requests demo_actor_tenant\<close>)
  with route show ?thesis by (simp add: demo_actor_tenant)
qed

lemma snapshot_published:
  assumes "handle_admin_call c material ids actor (PublishSnapshot document) now s = (Inr answer, s')"
    and "no_record (actor_tenant_id actor) (call_scope_key (actor_tenant_id actor) (PublishSnapshot document)) now s"
  shows "\<exists>doc q. publish_document (ctxt_codec c) (ai_snapshot ids) (actor_tenant_id actor) doc
      (actor_principal_or_actor_id actor) now (ad_config s) = (Inr q, ad_config s') \<and> ad_hot s' = ad_hot s"
proof -
  from assms obtain s1 stored s2 where log: "log_only s s1" and
    eff: "publish_effect (ctxt_cedar c) (ctxt_env c) (ctxt_codec c) ids actor document now s1 = (Inr (answer, stored), s2)"
    and s': "ad_config s' = ad_config s2" "ad_hot s' = ad_hot s2"
    by (auto simp: publish_config_snapshot_admin_def abind_acheck split: sum.splits elim!: guarded_effect)
  from eff show ?thesis
    by (auto simp: publish_effect_def abind_Inr_iff acheck_def awrite_def aret_def Let_def log_onlyD [OF log] s'
        publish_config_snapshot_def record_config_snapshot_audit_def record_admin_resource_audit_def
        split: sum.splits prod.splits) blast
qed

text \<open>
  Any publication lifts an emergency drain. A drain is bound to the configuration version it was
  set under, and publishing raises the version: after the next publication of the tenant the
  disabled endpoint is not drained any more, long before the operation expires, and whether it is
  used depends on the status that the published document happens to carry.
\<close>

theorem publication_lifts_emergency_drain:
  assumes "handle_admin_call c material ids actor (DisableProviderEndpoint i request) now s = (Inr response, s1)"
    and "no_record (actor_tenant_id actor)
      (call_scope_key (actor_tenant_id actor) (DisableProviderEndpoint i request)) now s"
    and "ad_endpoints s i = Some e" and "per_provider_endpoint_id e = i"
    and "config_inv (ad_config s)" and "cs_publications (ad_config s) (actor_tenant_id actor) = Some p"
    and "handle_admin_call c material' ids' publisher (PublishSnapshot document) then_now s1 = (Inr answer, s2)"
    and "no_record (actor_tenant_id publisher)
      (call_scope_key (actor_tenant_id publisher) (PublishSnapshot document)) then_now s1"
    and "actor_tenant_id publisher = actor_tenant_id actor"
    and "fst (ai_snapshot ids') \<notin> snapshot_ids (ad_config s)"
    and "int (length (cs_snapshots (ad_config s))) < i64_max"
  shows "\<exists>m. latest_published_snapshot_for_tenant (ad_config s2) (actor_tenant_id actor) = Some m \<and>
    \<not> mem_endpoint_is_drained (ad_hot s2) (actor_tenant_id actor) i (Some (snap_version m)) later"
proof -
  let ?t = "actor_tenant_id actor"
  note d = endpoint_disabled [OF assms(1-4,6)]
  from snapshot_published [OF assms(7,8)] obtain doc q where
    pub: "publish_document (ctxt_codec c) (ai_snapshot ids') ?t doc (actor_principal_or_actor_id publisher) then_now
      (ad_config s1) = (Inr q, ad_config s2)" and hot: "ad_hot s2 = ad_hot s1"
    using assms(9) by auto
  have cfg: "ad_config s1 = ad_config s" using d by blast
  note new = publish_document_cases [OF pub, unfolded cfg]
  have inv': "config_inv (ad_config s2)"
    using publish_document_inv [OF pub [unfolded cfg] assms(5,10,11)] .
  have q: "snap_version (pub_metadata q) = int (length (tenant_snapshots (ad_config s) ?t)) + 1"
    using new next_version_inv [OF assms(5,11)] by auto
  have lat: "latest_published_snapshot_for_tenant (ad_config s2) ?t = Some (pub_metadata q)"
    using new latest_of_inv [OF inv'] by auto
  have "ptr_version p = int (length (tenant_snapshots (ad_config s) ?t))"
    using pointer_Some [OF assms(5,6)] version_last [OF assms(5)]
    by (simp add: pointer_view_def snapshot_view_def)
  with q d lat show ?thesis
    by (auto simp: hot mem_endpoint_is_drained_def drain_is_fresh_for_def is_some_and_def)
qed

theorem publication_lifts_emergency_drain_witness:
  "\<exists>m. latest_published_snapshot_for_tenant (ad_config (snd demo_republished)) ''t1'' = Some m \<and>
    \<not> mem_endpoint_is_drained (ad_hot (snd demo_republished)) ''t1'' ''e1'' (Some (snap_version m)) 30"
proof -
  have "no_record (actor_tenant_id demo_actor)
      (call_scope_key (actor_tenant_id demo_actor) (PublishSnapshot demo_document)) 20 demo_drained"
    using demo_drained_fields
    by (simp add: no_record_def demo_document_def idempotency_scope_key_def demo_actor_tenant)
  from publication_lifts_emergency_drain [OF demo_call_ok [OF demo_disable_endpoint, folded demo_drained_def]
      demo_no_record _ _ _ _ demo_republished_ok this refl,
      of demo_endpoint_record demo_pointer 30]
  show ?thesis
    by (simp add: demo_fields demo_published_eval demo_endpoint_record_def demo_actor_tenant demo_admin_ids_def i64_simps)
qed


end
