(* ===== verification/Platform_Action.thy ===== *)
theory Platform_Action
  imports Gateway_Prelude
begin

text \<open>
  The action registry and the authorization engine of the platform control plane
  (\<open>crates/starweaver-platform/src/action.rs\<close>): the actor, the resource reference, the table of
  actions with their ids, resource kinds and the user-only flag, the seven built-in roles, action
  grants, and the engine that decides a request from a list of grants.
\<close>

named_theorems platform_simps \<open>rewriting of the platform's decisions and store operations\<close>

subsection \<open>Actors and resources\<close>

datatype platform_actor_kind = UserActor | ServiceAccountActor | SystemActor

record platform_actor =
  pa_tenant_id :: string
  pa_organization_id :: "string option"
  pa_project_id :: "string option"
  pa_principal_id :: string
  pa_actor_kind :: platform_actor_kind

definition project_user :: "string \<Rightarrow> string \<Rightarrow> string \<Rightarrow> string \<Rightarrow> platform_actor" where
  "project_user tenant_id organization_id project_id principal_id =
     \<lparr>pa_tenant_id = tenant_id, pa_organization_id = Some organization_id,
      pa_project_id = Some project_id, pa_principal_id = principal_id,
      pa_actor_kind = UserActor\<rparr>"

definition project_service_account :: "string \<Rightarrow> string \<Rightarrow> string \<Rightarrow> string \<Rightarrow> platform_actor" where
  "project_service_account tenant_id organization_id project_id principal_id =
     \<lparr>pa_tenant_id = tenant_id, pa_organization_id = Some organization_id,
      pa_project_id = Some project_id, pa_principal_id = principal_id,
      pa_actor_kind = ServiceAccountActor\<rparr>"

record platform_resource_ref =
  rr_kind :: string
  rr_tenant_id :: string
  rr_organization_id :: "string option"
  rr_project_id :: "string option"
  rr_resource_id :: string

definition project_resource ::
  "string \<Rightarrow> string \<Rightarrow> string \<Rightarrow> string \<Rightarrow> string \<Rightarrow> platform_resource_ref" where
  "project_resource kind tenant_id organization_id project_id resource_id =
     \<lparr>rr_kind = kind, rr_tenant_id = tenant_id, rr_organization_id = Some organization_id,
      rr_project_id = Some project_id, rr_resource_id = resource_id\<rparr>"

definition tenant_resource :: "string \<Rightarrow> string \<Rightarrow> string \<Rightarrow> platform_resource_ref" where
  "tenant_resource kind tenant_id resource_id =
     \<lparr>rr_kind = kind, rr_tenant_id = tenant_id, rr_organization_id = None,
      rr_project_id = None, rr_resource_id = resource_id\<rparr>"

subsection \<open>Actions\<close>

text \<open>The table of \<open>platform_actions!\<close>: the variants and the functions the macro derives.\<close>

datatype platform_action =
    ConversationCreate | ConversationRead | ConversationUpdate | SessionCreate | SessionRead
  | RunCreate | RunRead | RunCancel | RunSteer | RunEventRead | ApprovalRead | ApprovalDecide
  | DeferredToolRead | DeferredToolResume | EnvironmentAttachmentCreate
  | EnvironmentAttachmentRead | EnvironmentAttachmentRelease | EnvironmentAttachmentHealthRead
  | EvidenceArchiveRead | EvidenceArchiveDebugRead | IdentityProviderRead
  | IdentityProviderWrite | UserRead | UserWrite | ExternalIdentityRead
  | ExternalIdentityUnlink | RoleBindingRead | RoleBindingWrite | AuthSessionCreate
  | AuthSessionRead | AuthSessionUpdate | AuthSessionRevoke | AuditEventRead
  | OrganizationMemberRead | OrganizationMemberWrite | OrganizationInvitationRead
  | OrganizationInvitationCreate | OrganizationInvitationManage | OrganizationInvitationAccept
  | ProjectMemberRead | ProjectMemberWrite | SecretRefRead | SecretRefWrite

fun platform_action_str :: "platform_action \<Rightarrow> string" where
  "platform_action_str ConversationCreate = ''platform.conversation.create''"
| "platform_action_str ConversationRead = ''platform.conversation.read''"
| "platform_action_str ConversationUpdate = ''platform.conversation.update''"
| "platform_action_str SessionCreate = ''platform.session.create''"
| "platform_action_str SessionRead = ''platform.session.read''"
| "platform_action_str RunCreate = ''platform.run.create''"
| "platform_action_str RunRead = ''platform.run.read''"
| "platform_action_str RunCancel = ''platform.run.cancel''"
| "platform_action_str RunSteer = ''platform.run.steer''"
| "platform_action_str RunEventRead = ''platform.run_event.read''"
| "platform_action_str ApprovalRead = ''platform.approval.read''"
| "platform_action_str ApprovalDecide = ''platform.approval.decide''"
| "platform_action_str DeferredToolRead = ''platform.deferred_tool.read''"
| "platform_action_str DeferredToolResume = ''platform.deferred_tool.resume''"
| "platform_action_str EnvironmentAttachmentCreate = ''platform.environment_attachment.create''"
| "platform_action_str EnvironmentAttachmentRead = ''platform.environment_attachment.read''"
| "platform_action_str EnvironmentAttachmentRelease = ''platform.environment_attachment.release''"
| "platform_action_str EnvironmentAttachmentHealthRead = ''platform.environment_attachment.health.read''"
| "platform_action_str EvidenceArchiveRead = ''platform.evidence_archive.read''"
| "platform_action_str EvidenceArchiveDebugRead = ''platform.evidence_archive.debug.read''"
| "platform_action_str IdentityProviderRead = ''platform.identity_provider.read''"
| "platform_action_str IdentityProviderWrite = ''platform.identity_provider.write''"
| "platform_action_str UserRead = ''platform.user.read''"
| "platform_action_str UserWrite = ''platform.user.write''"
| "platform_action_str ExternalIdentityRead = ''platform.external_identity.read''"
| "platform_action_str ExternalIdentityUnlink = ''platform.external_identity.unlink''"
| "platform_action_str RoleBindingRead = ''platform.role_binding.read''"
| "platform_action_str RoleBindingWrite = ''platform.role_binding.write''"
| "platform_action_str AuthSessionCreate = ''platform.auth_session.create''"
| "platform_action_str AuthSessionRead = ''platform.auth_session.read''"
| "platform_action_str AuthSessionUpdate = ''platform.auth_session.update''"
| "platform_action_str AuthSessionRevoke = ''platform.auth_session.revoke''"
| "platform_action_str AuditEventRead = ''platform.audit_event.read''"
| "platform_action_str OrganizationMemberRead = ''platform.organization_member.read''"
| "platform_action_str OrganizationMemberWrite = ''platform.organization_member.write''"
| "platform_action_str OrganizationInvitationRead = ''platform.organization_invitation.read''"
| "platform_action_str OrganizationInvitationCreate = ''platform.organization_invitation.create''"
| "platform_action_str OrganizationInvitationManage = ''platform.organization_invitation.manage''"
| "platform_action_str OrganizationInvitationAccept = ''platform.organization_invitation.accept''"
| "platform_action_str ProjectMemberRead = ''platform.project_member.read''"
| "platform_action_str ProjectMemberWrite = ''platform.project_member.write''"
| "platform_action_str SecretRefRead = ''platform.secret_ref.read''"
| "platform_action_str SecretRefWrite = ''platform.secret_ref.write''"

fun platform_resource_kind :: "platform_action \<Rightarrow> string" where
  "platform_resource_kind ConversationCreate = ''Conversation''"
| "platform_resource_kind ConversationRead = ''Conversation''"
| "platform_resource_kind ConversationUpdate = ''Conversation''"
| "platform_resource_kind SessionCreate = ''AgentSession''"
| "platform_resource_kind SessionRead = ''AgentSession''"
| "platform_resource_kind RunCreate = ''Run''"
| "platform_resource_kind RunRead = ''Run''"
| "platform_resource_kind RunCancel = ''Run''"
| "platform_resource_kind RunSteer = ''Run''"
| "platform_resource_kind RunEventRead = ''RunEvent''"
| "platform_resource_kind ApprovalRead = ''Approval''"
| "platform_resource_kind ApprovalDecide = ''Approval''"
| "platform_resource_kind DeferredToolRead = ''DeferredTool''"
| "platform_resource_kind DeferredToolResume = ''DeferredTool''"
| "platform_resource_kind EnvironmentAttachmentCreate = ''EnvironmentAttachment''"
| "platform_resource_kind EnvironmentAttachmentRead = ''EnvironmentAttachment''"
| "platform_resource_kind EnvironmentAttachmentRelease = ''EnvironmentAttachment''"
| "platform_resource_kind EnvironmentAttachmentHealthRead = ''EnvironmentAttachment''"
| "platform_resource_kind EvidenceArchiveRead = ''EvidenceArchive''"
| "platform_resource_kind EvidenceArchiveDebugRead = ''EvidenceArchive''"
| "platform_resource_kind IdentityProviderRead = ''IdentityProvider''"
| "platform_resource_kind IdentityProviderWrite = ''IdentityProvider''"
| "platform_resource_kind UserRead = ''User''"
| "platform_resource_kind UserWrite = ''User''"
| "platform_resource_kind ExternalIdentityRead = ''ExternalIdentity''"
| "platform_resource_kind ExternalIdentityUnlink = ''ExternalIdentity''"
| "platform_resource_kind RoleBindingRead = ''RoleBinding''"
| "platform_resource_kind RoleBindingWrite = ''RoleBinding''"
| "platform_resource_kind AuthSessionCreate = ''AuthSession''"
| "platform_resource_kind AuthSessionRead = ''AuthSession''"
| "platform_resource_kind AuthSessionUpdate = ''AuthSession''"
| "platform_resource_kind AuthSessionRevoke = ''AuthSession''"
| "platform_resource_kind AuditEventRead = ''AuditEvent''"
| "platform_resource_kind OrganizationMemberRead = ''OrganizationMember''"
| "platform_resource_kind OrganizationMemberWrite = ''OrganizationMember''"
| "platform_resource_kind OrganizationInvitationRead = ''OrganizationInvitation''"
| "platform_resource_kind OrganizationInvitationCreate = ''OrganizationInvitation''"
| "platform_resource_kind OrganizationInvitationManage = ''OrganizationInvitation''"
| "platform_resource_kind OrganizationInvitationAccept = ''OrganizationInvitation''"
| "platform_resource_kind ProjectMemberRead = ''ProjectMember''"
| "platform_resource_kind ProjectMemberWrite = ''ProjectMember''"
| "platform_resource_kind SecretRefRead = ''SecretRef''"
| "platform_resource_kind SecretRefWrite = ''SecretRef''"

fun requires_user_actor :: "platform_action \<Rightarrow> bool" where
  "requires_user_actor ConversationCreate = False"
| "requires_user_actor ConversationRead = False"
| "requires_user_actor ConversationUpdate = True"
| "requires_user_actor SessionCreate = False"
| "requires_user_actor SessionRead = False"
| "requires_user_actor RunCreate = False"
| "requires_user_actor RunRead = False"
| "requires_user_actor RunCancel = True"
| "requires_user_actor RunSteer = True"
| "requires_user_actor RunEventRead = False"
| "requires_user_actor ApprovalRead = True"
| "requires_user_actor ApprovalDecide = True"
| "requires_user_actor DeferredToolRead = False"
| "requires_user_actor DeferredToolResume = True"
| "requires_user_actor EnvironmentAttachmentCreate = False"
| "requires_user_actor EnvironmentAttachmentRead = False"
| "requires_user_actor EnvironmentAttachmentRelease = True"
| "requires_user_actor EnvironmentAttachmentHealthRead = False"
| "requires_user_actor EvidenceArchiveRead = False"
| "requires_user_actor EvidenceArchiveDebugRead = True"
| "requires_user_actor IdentityProviderRead = False"
| "requires_user_actor IdentityProviderWrite = True"
| "requires_user_actor UserRead = False"
| "requires_user_actor UserWrite = True"
| "requires_user_actor ExternalIdentityRead = False"
| "requires_user_actor ExternalIdentityUnlink = True"
| "requires_user_actor RoleBindingRead = False"
| "requires_user_actor RoleBindingWrite = True"
| "requires_user_actor AuthSessionCreate = False"
| "requires_user_actor AuthSessionRead = True"
| "requires_user_actor AuthSessionUpdate = True"
| "requires_user_actor AuthSessionRevoke = True"
| "requires_user_actor AuditEventRead = True"
| "requires_user_actor OrganizationMemberRead = False"
| "requires_user_actor OrganizationMemberWrite = True"
| "requires_user_actor OrganizationInvitationRead = False"
| "requires_user_actor OrganizationInvitationCreate = True"
| "requires_user_actor OrganizationInvitationManage = True"
| "requires_user_actor OrganizationInvitationAccept = True"
| "requires_user_actor ProjectMemberRead = False"
| "requires_user_actor ProjectMemberWrite = True"
| "requires_user_actor SecretRefRead = False"
| "requires_user_actor SecretRefWrite = True"

definition platform_canonical_actions :: "platform_action list" where
  "platform_canonical_actions = [
     ConversationCreate, ConversationRead, ConversationUpdate, SessionCreate, SessionRead,
     RunCreate, RunRead, RunCancel, RunSteer, RunEventRead, ApprovalRead, ApprovalDecide,
     DeferredToolRead, DeferredToolResume, EnvironmentAttachmentCreate,
     EnvironmentAttachmentRead, EnvironmentAttachmentRelease, EnvironmentAttachmentHealthRead,
     EvidenceArchiveRead, EvidenceArchiveDebugRead, IdentityProviderRead, IdentityProviderWrite,
     UserRead, UserWrite, ExternalIdentityRead, ExternalIdentityUnlink, RoleBindingRead,
     RoleBindingWrite, AuthSessionCreate, AuthSessionRead, AuthSessionUpdate, AuthSessionRevoke,
     AuditEventRead, OrganizationMemberRead, OrganizationMemberWrite,
     OrganizationInvitationRead, OrganizationInvitationCreate, OrganizationInvitationManage,
     OrganizationInvitationAccept, ProjectMemberRead, ProjectMemberWrite, SecretRefRead,
     SecretRefWrite]"

definition platform_from_action_id :: "string \<Rightarrow> platform_action option" where
  "platform_from_action_id action_id = find (\<lambda>a. platform_action_str a = action_id) platform_canonical_actions"

record platform_action_definition =
  pad_action :: platform_action
  pad_action_id :: string
  pad_resource_kind :: string

definition platform_canonical_definitions :: "platform_action_definition list" where
  "platform_canonical_definitions =
     map (\<lambda>a. \<lparr>pad_action = a, pad_action_id = platform_action_str a,
                pad_resource_kind = platform_resource_kind a\<rparr>) platform_canonical_actions"

subsection \<open>Built-in roles\<close>

datatype platform_scope_kind = AtTenant | AtOrganization | AtProject | AtAny

fun platform_scope_kind_str :: "platform_scope_kind \<Rightarrow> string" where
  "platform_scope_kind_str AtTenant = ''tenant''"
| "platform_scope_kind_str AtOrganization = ''organization''"
| "platform_scope_kind_str AtProject = ''project''"
| "platform_scope_kind_str AtAny = ''any''"

datatype platform_role =
    TenantOwner | PlatformOperator | PlatformOrganizationAdmin | PlatformProjectAdmin
  | PlatformProjectDeveloper | PlatformProjectViewer | PlatformAuditor

definition platform_built_ins :: "platform_role list" where
  "platform_built_ins =
     [TenantOwner, PlatformOperator, PlatformOrganizationAdmin, PlatformProjectAdmin,
      PlatformProjectDeveloper, PlatformProjectViewer, PlatformAuditor]"

fun platform_role_str :: "platform_role \<Rightarrow> string" where
  "platform_role_str TenantOwner = ''tenant_owner''"
| "platform_role_str PlatformOperator = ''platform_operator''"
| "platform_role_str PlatformOrganizationAdmin = ''organization_admin''"
| "platform_role_str PlatformProjectAdmin = ''project_admin''"
| "platform_role_str PlatformProjectDeveloper = ''project_developer''"
| "platform_role_str PlatformProjectViewer = ''project_viewer''"
| "platform_role_str PlatformAuditor = ''auditor''"

definition platform_role_from_id :: "string \<Rightarrow> platform_role option" where
  "platform_role_from_id role_id =
     (if role_id = ''tenant_owner'' then Some TenantOwner
      else if role_id = ''platform_operator'' then Some PlatformOperator
      else if role_id = ''organization_admin'' then Some PlatformOrganizationAdmin
      else if role_id = ''project_admin'' then Some PlatformProjectAdmin
      else if role_id = ''project_developer'' then Some PlatformProjectDeveloper
      else if role_id = ''project_viewer'' then Some PlatformProjectViewer
      else if role_id = ''auditor'' then Some PlatformAuditor
      else None)"

fun platform_role_scope :: "platform_role \<Rightarrow> platform_scope_kind" where
  "platform_role_scope TenantOwner = AtTenant"
| "platform_role_scope PlatformOperator = AtTenant"
| "platform_role_scope PlatformOrganizationAdmin = AtOrganization"
| "platform_role_scope PlatformProjectAdmin = AtProject"
| "platform_role_scope PlatformProjectDeveloper = AtProject"
| "platform_role_scope PlatformProjectViewer = AtProject"
| "platform_role_scope PlatformAuditor = AtAny"

definition PLATFORM_OPERATOR_ACTIONS :: "platform_action list" where
  "PLATFORM_OPERATOR_ACTIONS = [
     ConversationRead, SessionRead, RunRead, RunEventRead, EnvironmentAttachmentRead,
     EnvironmentAttachmentHealthRead, EvidenceArchiveRead, IdentityProviderRead, UserRead,
     ExternalIdentityRead, RoleBindingRead, AuthSessionRead, AuditEventRead,
     OrganizationMemberRead, OrganizationInvitationRead, ProjectMemberRead, SecretRefRead]"

definition ORGANIZATION_ADMIN_ACTIONS :: "platform_action list" where
  "ORGANIZATION_ADMIN_ACTIONS = [
     ConversationCreate, ConversationRead, ConversationUpdate, SessionCreate, SessionRead,
     RunCreate, RunRead, RunCancel, RunEventRead, ApprovalRead, ApprovalDecide,
     DeferredToolRead, DeferredToolResume, EnvironmentAttachmentCreate,
     EnvironmentAttachmentRead, EnvironmentAttachmentRelease, EnvironmentAttachmentHealthRead,
     EvidenceArchiveRead, AuthSessionRead, AuthSessionUpdate, AuthSessionRevoke,
     RoleBindingRead, RoleBindingWrite, AuditEventRead, OrganizationMemberRead,
     OrganizationMemberWrite, OrganizationInvitationRead, OrganizationInvitationCreate,
     OrganizationInvitationManage, OrganizationInvitationAccept, ProjectMemberRead,
     ProjectMemberWrite, AuditEventRead]"

definition PROJECT_ADMIN_ACTIONS :: "platform_action list" where
  "PROJECT_ADMIN_ACTIONS = [
     AuthSessionRead, AuthSessionUpdate, AuthSessionRevoke, RoleBindingRead, RoleBindingWrite,
     ConversationCreate, ConversationRead, ConversationUpdate, SessionCreate, SessionRead,
     RunCreate, RunRead, RunCancel, RunEventRead, ApprovalRead, ApprovalDecide,
     DeferredToolRead, DeferredToolResume, EnvironmentAttachmentCreate,
     EnvironmentAttachmentRead, EnvironmentAttachmentRelease, EnvironmentAttachmentHealthRead,
     EvidenceArchiveRead, ProjectMemberRead, ProjectMemberWrite]"

definition PROJECT_DEVELOPER_ACTIONS :: "platform_action list" where
  "PROJECT_DEVELOPER_ACTIONS = [
     AuthSessionRead, AuthSessionUpdate, AuthSessionRevoke, ConversationCreate,
     ConversationRead, SessionCreate, SessionRead, RunCreate, RunRead, RunCancel, RunSteer,
     RunEventRead, ApprovalRead, ApprovalDecide, DeferredToolRead, DeferredToolResume,
     EnvironmentAttachmentCreate, EnvironmentAttachmentRead, EnvironmentAttachmentRelease,
     EnvironmentAttachmentHealthRead, EvidenceArchiveRead]"

definition PROJECT_VIEWER_ACTIONS :: "platform_action list" where
  "PROJECT_VIEWER_ACTIONS = [
     AuthSessionRead, AuthSessionUpdate, AuthSessionRevoke, ConversationRead, SessionRead,
     RunRead, RunEventRead, ApprovalRead, DeferredToolRead, EnvironmentAttachmentRead,
     EnvironmentAttachmentHealthRead, EvidenceArchiveRead]"

definition AUDITOR_ACTIONS :: "platform_action list" where
  "AUDITOR_ACTIONS = [
     AuthSessionRead, AuthSessionUpdate, AuthSessionRevoke, RunRead, RunEventRead,
     EvidenceArchiveRead, EvidenceArchiveDebugRead, RoleBindingRead, AuditEventRead]"

fun platform_role_actions :: "platform_role \<Rightarrow> platform_action list" where
  "platform_role_actions TenantOwner = platform_canonical_actions"
| "platform_role_actions PlatformOperator = PLATFORM_OPERATOR_ACTIONS"
| "platform_role_actions PlatformOrganizationAdmin = ORGANIZATION_ADMIN_ACTIONS"
| "platform_role_actions PlatformProjectAdmin = PROJECT_ADMIN_ACTIONS"
| "platform_role_actions PlatformProjectDeveloper = PROJECT_DEVELOPER_ACTIONS"
| "platform_role_actions PlatformProjectViewer = PROJECT_VIEWER_ACTIONS"
| "platform_role_actions PlatformAuditor = AUDITOR_ACTIONS"

lemmas platform_role_tables =
  platform_canonical_actions_def PLATFORM_OPERATOR_ACTIONS_def ORGANIZATION_ADMIN_ACTIONS_def
  PROJECT_ADMIN_ACTIONS_def PROJECT_DEVELOPER_ACTIONS_def PROJECT_VIEWER_ACTIONS_def
  AUDITOR_ACTIONS_def

subsection \<open>Grants and decisions\<close>

record platform_grant =
  pg_tenant_id :: string
  pg_principal_id :: string
  pg_action :: platform_action
  pg_resource_kind :: string
  pg_scope_kind :: platform_scope_kind
  pg_scope_id :: string

definition platform_project_grant :: "string \<Rightarrow> string \<Rightarrow> string \<Rightarrow> platform_action \<Rightarrow> platform_grant" where
  "platform_project_grant tenant_id project_id principal_id action =
     \<lparr>pg_tenant_id = tenant_id, pg_principal_id = principal_id, pg_action = action,
      pg_resource_kind = platform_resource_kind action, pg_scope_kind = AtProject,
      pg_scope_id = project_id\<rparr>"

definition platform_for_builtin_role ::
  "string \<Rightarrow> string \<Rightarrow> string \<Rightarrow> platform_role \<Rightarrow> platform_grant list" where
  "platform_for_builtin_role tenant_id scope_id principal_id role =
     map (\<lambda>action.
       \<lparr>pg_tenant_id = tenant_id, pg_principal_id = principal_id, pg_action = action,
        pg_resource_kind = platform_resource_kind action,
        pg_scope_kind = platform_role_scope role, pg_scope_id = scope_id\<rparr>)
       (platform_role_actions role)"

record platform_authorization_request =
  paq_actor :: platform_actor
  paq_action :: platform_action
  paq_resource :: platform_resource_ref

record platform_decision =
  pdec_allowed :: bool
  pdec_reason :: string

definition platform_allow :: platform_decision where
  "platform_allow = \<lparr>pdec_allowed = True, pdec_reason = ''allow''\<rparr>"

definition platform_deny :: "string \<Rightarrow> platform_decision" where
  "platform_deny reason = \<lparr>pdec_allowed = False, pdec_reason = reason\<rparr>"

definition grant_scope_matches :: "platform_grant \<Rightarrow> platform_resource_ref \<Rightarrow> bool" where
  "grant_scope_matches grant resource =
     (case pg_scope_kind grant of
        AtTenant \<Rightarrow> pg_scope_id grant = rr_tenant_id resource
      | AtOrganization \<Rightarrow> rr_organization_id resource = Some (pg_scope_id grant)
      | AtProject \<Rightarrow> rr_project_id resource = Some (pg_scope_id grant)
      | AtAny \<Rightarrow>
          pg_scope_id grant = rr_tenant_id resource
          \<or> rr_organization_id resource = Some (pg_scope_id grant)
          \<or> rr_project_id resource = Some (pg_scope_id grant))"

definition platform_grant_allows :: "platform_grant \<Rightarrow> platform_authorization_request \<Rightarrow> bool" where
  "platform_grant_allows grant request \<longleftrightarrow>
     pg_tenant_id grant = pa_tenant_id (paq_actor request)
     \<and> pg_principal_id grant = pa_principal_id (paq_actor request)
     \<and> pg_action grant = paq_action request
     \<and> pg_resource_kind grant = rr_kind (paq_resource request)
     \<and> grant_scope_matches grant (paq_resource request)"

text \<open>\<open>FoundationAuthorizationEngine::authorize\<close>; the engine is its list of grants.\<close>

definition platform_authorize ::
  "platform_grant list \<Rightarrow> platform_authorization_request \<Rightarrow> platform_decision" where
  "platform_authorize grants request =
     (if rr_tenant_id (paq_resource request) \<noteq> pa_tenant_id (paq_actor request)
      then platform_deny ''tenant_mismatch''
      else if rr_kind (paq_resource request) \<noteq> platform_resource_kind (paq_action request)
      then platform_deny ''resource_kind_mismatch''
      else if requires_user_actor (paq_action request)
              \<and> pa_actor_kind (paq_actor request) \<noteq> UserActor
      then platform_deny ''user_actor_required''
      else if \<exists>grant \<in> set grants. platform_grant_allows grant request
      then platform_allow
      else platform_deny ''missing_action_grant'')"

fun platform_authorize_item_list ::
  "(platform_authorization_request \<Rightarrow> platform_decision) \<Rightarrow> platform_actor \<Rightarrow> platform_action \<Rightarrow>
     ('a \<times> platform_resource_ref) list \<Rightarrow> 'a list" where
  "platform_authorize_item_list authorize actor action [] = []"
| "platform_authorize_item_list authorize actor action ((item, resource) # items) =
     (if pdec_allowed (authorize
           \<lparr>paq_actor = actor, paq_action = action, paq_resource = resource\<rparr>)
      then item # platform_authorize_item_list authorize actor action items
      else platform_authorize_item_list authorize actor action items)"

subsection \<open>Facts on the tables\<close>

lemma platform_canonical_all: "a \<in> set platform_canonical_actions"
  by (cases a) (simp_all add: platform_canonical_actions_def)

lemma platform_canonical_distinct: "distinct platform_canonical_actions"
  by (simp add: platform_canonical_actions_def)

lemma platform_action_ids_distinct: "distinct (map platform_action_str platform_canonical_actions)"
  by (simp add: platform_canonical_actions_def)

lemma platform_from_action_id_str [simp]: "platform_from_action_id (platform_action_str a) = Some a"
proof -
  have inj: "b = a" if "platform_action_str b = platform_action_str a" for b
    using platform_action_ids_distinct platform_canonical_all that
    by (metis distinct_map inj_onD)
  obtain b where b: "platform_from_action_id (platform_action_str a) = Some b"
    using platform_canonical_all [of a]
    by (cases "platform_from_action_id (platform_action_str a)")
      (auto simp: platform_from_action_id_def find_None_iff)
  then have "platform_action_str b = platform_action_str a"
    by (auto simp: platform_from_action_id_def find_Some_iff)
  with b inj show ?thesis by simp
qed

lemma platform_role_from_id_str [simp]: "platform_role_from_id (platform_role_str r) = Some r"
  by (cases r) (simp_all add: platform_role_from_id_def)

lemma platform_role_from_id_SomeD: "platform_role_from_id s = Some r \<Longrightarrow> s = platform_role_str r"
  by (auto simp: platform_role_from_id_def split: if_splits)

lemma platform_grant_parts [simp]:
  "platform_allow \<noteq> platform_deny reason" "platform_deny reason \<noteq> platform_allow"
  "pdec_allowed platform_allow" "\<not> pdec_allowed (platform_deny reason)"
  "pdec_reason platform_allow = ''allow''" "pdec_reason (platform_deny reason) = reason"
  by (simp_all add: platform_allow_def platform_deny_def)

lemma platform_authorize_allowed_iff:
  "pdec_allowed (platform_authorize grants request) \<longleftrightarrow>
     rr_tenant_id (paq_resource request) = pa_tenant_id (paq_actor request)
     \<and> rr_kind (paq_resource request) = platform_resource_kind (paq_action request)
     \<and> (requires_user_actor (paq_action request) \<longrightarrow> pa_actor_kind (paq_actor request) = UserActor)
     \<and> (\<exists>grant \<in> set grants. platform_grant_allows grant request)"
  by (simp add: platform_authorize_def)

end
