(* ===== verification/Platform_Store.thy ===== *)
theory Platform_Store
  imports Gateway_Prelude
begin

text \<open>
  What the in-memory repositories of the platform share: the ordered map \<open>BTreeMap<String, V>\<close>
  that every one of them keeps under a lock, and the contract of the updates with an expected
  resource version. The map is the list of its entries in key order; a lock is held for the whole
  of an operation, so an operation is one function of the map.
\<close>

subsection \<open>Ordered maps\<close>

type_synonym 'v btree = "(string \<times> 'v) list"

fun btree_insert :: "string \<Rightarrow> 'v \<Rightarrow> 'v btree \<Rightarrow> 'v btree" where
  "btree_insert k v [] = [(k, v)]"
| "btree_insert k v ((k', v') # m) =
     (if k = k' then (k, v) # m
      else if k < k' then (k, v) # (k', v') # m
      else (k', v') # btree_insert k v m)"

abbreviation btree_get :: "'v btree \<Rightarrow> string \<Rightarrow> 'v option" where
  "btree_get m k \<equiv> map_of m k"

definition btree_values :: "'v btree \<Rightarrow> 'v list" where
  "btree_values m = map snd m"

text \<open>A loop over \<open>values_mut()\<close>.\<close>

definition btree_map_values :: "('v \<Rightarrow> 'v) \<Rightarrow> 'v btree \<Rightarrow> 'v btree" where
  "btree_map_values f m = map (\<lambda>(k, v). (k, f v)) m"

text \<open>The shape of a repository: keys ascend, and every record is stored under its own id.\<close>

definition btree_keyed :: "('v \<Rightarrow> string) \<Rightarrow> 'v btree \<Rightarrow> bool" where
  "btree_keyed key m \<longleftrightarrow> sorted_wrt (<) (map fst m) \<and> (\<forall>(k, v) \<in> set m. k = key v)"

lemma btree_get_insert [simp]:
  "btree_get (btree_insert k v m) j = (if j = k then Some v else btree_get m j)"
  by (induction m) auto

lemma set_btree_insert: "set (btree_insert k v m) \<subseteq> insert (k, v) (set m)"
  by (induction m) (auto split: if_splits)

lemma fst_btree_insert: "fst ` set (btree_insert k v m) = insert k (fst ` set m)"
  by (auto simp flip: dom_map_of_conv_image_fst simp: dom_def)

lemma sorted_btree_insert:
  "sorted_wrt (<) (map fst m) \<Longrightarrow> sorted_wrt (<) (map fst (btree_insert k v m))"
proof (induction m)
  case (Cons e m)
  obtain k' v' where e: "e = (k', v')" by fastforce
  have "\<forall>j \<in> fst ` set (btree_insert k v m). k' < j" if "k' < k"
    using Cons.prems that by (auto simp: e fst_btree_insert)
  moreover have "k \<noteq> k' \<Longrightarrow> \<not> k < k' \<Longrightarrow> k' < k" by simp
  ultimately show ?case using Cons by (auto simp: e)
qed simp

lemma btree_keyed_Nil [simp]: "btree_keyed key []"
  by (simp add: btree_keyed_def)

lemma btree_keyed_insert [simp]:
  "btree_keyed key m \<Longrightarrow> k = key v \<Longrightarrow> btree_keyed key (btree_insert k v m)"
  using set_btree_insert [of k v m] by (auto simp: btree_keyed_def sorted_btree_insert)

lemma btree_keyed_distinct: "btree_keyed key m \<Longrightarrow> distinct (map fst m)"
  by (simp add: btree_keyed_def strict_sorted_iff)

lemma btree_keyed_map_values [simp]:
  "btree_keyed key m \<Longrightarrow> (\<And>v. key (f v) = key v) \<Longrightarrow> btree_keyed key (btree_map_values f m)"
  by (auto simp: btree_keyed_def btree_map_values_def comp_def case_prod_unfold)

lemma btree_get_map_values [simp]:
  "btree_get (btree_map_values f m) k = map_option f (btree_get m k)"
  by (induction m) (auto simp: btree_map_values_def)

lemma btree_values_map_values [simp]: "btree_values (btree_map_values f m) = map f (btree_values m)"
  by (simp add: btree_values_def btree_map_values_def case_prod_unfold)

lemma btree_values_iff:
  assumes "btree_keyed key m"
  shows "v \<in> set (btree_values m) \<longleftrightarrow> btree_get m (key v) = Some v"
proof -
  have "btree_get m (key v) = Some v \<longleftrightarrow> (key v, v) \<in> set m"
    using btree_keyed_distinct [OF assms] by (simp add: map_of_eq_Some_iff)
  with assms show ?thesis by (force simp: btree_values_def btree_keyed_def)
qed

lemma btree_get_key: "btree_keyed key m \<Longrightarrow> btree_get m k = Some v \<Longrightarrow> key v = k"
  by (auto simp: btree_keyed_def dest!: map_of_SomeD)

lemma btree_get_value: "btree_get m k = Some v \<Longrightarrow> v \<in> set (btree_values m)"
  by (force simp: btree_values_def dest: map_of_SomeD)

lemma btree_values_insert:
  assumes "btree_keyed key m"
  shows "w \<in> set (btree_values (btree_insert (key v) v m)) \<longleftrightarrow>
    w = v \<or> w \<in> set (btree_values m) \<and> key w \<noteq> key v"
  by (auto simp: btree_values_iff [OF assms] btree_values_iff [OF btree_keyed_insert [OF assms refl]])

text \<open>\<open>find\<close> over the values is the first record in key order; it exists when any does.\<close>

lemma find_value_Some:
  "find P (btree_values m) = Some v \<Longrightarrow> v \<in> set (btree_values m) \<and> P v"
  by (auto simp: find_Some_iff)

lemma find_value_keyed:
  "btree_keyed key m \<Longrightarrow> find P (btree_values m) = Some v \<Longrightarrow> btree_get m (key v) = Some v \<and> P v"
  by (auto simp: btree_values_iff dest!: find_value_Some)

subsection \<open>Records of a repository\<close>

text \<open>
  Every record of a store satisfies a predicate. The three ways the repositories write keep it:
  insertion of a record, replacement of the record found, and a loop over the values.
\<close>

definition btree_all :: "('v \<Rightarrow> bool) \<Rightarrow> 'v btree \<Rightarrow> bool" where
  "btree_all P m \<longleftrightarrow> list_all P (btree_values m)"

lemma btree_all_Nil [simp]: "btree_all P []"
  by (simp add: btree_all_def btree_values_def)

lemma btree_all_insert [simp]: "btree_all P m \<Longrightarrow> P v \<Longrightarrow> btree_all P (btree_insert k v m)"
  using set_btree_insert [of k v m]
  by (force simp: btree_all_def btree_values_def list_all_iff)

lemma btree_all_map_values [simp]:
  "btree_all P m \<Longrightarrow> (\<And>v. P v \<Longrightarrow> P (f v)) \<Longrightarrow> btree_all P (btree_map_values f m)"
  by (auto simp: btree_all_def list_all_iff)

lemma btree_all_get: "btree_all P m \<Longrightarrow> btree_get m k = Some v \<Longrightarrow> P v"
  by (auto simp: btree_all_def list_all_iff dest: btree_get_value)

text \<open>A store is well formed when it is keyed by id and every record satisfies the predicate.\<close>

definition store_ok :: "('v \<Rightarrow> string) \<Rightarrow> ('v \<Rightarrow> bool) \<Rightarrow> 'v btree \<Rightarrow> bool" where
  "store_ok key P m \<longleftrightarrow> btree_keyed key m \<and> btree_all P m"

lemma store_ok_Nil [simp]: "store_ok key P []"
  by (simp add: store_ok_def)

lemma store_ok_insert: "store_ok key P m \<Longrightarrow> P v \<Longrightarrow> store_ok key P (btree_insert (key v) v m)"
  by (simp add: store_ok_def)

lemma store_ok_replace:
  assumes "store_ok key P m" and "btree_get m k = Some v" and "key w = key v" and "P v \<Longrightarrow> P w"
  shows "store_ok key P (btree_insert k w m)"
proof -
  have "k = key w" "P w"
    using assms btree_get_key [of key m k v] btree_all_get [of P m k v] by (auto simp: store_ok_def)
  with assms(1) show ?thesis by (simp add: store_ok_def)
qed

lemma store_ok_map_values:
  "store_ok key P m \<Longrightarrow> (\<And>v. key (f v) = key v) \<Longrightarrow> (\<And>v. P v \<Longrightarrow> P (f v)) \<Longrightarrow>
     store_ok key P (btree_map_values f m)"
  by (simp add: store_ok_def)

lemma store_ok_keyed: "store_ok key P m \<Longrightarrow> btree_keyed key m"
  by (simp add: store_ok_def)

lemma store_ok_get: "store_ok key P m \<Longrightarrow> btree_get m k = Some v \<Longrightarrow> P v \<and> key v = k"
  by (auto simp: store_ok_def dest: btree_all_get btree_get_key)

lemmas store_ok_intros = store_ok_insert store_ok_replace store_ok_map_values

subsection \<open>Updates with an expected version\<close>

text \<open>A run of updates of one record that all name the same version: the results in order.\<close>

fun run_updates ::
  "(string \<Rightarrow> i64 \<Rightarrow> 'a \<Rightarrow> 's \<Rightarrow> ('e + 'r) \<times> 's) \<Rightarrow> string \<Rightarrow> i64 \<Rightarrow> 'a list \<Rightarrow> 's \<Rightarrow> ('e + 'r) list" where
  "run_updates update i v [] s = []"
| "run_updates update i v (a # as) s =
     fst (update i v a s) # run_updates update i v as (snd (update i v a s))"

definition successes :: "('e + 'r) list \<Rightarrow> nat" where
  "successes results = length (filter (\<lambda>x. \<not> isl x) results)"

lemma successes_simps [simp]:
  "successes [] = 0" "successes (Inl e # xs) = successes xs" "successes (Inr r # xs) = Suc (successes xs)"
  by (simp_all add: successes_def)

text \<open>
  The contract of the status updates: the record has the expected version, its version moves on by
  one, and a record with another version is refused without a write.
\<close>

locale optimistic_store =
  fixes get :: "'s \<Rightarrow> string \<Rightarrow> 'r option"
    and version :: "'r \<Rightarrow> i64"
    and update :: "string \<Rightarrow> i64 \<Rightarrow> 'a \<Rightarrow> 's \<Rightarrow> ('e + 'r) \<times> 's"
  assumes update_done:
      "update i v a s = (Inr r, s') \<Longrightarrow>
         (\<exists>r0. get s i = Some r0 \<and> version r0 = v) \<and> version r = wrap_i64 (v + 1)
         \<and> get s' i = Some r \<and> (\<forall>j. j \<noteq> i \<longrightarrow> get s' j = get s j)"
    and update_stale:
      "get s i = Some r \<Longrightarrow> version r \<noteq> v \<Longrightarrow> \<exists>e. update i v a s = (Inl e, s)"
begin

lemma refused_while_moved:
  "get s i = Some r \<Longrightarrow> version r \<noteq> v \<Longrightarrow> successes (run_updates update i v as s) = 0"
proof (induction as)
  case (Cons a as)
  obtain e where "update i v a s = (Inl e, s)" using update_stale Cons.prems by blast
  with Cons show ?case by simp
qed simp

lemma wins_then_refused:
  assumes "update i v a s = (Inr r, s')"
  shows "successes (run_updates update i v as s') = 0"
proof -
  have "wrap_i64 (v + 1) \<noteq> v"
  proof
    assume "wrap_i64 (v + 1) = v"
    then have "(v + 2 ^ 63 + 1) mod 2 ^ 64 = (v + 2 ^ 63 :: int)" by (simp add: wrap_i64_def ac_simps)
    then have "(v + 2 ^ 63 + 1) mod 2 ^ 64 = (v + 2 ^ 63 :: int) mod 2 ^ 64" by (metis mod_mod_trivial)
    then have "(2 ^ 64 :: int) dvd 1" by (simp add: mod_eq_dvd_iff)
    then show False by simp
  qed
  with update_done [OF assms] show ?thesis by (intro refused_while_moved [of s' i r]) auto
qed

text \<open>Of any number of updates that name the same version at most one is carried out.\<close>

lemma one_success: "successes (run_updates update i v as s) \<le> 1"
proof (induction as arbitrary: s)
  case (Cons a as)
  obtain y s' where u: "update i v a s = (y, s')" by fastforce
  show ?case
  proof (cases y)
    case (Inl e)
    with Cons.IH [of s'] u show ?thesis by simp
  next
    case (Inr r)
    with wins_then_refused [of i v a s r s' as] u show ?thesis by simp
  qed
qed simp

end

end
