(* ===== verification/Platform_Membership.thy ===== *)
theory Platform_Membership
  imports Platform_Store Gateway_Json
begin

text \<open>
  Users and memberships of the platform (\<open>crates/starweaver-platform/src/user.rs\<close> and
  \<open>membership.rs\<close>): the records, their validation, and the in-memory stores with every operation
  that writes them. A store operation returns its result with the store, also when it fails: what
  was written before the error stays.
\<close>

subsection \<open>Users\<close>

datatype user_status = UserActive | UserDisabled | UserDeleted

fun user_status_str :: "user_status \<Rightarrow> string" where
  "user_status_str UserActive = ''active''"
| "user_status_str UserDisabled = ''disabled''"
| "user_status_str UserDeleted = ''deleted''"

definition user_status_from_id :: "string \<Rightarrow> user_status option" where
  "user_status_from_id status =
     (if status = ''active'' then Some UserActive
      else if status = ''disabled'' then Some UserDisabled
      else if status = ''deleted'' then Some UserDeleted else None)"

fun user_accepts_access :: "user_status \<Rightarrow> bool" where
  "user_accepts_access UserActive = True"
| "user_accepts_access _ = False"

datatype user_error =
    UserInvalidUserId | UserInvalidTenantId | UserInvalidOrganizationId | UserInvalidProjectId
  | UserInvalidEmail | UserInvalidDisplayName | UserInvalidStatus | UserInvalidResourceVersion
  | UserStaleResourceVersion | UnknownUser

fun user_error_str :: "user_error \<Rightarrow> string" where
  "user_error_str UserInvalidUserId = ''user_id_invalid''"
| "user_error_str UserInvalidTenantId = ''tenant_id_invalid''"
| "user_error_str UserInvalidOrganizationId = ''organization_id_invalid''"
| "user_error_str UserInvalidProjectId = ''project_id_invalid''"
| "user_error_str UserInvalidEmail = ''user_email_invalid''"
| "user_error_str UserInvalidDisplayName = ''user_display_name_invalid''"
| "user_error_str UserInvalidStatus = ''user_status_invalid''"
| "user_error_str UserInvalidResourceVersion = ''resource_version_invalid''"
| "user_error_str UserStaleResourceVersion = ''stale_resource_version''"
| "user_error_str UnknownUser = ''user_not_found''"

record user_record =
  us_user_id :: string
  us_tenant_id :: string
  us_default_organization_id :: "string option"
  us_default_project_id :: "string option"
  us_primary_email :: "string option"
  us_display_name :: string
  us_status :: user_status
  us_resource_version :: i64

type_synonym user_store = "user_record btree"

definition user_validate_prefixed_id :: "string \<Rightarrow> string \<Rightarrow> 'e \<Rightarrow> 'e + unit" where
  "user_validate_prefixed_id value_str prefix error =
     (let v = trim value_str
      in fail_if (length v \<le> length prefix \<or> \<not> starts_with v prefix) error)"

definition valid_email :: "string \<Rightarrow> bool" where
  "valid_email value_str =
     (let v = trim value_str
      in contains_str v ''@'' \<and> \<not> starts_with v ''@'' \<and> \<not> ends_with v ''@'')"

definition validate_platform_user_record :: "user_record \<Rightarrow> user_error + unit" where
  "validate_platform_user_record r =
     rbind (user_validate_prefixed_id (us_user_id r) ''usr_'' UserInvalidUserId) (\<lambda>_.
     rbind (user_validate_prefixed_id (us_tenant_id r) ''ten_'' UserInvalidTenantId) (\<lambda>_.
     rbind (case us_default_organization_id r of None \<Rightarrow> Inr ()
            | Some org \<Rightarrow> user_validate_prefixed_id org ''org_'' UserInvalidOrganizationId) (\<lambda>_.
     rbind (case us_default_project_id r of None \<Rightarrow> Inr ()
            | Some p \<Rightarrow> user_validate_prefixed_id p ''prj_'' UserInvalidProjectId) (\<lambda>_.
     rbind (fail_if (is_some_and (us_primary_email r) (\<lambda>e. \<not> valid_email e)) UserInvalidEmail) (\<lambda>_.
     rbind (fail_if (trim (us_display_name r) = '''') UserInvalidDisplayName) (\<lambda>_.
     fail_if (us_resource_version r < 1) UserInvalidResourceVersion))))))"

definition record_user :: "user_record \<Rightarrow> user_store \<Rightarrow> (user_error + unit) \<times> user_store" where
  "record_user r users =
     (case validate_platform_user_record r of
        Inl e \<Rightarrow> (Inl e, users)
      | Inr _ \<Rightarrow> (Inr (), btree_insert (us_user_id r) r users))"

definition users_for_tenant :: "user_store \<Rightarrow> string \<Rightarrow> user_record list" where
  "users_for_tenant users tenant_id =
     filter (\<lambda>u. us_tenant_id u = tenant_id \<and> us_status u \<noteq> UserDeleted) (btree_values users)"

definition find_user :: "user_store \<Rightarrow> string \<Rightarrow> user_record option" where
  "find_user users user_id = opt_filter (\<lambda>u. us_status u \<noteq> UserDeleted) (btree_get users user_id)"

definition user_including_deleted :: "user_store \<Rightarrow> string \<Rightarrow> user_record option" where
  "user_including_deleted users user_id = btree_get users user_id"

text \<open>The record is changed in place before it is validated, so a failed validation keeps it.\<close>

definition update_user_status ::
  "string \<Rightarrow> i64 \<Rightarrow> user_status \<Rightarrow> user_store \<Rightarrow> (user_error + user_record) \<times> user_store" where
  "update_user_status user_id expected_version status users =
     (if expected_version < 1 then (Inl UserInvalidResourceVersion, users)
      else case btree_get users user_id of
        None \<Rightarrow> (Inl UnknownUser, users)
      | Some user \<Rightarrow>
          if us_status user = UserDeleted then (Inl UnknownUser, users)
          else if us_resource_version user \<noteq> expected_version
          then (Inl UserStaleResourceVersion, users)
          else
            (let user' = user\<lparr>us_status := status,
                   us_resource_version := wrap_i64 (us_resource_version user + 1)\<rparr>;
                 users' = btree_insert user_id user' users
             in case validate_platform_user_record user' of
                  Inl e \<Rightarrow> (Inl e, users')
                | Inr _ \<Rightarrow> (Inr user', users')))"

subsection \<open>Memberships\<close>

datatype member_status = MemberActive | MemberSuspended | MemberRemoved

fun member_status_str :: "member_status \<Rightarrow> string" where
  "member_status_str MemberActive = ''active''"
| "member_status_str MemberSuspended = ''suspended''"
| "member_status_str MemberRemoved = ''removed''"

definition member_status_from_id :: "string \<Rightarrow> member_status option" where
  "member_status_from_id status =
     (if status = ''active'' then Some MemberActive
      else if status = ''suspended'' then Some MemberSuspended
      else if status = ''removed'' then Some MemberRemoved else None)"

fun member_accepts_access :: "member_status \<Rightarrow> bool" where
  "member_accepts_access MemberActive = True"
| "member_accepts_access _ = False"

record organization_member =
  om_organization_member_id :: string
  om_tenant_id :: string
  om_organization_id :: string
  om_principal_id :: string
  om_membership_kind :: string
  om_status :: member_status
  om_resource_version :: i64

record project_member =
  pjm_project_member_id :: string
  pjm_tenant_id :: string
  pjm_organization_id :: string
  pjm_project_id :: string
  pjm_principal_id :: string
  pjm_organization_member_id :: "string option"
  pjm_membership_kind :: string
  pjm_status :: member_status
  pjm_resource_version :: i64

text \<open>The requests of the upserts; \<open>created_by\<close> is only read by the PostgreSQL repository.\<close>

record organization_member_upsert =
  omu_organization_member_id :: string
  omu_tenant_id :: string
  omu_organization_id :: string
  omu_principal_id :: string
  omu_membership_kind :: string
  omu_created_by :: string

record project_member_upsert =
  pmu_project_member_id :: string
  pmu_tenant_id :: string
  pmu_organization_id :: string
  pmu_project_id :: string
  pmu_principal_id :: string
  pmu_organization_member_id :: string
  pmu_membership_kind :: string
  pmu_created_by :: string

datatype membership_error =
    MemInvalidMembershipId | MemInvalidTenantId | MemInvalidOrganizationId | MemInvalidProjectId
  | MemInvalidPrincipalId | MemInvalidMembershipKind | MemInvalidStatus | MemStaleResourceVersion

fun membership_error_str :: "membership_error \<Rightarrow> string" where
  "membership_error_str MemInvalidMembershipId = ''membership_id_invalid''"
| "membership_error_str MemInvalidTenantId = ''tenant_id_invalid''"
| "membership_error_str MemInvalidOrganizationId = ''organization_id_invalid''"
| "membership_error_str MemInvalidProjectId = ''project_id_invalid''"
| "membership_error_str MemInvalidPrincipalId = ''principal_id_invalid''"
| "membership_error_str MemInvalidMembershipKind = ''membership_kind_invalid''"
| "membership_error_str MemInvalidStatus = ''membership_status_invalid''"
| "membership_error_str MemStaleResourceVersion = ''stale_resource_version''"

type_synonym organization_member_store = "organization_member btree"
type_synonym project_member_store = "project_member btree"

definition membership_validate_prefixed :: "string \<Rightarrow> string \<Rightarrow> 'e \<Rightarrow> 'e + unit" where
  "membership_validate_prefixed value_str prefix error =
     fail_if (\<not> starts_with value_str prefix) error"

definition membership_validate_principal_id :: "string \<Rightarrow> membership_error + unit" where
  "membership_validate_principal_id v =
     fail_if (\<not> (starts_with v ''usr_'' \<or> starts_with v ''svc_'')) MemInvalidPrincipalId"

definition validate_membership_kind :: "string \<Rightarrow> membership_error + unit" where
  "validate_membership_kind v =
     fail_if (\<not> (v = ''user'' \<or> v = ''service_account'')) MemInvalidMembershipKind"

definition validate_organization_member :: "organization_member \<Rightarrow> membership_error + unit" where
  "validate_organization_member r =
     rbind (membership_validate_prefixed (om_organization_member_id r) ''om_'' MemInvalidMembershipId) (\<lambda>_.
     rbind (membership_validate_prefixed (om_tenant_id r) ''ten_'' MemInvalidTenantId) (\<lambda>_.
     rbind (membership_validate_prefixed (om_organization_id r) ''org_'' MemInvalidOrganizationId) (\<lambda>_.
     rbind (membership_validate_principal_id (om_principal_id r)) (\<lambda>_.
     rbind (validate_membership_kind (om_membership_kind r)) (\<lambda>_.
     fail_if (om_resource_version r \<le> 0) MemStaleResourceVersion)))))"

definition validate_project_member :: "project_member \<Rightarrow> membership_error + unit" where
  "validate_project_member r =
     rbind (membership_validate_prefixed (pjm_project_member_id r) ''pm_'' MemInvalidMembershipId) (\<lambda>_.
     rbind (membership_validate_prefixed (pjm_tenant_id r) ''ten_'' MemInvalidTenantId) (\<lambda>_.
     rbind (membership_validate_prefixed (pjm_organization_id r) ''org_'' MemInvalidOrganizationId) (\<lambda>_.
     rbind (membership_validate_prefixed (pjm_project_id r) ''prj_'' MemInvalidProjectId) (\<lambda>_.
     rbind (membership_validate_principal_id (pjm_principal_id r)) (\<lambda>_.
     rbind (case pjm_organization_member_id r of None \<Rightarrow> Inr ()
            | Some i \<Rightarrow> membership_validate_prefixed i ''om_'' MemInvalidMembershipId) (\<lambda>_.
     rbind (validate_membership_kind (pjm_membership_kind r)) (\<lambda>_.
     fail_if (pjm_resource_version r \<le> 0) MemStaleResourceVersion)))))))"

subsubsection \<open>Records and lists\<close>

definition record_organization_member ::
  "organization_member \<Rightarrow> organization_member_store \<Rightarrow>
     (membership_error + unit) \<times> organization_member_store" where
  "record_organization_member r s =
     (case validate_organization_member r of
        Inl e \<Rightarrow> (Inl e, s)
      | Inr _ \<Rightarrow> (Inr (), btree_insert (om_organization_member_id r) r s))"

definition record_project_member ::
  "project_member \<Rightarrow> project_member_store \<Rightarrow> (membership_error + unit) \<times> project_member_store" where
  "record_project_member r s =
     (case validate_project_member r of
        Inl e \<Rightarrow> (Inl e, s)
      | Inr _ \<Rightarrow> (Inr (), btree_insert (pjm_project_member_id r) r s))"

definition organization_members_for_organization ::
  "organization_member_store \<Rightarrow> string \<Rightarrow> organization_member list" where
  "organization_members_for_organization s organization_id =
     sort_key om_organization_member_id
       (filter (\<lambda>r. om_organization_id r = organization_id) (btree_values s))"

definition project_members_for_project :: "project_member_store \<Rightarrow> string \<Rightarrow> project_member list" where
  "project_members_for_project s project_id =
     sort_key pjm_project_member_id (filter (\<lambda>r. pjm_project_id r = project_id) (btree_values s))"

subsubsection \<open>Status updates\<close>

definition update_organization_member_status ::
  "string \<Rightarrow> i64 \<Rightarrow> member_status \<Rightarrow> organization_member_store \<Rightarrow>
     (membership_error + organization_member) \<times> organization_member_store" where
  "update_organization_member_status organization_member_id expected_version status s =
     (case btree_get s organization_member_id of
        None \<Rightarrow> (Inl MemInvalidMembershipId, s)
      | Some r \<Rightarrow>
          if om_resource_version r \<noteq> expected_version then (Inl MemStaleResourceVersion, s)
          else
            (let r' = r\<lparr>om_status := status,
                   om_resource_version := wrap_i64 (om_resource_version r + 1)\<rparr>
             in (Inr r', btree_insert organization_member_id r' s)))"

definition update_project_member_status ::
  "string \<Rightarrow> i64 \<Rightarrow> member_status \<Rightarrow> project_member_store \<Rightarrow>
     (membership_error + project_member) \<times> project_member_store" where
  "update_project_member_status project_member_id expected_version status s =
     (case btree_get s project_member_id of
        None \<Rightarrow> (Inl MemInvalidMembershipId, s)
      | Some r \<Rightarrow>
          if pjm_resource_version r \<noteq> expected_version then (Inl MemStaleResourceVersion, s)
          else
            (let r' = r\<lparr>pjm_status := status,
                   pjm_resource_version := wrap_i64 (pjm_resource_version r + 1)\<rparr>
             in (Inr r', btree_insert project_member_id r' s)))"

subsubsection \<open>Upserts\<close>

definition upsert_organization_member ::
  "organization_member_upsert \<Rightarrow> organization_member_store \<Rightarrow>
     (membership_error + organization_member) \<times> organization_member_store" where
  "upsert_organization_member request s =
     (let (written, s') =
        (case find (\<lambda>r. om_tenant_id r = omu_tenant_id request
                \<and> om_organization_id r = omu_organization_id request
                \<and> om_principal_id r = omu_principal_id request) (btree_values s) of
           Some existing \<Rightarrow>
             (case btree_get s (om_organization_member_id existing) of
                None \<Rightarrow> (Inl MemInvalidMembershipId, s)
              | Some r \<Rightarrow>
                  if om_status r \<noteq> MemberActive
                     \<or> om_membership_kind r \<noteq> omu_membership_kind request
                  then
                    (let r' = r\<lparr>om_status := MemberActive,
                           om_membership_kind := omu_membership_kind request,
                           om_resource_version := wrap_i64 (om_resource_version r + 1)\<rparr>
                     in (Inr r', btree_insert (om_organization_member_id existing) r' s))
                  else (Inr r, s))
         | None \<Rightarrow>
             (let r = \<lparr>om_organization_member_id = omu_organization_member_id request,
                    om_tenant_id = omu_tenant_id request,
                    om_organization_id = omu_organization_id request,
                    om_principal_id = omu_principal_id request,
                    om_membership_kind = omu_membership_kind request,
                    om_status = MemberActive, om_resource_version = 1\<rparr>
              in case validate_organization_member r of
                   Inl e \<Rightarrow> (Inl e, s)
                 | Inr _ \<Rightarrow> (Inr r, btree_insert (om_organization_member_id r) r s)))
      in (rbind written (\<lambda>r. rbind (validate_organization_member r) (\<lambda>_. Inr r)), s'))"

definition upsert_invited_organization_member ::
  "string \<Rightarrow> string \<Rightarrow> string \<Rightarrow> string \<Rightarrow> string \<Rightarrow> organization_member_store \<Rightarrow>
     (membership_error + organization_member) \<times> organization_member_store" where
  "upsert_invited_organization_member organization_member_id tenant_id organization_id
       principal_id membership_kind =
     upsert_organization_member
       \<lparr>omu_organization_member_id = organization_member_id, omu_tenant_id = tenant_id,
        omu_organization_id = organization_id, omu_principal_id = principal_id,
        omu_membership_kind = membership_kind, omu_created_by = principal_id\<rparr>"

definition upsert_project_member ::
  "project_member_upsert \<Rightarrow> project_member_store \<Rightarrow>
     (membership_error + project_member) \<times> project_member_store" where
  "upsert_project_member request s =
     (let (written, s') =
        (case find (\<lambda>r. pjm_project_id r = pmu_project_id request
                \<and> pjm_principal_id r = pmu_principal_id request) (btree_values s) of
           Some existing \<Rightarrow>
             (case btree_get s (pjm_project_member_id existing) of
                None \<Rightarrow> (Inl MemInvalidMembershipId, s)
              | Some r \<Rightarrow>
                  if pjm_status r \<noteq> MemberActive
                     \<or> pjm_membership_kind r \<noteq> pmu_membership_kind request
                     \<or> pjm_organization_member_id r \<noteq> Some (pmu_organization_member_id request)
                  then
                    (let r' = r\<lparr>pjm_status := MemberActive,
                           pjm_membership_kind := pmu_membership_kind request,
                           pjm_organization_member_id := Some (pmu_organization_member_id request),
                           pjm_resource_version := wrap_i64 (pjm_resource_version r + 1)\<rparr>
                     in (Inr r', btree_insert (pjm_project_member_id existing) r' s))
                  else (Inr r, s))
         | None \<Rightarrow>
             (let r = \<lparr>pjm_project_member_id = pmu_project_member_id request,
                    pjm_tenant_id = pmu_tenant_id request,
                    pjm_organization_id = pmu_organization_id request,
                    pjm_project_id = pmu_project_id request,
                    pjm_principal_id = pmu_principal_id request,
                    pjm_organization_member_id = Some (pmu_organization_member_id request),
                    pjm_membership_kind = pmu_membership_kind request,
                    pjm_status = MemberActive, pjm_resource_version = 1\<rparr>
              in case validate_project_member r of
                   Inl e \<Rightarrow> (Inl e, s)
                 | Inr _ \<Rightarrow> (Inr r, btree_insert (pjm_project_member_id r) r s)))
      in (rbind written (\<lambda>r. rbind (validate_project_member r) (\<lambda>_. Inr r)), s'))"

text \<open>
  The three field assignments of the source are guarded one by one; each assigns the value the
  field has already when its guard is false, so they are one update here.
\<close>

subsubsection \<open>The cascade\<close>

definition cascade_should_update :: "member_status \<Rightarrow> project_member \<Rightarrow> bool" where
  "cascade_should_update status r =
     (case status of
        MemberActive \<Rightarrow> False
      | MemberSuspended \<Rightarrow> pjm_status r = MemberActive
      | MemberRemoved \<Rightarrow> pjm_status r \<noteq> MemberRemoved)"

definition member_of_organization :: "organization_member \<Rightarrow> project_member \<Rightarrow> bool" where
  "member_of_organization om r \<longleftrightarrow>
     pjm_tenant_id r = om_tenant_id om \<and> pjm_organization_id r = om_organization_id om
     \<and> pjm_principal_id r = om_principal_id om"

definition cascade_project_memberships ::
  "organization_member \<Rightarrow> member_status \<Rightarrow> project_member_store \<Rightarrow> nat \<times> project_member_store" where
  "cascade_project_memberships om status s =
     (if status = MemberActive then (0, s)
      else
        (let hit = (\<lambda>r. member_of_organization om r \<and> cascade_should_update status r)
         in (length (filter hit (btree_values s)),
             btree_map_values (\<lambda>r. if hit r
               then r\<lparr>pjm_status := status,
                      pjm_resource_version := wrap_i64 (pjm_resource_version r + 1)\<rparr>
               else r) s)))"

subsection \<open>Versions\<close>

interpretation user_versions: optimistic_store btree_get us_resource_version update_user_status
proof unfold_locales
  fix i v a r and s s' :: user_store
  assume "update_user_status i v a s = (Inr r, s')"
  then show "(\<exists>r0. btree_get s i = Some r0 \<and> us_resource_version r0 = v)
      \<and> us_resource_version r = wrap_i64 (v + 1) \<and> btree_get s' i = Some r
      \<and> (\<forall>j. j \<noteq> i \<longrightarrow> btree_get s' j = btree_get s j)"
    by (auto simp: update_user_status_def Let_def split: if_splits option.splits sum.splits)
next
  fix i v a r and s :: user_store
  assume "btree_get s i = Some r" "us_resource_version r \<noteq> v"
  then show "\<exists>e. update_user_status i v a s = (Inl e, s)"
    by (auto simp: update_user_status_def)
qed

interpretation organization_member_versions:
  optimistic_store btree_get om_resource_version update_organization_member_status
  by unfold_locales
    (auto simp: update_organization_member_status_def Let_def split: if_splits option.splits)

interpretation project_member_versions:
  optimistic_store btree_get pjm_resource_version update_project_member_status
  by unfold_locales
    (auto simp: update_project_member_status_def Let_def split: if_splits option.splits)

subsection \<open>Shape of the stores\<close>

text \<open>
  The shape of a record is what its validation asks of everything but the version: a status change
  moves the version on with the wrapping operator, so after \<open>i64::MAX\<close> only the shape is left.
\<close>

definition user_shape :: "user_record \<Rightarrow> bool" where
  "user_shape r \<longleftrightarrow> validate_platform_user_record (r\<lparr>us_resource_version := 1\<rparr>) = Inr ()"

definition organization_member_shape :: "organization_member \<Rightarrow> bool" where
  "organization_member_shape r \<longleftrightarrow>
     validate_organization_member (r\<lparr>om_resource_version := 1\<rparr>) = Inr ()"

definition project_member_shape :: "project_member \<Rightarrow> bool" where
  "project_member_shape r \<longleftrightarrow> validate_project_member (r\<lparr>pjm_resource_version := 1\<rparr>) = Inr ()"

lemma user_shape_validated: "validate_platform_user_record r = Inr u \<Longrightarrow> user_shape r"
  by (simp add: user_shape_def validate_platform_user_record_def result_simps)

lemma user_shape_update [simp]:
  "user_shape (r\<lparr>us_status := st, us_resource_version := v\<rparr>) = user_shape r"
  by (simp add: user_shape_def validate_platform_user_record_def)

lemma organization_member_shape_validated:
  "validate_organization_member r = Inr u \<Longrightarrow> organization_member_shape r"
  by (simp add: organization_member_shape_def validate_organization_member_def result_simps)

lemma organization_member_shape_update [simp]:
  "organization_member_shape (r\<lparr>om_status := st, om_resource_version := v\<rparr>) = organization_member_shape r"
  by (simp add: organization_member_shape_def validate_organization_member_def)

lemma project_member_shape_validated: "validate_project_member r = Inr u \<Longrightarrow> project_member_shape r"
  by (simp add: project_member_shape_def validate_project_member_def result_simps)

lemma project_member_shape_update [simp]:
  "project_member_shape (r\<lparr>pjm_status := st, pjm_resource_version := v\<rparr>) = project_member_shape r"
  by (simp add: project_member_shape_def validate_project_member_def)

abbreviation users_ok :: "user_store \<Rightarrow> bool" where
  "users_ok \<equiv> store_ok us_user_id user_shape"

abbreviation organization_members_ok :: "organization_member_store \<Rightarrow> bool" where
  "organization_members_ok \<equiv> store_ok om_organization_member_id organization_member_shape"

abbreviation project_members_ok :: "project_member_store \<Rightarrow> bool" where
  "project_members_ok \<equiv> store_ok pjm_project_member_id project_member_shape"

lemma record_user_ok: "users_ok s \<Longrightarrow> record_user r s = (x, s') \<Longrightarrow> users_ok s'"
  by (auto simp: record_user_def split: sum.splits intro!: store_ok_insert user_shape_validated)

lemma update_user_status_ok:
  "users_ok s \<Longrightarrow> update_user_status i v st s = (x, s') \<Longrightarrow> users_ok s'"
  by (auto simp: update_user_status_def Let_def split: if_splits option.splits sum.splits
    intro: store_ok_replace)

lemma record_organization_member_ok:
  "organization_members_ok s \<Longrightarrow> record_organization_member r s = (x, s') \<Longrightarrow>
     organization_members_ok s'"
  by (auto simp: record_organization_member_def split: sum.splits
    intro!: store_ok_insert organization_member_shape_validated)

lemma record_project_member_ok:
  "project_members_ok s \<Longrightarrow> record_project_member r s = (x, s') \<Longrightarrow> project_members_ok s'"
  by (auto simp: record_project_member_def split: sum.splits
    intro!: store_ok_insert project_member_shape_validated)

lemma update_organization_member_status_ok:
  "organization_members_ok s \<Longrightarrow> update_organization_member_status i v st s = (x, s') \<Longrightarrow>
     organization_members_ok s'"
  by (auto simp: update_organization_member_status_def Let_def split: if_splits option.splits
    intro: store_ok_replace)

lemma update_project_member_status_ok:
  "project_members_ok s \<Longrightarrow> update_project_member_status i v st s = (x, s') \<Longrightarrow>
     project_members_ok s'"
  by (auto simp: update_project_member_status_def Let_def split: if_splits option.splits
    intro: store_ok_replace)

text \<open>
  The upserts write the membership kind of the request, which the callers have checked.
\<close>

definition membership_kind_ok :: "string \<Rightarrow> bool" where
  "membership_kind_ok kind \<longleftrightarrow> kind = ''user'' \<or> kind = ''service_account''"

lemma organization_member_shape_kind [simp]:
  "organization_member_shape r \<Longrightarrow> membership_kind_ok kind \<Longrightarrow>
     organization_member_shape (r\<lparr>om_status := st, om_membership_kind := kind, om_resource_version := v\<rparr>)"
  by (auto simp: organization_member_shape_def validate_organization_member_def
    validate_membership_kind_def membership_kind_ok_def result_simps)

lemma project_member_shape_kind [simp]:
  "project_member_shape r \<Longrightarrow> membership_kind_ok kind \<Longrightarrow> starts_with om ''om_'' \<Longrightarrow>
     project_member_shape (r\<lparr>pjm_status := st, pjm_membership_kind := kind,
       pjm_organization_member_id := Some om, pjm_resource_version := v\<rparr>)"
  by (auto simp: project_member_shape_def validate_project_member_def membership_validate_prefixed_def
    validate_membership_kind_def membership_kind_ok_def result_simps)

lemma upsert_organization_member_ok:
  assumes ok: "organization_members_ok s" and kind: "membership_kind_ok (omu_membership_kind request)"
    and run: "upsert_organization_member request s = (x, s')"
  shows "organization_members_ok s'"
proof (cases "find (\<lambda>r. om_tenant_id r = omu_tenant_id request
    \<and> om_organization_id r = omu_organization_id request
    \<and> om_principal_id r = omu_principal_id request) (btree_values s)")
  case None
  with ok run show ?thesis
    by (auto simp: upsert_organization_member_def Let_def split: sum.splits
      dest!: organization_member_shape_validated dest: store_ok_insert)
next
  case (Some existing)
  with ok kind run show ?thesis
    by (auto simp: upsert_organization_member_def Let_def split: option.splits if_splits
      intro: store_ok_replace)
qed

lemma upsert_project_member_ok:
  assumes ok: "project_members_ok s" and kind: "membership_kind_ok (pmu_membership_kind request)"
    and om: "starts_with (pmu_organization_member_id request) ''om_''"
    and run: "upsert_project_member request s = (x, s')"
  shows "project_members_ok s'"
proof (cases "find (\<lambda>r. pjm_project_id r = pmu_project_id request
    \<and> pjm_principal_id r = pmu_principal_id request) (btree_values s)")
  case None
  with ok run show ?thesis
    by (auto simp: upsert_project_member_def Let_def split: sum.splits
      dest!: project_member_shape_validated dest: store_ok_insert)
next
  case (Some existing)
  with ok kind om run show ?thesis
    by (auto simp: upsert_project_member_def Let_def split: option.splits if_splits
      intro: store_ok_replace)
qed

lemma cascade_project_memberships_ok:
  "project_members_ok s \<Longrightarrow> cascade_project_memberships om st s = (n, s') \<Longrightarrow> project_members_ok s'"
  by (auto simp: cascade_project_memberships_def Let_def split: if_splits intro!: store_ok_map_values)

subsection \<open>Behaviour\<close>

text \<open>What an upsert leaves: an active membership of the principal, and every other record as it was.\<close>

lemma upsert_organization_member_done:
  assumes "btree_keyed om_organization_member_id s"
    and "upsert_organization_member request s = (Inr r, s')"
  shows "om_tenant_id r = omu_tenant_id request \<and> om_organization_id r = omu_organization_id request
    \<and> om_principal_id r = omu_principal_id request \<and> om_status r = MemberActive
    \<and> om_membership_kind r = omu_membership_kind request
    \<and> btree_get s' (om_organization_member_id r) = Some r
    \<and> (\<forall>j. j \<noteq> om_organization_member_id r \<longrightarrow> btree_get s' j = btree_get s j)"
  using assms
  by (auto simp: upsert_organization_member_def Let_def result_simps
    dest!: find_value_keyed split: if_splits option.splits sum.splits prod.splits)

lemma upsert_project_member_done:
  assumes "btree_keyed pjm_project_member_id s"
    and "upsert_project_member request s = (Inr r, s')"
  shows "pjm_project_id r = pmu_project_id request \<and> pjm_principal_id r = pmu_principal_id request
    \<and> pjm_status r = MemberActive \<and> pjm_membership_kind r = pmu_membership_kind request
    \<and> pjm_organization_member_id r = Some (pmu_organization_member_id request)
    \<and> btree_get s' (pjm_project_member_id r) = Some r
    \<and> (\<forall>j. j \<noteq> pjm_project_member_id r \<longrightarrow> btree_get s' j = btree_get s j)"
  using assms
  by (auto simp: upsert_project_member_def Let_def result_simps
    dest!: find_value_keyed split: if_splits option.splits sum.splits prod.splits)

text \<open>After a cascade no project membership of the principal in the organization is active.\<close>

lemma cascade_leaves_none:
  assumes "cascade_project_memberships om status s = (n, s')" and "status \<noteq> MemberActive"
    and "r \<in> set (btree_values s')" and "member_of_organization om r"
  shows "\<not> member_accepts_access (pjm_status r)"
proof -
  from assms obtain r0 where r0: "r0 \<in> set (btree_values s)"
    "r = (if member_of_organization om r0 \<and> cascade_should_update status r0
          then r0\<lparr>pjm_status := status,
                 pjm_resource_version := wrap_i64 (pjm_resource_version r0 + 1)\<rparr> else r0)"
    by (auto simp: cascade_project_memberships_def Let_def)
  then have "member_of_organization om r0"
    using assms(4) by (auto simp: member_of_organization_def split: if_splits)
  with r0 assms(2) show ?thesis
    by (cases status; cases "pjm_status r0") (auto simp: cascade_should_update_def)
qed

lemma cascade_keeps_others:
  assumes "cascade_project_memberships om status s = (n, s')"
    and "r \<in> set (btree_values s')" and "\<not> member_of_organization om r"
  shows "r \<in> set (btree_values s)"
  using assms
  by (auto simp: cascade_project_memberships_def Let_def member_of_organization_def split: if_splits)

end
