(* ===== verification/Platform_Binding.thy ===== *)
theory Platform_Binding
  imports Platform_Action Platform_Membership
begin

text \<open>
  Role bindings and organization invitations of the platform
  (\<open>crates/starweaver-platform/src/role.rs\<close> and \<open>invitation.rs\<close>): the records, their validation
  and the in-memory stores. SHA-256 is the argument \<open>sha256\<close>, a function on byte strings.
\<close>

subsection \<open>Role bindings\<close>

datatype binding_status = BindingActive | BindingDisabled | BindingDeleted

fun binding_status_str :: "binding_status \<Rightarrow> string" where
  "binding_status_str BindingActive = ''active''"
| "binding_status_str BindingDisabled = ''disabled''"
| "binding_status_str BindingDeleted = ''deleted''"

definition binding_status_from_id :: "string \<Rightarrow> binding_status option" where
  "binding_status_from_id status =
     (if status = ''active'' then Some BindingActive
      else if status = ''disabled'' then Some BindingDisabled
      else if status = ''deleted'' then Some BindingDeleted else None)"

record role_binding =
  rb_role_binding_id :: string
  rb_tenant_id :: string
  rb_organization_id :: "string option"
  rb_project_id :: "string option"
  rb_principal_id :: string
  rb_role_id :: string
  rb_status :: binding_status
  rb_resource_version :: i64

definition binding_built_in_role :: "role_binding \<Rightarrow> platform_role option" where
  "binding_built_in_role b = platform_role_from_id (rb_role_id b)"

datatype role_binding_error =
    RbInvalidRoleBindingId | RbInvalidTenantId | RbInvalidOrganizationId | RbInvalidProjectId
  | RbInvalidPrincipalId | RbInvalidRoleId | RbInvalidScope | RbInvalidStatus
  | RbStaleResourceVersion

fun role_binding_error_str :: "role_binding_error \<Rightarrow> string" where
  "role_binding_error_str RbInvalidRoleBindingId = ''role_binding_id_invalid''"
| "role_binding_error_str RbInvalidTenantId = ''tenant_id_invalid''"
| "role_binding_error_str RbInvalidOrganizationId = ''organization_id_invalid''"
| "role_binding_error_str RbInvalidProjectId = ''project_id_invalid''"
| "role_binding_error_str RbInvalidPrincipalId = ''principal_id_invalid''"
| "role_binding_error_str RbInvalidRoleId = ''role_id_invalid''"
| "role_binding_error_str RbInvalidScope = ''role_binding_scope_invalid''"
| "role_binding_error_str RbInvalidStatus = ''role_binding_status_invalid''"
| "role_binding_error_str RbStaleResourceVersion = ''stale_resource_version''"

record role_binding_upsert =
  rbu_role_binding_id :: string
  rbu_tenant_id :: string
  rbu_organization_id :: "string option"
  rbu_project_id :: "string option"
  rbu_principal_id :: string
  rbu_role_id :: string

type_synonym role_binding_store = "role_binding btree"

definition role_validate_prefixed :: "string \<Rightarrow> string \<Rightarrow> 'e \<Rightarrow> 'e + unit" where
  "role_validate_prefixed value_str prefix error =
     fail_if (\<not> (starts_with value_str prefix \<and> length prefix < length value_str)) error"

definition role_validate_principal_id :: "string \<Rightarrow> role_binding_error + unit" where
  "role_validate_principal_id v =
     fail_if (\<not> (starts_with v ''usr_'' \<or> starts_with v ''svc_'')) RbInvalidPrincipalId"

definition validate_scope_shape ::
  "platform_role \<Rightarrow> string option \<Rightarrow> string option \<Rightarrow> role_binding_error + unit" where
  "validate_scope_shape role organization_id project_id =
     (case platform_role_scope role of
        AtTenant \<Rightarrow>
          (case (organization_id, project_id) of
             (None, None) \<Rightarrow> Inr () | _ \<Rightarrow> Inl RbInvalidScope)
      | AtOrganization \<Rightarrow>
          (case (organization_id, project_id) of
             (Some _, None) \<Rightarrow> Inr () | _ \<Rightarrow> Inl RbInvalidScope)
      | AtProject \<Rightarrow>
          (case (organization_id, project_id) of
             (Some _, Some _) \<Rightarrow> Inr () | _ \<Rightarrow> Inl RbInvalidScope)
      | AtAny \<Rightarrow>
          (case (organization_id, project_id) of
             (None, Some _) \<Rightarrow> Inl RbInvalidScope | _ \<Rightarrow> Inr ()))"

definition validate_role_binding :: "role_binding \<Rightarrow> role_binding_error + unit" where
  "validate_role_binding b =
     rbind (role_validate_prefixed (rb_role_binding_id b) ''rb_'' RbInvalidRoleBindingId) (\<lambda>_.
     rbind (role_validate_prefixed (rb_tenant_id b) ''ten_'' RbInvalidTenantId) (\<lambda>_.
     rbind (role_validate_principal_id (rb_principal_id b)) (\<lambda>_.
     rbind (case rb_organization_id b of None \<Rightarrow> Inr ()
            | Some i \<Rightarrow> role_validate_prefixed i ''org_'' RbInvalidOrganizationId) (\<lambda>_.
     rbind (case rb_project_id b of None \<Rightarrow> Inr ()
            | Some i \<Rightarrow> role_validate_prefixed i ''prj_'' RbInvalidProjectId) (\<lambda>_.
     rbind (ok_or RbInvalidRoleId (binding_built_in_role b)) (\<lambda>role.
     rbind (validate_scope_shape role (rb_organization_id b) (rb_project_id b)) (\<lambda>_.
     fail_if (rb_resource_version b \<le> 0) RbStaleResourceVersion)))))))"

definition record_role_binding ::
  "role_binding \<Rightarrow> role_binding_store \<Rightarrow> (role_binding_error + unit) \<times> role_binding_store" where
  "record_role_binding b s =
     (case validate_role_binding b of
        Inl e \<Rightarrow> (Inl e, s)
      | Inr _ \<Rightarrow> (Inr (), btree_insert (rb_role_binding_id b) b s))"

definition role_bindings_for_tenant :: "role_binding_store \<Rightarrow> string \<Rightarrow> role_binding list" where
  "role_bindings_for_tenant s tenant_id =
     sort_key rb_role_binding_id
       (filter (\<lambda>b. rb_tenant_id b = tenant_id \<and> rb_status b \<noteq> BindingDeleted) (btree_values s))"

definition active_role_bindings_for_principal ::
  "role_binding_store \<Rightarrow> string \<Rightarrow> string \<Rightarrow> role_binding list" where
  "active_role_bindings_for_principal s tenant_id principal_id =
     sort_key rb_role_binding_id
       (filter (\<lambda>b. rb_tenant_id b = tenant_id \<and> rb_principal_id b = principal_id
          \<and> rb_status b = BindingActive) (btree_values s))"

definition upsert_role_binding ::
  "role_binding_upsert \<Rightarrow> role_binding_store \<Rightarrow>
     (role_binding_error + role_binding) \<times> role_binding_store" where
  "upsert_role_binding request s =
     (let (written, s') =
        (case find (\<lambda>b. rb_tenant_id b = rbu_tenant_id request
                \<and> rb_organization_id b = rbu_organization_id request
                \<and> rb_project_id b = rbu_project_id request
                \<and> rb_principal_id b = rbu_principal_id request
                \<and> rb_role_id b = rbu_role_id request) (btree_values s) of
           Some existing \<Rightarrow>
             (case btree_get s (rb_role_binding_id existing) of
                None \<Rightarrow> (Inl RbInvalidRoleBindingId, s)
              | Some b \<Rightarrow>
                  if rb_status b \<noteq> BindingActive
                  then
                    (let b' = b\<lparr>rb_status := BindingActive,
                           rb_resource_version := wrap_i64 (rb_resource_version b + 1)\<rparr>
                     in (Inr b', btree_insert (rb_role_binding_id existing) b' s))
                  else (Inr b, s))
         | None \<Rightarrow>
             (let b = \<lparr>rb_role_binding_id = rbu_role_binding_id request,
                    rb_tenant_id = rbu_tenant_id request,
                    rb_organization_id = rbu_organization_id request,
                    rb_project_id = rbu_project_id request,
                    rb_principal_id = rbu_principal_id request,
                    rb_role_id = rbu_role_id request,
                    rb_status = BindingActive, rb_resource_version = 1\<rparr>
              in case validate_role_binding b of
                   Inl e \<Rightarrow> (Inl e, s)
                 | Inr _ \<Rightarrow> (Inr b, btree_insert (rb_role_binding_id b) b s)))
      in (rbind written (\<lambda>b. rbind (validate_role_binding b) (\<lambda>_. Inr b)), s'))"

definition store_update_role_binding_status ::
  "string \<Rightarrow> i64 \<Rightarrow> binding_status \<Rightarrow> role_binding_store \<Rightarrow>
     (role_binding_error + role_binding) \<times> role_binding_store" where
  "store_update_role_binding_status role_binding_id expected_version status s =
     (case btree_get s role_binding_id of
        None \<Rightarrow> (Inl RbInvalidRoleBindingId, s)
      | Some b \<Rightarrow>
          if rb_resource_version b \<noteq> expected_version then (Inl RbStaleResourceVersion, s)
          else
            (let b' = b\<lparr>rb_status := status,
                   rb_resource_version := wrap_i64 (rb_resource_version b + 1)\<rparr>;
                 s' = btree_insert role_binding_id b' s
             in (rbind (validate_role_binding b') (\<lambda>_. Inr b'), s')))"

text \<open>The loop that both deletions share: the active bindings that match are deleted and counted.\<close>

definition delete_matching_bindings ::
  "(role_binding \<Rightarrow> bool) \<Rightarrow> role_binding_store \<Rightarrow> nat \<times> role_binding_store" where
  "delete_matching_bindings hit s =
     (length (filter hit (btree_values s)),
      btree_map_values (\<lambda>b. if hit b
        then b\<lparr>rb_status := BindingDeleted,
               rb_resource_version := wrap_i64 (rb_resource_version b + 1)\<rparr>
        else b) s)"

definition delete_role_bindings_for_organization_principal ::
  "string \<Rightarrow> string \<Rightarrow> string \<Rightarrow> role_binding_store \<Rightarrow> nat \<times> role_binding_store" where
  "delete_role_bindings_for_organization_principal tenant_id organization_id principal_id =
     delete_matching_bindings (\<lambda>b. rb_tenant_id b = tenant_id
       \<and> rb_organization_id b = Some organization_id \<and> rb_principal_id b = principal_id
       \<and> rb_status b = BindingActive)"

definition delete_role_bindings_for_project_principal ::
  "string \<Rightarrow> string \<Rightarrow> string \<Rightarrow> role_binding_store \<Rightarrow> nat \<times> role_binding_store" where
  "delete_role_bindings_for_project_principal tenant_id project_id principal_id =
     delete_matching_bindings (\<lambda>b. rb_tenant_id b = tenant_id
       \<and> rb_project_id b = Some project_id \<and> rb_principal_id b = principal_id
       \<and> rb_status b = BindingActive)"

subsection \<open>Invitations\<close>

definition PLATFORM_INVITATION_TOKEN_PREFIX :: string where
  "PLATFORM_INVITATION_TOKEN_PREFIX = ''swp_inv_''"

datatype platform_invitation_status =
  InvitationPending | InvitationAccepted | InvitationRevoked | InvitationExpired

fun platform_invitation_status_str :: "platform_invitation_status \<Rightarrow> string" where
  "platform_invitation_status_str InvitationPending = ''pending''"
| "platform_invitation_status_str InvitationAccepted = ''accepted''"
| "platform_invitation_status_str InvitationRevoked = ''revoked''"
| "platform_invitation_status_str InvitationExpired = ''expired''"

definition platform_invitation_status_from_id :: "string \<Rightarrow> platform_invitation_status option" where
  "platform_invitation_status_from_id status =
     (if status = ''pending'' then Some InvitationPending
      else if status = ''accepted'' then Some InvitationAccepted
      else if status = ''revoked'' then Some InvitationRevoked
      else if status = ''expired'' then Some InvitationExpired else None)"

definition platform_invitation_accepts_at :: "platform_invitation_status \<Rightarrow> i64 \<Rightarrow> i64 \<Rightarrow> bool" where
  "platform_invitation_accepts_at status expires_at_unix now_unix \<longleftrightarrow>
     status = InvitationPending \<and> expires_at_unix > now_unix"

record organization_invitation =
  iv_invitation_id :: string
  iv_tenant_id :: string
  iv_organization_id :: string
  iv_project_id :: "string option"
  iv_invited_email :: "string option"
  iv_invited_principal_id :: "string option"
  iv_invitation_token_hash :: string
  iv_role_id :: string
  iv_status :: platform_invitation_status
  iv_expires_at_unix :: i64
  iv_accepted_at_unix :: "i64 option"
  iv_created_by :: string
  iv_resource_version :: i64
  iv_created_at_unix :: i64
  iv_updated_at_unix :: i64

record accept_invitation_request =
  air_invitation_id :: string
  air_principal_id :: string
  air_organization_member_id :: string
  air_project_member_id :: "string option"
  air_accepted_at_unix :: i64

datatype invitation_error =
    IvInvalidInvitationId | IvInvalidTenantId | IvInvalidOrganizationId | IvInvalidProjectId
  | IvInvalidPrincipalId | IvInvalidCreatedBy | IvInvalidTokenHash | IvInvalidEmail
  | IvInvalidRoleId | IvInvalidStatus | IvInvalidTimestamp | IvInvalidTarget
  | IvStaleResourceVersion | InvitationNotPending | InvitationNotAccepting
  | InvitationPrincipalMismatch

fun invitation_error_str :: "invitation_error \<Rightarrow> string" where
  "invitation_error_str IvInvalidInvitationId = ''invitation_id_invalid''"
| "invitation_error_str IvInvalidTenantId = ''tenant_id_invalid''"
| "invitation_error_str IvInvalidOrganizationId = ''organization_id_invalid''"
| "invitation_error_str IvInvalidProjectId = ''project_id_invalid''"
| "invitation_error_str IvInvalidPrincipalId = ''principal_id_invalid''"
| "invitation_error_str IvInvalidCreatedBy = ''created_by_invalid''"
| "invitation_error_str IvInvalidTokenHash = ''invitation_token_hash_invalid''"
| "invitation_error_str IvInvalidEmail = ''invitation_email_invalid''"
| "invitation_error_str IvInvalidRoleId = ''invitation_role_invalid''"
| "invitation_error_str IvInvalidStatus = ''invitation_status_invalid''"
| "invitation_error_str IvInvalidTimestamp = ''invitation_timestamp_invalid''"
| "invitation_error_str IvInvalidTarget = ''invitation_target_invalid''"
| "invitation_error_str IvStaleResourceVersion = ''stale_resource_version''"
| "invitation_error_str InvitationNotPending = ''invitation_not_pending''"
| "invitation_error_str InvitationNotAccepting = ''invitation_not_accepting''"
| "invitation_error_str InvitationPrincipalMismatch = ''invitation_principal_mismatch''"

type_synonym invitation_store = "organization_invitation btree"

text \<open>Lower-case hexadecimal digits of a byte string.\<close>

definition hex_digits :: string where
  "hex_digits = ''0123456789abcdef''"

definition lower_hex :: "string \<Rightarrow> string" where
  "lower_hex bytes =
     concat (map (\<lambda>b. [hex_digits ! nat ((of_char b :: int) div 16),
                        hex_digits ! nat ((of_char b :: int) mod 16)]) bytes)"

definition hash_platform_invitation_token :: "(string \<Rightarrow> string) \<Rightarrow> string \<Rightarrow> string" where
  "hash_platform_invitation_token sha256 raw_token =
     lower_hex (sha256
       (''starweaver-platform-organization-invitation-v1'' @ [CHR 0x00] @ trim raw_token))"

definition validate_actor_id :: "string \<Rightarrow> invitation_error + unit" where
  "validate_actor_id v =
     fail_if (\<not> (starts_with v ''usr_'' \<or> starts_with v ''svc_'' \<or> starts_with v ''sys_''))
       IvInvalidCreatedBy"

definition invitation_validate_prefixed_id :: "string \<Rightarrow> string \<Rightarrow> 'e \<Rightarrow> 'e + unit" where
  "invitation_validate_prefixed_id value_str prefix error =
     fail_if (\<not> starts_with value_str prefix) error"

definition validate_organization_invitation :: "organization_invitation \<Rightarrow> invitation_error + unit" where
  "validate_organization_invitation iv =
     rbind (invitation_validate_prefixed_id (iv_invitation_id iv) ''inv_'' IvInvalidInvitationId) (\<lambda>_.
     rbind (invitation_validate_prefixed_id (iv_tenant_id iv) ''ten_'' IvInvalidTenantId) (\<lambda>_.
     rbind (invitation_validate_prefixed_id (iv_organization_id iv) ''org_'' IvInvalidOrganizationId) (\<lambda>_.
     rbind (case iv_project_id iv of None \<Rightarrow> Inr ()
            | Some p \<Rightarrow> invitation_validate_prefixed_id p ''prj_'' IvInvalidProjectId) (\<lambda>_.
     let has_email = is_some_and (iv_invited_email iv)
           (\<lambda>e. trim e \<noteq> '''' \<and> contains_str (trim e) ''@'');
         has_principal = (iv_invited_principal_id iv \<noteq> None)
     in
     rbind (case iv_invited_principal_id iv of None \<Rightarrow> Inr ()
            | Some p \<Rightarrow> invitation_validate_prefixed_id p ''usr_'' IvInvalidPrincipalId) (\<lambda>_.
     rbind (fail_if (has_email = has_principal) IvInvalidTarget) (\<lambda>_.
     rbind (fail_if (length (iv_invitation_token_hash iv) \<noteq> 64
              \<or> \<not> list_all (\<lambda>c. c \<in> set hex_digits) (iv_invitation_token_hash iv)) IvInvalidTokenHash) (\<lambda>_.
     rbind (fail_if (trim (iv_role_id iv) = '''') IvInvalidRoleId) (\<lambda>_.
     rbind (validate_actor_id (iv_created_by iv)) (\<lambda>_.
     rbind (fail_if (iv_expires_at_unix iv \<le> 0 \<or> iv_created_at_unix iv \<le> 0
              \<or> iv_updated_at_unix iv \<le> 0 \<or> iv_resource_version iv \<le> 0) IvInvalidTimestamp) (\<lambda>_.
     fail_if (iv_status iv = InvitationAccepted \<and> iv_accepted_at_unix iv = None)
       IvInvalidStatus))))))))))"

definition store_create_organization_invitation ::
  "organization_invitation \<Rightarrow> invitation_store \<Rightarrow>
     (invitation_error + organization_invitation) \<times> invitation_store" where
  "store_create_organization_invitation iv s =
     (case validate_organization_invitation iv of
        Inl e \<Rightarrow> (Inl e, s)
      | Inr _ \<Rightarrow> (Inr iv, btree_insert (iv_invitation_id iv) iv s))"

definition organization_invitations ::
  "invitation_store \<Rightarrow> string \<Rightarrow> string \<Rightarrow> organization_invitation list" where
  "organization_invitations s tenant_id organization_id =
     sort_key (\<lambda>iv. - iv_created_at_unix iv) (sort_key iv_invitation_id
       (filter (\<lambda>iv. iv_tenant_id iv = tenant_id \<and> iv_organization_id iv = organization_id)
         (btree_values s)))"

definition organization_invitation_by_token_hash ::
  "invitation_store \<Rightarrow> string \<Rightarrow> organization_invitation option" where
  "organization_invitation_by_token_hash s token_hash =
     find (\<lambda>iv. iv_invitation_token_hash iv = token_hash) (btree_values s)"

definition store_revoke_organization_invitation ::
  "string \<Rightarrow> i64 \<Rightarrow> i64 \<Rightarrow> invitation_store \<Rightarrow>
     (invitation_error + organization_invitation) \<times> invitation_store" where
  "store_revoke_organization_invitation invitation_id expected_version now_unix s =
     (case btree_get s invitation_id of
        None \<Rightarrow> (Inl IvInvalidInvitationId, s)
      | Some iv \<Rightarrow>
          if iv_resource_version iv \<noteq> expected_version then (Inl IvStaleResourceVersion, s)
          else if iv_status iv \<noteq> InvitationPending then (Inl InvitationNotPending, s)
          else
            (let iv' = iv\<lparr>iv_status := InvitationRevoked,
                   iv_resource_version := wrap_i64 (iv_resource_version iv + 1),
                   iv_updated_at_unix := now_unix\<rparr>
             in (Inr iv', btree_insert invitation_id iv' s)))"

definition accept_organization_invitation ::
  "accept_invitation_request \<Rightarrow> invitation_store \<Rightarrow>
     (invitation_error + organization_invitation) \<times> invitation_store" where
  "accept_organization_invitation request s =
     (case rbind (invitation_validate_prefixed_id (air_invitation_id request) ''inv_'' IvInvalidInvitationId) (\<lambda>_.
           rbind (invitation_validate_prefixed_id (air_principal_id request) ''usr_'' IvInvalidPrincipalId) (\<lambda>_.
           rbind (invitation_validate_prefixed_id (air_organization_member_id request) ''om_'' IvInvalidInvitationId) (\<lambda>_.
           rbind (case air_project_member_id request of None \<Rightarrow> Inr ()
                  | Some i \<Rightarrow> invitation_validate_prefixed_id i ''pm_'' IvInvalidInvitationId) (\<lambda>_.
           fail_if (air_accepted_at_unix request \<le> 0) IvInvalidTimestamp)))) of
        Inl e \<Rightarrow> (Inl e, s)
      | Inr _ \<Rightarrow>
          (case btree_get s (air_invitation_id request) of
             None \<Rightarrow> (Inl IvInvalidInvitationId, s)
           | Some iv \<Rightarrow>
               if \<not> platform_invitation_accepts_at (iv_status iv) (iv_expires_at_unix iv)
                     (air_accepted_at_unix request)
               then (Inl InvitationNotAccepting, s)
               else if iv_invited_principal_id iv \<noteq> Some (air_principal_id request)
               then (Inl InvitationPrincipalMismatch, s)
               else
                 (let iv' = iv\<lparr>iv_status := InvitationAccepted,
                        iv_accepted_at_unix := Some (air_accepted_at_unix request),
                        iv_resource_version := wrap_i64 (iv_resource_version iv + 1),
                        iv_updated_at_unix := air_accepted_at_unix request\<rparr>
                  in (Inr iv', btree_insert (air_invitation_id request) iv' s))))"

subsection \<open>Versions\<close>

interpretation role_binding_versions:
  optimistic_store btree_get rb_resource_version store_update_role_binding_status
  by unfold_locales
    (auto simp: store_update_role_binding_status_def Let_def result_simps
      split: if_splits option.splits)

interpretation invitation_versions:
  optimistic_store btree_get iv_resource_version store_revoke_organization_invitation
  by unfold_locales
    (auto simp: store_revoke_organization_invitation_def Let_def split: if_splits option.splits)

subsection \<open>Shape of the stores\<close>

definition role_binding_shape :: "role_binding \<Rightarrow> bool" where
  "role_binding_shape b \<longleftrightarrow> validate_role_binding (b\<lparr>rb_resource_version := 1\<rparr>) = Inr ()"

lemma role_binding_shape_validated: "validate_role_binding b = Inr u \<Longrightarrow> role_binding_shape b"
  by (auto simp: role_binding_shape_def validate_role_binding_def binding_built_in_role_def result_simps)

lemma role_binding_shape_update [simp]:
  "role_binding_shape (b\<lparr>rb_status := st, rb_resource_version := v\<rparr>) = role_binding_shape b"
  by (simp add: role_binding_shape_def validate_role_binding_def binding_built_in_role_def)

text \<open>
  An invitation names one target, a principal or an e-mail address, and an accepted one has its
  acceptance time.
\<close>

definition invitation_shape :: "organization_invitation \<Rightarrow> bool" where
  "invitation_shape iv \<longleftrightarrow>
     starts_with (iv_invitation_id iv) ''inv_'' \<and> starts_with (iv_tenant_id iv) ''ten_''
     \<and> starts_with (iv_organization_id iv) ''org_''
     \<and> is_none_or (iv_project_id iv) (\<lambda>p. starts_with p ''prj_'')
     \<and> is_none_or (iv_invited_principal_id iv) (\<lambda>p. starts_with p ''usr_'')
     \<and> (iv_invited_principal_id iv = None \<longrightarrow> iv_invited_email iv \<noteq> None)
     \<and> length (iv_invitation_token_hash iv) = 64
     \<and> (iv_status iv = InvitationAccepted \<longrightarrow> iv_accepted_at_unix iv \<noteq> None)"

lemma invitation_shape_validated: "validate_organization_invitation iv = Inr u \<Longrightarrow> invitation_shape iv"
  by (auto simp: validate_organization_invitation_def invitation_shape_def Let_def result_simps
    invitation_validate_prefixed_id_def is_none_or_iff is_some_and_iff split: option.splits)

abbreviation role_bindings_ok :: "role_binding_store \<Rightarrow> bool" where
  "role_bindings_ok \<equiv> store_ok rb_role_binding_id role_binding_shape"

abbreviation invitations_ok :: "invitation_store \<Rightarrow> bool" where
  "invitations_ok \<equiv> store_ok iv_invitation_id invitation_shape"

lemma record_role_binding_ok:
  "role_bindings_ok s \<Longrightarrow> record_role_binding b s = (x, s') \<Longrightarrow> role_bindings_ok s'"
  by (auto simp: record_role_binding_def split: sum.splits
    intro!: store_ok_insert role_binding_shape_validated)

lemma store_update_role_binding_status_ok:
  "role_bindings_ok s \<Longrightarrow> store_update_role_binding_status i v st s = (x, s') \<Longrightarrow> role_bindings_ok s'"
  by (auto simp: store_update_role_binding_status_def Let_def split: if_splits option.splits
    intro: store_ok_replace)

lemma delete_matching_bindings_ok:
  "role_bindings_ok s \<Longrightarrow> delete_matching_bindings hit s = (n, s') \<Longrightarrow> role_bindings_ok s'"
  by (auto simp: delete_matching_bindings_def intro!: store_ok_map_values)

lemma upsert_role_binding_ok:
  assumes ok: "role_bindings_ok s" and run: "upsert_role_binding request s = (x, s')"
  shows "role_bindings_ok s'"
proof (cases "find (\<lambda>b. rb_tenant_id b = rbu_tenant_id request
    \<and> rb_organization_id b = rbu_organization_id request \<and> rb_project_id b = rbu_project_id request
    \<and> rb_principal_id b = rbu_principal_id request \<and> rb_role_id b = rbu_role_id request) (btree_values s)")
  case None
  with ok run show ?thesis
    by (auto simp: upsert_role_binding_def Let_def split: sum.splits
      dest!: role_binding_shape_validated dest: store_ok_insert)
next
  case (Some existing)
  with ok run show ?thesis
    by (auto simp: upsert_role_binding_def Let_def split: option.splits if_splits
      intro: store_ok_replace)
qed

lemma store_create_organization_invitation_ok:
  "invitations_ok s \<Longrightarrow> store_create_organization_invitation iv s = (x, s') \<Longrightarrow> invitations_ok s'"
  by (auto simp: store_create_organization_invitation_def split: sum.splits
    intro!: store_ok_insert invitation_shape_validated)

lemma store_revoke_organization_invitation_ok:
  "invitations_ok s \<Longrightarrow> store_revoke_organization_invitation i v now s = (x, s') \<Longrightarrow> invitations_ok s'"
  by (auto simp: store_revoke_organization_invitation_def Let_def invitation_shape_def
    split: if_splits option.splits intro: store_ok_replace)

lemma accept_organization_invitation_ok:
  "invitations_ok s \<Longrightarrow> accept_organization_invitation request s = (x, s') \<Longrightarrow> invitations_ok s'"
  by (auto simp: accept_organization_invitation_def Let_def invitation_shape_def
    split: if_splits option.splits sum.splits intro: store_ok_replace)

subsection \<open>Behaviour\<close>

lemma upsert_role_binding_done:
  assumes "btree_keyed rb_role_binding_id s" and "upsert_role_binding request s = (Inr b, s')"
  shows "rb_tenant_id b = rbu_tenant_id request \<and> rb_organization_id b = rbu_organization_id request
    \<and> rb_project_id b = rbu_project_id request \<and> rb_principal_id b = rbu_principal_id request
    \<and> rb_role_id b = rbu_role_id request \<and> rb_status b = BindingActive
    \<and> btree_get s' (rb_role_binding_id b) = Some b
    \<and> (\<forall>j. j \<noteq> rb_role_binding_id b \<longrightarrow> btree_get s' j = btree_get s j)"
  using assms
  by (auto simp: upsert_role_binding_def Let_def result_simps
    dest!: find_value_keyed split: if_splits option.splits sum.splits prod.splits)

lemma delete_matching_leaves_none:
  assumes "delete_matching_bindings hit s = (n, s')" and "b \<in> set (btree_values s')"
    and "rb_status b = BindingActive"
  shows "b \<in> set (btree_values s) \<and> \<not> hit b"
  using assms by (auto simp: delete_matching_bindings_def split: if_splits)

text \<open>An accepted or revoked invitation is final for both operations.\<close>

lemma accept_done:
  assumes "accept_organization_invitation request s = (Inr iv, s')"
  shows "\<exists>iv0. btree_get s (air_invitation_id request) = Some iv0
      \<and> iv_status iv0 = InvitationPending
      \<and> iv_invited_principal_id iv0 = Some (air_principal_id request)
      \<and> air_accepted_at_unix request < iv_expires_at_unix iv0
      \<and> iv = iv0\<lparr>iv_status := InvitationAccepted,
          iv_accepted_at_unix := Some (air_accepted_at_unix request),
          iv_resource_version := wrap_i64 (iv_resource_version iv0 + 1),
          iv_updated_at_unix := air_accepted_at_unix request\<rparr>
      \<and> s' = btree_insert (air_invitation_id request) iv s"
  using assms
  by (auto simp: accept_organization_invitation_def platform_invitation_accepts_at_def Let_def
    split: if_splits option.splits sum.splits)

lemma accept_needs_pending:
  assumes "btree_get s (air_invitation_id request) = Some iv" and "iv_status iv \<noteq> InvitationPending"
  shows "\<exists>e. accept_organization_invitation request s = (Inl e, s)"
  using assms
  by (auto simp: accept_organization_invitation_def platform_invitation_accepts_at_def
    split: sum.splits)

end
