(* ===== verification/Platform_Auth.thy ===== *)
theory Platform_Auth
  imports Platform_Binding
begin

text \<open>
  Authentication and audit of the platform (\<open>crates/starweaver-platform/src/auth.rs\<close> and
  \<open>audit.rs\<close>): sessions and bearer credentials stored under the hash of their token, mTLS identities
  stored under their subject, and the audit events. SHA-256 is the argument \<open>sha256\<close>.
\<close>

subsection \<open>Errors and statuses\<close>

datatype auth_error =
    EmptySessionId | EmptyTokenHash | EmptyCredentialId | EmptyCredentialTokenHash
  | EmptyBearerToken | EmptyMtlsIdentityId | EmptyMtlsSubject | SessionNotFound
  | CredentialNotFound | MtlsIdentityNotFound | SessionRevoked | CredentialRevoked
  | MtlsIdentityRevoked | SessionExpired | CredentialExpired | MtlsIdentityExpired
  | CredentialDisabled | MtlsIdentityDisabled | PrincipalDisabled

fun auth_error_str :: "auth_error \<Rightarrow> string" where
  "auth_error_str EmptySessionId = ''session_id_empty''"
| "auth_error_str EmptyTokenHash = ''session_token_hash_empty''"
| "auth_error_str EmptyCredentialId = ''credential_id_empty''"
| "auth_error_str EmptyCredentialTokenHash = ''credential_token_hash_empty''"
| "auth_error_str EmptyBearerToken = ''bearer_token_empty''"
| "auth_error_str EmptyMtlsIdentityId = ''mtls_identity_id_empty''"
| "auth_error_str EmptyMtlsSubject = ''mtls_subject_empty''"
| "auth_error_str SessionNotFound = ''auth_session_not_found''"
| "auth_error_str CredentialNotFound = ''bearer_credential_not_found''"
| "auth_error_str MtlsIdentityNotFound = ''mtls_identity_not_found''"
| "auth_error_str SessionRevoked = ''auth_session_revoked''"
| "auth_error_str CredentialRevoked = ''bearer_credential_revoked''"
| "auth_error_str MtlsIdentityRevoked = ''mtls_identity_revoked''"
| "auth_error_str SessionExpired = ''auth_session_expired''"
| "auth_error_str CredentialExpired = ''bearer_credential_expired''"
| "auth_error_str MtlsIdentityExpired = ''mtls_identity_expired''"
| "auth_error_str CredentialDisabled = ''bearer_credential_disabled''"
| "auth_error_str MtlsIdentityDisabled = ''mtls_identity_disabled''"
| "auth_error_str PrincipalDisabled = ''principal_disabled''"

datatype session_status =
  SessionStatusActive | SessionStatusRevoked | SessionStatusExpired | SessionStatusPrincipalDisabled

datatype bearer_credential_kind = BearerApiKey | BearerServiceToken

datatype bearer_credential_status =
  BearerActive | BearerDisabled | BearerRevoked | BearerExpired | BearerPrincipalDisabled

datatype mtls_identity_status =
  MtlsActive | MtlsDisabled | MtlsRevoked | MtlsExpired | MtlsPrincipalDisabled

fun session_status_str :: "session_status \<Rightarrow> string" where
  "session_status_str SessionStatusActive = ''active''"
| "session_status_str SessionStatusRevoked = ''revoked''"
| "session_status_str SessionStatusExpired = ''expired''"
| "session_status_str SessionStatusPrincipalDisabled = ''principal_disabled''"

subsection \<open>Records\<close>

record bearer_credential =
  bc_credential_id :: string
  bc_credential_kind :: bearer_credential_kind
  bc_token_hash :: string
  bc_actor :: platform_actor
  bc_status :: bearer_credential_status

record platform_session =
  ses_session_id :: string
  ses_token_hash :: string
  ses_actor :: platform_actor
  ses_status :: session_status

record mtls_identity =
  mt_identity_id :: string
  mt_subject :: string
  mt_actor :: platform_actor
  mt_status :: mtls_identity_status

type_synonym session_store = "platform_session btree"
type_synonym bearer_credential_store = "bearer_credential btree"
type_synonym mtls_identity_store = "mtls_identity btree"

definition hash_session_token :: "(string \<Rightarrow> string) \<Rightarrow> string \<Rightarrow> string" where
  "hash_session_token sha256 raw_token =
     lower_hex (sha256 (''starweaver-platform-session-v1'' @ [CHR 0x00] @ raw_token))"

definition hash_bearer_credential_token :: "(string \<Rightarrow> string) \<Rightarrow> string \<Rightarrow> string" where
  "hash_bearer_credential_token sha256 raw_token =
     lower_hex (sha256 (''starweaver-platform-bearer-credential-v1'' @ [CHR 0x00] @ raw_token))"

definition active_bearer_credential ::
  "(string \<Rightarrow> string) \<Rightarrow> string \<Rightarrow> bearer_credential_kind \<Rightarrow> string \<Rightarrow> platform_actor \<Rightarrow> bearer_credential" where
  "active_bearer_credential sha256 credential_id kind raw_token actor =
     \<lparr>bc_credential_id = credential_id, bc_credential_kind = kind,
      bc_token_hash = hash_bearer_credential_token sha256 raw_token,
      bc_actor = actor, bc_status = BearerActive\<rparr>"

definition active_session ::
  "(string \<Rightarrow> string) \<Rightarrow> string \<Rightarrow> string \<Rightarrow> platform_actor \<Rightarrow> platform_session" where
  "active_session sha256 session_id raw_token actor =
     \<lparr>ses_session_id = session_id, ses_token_hash = hash_session_token sha256 raw_token,
      ses_actor = actor, ses_status = SessionStatusActive\<rparr>"

definition active_mtls_identity :: "string \<Rightarrow> string \<Rightarrow> platform_actor \<Rightarrow> mtls_identity" where
  "active_mtls_identity identity_id subject actor =
     \<lparr>mt_identity_id = identity_id, mt_subject = subject, mt_actor = actor, mt_status = MtlsActive\<rparr>"

subsection \<open>Sessions\<close>

definition validate_session_record :: "platform_session \<Rightarrow> auth_error + unit" where
  "validate_session_record r =
     rbind (fail_if (trim (ses_session_id r) = '''') EmptySessionId) (\<lambda>_.
     fail_if (trim (ses_token_hash r) = '''') EmptyTokenHash)"

definition record_auth_session ::
  "platform_session \<Rightarrow> session_store \<Rightarrow> (auth_error + unit) \<times> session_store" where
  "record_auth_session r s =
     (case validate_session_record r of
        Inl e \<Rightarrow> (Inl e, s)
      | Inr _ \<Rightarrow> (Inr (), btree_insert (ses_token_hash r) r s))"

text \<open>The error of a session that is not active, shared by every operation on a session.\<close>

fun session_status_error :: "session_status \<Rightarrow> auth_error option" where
  "session_status_error SessionStatusActive = None"
| "session_status_error SessionStatusRevoked = Some SessionRevoked"
| "session_status_error SessionStatusExpired = Some SessionExpired"
| "session_status_error SessionStatusPrincipalDisabled = Some PrincipalDisabled"

definition active_session_record :: "platform_session \<Rightarrow> auth_error + platform_session" where
  "active_session_record r =
     (case session_status_error (ses_status r) of None \<Rightarrow> Inr r | Some e \<Rightarrow> Inl e)"

definition auth_sessions_for_principal ::
  "session_store \<Rightarrow> string \<Rightarrow> string \<Rightarrow> platform_session list" where
  "auth_sessions_for_principal s tenant_id principal_id =
     filter (\<lambda>r. pa_tenant_id (ses_actor r) = tenant_id
       \<and> pa_principal_id (ses_actor r) = principal_id) (btree_values s)"

definition auth_session_with_id :: "session_store \<Rightarrow> string \<Rightarrow> platform_session option" where
  "auth_session_with_id s session_id = find (\<lambda>r. ses_session_id r = session_id) (btree_values s)"

definition auth_session_for_bearer ::
  "(string \<Rightarrow> string) \<Rightarrow> session_store \<Rightarrow> string \<Rightarrow> auth_error + platform_session" where
  "auth_session_for_bearer sha256 s raw_bearer =
     (let raw = trim raw_bearer
      in rbind (fail_if (raw = '''') EmptyBearerToken) (\<lambda>_.
         rbind (ok_or SessionNotFound (btree_get s (hash_session_token sha256 raw)))
           active_session_record))"

definition authenticated_actor_for_bearer ::
  "(string \<Rightarrow> string) \<Rightarrow> session_store \<Rightarrow> string \<Rightarrow> auth_error + platform_actor" where
  "authenticated_actor_for_bearer sha256 s raw_bearer =
     rbind (auth_session_for_bearer sha256 s raw_bearer) (\<lambda>r. Inr (ses_actor r))"

text \<open>The session stored under the hash of a token is changed when it is active.\<close>

definition change_session_by_bearer ::
  "(string \<Rightarrow> string) \<Rightarrow> (platform_session \<Rightarrow> platform_session) \<Rightarrow> string \<Rightarrow> session_store \<Rightarrow>
     (auth_error + platform_session) \<times> session_store" where
  "change_session_by_bearer sha256 change raw_bearer s =
     (let raw = trim raw_bearer; token_hash = hash_session_token sha256 raw
      in if raw = '''' then (Inl EmptyBearerToken, s)
         else case btree_get s token_hash of
                None \<Rightarrow> (Inl SessionNotFound, s)
              | Some r \<Rightarrow>
                  (case session_status_error (ses_status r) of
                     Some e \<Rightarrow> (Inl e, s)
                   | None \<Rightarrow> (Inr (change r), btree_insert token_hash (change r) s)))"

definition revoke_auth_session_by_bearer ::
  "(string \<Rightarrow> string) \<Rightarrow> string \<Rightarrow> session_store \<Rightarrow> (auth_error + platform_session) \<times> session_store" where
  "revoke_auth_session_by_bearer sha256 =
     change_session_by_bearer sha256 (\<lambda>r. r\<lparr>ses_status := SessionStatusRevoked\<rparr>)"

definition update_auth_session_context_by_bearer ::
  "(string \<Rightarrow> string) \<Rightarrow> string option \<Rightarrow> string option \<Rightarrow> string \<Rightarrow> session_store \<Rightarrow>
     (auth_error + platform_session) \<times> session_store" where
  "update_auth_session_context_by_bearer sha256 organization_id project_id =
     change_session_by_bearer sha256 (\<lambda>r. r\<lparr>ses_actor := (ses_actor r)
       \<lparr>pa_organization_id := organization_id, pa_project_id := project_id\<rparr>\<rparr>)"

text \<open>
  \<open>revoke_auth_session_by_id\<close> changes the first session in hash order that has the id.
\<close>

definition store_revoke_auth_session_by_id ::
  "string \<Rightarrow> session_store \<Rightarrow> (auth_error + platform_session) \<times> session_store" where
  "store_revoke_auth_session_by_id session_id s =
     (let sid = trim session_id
      in if sid = '''' then (Inl EmptySessionId, s)
         else case find (\<lambda>(k, r). ses_session_id r = sid) s of
                None \<Rightarrow> (Inl SessionNotFound, s)
              | Some (k, r) \<Rightarrow>
                  (case session_status_error (ses_status r) of
                     Some e \<Rightarrow> (Inl e, s)
                   | None \<Rightarrow>
                       (let r' = r\<lparr>ses_status := SessionStatusRevoked\<rparr>
                        in (Inr r', btree_insert k r' s))))"

definition store_disable_auth_sessions_for_principal ::
  "string \<Rightarrow> string \<Rightarrow> session_store \<Rightarrow> nat \<times> session_store" where
  "store_disable_auth_sessions_for_principal tenant_id principal_id s =
     (let hit = (\<lambda>r. pa_tenant_id (ses_actor r) = tenant_id
            \<and> pa_principal_id (ses_actor r) = principal_id \<and> ses_status r = SessionStatusActive)
      in (length (filter hit (btree_values s)),
          btree_map_values (\<lambda>r. if hit r
            then r\<lparr>ses_status := SessionStatusPrincipalDisabled\<rparr> else r) s))"

subsection \<open>Bearer credentials and mTLS identities\<close>

definition record_bearer_credential ::
  "bearer_credential \<Rightarrow> bearer_credential_store \<Rightarrow> (auth_error + unit) \<times> bearer_credential_store" where
  "record_bearer_credential r s =
     (case rbind (fail_if (trim (bc_credential_id r) = '''') EmptyCredentialId) (\<lambda>_.
           fail_if (trim (bc_token_hash r) = '''') EmptyCredentialTokenHash) of
        Inl e \<Rightarrow> (Inl e, s)
      | Inr _ \<Rightarrow> (Inr (), btree_insert (bc_token_hash r) r s))"

definition authenticated_actor_for_bearer_credential ::
  "(string \<Rightarrow> string) \<Rightarrow> bearer_credential_store \<Rightarrow> string \<Rightarrow> auth_error + platform_actor" where
  "authenticated_actor_for_bearer_credential sha256 s raw_bearer =
     (let raw = trim raw_bearer
      in rbind (fail_if (raw = '''') EmptyBearerToken) (\<lambda>_.
         rbind (ok_or CredentialNotFound (btree_get s (hash_bearer_credential_token sha256 raw)))
           (\<lambda>r. case bc_status r of
                  BearerActive \<Rightarrow> Inr (bc_actor r)
                | BearerDisabled \<Rightarrow> Inl CredentialDisabled
                | BearerRevoked \<Rightarrow> Inl CredentialRevoked
                | BearerExpired \<Rightarrow> Inl CredentialExpired
                | BearerPrincipalDisabled \<Rightarrow> Inl PrincipalDisabled)))"

definition record_mtls_identity ::
  "mtls_identity \<Rightarrow> mtls_identity_store \<Rightarrow> (auth_error + unit) \<times> mtls_identity_store" where
  "record_mtls_identity r s =
     (case rbind (fail_if (trim (mt_identity_id r) = '''') EmptyMtlsIdentityId) (\<lambda>_.
           fail_if (trim (mt_subject r) = '''') EmptyMtlsSubject) of
        Inl e \<Rightarrow> (Inl e, s)
      | Inr _ \<Rightarrow> (Inr (), btree_insert (mt_subject r) r s))"

definition authenticated_actor_for_mtls_subject ::
  "mtls_identity_store \<Rightarrow> string \<Rightarrow> auth_error + platform_actor" where
  "authenticated_actor_for_mtls_subject s subject =
     (let sub = trim subject
      in rbind (fail_if (sub = '''') EmptyMtlsSubject) (\<lambda>_.
         rbind (ok_or MtlsIdentityNotFound (btree_get s sub))
           (\<lambda>r. case mt_status r of
                  MtlsActive \<Rightarrow> Inr (mt_actor r)
                | MtlsDisabled \<Rightarrow> Inl MtlsIdentityDisabled
                | MtlsRevoked \<Rightarrow> Inl MtlsIdentityRevoked
                | MtlsExpired \<Rightarrow> Inl MtlsIdentityExpired
                | MtlsPrincipalDisabled \<Rightarrow> Inl PrincipalDisabled)))"

subsection \<open>Audit events\<close>

definition PLATFORM_AUDIT_REDACTION_PROFILE :: string where
  "PLATFORM_AUDIT_REDACTION_PROFILE = ''platform.audit.redaction.v1''"

datatype platform_audit_error =
    AuInvalidAuditEventId | AuInvalidTenantId | AuInvalidOrganizationId | AuInvalidProjectId
  | AuInvalidPrincipalId | AuInvalidActionId | AuInvalidResourceKind | AuInvalidResourceId
  | AuInvalidEventType | AuInvalidReason | AuInvalidRedaction | AuInvalidTimestamp

fun platform_audit_error_str :: "platform_audit_error \<Rightarrow> string" where
  "platform_audit_error_str AuInvalidAuditEventId = ''audit_event_id_invalid''"
| "platform_audit_error_str AuInvalidTenantId = ''tenant_id_invalid''"
| "platform_audit_error_str AuInvalidOrganizationId = ''organization_id_invalid''"
| "platform_audit_error_str AuInvalidProjectId = ''project_id_invalid''"
| "platform_audit_error_str AuInvalidPrincipalId = ''principal_id_invalid''"
| "platform_audit_error_str AuInvalidActionId = ''audit_action_id_invalid''"
| "platform_audit_error_str AuInvalidResourceKind = ''audit_resource_kind_invalid''"
| "platform_audit_error_str AuInvalidResourceId = ''audit_resource_id_invalid''"
| "platform_audit_error_str AuInvalidEventType = ''audit_event_type_invalid''"
| "platform_audit_error_str AuInvalidReason = ''audit_reason_invalid''"
| "platform_audit_error_str AuInvalidRedaction = ''audit_redaction_invalid''"
| "platform_audit_error_str AuInvalidTimestamp = ''audit_timestamp_invalid''"

record platform_audit_event =
  pau_audit_event_id :: string
  pau_tenant_id :: string
  pau_organization_id :: "string option"
  pau_project_id :: "string option"
  pau_actor_principal_id :: string
  pau_actor_kind :: platform_actor_kind
  pau_action_id :: string
  pau_resource_kind :: string
  pau_resource_id :: string
  pau_event_type :: string
  pau_reason :: "string option"
  pau_redaction :: string
  pau_created_at_unix :: i64

type_synonym audit_store = "platform_audit_event btree"

definition audit_validate_principal_id :: "string \<Rightarrow> platform_audit_error + unit" where
  "audit_validate_principal_id value_str =
     (let v = trim value_str
      in fail_if (length v \<le> 4
           \<or> \<not> (starts_with v ''usr_'' \<or> starts_with v ''svc_'' \<or> starts_with v ''sys_''))
         AuInvalidPrincipalId)"

definition audit_validate_prefixed_id :: "string \<Rightarrow> string \<Rightarrow> 'e \<Rightarrow> 'e + unit" where
  "audit_validate_prefixed_id value_str prefix error =
     (let v = trim value_str
      in fail_if (length v \<le> length prefix \<or> \<not> starts_with v prefix) error)"

definition audit_validate_non_empty :: "string \<Rightarrow> 'e \<Rightarrow> 'e + unit" where
  "audit_validate_non_empty value_str error = fail_if (trim value_str = '''') error"

definition validate_platform_audit_event_record :: "platform_audit_event \<Rightarrow> platform_audit_error + unit" where
  "validate_platform_audit_event_record r =
     rbind (audit_validate_prefixed_id (pau_audit_event_id r) ''audit_'' AuInvalidAuditEventId) (\<lambda>_.
     rbind (audit_validate_prefixed_id (pau_tenant_id r) ''ten_'' AuInvalidTenantId) (\<lambda>_.
     rbind (case pau_organization_id r of None \<Rightarrow> Inr ()
            | Some i \<Rightarrow> audit_validate_prefixed_id i ''org_'' AuInvalidOrganizationId) (\<lambda>_.
     rbind (case pau_project_id r of None \<Rightarrow> Inr ()
            | Some i \<Rightarrow> rbind (audit_validate_prefixed_id i ''prj_'' AuInvalidProjectId)
                (\<lambda>_. fail_if (pau_organization_id r = None) AuInvalidProjectId)) (\<lambda>_.
     rbind (audit_validate_principal_id (pau_actor_principal_id r)) (\<lambda>_.
     rbind (audit_validate_non_empty (pau_action_id r) AuInvalidActionId) (\<lambda>_.
     rbind (audit_validate_non_empty (pau_resource_kind r) AuInvalidResourceKind) (\<lambda>_.
     rbind (audit_validate_non_empty (pau_resource_id r) AuInvalidResourceId) (\<lambda>_.
     rbind (audit_validate_non_empty (pau_event_type r) AuInvalidEventType) (\<lambda>_.
     rbind (case pau_reason r of None \<Rightarrow> Inr ()
            | Some reason \<Rightarrow> audit_validate_non_empty reason AuInvalidReason) (\<lambda>_.
     rbind (audit_validate_non_empty (pau_redaction r) AuInvalidRedaction) (\<lambda>_.
     fail_if (pau_created_at_unix r \<le> 0) AuInvalidTimestamp)))))))))))"

definition record_audit_event ::
  "platform_audit_event \<Rightarrow> audit_store \<Rightarrow> (platform_audit_error + unit) \<times> audit_store" where
  "record_audit_event r s =
     (case validate_platform_audit_event_record r of
        Inl e \<Rightarrow> (Inl e, s)
      | Inr _ \<Rightarrow> (Inr (), btree_insert (pau_audit_event_id r) r s))"

definition audit_events_for_tenant :: "audit_store \<Rightarrow> string \<Rightarrow> platform_audit_event list" where
  "audit_events_for_tenant s tenant_id =
     filter (\<lambda>e. pau_tenant_id e = tenant_id) (btree_values s)"

subsection \<open>Shape of the stores\<close>

definition session_shape :: "platform_session \<Rightarrow> bool" where
  "session_shape r \<longleftrightarrow> trim (ses_session_id r) \<noteq> '''' \<and> trim (ses_token_hash r) \<noteq> ''''"

lemma session_shape_update [simp]:
  "session_shape (r\<lparr>ses_status := st\<rparr>) = session_shape r"
  "session_shape (r\<lparr>ses_actor := ac\<rparr>) = session_shape r"
  by (simp_all add: session_shape_def)

abbreviation sessions_ok :: "session_store \<Rightarrow> bool" where
  "sessions_ok \<equiv> store_ok ses_token_hash session_shape"

abbreviation audits_ok :: "audit_store \<Rightarrow> bool" where
  "audits_ok \<equiv> store_ok pau_audit_event_id
     (\<lambda>e. validate_platform_audit_event_record e = Inr ())"

lemma record_auth_session_ok:
  "sessions_ok s \<Longrightarrow> record_auth_session r s = (x, s') \<Longrightarrow> sessions_ok s'"
  by (auto simp: record_auth_session_def validate_session_record_def session_shape_def result_simps
    split: sum.splits intro!: store_ok_insert)

lemma change_session_by_bearer_ok:
  assumes ok: "sessions_ok s" and run: "change_session_by_bearer sha256 change raw s = (x, s')"
    and keeps: "\<And>r. session_shape (change r) = session_shape r"
      "\<And>r. ses_token_hash (change r) = ses_token_hash r"
  shows "sessions_ok s'"
proof -
  have "s' = s \<or> (\<exists>r k. btree_get s k = Some r \<and> s' = btree_insert k (change r) s)"
    using run by (auto simp: change_session_by_bearer_def Let_def split: if_splits option.splits)
  then show ?thesis using ok keeps by (auto intro: store_ok_replace)
qed

lemma revoke_auth_session_by_bearer_ok:
  "sessions_ok s \<Longrightarrow> revoke_auth_session_by_bearer sha256 raw s = (x, s') \<Longrightarrow> sessions_ok s'"
  unfolding revoke_auth_session_by_bearer_def by (erule (1) change_session_by_bearer_ok) simp_all

lemma update_auth_session_context_by_bearer_ok:
  "sessions_ok s \<Longrightarrow> update_auth_session_context_by_bearer sha256 org prj raw s = (x, s') \<Longrightarrow>
     sessions_ok s'"
  unfolding update_auth_session_context_by_bearer_def by (erule (1) change_session_by_bearer_ok) simp_all

lemma find_entry:
  assumes "find P m = Some (k, v)" and "distinct (map fst m)"
  shows "map_of m k = Some v"
proof -
  from assms(1) have "(k, v) \<in> set m" by (auto simp: find_Some_iff)
  with assms(2) show ?thesis by simp
qed

lemma store_revoke_auth_session_by_id_ok:
  assumes "sessions_ok s" and "store_revoke_auth_session_by_id i s = (x, s')"
  shows "sessions_ok s'"
proof (cases "find (\<lambda>(k, r). ses_session_id r = trim i) s")
  case None
  with assms show ?thesis by (auto simp: store_revoke_auth_session_by_id_def Let_def split: if_splits)
next
  case (Some e)
  obtain k r where e: "e = (k, r)" by fastforce
  have "btree_get s k = Some r"
    using Some e find_entry assms(1) by (metis btree_keyed_distinct store_ok_keyed)
  with assms Some e show ?thesis
    by (auto simp: store_revoke_auth_session_by_id_def Let_def split: if_splits option.splits
      intro: store_ok_replace)
qed

lemma store_disable_auth_sessions_for_principal_ok:
  "sessions_ok s \<Longrightarrow> store_disable_auth_sessions_for_principal t p s = (n, s') \<Longrightarrow> sessions_ok s'"
  by (auto simp: store_disable_auth_sessions_for_principal_def Let_def
    split: if_splits intro!: store_ok_map_values)

lemma record_audit_event_ok: "audits_ok s \<Longrightarrow> record_audit_event r s = (x, s') \<Longrightarrow> audits_ok s'"
  by (auto simp: record_audit_event_def split: sum.splits intro!: store_ok_insert)

subsection \<open>Behaviour\<close>

lemma session_status_error_None [simp]:
  "session_status_error st = None \<longleftrightarrow> st = SessionStatusActive"
  by (cases st) simp_all

lemma auth_session_for_bearer_Inr:
  "auth_session_for_bearer sha256 s raw = Inr r \<longleftrightarrow>
     trim raw \<noteq> '''' \<and> btree_get s (hash_session_token sha256 (trim raw)) = Some r
     \<and> ses_status r = SessionStatusActive"
  by (auto simp: auth_session_for_bearer_def active_session_record_def Let_def result_simps
    split: option.splits)

text \<open>After the sessions of a principal are disabled, no token of its sessions authenticates.\<close>

lemma disabled_sessions_refused:
  assumes "store_disable_auth_sessions_for_principal t p s = (n, s')"
    and "auth_session_for_bearer sha256 s' raw = Inr r"
  shows "\<not> (pa_tenant_id (ses_actor r) = t \<and> pa_principal_id (ses_actor r) = p)"
proof -
  define hit where "hit r \<longleftrightarrow> pa_tenant_id (ses_actor r) = t
    \<and> pa_principal_id (ses_actor r) = p \<and> ses_status r = SessionStatusActive" for r :: platform_session
  have "s' = btree_map_values (\<lambda>r. if hit r
      then r\<lparr>ses_status := SessionStatusPrincipalDisabled\<rparr> else r) s"
    using assms(1) by (simp add: store_disable_auth_sessions_for_principal_def Let_def hit_def)
  then obtain r0 where "r = (if hit r0 then r0\<lparr>ses_status := SessionStatusPrincipalDisabled\<rparr> else r0)"
    using assms(2) by (auto simp: auth_session_for_bearer_Inr)
  moreover have "ses_status r = SessionStatusActive"
    using assms(2) by (simp add: auth_session_for_bearer_Inr)
  ultimately show ?thesis by (cases "hit r0") (auto simp: hit_def)
qed

text \<open>Revocation is final: no operation on the session by its token succeeds afterwards.\<close>

lemma revoked_session_refused:
  assumes run: "revoke_auth_session_by_bearer sha256 raw s = (Inr r, s')" and raw': "trim raw' = trim raw"
  shows "auth_session_for_bearer sha256 s' raw' = Inl SessionRevoked"
    and "change_session_by_bearer sha256 change raw' s' = (Inl SessionRevoked, s')"
proof -
  have "trim raw \<noteq> []" "\<exists>r. btree_get s' (hash_session_token sha256 (trim raw)) = Some r
      \<and> ses_status r = SessionStatusRevoked"
    using run
    by (auto simp: revoke_auth_session_by_bearer_def change_session_by_bearer_def Let_def
      split: if_splits option.splits)
  then show "auth_session_for_bearer sha256 s' raw' = Inl SessionRevoked"
    and "change_session_by_bearer sha256 change raw' s' = (Inl SessionRevoked, s')"
    by (auto simp: raw' change_session_by_bearer_def auth_session_for_bearer_def
      active_session_record_def Let_def)
qed

end
