(* ===== verification/Platform_Identity.thy ===== *)
theory Platform_Identity
  imports Platform_Auth
begin

text \<open>
  Identity of the platform (\<open>crates/starweaver-platform/src/identity.rs\<close>): external
  identities, OIDC login providers, login attempts that keep only hashes of the browser's secrets,
  and the validation of provider metadata and of ID tokens. The JWT library is an argument.
\<close>

subsection \<open>External identities\<close>

datatype external_identity_status = IdentityActive | IdentityDisabled | IdentityDeleted

fun external_identity_status_str :: "external_identity_status \<Rightarrow> string" where
  "external_identity_status_str IdentityActive = ''active''"
| "external_identity_status_str IdentityDisabled = ''disabled''"
| "external_identity_status_str IdentityDeleted = ''deleted''"

record external_identity =
  xi_external_identity_id :: string
  xi_tenant_id :: string
  xi_principal_id :: string
  xi_identity_provider_id :: string
  xi_provider_kind :: string
  xi_provider_subject :: string
  xi_email :: "string option"
  xi_email_verified :: bool
  xi_status :: external_identity_status

datatype external_identity_error =
    XiInvalidExternalIdentityId | XiInvalidTenantId | XiInvalidPrincipalId | XiInvalidProviderId
  | XiInvalidProviderKind | XiSubjectRequired | XiInvalidEmail | XiInvalidStatus
  | XiPrincipalMismatch

fun external_identity_error_str :: "external_identity_error \<Rightarrow> string" where
  "external_identity_error_str XiInvalidExternalIdentityId = ''external_identity_id_invalid''"
| "external_identity_error_str XiInvalidTenantId = ''tenant_id_invalid''"
| "external_identity_error_str XiInvalidPrincipalId = ''principal_id_invalid''"
| "external_identity_error_str XiInvalidProviderId = ''identity_provider_id_invalid''"
| "external_identity_error_str XiInvalidProviderKind = ''provider_kind_invalid''"
| "external_identity_error_str XiSubjectRequired = ''provider_subject_required''"
| "external_identity_error_str XiInvalidEmail = ''email_invalid''"
| "external_identity_error_str XiInvalidStatus = ''external_identity_status_invalid''"
| "external_identity_error_str XiPrincipalMismatch = ''external_identity_principal_mismatch''"

type_synonym external_identity_store = "external_identity btree"

definition identity_validate_prefixed :: "string \<Rightarrow> string \<Rightarrow> 'e \<Rightarrow> 'e + unit" where
  "identity_validate_prefixed value_str prefix error =
     fail_if (\<not> (starts_with value_str prefix \<and> length prefix < length value_str)) error"

definition validate_external_identity :: "external_identity \<Rightarrow> external_identity_error + unit" where
  "validate_external_identity r =
     rbind (identity_validate_prefixed (xi_external_identity_id r) ''xid_'' XiInvalidExternalIdentityId) (\<lambda>_.
     rbind (identity_validate_prefixed (xi_tenant_id r) ''ten_'' XiInvalidTenantId) (\<lambda>_.
     rbind (identity_validate_prefixed (xi_principal_id r) ''usr_'' XiInvalidPrincipalId) (\<lambda>_.
     rbind (identity_validate_prefixed (xi_identity_provider_id r) ''idp_'' XiInvalidProviderId) (\<lambda>_.
     rbind (fail_if (\<not> (xi_provider_kind r = ''oidc'' \<or> xi_provider_kind r = ''single_user''))
              XiInvalidProviderKind) (\<lambda>_.
     rbind (fail_if (trim (xi_provider_subject r) = '''') XiSubjectRequired) (\<lambda>_.
     fail_if (is_some_and (xi_email r) (\<lambda>email. let e = trim email
                in e = '''' \<or> \<not> contains_str e ''@'' \<or> starts_with e ''@'' \<or> ends_with e ''@''))
       XiInvalidEmail))))))"

definition record_external_identity ::
  "external_identity \<Rightarrow> external_identity_store \<Rightarrow>
     (external_identity_error + unit) \<times> external_identity_store" where
  "record_external_identity r s =
     (case validate_external_identity r of
        Inl e \<Rightarrow> (Inl e, s)
      | Inr _ \<Rightarrow> (Inr (), btree_insert (xi_external_identity_id r) r s))"

definition same_provider_subject :: "external_identity \<Rightarrow> external_identity \<Rightarrow> bool" where
  "same_provider_subject r existing \<longleftrightarrow>
     xi_tenant_id existing = xi_tenant_id r
     \<and> xi_identity_provider_id existing = xi_identity_provider_id r
     \<and> xi_provider_subject existing = xi_provider_subject r"

definition upsert_external_identity ::
  "external_identity \<Rightarrow> external_identity_store \<Rightarrow>
     (external_identity_error + external_identity) \<times> external_identity_store" where
  "upsert_external_identity r s =
     (case validate_external_identity r of
        Inl e \<Rightarrow> (Inl e, s)
      | Inr _ \<Rightarrow>
          (let (written, s') =
             (case find (same_provider_subject r) (btree_values s) of
                Some found \<Rightarrow>
                  (case btree_get s (xi_external_identity_id found) of
                     None \<Rightarrow> (Inl XiInvalidExternalIdentityId, s)
                   | Some existing \<Rightarrow>
                       if xi_principal_id existing \<noteq> xi_principal_id r
                       then (Inl XiPrincipalMismatch, s)
                       else
                         (let existing' = existing\<lparr>xi_provider_kind := xi_provider_kind r,
                                xi_email := xi_email r, xi_email_verified := xi_email_verified r,
                                xi_status := IdentityActive\<rparr>
                          in (Inr existing',
                              btree_insert (xi_external_identity_id found) existing' s)))
              | None \<Rightarrow> (Inr r, btree_insert (xi_external_identity_id r) r s))
           in (rbind written (\<lambda>u. rbind (validate_external_identity u) (\<lambda>_. Inr u)), s')))"

definition external_identities_for_principal ::
  "external_identity_store \<Rightarrow> string \<Rightarrow> string \<Rightarrow> external_identity list" where
  "external_identities_for_principal s tenant_id principal_id =
     sort_key xi_external_identity_id
       (filter (\<lambda>r. xi_tenant_id r = tenant_id \<and> xi_principal_id r = principal_id
          \<and> xi_status r \<noteq> IdentityDeleted) (btree_values s))"

definition store_unlink_external_identity ::
  "string \<Rightarrow> external_identity_store \<Rightarrow>
     (external_identity_error + external_identity) \<times> external_identity_store" where
  "store_unlink_external_identity external_identity_id s =
     (case btree_get s external_identity_id of
        None \<Rightarrow> (Inl XiInvalidExternalIdentityId, s)
      | Some r \<Rightarrow>
          (let r' = r\<lparr>xi_status := IdentityDeleted\<rparr>
           in (rbind (validate_external_identity r') (\<lambda>_. Inr r'),
               btree_insert external_identity_id r' s)))"

subsection \<open>Login providers\<close>

datatype oidc_error =
    OidcInvalidProviderId | OidcInvalidTenantId | OidcInvalidLoginAttemptId
  | OidcInvalidOrganizationId | OidcInvalidProjectId | OidcInvalidUserId
  | OidcInvalidExternalIdentityId | OidcInvalidMembershipId | OidcInvalidRoleBindingId
  | OidcDisplayNameRequired | OidcInvalidIssuerUrl | OidcInvalidAuthorizationEndpoint
  | OidcInvalidTokenEndpoint | OidcInvalidJwksUri | OidcDiscoveryIssuerMismatch
  | OidcUnsupportedSigningAlgorithm | OidcSigningKeyNotFound | OidcInvalidIdToken
  | OidcClientIdRequired | OidcInvalidClientSecretRef | OidcInvalidTokenEndpointAuthMethod
  | OidcInvalidRedirectUri | OidcOpenIdScopeRequired | OidcAudienceRequired
  | OidcProviderInactive | OidcEmptyState | OidcEmptyNonce | OidcEmptyPkceVerifier
  | OidcInvalidStateHash | OidcInvalidNonceHash | OidcInvalidPkceVerifierHash
  | OidcInvalidAttemptExpiry | OidcConsumedAtRequired | OidcConsumedAtUnexpected
  | OidcIssuerMismatch | OidcSubjectRequired | OidcAudienceMismatch | OidcNonceMismatch
  | OidcTokenExpired

fun oidc_error_str :: "oidc_error \<Rightarrow> string" where
  "oidc_error_str OidcInvalidProviderId = ''oidc_provider_id_invalid''"
| "oidc_error_str OidcInvalidTenantId = ''oidc_tenant_id_invalid''"
| "oidc_error_str OidcInvalidLoginAttemptId = ''oidc_login_attempt_id_invalid''"
| "oidc_error_str OidcInvalidOrganizationId = ''oidc_organization_id_invalid''"
| "oidc_error_str OidcInvalidProjectId = ''oidc_project_id_invalid''"
| "oidc_error_str OidcInvalidUserId = ''oidc_user_id_invalid''"
| "oidc_error_str OidcInvalidExternalIdentityId = ''oidc_external_identity_id_invalid''"
| "oidc_error_str OidcInvalidMembershipId = ''oidc_membership_id_invalid''"
| "oidc_error_str OidcInvalidRoleBindingId = ''oidc_role_binding_id_invalid''"
| "oidc_error_str OidcDisplayNameRequired = ''oidc_display_name_required''"
| "oidc_error_str OidcInvalidIssuerUrl = ''oidc_issuer_url_invalid''"
| "oidc_error_str OidcInvalidAuthorizationEndpoint = ''oidc_authorization_endpoint_invalid''"
| "oidc_error_str OidcInvalidTokenEndpoint = ''oidc_token_endpoint_invalid''"
| "oidc_error_str OidcInvalidJwksUri = ''oidc_jwks_uri_invalid''"
| "oidc_error_str OidcDiscoveryIssuerMismatch = ''oidc_discovery_issuer_mismatch''"
| "oidc_error_str OidcUnsupportedSigningAlgorithm = ''oidc_signing_algorithm_unsupported''"
| "oidc_error_str OidcSigningKeyNotFound = ''oidc_signing_key_not_found''"
| "oidc_error_str OidcInvalidIdToken = ''oidc_id_token_invalid''"
| "oidc_error_str OidcClientIdRequired = ''oidc_client_id_required''"
| "oidc_error_str OidcInvalidClientSecretRef = ''oidc_client_secret_ref_invalid''"
| "oidc_error_str OidcInvalidTokenEndpointAuthMethod = ''oidc_token_endpoint_auth_method_invalid''"
| "oidc_error_str OidcInvalidRedirectUri = ''oidc_redirect_uri_invalid''"
| "oidc_error_str OidcOpenIdScopeRequired = ''oidc_openid_scope_required''"
| "oidc_error_str OidcAudienceRequired = ''oidc_audience_required''"
| "oidc_error_str OidcProviderInactive = ''oidc_provider_inactive''"
| "oidc_error_str OidcEmptyState = ''oidc_state_empty''"
| "oidc_error_str OidcEmptyNonce = ''oidc_nonce_empty''"
| "oidc_error_str OidcEmptyPkceVerifier = ''oidc_pkce_verifier_empty''"
| "oidc_error_str OidcInvalidStateHash = ''oidc_state_hash_invalid''"
| "oidc_error_str OidcInvalidNonceHash = ''oidc_nonce_hash_invalid''"
| "oidc_error_str OidcInvalidPkceVerifierHash = ''oidc_pkce_verifier_hash_invalid''"
| "oidc_error_str OidcInvalidAttemptExpiry = ''oidc_attempt_expiry_invalid''"
| "oidc_error_str OidcConsumedAtRequired = ''oidc_consumed_at_required''"
| "oidc_error_str OidcConsumedAtUnexpected = ''oidc_consumed_at_unexpected''"
| "oidc_error_str OidcIssuerMismatch = ''oidc_issuer_mismatch''"
| "oidc_error_str OidcSubjectRequired = ''oidc_subject_required''"
| "oidc_error_str OidcAudienceMismatch = ''oidc_audience_mismatch''"
| "oidc_error_str OidcNonceMismatch = ''oidc_nonce_mismatch''"
| "oidc_error_str OidcTokenExpired = ''oidc_token_expired''"

datatype oidc_provider_status = ProviderActive | ProviderDisabled | ProviderDeleted

datatype oidc_attempt_status = AttemptActive | AttemptConsumed | AttemptExpired | AttemptAbandoned

datatype token_endpoint_auth = AuthNone | AuthClientSecretBasic | AuthClientSecretPost

definition token_endpoint_auth_from_id :: "string \<Rightarrow> token_endpoint_auth option" where
  "token_endpoint_auth_from_id v =
     (if v = ''none'' then Some AuthNone
      else if v = ''client_secret_basic'' then Some AuthClientSecretBasic
      else if v = ''client_secret_post'' then Some AuthClientSecretPost else None)"

fun requires_client_secret :: "token_endpoint_auth \<Rightarrow> bool" where
  "requires_client_secret AuthNone = False"
| "requires_client_secret AuthClientSecretBasic = True"
| "requires_client_secret AuthClientSecretPost = True"

record oidc_provider =
  op_identity_provider_id :: string
  op_tenant_id :: string
  op_display_name :: string
  op_issuer_url :: string
  op_authorization_endpoint :: string
  op_token_endpoint :: string
  op_jwks_uri :: string
  op_client_id :: string
  op_client_secret_ref :: "string option"
  op_token_endpoint_auth :: token_endpoint_auth
  op_redirect_uri :: string
  op_requested_scopes :: "string list"
  op_accepted_audiences :: "string list"
  op_status :: oidc_provider_status

record oidc_discovery =
  od_issuer :: string
  od_authorization_endpoint :: string
  od_token_endpoint :: string
  od_jwks_uri :: string
  od_algorithms :: "string list"

record oidc_metadata =
  md_identity_provider_id :: string
  md_tenant_id :: string
  md_issuer_url :: string
  md_authorization_endpoint :: string
  md_token_endpoint :: string
  md_jwks_uri :: string
  md_client_id :: string
  md_client_secret_ref :: "string option"
  md_token_endpoint_auth :: token_endpoint_auth
  md_redirect_uri :: string
  md_accepted_audiences :: "string list"
  md_algorithms :: "string list"

definition validate_https_url :: "string \<Rightarrow> oidc_error \<Rightarrow> oidc_error + unit" where
  "validate_https_url value_str error =
     (let v = trim value_str
      in fail_if (\<not> (starts_with v ''https://'' \<and> 8 < length v)) error)"

definition validate_optional_client_secret_ref :: "string option \<Rightarrow> oidc_error + unit" where
  "validate_optional_client_secret_ref secret_ref =
     fail_if (is_some_and secret_ref (\<lambda>v. trim v = '''' \<or> \<not> starts_with (trim v) ''sec_''))
       OidcInvalidClientSecretRef"

definition validate_token_endpoint_auth_method :: "oidc_provider \<Rightarrow> oidc_error + unit" where
  "validate_token_endpoint_auth_method p =
     rbind (fail_if (requires_client_secret (op_token_endpoint_auth p)
              \<and> op_client_secret_ref p = None) OidcInvalidTokenEndpointAuthMethod) (\<lambda>_.
     fail_if (\<not> requires_client_secret (op_token_endpoint_auth p)
              \<and> op_client_secret_ref p \<noteq> None) OidcInvalidTokenEndpointAuthMethod)"

definition validate_oidc_login_provider :: "oidc_provider \<Rightarrow> oidc_error + unit" where
  "validate_oidc_login_provider p =
     rbind (fail_if (\<not> starts_with (op_identity_provider_id p) ''idp_'') OidcInvalidProviderId) (\<lambda>_.
     rbind (fail_if (\<not> starts_with (op_tenant_id p) ''ten_'') OidcInvalidTenantId) (\<lambda>_.
     rbind (fail_if (trim (op_display_name p) = '''') OidcDisplayNameRequired) (\<lambda>_.
     rbind (validate_https_url (op_issuer_url p) OidcInvalidIssuerUrl) (\<lambda>_.
     rbind (validate_https_url (op_authorization_endpoint p) OidcInvalidAuthorizationEndpoint) (\<lambda>_.
     rbind (validate_https_url (op_token_endpoint p) OidcInvalidTokenEndpoint) (\<lambda>_.
     rbind (validate_https_url (op_jwks_uri p) OidcInvalidJwksUri) (\<lambda>_.
     rbind (fail_if (trim (op_client_id p) = '''') OidcClientIdRequired) (\<lambda>_.
     rbind (validate_optional_client_secret_ref (op_client_secret_ref p)) (\<lambda>_.
     rbind (validate_token_endpoint_auth_method p) (\<lambda>_.
     rbind (validate_https_url (op_redirect_uri p) OidcInvalidRedirectUri) (\<lambda>_.
     rbind (fail_if (''openid'' \<notin> set (op_requested_scopes p)) OidcOpenIdScopeRequired) (\<lambda>_.
     rbind (fail_if (list_all (\<lambda>a. trim a = '''') (op_accepted_audiences p)) OidcAudienceRequired) (\<lambda>_.
     fail_if (op_status p \<noteq> ProviderActive) OidcProviderInactive)))))))))))))"

definition validate_oidc_login_provider_base :: "oidc_provider \<Rightarrow> oidc_error + unit" where
  "validate_oidc_login_provider_base p =
     rbind (fail_if (\<not> starts_with (op_identity_provider_id p) ''idp_'') OidcInvalidProviderId) (\<lambda>_.
     rbind (fail_if (\<not> starts_with (op_tenant_id p) ''ten_'') OidcInvalidTenantId) (\<lambda>_.
     rbind (fail_if (trim (op_display_name p) = '''') OidcDisplayNameRequired) (\<lambda>_.
     rbind (validate_https_url (op_issuer_url p) OidcInvalidIssuerUrl) (\<lambda>_.
     rbind (fail_if (trim (op_client_id p) = '''') OidcClientIdRequired) (\<lambda>_.
     rbind (validate_optional_client_secret_ref (op_client_secret_ref p)) (\<lambda>_.
     rbind (validate_token_endpoint_auth_method p) (\<lambda>_.
     rbind (validate_https_url (op_redirect_uri p) OidcInvalidRedirectUri) (\<lambda>_.
     rbind (fail_if (''openid'' \<notin> set (op_requested_scopes p)) OidcOpenIdScopeRequired) (\<lambda>_.
     fail_if (list_all (\<lambda>a. trim a = '''') (op_accepted_audiences p)) OidcAudienceRequired)))))))))"

definition resolved_metadata_field :: "string \<Rightarrow> string option \<Rightarrow> oidc_error \<Rightarrow> oidc_error + string" where
  "resolved_metadata_field configured discovered error =
     (let c = trim configured
      in if c \<noteq> '''' then Inr c
         else ok_or error (opt_filter (\<lambda>v. v \<noteq> '''') (map_option trim discovered)))"

text \<open>The signing algorithms of the JWT library; the platform accepts the asymmetric ones.\<close>

datatype jwt_algorithm =
  HS256 | HS384 | HS512 | ES256 | ES384 | RS256 | RS384 | RS512 | PS256 | PS384 | PS512 | EdDSA

definition oidc_algorithm_from_str :: "string \<Rightarrow> jwt_algorithm option" where
  "oidc_algorithm_from_str v =
     map_of [(''RS256'', RS256), (''RS384'', RS384), (''RS512'', RS512), (''PS256'', PS256),
       (''PS384'', PS384), (''PS512'', PS512), (''ES256'', ES256), (''ES384'', ES384),
       (''EdDSA'', EdDSA)] v"

fun oidc_algorithm_is_asymmetric :: "jwt_algorithm \<Rightarrow> bool" where
  "oidc_algorithm_is_asymmetric HS256 = False"
| "oidc_algorithm_is_asymmetric HS384 = False"
| "oidc_algorithm_is_asymmetric HS512 = False"
| "oidc_algorithm_is_asymmetric _ = True"

fun push_algorithms :: "string list \<Rightarrow> string list \<Rightarrow> string list" where
  "push_algorithms acc [] = acc"
| "push_algorithms acc (v # vs) =
     (case oidc_algorithm_from_str v of
        None \<Rightarrow> push_algorithms acc vs
      | Some algorithm \<Rightarrow>
          if oidc_algorithm_is_asymmetric algorithm \<and> v \<notin> set acc
          then push_algorithms (acc @ [v]) vs else push_algorithms acc vs)"

definition supported_oidc_algorithms :: "oidc_discovery option \<Rightarrow> oidc_error + string list" where
  "supported_oidc_algorithms discovery =
     (case discovery of
        None \<Rightarrow> Inr [''RS256'']
      | Some d \<Rightarrow>
          if od_algorithms d = [] then Inr [''RS256'']
          else
            (let algorithms = push_algorithms [] (od_algorithms d)
             in if algorithms = [] then Inl OidcUnsupportedSigningAlgorithm else Inr algorithms))"

definition resolve_oidc_provider_metadata ::
  "oidc_provider \<Rightarrow> oidc_discovery option \<Rightarrow> oidc_error + oidc_metadata" where
  "resolve_oidc_provider_metadata p discovery =
     rbind (validate_oidc_login_provider_base p) (\<lambda>_.
     rbind (fail_if (is_some_and discovery (\<lambda>d. od_issuer d \<noteq> op_issuer_url p))
              OidcDiscoveryIssuerMismatch) (\<lambda>_.
     rbind (resolved_metadata_field (op_authorization_endpoint p)
              (map_option od_authorization_endpoint discovery) OidcInvalidAuthorizationEndpoint) (\<lambda>authorization_endpoint.
     rbind (resolved_metadata_field (op_token_endpoint p)
              (map_option od_token_endpoint discovery) OidcInvalidTokenEndpoint) (\<lambda>token_endpoint.
     rbind (resolved_metadata_field (op_jwks_uri p)
              (map_option od_jwks_uri discovery) OidcInvalidJwksUri) (\<lambda>jwks_uri.
     rbind (validate_https_url authorization_endpoint OidcInvalidAuthorizationEndpoint) (\<lambda>_.
     rbind (validate_https_url token_endpoint OidcInvalidTokenEndpoint) (\<lambda>_.
     rbind (validate_https_url jwks_uri OidcInvalidJwksUri) (\<lambda>_.
     rbind (supported_oidc_algorithms discovery) (\<lambda>algorithms.
     Inr \<lparr>md_identity_provider_id = op_identity_provider_id p, md_tenant_id = op_tenant_id p,
          md_issuer_url = op_issuer_url p, md_authorization_endpoint = authorization_endpoint,
          md_token_endpoint = token_endpoint, md_jwks_uri = jwks_uri,
          md_client_id = op_client_id p, md_client_secret_ref = op_client_secret_ref p,
          md_token_endpoint_auth = op_token_endpoint_auth p, md_redirect_uri = op_redirect_uri p,
          md_accepted_audiences = op_accepted_audiences p, md_algorithms = algorithms\<rparr>)))))))))"

definition oidc_discovery_url :: "string \<Rightarrow> string" where
  "oidc_discovery_url issuer =
     rev (dropWhile (\<lambda>c. c = CHR ''/'') (rev issuer)) @ ''/.well-known/openid-configuration''"

subsection \<open>Login attempts\<close>

definition hash_oidc_secret :: "(string \<Rightarrow> string) \<Rightarrow> string \<Rightarrow> string \<Rightarrow> string" where
  "hash_oidc_secret sha256 domain raw = lower_hex (sha256 (domain @ raw))"

definition hash_oidc_login_state :: "(string \<Rightarrow> string) \<Rightarrow> string \<Rightarrow> string" where
  "hash_oidc_login_state sha256 = hash_oidc_secret sha256 (''starweaver-platform-oidc-state-v1'' @ [CHR 0x00])"

definition hash_oidc_login_nonce :: "(string \<Rightarrow> string) \<Rightarrow> string \<Rightarrow> string" where
  "hash_oidc_login_nonce sha256 = hash_oidc_secret sha256 (''starweaver-platform-oidc-nonce-v1'' @ [CHR 0x00])"

definition hash_oidc_pkce_verifier :: "(string \<Rightarrow> string) \<Rightarrow> string \<Rightarrow> string" where
  "hash_oidc_pkce_verifier sha256 =
     hash_oidc_secret sha256 (''starweaver-platform-oidc-pkce-verifier-v1'' @ [CHR 0x00])"

record oidc_attempt_start =
  oas_login_attempt_id :: string
  oas_tenant_id :: string
  oas_identity_provider_id :: string
  oas_raw_state :: string
  oas_raw_nonce :: string
  oas_raw_pkce_verifier :: string
  oas_redirect_uri :: string
  oas_expires_at_unix :: i64

record oidc_attempt =
  oa_login_attempt_id :: string
  oa_tenant_id :: string
  oa_identity_provider_id :: string
  oa_state_hash :: string
  oa_nonce_hash :: string
  oa_pkce_verifier_hash :: string
  oa_redirect_uri :: string
  oa_status :: oidc_attempt_status
  oa_expires_at_unix :: i64
  oa_consumed_at_unix :: "i64 option"

definition validate_hash :: "string \<Rightarrow> 'e \<Rightarrow> 'e + unit" where
  "validate_hash v error =
     fail_if (\<not> (length v = 64 \<and> list_all (\<lambda>c. c \<in> set hex_digits) v)) error"

definition validate_oidc_login_attempt_record :: "oidc_attempt \<Rightarrow> oidc_error + unit" where
  "validate_oidc_login_attempt_record a =
     rbind (fail_if (\<not> starts_with (oa_login_attempt_id a) ''ola_'') OidcInvalidLoginAttemptId) (\<lambda>_.
     rbind (fail_if (\<not> starts_with (oa_tenant_id a) ''ten_'') OidcInvalidTenantId) (\<lambda>_.
     rbind (fail_if (\<not> starts_with (oa_identity_provider_id a) ''idp_'') OidcInvalidProviderId) (\<lambda>_.
     rbind (validate_hash (oa_state_hash a) OidcInvalidStateHash) (\<lambda>_.
     rbind (validate_hash (oa_nonce_hash a) OidcInvalidNonceHash) (\<lambda>_.
     rbind (validate_hash (oa_pkce_verifier_hash a) OidcInvalidPkceVerifierHash) (\<lambda>_.
     rbind (validate_https_url (oa_redirect_uri a) OidcInvalidRedirectUri) (\<lambda>_.
     rbind (fail_if (oa_expires_at_unix a \<le> 0) OidcInvalidAttemptExpiry) (\<lambda>_.
     case (oa_status a, oa_consumed_at_unix a) of
       (AttemptConsumed, None) \<Rightarrow> Inl OidcConsumedAtRequired
     | (AttemptConsumed, Some _) \<Rightarrow> Inr ()
     | (_, None) \<Rightarrow> Inr ()
     | (_, Some _) \<Rightarrow> Inl OidcConsumedAtUnexpected))))))))"

definition active_oidc_attempt ::
  "(string \<Rightarrow> string) \<Rightarrow> oidc_attempt_start \<Rightarrow> oidc_error + oidc_attempt" where
  "active_oidc_attempt sha256 start =
     rbind (fail_if (trim (oas_raw_state start) = '''') OidcEmptyState) (\<lambda>_.
     rbind (fail_if (trim (oas_raw_nonce start) = '''') OidcEmptyNonce) (\<lambda>_.
     rbind (fail_if (trim (oas_raw_pkce_verifier start) = '''') OidcEmptyPkceVerifier) (\<lambda>_.
     let a = \<lparr>oa_login_attempt_id = oas_login_attempt_id start, oa_tenant_id = oas_tenant_id start,
            oa_identity_provider_id = oas_identity_provider_id start,
            oa_state_hash = hash_oidc_login_state sha256 (oas_raw_state start),
            oa_nonce_hash = hash_oidc_login_nonce sha256 (oas_raw_nonce start),
            oa_pkce_verifier_hash = hash_oidc_pkce_verifier sha256 (oas_raw_pkce_verifier start),
            oa_redirect_uri = oas_redirect_uri start, oa_status = AttemptActive,
            oa_expires_at_unix = oas_expires_at_unix start, oa_consumed_at_unix = None\<rparr>
     in rbind (validate_oidc_login_attempt_record a) (\<lambda>_. Inr a))))"

subsection \<open>ID tokens\<close>

record oidc_claims =
  oc_issuer :: string
  oc_subject :: string
  oc_audiences :: "string list"
  oc_nonce :: string
  oc_expires_at_unix :: i64
  oc_email :: "string option"
  oc_email_verified :: bool
  oc_display_name :: "string option"

text \<open>
  The claims the JWT library decodes, the keys of a JWKS document, and the library itself: the
  header of a token, and the claims of a token that verifies under a key with the algorithm, the
  issuer and the audiences asked for.
\<close>

record oidc_id_token_claims =
  ic_iss :: string
  ic_sub :: string
  ic_aud :: "string list"
  ic_exp :: i64
  ic_nonce :: string
  ic_email :: "string option"
  ic_email_verified :: bool
  ic_name :: "string option"
  ic_preferred_username :: "string option"

datatype public_key_use = UseSignature | UseEncryption | UseOther string

record json_web_key =
  jk_public_key_use :: "public_key_use option"
  jk_key_id :: "string option"
  jk_key_algorithm :: "string option"
  jk_material :: string

record jwt_library =
  jwt_decode_header :: "string \<Rightarrow> (jwt_algorithm \<times> string option) option"
  jwt_decoding_key :: "json_web_key \<Rightarrow> string option"
  jwt_decode :: "string \<Rightarrow> jwt_algorithm \<Rightarrow> string \<Rightarrow> string list \<Rightarrow> string \<Rightarrow> oidc_id_token_claims option"

definition oidc_jwk_is_usable :: "json_web_key \<Rightarrow> string option \<Rightarrow> jwt_algorithm \<Rightarrow> bool" where
  "oidc_jwk_is_usable jwk kid algorithm =
     (if is_some_and (jk_public_key_use jwk) (\<lambda>u. u \<noteq> UseSignature) then False
      else if kid \<noteq> None \<and> jk_key_id jwk \<noteq> kid then False
      else is_none_or (jk_key_algorithm jwk) (\<lambda>a. oidc_algorithm_from_str a = Some algorithm))"

definition select_oidc_jwk ::
  "json_web_key list \<Rightarrow> string option \<Rightarrow> jwt_algorithm \<Rightarrow> oidc_error + json_web_key" where
  "select_oidc_jwk jwks kid algorithm =
     (let candidates = filter (\<lambda>jwk. oidc_jwk_is_usable jwk kid algorithm) jwks
      in case kid of
           Some k \<Rightarrow> ok_or OidcSigningKeyNotFound (find (\<lambda>jwk. jk_key_id jwk = Some k) candidates)
         | None \<Rightarrow>
             (case candidates of [jwk] \<Rightarrow> Inr jwk | _ \<Rightarrow> Inl OidcSigningKeyNotFound))"

definition validate_oidc_claims_against_metadata ::
  "oidc_metadata \<Rightarrow> oidc_claims \<Rightarrow> string \<Rightarrow> i64 \<Rightarrow> oidc_error + unit" where
  "validate_oidc_claims_against_metadata m claims expected_nonce now_unix =
     rbind (fail_if (oc_issuer claims \<noteq> md_issuer_url m) OidcIssuerMismatch) (\<lambda>_.
     rbind (fail_if (trim (oc_subject claims) = '''') OidcSubjectRequired) (\<lambda>_.
     rbind (fail_if (\<not> list_ex (\<lambda>a. a \<in> set (md_accepted_audiences m)) (oc_audiences claims))
              OidcAudienceMismatch) (\<lambda>_.
     rbind (fail_if (oc_nonce claims \<noteq> expected_nonce) OidcNonceMismatch) (\<lambda>_.
     fail_if (oc_expires_at_unix claims \<le> now_unix) OidcTokenExpired))))"

definition validate_oidc_verified_claims ::
  "oidc_provider \<Rightarrow> oidc_claims \<Rightarrow> string \<Rightarrow> i64 \<Rightarrow> oidc_error + unit" where
  "validate_oidc_verified_claims p claims expected_nonce now_unix =
     rbind (validate_oidc_login_provider p) (\<lambda>_.
     rbind (fail_if (oc_issuer claims \<noteq> op_issuer_url p) OidcIssuerMismatch) (\<lambda>_.
     rbind (fail_if (trim (oc_subject claims) = '''') OidcSubjectRequired) (\<lambda>_.
     rbind (fail_if (\<not> list_ex (\<lambda>a. a \<in> set (op_accepted_audiences p)) (oc_audiences claims))
              OidcAudienceMismatch) (\<lambda>_.
     rbind (fail_if (oc_nonce claims \<noteq> expected_nonce) OidcNonceMismatch) (\<lambda>_.
     fail_if (oc_expires_at_unix claims \<le> now_unix) OidcTokenExpired)))))"

definition validate_oidc_id_token ::
  "jwt_library \<Rightarrow> oidc_metadata \<Rightarrow> json_web_key list \<Rightarrow> string \<Rightarrow> string \<Rightarrow> i64 \<Rightarrow> oidc_error + oidc_claims" where
  "validate_oidc_id_token jwt m jwks id_token expected_nonce now_unix =
     rbind (ok_or OidcInvalidIdToken (jwt_decode_header jwt id_token)) (\<lambda>(algorithm, kid).
     rbind (fail_if (\<not> list_ex (\<lambda>v. oidc_algorithm_from_str v = Some algorithm) (md_algorithms m)
              \<or> \<not> oidc_algorithm_is_asymmetric algorithm) OidcUnsupportedSigningAlgorithm) (\<lambda>_.
     rbind (select_oidc_jwk jwks kid algorithm) (\<lambda>jwk.
     rbind (ok_or OidcInvalidIdToken (jwt_decoding_key jwt jwk)) (\<lambda>key.
     rbind (ok_or OidcInvalidIdToken
              (jwt_decode jwt key algorithm (md_issuer_url m) (md_accepted_audiences m) id_token)) (\<lambda>token.
     let claims = \<lparr>oc_issuer = ic_iss token, oc_subject = ic_sub token,
            oc_audiences = ic_aud token, oc_nonce = ic_nonce token,
            oc_expires_at_unix = ic_exp token, oc_email = ic_email token,
            oc_email_verified = ic_email_verified token,
            oc_display_name = (case ic_name token of None \<Rightarrow> ic_preferred_username token
                               | Some n \<Rightarrow> Some n)\<rparr>
     in rbind (validate_oidc_claims_against_metadata m claims expected_nonce now_unix)
          (\<lambda>_. Inr claims))))))"

subsection \<open>Shape of the stores\<close>

definition external_identity_shape :: "external_identity \<Rightarrow> bool" where
  "external_identity_shape r \<longleftrightarrow> validate_external_identity r = Inr ()"

abbreviation external_identities_ok :: "external_identity_store \<Rightarrow> bool" where
  "external_identities_ok \<equiv> store_ok xi_external_identity_id external_identity_shape"

lemma external_identity_shape_status [simp]:
  "external_identity_shape (r\<lparr>xi_status := st\<rparr>) = external_identity_shape r"
  by (simp add: external_identity_shape_def validate_external_identity_def)

lemma external_identity_shape_refresh:
  "external_identity_shape existing \<Longrightarrow> external_identity_shape r \<Longrightarrow>
     external_identity_shape (existing\<lparr>xi_provider_kind := xi_provider_kind r, xi_email := xi_email r,
       xi_email_verified := v, xi_status := st\<rparr>)"
  by (simp add: external_identity_shape_def validate_external_identity_def result_simps)

lemma record_external_identity_ok:
  "external_identities_ok s \<Longrightarrow> record_external_identity r s = (x, s') \<Longrightarrow> external_identities_ok s'"
  by (auto simp: record_external_identity_def external_identity_shape_def split: sum.splits
    intro!: store_ok_insert)

lemma store_unlink_external_identity_ok:
  "external_identities_ok s \<Longrightarrow> store_unlink_external_identity i s = (x, s') \<Longrightarrow>
     external_identities_ok s'"
  by (auto simp: store_unlink_external_identity_def Let_def split: option.splits
    intro: store_ok_replace)

lemma upsert_external_identity_ok:
  assumes ok: "external_identities_ok s" and run: "upsert_external_identity r s = (x, s')"
  shows "external_identities_ok s'"
proof (cases "validate_external_identity r")
  case (Inl e)
  with assms show ?thesis by (simp add: upsert_external_identity_def)
next
  case (Inr u)
  then have shape: "external_identity_shape r" by (simp add: external_identity_shape_def)
  show ?thesis
  proof (cases "find (same_provider_subject r) (btree_values s)")
    case None
    with Inr ok run shape show ?thesis
      by (auto simp: upsert_external_identity_def intro!: store_ok_insert)
  next
    case (Some found)
    with Inr ok run shape show ?thesis
      by (auto simp: upsert_external_identity_def Let_def split: option.splits if_splits
        intro: store_ok_replace external_identity_shape_refresh)
  qed
qed

subsection \<open>Behaviour\<close>

text \<open>Every claim the platform uses of an ID token has been checked against the provider's metadata.\<close>

lemma validate_oidc_id_token_claims:
  assumes "validate_oidc_id_token jwt m jwks id_token nonce now = Inr claims"
  shows "oc_issuer claims = md_issuer_url m \<and> trim (oc_subject claims) \<noteq> []
    \<and> (\<exists>a \<in> set (oc_audiences claims). a \<in> set (md_accepted_audiences m))
    \<and> oc_nonce claims = nonce \<and> now < oc_expires_at_unix claims"
  using assms
  by (auto simp: validate_oidc_id_token_def validate_oidc_claims_against_metadata_def Let_def
    result_simps list_ex_iff split: prod.splits)

text \<open>The algorithm of an accepted token is asymmetric and one the metadata lists.\<close>

lemma validate_oidc_id_token_algorithm:
  assumes "validate_oidc_id_token jwt m jwks id_token nonce now = Inr claims"
  shows "\<exists>algorithm kid jwk. jwt_decode_header jwt id_token = Some (algorithm, kid)
    \<and> oidc_algorithm_is_asymmetric algorithm
    \<and> (\<exists>v \<in> set (md_algorithms m). oidc_algorithm_from_str v = Some algorithm)
    \<and> select_oidc_jwk jwks kid algorithm = Inr jwk"
  using assms by (auto simp: validate_oidc_id_token_def result_simps list_ex_iff split: prod.splits)

end
