(* ===== verification/Platform_Secret.thy ===== *)
theory Platform_Secret
  imports Platform_Auth
begin

text \<open>
  Secret references of the platform (\<open>crates/starweaver-platform/src/secret.rs\<close>): the safe metadata,
  its validation, the in-memory repository, and the resolution of a reference to its value. The
  process environment is the argument \<open>env\<close>, a map from variable names to their values.
\<close>

subsection \<open>Records\<close>

definition ENVIRONMENT_SECRET_BACKEND :: string where
  "ENVIRONMENT_SECRET_BACKEND = ''environment''"

definition IN_MEMORY_SECRET_BACKEND :: string where
  "IN_MEMORY_SECRET_BACKEND = ''in_memory''"

datatype secret_ref_status = SecretActive | SecretRotating | SecretDisabled | SecretDeleted

fun secret_can_resolve :: "secret_ref_status \<Rightarrow> bool" where
  "secret_can_resolve SecretActive = True"
| "secret_can_resolve SecretRotating = True"
| "secret_can_resolve SecretDisabled = False"
| "secret_can_resolve SecretDeleted = False"

record secret_ref =
  sr_secret_ref_id :: string
  sr_tenant_id :: string
  sr_organization_id :: "string option"
  sr_project_id :: "string option"
  sr_purpose :: string
  sr_backend_kind :: string
  sr_backend_locator :: string
  sr_display_mask :: string
  sr_fingerprint :: string
  sr_status :: secret_ref_status

record create_secret_ref_request =
  csr_secret_ref_id :: string
  csr_tenant_id :: string
  csr_organization_id :: "string option"
  csr_project_id :: "string option"
  csr_purpose :: string
  csr_backend_kind :: string
  csr_backend_locator :: string
  csr_in_memory_secret_value :: "string option"
  csr_created_by :: string

datatype secret_error =
    EmptySecretRefId | InvalidSecretRefId | EmptyTenantId | InvalidTenantId | EmptyPurpose
  | EmptyBackendKind | UnsupportedBackendKind | EmptyBackendLocator | InvalidEnvironmentVariable
  | EmptySecretValue | UnknownSecretRef | SecretRefInactive | EnvironmentSecretMissing
  | SecretFingerprintMismatch

fun secret_error_str :: "secret_error \<Rightarrow> string" where
  "secret_error_str EmptySecretRefId = ''secret_ref_id_empty''"
| "secret_error_str InvalidSecretRefId = ''secret_ref_id_invalid''"
| "secret_error_str EmptyTenantId = ''tenant_id_empty''"
| "secret_error_str InvalidTenantId = ''tenant_id_invalid''"
| "secret_error_str EmptyPurpose = ''secret_purpose_empty''"
| "secret_error_str EmptyBackendKind = ''secret_backend_kind_empty''"
| "secret_error_str UnsupportedBackendKind = ''secret_backend_kind_unsupported''"
| "secret_error_str EmptyBackendLocator = ''secret_backend_locator_empty''"
| "secret_error_str InvalidEnvironmentVariable = ''secret_environment_variable_invalid''"
| "secret_error_str EmptySecretValue = ''secret_value_empty''"
| "secret_error_str UnknownSecretRef = ''secret_ref_unknown''"
| "secret_error_str SecretRefInactive = ''secret_ref_inactive''"
| "secret_error_str EnvironmentSecretMissing = ''secret_environment_value_missing''"
| "secret_error_str SecretFingerprintMismatch = ''secret_fingerprint_mismatch''"

text \<open>An entry of the repository; an environment-backed reference keeps the empty value.\<close>

record secret_entry =
  se_record :: secret_ref
  se_value :: string

type_synonym secret_store = "secret_entry btree"

subsection \<open>Validation\<close>

definition validate_secret_ref_id :: "string \<Rightarrow> secret_error + unit" where
  "validate_secret_ref_id i =
     rbind (fail_if (trim i = '''') EmptySecretRefId) (\<lambda>_.
     fail_if (\<not> starts_with (trim i) ''sec_'') InvalidSecretRefId)"

definition secret_validate_tenant_id :: "string \<Rightarrow> secret_error + unit" where
  "secret_validate_tenant_id i =
     rbind (fail_if (trim i = '''') EmptyTenantId) (\<lambda>_.
     fail_if (\<not> starts_with (trim i) ''ten_'') InvalidTenantId)"

definition ascii_letter :: "char \<Rightarrow> bool" where
  "ascii_letter c \<longleftrightarrow> (let b = (of_char c :: int) in (65 \<le> b \<and> b \<le> 90) \<or> (97 \<le> b \<and> b \<le> 122))"

definition ascii_digit :: "char \<Rightarrow> bool" where
  "ascii_digit c \<longleftrightarrow> (let b = (of_char c :: int) in 48 \<le> b \<and> b \<le> 57)"

definition validate_environment_variable_name :: "string \<Rightarrow> secret_error + unit" where
  "validate_environment_variable_name value_str =
     (case trim value_str of
        [] \<Rightarrow> Inl EmptyBackendLocator
      | first # rest \<Rightarrow>
          rbind (fail_if (\<not> (first = CHR ''_'' \<or> ascii_letter first)) InvalidEnvironmentVariable) (\<lambda>_.
          fail_if (list_ex (\<lambda>c. \<not> (c = CHR ''_'' \<or> ascii_letter c \<or> ascii_digit c)) rest)
            InvalidEnvironmentVariable))"

definition validate_secret_backend :: "string \<Rightarrow> string \<Rightarrow> secret_error + unit" where
  "validate_secret_backend backend_kind backend_locator =
     rbind (fail_if (trim backend_kind = '''') EmptyBackendKind) (\<lambda>_.
     rbind (fail_if (trim backend_locator = '''') EmptyBackendLocator) (\<lambda>_.
     if backend_kind = ENVIRONMENT_SECRET_BACKEND then validate_environment_variable_name backend_locator
     else if backend_kind = IN_MEMORY_SECRET_BACKEND then Inr ()
     else Inl UnsupportedBackendKind))"

definition validate_secret_ref_record :: "secret_ref \<Rightarrow> secret_error + unit" where
  "validate_secret_ref_record r =
     rbind (validate_secret_ref_id (sr_secret_ref_id r)) (\<lambda>_.
     rbind (secret_validate_tenant_id (sr_tenant_id r)) (\<lambda>_.
     rbind (fail_if (sr_project_id r \<noteq> None \<and> sr_organization_id r = None) InvalidSecretRefId) (\<lambda>_.
     rbind (fail_if (trim (sr_purpose r) = '''') EmptyPurpose) (\<lambda>_.
     rbind (validate_secret_backend (sr_backend_kind r) (sr_backend_locator r)) (\<lambda>_.
     fail_if (trim (sr_display_mask r) = '''' \<or> trim (sr_fingerprint r) = '''') EmptySecretValue)))))"

definition validate_create_secret_ref_request ::
  "create_secret_ref_request \<Rightarrow> string \<Rightarrow> secret_error + unit" where
  "validate_create_secret_ref_request r expected_backend =
     rbind (validate_secret_ref_id (csr_secret_ref_id r)) (\<lambda>_.
     rbind (secret_validate_tenant_id (csr_tenant_id r)) (\<lambda>_.
     rbind (fail_if (csr_project_id r \<noteq> None \<and> csr_organization_id r = None) InvalidSecretRefId) (\<lambda>_.
     rbind (fail_if (trim (csr_purpose r) = '''') EmptyPurpose) (\<lambda>_.
     rbind (validate_secret_backend (csr_backend_kind r) (csr_backend_locator r)) (\<lambda>_.
     rbind (fail_if (csr_backend_kind r \<noteq> expected_backend) UnsupportedBackendKind) (\<lambda>_.
     fail_if (trim (csr_created_by r) = '''') EmptyTenantId))))))"

subsection \<open>Masks and fingerprints\<close>

text \<open>The last characters of a string of UTF-8 bytes: \<open>chars().rev().take(n)\<close>, put back in order.\<close>

fun take_chars :: "nat \<Rightarrow> string \<Rightarrow> string" where
  "take_chars 0 s = []"
| "take_chars (Suc n) [] = []"
| "take_chars (Suc n) (c # s) =
     c # (if 0x80 \<le> (of_char c :: int) \<and> (of_char c :: int) < 0xC0
          then take_chars (Suc n) s else take_chars n s)"

definition secret_display_mask :: "string \<Rightarrow> string" where
  "secret_display_mask value_str = ''***'' @ rev (take_chars 4 (rev (trim value_str)))"

definition secret_fingerprint :: "(string \<Rightarrow> string) \<Rightarrow> string \<Rightarrow> string" where
  "secret_fingerprint sha256 value_str = ''sha256:'' @ lower_hex (sha256 (trim value_str))"

definition secret_ref_record_from_value ::
  "(string \<Rightarrow> string) \<Rightarrow> create_secret_ref_request \<Rightarrow> string \<Rightarrow> secret_ref" where
  "secret_ref_record_from_value sha256 r value_str =
     \<lparr>sr_secret_ref_id = trim (csr_secret_ref_id r), sr_tenant_id = trim (csr_tenant_id r),
      sr_organization_id = map_option trim (csr_organization_id r),
      sr_project_id = map_option trim (csr_project_id r), sr_purpose = trim (csr_purpose r),
      sr_backend_kind = trim (csr_backend_kind r),
      sr_backend_locator = trim (csr_backend_locator r),
      sr_display_mask = secret_display_mask value_str,
      sr_fingerprint = secret_fingerprint sha256 value_str, sr_status = SecretActive\<rparr>"

subsection \<open>The repository\<close>

definition environment_secret_ref_record ::
  "(string \<Rightarrow> string) \<Rightarrow> (string \<rightharpoonup> string) \<Rightarrow> create_secret_ref_request \<Rightarrow> secret_error + secret_ref" where
  "environment_secret_ref_record sha256 env r =
     rbind (validate_create_secret_ref_request r ENVIRONMENT_SECRET_BACKEND) (\<lambda>_.
     rbind (ok_or EnvironmentSecretMissing (env (trim (csr_backend_locator r)))) (\<lambda>v.
     rbind (fail_if (trim v = '''') EmptySecretValue) (\<lambda>_.
     Inr (secret_ref_record_from_value sha256 r v))))"

definition in_memory_secret_ref_record ::
  "(string \<Rightarrow> string) \<Rightarrow> create_secret_ref_request \<Rightarrow> secret_error + secret_ref \<times> string" where
  "in_memory_secret_ref_record sha256 r =
     rbind (validate_create_secret_ref_request r IN_MEMORY_SECRET_BACKEND) (\<lambda>_.
     rbind (ok_or EmptySecretValue (csr_in_memory_secret_value r)) (\<lambda>v.
     rbind (fail_if (trim v = '''') EmptySecretValue) (\<lambda>_.
     Inr (secret_ref_record_from_value sha256 r v, v))))"

definition create_secret_ref ::
  "(string \<Rightarrow> string) \<Rightarrow> create_secret_ref_request \<Rightarrow> secret_store \<Rightarrow> (secret_error + secret_ref) \<times> secret_store" where
  "create_secret_ref sha256 r s =
     (case in_memory_secret_ref_record sha256 r of
        Inl e \<Rightarrow> (Inl e, s)
      | Inr (rec, v) \<Rightarrow>
          (Inr rec, btree_insert (sr_secret_ref_id rec) \<lparr>se_record = rec, se_value = v\<rparr> s))"

definition create_environment_secret_ref ::
  "(string \<Rightarrow> string) \<Rightarrow> (string \<rightharpoonup> string) \<Rightarrow> create_secret_ref_request \<Rightarrow> secret_store \<Rightarrow>
     (secret_error + secret_ref) \<times> secret_store" where
  "create_environment_secret_ref sha256 env r s =
     (case environment_secret_ref_record sha256 env r of
        Inl e \<Rightarrow> (Inl e, s)
      | Inr rec \<Rightarrow>
          (Inr rec, btree_insert (sr_secret_ref_id rec) \<lparr>se_record = rec, se_value = ''''\<rparr> s))"

definition find_secret_ref :: "secret_store \<Rightarrow> string \<Rightarrow> secret_ref option" where
  "find_secret_ref s i = map_option se_record (btree_get s i)"

definition secret_refs_for_tenant :: "secret_store \<Rightarrow> string \<Rightarrow> secret_ref list" where
  "secret_refs_for_tenant s tenant_id =
     map se_record (filter (\<lambda>e. sr_tenant_id (se_record e) = tenant_id) (btree_values s))"

definition resolve_environment_secret ::
  "(string \<Rightarrow> string) \<Rightarrow> (string \<rightharpoonup> string) \<Rightarrow> secret_ref \<Rightarrow> secret_error + string" where
  "resolve_environment_secret sha256 env r =
     rbind (validate_secret_ref_record r) (\<lambda>_.
     rbind (fail_if (\<not> secret_can_resolve (sr_status r)) SecretRefInactive) (\<lambda>_.
     rbind (fail_if (sr_backend_kind r \<noteq> ENVIRONMENT_SECRET_BACKEND) UnsupportedBackendKind) (\<lambda>_.
     rbind (ok_or EnvironmentSecretMissing (env (trim (sr_backend_locator r)))) (\<lambda>v.
     rbind (fail_if (trim v = '''') EmptySecretValue) (\<lambda>_.
     rbind (fail_if (secret_fingerprint sha256 v \<noteq> sr_fingerprint r) SecretFingerprintMismatch) (\<lambda>_.
     Inr v))))))"

definition resolve_secret ::
  "(string \<Rightarrow> string) \<Rightarrow> (string \<rightharpoonup> string) \<Rightarrow> secret_store \<Rightarrow> string \<Rightarrow> secret_error + string" where
  "resolve_secret sha256 env s i =
     rbind (ok_or UnknownSecretRef (btree_get s i)) (\<lambda>entry.
     rbind (fail_if (\<not> secret_can_resolve (sr_status (se_record entry))) SecretRefInactive) (\<lambda>_.
     if sr_backend_kind (se_record entry) = IN_MEMORY_SECRET_BACKEND then Inr (se_value entry)
     else if sr_backend_kind (se_record entry) = ENVIRONMENT_SECRET_BACKEND
     then resolve_environment_secret sha256 env (se_record entry)
     else Inl UnsupportedBackendKind))"

subsection \<open>Behaviour\<close>

text \<open>A stored in-memory secret resolves to the value it was created with.\<close>

lemma trim_nonempty_kind [simp]:
  "trim ENVIRONMENT_SECRET_BACKEND = ENVIRONMENT_SECRET_BACKEND"
  "trim IN_MEMORY_SECRET_BACKEND = IN_MEMORY_SECRET_BACKEND"
  by (simp_all add: ENVIRONMENT_SECRET_BACKEND_def IN_MEMORY_SECRET_BACKEND_def trim_def
    trim_start.simps trim_end.simps white_space_def starts_with_def ends_with_def)

lemma create_secret_ref_resolves:
  assumes "create_secret_ref sha256 r s = (Inr rec, s')"
  shows "csr_in_memory_secret_value r \<noteq> None
    \<and> resolve_secret sha256 env s' (sr_secret_ref_id rec) = Inr (the (csr_in_memory_secret_value r))"
  using assms
  by (auto simp: create_secret_ref_def in_memory_secret_ref_record_def resolve_secret_def
    secret_ref_record_from_value_def validate_create_secret_ref_request_def result_simps
    split: sum.splits prod.splits)

text \<open>The mask of a secret shows at most its last four characters.\<close>

lemma length_take_chars: "list_all (\<lambda>c. (of_char c :: int) < 0x80) s \<Longrightarrow> length (take_chars n s) \<le> n"
  by (induction n s rule: take_chars.induct) auto

end
