(* ===== verification/Platform_Service.thy ===== *)
theory Platform_Service
  imports Platform_Identity Platform_Secret
begin

text \<open>
  The frame of the platform's HTTP service (\<open>crates/starweaver-platform/src/service.rs\<close>, in-memory
  repository backend): the service state, its errors, authentication from headers, CSRF, the
  authorization of an action by static grants and by role bindings of live members, and the readers
  that the handlers share.

  An operation is a function of the state that returns a result and the state; \<open>?\<close> is \<open>pbind\<close>, which
  keeps what was written before an error. The environment holds SHA-256, the process environment, the
  base64url encoding, the URL library (a URL with query pairs appended), the JWT library, the OIDC
  HTTP client, the static grants and the single-user configuration; random bytes and clock readings
  are arguments of the handlers.
\<close>

subsection \<open>State and errors\<close>

datatype service_error =
    AuthenticationRequired | AuthenticationFailed string | ServiceBadRequest string
  | Forbidden string | ServiceInternal string | ServiceRequestTimeout | ResourceNotFound
  | RouteNotFound

definition service_error_response :: "service_error \<Rightarrow> nat \<times> string" where
  "service_error_response e =
     (case e of
        AuthenticationRequired \<Rightarrow> (401, ''authentication_required'')
      | AuthenticationFailed code \<Rightarrow> (401, code)
      | ServiceBadRequest code \<Rightarrow> (400, code)
      | Forbidden code \<Rightarrow> (403, code)
      | ServiceInternal code \<Rightarrow> (500, code)
      | ServiceRequestTimeout \<Rightarrow> (408, ''platform.request.timeout'')
      | ResourceNotFound \<Rightarrow> (404, ''resource_not_found'')
      | RouteNotFound \<Rightarrow> (404, ''route_not_found''))"

text \<open>Ownership of a resource (\<open>storage.rs\<close>); the store is keyed by kind and id.\<close>

record resource_owner =
  ro_resource_kind :: string
  ro_resource_id :: string
  ro_tenant_id :: string
  ro_organization_id :: "string option"
  ro_project_id :: "string option"

datatype store_error =
  StoreEmptyResourceKind | StoreEmptyResourceId | StoreEmptyTenantId | StoreProjectWithoutOrganization

fun store_error_str :: "store_error \<Rightarrow> string" where
  "store_error_str StoreEmptyResourceKind = ''resource_kind_empty''"
| "store_error_str StoreEmptyResourceId = ''resource_id_empty''"
| "store_error_str StoreEmptyTenantId = ''tenant_id_empty''"
| "store_error_str StoreProjectWithoutOrganization = ''project_without_organization''"

type_synonym owner_store = "((string \<times> string) \<times> resource_owner) list"

definition tenant_owner_record :: "string \<Rightarrow> string \<Rightarrow> string \<Rightarrow> resource_owner" where
  "tenant_owner_record kind resource_id tenant_id =
     \<lparr>ro_resource_kind = kind, ro_resource_id = resource_id, ro_tenant_id = tenant_id,
      ro_organization_id = None, ro_project_id = None\<rparr>"

definition owner_to_resource_ref :: "resource_owner \<Rightarrow> platform_resource_ref" where
  "owner_to_resource_ref r =
     \<lparr>rr_kind = ro_resource_kind r, rr_tenant_id = ro_tenant_id r,
      rr_organization_id = ro_organization_id r, rr_project_id = ro_project_id r,
      rr_resource_id = ro_resource_id r\<rparr>"

definition validate_owner_record :: "resource_owner \<Rightarrow> store_error + unit" where
  "validate_owner_record r =
     rbind (fail_if (trim (ro_resource_kind r) = '''') StoreEmptyResourceKind) (\<lambda>_.
     rbind (fail_if (trim (ro_resource_id r) = '''') StoreEmptyResourceId) (\<lambda>_.
     rbind (fail_if (trim (ro_tenant_id r) = '''') StoreEmptyTenantId) (\<lambda>_.
     fail_if (ro_project_id r \<noteq> None \<and> ro_organization_id r = None)
       StoreProjectWithoutOrganization)))"

definition record_resource_owner :: "resource_owner \<Rightarrow> owner_store \<Rightarrow> (store_error + unit) \<times> owner_store" where
  "record_resource_owner r s =
     (case validate_owner_record r of
        Inl e \<Rightarrow> (Inl e, s)
      | Inr _ \<Rightarrow>
          (let key = (ro_resource_kind r, ro_resource_id r)
           in (Inr (), (key, r) # filter (\<lambda>(k, _). k \<noteq> key) s)))"

definition find_resource_owner :: "owner_store \<Rightarrow> string \<Rightarrow> string \<Rightarrow> resource_owner option" where
  "find_resource_owner s kind resource_id = map_of s (kind, resource_id)"

text \<open>Business resources (\<open>resource.rs\<close>), keyed by kind and id as well.\<close>

record conversation_record =
  cv_title :: string
  cv_status :: string

record run_record =
  rn_conversation_id :: string
  rn_status :: string
  rn_model_alias :: string

record approval_record =
  apr_run_id :: string
  apr_status :: string
  apr_requested_action :: string

record deferred_tool_record =
  dt_run_id :: string
  dt_tool_name :: string
  dt_status :: string

record environment_attachment_record =
  ea_lease_id :: string
  ea_status :: string
  ea_readiness :: string

record evidence_archive_record =
  ev_manifest_uri :: string
  ev_retention_class :: string
  ev_debug_available :: bool

datatype resource_data =
    ConversationData conversation_record
  | RunData run_record
  | ApprovalData approval_record
  | DeferredToolData deferred_tool_record
  | EnvironmentAttachmentData environment_attachment_record
  | EvidenceArchiveData evidence_archive_record

fun resource_data_kind :: "resource_data \<Rightarrow> string" where
  "resource_data_kind (ConversationData _) = ''Conversation''"
| "resource_data_kind (RunData _) = ''Run''"
| "resource_data_kind (ApprovalData _) = ''Approval''"
| "resource_data_kind (DeferredToolData _) = ''DeferredTool''"
| "resource_data_kind (EnvironmentAttachmentData _) = ''EnvironmentAttachment''"
| "resource_data_kind (EvidenceArchiveData _) = ''EvidenceArchive''"

fun resource_data_safe_json :: "resource_data \<Rightarrow> json" where
  "resource_data_safe_json (ConversationData r) =
     JObject [(''title'', JString (cv_title r)), (''status'', JString (cv_status r))]"
| "resource_data_safe_json (RunData r) =
     JObject [(''conversation_id'', JString (rn_conversation_id r)), (''status'', JString (rn_status r)),
       (''model_alias'', JString (rn_model_alias r))]"
| "resource_data_safe_json (ApprovalData r) =
     JObject [(''run_id'', JString (apr_run_id r)), (''status'', JString (apr_status r)),
       (''requested_action'', JString (apr_requested_action r))]"
| "resource_data_safe_json (DeferredToolData r) =
     JObject [(''run_id'', JString (dt_run_id r)), (''tool_name'', JString (dt_tool_name r)),
       (''status'', JString (dt_status r))]"
| "resource_data_safe_json (EnvironmentAttachmentData r) =
     JObject [(''lease_id'', JString (ea_lease_id r)), (''status'', JString (ea_status r)),
       (''readiness'', JString (ea_readiness r))]"
| "resource_data_safe_json (EvidenceArchiveData r) =
     JObject [(''manifest_uri'', JString (ev_manifest_uri r)),
       (''retention_class'', JString (ev_retention_class r)),
       (''debug_available'', JBool (ev_debug_available r))]"

record platform_resource =
  pr_owner :: resource_owner
  pr_data :: resource_data

datatype resource_error = ResourceKindMismatch | ResourceEmptyId | ResourceEmptyKind

fun resource_error_str :: "resource_error \<Rightarrow> string" where
  "resource_error_str ResourceKindMismatch = ''resource_kind_mismatch''"
| "resource_error_str ResourceEmptyId = ''resource_id_empty''"
| "resource_error_str ResourceEmptyKind = ''resource_kind_empty''"

definition platform_resource_safe_json :: "platform_resource \<Rightarrow> json" where
  "platform_resource_safe_json r = JObject
     [(''kind'', JString (ro_resource_kind (pr_owner r))),
      (''resource_id'', JString (ro_resource_id (pr_owner r))),
      (''tenant_id'', JString (ro_tenant_id (pr_owner r))),
      (''organization_id'', json_opt_str (ro_organization_id (pr_owner r))),
      (''project_id'', json_opt_str (ro_project_id (pr_owner r))),
      (''data'', resource_data_safe_json (pr_data r))]"

definition validate_resource_record :: "platform_resource \<Rightarrow> resource_error + unit" where
  "validate_resource_record r =
     rbind (fail_if (trim (ro_resource_kind (pr_owner r)) = '''') ResourceEmptyKind) (\<lambda>_.
     rbind (fail_if (trim (ro_resource_id (pr_owner r)) = '''') ResourceEmptyId) (\<lambda>_.
     fail_if (ro_resource_kind (pr_owner r) \<noteq> resource_data_kind (pr_data r)) ResourceKindMismatch))"

definition new_platform_resource ::
  "resource_owner \<Rightarrow> resource_data \<Rightarrow> resource_error + platform_resource" where
  "new_platform_resource owner resource_content =
     (let r = \<lparr>pr_owner = owner, pr_data = resource_content\<rparr>
      in rbind (validate_resource_record r) (\<lambda>_. Inr r))"

type_synonym resource_store = "((string \<times> string) \<times> platform_resource) list"

definition record_platform_resource ::
  "platform_resource \<Rightarrow> resource_store \<Rightarrow> (resource_error + unit) \<times> resource_store" where
  "record_platform_resource r s =
     (case validate_resource_record r of
        Inl e \<Rightarrow> (Inl e, s)
      | Inr _ \<Rightarrow>
          (let key = (ro_resource_kind (pr_owner r), ro_resource_id (pr_owner r))
           in (Inr (), (key, r) # filter (\<lambda>(k, _). k \<noteq> key) s)))"

definition find_platform_resource :: "resource_store \<Rightarrow> string \<Rightarrow> string \<Rightarrow> platform_resource option" where
  "find_platform_resource s kind resource_id = map_of s (kind, resource_id)"

record platform_state =
  pl_owners :: owner_store
  pl_resources :: resource_store
  pl_sessions :: session_store
  pl_credentials :: bearer_credential_store
  pl_mtls :: mtls_identity_store
  pl_secrets :: secret_store
  pl_organization_members :: organization_member_store
  pl_project_members :: project_member_store
  pl_invitations :: invitation_store
  pl_external_identities :: external_identity_store
  pl_role_bindings :: role_binding_store
  pl_users :: user_store
  pl_audits :: audit_store
  pl_oidc_providers :: "oidc_provider btree"
  pl_oidc_attempts :: "oidc_attempt btree"

record single_user_config =
  su_username :: string
  su_password :: string
  su_primary_email :: "string option"
  su_display_name :: string

text \<open>
  The OIDC HTTP client: a discovery document, a JWKS document, and the ID token of a token request
  with its form and its basic authentication, or the error the client reports.
\<close>

record oidc_http =
  oh_discovery :: "string \<Rightarrow> service_error + oidc_discovery"
  oh_jwks :: "string \<Rightarrow> service_error + json_web_key list"
  oh_token :: "string \<Rightarrow> (string \<times> string) list \<Rightarrow> (string \<times> string) option \<Rightarrow> service_error + string"

record platform_env =
  pe_sha256 :: "string \<Rightarrow> string"
  pe_environment :: "string \<rightharpoonup> string"
  pe_base64url :: "string \<Rightarrow> string"
  pe_append_query :: "string \<Rightarrow> (string \<times> string) list \<Rightarrow> string option"
  pe_jwt :: jwt_library
  pe_oidc_http :: oidc_http
  pe_grants :: "platform_grant list"
  pe_single_user :: "single_user_config option"

subsection \<open>Operations\<close>

type_synonym 'a platform_op = "platform_state \<Rightarrow> (service_error + 'a) \<times> platform_state"

definition pbind :: "'a platform_op \<Rightarrow> ('a \<Rightarrow> 'b platform_op) \<Rightarrow> 'b platform_op" where
  "pbind m f = (\<lambda>s. case m s of (Inl e, s1) \<Rightarrow> (Inl e, s1) | (Inr a, s1) \<Rightarrow> f a s1)"

definition preturn :: "'a \<Rightarrow> 'a platform_op" where
  "preturn a = (\<lambda>s. (Inr a, s))"

text \<open>A fallible read of the state.\<close>

definition pread :: "(platform_state \<Rightarrow> service_error + 'a) \<Rightarrow> 'a platform_op" where
  "pread f = (\<lambda>s. (f s, s))"

text \<open>An operation on one store, with \<open>map_err\<close>.\<close>

definition map_err :: "('e \<Rightarrow> 'f) \<Rightarrow> 'e + 'a \<Rightarrow> 'f + 'a" where
  "map_err f r = (case r of Inl e \<Rightarrow> Inl (f e) | Inr a \<Rightarrow> Inr a)"

definition pstore ::
  "(platform_state \<Rightarrow> 'st) \<Rightarrow> (('st \<Rightarrow> 'st) \<Rightarrow> platform_state \<Rightarrow> platform_state) \<Rightarrow>
     ('e \<Rightarrow> service_error) \<Rightarrow> ('st \<Rightarrow> ('e + 'a) \<times> 'st) \<Rightarrow> 'a platform_op" where
  "pstore get upd err op = (\<lambda>s. case op (get s) of (r, st) \<Rightarrow> (map_err err r, upd (\<lambda>_. st) s))"

text \<open>An operation on one store that cannot fail, such as a cascade that counts.\<close>

definition pcount ::
  "(platform_state \<Rightarrow> 'st) \<Rightarrow> (('st \<Rightarrow> 'st) \<Rightarrow> platform_state \<Rightarrow> platform_state) \<Rightarrow>
     ('st \<Rightarrow> 'a \<times> 'st) \<Rightarrow> 'a platform_op" where
  "pcount get upd op = (\<lambda>s. case op (get s) of (n, st) \<Rightarrow> (Inr n, upd (\<lambda>_. st) s))"

lemma map_err_simps [simp]: "map_err f (Inl e) = Inl (f e)" "map_err f (Inr a) = Inr a"
  by (simp_all add: map_err_def)

lemma map_err_Inr_iff [result_simps]: "map_err f r = Inr a \<longleftrightarrow> r = Inr a"
  by (cases r) auto

lemma pbind_Inr [platform_simps]:
  "pbind m f s = (Inr b, s'') \<longleftrightarrow> (\<exists>a s'. m s = (Inr a, s') \<and> f a s' = (Inr b, s''))"
  by (auto simp: pbind_def split: prod.splits sum.splits)

lemma pread_Inr [platform_simps]: "pread f s = (Inr a, s') \<longleftrightarrow> f s = Inr a \<and> s' = s"
  by (auto simp: pread_def)

lemma preturn_Inr [platform_simps]: "preturn a s = (Inr b, s') \<longleftrightarrow> b = a \<and> s' = s"
  by (auto simp: preturn_def)

lemma pstore_Inr [platform_simps]:
  "pstore get upd err op s = (Inr a, s') \<longleftrightarrow>
     (\<exists>st. op (get s) = (Inr a, st) \<and> s' = upd (\<lambda>_. st) s)"
  by (auto simp: pstore_def result_simps split: prod.splits)

lemma pcount_Inr [platform_simps]:
  "pcount get upd op s = (Inr a, s') \<longleftrightarrow> (\<exists>st. op (get s) = (a, st) \<and> s' = upd (\<lambda>_. st) s)"
  by (auto simp: pcount_def split: prod.splits)

lemma pbind_eval:
  "m s = (Inr a, s') \<Longrightarrow> pbind m f s = f a s'" "m s = (Inl e, s') \<Longrightarrow> pbind m f s = (Inl e, s')"
  by (simp_all add: pbind_def)

subsection \<open>Error mappings\<close>

definition membership_error_to_service :: "membership_error \<Rightarrow> service_error" where
  "membership_error_to_service e =
     (case e of
        MemStaleResourceVersion \<Rightarrow> ServiceBadRequest ''stale_resource_version''
      | MemInvalidMembershipId \<Rightarrow> ResourceNotFound
      | _ \<Rightarrow> ServiceBadRequest (membership_error_str e))"

definition invitation_error_to_service :: "invitation_error \<Rightarrow> service_error" where
  "invitation_error_to_service e =
     (case e of
        IvInvalidInvitationId \<Rightarrow> ResourceNotFound
      | InvitationPrincipalMismatch \<Rightarrow> Forbidden ''invitation_principal_mismatch''
      | _ \<Rightarrow> ServiceBadRequest (invitation_error_str e))"

definition secret_error_to_service :: "secret_error \<Rightarrow> service_error" where
  "secret_error_to_service e =
     (case e of
        UnknownSecretRef \<Rightarrow> ResourceNotFound
      | SecretRefInactive \<Rightarrow> AuthenticationFailed (secret_error_str e)
      | EnvironmentSecretMissing \<Rightarrow> AuthenticationFailed (secret_error_str e)
      | SecretFingerprintMismatch \<Rightarrow> AuthenticationFailed (secret_error_str e)
      | _ \<Rightarrow> ServiceBadRequest (secret_error_str e))"

definition external_identity_error_to_service :: "external_identity_error \<Rightarrow> service_error" where
  "external_identity_error_to_service e =
     (case e of
        XiInvalidExternalIdentityId \<Rightarrow> ResourceNotFound
      | XiPrincipalMismatch \<Rightarrow> Forbidden ''external_identity_principal_mismatch''
      | _ \<Rightarrow> ServiceBadRequest (external_identity_error_str e))"

definition role_binding_error_to_service :: "role_binding_error \<Rightarrow> service_error" where
  "role_binding_error_to_service e =
     (case e of
        RbStaleResourceVersion \<Rightarrow> ServiceBadRequest ''stale_resource_version''
      | _ \<Rightarrow> ServiceBadRequest (role_binding_error_str e))"

definition user_error_to_service :: "user_error \<Rightarrow> service_error" where
  "user_error_to_service e =
     (case e of
        UnknownUser \<Rightarrow> ResourceNotFound
      | UserStaleResourceVersion \<Rightarrow> ServiceBadRequest ''stale_resource_version''
      | _ \<Rightarrow> ServiceBadRequest (user_error_str e))"

definition audit_error_to_service :: "platform_audit_error \<Rightarrow> service_error" where
  "audit_error_to_service e = ServiceBadRequest (platform_audit_error_str e)"

definition admin_auth_session_error :: "auth_error \<Rightarrow> service_error" where
  "admin_auth_session_error e =
     (case e of
        SessionNotFound \<Rightarrow> ResourceNotFound
      | EmptySessionId \<Rightarrow> ResourceNotFound
      | SessionRevoked \<Rightarrow> ServiceBadRequest ''auth_session_revoked''
      | SessionExpired \<Rightarrow> ServiceBadRequest ''auth_session_expired''
      | PrincipalDisabled \<Rightarrow> ServiceBadRequest ''principal_disabled''
      | _ \<Rightarrow> ServiceBadRequest (auth_error_str e))"

definition auth_failed :: "auth_error \<Rightarrow> service_error" where
  "auth_failed e = AuthenticationFailed (auth_error_str e)"

subsection \<open>Headers and authentication\<close>

type_synonym headers = "(string \<times> string) list"

definition VERIFIED_MTLS_SUBJECT_HEADER :: string where
  "VERIFIED_MTLS_SUBJECT_HEADER = ''x-starweaver-verified-client-cert-subject''"

definition PLATFORM_CSRF_TOKEN_HEADER :: string where
  "PLATFORM_CSRF_TOKEN_HEADER = ''x-starweaver-platform-csrf-token''"

text \<open>
  \<open>headers.get(name).and_then(|value| value.to_str().ok())\<close>: the first value of the header when all its
  bytes are visible ASCII, space or tab.
\<close>

definition header_str :: "headers \<Rightarrow> string \<Rightarrow> string option" where
  "header_str hs name =
     opt_filter (list_all (\<lambda>c. let b = (of_char c :: int) in b = 9 \<or> (32 \<le> b \<and> b < 127)))
       (map_of hs name)"

definition bearer_token :: "string \<Rightarrow> string option" where
  "bearer_token authorization =
     (let v = trim authorization
      in if starts_with v ''Bearer ''
         then opt_filter (\<lambda>t. t \<noteq> '''') (Some (trim (drop 7 v))) else None)"

definition authenticated_actor_from_headers ::
  "platform_env \<Rightarrow> headers \<Rightarrow> platform_state \<Rightarrow> service_error + platform_actor" where
  "authenticated_actor_from_headers env hs s =
     (case header_str hs ''authorization'' of
        Some authorization \<Rightarrow>
          (case bearer_token authorization of
             None \<Rightarrow> Inl (AuthenticationFailed ''invalid_bearer_authorization'')
           | Some raw \<Rightarrow>
               (case authenticated_actor_for_bearer (pe_sha256 env) (pl_sessions s) raw of
                  Inr actor \<Rightarrow> Inr actor
                | Inl SessionNotFound \<Rightarrow>
                    map_err auth_failed
                      (authenticated_actor_for_bearer_credential (pe_sha256 env) (pl_credentials s) raw)
                | Inl e \<Rightarrow> Inl (auth_failed e)))
      | None \<Rightarrow>
          (case header_str hs VERIFIED_MTLS_SUBJECT_HEADER of
             Some subject \<Rightarrow>
               map_err auth_failed (authenticated_actor_for_mtls_subject (pl_mtls s) subject)
           | None \<Rightarrow> Inl AuthenticationRequired))"

definition platform_csrf_token :: "(string \<Rightarrow> string) \<Rightarrow> platform_session \<Rightarrow> string" where
  "platform_csrf_token sha256 session =
     ''sha256:'' @ lower_hex (sha256 (''starweaver-platform-csrf-v1'' @ [CHR 0x00]
       @ ses_session_id session @ [CHR 0x00] @ ses_token_hash session))"

text \<open>
  \<open>constant_time_bytes_eq\<close>: every index up to the longer length is read, missing bytes as 0, and the
  differences are collected in one word.
\<close>

definition byte_or_zero :: "string \<Rightarrow> nat \<Rightarrow> nat" where
  "byte_or_zero s i = (if i < length s then of_char (s ! i) else 0)"

definition constant_time_bytes_eq :: "string \<Rightarrow> string \<Rightarrow> bool" where
  "constant_time_bytes_eq left right =
     (fold (\<lambda>i diff. Bit_Operations.or diff
         (Bit_Operations.xor (byte_or_zero left i) (byte_or_zero right i)))
       [0..<max (length left) (length right)]
       (Bit_Operations.xor (length left) (length right)) = 0)"

definition auth_session_from_headers ::
  "platform_env \<Rightarrow> headers \<Rightarrow> platform_state \<Rightarrow> service_error + (string \<times> platform_session)" where
  "auth_session_from_headers env hs s =
     rbind (ok_or AuthenticationRequired (header_str hs ''authorization'')) (\<lambda>authorization.
     rbind (ok_or (AuthenticationFailed ''invalid_bearer_authorization'') (bearer_token authorization)) (\<lambda>raw.
     rbind (map_err auth_failed (auth_session_for_bearer (pe_sha256 env) (pl_sessions s) raw)) (\<lambda>session.
     Inr (raw, session))))"

definition mutating_auth_session_from_headers ::
  "platform_env \<Rightarrow> headers \<Rightarrow> platform_state \<Rightarrow> service_error + (string \<times> platform_session)" where
  "mutating_auth_session_from_headers env hs s =
     rbind (auth_session_from_headers env hs s) (\<lambda>(raw, session).
     rbind (ok_or (AuthenticationFailed ''csrf_token_required'')
              (opt_filter (\<lambda>v. v \<noteq> '''') (map_option trim (header_str hs PLATFORM_CSRF_TOKEN_HEADER)))) (\<lambda>actual.
     rbind (fail_if (\<not> constant_time_bytes_eq (platform_csrf_token (pe_sha256 env) session) actual)
              (AuthenticationFailed ''csrf_token_invalid'')) (\<lambda>_.
     Inr (raw, session))))"

definition ensure_user_auth_session :: "platform_session \<Rightarrow> service_error + unit" where
  "ensure_user_auth_session session =
     fail_if (pa_actor_kind (ses_actor session) \<noteq> UserActor) (Forbidden ''user_actor_required'')"

subsection \<open>Authorization\<close>

definition role_binding_membership_allows :: "platform_state \<Rightarrow> role_binding \<Rightarrow> bool" where
  "role_binding_membership_allows s b =
     (case rb_project_id b of
        Some project_id \<Rightarrow>
          list_ex (\<lambda>m. pjm_tenant_id m = rb_tenant_id b \<and> pjm_principal_id m = rb_principal_id b
              \<and> member_accepts_access (pjm_status m))
            (project_members_for_project (pl_project_members s) project_id)
      | None \<Rightarrow>
          (case rb_organization_id b of
             Some organization_id \<Rightarrow>
               list_ex (\<lambda>m. om_tenant_id m = rb_tenant_id b \<and> om_principal_id m = rb_principal_id b
                   \<and> member_accepts_access (om_status m))
                 (organization_members_for_organization (pl_organization_members s) organization_id)
           | None \<Rightarrow> True))"

definition role_binding_scope_id :: "role_binding \<Rightarrow> string" where
  "role_binding_scope_id b =
     (case rb_project_id b of
        Some p \<Rightarrow> p
      | None \<Rightarrow> (case rb_organization_id b of Some i \<Rightarrow> i | None \<Rightarrow> rb_tenant_id b))"

definition role_binding_action_grants :: "role_binding \<Rightarrow> platform_grant list" where
  "role_binding_action_grants b =
     (case binding_built_in_role b of
        None \<Rightarrow> []
      | Some role \<Rightarrow>
          platform_for_builtin_role (rb_tenant_id b) (role_binding_scope_id b) (rb_principal_id b) role)"

definition role_binding_authorization_allows ::
  "platform_state \<Rightarrow> platform_actor \<Rightarrow> platform_action \<Rightarrow> platform_resource_ref \<Rightarrow> bool" where
  "role_binding_authorization_allows s actor action resource =
     (let bindings = active_role_bindings_for_principal (pl_role_bindings s)
            (pa_tenant_id actor) (pa_principal_id actor);
          grants = concat (map role_binding_action_grants
            (filter (role_binding_membership_allows s) bindings))
      in pdec_allowed (platform_authorize grants
           \<lparr>paq_actor = actor, paq_action = action, paq_resource = resource\<rparr>))"

definition authorize_service_action ::
  "platform_env \<Rightarrow> platform_actor \<Rightarrow> platform_action \<Rightarrow> platform_resource_ref \<Rightarrow> platform_state \<Rightarrow>
     service_error + unit" where
  "authorize_service_action env actor action resource s =
     (let decision = platform_authorize (pe_grants env)
            \<lparr>paq_actor = actor, paq_action = action, paq_resource = resource\<rparr>
      in if pdec_allowed decision then Inr ()
         else if role_binding_authorization_allows s actor action resource then Inr ()
         else Inl (Forbidden (pdec_reason decision)))"

subsection \<open>Shared helpers\<close>

definition tenant_from_request_or_actor :: "string option \<Rightarrow> platform_actor \<Rightarrow> service_error + string" where
  "tenant_from_request_or_actor requested actor =
     (case opt_filter (\<lambda>v. v \<noteq> '''') (map_option trim requested) of
        None \<Rightarrow> Inr (pa_tenant_id actor)
      | Some t \<Rightarrow> if t = pa_tenant_id actor then Inr t else Inl (Forbidden ''tenant_mismatch''))"

definition normalized_optional_string :: "string option \<Rightarrow> string option" where
  "normalized_optional_string v = opt_filter (\<lambda>x. x \<noteq> '''') (map_option trim v)"

definition normalized_email :: "string \<Rightarrow> string option" where
  "normalized_email v =
     (let email = to_ascii_lowercase (trim v)
      in if contains_str email ''@'' \<and> \<not> starts_with email ''@'' \<and> \<not> ends_with email ''@''
         then Some email else None)"

definition new_prefixed_id :: "string \<Rightarrow> string \<Rightarrow> string" where
  "new_prefixed_id prefix random_bytes = prefix @ ''_'' @ lower_hex random_bytes"

definition require_strong_auth_confirmation :: "string option \<Rightarrow> service_error + unit" where
  "require_strong_auth_confirmation v =
     fail_if (\<not> is_some_and v (\<lambda>x. trim x = ''confirm''))
       (Forbidden ''strong_auth_confirmation_required'')"

definition validate_id_prefix :: "string \<Rightarrow> string \<Rightarrow> string \<Rightarrow> service_error + unit" where
  "validate_id_prefix prefix code v = fail_if (\<not> starts_with v prefix) (ServiceBadRequest code)"

abbreviation service_validate_tenant_id :: "string \<Rightarrow> service_error + unit" where
  "service_validate_tenant_id \<equiv> validate_id_prefix ''ten_'' ''tenant_id_invalid''"

abbreviation service_validate_organization_id :: "string \<Rightarrow> service_error + unit" where
  "service_validate_organization_id \<equiv> validate_id_prefix ''org_'' ''organization_id_invalid''"

abbreviation service_validate_project_id :: "string \<Rightarrow> service_error + unit" where
  "service_validate_project_id \<equiv> validate_id_prefix ''prj_'' ''project_id_invalid''"

abbreviation service_validate_user_id :: "string \<Rightarrow> service_error + unit" where
  "service_validate_user_id \<equiv> validate_id_prefix ''usr_'' ''user_id_invalid''"

definition ensure_actor_tenant :: "platform_actor \<Rightarrow> string \<Rightarrow> service_error + unit" where
  "ensure_actor_tenant actor tenant_id =
     fail_if (pa_tenant_id actor \<noteq> tenant_id) (Forbidden ''tenant_mismatch'')"

definition organization_scope_resource ::
  "platform_actor \<Rightarrow> string \<Rightarrow> string \<Rightarrow> service_error + platform_resource_ref" where
  "organization_scope_resource actor organization_id kind =
     rbind (service_validate_organization_id organization_id) (\<lambda>_.
     Inr \<lparr>rr_kind = kind, rr_tenant_id = pa_tenant_id actor,
          rr_organization_id = Some organization_id, rr_project_id = None,
          rr_resource_id = organization_id\<rparr>)"

definition project_scope_resource ::
  "platform_actor \<Rightarrow> string \<Rightarrow> string \<Rightarrow> service_error + platform_resource_ref" where
  "project_scope_resource actor project_id kind =
     rbind (service_validate_project_id project_id) (\<lambda>_.
     rbind (ok_or (Forbidden ''organization_scope_required'') (pa_organization_id actor)) (\<lambda>organization_id.
     Inr (project_resource kind (pa_tenant_id actor) organization_id project_id project_id)))"

definition organization_member_resource :: "organization_member \<Rightarrow> platform_resource_ref" where
  "organization_member_resource m =
     \<lparr>rr_kind = ''OrganizationMember'', rr_tenant_id = om_tenant_id m,
      rr_organization_id = Some (om_organization_id m), rr_project_id = None,
      rr_resource_id = om_organization_member_id m\<rparr>"

definition project_member_resource :: "project_member \<Rightarrow> platform_resource_ref" where
  "project_member_resource m =
     project_resource ''ProjectMember'' (pjm_tenant_id m) (pjm_organization_id m)
       (pjm_project_id m) (pjm_project_member_id m)"

definition role_binding_resource :: "role_binding \<Rightarrow> platform_resource_ref" where
  "role_binding_resource b =
     (case rb_project_id b of
        Some project_id \<Rightarrow>
          project_resource ''RoleBinding'' (rb_tenant_id b)
            (case rb_organization_id b of Some i \<Rightarrow> i | None \<Rightarrow> rb_tenant_id b)
            project_id (rb_role_binding_id b)
      | None \<Rightarrow>
          (case rb_organization_id b of
             Some organization_id \<Rightarrow>
               \<lparr>rr_kind = ''RoleBinding'', rr_tenant_id = rb_tenant_id b,
                rr_organization_id = Some organization_id, rr_project_id = None,
                rr_resource_id = rb_role_binding_id b\<rparr>
           | None \<Rightarrow> tenant_resource ''RoleBinding'' (rb_tenant_id b) (rb_role_binding_id b)))"

definition organization_invitation_resource :: "organization_invitation \<Rightarrow> platform_resource_ref" where
  "organization_invitation_resource iv =
     \<lparr>rr_kind = ''OrganizationInvitation'', rr_tenant_id = iv_tenant_id iv,
      rr_organization_id = Some (iv_organization_id iv), rr_project_id = iv_project_id iv,
      rr_resource_id = iv_invitation_id iv\<rparr>"

definition external_identity_resource :: "external_identity \<Rightarrow> platform_resource_ref" where
  "external_identity_resource x =
     tenant_resource ''ExternalIdentity'' (xi_tenant_id x) (xi_external_identity_id x)"

definition platform_user_resource :: "user_record \<Rightarrow> platform_resource_ref" where
  "platform_user_resource u = tenant_resource ''User'' (us_tenant_id u) (us_user_id u)"

text \<open>Authentication and authorization at the head of a handler.\<close>

definition pactor :: "platform_env \<Rightarrow> headers \<Rightarrow> platform_actor platform_op" where
  "pactor env hs = pread (authenticated_actor_from_headers env hs)"

definition pauthorize ::
  "platform_env \<Rightarrow> platform_actor \<Rightarrow> platform_action \<Rightarrow> platform_resource_ref \<Rightarrow> unit platform_op" where
  "pauthorize env actor action resource = pread (authorize_service_action env actor action resource)"

abbreviation pensure :: "service_error + 'a \<Rightarrow> 'a platform_op" where
  "pensure r \<equiv> pread (\<lambda>_. r)"

definition record_platform_audit_event ::
  "string \<Rightarrow> i64 \<Rightarrow> platform_actor \<Rightarrow> platform_action \<Rightarrow> platform_resource_ref \<Rightarrow> string \<Rightarrow> string option \<Rightarrow>
     platform_audit_event platform_op" where
  "record_platform_audit_event random_bytes now_unix actor action resource event_type reason =
     (let e = \<lparr>pau_audit_event_id = new_prefixed_id ''audit'' random_bytes,
            pau_tenant_id = rr_tenant_id resource, pau_organization_id = rr_organization_id resource,
            pau_project_id = rr_project_id resource,
            pau_actor_principal_id = pa_principal_id actor, pau_actor_kind = pa_actor_kind actor,
            pau_action_id = platform_action_str action, pau_resource_kind = rr_kind resource,
            pau_resource_id = rr_resource_id resource, pau_event_type = event_type,
            pau_reason = normalized_optional_string reason,
            pau_redaction = PLATFORM_AUDIT_REDACTION_PROFILE, pau_created_at_unix = now_unix\<rparr>
      in pbind (pstore pl_audits pl_audits_update audit_error_to_service (record_audit_event e))
           (\<lambda>_. preturn e))"

end
