(* ===== verification/Platform_Handlers.thy ===== *)
theory Platform_Handlers
  imports Platform_Service
begin

text \<open>
  The directory handlers of the platform (\<open>crates/starweaver-platform/src/service.rs\<close>) that change
  state: users and their sessions, role bindings, organization and project members, invitations and
  external identities. A handler returns the records of its response; the JSON rendering is left out.
\<close>

subsection \<open>Users and sessions\<close>

record user_status_request =
  usq_expected_version :: i64
  usq_status :: string
  usq_reason :: "string option"
  usq_strong_auth_confirmation :: "string option"

definition platform_user_status_from_request :: "string \<Rightarrow> service_error + user_status" where
  "platform_user_status_from_request v =
     ok_or (ServiceBadRequest ''user_status_invalid'') (user_status_from_id (trim v))"

definition platform_user_by_id :: "string \<Rightarrow> platform_state \<Rightarrow> service_error + user_record" where
  "platform_user_by_id user_id s = ok_or ResourceNotFound (find_user (pl_users s) user_id)"

definition ensure_user_can_login :: "string \<Rightarrow> platform_state \<Rightarrow> service_error + unit" where
  "ensure_user_can_login user_id s =
     (case user_including_deleted (pl_users s) user_id of
        None \<Rightarrow> Inr ()
      | Some u \<Rightarrow> fail_if (\<not> user_accepts_access (us_status u)) (AuthenticationFailed ''principal_disabled''))"

definition disable_auth_sessions_for_principal :: "string \<Rightarrow> string \<Rightarrow> nat platform_op" where
  "disable_auth_sessions_for_principal tenant_id principal_id =
     pcount pl_sessions pl_sessions_update
       (store_disable_auth_sessions_for_principal tenant_id principal_id)"

definition update_platform_user_status ::
  "platform_env \<Rightarrow> headers \<Rightarrow> string \<Rightarrow> user_status_request \<Rightarrow> string \<Rightarrow> i64 \<Rightarrow>
     (user_record \<times> user_status \<times> nat) platform_op" where
  "update_platform_user_status env hs user_id request random_bytes now_unix =
     pbind (pensure (service_validate_user_id user_id)) (\<lambda>_.
     pbind (pactor env hs) (\<lambda>actor.
     pbind (pread (platform_user_by_id user_id)) (\<lambda>before.
     pbind (pensure (ensure_actor_tenant actor (us_tenant_id before))) (\<lambda>_.
     pbind (pauthorize env actor UserWrite (platform_user_resource before)) (\<lambda>_.
     pbind (pensure (require_strong_auth_confirmation (usq_strong_auth_confirmation request))) (\<lambda>_.
     pbind (pensure (platform_user_status_from_request (usq_status request))) (\<lambda>status.
     pbind (pstore pl_users pl_users_update user_error_to_service
              (update_user_status user_id (usq_expected_version request) status)) (\<lambda>updated.
     pbind (if user_accepts_access (us_status updated) then preturn 0
            else disable_auth_sessions_for_principal (us_tenant_id updated) (us_user_id updated)) (\<lambda>n.
     pbind (record_platform_audit_event random_bytes now_unix actor UserWrite
              (platform_user_resource before) ''platform.user.status.update'' (usq_reason request)) (\<lambda>_.
     preturn (updated, us_status before, n)))))))))))"

record strong_auth_request =
  saq_reason :: "string option"
  saq_strong_auth_confirmation :: "string option"

definition ensure_auth_session_belongs_to_user ::
  "platform_session \<Rightarrow> user_record \<Rightarrow> service_error + unit" where
  "ensure_auth_session_belongs_to_user session user =
     fail_if (\<not> (pa_tenant_id (ses_actor session) = us_tenant_id user
       \<and> pa_principal_id (ses_actor session) = us_user_id user)) ResourceNotFound"

definition revoke_user_auth_session ::
  "platform_env \<Rightarrow> headers \<Rightarrow> string \<Rightarrow> string \<Rightarrow> strong_auth_request \<Rightarrow> string \<Rightarrow> i64 \<Rightarrow>
     (platform_session \<times> session_status) platform_op" where
  "revoke_user_auth_session env hs user_id auth_session_id request random_bytes now_unix =
     pbind (pensure (service_validate_user_id user_id)) (\<lambda>_.
     pbind (pactor env hs) (\<lambda>actor.
     pbind (pread (platform_user_by_id user_id)) (\<lambda>user.
     pbind (pensure (ensure_actor_tenant actor (us_tenant_id user))) (\<lambda>_.
     let resource = tenant_resource ''AuthSession'' (us_tenant_id user) auth_session_id in
     pbind (pauthorize env actor AuthSessionRevoke resource) (\<lambda>_.
     pbind (pensure (require_strong_auth_confirmation (saq_strong_auth_confirmation request))) (\<lambda>_.
     pbind (pread (\<lambda>s. ok_or ResourceNotFound (auth_session_with_id (pl_sessions s) auth_session_id))) (\<lambda>before.
     pbind (pensure (ensure_auth_session_belongs_to_user before user)) (\<lambda>_.
     pbind (pstore pl_sessions pl_sessions_update admin_auth_session_error
              (store_revoke_auth_session_by_id auth_session_id)) (\<lambda>revoked.
     pbind (record_platform_audit_event random_bytes now_unix actor AuthSessionRevoke resource
              ''platform.auth_session.revoke'' (saq_reason request)) (\<lambda>_.
     preturn (revoked, ses_status before)))))))))))"

definition unlink_user_external_identity ::
  "platform_env \<Rightarrow> headers \<Rightarrow> string \<Rightarrow> string \<Rightarrow> strong_auth_request \<Rightarrow> string \<Rightarrow> i64 \<Rightarrow>
     (external_identity \<times> external_identity_status) platform_op" where
  "unlink_user_external_identity env hs user_id external_identity_id request random_bytes now_unix =
     pbind (pensure (service_validate_user_id user_id)) (\<lambda>_.
     pbind (pactor env hs) (\<lambda>actor.
     pbind (pread (\<lambda>s. rbind (ok_or ResourceNotFound
                (btree_get (pl_external_identities s) external_identity_id)) (\<lambda>x.
              rbind (fail_if (\<not> (xi_tenant_id x = pa_tenant_id actor \<and> xi_principal_id x = user_id))
                ResourceNotFound) (\<lambda>_. Inr x)))) (\<lambda>before.
     pbind (pensure (fail_if (xi_provider_kind before = ''single_user'')
              (ServiceBadRequest ''single_user_identity_unlink_forbidden''))) (\<lambda>_.
     pbind (pauthorize env actor ExternalIdentityUnlink (external_identity_resource before)) (\<lambda>_.
     pbind (pensure (require_strong_auth_confirmation (saq_strong_auth_confirmation request))) (\<lambda>_.
     pbind (pstore pl_external_identities pl_external_identities_update
              external_identity_error_to_service
              (store_unlink_external_identity external_identity_id)) (\<lambda>unlinked.
     pbind (record_platform_audit_event random_bytes now_unix actor ExternalIdentityUnlink
              (external_identity_resource before) ''platform.external_identity.unlink''
              (saq_reason request)) (\<lambda>_.
     preturn (unlinked, xi_status before)))))))))"

subsection \<open>Role bindings\<close>

record create_role_binding_request =
  crb_binding :: "string option"
  crb_tenant :: "string option"
  crb_organization :: "string option"
  crb_project :: "string option"
  crb_principal :: string
  crb_role :: string

definition role_binding_record_from_create_request ::
  "create_role_binding_request \<Rightarrow> string \<Rightarrow> string \<Rightarrow> service_error + role_binding" where
  "role_binding_record_from_create_request request tenant_id random_bytes =
     (let b = \<lparr>rb_role_binding_id =
              unwrap_or (normalized_optional_string (crb_binding request)) (new_prefixed_id ''rb'' random_bytes),
            rb_tenant_id = tenant_id,
            rb_organization_id = normalized_optional_string (crb_organization request),
            rb_project_id = normalized_optional_string (crb_project request),
            rb_principal_id = trim (crb_principal request), rb_role_id = trim (crb_role request),
            rb_status = BindingActive, rb_resource_version = 1\<rparr>
      in rbind (map_err role_binding_error_to_service (validate_role_binding b)) (\<lambda>_. Inr b))"

definition equivalent_role_binding :: "role_binding \<Rightarrow> platform_state \<Rightarrow> role_binding option" where
  "equivalent_role_binding candidate s =
     find (\<lambda>b. rb_organization_id b = rb_organization_id candidate
         \<and> rb_project_id b = rb_project_id candidate
         \<and> rb_principal_id b = rb_principal_id candidate \<and> rb_role_id b = rb_role_id candidate)
       (role_bindings_for_tenant (pl_role_bindings s) (rb_tenant_id candidate))"

definition upsert_request_of_binding :: "role_binding \<Rightarrow> role_binding_upsert" where
  "upsert_request_of_binding b =
     \<lparr>rbu_role_binding_id = rb_role_binding_id b, rbu_tenant_id = rb_tenant_id b,
      rbu_organization_id = rb_organization_id b, rbu_project_id = rb_project_id b,
      rbu_principal_id = rb_principal_id b, rbu_role_id = rb_role_id b\<rparr>"

definition create_role_binding ::
  "platform_env \<Rightarrow> headers \<Rightarrow> create_role_binding_request \<Rightarrow> string \<Rightarrow> (role_binding \<times> bool) platform_op" where
  "create_role_binding env hs request random_bytes =
     pbind (pactor env hs) (\<lambda>actor.
     pbind (pensure (tenant_from_request_or_actor (crb_tenant request) actor)) (\<lambda>tenant_id.
     pbind (pensure (role_binding_record_from_create_request request tenant_id random_bytes)) (\<lambda>candidate.
     pbind (pauthorize env actor RoleBindingWrite (role_binding_resource candidate)) (\<lambda>_.
     pbind (pread (\<lambda>s. Inr (equivalent_role_binding candidate s))) (\<lambda>existing.
     pbind (pstore pl_role_bindings pl_role_bindings_update role_binding_error_to_service
              (upsert_role_binding (upsert_request_of_binding (unwrap_or existing candidate)))) (\<lambda>b.
     preturn (b, existing = None)))))))"

record version_status_request =
  vsq_expected_version :: i64
  vsq_status :: string
  vsq_reason :: "string option"

definition role_binding_by_id :: "string \<Rightarrow> platform_state \<Rightarrow> service_error + role_binding" where
  "role_binding_by_id i s =
     ok_or ResourceNotFound
       (opt_filter (\<lambda>b. rb_status b \<noteq> BindingDeleted) (btree_get (pl_role_bindings s) i))"

definition role_binding_status_from_request :: "string \<Rightarrow> service_error + binding_status" where
  "role_binding_status_from_request v =
     ok_or (ServiceBadRequest ''role_binding_status_invalid'') (binding_status_from_id (trim v))"

definition update_role_binding_status ::
  "platform_env \<Rightarrow> headers \<Rightarrow> string \<Rightarrow> version_status_request \<Rightarrow> (role_binding \<times> binding_status) platform_op" where
  "update_role_binding_status env hs role_binding_id request =
     pbind (pactor env hs) (\<lambda>actor.
     pbind (pread (role_binding_by_id role_binding_id)) (\<lambda>before.
     pbind (pauthorize env actor RoleBindingWrite (role_binding_resource before)) (\<lambda>_.
     pbind (pensure (role_binding_status_from_request (vsq_status request))) (\<lambda>status.
     pbind (pstore pl_role_bindings pl_role_bindings_update role_binding_error_to_service
              (store_update_role_binding_status role_binding_id (vsq_expected_version request) status)) (\<lambda>updated.
     preturn (updated, rb_status before))))))"

subsection \<open>Organization members\<close>

record create_organization_member_request =
  com_organization_member_id :: "string option"
  com_principal_id :: string
  com_membership_kind :: "string option"

definition normalized_membership_kind :: "string option \<Rightarrow> service_error + string" where
  "normalized_membership_kind v =
     (let kind = unwrap_or (normalized_optional_string v) ''user''
      in if kind = ''user'' \<or> kind = ''service_account'' then Inr kind
         else Inl (ServiceBadRequest ''membership_kind_invalid''))"

definition create_organization_member ::
  "platform_env \<Rightarrow> headers \<Rightarrow> string \<Rightarrow> create_organization_member_request \<Rightarrow> string \<Rightarrow>
     (organization_member \<times> bool) platform_op" where
  "create_organization_member env hs organization_id request random_bytes =
     pbind (pensure (service_validate_organization_id organization_id)) (\<lambda>_.
     pbind (pactor env hs) (\<lambda>actor.
     pbind (pensure (organization_scope_resource actor organization_id ''OrganizationMember'')) (\<lambda>resource.
     pbind (pauthorize env actor OrganizationMemberWrite resource) (\<lambda>_.
     let principal_id = trim (com_principal_id request) in
     pbind (pensure (normalized_membership_kind (com_membership_kind request))) (\<lambda>kind.
     pbind (pread (\<lambda>s. Inr (find (\<lambda>m. om_tenant_id m = pa_tenant_id actor
                \<and> om_organization_id m = organization_id \<and> om_principal_id m = principal_id)
              (organization_members_for_organization (pl_organization_members s) organization_id)))) (\<lambda>existing.
     let member_id = unwrap_or (normalized_optional_string (com_organization_member_id request))
           (case existing of None \<Rightarrow> new_prefixed_id ''om'' random_bytes
            | Some m \<Rightarrow> om_organization_member_id m) in
     pbind (pstore pl_organization_members pl_organization_members_update membership_error_to_service
              (upsert_organization_member
                \<lparr>omu_organization_member_id = member_id, omu_tenant_id = pa_tenant_id actor,
                 omu_organization_id = organization_id, omu_principal_id = principal_id,
                 omu_membership_kind = kind, omu_created_by = pa_principal_id actor\<rparr>)) (\<lambda>member.
     preturn (member, existing = None))))))))"

definition organization_member_for_actor ::
  "platform_actor \<Rightarrow> string \<Rightarrow> string \<Rightarrow> platform_state \<Rightarrow> service_error + organization_member" where
  "organization_member_for_actor actor organization_id i s =
     rbind (ok_or ResourceNotFound (btree_get (pl_organization_members s) i)) (\<lambda>m.
     rbind (fail_if (\<not> (om_tenant_id m = pa_tenant_id actor \<and> om_organization_id m = organization_id))
              ResourceNotFound) (\<lambda>_. Inr m))"

definition membership_status_from_request :: "string \<Rightarrow> service_error + member_status" where
  "membership_status_from_request v =
     ok_or (ServiceBadRequest ''membership_status_invalid'') (member_status_from_id (trim v))"

definition cascade_members :: "organization_member \<Rightarrow> member_status \<Rightarrow> nat platform_op" where
  "cascade_members member status =
     pcount pl_project_members pl_project_members_update (cascade_project_memberships member status)"

definition delete_organization_bindings :: "organization_member \<Rightarrow> nat platform_op" where
  "delete_organization_bindings member =
     pcount pl_role_bindings pl_role_bindings_update
       (delete_role_bindings_for_organization_principal (om_tenant_id member)
         (om_organization_id member) (om_principal_id member))"

definition update_organization_member ::
  "platform_env \<Rightarrow> headers \<Rightarrow> string \<Rightarrow> string \<Rightarrow> version_status_request \<Rightarrow>
     (organization_member \<times> member_status \<times> nat \<times> nat) platform_op" where
  "update_organization_member env hs organization_id organization_member_id request =
     pbind (pactor env hs) (\<lambda>actor.
     pbind (pread (organization_member_for_actor actor organization_id organization_member_id)) (\<lambda>before.
     pbind (pauthorize env actor OrganizationMemberWrite (organization_member_resource before)) (\<lambda>_.
     pbind (pensure (membership_status_from_request (vsq_status request))) (\<lambda>status.
     pbind (pstore pl_organization_members pl_organization_members_update membership_error_to_service
              (update_organization_member_status organization_member_id
                (vsq_expected_version request) status)) (\<lambda>updated.
     pbind (cascade_members updated status) (\<lambda>projects.
     pbind (if status = MemberRemoved then delete_organization_bindings updated else preturn 0) (\<lambda>bindings.
     preturn (updated, om_status before, projects, bindings))))))))"

record remove_member_request =
  rmq_expected_version :: i64
  rmq_reason :: "string option"

definition remove_organization_member ::
  "platform_env \<Rightarrow> headers \<Rightarrow> string \<Rightarrow> string \<Rightarrow> remove_member_request \<Rightarrow>
     (organization_member \<times> member_status \<times> nat \<times> nat) platform_op" where
  "remove_organization_member env hs organization_id organization_member_id request =
     pbind (pactor env hs) (\<lambda>actor.
     pbind (pread (organization_member_for_actor actor organization_id organization_member_id)) (\<lambda>before.
     pbind (pauthorize env actor OrganizationMemberWrite (organization_member_resource before)) (\<lambda>_.
     pbind (pstore pl_organization_members pl_organization_members_update membership_error_to_service
              (update_organization_member_status organization_member_id
                (rmq_expected_version request) MemberRemoved)) (\<lambda>updated.
     pbind (cascade_members updated MemberRemoved) (\<lambda>projects.
     pbind (delete_organization_bindings updated) (\<lambda>bindings.
     preturn (updated, om_status before, projects, bindings)))))))"

subsection \<open>Project members\<close>

record create_project_member_request =
  cpm_project_member_id :: "string option"
  cpm_organization_member_id :: string

definition active_organization_member_by_id_for_actor ::
  "platform_actor \<Rightarrow> string \<Rightarrow> platform_state \<Rightarrow> service_error + organization_member" where
  "active_organization_member_by_id_for_actor actor i s =
     rbind (fail_if (\<not> starts_with i ''om_'') (ServiceBadRequest ''membership_id_invalid'')) (\<lambda>_.
     rbind (ok_or ResourceNotFound (btree_get (pl_organization_members s) i)) (\<lambda>m.
     rbind (fail_if (om_tenant_id m \<noteq> pa_tenant_id actor) (Forbidden ''tenant_mismatch'')) (\<lambda>_.
     rbind (fail_if (\<not> member_accepts_access (om_status m))
              (Forbidden ''organization_membership_required'')) (\<lambda>_. Inr m))))"

definition ensure_project_member_create_matches_project_organization ::
  "project_member list \<Rightarrow> organization_member \<Rightarrow> service_error + unit" where
  "ensure_project_member_create_matches_project_organization existing_members m =
     (case existing_members of
        [] \<Rightarrow> Inr ()
      | e # _ \<Rightarrow>
          rbind (fail_if (pjm_tenant_id e \<noteq> om_tenant_id m) (Forbidden ''tenant_mismatch'')) (\<lambda>_.
          fail_if (pjm_organization_id e \<noteq> om_organization_id m)
            (Forbidden ''project_organization_mismatch'')))"

definition create_project_member ::
  "platform_env \<Rightarrow> headers \<Rightarrow> string \<Rightarrow> create_project_member_request \<Rightarrow> string \<Rightarrow>
     (project_member \<times> bool) platform_op" where
  "create_project_member env hs project_id request random_bytes =
     pbind (pensure (service_validate_project_id project_id)) (\<lambda>_.
     pbind (pactor env hs) (\<lambda>actor.
     pbind (pread (active_organization_member_by_id_for_actor actor (cpm_organization_member_id request))) (\<lambda>om.
     pbind (pread (\<lambda>s. Inr (project_members_for_project (pl_project_members s) project_id))) (\<lambda>members.
     pbind (pensure (ensure_project_member_create_matches_project_organization members om)) (\<lambda>_.
     pbind (pauthorize env actor ProjectMemberWrite
              (project_resource ''ProjectMember'' (om_tenant_id om) (om_organization_id om)
                project_id project_id)) (\<lambda>_.
     let existing = find (\<lambda>m. pjm_tenant_id m = om_tenant_id om \<and> pjm_project_id m = project_id
            \<and> pjm_principal_id m = om_principal_id om) members;
         member_id = unwrap_or (normalized_optional_string (cpm_project_member_id request))
            (case existing of None \<Rightarrow> new_prefixed_id ''pm'' random_bytes
             | Some m \<Rightarrow> pjm_project_member_id m) in
     pbind (pstore pl_project_members pl_project_members_update membership_error_to_service
              (upsert_project_member
                \<lparr>pmu_project_member_id = member_id, pmu_tenant_id = om_tenant_id om,
                 pmu_organization_id = om_organization_id om, pmu_project_id = project_id,
                 pmu_principal_id = om_principal_id om,
                 pmu_organization_member_id = om_organization_member_id om,
                 pmu_membership_kind = om_membership_kind om,
                 pmu_created_by = pa_principal_id actor\<rparr>)) (\<lambda>created.
     preturn (created, existing = None))))))))"

definition project_member_for_actor ::
  "platform_actor \<Rightarrow> string \<Rightarrow> string \<Rightarrow> platform_state \<Rightarrow> service_error + project_member" where
  "project_member_for_actor actor project_id i s =
     rbind (ok_or ResourceNotFound (btree_get (pl_project_members s) i)) (\<lambda>m.
     rbind (fail_if (\<not> (pjm_tenant_id m = pa_tenant_id actor \<and> pjm_project_id m = project_id))
              ResourceNotFound) (\<lambda>_. Inr m))"

definition update_project_member ::
  "platform_env \<Rightarrow> headers \<Rightarrow> string \<Rightarrow> string \<Rightarrow> version_status_request \<Rightarrow>
     (project_member \<times> member_status \<times> nat) platform_op" where
  "update_project_member env hs project_id project_member_id request =
     pbind (pactor env hs) (\<lambda>actor.
     pbind (pread (project_member_for_actor actor project_id project_member_id)) (\<lambda>before.
     pbind (pauthorize env actor ProjectMemberWrite (project_member_resource before)) (\<lambda>_.
     pbind (pensure (membership_status_from_request (vsq_status request))) (\<lambda>status.
     pbind (pstore pl_project_members pl_project_members_update membership_error_to_service
              (update_project_member_status project_member_id
                (vsq_expected_version request) status)) (\<lambda>updated.
     pbind (if status = MemberRemoved
            then pcount pl_role_bindings pl_role_bindings_update
              (delete_role_bindings_for_project_principal (pjm_tenant_id updated)
                (pjm_project_id updated) (pjm_principal_id updated))
            else preturn 0) (\<lambda>bindings.
     preturn (updated, pjm_status before, bindings)))))))"

subsection \<open>Invitations\<close>

record create_invitation_request =
  civ_invitation_id :: "string option"
  civ_project_id :: "string option"
  civ_invited_email :: "string option"
  civ_invited_principal_id :: "string option"
  civ_role_id :: "string option"
  civ_expires_at_unix :: "i64 option"

definition ORGANIZATION_INVITATION_TTL_SECONDS :: i64 where
  "ORGANIZATION_INVITATION_TTL_SECONDS = 7 * 24 * 60 * 60"

text \<open>
  \<open>generate_invitation_token\<close>: the prefix and the base64url text of 32 random bytes, which are the
  argument \<open>secret\<close>; \<open>random_bytes\<close> make the id.
\<close>

definition generate_invitation_token :: "platform_env \<Rightarrow> string \<Rightarrow> string" where
  "generate_invitation_token env secret = PLATFORM_INVITATION_TOKEN_PREFIX @ pe_base64url env secret"

definition organization_invitation_record_from_create_request ::
  "platform_env \<Rightarrow> create_invitation_request \<Rightarrow> platform_actor \<Rightarrow> string \<Rightarrow> i64 \<Rightarrow> string \<Rightarrow> string \<Rightarrow>
     service_error + (organization_invitation \<times> string)" where
  "organization_invitation_record_from_create_request env request actor organization_id now_unix
       random_bytes secret =
     rbind (service_validate_organization_id organization_id) (\<lambda>_.
     let invited_email = Option.bind (civ_invited_email request) normalized_email;
         invited_principal_id = normalized_optional_string (civ_invited_principal_id request) in
     rbind (fail_if ((invited_email \<noteq> None) = (invited_principal_id \<noteq> None))
              (ServiceBadRequest ''invitation_target_invalid'')) (\<lambda>_.
     rbind (fail_if (is_some_and invited_principal_id (\<lambda>p. \<not> starts_with p ''usr_''))
              (ServiceBadRequest ''principal_id_invalid'')) (\<lambda>_.
     let project_id = normalized_optional_string (civ_project_id request) in
     rbind (fail_if (is_some_and project_id (\<lambda>p. \<not> starts_with p ''prj_''))
              (ServiceBadRequest ''project_id_invalid'')) (\<lambda>_.
     let expires_at_unix = unwrap_or (civ_expires_at_unix request)
           (wrap_i64 (now_unix + ORGANIZATION_INVITATION_TTL_SECONDS)) in
     rbind (fail_if (expires_at_unix \<le> now_unix) (ServiceBadRequest ''invitation_expiry_invalid'')) (\<lambda>_.
     let raw_token = generate_invitation_token env secret;
         iv = \<lparr>iv_invitation_id = unwrap_or (normalized_optional_string (civ_invitation_id request))
                 (new_prefixed_id ''inv'' random_bytes),
               iv_tenant_id = pa_tenant_id actor, iv_organization_id = organization_id,
               iv_project_id = project_id, iv_invited_email = invited_email,
               iv_invited_principal_id = invited_principal_id,
               iv_invitation_token_hash = hash_platform_invitation_token (pe_sha256 env) raw_token,
               iv_role_id = unwrap_or (normalized_optional_string (civ_role_id request)) ''organization_member'',
               iv_status = InvitationPending, iv_expires_at_unix = expires_at_unix,
               iv_accepted_at_unix = None, iv_created_by = pa_principal_id actor,
               iv_resource_version = 1, iv_created_at_unix = now_unix,
               iv_updated_at_unix = now_unix\<rparr> in
     rbind (map_err invitation_error_to_service (validate_organization_invitation iv)) (\<lambda>_.
     Inr (iv, raw_token)))))))"

definition create_organization_invitation ::
  "platform_env \<Rightarrow> headers \<Rightarrow> string \<Rightarrow> create_invitation_request \<Rightarrow> i64 \<Rightarrow> string \<Rightarrow> string \<Rightarrow>
     (organization_invitation \<times> string) platform_op" where
  "create_organization_invitation env hs organization_id request now_unix random_bytes secret =
     pbind (pactor env hs) (\<lambda>actor.
     pbind (pensure (organization_scope_resource actor organization_id ''OrganizationInvitation'')) (\<lambda>resource.
     pbind (pauthorize env actor OrganizationInvitationCreate resource) (\<lambda>_.
     pbind (pensure (organization_invitation_record_from_create_request env request actor
              organization_id now_unix random_bytes secret)) (\<lambda>(iv, raw_token).
     pbind (pstore pl_invitations pl_invitations_update invitation_error_to_service
              (store_create_organization_invitation iv)) (\<lambda>created.
     preturn (created, raw_token))))))"

definition organization_invitation_for_actor ::
  "platform_actor \<Rightarrow> string \<Rightarrow> string \<Rightarrow> platform_state \<Rightarrow> service_error + organization_invitation" where
  "organization_invitation_for_actor actor organization_id i s =
     rbind (ok_or ResourceNotFound (btree_get (pl_invitations s) i)) (\<lambda>iv.
     rbind (fail_if (\<not> (iv_tenant_id iv = pa_tenant_id actor \<and> iv_organization_id iv = organization_id))
              ResourceNotFound) (\<lambda>_. Inr iv))"

definition revoke_organization_invitation ::
  "platform_env \<Rightarrow> headers \<Rightarrow> string \<Rightarrow> string \<Rightarrow> remove_member_request \<Rightarrow> i64 \<Rightarrow>
     (organization_invitation \<times> platform_invitation_status) platform_op" where
  "revoke_organization_invitation env hs organization_id invitation_id request now_unix =
     pbind (pactor env hs) (\<lambda>actor.
     pbind (pread (organization_invitation_for_actor actor organization_id invitation_id)) (\<lambda>before.
     pbind (pauthorize env actor OrganizationInvitationManage (organization_invitation_resource before)) (\<lambda>_.
     pbind (pstore pl_invitations pl_invitations_update invitation_error_to_service
              (store_revoke_organization_invitation invitation_id
                (rmq_expected_version request) now_unix)) (\<lambda>revoked.
     preturn (revoked, iv_status before)))))"

definition organization_invitation_by_raw_token ::
  "platform_env \<Rightarrow> string \<Rightarrow> platform_state \<Rightarrow> service_error + organization_invitation" where
  "organization_invitation_by_raw_token env raw_token s =
     rbind (fail_if (\<not> starts_with (trim raw_token) PLATFORM_INVITATION_TOKEN_PREFIX) ResourceNotFound) (\<lambda>_.
     ok_or ResourceNotFound (organization_invitation_by_token_hash (pl_invitations s)
       (hash_platform_invitation_token (pe_sha256 env) (trim raw_token))))"

definition ensure_actor_matches_invitation ::
  "platform_actor \<Rightarrow> organization_invitation \<Rightarrow> service_error + unit" where
  "ensure_actor_matches_invitation actor iv =
     rbind (fail_if (pa_tenant_id actor \<noteq> iv_tenant_id iv) (Forbidden ''tenant_mismatch'')) (\<lambda>_.
     fail_if (iv_invited_principal_id iv \<noteq> Some (pa_principal_id actor))
       (Forbidden ''invitation_principal_mismatch''))"

definition accept_organization_invitation_for_actor ::
  "organization_invitation \<Rightarrow> platform_actor \<Rightarrow> i64 \<Rightarrow> string \<Rightarrow> string \<Rightarrow>
     (organization_invitation \<times> organization_member \<times> project_member option) platform_op" where
  "accept_organization_invitation_for_actor iv actor now_unix om_bytes pm_bytes =
     (let request = \<lparr>air_invitation_id = iv_invitation_id iv, air_principal_id = pa_principal_id actor,
            air_organization_member_id = new_prefixed_id ''om'' om_bytes,
            air_project_member_id = map_option (\<lambda>_. new_prefixed_id ''pm'' pm_bytes) (iv_project_id iv),
            air_accepted_at_unix = now_unix\<rparr> in
     pbind (pstore pl_invitations pl_invitations_update invitation_error_to_service
              (accept_organization_invitation request)) (\<lambda>accepted.
     pbind (pstore pl_organization_members pl_organization_members_update membership_error_to_service
              (upsert_invited_organization_member (air_organization_member_id request)
                (iv_tenant_id accepted) (iv_organization_id accepted) (air_principal_id request)
                ''user'')) (\<lambda>om.
     case iv_project_id accepted of
       None \<Rightarrow> preturn (accepted, om, None)
     | Some project_id \<Rightarrow>
         pbind (pensure (ok_or (ServiceInternal ''project_member_id_missing'')
                  (air_project_member_id request))) (\<lambda>project_member_id.
         pbind (pstore pl_project_members pl_project_members_update membership_error_to_service
                  (upsert_project_member
                    \<lparr>pmu_project_member_id = project_member_id, pmu_tenant_id = iv_tenant_id accepted,
                     pmu_organization_id = iv_organization_id accepted, pmu_project_id = project_id,
                     pmu_principal_id = air_principal_id request,
                     pmu_organization_member_id = om_organization_member_id om,
                     pmu_membership_kind = ''user'', pmu_created_by = air_principal_id request\<rparr>)) (\<lambda>pm.
         preturn (accepted, om, Some pm))))))"

definition accept_auth_invitation ::
  "platform_env \<Rightarrow> headers \<Rightarrow> string \<Rightarrow> i64 \<Rightarrow> string \<Rightarrow> string \<Rightarrow>
     (organization_invitation \<times> organization_member \<times> project_member option) platform_op" where
  "accept_auth_invitation env hs invitation_token now_unix om_bytes pm_bytes =
     pbind (pread (mutating_auth_session_from_headers env hs)) (\<lambda>(raw, session).
     pbind (pensure (ensure_user_auth_session session)) (\<lambda>_.
     pbind (pread (organization_invitation_by_raw_token env invitation_token)) (\<lambda>iv.
     pbind (pensure (ensure_actor_matches_invitation (ses_actor session) iv)) (\<lambda>_.
     accept_organization_invitation_for_actor iv (ses_actor session) now_unix om_bytes pm_bytes))))"

end
