(* ===== verification/Platform_Login.thy ===== *)
theory Platform_Login
  imports Platform_Handlers
begin

text \<open>
  Login of the platform (\<open>crates/starweaver-platform/src/service.rs\<close>): the handlers of the current
  session, single-user login, the start and the callback of an OIDC login, and the admin handlers
  that create identity providers and secret references.
\<close>

subsection \<open>The current session\<close>

definition active_organization_member_for_actor ::
  "platform_actor \<Rightarrow> string \<Rightarrow> platform_state \<Rightarrow> service_error + organization_member" where
  "active_organization_member_for_actor actor organization_id s =
     rbind (ok_or (Forbidden ''organization_membership_required'')
              (find (\<lambda>m. om_tenant_id m = pa_tenant_id actor \<and> om_principal_id m = pa_principal_id actor
                  \<and> om_membership_kind m = ''user'')
                (organization_members_for_organization (pl_organization_members s) organization_id))) (\<lambda>m.
     rbind (fail_if (\<not> member_accepts_access (om_status m))
              (Forbidden ''organization_membership_required'')) (\<lambda>_. Inr m))"

definition active_project_member_for_actor ::
  "platform_actor \<Rightarrow> string \<Rightarrow> platform_state \<Rightarrow> service_error + project_member" where
  "active_project_member_for_actor actor project_id s =
     rbind (ok_or (Forbidden ''project_membership_required'')
              (find (\<lambda>m. pjm_tenant_id m = pa_tenant_id actor \<and> pjm_principal_id m = pa_principal_id actor
                  \<and> pjm_membership_kind m = ''user'')
                (project_members_for_project (pl_project_members s) project_id))) (\<lambda>m.
     rbind (fail_if (\<not> member_accepts_access (pjm_status m)) (Forbidden ''project_membership_required'')) (\<lambda>_.
     rbind (active_organization_member_for_actor actor (pjm_organization_id m) s) (\<lambda>_. Inr m)))"

definition update_auth_session_context ::
  "platform_env \<Rightarrow> string \<Rightarrow> string option \<Rightarrow> string option \<Rightarrow> platform_session platform_op" where
  "update_auth_session_context env raw organization_id project_id =
     pstore pl_sessions pl_sessions_update auth_failed
       (update_auth_session_context_by_bearer (pe_sha256 env) organization_id project_id raw)"

definition update_current_auth_session_active_organization ::
  "platform_env \<Rightarrow> headers \<Rightarrow> string \<Rightarrow> platform_session platform_op" where
  "update_current_auth_session_active_organization env hs requested =
     (let organization_id = trim requested in
     pbind (pensure (service_validate_organization_id organization_id)) (\<lambda>_.
     pbind (pread (mutating_auth_session_from_headers env hs)) (\<lambda>(raw, session).
     pbind (pensure (ensure_user_auth_session session)) (\<lambda>_.
     pbind (pread (active_organization_member_for_actor (ses_actor session) organization_id)) (\<lambda>m.
     update_auth_session_context env raw (Some (om_organization_id m)) None)))))"

definition update_current_auth_session_active_project ::
  "platform_env \<Rightarrow> headers \<Rightarrow> string \<Rightarrow> platform_session platform_op" where
  "update_current_auth_session_active_project env hs requested =
     (let project_id = trim requested in
     pbind (pensure (service_validate_project_id project_id)) (\<lambda>_.
     pbind (pread (mutating_auth_session_from_headers env hs)) (\<lambda>(raw, session).
     pbind (pensure (ensure_user_auth_session session)) (\<lambda>_.
     pbind (pread (active_project_member_for_actor (ses_actor session) project_id)) (\<lambda>m.
     update_auth_session_context env raw (Some (pjm_organization_id m)) (Some (pjm_project_id m)))))))"

definition logout_current_auth_session :: "platform_env \<Rightarrow> headers \<Rightarrow> platform_session platform_op" where
  "logout_current_auth_session env hs =
     pbind (pread (mutating_auth_session_from_headers env hs)) (\<lambda>(raw, session).
     pbind (pensure (ensure_user_auth_session session)) (\<lambda>_.
     pstore pl_sessions pl_sessions_update auth_failed
       (revoke_auth_session_by_bearer (pe_sha256 env) raw)))"

subsection \<open>Single-user login\<close>

definition SINGLE_USER_TENANT_ID :: string where "SINGLE_USER_TENANT_ID = ''ten_single_user''"
definition SINGLE_USER_ORGANIZATION_ID :: string where "SINGLE_USER_ORGANIZATION_ID = ''org_single_user''"
definition SINGLE_USER_PROJECT_ID :: string where "SINGLE_USER_PROJECT_ID = ''prj_single_user''"
definition SINGLE_USER_ID :: string where "SINGLE_USER_ID = ''usr_single_user''"
definition SESSION_TOKEN_PREFIX :: string where "SESSION_TOKEN_PREFIX = ''swp_sess_''"

definition generate_session_token :: "string \<Rightarrow> string" where
  "generate_session_token random_bytes = SESSION_TOKEN_PREFIX @ lower_hex random_bytes"

text \<open>The sixteen characters after the prefix of a session token name its session.\<close>

definition session_id_of_token :: "string \<Rightarrow> string \<Rightarrow> string" where
  "session_id_of_token prefix token = prefix @ take 16 (drop (length SESSION_TOKEN_PREFIX) token)"

definition single_user_actor :: platform_actor where
  "single_user_actor =
     project_user SINGLE_USER_TENANT_ID SINGLE_USER_ORGANIZATION_ID SINGLE_USER_PROJECT_ID SINGLE_USER_ID"

definition credentials_match :: "single_user_config \<Rightarrow> string \<Rightarrow> string \<Rightarrow> bool" where
  "credentials_match config username password \<longleftrightarrow>
     constant_time_bytes_eq (su_username config) username
     \<and> constant_time_bytes_eq (su_password config) password"

definition json_string_field :: "json \<Rightarrow> string \<Rightarrow> service_error + string" where
  "json_string_field v name =
     ok_or (ServiceBadRequest ''invalid_single_user_login_request'') (json_get_str v name)"

definition single_user_record :: "platform_env \<Rightarrow> user_record" where
  "single_user_record env =
     \<lparr>us_user_id = SINGLE_USER_ID, us_tenant_id = SINGLE_USER_TENANT_ID,
      us_default_organization_id = Some SINGLE_USER_ORGANIZATION_ID,
      us_default_project_id = Some SINGLE_USER_PROJECT_ID,
      us_primary_email = Option.bind (pe_single_user env) su_primary_email,
      us_display_name = (case pe_single_user env of None \<Rightarrow> ''single-user'' | Some c \<Rightarrow> su_display_name c),
      us_status = UserActive, us_resource_version = 1\<rparr>"

definition single_user_external_identity :: "platform_env \<Rightarrow> external_identity" where
  "single_user_external_identity env =
     \<lparr>xi_external_identity_id = ''xid_single_user'', xi_tenant_id = SINGLE_USER_TENANT_ID,
      xi_principal_id = SINGLE_USER_ID, xi_identity_provider_id = ''idp_single_user'',
      xi_provider_kind = ''single_user'',
      xi_provider_subject = (case pe_single_user env of None \<Rightarrow> ''single_user'' | Some c \<Rightarrow> su_username c),
      xi_email = Option.bind (pe_single_user env) su_primary_email, xi_email_verified = False,
      xi_status = IdentityActive\<rparr>"

definition single_user_organization_member :: organization_member where
  "single_user_organization_member =
     \<lparr>om_organization_member_id = ''om_single_user'', om_tenant_id = SINGLE_USER_TENANT_ID,
      om_organization_id = SINGLE_USER_ORGANIZATION_ID, om_principal_id = SINGLE_USER_ID,
      om_membership_kind = ''user'', om_status = MemberActive, om_resource_version = 1\<rparr>"

definition single_user_project_member :: project_member where
  "single_user_project_member =
     \<lparr>pjm_project_member_id = ''pm_single_user'', pjm_tenant_id = SINGLE_USER_TENANT_ID,
      pjm_organization_id = SINGLE_USER_ORGANIZATION_ID, pjm_project_id = SINGLE_USER_PROJECT_ID,
      pjm_principal_id = SINGLE_USER_ID, pjm_organization_member_id = Some ''om_single_user'',
      pjm_membership_kind = ''user'', pjm_status = MemberActive, pjm_resource_version = 1\<rparr>"

definition single_user_role_binding :: role_binding where
  "single_user_role_binding =
     \<lparr>rb_role_binding_id = ''rb_single_user_tenant_owner'', rb_tenant_id = SINGLE_USER_TENANT_ID,
      rb_organization_id = None, rb_project_id = None, rb_principal_id = SINGLE_USER_ID,
      rb_role_id = platform_role_str TenantOwner, rb_status = BindingActive,
      rb_resource_version = 1\<rparr>"

definition record_single_user_memberships :: "platform_env \<Rightarrow> unit platform_op" where
  "record_single_user_memberships env =
     pbind (pstore pl_users pl_users_update user_error_to_service
              (record_user (single_user_record env))) (\<lambda>_.
     pbind (pstore pl_external_identities pl_external_identities_update
              external_identity_error_to_service
              (record_external_identity (single_user_external_identity env))) (\<lambda>_.
     pbind (pstore pl_organization_members pl_organization_members_update membership_error_to_service
              (record_organization_member single_user_organization_member)) (\<lambda>_.
     pbind (pstore pl_project_members pl_project_members_update membership_error_to_service
              (record_project_member single_user_project_member)) (\<lambda>_.
     pstore pl_role_bindings pl_role_bindings_update role_binding_error_to_service
       (record_role_binding single_user_role_binding)))))"

definition single_user_login :: "platform_env \<Rightarrow> json \<Rightarrow> string \<Rightarrow> (platform_session \<times> string) platform_op" where
  "single_user_login env request random_bytes =
     pbind (pensure (ok_or RouteNotFound (pe_single_user env))) (\<lambda>config.
     pbind (pensure (json_string_field request ''username'')) (\<lambda>username.
     pbind (pensure (json_string_field request ''password'')) (\<lambda>password.
     pbind (pensure (fail_if (\<not> credentials_match config username password)
              (AuthenticationFailed ''single_user_credentials_invalid''))) (\<lambda>_.
     pbind (pread (ensure_user_can_login SINGLE_USER_ID)) (\<lambda>_.
     let token = generate_session_token random_bytes;
         session = active_session (pe_sha256 env) (session_id_of_token ''sess_single_user_'' token)
           token single_user_actor in
     pbind (pstore pl_sessions pl_sessions_update auth_failed (record_auth_session session)) (\<lambda>_.
     pbind (record_single_user_memberships env) (\<lambda>_.
     preturn (session, token))))))))"

subsection \<open>Secret references and identity providers\<close>

record secret_ref_http_request =
  shr_secret_ref_id :: "string option"
  shr_tenant_id :: "string option"
  shr_purpose :: string
  shr_backend_kind :: "string option"
  shr_backend_locator :: "string option"
  shr_environment_variable :: "string option"
  shr_secret_value :: "string option"

definition secret_ref_create_of_request ::
  "secret_ref_http_request \<Rightarrow> string \<Rightarrow> platform_actor \<Rightarrow> string \<Rightarrow> service_error + create_secret_ref_request" where
  "secret_ref_create_of_request request tenant_id actor random_bytes =
     rbind (ok_or (ServiceBadRequest ''secret_backend_locator_empty'')
              (normalized_optional_string (case shr_backend_locator request of
                 None \<Rightarrow> shr_environment_variable request | Some l \<Rightarrow> Some l))) (\<lambda>locator.
     Inr \<lparr>csr_secret_ref_id = unwrap_or (normalized_optional_string (shr_secret_ref_id request))
            (new_prefixed_id ''sec'' random_bytes),
          csr_tenant_id = tenant_id, csr_organization_id = pa_organization_id actor,
          csr_project_id = pa_project_id actor, csr_purpose = trim (shr_purpose request),
          csr_backend_kind = unwrap_or (normalized_optional_string (shr_backend_kind request))
            ENVIRONMENT_SECRET_BACKEND,
          csr_backend_locator = locator, csr_in_memory_secret_value = shr_secret_value request,
          csr_created_by = pa_principal_id actor\<rparr>)"

definition secret_ref_record_from_create_request ::
  "platform_env \<Rightarrow> create_secret_ref_request \<Rightarrow> secret_ref platform_op" where
  "secret_ref_record_from_create_request env create =
     (if csr_backend_kind create = IN_MEMORY_SECRET_BACKEND
      then pstore pl_secrets pl_secrets_update secret_error_to_service
        (create_secret_ref (pe_sha256 env) create)
      else if csr_backend_kind create = ENVIRONMENT_SECRET_BACKEND
      then pstore pl_secrets pl_secrets_update secret_error_to_service
        (create_environment_secret_ref (pe_sha256 env) (pe_environment env) create)
      else pensure (Inl (ServiceBadRequest ''secret_backend_kind_unsupported'')))"

definition create_platform_secret_ref ::
  "platform_env \<Rightarrow> headers \<Rightarrow> secret_ref_http_request \<Rightarrow> string \<Rightarrow> secret_ref platform_op" where
  "create_platform_secret_ref env hs request random_bytes =
     pbind (pactor env hs) (\<lambda>actor.
     pbind (pensure (tenant_from_request_or_actor (shr_tenant_id request) actor)) (\<lambda>tenant_id.
     pbind (pauthorize env actor SecretRefWrite (tenant_resource ''SecretRef'' tenant_id tenant_id)) (\<lambda>_.
     pbind (pensure (secret_ref_create_of_request request tenant_id actor random_bytes)) (\<lambda>create.
     pbind (secret_ref_record_from_create_request env create) (\<lambda>secret_ref.
     pbind (pstore pl_owners pl_owners_update (\<lambda>e. ServiceInternal (store_error_str e))
              (record_resource_owner (tenant_owner_record ''SecretRef'' (sr_secret_ref_id secret_ref)
                (sr_tenant_id secret_ref)))) (\<lambda>_.
     preturn secret_ref))))))"

record create_provider_request =
  cpr_identity_provider_id :: "string option"
  cpr_tenant_id :: "string option"
  cpr_display_name :: string
  cpr_issuer_url :: string
  cpr_authorization_endpoint :: "string option"
  cpr_token_endpoint :: "string option"
  cpr_jwks_uri :: "string option"
  cpr_client_id :: string
  cpr_client_secret_ref :: "string option"
  cpr_client_secret :: "string option"
  cpr_token_endpoint_auth_method :: "string option"
  cpr_redirect_uri :: string
  cpr_requested_scopes :: "string list"
  cpr_accepted_audiences :: "string list"
  cpr_status :: "string option"

definition normalized_string_vec :: "string list \<Rightarrow> string list" where
  "normalized_string_vec vs = filter (\<lambda>v. v \<noteq> '''') (map trim vs)"

definition token_endpoint_auth_method_from_request ::
  "string option \<Rightarrow> bool \<Rightarrow> service_error + token_endpoint_auth" where
  "token_endpoint_auth_method_from_request requested has_secret_ref =
     (case opt_filter (\<lambda>v. v \<noteq> '''') (map_option trim requested) of
        Some v \<Rightarrow> ok_or (ServiceBadRequest ''oidc_token_endpoint_auth_method_invalid'')
                    (token_endpoint_auth_from_id v)
      | None \<Rightarrow> Inr (if has_secret_ref then AuthClientSecretBasic else AuthNone))"

definition oidc_provider_status_from_request :: "string option \<Rightarrow> service_error + oidc_provider_status" where
  "oidc_provider_status_from_request status =
     (let v = (case status of None \<Rightarrow> ''active'' | Some x \<Rightarrow> trim x)
      in if v = ''active'' then Inr ProviderActive
         else if v = ''disabled'' then Inr ProviderDisabled
         else if v = ''deleted'' then Inr ProviderDeleted
         else Inl (ServiceBadRequest ''oidc_provider_status_invalid''))"

definition trimmed_or_empty :: "string option \<Rightarrow> string" where
  "trimmed_or_empty v = (case v of None \<Rightarrow> '''' | Some x \<Rightarrow> trim x)"

definition oidc_provider_record_from_create_request ::
  "create_provider_request \<Rightarrow> string \<Rightarrow> string \<Rightarrow> service_error + oidc_provider" where
  "oidc_provider_record_from_create_request request tenant_id random_bytes =
     (let secret_ref = normalized_optional_string (cpr_client_secret_ref request) in
     rbind (token_endpoint_auth_method_from_request (cpr_token_endpoint_auth_method request)
              (secret_ref \<noteq> None)) (\<lambda>auth.
     rbind (oidc_provider_status_from_request (cpr_status request)) (\<lambda>status.
     let p = \<lparr>op_identity_provider_id =
            unwrap_or (normalized_optional_string (cpr_identity_provider_id request))
              (new_prefixed_id ''idp'' random_bytes),
          op_tenant_id = tenant_id, op_display_name = trim (cpr_display_name request),
          op_issuer_url = trim (cpr_issuer_url request),
          op_authorization_endpoint = trimmed_or_empty (cpr_authorization_endpoint request),
          op_token_endpoint = trimmed_or_empty (cpr_token_endpoint request),
          op_jwks_uri = trimmed_or_empty (cpr_jwks_uri request),
          op_client_id = trim (cpr_client_id request), op_client_secret_ref = secret_ref,
          op_token_endpoint_auth = auth, op_redirect_uri = trim (cpr_redirect_uri request),
          op_requested_scopes = normalized_string_vec (cpr_requested_scopes request),
          op_accepted_audiences = normalized_string_vec (cpr_accepted_audiences request),
          op_status = status\<rparr> in
     rbind (map_err (\<lambda>e. ServiceBadRequest (oidc_error_str e)) (validate_oidc_login_provider_base p))
       (\<lambda>_. Inr p))))"

definition secret_ref_by_id :: "string \<Rightarrow> platform_state \<Rightarrow> service_error + secret_ref" where
  "secret_ref_by_id i s = ok_or ResourceNotFound (find_secret_ref (pl_secrets s) i)"

definition upsert_oidc_login_provider :: "oidc_provider \<Rightarrow> unit platform_op" where
  "upsert_oidc_login_provider p =
     pbind (pcount pl_oidc_providers pl_oidc_providers_update
              (\<lambda>st. ((), btree_insert (op_identity_provider_id p) p st))) (\<lambda>_.
     pstore pl_owners pl_owners_update (\<lambda>e. ServiceInternal (store_error_str e))
       (record_resource_owner (tenant_owner_record ''IdentityProvider''
         (op_identity_provider_id p) (op_tenant_id p))))"

definition create_oidc_identity_provider ::
  "platform_env \<Rightarrow> headers \<Rightarrow> create_provider_request \<Rightarrow> string \<Rightarrow> oidc_provider platform_op" where
  "create_oidc_identity_provider env hs request random_bytes =
     pbind (pensure (fail_if (cpr_client_secret request \<noteq> None)
              (ServiceBadRequest ''oidc_client_secret_raw_unsupported''))) (\<lambda>_.
     pbind (pactor env hs) (\<lambda>actor.
     pbind (pensure (tenant_from_request_or_actor (cpr_tenant_id request) actor)) (\<lambda>tenant_id.
     pbind (pauthorize env actor IdentityProviderWrite
              (tenant_resource ''IdentityProvider'' tenant_id tenant_id)) (\<lambda>_.
     pbind (pensure (oidc_provider_record_from_create_request request tenant_id random_bytes)) (\<lambda>p.
     pbind (pread (\<lambda>s. case op_client_secret_ref p of
              None \<Rightarrow> Inr ()
            | Some i \<Rightarrow> rbind (secret_ref_by_id i s) (\<lambda>secret.
                fail_if (sr_tenant_id secret \<noteq> op_tenant_id p) (Forbidden ''tenant_mismatch'')))) (\<lambda>_.
     pbind (upsert_oidc_login_provider p) (\<lambda>_.
     preturn p)))))))"

subsection \<open>OIDC login\<close>

definition OIDC_LOGIN_ATTEMPT_TTL_SECONDS :: i64 where "OIDC_LOGIN_ATTEMPT_TTL_SECONDS = 600"

definition oidc_metadata_needs_discovery :: "oidc_provider \<Rightarrow> bool" where
  "oidc_metadata_needs_discovery p \<longleftrightarrow>
     trim (op_authorization_endpoint p) = '''' \<or> trim (op_token_endpoint p) = '''' \<or> trim (op_jwks_uri p) = ''''"

definition oidc_resolved_provider_metadata ::
  "platform_env \<Rightarrow> oidc_provider \<Rightarrow> service_error + oidc_metadata" where
  "oidc_resolved_provider_metadata env p =
     rbind (if oidc_metadata_needs_discovery p
            then rbind (oh_discovery (pe_oidc_http env) (oidc_discovery_url (op_issuer_url p)))
                   (\<lambda>d. Inr (Some d))
            else Inr None) (\<lambda>discovery.
     map_err (\<lambda>e. AuthenticationFailed (oidc_error_str e)) (resolve_oidc_provider_metadata p discovery))"

definition pkce_s256_challenge :: "platform_env \<Rightarrow> string \<Rightarrow> string" where
  "pkce_s256_challenge env raw_pkce_verifier = pe_base64url env (pe_sha256 env raw_pkce_verifier)"

definition oidc_authorization_url ::
  "platform_env \<Rightarrow> oidc_metadata \<Rightarrow> string list \<Rightarrow> string \<Rightarrow> string \<Rightarrow> string \<Rightarrow> service_error + string" where
  "oidc_authorization_url env m scopes raw_state raw_nonce raw_pkce_verifier =
     ok_or (AuthenticationFailed ''oidc_authorization_endpoint_invalid'')
       (pe_append_query env (md_authorization_endpoint m)
         [(''response_type'', ''code''), (''client_id'', md_client_id m),
          (''redirect_uri'', md_redirect_uri m), (''scope'', join_with '' '' scopes),
          (''state'', raw_state), (''nonce'', raw_nonce),
          (''code_challenge'', pkce_s256_challenge env raw_pkce_verifier),
          (''code_challenge_method'', ''S256'')])"

definition oidc_login_provider :: "string \<Rightarrow> platform_state \<Rightarrow> service_error + oidc_provider" where
  "oidc_login_provider i s = ok_or ResourceNotFound (btree_get (pl_oidc_providers s) i)"

definition start_oidc_login_for_provider ::
  "platform_env \<Rightarrow> string \<Rightarrow> string option \<Rightarrow> i64 \<Rightarrow> string \<Rightarrow> string \<times> string \<times> string \<Rightarrow>
     (oidc_attempt \<times> string) platform_op" where
  "start_oidc_login_for_provider env identity_provider_id requested_tenant now_unix attempt_bytes secrets =
     (let tenant_id = normalized_optional_string requested_tenant in
     pbind (pensure (case tenant_id of None \<Rightarrow> Inr () | Some t \<Rightarrow> service_validate_tenant_id t)) (\<lambda>_.
     pbind (pread (oidc_login_provider identity_provider_id)) (\<lambda>p.
     pbind (pensure (fail_if (is_some_and tenant_id (\<lambda>t. t \<noteq> op_tenant_id p)) ResourceNotFound)) (\<lambda>_.
     pbind (pensure (fail_if (op_status p \<noteq> ProviderActive)
              (AuthenticationFailed ''oidc_provider_inactive''))) (\<lambda>_.
     pbind (pensure (oidc_resolved_provider_metadata env p)) (\<lambda>m.
     let raw_state = pe_base64url env (fst secrets); raw_nonce = pe_base64url env (fst (snd secrets));
         raw_pkce_verifier = pe_base64url env (snd (snd secrets)) in
     pbind (pensure (map_err (\<lambda>e. AuthenticationFailed (oidc_error_str e))
              (active_oidc_attempt (pe_sha256 env)
                \<lparr>oas_login_attempt_id = new_prefixed_id ''ola'' attempt_bytes,
                 oas_tenant_id = op_tenant_id p,
                 oas_identity_provider_id = op_identity_provider_id p,
                 oas_raw_state = raw_state, oas_raw_nonce = raw_nonce,
                 oas_raw_pkce_verifier = raw_pkce_verifier, oas_redirect_uri = md_redirect_uri m,
                 oas_expires_at_unix = wrap_i64 (now_unix + OIDC_LOGIN_ATTEMPT_TTL_SECONDS)\<rparr>))) (\<lambda>attempt.
     pbind (pcount pl_oidc_attempts pl_oidc_attempts_update
              (\<lambda>st. ((), btree_insert (oa_state_hash attempt) attempt st))) (\<lambda>_.
     pbind (pensure (oidc_authorization_url env m (op_requested_scopes p) raw_state raw_nonce
              raw_pkce_verifier)) (\<lambda>url.
     preturn (attempt, url))))))))))"

record oidc_callback_request =
  ocq_state :: string
  ocq_code :: string
  ocq_nonce :: string
  ocq_code_verifier :: string

definition validate_oidc_callback_request :: "oidc_callback_request \<Rightarrow> service_error + unit" where
  "validate_oidc_callback_request r =
     rbind (fail_if (trim (ocq_state r) = '''') (AuthenticationFailed ''oidc_state_empty'')) (\<lambda>_.
     rbind (fail_if (trim (ocq_code r) = '''') (AuthenticationFailed ''oidc_authorization_code_empty'')) (\<lambda>_.
     rbind (fail_if (trim (ocq_nonce r) = '''') (AuthenticationFailed ''oidc_nonce_empty'')) (\<lambda>_.
     fail_if (trim (ocq_code_verifier r) = '''') (AuthenticationFailed ''oidc_pkce_verifier_empty''))))"

definition oidc_login_attempt_for_state ::
  "platform_env \<Rightarrow> string \<Rightarrow> platform_state \<Rightarrow> service_error + oidc_attempt" where
  "oidc_login_attempt_for_state env raw_state s =
     ok_or (AuthenticationFailed ''oidc_login_attempt_unavailable'')
       (btree_get (pl_oidc_attempts s) (hash_oidc_login_state (pe_sha256 env) (trim raw_state)))"

definition validate_oidc_callback_attempt ::
  "platform_env \<Rightarrow> oidc_provider \<Rightarrow> oidc_attempt \<Rightarrow> oidc_callback_request \<Rightarrow> i64 \<Rightarrow> service_error + unit" where
  "validate_oidc_callback_attempt env p a r now_unix =
     rbind (fail_if (op_status p \<noteq> ProviderActive) (AuthenticationFailed ''oidc_provider_inactive'')) (\<lambda>_.
     rbind (fail_if (oa_tenant_id a \<noteq> op_tenant_id p
              \<or> oa_identity_provider_id a \<noteq> op_identity_provider_id p
              \<or> oa_status a \<noteq> AttemptActive \<or> oa_expires_at_unix a \<le> now_unix)
              (AuthenticationFailed ''oidc_login_attempt_unavailable'')) (\<lambda>_.
     rbind (fail_if (oa_state_hash a \<noteq> hash_oidc_login_state (pe_sha256 env) (trim (ocq_state r)))
              (AuthenticationFailed ''oidc_login_attempt_unavailable'')) (\<lambda>_.
     rbind (fail_if (oa_nonce_hash a \<noteq> hash_oidc_login_nonce (pe_sha256 env) (trim (ocq_nonce r)))
              (AuthenticationFailed ''oidc_nonce_mismatch'')) (\<lambda>_.
     fail_if (oa_pkce_verifier_hash a \<noteq> hash_oidc_pkce_verifier (pe_sha256 env) (trim (ocq_code_verifier r)))
       (AuthenticationFailed ''oidc_pkce_verifier_mismatch'')))))"

definition oidc_client_secret_for_metadata ::
  "platform_env \<Rightarrow> oidc_metadata \<Rightarrow> platform_state \<Rightarrow> service_error + string option" where
  "oidc_client_secret_for_metadata env m s =
     (case md_client_secret_ref m of
        None \<Rightarrow> Inr None
      | Some i \<Rightarrow>
          rbind (secret_ref_by_id i s) (\<lambda>secret_ref.
          rbind (fail_if (sr_tenant_id secret_ref \<noteq> md_tenant_id m) (Forbidden ''tenant_mismatch'')) (\<lambda>_.
          rbind (map_err secret_error_to_service
                   (resolve_secret (pe_sha256 env) (pe_environment env) (pl_secrets s) i)) (\<lambda>v.
          Inr (Some v)))))"

text \<open>The form and the basic authentication of the token request.\<close>

definition oidc_token_form ::
  "oidc_metadata \<Rightarrow> oidc_attempt \<Rightarrow> oidc_callback_request \<Rightarrow> string option \<Rightarrow>
     service_error + ((string \<times> string) list \<times> (string \<times> string) option)" where
  "oidc_token_form m a r client_secret =
     (let form = [(''grant_type'', ''authorization_code''), (''code'', trim (ocq_code r)),
            (''redirect_uri'', oa_redirect_uri a), (''code_verifier'', trim (ocq_code_verifier r))] in
      case md_token_endpoint_auth m of
        AuthNone \<Rightarrow> Inr (form @ [(''client_id'', md_client_id m)], None)
      | AuthClientSecretBasic \<Rightarrow>
          rbind (ok_or (AuthenticationFailed ''oidc_client_secret_missing'') client_secret) (\<lambda>secret.
          Inr (form, Some (md_client_id m, secret)))
      | AuthClientSecretPost \<Rightarrow>
          rbind (ok_or (AuthenticationFailed ''oidc_client_secret_missing'') client_secret) (\<lambda>secret.
          Inr (form @ [(''client_id'', md_client_id m), (''client_secret'', secret)], None)))"

definition exchange_oidc_authorization_code ::
  "platform_env \<Rightarrow> oidc_metadata \<Rightarrow> oidc_attempt \<Rightarrow> oidc_callback_request \<Rightarrow> string option \<Rightarrow>
     service_error + string" where
  "exchange_oidc_authorization_code env m a r client_secret =
     rbind (oidc_token_form m a r client_secret) (\<lambda>(form, basic_auth).
     rbind (oh_token (pe_oidc_http env) (md_token_endpoint m) form basic_auth) (\<lambda>id_token.
     rbind (fail_if (trim id_token = '''') (AuthenticationFailed ''oidc_id_token_missing'')) (\<lambda>_.
     Inr id_token)))"

record oidc_completion =
  ocp_login_attempt_id :: string
  ocp_tenant_id :: string
  ocp_organization_id :: string
  ocp_project_id :: string
  ocp_user_id :: string
  ocp_identity_provider_id :: string
  ocp_external_identity_id :: string
  ocp_organization_member_id :: string
  ocp_project_member_id :: string
  ocp_organization_role_binding_id :: string
  ocp_provider_subject :: string
  ocp_email :: "string option"
  ocp_email_verified :: bool
  ocp_user_display_name :: string
  ocp_session :: platform_session
  ocp_consumed_at_unix :: i64

definition stable_oidc_subject_suffix :: "(string \<Rightarrow> string) \<Rightarrow> string \<Rightarrow> string \<Rightarrow> string \<Rightarrow> string" where
  "stable_oidc_subject_suffix sha256 tenant_id provider_id subject =
     lower_hex (take 20 (sha256 (''starweaver-platform-oidc-subject-id-v1'' @ [CHR 0x00] @ tenant_id
       @ [CHR 0x00] @ provider_id @ [CHR 0x00] @ trim subject)))"

definition oidc_login_completion_record ::
  "platform_env \<Rightarrow> oidc_provider \<Rightarrow> oidc_attempt \<Rightarrow> oidc_claims \<Rightarrow> string \<Rightarrow> i64 \<Rightarrow> oidc_completion" where
  "oidc_login_completion_record env p a claims session_token now_unix =
     (let suffix = stable_oidc_subject_suffix (pe_sha256 env) (op_tenant_id p)
            (op_identity_provider_id p) (oc_subject claims);
          organization_id = ''org_oidc_'' @ suffix; project_id = ''prj_oidc_'' @ suffix;
          user_id = ''usr_oidc_'' @ suffix;
          actor = project_user (op_tenant_id p) organization_id project_id user_id
      in \<lparr>ocp_login_attempt_id = oa_login_attempt_id a, ocp_tenant_id = op_tenant_id p,
          ocp_organization_id = organization_id, ocp_project_id = project_id,
          ocp_user_id = user_id, ocp_identity_provider_id = op_identity_provider_id p,
          ocp_external_identity_id = ''xid_oidc_'' @ suffix,
          ocp_organization_member_id = ''om_oidc_'' @ suffix,
          ocp_project_member_id = ''pm_oidc_'' @ suffix,
          ocp_organization_role_binding_id = ''rb_oidc_org_admin_'' @ suffix,
          ocp_provider_subject = oc_subject claims, ocp_email = oc_email claims,
          ocp_email_verified = oc_email_verified claims,
          ocp_user_display_name =
            (case opt_filter (\<lambda>v. v \<noteq> '''') (map_option trim (oc_display_name claims)) of
               Some v \<Rightarrow> v
             | None \<Rightarrow> (case oc_email claims of Some e \<Rightarrow> e | None \<Rightarrow> oc_subject claims)),
          ocp_session = active_session (pe_sha256 env) (session_id_of_token ''sess_oidc_'' session_token)
            session_token actor,
          ocp_consumed_at_unix = now_unix\<rparr>)"

definition attempt_of_completion :: "oidc_completion \<Rightarrow> oidc_attempt \<Rightarrow> bool" where
  "attempt_of_completion c a \<longleftrightarrow>
     oa_login_attempt_id a = ocp_login_attempt_id c \<and> oa_tenant_id a = ocp_tenant_id c
     \<and> oa_identity_provider_id a = ocp_identity_provider_id c"

definition consume_attempt ::
  "oidc_completion \<Rightarrow> oidc_attempt btree \<Rightarrow> (service_error + unit) \<times> oidc_attempt btree" where
  "consume_attempt c s =
     (case find (\<lambda>(k, a). attempt_of_completion c a) s of
        None \<Rightarrow> (Inl (AuthenticationFailed ''oidc_login_attempt_unavailable''), s)
      | Some (k, _) \<Rightarrow>
          (case btree_get s k of
             None \<Rightarrow> (Inl (AuthenticationFailed ''oidc_login_attempt_unavailable''), s)
           | Some a \<Rightarrow>
               if oa_status a \<noteq> AttemptActive \<or> oa_expires_at_unix a \<le> ocp_consumed_at_unix c
                  \<or> \<not> attempt_of_completion c a
               then (Inl (AuthenticationFailed ''oidc_login_attempt_unavailable''), s)
               else (Inr (), btree_insert k (a\<lparr>oa_status := AttemptConsumed,
                       oa_consumed_at_unix := Some (ocp_consumed_at_unix c)\<rparr>) s)))"

definition complete_oidc_login :: "oidc_completion \<Rightarrow> unit platform_op" where
  "complete_oidc_login c =
     pbind (pread (\<lambda>s. Inr (user_including_deleted (pl_users s) (ocp_user_id c)))) (\<lambda>existing.
     pbind (pstore pl_users pl_users_update user_error_to_service (record_user
              \<lparr>us_user_id = ocp_user_id c, us_tenant_id = ocp_tenant_id c,
               us_default_organization_id = Some (ocp_organization_id c),
               us_default_project_id = Some (ocp_project_id c), us_primary_email = ocp_email c,
               us_display_name = ocp_user_display_name c,
               us_status = (case existing of None \<Rightarrow> UserActive | Some u \<Rightarrow> us_status u),
               us_resource_version = (case existing of None \<Rightarrow> 1
                 | Some u \<Rightarrow> wrap_i64 (us_resource_version u + 1))\<rparr>)) (\<lambda>_.
     pbind (pstore pl_external_identities pl_external_identities_update
              external_identity_error_to_service (upsert_external_identity
              \<lparr>xi_external_identity_id = ocp_external_identity_id c, xi_tenant_id = ocp_tenant_id c,
               xi_principal_id = ocp_user_id c, xi_identity_provider_id = ocp_identity_provider_id c,
               xi_provider_kind = ''oidc'', xi_provider_subject = ocp_provider_subject c,
               xi_email = ocp_email c, xi_email_verified = ocp_email_verified c,
               xi_status = IdentityActive\<rparr>)) (\<lambda>_.
     pbind (pstore pl_oidc_attempts pl_oidc_attempts_update (\<lambda>e. e) (consume_attempt c)) (\<lambda>_.
     pbind (pstore pl_sessions pl_sessions_update auth_failed
              (record_auth_session (ocp_session c))) (\<lambda>_.
     pbind (pstore pl_organization_members pl_organization_members_update membership_error_to_service
              (record_organization_member
                \<lparr>om_organization_member_id = ocp_organization_member_id c,
                 om_tenant_id = ocp_tenant_id c, om_organization_id = ocp_organization_id c,
                 om_principal_id = ocp_user_id c, om_membership_kind = ''user'',
                 om_status = MemberActive, om_resource_version = 1\<rparr>)) (\<lambda>_.
     pbind (pstore pl_project_members pl_project_members_update membership_error_to_service
              (record_project_member
                \<lparr>pjm_project_member_id = ocp_project_member_id c, pjm_tenant_id = ocp_tenant_id c,
                 pjm_organization_id = ocp_organization_id c, pjm_project_id = ocp_project_id c,
                 pjm_principal_id = ocp_user_id c,
                 pjm_organization_member_id = Some (ocp_organization_member_id c),
                 pjm_membership_kind = ''user'', pjm_status = MemberActive, pjm_resource_version = 1\<rparr>)) (\<lambda>_.
     pstore pl_role_bindings pl_role_bindings_update role_binding_error_to_service
       (record_role_binding
         \<lparr>rb_role_binding_id = ocp_organization_role_binding_id c, rb_tenant_id = ocp_tenant_id c,
          rb_organization_id = Some (ocp_organization_id c), rb_project_id = None,
          rb_principal_id = ocp_user_id c, rb_role_id = platform_role_str PlatformOrganizationAdmin,
          rb_status = BindingActive, rb_resource_version = 1\<rparr>))))))))"

definition oidc_login_callback ::
  "platform_env \<Rightarrow> string \<Rightarrow> oidc_callback_request \<Rightarrow> i64 \<Rightarrow> string \<Rightarrow> (oidc_completion \<times> string) platform_op" where
  "oidc_login_callback env identity_provider_id request now_unix random_bytes =
     pbind (pensure (validate_oidc_callback_request request)) (\<lambda>_.
     pbind (pread (oidc_login_provider identity_provider_id)) (\<lambda>p.
     pbind (pread (oidc_login_attempt_for_state env (ocq_state request))) (\<lambda>a.
     pbind (pensure (validate_oidc_callback_attempt env p a request now_unix)) (\<lambda>_.
     pbind (pensure (oidc_resolved_provider_metadata env p)) (\<lambda>m.
     pbind (pread (oidc_client_secret_for_metadata env m)) (\<lambda>client_secret.
     pbind (pensure (exchange_oidc_authorization_code env m a request client_secret)) (\<lambda>id_token.
     pbind (pensure (oh_jwks (pe_oidc_http env) (md_jwks_uri m))) (\<lambda>jwks.
     pbind (pensure (map_err (\<lambda>e. AuthenticationFailed (oidc_error_str e))
              (validate_oidc_id_token (pe_jwt env) m jwks id_token (ocq_nonce request) now_unix))) (\<lambda>claims.
     let token = generate_session_token random_bytes;
         c = oidc_login_completion_record env p a claims token now_unix in
     pbind (pread (ensure_user_can_login (ocp_user_id c))) (\<lambda>_.
     pbind (complete_oidc_login c) (\<lambda>_.
     preturn (c, token))))))))))))"

end
