(* ===== verification/Platform_Steps.thy ===== *)
theory Platform_Steps
  imports Platform_Login
begin

text \<open>
  Runs of the platform's mutating handlers as a step relation, and the well-formedness of the state
  they keep: every repository is an ordered map in which each record stands under its own id and
  passes the validation of its module.

  \<open>op_keeps I m\<close> says that the operation \<open>m\<close> keeps \<open>I\<close>, whether it succeeds or fails; the rules follow the
  combinators of \<open>Platform_Service\<close>.
\<close>

subsection \<open>Operations that keep an invariant\<close>

definition op_keeps :: "(platform_state \<Rightarrow> bool) \<Rightarrow> 'a platform_op \<Rightarrow> bool" where
  "op_keeps I m \<longleftrightarrow> (\<forall>s. I s \<longrightarrow> I (snd (m s)))"

named_theorems keeps_intros

lemma keeps_bind [keeps_intros]: "op_keeps I m \<Longrightarrow> (\<And>a. op_keeps I (f a)) \<Longrightarrow> op_keeps I (pbind m f)"
  by (force simp: op_keeps_def pbind_def split: prod.splits sum.splits)

text \<open>The continuation may use what a successful result says.\<close>

lemma keeps_bind_result:
  assumes "op_keeps I m" and "\<And>s a s'. I s \<Longrightarrow> m s = (Inr a, s') \<Longrightarrow> Q a"
    and "\<And>a. Q a \<Longrightarrow> op_keeps I (f a)"
  shows "op_keeps I (pbind m f)"
  unfolding op_keeps_def
proof (intro allI impI)
  fix s
  assume s: "I s"
  obtain r s1 where m: "m s = (r, s1)" by fastforce
  with assms(1) s have s1: "I s1" by (force simp: op_keeps_def)
  show "I (snd (pbind m f s))"
  proof (cases r)
    case (Inr a)
    with assms(2, 3) s m have "op_keeps I (f a)" by blast
    with s1 m Inr show ?thesis by (simp add: pbind_def op_keeps_def)
  qed (use s1 m in \<open>simp add: pbind_def\<close>)
qed

lemma keeps_read [keeps_intros]: "op_keeps I (pread f)"
  by (simp add: op_keeps_def pread_def)

lemma keeps_return [keeps_intros]: "op_keeps I (preturn a)"
  by (simp add: op_keeps_def preturn_def)

lemma keeps_actor [keeps_intros]: "op_keeps I (pactor env hs)" "op_keeps I (pauthorize env ac a rr)"
  by (simp_all add: pactor_def pauthorize_def keeps_read)

lemma keeps_store:
  "(\<And>s r st. I s \<Longrightarrow> op (get s) = (r, st) \<Longrightarrow> I (upd (\<lambda>_. st) s)) \<Longrightarrow> op_keeps I (pstore get upd err op)"
  by (auto simp: op_keeps_def pstore_def split: prod.splits)

lemma keeps_count:
  "(\<And>s r st. I s \<Longrightarrow> op (get s) = (r, st) \<Longrightarrow> I (upd (\<lambda>_. st) s)) \<Longrightarrow> op_keeps I (pcount get upd op)"
  by (auto simp: op_keeps_def pcount_def split: prod.splits)

lemma keeps_if [keeps_intros]: "op_keeps I m \<Longrightarrow> op_keeps I n \<Longrightarrow> op_keeps I (if b then m else n)"
  by simp

lemma keeps_op_prod [keeps_intros]:
  "(\<And>a b. op_keeps I (f a b)) \<Longrightarrow> op_keeps I (case p of (a, b) \<Rightarrow> f a b)"
  by (cases p) simp

lemma keeps_case_option [keeps_intros]:
  "op_keeps I m \<Longrightarrow> (\<And>a. op_keeps I (f a)) \<Longrightarrow> op_keeps I (case v of None \<Rightarrow> m | Some a \<Rightarrow> f a)"
  by (cases v) simp_all

lemma keeps_result: "op_keeps I m \<Longrightarrow> I s \<Longrightarrow> m s = (r, s') \<Longrightarrow> I s'"
  by (force simp: op_keeps_def)

subsection \<open>Well-formed states\<close>

definition oidc_attempt_shape :: "oidc_attempt \<Rightarrow> bool" where
  "oidc_attempt_shape a \<longleftrightarrow> validate_oidc_login_attempt_record a = Inr ()"

definition oidc_provider_shape :: "oidc_provider \<Rightarrow> bool" where
  "oidc_provider_shape p \<longleftrightarrow> validate_oidc_login_provider_base p = Inr ()"

text \<open>The value of an environment secret is never stored; that of an in-memory one has the fingerprint.\<close>

definition secret_entry_shape :: "(string \<Rightarrow> string) \<Rightarrow> secret_entry \<Rightarrow> bool" where
  "secret_entry_shape sha256 e \<longleftrightarrow>
     (if sr_backend_kind (se_record e) = IN_MEMORY_SECRET_BACKEND
      then sr_fingerprint (se_record e) = secret_fingerprint sha256 (se_value e)
      else sr_backend_kind (se_record e) = ENVIRONMENT_SECRET_BACKEND \<and> se_value e = '''')"

definition secret_entry_id :: "secret_entry \<Rightarrow> string" where
  "secret_entry_id e = sr_secret_ref_id (se_record e)"

definition platform_ok :: "platform_env \<Rightarrow> platform_state \<Rightarrow> bool" where
  "platform_ok env s \<longleftrightarrow>
     users_ok (pl_users s) \<and> organization_members_ok (pl_organization_members s)
     \<and> project_members_ok (pl_project_members s) \<and> role_bindings_ok (pl_role_bindings s)
     \<and> invitations_ok (pl_invitations s) \<and> sessions_ok (pl_sessions s) \<and> audits_ok (pl_audits s)
     \<and> external_identities_ok (pl_external_identities s)
     \<and> store_ok op_identity_provider_id oidc_provider_shape (pl_oidc_providers s)
     \<and> store_ok oa_state_hash oidc_attempt_shape (pl_oidc_attempts s)
     \<and> store_ok secret_entry_id (secret_entry_shape (pe_sha256 env)) (pl_secrets s)"

text \<open>One rule per repository: an operation that keeps its repository well formed keeps the state so.\<close>

lemma keeps_users:
  assumes "\<And>st r st'. users_ok st \<Longrightarrow> op st = (r, st') \<Longrightarrow> users_ok st'"
  shows "op_keeps (platform_ok env) (pstore pl_users pl_users_update err op)"
  by (intro keeps_store) (auto simp: platform_ok_def dest: assms)

lemma keeps_organization_members:
  assumes "\<And>st r st'. organization_members_ok st \<Longrightarrow> op st = (r, st') \<Longrightarrow> organization_members_ok st'"
  shows "op_keeps (platform_ok env) (pstore pl_organization_members pl_organization_members_update err op)"
  by (intro keeps_store) (auto simp: platform_ok_def dest: assms)

lemma keeps_project_members:
  assumes "\<And>st r st'. project_members_ok st \<Longrightarrow> op st = (r, st') \<Longrightarrow> project_members_ok st'"
  shows "op_keeps (platform_ok env) (pstore pl_project_members pl_project_members_update err op)"
  by (intro keeps_store) (auto simp: platform_ok_def dest: assms)

lemma keeps_role_bindings:
  assumes "\<And>st r st'. role_bindings_ok st \<Longrightarrow> op st = (r, st') \<Longrightarrow> role_bindings_ok st'"
  shows "op_keeps (platform_ok env) (pstore pl_role_bindings pl_role_bindings_update err op)"
  by (intro keeps_store) (auto simp: platform_ok_def dest: assms)

lemma keeps_invitations:
  assumes "\<And>st r st'. invitations_ok st \<Longrightarrow> op st = (r, st') \<Longrightarrow> invitations_ok st'"
  shows "op_keeps (platform_ok env) (pstore pl_invitations pl_invitations_update err op)"
  by (intro keeps_store) (auto simp: platform_ok_def dest: assms)

lemma keeps_sessions:
  assumes "\<And>st r st'. sessions_ok st \<Longrightarrow> op st = (r, st') \<Longrightarrow> sessions_ok st'"
  shows "op_keeps (platform_ok env) (pstore pl_sessions pl_sessions_update err op)"
  by (intro keeps_store) (auto simp: platform_ok_def dest: assms)

lemma keeps_external_identities:
  assumes "\<And>st r st'. external_identities_ok st \<Longrightarrow> op st = (r, st') \<Longrightarrow> external_identities_ok st'"
  shows "op_keeps (platform_ok env) (pstore pl_external_identities pl_external_identities_update err op)"
  by (intro keeps_store) (auto simp: platform_ok_def dest: assms)

lemma keeps_owners: "op_keeps (platform_ok env) (pstore pl_owners pl_owners_update err op)"
  by (intro keeps_store) (auto simp: platform_ok_def)

lemma keeps_secrets:
  assumes "\<And>st r st'. store_ok secret_entry_id (secret_entry_shape (pe_sha256 env)) st \<Longrightarrow>
    op st = (r, st') \<Longrightarrow> store_ok secret_entry_id (secret_entry_shape (pe_sha256 env)) st'"
  shows "op_keeps (platform_ok env) (pstore pl_secrets pl_secrets_update err op)"
  by (intro keeps_store) (auto simp: platform_ok_def dest: assms)

lemma keeps_counts:
  "(\<And>st n st'. project_members_ok st \<Longrightarrow> cascade st = (n :: nat, st') \<Longrightarrow> project_members_ok st') \<Longrightarrow>
     op_keeps (platform_ok env) (pcount pl_project_members pl_project_members_update cascade)"
  "op_keeps (platform_ok env) (pcount pl_role_bindings pl_role_bindings_update (delete_matching_bindings hit))"
  "op_keeps (platform_ok env) (pcount pl_sessions pl_sessions_update
     (store_disable_auth_sessions_for_principal t p))"
  by (intro keeps_count;
      auto simp: platform_ok_def dest: delete_matching_bindings_ok
        store_disable_auth_sessions_for_principal_ok)+

lemma keeps_audit_event [keeps_intros]:
  "op_keeps (platform_ok env) (record_platform_audit_event rb now actor action rr et reason)"
  unfolding record_platform_audit_event_def Let_def
  by (intro keeps_intros keeps_store) (auto simp: platform_ok_def dest: record_audit_event_ok)


subsection \<open>The handlers keep the state well formed\<close>

lemma keeps_ensure_result:
  assumes "\<And>a. r = Inr a \<Longrightarrow> Q a" and "\<And>a. Q a \<Longrightarrow> op_keeps I (f a)"
  shows "op_keeps I (pbind (pensure r) f)"
  by (rule keeps_bind_result [where Q = Q]) (auto simp: platform_simps intro: assms keeps_read)

lemma keeps_past_reads:
  "(\<And>a. op_keeps I (f a)) \<Longrightarrow> op_keeps I (pbind (pread g) f)"
  "(\<And>a. op_keeps I (h a)) \<Longrightarrow> op_keeps I (pbind (pactor env hs) h)"
  "(\<And>a. op_keeps I (k a)) \<Longrightarrow> op_keeps I (pbind (pauthorize env ac act rr) k)"
  by (simp_all add: keeps_intros)

lemmas keeps_stores =
  keeps_users keeps_organization_members keeps_project_members keeps_role_bindings keeps_invitations
  keeps_sessions keeps_external_identities keeps_owners keeps_counts

lemmas keeps_handler = keeps_intros keeps_stores

lemma organization_member_shapeD:
  "organization_member_shape m \<Longrightarrow>
     membership_kind_ok (om_membership_kind m) \<and> starts_with (om_organization_member_id m) ''om_''"
  by (auto simp: organization_member_shape_def validate_organization_member_def
    membership_validate_prefixed_def validate_membership_kind_def membership_kind_ok_def result_simps)

lemma update_platform_user_status_keeps:
  "op_keeps (platform_ok env) (update_platform_user_status env hs user_id request rb now)"
  unfolding update_platform_user_status_def disable_auth_sessions_for_principal_def
  by (intro keeps_handler) (erule (1) update_user_status_ok)

lemma revoke_user_auth_session_keeps:
  "op_keeps (platform_ok env) (revoke_user_auth_session env hs user_id i request rb now)"
  unfolding revoke_user_auth_session_def Let_def
  by (intro keeps_handler) (erule (1) store_revoke_auth_session_by_id_ok)

lemma unlink_user_external_identity_keeps:
  "op_keeps (platform_ok env) (unlink_user_external_identity env hs user_id i request rb now)"
  unfolding unlink_user_external_identity_def
  by (intro keeps_handler) (erule (1) store_unlink_external_identity_ok)

lemma create_role_binding_keeps:
  "op_keeps (platform_ok env) (create_role_binding env hs request rb)"
  unfolding create_role_binding_def by (intro keeps_handler) (erule (1) upsert_role_binding_ok)

lemma update_role_binding_status_keeps:
  "op_keeps (platform_ok env) (update_role_binding_status env hs i request)"
  unfolding update_role_binding_status_def
  by (intro keeps_handler) (erule (1) store_update_role_binding_status_ok)

lemma normalized_membership_kind_ok: "normalized_membership_kind v = Inr k \<Longrightarrow> membership_kind_ok k"
  by (auto simp: normalized_membership_kind_def membership_kind_ok_def Let_def split: if_splits)

lemma create_organization_member_keeps:
  "op_keeps (platform_ok env) (create_organization_member env hs organization_id request rb)"
  unfolding create_organization_member_def Let_def
  by (rule keeps_past_reads, rule keeps_past_reads, rule keeps_past_reads, rule keeps_past_reads,
      rule keeps_ensure_result [where Q = membership_kind_ok], erule normalized_membership_kind_ok,
      intro keeps_handler)
    (erule upsert_organization_member_ok, simp_all)

lemma update_organization_member_keeps:
  "op_keeps (platform_ok env) (update_organization_member env hs organization_id i request)"
  unfolding update_organization_member_def cascade_members_def delete_organization_bindings_def
    delete_role_bindings_for_organization_principal_def
  by (intro keeps_handler)
    (erule (1) update_organization_member_status_ok, erule (1) cascade_project_memberships_ok)

lemma remove_organization_member_keeps:
  "op_keeps (platform_ok env) (remove_organization_member env hs organization_id i request)"
  unfolding remove_organization_member_def cascade_members_def delete_organization_bindings_def
    delete_role_bindings_for_organization_principal_def
  by (intro keeps_handler)
    (erule (1) update_organization_member_status_ok, erule (1) cascade_project_memberships_ok)

lemma active_member_read_shape:
  "platform_ok env s \<Longrightarrow> active_organization_member_by_id_for_actor actor i s = Inr m \<Longrightarrow>
     organization_member_shape m"
  by (auto simp: active_organization_member_by_id_for_actor_def platform_ok_def result_simps
    dest: store_ok_get)

lemma upsert_project_member_keeps:
  "membership_kind_ok (pmu_membership_kind request) \<Longrightarrow>
     starts_with (pmu_organization_member_id request) ''om_'' \<Longrightarrow>
     op_keeps (platform_ok env) (pstore pl_project_members pl_project_members_update err
       (upsert_project_member request))"
  by (intro keeps_project_members) (erule upsert_project_member_ok)

lemma create_project_member_keeps:
  "op_keeps (platform_ok env) (create_project_member env hs project_id request rb)"
  unfolding create_project_member_def Let_def
  by (rule keeps_past_reads, rule keeps_past_reads,
      rule keeps_bind_result [where Q = organization_member_shape])
    (auto simp: platform_simps dest!: organization_member_shapeD
      intro: active_member_read_shape intro!: keeps_intros upsert_project_member_keeps)

lemma update_project_member_keeps:
  "op_keeps (platform_ok env) (update_project_member env hs project_id i request)"
  unfolding update_project_member_def delete_role_bindings_for_project_principal_def
  by (intro keeps_handler) (erule (1) update_project_member_status_ok)

lemma create_organization_invitation_keeps:
  "op_keeps (platform_ok env) (create_organization_invitation env hs organization_id request now rb secret)"
  unfolding create_organization_invitation_def
  by (intro keeps_handler) (erule (1) store_create_organization_invitation_ok)

lemma revoke_organization_invitation_keeps:
  "op_keeps (platform_ok env) (revoke_organization_invitation env hs organization_id i request now)"
  unfolding revoke_organization_invitation_def
  by (intro keeps_handler) (erule (1) store_revoke_organization_invitation_ok)


text \<open>The membership an accepted invitation writes is well formed, so the project membership may name it.\<close>

lemma upsert_organization_member_shape:
  assumes "organization_members_ok s" and "membership_kind_ok (omu_membership_kind request)"
    and "upsert_organization_member request s = (Inr m, s')"
  shows "organization_member_shape m"
proof -
  have "organization_members_ok s'" using upsert_organization_member_ok [OF assms] .
  moreover have "btree_get s' (om_organization_member_id m) = Some m"
    using upsert_organization_member_done [OF store_ok_keyed [OF assms(1)] assms(3)] by blast
  ultimately show ?thesis by (blast dest: store_ok_get)
qed

lemma user_kind_ok [simp]: "membership_kind_ok ''user''"
  by (simp add: membership_kind_ok_def)

lemma invited_member_keeps:
  assumes "\<And>m. organization_member_shape m \<Longrightarrow> op_keeps (platform_ok env) (f m)"
  shows "op_keeps (platform_ok env) (pbind (pstore pl_organization_members pl_organization_members_update
    err (upsert_invited_organization_member i t org p ''user'')) f)"
proof (rule keeps_bind_result [where Q = organization_member_shape])
  show "op_keeps (platform_ok env) (pstore pl_organization_members pl_organization_members_update
    err (upsert_invited_organization_member i t org p ''user''))"
    by (intro keeps_organization_members, unfold upsert_invited_organization_member_def)
      (erule upsert_organization_member_ok, simp_all)
  fix s m s'
  assume "platform_ok env s" and "pstore pl_organization_members pl_organization_members_update
    err (upsert_invited_organization_member i t org p ''user'') s = (Inr m, s')"
  then show "organization_member_shape m"
    by (auto simp: platform_simps platform_ok_def upsert_invited_organization_member_def
      elim!: upsert_organization_member_shape [rotated 2])
qed (rule assms)

lemma accept_auth_invitation_keeps:
  "op_keeps (platform_ok env) (accept_auth_invitation env hs token now om_bytes pm_bytes)"
  unfolding accept_auth_invitation_def accept_organization_invitation_for_actor_def Let_def
  by (intro keeps_intros invited_member_keeps upsert_project_member_keeps keeps_invitations)
    (auto dest: accept_organization_invitation_ok organization_member_shapeD)

lemma session_context_keeps:
  "op_keeps (platform_ok env) (update_auth_session_context env' raw org prj)"
  unfolding update_auth_session_context_def
  by (intro keeps_sessions) (erule (1) update_auth_session_context_by_bearer_ok)

lemma current_session_keeps:
  "op_keeps (platform_ok env) (update_current_auth_session_active_organization env hs org)"
  "op_keeps (platform_ok env) (update_current_auth_session_active_project env hs prj)"
  "op_keeps (platform_ok env) (logout_current_auth_session env hs)"
  unfolding update_current_auth_session_active_organization_def Let_def logout_current_auth_session_def
    update_current_auth_session_active_project_def
  by (intro keeps_intros session_context_keeps keeps_sessions, (erule (1) revoke_auth_session_by_bearer_ok)?)+

lemma single_user_login_keeps: "op_keeps (platform_ok env) (single_user_login env request rb)"
  unfolding single_user_login_def record_single_user_memberships_def Let_def
  by (intro keeps_handler)
    (erule (1) record_auth_session_ok record_user_ok record_external_identity_ok
      record_organization_member_ok record_project_member_ok record_role_binding_ok)+

lemma secret_backends_differ [simp]: "ENVIRONMENT_SECRET_BACKEND \<noteq> IN_MEMORY_SECRET_BACKEND"
  by (simp add: ENVIRONMENT_SECRET_BACKEND_def IN_MEMORY_SECRET_BACKEND_def)

lemma secret_refs_made:
  "in_memory_secret_ref_record sha256 r = Inr (rec, v) \<Longrightarrow>
     secret_entry_shape sha256 \<lparr>se_record = rec, se_value = v\<rparr>"
  "environment_secret_ref_record sha256 env r = Inr rec \<Longrightarrow>
     secret_entry_shape sha256 \<lparr>se_record = rec, se_value = []\<rparr>"
  by (auto simp: in_memory_secret_ref_record_def environment_secret_ref_record_def
    secret_ref_record_from_value_def validate_create_secret_ref_request_def secret_entry_shape_def
    result_simps)

lemma secret_entry_insert:
  assumes "store_ok secret_entry_id P st" and "P \<lparr>se_record = rec, se_value = v\<rparr>"
  shows "store_ok secret_entry_id P (btree_insert (sr_secret_ref_id rec) \<lparr>se_record = rec, se_value = v\<rparr> st)"
  using store_ok_insert [OF assms] by (simp add: secret_entry_id_def)

lemma create_platform_secret_ref_keeps:
  "op_keeps (platform_ok env) (create_platform_secret_ref env hs request rb)"
proof -
  have "op_keeps (platform_ok env) (secret_ref_record_from_create_request env create)" for create
    unfolding secret_ref_record_from_create_request_def
    by (intro keeps_intros keeps_secrets)
      (auto simp: create_secret_ref_def create_environment_secret_ref_def secret_refs_made
        secret_entry_insert split: sum.splits)
  then show ?thesis unfolding create_platform_secret_ref_def by (intro keeps_intros keeps_owners)
qed

lemma create_oidc_identity_provider_keeps:
  "op_keeps (platform_ok env) (create_oidc_identity_provider env hs request rb)"
proof -
  have upsert: "op_keeps (platform_ok env) (upsert_oidc_login_provider p)" if "oidc_provider_shape p" for p
    unfolding upsert_oidc_login_provider_def
    using that by (intro keeps_intros keeps_owners keeps_count) (auto simp: platform_ok_def store_ok_insert)
  have made: "oidc_provider_shape p"
    if "oidc_provider_record_from_create_request request t rb = Inr p" for t p
    using that by (auto simp: oidc_provider_record_from_create_request_def oidc_provider_shape_def
      Let_def result_simps)
  show ?thesis unfolding create_oidc_identity_provider_def
    by (rule keeps_past_reads, rule keeps_past_reads, rule keeps_past_reads, rule keeps_past_reads,
        rule keeps_ensure_result [where Q = oidc_provider_shape], erule made, intro keeps_intros)
      (rule upsert)
qed

lemma start_oidc_login_keeps:
  "op_keeps (platform_ok env) (start_oidc_login_for_provider env i t now ab secrets)"
proof -
  have made: "oidc_attempt_shape a"
    if "map_err f (active_oidc_attempt sha256 start) = Inr a" for f :: "oidc_error \<Rightarrow> service_error"
      and sha256 start a
    using that by (auto simp: active_oidc_attempt_def oidc_attempt_shape_def Let_def result_simps)
  show ?thesis unfolding start_oidc_login_for_provider_def Let_def
    by (rule keeps_past_reads, rule keeps_past_reads, rule keeps_past_reads, rule keeps_past_reads,
        rule keeps_past_reads, rule keeps_ensure_result [where Q = oidc_attempt_shape], erule made,
        intro keeps_intros keeps_count)
      (auto simp: platform_ok_def store_ok_insert)
qed

lemma consume_attempt_ok:
  assumes "store_ok oa_state_hash oidc_attempt_shape st" and "consume_attempt c st = (r, st')"
  shows "store_ok oa_state_hash oidc_attempt_shape st'"
  using assms
  by (auto simp: consume_attempt_def oidc_attempt_shape_def validate_oidc_login_attempt_record_def
    result_simps split: option.splits if_splits intro!: store_ok_replace)

lemma complete_oidc_login_keeps: "op_keeps (platform_ok env) (complete_oidc_login c)"
proof -
  have "op_keeps (platform_ok env) (pstore pl_oidc_attempts pl_oidc_attempts_update (\<lambda>e. e) (consume_attempt c))"
    by (intro keeps_store) (auto simp: platform_ok_def dest: consume_attempt_ok)
  then show ?thesis unfolding complete_oidc_login_def
    by (intro keeps_handler)
      (assumption | erule (1) record_auth_session_ok record_user_ok upsert_external_identity_ok
        record_organization_member_ok record_project_member_ok record_role_binding_ok)+
qed

lemma oidc_login_callback_keeps:
  "op_keeps (platform_ok env) (oidc_login_callback env i request now rb)"
  unfolding oidc_login_callback_def Let_def by (intro keeps_intros complete_oidc_login_keeps)

subsection \<open>Runs\<close>

text \<open>
  A request, with the clock reading and the random bytes its handler draws, and the state it leaves.
  A handler runs to its end before the next one starts; the repositories are locked one at a time
  in the program, so requests that interleave between two repositories are not described here.
\<close>

inductive platform_step :: "platform_env \<Rightarrow> platform_state \<Rightarrow> platform_state \<Rightarrow> bool" for env where
  user_status: "update_platform_user_status env hs u request rb now s = (r, s') \<Longrightarrow> platform_step env s s'"
| session_revocation: "revoke_user_auth_session env hs u i request rb now s = (r, s') \<Longrightarrow> platform_step env s s'"
| identity_unlink: "unlink_user_external_identity env hs u i request rb now s = (r, s') \<Longrightarrow>
    platform_step env s s'"
| binding_creation: "create_role_binding env hs request rb s = (r, s') \<Longrightarrow> platform_step env s s'"
| binding_status: "update_role_binding_status env hs i request s = (r, s') \<Longrightarrow> platform_step env s s'"
| member_creation: "create_organization_member env hs organization_id request rb s = (r, s') \<Longrightarrow>
    platform_step env s s'"
| member_update: "update_organization_member env hs organization_id i request s = (r, s') \<Longrightarrow>
    platform_step env s s'"
| member_removal: "remove_organization_member env hs organization_id i request s = (r, s') \<Longrightarrow>
    platform_step env s s'"
| project_member_creation: "create_project_member env hs project_id request rb s = (r, s') \<Longrightarrow>
    platform_step env s s'"
| project_member_update: "update_project_member env hs project_id i request s = (r, s') \<Longrightarrow>
    platform_step env s s'"
| invitation_creation:
    "create_organization_invitation env hs organization_id request now rb secret s = (r, s') \<Longrightarrow>
     platform_step env s s'"
| invitation_revocation: "revoke_organization_invitation env hs organization_id i request now s = (r, s') \<Longrightarrow>
    platform_step env s s'"
| invitation_acceptance: "accept_auth_invitation env hs token now om_bytes pm_bytes s = (r, s') \<Longrightarrow>
    platform_step env s s'"
| active_organization: "update_current_auth_session_active_organization env hs organization_id s = (r, s') \<Longrightarrow>
    platform_step env s s'"
| active_project: "update_current_auth_session_active_project env hs project_id s = (r, s') \<Longrightarrow>
    platform_step env s s'"
| logout: "logout_current_auth_session env hs s = (r, s') \<Longrightarrow> platform_step env s s'"
| single_user: "single_user_login env body rb s = (r, s') \<Longrightarrow> platform_step env s s'"
| secret_creation: "create_platform_secret_ref env hs request rb s = (r, s') \<Longrightarrow> platform_step env s s'"
| provider_creation: "create_oidc_identity_provider env hs request rb s = (r, s') \<Longrightarrow> platform_step env s s'"
| login_start: "start_oidc_login_for_provider env i tenant now ab secrets s = (r, s') \<Longrightarrow>
    platform_step env s s'"
| login_callback: "oidc_login_callback env i request now rb s = (r, s') \<Longrightarrow> platform_step env s s'"

lemmas platform_handlers_keep =
  update_platform_user_status_keeps revoke_user_auth_session_keeps unlink_user_external_identity_keeps
  create_role_binding_keeps update_role_binding_status_keeps create_organization_member_keeps
  update_organization_member_keeps remove_organization_member_keeps create_project_member_keeps
  update_project_member_keeps create_organization_invitation_keeps
  revoke_organization_invitation_keeps accept_auth_invitation_keeps current_session_keeps
  single_user_login_keeps create_platform_secret_ref_keeps create_oidc_identity_provider_keeps
  start_oidc_login_keeps oidc_login_callback_keeps

lemma platform_step_ok: "platform_step env s s' \<Longrightarrow> platform_ok env s \<Longrightarrow> platform_ok env s'"
  by (induction rule: platform_step.induct)
    (erule platform_handlers_keep [THEN keeps_result, rotated], assumption)+

definition platform_new :: platform_state where
  "platform_new =
     \<lparr>pl_owners = [], pl_resources = [], pl_sessions = [], pl_credentials = [], pl_mtls = [], pl_secrets = [],
      pl_organization_members = [], pl_project_members = [], pl_invitations = [],
      pl_external_identities = [], pl_role_bindings = [], pl_users = [], pl_audits = [],
      pl_oidc_providers = [], pl_oidc_attempts = []\<rparr>"

lemma platform_new_ok: "platform_ok env platform_new"
  by (simp add: platform_ok_def platform_new_def)

lemma platform_steps_ok:
  "(platform_step env)\<^sup>*\<^sup>* s s' \<Longrightarrow> platform_ok env s \<Longrightarrow> platform_ok env s'"
  by (induction rule: rtranclp_induct) (auto dest: platform_step_ok)

end
