(* ===== verification/Platform_Access.thy ===== *)
theory Platform_Access
  imports Platform_Steps
begin

text \<open>
  Who may do what on the platform: the abstract reading of \<open>authorize_service_action\<close>, and the lemmas on
  sessions, memberships, bindings and logins that the properties of the platform rest on.
\<close>

subsection \<open>Constant-time comparison\<close>

lemma nat_or_zero: "Bit_Operations.or (a :: nat) b = 0 \<longleftrightarrow> a = 0 \<and> b = 0"
  by (auto simp: bit_eq_iff bit_or_iff)

lemma fold_or_zero:
  "fold (\<lambda>i diff. Bit_Operations.or diff (f i)) xs (d :: nat) = 0 \<longleftrightarrow> d = 0 \<and> (\<forall>i \<in> set xs. f i = 0)"
  by (induction xs arbitrary: d) (auto simp: nat_or_zero)

lemma nat_xor_zero: "Bit_Operations.xor (a :: nat) b = 0 \<longleftrightarrow> a = b"
  by (auto simp: bit_eq_iff bit_xor_iff)

lemma constant_time_bytes_eq_iff: "constant_time_bytes_eq left right \<longleftrightarrow> left = right"
proof -
  have "constant_time_bytes_eq left right \<longleftrightarrow> length left = length right
      \<and> (\<forall>i < max (length left) (length right). byte_or_zero left i = byte_or_zero right i)"
    by (auto simp: constant_time_bytes_eq_def fold_or_zero nat_xor_zero)
  also have "\<dots> \<longleftrightarrow> left = right"
    by (auto simp: byte_or_zero_def list_eq_iff_nth_eq)
  finally show ?thesis .
qed

subsection \<open>Reading the heads of handlers\<close>

lemma pactor_Inr [platform_simps]:
  "pactor env hs s = (Inr a, s') \<longleftrightarrow> authenticated_actor_from_headers env hs s = Inr a \<and> s' = s"
  by (simp add: pactor_def platform_simps)

lemma pauthorize_Inr [platform_simps]:
  "pauthorize env actor action rr s = (Inr u, s') \<longleftrightarrow>
     authorize_service_action env actor action rr s = Inr () \<and> s' = s"
  by (simp add: pauthorize_def platform_simps)

subsection \<open>What a role binding reaches\<close>

text \<open>The binding's principal is a live member of the project or organization the binding is for.\<close>

definition member_is_live :: "platform_state \<Rightarrow> role_binding \<Rightarrow> bool" where
  "member_is_live s b \<longleftrightarrow>
     (case rb_project_id b of
        Some p \<Rightarrow> \<exists>m \<in> set (btree_values (pl_project_members s)).
          pjm_project_id m = p \<and> pjm_tenant_id m = rb_tenant_id b
          \<and> pjm_principal_id m = rb_principal_id b \<and> pjm_status m = MemberActive
      | None \<Rightarrow>
          (case rb_organization_id b of
             Some i \<Rightarrow> \<exists>m \<in> set (btree_values (pl_organization_members s)).
               om_organization_id m = i \<and> om_tenant_id m = rb_tenant_id b
               \<and> om_principal_id m = rb_principal_id b \<and> om_status m = MemberActive
           | None \<Rightarrow> True))"

definition binding_reaches :: "role_binding \<Rightarrow> platform_role \<Rightarrow> platform_resource_ref \<Rightarrow> bool" where
  "binding_reaches b role resource \<longleftrightarrow>
     (case platform_role_scope role of
        AtTenant \<Rightarrow> True
      | AtOrganization \<Rightarrow> rr_organization_id resource = rb_organization_id b
      | AtProject \<Rightarrow> rr_project_id resource = rb_project_id b
      | AtAny \<Rightarrow> Some (role_binding_scope_id b) \<in>
          {Some (rr_tenant_id resource), rr_organization_id resource, rr_project_id resource})"

definition binding_permits ::
  "platform_state \<Rightarrow> platform_actor \<Rightarrow> platform_action \<Rightarrow> platform_resource_ref \<Rightarrow> role_binding \<Rightarrow> bool" where
  "binding_permits s actor action resource b \<longleftrightarrow>
     rb_status b = BindingActive \<and> rb_tenant_id b = pa_tenant_id actor
     \<and> rb_principal_id b = pa_principal_id actor \<and> member_is_live s b
     \<and> (\<exists>role. rb_role_id b = platform_role_str role \<and> action \<in> set (platform_role_actions role)
          \<and> binding_reaches b role resource)"

definition static_grant_permits ::
  "platform_env \<Rightarrow> platform_actor \<Rightarrow> platform_action \<Rightarrow> platform_resource_ref \<Rightarrow> bool" where
  "static_grant_permits env actor action resource \<longleftrightarrow>
     (\<exists>g \<in> set (pe_grants env). pg_tenant_id g = pa_tenant_id actor
        \<and> pg_principal_id g = pa_principal_id actor \<and> pg_action g = action
        \<and> pg_resource_kind g = rr_kind resource \<and> grant_scope_matches g resource)"

text \<open>The conditions that no grant overrides.\<close>

definition request_admissible :: "platform_actor \<Rightarrow> platform_action \<Rightarrow> platform_resource_ref \<Rightarrow> bool" where
  "request_admissible actor action resource \<longleftrightarrow>
     rr_tenant_id resource = pa_tenant_id actor \<and> rr_kind resource = platform_resource_kind action
     \<and> (requires_user_actor action \<longrightarrow> pa_actor_kind actor = UserActor)"

lemma member_accepts_iff [simp]: "member_accepts_access st \<longleftrightarrow> st = MemberActive"
  by (cases st) simp_all

lemma membership_allows_iff [simp]: "role_binding_membership_allows s b \<longleftrightarrow> member_is_live s b"
  by (auto simp: role_binding_membership_allows_def member_is_live_def list_ex_iff
    project_members_for_project_def organization_members_for_organization_def split: option.splits)

text \<open>A well-formed binding has the scope of its role.\<close>

lemma binding_scope_grant:
  assumes "role_binding_shape b" and "rb_role_id b = platform_role_str role"
    and "rr_tenant_id resource = rb_tenant_id b"
  shows "grant_scope_matches \<lparr>pg_tenant_id = t, pg_principal_id = p, pg_action = a, pg_resource_kind = k,
      pg_scope_kind = platform_role_scope role, pg_scope_id = role_binding_scope_id b\<rparr> resource
    \<longleftrightarrow> binding_reaches b role resource"
proof -
  have "validate_scope_shape role (rb_organization_id b) (rb_project_id b) = Inr ()"
    using assms(1, 2) by (auto simp: role_binding_shape_def validate_role_binding_def
      binding_built_in_role_def result_simps)
  then show ?thesis using assms(3)
    by (auto simp: validate_scope_shape_def grant_scope_matches_def binding_reaches_def
      role_binding_scope_id_def split: platform_scope_kind.splits option.splits)
qed

lemma binding_grants_allow:
  assumes "role_binding_shape b" and "request_admissible actor action resource"
    and "rb_tenant_id b = pa_tenant_id actor" and "rb_principal_id b = pa_principal_id actor"
  shows "(\<exists>g \<in> set (role_binding_action_grants b). platform_grant_allows g
        \<lparr>paq_actor = actor, paq_action = action, paq_resource = resource\<rparr>)
    \<longleftrightarrow> (\<exists>role. rb_role_id b = platform_role_str role \<and> action \<in> set (platform_role_actions role)
          \<and> binding_reaches b role resource)"
proof (cases "binding_built_in_role b")
  case None
  then show ?thesis by (auto simp: role_binding_action_grants_def binding_built_in_role_def)
next
  case (Some role)
  then have role: "rb_role_id b = platform_role_str r \<longleftrightarrow> r = role" for r
    by (auto simp: binding_built_in_role_def dest: platform_role_from_id_SomeD)
  with Some assms show ?thesis
    by (auto simp: role_binding_action_grants_def platform_for_builtin_role_def
      platform_grant_allows_def request_admissible_def binding_scope_grant image_iff)
qed

lemma binding_of_store:
  "platform_ok env s \<Longrightarrow> b \<in> set (btree_values (pl_role_bindings s)) \<Longrightarrow> role_binding_shape b"
  by (auto simp: platform_ok_def store_ok_def btree_all_def list_all_iff)

lemma role_binding_authorization_iff:
  assumes "platform_ok env s"
  shows "role_binding_authorization_allows s actor action resource \<longleftrightarrow>
    request_admissible actor action resource
    \<and> (\<exists>b \<in> set (btree_values (pl_role_bindings s)). binding_permits s actor action resource b)"
proof (cases "request_admissible actor action resource")
  case True
  have "role_binding_authorization_allows s actor action resource \<longleftrightarrow>
    (\<exists>b \<in> set (btree_values (pl_role_bindings s)). rb_tenant_id b = pa_tenant_id actor
       \<and> rb_principal_id b = pa_principal_id actor \<and> rb_status b = BindingActive \<and> member_is_live s b
       \<and> (\<exists>g \<in> set (role_binding_action_grants b). platform_grant_allows g
            \<lparr>paq_actor = actor, paq_action = action, paq_resource = resource\<rparr>))"
    using True by (force simp: role_binding_authorization_allows_def platform_authorize_allowed_iff
      active_role_bindings_for_principal_def request_admissible_def)
  also have "\<dots> \<longleftrightarrow> (\<exists>b \<in> set (btree_values (pl_role_bindings s)). binding_permits s actor action resource b)"
    using binding_grants_allow [OF binding_of_store [OF assms] True]
    by (intro bex_cong refl) (unfold binding_permits_def, blast)
  finally show ?thesis using True by simp
next
  case False
  then show ?thesis
    by (auto simp: role_binding_authorization_allows_def platform_authorize_allowed_iff
      request_admissible_def)
qed

lemma authorize_iff:
  assumes "platform_ok env s"
  shows "authorize_service_action env actor action resource s = Inr () \<longleftrightarrow>
    request_admissible actor action resource
    \<and> (static_grant_permits env actor action resource
       \<or> (\<exists>b \<in> set (btree_values (pl_role_bindings s)). binding_permits s actor action resource b))"
proof -
  have "pdec_allowed (platform_authorize (pe_grants env)
      \<lparr>paq_actor = actor, paq_action = action, paq_resource = resource\<rparr>) \<longleftrightarrow>
    request_admissible actor action resource \<and> static_grant_permits env actor action resource"
    by (auto simp: platform_authorize_allowed_iff request_admissible_def static_grant_permits_def
      platform_grant_allows_def)
  then show ?thesis
    by (auto simp: authorize_service_action_def Let_def role_binding_authorization_iff [OF assms])
qed


subsection \<open>Removal of an organization member\<close>

text \<open>
  After the removal a binding that still permits something is not one of the organization, and it was
  there before.
\<close>

lemma remove_organization_member_Inr:
  assumes "remove_organization_member env hs organization_id i request s = (Inr (m, before, np, nb), s')"
  shows "\<exists>members projects bindings.
    update_organization_member_status i (rmq_expected_version request) MemberRemoved
      (pl_organization_members s) = (Inr m, members)
    \<and> cascade_project_memberships m MemberRemoved (pl_project_members s) = (np, projects)
    \<and> delete_role_bindings_for_organization_principal (om_tenant_id m) (om_organization_id m)
        (om_principal_id m) (pl_role_bindings s) = (nb, bindings)
    \<and> s' = s\<lparr>pl_organization_members := members, pl_project_members := projects,
        pl_role_bindings := bindings\<rparr>"
  using assms
  by (auto simp: remove_organization_member_def cascade_members_def delete_organization_bindings_def
    platform_simps)

lemma removed_member_binding:
  assumes "remove_organization_member env hs organization_id i request s = (Inr (m, before, np, nb), s')"
    and "b \<in> set (btree_values (pl_role_bindings s'))" and "rb_status b = BindingActive"
  shows "b \<in> set (btree_values (pl_role_bindings s))"
    and "rb_tenant_id b = om_tenant_id m \<Longrightarrow> rb_principal_id b = om_principal_id m \<Longrightarrow>
      rb_organization_id b \<noteq> Some (om_organization_id m)"
  using remove_organization_member_Inr [OF assms(1)] assms(2, 3)
  by (auto simp: delete_role_bindings_for_organization_principal_def
    dest!: delete_matching_leaves_none)

lemma removed_member_projects:
  assumes "remove_organization_member env hs organization_id i request s = (Inr (m, before, np, nb), s')"
    and "r \<in> set (btree_values (pl_project_members s'))" and "member_of_organization m r"
  shows "pjm_status r \<noteq> MemberActive"
  using remove_organization_member_Inr [OF assms(1)] assms(2, 3)
  by (auto dest: cascade_leaves_none)

lemma removed_member_status:
  assumes "remove_organization_member env hs organization_id i request s = (Inr (m, before, np, nb), s')"
  shows "btree_get (pl_organization_members s') i = Some m" and "om_status m = MemberRemoved"
    and "om_organization_id m = organization_id"
  using assms
  by (auto simp: remove_organization_member_def cascade_members_def delete_organization_bindings_def
    platform_simps organization_member_for_actor_def update_organization_member_status_def Let_def
    result_simps split: option.splits if_splits)


subsection \<open>Sessions of a principal that cannot log in\<close>

definition session_is_not :: "string \<Rightarrow> string \<Rightarrow> platform_session \<Rightarrow> bool" where
  "session_is_not t p r \<longleftrightarrow>
     \<not> (pa_tenant_id (ses_actor r) = t \<and> pa_principal_id (ses_actor r) = p
        \<and> ses_status r = SessionStatusActive)"

definition sessions_closed :: "string \<Rightarrow> string \<Rightarrow> platform_state \<Rightarrow> bool" where
  "sessions_closed t p s \<longleftrightarrow> btree_all (session_is_not t p) (pl_sessions s)"

lemma session_is_not_status [simp]:
  "st \<noteq> SessionStatusActive \<Longrightarrow> session_is_not t p (r\<lparr>ses_status := st\<rparr>)"
  "session_is_not t p (r\<lparr>ses_actor := (ses_actor r)\<lparr>pa_organization_id := org, pa_project_id := prj\<rparr>\<rparr>)
     = session_is_not t p r"
  by (simp_all add: session_is_not_def)

lemma keeps_closed_sessions:
  assumes "\<And>st r st'. btree_all (session_is_not t p) st \<Longrightarrow> op st = (r, st') \<Longrightarrow>
    btree_all (session_is_not t p) st'"
  shows "op_keeps (sessions_closed t p) (pstore pl_sessions pl_sessions_update err op)"
  by (intro keeps_store) (auto simp: sessions_closed_def dest: assms)

lemma keeps_closed_others:
  "op_keeps (sessions_closed t p) (pstore pl_users pl_users_update e1 op1)"
  "op_keeps (sessions_closed t p) (pstore pl_organization_members pl_organization_members_update e2 op2)"
  "op_keeps (sessions_closed t p) (pstore pl_project_members pl_project_members_update e3 op3)"
  "op_keeps (sessions_closed t p) (pstore pl_role_bindings pl_role_bindings_update e4 op4)"
  "op_keeps (sessions_closed t p) (pstore pl_invitations pl_invitations_update e5 op5)"
  "op_keeps (sessions_closed t p) (pstore pl_audits pl_audits_update e6 op6)"
  "op_keeps (sessions_closed t p) (pstore pl_external_identities pl_external_identities_update e7 op7)"
  "op_keeps (sessions_closed t p) (pstore pl_owners pl_owners_update e8 op8)"
  "op_keeps (sessions_closed t p) (pstore pl_secrets pl_secrets_update e9 op9)"
  "op_keeps (sessions_closed t p) (pstore pl_oidc_attempts pl_oidc_attempts_update e10 op10)"
  "op_keeps (sessions_closed t p) (pcount pl_project_members pl_project_members_update c1)"
  "op_keeps (sessions_closed t p) (pcount pl_role_bindings pl_role_bindings_update c2)"
  "op_keeps (sessions_closed t p) (pcount pl_oidc_providers pl_oidc_providers_update c3)"
  "op_keeps (sessions_closed t p) (pcount pl_oidc_attempts pl_oidc_attempts_update c4)"
  by (intro keeps_store keeps_count; simp add: sessions_closed_def)+

lemma change_session_closed:
  assumes "btree_all (session_is_not t p) st" and "change_session_by_bearer sha256 change raw st = (r, st')"
    and "\<And>r. session_is_not t p r \<Longrightarrow> session_is_not t p (change r)"
  shows "btree_all (session_is_not t p) st'"
proof -
  have "st' = st \<or> (\<exists>r k. btree_get st k = Some r \<and> st' = btree_insert k (change r) st)"
    using assms(2) by (auto simp: change_session_by_bearer_def Let_def split: if_splits option.splits)
  with assms(1, 3) show ?thesis by (auto intro!: btree_all_insert dest: btree_all_get)
qed

lemma store_revoke_closed:
  "btree_all (session_is_not t p) st \<Longrightarrow> store_revoke_auth_session_by_id i st = (r, st') \<Longrightarrow>
     btree_all (session_is_not t p) st'"
  by (auto simp: store_revoke_auth_session_by_id_def Let_def split: if_splits option.splits)

lemma keeps_closed_disable:
  "op_keeps (sessions_closed t p) (disable_auth_sessions_for_principal t' p')"
  unfolding disable_auth_sessions_for_principal_def store_disable_auth_sessions_for_principal_def Let_def
  by (intro keeps_count) (auto simp: sessions_closed_def)

lemma keeps_closed_audit:
  "op_keeps (sessions_closed t p) (record_platform_audit_event rb now actor action rr et reason)"
  unfolding record_platform_audit_event_def Let_def by (intro keeps_intros keeps_closed_others)

lemmas keeps_closed = keeps_intros keeps_closed_others keeps_closed_disable keeps_closed_audit

lemma directory_handlers_keep_closed:
  "op_keeps (sessions_closed t p) (update_platform_user_status env hs u q1 rb now)"
  "op_keeps (sessions_closed t p) (revoke_user_auth_session env hs u i q2 rb now)"
  "op_keeps (sessions_closed t p) (unlink_user_external_identity env hs u i q2 rb now)"
  "op_keeps (sessions_closed t p) (create_role_binding env hs q3 rb)"
  "op_keeps (sessions_closed t p) (update_role_binding_status env hs i q4)"
  "op_keeps (sessions_closed t p) (create_organization_member env hs org q5 rb)"
  "op_keeps (sessions_closed t p) (update_organization_member env hs org i q4)"
  "op_keeps (sessions_closed t p) (remove_organization_member env hs org i q6)"
  "op_keeps (sessions_closed t p) (create_project_member env hs prj q7 rb)"
  "op_keeps (sessions_closed t p) (update_project_member env hs prj i q4)"
  "op_keeps (sessions_closed t p) (create_organization_invitation env hs org q8 now rb secret)"
  "op_keeps (sessions_closed t p) (revoke_organization_invitation env hs org i q6 now)"
  "op_keeps (sessions_closed t p) (accept_auth_invitation env hs token now om_bytes pm_bytes)"
  unfolding update_platform_user_status_def revoke_user_auth_session_def
    unlink_user_external_identity_def create_role_binding_def update_role_binding_status_def
    create_organization_member_def update_organization_member_def remove_organization_member_def
    create_project_member_def update_project_member_def create_organization_invitation_def
    revoke_organization_invitation_def accept_auth_invitation_def
    accept_organization_invitation_for_actor_def cascade_members_def delete_organization_bindings_def
    Let_def
  by (intro keeps_closed keeps_closed_sessions, (erule (1) store_revoke_closed)?)+

lemma session_handlers_keep_closed:
  "op_keeps (sessions_closed t p) (update_current_auth_session_active_organization env hs org)"
  "op_keeps (sessions_closed t p) (update_current_auth_session_active_project env hs prj)"
  "op_keeps (sessions_closed t p) (logout_current_auth_session env hs)"
  "op_keeps (sessions_closed t p) (create_platform_secret_ref env hs q1 rb)"
  "op_keeps (sessions_closed t p) (create_oidc_identity_provider env hs q2 rb)"
  "op_keeps (sessions_closed t p) (start_oidc_login_for_provider env i tenant now ab secrets)"
  unfolding update_current_auth_session_active_organization_def update_auth_session_context_def
    update_current_auth_session_active_project_def logout_current_auth_session_def
    create_platform_secret_ref_def secret_ref_record_from_create_request_def
    create_oidc_identity_provider_def upsert_oidc_login_provider_def start_oidc_login_for_provider_def
    update_auth_session_context_by_bearer_def revoke_auth_session_by_bearer_def Let_def
  by (intro keeps_closed keeps_closed_sessions, (erule (1) change_session_closed; simp)?)+

text \<open>A login of another principal does not open a session of this one; a refused login writes nothing.\<close>

lemma login_session_closed:
  assumes "\<not> (t = pa_tenant_id actor \<and> p = pa_principal_id actor)"
  shows "op_keeps (sessions_closed t p) (pstore pl_sessions pl_sessions_update err
    (record_auth_session (active_session sha256 i token actor)))"
  using assms
  by (intro keeps_closed_sessions)
    (auto simp: record_auth_session_def active_session_def session_is_not_def split: sum.splits)

definition user_can_login :: "string \<Rightarrow> platform_state \<Rightarrow> bool" where
  "user_can_login p s \<longleftrightarrow> ensure_user_can_login p s = Inr ()"

lemma single_user_login_closed:
  assumes "single_user_login env body rb s = (r, s')" and "sessions_closed t p s" and "\<not> user_can_login p s"
  shows "sessions_closed t p s'"
proof (cases "p = SINGLE_USER_ID")
  case True
  with assms have "s' = s"
    by (auto simp: single_user_login_def user_can_login_def pbind_def pread_def
      split: sum.splits prod.splits)
  with assms show ?thesis by simp
next
  case False
  have "op_keeps (sessions_closed t p) (single_user_login env body rb)"
    unfolding single_user_login_def record_single_user_memberships_def Let_def
    by (intro keeps_closed login_session_closed) (use False in \<open>simp add: single_user_actor_def project_user_def\<close>)
  from keeps_result [OF this assms(2, 1)] show ?thesis .
qed


lemma completion_parts [simp]:
  "ocp_session (oidc_login_completion_record env p a claims token now) =
     active_session (pe_sha256 env) (session_id_of_token ''sess_oidc_'' token) token
       (project_user (op_tenant_id p)
         (ocp_organization_id (oidc_login_completion_record env p a claims token now))
         (ocp_project_id (oidc_login_completion_record env p a claims token now))
         (ocp_user_id (oidc_login_completion_record env p a claims token now)))"
  "ocp_tenant_id (oidc_login_completion_record env p a claims token now) = op_tenant_id p"
  "ocp_identity_provider_id (oidc_login_completion_record env p a claims token now) =
     op_identity_provider_id p"
  "ocp_login_attempt_id (oidc_login_completion_record env p a claims token now) = oa_login_attempt_id a"
  "ocp_consumed_at_unix (oidc_login_completion_record env p a claims token now) = now"
  by (simp_all add: oidc_login_completion_record_def Let_def)

text \<open>
  \<open>writes_only m s Q\<close>: the operation leaves the state as it is or in one with \<open>Q\<close>; the reads at the head of a
  handler pass what they found on.
\<close>

definition writes_only :: "'a platform_op \<Rightarrow> platform_state \<Rightarrow> (platform_state \<Rightarrow> bool) \<Rightarrow> bool" where
  "writes_only m s Q \<longleftrightarrow> snd (m s) = s \<or> Q (snd (m s))"

lemma writes_only_read:
  "(\<And>a. g s = Inr a \<Longrightarrow> writes_only (f a) s Q) \<Longrightarrow> writes_only (pbind (pread g) f) s Q"
  by (auto simp: writes_only_def pbind_def pread_def split: sum.splits)

text \<open>A callback writes only when the user may log in, and then it completes the login.\<close>

lemma oidc_login_callback_writes:
  "writes_only (oidc_login_callback env i request now rb) s (\<lambda>s'. \<exists>p a claims c.
     c = oidc_login_completion_record env p a claims (generate_session_token rb) now
     \<and> ensure_user_can_login (ocp_user_id c) s = Inr () \<and> s' = snd (complete_oidc_login c s))"
  unfolding oidc_login_callback_def Let_def
  by (intro writes_only_read)
    (force simp: writes_only_def pbind_def preturn_def split: prod.splits sum.splits)

lemma oidc_login_callback_closed:
  assumes "oidc_login_callback env i request now rb s = (r, s')" and "sessions_closed t p s"
    and "\<not> user_can_login p s"
  shows "sessions_closed t p s'"
proof -
  have "op_keeps (sessions_closed t p) (complete_oidc_login
      (oidc_login_completion_record env pr a claims token now))"
    if "ocp_user_id (oidc_login_completion_record env pr a claims token now) \<noteq> p" for pr a claims token
    unfolding complete_oidc_login_def completion_parts
    by (intro keeps_closed login_session_closed) (use that in \<open>simp add: project_user_def\<close>)
  then have kept: "sessions_closed t p (snd (complete_oidc_login
      (oidc_login_completion_record env pr a claims token now) s))"
    if "ensure_user_can_login (ocp_user_id (oidc_login_completion_record env pr a claims token now)) s
      = Inr ()" for pr a claims token
    using assms(2, 3) that by (cases "ocp_user_id (oidc_login_completion_record env pr a claims token now) = p")
      (simp_all add: op_keeps_def user_can_login_def)
  from oidc_login_callback_writes [of env i request now rb s] assms(1, 2) kept show ?thesis
    by (auto simp: writes_only_def)
qed

lemmas handlers_keep_closed = directory_handlers_keep_closed session_handlers_keep_closed

lemma platform_step_closed:
  assumes "platform_step env s s'" and "sessions_closed t p s" and "\<not> user_can_login p s"
  shows "sessions_closed t p s'"
  using assms
  by (induction rule: platform_step.induct)
    (erule handlers_keep_closed [THEN keeps_result, rotated] single_user_login_closed
      oidc_login_callback_closed; assumption)+

end
