(* ===== verification/Platform_Demo.thy ===== *)
theory Platform_Demo
  imports Platform_Access
begin

text \<open>
  A platform to instantiate the properties with: the tenant's owner Ada, the user Bob with a home
  organization and a membership in a project of another one, an invitation, an API key, and an OIDC
  provider with a login under way. The digest keeps the last 32 bytes of its input.
\<close>

declare constant_time_bytes_eq_iff [code]

definition pdemo_sha256 :: "string \<Rightarrow> string" where
  "pdemo_sha256 x = take 32 (rev x @ replicate 32 (CHR ''0''))"

definition pdemo_metadata_url :: "string \<Rightarrow> string" where
  "pdemo_metadata_url path = ''https://id.example'' @ path"

definition pdemo_claims :: oidc_id_token_claims where
  "pdemo_claims =
     \<lparr>ic_iss = ''https://id.example'', ic_sub = ''carol'', ic_aud = [''platform''], ic_exp = 5000,
      ic_nonce = ''nonce'', ic_email = Some ''carol@example.org'', ic_email_verified = True,
      ic_name = Some ''Carol'', ic_preferred_username = None\<rparr>"

definition pdemo_env :: platform_env where
  "pdemo_env =
     \<lparr>pe_sha256 = pdemo_sha256, pe_environment = [''DATABASE_URL'' \<mapsto> ''postgres://secret''],
      pe_base64url = (\<lambda>b. b), pe_append_query = (\<lambda>url _. Some url),
      pe_jwt = \<lparr>jwt_decode_header = (\<lambda>_. Some (RS256, None)), jwt_decoding_key = (\<lambda>k. Some (jk_material k)),
        jwt_decode = (\<lambda>key alg issuer audiences token. Some pdemo_claims)\<rparr>,
      pe_oidc_http = \<lparr>oh_discovery = (\<lambda>_. Inl (ServiceInternal ''unused'')),
        oh_jwks = (\<lambda>_. Inr [\<lparr>jk_public_key_use = None, jk_key_id = None, jk_key_algorithm = None,
          jk_material = ''n''\<rparr>]),
        oh_token = (\<lambda>_ _ _. Inr ''header.payload.signature'')\<rparr>,
      pe_grants = [],
      pe_single_user = Some \<lparr>su_username = ''ada'', su_password = ''pw'', su_primary_email = None,
        su_display_name = ''Ada''\<rparr>\<rparr>"

definition pdemo_user :: "string \<Rightarrow> user_record" where
  "pdemo_user u =
     \<lparr>us_user_id = u, us_tenant_id = ''ten_a'', us_default_organization_id = None,
      us_default_project_id = None, us_primary_email = None, us_display_name = u,
      us_status = UserActive, us_resource_version = 1\<rparr>"

definition pdemo_actor :: "string \<Rightarrow> platform_actor" where
  "pdemo_actor u =
     \<lparr>pa_tenant_id = ''ten_a'', pa_organization_id = None, pa_project_id = None,
      pa_principal_id = u, pa_actor_kind = UserActor\<rparr>"

definition pdemo_session :: "string \<Rightarrow> string \<Rightarrow> platform_session" where
  "pdemo_session token u = active_session pdemo_sha256 (''sess_'' @ u) token (pdemo_actor u)"

definition pdemo_member :: "string \<Rightarrow> string \<Rightarrow> string \<Rightarrow> string \<Rightarrow> organization_member" where
  "pdemo_member i tenant_id organization_id u =
     \<lparr>om_organization_member_id = i, om_tenant_id = tenant_id, om_organization_id = organization_id,
      om_principal_id = u, om_membership_kind = ''user'', om_status = MemberActive,
      om_resource_version = 1\<rparr>"

definition pdemo_binding ::
  "string \<Rightarrow> string option \<Rightarrow> string option \<Rightarrow> string \<Rightarrow> platform_role \<Rightarrow> role_binding" where
  "pdemo_binding i organization_id project_id u role =
     \<lparr>rb_role_binding_id = i, rb_tenant_id = ''ten_a'', rb_organization_id = organization_id,
      rb_project_id = project_id, rb_principal_id = u, rb_role_id = platform_role_str role,
      rb_status = BindingActive, rb_resource_version = 1\<rparr>"

definition pdemo_project_member :: project_member where
  "pdemo_project_member =
     \<lparr>pjm_project_member_id = ''pm_bob'', pjm_tenant_id = ''ten_a'', pjm_organization_id = ''org_acme'',
      pjm_project_id = ''prj_rocket'', pjm_principal_id = ''usr_bob'',
      pjm_organization_member_id = Some ''om_bob_acme'', pjm_membership_kind = ''user'',
      pjm_status = MemberActive, pjm_resource_version = 1\<rparr>"

definition pdemo_invitation :: organization_invitation where
  "pdemo_invitation =
     \<lparr>iv_invitation_id = ''inv_1'', iv_tenant_id = ''ten_a'', iv_organization_id = ''org_beta'',
      iv_project_id = Some ''prj_beta'', iv_invited_email = None,
      iv_invited_principal_id = Some ''usr_bob'',
      iv_invitation_token_hash = hash_platform_invitation_token pdemo_sha256 ''swp_inv_1'',
      iv_role_id = ''organization_admin'', iv_status = InvitationPending, iv_expires_at_unix = 2000,
      iv_accepted_at_unix = None, iv_created_by = ''usr_ada'', iv_resource_version = 1,
      iv_created_at_unix = 1, iv_updated_at_unix = 1\<rparr>"

definition pdemo_provider :: oidc_provider where
  "pdemo_provider =
     \<lparr>op_identity_provider_id = ''idp_a'', op_tenant_id = ''ten_a'', op_display_name = ''Example'',
      op_issuer_url = ''https://id.example'',
      op_authorization_endpoint = pdemo_metadata_url ''/authorize'',
      op_token_endpoint = pdemo_metadata_url ''/token'', op_jwks_uri = pdemo_metadata_url ''/jwks'',
      op_client_id = ''platform'', op_client_secret_ref = None, op_token_endpoint_auth = AuthNone,
      op_redirect_uri = ''https://platform.example/callback'', op_requested_scopes = [''openid''],
      op_accepted_audiences = [''platform''], op_status = ProviderActive\<rparr>"

definition pdemo_attempt :: oidc_attempt where
  "pdemo_attempt =
     \<lparr>oa_login_attempt_id = ''ola_1'', oa_tenant_id = ''ten_a'', oa_identity_provider_id = ''idp_a'',
      oa_state_hash = hash_oidc_login_state pdemo_sha256 ''state'',
      oa_nonce_hash = hash_oidc_login_nonce pdemo_sha256 ''nonce'',
      oa_pkce_verifier_hash = hash_oidc_pkce_verifier pdemo_sha256 ''verifier'',
      oa_redirect_uri = ''https://platform.example/callback'', oa_status = AttemptActive,
      oa_expires_at_unix = 2000, oa_consumed_at_unix = None\<rparr>"

definition keyed_store :: "('v \<Rightarrow> string) \<Rightarrow> 'v list \<Rightarrow> 'v btree" where
  "keyed_store key vs = map (\<lambda>v. (key v, v)) vs"

text \<open>A conversation of the project \<open>prj_rocket\<close>, with its owner.\<close>

definition pdemo_owner :: resource_owner where
  "pdemo_owner =
     \<lparr>ro_resource_kind = ''Conversation'', ro_resource_id = ''cnv_1'', ro_tenant_id = ''ten_a'',
      ro_organization_id = Some ''org_acme'', ro_project_id = Some ''prj_rocket''\<rparr>"

definition pdemo :: platform_state where
  "pdemo =
     \<lparr>pl_owners = [((''Conversation'', ''cnv_1''), pdemo_owner)],
      pl_resources = [((''Conversation'', ''cnv_1''), \<lparr>pr_owner = pdemo_owner,
        pr_data = ConversationData \<lparr>cv_title = ''Launch'', cv_status = ''open''\<rparr>\<rparr>)],
      pl_sessions = keyed_store ses_token_hash
        [pdemo_session ''swp_sess_ada'' ''usr_ada'', pdemo_session ''swp_sess_bob'' ''usr_bob''],
      pl_credentials = keyed_store bc_token_hash
        [active_bearer_credential pdemo_sha256 ''cred_1'' BearerApiKey ''swk_bob'' (pdemo_actor ''usr_bob'')],
      pl_mtls = [], pl_secrets = [],
      pl_organization_members = keyed_store om_organization_member_id
        [pdemo_member ''om_bob_acme'' ''ten_a'' ''org_acme'' ''usr_bob'',
         pdemo_member ''om_bob_home'' ''ten_a'' ''org_home'' ''usr_bob'',
         pdemo_member ''om_zed'' ''ten_z'' ''org_zed'' ''usr_zed''],
      pl_project_members = keyed_store pjm_project_member_id [pdemo_project_member],
      pl_invitations = keyed_store iv_invitation_id [pdemo_invitation],
      pl_external_identities = [],
      pl_role_bindings = keyed_store rb_role_binding_id
        [pdemo_binding ''rb_ada'' None None ''usr_ada'' TenantOwner,
         pdemo_binding ''rb_bob_acme'' (Some ''org_acme'') (Some ''prj_rocket'') ''usr_bob'' PlatformProjectViewer,
         pdemo_binding ''rb_bob_home'' (Some ''org_home'') None ''usr_bob'' PlatformOrganizationAdmin],
      pl_users = keyed_store us_user_id [pdemo_user ''usr_ada'', pdemo_user ''usr_bob''],
      pl_audits = [],
      pl_oidc_providers = keyed_store op_identity_provider_id [pdemo_provider],
      pl_oidc_attempts = keyed_store oa_state_hash [pdemo_attempt]\<rparr>"

definition pdemo_headers :: "string \<Rightarrow> headers" where
  "pdemo_headers token = [(''authorization'', ''Bearer '' @ token)]"


definition pdemo_bytes :: string where
  "pdemo_bytes = replicate 16 (CHR ''x'')"

definition pdemo_callback :: oidc_callback_request where
  "pdemo_callback =
     \<lparr>ocq_state = ''state'', ocq_code = ''code'', ocq_nonce = ''nonce'', ocq_code_verifier = ''verifier''\<rparr>"

definition pdemo_metadata :: oidc_metadata where
  "pdemo_metadata =
     \<lparr>md_identity_provider_id = ''idp_a'', md_tenant_id = ''ten_a'', md_issuer_url = ''https://id.example'',
      md_authorization_endpoint = pdemo_metadata_url ''/authorize'',
      md_token_endpoint = pdemo_metadata_url ''/token'', md_jwks_uri = pdemo_metadata_url ''/jwks'',
      md_client_id = ''platform'', md_client_secret_ref = None, md_token_endpoint_auth = AuthNone,
      md_redirect_uri = ''https://platform.example/callback'', md_accepted_audiences = [''platform''],
      md_algorithms = [''RS256'']\<rparr>"

definition pdemo_verified :: oidc_claims where
  "pdemo_verified =
     \<lparr>oc_issuer = ''https://id.example'', oc_subject = ''carol'', oc_audiences = [''platform''],
      oc_nonce = ''nonce'', oc_expires_at_unix = 5000, oc_email = Some ''carol@example.org'',
      oc_email_verified = True, oc_display_name = Some ''Carol''\<rparr>"

definition pdemo_completion :: oidc_completion where
  "pdemo_completion = oidc_login_completion_record pdemo_env pdemo_provider pdemo_attempt pdemo_verified
     (generate_session_token pdemo_bytes) 100"

subsection \<open>Evaluated facts\<close>

lemma pdemo_ok: "platform_ok pdemo_env pdemo"
  by code_simp

lemma pdemo_actors:
  "authenticated_actor_from_headers pdemo_env (pdemo_headers ''swp_sess_ada'') pdemo = Inr (pdemo_actor ''usr_ada'')"
  "authenticated_actor_from_headers pdemo_env (pdemo_headers ''swp_sess_bob'') pdemo = Inr (pdemo_actor ''usr_bob'')"
  "authenticated_actor_from_headers pdemo_env (pdemo_headers ''swk_bob'') pdemo = Inr (pdemo_actor ''usr_bob'')"
  by code_simp+

lemma run_result:
  "case fst x of Inl e \<Rightarrow> False | Inr r \<Rightarrow> P r \<Longrightarrow> \<exists>r s'. x = (Inr r, s') \<and> P r"
  by (cases x) (auto split: sum.splits)

text \<open>The callback of the login under way, check by check.\<close>

lemma pdemo_callback_checks:
  "validate_oidc_callback_request pdemo_callback = Inr ()"
  "oidc_login_provider ''idp_a'' pdemo = Inr pdemo_provider"
  "oidc_login_attempt_for_state pdemo_env (ocq_state pdemo_callback) pdemo = Inr pdemo_attempt"
  "validate_oidc_callback_attempt pdemo_env pdemo_provider pdemo_attempt pdemo_callback 100 = Inr ()"
  "oidc_resolved_provider_metadata pdemo_env pdemo_provider = Inr pdemo_metadata"
  "oidc_client_secret_for_metadata pdemo_env pdemo_metadata pdemo = Inr None"
  "exchange_oidc_authorization_code pdemo_env pdemo_metadata pdemo_attempt pdemo_callback None
     = Inr ''header.payload.signature''"
  by code_simp+

lemma pdemo_token_valid:
  "validate_oidc_id_token (pe_jwt pdemo_env) pdemo_metadata [\<lparr>jk_public_key_use = None, jk_key_id = None,
     jk_key_algorithm = None, jk_material = ''n''\<rparr>] ''header.payload.signature'' (ocq_nonce pdemo_callback) 100
     = Inr pdemo_verified"
  by code_simp

lemma pdemo_login_allowed: "ensure_user_can_login (ocp_user_id pdemo_completion) pdemo = Inr ()"
  by code_simp

lemma pdemo_login_completes: "fst (complete_oidc_login pdemo_completion pdemo) = Inr ()"
  by code_simp

lemma pdemo_logged_in:
  "oidc_login_callback pdemo_env ''idp_a'' pdemo_callback 100 pdemo_bytes pdemo =
     (Inr (pdemo_completion, generate_session_token pdemo_bytes), snd (complete_oidc_login pdemo_completion pdemo))"
proof -
  obtain s1 where "complete_oidc_login pdemo_completion pdemo = (Inr (), s1)"
    using pdemo_login_completes by (metis prod.collapse)
  moreover have "oh_jwks (pe_oidc_http pdemo_env) (md_jwks_uri pdemo_metadata) =
      Inr [\<lparr>jk_public_key_use = None, jk_key_id = None, jk_key_algorithm = None, jk_material = ''n''\<rparr>]"
    by (simp add: pdemo_env_def)
  ultimately show ?thesis
    using pdemo_login_allowed unfolding oidc_login_callback_def Let_def
    by (simp add: pbind_def pread_def preturn_def pdemo_callback_checks pdemo_token_valid
      flip: pdemo_completion_def)
qed

end
