(* ===== verification/Platform_Properties.thy ===== *)
theory Platform_Properties
  imports Platform_Demo
begin

text \<open>
  The properties of the platform control plane: its state stays well formed, who is authorized, what
  disabling a user and removing a member take away, invitations, versions, OIDC logins, secrets.
\<close>

text \<open>
  The comparison that the platform uses for CSRF tokens and single-user credentials, which reads
  every byte and collects the differences, is equality of byte strings.
\<close>

theorem constant_time_comparison_is_equality: "constant_time_bytes_eq left right \<longleftrightarrow> left = right"
  by (rule constant_time_bytes_eq_iff)

subsection \<open>Well-formed states and versions\<close>




subsection \<open>Authorization\<close>

text \<open>
  C4. A request is authorized exactly when its resource is in the actor's tenant and of the action's kind,
  a user acts where the action asks for one, and either a static grant covers it or an active role
  binding of the actor does: the binding's role has the action, its scope reaches the resource, and the
  actor is a live member of the project or organization the binding is for.
\<close>

theorem service_authorization_exact:
  assumes "platform_ok env s"
  shows "authorize_service_action env actor action resource s = Inr () \<longleftrightarrow>
    request_admissible actor action resource
    \<and> (static_grant_permits env actor action resource
       \<or> (\<exists>b \<in> set (btree_values (pl_role_bindings s)). binding_permits s actor action resource b))"
  using assms by (rule authorize_iff)

theorem service_authorization_exact_witness:
  "authorize_service_action pdemo_env (pdemo_actor ''usr_bob'') OrganizationMemberWrite
     \<lparr>rr_kind = ''OrganizationMember'', rr_tenant_id = ''ten_a'', rr_organization_id = Some ''org_home'',
      rr_project_id = None, rr_resource_id = ''org_home''\<rparr> pdemo = Inr ()
   \<and> (\<exists>b \<in> set (btree_values (pl_role_bindings pdemo)). binding_permits pdemo (pdemo_actor ''usr_bob'')
        OrganizationMemberWrite
        \<lparr>rr_kind = ''OrganizationMember'', rr_tenant_id = ''ten_a'', rr_organization_id = Some ''org_home'',
         rr_project_id = None, rr_resource_id = ''org_home''\<rparr> b)"
  (is "?allowed \<and> _")
proof -
  have ?allowed by code_simp
  with service_authorization_exact [OF pdemo_ok] show ?thesis
    by (simp add: static_grant_permits_def pdemo_env_def)
qed

text \<open>
  C10. After a member is removed from an organization its project memberships there are inactive, and what
  it may still do rests on a static grant or on a binding it already had that is not one of the
  organization.
\<close>

theorem removed_member_loses_organization:
  assumes ok: "platform_ok env s"
    and run: "remove_organization_member env hs organization_id i request s = (Inr (m, before, np, nb), s')"
  shows "om_status m = MemberRemoved
    \<and> (\<forall>r \<in> set (btree_values (pl_project_members s')).
         member_of_organization m r \<longrightarrow> pjm_status r \<noteq> MemberActive)
    \<and> (\<forall>actor action resource. pa_tenant_id actor = om_tenant_id m \<longrightarrow>
         pa_principal_id actor = om_principal_id m \<longrightarrow>
         authorize_service_action env actor action resource s' = Inr () \<longrightarrow>
         static_grant_permits env actor action resource
         \<or> (\<exists>b \<in> set (btree_values (pl_role_bindings s)).
              binding_permits s' actor action resource b \<and> rb_organization_id b \<noteq> Some organization_id))"
proof (intro conjI allI impI ballI)
  show "om_status m = MemberRemoved" using removed_member_status [OF run] by simp
next
  fix r
  assume "r \<in> set (btree_values (pl_project_members s'))" "member_of_organization m r"
  then show "pjm_status r \<noteq> MemberActive" by (rule removed_member_projects [OF run])
next
  fix actor action resource
  assume actor: "pa_tenant_id actor = om_tenant_id m" "pa_principal_id actor = om_principal_id m"
    and allowed: "authorize_service_action env actor action resource s' = Inr ()"
  have "platform_ok env s'" by (rule keeps_result [OF remove_organization_member_keeps ok run])
  with allowed have "static_grant_permits env actor action resource
      \<or> (\<exists>b \<in> set (btree_values (pl_role_bindings s')). binding_permits s' actor action resource b)"
    using authorize_iff by blast
  then show "static_grant_permits env actor action resource
      \<or> (\<exists>b \<in> set (btree_values (pl_role_bindings s)).
           binding_permits s' actor action resource b \<and> rb_organization_id b \<noteq> Some organization_id)"
    using removed_member_binding [OF run] removed_member_status(3) [OF run] actor
    unfolding binding_permits_def by metis
qed

definition pdemo_removal :: "(service_error + (organization_member \<times> member_status \<times> nat \<times> nat)) \<times> platform_state" where
  "pdemo_removal = remove_organization_member pdemo_env (pdemo_headers ''swp_sess_ada'') ''org_acme'' ''om_bob_acme''
     \<lparr>rmq_expected_version = 1, rmq_reason = None\<rparr> pdemo"

theorem removed_member_loses_organization_witness:
  "\<exists>m before np nb s'. pdemo_removal = (Inr (m, before, np, nb), s') \<and> om_status m = MemberRemoved
     \<and> (\<forall>action resource. authorize_service_action pdemo_env (pdemo_actor ''usr_bob'') action resource s' = Inr ()
          \<longrightarrow> (\<exists>b \<in> set (btree_values (pl_role_bindings pdemo)).
                binding_permits s' (pdemo_actor ''usr_bob'') action resource b
                \<and> rb_organization_id b \<noteq> Some ''org_acme''))"
proof -
  have "case fst pdemo_removal of Inl _ \<Rightarrow> False
      | Inr r \<Rightarrow> om_tenant_id (fst r) = ''ten_a'' \<and> om_principal_id (fst r) = ''usr_bob''"
    by code_simp
  then obtain m before np nb s' where run: "pdemo_removal = (Inr (m, before, np, nb), s')"
    and m: "om_tenant_id m = ''ten_a''" "om_principal_id m = ''usr_bob''"
    by (auto dest!: run_result)
  from removed_member_loses_organization [OF pdemo_ok run [unfolded pdemo_removal_def]] run m show ?thesis
    by (fastforce simp: pdemo_actor_def static_grant_permits_def pdemo_env_def)
qed

subsection \<open>Disabled users\<close>

lemma disable_unless:
  "(if c then preturn 0 else disable_auth_sessions_for_principal t p) s = (Inr n, s') \<longleftrightarrow>
     n = (if c then 0 else fst (store_disable_auth_sessions_for_principal t p (pl_sessions s)))
     \<and> s' = s\<lparr>pl_sessions := (if c then pl_sessions s
         else snd (store_disable_auth_sessions_for_principal t p (pl_sessions s)))\<rparr>"
  by (auto simp: disable_auth_sessions_for_principal_def preturn_def pcount_def split: prod.splits)

lemma update_status_Inr:
  assumes "update_platform_user_status env hs u request rb now s = (Inr (user, before, n), s')"
  shows "\<exists>status. update_user_status u (usq_expected_version request) status (pl_users s)
      = (Inr user, pl_users s')"
    and "pl_sessions s' = (if user_accepts_access (us_status user) then pl_sessions s
      else snd (store_disable_auth_sessions_for_principal (us_tenant_id user) (us_user_id user)
        (pl_sessions s)))"
    and "pl_credentials s' = pl_credentials s" and "pl_mtls s' = pl_mtls s"
  using assms
  by (auto simp: update_platform_user_status_def disable_unless record_platform_audit_event_def Let_def
    platform_simps)

lemma updated_user:
  assumes "platform_ok env s" and "update_user_status u v status (pl_users s) = (Inr user, users)"
  shows "us_user_id user = u" and "btree_get users u = Some user"
  using assms
  by (auto simp: platform_ok_def update_user_status_def Let_def dest: store_ok_get
    split: if_splits option.splits sum.splits)

lemma disabled_sessions_closed:
  "btree_all (session_is_not t p) (snd (store_disable_auth_sessions_for_principal t p st))"
proof -
  have "session_is_not t p (if pa_tenant_id (ses_actor r) = t \<and> pa_principal_id (ses_actor r) = p
      \<and> ses_status r = SessionStatusActive then r\<lparr>ses_status := SessionStatusPrincipalDisabled\<rparr> else r)" for r
    by (simp add: session_is_not_def)
  then show ?thesis
    by (simp only: store_disable_auth_sessions_for_principal_def Let_def snd_conv btree_all_def
      btree_values_map_values list.pred_map comp_def list.pred_True)
qed

lemma closed_run:
  assumes "(\<lambda>a b. \<not> user_can_login p a \<and> platform_step env a b)\<^sup>*\<^sup>* s s'" and "sessions_closed t p s"
  shows "sessions_closed t p s'"
  using assms by (induction rule: rtranclp_induct) (auto dest: platform_step_closed)

lemma closed_session_refused:
  assumes "sessions_closed t p s" and "auth_session_from_headers env hs s = Inr (raw, session)"
  shows "\<not> (pa_tenant_id (ses_actor session) = t \<and> pa_principal_id (ses_actor session) = p)"
  using assms
  by (auto simp: sessions_closed_def auth_session_from_headers_def auth_session_for_bearer_Inr result_simps
    session_is_not_def dest: btree_all_get)

text \<open>
  C6. Once an administrator disables or deletes a user, the user cannot log in, and in every later run in
  which the user stays so no session token of the user is accepted.
\<close>

theorem disabled_user_locked_out:
  assumes ok: "platform_ok env s"
    and run: "update_platform_user_status env hs u request rb now s = (Inr (user, before, n), s')"
    and disabled: "\<not> user_accepts_access (us_status user)"
  shows "\<not> user_can_login u s'
    \<and> (\<forall>s'' hs' raw session. (\<lambda>a b. \<not> user_can_login u a \<and> platform_step env a b)\<^sup>*\<^sup>* s' s'' \<longrightarrow>
         auth_session_from_headers env hs' s'' = Inr (raw, session) \<longrightarrow>
         \<not> (pa_tenant_id (ses_actor session) = us_tenant_id user
            \<and> pa_principal_id (ses_actor session) = u))"
proof -
  obtain status where
    update: "update_user_status u (usq_expected_version request) status (pl_users s) = (Inr user, pl_users s')"
    using update_status_Inr(1) [OF run] by blast
  have "sessions_closed (us_tenant_id user) u s'"
    using update_status_Inr(2) [OF run] updated_user(1) [OF ok update] disabled
    by (simp add: sessions_closed_def disabled_sessions_closed)
  moreover have "\<not> user_can_login u s'"
    using updated_user(2) [OF ok update] disabled
    by (simp add: user_can_login_def ensure_user_can_login_def user_including_deleted_def fail_if_def)
  ultimately show ?thesis using closed_run closed_session_refused by blast
qed

definition pdemo_disabling :: "(service_error + (user_record \<times> user_status \<times> nat)) \<times> platform_state" where
  "pdemo_disabling = update_platform_user_status pdemo_env (pdemo_headers ''swp_sess_ada'') ''usr_bob''
     \<lparr>usq_expected_version = 1, usq_status = ''disabled'', usq_reason = None,
      usq_strong_auth_confirmation = Some ''confirm''\<rparr> pdemo_bytes 100 pdemo"

lemma pdemo_disabling_done:
  obtains user before n s' where "pdemo_disabling = (Inr (user, before, n), s')"
    "us_status user = UserDisabled" "us_tenant_id user = ''ten_a''"
proof -
  have "case fst pdemo_disabling of Inl _ \<Rightarrow> False
      | Inr r \<Rightarrow> us_status (fst r) = UserDisabled \<and> us_tenant_id (fst r) = ''ten_a''"
    by code_simp
  then show ?thesis using that by (auto dest!: run_result)
qed

theorem disabled_user_locked_out_witness:
  "\<exists>user before n s'. pdemo_disabling = (Inr (user, before, n), s') \<and> \<not> user_can_login ''usr_bob'' s'
     \<and> (\<forall>hs' raw session. auth_session_from_headers pdemo_env hs' s' = Inr (raw, session) \<longrightarrow>
          \<not> (pa_tenant_id (ses_actor session) = ''ten_a'' \<and> pa_principal_id (ses_actor session) = ''usr_bob''))"
proof (rule pdemo_disabling_done)
  fix user before n s'
  assume run: "pdemo_disabling = (Inr (user, before, n), s')" and user: "us_status user = UserDisabled"
    "us_tenant_id user = ''ten_a''"
  have "\<not> user_accepts_access (us_status user)" by (simp add: user)
  note locked = disabled_user_locked_out [OF pdemo_ok run [unfolded pdemo_disabling_def] this]
  show ?thesis using run user(2) conjunct1 [OF locked] conjunct2 [OF locked, rule_format, OF rtranclp.rtrancl_refl]
    by auto
qed

lemma disabled_sessions_absent:
  "btree_get (snd (store_disable_auth_sessions_for_principal t p st)) h = None \<longleftrightarrow> btree_get st h = None"
  by (simp add: store_disable_auth_sessions_for_principal_def Let_def)

lemma session_status_error_found: "session_status_error st \<noteq> Some SessionNotFound"
  by (cases st) simp_all

lemma bearer_session_not_found:
  "authenticated_actor_for_bearer sha256 st raw = Inl SessionNotFound \<longleftrightarrow>
     trim raw \<noteq> [] \<and> btree_get st (hash_session_token sha256 (trim raw)) = None"
  by (cases "btree_get st (hash_session_token sha256 (trim raw))")
    (auto simp: authenticated_actor_for_bearer_def auth_session_for_bearer_def fail_if_def
      active_session_record_def Let_def session_status_error_found split: option.splits)

lemma credential_authentication:
  assumes "authenticated_actor_from_headers env hs s = Inr actor"
    and "\<not> (\<exists>raw session. auth_session_from_headers env hs s = Inr (raw, session))"
    and "pl_credentials s' = pl_credentials s" and "pl_mtls s' = pl_mtls s"
    and "\<And>h. btree_get (pl_sessions s) h = None \<Longrightarrow> btree_get (pl_sessions s') h = None"
  shows "authenticated_actor_from_headers env hs s' = Inr actor"
proof (cases "header_str hs ''authorization''")
  case None
  with assms(1) show ?thesis
    unfolding authenticated_actor_from_headers_def assms(3, 4) by simp
next
  case (Some v)
  with assms(1) obtain raw where raw: "bearer_token v = Some raw"
    by (auto simp: authenticated_actor_from_headers_def split: option.splits)
  have "authenticated_actor_for_bearer (pe_sha256 env) (pl_sessions s) raw \<noteq> Inr a" for a
    using assms(2) Some raw
    by (auto simp: auth_session_from_headers_def authenticated_actor_for_bearer_def result_simps)
  then obtain e where e: "authenticated_actor_for_bearer (pe_sha256 env) (pl_sessions s) raw = Inl e"
    by (cases "authenticated_actor_for_bearer (pe_sha256 env) (pl_sessions s) raw") auto
  have "e = SessionNotFound"
    using assms(1) by (cases e) (simp_all add: authenticated_actor_from_headers_def Some raw e)
  with e assms(5) have "authenticated_actor_for_bearer (pe_sha256 env) (pl_sessions s') raw = Inl SessionNotFound"
    by (simp add: bearer_session_not_found)
  with assms(1) e \<open>e = SessionNotFound\<close> show ?thesis
    unfolding authenticated_actor_from_headers_def assms(3, 4) by (simp add: Some raw)
qed

text \<open>
  C38. Disabling a user does not touch its API keys, service tokens and client certificates: a request that
  authenticated with one before the user was disabled authenticates after it.
\<close>

theorem disabled_user_keeps_credentials:
  assumes run: "update_platform_user_status env hs u request rb now s = (Inr (user, before, n), s')"
    and actor: "authenticated_actor_from_headers env hs' s = Inr actor"
    and no_session: "\<not> (\<exists>raw session. auth_session_from_headers env hs' s = Inr (raw, session))"
  shows "authenticated_actor_from_headers env hs' s' = Inr actor"
  using actor no_session update_status_Inr(3, 4) [OF run]
  by (rule credential_authentication) (simp add: update_status_Inr(2) [OF run] disabled_sessions_absent)


theorem disabled_user_keeps_credentials_witness:
  "\<exists>user before n s'. pdemo_disabling = (Inr (user, before, n), s') \<and> us_status user = UserDisabled
     \<and> authenticated_actor_from_headers pdemo_env (pdemo_headers ''swk_bob'') s' = Inr (pdemo_actor ''usr_bob'')"
proof (rule pdemo_disabling_done)
  fix user before n s'
  assume run: "pdemo_disabling = (Inr (user, before, n), s')" and user: "us_status user = UserDisabled"
  have "isl (auth_session_from_headers pdemo_env (pdemo_headers ''swk_bob'') pdemo)" by code_simp
  then have "\<not> (\<exists>raw session. auth_session_from_headers pdemo_env (pdemo_headers ''swk_bob'') pdemo = Inr (raw, session))"
    by auto
  from disabled_user_keeps_credentials [OF run [unfolded pdemo_disabling_def] pdemo_actors(3) this] run user
  show ?thesis by blast
qed

subsection \<open>Invitations\<close>

lemma case_option_Inr [platform_simps]:
  "(case v of None \<Rightarrow> m | Some a \<Rightarrow> f a) s = (Inr b, s') \<longleftrightarrow>
     v = None \<and> m s = (Inr b, s') \<or> (\<exists>a. v = Some a \<and> f a s = (Inr b, s'))"
  by (cases v) simp_all

lemma platform_keyed:
  assumes "platform_ok env s"
  shows "btree_keyed om_organization_member_id (pl_organization_members s)"
    and "btree_keyed pjm_project_member_id (pl_project_members s)"
    and "btree_keyed rb_role_binding_id (pl_role_bindings s)"
    and "btree_keyed iv_invitation_id (pl_invitations s)"
  using assms by (simp_all add: platform_ok_def store_ok_def)

text \<open>What the acceptance for an actor writes.\<close>

lemma accept_for_actor_Inr:
  assumes ok: "platform_ok env s"
    and run: "accept_organization_invitation_for_actor iv0 actor now ob pb s = (Inr (iv, om, pm), s')"
  shows "accept_organization_invitation \<lparr>air_invitation_id = iv_invitation_id iv0,
        air_principal_id = pa_principal_id actor, air_organization_member_id = new_prefixed_id ''om'' ob,
        air_project_member_id = map_option (\<lambda>_. new_prefixed_id ''pm'' pb) (iv_project_id iv0),
        air_accepted_at_unix = now\<rparr> (pl_invitations s) = (Inr iv, pl_invitations s')"
    and "om_organization_id om = iv_organization_id iv" and "om_tenant_id om = iv_tenant_id iv"
    and "om_principal_id om = pa_principal_id actor" and "om_status om = MemberActive"
    and "btree_get (pl_organization_members s') (om_organization_member_id om) = Some om"
    and "iv_project_id iv = None \<Longrightarrow> pm = None \<and> pl_project_members s' = pl_project_members s"
    and "iv_project_id iv = Some p \<Longrightarrow> \<exists>m. pm = Some m \<and> pjm_project_id m = p
      \<and> pjm_principal_id m = pa_principal_id actor \<and> pjm_status m = MemberActive
      \<and> btree_get (pl_project_members s') (pjm_project_member_id m) = Some m"
    and "pl_role_bindings s' = pl_role_bindings s"
  using run
  by (auto simp: accept_organization_invitation_for_actor_def Let_def platform_simps
    upsert_invited_organization_member_def
    dest!: upsert_organization_member_done [OF platform_keyed(1) [OF ok]]
      upsert_project_member_done [OF platform_keyed(2) [OF ok]])

lemma accept_auth_invitation_Inr:
  "accept_auth_invitation env hs token now ob pb s = (Inr r, s') \<longleftrightarrow>
     (\<exists>raw session iv0. mutating_auth_session_from_headers env hs s = Inr (raw, session)
        \<and> ensure_user_auth_session session = Inr ()
        \<and> organization_invitation_by_raw_token env token s = Inr iv0
        \<and> ensure_actor_matches_invitation (ses_actor session) iv0 = Inr ()
        \<and> accept_organization_invitation_for_actor iv0 (ses_actor session) now ob pb s = (Inr r, s'))"
  by (auto simp: accept_auth_invitation_def platform_simps)

lemma token_invitation_stored:
  assumes "platform_ok env s" and "organization_invitation_by_raw_token env token s = Inr iv"
  shows "btree_get (pl_invitations s) (iv_invitation_id iv) = Some iv"
  using assms platform_keyed(4) [OF assms(1)]
  by (auto simp: organization_invitation_by_raw_token_def organization_invitation_by_token_hash_def
    result_simps dest: find_value_keyed)

lemma accepted_not_again:
  assumes "platform_ok env s" and "btree_get (pl_invitations s) i = Some iv"
    and "iv_status iv \<noteq> InvitationPending"
    and "accept_auth_invitation env hs token now ob pb s = (Inr (iv', om, pm), s')"
  shows "iv_invitation_id iv' \<noteq> i"
proof
  assume i: "iv_invitation_id iv' = i"
  from assms(4) obtain session :: platform_session and iv0 where
    run: "accept_organization_invitation_for_actor iv0 (ses_actor session) now ob pb s = (Inr (iv', om, pm), s')"
    unfolding accept_auth_invitation_Inr by blast
  from accept_done [OF accept_for_actor_Inr(1) [OF assms(1) run]] obtain iv2 where
    "btree_get (pl_invitations s) (iv_invitation_id iv0) = Some iv2" "iv_status iv2 = InvitationPending"
    "iv_invitation_id iv' = iv_invitation_id iv2"
    by auto
  with i assms(2, 3) btree_get_key [OF platform_keyed(4) [OF assms(1)]] show False by auto
qed



definition pdemo_acceptance ::
  "(service_error + (organization_invitation \<times> organization_member \<times> project_member option)) \<times> platform_state" where
  "pdemo_acceptance = accept_auth_invitation pdemo_env ((PLATFORM_CSRF_TOKEN_HEADER,
     platform_csrf_token pdemo_sha256 (pdemo_session ''swp_sess_bob'' ''usr_bob'')) # pdemo_headers ''swp_sess_bob'')
     ''swp_inv_1'' 100 pdemo_bytes pdemo_bytes pdemo"


subsection \<open>Scopes that are not checked\<close>

definition project_admin_request :: "string \<Rightarrow> string \<Rightarrow> string \<Rightarrow> create_role_binding_request" where
  "project_admin_request organization_id project_id principal_id =
     \<lparr>crb_binding = None, crb_tenant = None, crb_organization = Some organization_id,
      crb_project = Some project_id, crb_principal = principal_id,
      crb_role = platform_role_str PlatformProjectAdmin\<rparr>"

definition project_admin_binding ::
  "string \<Rightarrow> string \<Rightarrow> string \<Rightarrow> string \<Rightarrow> string \<Rightarrow> role_binding" where
  "project_admin_binding random_bytes tenant_id organization_id project_id principal_id =
     \<lparr>rb_role_binding_id = new_prefixed_id ''rb'' random_bytes, rb_tenant_id = tenant_id,
      rb_organization_id = Some organization_id, rb_project_id = Some project_id,
      rb_principal_id = principal_id, rb_role_id = platform_role_str PlatformProjectAdmin,
      rb_status = BindingActive, rb_resource_version = 1\<rparr>"

definition same_binding_scope :: "role_binding \<Rightarrow> role_binding \<Rightarrow> bool" where
  "same_binding_scope b c \<longleftrightarrow>
     rb_tenant_id b = rb_tenant_id c \<and> rb_organization_id b = rb_organization_id c
     \<and> rb_project_id b = rb_project_id c \<and> rb_principal_id b = rb_principal_id c
     \<and> rb_role_id b = rb_role_id c"

lemma upsert_fresh_binding:
  assumes "\<forall>b \<in> set (btree_values s). \<not> same_binding_scope b c" and "validate_role_binding c = Inr ()"
    and "rb_status c = BindingActive" and "rb_resource_version c = 1"
  shows "upsert_role_binding (upsert_request_of_binding c) s
    = (Inr c, btree_insert (rb_role_binding_id c) c s)"
proof -
  have "find (\<lambda>b. rb_tenant_id b = rb_tenant_id c \<and> rb_organization_id b = rb_organization_id c
      \<and> rb_project_id b = rb_project_id c \<and> rb_principal_id b = rb_principal_id c
      \<and> rb_role_id b = rb_role_id c) (btree_values s) = None"
    using assms(1) by (auto simp: find_None_iff same_binding_scope_def)
  moreover have "c = \<lparr>rb_role_binding_id = rb_role_binding_id c, rb_tenant_id = rb_tenant_id c,
      rb_organization_id = rb_organization_id c, rb_project_id = rb_project_id c,
      rb_principal_id = rb_principal_id c, rb_role_id = rb_role_id c,
      rb_status = BindingActive, rb_resource_version = 1\<rparr>"
    using assms(3, 4) by (cases c) simp
  ultimately show ?thesis using assms(2)
    by (simp add: upsert_role_binding_def upsert_request_of_binding_def Let_def)
qed

lemma create_fresh_role_binding:
  assumes "authenticated_actor_from_headers env hs s = Inr actor"
    and "role_binding_record_from_create_request request (pa_tenant_id actor) rb = Inr c"
    and "crb_tenant request = None"
    and "authorize_service_action env actor RoleBindingWrite (role_binding_resource c) s = Inr ()"
    and "\<forall>b \<in> set (btree_values (pl_role_bindings s)). \<not> same_binding_scope b c"
    and "rb_status c = BindingActive" and "rb_resource_version c = 1"
  shows "create_role_binding env hs request rb s =
    (Inr (c, True), s\<lparr>pl_role_bindings := btree_insert (rb_role_binding_id c) c (pl_role_bindings s)\<rparr>)"
proof -
  have "equivalent_role_binding c s = None"
    using assms(5) by (auto simp: equivalent_role_binding_def role_bindings_for_tenant_def find_None_iff
      same_binding_scope_def)
  moreover have "validate_role_binding c = Inr ()"
    using assms(2) by (auto simp: role_binding_record_from_create_request_def Let_def result_simps)
  ultimately show ?thesis
    using assms upsert_fresh_binding [OF assms(5) _ assms(6, 7)]
    by (simp add: create_role_binding_def pbind_def pactor_def pauthorize_def pread_def pstore_def
      preturn_def tenant_from_request_or_actor_def)
qed

lemma trim_project_admin [simp]: "trim ''project_admin'' = ''project_admin''"
  by (simp add: trim_def trim_start.simps trim_end.simps white_space_def starts_with_def ends_with_def)

text \<open>
  C33. An administrator of one organization who is a member, in whatever role, of a project of another
  organization can bind itself as administrator of that project: the handler checks the organization
  that the request names and never that the project belongs to it.
\<close>

theorem organization_admin_takes_foreign_project:
  assumes ok: "platform_ok env s"
    and actor: "authenticated_actor_from_headers env hs s = Inr actor" "pa_actor_kind actor = UserActor"
    and admin: "b \<in> set (btree_values (pl_role_bindings s))" "rb_status b = BindingActive"
      "rb_tenant_id b = pa_tenant_id actor" "rb_principal_id b = pa_principal_id actor"
      "rb_role_id b = platform_role_str PlatformOrganizationAdmin"
      "rb_organization_id b = Some organization_id" "member_is_live s b"
    and member: "m \<in> set (btree_values (pl_project_members s))" "pjm_tenant_id m = pa_tenant_id actor"
      "pjm_principal_id m = pa_principal_id actor" "pjm_status m = MemberActive"
      "pjm_project_id m = project_id"
    and plain: "trim organization_id = organization_id" "trim project_id = project_id"
      "trim (pa_principal_id actor) = pa_principal_id actor"
      "length ''prj_'' < length project_id" "rb \<noteq> []"
    and fresh: "\<forall>c \<in> set (btree_values (pl_role_bindings s)). \<not> same_binding_scope c
      (project_admin_binding rb (pa_tenant_id actor) organization_id project_id (pa_principal_id actor))"
  shows "\<exists>s'. create_role_binding env hs
        (project_admin_request organization_id project_id (pa_principal_id actor)) rb s
      = (Inr (project_admin_binding rb (pa_tenant_id actor) organization_id project_id
          (pa_principal_id actor), True), s')
    \<and> (\<forall>action resource. request_admissible actor action resource \<longrightarrow>
         rr_project_id resource = Some project_id \<longrightarrow> action \<in> set PROJECT_ADMIN_ACTIONS \<longrightarrow>
         authorize_service_action env actor action resource s' = Inr ())"
proof -
  let ?c = "project_admin_binding rb (pa_tenant_id actor) organization_id project_id (pa_principal_id actor)"
  let ?request = "project_admin_request organization_id project_id (pa_principal_id actor)"
  have shape: "role_binding_shape b" using binding_of_store [OF ok admin(1)] .
  have "project_member_shape m"
    using ok member(1) by (auto simp: platform_ok_def store_ok_def btree_all_def list_all_iff)
  then have prj: "starts_with project_id ''prj_''"
    using member(5) by (auto simp: project_member_shape_def validate_project_member_def
      membership_validate_prefixed_def result_simps)
  have nonempty: "organization_id \<noteq> []" "project_id \<noteq> []"
    using shape admin(6) plain(4) by (auto simp: role_binding_shape_def validate_role_binding_def
      role_validate_prefixed_def result_simps)
  have valid: "validate_role_binding ?c = Inr ()"
    using shape admin prj plain(4, 5)
    by (auto simp: role_binding_shape_def validate_role_binding_def role_validate_prefixed_def
      project_admin_binding_def binding_built_in_role_def validate_scope_shape_def result_simps
      new_prefixed_id_def starts_with_def lower_hex_def platform_role_from_id_def)
  then have record_ok: "role_binding_record_from_create_request ?request (pa_tenant_id actor) rb = Inr ?c"
    using plain(1-3) nonempty
    by (simp add: role_binding_record_from_create_request_def project_admin_request_def
      project_admin_binding_def normalized_optional_string_def Let_def)
  have "binding_permits s actor RoleBindingWrite (role_binding_resource ?c) b"
    using admin by (auto simp: binding_permits_def binding_reaches_def role_binding_resource_def
      project_admin_binding_def project_resource_def ORGANIZATION_ADMIN_ACTIONS_def
      intro!: exI [of _ PlatformOrganizationAdmin])
  then have "authorize_service_action env actor RoleBindingWrite (role_binding_resource ?c) s = Inr ()"
    using admin(1) actor(2) unfolding authorize_iff [OF ok]
    by (auto simp: request_admissible_def role_binding_resource_def project_admin_binding_def
      project_resource_def)
  then have run: "create_role_binding env hs ?request rb s =
      (Inr (?c, True), s\<lparr>pl_role_bindings := btree_insert (rb_role_binding_id ?c) ?c (pl_role_bindings s)\<rparr>)"
    (is "_ = (_, ?s')")
    using create_fresh_role_binding [OF actor(1) record_ok _ _ fresh]
    by (simp add: project_admin_request_def project_admin_binding_def)
  have "platform_ok env ?s'" by (rule keeps_result [OF create_role_binding_keeps ok run])
  moreover have "?c \<in> set (btree_values (pl_role_bindings ?s'))"
    by (rule btree_get_value [of _ "rb_role_binding_id ?c"]) simp
  moreover have "binding_permits ?s' actor action resource ?c"
    if "rr_project_id resource = Some project_id" "action \<in> set PROJECT_ADMIN_ACTIONS" for action resource
    using that member by (auto simp: binding_permits_def binding_reaches_def member_is_live_def
      project_admin_binding_def intro!: exI [of _ PlatformProjectAdmin])
  ultimately have "authorize_service_action env actor action resource ?s' = Inr ()"
    if "request_admissible actor action resource" "rr_project_id resource = Some project_id"
      "action \<in> set PROJECT_ADMIN_ACTIONS" for action resource
    using that authorize_iff by blast
  with run show ?thesis by blast
qed


text \<open>Bob, a viewer in a project of \<open>org_acme\<close> and administrator of his own organization, takes the project.\<close>

theorem organization_admin_takes_foreign_project_witness:
  "\<exists>s'. create_role_binding pdemo_env (pdemo_headers ''swp_sess_bob'')
        (project_admin_request ''org_home'' ''prj_rocket'' ''usr_bob'') pdemo_bytes pdemo
      = (Inr (project_admin_binding pdemo_bytes ''ten_a'' ''org_home'' ''prj_rocket'' ''usr_bob'', True), s')
    \<and> authorize_service_action pdemo_env (pdemo_actor ''usr_bob'') ProjectMemberWrite
        (project_resource ''ProjectMember'' ''ten_a'' ''org_acme'' ''prj_rocket'' ''prj_rocket'') s' = Inr ()"
proof -
  let ?b = "pdemo_binding ''rb_bob_home'' (Some ''org_home'') None ''usr_bob'' PlatformOrganizationAdmin"
  have b: "?b \<in> set (btree_values (pl_role_bindings pdemo))"
    by (simp add: pdemo_def keyed_store_def btree_values_def)
  have m: "pdemo_project_member \<in> set (btree_values (pl_project_members pdemo))"
    by (simp add: pdemo_def keyed_store_def btree_values_def)
  have live: "member_is_live pdemo ?b" by code_simp
  have fresh: "\<forall>c \<in> set (btree_values (pl_role_bindings pdemo)). \<not> same_binding_scope c
      (project_admin_binding pdemo_bytes (pa_tenant_id (pdemo_actor ''usr_bob'')) ''org_home'' ''prj_rocket''
        (pa_principal_id (pdemo_actor ''usr_bob'')))"
    by code_simp
  have trims: "trim ''org_home'' = ''org_home''" "trim ''prj_rocket'' = ''prj_rocket''" "trim ''usr_bob'' = ''usr_bob''"
    by code_simp+
  have "request_admissible (pdemo_actor ''usr_bob'') ProjectMemberWrite
      (project_resource ''ProjectMember'' ''ten_a'' ''org_acme'' ''prj_rocket'' ''prj_rocket'')"
    by code_simp
  with organization_admin_takes_foreign_project [OF pdemo_ok pdemo_actors(2) _ b _ _ _ _ _ live m _ _ _ _ trims(1, 2) _ _ _ fresh]
    trims show ?thesis
    by (fastforce simp: pdemo_actor_def pdemo_binding_def pdemo_project_member_def pdemo_bytes_def
      project_resource_def PROJECT_ADMIN_ACTIONS_def)
qed

text \<open>
  The id of a new membership is the caller's choice and is not checked against the store: whoever may
  add members to an organization can replace a membership of another tenant.
\<close>

theorem chosen_member_id_replaces_foreign_record:
  assumes ok: "platform_ok env s"
    and actor: "authenticated_actor_from_headers env hs s = Inr actor" "starts_with (pa_tenant_id actor) ''ten_''"
    and allowed: "authorize_service_action env actor OrganizationMemberWrite
      \<lparr>rr_kind = ''OrganizationMember'', rr_tenant_id = pa_tenant_id actor,
       rr_organization_id = Some organization_id, rr_project_id = None,
       rr_resource_id = organization_id\<rparr> s = Inr ()"
    and organization: "starts_with organization_id ''org_''"
    and victim: "btree_get (pl_organization_members s) i = Some victim" "trim i = i"
      "om_tenant_id victim \<noteq> pa_tenant_id actor"
    and invitee: "trim principal_id = principal_id" "starts_with principal_id ''usr_''"
      "\<forall>m \<in> set (btree_values (pl_organization_members s)). \<not> (om_tenant_id m = pa_tenant_id actor
         \<and> om_organization_id m = organization_id \<and> om_principal_id m = principal_id)"
  shows "\<exists>m s'. create_organization_member env hs organization_id
        \<lparr>com_organization_member_id = Some i, com_principal_id = principal_id,
         com_membership_kind = None\<rparr> rb s = (Inr (m, True), s')
    \<and> btree_get (pl_organization_members s') i = Some m \<and> om_tenant_id m = pa_tenant_id actor
    \<and> victim \<notin> set (btree_values (pl_organization_members s'))"
proof -
  let ?m = "\<lparr>om_organization_member_id = i, om_tenant_id = pa_tenant_id actor,
    om_organization_id = organization_id, om_principal_id = principal_id,
    om_membership_kind = ''user'', om_status = MemberActive, om_resource_version = 1\<rparr>"
  let ?s' = "s\<lparr>pl_organization_members := btree_insert i ?m (pl_organization_members s)\<rparr>"
  have "organization_member_shape victim" and id_eq: "om_organization_member_id victim = i"
    using ok victim(1) by (auto simp: platform_ok_def dest: store_ok_get)
  then have i: "om_organization_member_id victim = i" "starts_with i ''om_''" "i \<noteq> []"
    by (auto simp: starts_with_def dest!: organization_member_shapeD)
  have none: "find (\<lambda>m. om_tenant_id m = pa_tenant_id actor \<and> om_organization_id m = organization_id
      \<and> om_principal_id m = principal_id) (btree_values (pl_organization_members s)) = None"
    "find (\<lambda>m. om_tenant_id m = pa_tenant_id actor \<and> om_organization_id m = organization_id
      \<and> om_principal_id m = principal_id)
      (organization_members_for_organization (pl_organization_members s) organization_id) = None"
    using invitee(3) by (auto simp: find_None_iff organization_members_for_organization_def)
  have "validate_organization_member ?m = Inr ()"
    using i actor organization invitee
    by (simp add: validate_organization_member_def membership_validate_prefixed_def
      membership_validate_principal_id_def validate_membership_kind_def fail_if_def)
  then have "upsert_organization_member \<lparr>omu_organization_member_id = i, omu_tenant_id = pa_tenant_id actor,
      omu_organization_id = organization_id, omu_principal_id = principal_id,
      omu_membership_kind = ''user'', omu_created_by = pa_principal_id actor\<rparr>
      (pl_organization_members s) = (Inr ?m, btree_insert i ?m (pl_organization_members s))"
    using none by (simp add: upsert_organization_member_def Let_def)
  then have "create_organization_member env hs organization_id
      \<lparr>com_organization_member_id = Some i, com_principal_id = principal_id,
       com_membership_kind = None\<rparr> rb s = (Inr (?m, True), ?s')"
    using actor allowed organization victim(2) i invitee(1) none
    by (simp add: create_organization_member_def pbind_def pactor_def pauthorize_def pread_def pstore_def
      preturn_def validate_id_prefix_def fail_if_def organization_scope_resource_def Let_def
      normalized_membership_kind_def normalized_optional_string_def)
  moreover have "om_tenant_id ?m \<noteq> om_tenant_id victim" using victim(3) by simp
  then have "victim \<noteq> ?m" by metis
  then have "victim \<notin> set (btree_values (pl_organization_members ?s'))"
    using btree_values_insert [OF platform_keyed(1) [OF ok], of victim ?m] i(1) by simp
  ultimately show ?thesis by fastforce
qed

text \<open>Bob's administration of his own organization is enough to replace a membership of another tenant.\<close>

theorem chosen_member_id_replaces_foreign_record_witness:
  "\<exists>m s'. create_organization_member pdemo_env (pdemo_headers ''swp_sess_bob'') ''org_home''
        \<lparr>com_organization_member_id = Some ''om_zed'', com_principal_id = ''usr_new'',
         com_membership_kind = None\<rparr> pdemo_bytes pdemo = (Inr (m, True), s')
    \<and> om_tenant_id m = ''ten_a''
    \<and> pdemo_member ''om_zed'' ''ten_z'' ''org_zed'' ''usr_zed'' \<notin> set (btree_values (pl_organization_members s'))"
proof -
  have "pa_tenant_id (pdemo_actor ''usr_bob'') = ''ten_a''" by (simp add: pdemo_actor_def)
  moreover have "authorize_service_action pdemo_env (pdemo_actor ''usr_bob'') OrganizationMemberWrite
      \<lparr>rr_kind = ''OrganizationMember'', rr_tenant_id = pa_tenant_id (pdemo_actor ''usr_bob''),
       rr_organization_id = Some ''org_home'', rr_project_id = None, rr_resource_id = ''org_home''\<rparr> pdemo = Inr ()"
    by code_simp
  moreover have "starts_with ''ten_a'' ''ten_''" "starts_with ''org_home'' ''org_''" "trim ''om_zed'' = ''om_zed''"
    "trim ''usr_new'' = ''usr_new''" "starts_with ''usr_new'' ''usr_''"
    by code_simp+
  moreover have "btree_get (pl_organization_members pdemo) ''om_zed''
      = Some (pdemo_member ''om_zed'' ''ten_z'' ''org_zed'' ''usr_zed'')"
    by code_simp
  moreover have "\<forall>m \<in> set (btree_values (pl_organization_members pdemo)).
      \<not> (om_tenant_id m = pa_tenant_id (pdemo_actor ''usr_bob'') \<and> om_organization_id m = ''org_home''
         \<and> om_principal_id m = ''usr_new'')"
    by code_simp
  moreover have "om_tenant_id (pdemo_member ''om_zed'' ''ten_z'' ''org_zed'' ''usr_zed'') \<noteq> ''ten_a''"
    by (simp add: pdemo_member_def)
  ultimately show ?thesis
    using chosen_member_id_replaces_foreign_record [OF pdemo_ok pdemo_actors(2), of "''org_home''" "''om_zed''"
      "pdemo_member ''om_zed'' ''ten_z'' ''org_zed'' ''usr_zed''" "''usr_new''" pdemo_bytes] by metis
qed

end
