(* ===== verification/Platform_Text.thy ===== *)
theory Platform_Text
  imports Gateway_Json
begin

text \<open>
  Lemmas on strings that the properties of the platform share: trimming, prefixes and suffixes, and
  decimal numbers.
\<close>

subsection \<open>Prefixes and suffixes\<close>

lemma starts_with_iff: "starts_with v p \<longleftrightarrow> (\<exists>r. v = p @ r)"
  by (metis append_eq_conv_conj starts_with_def)

lemma ends_with_iff: "ends_with v p \<longleftrightarrow> (\<exists>r. v = r @ p)"
proof
  assume "ends_with v p"
  then show "\<exists>r. v = r @ p" unfolding ends_with_def by (metis append_take_drop_id)
qed (auto simp: ends_with_def)

subsection \<open>Trimming\<close>

lemma trim_end_prefix: "\<exists>t. s = trim_end s @ t"
proof (induction s rule: trim_end.induct)
  case (1 s)
  show ?case
  proof (cases "find (\<lambda>w. length w \<le> length s \<and> ends_with s w) white_space")
    case None
    then show ?thesis by (subst trim_end.simps) simp
  next
    case (Some w)
    with 1 obtain t where "take (length s - length w) s = trim_end (take (length s - length w) s) @ t" by blast
    then have "s = trim_end (take (length s - length w) s) @ t @ drop (length s - length w) s"
      by (metis append.assoc append_take_drop_id)
    with Some show ?thesis by (subst trim_end.simps) auto
  qed
qed

lemma trim_end_clean:
  "find (\<lambda>w. length w \<le> length (trim_end s) \<and> ends_with (trim_end s) w) white_space = None"
proof (induction s rule: trim_end.induct)
  case (1 s)
  then show ?case
    by (cases "find (\<lambda>w. length w \<le> length s \<and> ends_with s w) white_space") (subst trim_end.simps; simp)+
qed

lemma starts_with_append: "starts_with s w \<Longrightarrow> starts_with (s @ t) w"
  unfolding starts_with_def by (metis append_eq_conv_conj append_take_drop_id append.assoc)

lemma trim_start_of_trim: "find (\<lambda>w. starts_with (trim s) w) white_space = None"
proof -
  obtain t where "trim_start s = trim s @ t" using trim_end_prefix [of "trim_start s"] by (auto simp: trim_def)
  with trim_start_clean [of s] show ?thesis
    by (auto simp: find_None_iff) (metis starts_with_append)
qed

lemma trim_trim [simp]: "trim (trim s) = trim s"
proof -
  have "trim_start (trim s) = trim s"
    using trim_start_of_trim [of s] by (subst trim_start.simps) simp
  moreover have "trim_end (trim s) = trim s"
    using trim_end_clean [of "trim_start s"] by (subst trim_end.simps) (simp add: trim_def)
  ultimately show ?thesis by (simp add: trim_def)
qed

text \<open>A string that does not start with white space is not blank.\<close>

lemma trim_end_nonempty:
  assumes "find (\<lambda>w. starts_with s w) white_space = None" and "s \<noteq> []"
  shows "trim_end s \<noteq> []"
  using assms
proof (induction s rule: trim_end.induct)
  case (1 s)
  show ?case
  proof (cases "find (\<lambda>w. length w \<le> length s \<and> ends_with s w) white_space")
    case None
    with 1 show ?thesis by (subst trim_end.simps) simp
  next
    case (Some w)
    let ?t = "take (length s - length w) s"
    have w: "w \<in> set white_space" "ends_with s w" using Some by (auto simp: find_Some_iff)
    have "?t \<noteq> []"
    proof
      assume "?t = []"
      then have "s = w" using w(2) by (auto simp: ends_with_def)
      with w(1) 1(2) show False by (auto simp: find_None_iff starts_with_def)
    qed
    moreover have "find (\<lambda>v. starts_with ?t v) white_space = None"
      using 1(2) starts_with_append [of ?t _ "drop (length s - length w) s"]
      by (auto simp: find_None_iff)
    ultimately show ?thesis using 1(1) [OF Some] Some by (subst trim_end.simps) simp
  qed
qed

lemma trim_nonempty:
  assumes "find (\<lambda>w. starts_with s w) white_space = None" and "s \<noteq> []"
  shows "trim s \<noteq> []"
proof -
  have "trim_start s = s" using assms(1) by (subst trim_start.simps) simp
  with trim_end_nonempty [OF assms] show ?thesis by (simp add: trim_def)
qed

subsection \<open>Decimal numbers\<close>

lemma nat_digits_nonempty [simp]: "nat_digits n \<noteq> []"
  by (subst nat_digits.simps) simp

lemma white_space_no_digit:
  "w \<in> set white_space \<Longrightarrow> w \<noteq> [] \<and> \<not> (48 \<le> (of_char (hd w) :: nat) \<and> (of_char (hd w) :: nat) \<le> 57)"
proof -
  have "list_all (\<lambda>w. w \<noteq> [] \<and> \<not> (48 \<le> (of_char (hd w) :: nat) \<and> (of_char (hd w) :: nat) \<le> 57)) white_space"
    by code_simp
  then show "w \<in> set white_space \<Longrightarrow> w \<noteq> [] \<and> \<not> (48 \<le> (of_char (hd w) :: nat) \<and> (of_char (hd w) :: nat) \<le> 57)"
    by (simp add: list_all_iff)
qed

lemma nat_digits_not_blank: "trim (nat_digits n) \<noteq> []"
proof (rule trim_nonempty)
  have "hd (nat_digits n) \<in> set (nat_digits n)" by simp
  from nat_digits_chars [OF this]
  have digit: "48 \<le> (of_char (hd (nat_digits n)) :: nat) \<and> (of_char (hd (nat_digits n)) :: nat) \<le> 57" .
  have "\<not> starts_with (nat_digits n) w" if w: "w \<in> set white_space" for w
  proof
    assume "starts_with (nat_digits n) w"
    then obtain r where "nat_digits n = w @ r" by (auto simp: starts_with_iff)
    with white_space_no_digit [OF w] digit show False by simp
  qed
  then show "find (\<lambda>w. starts_with (nat_digits n) w) white_space = None"
    by (simp add: find_None_iff)
qed simp

end
