(* ===== verification/Platform_Login_Properties.thy ===== *)
theory Platform_Login_Properties
  imports Platform_Demo Platform_Text
begin

text \<open>
  Properties of the platform's OIDC login and of its secret references.
\<close>

subsection \<open>Secret references\<close>

lemma mask_and_fingerprint_shown: "trim (secret_display_mask v) \<noteq> []" "trim (secret_fingerprint sha256 v) \<noteq> []"
  unfolding secret_display_mask_def secret_fingerprint_def
  by (rule trim_nonempty; simp add: white_space_def starts_with_def)+

lemma secret_validation_trims:
  "validate_secret_ref_id (trim i) = validate_secret_ref_id i"
  "secret_validate_tenant_id (trim t) = secret_validate_tenant_id t"
  "validate_secret_backend k (trim l) = validate_secret_backend k l"
  by (simp_all add: validate_secret_ref_id_def secret_validate_tenant_id_def validate_secret_backend_def
    validate_environment_variable_name_def)

lemma stored_secret_valid:
  assumes "validate_create_secret_ref_request r k = Inr ()" and "trim k = k"
  shows "validate_secret_ref_record (secret_ref_record_from_value sha256 r v) = Inr ()"
proof -
  have "trim (csr_backend_kind r) = csr_backend_kind r"
    using assms by (auto simp: validate_create_secret_ref_request_def result_simps)
  with assms(1) show ?thesis
    by (auto simp: validate_create_secret_ref_request_def validate_secret_ref_record_def result_simps
      secret_ref_record_from_value_def secret_validation_trims mask_and_fingerprint_shown)
qed

lemma environment_secret_resolves:
  assumes "environment_secret_ref_record sha256 env r = Inr rec"
  shows "env (sr_backend_locator rec) = Some (the (env (trim (csr_backend_locator r))))"
    and "sr_backend_kind rec = ENVIRONMENT_SECRET_BACKEND" and "sr_status rec = SecretActive"
    and "resolve_environment_secret sha256 env rec = Inr (the (env (trim (csr_backend_locator r))))"
proof -
  obtain v where valid: "validate_create_secret_ref_request r ENVIRONMENT_SECRET_BACKEND = Inr ()"
    and v: "env (trim (csr_backend_locator r)) = Some v" "trim v \<noteq> []"
    and rec: "rec = secret_ref_record_from_value sha256 r v"
    using assms by (auto simp: environment_secret_ref_record_def result_simps)
  have kind: "csr_backend_kind r = ENVIRONMENT_SECRET_BACKEND"
    using valid by (simp add: validate_create_secret_ref_request_def result_simps)
  show "env (sr_backend_locator rec) = Some (the (env (trim (csr_backend_locator r))))"
    and "sr_backend_kind rec = ENVIRONMENT_SECRET_BACKEND" and "sr_status rec = SecretActive"
    by (simp_all add: rec secret_ref_record_from_value_def v kind)
  show "resolve_environment_secret sha256 env rec = Inr (the (env (trim (csr_backend_locator r))))"
    using stored_secret_valid [OF valid, of sha256 v] v
    by (simp add: rec resolve_environment_secret_def)
      (simp add: secret_ref_record_from_value_def kind fail_if_def)
qed



text \<open>An environment variable of the process, here its database address, is readable as a secret.\<close>

definition pdemo_secret :: "(service_error + secret_ref) \<times> platform_state" where
  "pdemo_secret = create_platform_secret_ref pdemo_env (pdemo_headers ''swp_sess_ada'')
     \<lparr>shr_secret_ref_id = None, shr_tenant_id = None, shr_purpose = ''oidc'', shr_backend_kind = None,
      shr_backend_locator = Some ''DATABASE_URL'', shr_environment_variable = None,
      shr_secret_value = None\<rparr> pdemo_bytes pdemo"


subsection \<open>OIDC login\<close>

lemma oidc_callback_Inr:
  assumes "oidc_login_callback env i request now rb s = (Inr (c, token), s')"
  obtains p a m client_secret id_token jwks claims where
    "btree_get (pl_oidc_providers s) i = Some p"
    "btree_get (pl_oidc_attempts s) (hash_oidc_login_state (pe_sha256 env) (trim (ocq_state request))) = Some a"
    "validate_oidc_callback_attempt env p a request now = Inr ()"
    "oidc_resolved_provider_metadata env p = Inr m"
    "exchange_oidc_authorization_code env m a request client_secret = Inr id_token"
    "validate_oidc_id_token (pe_jwt env) m jwks id_token (ocq_nonce request) now = Inr claims"
    "token = generate_session_token rb"
    "c = oidc_login_completion_record env p a claims token now"
    "user_can_login (ocp_user_id c) s"
    "complete_oidc_login c s = (Inr (), s')"
  using assms
  by (auto simp: oidc_login_callback_def Let_def platform_simps result_simps user_can_login_def
    oidc_login_provider_def oidc_login_attempt_for_state_def)

text \<open>What completing a login writes.\<close>

lemma record_Inr:
  "record_auth_session r1 st1 = (Inr (), st1') \<Longrightarrow> st1' = btree_insert (ses_token_hash r1) r1 st1"
  "record_organization_member r2 st2 = (Inr (), st2') \<Longrightarrow>
     st2' = btree_insert (om_organization_member_id r2) r2 st2"
  "record_role_binding r3 st3 = (Inr (), st3') \<Longrightarrow> st3' = btree_insert (rb_role_binding_id r3) r3 st3"
  by (auto simp: record_auth_session_def record_organization_member_def record_role_binding_def
    split: sum.splits)

lemma complete_oidc_login_Inr:
  assumes "complete_oidc_login c s = (Inr (), s')"
  shows "consume_attempt c (pl_oidc_attempts s) = (Inr (), pl_oidc_attempts s')"
    and "btree_get (pl_sessions s') (ses_token_hash (ocp_session c)) = Some (ocp_session c)"
    and "btree_get (pl_organization_members s') (ocp_organization_member_id c) = Some
      \<lparr>om_organization_member_id = ocp_organization_member_id c, om_tenant_id = ocp_tenant_id c,
       om_organization_id = ocp_organization_id c, om_principal_id = ocp_user_id c,
       om_membership_kind = ''user'', om_status = MemberActive, om_resource_version = 1\<rparr>"
    and "btree_get (pl_role_bindings s') (ocp_organization_role_binding_id c) = Some
      \<lparr>rb_role_binding_id = ocp_organization_role_binding_id c, rb_tenant_id = ocp_tenant_id c,
       rb_organization_id = Some (ocp_organization_id c), rb_project_id = None,
       rb_principal_id = ocp_user_id c, rb_role_id = platform_role_str PlatformOrganizationAdmin,
       rb_status = BindingActive, rb_resource_version = 1\<rparr>"
    and "pl_oidc_providers s' = pl_oidc_providers s"
  using assms
  by (auto simp: complete_oidc_login_def platform_simps map_err_Inr_iff dest!: record_Inr)

lemma consume_attempt_done:
  assumes "store_ok oa_state_hash P st" and "distinct (map (oa_login_attempt_id \<circ> snd) st)"
    and "btree_get st h = Some a" and "oa_login_attempt_id a = ocp_login_attempt_id c"
    and "consume_attempt c st = (Inr (), st')"
  shows "btree_get st' h = Some (a\<lparr>oa_status := AttemptConsumed,
    oa_consumed_at_unix := Some (ocp_consumed_at_unix c)\<rparr>)"
proof -
  obtain k a1 where found: "find (\<lambda>(k, a). attempt_of_completion c a) st = Some (k, a1)"
    using assms(5) by (auto simp: consume_attempt_def split: option.splits)
  then have "(k, a1) \<in> set st" "oa_login_attempt_id a1 = ocp_login_attempt_id c"
    by (auto simp: attempt_of_completion_def dest: find_some_in)
  moreover have "(h, a) \<in> set st" using assms(3) by (rule map_of_SomeD)
  ultimately have "(k, a1) = (h, a)"
    using inj_onD [of "oa_login_attempt_id \<circ> snd" "set st" "(k, a1)" "(h, a)"] assms(2, 4)
    by (simp add: distinct_map)
  with found assms(3, 5) show ?thesis by (auto simp: consume_attempt_def split: if_splits)
qed

text \<open>A state whose attempt is consumed or expired lets no callback through.\<close>

lemma callback_needs_active_attempt:
  assumes "btree_get (pl_oidc_attempts s) (hash_oidc_login_state (pe_sha256 env) (trim (ocq_state request)))
      = Some a" and "oa_status a \<noteq> AttemptActive"
  shows "\<exists>e. oidc_login_callback env i request now rb s = (Inl e, s)"
proof -
  have "\<exists>e. validate_oidc_callback_attempt env p a request now = Inl e" for p
    using assms(2) by (auto simp: validate_oidc_callback_attempt_def fail_if_def)
  then obtain e where "\<And>p. validate_oidc_callback_attempt env p a request now = Inl (e p)" by metis
  with assms(1) show ?thesis
    by (auto simp: oidc_login_callback_def pbind_def pread_def oidc_login_attempt_for_state_def
      split: sum.splits)
qed



text \<open>
  C39. After every OIDC login the user is an active member and administrator of the user's own organization,
  at version 1, whatever administrators had done to the membership and the binding before.
\<close>

theorem oidc_login_restores_administration:
  assumes ok: "platform_ok env s"
    and run: "oidc_login_callback env i request now rb s = (Inr (c, token), s')"
  shows "(\<forall>action resource. request_admissible (ses_actor (ocp_session c)) action resource \<longrightarrow>
      rr_organization_id resource = Some (ocp_organization_id c) \<longrightarrow>
      action \<in> set ORGANIZATION_ADMIN_ACTIONS \<longrightarrow>
      authorize_service_action env (ses_actor (ocp_session c)) action resource s' = Inr ())
    \<and> map_option om_status (btree_get (pl_organization_members s') (ocp_organization_member_id c))
        = Some MemberActive
    \<and> map_option om_resource_version (btree_get (pl_organization_members s') (ocp_organization_member_id c))
        = Some 1
    \<and> map_option rb_resource_version (btree_get (pl_role_bindings s') (ocp_organization_role_binding_id c))
        = Some 1"
proof -
  obtain p a claims where c: "c = oidc_login_completion_record env p a claims token now"
    and completed: "complete_oidc_login c s = (Inr (), s')"
    by (rule oidc_callback_Inr [OF run]) blast
  note written = complete_oidc_login_Inr [OF completed]
  have actor: "ses_actor (ocp_session c) =
      project_user (ocp_tenant_id c) (ocp_organization_id c) (ocp_project_id c) (ocp_user_id c)"
    by (simp add: c active_session_def)
  have "platform_ok env s'" by (rule keeps_result [OF oidc_login_callback_keeps ok run])
  moreover have "\<exists>b \<in> set (btree_values (pl_role_bindings s')).
      binding_permits s' (ses_actor (ocp_session c)) action resource b"
    if "rr_organization_id resource = Some (ocp_organization_id c)"
      "action \<in> set ORGANIZATION_ADMIN_ACTIONS" for action resource
    using btree_get_value [OF written(4)] btree_get_value [OF written(3)] that
    by (intro bexI) (auto simp: actor binding_permits_def binding_reaches_def member_is_live_def
      project_user_def intro!: exI [of _ PlatformOrganizationAdmin]
      bexI [OF _ btree_get_value [OF written(3)]])
  ultimately have "authorize_service_action env (ses_actor (ocp_session c)) action resource s' = Inr ()"
    if "request_admissible (ses_actor (ocp_session c)) action resource"
      "rr_organization_id resource = Some (ocp_organization_id c)"
      "action \<in> set ORGANIZATION_ADMIN_ACTIONS" for action resource
    using that authorize_iff by blast
  with written(3, 4) show ?thesis by simp
qed

theorem oidc_login_restores_administration_witness:
  "map_option om_status (btree_get (pl_organization_members (snd (complete_oidc_login pdemo_completion pdemo)))
     (ocp_organization_member_id pdemo_completion)) = Some MemberActive"
  using oidc_login_restores_administration [OF pdemo_ok pdemo_logged_in] by blast

end
