(* ===== verification/Platform_Render.thy ===== *)
theory Platform_Render
  imports Platform_Login
begin

text \<open>
  The JSON documents that the platform answers with (\<open>crates/starweaver-platform/src/service.rs\<close>,
  the functions named \<open>_safe_json\<close> and \<open>_public_json\<close>). A document lists its members in the order of
  the source.
\<close>

definition json_opt_int :: "int option \<Rightarrow> json" where
  "json_opt_int x = (case x of None \<Rightarrow> JNull | Some i \<Rightarrow> JInt i)"

definition json_strs :: "string list \<Rightarrow> json" where
  "json_strs vs = JArray (map JString vs)"

fun actor_kind_name :: "platform_actor_kind \<Rightarrow> string" where
  "actor_kind_name UserActor = ''user''"
| "actor_kind_name ServiceAccountActor = ''service_account''"
| "actor_kind_name SystemActor = ''system''"

fun oidc_provider_status_str :: "oidc_provider_status \<Rightarrow> string" where
  "oidc_provider_status_str ProviderActive = ''active''"
| "oidc_provider_status_str ProviderDisabled = ''disabled''"
| "oidc_provider_status_str ProviderDeleted = ''deleted''"

fun token_endpoint_auth_str :: "token_endpoint_auth \<Rightarrow> string" where
  "token_endpoint_auth_str AuthNone = ''none''"
| "token_endpoint_auth_str AuthClientSecretBasic = ''client_secret_basic''"
| "token_endpoint_auth_str AuthClientSecretPost = ''client_secret_post''"

fun secret_ref_status_str :: "secret_ref_status \<Rightarrow> string" where
  "secret_ref_status_str SecretActive = ''active''"
| "secret_ref_status_str SecretRotating = ''rotating''"
| "secret_ref_status_str SecretDisabled = ''disabled''"
| "secret_ref_status_str SecretDeleted = ''deleted''"

subsection \<open>Identity providers and secrets\<close>

definition single_user_provider_public_json :: json where
  "single_user_provider_public_json = JObject
     [(''identity_provider_id'', JString ''idp_single_user''),
      (''tenant_id'', JString SINGLE_USER_TENANT_ID),
      (''provider_kind'', JString ''single_user_password''),
      (''display_name'', JString ''Single-user password''),
      (''login_path'', JString ''/auth/v1/single-user/login''),
      (''status'', JString ''active''),
      (''provider_secret_material_included'', JBool False)]"

definition oidc_provider_public_json :: "oidc_provider \<Rightarrow> json" where
  "oidc_provider_public_json p = JObject
     [(''identity_provider_id'', JString (op_identity_provider_id p)),
      (''tenant_id'', JString (op_tenant_id p)),
      (''provider_kind'', JString ''oidc''),
      (''display_name'', JString (op_display_name p)),
      (''issuer_url'', JString (op_issuer_url p)),
      (''login_path'', JString (''/auth/v1/providers/'' @ op_identity_provider_id p @ ''/login'')),
      (''start_path'', JString (''/auth/v1/providers/'' @ op_identity_provider_id p @ ''/start'')),
      (''requested_scopes'', json_strs (op_requested_scopes p)),
      (''status'', JString (oidc_provider_status_str (op_status p))),
      (''confidential_client'', JBool (op_client_secret_ref p \<noteq> None)),
      (''provider_secret_material_included'', JBool False)]"

definition platform_mask_secret_ref_id :: "string \<Rightarrow> string" where
  "platform_mask_secret_ref_id i = (if starts_with i ''sec_'' then ''sec_***'' else ''***'')"

definition oidc_provider_safe_json :: "oidc_provider \<Rightarrow> json" where
  "oidc_provider_safe_json p = JObject
     [(''identity_provider_id'', JString (op_identity_provider_id p)),
      (''tenant_id'', JString (op_tenant_id p)),
      (''provider_kind'', JString ''oidc''),
      (''display_name'', JString (op_display_name p)),
      (''issuer_url'', JString (op_issuer_url p)),
      (''authorization_endpoint'', JString (op_authorization_endpoint p)),
      (''token_endpoint'', JString (op_token_endpoint p)),
      (''jwks_uri'', JString (op_jwks_uri p)),
      (''client_id'', JString (op_client_id p)),
      (''client_secret_ref'', json_opt_str (map_option platform_mask_secret_ref_id (op_client_secret_ref p))),
      (''client_secret_ref_configured'', JBool (op_client_secret_ref p \<noteq> None)),
      (''token_endpoint_auth_method'', JString (token_endpoint_auth_str (op_token_endpoint_auth p))),
      (''redirect_uri'', JString (op_redirect_uri p)),
      (''requested_scopes'', json_strs (op_requested_scopes p)),
      (''accepted_audiences'', json_strs (op_accepted_audiences p)),
      (''status'', JString (oidc_provider_status_str (op_status p))),
      (''raw_secret_included'', JBool False)]"

definition secret_ref_safe_json :: "secret_ref \<Rightarrow> json" where
  "secret_ref_safe_json r = JObject
     [(''secret_ref_id'', JString (sr_secret_ref_id r)),
      (''tenant_id'', JString (sr_tenant_id r)),
      (''organization_id'', json_opt_str (sr_organization_id r)),
      (''project_id'', json_opt_str (sr_project_id r)),
      (''purpose'', JString (sr_purpose r)),
      (''backend_kind'', JString (sr_backend_kind r)),
      (''backend_locator'', JString (sr_backend_locator r)),
      (''display_mask'', JString (sr_display_mask r)),
      (''fingerprint'', JString (sr_fingerprint r)),
      (''status'', JString (secret_ref_status_str (sr_status r))),
      (''raw_secret_included'', JBool False)]"

subsection \<open>The directory\<close>

definition organization_member_safe_json :: "organization_member \<Rightarrow> json" where
  "organization_member_safe_json m = JObject
     [(''kind'', JString ''organization_member''),
      (''id'', JString (om_organization_member_id m)),
      (''organization_member_id'', JString (om_organization_member_id m)),
      (''tenant_id'', JString (om_tenant_id m)),
      (''organization_id'', JString (om_organization_id m)),
      (''principal_id'', JString (om_principal_id m)),
      (''membership_kind'', JString (om_membership_kind m)),
      (''status'', JString (member_status_str (om_status m))),
      (''resource_version'', JInt (om_resource_version m))]"

definition project_member_safe_json :: "project_member \<Rightarrow> json" where
  "project_member_safe_json m = JObject
     [(''kind'', JString ''project_member''),
      (''id'', JString (pjm_project_member_id m)),
      (''project_member_id'', JString (pjm_project_member_id m)),
      (''tenant_id'', JString (pjm_tenant_id m)),
      (''organization_id'', JString (pjm_organization_id m)),
      (''project_id'', JString (pjm_project_id m)),
      (''principal_id'', JString (pjm_principal_id m)),
      (''organization_member_id'', json_opt_str (pjm_organization_member_id m)),
      (''membership_kind'', JString (pjm_membership_kind m)),
      (''status'', JString (member_status_str (pjm_status m))),
      (''resource_version'', JInt (pjm_resource_version m))]"

definition role_binding_safe_json :: "role_binding \<Rightarrow> json" where
  "role_binding_safe_json b = JObject
     [(''kind'', JString ''role_binding''),
      (''id'', JString (rb_role_binding_id b)),
      (''role_binding_id'', JString (rb_role_binding_id b)),
      (''tenant_id'', JString (rb_tenant_id b)),
      (''organization_id'', json_opt_str (rb_organization_id b)),
      (''project_id'', json_opt_str (rb_project_id b)),
      (''principal_id'', JString (rb_principal_id b)),
      (''role_id'', JString (rb_role_id b)),
      (''scope_kind'', JString (if rb_project_id b \<noteq> None then ''project''
         else if rb_organization_id b \<noteq> None then ''organization'' else ''tenant'')),
      (''scope_id'', JString (role_binding_scope_id b)),
      (''status'', JString (binding_status_str (rb_status b))),
      (''resource_version'', JInt (rb_resource_version b))]"

definition platform_user_safe_json :: "user_record \<Rightarrow> json" where
  "platform_user_safe_json u = JObject
     [(''kind'', JString ''user''),
      (''id'', JString (us_user_id u)),
      (''user_id'', JString (us_user_id u)),
      (''tenant_id'', JString (us_tenant_id u)),
      (''default_organization_id'', json_opt_str (us_default_organization_id u)),
      (''default_project_id'', json_opt_str (us_default_project_id u)),
      (''primary_email'', json_opt_str (us_primary_email u)),
      (''display_name'', JString (us_display_name u)),
      (''status'', JString (user_status_str (us_status u))),
      (''resource_version'', JInt (us_resource_version u))]"

definition organization_invitation_effective_status :: "organization_invitation \<Rightarrow> i64 \<Rightarrow> string" where
  "organization_invitation_effective_status iv now_unix =
     (if platform_invitation_accepts_at (iv_status iv) (iv_expires_at_unix iv) now_unix then ''pending''
      else if iv_status iv = InvitationPending then ''expired''
      else platform_invitation_status_str (iv_status iv))"

definition organization_invitation_safe_json :: "i64 \<Rightarrow> organization_invitation \<Rightarrow> json" where
  "organization_invitation_safe_json now_unix iv = JObject
     [(''kind'', JString ''organization_invitation''),
      (''id'', JString (iv_invitation_id iv)),
      (''invitation_id'', JString (iv_invitation_id iv)),
      (''tenant_id'', JString (iv_tenant_id iv)),
      (''organization_id'', JString (iv_organization_id iv)),
      (''project_id'', json_opt_str (iv_project_id iv)),
      (''invited_email'', json_opt_str (iv_invited_email iv)),
      (''invited_principal_id'', json_opt_str (iv_invited_principal_id iv)),
      (''role_id'', JString (iv_role_id iv)),
      (''status'', JString (platform_invitation_status_str (iv_status iv))),
      (''effective_status'', JString (organization_invitation_effective_status iv now_unix)),
      (''expires_at_unix'', JInt (iv_expires_at_unix iv)),
      (''accepted_at_unix'', json_opt_int (iv_accepted_at_unix iv)),
      (''created_by'', JString (iv_created_by iv)),
      (''resource_version'', JInt (iv_resource_version iv)),
      (''created_at_unix'', JInt (iv_created_at_unix iv)),
      (''updated_at_unix'', JInt (iv_updated_at_unix iv)),
      (''invitation_token_hash_included'', JBool False),
      (''raw_invitation_token_included'', JBool False)]"

definition organization_invitation_preview_json :: "organization_invitation \<Rightarrow> i64 \<Rightarrow> json" where
  "organization_invitation_preview_json iv now_unix = JObject
     [(''kind'', JString ''organization_invitation_preview''),
      (''id'', JString (iv_invitation_id iv)),
      (''invitation_id'', JString (iv_invitation_id iv)),
      (''tenant_id'', JString (iv_tenant_id iv)),
      (''organization_id'', JString (iv_organization_id iv)),
      (''project_id'', json_opt_str (iv_project_id iv)),
      (''invited_email'', json_opt_str (iv_invited_email iv)),
      (''role_id'', JString (iv_role_id iv)),
      (''status'', JString (organization_invitation_effective_status iv now_unix)),
      (''expires_at_unix'', JInt (iv_expires_at_unix iv)),
      (''invitation_token_hash_included'', JBool False),
      (''raw_invitation_token_included'', JBool False)]"

definition external_identity_safe_json :: "external_identity \<Rightarrow> json" where
  "external_identity_safe_json x = JObject
     [(''kind'', JString ''external_identity''),
      (''id'', JString (xi_external_identity_id x)),
      (''external_identity_id'', JString (xi_external_identity_id x)),
      (''tenant_id'', JString (xi_tenant_id x)),
      (''principal_id'', JString (xi_principal_id x)),
      (''identity_provider_id'', JString (xi_identity_provider_id x)),
      (''provider_kind'', JString (xi_provider_kind x)),
      (''provider_subject'', JString (xi_provider_subject x)),
      (''email'', json_opt_str (xi_email x)),
      (''email_verified'', JBool (xi_email_verified x)),
      (''status'', JString (external_identity_status_str (xi_status x))),
      (''raw_provider_token_included'', JBool False),
      (''access_token_included'', JBool False),
      (''refresh_token_included'', JBool False),
      (''client_secret_included'', JBool False)]"

subsection \<open>Sessions and audit events\<close>

definition actor_json :: "platform_actor \<Rightarrow> json" where
  "actor_json a = JObject
     [(''tenant_id'', JString (pa_tenant_id a)),
      (''organization_id'', json_opt_str (pa_organization_id a)),
      (''project_id'', json_opt_str (pa_project_id a)),
      (''principal_id'', JString (pa_principal_id a)),
      (''actor_kind'', JString (actor_kind_name (pa_actor_kind a)))]"

definition csrf_response_json :: "(string \<Rightarrow> string) \<Rightarrow> platform_session \<Rightarrow> json" where
  "csrf_response_json sha256 session = JObject
     [(''header'', JString PLATFORM_CSRF_TOKEN_HEADER),
      (''token'', JString (platform_csrf_token sha256 session))]"

definition auth_session_safe_json :: "platform_session \<Rightarrow> json" where
  "auth_session_safe_json session = JObject
     [(''kind'', JString ''auth_session''),
      (''id'', JString (ses_session_id session)),
      (''session_id'', JString (ses_session_id session)),
      (''status'', JString (session_status_str (ses_status session))),
      (''actor'', actor_json (ses_actor session)),
      (''session_token_hash_included'', JBool False),
      (''raw_session_token_included'', JBool False)]"

definition auth_session_response_json :: "(string \<Rightarrow> string) \<Rightarrow> platform_session \<Rightarrow> json" where
  "auth_session_response_json sha256 session = JObject
     [(''schema'', JString ''platform.auth.session.v1''),
      (''session'', auth_session_safe_json session),
      (''csrf'', csrf_response_json sha256 session),
      (''actor'', actor_json (ses_actor session)),
      (''session_token_hash_included'', JBool False),
      (''raw_session_token_included'', JBool False)]"

definition audit_event_safe_json :: "platform_audit_event \<Rightarrow> json" where
  "audit_event_safe_json e = JObject
     [(''kind'', JString ''audit_event''),
      (''id'', JString (pau_audit_event_id e)),
      (''audit_event_id'', JString (pau_audit_event_id e)),
      (''tenant_id'', JString (pau_tenant_id e)),
      (''organization_id'', json_opt_str (pau_organization_id e)),
      (''project_id'', json_opt_str (pau_project_id e)),
      (''actor_principal_id'', JString (pau_actor_principal_id e)),
      (''actor_kind'', JString (actor_kind_name (pau_actor_kind e))),
      (''action_id'', JString (pau_action_id e)),
      (''resource_kind'', JString (pau_resource_kind e)),
      (''resource_id'', JString (pau_resource_id e)),
      (''event_type'', JString (pau_event_type e)),
      (''reason'', json_opt_str (pau_reason e)),
      (''redaction'', JString (pau_redaction e)),
      (''created_at_unix'', JInt (pau_created_at_unix e))]"

end
