(* ===== verification/Platform_Reads.thy ===== *)
theory Platform_Reads
  imports Platform_Render
begin

text \<open>
  The handlers of the platform that only read (\<open>crates/starweaver-platform/src/service.rs\<close>): lists and
  single records of the directory, identity providers, secret references, the audit log with its
  filters and pages, and the public views. A handler is a function of the state. Each invitation of a
  list is rendered with its own reading of the clock, \<open>clock\<close> of its position.
\<close>

subsection \<open>Identity providers, users and sessions\<close>

definition read_gate ::
  "platform_env \<Rightarrow> headers \<Rightarrow> platform_action \<Rightarrow>
     (platform_actor \<Rightarrow> platform_state \<Rightarrow> service_error + ('r \<times> platform_resource_ref)) \<Rightarrow>
     platform_state \<Rightarrow> service_error + (platform_actor \<times> 'r)" where
  "read_gate env hs action load s =
     rbind (authenticated_actor_from_headers env hs s) (\<lambda>actor.
     rbind (load actor s) (\<lambda>(r, resource).
     rbind (authorize_service_action env actor action resource s) (\<lambda>_. Inr (actor, r))))"

definition oidc_login_providers_for_tenant :: "string \<Rightarrow> platform_state \<Rightarrow> oidc_provider list" where
  "oidc_login_providers_for_tenant tenant_id s =
     filter (\<lambda>p. op_tenant_id p = tenant_id \<and> op_status p \<noteq> ProviderDeleted)
       (btree_values (pl_oidc_providers s))"

definition list_oidc_identity_providers ::
  "platform_env \<Rightarrow> headers \<Rightarrow> platform_state \<Rightarrow> service_error + json" where
  "list_oidc_identity_providers env hs s =
     rbind (read_gate env hs IdentityProviderRead (\<lambda>actor _. Inr ((),
              tenant_resource ''IdentityProvider'' (pa_tenant_id actor) (pa_tenant_id actor))) s) (\<lambda>(actor, _).
     Inr (JObject [(''schema'', JString ''platform.admin.identity_provider.list.v1''),
       (''resources'', JArray (map oidc_provider_safe_json
          (oidc_login_providers_for_tenant (pa_tenant_id actor) s)))]))"

definition get_oidc_identity_provider ::
  "platform_env \<Rightarrow> headers \<Rightarrow> string \<Rightarrow> platform_state \<Rightarrow> service_error + json" where
  "get_oidc_identity_provider env hs i s =
     rbind (read_gate env hs IdentityProviderRead (\<lambda>actor s.
              rbind (oidc_login_provider i s) (\<lambda>p. Inr (p,
                tenant_resource ''IdentityProvider'' (op_tenant_id p) (op_identity_provider_id p)))) s) (\<lambda>(actor, p).
     Inr (JObject [(''schema'', JString ''platform.admin.identity_provider.v1''),
       (''resource'', oidc_provider_safe_json p)]))"

definition list_platform_users :: "platform_env \<Rightarrow> headers \<Rightarrow> platform_state \<Rightarrow> service_error + json" where
  "list_platform_users env hs s =
     rbind (read_gate env hs UserRead (\<lambda>actor _. Inr ((),
              tenant_resource ''User'' (pa_tenant_id actor) (pa_tenant_id actor))) s) (\<lambda>(actor, _).
     Inr (JObject [(''schema'', JString ''platform.admin.user.list.v1''),
       (''resources'', JArray (map platform_user_safe_json
          (users_for_tenant (pl_users s) (pa_tenant_id actor))))]))"

text \<open>A user of the actor's tenant, by an id that the handlers validate before anything else.\<close>

definition tenant_user :: "string \<Rightarrow> platform_actor \<Rightarrow> platform_state \<Rightarrow> service_error + user_record" where
  "tenant_user user_id actor s =
     rbind (platform_user_by_id user_id s) (\<lambda>u.
     rbind (ensure_actor_tenant actor (us_tenant_id u)) (\<lambda>_. Inr u))"

definition get_platform_user :: "platform_env \<Rightarrow> headers \<Rightarrow> string \<Rightarrow> platform_state \<Rightarrow> service_error + json" where
  "get_platform_user env hs user_id s =
     rbind (service_validate_user_id user_id) (\<lambda>_.
     rbind (read_gate env hs UserRead (\<lambda>actor s.
              rbind (tenant_user user_id actor s) (\<lambda>u. Inr (u, platform_user_resource u))) s) (\<lambda>(actor, u).
     Inr (JObject [(''schema'', JString ''platform.admin.user.v1''),
       (''resource'', platform_user_safe_json u)])))"

definition list_user_auth_sessions ::
  "platform_env \<Rightarrow> headers \<Rightarrow> string \<Rightarrow> platform_state \<Rightarrow> service_error + json" where
  "list_user_auth_sessions env hs user_id s =
     rbind (service_validate_user_id user_id) (\<lambda>_.
     rbind (read_gate env hs AuthSessionRead (\<lambda>actor s.
              rbind (tenant_user user_id actor s) (\<lambda>u. Inr (u,
                tenant_resource ''AuthSession'' (us_tenant_id u) (us_user_id u)))) s) (\<lambda>(actor, u).
     Inr (JObject [(''schema'', JString ''platform.admin.user_auth_session.list.v1''),
       (''user_id'', JString (us_user_id u)),
       (''resources'', JArray (map auth_session_safe_json
          (auth_sessions_for_principal (pl_sessions s) (us_tenant_id u) (us_user_id u))))])))"

definition list_user_external_identities ::
  "platform_env \<Rightarrow> headers \<Rightarrow> string \<Rightarrow> platform_state \<Rightarrow> service_error + json" where
  "list_user_external_identities env hs user_id s =
     rbind (service_validate_user_id user_id) (\<lambda>_.
     rbind (read_gate env hs ExternalIdentityRead (\<lambda>actor _. Inr ((),
              tenant_resource ''ExternalIdentity'' (pa_tenant_id actor) user_id)) s) (\<lambda>(actor, _).
     Inr (JObject [(''schema'', JString ''platform.admin.external_identity.list.v1''),
       (''user_id'', JString user_id),
       (''resources'', JArray (map external_identity_safe_json
          (external_identities_for_principal (pl_external_identities s) (pa_tenant_id actor) user_id)))])))"

definition external_identity_for_actor ::
  "platform_actor \<Rightarrow> string \<Rightarrow> string \<Rightarrow> platform_state \<Rightarrow> service_error + external_identity" where
  "external_identity_for_actor actor user_id i s =
     rbind (ok_or ResourceNotFound (btree_get (pl_external_identities s) i)) (\<lambda>x.
     rbind (fail_if (\<not> (xi_tenant_id x = pa_tenant_id actor \<and> xi_principal_id x = user_id))
              ResourceNotFound) (\<lambda>_. Inr x))"

definition get_user_external_identity ::
  "platform_env \<Rightarrow> headers \<Rightarrow> string \<Rightarrow> string \<Rightarrow> platform_state \<Rightarrow> service_error + json" where
  "get_user_external_identity env hs user_id i s =
     rbind (service_validate_user_id user_id) (\<lambda>_.
     rbind (read_gate env hs ExternalIdentityRead (\<lambda>actor s.
              rbind (external_identity_for_actor actor user_id i s) (\<lambda>x.
              Inr (x, external_identity_resource x))) s) (\<lambda>(actor, x).
     Inr (JObject [(''schema'', JString ''platform.admin.external_identity.v1''),
       (''resource'', external_identity_safe_json x)])))"

subsection \<open>Role bindings, members, invitations and secrets\<close>

definition role_binding_collection_resource_for_actor :: "platform_actor \<Rightarrow> platform_resource_ref" where
  "role_binding_collection_resource_for_actor actor =
     (case (pa_organization_id actor, pa_project_id actor) of
        (Some organization_id, Some project_id) \<Rightarrow>
          project_resource ''RoleBinding'' (pa_tenant_id actor) organization_id project_id project_id
      | (Some organization_id, None) \<Rightarrow>
          \<lparr>rr_kind = ''RoleBinding'', rr_tenant_id = pa_tenant_id actor,
           rr_organization_id = Some organization_id, rr_project_id = None,
           rr_resource_id = organization_id\<rparr>
      | _ \<Rightarrow> tenant_resource ''RoleBinding'' (pa_tenant_id actor) (pa_tenant_id actor))"

definition role_binding_visible_in_collection :: "role_binding \<Rightarrow> platform_resource_ref \<Rightarrow> bool" where
  "role_binding_visible_in_collection b collection \<longleftrightarrow>
     rb_tenant_id b = rr_tenant_id collection
     \<and> (case rr_project_id collection of
          Some project_id \<Rightarrow> rb_project_id b = Some project_id
        | None \<Rightarrow>
            (case rr_organization_id collection of
               Some organization_id \<Rightarrow> rb_organization_id b = Some organization_id
             | None \<Rightarrow> True))"

definition list_role_bindings :: "platform_env \<Rightarrow> headers \<Rightarrow> platform_state \<Rightarrow> service_error + json" where
  "list_role_bindings env hs s =
     rbind (read_gate env hs RoleBindingRead (\<lambda>actor _.
              Inr ((), role_binding_collection_resource_for_actor actor)) s) (\<lambda>(actor, _).
     Inr (JObject [(''schema'', JString ''platform.admin.role_binding.list.v1''),
       (''resources'', JArray (map role_binding_safe_json
          (filter (\<lambda>b. role_binding_visible_in_collection b (role_binding_collection_resource_for_actor actor))
            (role_bindings_for_tenant (pl_role_bindings s) (pa_tenant_id actor)))))]))"

definition get_role_binding :: "platform_env \<Rightarrow> headers \<Rightarrow> string \<Rightarrow> platform_state \<Rightarrow> service_error + json" where
  "get_role_binding env hs i s =
     rbind (read_gate env hs RoleBindingRead (\<lambda>actor s.
              rbind (role_binding_by_id i s) (\<lambda>b. Inr (b, role_binding_resource b))) s) (\<lambda>(actor, b).
     Inr (JObject [(''schema'', JString ''platform.admin.role_binding.v1''),
       (''resource'', role_binding_safe_json b)]))"

definition list_organization_members ::
  "platform_env \<Rightarrow> headers \<Rightarrow> string \<Rightarrow> platform_state \<Rightarrow> service_error + json" where
  "list_organization_members env hs organization_id s =
     rbind (read_gate env hs OrganizationMemberRead (\<lambda>actor _.
              rbind (organization_scope_resource actor organization_id ''OrganizationMember'') (\<lambda>resource.
              Inr ((), resource))) s) (\<lambda>(actor, _).
     Inr (JObject [(''schema'', JString ''platform.admin.organization_member.list.v1''),
       (''organization_id'', JString organization_id),
       (''resources'', JArray (map organization_member_safe_json
          (filter (\<lambda>m. om_tenant_id m = pa_tenant_id actor)
            (organization_members_for_organization (pl_organization_members s) organization_id))))]))"

definition get_organization_member ::
  "platform_env \<Rightarrow> headers \<Rightarrow> string \<Rightarrow> string \<Rightarrow> platform_state \<Rightarrow> service_error + json" where
  "get_organization_member env hs organization_id i s =
     rbind (read_gate env hs OrganizationMemberRead (\<lambda>actor s.
              rbind (organization_member_for_actor actor organization_id i s) (\<lambda>m.
              Inr (m, organization_member_resource m))) s) (\<lambda>(actor, m).
     Inr (JObject [(''schema'', JString ''platform.admin.organization_member.v1''),
       (''resource'', organization_member_safe_json m)]))"

definition list_organization_invitations ::
  "platform_env \<Rightarrow> headers \<Rightarrow> string \<Rightarrow> (nat \<Rightarrow> i64) \<Rightarrow> platform_state \<Rightarrow> service_error + json" where
  "list_organization_invitations env hs organization_id clock s =
     rbind (read_gate env hs OrganizationInvitationRead (\<lambda>actor _.
              rbind (organization_scope_resource actor organization_id ''OrganizationInvitation'') (\<lambda>resource.
              Inr ((), resource))) s) (\<lambda>(actor, _).
     Inr (JObject [(''schema'', JString ''platform.admin.organization_invitation.list.v1''),
       (''organization_id'', JString organization_id),
       (''resources'', JArray (map (\<lambda>(i, iv). organization_invitation_safe_json (clock i) iv)
          (List.enumerate 0 (organization_invitations (pl_invitations s) (pa_tenant_id actor)
             organization_id))))]))"

definition get_organization_invitation ::
  "platform_env \<Rightarrow> headers \<Rightarrow> string \<Rightarrow> string \<Rightarrow> i64 \<Rightarrow> platform_state \<Rightarrow> service_error + json" where
  "get_organization_invitation env hs organization_id i now_unix s =
     rbind (read_gate env hs OrganizationInvitationRead (\<lambda>actor s.
              rbind (organization_invitation_for_actor actor organization_id i s) (\<lambda>iv.
              Inr (iv, organization_invitation_resource iv))) s) (\<lambda>(actor, iv).
     Inr (JObject [(''schema'', JString ''platform.admin.organization_invitation.v1''),
       (''resource'', organization_invitation_safe_json now_unix iv)]))"

text \<open>The scope of a list of project members is that of the first member found, of whatever tenant.\<close>

definition project_members_resource ::
  "platform_actor \<Rightarrow> string \<Rightarrow> project_member list \<Rightarrow> service_error + platform_resource_ref" where
  "project_members_resource actor project_id members =
     (case members of
        [] \<Rightarrow> project_scope_resource actor project_id ''ProjectMember''
      | m # _ \<Rightarrow> Inr (project_resource ''ProjectMember'' (pjm_tenant_id m) (pjm_organization_id m)
                  (pjm_project_id m) (pjm_project_id m)))"

definition list_project_members ::
  "platform_env \<Rightarrow> headers \<Rightarrow> string \<Rightarrow> platform_state \<Rightarrow> service_error + json" where
  "list_project_members env hs project_id s =
     rbind (read_gate env hs ProjectMemberRead (\<lambda>actor s.
              let members = project_members_for_project (pl_project_members s) project_id in
              rbind (project_members_resource actor project_id members) (\<lambda>resource.
              Inr (members, resource))) s) (\<lambda>(actor, members).
     Inr (JObject [(''schema'', JString ''platform.admin.project_member.list.v1''),
       (''project_id'', JString project_id),
       (''resources'', JArray (map project_member_safe_json
          (filter (\<lambda>m. pjm_tenant_id m = pa_tenant_id actor) members)))]))"

definition get_project_member ::
  "platform_env \<Rightarrow> headers \<Rightarrow> string \<Rightarrow> string \<Rightarrow> platform_state \<Rightarrow> service_error + json" where
  "get_project_member env hs project_id i s =
     rbind (read_gate env hs ProjectMemberRead (\<lambda>actor s.
              rbind (project_member_for_actor actor project_id i s) (\<lambda>m.
              Inr (m, project_member_resource m))) s) (\<lambda>(actor, m).
     Inr (JObject [(''schema'', JString ''platform.admin.project_member.v1''),
       (''resource'', project_member_safe_json m)]))"

definition list_platform_secret_refs ::
  "platform_env \<Rightarrow> headers \<Rightarrow> platform_state \<Rightarrow> service_error + json" where
  "list_platform_secret_refs env hs s =
     rbind (read_gate env hs SecretRefRead (\<lambda>actor _. Inr ((),
              tenant_resource ''SecretRef'' (pa_tenant_id actor) (pa_tenant_id actor))) s) (\<lambda>(actor, _).
     Inr (JObject [(''schema'', JString ''platform.admin.secret_ref.list.v1''),
       (''resources'', JArray (map secret_ref_safe_json
          (secret_refs_for_tenant (pl_secrets s) (pa_tenant_id actor))))]))"

definition get_platform_secret_ref ::
  "platform_env \<Rightarrow> headers \<Rightarrow> string \<Rightarrow> platform_state \<Rightarrow> service_error + json" where
  "get_platform_secret_ref env hs i s =
     rbind (read_gate env hs SecretRefRead (\<lambda>actor s.
              rbind (secret_ref_by_id i s) (\<lambda>r. Inr (r,
                tenant_resource ''SecretRef'' (sr_tenant_id r) (sr_secret_ref_id r)))) s) (\<lambda>(actor, r).
     Inr (JObject [(''schema'', JString ''platform.admin.secret_ref.v1''),
       (''resource'', secret_ref_safe_json r)]))"

subsection \<open>The audit log\<close>

record audit_query =
  aq_organization_id :: "string option"
  aq_project_id :: "string option"
  aq_event_type :: "string option"
  aq_action_id :: "string option"
  aq_resource_kind :: "string option"
  aq_resource_id :: "string option"
  aq_actor_principal_id :: "string option"
  aq_limit :: "nat option"
  aq_cursor :: "string option"
  aq_strong_auth_confirmation :: "string option"

definition service_validate_principal_id :: "string \<Rightarrow> service_error + unit" where
  "service_validate_principal_id v =
     fail_if (\<not> (starts_with v ''usr_'' \<or> starts_with v ''svc_'' \<or> starts_with v ''sys_''))
       (ServiceBadRequest ''principal_id_invalid'')"

definition validate_optional_non_empty :: "string option \<Rightarrow> string \<Rightarrow> service_error + unit" where
  "validate_optional_non_empty v code =
     fail_if (is_some_and v (\<lambda>x. trim x = '''')) (ServiceBadRequest code)"

definition validate_audit_event_list_query :: "audit_query \<Rightarrow> service_error + unit" where
  "validate_audit_event_list_query q =
     rbind (case aq_organization_id q of None \<Rightarrow> Inr () | Some i \<Rightarrow> service_validate_organization_id i) (\<lambda>_.
     rbind (case aq_project_id q of
              None \<Rightarrow> Inr ()
            | Some i \<Rightarrow>
                rbind (service_validate_project_id i) (\<lambda>_.
                fail_if (aq_organization_id q = None) (ServiceBadRequest ''organization_id_required''))) (\<lambda>_.
     rbind (case aq_actor_principal_id q of None \<Rightarrow> Inr () | Some i \<Rightarrow> service_validate_principal_id i) (\<lambda>_.
     rbind (case aq_action_id q of
              None \<Rightarrow> Inr ()
            | Some i \<Rightarrow> fail_if (trim i = '''' \<or> platform_from_action_id (trim i) = None)
                          (ServiceBadRequest ''audit_action_id_invalid'')) (\<lambda>_.
     rbind (validate_optional_non_empty (aq_event_type q) ''audit_event_type_invalid'') (\<lambda>_.
     rbind (validate_optional_non_empty (aq_resource_kind q) ''audit_resource_kind_invalid'') (\<lambda>_.
     validate_optional_non_empty (aq_resource_id q) ''audit_resource_id_invalid''))))))"

definition audit_event_list_resource ::
  "platform_actor \<Rightarrow> audit_query \<Rightarrow> service_error + platform_resource_ref" where
  "audit_event_list_resource actor q =
     (case aq_project_id q of
        Some project_id \<Rightarrow>
          rbind (ok_or (ServiceBadRequest ''organization_id_required'') (aq_organization_id q)) (\<lambda>organization_id.
          rbind (service_validate_project_id project_id) (\<lambda>_.
          Inr (project_resource ''AuditEvent'' (pa_tenant_id actor) organization_id project_id project_id)))
      | None \<Rightarrow>
          (case aq_organization_id q of
             Some organization_id \<Rightarrow> organization_scope_resource actor organization_id ''AuditEvent''
           | None \<Rightarrow> Inr (tenant_resource ''AuditEvent'' (pa_tenant_id actor) (pa_tenant_id actor))))"

definition matches_optional_filter :: "string option \<Rightarrow> string option \<Rightarrow> bool" where
  "matches_optional_filter wanted v = is_none_or wanted (\<lambda>w. v = Some w)"

definition audit_event_matches_query :: "platform_audit_event \<Rightarrow> audit_query \<Rightarrow> bool" where
  "audit_event_matches_query e q \<longleftrightarrow>
     matches_optional_filter (aq_organization_id q) (pau_organization_id e)
     \<and> matches_optional_filter (aq_project_id q) (pau_project_id e)
     \<and> matches_optional_filter (aq_event_type q) (Some (pau_event_type e))
     \<and> matches_optional_filter (aq_action_id q) (Some (pau_action_id e))
     \<and> matches_optional_filter (aq_resource_kind q) (Some (pau_resource_kind e))
     \<and> matches_optional_filter (aq_resource_id q) (Some (pau_resource_id e))
     \<and> matches_optional_filter (aq_actor_principal_id q) (Some (pau_actor_principal_id e))"

definition audit_event_list_limit :: "nat option \<Rightarrow> service_error + nat" where
  "audit_event_list_limit limit =
     (let v = unwrap_or limit 50 in
      if v = 0 then Inl (ServiceBadRequest ''audit_event_limit_must_be_positive'')
      else if 200 < v then Inl (ServiceBadRequest ''audit_event_limit_exceeds_maximum'')
      else Inr v)"

text \<open>\<open>str::parse::<usize>\<close>: an optional plus sign and decimal digits, within 64 bits.\<close>

definition decimal_digit :: "char \<Rightarrow> bool" where
  "decimal_digit c \<longleftrightarrow> 48 \<le> (of_char c :: nat) \<and> (of_char c :: nat) \<le> 57"

definition parse_usize :: "string \<Rightarrow> nat option" where
  "parse_usize v =
     (let digits = (if starts_with v ''+'' then tl v else v) in
      if digits = '''' \<or> \<not> list_all decimal_digit digits \<or> (2 ^ 64 :: int) \<le> int (digits_value digits) then None
      else Some (digits_value digits))"

definition audit_event_list_offset :: "string option \<Rightarrow> service_error + nat" where
  "audit_event_list_offset cursor =
     (case cursor of
        None \<Rightarrow> Inr 0
      | Some v \<Rightarrow>
          rbind (fail_if (trim v = '''') (ServiceBadRequest ''audit_event_cursor_invalid'')) (\<lambda>_.
          ok_or (ServiceBadRequest ''audit_event_cursor_invalid'') (parse_usize v)))"

text \<open>
  The events a query asks for, newest first and by descending id among the events of a second. The
  sort is stable, which ascending sorts of the reversed list and of negated times are too.
\<close>

definition audit_events_for_query :: "platform_state \<Rightarrow> string \<Rightarrow> audit_query \<Rightarrow> platform_audit_event list" where
  "audit_events_for_query s tenant_id q =
     sort_key (\<lambda>e. - pau_created_at_unix e)
       (rev (sort_key pau_audit_event_id (rev
         (filter (\<lambda>e. audit_event_matches_query e q) (audit_events_for_tenant (pl_audits s) tenant_id)))))"

definition usize_saturating_add :: "nat \<Rightarrow> nat \<Rightarrow> nat" where
  "usize_saturating_add a b = nat (min (int a + int b) (2 ^ 64 - 1))"

record audit_page =
  ap_events :: "platform_audit_event list"
  ap_limit :: nat
  ap_next_cursor :: "string option"
  ap_total :: nat

definition audit_page_of :: "platform_audit_event list \<Rightarrow> nat \<Rightarrow> nat \<Rightarrow> audit_page" where
  "audit_page_of events limit offset =
     (let page = take limit (drop offset events);
          next_offset = usize_saturating_add offset (length page)
      in \<lparr>ap_events = page, ap_limit = limit,
          ap_next_cursor = (if next_offset < length events then Some (nat_digits next_offset) else None),
          ap_total = length events\<rparr>)"

definition audit_event_page ::
  "platform_env \<Rightarrow> headers \<Rightarrow> audit_query \<Rightarrow> platform_state \<Rightarrow> service_error + audit_page" where
  "audit_event_page env hs q s =
     rbind (authenticated_actor_from_headers env hs s) (\<lambda>actor.
     rbind (require_strong_auth_confirmation (aq_strong_auth_confirmation q)) (\<lambda>_.
     rbind (validate_audit_event_list_query q) (\<lambda>_.
     rbind (audit_event_list_resource actor q) (\<lambda>resource.
     rbind (authorize_service_action env actor AuditEventRead resource s) (\<lambda>_.
     rbind (audit_event_list_limit (aq_limit q)) (\<lambda>limit.
     rbind (audit_event_list_offset (aq_cursor q)) (\<lambda>offset.
     Inr (audit_page_of (audit_events_for_query s (pa_tenant_id actor) q) limit offset))))))))"

definition list_platform_audit_events ::
  "platform_env \<Rightarrow> headers \<Rightarrow> audit_query \<Rightarrow> platform_state \<Rightarrow> service_error + json" where
  "list_platform_audit_events env hs q s =
     rbind (audit_event_page env hs q s) (\<lambda>page.
     Inr (JObject [(''schema'', JString ''platform.admin.audit_event.list.v1''),
       (''resources'', JArray (map audit_event_safe_json (ap_events page))),
       (''limit'', JInt (int (ap_limit page))),
       (''cursor'', json_opt_str (aq_cursor q)),
       (''next_cursor'', json_opt_str (ap_next_cursor page)),
       (''total_filtered_count'', JInt (int (ap_total page))),
       (''strong_auth_confirmed'', JBool True)]))"

subsection \<open>Views without an action\<close>

definition list_auth_providers ::
  "platform_env \<Rightarrow> string option \<Rightarrow> platform_state \<Rightarrow> service_error + json" where
  "list_auth_providers env requested s =
     (let tenant_id = normalized_optional_string requested in
     rbind (case tenant_id of None \<Rightarrow> Inr () | Some t \<Rightarrow> service_validate_tenant_id t) (\<lambda>_.
     let single = (if pe_single_user env \<noteq> None \<and> is_none_or tenant_id (\<lambda>t. t = SINGLE_USER_TENANT_ID)
                   then [single_user_provider_public_json] else []);
         oidc = (case tenant_id of
                   None \<Rightarrow> []
                 | Some t \<Rightarrow> map oidc_provider_public_json
                     (filter (\<lambda>p. op_status p = ProviderActive) (oidc_login_providers_for_tenant t s))) in
     Inr (JObject [(''schema'', JString ''platform.auth.providers.v1''),
       (''tenant_id'', json_opt_str tenant_id), (''providers'', JArray (single @ oidc))])))"

definition preview_auth_invitation ::
  "platform_env \<Rightarrow> string \<Rightarrow> i64 \<Rightarrow> platform_state \<Rightarrow> service_error + json" where
  "preview_auth_invitation env invitation_token now_unix s =
     rbind (organization_invitation_by_raw_token env invitation_token s) (\<lambda>iv.
     Inr (JObject [(''schema'', JString ''platform.auth.invitation_preview.v1''),
       (''resource'', organization_invitation_preview_json iv now_unix)]))"

definition get_current_auth_session :: "platform_env \<Rightarrow> headers \<Rightarrow> platform_state \<Rightarrow> service_error + json" where
  "get_current_auth_session env hs s =
     rbind (auth_session_from_headers env hs s) (\<lambda>(raw, session).
     rbind (ensure_user_auth_session session) (\<lambda>_.
     Inr (auth_session_response_json (pe_sha256 env) session)))"

end
