(* ===== verification/Platform_Route.thy ===== *)
theory Platform_Route
  imports Platform_Reads
begin

text \<open>
  The route table of the platform (\<open>crates/starweaver-platform/src/route.rs\<close>), the matching of a
  request path against its patterns, and the handler of the requests that no other handler takes
  (\<open>service.rs\<close>, \<open>dispatch_foundation_request\<close>), which authorizes and answers with the business resource.
\<close>

subsection \<open>The table\<close>

datatype platform_http_method = HttpDelete | HttpGet | HttpPost

fun http_method_str :: "platform_http_method \<Rightarrow> string" where
  "http_method_str HttpDelete = ''DELETE''"
| "http_method_str HttpGet = ''GET''"
| "http_method_str HttpPost = ''POST''"

datatype route_access = AccessPublic | AccessSession | AccessAuthorized

fun route_access_str :: "route_access \<Rightarrow> string" where
  "route_access_str AccessPublic = ''public''"
| "route_access_str AccessSession = ''session''"
| "route_access_str AccessAuthorized = ''authorized''"

record platform_route =
  prt_method :: platform_http_method
  prt_path_pattern :: string
  prt_action :: platform_action
  prt_resource_kind :: string
  prt_resource_id_path_param :: "string option"
  prt_scope_path_params :: "string list"
  prt_access :: route_access
  prt_user_actor_required :: bool

definition with_access ::
  "platform_http_method \<Rightarrow> string \<Rightarrow> platform_action \<Rightarrow> string option \<Rightarrow> string list \<Rightarrow> route_access \<Rightarrow>
     platform_route" where
  "with_access m path_pattern action resource_id_path_param scope_path_params access =
     \<lparr>prt_method = m, prt_path_pattern = path_pattern, prt_action = action,
      prt_resource_kind = platform_resource_kind action,
      prt_resource_id_path_param = resource_id_path_param,
      prt_scope_path_params = scope_path_params, prt_access = access,
      prt_user_actor_required = requires_user_actor action\<rparr>"

definition new_route ::
  "platform_http_method \<Rightarrow> string \<Rightarrow> platform_action \<Rightarrow> string option \<Rightarrow> string list \<Rightarrow> platform_route" where
  "new_route m path_pattern action resource_id_path_param scope_path_params =
     \<lparr>prt_method = m, prt_path_pattern = path_pattern, prt_action = action,
      prt_resource_kind = platform_resource_kind action,
      prt_resource_id_path_param = resource_id_path_param,
      prt_scope_path_params = scope_path_params, prt_access = AccessAuthorized,
      prt_user_actor_required = requires_user_actor action\<rparr>"

definition PLATFORM_ROUTES_1 :: "platform_route list" where
  "PLATFORM_ROUTES_1 =
     [new_route HttpPost ''/v1/conversations''
        ConversationCreate None [],
      new_route HttpGet ''/v1/conversations/{conversation_id}''
        ConversationRead (Some ''conversation_id'') [''conversation_id''],
      new_route HttpGet ''/v1/conversations/{conversation_id}/sessions''
        SessionRead (Some ''conversation_id'') [''conversation_id''],
      new_route HttpPost ''/v1/runs''
        RunCreate None [],
      new_route HttpGet ''/v1/runs/{run_id}''
        RunRead (Some ''run_id'') [''run_id''],
      new_route HttpPost ''/v1/runs/{run_id}:cancel''
        RunCancel (Some ''run_id'') [''run_id''],
      new_route HttpPost ''/v1/runs/{run_id}:steer''
        RunSteer (Some ''run_id'') [''run_id''],
      new_route HttpGet ''/v1/runs/{run_id}/events''
        RunEventRead (Some ''run_id'') [''run_id''],
      new_route HttpPost ''/v1/approvals/{approval_id}:decide''
        ApprovalDecide (Some ''approval_id'') [''approval_id''],
      new_route HttpGet ''/v1/deferred-tools''
        DeferredToolRead None [],
      new_route HttpPost ''/v1/deferred-tools/{deferred_tool_id}:resume''
        DeferredToolResume (Some ''deferred_tool_id'') [''deferred_tool_id''],
      new_route HttpPost ''/v1/environment-attachments''
        EnvironmentAttachmentCreate None [],
      new_route HttpGet ''/v1/environment-attachments''
        EnvironmentAttachmentRead None [],
      new_route HttpGet ''/v1/environment-attachments/{attachment_lease_id}/health''
        EnvironmentAttachmentHealthRead (Some ''attachment_lease_id'') [''attachment_lease_id''],
      new_route HttpDelete ''/v1/environment-attachments/{attachment_lease_id}''
        EnvironmentAttachmentRelease (Some ''attachment_lease_id'') [''attachment_lease_id''],
      new_route HttpGet ''/v1/evidence-archives/{evidence_archive_id}''
        EvidenceArchiveRead (Some ''evidence_archive_id'') [''evidence_archive_id''],
      new_route HttpGet ''/v1/evidence-archives/{evidence_archive_id}/debug''
        EvidenceArchiveDebugRead (Some ''evidence_archive_id'') [''evidence_archive_id''],
      new_route HttpPost ''/admin/v1/identity-providers''
        IdentityProviderWrite None [],
      new_route HttpGet ''/admin/v1/identity-providers''
        IdentityProviderRead None [],
      new_route HttpGet ''/admin/v1/identity-providers/{identity_provider_id}''
        IdentityProviderRead (Some ''identity_provider_id'') [''identity_provider_id''],
      new_route HttpGet ''/admin/v1/users''
        UserRead None []]"

definition PLATFORM_ROUTES_2 :: "platform_route list" where
  "PLATFORM_ROUTES_2 =
     [new_route HttpGet ''/admin/v1/users/{user_id}''
        UserRead (Some ''user_id'') [''user_id''],
      new_route HttpPost ''/admin/v1/users/{user_id}/status''
        UserWrite (Some ''user_id'') [''user_id''],
      new_route HttpGet ''/admin/v1/users/{user_id}/sessions''
        AuthSessionRead None [''user_id''],
      new_route HttpPost ''/admin/v1/users/{user_id}/sessions/{auth_session_id}/revoke''
        AuthSessionRevoke (Some ''auth_session_id'') [''user_id'', ''auth_session_id''],
      new_route HttpGet ''/admin/v1/users/{user_id}/external-identities''
        ExternalIdentityRead None [''user_id''],
      new_route HttpGet ''/admin/v1/users/{user_id}/external-identities/{external_identity_id}''
        ExternalIdentityRead (Some ''external_identity_id'') [''user_id'', ''external_identity_id''],
      new_route HttpPost ''/admin/v1/users/{user_id}/external-identities/{external_identity_id}/unlink''
        ExternalIdentityUnlink (Some ''external_identity_id'') [''user_id'', ''external_identity_id''],
      new_route HttpGet ''/admin/v1/role-bindings''
        RoleBindingRead None [],
      new_route HttpPost ''/admin/v1/role-bindings''
        RoleBindingWrite None [],
      new_route HttpGet ''/admin/v1/role-bindings/{role_binding_id}''
        RoleBindingRead (Some ''role_binding_id'') [''role_binding_id''],
      new_route HttpPost ''/admin/v1/role-bindings/{role_binding_id}/status''
        RoleBindingWrite (Some ''role_binding_id'') [''role_binding_id''],
      new_route HttpGet ''/admin/v1/audit-events''
        AuditEventRead None [],
      new_route HttpGet ''/admin/v1/organizations/{organization_id}/members''
        OrganizationMemberRead None [''organization_id''],
      new_route HttpPost ''/admin/v1/organizations/{organization_id}/members''
        OrganizationMemberWrite None [''organization_id''],
      new_route HttpGet ''/admin/v1/organizations/{organization_id}/members/{organization_member_id}''
        OrganizationMemberRead (Some ''organization_member_id'') [''organization_id'', ''organization_member_id''],
      new_route HttpPost ''/admin/v1/organizations/{organization_id}/members/{organization_member_id}/status''
        OrganizationMemberWrite (Some ''organization_member_id'') [''organization_id'', ''organization_member_id''],
      new_route HttpPost ''/admin/v1/organizations/{organization_id}/members/{organization_member_id}/remove''
        OrganizationMemberWrite (Some ''organization_member_id'') [''organization_id'', ''organization_member_id''],
      new_route HttpGet ''/admin/v1/organizations/{organization_id}/invitations''
        OrganizationInvitationRead None [''organization_id''],
      new_route HttpPost ''/admin/v1/organizations/{organization_id}/invitations''
        OrganizationInvitationCreate None [''organization_id''],
      new_route HttpGet ''/admin/v1/organizations/{organization_id}/invitations/{invitation_id}''
        OrganizationInvitationRead (Some ''invitation_id'') [''organization_id'', ''invitation_id''],
      new_route HttpPost ''/admin/v1/organizations/{organization_id}/invitations/{invitation_id}/revoke''
        OrganizationInvitationManage (Some ''invitation_id'') [''organization_id'', ''invitation_id'']]"

definition PLATFORM_ROUTES_3 :: "platform_route list" where
  "PLATFORM_ROUTES_3 =
     [new_route HttpGet ''/admin/v1/projects/{project_id}/members''
        ProjectMemberRead None [''project_id''],
      new_route HttpPost ''/admin/v1/projects/{project_id}/members''
        ProjectMemberWrite None [''project_id''],
      new_route HttpGet ''/admin/v1/projects/{project_id}/members/{project_member_id}''
        ProjectMemberRead (Some ''project_member_id'') [''project_id'', ''project_member_id''],
      new_route HttpPost ''/admin/v1/projects/{project_id}/members/{project_member_id}/status''
        ProjectMemberWrite (Some ''project_member_id'') [''project_id'', ''project_member_id''],
      new_route HttpPost ''/admin/v1/secret-refs''
        SecretRefWrite None [],
      new_route HttpGet ''/admin/v1/secret-refs''
        SecretRefRead None [],
      new_route HttpGet ''/admin/v1/secret-refs/{secret_ref_id}''
        SecretRefRead (Some ''secret_ref_id'') [''secret_ref_id''],
      with_access HttpGet ''/auth/v1/providers''
        IdentityProviderRead None [] AccessPublic,
      with_access HttpPost ''/auth/v1/providers/{identity_provider_id}/start''
        IdentityProviderRead None [''identity_provider_id''] AccessPublic,
      with_access HttpGet ''/auth/v1/providers/{identity_provider_id}/login''
        IdentityProviderRead None [''identity_provider_id''] AccessPublic,
      with_access HttpPost ''/auth/v1/providers/{identity_provider_id}/callback''
        AuthSessionCreate None [''identity_provider_id''] AccessPublic,
      with_access HttpPost ''/auth/v1/single-user/login''
        AuthSessionCreate None [] AccessPublic,
      with_access HttpGet ''/auth/v1/invitations/{invitation_token}/preview''
        OrganizationInvitationRead (Some ''invitation_token'') [''invitation_token''] AccessPublic,
      with_access HttpPost ''/auth/v1/invitations/{invitation_token}/accept''
        OrganizationInvitationAccept (Some ''invitation_token'') [''invitation_token''] AccessSession,
      with_access HttpGet ''/auth/v1/session''
        AuthSessionRead None [] AccessSession,
      with_access HttpPost ''/auth/v1/session/active-organization''
        AuthSessionUpdate None [] AccessSession,
      with_access HttpPost ''/auth/v1/session/active-project''
        AuthSessionUpdate None [] AccessSession,
      with_access HttpPost ''/auth/v1/logout''
        AuthSessionRevoke None [] AccessSession]"

definition platform_foundation_routes :: "platform_route list" where
  "platform_foundation_routes = PLATFORM_ROUTES_1 @ PLATFORM_ROUTES_2 @ PLATFORM_ROUTES_3"

definition platform_route_metadata :: "platform_http_method \<Rightarrow> string \<Rightarrow> platform_route option" where
  "platform_route_metadata m path_pattern =
     find (\<lambda>r. prt_method r = m \<and> prt_path_pattern r = path_pattern) platform_foundation_routes"

subsection \<open>Matching\<close>

text \<open>\<open>str::split\<close> at a character: one piece more than there are separators.\<close>

fun split_at :: "char \<Rightarrow> string \<Rightarrow> string list" where
  "split_at c [] = [[]]"
| "split_at c (x # xs) =
     (if x = c then [] # split_at c xs
      else (case split_at c xs of [] \<Rightarrow> [[x]] | p # ps \<Rightarrow> (x # p) # ps))"

definition trim_matches :: "char \<Rightarrow> string \<Rightarrow> string" where
  "trim_matches c s = rev (dropWhile (\<lambda>x. x = c) (rev (dropWhile (\<lambda>x. x = c) s)))"

definition path_segments :: "string \<Rightarrow> string list" where
  "path_segments path = filter (\<lambda>p. p \<noteq> []) (split_at CHR ''/'' (trim_matches CHR ''/'' path))"

definition match_segment :: "string \<Rightarrow> string \<Rightarrow> string btree \<Rightarrow> string btree option" where
  "match_segment pattern_segment path_segment params =
     (case position (\<lambda>c. c = CHR ''{'') pattern_segment of
        None \<Rightarrow> if pattern_segment = path_segment then Some params else None
      | Some open_at \<Rightarrow>
          (case position (\<lambda>c. c = CHR ''}'') (drop (open_at + 1) pattern_segment) of
             None \<Rightarrow> None
           | Some width \<Rightarrow>
               (let close_at = width + open_at + 1;
                    prefix = take open_at pattern_segment;
                    name = take width (drop (open_at + 1) pattern_segment);
                    suffix = drop (close_at + 1) pattern_segment in
                if name = [] \<or> \<not> starts_with path_segment prefix \<or> \<not> ends_with path_segment suffix
                   \<or> length path_segment < length prefix + length suffix then None
                else let v = drop (length prefix) (take (length path_segment - length suffix) path_segment) in
                  if v = [] then None else Some (btree_insert name v params))))"

fun match_segments :: "(string \<times> string) list \<Rightarrow> string btree \<Rightarrow> string btree option" where
  "match_segments [] params = Some params"
| "match_segments ((p, v) # rest) params = Option.bind (match_segment p v params) (match_segments rest)"

definition match_path_pattern :: "string \<Rightarrow> string \<Rightarrow> string btree option" where
  "match_path_pattern path_pattern path =
     (let ps = path_segments path_pattern; vs = path_segments path in
      if length ps \<noteq> length vs then None else match_segments (zip ps vs) [])"

definition platform_method :: "string \<Rightarrow> platform_http_method option" where
  "platform_method m =
     (if m = ''DELETE'' then Some HttpDelete
      else if m = ''GET'' then Some HttpGet
      else if m = ''POST'' then Some HttpPost else None)"

fun find_map :: "('a \<Rightarrow> 'b option) \<Rightarrow> 'a list \<Rightarrow> 'b option" where
  "find_map f [] = None"
| "find_map f (x # xs) = (case f x of None \<Rightarrow> find_map f xs | Some y \<Rightarrow> Some y)"

record matched_route =
  mr_route :: platform_route
  mr_params :: "string btree"

definition match_route :: "string \<Rightarrow> string \<Rightarrow> matched_route option" where
  "match_route m path =
     Option.bind (platform_method m) (\<lambda>pm.
       find_map (\<lambda>r. map_option (\<lambda>params. \<lparr>mr_route = r, mr_params = params\<rparr>)
           (match_path_pattern (prt_path_pattern r) path))
         (filter (\<lambda>r. prt_method r = pm) platform_foundation_routes))"

subsection \<open>The foundation handler\<close>

definition scope_resource :: "platform_actor \<Rightarrow> string \<Rightarrow> platform_resource_ref" where
  "scope_resource actor kind =
     (case (pa_organization_id actor, pa_project_id actor) of
        (Some organization_id, Some project_id) \<Rightarrow>
          project_resource kind (pa_tenant_id actor) organization_id project_id ''scope''
      | _ \<Rightarrow> tenant_resource kind (pa_tenant_id actor) (pa_tenant_id actor))"

definition authorization_resource ::
  "platform_actor \<Rightarrow> matched_route \<Rightarrow> platform_state \<Rightarrow> service_error + platform_resource_ref" where
  "authorization_resource actor matched s =
     (case prt_resource_id_path_param (mr_route matched) of
        None \<Rightarrow> Inr (scope_resource actor (prt_resource_kind (mr_route matched)))
      | Some param \<Rightarrow>
          rbind (ok_or (ServiceBadRequest ''resource_id_param_missing'')
                   (btree_get (mr_params matched) param)) (\<lambda>resource_id.
          ok_or ResourceNotFound (map_option owner_to_resource_ref
            (find_resource_owner (pl_owners s) (prt_resource_kind (mr_route matched)) resource_id))))"

definition business_resource ::
  "matched_route \<Rightarrow> platform_state \<Rightarrow> service_error + platform_resource option" where
  "business_resource matched s =
     (case prt_resource_id_path_param (mr_route matched) of
        None \<Rightarrow> Inr None
      | Some param \<Rightarrow>
          rbind (ok_or (ServiceBadRequest ''resource_id_param_missing'')
                   (btree_get (mr_params matched) param)) (\<lambda>resource_id.
          ok_or ResourceNotFound (map_option Some
            (find_platform_resource (pl_resources s) (prt_resource_kind (mr_route matched)) resource_id))))"

definition resource_ref_json :: "platform_resource_ref \<Rightarrow> json" where
  "resource_ref_json r = JObject
     [(''kind'', JString (rr_kind r)), (''tenant_id'', JString (rr_tenant_id r)),
      (''organization_id'', json_opt_str (rr_organization_id r)),
      (''project_id'', json_opt_str (rr_project_id r)),
      (''resource_id'', JString (rr_resource_id r))]"

definition authorized_response ::
  "platform_actor \<Rightarrow> platform_resource_ref \<Rightarrow> matched_route \<Rightarrow> platform_resource option \<Rightarrow> json" where
  "authorized_response actor resource matched business =
     (let r = mr_route matched in JObject
        [(''schema'', JString ''platform.http.authorization.v1''),
         (''authorized'', JBool True),
         (''route'', JObject
            [(''method'', JString (http_method_str (prt_method r))),
             (''path_pattern'', JString (prt_path_pattern r)),
             (''action'', JString (platform_action_str (prt_action r))),
             (''resource_kind'', JString (prt_resource_kind r)),
             (''resource_id_path_param'', json_opt_str (prt_resource_id_path_param r)),
             (''access'', JString (route_access_str (prt_access r))),
             (''user_actor_required'', JBool (prt_user_actor_required r))]),
         (''actor'', actor_json actor),
         (''resource'', resource_ref_json resource),
         (''business_resource'', (case business of None \<Rightarrow> JNull | Some b \<Rightarrow> platform_resource_safe_json b))])"

definition handle_foundation_request ::
  "platform_env \<Rightarrow> headers \<Rightarrow> string \<Rightarrow> string \<Rightarrow> platform_state \<Rightarrow> service_error + json" where
  "handle_foundation_request env hs m path s =
     rbind (ok_or RouteNotFound (match_route m path)) (\<lambda>matched.
     rbind (authenticated_actor_from_headers env hs s) (\<lambda>actor.
     rbind (authorization_resource actor matched s) (\<lambda>resource.
     rbind (authorize_service_action env actor (prt_action (mr_route matched)) resource s) (\<lambda>_.
     rbind (business_resource matched s) (\<lambda>business.
     Inr (authorized_response actor resource matched business))))))"

end
