(* ===== verification/Platform_Http.thy ===== *)
theory Platform_Http
  imports Platform_Route
begin

text \<open>
  The router of the platform (\<open>crates/starweaver-platform/src/service.rs\<close>, \<open>router\<close>): which handler
  serves which method and path. A call is a request whose path parameters and body the web framework
  has extracted; a request that no other route takes goes to the foundation handler. Serving a call
  gives an error or nothing, and the state; the body of the answer is left to the handlers' own
  theorems.
\<close>

subsection \<open>Calls\<close>

datatype admin_read =
    ListProviders | GetProvider string | ListUsers | GetUser string | ListUserSessions string
  | ListUserIdentities string | GetUserIdentity string string | ListRoleBindings
  | GetRoleBinding string | ListAuditEvents audit_query | ListOrganizationMembers string
  | GetOrganizationMember string string | ListInvitations string | GetInvitation string string
  | ListProjectMembers string | GetProjectMember string string | ListSecretRefs
  | GetSecretRef string

datatype platform_admin_call =
    ReadCall admin_read | CreateProvider create_provider_request
  | UpdateUserStatus string user_status_request
  | RevokeUserSession string string strong_auth_request
  | UnlinkUserIdentity string string strong_auth_request
  | CreateRoleBinding create_role_binding_request
  | UpdateRoleBindingStatus string version_status_request
  | CreateOrganizationMember string create_organization_member_request
  | UpdateOrganizationMemberStatus string string version_status_request
  | RemoveOrganizationMember string string remove_member_request
  | CreateInvitation string create_invitation_request
  | RevokeInvitation string string remove_member_request
  | CreateProjectMember string create_project_member_request
  | UpdateProjectMemberStatus string string version_status_request
  | CreateSecretRef secret_ref_http_request

datatype auth_call =
    ListAuthProviders "string option" | StartOidcLogin string "string option"
  | LoginOidcProvider string "string option" | OidcCallback string oidc_callback_request
  | PreviewInvitation string | AcceptInvitation string
  | CurrentSession | ActiveOrganization string | ActiveProject string | Logout
  | SingleUserLogin json

datatype platform_call = AdminCall platform_admin_call | AuthCall auth_call | FoundationCall string string

text \<open>The readings of the clock and the random bytes of a call.\<close>

record call_inputs =
  ci_now :: i64
  ci_clock :: "nat \<Rightarrow> i64"
  ci_bytes :: string
  ci_more_bytes :: string
  ci_secret :: string
  ci_secrets :: "string \<times> string \<times> string"

fun admin_read_route :: "admin_read \<Rightarrow> platform_http_method \<times> string" where
  "admin_read_route ListProviders = (HttpGet, ''/admin/v1/identity-providers'')"
| "admin_read_route (GetProvider _) = (HttpGet, ''/admin/v1/identity-providers/{identity_provider_id}'')"
| "admin_read_route ListUsers = (HttpGet, ''/admin/v1/users'')"
| "admin_read_route (GetUser _) = (HttpGet, ''/admin/v1/users/{user_id}'')"
| "admin_read_route (ListUserSessions _) = (HttpGet, ''/admin/v1/users/{user_id}/sessions'')"
| "admin_read_route (ListUserIdentities _) = (HttpGet, ''/admin/v1/users/{user_id}/external-identities'')"
| "admin_read_route (GetUserIdentity _ _) =
     (HttpGet, ''/admin/v1/users/{user_id}/external-identities/{external_identity_id}'')"
| "admin_read_route ListRoleBindings = (HttpGet, ''/admin/v1/role-bindings'')"
| "admin_read_route (GetRoleBinding _) = (HttpGet, ''/admin/v1/role-bindings/{role_binding_id}'')"
| "admin_read_route (ListAuditEvents _) = (HttpGet, ''/admin/v1/audit-events'')"
| "admin_read_route (ListOrganizationMembers _) =
     (HttpGet, ''/admin/v1/organizations/{organization_id}/members'')"
| "admin_read_route (GetOrganizationMember _ _) =
     (HttpGet, ''/admin/v1/organizations/{organization_id}/members/{organization_member_id}'')"
| "admin_read_route (ListInvitations _) = (HttpGet, ''/admin/v1/organizations/{organization_id}/invitations'')"
| "admin_read_route (GetInvitation _ _) =
     (HttpGet, ''/admin/v1/organizations/{organization_id}/invitations/{invitation_id}'')"
| "admin_read_route (ListProjectMembers _) = (HttpGet, ''/admin/v1/projects/{project_id}/members'')"
| "admin_read_route (GetProjectMember _ _) =
     (HttpGet, ''/admin/v1/projects/{project_id}/members/{project_member_id}'')"
| "admin_read_route ListSecretRefs = (HttpGet, ''/admin/v1/secret-refs'')"
| "admin_read_route (GetSecretRef _) = (HttpGet, ''/admin/v1/secret-refs/{secret_ref_id}'')"

fun admin_route :: "platform_admin_call \<Rightarrow> platform_http_method \<times> string" where
  "admin_route (ReadCall r) = admin_read_route r"
| "admin_route (CreateProvider _) = (HttpPost, ''/admin/v1/identity-providers'')"
| "admin_route (UpdateUserStatus _ _) = (HttpPost, ''/admin/v1/users/{user_id}/status'')"
| "admin_route (RevokeUserSession _ _ _) =
     (HttpPost, ''/admin/v1/users/{user_id}/sessions/{auth_session_id}/revoke'')"
| "admin_route (UnlinkUserIdentity _ _ _) =
     (HttpPost, ''/admin/v1/users/{user_id}/external-identities/{external_identity_id}/unlink'')"
| "admin_route (CreateRoleBinding _) = (HttpPost, ''/admin/v1/role-bindings'')"
| "admin_route (UpdateRoleBindingStatus _ _) = (HttpPost, ''/admin/v1/role-bindings/{role_binding_id}/status'')"
| "admin_route (CreateOrganizationMember _ _) =
     (HttpPost, ''/admin/v1/organizations/{organization_id}/members'')"
| "admin_route (UpdateOrganizationMemberStatus _ _ _) =
     (HttpPost, ''/admin/v1/organizations/{organization_id}/members/{organization_member_id}/status'')"
| "admin_route (RemoveOrganizationMember _ _ _) =
     (HttpPost, ''/admin/v1/organizations/{organization_id}/members/{organization_member_id}/remove'')"
| "admin_route (CreateInvitation _ _) = (HttpPost, ''/admin/v1/organizations/{organization_id}/invitations'')"
| "admin_route (RevokeInvitation _ _ _) =
     (HttpPost, ''/admin/v1/organizations/{organization_id}/invitations/{invitation_id}/revoke'')"
| "admin_route (CreateProjectMember _ _) = (HttpPost, ''/admin/v1/projects/{project_id}/members'')"
| "admin_route (UpdateProjectMemberStatus _ _ _) =
     (HttpPost, ''/admin/v1/projects/{project_id}/members/{project_member_id}/status'')"
| "admin_route (CreateSecretRef _) = (HttpPost, ''/admin/v1/secret-refs'')"

fun auth_route :: "auth_call \<Rightarrow> platform_http_method \<times> string" where
  "auth_route (ListAuthProviders _) = (HttpGet, ''/auth/v1/providers'')"
| "auth_route (StartOidcLogin _ _) = (HttpPost, ''/auth/v1/providers/{identity_provider_id}/start'')"
| "auth_route (LoginOidcProvider _ _) = (HttpGet, ''/auth/v1/providers/{identity_provider_id}/login'')"
| "auth_route (OidcCallback _ _) = (HttpPost, ''/auth/v1/providers/{identity_provider_id}/callback'')"
| "auth_route (PreviewInvitation _) = (HttpGet, ''/auth/v1/invitations/{invitation_token}/preview'')"
| "auth_route (AcceptInvitation _) = (HttpPost, ''/auth/v1/invitations/{invitation_token}/accept'')"
| "auth_route CurrentSession = (HttpGet, ''/auth/v1/session'')"
| "auth_route (ActiveOrganization _) = (HttpPost, ''/auth/v1/session/active-organization'')"
| "auth_route (ActiveProject _) = (HttpPost, ''/auth/v1/session/active-project'')"
| "auth_route Logout = (HttpPost, ''/auth/v1/logout'')"
| "auth_route (SingleUserLogin _) = (HttpPost, ''/auth/v1/single-user/login'')"

subsection \<open>Serving\<close>

text \<open>The effect of a handler that changes state, and of one that reads.\<close>

definition effect :: "'a platform_op \<Rightarrow> unit platform_op" where
  "effect m = pbind m (\<lambda>_. preturn ())"

definition answer :: "(platform_state \<Rightarrow> service_error + 'a) \<Rightarrow> unit platform_op" where
  "answer f = effect (pread f)"

definition start_oidc_login ::
  "platform_env \<Rightarrow> string \<Rightarrow> string option \<Rightarrow> i64 \<Rightarrow> string \<Rightarrow> string \<times> string \<times> string \<Rightarrow>
     (oidc_attempt \<times> string) platform_op" where
  "start_oidc_login env identity_provider_id tenant_id = start_oidc_login_for_provider env identity_provider_id tenant_id"

definition login_oidc_provider ::
  "platform_env \<Rightarrow> string \<Rightarrow> string option \<Rightarrow> i64 \<Rightarrow> string \<Rightarrow> string \<times> string \<times> string \<Rightarrow>
     (oidc_attempt \<times> string) platform_op" where
  "login_oidc_provider env identity_provider_id tenant_id = start_oidc_login_for_provider env identity_provider_id tenant_id"

fun admin_answer :: "platform_env \<Rightarrow> headers \<Rightarrow> call_inputs \<Rightarrow> admin_read \<Rightarrow> platform_state \<Rightarrow> service_error + json" where
  "admin_answer env hs io ListProviders = list_oidc_identity_providers env hs"
| "admin_answer env hs io (GetProvider i) = get_oidc_identity_provider env hs i"
| "admin_answer env hs io ListUsers = list_platform_users env hs"
| "admin_answer env hs io (GetUser u) = get_platform_user env hs u"
| "admin_answer env hs io (ListUserSessions u) = list_user_auth_sessions env hs u"
| "admin_answer env hs io (ListUserIdentities u) = list_user_external_identities env hs u"
| "admin_answer env hs io (GetUserIdentity u i) = get_user_external_identity env hs u i"
| "admin_answer env hs io ListRoleBindings = list_role_bindings env hs"
| "admin_answer env hs io (GetRoleBinding i) = get_role_binding env hs i"
| "admin_answer env hs io (ListAuditEvents q) = list_platform_audit_events env hs q"
| "admin_answer env hs io (ListOrganizationMembers organization_id) = list_organization_members env hs organization_id"
| "admin_answer env hs io (GetOrganizationMember organization_id i) = get_organization_member env hs organization_id i"
| "admin_answer env hs io (ListInvitations organization_id) = list_organization_invitations env hs organization_id (ci_clock io)"
| "admin_answer env hs io (GetInvitation organization_id i) = get_organization_invitation env hs organization_id i (ci_now io)"
| "admin_answer env hs io (ListProjectMembers project_id) = list_project_members env hs project_id"
| "admin_answer env hs io (GetProjectMember project_id i) = get_project_member env hs project_id i"
| "admin_answer env hs io ListSecretRefs = list_platform_secret_refs env hs"
| "admin_answer env hs io (GetSecretRef i) = get_platform_secret_ref env hs i"

fun serve_admin :: "platform_env \<Rightarrow> headers \<Rightarrow> call_inputs \<Rightarrow> platform_admin_call \<Rightarrow> unit platform_op" where
  "serve_admin env hs io (ReadCall r) = answer (admin_answer env hs io r)"
| "serve_admin env hs io (CreateProvider request) =
     effect (create_oidc_identity_provider env hs request (ci_bytes io))"
| "serve_admin env hs io (UpdateUserStatus u request) =
     effect (update_platform_user_status env hs u request (ci_bytes io) (ci_now io))"
| "serve_admin env hs io (RevokeUserSession u i request) =
     effect (revoke_user_auth_session env hs u i request (ci_bytes io) (ci_now io))"
| "serve_admin env hs io (UnlinkUserIdentity u i request) =
     effect (unlink_user_external_identity env hs u i request (ci_bytes io) (ci_now io))"
| "serve_admin env hs io (CreateRoleBinding request) =
     effect (create_role_binding env hs request (ci_bytes io))"
| "serve_admin env hs io (UpdateRoleBindingStatus i request) =
     effect (update_role_binding_status env hs i request)"
| "serve_admin env hs io (CreateOrganizationMember organization_id request) =
     effect (create_organization_member env hs organization_id request (ci_bytes io))"
| "serve_admin env hs io (UpdateOrganizationMemberStatus organization_id i request) =
     effect (update_organization_member env hs organization_id i request)"
| "serve_admin env hs io (RemoveOrganizationMember organization_id i request) =
     effect (remove_organization_member env hs organization_id i request)"
| "serve_admin env hs io (CreateInvitation organization_id request) =
     effect (create_organization_invitation env hs organization_id request (ci_now io) (ci_bytes io) (ci_secret io))"
| "serve_admin env hs io (RevokeInvitation organization_id i request) =
     effect (revoke_organization_invitation env hs organization_id i request (ci_now io))"
| "serve_admin env hs io (CreateProjectMember project_id request) =
     effect (create_project_member env hs project_id request (ci_bytes io))"
| "serve_admin env hs io (UpdateProjectMemberStatus project_id i request) =
     effect (update_project_member env hs project_id i request)"
| "serve_admin env hs io (CreateSecretRef request) =
     effect (create_platform_secret_ref env hs request (ci_bytes io))"

fun serve_auth :: "platform_env \<Rightarrow> headers \<Rightarrow> call_inputs \<Rightarrow> auth_call \<Rightarrow> unit platform_op" where
  "serve_auth env hs io (ListAuthProviders tenant_id) = answer (list_auth_providers env tenant_id)"
| "serve_auth env hs io (StartOidcLogin i tenant_id) =
     effect (start_oidc_login env i tenant_id (ci_now io) (ci_bytes io) (ci_secrets io))"
| "serve_auth env hs io (LoginOidcProvider i tenant_id) =
     effect (login_oidc_provider env i tenant_id (ci_now io) (ci_bytes io) (ci_secrets io))"
| "serve_auth env hs io (OidcCallback i request) =
     effect (oidc_login_callback env i request (ci_now io) (ci_bytes io))"
| "serve_auth env hs io (PreviewInvitation token) = answer (preview_auth_invitation env token (ci_now io))"
| "serve_auth env hs io (AcceptInvitation token) =
     effect (accept_auth_invitation env hs token (ci_now io) (ci_bytes io) (ci_more_bytes io))"
| "serve_auth env hs io CurrentSession = answer (get_current_auth_session env hs)"
| "serve_auth env hs io (ActiveOrganization i) = effect (update_current_auth_session_active_organization env hs i)"
| "serve_auth env hs io (ActiveProject i) = effect (update_current_auth_session_active_project env hs i)"
| "serve_auth env hs io Logout = effect (logout_current_auth_session env hs)"
| "serve_auth env hs io (SingleUserLogin body) = effect (single_user_login env body (ci_bytes io))"

fun serve :: "platform_env \<Rightarrow> headers \<Rightarrow> call_inputs \<Rightarrow> platform_call \<Rightarrow> unit platform_op" where
  "serve env hs io (AdminCall c) = serve_admin env hs io c"
| "serve env hs io (AuthCall c) = serve_auth env hs io c"
| "serve env hs io (FoundationCall m path) = answer (handle_foundation_request env hs m path)"

text \<open>The entry of the route table that describes a call.\<close>

fun call_metadata :: "platform_call \<Rightarrow> platform_route option" where
  "call_metadata (AdminCall c) = platform_route_metadata (fst (admin_route c)) (snd (admin_route c))"
| "call_metadata (AuthCall c) = platform_route_metadata (fst (auth_route c)) (snd (auth_route c))"
| "call_metadata (FoundationCall m path) = map_option mr_route (match_route m path)"

subsection \<open>Health\<close>

definition platform_healthz :: json where
  "platform_healthz = JObject [(''schema'', JString ''platform.health.v1''),
     (''service'', JString ''starweaver-platform''), (''status'', JString ''ok'')]"

text \<open>\<open>platform_readyz\<close> with the in-memory repositories.\<close>

definition platform_readyz :: "platform_env \<Rightarrow> json" where
  "platform_readyz env = JObject [(''schema'', JString ''platform.readiness.v1''),
     (''service'', JString ''starweaver-platform''), (''ready'', JBool True),
     (''dependencies'', JObject
        [(''repository_backend'', JString ''in_memory''),
         (''postgres_repository'', JString ''not_configured''),
         (''single_user_provider'', JString (if pe_single_user env \<noteq> None then ''configured'' else ''not_configured''))])]"

end
