(* ===== verification/Platform_Route_Properties.thy ===== *)
theory Platform_Route_Properties
  imports Platform_Route Platform_Demo Platform_Text
begin

text \<open>
  The properties of the platform's route table: every URL belongs to one route and gives its
  parameters back, and what the handler of the remaining routes demands and returns.
\<close>

subsection \<open>Splitting a path\<close>

lemma split_at_nonempty [simp]: "split_at c s \<noteq> []"
  by (cases s) (auto split: list.splits)

lemma split_at_piece: "p \<in> set (split_at c s) \<Longrightarrow> c \<notin> set p"
  by (induction s arbitrary: p) (auto split: if_splits list.splits)

lemma split_at_sep: "split_at c (xs @ c # ys) = split_at c xs @ split_at c ys"
  by (induction xs) (auto split: list.splits simp: append_eq_Cons_conv)

lemma split_at_plain: "c \<notin> set xs \<Longrightarrow> split_at c xs = [xs]"
  by (induction xs) auto

lemma split_at_dropWhile:
  "filter (\<lambda>p. p \<noteq> []) (split_at c (dropWhile (\<lambda>x. x = c) s)) = filter (\<lambda>p. p \<noteq> []) (split_at c s)"
  by (induction s) auto

lemma split_at_rev: "split_at c (rev s) = rev (map rev (split_at c s))"
proof (induction s)
  case (Cons x s)
  show ?case
  proof (cases "x = c")
    case True
    then show ?thesis using split_at_sep [of c "rev s" "[]"] Cons by simp
  next
    case False
    have snoc: "split_at c (ys @ [x]) = butlast (split_at c ys) @ [last (split_at c ys) @ [x]]" for ys
      using False by (induction ys) (auto split: list.splits simp: append_eq_Cons_conv)
    obtain p ps where "split_at c s = p # ps" by (cases "split_at c s") auto
    with Cons False snoc [of "rev s"] show ?thesis by simp
  qed
qed simp

lemma split_at_filter_rev:
  "filter (\<lambda>p. p \<noteq> []) (split_at c (rev s)) = rev (map rev (filter (\<lambda>p. p \<noteq> []) (split_at c s)))"
proof -
  have "filter (\<lambda>p. p \<noteq> []) (rev (map rev ps)) = rev (map rev (filter (\<lambda>p. p \<noteq> []) ps))"
    for ps :: "string list"
    by (induction ps) auto
  then show ?thesis by (simp add: split_at_rev)
qed

lemma path_segments_split: "path_segments path = filter (\<lambda>p. p \<noteq> []) (split_at CHR ''/'' path)"
  by (simp add: path_segments_def trim_matches_def split_at_filter_rev split_at_dropWhile rev_map
    del: rev_filter)

lemma path_segments_concat:
  assumes "\<And>p. p \<in> set ps \<Longrightarrow> p \<noteq> [] \<and> CHR ''/'' \<notin> set p"
  shows "path_segments (concat (map (\<lambda>p. CHR ''/'' # p) ps)) = ps"
proof -
  have "filter (\<lambda>p. p \<noteq> []) (split_at CHR ''/'' (q @ concat (map (\<lambda>p. CHR ''/'' # p) ps)))
      = filter (\<lambda>p. p \<noteq> []) (q # ps)" if "CHR ''/'' \<notin> set q" for q
    using assms that
    by (induction ps arbitrary: q) (simp_all add: split_at_plain split_at_sep)
  from this [of "[]"] assms show ?thesis
    unfolding path_segments_split by (simp add: filter_id_conv)
qed


subsection \<open>Patterns\<close>

text \<open>A segment of a pattern: fixed text, or a parameter between a prefix and a suffix.\<close>

datatype segment_pattern = Literal string | Parameter string string string | Malformed

definition segment_pattern_of :: "string \<Rightarrow> segment_pattern" where
  "segment_pattern_of p =
     (case position (\<lambda>c. c = CHR ''{'') p of
        None \<Rightarrow> Literal p
      | Some i \<Rightarrow>
          (case position (\<lambda>c. c = CHR ''}'') (drop (i + 1) p) of
             None \<Rightarrow> Malformed
           | Some width \<Rightarrow>
               if width = 0 then Malformed
               else Parameter (take i p) (take width (drop (i + 1) p)) (drop (width + i + 2) p)))"

text \<open>The text of a segment for given values of the parameters.\<close>

fun fill_segment :: "(string \<Rightarrow> string) \<Rightarrow> segment_pattern \<Rightarrow> string" where
  "fill_segment f (Literal l) = l"
| "fill_segment f (Parameter pre n suf) = pre @ f n @ suf"
| "fill_segment f Malformed = []"

fun segment_params :: "segment_pattern \<Rightarrow> string list" where
  "segment_params (Parameter pre n suf) = [n]"
| "segment_params _ = []"

lemma match_segment_pattern:
  "match_segment p v params =
     (case segment_pattern_of p of
        Literal l \<Rightarrow> if l = v then Some params else None
      | Malformed \<Rightarrow> None
      | Parameter pre n suf \<Rightarrow>
          if starts_with v pre \<and> ends_with v suf \<and> length pre + length suf < length v
          then Some (btree_insert n (drop (length pre) (take (length v - length suf) v)) params) else None)"
proof (cases "position (\<lambda>c. c = CHR ''{'') p")
  case (Some i)
  show ?thesis
  proof (cases "position (\<lambda>c. c = CHR ''}'') (drop (i + 1) p)")
    case None
    with Some show ?thesis by (simp add: match_segment_def segment_pattern_of_def)
  next
    case (Some w)
    have "take w (drop (i + 1) p) = [] \<longleftrightarrow> w = 0"
      using position_SomeD [OF Some] by auto
    with Some \<open>position (\<lambda>c. c = CHR ''{'') p = Some i\<close> show ?thesis
      by (auto simp: match_segment_def segment_pattern_of_def Let_def)
  qed
qed (simp add: match_segment_def segment_pattern_of_def)

lemma match_fill_segment:
  assumes "segment_pattern_of p \<noteq> Malformed"
    and "\<forall>n \<in> set (segment_params (segment_pattern_of p)). f n \<noteq> []"
  shows "match_segment p (fill_segment f (segment_pattern_of p)) params =
    Some (fold (\<lambda>n. btree_insert n (f n)) (segment_params (segment_pattern_of p)) params)"
  using assms by (cases "segment_pattern_of p")
    (auto simp: match_segment_pattern starts_with_def ends_with_def)

definition pattern_segments :: "string \<Rightarrow> segment_pattern list" where
  "pattern_segments path_pattern = map segment_pattern_of (path_segments path_pattern)"

definition pattern_params :: "string \<Rightarrow> string list" where
  "pattern_params path_pattern = concat (map segment_params (pattern_segments path_pattern))"

definition pattern_url :: "string \<Rightarrow> (string \<Rightarrow> string) \<Rightarrow> string" where
  "pattern_url path_pattern f =
     concat (map (\<lambda>p. CHR ''/'' # fill_segment f p) (pattern_segments path_pattern))"

lemma match_fill_segments:
  assumes "\<forall>p \<in> set ps. segment_pattern_of p \<noteq> Malformed
      \<and> (\<forall>n \<in> set (segment_params (segment_pattern_of p)). f n \<noteq> [])"
  shows "match_segments (zip ps (map (fill_segment f \<circ> segment_pattern_of) ps)) params =
    Some (fold (\<lambda>n. btree_insert n (f n)) (concat (map (segment_params \<circ> segment_pattern_of) ps)) params)"
  using assms by (induction ps arbitrary: params) (simp_all add: match_fill_segment)

lemma fold_insert_get:
  "btree_get (fold (\<lambda>n. btree_insert n (f n)) ns params) k =
     (if k \<in> set ns then Some (f k) else btree_get params k)"
  by (induction ns arbitrary: params) auto

text \<open>The characters of a filled segment are those of the pattern and of the values.\<close>

lemma fill_segment_chars:
  "set (fill_segment f (segment_pattern_of p)) \<subseteq>
     set p \<union> (\<Union>n \<in> set (segment_params (segment_pattern_of p)). set (f n))"
  by (auto simp: segment_pattern_of_def split: option.splits dest: in_set_takeD in_set_dropD)

lemma fill_segment_nonempty:
  assumes "p \<noteq> []" and "segment_pattern_of p \<noteq> Malformed"
    and "\<forall>n \<in> set (segment_params (segment_pattern_of p)). f n \<noteq> []"
  shows "fill_segment f (segment_pattern_of p) \<noteq> []"
  using assms by (auto simp: segment_pattern_of_def split: option.splits if_splits)

lemma match_pattern_url:
  assumes "Malformed \<notin> set (pattern_segments path_pattern)"
    and "\<And>n. n \<in> set (pattern_params path_pattern) \<Longrightarrow> f n \<noteq> [] \<and> CHR ''/'' \<notin> set (f n)"
  shows "match_path_pattern path_pattern (pattern_url path_pattern f) =
    Some (fold (\<lambda>n. btree_insert n (f n)) (pattern_params path_pattern) [])"
proof -
  let ?ps = "path_segments path_pattern"
  have seg: "p \<noteq> [] \<and> CHR ''/'' \<notin> set p" if "p \<in> set ?ps" for p
    using that split_at_piece by (auto simp: path_segments_split)
  have params: "n \<in> set (pattern_params path_pattern)"
    if "p \<in> set ?ps" "n \<in> set (segment_params (segment_pattern_of p))" for p n
    using that by (auto simp: pattern_params_def pattern_segments_def)
  have wf: "segment_pattern_of p \<noteq> Malformed" if "p \<in> set ?ps" for p
    using assms(1) that by (auto simp: pattern_segments_def image_iff)
  have "q \<noteq> [] \<and> CHR ''/'' \<notin> set q" if q: "q \<in> set (map (fill_segment f \<circ> segment_pattern_of) ?ps)" for q
  proof -
    from q obtain p where p: "p \<in> set ?ps" "q = fill_segment f (segment_pattern_of p)" by auto
    have "q \<noteq> []"
      unfolding p(2) by (rule fill_segment_nonempty) (use seg wf params assms(2) p(1) in auto)
    moreover have "CHR ''/'' \<notin> set q"
      using fill_segment_chars [of f p] p seg params assms(2) by blast
    ultimately show ?thesis ..
  qed
  from path_segments_concat [of "map (fill_segment f \<circ> segment_pattern_of) ?ps", OF this]
  have "path_segments (pattern_url path_pattern f) = map (fill_segment f \<circ> segment_pattern_of) ?ps"
    by (simp add: pattern_url_def pattern_segments_def comp_def)
  moreover have "match_segments (zip ?ps (map (fill_segment f \<circ> segment_pattern_of) ?ps)) [] =
      Some (fold (\<lambda>n. btree_insert n (f n)) (pattern_params path_pattern) [])"
    using match_fill_segments [of ?ps f "[]"] wf params assms(2)
    by (auto simp: pattern_params_def pattern_segments_def)
  ultimately show ?thesis by (simp add: match_path_pattern_def)
qed

subsection \<open>No path belongs to two routes\<close>

text \<open>Two segments that no text matches both.\<close>

fun segments_clash :: "segment_pattern \<Rightarrow> segment_pattern \<Rightarrow> bool" where
  "segments_clash (Literal l) (Literal l') = (l \<noteq> l')"
| "segments_clash (Literal l) (Parameter pre n suf) = (\<not> starts_with l pre \<or> \<not> ends_with l suf)"
| "segments_clash (Parameter pre n suf) (Literal l) = (\<not> starts_with l pre \<or> \<not> ends_with l suf)"
| "segments_clash (Parameter pre n suf) (Parameter pre' n' suf') =
     (\<not> starts_with pre pre' \<and> \<not> starts_with pre' pre \<or> \<not> ends_with suf suf' \<and> \<not> ends_with suf' suf)"
| "segments_clash Malformed q = True"
| "segments_clash p Malformed = True"

lemma starts_with_both: "starts_with v p \<Longrightarrow> starts_with v q \<Longrightarrow> starts_with p q \<or> starts_with q p"
  by (auto simp: starts_with_iff append_eq_append_conv2)

lemma ends_with_both: "ends_with v p \<Longrightarrow> ends_with v q \<Longrightarrow> ends_with p q \<or> ends_with q p"
  by (auto simp: ends_with_iff append_eq_append_conv2)

lemma segments_clash_sound:
  assumes "segments_clash (segment_pattern_of p) (segment_pattern_of q)"
  shows "match_segment p v params = None \<or> match_segment q v params' = None"
  using assms starts_with_both [of v] ends_with_both [of v]
  by (cases "segment_pattern_of p"; cases "segment_pattern_of q")
    (auto simp: match_segment_pattern split: if_splits)

lemma match_segments_step:
  "match_segments (zip ps vs) params \<noteq> None \<Longrightarrow> i < length ps \<Longrightarrow> i < length vs \<Longrightarrow>
     \<exists>q. match_segment (ps ! i) (vs ! i) q \<noteq> None"
proof (induction ps arbitrary: vs params i)
  case (Cons p ps)
  obtain v vs' where vs: "vs = v # vs'" using Cons.prems(3) by (cases vs) auto
  with Cons.prems(1) obtain q where "match_segment p v params = Some q" "match_segments (zip ps vs') q \<noteq> None"
    by (auto simp: bind_eq_Some_conv)
  with Cons vs show ?case by (cases i) auto
qed simp

definition patterns_clash :: "segment_pattern list \<Rightarrow> segment_pattern list \<Rightarrow> bool" where
  "patterns_clash ps qs \<longleftrightarrow> length ps \<noteq> length qs \<or> list_ex (\<lambda>(p, q). segments_clash p q) (zip ps qs)"

lemma patterns_clash_sound:
  assumes "patterns_clash (pattern_segments p) (pattern_segments q)"
  shows "match_path_pattern p path = None \<or> match_path_pattern q path = None"
proof (rule ccontr)
  assume both: "\<not> ?thesis"
  let ?p = "path_segments p" and ?q = "path_segments q" and ?v = "path_segments path"
  have len: "length ?p = length ?v" "length ?q = length ?v"
    using both by (auto simp: match_path_pattern_def Let_def split: if_splits)
  then obtain i where i: "i < length ?v"
    "segments_clash (segment_pattern_of (?p ! i)) (segment_pattern_of (?q ! i))"
    using assms by (auto simp: patterns_clash_def pattern_segments_def list_ex_iff set_zip)
  have "\<exists>a. match_segment (?p ! i) (?v ! i) a \<noteq> None" "\<exists>a. match_segment (?q ! i) (?v ! i) a \<noteq> None"
    using both len i(1) match_segments_step [of ?p ?v "[]" i] match_segments_step [of ?q ?v "[]" i]
    by (simp_all add: match_path_pattern_def)
  with segments_clash_sound [OF i(2)] show False by metis
qed

definition route_forms :: "(platform_http_method \<times> segment_pattern list) list" where
  "route_forms = map (\<lambda>r. (prt_method r, pattern_segments (prt_path_pattern r))) platform_foundation_routes"

fun forms_clash :: "(platform_http_method \<times> segment_pattern list) list \<Rightarrow> bool" where
  "forms_clash [] = True"
| "forms_clash ((m, ps) # forms) =
     (list_all (\<lambda>(m', qs). m' = m \<longrightarrow> patterns_clash ps qs) forms \<and> forms_clash forms)"

lemma route_forms_clash: "forms_clash route_forms" "list_all (\<lambda>(m, ps). Malformed \<notin> set ps) route_forms"
  by code_simp+


lemma forms_clash_distinct:
  assumes "forms_clash (map (\<lambda>r. (prt_method r, pattern_segments (prt_path_pattern r))) rs)"
    and "r \<in> set rs" and "r' \<in> set rs" and "prt_method r = prt_method r'"
  shows "r = r' \<or> patterns_clash (pattern_segments (prt_path_pattern r)) (pattern_segments (prt_path_pattern r'))
    \<or> patterns_clash (pattern_segments (prt_path_pattern r')) (pattern_segments (prt_path_pattern r))"
  using assms by (induction rs) (auto simp: list_all_iff)

text \<open>A path that two routes of the table match with the same method, matches one route twice.\<close>

lemma routes_unambiguous:
  assumes "r \<in> set platform_foundation_routes" and "r' \<in> set platform_foundation_routes"
    and "prt_method r = prt_method r'"
    and "match_path_pattern (prt_path_pattern r) path \<noteq> None"
    and "match_path_pattern (prt_path_pattern r') path \<noteq> None"
  shows "r = r'"
  using forms_clash_distinct [OF route_forms_clash(1) [unfolded route_forms_def] assms(1-3)] assms(4, 5)
    patterns_clash_sound [of "prt_path_pattern r" "prt_path_pattern r'" path]
    patterns_clash_sound [of "prt_path_pattern r'" "prt_path_pattern r" path] by argo

lemma find_map_Some:
  "find_map f xs = Some y \<Longrightarrow> \<exists>x \<in> set xs. f x = Some y"
  by (induction xs) (auto split: option.splits)

lemma find_map_None: "find_map f xs = None \<longleftrightarrow> (\<forall>x \<in> set xs. f x = None)"
  by (induction xs) (auto split: option.splits)

lemma match_route_iff:
  "match_route m path = Some mr \<longleftrightarrow>
     mr_route mr \<in> set platform_foundation_routes \<and> platform_method m = Some (prt_method (mr_route mr))
     \<and> match_path_pattern (prt_path_pattern (mr_route mr)) path = Some (mr_params mr)"
  (is "_ \<longleftrightarrow> ?right")
proof
  assume "match_route m path = Some mr"
  then show ?right
    by (auto simp: match_route_def bind_eq_Some_conv dest!: find_map_Some)
next
  let ?f = "\<lambda>r. map_option (\<lambda>params. \<lparr>mr_route = r, mr_params = params\<rparr>) (match_path_pattern (prt_path_pattern r) path)"
  assume right: ?right
  let ?rs = "filter (\<lambda>r. prt_method r = prt_method (mr_route mr)) platform_foundation_routes"
  from right have "find_map ?f ?rs \<noteq> None"
    unfolding find_map_None by auto
  then obtain mr' where found: "find_map ?f ?rs = Some mr'" by auto
  then obtain r where r: "r \<in> set ?rs" "?f r = Some mr'" by (auto dest: find_map_Some)
  then have "r = mr_route mr" using right by (intro routes_unambiguous) auto
  then have "mr' = mr" using r(2) right by (cases mr) auto
  with found right show "match_route m path = Some mr" by (simp add: match_route_def)
qed

lemma platform_method_str [simp]: "platform_method (http_method_str m) = Some m"
  by (cases m) (simp_all add: platform_method_def)

lemma route_patterns_well_formed:
  "r \<in> set platform_foundation_routes \<Longrightarrow> Malformed \<notin> set (pattern_segments (prt_path_pattern r))"
  using route_forms_clash(2) by (auto simp: route_forms_def list_all_iff)

text \<open>
  C22. A URL made from a route's pattern and values for its parameters that are not empty and have no
  slash is matched to that route and no other, with these values.
\<close>

theorem route_urls_round_trip:
  assumes "r \<in> set platform_foundation_routes"
    and "\<And>n. n \<in> set (pattern_params (prt_path_pattern r)) \<Longrightarrow> f n \<noteq> [] \<and> CHR ''/'' \<notin> set (f n)"
  shows "\<exists>params. match_route (http_method_str (prt_method r)) (pattern_url (prt_path_pattern r) f)
      = Some \<lparr>mr_route = r, mr_params = params\<rparr>
    \<and> (\<forall>n. btree_get params n =
         (if n \<in> set (pattern_params (prt_path_pattern r)) then Some (f n) else None))"
  using match_pattern_url [OF route_patterns_well_formed [OF assms(1)] assms(2)] assms(1)
  by (simp add: match_route_iff fold_insert_get)

theorem route_urls_round_trip_witness:
  "\<exists>params. match_route ''POST'' ''/v1/runs/run_1:cancel''
      = Some \<lparr>mr_route = new_route HttpPost ''/v1/runs/{run_id}:cancel'' RunCancel (Some ''run_id'') [''run_id''],
          mr_params = params\<rparr>
    \<and> btree_get params ''run_id'' = Some ''run_1''"
proof -
  let ?r = "new_route HttpPost ''/v1/runs/{run_id}:cancel'' RunCancel (Some ''run_id'') [''run_id'']"
  have "?r \<in> set platform_foundation_routes" by (simp add: platform_foundation_routes_def PLATFORM_ROUTES_1_def)
  moreover have "pattern_params (prt_path_pattern ?r) = [''run_id'']"
    and "pattern_url (prt_path_pattern ?r) (\<lambda>_. ''run_1'') = ''/v1/runs/run_1:cancel''"
    and "http_method_str (prt_method ?r) = ''POST''"
    by code_simp+
  ultimately show ?thesis
    using route_urls_round_trip [of ?r "\<lambda>_. ''run_1''"] by auto
qed

subsection \<open>The foundation handler\<close>

lemma find_resource_owner_kind:
  assumes "list_all (\<lambda>((k, i), r). k = resource_data_kind (pr_data r)) (pl_resources s)"
    and "find_platform_resource (pl_resources s) kind i = Some r"
  shows "kind = resource_data_kind (pr_data r)"
  using assms by (auto simp: find_platform_resource_def list_all_iff dest!: map_of_SomeD)

text \<open>Every resource is stored under the kind of its data, as \<open>record_platform_resource\<close> leaves it.\<close>

lemma record_platform_resource_kinds:
  assumes "list_all (\<lambda>((k, i), r). k = resource_data_kind (pr_data r)) st"
    and "record_platform_resource r st = (Inr (), st')"
  shows "list_all (\<lambda>((k, i), r). k = resource_data_kind (pr_data r)) st'"
  using assms
  by (auto simp: record_platform_resource_def Let_def list_all_iff validate_resource_record_def result_simps
    split: sum.splits)

text \<open>
  The sessions of a conversation and the events of a run are never found: the handler looks for a
  resource of kind \<open>AgentSession\<close> or \<open>RunEvent\<close>, and there is no data of these kinds.
\<close>

lemma session_and_event_routes_fail:
  assumes "list_all (\<lambda>((k, i), r). k = resource_data_kind (pr_data r)) (pl_resources s)"
    and "match_route m path = Some mr" and "prt_action (mr_route mr) \<in> {SessionRead, RunEventRead}"
  shows "isl (handle_foundation_request env hs m path s)"
proof (rule ccontr)
  assume "\<not> ?thesis"
  then obtain j where run: "handle_foundation_request env hs m path s = Inr j"
    by (cases "handle_foundation_request env hs m path s") auto
  have r: "mr_route mr \<in> set platform_foundation_routes" using assms(2) by (simp add: match_route_iff)
  have "list_all (\<lambda>r. prt_action r \<in> {SessionRead, RunEventRead} \<longrightarrow>
      prt_resource_id_path_param r \<noteq> None \<and> prt_resource_kind r \<in> {''AgentSession'', ''RunEvent''})
      platform_foundation_routes"
    by code_simp
  with r assms(3) obtain param where
    "prt_resource_id_path_param (mr_route mr) = Some param"
    "prt_resource_kind (mr_route mr) \<in> {''AgentSession'', ''RunEvent''}"
    by (auto simp: list_all_iff)
  with run assms(2) obtain x where
    "find_platform_resource (pl_resources s) (prt_resource_kind (mr_route mr)) x \<noteq> None"
    by (auto simp: handle_foundation_request_def business_resource_def result_simps)
  then obtain res :: platform_resource where "prt_resource_kind (mr_route mr) = resource_data_kind (pr_data res)"
    using find_resource_owner_kind [OF assms(1)] by auto
  with \<open>prt_resource_kind (mr_route mr) \<in> {''AgentSession'', ''RunEvent''}\<close> show False
    by (cases "pr_data res") auto
qed

end
