(* ===== verification/Platform_Http_Properties.thy ===== *)
theory Platform_Http_Properties
  imports Platform_Http Platform_Route_Properties
begin

text \<open>
  The platform's HTTP surface: every handler enforces what the route table says of its route.
\<close>

subsection \<open>What a handler demands before it does anything\<close>

text \<open>Unless the guard holds of the state, the operation fails and changes nothing.\<close>

definition guarded :: "(platform_state \<Rightarrow> bool) \<Rightarrow> 'a platform_op \<Rightarrow> platform_state \<Rightarrow> bool" where
  "guarded G m s \<longleftrightarrow> G s \<or> (\<exists>e. m s = (Inl e, s))"

lemma guardedD: "guarded G m s \<Longrightarrow> m s = (r, s') \<Longrightarrow> (\<exists>a. r = Inr a) \<or> s' \<noteq> s \<Longrightarrow> G s"
  by (auto simp: guarded_def)

lemma guarded_here: "G s \<Longrightarrow> guarded G m s"
  by (simp add: guarded_def)

lemma guarded_pread: "(\<And>a. f s = Inr a \<Longrightarrow> guarded G (m a) s) \<Longrightarrow> guarded G (pbind (pread f) m) s"
  by (cases "f s") (auto simp: guarded_def pbind_def pread_def)

lemma guarded_pactor:
  "(\<And>actor. authenticated_actor_from_headers env hs s = Inr actor \<Longrightarrow> guarded G (m actor) s) \<Longrightarrow>
     guarded G (pbind (pactor env hs) m) s"
  unfolding pactor_def by (rule guarded_pread)

lemma guarded_pauthorize:
  "(authorize_service_action env actor action resource s = Inr () \<Longrightarrow> G s) \<Longrightarrow>
     guarded G (pbind (pauthorize env actor action resource) m) s"
  unfolding pauthorize_def by (rule guarded_pread) (simp add: guarded_here)

lemma guarded_effect_only: "guarded G m s \<Longrightarrow> guarded G (effect m) s"
  by (auto simp: guarded_def effect_def pbind_def)

lemma guarded_answer: "(\<And>j. f s = Inr j \<Longrightarrow> G s) \<Longrightarrow> guarded G (answer f) s"
  by (cases "f s") (auto simp: guarded_def answer_def effect_def pbind_def pread_def)

lemma guarded_split: "(\<And>a b. x = (a, b) \<Longrightarrow> guarded G (m a b) s) \<Longrightarrow> guarded G (case x of (a, b) \<Rightarrow> m a b) s"
  by (cases x) simp

lemma guarded_let: "guarded G (m v) s \<Longrightarrow> guarded G (let x = v in m x) s"
  by simp

text \<open>The guard of an authorized route: an authenticated actor with the action on a resource of its kind.\<close>

definition action_authorized ::
  "platform_env \<Rightarrow> headers \<Rightarrow> platform_action \<Rightarrow> platform_state \<Rightarrow> bool" where
  "action_authorized env hs action s \<longleftrightarrow>
     (\<exists>actor resource. authenticated_actor_from_headers env hs s = Inr actor
        \<and> authorize_service_action env actor action resource s = Inr ())"

lemma action_authorizedI:
  "authenticated_actor_from_headers env hs s = Inr actor \<Longrightarrow>
     authorize_service_action env actor action resource s = Inr () \<Longrightarrow> action_authorized env hs action s"
  by (auto simp: action_authorized_def)

lemmas guarded_intros = guarded_effect_only guarded_pactor guarded_let

lemma admin_mutations_guarded:
  "guarded (action_authorized env hs IdentityProviderWrite) (create_oidc_identity_provider env hs r1 rb) s"
  "guarded (action_authorized env hs UserWrite) (update_platform_user_status env hs u r2 rb now) s"
  "guarded (action_authorized env hs AuthSessionRevoke) (revoke_user_auth_session env hs u i r3 rb now) s"
  "guarded (action_authorized env hs ExternalIdentityUnlink) (unlink_user_external_identity env hs u i r3 rb now) s"
  "guarded (action_authorized env hs RoleBindingWrite) (create_role_binding env hs r4 rb) s"
  "guarded (action_authorized env hs RoleBindingWrite) (update_role_binding_status env hs i r5) s"
  "guarded (action_authorized env hs OrganizationMemberWrite) (create_organization_member env hs g r6 rb) s"
  "guarded (action_authorized env hs OrganizationMemberWrite) (update_organization_member env hs g i r5) s"
  "guarded (action_authorized env hs OrganizationMemberWrite) (remove_organization_member env hs g i r7) s"
  "guarded (action_authorized env hs OrganizationInvitationCreate)
     (create_organization_invitation env hs g r8 now rb secret) s"
  "guarded (action_authorized env hs OrganizationInvitationManage) (revoke_organization_invitation env hs g i r7 now) s"
  "guarded (action_authorized env hs ProjectMemberWrite) (create_project_member env hs p r9 rb) s"
  "guarded (action_authorized env hs ProjectMemberWrite) (update_project_member env hs p i r5) s"
  "guarded (action_authorized env hs SecretRefWrite) (create_platform_secret_ref env hs r10 rb) s"
  unfolding create_oidc_identity_provider_def update_platform_user_status_def revoke_user_auth_session_def
    unlink_user_external_identity_def create_role_binding_def update_role_binding_status_def
    create_organization_member_def update_organization_member_def remove_organization_member_def
    create_organization_invitation_def revoke_organization_invitation_def create_project_member_def
    update_project_member_def create_platform_secret_ref_def
  by (intro guarded_pactor guarded_let guarded_pauthorize guarded_pread, erule (1) action_authorizedI)+


lemma read_gate_Inr:
  "read_gate env hs action load s = Inr (actor, r) \<longleftrightarrow>
     authenticated_actor_from_headers env hs s = Inr actor
     \<and> (\<exists>resource. load actor s = Inr (r, resource)
          \<and> authorize_service_action env actor action resource s = Inr ())"
  by (auto simp: read_gate_def result_simps)

lemma read_gate_authorized: "read_gate env hs action load s = Inr x \<Longrightarrow> action_authorized env hs action s"
  by (cases x) (auto simp: read_gate_Inr action_authorized_def)

lemma rbind_InrD: "rbind r f = Inr b \<Longrightarrow> \<exists>a. r = Inr a \<and> f a = Inr b"
  by (simp add: rbind_Inr_iff)

lemma audit_event_page_authorized:
  "audit_event_page env hs q s = Inr page \<Longrightarrow> action_authorized env hs AuditEventRead s"
  by (auto simp: audit_event_page_def result_simps action_authorized_def)

lemma admin_reads_authorized:
  "list_oidc_identity_providers env hs s = Inr j \<Longrightarrow> action_authorized env hs IdentityProviderRead s"
  "get_oidc_identity_provider env hs i s = Inr j \<Longrightarrow> action_authorized env hs IdentityProviderRead s"
  "list_platform_users env hs s = Inr j \<Longrightarrow> action_authorized env hs UserRead s"
  "get_platform_user env hs u s = Inr j \<Longrightarrow> action_authorized env hs UserRead s"
  "list_user_auth_sessions env hs u s = Inr j \<Longrightarrow> action_authorized env hs AuthSessionRead s"
  "list_user_external_identities env hs u s = Inr j \<Longrightarrow> action_authorized env hs ExternalIdentityRead s"
  "get_user_external_identity env hs u i s = Inr j \<Longrightarrow> action_authorized env hs ExternalIdentityRead s"
  "list_role_bindings env hs s = Inr j \<Longrightarrow> action_authorized env hs RoleBindingRead s"
  "get_role_binding env hs i s = Inr j \<Longrightarrow> action_authorized env hs RoleBindingRead s"
  "list_platform_audit_events env hs q s = Inr j \<Longrightarrow> action_authorized env hs AuditEventRead s"
  "list_organization_members env hs g s = Inr j \<Longrightarrow> action_authorized env hs OrganizationMemberRead s"
  "get_organization_member env hs g i s = Inr j \<Longrightarrow> action_authorized env hs OrganizationMemberRead s"
  "list_organization_invitations env hs g clock s = Inr j \<Longrightarrow> action_authorized env hs OrganizationInvitationRead s"
  "get_organization_invitation env hs g i now s = Inr j \<Longrightarrow> action_authorized env hs OrganizationInvitationRead s"
  "list_project_members env hs p s = Inr j \<Longrightarrow> action_authorized env hs ProjectMemberRead s"
  "get_project_member env hs p i s = Inr j \<Longrightarrow> action_authorized env hs ProjectMemberRead s"
  "list_platform_secret_refs env hs s = Inr j \<Longrightarrow> action_authorized env hs SecretRefRead s"
  "get_platform_secret_ref env hs i s = Inr j \<Longrightarrow> action_authorized env hs SecretRefRead s"
  unfolding list_oidc_identity_providers_def get_oidc_identity_provider_def list_platform_users_def
    get_platform_user_def list_user_auth_sessions_def list_user_external_identities_def
    get_user_external_identity_def list_role_bindings_def get_role_binding_def
    list_platform_audit_events_def list_organization_members_def get_organization_member_def
    list_organization_invitations_def get_organization_invitation_def list_project_members_def
    get_project_member_def list_platform_secret_refs_def get_platform_secret_ref_def
  by (drule rbind_InrD; elim exE conjE; (drule rbind_InrD; elim exE conjE)?;
      (erule read_gate_authorized | erule audit_event_page_authorized))+

text \<open>The guard of a session route: the session of a user, with the CSRF token when the route mutates.\<close>

definition user_session_presented ::
  "platform_env \<Rightarrow> headers \<Rightarrow> platform_http_method \<Rightarrow> platform_state \<Rightarrow> bool" where
  "user_session_presented env hs m s \<longleftrightarrow>
     (\<exists>raw session. auth_session_from_headers env hs s = Inr (raw, session)
        \<and> pa_actor_kind (ses_actor session) = UserActor
        \<and> (m = HttpPost \<longrightarrow> mutating_auth_session_from_headers env hs s = Inr (raw, session)))"

lemma user_session_presentedI:
  "mutating_auth_session_from_headers env hs s = Inr (raw, session) \<Longrightarrow>
     ensure_user_auth_session session = Inr () \<Longrightarrow> user_session_presented env hs m s"
  by (auto simp: user_session_presented_def ensure_user_auth_session_def mutating_auth_session_from_headers_def
    result_simps)

lemma session_mutations_guarded:
  "guarded (user_session_presented env hs m) (accept_auth_invitation env hs token now ob pb) s"
  "guarded (user_session_presented env hs m) (update_current_auth_session_active_organization env hs i) s"
  "guarded (user_session_presented env hs m) (update_current_auth_session_active_project env hs i) s"
  "guarded (user_session_presented env hs m) (logout_current_auth_session env hs) s"
  unfolding accept_auth_invitation_def update_current_auth_session_active_organization_def
    update_current_auth_session_active_project_def logout_current_auth_session_def Let_def
  by (intro guarded_pread guarded_split guarded_here, auto intro: user_session_presentedI)+

lemma current_session_read:
  "get_current_auth_session env hs s = Inr j \<Longrightarrow> user_session_presented env hs HttpGet s"
  by (auto simp: get_current_auth_session_def user_session_presented_def ensure_user_auth_session_def result_simps)

lemma foundation_request_authorized:
  assumes "handle_foundation_request env hs m path s = Inr j" and "match_route m path = Some mr"
  shows "action_authorized env hs (prt_action (mr_route mr)) s"
  using assms by (auto simp: handle_foundation_request_def result_simps action_authorized_def)

subsection \<open>Every handler enforces its entry of the route table\<close>

text \<open>What the table asks of a call; the foundation handler always asks for the action.\<close>

definition call_guard :: "platform_env \<Rightarrow> headers \<Rightarrow> platform_call \<Rightarrow> platform_route \<Rightarrow> platform_state \<Rightarrow> bool" where
  "call_guard env hs c r s \<longleftrightarrow>
     (case (if \<exists>m path. c = FoundationCall m path then AccessAuthorized else prt_access r) of
        AccessPublic \<Rightarrow> True
      | AccessSession \<Rightarrow> user_session_presented env hs (prt_method r) s
      | AccessAuthorized \<Rightarrow> action_authorized env hs (prt_action r) s)"

definition route_entry :: "platform_http_method \<times> string \<Rightarrow> (route_access \<times> platform_action) option" where
  "route_entry mp = map_option (\<lambda>r. (prt_access r, prt_action r)) (platform_route_metadata (fst mp) (snd mp))"

lemma admin_route_entries:
  "route_entry (admin_read_route ListProviders) = Some (AccessAuthorized, IdentityProviderRead)"
  "route_entry (admin_route (CreateProvider x1)) = Some (AccessAuthorized, IdentityProviderWrite)"
  "route_entry (admin_read_route (GetProvider x2)) = Some (AccessAuthorized, IdentityProviderRead)"
  "route_entry (admin_read_route ListUsers) = Some (AccessAuthorized, UserRead)"
  "route_entry (admin_read_route (GetUser x3)) = Some (AccessAuthorized, UserRead)"
  "route_entry (admin_route (UpdateUserStatus x4 y4)) = Some (AccessAuthorized, UserWrite)"
  "route_entry (admin_read_route (ListUserSessions x5)) = Some (AccessAuthorized, AuthSessionRead)"
  "route_entry (admin_route (RevokeUserSession x6 y6 z6)) = Some (AccessAuthorized, AuthSessionRevoke)"
  "route_entry (admin_read_route (ListUserIdentities x7)) = Some (AccessAuthorized, ExternalIdentityRead)"
  "route_entry (admin_read_route (GetUserIdentity x8 y8)) = Some (AccessAuthorized, ExternalIdentityRead)"
  "route_entry (admin_route (UnlinkUserIdentity x9 y9 z9)) = Some (AccessAuthorized, ExternalIdentityUnlink)"
  "route_entry (admin_read_route ListRoleBindings) = Some (AccessAuthorized, RoleBindingRead)"
  "route_entry (admin_route (CreateRoleBinding x10)) = Some (AccessAuthorized, RoleBindingWrite)"
  "route_entry (admin_read_route (GetRoleBinding x11)) = Some (AccessAuthorized, RoleBindingRead)"
  "route_entry (admin_route (UpdateRoleBindingStatus x12 y12)) = Some (AccessAuthorized, RoleBindingWrite)"
  "route_entry (admin_read_route (ListAuditEvents x13)) = Some (AccessAuthorized, AuditEventRead)"
  "route_entry (admin_read_route (ListOrganizationMembers x14)) = Some (AccessAuthorized, OrganizationMemberRead)"
  "route_entry (admin_route (CreateOrganizationMember x15 y15)) = Some (AccessAuthorized, OrganizationMemberWrite)"
  "route_entry (admin_read_route (GetOrganizationMember x16 y16)) = Some (AccessAuthorized, OrganizationMemberRead)"
  "route_entry (admin_route (UpdateOrganizationMemberStatus x17 y17 z17)) = Some (AccessAuthorized, OrganizationMemberWrite)"
  "route_entry (admin_route (RemoveOrganizationMember x18 y18 z18)) = Some (AccessAuthorized, OrganizationMemberWrite)"
  "route_entry (admin_read_route (ListInvitations x19)) = Some (AccessAuthorized, OrganizationInvitationRead)"
  "route_entry (admin_route (CreateInvitation x20 y20)) = Some (AccessAuthorized, OrganizationInvitationCreate)"
  "route_entry (admin_read_route (GetInvitation x21 y21)) = Some (AccessAuthorized, OrganizationInvitationRead)"
  "route_entry (admin_route (RevokeInvitation x22 y22 z22)) = Some (AccessAuthorized, OrganizationInvitationManage)"
  "route_entry (admin_read_route (ListProjectMembers x23)) = Some (AccessAuthorized, ProjectMemberRead)"
  "route_entry (admin_route (CreateProjectMember x24 y24)) = Some (AccessAuthorized, ProjectMemberWrite)"
  "route_entry (admin_read_route (GetProjectMember x25 y25)) = Some (AccessAuthorized, ProjectMemberRead)"
  "route_entry (admin_route (UpdateProjectMemberStatus x26 y26 z26)) = Some (AccessAuthorized, ProjectMemberWrite)"
  "route_entry (admin_read_route ListSecretRefs) = Some (AccessAuthorized, SecretRefRead)"
  "route_entry (admin_route (CreateSecretRef x27)) = Some (AccessAuthorized, SecretRefWrite)"
  "route_entry (admin_read_route (GetSecretRef x28)) = Some (AccessAuthorized, SecretRefRead)"
  by code_simp+

lemma auth_route_entries:
  "route_entry (auth_route (ListAuthProviders x29)) = Some (AccessPublic, IdentityProviderRead)"
  "route_entry (auth_route (StartOidcLogin x30 y30)) = Some (AccessPublic, IdentityProviderRead)"
  "route_entry (auth_route (LoginOidcProvider x31 y31)) = Some (AccessPublic, IdentityProviderRead)"
  "route_entry (auth_route (OidcCallback x32 y32)) = Some (AccessPublic, AuthSessionCreate)"
  "route_entry (auth_route (PreviewInvitation x33)) = Some (AccessPublic, OrganizationInvitationRead)"
  "route_entry (auth_route (AcceptInvitation x34)) = Some (AccessSession, OrganizationInvitationAccept)"
  "route_entry (auth_route CurrentSession) = Some (AccessSession, AuthSessionRead)"
  "route_entry (auth_route (ActiveOrganization x35)) = Some (AccessSession, AuthSessionUpdate)"
  "route_entry (auth_route (ActiveProject x36)) = Some (AccessSession, AuthSessionUpdate)"
  "route_entry (auth_route Logout) = Some (AccessSession, AuthSessionRevoke)"
  "route_entry (auth_route (SingleUserLogin x37)) = Some (AccessPublic, AuthSessionCreate)"
  by code_simp+


lemma route_entry_Some:
  "route_entry mp = Some (access, action) \<longleftrightarrow>
     (\<exists>r. platform_route_metadata (fst mp) (snd mp) = Some r \<and> prt_access r = access \<and> prt_action r = action
        \<and> prt_method r = fst mp)"
  by (auto simp: route_entry_def platform_route_metadata_def find_Some_iff)

lemma admin_call_guard:
  assumes "route_entry (admin_route c) = Some (AccessAuthorized, action)" and "action_authorized env hs action s"
  shows "\<exists>r. call_metadata (AdminCall c) = Some r \<and> call_guard env hs (AdminCall c) r s"
  using assms by (auto simp: route_entry_Some call_guard_def)

lemma public_call_guard:
  assumes "route_entry (auth_route c) = Some (AccessPublic, action)"
  shows "\<exists>r. call_metadata (AuthCall c) = Some r \<and> call_guard env hs (AuthCall c) r s"
  using assms by (auto simp: route_entry_Some call_guard_def)

lemma session_call_guard:
  assumes "route_entry (auth_route c) = Some (AccessSession, action)"
    and "user_session_presented env hs (fst (auth_route c)) s"
  shows "\<exists>r. call_metadata (AuthCall c) = Some r \<and> call_guard env hs (AuthCall c) r s"
  using assms by (auto simp: route_entry_Some call_guard_def)

lemma admin_read_guarded:
  "\<exists>action. route_entry (admin_read_route r) = Some (AccessAuthorized, action)
     \<and> (\<forall>j. admin_answer env hs io r s = Inr j \<longrightarrow> action_authorized env hs action s)"
  by (cases r; simp only: admin_answer.simps admin_route_entries option.inject prod.inject simp_thms ex_simps;
    intro exI conjI refl allI impI; erule admin_reads_authorized)

lemma serve_admin_guarded:
  "\<exists>action. route_entry (admin_route c) = Some (AccessAuthorized, action)
     \<and> guarded (action_authorized env hs action) (serve_admin env hs io c) s"
proof (cases c)
  case (ReadCall r)
  then show ?thesis using admin_read_guarded [of r env hs io s] guarded_answer [of "admin_answer env hs io r" s]
    by (simp only: serve_admin.simps admin_route.simps) blast
qed (simp only: serve_admin.simps admin_route_entries option.inject prod.inject simp_thms ex_simps;
    intro exI conjI refl guarded_effect_only; rule admin_mutations_guarded)+

lemma serve_session_guarded:
  assumes "route_entry (auth_route c) = Some (AccessSession, action)"
  shows "guarded (user_session_presented env hs (fst (auth_route c))) (serve_auth env hs io c) s"
  using assms
  by (cases c; simp only: auth_route_entries option.inject prod.inject route_access.distinct simp_thms;
    auto intro!: guarded_effect_only guarded_answer intro: session_mutations_guarded current_session_read)

lemma auth_access: "\<exists>access action. route_entry (auth_route c) = Some (access, action) \<and> access \<noteq> AccessAuthorized"
  by (cases c) (simp_all only: auth_route_entries, auto)


definition pdemo_inputs :: call_inputs where
  "pdemo_inputs = \<lparr>ci_now = 100, ci_clock = (\<lambda>_. 100), ci_bytes = pdemo_bytes, ci_more_bytes = pdemo_bytes,
     ci_secret = pdemo_bytes, ci_secrets = (pdemo_bytes, pdemo_bytes, pdemo_bytes)\<rparr>"


end
