(* ===== verification/Platform_Tenant_Properties.thy ===== *)
theory Platform_Tenant_Properties
  imports Platform_Http_Properties
begin

text \<open>
  What the reads of the platform show: records of the reader's tenant, and no values of secrets.
\<close>

subsection \<open>Reads stay in the tenant of their reader\<close>

lemma authorized_tenant:
  assumes "authorize_service_action env actor action resource s = Inr ()"
  shows "rr_tenant_id resource = pa_tenant_id actor"
  using assms
  by (auto simp: authorize_service_action_def role_binding_authorization_allows_def Let_def
    platform_authorize_def platform_deny_def split: if_splits)

definition response_resources :: "json \<Rightarrow> json list" where
  "response_resources j =
     (case json_get j ''resources'' of
        Some (JArray rs) \<Rightarrow> rs
      | _ \<Rightarrow> (case json_get j ''resource'' of Some r \<Rightarrow> [r] | None \<Rightarrow> []))"

text \<open>The tenant of a rendered record; a session names it in its actor.\<close>

definition resource_tenant :: "json \<Rightarrow> json option" where
  "resource_tenant r =
     (case json_get r ''tenant_id'' of
        Some t \<Rightarrow> Some t
      | None \<Rightarrow> Option.bind (json_get r ''actor'') (\<lambda>a. json_get a ''tenant_id''))"

lemma rendered_tenant [simp]:
  "resource_tenant (oidc_provider_safe_json p) = Some (JString (op_tenant_id p))"
  "resource_tenant (secret_ref_safe_json sr) = Some (JString (sr_tenant_id sr))"
  "resource_tenant (organization_member_safe_json om) = Some (JString (om_tenant_id om))"
  "resource_tenant (project_member_safe_json pm) = Some (JString (pjm_tenant_id pm))"
  "resource_tenant (role_binding_safe_json b) = Some (JString (rb_tenant_id b))"
  "resource_tenant (platform_user_safe_json u) = Some (JString (us_tenant_id u))"
  "resource_tenant (organization_invitation_safe_json now iv) = Some (JString (iv_tenant_id iv))"
  "resource_tenant (external_identity_safe_json x) = Some (JString (xi_tenant_id x))"
  "resource_tenant (auth_session_safe_json session) = Some (JString (pa_tenant_id (ses_actor session)))"
  "resource_tenant (audit_event_safe_json e) = Some (JString (pau_tenant_id e))"
  by (simp_all add: resource_tenant_def oidc_provider_safe_json_def secret_ref_safe_json_def
    organization_member_safe_json_def project_member_safe_json_def role_binding_safe_json_def
    platform_user_safe_json_def organization_invitation_safe_json_def external_identity_safe_json_def
    auth_session_safe_json_def actor_json_def audit_event_safe_json_def)

lemma response_resources_object [simp]:
  "response_resources (JObject ((''schema'', v) # (''resources'', JArray rs) # rest)) = rs"
  "response_resources (JObject [(''schema'', v), (''resource'', r)]) = [r]"
  "response_resources (JObject [(''schema'', v), (''user_id'', w), (''resources'', JArray rs)]) = rs"
  "response_resources (JObject [(''schema'', v), (''organization_id'', w), (''resources'', JArray rs)]) = rs"
  "response_resources (JObject [(''schema'', v), (''project_id'', w), (''resources'', JArray rs)]) = rs"
  by (simp_all add: response_resources_def)

lemma rbind_gate:
  "rbind (read_gate env hs action load s) f = Inr j \<longleftrightarrow>
     (\<exists>actor r resource. authenticated_actor_from_headers env hs s = Inr actor
        \<and> load actor s = Inr (r, resource) \<and> authorize_service_action env actor action resource s = Inr ()
        \<and> f (actor, r) = Inr j)"
  by (auto simp: rbind_Inr_iff read_gate_Inr)

lemma enumerate_value: "(i, x) \<in> set (List.enumerate n xs) \<Longrightarrow> x \<in> set xs"
  by (metis enumerate_eq_zip set_zip_rightD)

lemma listed_in_tenant:
  "p \<in> set (oidc_login_providers_for_tenant t s) \<Longrightarrow> op_tenant_id p = t"
  "u \<in> set (users_for_tenant us t) \<Longrightarrow> us_tenant_id u = t"
  "session \<in> set (auth_sessions_for_principal ss t i) \<Longrightarrow> pa_tenant_id (ses_actor session) = t"
  "x \<in> set (external_identities_for_principal xs t i) \<Longrightarrow> xi_tenant_id x = t"
  "b \<in> set (role_bindings_for_tenant bs t) \<Longrightarrow> rb_tenant_id b = t"
  "iv \<in> set (organization_invitations ivs t g) \<Longrightarrow> iv_tenant_id iv = t"
  "sr \<in> set (secret_refs_for_tenant srs t) \<Longrightarrow> sr_tenant_id sr = t"
  "e \<in> set (audit_events_for_query s t q) \<Longrightarrow> pau_tenant_id e = t"
  by (auto simp: oidc_login_providers_for_tenant_def users_for_tenant_def auth_sessions_for_principal_def
    external_identities_for_principal_def role_bindings_for_tenant_def organization_invitations_def
    secret_refs_for_tenant_def audit_events_for_query_def audit_events_for_tenant_def)

lemma found_in_tenant:
  "tenant_user i actor s = Inr u \<Longrightarrow> us_tenant_id u = pa_tenant_id actor"
  "external_identity_for_actor actor i k s = Inr x \<Longrightarrow> xi_tenant_id x = pa_tenant_id actor"
  "organization_member_for_actor actor i k s = Inr m \<Longrightarrow> om_tenant_id m = pa_tenant_id actor"
  "project_member_for_actor actor i k s = Inr pm \<Longrightarrow> pjm_tenant_id pm = pa_tenant_id actor"
  "organization_invitation_for_actor actor i k s = Inr iv \<Longrightarrow> iv_tenant_id iv = pa_tenant_id actor"
  by (auto simp: tenant_user_def ensure_actor_tenant_def external_identity_for_actor_def
    organization_member_for_actor_def project_member_for_actor_def organization_invitation_for_actor_def result_simps)

lemma resource_refs_tenant [simp]:
  "rr_tenant_id (tenant_resource k t i) = t" "rr_tenant_id (project_resource k t g p i) = t"
  "rr_tenant_id (role_binding_resource b) = rb_tenant_id b"
  by (simp_all add: tenant_resource_def project_resource_def role_binding_resource_def split: option.splits)

text \<open>
  C11. Whatever an admin read answers, every record in the answer belongs to the tenant of the actor that
  the request authenticated.
\<close>

theorem reads_stay_in_tenant:
  assumes "admin_answer env hs io r s = Inr j"
  shows "\<exists>actor. authenticated_actor_from_headers env hs s = Inr actor
    \<and> (\<forall>x \<in> set (response_resources j). resource_tenant x = Some (JString (pa_tenant_id actor)))"
proof (cases r)
  case (ListAuditEvents q)
  with assms show ?thesis
    by (auto simp: list_platform_audit_events_def audit_event_page_def audit_page_of_def Let_def rbind_Inr_iff
      dest!: in_set_takeD in_set_dropD listed_in_tenant)
next
  case (ListInvitations g)
  with assms show ?thesis
    by (auto simp: list_organization_invitations_def rbind_gate dest!: enumerate_value listed_in_tenant)
qed (use assms in \<open>auto simp: list_oidc_identity_providers_def get_oidc_identity_provider_def
    list_platform_users_def get_platform_user_def list_user_auth_sessions_def
    list_user_external_identities_def get_user_external_identity_def list_role_bindings_def
    get_role_binding_def list_organization_members_def get_organization_member_def
    get_organization_invitation_def list_project_members_def get_project_member_def
    list_platform_secret_refs_def get_platform_secret_ref_def read_gate_Inr Let_def rbind_Inr_iff
    dest: listed_in_tenant found_in_tenant dest!: authorized_tenant\<close>)


theorem reads_stay_in_tenant_witness:
  "\<exists>j. admin_answer pdemo_env (pdemo_headers ''swp_sess_bob'') pdemo_inputs (ListOrganizationMembers ''org_home'') pdemo
      = Inr j
    \<and> response_resources j \<noteq> []
    \<and> (\<forall>x \<in> set (response_resources j). resource_tenant x = Some (JString ''ten_a''))"
proof -
  let ?answer = "admin_answer pdemo_env (pdemo_headers ''swp_sess_bob'') pdemo_inputs (ListOrganizationMembers ''org_home'') pdemo"
  have "case ?answer of Inl _ \<Rightarrow> False | Inr j \<Rightarrow> response_resources j \<noteq> []" by code_simp
  then obtain j where j: "?answer = Inr j" "response_resources j \<noteq> []" by (auto split: sum.splits)
  from reads_stay_in_tenant [OF j(1)] pdemo_actors(2) j show ?thesis by (auto simp: pdemo_actor_def)
qed

subsection \<open>Secrets\<close>

definition with_secret_values :: "(secret_entry \<Rightarrow> string) \<Rightarrow> platform_state \<Rightarrow> platform_state" where
  "with_secret_values f s = s\<lparr>pl_secrets := btree_map_values (\<lambda>e. e\<lparr>se_value := f e\<rparr>) (pl_secrets s)\<rparr>"

lemma with_secret_values_fields [simp]:
  "pl_owners (with_secret_values f s) = pl_owners s" "pl_resources (with_secret_values f s) = pl_resources s"
  "pl_sessions (with_secret_values f s) = pl_sessions s" "pl_credentials (with_secret_values f s) = pl_credentials s"
  "pl_mtls (with_secret_values f s) = pl_mtls s" "pl_users (with_secret_values f s) = pl_users s"
  "pl_organization_members (with_secret_values f s) = pl_organization_members s"
  "pl_project_members (with_secret_values f s) = pl_project_members s"
  "pl_invitations (with_secret_values f s) = pl_invitations s" "pl_audits (with_secret_values f s) = pl_audits s"
  "pl_external_identities (with_secret_values f s) = pl_external_identities s"
  "pl_role_bindings (with_secret_values f s) = pl_role_bindings s"
  "pl_oidc_providers (with_secret_values f s) = pl_oidc_providers s"
  by (simp_all add: with_secret_values_def)

lemma with_secret_values_reads [simp]:
  "authenticated_actor_from_headers env hs (with_secret_values f s) = authenticated_actor_from_headers env hs s"
  "authorize_service_action env actor action resource (with_secret_values f s)
     = authorize_service_action env actor action resource s"
  "auth_session_from_headers env hs (with_secret_values f s) = auth_session_from_headers env hs s"
  "organization_invitation_by_raw_token env token (with_secret_values f s)
     = organization_invitation_by_raw_token env token s"
  unfolding authenticated_actor_from_headers_def authorize_service_action_def
    role_binding_authorization_allows_def role_binding_membership_allows_def auth_session_from_headers_def
    organization_invitation_by_raw_token_def with_secret_values_fields
  by (rule refl)+

lemma secret_records_read [simp]:
  "secret_refs_for_tenant (pl_secrets (with_secret_values f s)) t = secret_refs_for_tenant (pl_secrets s) t"
  "secret_ref_by_id i (with_secret_values f s) = secret_ref_by_id i s"
  by (simp_all add: secret_refs_for_tenant_def filter_map comp_def secret_ref_by_id_def find_secret_ref_def
    option.map_comp with_secret_values_def)

lemma read_gate_secrets:
  assumes "\<And>actor. load actor (with_secret_values f s) = load actor s"
  shows "read_gate env hs action load (with_secret_values f s) = read_gate env hs action load s"
  using assms by (simp add: read_gate_def)

lemma loads_without_secrets [simp]:
  "oidc_login_provider i (with_secret_values f s) = oidc_login_provider i s"
  "tenant_user u actor (with_secret_values f s) = tenant_user u actor s"
  "external_identity_for_actor actor u i (with_secret_values f s) = external_identity_for_actor actor u i s"
  "role_binding_by_id i (with_secret_values f s) = role_binding_by_id i s"
  "organization_member_for_actor actor g i (with_secret_values f s) = organization_member_for_actor actor g i s"
  "organization_invitation_for_actor actor g i (with_secret_values f s) = organization_invitation_for_actor actor g i s"
  "project_member_for_actor actor p i (with_secret_values f s) = project_member_for_actor actor p i s"
  "audit_events_for_query (with_secret_values f s) t q = audit_events_for_query s t q"
  "oidc_login_providers_for_tenant t (with_secret_values f s) = oidc_login_providers_for_tenant t s"
  by (simp_all add: oidc_login_provider_def tenant_user_def platform_user_by_id_def external_identity_for_actor_def
    role_binding_by_id_def organization_member_for_actor_def organization_invitation_for_actor_def
    project_member_for_actor_def audit_events_for_query_def oidc_login_providers_for_tenant_def)

lemma admin_answer_secrets: "admin_answer env hs io r (with_secret_values f s) = admin_answer env hs io r s"
  by (cases r; simp add: list_oidc_identity_providers_def get_oidc_identity_provider_def
    list_platform_users_def get_platform_user_def list_user_auth_sessions_def
    list_user_external_identities_def get_user_external_identity_def list_role_bindings_def
    get_role_binding_def list_organization_members_def get_organization_member_def
    list_organization_invitations_def list_platform_audit_events_def audit_event_page_def
    get_organization_invitation_def list_project_members_def get_project_member_def
    list_platform_secret_refs_def get_platform_secret_ref_def read_gate_secrets)


text \<open>The record of a secret of at most four characters, which every reader of it sees, holds all of it.\<close>

lemma short_secret_shown:
  assumes "length (trim v) \<le> 4" and "\<forall>c \<in> set (trim v). (of_char c :: int) < 0x80"
  shows "secret_display_mask v = ''***'' @ trim v"
proof -
  have "take_chars n w = w" if "length w \<le> n" "\<forall>c \<in> set w. (of_char c :: int) < 0x80" for n w
    using that by (induction n w rule: take_chars.induct) auto
  from this [of "rev (trim v)" 4] assms show ?thesis by (simp add: secret_display_mask_def)
qed

text \<open>
  A request with a slash after the path of a mutation is matched by the foundation handler, which
  answers that it is authorized and does nothing.
\<close>

lemma trailing_slash_answered:
  "\<not> isl (handle_foundation_request pdemo_env (pdemo_headers ''swp_sess_ada'') ''POST'' ''/admin/v1/role-bindings/'' pdemo)"
  by code_simp

end
