(* ===== verification/Spec2Isabelle.thy ===== *)
theory Spec2Isabelle
  imports
    Gateway_Routing_Properties
    Gateway_Policy_Properties
    Gateway_Authorization_Properties
    Gateway_Auth_Properties
    Gateway_Config_Properties
    Gateway_Outbox_Properties
    Gateway_Terminal_Properties
    Gateway_Admin_Properties
    Platform_Properties
    Platform_Login_Properties
    Platform_Reads_Properties
    Platform_Tenant_Properties
begin

text \<open>
  A verification library for the two services of the repository.

  The model gateway (\<open>src/crates/starweaver-gateway\<close>): a request is authenticated, authorized, routed to
  an upstream model target, checked against budgets and quotas, forwarded, and accounted for;
  administrators publish the configuration all of this reads. Its theories are named \<open>Gateway_\<close>.

  The platform control plane (\<open>src/crates/starweaver-platform\<close>): users log in with an OIDC provider or as
  the single user of an installation, and administrators manage users, organization and project
  members, role bindings, invitations, identity providers and secrets. Its theories are named
  \<open>Platform_\<close>. The services share no state and no code; the theories share \<open>Gateway_Prelude\<close> and
  \<open>Gateway_Json\<close>.

  \<^bold>\<open>The gateway's parts and theories\<close>, with file names relative to \<open>src/crates/starweaver-gateway/src\<close>.

  \<^item> \<open>Gateway_Prelude\<close>: results as sums, loops that stop at the first error, indexes with a duplicate
    check, 64-bit arithmetic, decimal printing and key joins, with the rewrite collections
    \<open>result_simps\<close> and \<open>i64_simps\<close>.
  \<^item> \<open>Gateway_Error\<close> (\<open>error.rs\<close>, \<open>lib.rs\<close>): error variants, codes, status, envelope; protocol families.
  \<^item> \<open>Gateway_Domain\<close> (\<open>domain.rs\<close>): statuses, actors and their constructors, memberships, key and
    session records, provider endpoints.
  \<^item> \<open>Gateway_Action_Table\<close> and \<open>Gateway_Authorization\<close> (\<open>action.rs\<close>): the action registry, built-in
    roles, grants, the preflight gates, the foundation engine, evidence, item lists. The interface
    \<open>authorization_engine\<close> is the contract of the trait \<open>AuthorizationEngine\<close>.
  \<^item> \<open>Gateway_Policy\<close> (\<open>policy.rs\<close>): schema generation, bundle validation and the Cedar engine, the
    second interpretation of \<open>authorization_engine\<close>.
  \<^item> \<open>Gateway_Auth\<close> (\<open>auth.rs\<close>, parts of \<open>storage.rs\<close> and \<open>service.rs\<close>): API keys, the throttle, sessions,
    actor resolution. The interface \<open>failure_log\<close> in \<open>Gateway_Auth_Properties\<close> is the throttle's.
  \<^item> \<open>Gateway_Config\<close> and \<open>Gateway_Config_Steps\<close> (\<open>config.rs\<close>, parts of \<open>storage.rs\<close> and \<open>service.rs\<close>):
    publication, rollback, worker reloads and the choice of the engine; runs of these operations as
    a step relation with its invariant.
  \<^item> \<open>Gateway_Hot_State\<close> (\<open>hot_state.rs\<close>, parts of \<open>storage.rs\<close>): endpoint health, drains and sticky
    routes. The interfaces \<open>route_hot_reader\<close> and \<open>route_hot_state\<close> are the trait \<open>RouteHotState\<close>; the
    null store and the in-memory store interpret them.
  \<^item> \<open>Gateway_Routing\<close> (\<open>routing.rs\<close>): filter reasons, summaries, decision and attempt records.
  \<^item> \<open>Gateway_Catalog\<close>, \<open>Gateway_Grants\<close> and \<open>Gateway_Route_Plan\<close> (\<open>catalog.rs\<close>): the routing catalog and its
    validation, provider grants, and the route planner.
  \<^item> \<open>Gateway_Runtime_Store\<close> (\<open>storage.rs\<close>): the runtime policy counters and budget leases. The interface
    \<open>policy_counters\<close> is interpreted by the quota counters and by the loss allowances.
  \<^item> \<open>Gateway_Budget\<close>, \<open>Gateway_Budget_Steps\<close>, \<open>Gateway_Quota\<close> and \<open>Gateway_Runtime_Policy\<close> (\<open>service.rs\<close>,
    from \<open>enforce_runtime_policy_preflight\<close> to \<open>run_runtime_policy_reconciler_once\<close>): budget and quota
    enforcement before a request, release after it, terminal token accounting, and the reconciler.
    \<open>budget_step\<close> and \<open>slot_step\<close> interleave requests at the granularity of one store operation.
  \<^item> \<open>Gateway_Json\<close>: JSON values as \<open>serde_json\<close> has them, strings as bytes with \<open>trim\<close> and case folding.
  \<^item> \<open>Gateway_Usage\<close>, \<open>Gateway_Ledger\<close> and \<open>Gateway_Pricing\<close> (\<open>service.rs\<close>, \<open>storage.rs\<close>): normalised usage, usage
    events, ledger buckets, price lists and costs. The interface \<open>bucket_measure\<close> is what a counter of
    a bucket has to satisfy to be the sum over the accepted events.
  \<^item> \<open>Gateway_Notification\<close>, \<open>Gateway_Delivery\<close> and \<open>Gateway_Outbox_Steps\<close> (\<open>storage.rs\<close>, \<open>service.rs\<close>): sinks,
    subscriptions, the outbox, webhook delivery, and runs of the outbox as a step relation.
  \<^item> \<open>Gateway_Terminal\<close> (\<open>service.rs\<close>, \<open>record_terminal_usage_event\<close>): what happens at the end of a model
    request: usage, cost, quotas, budgets, thresholds, release.
  \<^item> \<open>Gateway_Route_Table\<close> (\<open>route.rs\<close>): the table of routes with actions and constraints.
  \<^item> \<open>Gateway_Admin\<close>, \<open>Gateway_Emergency\<close>, \<open>Gateway_Admin_Handlers\<close> and \<open>Gateway_Admin_Steps\<close> (\<open>service.rs\<close>,
    \<open>storage.rs\<close>): the route gate, idempotent mutations, audit, emergency operations, publication and
    API key handlers, and runs of such calls. The interfaces \<open>gate_relation\<close> and \<open>admin_relation\<close> are
    what a relation between states has to satisfy for the common parts of the handlers to keep it.
  \<^item> \<open>Gateway_Runtime_Route\<close> (\<open>service.rs\<close>, \<open>runtime_route_target\<close>): the route of a request from the latest
    published catalog, with its evidence, sticky mapping and upstream credential.

  \<^bold>\<open>The control plane's parts and theories\<close>, with file names relative to
  \<open>src/crates/starweaver-platform/src\<close>.

  \<^item> \<open>Platform_Store\<close>: the ordered maps of the in-memory repositories and their invariant \<open>store_ok\<close>. The
    interface \<open>optimistic_store\<close> is optimistic concurrency by resource version; the five stores that
    have such updates interpret it.
  \<^item> \<open>Platform_Text\<close>: facts on trimming, prefixes and decimal numbers.
  \<^item> \<open>Platform_Action\<close> (\<open>action.rs\<close>): actions, built-in roles, grants, the in-process engine.
  \<^item> \<open>Platform_Membership\<close> (\<open>user.rs\<close>, \<open>membership.rs\<close>), \<open>Platform_Binding\<close> (\<open>role.rs\<close>, \<open>invitation.rs\<close>),
    \<open>Platform_Auth\<close> (\<open>auth.rs\<close>, \<open>audit.rs\<close>), \<open>Platform_Identity\<close> (\<open>identity.rs\<close>), \<open>Platform_Secret\<close> (\<open>secret.rs\<close>):
    the records of the repositories, their validation and every operation.
  \<^item> \<open>Platform_Service\<close> (\<open>service.rs\<close>, \<open>storage.rs\<close>, \<open>resource.rs\<close>): the state, errors and their responses,
    authentication of a request, CSRF tokens, authorization by role bindings, audit, and the
    conversations, runs and other resources the platform keeps records of.
  \<^item> \<open>Platform_Handlers\<close> and \<open>Platform_Login\<close> (\<open>service.rs\<close>): the handlers that change state.
  \<^item> \<open>Platform_Steps\<close>: the state invariant \<open>platform_ok\<close>, rules by which operations keep it, and runs of the
    handlers as the step relation \<open>platform_step\<close>.
  \<^item> \<open>Platform_Render\<close> and \<open>Platform_Reads\<close> (\<open>service.rs\<close> and the \<open>safe_json\<close> functions): the documents the
    service answers with, and the handlers that list and get records, with filters, order and pages.
  \<^item> \<open>Platform_Route\<close> (\<open>route.rs\<close>) and \<open>Platform_Http\<close> (\<open>service.rs\<close>): the route table, matching of paths, and
    the router that hands a request to the handler of its route.
  \<^item> \<open>Platform_Access\<close>: what authorization means, and what runs leave closed.
  \<^item> \<open>Platform_Demo\<close>: a concrete state on which the handlers are evaluated.

  \<^bold>\<open>How the code is modelled.\<close> A struct is a record whose fields carry a short prefix, an enum a
  datatype, \<open>Result<T>\<close> a sum with the error on the left, shared state a record that operations take
  and return. A \<open>String\<close> is the list of its bytes, an \<open>i64\<close> an integer with wrap-around or saturation
  written out, a time an integer number of nanoseconds. Hash maps are HOL maps where the code only
  looks keys up, and association lists in an unspecified order where it iterates. Every lock of
  the in-memory store is held for one operation, which is what the step relations interleave; a
  poisoned lock is read through, as in the code. An admin handler is a function of the admin state
  that returns a result and the state; \<open>abind\<close> is the operator \<open>?\<close>, which keeps what was written before
  the error. Where a record of the code has fields that no modelled operation reads, the record
  here leaves them out (\<open>quota_policy\<close>).

  \<^bold>\<open>Parameters.\<close> Code outside the repository is an argument: the URI parser of the endpoint check
  (\<open>uri_parser\<close>), the calendar fields of a time (\<open>calendar\<close>), Argon2 and SHA-256 (\<open>secret_hasher\<close>), JSON
  encoding with SHA-256 (\<open>snapshot_codec\<close>, \<open>admin_env\<close>), the Cedar library (\<open>cedar_api\<close>), webhook transport
  with HMAC and URL parsing (\<open>webhook_api\<close>), the secret backend (\<open>secret_value\<close>), deserialization of
  catalogs (\<open>decode\<close>), ids from \<open>new_prefixed_id\<close>, random bytes, and readings of the clock. Assumptions
  on them beyond fresh ids are named where a property needs them: that password verification
  accepts what password hashing produced, and that the calendar depends on the second of a time.

  \<^bold>\<open>Termination.\<close> Every loop of the modelled code is over a finite list, so every function is total;
  no fuel is used.

  \<^bold>\<open>What is shown.\<close> \<open>Gateway_Routing_Properties\<close>: validation accepts exactly the well-formed catalogs,
  a selected route is admissible and first in the documented order, plans and their summaries
  account for every candidate, sticky hits are backed by live mappings, and provider grants mean
  what their closure modes say. \<open>Gateway_Policy_Properties\<close>: under every interleaving budgets are not
  oversold, counters are exact and concurrency quotas hold; preflight and release cancel; crashed
  reservations are reclaimed; the reconciler repairs counters; and the paths on which reservations
  are kept. \<open>Gateway_Authorization_Properties\<close>: keys never widen their owner, roles grant exactly their
  actions, lists are filtered exactly, the Cedar schema is closed, and what the Cedar engine cannot
  see. \<open>Gateway_Auth_Properties\<close>: authentication is sound, guessing is bounded, disabling and
  revocation are immediate, created keys work. \<open>Gateway_Config_Properties\<close>: versions are gapless,
  rollback goes forward, polling converges, publication cannot lock a tenant out; and that a late
  invalidation takes a worker back and overlapping publications share a version.
  \<open>Gateway_Usage_Properties\<close>: the ledger refines the list of accepted events, budgets read exactly
  the accepted usage, costs are within rounding, prices are chosen by specificity.
  \<open>Gateway_Outbox_Properties\<close>: the outbox is deduplicated, closed events are final, attempts are
  bounded, and ten rounds drain it. \<open>Gateway_Terminal_Properties\<close>: thresholds are notified exactly on
  crossing, and that a repeated request id is not metered. \<open>Gateway_Admin_Properties\<close>: admin mutations
  are applied once, a freeze and a forced block hold until they expire, a disabled endpoint gets no
  traffic; and that disabling a credential or draining a group does not reach routing, a publication
  ends an emergency drain, and an idempotency key answers for the wrong API key.
  \<open>Platform_Properties\<close>: the state of the control plane stays well formed, authorization is exactly
  membership-backed roles, disabled users are locked out and removed members lose the organization,
  updates are carried out once, invitations are accepted once; and that credentials of a disabled
  user, a foreign project and foreign records are not protected. \<open>Platform_Login_Properties\<close>: an OIDC
  login is checked and used once, created secrets resolve; and that a login restores administration.
  \<open>Platform_Route_Properties\<close>: a URL made for a route is matched to that route with the same
  parameters; and that the routes of single sessions and events never find theirs.
  \<open>Platform_Http_Properties\<close>: a request that is answered passed the authorization its route entry
  states. \<open>Platform_Tenant_Properties\<close>: every record a read returns is of the tenant of the caller, and
  no answer depends on the values of secrets; and that the mask of a short secret is the secret. \<open>Platform_Reads_Properties\<close>:
  following the cursors of the audit log yields every matching event once, in order.

  \<^bold>\<open>What is not modelled.\<close> Of the gateway: header parsing and the rest of request plumbing, provider
  transport, deserialization of catalogs, administration of the other resources, exports, replay
  cases. Of the control plane: the bodies of responses to mutations, the middleware for request ids,
  body limits and timeouts, and process start. Of both: the
  PostgreSQL and Redis backends (SQL and Lua text; the in-memory stores have the same operations). A
  handler of the control plane is one step; interleavings between the locks it takes are not
  described. The release tooling \<open>src/xtask\<close> is left out.
\<close>

end
